(* ===== verification/N2kPrelude.thy ===== *)
theory N2kPrelude
  imports Main "HOL-Library.Word"
begin

text \<open>
  Shared ground of the development: names for the Go integer types, the state-and-error
  combinator the stream operations are written with, Go slice operations with their
  run-time panics, and the generic facts on words, bits and lists that the component
  theories use.
\<close>

unbundle bit_operations_syntax

section \<open>Go types\<close>

type_synonym u8 = "8 word"
type_synonym u16 = "16 word"
type_synonym u32 = "32 word"
type_synonym u64 = "64 word"
type_synonym bytes = "8 word list"

text \<open>
  A \<open>time.Time\<close> is its distance in nanoseconds from the epoch, a \<open>time.Duration\<close> a number of
  nanoseconds; readings of the clock are inputs of the operations that take one. An error value
  is its text.
\<close>

type_synonym gotime = int
type_synonym goduration = int
type_synonym goerror = string

text \<open>Go strings are byte sequences; indexing and length count bytes.\<close>

type_synonym gostring = "8 word list"

text \<open>
  The facts a component offers to its clients are collected here: \<open>n2k_simps\<close> for
  rewriting, \<open>n2k_inv\<close> for invariants.
\<close>

named_theorems n2k_simps \<open>rewriting facts on the operations of the model\<close>
named_theorems n2k_inv \<open>invariants and their preservation\<close>

section \<open>State with errors\<close>

text \<open>
  A Go method that mutates its receiver and may return an error is a function from the
  state to the pair of its outcome and the new state, or to \<open>None\<close> when it does not return.
  \<open>seqE\<close> is the pattern \<open>v, err := m(); if err != nil { return err }; k(v)\<close>; the state
  keeps what \<open>m\<close> did to it on the error path too.
\<close>

type_synonym ('s, 'a) step = "'s \<Rightarrow> ((goerror + 'a) \<times> 's) option"

definition seqE :: "('s, 'a) step \<Rightarrow> ('a \<Rightarrow> ('s, 'b) step) \<Rightarrow> ('s, 'b) step" where
  "seqE m k s = (case m s of
       None \<Rightarrow> None
     | Some (Inl e, s') \<Rightarrow> Some (Inl e, s')
     | Some (Inr v, s') \<Rightarrow> k v s')"

definition returnE :: "'a \<Rightarrow> ('s, 'a) step" where
  "returnE v s = Some (Inr v, s)"

definition failE :: "goerror \<Rightarrow> ('s, 'a) step" where
  "failE e s = Some (Inl e, s)"

lemma seqE_Inr: "m s = Some (Inr v, s') \<Longrightarrow> seqE m k s = k v s'"
  by (simp add: seqE_def)

lemma seqE_Inl: "m s = Some (Inl e, s') \<Longrightarrow> seqE m k s = Some (Inl e, s')"
  by (simp add: seqE_def)

lemma seqE_returnE [simp]: "seqE (returnE v) k = k v"
  by (simp add: seqE_def returnE_def fun_eq_iff)

lemma returnE_apply [simp]: "returnE v s = Some (Inr v, s)"
  by (simp add: returnE_def)

lemma failE_apply [simp]: "failE e s = Some (Inl e, s)"
  by (simp add: failE_def)

section \<open>Decimal text\<close>

text \<open>The \<open>%d\<close> verb of \<open>fmt\<close> on an unsigned number.\<close>

fun decimal :: "nat \<Rightarrow> string" where
  "decimal n =
     (if n < 10 then [char_of (48 + n)] else decimal (n div 10) @ [char_of (48 + n mod 10)])"

declare decimal.simps [simp del]

section \<open>Words and bits\<close>

lemma unat_lt_256: "unat (x :: u8) < 256"
  using unsigned_less[of x] by simp

lemma unat_lt_65536: "unat (x :: u16) < 65536"
  using unsigned_less[of x] by simp

lemma unat_ucast_up:
  "LENGTH('a) \<le> LENGTH('b) \<Longrightarrow> unat (ucast (x :: 'a::len word) :: 'b::len word) = unat x"
  by (simp add: unsigned_ucast_eq take_bit_nat_eq_self_iff less_le_trans[OF unsigned_less])

text \<open>A word is determined by its bits below its width.\<close>

lemma word_bits_eqI:
  fixes x y :: "'a::len word"
  assumes "\<And>n. n < LENGTH('a) \<Longrightarrow> bit x n = bit y n"
  shows "x = y"
  by (rule bit_word_eqI) (rule assms)

lemma mask_word_numeral:
  "(0xFF :: 'a::len word) = mask 8" "(0x1F :: 'a word) = mask 5"
  "(7 :: 'a word) = mask 3"
  by (simp_all add: mask_numeral)

text \<open>A word below \<open>2 ^ k\<close> has no bit from \<open>k\<close> on.\<close>

lemma small_word_bits:
  fixes w :: "'a::len word"
  assumes "w < 2 ^ k" and "k < LENGTH('a)" and "k \<le> n"
  shows "\<not> bit w n"
proof -
  have "unat w < 2 ^ k"
    using assms(1,2) unat_of_nat[of "2 ^ k", where 'a = 'a]
    by (simp add: word_less_nat_alt)
  then have "take_bit k w = w"
    by (metis take_bit_nat_eq_self unsigned_take_bit_eq unsigned_word_eqI)
  with assms(3) show ?thesis
    by (metis bit_take_bit_iff not_less)
qed

end
