(* ===== verification/Pgntable.thy ===== *)
theory Pgntable
  imports N2kPrelude
begin

text \<open>
  Which PGNs are fast packets (\<open>internal/pgn/fastbits_generated.go\<close>, the generated bit table)
  and which are proprietary (\<open>internal/pgn/pgn.go\<close>). The table is transcribed byte for byte,
  in chunks of 150 entries.
\<close>

section \<open>The fast-packet table\<close>

text \<open>Lines 7 to 156 of the table.\<close>

definition fastPgnBits_0 :: bytes where
  "fastPgnBits_0 =
     [
      1, 0, 0, 0, 0, 0, 0, 0, 0, 0, 0, 0, 0, 0, 0,
      0, 0, 0, 0, 0, 0, 0, 0, 0, 0, 0, 0, 0, 0, 0,
      0, 0, 1, 0, 0, 0, 0, 0, 0, 0, 0, 0, 0, 0, 0,
      0, 0, 0, 0, 0, 0, 0, 0, 0, 0, 0, 0, 0, 0, 0,
      0, 0, 0, 0, 1, 0, 0, 0, 0, 0, 0, 0, 0, 0, 0,
      0, 0, 0, 0, 0, 0, 0, 0, 0, 0, 0, 0, 0, 0, 0,
      0, 0, 0, 0, 0, 0, 128, 31, 80, 0, 0, 0, 0, 0, 0,
      0, 0, 0, 0, 0, 0, 0, 0, 0, 0, 0, 0, 0, 0, 0,
      0, 0, 0, 0, 0, 0, 0, 0, 34, 0, 0, 0, 0, 0, 0,
      0, 0, 0, 0, 0, 0, 0, 0, 0, 0, 0, 0, 0, 0, 0]"

text \<open>Lines 157 to 306 of the table.\<close>

definition fastPgnBits_1 :: bytes where
  "fastPgnBits_1 =
     [
      0, 0, 0, 0, 0, 0, 0, 0, 0, 0, 206, 135, 237, 7, 0,
      0, 0, 0, 0, 0, 0, 0, 0, 0, 0, 0, 0, 0, 0, 0,
      0, 0, 0, 0, 0, 0, 0, 0, 0, 0, 0, 0, 128, 0, 0,
      0, 0, 0, 0, 0, 0, 0, 0, 0, 0, 0, 0, 0, 0, 0,
      0, 0, 0, 0, 0, 0, 0, 0, 0, 0, 0, 0, 0, 0, 0,
      0, 0, 0, 0, 0, 0, 0, 0, 0, 0, 0, 0, 0, 0, 0,
      0, 0, 0, 0, 0, 0, 0, 0, 0, 0, 0, 0, 0, 0, 0,
      0, 0, 0, 8, 0, 0, 0, 0, 0, 0, 0, 0, 0, 0, 0,
      0, 0, 0, 0, 0, 0, 0, 0, 0, 0, 0, 0, 0, 0, 0,
      0, 0, 0, 0, 1, 0, 4, 0, 0, 0, 0, 0, 0, 0, 0]"

text \<open>Lines 307 to 456 of the table.\<close>

definition fastPgnBits_2 :: bytes where
  "fastPgnBits_2 =
     [
      0, 0, 0, 0, 0, 0, 0, 0, 0, 0, 0, 0, 0, 0, 0,
      0, 0, 0, 0, 0, 0, 0, 0, 0, 0, 0, 0, 0, 0, 0,
      0, 0, 0, 0, 0, 0, 0, 0, 0, 0, 0, 0, 0, 0, 0,
      0, 0, 0, 0, 0, 0, 0, 32, 192, 51, 0, 0, 0, 0, 0,
      0, 0, 0, 0, 0, 0, 0, 0, 0, 0, 0, 0, 0, 0, 0,
      0, 0, 0, 0, 0, 0, 0, 0, 0, 48, 0, 96, 0, 0, 0,
      0, 0, 0, 0, 0, 0, 0, 0, 0, 0, 0, 0, 0, 0, 0,
      0, 0, 0, 0, 0, 0, 0, 0, 0, 0, 0, 116, 170, 16, 0,
      0, 0, 0, 0, 0, 0, 0, 0, 0, 0, 0, 0, 0, 0, 0,
      0, 0, 0, 0, 0, 0, 0, 0, 0, 0, 0, 0, 0, 255, 255]"

text \<open>Lines 457 to 606 of the table.\<close>

definition fastPgnBits_3 :: bytes where
  "fastPgnBits_3 =
     [
      255, 1, 0, 0, 0, 0, 0, 0, 0, 0, 0, 0, 0, 0, 0,
      0, 0, 0, 0, 0, 0, 0, 0, 0, 0, 0, 0, 0, 0, 0,
      112, 48, 255, 7, 0, 0, 0, 0, 0, 0, 0, 0, 0, 0, 0,
      0, 0, 0, 0, 0, 0, 0, 0, 0, 0, 0, 0, 0, 0, 0,
      0, 0, 0, 0, 31, 6, 0, 0, 0, 0, 0, 0, 0, 0, 0,
      0, 0, 0, 0, 0, 0, 0, 0, 0, 0, 0, 0, 0, 0, 0,
      0, 0, 0, 0, 254, 255, 182, 5, 0, 0, 0, 0, 0, 0, 0,
      0, 0, 0, 0, 0, 0, 0, 0, 0, 0, 0, 0, 0, 0, 0,
      0, 0, 0, 0, 0, 0, 255, 255, 255, 255, 31, 17, 0, 0, 3,
      0, 16, 192, 67, 2, 0, 8, 143, 0, 0, 0, 0, 0, 0, 0]"

text \<open>Lines 607 to 614 of the table.\<close>

definition fastPgnBits_4 :: bytes where
  "fastPgnBits_4 =
     [
      25, 0, 0, 0, 0, 0, 0, 0]"

definition fastPgnBits :: bytes where
  "fastPgnBits = fastPgnBits_0 @ fastPgnBits_1 @ fastPgnBits_2 @ fastPgnBits_3 @ fastPgnBits_4"

definition IsFast :: "u32 \<Rightarrow> bool" where
  "IsFast pgn =
     (if pgn < 126208 then False
      else let bitIndex = pgn - 126208;
               byteIndex = bitIndex div 8;
               bitOffset = bitIndex mod 8
           in if unat byteIndex \<ge> length fastPgnBits then False
              else (fastPgnBits ! unat byteIndex) AND push_bit (unat bitOffset) 1 \<noteq> 0)"

section \<open>Proprietary PGNs\<close>

definition IsProprietaryPGN :: "u32 \<Rightarrow> bool" where
  "IsProprietaryPGN pgn =
     (if pgn \<ge> 0x0EF00 \<and> pgn \<le> 0x0EFFF then True
      else if pgn \<ge> 0x0FF00 \<and> pgn \<le> 0x0FFFF then True
      else if pgn \<ge> 0x1EF00 \<and> pgn \<le> 0x1EFFF then True
      else if pgn \<ge> 0x1FF00 \<and> pgn \<le> 0x1FFFF then True
      else False)"

lemma length_fastPgnBits: "length fastPgnBits = 608"
  by code_simp

lemma IsFast_below [simp]: "pgn < 126208 \<Longrightarrow> \<not> IsFast pgn"
  by (simp add: IsFast_def)

lemma IsFast_examples: "IsFast 129029" "IsFast 126996" "\<not> IsFast 127250" "\<not> IsFast 59904"
  by code_simp+

end
