(* ===== verification/Packets.thy ===== *)
theory Packets
  imports Pgntable
begin

text \<open>
  The intermediate form of a message (\<open>internal/pkt/pkt.go\<close>): a packet holds the message
  information, the bytes received so far, and the errors found on the way. Packets are passed
  by pointer in the code; the model returns the changed packet.
\<close>

record MessageInfo =
  Timestamp :: gotime
  Priority :: u8
  PGN :: u32
  SourceId :: u8
  TargetId :: u8

record Packet =
  Info :: MessageInfo
  Data :: bytes
  SeqId :: u8
  FrameNum :: u8
  Proprietary :: bool
  Complete :: bool
  ParseErrors :: "goerror list"

text \<open>\<open>Valid\<close> appends what it finds to the packet's errors and reports whether it found nothing.\<close>

definition Valid :: "Packet \<Rightarrow> bool \<times> Packet" where
  "Valid p =
     (let (result, p) =
            (if PGN (Info p) = 0
             then (False, p\<lparr>ParseErrors := ParseErrors p @ [''PGN = 0'']\<rparr>) else (True, p))
      in if length (Data p) = 0
         then (False, p\<lparr>ParseErrors := ParseErrors p @ [''packet data is empty'']\<rparr>)
         else (result, p))"

definition NewPacket :: "MessageInfo \<Rightarrow> bytes \<Rightarrow> Packet" where
  "NewPacket info data =
     (let p = \<lparr>Info = info, Data = data, SeqId = 0, FrameNum = 0, Proprietary = False,
               Complete = False, ParseErrors = []\<rparr>;
          (valid, p) = Valid p
      in if valid then p\<lparr>Proprietary := IsProprietaryPGN (PGN (Info p))\<rparr> else p)"

text \<open>
  \<open>GetSeqFrame\<close> reads the first byte and panics on an empty packet: \<open>None\<close>.
\<close>

definition GetSeqFrame :: "Packet \<Rightarrow> Packet option" where
  "GetSeqFrame p =
     (case Data p of
        [] \<Rightarrow> None
      | b # _ \<Rightarrow> Some (p\<lparr>SeqId := drop_bit 5 (b AND 0xE0), FrameNum := b AND 0x1F\<rparr>))"

lemma NewPacket_simps [simp]:
  "Info (NewPacket info d) = info" "Data (NewPacket info d) = d"
  "SeqId (NewPacket info d) = 0" "FrameNum (NewPacket info d) = 0"
  "\<not> Complete (NewPacket info d)"
  by (simp_all add: NewPacket_def Valid_def Let_def split: prod.splits)

lemma NewPacket_errors:
  "ParseErrors (NewPacket info d) = [] \<longleftrightarrow> PGN info \<noteq> 0 \<and> d \<noteq> []"
  by (auto simp: NewPacket_def Valid_def Let_def split: prod.splits)

end
