(* ===== verification/Slots.thy ===== *)
theory Slots
  imports N2kPrelude
begin

text \<open>
  The interface of the keyed stores of the library (nested Go maps read and written under a
  composite key) and of the machines that run over them: every input touches the slot of its
  own key and nothing else. The client facts, that inputs with another key do not interfere
  and that a slot invariant is kept, are proved once here; the components interpret the
  locales on their own maps.
\<close>

section \<open>Keyed stores\<close>

locale slot_store =
  fixes look :: "'m \<Rightarrow> 'k \<Rightarrow> 'v option"
    and put :: "'m \<Rightarrow> 'k \<Rightarrow> 'v option \<Rightarrow> 'm"
  assumes look_put: "look (put m k v) k' = (if k' = k then v else look m k')"
begin

lemma look_put_same: "look (put m k v) k = v"
  by (simp add: look_put)

lemma look_put_other: "k' \<noteq> k \<Longrightarrow> look (put m k v) k' = look m k'"
  by (simp add: look_put)

end

section \<open>Machines over a keyed store\<close>

text \<open>
  \<open>run\<close> feeds the inputs one after the other; \<open>step\<close> is what happens to the slot of the
  input's key, with \<open>None\<close> for a run-time panic.
\<close>

locale slot_machine = slot_store look put
  for look :: "'m \<Rightarrow> 'k \<Rightarrow> 'v option"
    and put :: "'m \<Rightarrow> 'k \<Rightarrow> 'v option \<Rightarrow> 'm" +
  fixes key :: "'p \<Rightarrow> 'k"
    and step :: "'v option \<Rightarrow> 'p \<Rightarrow> ('v option \<times> 'q) option"
    and run :: "'m \<Rightarrow> 'p list \<Rightarrow> ('m \<times> 'q list) option"
  assumes run_Nil: "run m [] = Some (m, [])"
    and run_Cons: "run m (p # ps) =
      (case step (look m (key p)) p of None \<Rightarrow> None
       | Some (v, q) \<Rightarrow>
           (case run (put m (key p) v) ps of None \<Rightarrow> None
            | Some (m', qs) \<Rightarrow> Some (m', q # qs)))"
begin

lemma run_ConsE:
  assumes "run m (p # ps) = Some (m', qs)"
  obtains v q qs' where "step (look m (key p)) p = Some (v, q)"
    and "run (put m (key p) v) ps = Some (m', qs')" and "qs = q # qs'"
  using assms by (auto simp: run_Cons split: option.splits prod.splits)

lemma run_length: "run m ps = Some (m', qs) \<Longrightarrow> length qs = length ps"
proof (induction ps arbitrary: m qs)
  case Nil
  then show ?case by (simp add: run_Nil)
next
  case (Cons p ps)
  then show ?case by (auto elim!: run_ConsE)
qed

lemma run_other_key:
  assumes "run m ps = Some (m', qs)" and "\<forall>p \<in> set ps. key p \<noteq> k"
  shows "look m' k = look m k"
  using assms
proof (induction ps arbitrary: m qs)
  case Nil
  then show ?case by (simp add: run_Nil)
next
  case (Cons p ps)
  from Cons.prems(1) obtain v q qs' where "run (put m (key p) v) ps = Some (m', qs')"
    by (rule run_ConsE)
  with Cons.IH Cons.prems(2) have "look m' k = look (put m (key p) v) k" by simp
  with Cons.prems(2) show ?case by (auto simp: look_put)
qed

text \<open>
  Non-interference: what the inputs of one key give, and what they leave in their slot, is
  what they give alone, whatever runs in between.
\<close>

lemma run_filter:
  assumes "run m ps = Some (m', qs)" and "look m0 k = look m k"
  shows "\<exists>m''. run m0 (filter (\<lambda>p. key p = k) ps)
      = Some (m'', map snd (filter (\<lambda>pq. key (fst pq) = k) (zip ps qs)))
    \<and> look m'' k = look m' k"
  using assms
proof (induction ps arbitrary: m m0 qs)
  case Nil
  then show ?case by (simp add: run_Nil)
next
  case (Cons p ps)
  from Cons.prems(1) obtain v q qs' where st: "step (look m (key p)) p = Some (v, q)"
    and rn: "run (put m (key p) v) ps = Some (m', qs')" and qs: "qs = q # qs'"
    by (rule run_ConsE)
  show ?case
  proof (cases "key p = k")
    case True
    then have "look (put m0 (key p) v) k = look (put m (key p) v) k"
      by (simp add: look_put)
    from Cons.IH[OF rn this] obtain m'' where
      "run (put m0 (key p) v) (filter (\<lambda>p. key p = k) ps)
         = Some (m'', map snd (filter (\<lambda>pq. key (fst pq) = k) (zip ps qs')))"
      "look m'' k = look m' k" by blast
    with True st Cons.prems(2) show ?thesis by (simp add: qs run_Cons)
  next
    case False
    then have "look m0 k = look (put m (key p) v) k"
      using Cons.prems(2) by (simp add: look_put)
    from Cons.IH[OF rn this] False show ?thesis by (simp add: qs)
  qed
qed

lemma run_append:
  "run m (ps @ ps') =
     (case run m ps of None \<Rightarrow> None
      | Some (m', qs) \<Rightarrow>
          (case run m' ps' of None \<Rightarrow> None | Some (m'', qs') \<Rightarrow> Some (m'', qs @ qs')))"
proof (induction ps arbitrary: m)
  case Nil
  then show ?case by (simp add: run_Nil split: option.splits)
next
  case (Cons p ps)
  then show ?case by (simp add: run_Cons split: option.splits prod.splits)
qed

end

text \<open>
  A slot invariant that every step keeps holds in every slot after every run. It may assume
  something of the inputs.
\<close>

locale slot_invariant = slot_machine look put key step run
  for look :: "'m \<Rightarrow> 'k \<Rightarrow> 'v option"
    and put :: "'m \<Rightarrow> 'k \<Rightarrow> 'v option \<Rightarrow> 'm"
    and key :: "'p \<Rightarrow> 'k"
    and step :: "'v option \<Rightarrow> 'p \<Rightarrow> ('v option \<times> 'q) option"
    and run :: "'m \<Rightarrow> 'p list \<Rightarrow> ('m \<times> 'q list) option" +
  fixes good :: "'p \<Rightarrow> bool"
    and inv :: "'v \<Rightarrow> bool"
  assumes step_total: "good p \<Longrightarrow> (\<And>v. s = Some v \<Longrightarrow> inv v) \<Longrightarrow> \<exists>v q. step s p = Some (v, q)"
    and step_inv: "good p \<Longrightarrow> (\<And>v. s = Some v \<Longrightarrow> inv v) \<Longrightarrow> step s p = Some (Some v', q) \<Longrightarrow> inv v'"
begin

definition all_inv :: "'m \<Rightarrow> bool" where
  "all_inv m \<longleftrightarrow> (\<forall>k v. look m k = Some v \<longrightarrow> inv v)"

lemma all_inv_put:
  assumes "all_inv m" and "good p" and "step (look m (key p)) p = Some (v, q)"
  shows "all_inv (put m (key p) v)"
proof -
  have "inv w" if "v = Some w" for w
    using assms that step_inv[of p "look m (key p)" w q] by (auto simp: all_inv_def)
  with assms(1) show ?thesis
    by (auto simp: all_inv_def look_put split: if_splits)
qed

lemma run_total:
  assumes "all_inv m" and "\<forall>p \<in> set ps. good p"
  shows "\<exists>m' qs. run m ps = Some (m', qs) \<and> all_inv m'"
  using assms
proof (induction ps arbitrary: m)
  case Nil
  then show ?case by (simp add: run_Nil)
next
  case (Cons p ps)
  obtain v q where st: "step (look m (key p)) p = Some (v, q)"
    using step_total[of p "look m (key p)"] Cons.prems by (auto simp: all_inv_def)
  then have "all_inv (put m (key p) v)"
    using Cons.prems by (intro all_inv_put) auto
  with Cons.IH Cons.prems obtain m' qs where
    "run (put m (key p) v) ps = Some (m', qs)" "all_inv m'" by fastforce
  with st show ?case by (simp add: run_Cons)
qed

end

end
