(* ===== verification/Fastpacket.thy ===== *)
theory Fastpacket
  imports Packets Slots
begin

text \<open>
  Reassembly of fast packets (\<open>internal/adapter/canadapter/sequence.go\<close> and
  \<open>multibuilder.go\<close>). A message of up to 223 bytes travels in up to 32 frames of 8 bytes:
  frame 0 carries the sequence byte, the total length and 6 bytes of data, every other frame
  the sequence byte and 7 bytes. A \<open>sequence\<close> collects the frames of one message, a
  \<open>MultiBuilder\<close> keeps one sequence for each source, PGN and sequence number.

  An operation that would make the Go code panic on an index gives \<open>None\<close>. The code keeps a
  pointer to packet 0 and only tests it for nil; the model keeps the packet as it was when it
  arrived. Log output is left out.
\<close>

section \<open>One sequence\<close>

definition MaxFrameNum :: nat where
  "MaxFrameNum = 31"

record sequence =
  zero :: "Packet option"
  expected :: u8
  received :: u8
  contents :: "bytes option list"

definition new_sequence :: sequence where
  "new_sequence = \<lparr>zero = None, expected = 0, received = 0,
     contents = replicate (MaxFrameNum + 1) None\<rparr>"

definition seq_reset :: "sequence \<Rightarrow> sequence" where
  "seq_reset s = s\<lparr>zero := None, expected := 0, received := 0,
     contents := map (\<lambda>_. None) (contents s)\<rparr>"

definition seq_add :: "sequence \<Rightarrow> Packet \<Rightarrow> sequence option" where
  "seq_add s p =
     (if FrameNum p = 0
      then let s = (if zero s \<noteq> None then seq_reset s else s)
           in (case Data p of
                 _ # len # rest \<Rightarrow>
                   Some (s\<lparr>zero := Some p, expected := len,
                     contents := (contents s)[unat (FrameNum p) := Some rest],
                     received := received s + 6\<rparr>)
               | _ \<Rightarrow> None)
      else if zero s = None then Some (seq_reset s)
      else if unat (FrameNum p) \<ge> length (contents s) then None
      else if contents s ! unat (FrameNum p) \<noteq> None then Some (seq_reset s)
      else (case Data p of
              _ # rest \<Rightarrow>
                Some (s\<lparr>contents := (contents s)[unat (FrameNum p) := Some rest],
                  received := received s + 7\<rparr>)
            | [] \<Rightarrow> None))"

text \<open>
  The loop of \<open>complete\<close> over the frames: \<open>None\<close> at the first missing frame, otherwise the
  bytes up to the first frame at which there are enough.
\<close>

fun collect :: "nat \<Rightarrow> bytes option list \<Rightarrow> bytes \<Rightarrow> bytes option" where
  "collect e [] results = Some results"
| "collect e (None # ds) results = None"
| "collect e (Some d # ds) results =
     (if length (results @ d) \<ge> e then Some (results @ d) else collect e ds (results @ d))"

text \<open>
  \<open>complete\<close> reports whether the sequence is finished and changes the packet. Cutting the
  result to the expected length panics, or reads spare capacity, when there are fewer bytes
  than expected: \<open>None\<close>. Frames of 8 bytes never get there.
\<close>

definition seq_complete :: "sequence \<Rightarrow> Packet \<Rightarrow> (bool \<times> Packet) option" where
  "seq_complete s p =
     (if zero s \<noteq> None \<and> received s \<ge> expected s
      then (case collect (unat (expected s)) (contents s) [] of
              None \<Rightarrow> Some (True, p\<lparr>ParseErrors := ParseErrors p @ [''sparse Data in multi'']\<rparr>)
            | Some results \<Rightarrow>
                if length results < unat (expected s) then None
                else Some (True, p\<lparr>Data := take (unat (expected s)) results, Complete := True\<rparr>))
      else Some (False, p\<lparr>Complete := False\<rparr>))"

section \<open>The builder\<close>

record MultiBuilder =
  sequences :: "u8 \<rightharpoonup> (u32 \<rightharpoonup> (u8 \<rightharpoonup> sequence))"

definition NewMultiBuilder :: MultiBuilder where
  "NewMultiBuilder = \<lparr>sequences = Map.empty\<rparr>"

text \<open>A Go map read through the levels: an absent level reads as an empty map.\<close>

definition inner :: "('a \<rightharpoonup> 'b \<rightharpoonup> 'c) \<Rightarrow> 'a \<Rightarrow> ('b \<rightharpoonup> 'c)" where
  "inner m a = (case m a of None \<Rightarrow> Map.empty | Some m' \<Rightarrow> m')"

definition seq_lookup :: "MultiBuilder \<Rightarrow> u8 \<Rightarrow> u32 \<Rightarrow> u8 \<Rightarrow> sequence option" where
  "seq_lookup m src pgn sid = inner (inner (sequences m) src) pgn sid"

definition seq_store :: "MultiBuilder \<Rightarrow> u8 \<Rightarrow> u32 \<Rightarrow> u8 \<Rightarrow> sequence option \<Rightarrow> MultiBuilder" where
  "seq_store m src pgn sid v =
     m\<lparr>sequences := (sequences m)(src \<mapsto>
        (inner (sequences m) src)(pgn \<mapsto> (inner (inner (sequences m) src) pgn)(sid := v)))\<rparr>"

text \<open>
  \<open>SeqFor\<close> creates the missing levels and a new sequence when there is none. It returns a
  pointer into the map: \<open>Add\<close> stores what it did to the sequence back under the same key.
\<close>

definition SeqFor :: "MultiBuilder \<Rightarrow> Packet \<Rightarrow> sequence \<times> MultiBuilder" where
  "SeqFor m p =
     (case seq_lookup m (SourceId (Info p)) (PGN (Info p)) (SeqId p) of
        Some s \<Rightarrow> (s, m)
      | None \<Rightarrow> (new_sequence,
          seq_store m (SourceId (Info p)) (PGN (Info p)) (SeqId p) (Some new_sequence)))"

definition Add :: "MultiBuilder \<Rightarrow> Packet \<Rightarrow> (MultiBuilder \<times> Packet) option" where
  "Add m p =
     (case GetSeqFrame p of None \<Rightarrow> None
      | Some p \<Rightarrow>
          (let (s, m) = SeqFor m p;
               src = SourceId (Info p); pgn = PGN (Info p); sid = SeqId p
           in case seq_add s p of None \<Rightarrow> None
              | Some s \<Rightarrow>
                  (case seq_complete s p of None \<Rightarrow> None
                   | Some (done, p) \<Rightarrow>
                       Some (seq_store m src pgn sid (if done then None else Some s), p))))"

text \<open>A run of the builder over the packets as they arrive.\<close>

fun run_builder :: "MultiBuilder \<Rightarrow> Packet list \<Rightarrow> (MultiBuilder \<times> Packet list) option" where
  "run_builder m [] = Some (m, [])"
| "run_builder m (p # ps) =
     (case Add m p of None \<Rightarrow> None
      | Some (m, q) \<Rightarrow>
          (case run_builder m ps of None \<Rightarrow> None
           | Some (m, qs) \<Rightarrow> Some (m, q # qs)))"

section \<open>The builder as a machine over its slots\<close>

definition packet_key :: "Packet \<Rightarrow> u8 \<times> u32 \<times> u8" where
  "packet_key p = (SourceId (Info p), PGN (Info p), drop_bit 5 (hd (Data p) AND 0xE0))"

definition slot_of :: "MultiBuilder \<Rightarrow> u8 \<times> u32 \<times> u8 \<Rightarrow> sequence option" where
  "slot_of m k = (case k of (src, pgn, sid) \<Rightarrow> seq_lookup m src pgn sid)"

definition set_slot :: "MultiBuilder \<Rightarrow> u8 \<times> u32 \<times> u8 \<Rightarrow> sequence option \<Rightarrow> MultiBuilder" where
  "set_slot m k v = (case k of (src, pgn, sid) \<Rightarrow> seq_store m src pgn sid v)"

definition slot_step :: "sequence option \<Rightarrow> Packet \<Rightarrow> (sequence option \<times> Packet) option" where
  "slot_step v p =
     (case GetSeqFrame p of None \<Rightarrow> None
      | Some p \<Rightarrow>
          (case seq_add (case v of None \<Rightarrow> new_sequence | Some s \<Rightarrow> s) p of None \<Rightarrow> None
           | Some s \<Rightarrow>
               (case seq_complete s p of None \<Rightarrow> None
                | Some (done, p) \<Rightarrow> Some (if done then None else Some s, p))))"

lemma slot_of_set_slot: "slot_of (set_slot m k v) k' = (if k' = k then v else slot_of m k')"
  by (auto simp: slot_of_def set_slot_def seq_lookup_def seq_store_def inner_def
      split: prod.splits)

lemma set_slot_set_slot [simp]: "set_slot (set_slot m k v) k w = set_slot m k w"
  by (auto simp: set_slot_def seq_store_def inner_def split: prod.splits)

lemma GetSeqFrame_key:
  "GetSeqFrame p = Some q \<Longrightarrow> packet_key p = (SourceId (Info q), PGN (Info q), SeqId q)"
  by (auto simp: GetSeqFrame_def packet_key_def split: list.splits)

lemma SeqFor_slot:
  "SeqFor m p = (let k = (SourceId (Info p), PGN (Info p), SeqId p)
     in case slot_of m k of Some s \<Rightarrow> (s, m) | None \<Rightarrow> (new_sequence, set_slot m k (Some new_sequence)))"
  by (simp add: SeqFor_def slot_of_def set_slot_def Let_def split: option.splits)

lemma Add_slot:
  "Add m p = (case slot_step (slot_of m (packet_key p)) p of None \<Rightarrow> None
     | Some (v, q) \<Rightarrow> Some (set_slot m (packet_key p) v, q))"
proof (cases "GetSeqFrame p")
  case None
  then show ?thesis by (simp add: Add_def slot_step_def)
next
  case (Some q)
  let ?k = "(SourceId (Info q), PGN (Info q), SeqId q)"
  have k: "packet_key p = ?k" using GetSeqFrame_key[OF Some] .
  have st: "seq_store m' (SourceId (Info q)) (PGN (Info q)) (SeqId q) v = set_slot m' ?k v" for m' v
    by (simp add: set_slot_def)
  show ?thesis
    by (cases "slot_of m ?k")
      (simp_all add: Add_def slot_step_def Some k SeqFor_slot Let_def st split: option.splits)
qed

interpretation mb: slot_store slot_of set_slot
  by unfold_locales (rule slot_of_set_slot)

interpretation mb: slot_machine slot_of set_slot packet_key slot_step run_builder
  by unfold_locales (auto simp: Add_slot split: option.splits prod.splits)

section \<open>What a sequence holds\<close>

definition frame_bytes :: "bytes option \<Rightarrow> nat" where
  "frame_bytes d = (case d of None \<Rightarrow> 0 | Some b \<Rightarrow> length b)"

definition held :: "bytes option list \<Rightarrow> nat" where
  "held ds = sum_list (map frame_bytes ds)"

lemma frame_bytes_simps [simp]: "frame_bytes None = 0" "frame_bytes (Some b) = length b"
  by (simp_all add: frame_bytes_def)

lemma held_update: "i < length ds \<Longrightarrow> ds ! i = None \<Longrightarrow> held (ds[i := Some b]) = held ds + length b"
  by (induction ds arbitrary: i) (auto simp: held_def split: nat.splits)

lemma collect_enough:
  "collect e ds acc = Some r \<Longrightarrow> e \<le> length r \<or> length r = length acc + held ds"
  by (induction e ds acc rule: collect.induct) (auto simp: held_def split: if_splits)

text \<open>
  The invariant of a sequence between two packets of 8 bytes: without frame 0 it is empty;
  with it, every slot holds a full frame and \<open>received\<close> counts the bytes held.
\<close>

definition seq_inv :: "sequence \<Rightarrow> bool" where
  "seq_inv s \<longleftrightarrow> length (contents s) = MaxFrameNum + 1
     \<and> (zero s = None \<longrightarrow> received s = 0 \<and> expected s = 0
          \<and> contents s = replicate (MaxFrameNum + 1) None)
     \<and> (zero s \<noteq> None \<longrightarrow> (\<exists>d. contents s ! 0 = Some d \<and> length d = 6)
          \<and> (\<forall>i d. 0 < i \<longrightarrow> i \<le> MaxFrameNum \<longrightarrow> contents s ! i = Some d \<longrightarrow> length d = 7)
          \<and> unat (received s) = held (contents s))"

lemma seq_inv_new: "seq_inv new_sequence"
  by (simp add: seq_inv_def new_sequence_def)

lemma seq_reset_new: "length (contents s) = MaxFrameNum + 1 \<Longrightarrow> seq_reset s = new_sequence"
  by (cases s) (simp add: seq_reset_def new_sequence_def map_replicate_const)

lemma held_bound:
  assumes "length ds = MaxFrameNum + 1" and "frame_bytes (ds ! 0) \<le> 6"
    and "\<forall>i d. 0 < i \<longrightarrow> i \<le> MaxFrameNum \<longrightarrow> ds ! i = Some d \<longrightarrow> length d = 7"
  shows "held ds \<le> 223"
proof -
  obtain d0 rest where ds: "ds = d0 # rest" and len: "length rest = 31"
    using assms(1) by (cases ds) (auto simp: MaxFrameNum_def)
  have "frame_bytes d \<le> 7" if "d \<in> set rest" for d
  proof -
    from that obtain j where "j < 31" "rest ! j = d" by (auto simp: in_set_conv_nth len)
    then show ?thesis
      using assms(3)[rule_format, of "Suc j"] by (cases d) (auto simp: ds MaxFrameNum_def)
  qed
  then have "sum_list (map frame_bytes rest) \<le> sum_list (map (\<lambda>_. 7) rest)"
    by (intro sum_list_mono)
  then have "sum_list (map frame_bytes rest) \<le> 31 * 7"
    by (simp add: sum_list_triv len)
  with assms(2) show ?thesis by (simp add: held_def ds)
qed

lemma seq_inv_held: "seq_inv s \<Longrightarrow> unat (received s) = held (contents s)"
  by (cases "zero s") (auto simp: seq_inv_def held_def)

lemma seq_inv_held_bound: "seq_inv s \<Longrightarrow> held (contents s) \<le> 223"
  by (cases "zero s = None")
     (auto simp: seq_inv_def held_def[of "replicate _ _"] held_def[of "_ # _"] sum_list_replicate
       intro!: held_bound)

lemma unat_add_small:
  fixes x y :: u8
  shows "unat x + unat y < 256 \<Longrightarrow> unat (x + y) = unat x + unat y"
  by (simp add: unat_word_ariths)

lemma seq_add_first:
  assumes "length (contents s) = MaxFrameNum + 1" and "zero s = None \<longrightarrow> s = new_sequence"
    and "Data p = b # len # rest" and "FrameNum p = 0"
  shows "seq_add s p = Some \<lparr>zero = Some p, expected = len, received = 6,
     contents = Some rest # replicate MaxFrameNum None\<rparr>"
  using assms seq_reset_new[of s]
  by (auto simp: seq_add_def Let_def new_sequence_def replicate_app_Cons_same)

lemma seq_inv_new_iff: "seq_inv s \<Longrightarrow> zero s = None \<longrightarrow> s = new_sequence"
  by (cases s) (auto simp: seq_inv_def new_sequence_def)

lemma seq_inv_first:
  "length rest = 6 \<Longrightarrow> seq_inv \<lparr>zero = Some p, expected = len, received = 6,
     contents = Some rest # replicate MaxFrameNum None\<rparr>"
  by (auto simp: seq_inv_def held_def nth_Cons' sum_list_replicate)

lemma seq_inv_next:
  assumes inv: "seq_inv s" and z: "zero s \<noteq> None"
    and i: "0 < i" "i \<le> MaxFrameNum" "contents s ! i = None" and r: "length r = 7"
  shows "seq_inv (s\<lparr>contents := (contents s)[i := Some r], received := received s + 7\<rparr>)"
proof -
  let ?ds = "(contents s)[i := Some r]"
  have len: "length (contents s) = MaxFrameNum + 1" using inv by (simp add: seq_inv_def)
  have h: "held ?ds = held (contents s) + 7"
    using held_update[of i "contents s" r] i len r by simp
  have full: "\<forall>j d. 0 < j \<longrightarrow> j \<le> MaxFrameNum \<longrightarrow> ?ds ! j = Some d \<longrightarrow> length d = 7"
    using inv z r len i by (auto simp: seq_inv_def nth_list_update)
  have z0: "\<exists>d. ?ds ! 0 = Some d \<and> length d = 6"
    using inv z i by (auto simp: seq_inv_def)
  have "held ?ds \<le> 223"
    using full z0 len by (intro held_bound) auto
  then have "unat (received s + 7) = held ?ds"
    using h seq_inv_held[OF inv] by (subst unat_add_small) auto
  with len full z0 z show ?thesis by (auto simp: seq_inv_def)
qed

lemma seq_add_inv:
  assumes inv: "seq_inv s" and d: "length (Data p) = 8" and f: "unat (FrameNum p) \<le> MaxFrameNum"
  shows "\<exists>s'. seq_add s p = Some s' \<and> seq_inv s'"
proof -
  obtain b len rest where p: "Data p = b # len # rest" and rest: "length rest = 6"
    using d by (auto simp: length_Suc_conv eval_nat_numeral)
  have len: "length (contents s) = MaxFrameNum + 1" using inv by (simp add: seq_inv_def)
  have reset: "seq_inv (seq_reset s)" by (simp add: seq_reset_new[OF len] seq_inv_new)
  show ?thesis
  proof (cases "FrameNum p = 0")
    case True
    with seq_add_first[OF len seq_inv_new_iff[OF inv] p] seq_inv_first[OF rest]
    show ?thesis by simp
  next
    case False
    then have pos: "0 < unat (FrameNum p)" by (simp add: unat_gt_0)
    show ?thesis
    proof (cases "zero s = None \<or> contents s ! unat (FrameNum p) \<noteq> None")
      case True
      with False reset f len show ?thesis by (auto simp: seq_add_def)
    next
      case False
      with seq_inv_next[OF inv _ pos f, of "len # rest"] rest \<open>FrameNum p \<noteq> 0\<close> f len p
      show ?thesis by (auto simp: seq_add_def)
    qed
  qed
qed

lemma seq_complete_total:
  assumes "seq_inv s"
  shows "\<exists>b q. seq_complete s p = Some (b, q)"
proof -
  have "unat (expected s) \<le> length r"
    if "collect (unat (expected s)) (contents s) [] = Some r" "expected s \<le> received s" for r
    using collect_enough[OF that(1)] that(2) seq_inv_held[OF assms]
    by (auto simp: word_le_nat_alt)
  then show ?thesis
    by (auto simp: seq_complete_def not_less split: option.splits)
qed

lemma GetSeqFrame_8:
  assumes "length (Data p) = 8"
  obtains q where "GetSeqFrame p = Some q" "Data q = Data p" "unat (FrameNum q) \<le> MaxFrameNum"
proof -
  obtain b rest where p: "Data p = b # rest" using assms by (cases "Data p") auto
  have "unat (b AND 0x1F) \<le> unat (0x1F :: u8)"
    by (rule word_le_nat_alt[THEN iffD1]) (rule word_and_le1)
  with p that show thesis by (auto simp: GetSeqFrame_def MaxFrameNum_def)
qed

definition frame_packet :: "Packet \<Rightarrow> bool" where
  "frame_packet p \<longleftrightarrow> length (Data p) = 8"

interpretation mb: slot_invariant slot_of set_slot packet_key slot_step run_builder
  frame_packet seq_inv
proof unfold_locales
  fix p and s :: "sequence option"
  let ?s = "case s of None \<Rightarrow> new_sequence | Some s \<Rightarrow> s"
  assume p: "frame_packet p" and s: "\<And>v. s = Some v \<Longrightarrow> seq_inv v"
  then have s': "seq_inv ?s" by (auto simp: seq_inv_new split: option.splits)
  obtain q where q: "GetSeqFrame p = Some q" "Data q = Data p" "unat (FrameNum q) \<le> MaxFrameNum"
    using p by (auto simp: frame_packet_def elim: GetSeqFrame_8)
  obtain s'' where s'': "seq_add ?s q = Some s''" "seq_inv s''"
    using seq_add_inv[OF s', of q] q p by (auto simp: frame_packet_def)
  obtain b r where c: "seq_complete s'' q = Some (b, r)"
    using seq_complete_total[OF s''(2)] by blast
  show "\<exists>v r. slot_step s p = Some (v, r)"
    using q s'' c by (simp add: slot_step_def)
  fix v' r' assume "slot_step s p = Some (Some v', r')"
  with q s'' c show "seq_inv v'" by (auto simp: slot_step_def split: if_splits)
qed

end
