(* ===== verification/Fastmessage.thy ===== *)
theory Fastmessage
  imports Fastpacket
begin

text \<open>
  What the fast-packet format promises: the frames of a message as a function of its data, and
  the proof that the builder of \<open>Fastpacket\<close> gives the message back from its frames, in any
  order after frame 0 and whatever other traffic runs in between.
\<close>

section \<open>The frames of a message\<close>

text \<open>
  Behind the data of a message come padding bytes, as far as the last frame needs them: \<open>0xFF\<close> when the
  adapter sends, 0 when the frames come from a RAW file.
\<close>

definition fill :: "u8 \<Rightarrow> bytes \<Rightarrow> nat \<Rightarrow> u8" where
  "fill pd d i = (if i < length d then d ! i else pd)"

definition payload :: "u8 \<Rightarrow> bytes \<Rightarrow> nat \<Rightarrow> bytes" where
  "payload pd d k = map (fill pd d) [(if k = 0 then 0 else 7 * k - 1)..<7 * k + 6]"

definition frame_of :: "u8 \<Rightarrow> u8 \<Rightarrow> bytes \<Rightarrow> nat \<Rightarrow> bytes" where
  "frame_of pd sid d k =
     (push_bit 5 sid OR of_nat k) # (if k = 0 then [of_nat (length d)] else []) @ payload pd d k"

text \<open>The last frame number of a message of \<open>n\<close> bytes is \<open>n div 7\<close>.\<close>

definition frame_pkt :: "u8 \<Rightarrow> MessageInfo \<Rightarrow> u8 \<Rightarrow> bytes \<Rightarrow> nat \<Rightarrow> Packet" where
  "frame_pkt pd info sid d k = NewPacket info (frame_of pd sid d k)"

lemma length_payload: "length (payload pd d k) = (if k = 0 then 6 else 7)"
  by (auto simp: payload_def)

lemma length_frame_of: "length (frame_of pd sid d k) = 8"
  by (simp add: frame_of_def length_payload)

lemma concat_payload: "concat (map (payload pd d) [0..<Suc k]) = map (fill pd d) [0..<7 * k + 6]"
proof (induction k)
  case 0
  show ?case by (simp add: payload_def)
next
  case (Suc k)
  have "[0..<7 * Suc k + 6] = [0..<7 * k + 6] @ [7 * Suc k - 1..<7 * Suc k + 6]"
    using upt_add_eq_append[of 0 "7 * k + 6" 7] by (simp add: add.commute)
  then show ?case
    using Suc by (simp add: payload_def)
qed

lemma take_fill: "length d \<le> m \<Longrightarrow> take (length d) (map (fill pd d) [0..<m]) = d"
  by (rule nth_equalityI) (auto simp: fill_def)

section \<open>The builder on the frames of one message\<close>

definition seq_of :: "u8 \<Rightarrow> Packet \<Rightarrow> bytes \<Rightarrow> nat set \<Rightarrow> sequence" where
  "seq_of pd p d F = \<lparr>zero = Some p, expected = of_nat (length d),
     received = of_nat (7 * card F - 1),
     contents = map (\<lambda>i. if i \<in> F then Some (payload pd d i) else None) [0..<MaxFrameNum + 1]\<rparr>"

definition seen :: "Packet \<Rightarrow> u8 \<Rightarrow> nat \<Rightarrow> Packet" where
  "seen p sid k = p\<lparr>SeqId := sid, FrameNum := of_nat k\<rparr>"

lemma frame_byte:
  fixes sid :: u8
  assumes "sid < 8" and "k < 32"
  shows "drop_bit 5 ((push_bit 5 sid OR of_nat k) AND 0xE0) = sid"
    and "(push_bit 5 sid OR of_nat k) AND 0x1F = (of_nat k :: u8)"
proof -
  have k: "\<not> bit k n" if "5 \<le> n" for n
  proof -
    have "take_bit 5 k = k" using assms(2) by (simp add: take_bit_nat_eq_self)
    then show ?thesis using that by (metis bit_take_bit_iff not_less)
  qed
  have s: "\<not> bit sid n" if "3 \<le> n" for n
    using small_word_bits[of sid 3 n] assms(1) that by simp
  have e0: "(0xE0 :: u8) = push_bit 5 (mask 3)" by (simp add: mask_numeral)
  have e1: "(0x1F :: u8) = mask 5" by (simp add: mask_numeral)
  show "drop_bit 5 ((push_bit 5 sid OR of_nat k) AND 0xE0) = sid"
  proof (rule bit_word_eqI)
    fix n assume "n < LENGTH(8)"
    then show "bit (drop_bit 5 ((push_bit 5 sid OR of_nat k) AND 0xE0)) n = bit sid n"
      unfolding e0 using k[of "n + 5"] s[of n]
      by (cases "n < 3") (auto simp: bit_simps ac_simps)
  qed
  show "(push_bit 5 sid OR of_nat k) AND 0x1F = (of_nat k :: u8)"
    unfolding e1 by (rule bit_word_eqI) (use k in \<open>auto simp: bit_simps not_le[symmetric]\<close>)
qed

lemma GetSeqFrame_frame:
  assumes "sid < 8" and "k < 32"
  shows "GetSeqFrame (frame_pkt pd info sid d k) = Some (seen (frame_pkt pd info sid d k) sid k)"
  using frame_byte[OF assms] by (simp add: GetSeqFrame_def frame_pkt_def frame_of_def seen_def)

lemma packet_key_frame:
  assumes "sid < 8" and "k < 32"
  shows "packet_key (frame_pkt pd info sid d k) = (SourceId info, PGN info, sid)"
  using frame_byte(1)[OF assms] by (simp add: packet_key_def frame_pkt_def frame_of_def)

lemma collect_prefix:
  assumes "xs \<noteq> []" and "e \<le> length acc + length (concat xs)"
    and "length xs = 1 \<or> length acc + length (concat (butlast xs)) < e"
  shows "collect e (map Some xs @ rest) acc = Some (acc @ concat xs)"
  using assms
proof (induction xs arbitrary: acc)
  case (Cons x xs)
  show ?case
  proof (cases "xs = []")
    case True
    with Cons.prems show ?thesis by simp
  next
    case False
    with Cons.prems have short: "length acc + length x + length (concat (butlast xs)) < e" by simp
    have "collect e (map Some xs @ rest) (acc @ x) = Some ((acc @ x) @ concat xs)"
      using Cons.prems(2) short False by (intro Cons.IH) auto
    with short show ?thesis by simp
  qed
qed simp

text \<open>The sequence after the frames in \<open>F\<close>, and how one more frame changes it.\<close>

lemma card_frames:
  assumes "F \<subseteq> {0..n div 7}" and "n \<le> 223" and "0 \<in> F"
  shows "0 < card F" and "card F \<le> 32" and "n < 7 * card F \<longleftrightarrow> F = {0..n div 7}"
proof -
  have fin: "finite F" using assms(1) finite_subset by blast
  show "0 < card F" using fin assms(3) by (auto simp: card_gt_0_iff)
  have c: "card F \<le> n div 7 + 1" using card_mono[OF _ assms(1)] by simp
  with assms(2) show "card F \<le> 32" by linarith
  show "n < 7 * card F \<longleftrightarrow> F = {0..n div 7}"
  proof
    assume "n < 7 * card F"
    then have "card {0..n div 7} \<le> card F" by simp
    then show "F = {0..n div 7}" using assms(1) by (simp add: card_seteq)
  next
    assume "F = {0..n div 7}"
    then show "n < 7 * card F" by simp
  qed
qed

lemma seq_add_frame_0:
  assumes "length d \<le> 223" and "seq_inv s" and "sid < 8"
  shows "seq_add s (seen (frame_pkt pd info sid d 0) sid 0)
     = Some (seq_of pd (seen (frame_pkt pd info sid d 0) sid 0) d {0})"
proof -
  let ?p = "seen (frame_pkt pd info sid d 0) sid 0"
  have "Data ?p = (push_bit 5 sid OR of_nat 0) # of_nat (length d) # payload pd d 0"
    and "FrameNum ?p = 0"
    by (simp_all add: seen_def frame_pkt_def frame_of_def)
  from seq_add_first[OF _ seq_inv_new_iff[OF assms(2)] this] assms(2)
  have "seq_add s ?p = Some \<lparr>zero = Some ?p, expected = of_nat (length d), received = 6,
      contents = Some (payload pd d 0) # replicate MaxFrameNum None\<rparr>"
    by (simp add: seq_inv_def)
  moreover have "Some (payload pd d 0) # replicate MaxFrameNum None
      = map (\<lambda>i. if i \<in> {0} then Some (payload pd d i) else None) [0..<MaxFrameNum + 1]"
    by (rule nth_equalityI) (auto simp: nth_Cons' simp del: upt_Suc)
  ultimately show ?thesis by (simp add: seq_of_def del: upt_Suc)
qed

lemma seq_add_frame:
  assumes "k \<notin> F" and "0 \<in> F" and "k \<le> MaxFrameNum" and "finite F"
  shows "seq_add (seq_of pd p d F) (seen (frame_pkt pd info sid d k) sid k) = Some (seq_of pd p d (insert k F))"
proof -
  have k: "0 < k" "k < 32" using assms by (auto simp: MaxFrameNum_def intro: gr0I)
  have u: "unat (of_nat k :: u8) = k" using k by (simp add: unat_of_nat)
  have nz: "(of_nat k :: u8) \<noteq> 0" using u k by (metis unat_0 less_numeral_extra(3))
  have c: "card (insert k F) = Suc (card F)" "0 < card F"
    using assms by (auto simp: card_gt_0_iff)
  have "of_nat (7 * card F - 1) + 7 = (of_nat (7 * card (insert k F) - 1) :: u8)"
    using c by (simp add: algebra_simps of_nat_diff)
  moreover have "(map (\<lambda>i. if i \<in> F then Some (payload pd d i) else None) [0..<32])[k := Some (payload pd d k)]
      = map (\<lambda>i. if i \<in> insert k F then Some (payload pd d i) else None) [0..<32]"
    using k by (intro nth_equalityI) (auto simp: nth_list_update)
  ultimately show ?thesis
    using assms(1) k u nz
    by (simp add: seq_add_def seq_of_def seen_def frame_pkt_def frame_of_def MaxFrameNum_def
        del: upt_Suc)
qed

lemma collect_frames:
  assumes "length d \<le> 223"
  shows "collect (length d) (contents (seq_of pd p d {0..length d div 7})) []
     = Some (map (fill pd d) [0..<7 * (length d div 7) + 6])"
proof -
  let ?m = "length d div 7"
  have m: "?m \<le> 31" using assms by linarith
  have "contents (seq_of pd p d {0..?m})
      = map Some (map (payload pd d) [0..<Suc ?m]) @ replicate (31 - ?m) None"
    using m by (intro nth_equalityI) (auto simp: seq_of_def MaxFrameNum_def nth_append simp del: upt_Suc)
  moreover have "collect (length d) (map Some (map (payload pd d) [0..<Suc ?m]) @ replicate (31 - ?m) None) []
      = Some ([] @ concat (map (payload pd d) [0..<Suc ?m]))"
  proof (rule collect_prefix)
    show "length d \<le> length ([] :: bytes) + length (concat (map (payload pd d) [0..<Suc ?m]))"
      by (simp only: concat_payload) simp
    show "length (map (payload pd d) [0..<Suc ?m]) = 1
        \<or> length ([] :: bytes) + length (concat (butlast (map (payload pd d) [0..<Suc ?m]))) < length d"
    proof (cases ?m)
      case (Suc j)
      have "butlast (map (payload pd d) [0..<Suc ?m]) = map (payload pd d) [0..<Suc j]"
        by (simp add: Suc butlast_append flip: map_butlast)
      then have "length (concat (butlast (map (payload pd d) [0..<Suc ?m]))) = 7 * j + 6"
        by (simp only: concat_payload) simp
      with Suc show ?thesis by simp
    qed simp
  qed simp
  ultimately show ?thesis by (simp only: concat_payload) simp
qed

lemma seq_complete_frames:
  assumes "F \<subseteq> {0..length d div 7}" and "length d \<le> 223" and "0 \<in> F"
  shows "seq_complete (seq_of pd p d F) q =
     (if F = {0..length d div 7} then Some (True, q\<lparr>Data := d, Complete := True\<rparr>)
      else Some (False, q\<lparr>Complete := False\<rparr>))"
proof -
  note c = card_frames[OF assms]
  have e: "unat (expected (seq_of pd p d F)) = length d"
    and r: "unat (received (seq_of pd p d F)) = 7 * card F - 1"
    using assms(2) c by (simp_all add: seq_of_def unat_of_nat del: of_nat_mult of_nat_diff)
  have ge: "received (seq_of pd p d F) \<ge> expected (seq_of pd p d F) \<longleftrightarrow> F = {0..length d div 7}"
    using c unfolding word_le_nat_alt e r by linarith
  have z: "zero (seq_of pd p d F) \<noteq> None" by (simp add: seq_of_def)
  show ?thesis
  proof (cases "F = {0..length d div 7}")
    case True
    have "length d \<le> 7 * (length d div 7) + 6" by presburger
    with True ge z e collect_frames[OF assms(2), of pd p] show ?thesis
      by (simp add: seq_complete_def take_fill)
  next
    case False
    with ge z show ?thesis by (simp add: seq_complete_def)
  qed
qed

section \<open>The builder on a whole message\<close>

definition mb_inv :: "MultiBuilder \<Rightarrow> bool" where
  "mb_inv m \<longleftrightarrow> (\<forall>k s. slot_of m k = Some s \<longrightarrow> seq_inv s)"

lemma mb_inv_new: "mb_inv NewMultiBuilder"
  by (simp add: mb_inv_def NewMultiBuilder_def slot_of_def seq_lookup_def inner_def
      split: prod.splits)

lemma mb_inv_all: "mb_inv m = mb.all_inv m"
  by (simp add: mb_inv_def mb.all_inv_def)

lemma frame_packet_frame [simp]: "frame_packet (frame_pkt pd info sid d k)"
  by (simp add: frame_packet_def frame_pkt_def length_frame_of)

lemma slot_stepI:
  "GetSeqFrame p = Some q \<Longrightarrow> seq_add (case v of None \<Rightarrow> new_sequence | Some s \<Rightarrow> s) q = Some s \<Longrightarrow>
   seq_complete s q = Some (b, r) \<Longrightarrow> slot_step v p = Some (if b then None else Some s, r)"
  by (simp add: slot_step_def)

lemma slot_step_frame:
  assumes "sid < 8" and "length d \<le> 223" and "0 \<in> F" and "k \<notin> F"
    and "G = insert k F" and "G \<subseteq> {0..length d div 7}"
  shows "slot_step (Some (seq_of pd p d F)) (frame_pkt pd info sid d k) =
     (if G = {0..length d div 7}
      then Some (None, (seen (frame_pkt pd info sid d k) sid k)\<lparr>Data := d, Complete := True\<rparr>)
      else Some (Some (seq_of pd p d G), (seen (frame_pkt pd info sid d k) sid k)\<lparr>Complete := False\<rparr>))"
proof -
  have "finite G" using assms(6) finite_subset by blast
  then have "finite F" by (simp add: assms(5))
  have k: "k \<le> MaxFrameNum" using assms(2,5,6) by (auto simp: MaxFrameNum_def)
  then have k32: "k < 32" by (simp add: MaxFrameNum_def)
  have "0 \<in> G" using assms(3,5) by simp
  note c = seq_complete_frames[OF assms(6,2) this]
  have a: "seq_add (case Some (seq_of pd p d F) of None \<Rightarrow> new_sequence | Some s \<Rightarrow> s)
      (seen (frame_pkt pd info sid d k) sid k) = Some (seq_of pd p d G)"
    using seq_add_frame[OF assms(4,3) k \<open>finite F\<close>] by (simp add: assms(5))
  note st = slot_stepI[OF GetSeqFrame_frame[OF assms(1) k32] a]
  show ?thesis
  proof (cases "G = {0..length d div 7}")
    case True
    from st[OF c[unfolded if_P[OF True]]] show ?thesis by (simp add: if_P[OF True])
  next
    case False
    from st[OF c[unfolded if_not_P[OF False]]] show ?thesis by (simp add: if_not_P[OF False])
  qed
qed

lemma slot_step_frame_0:
  assumes "sid < 8" and "length d \<le> 223" and "\<And>s. v = Some s \<Longrightarrow> seq_inv s"
  shows "slot_step v (frame_pkt pd info sid d 0) =
     (let q = seen (frame_pkt pd info sid d 0) sid 0
      in if length d div 7 = 0 then Some (None, q\<lparr>Data := d, Complete := True\<rparr>)
         else Some (Some (seq_of pd q d {0}), q\<lparr>Complete := False\<rparr>))"
proof -
  let ?s = "case v of None \<Rightarrow> new_sequence | Some s \<Rightarrow> s"
  have "seq_inv ?s" using assms(3) by (auto simp: seq_inv_new split: option.splits)
  from seq_add_frame_0[OF assms(2) this assms(1), of pd info]
    seq_complete_frames[where F = "{0}" and d = d] assms(1,2) GetSeqFrame_frame[where sid = sid and k = 0 and info = info and d = d]
  show ?thesis by (auto simp: slot_step_def Let_def)
qed

lemma run_frames:
  assumes "sid < 8" and "length d \<le> 223" and i: "\<forall>k. SourceId (info k) = src \<and> PGN (info k) = pgn"
    and "slot_of m (src, pgn, sid) = Some (seq_of pd p d F)"
    and "0 \<in> F" and "distinct ks" and "ks \<noteq> []" and "set ks \<inter> F = {}" and "set ks \<union> F = {0..length d div 7}"
  shows "\<exists>m' qs q. run_builder m (map (\<lambda>k. frame_pkt pd (info k) sid d k) ks) = Some (m', qs @ [q])
     \<and> (\<forall>q' \<in> set qs. \<not> Complete q')
     \<and> q = (seen (frame_pkt pd (info (last ks)) sid d (last ks)) sid (last ks))\<lparr>Data := d, Complete := True\<rparr>
     \<and> slot_of m' (src, pgn, sid) = None"
  using assms(4-9)
proof (induction ks arbitrary: m F)
  case (Cons k ks)
  let ?key = "(src, pgn, sid)"
  let ?q = "seen (frame_pkt pd (info k) sid d k) sid k"
  have sub: "insert k F \<subseteq> {0..length d div 7}" and "k \<notin> F" using Cons.prems by auto
  have "k < 32" using sub assms(2) by auto
  then have key: "packet_key (frame_pkt pd (info k) sid d k) = ?key"
    using packet_key_frame[OF assms(1)] i by simp
  note st = slot_step_frame[OF assms(1,2) \<open>0 \<in> F\<close> \<open>k \<notin> F\<close> refl sub, of pd p "info k"]
  show ?case
  proof (cases "ks = []")
    case True
    then have "insert k F = {0..length d div 7}" using Cons.prems(6) by auto
    with st True Cons.prems(1) key show ?thesis
      by (intro exI[of _ "set_slot m ?key None"] exI[of _ "[]"])
         (simp add: Add_slot slot_of_set_slot)
  next
    case False
    then have "insert k F \<noteq> {0..length d div 7}" using Cons.prems(3,5,6) by (cases ks) auto
    with st have st': "slot_step (Some (seq_of pd p d F)) (frame_pkt pd (info k) sid d k)
        = Some (Some (seq_of pd p d (insert k F)), ?q\<lparr>Complete := False\<rparr>)" by simp
    let ?m = "set_slot m ?key (Some (seq_of pd p d (insert k F)))"
    have "\<exists>m' qs q. run_builder ?m (map (\<lambda>k. frame_pkt pd (info k) sid d k) ks) = Some (m', qs @ [q])
       \<and> (\<forall>q' \<in> set qs. \<not> Complete q')
       \<and> q = (seen (frame_pkt pd (info (last ks)) sid d (last ks)) sid (last ks))\<lparr>Data := d, Complete := True\<rparr>
       \<and> slot_of m' ?key = None"
      by (rule Cons.IH[of ?m "insert k F"])
         (use Cons.prems False in \<open>auto simp: slot_of_set_slot\<close>)
    then obtain m' qs q where IH:
      "run_builder ?m (map (\<lambda>k. frame_pkt pd (info k) sid d k) ks) = Some (m', qs @ [q])"
      "\<forall>q' \<in> set qs. \<not> Complete q'" "slot_of m' ?key = None"
      "q = (seen (frame_pkt pd (info (last ks)) sid d (last ks)) sid (last ks))\<lparr>Data := d, Complete := True\<rparr>"
      by blast
    then show ?thesis
      using st' Cons.prems(1) False
      by (intro exI[of _ m'] exI[of _ "?q\<lparr>Complete := False\<rparr> # qs"] exI[of _ q])
         (simp add: Add_slot key)
  qed
qed simp

lemma run_message:
  assumes "sid < 8" and "length d \<le> 223" and "mb_inv m"
    and i: "\<forall>k. SourceId (info k) = src \<and> PGN (info k) = pgn"
    and "distinct ks" and "set ks = {1..length d div 7}"
  shows "\<exists>m' qs q. run_builder m (map (\<lambda>k. frame_pkt pd (info k) sid d k) (0 # ks)) = Some (m', qs @ [q])
     \<and> (\<forall>q' \<in> set qs. \<not> Complete q')
     \<and> q = (seen (frame_pkt pd (info (last (0 # ks))) sid d (last (0 # ks))) sid (last (0 # ks)))\<lparr>Data := d, Complete := True\<rparr>
     \<and> slot_of m' (src, pgn, sid) = None"
proof -
  let ?key = "(src, pgn, sid)" and ?p = "seen (frame_pkt pd (info 0) sid d 0) sid 0"
  have key: "packet_key (frame_pkt pd (info 0) sid d 0) = ?key"
    using packet_key_frame[OF assms(1)] i by simp
  have "\<And>s. slot_of m ?key = Some s \<Longrightarrow> seq_inv s" using assms(3) by (auto simp: mb_inv_def)
  note st = slot_step_frame_0[where v = "slot_of m ?key" and info = "info 0", OF assms(1,2) this,
      unfolded Let_def]
  show ?thesis
  proof (cases "length d div 7 = 0")
    case True
    then have "ks = []" using assms(6) by auto
    with st True show ?thesis
      by (intro exI[of _ "set_slot m ?key None"] exI[of _ "[]"])
         (simp add: Add_slot key slot_of_set_slot)
  next
    case False
    let ?m = "set_slot m ?key (Some (seq_of pd ?p d {0}))"
    from False assms(6) have ne: "ks \<noteq> []" by auto
    have "\<exists>m' qs q. run_builder ?m (map (\<lambda>k. frame_pkt pd (info k) sid d k) ks) = Some (m', qs @ [q])
       \<and> (\<forall>q' \<in> set qs. \<not> Complete q')
       \<and> q = (seen (frame_pkt pd (info (last ks)) sid d (last ks)) sid (last ks))\<lparr>Data := d, Complete := True\<rparr>
       \<and> slot_of m' ?key = None"
      by (rule run_frames[where p = ?p and F = "{0}"])
         (use assms ne in \<open>auto simp: slot_of_set_slot\<close>)
    then obtain m' qs q where r:
      "run_builder ?m (map (\<lambda>k. frame_pkt pd (info k) sid d k) ks) = Some (m', qs @ [q])"
      "\<forall>q' \<in> set qs. \<not> Complete q'" "slot_of m' ?key = None"
      "q = (seen (frame_pkt pd (info (last ks)) sid d (last ks)) sid (last ks))\<lparr>Data := d, Complete := True\<rparr>"
      by blast
    with st False ne show ?thesis
      by (intro exI[of _ m'] exI[of _ "?p\<lparr>Complete := False\<rparr> # qs"] exI[of _ q])
         (simp add: Add_slot key)
  qed
qed

section \<open>What a completed packet is\<close>

lemma seq_complete_True:
  assumes "seq_complete s p = Some (b, q)" and "\<not> Complete p" and "Complete q" and "seq_inv s"
  shows "length (Data q) = unat (expected s)" and "length (Data q) \<le> 223" and "Info q = Info p"
proof -
  show l: "length (Data q) = unat (expected s)" and "Info q = Info p"
    using assms(1-3) by (auto simp: seq_complete_def split: if_splits option.splits)
  have "expected s \<le> received s"
    using assms(1-3) by (auto simp: seq_complete_def split: if_splits option.splits)
  then have "unat (expected s) \<le> 223"
    using seq_inv_held[OF assms(4)] seq_inv_held_bound[OF assms(4)]
    by (simp add: word_le_nat_alt)
  with l show "length (Data q) \<le> 223" by simp
qed

lemma slot_step_complete:
  assumes "slot_step v p = Some (w, q)" and "frame_packet p" and "\<not> Complete p" and "Complete q"
    and "\<And>s. v = Some s \<Longrightarrow> seq_inv s"
  shows "length (Data q) \<le> 223 \<and> Info q = Info p \<and> w = None"
proof -
  have i: "seq_inv (case v of None \<Rightarrow> new_sequence | Some s \<Rightarrow> s)"
    using assms(5) by (auto simp: seq_inv_new split: option.splits)
  obtain p' where p': "GetSeqFrame p = Some p'" "Data p' = Data p" "unat (FrameNum p') \<le> MaxFrameNum"
    using assms(2) by (auto simp: frame_packet_def elim: GetSeqFrame_8)
  then have k: "Info p' = Info p" "\<not> Complete p'"
    using assms(3) by (auto simp: GetSeqFrame_def split: list.splits)
  obtain s where s: "seq_add (case v of None \<Rightarrow> new_sequence | Some s \<Rightarrow> s) p' = Some s" "seq_inv s"
    using seq_add_inv[OF i, of p'] p' assms(2) by (auto simp: frame_packet_def)
  from assms(1) p' s obtain b where b: "seq_complete s p' = Some (b, q)" "w = (if b then None else Some s)"
    by (auto simp: slot_step_def split: option.splits)
  with assms(4) have "b" by (auto simp: seq_complete_def split: if_splits option.splits)
  with b seq_complete_True[OF b(1) k(2) assms(4) s(2)] k show ?thesis by simp
qed

lemma run_complete_bound:
  assumes "run_builder m ps = Some (m', qs)" and "mb_inv m"
    and "\<forall>p \<in> set ps. frame_packet p \<and> \<not> Complete p"
  shows "\<forall>(p, q) \<in> set (zip ps qs). Complete q \<longrightarrow> length (Data q) \<le> 223 \<and> Info q = Info p"
  using assms
proof (induction ps arbitrary: m qs)
  case (Cons p ps)
  from Cons.prems(1) obtain v q qs' where st: "slot_step (slot_of m (packet_key p)) p = Some (v, q)"
    and rn: "run_builder (set_slot m (packet_key p) v) ps = Some (m', qs')" and qs: "qs = q # qs'"
    by (rule mb.run_ConsE)
  have "mb_inv (set_slot m (packet_key p) v)"
    using mb.all_inv_put[OF _ _ st] Cons.prems by (simp add: mb_inv_all)
  from Cons.IH[OF rn this] Cons.prems(3)
  have "\<forall>(p, q) \<in> set (zip ps qs'). Complete q \<longrightarrow> length (Data q) \<le> 223 \<and> Info q = Info p"
    by simp
  moreover have "Complete q \<longrightarrow> length (Data q) \<le> 223 \<and> Info q = Info p"
    using slot_step_complete[OF st] Cons.prems(2,3) unfolding mb_inv_def by auto
  ultimately show ?case by (simp add: qs)
qed simp

section \<open>Properties\<close>

text \<open>The packets that come out for the inputs of one key.\<close>

definition outputs_of :: "u8 \<times> u32 \<times> u8 \<Rightarrow> Packet list \<Rightarrow> Packet list \<Rightarrow> Packet list" where
  "outputs_of k ps qs = map snd (filter (\<lambda>pq. packet_key (fst pq) = k) (zip ps qs))"

text \<open>
  Claim C3. Reassembly is correct: whatever traffic of 8-byte frames runs over the builder,
  if the frames of one source, PGN and sequence number are the frames of one message (padded with any byte) of at
  most 223 bytes with frame 0 first and the others in any order, each received at its own time,
  then no call panics, exactly the last of these frames completes a packet, that packet carries
  the message's data and the information of the last frame, and the builder has forgotten the
  sequence.
\<close>

theorem fast_packet_reassembly:
  assumes "sid < 8" and "length d \<le> 223" and "mb_inv m" and "\<forall>p \<in> set ps. frame_packet p"
    and "\<forall>k. SourceId (info k) = src \<and> PGN (info k) = pgn"
    and "filter (\<lambda>p. packet_key p = (src, pgn, sid)) ps
      = map (\<lambda>k. frame_pkt pd (info k) sid d k) (0 # ks)"
    and "distinct ks" and "set ks = {1..length d div 7}"
  shows "\<exists>m' qs early q. run_builder m ps = Some (m', qs)
     \<and> outputs_of (src, pgn, sid) ps qs = early @ [q]
     \<and> (\<forall>q' \<in> set early. \<not> Complete q')
     \<and> Complete q \<and> Data q = d \<and> Info q = info (last (0 # ks))
     \<and> slot_of m' (src, pgn, sid) = None"
proof -
  let ?k = "(src, pgn, sid)"
  obtain m' qs where run: "run_builder m ps = Some (m', qs)"
    using mb.run_total[of m ps] assms(3,4) by (auto simp: mb_inv_all)
  from mb.run_filter[OF run refl, of ?k, unfolded assms(6)] obtain m'' where
    f: "run_builder m (map (\<lambda>k. frame_pkt pd (info k) sid d k) (0 # ks))
      = Some (m'', outputs_of ?k ps qs)"
    "slot_of m'' ?k = slot_of m' ?k"
    by (auto simp: outputs_of_def)
  with run_message[where pd = pd, OF assms(1-3,5,7,8)] run show ?thesis
    by (fastforce simp: seen_def frame_pkt_def)
qed

text \<open>
  Claim C4. No overflow and no panic: on 8-byte frames the builder always returns, keeps the
  invariant of its sequences (so \<open>received\<close>, a byte, counts the bytes held and never wraps),
  and every packet it completes has at most 223 bytes and the information of its last frame.
\<close>

theorem builder_safe:
  assumes "mb_inv m" and "\<forall>p \<in> set ps. frame_packet p \<and> \<not> Complete p"
  shows "\<exists>m' qs. run_builder m ps = Some (m', qs) \<and> mb_inv m' \<and> length qs = length ps
     \<and> (\<forall>(p, q) \<in> set (zip ps qs). Complete q \<longrightarrow> length (Data q) \<le> 223 \<and> Info q = Info p)"
proof -
  obtain m' qs where "run_builder m ps = Some (m', qs)" "mb_inv m'"
    using mb.run_total[of m ps] assms by (auto simp: mb_inv_all)
  with run_complete_bound[OF _ assms(1)] assms(2) mb.run_length show ?thesis by fastforce
qed

text \<open>Concrete traffic: a message of 9 bytes, its two frames around a frame of another source.\<close>

definition ex_info :: "nat \<Rightarrow> MessageInfo" where
  "ex_info k = \<lparr>Timestamp = int k, Priority = 6, PGN = 129029, SourceId = 1, TargetId = 255\<rparr>"

definition ex_traffic :: "Packet list" where
  "ex_traffic = [frame_pkt 0xFF (ex_info 0) 3 [1,2,3,4,5,6,7,8,9] 0,
     frame_pkt 0xFF ((ex_info 7)\<lparr>SourceId := 2\<rparr>) 3 [9,9] 0,
     frame_pkt 0xFF (ex_info 1) 3 [1,2,3,4,5,6,7,8,9] 1]"

lemma ex_info_sources [simp]:
  "SourceId (ex_info k) = 1" "SourceId ((ex_info k)\<lparr>SourceId := 2\<rparr>) = 2" "PGN (ex_info k) = 129029"
  by (simp_all add: ex_info_def)

lemma ex_traffic_facts:
  "\<forall>p \<in> set ex_traffic. frame_packet p \<and> \<not> Complete p"
  "filter (\<lambda>p. packet_key p = (1, 129029, 3)) ex_traffic
     = map (\<lambda>k. frame_pkt 0xFF (ex_info k) 3 [1,2,3,4,5,6,7,8,9] k) [0, 1]"
   apply (simp add: ex_traffic_def frame_pkt_def frame_packet_def length_frame_of)
  apply (simp add: ex_traffic_def packet_key_frame)
  done

theorem fast_packet_reassembly_witness:
  "\<exists>m' qs early q. run_builder NewMultiBuilder ex_traffic = Some (m', qs)
     \<and> outputs_of (1, 129029, 3) ex_traffic qs = early @ [q]
     \<and> (\<forall>q' \<in> set early. \<not> Complete q')
     \<and> Complete q \<and> Data q = [1,2,3,4,5,6,7,8,9] \<and> Info q = ex_info (last (0 # [1]))
     \<and> slot_of m' (1, 129029, 3) = None"
  by (rule fast_packet_reassembly[where ks = "[1]"])
     (use ex_traffic_facts in \<open>auto simp: mb_inv_new\<close>)

theorem builder_safe_witness:
  "\<exists>m' qs. run_builder NewMultiBuilder ex_traffic = Some (m', qs) \<and> mb_inv m'
     \<and> length qs = length ex_traffic
     \<and> (\<forall>(p, q) \<in> set (zip ex_traffic qs).
          Complete q \<longrightarrow> length (Data q) \<le> 223 \<and> Info q = Info p)"
  by (rule builder_safe) (use ex_traffic_facts mb_inv_new in auto)

end
