(* ===== verification/Canid.thy ===== *)
theory Canid
  imports N2kPrelude
begin

text \<open>
  The CAN identifier of an NMEA 2000 frame (\<open>internal/converter/converter.go\<close>): priority,
  PGN, source and destination packed into the 29 bits of an extended CAN ID, with bit 31
  set. A PGN whose format byte is below 240 (PDU1) carries the destination in its low byte;
  above (PDU2) the message is global. Timestamps are \<open>time.Now()\<close> of the code and are passed
  in.
\<close>

section \<open>Data\<close>

record CanIDData =
  cid_PGN :: u32
  cid_SourceID :: u8
  cid_Priority :: u8
  cid_Destination :: u8

record FrameHeader =
  hdr_TimeStamp :: gotime
  hdr_SourceID :: u8
  hdr_PGN :: u32
  hdr_Priority :: u8
  hdr_TargetID :: u8

datatype canid_error = PDU2Destination u32 u8

section \<open>Operations\<close>

definition CanIDFromData :: "u32 \<Rightarrow> u8 \<Rightarrow> u8 \<Rightarrow> u8 \<Rightarrow> u32" where
  "CanIDFromData pgn sourceID priority destination =
     (let pduFormat = (ucast (drop_bit 8 (pgn AND 0xFF00)) :: u8);
          pgn' = (if pduFormat < 240 then (pgn AND 0xFFF00) OR ucast destination else pgn);
          canID = ucast sourceID OR push_bit 8 pgn' OR push_bit 26 (ucast priority)
      in canID OR 0x80000000)"

definition CanIDFromStruct :: "CanIDData \<Rightarrow> u32" where
  "CanIDFromStruct data =
     CanIDFromData (cid_PGN data) (cid_SourceID data) (cid_Priority data) (cid_Destination data)"

definition CanIDFromDataWithValidation :: "u32 \<Rightarrow> u8 \<Rightarrow> u8 \<Rightarrow> u8 \<Rightarrow> canid_error + u32" where
  "CanIDFromDataWithValidation pgn sourceID priority destination =
     (let pduFormat = (ucast (drop_bit 8 (pgn AND 0xFF00)) :: u8)
      in if pduFormat \<ge> 240 \<and> destination \<noteq> 0 \<and> destination \<noteq> 255
         then Inl (PDU2Destination pgn destination)
         else Inr (CanIDFromData pgn sourceID priority destination))"

definition CanIDFromStructWithValidation :: "CanIDData \<Rightarrow> canid_error + u32" where
  "CanIDFromStructWithValidation data =
     CanIDFromDataWithValidation (cid_PGN data) (cid_SourceID data) (cid_Priority data)
       (cid_Destination data)"

definition DecodeCanID :: "gotime \<Rightarrow> u32 \<Rightarrow> FrameHeader" where
  "DecodeCanID now i =
     (let pgn = drop_bit 8 (i AND 0x3FFFF00);
          r = \<lparr>hdr_TimeStamp = now, hdr_SourceID = ucast (i AND 0xFF), hdr_PGN = pgn,
               hdr_Priority = ucast (drop_bit 26 (i AND 0x1C000000)), hdr_TargetID = 0\<rparr>;
          pduFormat = (ucast (drop_bit 8 (pgn AND 0xFF00)) :: u8)
      in if pduFormat < 240
         then r\<lparr>hdr_TargetID := ucast (pgn AND 0xFF), hdr_PGN := pgn AND 0xFFF00\<rparr>
         else r\<lparr>hdr_TargetID := 255\<rparr>)"

section \<open>The fields of the identifier\<close>

text \<open>The format byte, which both directions branch on.\<close>

definition pdu_format :: "u32 \<Rightarrow> u8" where
  "pdu_format pgn = ucast (drop_bit 8 (pgn AND 0xFF00))"

definition pdu1 :: "u32 \<Rightarrow> bool" where
  "pdu1 pgn \<longleftrightarrow> pdu_format pgn < 240"

lemma canid_masks:
  "(0xFF00 :: u32) = push_bit 8 (mask 8)" "(0xFFF00 :: u32) = push_bit 8 (mask 12)"
  "(0x3FFFF00 :: u32) = push_bit 8 (mask 18)" "(0x1C000000 :: u32) = push_bit 26 (mask 3)"
  "(0x80000000 :: u32) = push_bit 31 1" "(0xFF :: u32) = mask 8"
  by (simp_all add: mask_numeral)

lemmas canid_bits =
  canid_masks bit_simps bit_push_bit_iff bit_drop_bit_eq bit_mask_iff bit_and_iff bit_or_iff
  bit_ucast_iff bit_1_iff

lemma pdu_format_bit: "bit (pdu_format x) n \<longleftrightarrow> n < 8 \<and> bit x (n + 8)"
  by (auto simp: pdu_format_def canid_bits ac_simps dest: bit_imp_le_length)

lemma pdu_format_cong:
  assumes "\<And>n. n < 8 \<Longrightarrow> bit x (n + 8) = bit y (n + 8)"
  shows "pdu_format x = pdu_format y"
  by (rule bit_word_eqI) (simp add: pdu_format_bit assms)


text \<open>The PGN part as it is placed into the identifier.\<close>

definition addressed_pgn :: "u32 \<Rightarrow> u8 \<Rightarrow> u32" where
  "addressed_pgn pgn d = (if pdu1 pgn then (pgn AND 0xFFF00) OR ucast d else pgn)"

lemma CanIDFromData_eq:
  "CanIDFromData pgn s p d =
     ucast s OR push_bit 8 (addressed_pgn pgn d) OR push_bit 26 (ucast p) OR 0x80000000"
  by (simp add: CanIDFromData_def addressed_pgn_def pdu1_def pdu_format_def Let_def or.assoc)

lemma addressed_pgn_small: "pgn < 2 ^ 18 \<Longrightarrow> 18 \<le> n \<Longrightarrow> \<not> bit (addressed_pgn pgn d) n"
  using small_word_bits[of pgn 18 n]
  by (simp add: addressed_pgn_def canid_bits impossible_bit)

lemma bit_eff_flag: "bit (0x80000000 :: int) n \<longleftrightarrow> n = 31"
proof -
  have "bit ((2 :: int) ^ 31) n \<longleftrightarrow> n = 31"
    unfolding bit_exp_iff by auto
  then show ?thesis by simp
qed

lemma bit_CanIDFromData:
  "bit (CanIDFromData pgn s p d) n \<longleftrightarrow>
     n < 32 \<and> (bit s n \<or> (8 \<le> n \<and> bit (addressed_pgn pgn d) (n - 8)) \<or>
       (26 \<le> n \<and> bit p (n - 26)) \<or> n = 31)"
proof (cases "n < 32")
  case True
  then have "n - 26 < 32" by simp
  with True show ?thesis
    by (simp add: CanIDFromData_eq bit_or_iff bit_push_bit_iff bit_ucast_iff bit_eff_flag)
next
  case False
  then show ?thesis by (simp add: impossible_bit)
qed

lemma pdu_format_addressed [simp]: "pdu_format (addressed_pgn pgn d) = pdu_format pgn"
  by (rule pdu_format_cong)
     (auto simp: addressed_pgn_def canid_bits dest: bit_imp_le_length)

definition id_pgn :: "u32 \<Rightarrow> u32" where
  "id_pgn i = drop_bit 8 (i AND 0x3FFFF00)"

definition id_priority :: "u32 \<Rightarrow> u8" where
  "id_priority i = ucast (drop_bit 26 (i AND 0x1C000000))"

lemma bit_id_pgn: "bit (id_pgn i) n \<longleftrightarrow> n < 18 \<and> bit i (n + 8)"
  by (auto simp: id_pgn_def canid_bits impossible_bit ac_simps)

lemma bit_id_priority: "bit (id_priority i) n \<longleftrightarrow> n < 3 \<and> bit i (n + 26)"
  by (auto simp: id_priority_def canid_bits impossible_bit ac_simps)

lemma DecodeCanID_eq:
  "DecodeCanID now i =
     \<lparr>hdr_TimeStamp = now, hdr_SourceID = ucast i,
      hdr_PGN = (if pdu1 (id_pgn i) then id_pgn i AND 0xFFF00 else id_pgn i),
      hdr_Priority = id_priority i,
      hdr_TargetID = (if pdu1 (id_pgn i) then ucast (id_pgn i) else 255)\<rparr>"
proof -
  have *: "ucast (x AND 0xFF) = (ucast x :: u8)" for x :: u32
    by (rule bit_word_eqI) (auto simp: canid_bits)
  show ?thesis
    unfolding DecodeCanID_def Let_def pdu1_def pdu_format_def * id_pgn_def[symmetric]
      id_priority_def[symmetric]
    by simp
qed

lemma CanIDFromData_source: "ucast (CanIDFromData pgn s p d) = s"
  by (rule bit_word_eqI) (simp add: bit_ucast_iff bit_CanIDFromData)

lemma CanIDFromData_priority:
  assumes "pgn < 2 ^ 18" and "p < 8"
  shows "id_priority (CanIDFromData pgn s p d) = p"
proof (rule bit_word_eqI)
  fix n assume n: "n < LENGTH(8)"
  have p: "\<not> bit p n" if "3 \<le> n"
    using small_word_bits[of p 3 n] assms(2) that by simp
  show "bit (id_priority (CanIDFromData pgn s p d)) n = bit p n"
    using addressed_pgn_small[OF assms(1)] n p
    by (cases "n < 3") (auto simp: bit_id_priority bit_CanIDFromData impossible_bit)
qed

lemma CanIDFromData_pgn:
  assumes "pgn < 2 ^ 18"
  shows "id_pgn (CanIDFromData pgn s p d) = addressed_pgn pgn d"
proof (rule bit_word_eqI)
  fix n assume "n < LENGTH(32)"
  then show "bit (id_pgn (CanIDFromData pgn s p d)) n = bit (addressed_pgn pgn d) n"
    using addressed_pgn_small[OF assms]
    by (cases "n < 18") (auto simp: bit_id_pgn bit_CanIDFromData impossible_bit)
qed

lemma pdu1_addressed [simp]: "pdu1 (addressed_pgn pgn d) = pdu1 pgn"
  by (simp add: pdu1_def)

lemma addressed_pgn_base: "addressed_pgn pgn d AND 0xFFF00 = pgn AND 0xFFF00"
  by (rule bit_word_eqI) (auto simp: addressed_pgn_def canid_bits impossible_bit)

lemma addressed_pgn_target: "pdu1 pgn \<Longrightarrow> ucast (addressed_pgn pgn d) = d"
  by (rule bit_word_eqI) (auto simp: addressed_pgn_def canid_bits)

section \<open>Both directions\<close>

lemma DecodeCanID_CanIDFromData:
  assumes "pgn < 2 ^ 18" and "p < 8"
  shows "DecodeCanID now (CanIDFromData pgn s p d) =
     \<lparr>hdr_TimeStamp = now, hdr_SourceID = s,
      hdr_PGN = (if pdu1 pgn then pgn AND 0xFFF00 else pgn), hdr_Priority = p,
      hdr_TargetID = (if pdu1 pgn then d else 255)\<rparr>"
proof -
  have "addressed_pgn pgn d = pgn" if "\<not> pdu1 pgn"
    using that by (simp add: addressed_pgn_def)
  then show ?thesis
    using assms addressed_pgn_base[of pgn d] addressed_pgn_target[of pgn d]
    by (simp add: DecodeCanID_eq CanIDFromData_pgn CanIDFromData_priority CanIDFromData_source)
qed

lemma bit_29_id:
  fixes i :: u32
  assumes "i AND 0xE0000000 = 0x80000000" and "29 \<le> n"
  shows "bit i n \<longleftrightarrow> n = 31"
proof (cases "n < 32")
  case True
  have "bit (i AND push_bit 29 (mask 3)) n = bit (0x80000000 :: u32) n"
    using assms(1) by (simp add: mask_numeral)
  with True assms(2) show ?thesis
    by (auto simp: bit_simps bit_eff_flag)
qed (use assms(2) in \<open>simp add: impossible_bit\<close>)

lemma addressed_pgn_decoded:
  "addressed_pgn (hdr_PGN (DecodeCanID now i)) (hdr_TargetID (DecodeCanID now i)) = id_pgn i"
proof (cases "pdu1 (id_pgn i)")
  case True
  have "pdu_format (id_pgn i AND 0xFFF00) = pdu_format (id_pgn i)"
    by (rule pdu_format_cong) (auto simp: canid_bits)
  then have f: "pdu1 (id_pgn i AND 0xFFF00)"
    using True by (simp add: pdu1_def)
  have "(id_pgn i AND 0xFFF00) OR ucast (ucast (id_pgn i) :: u8) = id_pgn i"
    by (rule bit_word_eqI) (auto simp: canid_bits bit_id_pgn)
  with True f show ?thesis
    by (simp add: DecodeCanID_eq addressed_pgn_def and.assoc)
qed (simp add: DecodeCanID_eq addressed_pgn_def)

lemma CanIDFromData_DecodeCanID:
  assumes "i AND 0xE0000000 = 0x80000000"
  shows "CanIDFromData (hdr_PGN (DecodeCanID now i)) (hdr_SourceID (DecodeCanID now i))
           (hdr_Priority (DecodeCanID now i)) (hdr_TargetID (DecodeCanID now i)) = i"
proof (rule bit_word_eqI)
  fix n assume n: "n < LENGTH(32)"
  show "bit (CanIDFromData (hdr_PGN (DecodeCanID now i)) (hdr_SourceID (DecodeCanID now i))
           (hdr_Priority (DecodeCanID now i)) (hdr_TargetID (DecodeCanID now i))) n = bit i n"
    unfolding bit_CanIDFromData addressed_pgn_decoded
    using n bit_29_id[OF assms, of n]
    by (cases "29 \<le> n"; cases "26 \<le> n") (auto simp: DecodeCanID_eq bit_ucast_iff bit_id_pgn bit_id_priority)
qed

section \<open>Properties\<close>

text \<open>
  Claim C32. Encoding then decoding an identifier gives the message's own fields back: for a
  PGN of 18 bits and a priority of 3 bits the source and the priority are kept, a PDU1
  message keeps its destination (the low byte of its PGN is dropped, it carries the
  destination), a PDU2 message keeps its whole PGN and is addressed to everyone.
\<close>

theorem canid_encode_decode:
  assumes "cid_PGN data < 2 ^ 18" and "cid_Priority data < 8"
  shows "DecodeCanID now (CanIDFromStruct data) =
     \<lparr>hdr_TimeStamp = now, hdr_SourceID = cid_SourceID data,
      hdr_PGN = (if pdu1 (cid_PGN data) then cid_PGN data AND 0xFFF00 else cid_PGN data),
      hdr_Priority = cid_Priority data,
      hdr_TargetID = (if pdu1 (cid_PGN data) then cid_Destination data else 255)\<rparr>"
  using assms unfolding CanIDFromStruct_def by (rule DecodeCanID_CanIDFromData)

theorem canid_encode_decode_witness:
  "DecodeCanID 0 (CanIDFromStruct
      \<lparr>cid_PGN = 59904, cid_SourceID = 17, cid_Priority = 6, cid_Destination = 42\<rparr>) =
    \<lparr>hdr_TimeStamp = 0, hdr_SourceID = 17, hdr_PGN = 59904, hdr_Priority = 6, hdr_TargetID = 42\<rparr>"
  using canid_encode_decode[of
      "\<lparr>cid_PGN = 59904, cid_SourceID = 17, cid_Priority = 6, cid_Destination = 42\<rparr>" "0"]
  by (simp add: pdu1_def pdu_format_def)

text \<open>
  Decoding loses nothing: re-encoding the header of any extended identifier (bit
  31 set, bits 29 and 30 clear) gives the identifier back, so distinct identifiers have
  distinct headers.
\<close>

theorem canid_decode_encode:
  assumes "i AND 0xE0000000 = 0x80000000"
  shows "CanIDFromStruct \<lparr>cid_PGN = hdr_PGN (DecodeCanID now i),
      cid_SourceID = hdr_SourceID (DecodeCanID now i),
      cid_Priority = hdr_Priority (DecodeCanID now i),
      cid_Destination = hdr_TargetID (DecodeCanID now i)\<rparr> = i"
  using CanIDFromData_DecodeCanID[OF assms] by (simp add: CanIDFromStruct_def)

theorem canid_decode_encode_witness:
  "CanIDFromStruct \<lparr>cid_PGN = hdr_PGN (DecodeCanID 0 0x98EA2A11),
      cid_SourceID = hdr_SourceID (DecodeCanID 0 0x98EA2A11),
      cid_Priority = hdr_Priority (DecodeCanID 0 0x98EA2A11),
      cid_Destination = hdr_TargetID (DecodeCanID 0 0x98EA2A11)\<rparr> = 0x98EA2A11"
  by (rule canid_decode_encode) simp

end
