(* ===== verification/Canadapter.thy ===== *)
theory Canadapter
  imports Canid Fastmessage
begin

text \<open>
  The CAN adapter (\<open>internal/adapter/canadapter/canadapter.go\<close>): received frames become
  packets, a message to be sent becomes one frame or, for a fast PGN, the frames of a
  fast-packet message under a sequence number kept for each source and PGN. The packet handler
  and the frame writer are other components: the adapter's state says whether they are set, and
  its operations return what is handed to them, in order. Log output and the lock around the
  writer are left out.
\<close>

section \<open>State\<close>

text \<open>The fields of a \<open>can.Frame\<close> the code reads and writes; the data array has 8 bytes.\<close>

record Frame =
  frame_ID :: u32
  frame_Length :: u8
  frame_Data :: bytes

datatype message = FrameMessage Frame | OtherMessage

record CANAdapter =
  multi :: MultiBuilder
  handler :: bool
  frameWriter :: bool
  seqIDMap :: "u8 \<rightharpoonup> (u32 \<rightharpoonup> u8)"

definition NewCANAdapter :: CANAdapter where
  "NewCANAdapter = \<lparr>multi = NewMultiBuilder, handler = False, frameWriter = False,
     seqIDMap = Map.empty\<rparr>"

definition SetWriter :: "CANAdapter \<Rightarrow> bool \<Rightarrow> CANAdapter" where
  "SetWriter c w = c\<lparr>frameWriter := w\<rparr>"

definition SetOutput :: "CANAdapter \<Rightarrow> bool \<Rightarrow> CANAdapter" where
  "SetOutput c h = c\<lparr>handler := h\<rparr>"

section \<open>Receiving\<close>

definition ExtractMessageInfo :: "gotime \<Rightarrow> Frame \<Rightarrow> MessageInfo" where
  "ExtractMessageInfo now f =
     (let h = DecodeCanID now (frame_ID f)
      in \<lparr>Timestamp = hdr_TimeStamp h, Priority = hdr_Priority h, PGN = hdr_PGN h,
          SourceId = hdr_SourceID h, TargetId = hdr_TargetID h\<rparr>)"

definition packetReady :: "CANAdapter \<Rightarrow> Packet \<Rightarrow> Packet list" where
  "packetReady c p = (if handler c then [p] else [])"

text \<open>\<open>None\<close> is a run-time panic in the builder.\<close>

definition HandleMessage :: "gotime \<Rightarrow> CANAdapter \<Rightarrow> message \<Rightarrow> (CANAdapter \<times> Packet list) option" where
  "HandleMessage now c msg =
     (case msg of
        OtherMessage \<Rightarrow> Some (c, [])
      | FrameMessage f \<Rightarrow>
          (let p = NewPacket (ExtractMessageInfo now f) (frame_Data f)
           in if ParseErrors p \<noteq> [] then Some (c, packetReady c p)
              else if IsFast (PGN (Info p))
              then (case Add (multi c) p of None \<Rightarrow> None
                    | Some (m, p) \<Rightarrow>
                        (let c = c\<lparr>multi := m\<rparr>
                         in Some (c, if Complete p then packetReady c p else [])))
              else (let p = p\<lparr>Complete := True\<rparr> in Some (c, packetReady c p))))"

text \<open>Frames in the order they arrive, each with the clock reading of its decoding.\<close>

fun run_adapter :: "CANAdapter \<Rightarrow> (gotime \<times> message) list \<Rightarrow> (CANAdapter \<times> Packet list) option" where
  "run_adapter c [] = Some (c, [])"
| "run_adapter c ((now, msg) # msgs) =
     (case HandleMessage now c msg of None \<Rightarrow> None
      | Some (c, ps) \<Rightarrow>
          (case run_adapter c msgs of None \<Rightarrow> None
           | Some (c, ps') \<Rightarrow> Some (c, ps @ ps')))"

section \<open>Sending\<close>

definition calcFramesRequired :: "nat \<Rightarrow> nat" where
  "calcFramesRequired len =
     (if len \<le> 6 then 0
      else (let count = (len - 6) div 7
            in if (len - 6) mod 7 > 0 then count + 1 else count))"

text \<open>
  The inner loop of \<open>sendFast\<close>, entered with an offset of 1 or 2: it writes the bytes of the
  data, then \<open>0xFF\<close>, up to the end of the 8-byte buffer. It returns the index reached.
\<close>

function fill_buffer :: "bytes \<Rightarrow> nat \<Rightarrow> nat \<Rightarrow> bytes \<Rightarrow> nat \<times> bytes" where
  "fill_buffer data index offset buffer =
     (if offset \<ge> 8 then (index, buffer)
      else fill_buffer data (index + 1) (offset + 1)
        (buffer[offset := (if index \<ge> length data then 0xFF else data ! index)]))"
  by pat_completeness auto
termination by (relation "measure (\<lambda>(_, _, offset, _). 8 - offset)") auto

declare fill_buffer.simps [simp del]

text \<open>The outer loop, over the frame numbers; the buffer is the same array all along.\<close>

fun send_frames :: "u32 \<Rightarrow> u8 \<Rightarrow> bytes \<Rightarrow> nat list \<Rightarrow> nat \<Rightarrow> bytes \<Rightarrow> Frame list" where
  "send_frames canID seqID data [] index buffer = []"
| "send_frames canID seqID data (frameNum # frameNums) index buffer =
     (let buffer = buffer[0 := push_bit 5 seqID OR of_nat frameNum];
          (buffer, offset) =
            (if frameNum = 0 then (buffer[1 := of_nat (length data)], 2) else (buffer, 1));
          (index, buffer) = fill_buffer data index offset buffer
      in \<lparr>frame_ID = canID, frame_Length = 8, frame_Data = buffer\<rparr>
           # send_frames canID seqID data frameNums index buffer)"

definition next_seq :: "CANAdapter \<Rightarrow> u8 \<Rightarrow> u32 \<Rightarrow> u8" where
  "next_seq c src pgn = (case inner (seqIDMap c) src pgn of None \<Rightarrow> 0 | Some i \<Rightarrow> i)"

definition sendFast :: "CANAdapter \<Rightarrow> u8 \<Rightarrow> u32 \<Rightarrow> u32 \<Rightarrow> bytes
    \<Rightarrow> (goerror + unit) \<times> CANAdapter \<times> Frame list" where
  "sendFast c sourceID pgnNum canID data =
     (let total = length data; framesRequired = calcFramesRequired total
      in if framesRequired > MaxFrameNum
         then (Inl (''exceeds maximum data length for Fast PGN (223): '' @ decimal total), c, [])
         else
           (let seqID = next_seq c sourceID pgnNum;
                nextID = (seqID + 1) mod 7;
                c' = c\<lparr>seqIDMap := (seqIDMap c)(sourceID \<mapsto>
                       (inner (seqIDMap c) sourceID)(pgnNum \<mapsto> nextID))\<rparr>;
                fs = send_frames canID seqID data [0..<framesRequired + 1] 0 (replicate 8 0)
            in (Inr (), c', if frameWriter c then fs else [])))"

definition sendSingle :: "CANAdapter \<Rightarrow> u32 \<Rightarrow> bytes \<Rightarrow> (goerror + unit) \<times> CANAdapter \<times> Frame list" where
  "sendSingle c canID data =
     (if length data > 8
      then (Inl (''attempt to send single PGN with data length '' @ decimal (length data)
              @ ''; max is 8''), c, [])
      else (Inr (), c,
        if frameWriter c
        then [\<lparr>frame_ID = canID, frame_Length = of_nat (length data),
               frame_Data = data @ replicate (8 - length data) 0xFF\<rparr>]
        else []))"

definition WritePgn :: "CANAdapter \<Rightarrow> MessageInfo \<Rightarrow> bytes
    \<Rightarrow> (goerror + unit) \<times> CANAdapter \<times> Frame list" where
  "WritePgn c info data =
     (let canID = CanIDFromStruct \<lparr>cid_PGN = PGN info, cid_SourceID = SourceId info,
                    cid_Priority = Priority info, cid_Destination = TargetId info\<rparr>
      in if IsFast (PGN info) then sendFast c (SourceId info) (PGN info) canID data
         else sendSingle c canID data)"

section \<open>The frames that are sent\<close>

lemma fill_buffer_spec:
  assumes "offset \<le> 8" and "length buffer = 8"
  shows "fill_buffer data index offset buffer =
    (index + (8 - offset), take offset buffer @ map (fill 0xFF data) [index..<index + (8 - offset)])"
  using assms
proof (induction data index offset buffer rule: fill_buffer.induct)
  case (1 data index offset buffer)
  show ?case
  proof (cases "offset \<ge> 8")
    case True
    with 1 show ?thesis by (subst fill_buffer.simps) simp
  next
    case False
    let ?b = "if index \<ge> length data then 0xFF else data ! index"
    have "take (Suc offset) (buffer[offset := ?b]) = take offset buffer @ [fill 0xFF data index]"
      using False 1(3) by (auto simp: take_Suc_conv_app_nth fill_def)
    moreover have "[index..<index + (8 - offset)] = index # [index + 1..<index + (8 - offset)]"
      using False by (simp add: upt_conv_Cons)
    moreover have "index + 1 + (8 - (offset + 1)) = index + (8 - offset)" using False by simp
    ultimately show ?thesis
      using 1 False by (subst fill_buffer.simps) (simp del: upt_Suc)
  qed
qed

lemma calcFramesRequired_eq: "calcFramesRequired n = n div 7"
proof (cases "n \<le> 6")
  case False
  then obtain m where "n = m + 6" by (metis le_add_diff_inverse2 nat_le_linear)
  moreover define q r where "q = m div 7" and "r = m mod 7"
  ultimately have n: "n - 6 = 7 * q + r" "r < 7" "n = 7 * q + (r + 6)" by simp_all
  have "n div 7 = q + (r + 6) div 7" unfolding n(3) by simp
  moreover have "(r + 6) div 7 = (if r > 0 then 1 else 0)" using n(2) by (auto simp: div_if)
  ultimately show ?thesis
    using False n by (simp add: calcFramesRequired_def q_def[symmetric] r_def[symmetric])
qed (simp add: calcFramesRequired_def)

lemma send_frames_spec:
  assumes "length buffer = 8" and "index = (if k = 0 then 0 else 7 * k - 1)"
  shows "send_frames canID sid data [k..<m] index buffer =
    map (\<lambda>k. \<lparr>frame_ID = canID, frame_Length = 8, frame_Data = frame_of 0xFF sid data k\<rparr>) [k..<m]"
  using assms
proof (induction "m - k" arbitrary: k index buffer)
  case (Suc n)
  let ?b = "buffer[0 := push_bit 5 sid OR of_nat k]"
  let ?b' = "if k = 0 then ?b[1 := of_nat (length data)] else ?b"
  let ?o = "if k = 0 then 2 else 1 :: nat"
  have "fill_buffer data index ?o ?b' = (7 * Suc k - 1, frame_of 0xFF sid data k)"
  proof -
    have "take ?o ?b' @ map (fill 0xFF data) [index..<index + (8 - ?o)] = frame_of 0xFF sid data k"
      using Suc.prems by (cases buffer; cases "tl buffer") (auto simp: frame_of_def payload_def add.commute)
    moreover have "index + (8 - ?o) = 7 * Suc k - 1" using Suc.prems by auto
    moreover have "fill_buffer data index ?o ?b' =
      (index + (8 - ?o), take ?o ?b' @ map (fill 0xFF data) [index..<index + (8 - ?o)])"
      using Suc.prems by (intro fill_buffer_spec) auto
    ultimately show ?thesis by simp
  qed
  moreover have "[k..<m] = k # [Suc k..<m]" using Suc.hyps(2) by (simp add: upt_conv_Cons)
  ultimately show ?case
    using Suc.hyps(1)[of "Suc k" "frame_of 0xFF sid data k" "7 * Suc k - 1"] Suc.hyps(2)
    by (cases "k = 0") (simp_all add: length_frame_of)
qed simp

definition fast_frames :: "u8 \<Rightarrow> u32 \<Rightarrow> u8 \<Rightarrow> bytes \<Rightarrow> Frame list" where
  "fast_frames pd canID sid data =
     map (\<lambda>k. \<lparr>frame_ID = canID, frame_Length = 8, frame_Data = frame_of pd sid data k\<rparr>)
       [0..<length data div 7 + 1]"

lemma sendFast_eq:
  "sendFast c src pgn canID data =
     (if length data > 223
      then (Inl (''exceeds maximum data length for Fast PGN (223): '' @ decimal (length data)), c, [])
      else (Inr (), c\<lparr>seqIDMap := (seqIDMap c)(src \<mapsto>
               (inner (seqIDMap c) src)(pgn \<mapsto> (next_seq c src pgn + 1) mod 7))\<rparr>,
            if frameWriter c then fast_frames 0xFF canID (next_seq c src pgn) data else []))"
proof -
  have "calcFramesRequired (length data) > MaxFrameNum \<longleftrightarrow> length data > 223"
    by (simp add: calcFramesRequired_eq MaxFrameNum_def) presburger
  then show ?thesis
    by (simp add: sendFast_def Let_def send_frames_spec calcFramesRequired_eq fast_frames_def
        del: upt_Suc)
qed

section \<open>From the sender to the receiver\<close>

text \<open>Every stored sequence number is below 7, and so is the one used next.\<close>

definition seq_ids_ok :: "CANAdapter \<Rightarrow> bool" where
  "seq_ids_ok c \<longleftrightarrow> (\<forall>src pgn i. inner (seqIDMap c) src pgn = Some i \<longrightarrow> i < 7)"

lemma next_seq_lt: "seq_ids_ok c \<Longrightarrow> next_seq c src pgn < 7"
  by (auto simp: seq_ids_ok_def next_seq_def split: option.splits)

lemma mod_7_lt: "(x :: u8) mod 7 < 7"
  by (simp add: word_less_nat_alt unat_mod)

interpretation ids: slot_store
  "\<lambda>c (src, pgn). inner (seqIDMap c) src pgn"
  "\<lambda>c (src, pgn) v. c\<lparr>seqIDMap := (seqIDMap c)(src \<mapsto> (inner (seqIDMap c) src)(pgn := v))\<rparr>"
  by unfold_locales (auto simp: inner_def split: prod.splits)

lemma next_seq_sendFast:
  assumes "length data \<le> 223" and "sendFast c src pgn canID data = (r, c', fs)"
  shows "next_seq c' src' pgn' =
    (if src' = src \<and> pgn' = pgn then (next_seq c src pgn + 1) mod 7 else next_seq c src' pgn')"
  using assms ids.look_put[of c "(src, pgn)" "Some ((next_seq c src pgn + 1) mod 7)" "(src', pgn')"]
  by (auto simp: sendFast_eq next_seq_def split: if_splits)

lemma WritePgn_seq_ids_ok:
  assumes "seq_ids_ok c" and "WritePgn c info data = (r, c', fs)"
  shows "seq_ids_ok c'"
proof -
  have "seq_ids_ok (c\<lparr>seqIDMap := (seqIDMap c)(src \<mapsto>
          (inner (seqIDMap c) src)(pgn \<mapsto> i mod 7))\<rparr>)" for src pgn and i :: u8
    using assms(1) mod_7_lt[of i]
    by (fastforce simp: seq_ids_ok_def inner_def split: if_splits option.splits)
  with assms show ?thesis
    by (auto simp: WritePgn_def Let_def sendFast_eq sendSingle_def split: if_splits)
qed

text \<open>
  A message the wire can carry without loss: the PGN has 18 bits and is not 0, the priority 3
  bits; a PDU1 PGN leaves its low byte to the destination, a PDU2 message goes to everyone; the
  data fits. A single frame is received with its padding.
\<close>

definition sendable :: "MessageInfo \<Rightarrow> bytes \<Rightarrow> bool" where
  "sendable info data \<longleftrightarrow> PGN info < 2 ^ 18 \<and> PGN info \<noteq> 0 \<and> Priority info < 8
     \<and> (if pdu1 (PGN info) then PGN info AND 0xFFF00 = PGN info else TargetId info = 255)
     \<and> length data \<le> (if IsFast (PGN info) then 223 else 8)"

definition received_data :: "MessageInfo \<Rightarrow> bytes \<Rightarrow> bytes" where
  "received_data info data =
     (if IsFast (PGN info) then data else data @ replicate (8 - length data) 0xFF)"

fun send_all :: "CANAdapter \<Rightarrow> (MessageInfo \<times> bytes) list \<Rightarrow> CANAdapter \<times> Frame list" where
  "send_all c [] = (c, [])"
| "send_all c ((info, data) # ms) =
     (let (_, c, fs) = WritePgn c info data; (c, fs') = send_all c ms in (c, fs @ fs'))"

definition info_id :: "MessageInfo \<Rightarrow> u32" where
  "info_id info = CanIDFromStruct \<lparr>cid_PGN = PGN info, cid_SourceID = SourceId info,
     cid_Priority = Priority info, cid_Destination = TargetId info\<rparr>"

lemma ExtractMessageInfo_sent:
  assumes "sendable info data" and "frame_ID f = info_id info"
  shows "ExtractMessageInfo now f = info\<lparr>Timestamp := now\<rparr>"
  using assms
  by (simp add: sendable_def ExtractMessageInfo_def info_id_def DecodeCanID_CanIDFromData
      CanIDFromStruct_def Let_def split: if_splits)

definition arrived :: "gotime \<times> Frame \<Rightarrow> Packet" where
  "arrived x = NewPacket (ExtractMessageInfo (fst x) (snd x)) (frame_Data (snd x))"

definition arrivals :: "(gotime \<times> Frame) list \<Rightarrow> (gotime \<times> message) list" where
  "arrivals = map (\<lambda>(now, f). (now, FrameMessage f))"

lemma arrivals_simps [simp]:
  "arrivals [] = []" "arrivals ((now, f) # xs) = (now, FrameMessage f) # arrivals xs"
  "arrivals (xs @ ys) = arrivals xs @ arrivals ys"
  by (simp_all add: arrivals_def)

lemma run_adapter_append:
  "run_adapter c (xs @ ys) =
     (case run_adapter c xs of None \<Rightarrow> None
      | Some (c, ps) \<Rightarrow>
          (case run_adapter c ys of None \<Rightarrow> None | Some (c, qs) \<Rightarrow> Some (c, ps @ qs)))"
  by (induction c xs rule: run_adapter.induct) (simp_all split: option.splits)

text \<open>On frames of fast PGNs the adapter is the builder, and hands on what is complete.\<close>

lemma run_adapter_fast:
  assumes "\<forall>x \<in> set xs. ParseErrors (arrived x) = [] \<and> IsFast (PGN (Info (arrived x)))"
    and "run_builder (multi c) (map arrived xs) = Some (m, qs)" and "handler c"
  shows "run_adapter c (arrivals xs) = Some (c\<lparr>multi := m\<rparr>, filter Complete qs)"
  using assms
proof (induction xs arbitrary: c qs)
  case (Cons x xs)
  obtain now f where x: "x = (now, f)" by (cases x)
  from Cons.prems(2) obtain m1 q qs' where
    a: "Add (multi c) (arrived x) = Some (m1, q)"
       "run_builder m1 (map arrived xs) = Some (m, qs')" "qs = q # qs'"
    by (auto split: option.splits simp del: Add_slot)
  from Cons.IH[of "c\<lparr>multi := m1\<rparr>" qs'] a Cons.prems
  have "run_adapter (c\<lparr>multi := m1\<rparr>) (arrivals xs) = Some (c\<lparr>multi := m\<rparr>, filter Complete qs')"
    by simp
  with a Cons.prems(1,3) show ?case
    by (simp add: x arrived_def HandleMessage_def Let_def packetReady_def)
qed simp

lemma WritePgn_sendable:
  assumes "sendable info data" and "frameWriter c"
  shows "WritePgn c info data =
    (if IsFast (PGN info)
     then (Inr (), c\<lparr>seqIDMap := (seqIDMap c)(SourceId info \<mapsto>
             (inner (seqIDMap c) (SourceId info))(PGN info \<mapsto>
                (next_seq c (SourceId info) (PGN info) + 1) mod 7))\<rparr>,
           fast_frames 0xFF (info_id info) (next_seq c (SourceId info) (PGN info)) data)
     else (Inr (), c, [\<lparr>frame_ID = info_id info, frame_Length = of_nat (length data),
             frame_Data = received_data info data\<rparr>]))"
  using assms
  by (auto simp: WritePgn_def sendFast_eq sendSingle_def info_id_def received_data_def sendable_def
      split: if_splits)

definition delivered :: "MessageInfo \<Rightarrow> bytes \<Rightarrow> Packet \<Rightarrow> bool" where
  "delivered info data p \<longleftrightarrow> Info p = info\<lparr>Timestamp := Timestamp (Info p)\<rparr>
     \<and> Data p = received_data info data \<and> Complete p \<and> ParseErrors p = []"

lemma zip_fast_frames:
  assumes "length ts = length data div 7 + 1" and "sendable info data"
  shows "map arrived (zip ts (fast_frames pd (info_id info) sid data)) =
    map (\<lambda>k. frame_pkt pd (info\<lparr>Timestamp := ts ! k\<rparr>) sid data k) (0 # [1..<length data div 7 + 1])"
proof -
  have "0 # [1..<length data div 7 + 1] = [0..<length data div 7 + 1]"
    by (simp add: upt_conv_Cons del: upt_Suc)
  then show ?thesis
    using assms(1)
    by (auto simp: fast_frames_def arrived_def frame_pkt_def ExtractMessageInfo_sent[OF assms(2)]
        intro!: nth_equalityI simp del: upt_Suc)
qed

lemma receive_fast:
  assumes "sendable info data" and "IsFast (PGN info)" and "sid < 8"
    and "handler r" and "mb_inv (multi r)" and "length ts = length data div 7 + 1"
  shows "\<exists>m p. run_adapter r (arrivals (zip ts (fast_frames pd (info_id info) sid data)))
       = Some (r\<lparr>multi := m\<rparr>, [p]) \<and> mb_inv m \<and> delivered info data p"
proof -
  let ?n = "length data div 7" and ?fs = "fast_frames pd (info_id info) sid data"
  let ?info = "\<lambda>k. info\<lparr>Timestamp := ts ! k\<rparr>"
  note z = zip_fast_frames[OF assms(6,1), of pd sid]
  have "length data \<le> 223" using assms(1,2) by (simp add: sendable_def)
  moreover have "\<forall>k. SourceId (?info k) = SourceId info \<and> PGN (?info k) = PGN info" by simp
  moreover have "set [1..<?n + 1] = {1..?n}" by (simp only: set_upt) auto
  ultimately obtain m qs q where r:
    "run_builder (multi r) (map arrived (zip ts ?fs)) = Some (m, qs @ [q])"
    "\<forall>q' \<in> set qs. \<not> Complete q'"
    "q = (seen (frame_pkt pd (?info (last (0 # [1..<?n + 1]))) sid data (last (0 # [1..<?n + 1]))) sid
            (last (0 # [1..<?n + 1])))\<lparr>Data := data, Complete := True\<rparr>"
    using run_message[where sid = sid and d = data and m = "multi r" and info = ?info and src = "SourceId info"
        and pgn = "PGN info" and ks = "[1..<?n + 1]"]
      assms(3,5) distinct_upt[of 1 "?n + 1"] unfolding z by blast
  have "\<forall>x \<in> set (zip ts ?fs). ParseErrors (arrived x) = [] \<and> IsFast (PGN (Info (arrived x)))"
  proof
    fix x assume "x \<in> set (zip ts ?fs)"
    then have "snd x \<in> set ?fs" by (metis set_zip_rightD prod.collapse)
    then have "frame_ID (snd x) = info_id info" "frame_Data (snd x) \<noteq> []"
      by (auto simp: fast_frames_def frame_of_def simp del: upt_Suc)
    with ExtractMessageInfo_sent[OF assms(1), of "snd x" "fst x"] assms(1,2)
    show "ParseErrors (arrived x) = [] \<and> IsFast (PGN (Info (arrived x)))"
      by (simp add: arrived_def NewPacket_errors sendable_def)
  qed
  from run_adapter_fast[OF this r(1) assms(4)] r(2,3)
  have run: "run_adapter r (arrivals (zip ts ?fs)) = Some (r\<lparr>multi := m\<rparr>, [q])" by simp
  have "mb_inv m"
    using mb.run_total[of "multi r" "map arrived (zip ts ?fs)"] assms(5) r(1)
    by (auto simp: mb_inv_all z simp del: upt_Suc)
  moreover have "PGN info \<noteq> 0" "frame_of pd sid data k \<noteq> []" for k
    using assms(1) by (auto simp: sendable_def frame_of_def)
  then have "delivered info data q"
    using assms(2) by (simp add: r(3) delivered_def received_data_def seen_def NewPacket_errors
        frame_pkt_def del: upt_Suc)
  ultimately show ?thesis using run by blast
qed

text \<open>A single frame, whatever follows its data.\<close>

lemma receive_single:
  assumes "frame_ID f = info_id info" and "sendable info data" and "\<not> IsFast (PGN info)"
    and "frame_Data f \<noteq> []" and "handler r"
  shows "\<exists>p. run_adapter r (arrivals [(t, f)]) = Some (r, [p])
     \<and> Info p = info\<lparr>Timestamp := t\<rparr> \<and> Data p = frame_Data f \<and> Complete p \<and> ParseErrors p = []"
  using ExtractMessageInfo_sent[OF assms(2,1), of t] assms(2-5)
  by (intro exI[of _ "(arrived (t, f))\<lparr>Complete := True\<rparr>"])
     (simp add: HandleMessage_def Let_def packetReady_def NewPacket_errors sendable_def arrived_def)

lemma receive_message:
  assumes "sendable info data" and "frameWriter s" and "seq_ids_ok s"
    and "handler r" and "mb_inv (multi r)"
    and "WritePgn s info data = (e, s', fs)" and "length ts = length fs"
  shows "e = Inr () \<and> (\<exists>m p. run_adapter r (arrivals (zip ts fs)) = Some (r\<lparr>multi := m\<rparr>, [p])
     \<and> mb_inv m \<and> delivered info data p)"
proof (cases "IsFast (PGN info)")
  case True
  let ?sid = "next_seq s (SourceId info) (PGN info)"
  from assms(1,2,6) True have e: "e = Inr ()" and fs: "fs = fast_frames 0xFF (info_id info) ?sid data"
    by (simp_all add: WritePgn_sendable)
  have "length ts = length data div 7 + 1" using assms(7) by (simp add: fs fast_frames_def)
  moreover have "?sid < 8" using next_seq_lt[OF assms(3)] by (rule less_trans) simp
  ultimately show ?thesis using receive_fast[OF assms(1) True _ assms(4,5)] e fs by blast
next
  case False
  with assms(1,2,6,7) obtain t f where e: "e = Inr ()" "fs = [f]" "ts = [t]"
    and f: "frame_ID f = info_id info" "frame_Data f = received_data info data"
    by (auto simp: WritePgn_sendable length_Suc_conv)
  have "frame_Data f \<noteq> []" using assms(1) False by (auto simp: f received_data_def)
  from receive_single[OF f(1) assms(1) False this assms(4), of t] e f(2) assms(5)
  show ?thesis by (fastforce simp: delivered_def intro: exI[of _ "multi r"])
qed

lemma WritePgn_frameWriter: "WritePgn c info data = (e, c', fs) \<Longrightarrow> frameWriter c' = frameWriter c"
  by (auto simp: WritePgn_def Let_def sendFast_eq sendSingle_def split: if_splits)

lemma deliver_messages:
  assumes "\<forall>(info, data) \<in> set ms. sendable info data"
    and "frameWriter s" and "seq_ids_ok s" and "handler r" and "mb_inv (multi r)"
    and "send_all s ms = (s', fs)" and "length ts = length fs"
  shows "\<exists>r' ps. run_adapter r (arrivals (zip ts fs)) = Some (r', ps)
     \<and> list_all2 (\<lambda>(info, data) p. delivered info data p) ms ps"
  using assms
proof (induction ms arbitrary: s r fs ts)
  case (Cons x ms)
  obtain info data where x: "x = (info, data)" by (cases x)
  obtain e s1 fs1 where w: "WritePgn s info data = (e, s1, fs1)" by (cases "WritePgn s info data") auto
  obtain fs2 where fs: "send_all s1 ms = (s', fs2)" "fs = fs1 @ fs2"
    using Cons.prems(6) by (auto simp: x w split: prod.splits)
  define ts1 ts2 where ts: "ts1 = take (length fs1) ts" "ts2 = drop (length fs1) ts"
  have l: "length ts1 = length fs1" "length ts2 = length fs2" "ts = ts1 @ ts2"
    using Cons.prems(7) by (auto simp: fs ts)
  obtain m p where r: "run_adapter r (arrivals (zip ts1 fs1)) = Some (r\<lparr>multi := m\<rparr>, [p])"
    "mb_inv m" "delivered info data p"
    using receive_message[OF _ Cons.prems(2-5) w l(1)] Cons.prems(1) by (auto simp: x)
  obtain r' ps where "run_adapter (r\<lparr>multi := m\<rparr>) (arrivals (zip ts2 fs2)) = Some (r', ps)"
    "list_all2 (\<lambda>(info, data) p. delivered info data p) ms ps"
    using Cons.IH[of s1 "r\<lparr>multi := m\<rparr>" fs2 ts2] Cons.prems WritePgn_frameWriter[OF w]
      WritePgn_seq_ids_ok[OF Cons.prems(3) w] fs(1) l(2) r(2) by auto
  with r l show ?case by (simp add: x fs(2) run_adapter_append)
qed simp

section \<open>Properties\<close>

text \<open>
  A fast message is cut exactly as the format says: data of at most 223 bytes goes out
  as the frames \<open>0\<close> to \<open>n div 7\<close> of the message under the current sequence number of its source
  and PGN, which moves on by one modulo 7 while every other one stays; longer data is refused
  with an error, nothing is sent and no sequence number is used up.
\<close>

theorem sendFast_correct:
  "sendFast c src pgn canID data = (r, c', fs) \<Longrightarrow>
     (if length data \<le> 223
      then r = Inr ()
        \<and> fs = (if frameWriter c
                then map (\<lambda>k. \<lparr>frame_ID = canID, frame_Length = 8,
                             frame_Data = frame_of 0xFF (next_seq c src pgn) data k\<rparr>)
                       [0..<length data div 7 + 1]
                else [])
        \<and> (\<forall>src' pgn'. next_seq c' src' pgn' =
              (if src' = src \<and> pgn' = pgn then (next_seq c src pgn + 1) mod 7
               else next_seq c src' pgn'))
      else (\<exists>e. r = Inl e) \<and> c' = c \<and> fs = [])"
  using next_seq_sendFast[of data c src pgn canID r c' fs]
  by (simp add: sendFast_eq fast_frames_def split: if_splits del: upt_Suc) blast

theorem sendFast_correct_witness:
  "\<exists>r c' fs. sendFast NewCANAdapter 1 129029 0x99F80501 [1,2,3,4,5,6,7] = (r, c', fs)
     \<and> r = Inr () \<and> next_seq c' 1 129029 = 1"
proof -
  obtain r c' fs where s: "sendFast NewCANAdapter 1 129029 0x99F80501 [1,2,3,4,5,6,7] = (r, c', fs)"
    by (cases "sendFast NewCANAdapter 1 129029 0x99F80501 [1,2,3,4,5,6,7]") auto
  from sendFast_correct[OF s] s show ?thesis
    by (simp add: next_seq_def NewCANAdapter_def inner_def)
qed

text \<open>
  Claim C1. From one adapter to another: the frames of any sequence of sendable messages, single
  and fast, decoded by an adapter in any state it can be in, are delivered as exactly these
  messages in this order, each complete, without error, with its data (a single frame with its
  padding) and with its own PGN, source, destination and priority.
\<close>

theorem adapters_deliver:
  assumes "\<forall>(info, data) \<in> set ms. sendable info data"
    and "frameWriter s" and "seq_ids_ok s" and "handler r" and "mb_inv (multi r)"
    and "send_all s ms = (s', fs)" and "length ts = length fs"
  shows "\<exists>r' ps. run_adapter r (arrivals (zip ts fs)) = Some (r', ps)
     \<and> list_all2 (\<lambda>(info, data) p. delivered info data p) ms ps"
  using assms by (rule deliver_messages)

text \<open>A fast message and a single one between two fresh adapters.\<close>

definition ex_messages :: "(MessageInfo \<times> bytes) list" where
  "ex_messages =
     [(\<lparr>Timestamp = 0, Priority = 3, PGN = 129029, SourceId = 1, TargetId = 255\<rparr>,
       [1,2,3,4,5,6,7,8,9]),
      (\<lparr>Timestamp = 0, Priority = 6, PGN = 59904, SourceId = 1, TargetId = 42\<rparr>, [0,0xEE,0])]"

lemma ex_messages_sendable: "\<forall>(info, data) \<in> set ex_messages. sendable info data"
proof -
  have "IsFast 129029" "\<not> IsFast 59904" by code_simp+
  then show ?thesis by (simp add: ex_messages_def sendable_def pdu1_def pdu_format_def)
qed

theorem adapters_deliver_witness:
  "\<exists>fs r' ps. snd (send_all (SetWriter NewCANAdapter True) ex_messages) = fs
     \<and> run_adapter (SetOutput NewCANAdapter True) (arrivals (zip (map int [0..<length fs]) fs)) = Some (r', ps)
     \<and> list_all2 (\<lambda>(info, data) p. delivered info data p) ex_messages ps"
proof -
  obtain s' fs where s: "send_all (SetWriter NewCANAdapter True) ex_messages = (s', fs)"
    by (cases "send_all (SetWriter NewCANAdapter True) ex_messages")
  have "\<exists>r' ps. run_adapter (SetOutput NewCANAdapter True)
        (arrivals (zip (map int [0..<length fs]) fs)) = Some (r', ps)
     \<and> list_all2 (\<lambda>(info, data) p. delivered info data p) ex_messages ps"
    by (rule adapters_deliver[OF ex_messages_sendable _ _ _ _ s])
       (simp_all add: SetWriter_def SetOutput_def NewCANAdapter_def mb_inv_new seq_ids_ok_def
          inner_def)
  with s show ?thesis by simp
qed

end
