(* ===== verification/Bitstream.thy ===== *)
theory Bitstream
  imports N2kPrelude
begin

text \<open>
  The bit stream all messages are read from and written to (\<open>internal/pgn/datastream.go\<close>,
  \<open>readdatastream.go\<close> and \<open>writedatastream.go\<close>): a slice of bytes and a cursor of a byte and a
  bit offset. Numbers are read and written least significant bit first.

  A method returns its outcome and the changed stream. \<open>None\<close> stands for a call that does not
  return: a loop that makes no progress, or an index panic. The contract of the two number
  operations is stated over the bits of the slice.
\<close>

section \<open>State\<close>

text \<open>\<open>dcap\<close> is the capacity of the slice, which the write loop tests.\<close>

record DataStream =
  dat :: bytes
  dcap :: nat
  byteOffset :: u16
  bitOffset :: u8

definition NewDataStream :: "bytes \<Rightarrow> nat \<Rightarrow> DataStream" where
  "NewDataStream d c = \<lparr>dat = d, dcap = c, byteOffset = 0, bitOffset = 0\<rparr>"

definition getBitOffset :: "DataStream \<Rightarrow> u32" where
  "getBitOffset s = ucast (byteOffset s) * 8 + ucast (bitOffset s)"

definition resetToStart :: "DataStream \<Rightarrow> DataStream" where
  "resetToStart s = s\<lparr>byteOffset := 0, bitOffset := 0\<rparr>"

definition Position :: "DataStream \<Rightarrow> u16" where
  "Position s = ucast (getBitOffset s)"

definition SetPosition :: "DataStream \<Rightarrow> u16 \<Rightarrow> DataStream" where
  "SetPosition s off = s\<lparr>byteOffset := off div 8, bitOffset := ucast (off mod 8)\<rparr>"

definition bits_left :: "DataStream \<Rightarrow> int" where
  "bits_left s = int (length (dat s) * 8) - int (unat (byteOffset s) * 8 + unat (bitOffset s))"

definition remainingLength :: "DataStream \<Rightarrow> u16" where
  "remainingLength s = of_int (bits_left s)"

text \<open>
  \<open>GetData\<close> slices up to the byte offset. Beyond the length that exposes spare capacity, or
  panics: \<open>None\<close>.
\<close>

definition GetData :: "DataStream \<Rightarrow> bytes option" where
  "GetData s =
     (if unat (byteOffset s) \<le> length (dat s) then Some (take (unat (byteOffset s)) (dat s)) else None)"

definition isEOF :: "DataStream \<Rightarrow> bool" where
  "isEOF s \<longleftrightarrow> byteOffset s = of_nat (length (dat s)) \<and> bitOffset s = 0"

text \<open>The cursor moves by a number of bits; all generated code ignores the error.\<close>

definition forward :: "DataStream \<Rightarrow> u8 \<Rightarrow> DataStream" where
  "forward s g =
     (let b = bitOffset s + g
      in if b \<ge> 8 then s\<lparr>bitOffset := b - 8, byteOffset := byteOffset s + 1\<rparr>
         else s\<lparr>bitOffset := b\<rparr>)"

definition off_end :: "string \<Rightarrow> DataStream \<Rightarrow> goerror" where
  "off_end what s = what @ '' byte('' @ decimal (unat (byteOffset s)) @ '') off end of pgn (len:''
     @ decimal (length (dat s)) @ '')''"

definition skipBits :: "u16 \<Rightarrow> DataStream \<Rightarrow> (goerror + unit) \<times> DataStream" where
  "skipBits bitLength s =
     (let s = s\<lparr>byteOffset := byteOffset s + drop_bit 3 bitLength\<rparr>;
          s = forward s (ucast (bitLength AND 7))
      in if unat (byteOffset s) \<ge> length (dat s) then (Inl (off_end ''reading'' s), s)
         else (Inr (), s))"

section \<open>Reading a number\<close>

partial_function (option) get_loop ::
  "u64 \<Rightarrow> nat \<Rightarrow> u16 \<Rightarrow> DataStream \<Rightarrow> ((goerror + u64) \<times> DataStream) option" where
  "get_loop ret out bitLength s =
     (if bitLength = 0 then Some (Inr ret, s)
      else if unat (byteOffset s) \<ge> length (dat s) then Some (Inl (off_end ''reading'' s), s)
      else (let grab = 8 - bitOffset s;
                grab = (if bitLength < ucast grab then ucast bitLength else grab);
                b = drop_bit (unat (bitOffset s)) (dat s ! unat (byteOffset s));
                b = (if grab < 8 then b AND drop_bit (unat (8 - grab)) 0xFF else b)
            in get_loop (ret OR push_bit out (ucast b)) (out + unat grab)
                 (bitLength - ucast grab) (forward s grab)))"

text \<open>The text prints the remaining bits, which may be negative.\<close>

definition decimal_int :: "int \<Rightarrow> string" where
  "decimal_int i = (if i < 0 then ''-'' @ decimal (nat (- i)) else decimal (nat i))"

definition getNumberRaw :: "u16 \<Rightarrow> (DataStream, u64) step" where
  "getNumberRaw bitLength s =
     (if int (unat bitLength) > bits_left s
      then Some (Inl (''reading '' @ decimal (unat bitLength) @ '' bits off end of pgn (remaining: ''
                  @ decimal_int (bits_left s) @ '' bits)''), s)
      else get_loop 0 0 bitLength s)"

section \<open>Writing a number\<close>

partial_function (option) put_loop ::
  "u64 \<Rightarrow> u16 \<Rightarrow> DataStream \<Rightarrow> ((goerror + unit) \<times> DataStream) option" where
  "put_loop v bitLength s =
     (if bitLength = 0 then Some (Inr (), s)
      else if unat (byteOffset s) \<ge> dcap s
      then Some (Inl (''attempt to write byte('' @ decimal (unat (byteOffset s))
                   @ '') off end of pgn (len:'' @ decimal (dcap s) @ '')''), s)
      else (let startBit = bitOffset s; bitsLeft = 8 - startBit;
                bitsToWrite = (if bitLength < ucast bitsLeft then ucast bitLength else bitsLeft);
                mask = drop_bit (unat (8 - bitsToWrite)) 0xFF;
                outByte = ucast v AND mask;
                outByte = (if bitsToWrite \<le> bitsLeft then push_bit (unat startBit) outByte else outByte);
                i = unat (byteOffset s)
            in if i \<ge> length (dat s) then None
               else put_loop (drop_bit (unat bitsToWrite) v) (bitLength - ucast bitsToWrite)
                 (forward (s\<lparr>dat := (dat s)[i := dat s ! i OR outByte]\<rparr>) bitsToWrite)))"

definition putNumberRaw :: "u64 \<Rightarrow> u16 \<Rightarrow> u16 \<Rightarrow> (DataStream, unit) step" where
  "putNumberRaw v bitLength off s =
     (if getBitOffset s \<noteq> ucast off \<and> off \<noteq> 0
      then Some (Inl (''attempt to write field at wrong offset in putNumberRaw: ''
              @ decimal (unat (getBitOffset s)) @ '', '' @ decimal (unat off)), s)
      else put_loop v bitLength s)"

definition writeReserved :: "u16 \<Rightarrow> u16 \<Rightarrow> (DataStream, unit) step" where
  "writeReserved bitLength off = putNumberRaw 0xFFFFFFFFFFFFFFFF bitLength off"

definition writeSpare :: "u16 \<Rightarrow> u16 \<Rightarrow> (DataStream, unit) step" where
  "writeSpare bitLength off = putNumberRaw 0 bitLength off"

section \<open>The bits of a stream\<close>

text \<open>Bit \<open>i\<close> of the slice, the cursor in bits, and the number that \<open>n\<close> bits from \<open>i\<close> on encode.\<close>

definition dbit :: "bytes \<Rightarrow> nat \<Rightarrow> bool" where
  "dbit d i = bit (d ! (i div 8)) (i mod 8)"

definition cursor :: "DataStream \<Rightarrow> nat" where
  "cursor s = 8 * unat (byteOffset s) + unat (bitOffset s)"

definition wire_bits :: "bytes \<Rightarrow> nat \<Rightarrow> nat \<Rightarrow> u64" where
  "wire_bits d i n = horner_sum of_bool 2 (map (dbit d) [i..<i + n])"

definition stream_ok :: "DataStream \<Rightarrow> bool" where
  "stream_ok s \<longleftrightarrow> bitOffset s < 8 \<and> length (dat s) < 65536 \<and> length (dat s) \<le> dcap s
     \<and> cursor s \<le> 8 * length (dat s)"

definition at_bit :: "DataStream \<Rightarrow> nat \<Rightarrow> DataStream" where
  "at_bit s i = s\<lparr>byteOffset := of_nat (i div 8), bitOffset := of_nat (i mod 8)\<rparr>"

lemma bit_wire_bits: "bit (wire_bits d i n) k \<longleftrightarrow> k < 64 \<and> k < n \<and> dbit d (i + k)"
  by (auto simp: wire_bits_def bit_horner_sum_bit_word_iff)

lemma cursor_at_bit:
  "i < 8 * 65536 \<Longrightarrow> cursor (at_bit s i) = i"
  by (simp add: cursor_def at_bit_def unat_of_nat less_mult_imp_div_less)

lemma at_bit_simps [simp]:
  "dat (at_bit s i) = dat s" "dcap (at_bit s i) = dcap s" "at_bit (at_bit s i) j = at_bit s j"
  by (simp_all add: at_bit_def)

lemma at_bit_cursor [simp]: "bitOffset s < 8 \<Longrightarrow> at_bit s (cursor s) = s"
  by (cases s) (simp add: cursor_def at_bit_def word_less_nat_alt)

lemma stream_ok_at_bit:
  "stream_ok s \<Longrightarrow> i \<le> 8 * length (dat s) \<Longrightarrow> stream_ok (at_bit s i)"
  by (auto simp: stream_ok_def cursor_at_bit)
     (simp add: at_bit_def word_less_nat_alt unat_of_nat)

text \<open>The step of both loops: as many bits as the current byte has left, at most \<open>n\<close>.\<close>

definition step_bits :: "DataStream \<Rightarrow> u16 \<Rightarrow> u8" where
  "step_bits s n = (if n < ucast (8 - bitOffset s) then ucast n else 8 - bitOffset s)"

lemma step_bits:
  assumes "bitOffset s < 8"
  shows "unat (step_bits s n) = min (unat n) (8 - unat (bitOffset s))"
proof -
  have a: "unat (8 - bitOffset s) = 8 - unat (bitOffset s)"
    using assms by (simp add: unat_sub word_le_nat_alt word_less_nat_alt)
  have c: "unat (ucast (8 - bitOffset s) :: u16) = 8 - unat (bitOffset s)"
    by (simp add: unat_ucast_up a)
  show ?thesis
  proof (cases "n < ucast (8 - bitOffset s)")
    case True
    then have "unat n < 8 - unat (bitOffset s)" by (simp add: word_less_nat_alt c)
    moreover from this have "unat (ucast n :: u8) = unat n"
      by (simp add: unsigned_ucast_eq take_bit_nat_eq_self)
    ultimately show ?thesis using True by (simp add: step_bits_def)
  next
    case False
    then show ?thesis using a c by (simp add: step_bits_def word_less_nat_alt)
  qed
qed

lemma forward_at_bit:
  assumes "bitOffset s < 8" and "unat g \<le> 8 - unat (bitOffset s)"
  shows "forward s g = at_bit s (cursor s + unat g)"
proof -
  have u: "unat (bitOffset s + g) = unat (bitOffset s) + unat g"
    using assms by (subst unat_word_ariths) (simp add: word_less_nat_alt)
  have div: "(cursor s + unat g) div 8 = unat (byteOffset s) + (unat (bitOffset s) + unat g) div 8"
    and mod: "(cursor s + unat g) mod 8 = (unat (bitOffset s) + unat g) mod 8"
    by (simp_all add: cursor_def add.assoc)
  show ?thesis
  proof (cases "unat (bitOffset s) + unat g = 8")
    case True
    then have "bitOffset s + g = 8" by (intro word_unat_eq_iff[THEN iffD2]) (simp add: u)
    with True div mod show ?thesis by (simp add: forward_def at_bit_def)
  next
    case False
    then have l: "unat (bitOffset s) + unat g < 8" using assms by (simp add: word_less_nat_alt)
    then have "\<not> bitOffset s + g \<ge> 8" by (simp add: word_le_nat_alt u)
    moreover have "of_nat (unat (bitOffset s) + unat g) = bitOffset s + g" by simp
    ultimately show ?thesis using l div mod by (simp add: forward_def at_bit_def)
  qed
qed

lemma step_bits_pos: "bitOffset s < 8 \<Longrightarrow> n \<noteq> 0 \<Longrightarrow> 0 < unat (step_bits s n)"
  using unat_gt_0[of n] by (simp add: step_bits word_less_nat_alt)

lemma low_bits_mask:
  assumes "unat g \<le> 8"
  shows "drop_bit (unat (8 - g :: u8)) 0xFF = (mask (unat g) :: u8)"
proof -
  have u: "unat (8 - g) = 8 - unat g" using assms by (simp add: unat_sub word_le_nat_alt)
  have m: "(0xFF :: u8) = mask 8" by (simp add: mask_numeral)
  show ?thesis
    unfolding m u using assms by (intro bit_word_eqI) (auto simp: bit_simps)
qed

lemma dbit_cursor:
  "unat (bitOffset s) + k < 8 \<Longrightarrow>
     dbit d (cursor s + k) = bit (d ! unat (byteOffset s)) (unat (bitOffset s) + k)"
  by (simp add: dbit_def cursor_def add.assoc)

lemma grab_wire_bits:
  assumes "bitOffset s < 8" and "g = step_bits s n"
    and "b = drop_bit (unat (bitOffset s)) (dat s ! unat (byteOffset s))"
  shows "ucast (if g < 8 then b AND drop_bit (unat (8 - g)) 0xFF else b)
    = wire_bits (dat s) (cursor s) (unat g)"
proof -
  have g: "unat g \<le> 8 - unat (bitOffset s)" using step_bits[OF assms(1), of n] by (simp add: assms(2))
  have "\<not> g < 8 \<Longrightarrow> unat g = 8 \<and> unat (bitOffset s) = 0"
    using g unfolding word_less_nat_alt by simp linarith
  then have m: "(if g < 8 then b AND drop_bit (unat (8 - g)) 0xFF else b) = b AND mask (unat g)"
    using g low_bits_mask[of g] by (auto intro!: bit_word_eqI simp: bit_simps)
  show ?thesis
    unfolding m
    by (rule bit_word_eqI)
       (use g in \<open>auto simp: assms(3) bit_wire_bits bit_simps dbit_cursor bit_and_iff bit_mask_iff bit_drop_bit_eq\<close>)
qed

lemma wire_bits_split: "wire_bits d i (g + n) = wire_bits d i g OR push_bit g (wire_bits d (i + g) n)"
  by (rule bit_word_eqI) (auto simp: bit_wire_bits bit_simps add.assoc)

lemma cursor_byte:
  assumes "stream_ok s" and "cursor s < 8 * length (dat s)"
  shows "unat (byteOffset s) < length (dat s)"
  using assms by (simp add: cursor_def)

lemma minus_step:
  assumes "bitOffset s < 8"
  shows "unat (n - ucast (step_bits s n)) = unat n - unat (step_bits s n)"
proof -
  have "unat (ucast (step_bits s n) :: u16) \<le> unat n"
    using step_bits[OF assms, of n] by (simp add: unat_ucast_up)
  then show ?thesis by (simp add: unat_sub word_le_nat_alt unat_ucast_up)
qed

lemma get_loop_step:
  assumes "bitOffset s < 8" and "n \<noteq> 0" and "unat (byteOffset s) < length (dat s)"
    and "g = step_bits s n"
  shows "get_loop ret out n s =
    get_loop (ret OR push_bit out (wire_bits (dat s) (cursor s) (unat g))) (out + unat g)
      (n - ucast g) (forward s g)"
  unfolding grab_wire_bits[OF assms(1) assms(4) refl, symmetric]
  unfolding assms(4) step_bits_def
  using assms(2,3) by (subst get_loop.simps) (simp add: Let_def not_le split del: if_split)

lemma get_loop_spec:
  assumes "stream_ok s" and "cursor s + unat n \<le> 8 * length (dat s)"
  shows "get_loop ret out n s =
    Some (Inr (ret OR push_bit out (wire_bits (dat s) (cursor s) (unat n))), at_bit s (cursor s + unat n))"
  using assms
proof (induction "unat n" arbitrary: ret out n s rule: less_induct)
  case less
  have b8: "bitOffset s < 8" using less.prems(1) by (simp add: stream_ok_def)
  show ?case
  proof (cases "n = 0")
    case True
    then show ?thesis
      using b8 by (subst get_loop.simps) (simp add: wire_bits_def)
  next
    case False
    define g where "g = step_bits s n"
    define s' where "s' = forward s g"
    have g: "0 < unat g" "unat g \<le> unat n" "unat g \<le> 8 - unat (bitOffset s)"
      using step_bits_pos[OF b8 False] step_bits[OF b8, of n] by (simp_all add: g_def)
    have s': "s' = at_bit s (cursor s + unat g)"
      using forward_at_bit[OF b8 g(3)] by (simp add: s'_def)
    have small: "cursor s + unat g < 8 * 65536"
      using less.prems g by (simp add: stream_ok_def)
    have n': "unat (n - ucast g) = unat n - unat g"
      using minus_step[OF b8, of n] by (simp add: g_def)
    have ok: "stream_ok s'" unfolding s' using less.prems g by (intro stream_ok_at_bit) auto
    have "get_loop (ret OR push_bit out (wire_bits (dat s) (cursor s) (unat g))) (out + unat g)
        (n - ucast g) s' =
      Some (Inr (ret OR push_bit out (wire_bits (dat s) (cursor s) (unat g))
          OR push_bit (out + unat g) (wire_bits (dat s') (cursor s') (unat (n - ucast g)))),
        at_bit s' (cursor s' + unat (n - ucast g)))"
      using less.hyps[OF _ ok, of "n - ucast g"] less.prems g
      by (simp add: n' s' cursor_at_bit[OF small] or.assoc)
    moreover have "ret OR push_bit out (wire_bits (dat s) (cursor s) (unat g))
          OR push_bit (out + unat g) (wire_bits (dat s') (cursor s') (unat (n - ucast g)))
        = ret OR push_bit out (wire_bits (dat s) (cursor s) (unat n))"
      using wire_bits_split[of "dat s" "cursor s" "unat g" "unat n - unat g"] g
      by (simp add: n' s' cursor_at_bit[OF small] push_bit_or or.assoc add.commute)
    moreover have "at_bit s' (cursor s' + unat (n - ucast g)) = at_bit s (cursor s + unat n)"
      using g by (simp add: n' s' cursor_at_bit[OF small])
    moreover have "unat (byteOffset s) < length (dat s)"
      using less.prems g by (intro cursor_byte) auto
    ultimately show ?thesis
      by (simp add: get_loop_step[OF b8 False _ g_def] s'_def)
  qed
qed

lemma getNumberRaw_spec:
  assumes "stream_ok s"
  shows "cursor s + unat n \<le> 8 * length (dat s) \<Longrightarrow>
      getNumberRaw n s = Some (Inr (wire_bits (dat s) (cursor s) (unat n)), at_bit s (cursor s + unat n))"
    and "\<not> cursor s + unat n \<le> 8 * length (dat s) \<Longrightarrow> \<exists>e. getNumberRaw n s = Some (Inl e, s)"
proof -
  have "int (unat n) > bits_left s \<longleftrightarrow> \<not> cursor s + unat n \<le> 8 * length (dat s)"
    unfolding bits_left_def cursor_def by linarith
  then show "cursor s + unat n \<le> 8 * length (dat s) \<Longrightarrow>
      getNumberRaw n s = Some (Inr (wire_bits (dat s) (cursor s) (unat n)), at_bit s (cursor s + unat n))"
    and "\<not> cursor s + unat n \<le> 8 * length (dat s) \<Longrightarrow> \<exists>e. getNumberRaw n s = Some (Inl e, s)"
    using get_loop_spec[OF assms] by (auto simp: getNumberRaw_def)
qed

section \<open>What a write leaves behind\<close>

text \<open>The bytes with the low \<open>n\<close> bits of \<open>v\<close> put over the bits from \<open>i\<close> on.\<close>

definition or_bits :: "bytes \<Rightarrow> nat \<Rightarrow> nat \<Rightarrow> u64 \<Rightarrow> bytes" where
  "or_bits d i n v = map (\<lambda>j. d ! j OR horner_sum of_bool 2
      (map (\<lambda>b. i \<le> 8 * j + b \<and> 8 * j + b < i + n \<and> bit v (8 * j + b - i)) [0..<8])) [0..<length d]"

lemma length_or_bits [simp]: "length (or_bits d i n v) = length d"
  by (simp add: or_bits_def)

lemma dbit_or_bits:
  assumes "k < 8 * length d"
  shows "dbit (or_bits d i n v) k \<longleftrightarrow> dbit d k \<or> (i \<le> k \<and> k < i + n \<and> bit v (k - i))"
proof -
  have "k div 8 < length d" "8 * (k div 8) + k mod 8 = k" "k mod 8 < 8" using assms by auto
  then show ?thesis
    by (simp add: dbit_def or_bits_def bit_or_iff bit_horner_sum_bit_word_iff del: upt_Suc)
qed

lemma bytes_eqI:
  assumes "length d = length d'" and "\<And>k. k < 8 * length d \<Longrightarrow> dbit d k = dbit d' k"
  shows "d = d'"
proof (rule nth_equalityI[OF assms(1)])
  fix i assume i: "i < length d"
  show "d ! i = d' ! i"
  proof (rule bit_word_eqI)
    fix b assume "b < LENGTH(8)"
    with i assms(2)[of "8 * i + b"] show "bit (d ! i) b = bit (d' ! i) b"
      by (simp add: dbit_def)
  qed
qed

lemma or_bits_0 [simp]: "or_bits d i 0 v = d"
  by (rule bytes_eqI) (auto simp: dbit_or_bits)

lemma or_bits_split: "or_bits d i (g + n) v = or_bits (or_bits d i g v) (i + g) n (drop_bit g v)"
proof (rule bytes_eqI)
  fix k assume "k < 8 * length (or_bits d i (g + n) v)"
  then show "dbit (or_bits d i (g + n) v) k
      = dbit (or_bits (or_bits d i g v) (i + g) n (drop_bit g v)) k"
    by (cases "k < i + g") (auto simp: dbit_or_bits bit_drop_bit_eq not_less)
qed simp

lemma or_bits_outside: "8 * length d \<le> i \<Longrightarrow> or_bits d i n v = d"
  by (rule bytes_eqI) (auto simp: dbit_or_bits)

lemma or_bits_byte:
  assumes "bitOffset s < 8" and "unat g \<le> 8 - unat (bitOffset s)"
    and "unat (byteOffset s) < length d"
  shows "d[unat (byteOffset s) := d ! unat (byteOffset s)
      OR push_bit (unat (bitOffset s)) (ucast v AND mask (unat g))] = or_bits d (cursor s) (unat g) v"
proof (rule bytes_eqI)
  let ?i = "unat (byteOffset s)" and ?b = "unat (bitOffset s)"
  fix k assume "k < 8 * length (d[?i := d ! ?i OR push_bit ?b (ucast v AND mask (unat g))])"
  then have k: "k < 8 * length d" by simp
  show "dbit (d[?i := d ! ?i OR push_bit ?b (ucast v AND mask (unat g))]) k
    = dbit (or_bits d (cursor s) (unat g) v) k"
  proof (cases "k div 8 = ?i")
    case True
    then have e: "k = 8 * ?i + k mod 8" by presburger
    have m: "k mod 8 < 8" by simp
    have "k - cursor s = k mod 8 - ?b" "cursor s \<le> k \<longleftrightarrow> ?b \<le> k mod 8"
      "k < cursor s + unat g \<longleftrightarrow> k mod 8 < ?b + unat g"
      unfolding cursor_def using e by linarith+
    then have "dbit (or_bits d (cursor s) (unat g) v) k \<longleftrightarrow> dbit d k
        \<or> (?b \<le> k mod 8 \<and> k mod 8 < ?b + unat g \<and> bit v (k mod 8 - ?b))"
      by (simp add: dbit_or_bits[OF k])
    moreover have "dbit (d[?i := d ! ?i OR push_bit ?b (ucast v AND mask (unat g))]) k \<longleftrightarrow>
        dbit d k \<or> bit (push_bit ?b (ucast v AND mask (unat g)) :: u8) (k mod 8)"
      using True assms(3) by (simp add: dbit_def bit_or_iff)
    moreover have "bit (push_bit ?b (ucast v AND mask (unat g)) :: u8) (k mod 8) \<longleftrightarrow>
        ?b \<le> k mod 8 \<and> k mod 8 < ?b + unat g \<and> bit v (k mod 8 - ?b)"
      using m by (auto simp: bit_push_bit_iff bit_and_iff bit_mask_iff bit_ucast_iff)
    ultimately show ?thesis by simp
  next
    case False
    then have "\<not> (cursor s \<le> k \<and> k < cursor s + unat g)"
      using assms(2) unfolding cursor_def by linarith
    then have "dbit (or_bits d (cursor s) (unat g) v) k = dbit d k"
      by (auto simp: dbit_or_bits[OF k])
    also have "\<dots> = dbit (d[?i := d ! ?i OR push_bit ?b (ucast v AND mask (unat g))]) k"
      using False by (simp add: dbit_def)
    finally show ?thesis by simp
  qed
qed simp

lemma put_loop_step:
  assumes "bitOffset s < 8" and "n \<noteq> 0" and "unat (byteOffset s) < length (dat s)"
    and "length (dat s) \<le> dcap s" and "g = step_bits s n"
  shows "put_loop v n s = put_loop (drop_bit (unat g) v) (n - ucast g)
    (forward (s\<lparr>dat := or_bits (dat s) (cursor s) (unat g) v\<rparr>) g)"
proof -
  have g: "unat g \<le> 8 - unat (bitOffset s)"
    using step_bits[OF assms(1), of n] by (simp add: assms(5))
  then have g8: "unat g \<le> 8" by simp
  have le: "g \<le> 8 - bitOffset s"
    using g assms(1) by (simp add: word_le_nat_alt unat_sub word_less_nat_alt)
  show ?thesis
    unfolding or_bits_byte[OF assms(1) g assms(3), symmetric] low_bits_mask[OF g8, symmetric]
    using le assms(2-4) unfolding assms(5) step_bits_def
    by (subst put_loop.simps) (simp add: Let_def not_le split del: if_split)
qed

lemma put_loop_spec:
  assumes "stream_ok s"
  defines "L \<equiv> 8 * length (dat s)"
  shows "cursor s + unat n \<le> L \<Longrightarrow> put_loop v n s =
      Some (Inr (), at_bit (s\<lparr>dat := or_bits (dat s) (cursor s) (unat n) v\<rparr>) (cursor s + unat n))"
    and "\<not> cursor s + unat n \<le> L \<Longrightarrow> dcap s = length (dat s) \<Longrightarrow> \<exists>e. put_loop v n s =
      Some (Inl e, at_bit (s\<lparr>dat := or_bits (dat s) (cursor s) (unat n) v\<rparr>) L)"
proof -
  have "(cursor s + unat n \<le> L \<longrightarrow> put_loop v n s =
      Some (Inr (), at_bit (s\<lparr>dat := or_bits (dat s) (cursor s) (unat n) v\<rparr>) (cursor s + unat n)))
    \<and> (\<not> cursor s + unat n \<le> L \<longrightarrow> dcap s = length (dat s) \<longrightarrow> (\<exists>e. put_loop v n s =
      Some (Inl e, at_bit (s\<lparr>dat := or_bits (dat s) (cursor s) (unat n) v\<rparr>) L)))"
    using assms(1) unfolding L_def
  proof (induction "unat n" arbitrary: v n s rule: less_induct)
    case less
    have b8: "bitOffset s < 8" using less.prems(1) by (simp add: stream_ok_def)
    show ?case
    proof (cases "n = 0 \<or> cursor s = 8 * length (dat s)")
      case True
      then consider "n = 0" | "n \<noteq> 0" "cursor s = 8 * length (dat s)" by blast
      then show ?thesis
      proof cases
        case 1
        with b8 less.prems show ?thesis
          by (subst put_loop.simps) (simp add: stream_ok_def)
      next
        case 2
        then have "unat (byteOffset s) = length (dat s)"
          using b8 by (simp add: cursor_def word_less_nat_alt)
        with 2 b8 show ?thesis
          using unat_gt_0[of n] at_bit_cursor[OF b8]
          by (subst put_loop.simps) (auto simp: or_bits_outside)
      qed
    next
      case False
      define g where "g = step_bits s n"
      define s' where "s' = forward (s\<lparr>dat := or_bits (dat s) (cursor s) (unat g) v\<rparr>) g"
      have lt: "cursor s < 8 * length (dat s)" and n0: "n \<noteq> 0"
        using False less.prems by (auto simp: stream_ok_def)
      have g: "0 < unat g" "unat g \<le> unat n" "unat g \<le> 8 - unat (bitOffset s)"
        using step_bits_pos[OF b8 n0] step_bits[OF b8, of n] by (simp_all add: g_def)
      have s': "s' = at_bit (s\<lparr>dat := or_bits (dat s) (cursor s) (unat g) v\<rparr>) (cursor s + unat g)"
        using forward_at_bit[of "s\<lparr>dat := or_bits (dat s) (cursor s) (unat g) v\<rparr>" g] b8 g
        by (simp add: s'_def cursor_def)
      have fit: "cursor s + unat g \<le> 8 * length (dat s)"
        using cursor_byte[OF less.prems lt] g unfolding cursor_def by linarith
      then have small: "cursor s + unat g < 8 * 65536"
        using less.prems g by (simp add: stream_ok_def)
      have n': "unat (n - ucast g) = unat n - unat g"
        using minus_step[OF b8, of n] by (simp add: g_def)
      have ok: "stream_ok s'" unfolding s'
        using less.prems fit by (intro stream_ok_at_bit) (auto simp: stream_ok_def cursor_def)
      note IH = less.hyps[OF _ ok, of "n - ucast g" "drop_bit (unat g) v"]
      have split: "or_bits (dat s) (cursor s) (unat n) v =
          or_bits (or_bits (dat s) (cursor s) (unat g) v) (cursor s + unat g) (unat n - unat g)
            (drop_bit (unat g) v)"
        using or_bits_split[of "dat s" "cursor s" "unat g" "unat n - unat g" v] g by simp
      have st: "put_loop v n s = put_loop (drop_bit (unat g) v) (n - ucast g) s'"
        unfolding s'_def using less.prems lt cursor_byte[OF less.prems lt] b8 n0
        by (intro put_loop_step) (auto simp: g_def stream_ok_def)
      have c: "cursor s' = cursor s + unat g" "dcap s' = dcap s" "length (dat s') = length (dat s)"
        "dat s' = or_bits (dat s) (cursor s) (unat g) v"
        "\<And>d i. at_bit (s'\<lparr>dat := d\<rparr>) i = at_bit (s\<lparr>dat := d\<rparr>) i"
        by (simp_all add: s' cursor_at_bit[OF small]) (simp add: at_bit_def)
      show ?thesis
        using IH g by (simp add: st c n' split)
    qed
  qed
  then show "cursor s + unat n \<le> L \<Longrightarrow> put_loop v n s =
      Some (Inr (), at_bit (s\<lparr>dat := or_bits (dat s) (cursor s) (unat n) v\<rparr>) (cursor s + unat n))"
    and "\<not> cursor s + unat n \<le> L \<Longrightarrow> dcap s = length (dat s) \<Longrightarrow> \<exists>e. put_loop v n s =
      Some (Inl e, at_bit (s\<lparr>dat := or_bits (dat s) (cursor s) (unat n) v\<rparr>) L)"
    by blast+
qed

lemma getBitOffset_cursor:
  assumes "stream_ok s"
  shows "unat (getBitOffset s) = cursor s"
proof -
  have "unat (ucast (byteOffset s) * 8 + ucast (bitOffset s) :: u32)
      = unat (byteOffset s) * 8 + unat (bitOffset s)"
    using unat_lt_65536[of "byteOffset s"] unat_lt_256[of "bitOffset s"]
    by (simp add: unat_word_ariths unat_ucast_up)
  then show ?thesis by (simp add: getBitOffset_def cursor_def)
qed

lemma putNumberRaw_at:
  assumes "stream_ok s" and "off = 0 \<or> cursor s = unat off"
  shows "putNumberRaw v n off s = put_loop v n s"
proof -
  have "getBitOffset s = ucast off" if "cursor s = unat off"
    using that getBitOffset_cursor[OF assms(1)]
    by (intro word_unat_eq_iff[THEN iffD2]) (simp add: unat_ucast_up)
  with assms(2) show ?thesis by (auto simp: putNumberRaw_def)
qed

section \<open>Writing fields and reading them back\<close>

text \<open>
  The generated code writes one field after the other and reads them in the same order. A
  field is its width and its value; \<open>put_fields\<close> and \<open>get_fields\<close> stop at the first error.
\<close>

fun put_fields :: "(u16 \<times> u64) list \<Rightarrow> (DataStream, unit) step" where
  "put_fields [] = returnE ()"
| "put_fields ((n, v) # fs) = seqE (putNumberRaw v n 0) (\<lambda>_. put_fields fs)"

fun get_fields :: "u16 list \<Rightarrow> (DataStream, u64 list) step" where
  "get_fields [] = returnE []"
| "get_fields (n # ns) =
     seqE (getNumberRaw n) (\<lambda>v. seqE (get_fields ns) (\<lambda>vs. returnE (v # vs)))"

definition total_bits :: "u16 list \<Rightarrow> nat" where
  "total_bits ns = sum_list (map unat ns)"

text \<open>The bytes after the fields have been put from bit \<open>i\<close> on.\<close>

fun put_all :: "bytes \<Rightarrow> nat \<Rightarrow> (u16 \<times> u64) list \<Rightarrow> bytes" where
  "put_all d i [] = d"
| "put_all d i ((n, v) # fs) = put_all (or_bits d i (unat n) v) (i + unat n) fs"

lemma length_put_all [simp]: "length (put_all d i fs) = length d"
  by (induction d i fs rule: put_all.induct) simp_all

lemma dbit_put_all_outside:
  assumes "k < 8 * length d" and "k < i \<or> i + total_bits (map fst fs) \<le> k"
  shows "dbit (put_all d i fs) k = dbit d k"
  using assms
  by (induction d i fs rule: put_all.induct) (auto simp: total_bits_def dbit_or_bits)

lemma put_fields_spec:
  assumes "stream_ok s" and "cursor s + total_bits (map fst fs) \<le> 8 * length (dat s)"
  shows "put_fields fs s = Some (Inr (),
    at_bit (s\<lparr>dat := put_all (dat s) (cursor s) fs\<rparr>) (cursor s + total_bits (map fst fs)))"
  using assms
proof (induction fs arbitrary: s)
  case Nil
  then show ?case by (simp add: total_bits_def stream_ok_def)
next
  case (Cons f fs)
  obtain n v where f: "f = (n, v)" by (cases f)
  let ?s = "at_bit (s\<lparr>dat := or_bits (dat s) (cursor s) (unat n) v\<rparr>) (cursor s + unat n)"
  have le: "cursor s + unat n \<le> 8 * length (dat s)" using Cons.prems by (simp add: f total_bits_def)
  then have c: "cursor ?s = cursor s + unat n"
    using Cons.prems(1) by (intro cursor_at_bit) (auto simp: stream_ok_def)
  have ok: "stream_ok ?s"
    using Cons.prems(1) le by (intro stream_ok_at_bit) (auto simp: stream_ok_def cursor_def)
  have "putNumberRaw v n 0 s = Some (Inr (), ?s)"
    using put_loop_spec(1)[OF Cons.prems(1) le] putNumberRaw_at[OF Cons.prems(1), of 0] by simp
  moreover have "at_bit (?s\<lparr>dat := d\<rparr>) i = at_bit (s\<lparr>dat := d\<rparr>) i" for d i
    by (simp add: at_bit_def)
  ultimately show ?case
    using Cons.IH[OF ok] Cons.prems(2) by (simp add: f c total_bits_def add.assoc seqE_Inr)
qed

lemma get_fields_spec:
  assumes "stream_ok s" and "cursor s + total_bits ns \<le> 8 * length (dat s)"
  shows "\<exists>vs. get_fields ns s = Some (Inr vs, at_bit s (cursor s + total_bits ns))
    \<and> length vs = length ns
    \<and> (\<forall>j < length ns. vs ! j = wire_bits (dat s) (cursor s + total_bits (take j ns)) (unat (ns ! j)))"
  using assms
proof (induction ns arbitrary: s)
  case Nil
  then show ?case by (simp add: total_bits_def stream_ok_def)
next
  case (Cons n ns)
  let ?s = "at_bit s (cursor s + unat n)"
  have le: "cursor s + unat n \<le> 8 * length (dat s)" using Cons.prems by (simp add: total_bits_def)
  then have c: "cursor ?s = cursor s + unat n"
    using Cons.prems(1) by (intro cursor_at_bit) (auto simp: stream_ok_def)
  have ok: "stream_ok ?s" using Cons.prems(1) le by (rule stream_ok_at_bit)
  obtain vs where vs: "get_fields ns ?s = Some (Inr vs, at_bit s (cursor s + total_bits (n # ns)))"
    "length vs = length ns"
    "\<forall>j < length ns. vs ! j = wire_bits (dat s) (cursor s + unat n + total_bits (take j ns)) (unat (ns ! j))"
    using Cons.IH[OF ok] Cons.prems(2) by (auto simp: c total_bits_def add.assoc)
  then show ?case
    using getNumberRaw_spec(1)[OF Cons.prems(1) le]
    by (auto simp: nth_Cons' total_bits_def take_Cons' add.assoc seqE_Inr)
qed

lemma wire_bits_put_all:
  assumes "j < length fs" and "i + total_bits (map fst fs) \<le> 8 * length d"
    and "\<forall>k. i \<le> k \<longrightarrow> k < i + total_bits (map fst fs) \<longrightarrow> \<not> dbit d k"
  shows "wire_bits (put_all d i fs) (i + total_bits (take j (map fst fs))) (unat (fst (fs ! j)))
    = take_bit (unat (fst (fs ! j))) (snd (fs ! j))"
  using assms
proof (induction d i fs arbitrary: j rule: put_all.induct)
  case (2 d i n v fs)
  have t: "total_bits (n # map fst fs) = unat n + total_bits (map fst fs)"
    by (simp add: total_bits_def)
  show ?case
  proof (cases j)
    case 0
    have "dbit (put_all (or_bits d i (unat n) v) (i + unat n) fs) (i + k) = bit v k"
      if "k < unat n" for k
      using that 2(3,4) by (simp add: t dbit_put_all_outside dbit_or_bits)
    then have "wire_bits (put_all (or_bits d i (unat n) v) (i + unat n) fs) i (unat n) = take_bit (unat n) v"
      by (intro bit_word_eqI) (auto simp: bit_wire_bits bit_take_bit_iff)
    with 0 show ?thesis by (simp add: total_bits_def)
  next
    case (Suc j')
    have "\<not> dbit (or_bits d i (unat n) v) k"
      if "i + unat n \<le> k" "k < i + unat n + total_bits (map fst fs)" for k
      using that 2(3,4) by (subst dbit_or_bits) (auto simp: t)
    then show ?thesis
      using 2(1)[of j'] 2(2,3) Suc by (simp add: t total_bits_def add.assoc)
  qed
qed simp

section \<open>Properties\<close>

text \<open>
  Claim C30. Reading a number always returns, and returns exactly the bits asked for: within the
  data, the number is the next \<open>n\<close> bits, least significant first (at most 64 of them fit), and
  the cursor moves by \<open>n\<close>; a read past the end is an error and leaves the stream as it was.
\<close>

theorem getNumberRaw_correct:
  assumes "stream_ok s"
  shows "if cursor s + unat n \<le> 8 * length (dat s)
    then \<exists>v s'. getNumberRaw n s = Some (Inr v, s') \<and> dat s' = dat s
      \<and> cursor s' = cursor s + unat n \<and> stream_ok s'
      \<and> (\<forall>k. bit v k \<longleftrightarrow> k < unat n \<and> k < 64 \<and> dbit (dat s) (cursor s + k))
    else \<exists>e. getNumberRaw n s = Some (Inl e, s)"
proof (cases "cursor s + unat n \<le> 8 * length (dat s)")
  case True
  moreover from this have "cursor s + unat n < 8 * 65536"
    using assms by (simp add: stream_ok_def)
  ultimately show ?thesis
    using getNumberRaw_spec(1)[OF assms True] stream_ok_at_bit[OF assms True]
    by (auto simp: bit_wire_bits cursor_at_bit)
next
  case False
  with getNumberRaw_spec(2)[OF assms] show ?thesis by simp
qed

theorem getNumberRaw_correct_witness:
  "\<exists>v s'. getNumberRaw 11 (NewDataStream [0xA5, 0x3C] 2) = Some (Inr v, s')
     \<and> dat s' = [0xA5, 0x3C] \<and> cursor s' = 11"
  using getNumberRaw_correct[of "NewDataStream [0xA5, 0x3C] 2" 11]
  by (auto simp: stream_ok_def NewDataStream_def cursor_def)

text \<open>
  Claim C25. Writing a number always returns and touches only its own bits: at the cursor (or
  with offset 0, where the code does not check it) exactly the next \<open>n\<close> bits get the bits of the
  value over what was there, every other bit and the length stay, and the cursor moves by \<open>n\<close>;
  at any other offset the call is an error and changes nothing; without room for all bits it is
  an error with the cursor at the end.
\<close>

theorem putNumberRaw_correct:
  assumes "stream_ok s" and "dcap s = length (dat s)"
  shows "if off \<noteq> 0 \<and> cursor s \<noteq> unat off then \<exists>e. putNumberRaw v n off s = Some (Inl e, s)
    else \<exists>r s'. putNumberRaw v n off s = Some (r, s') \<and> stream_ok s'
      \<and> length (dat s') = length (dat s)
      \<and> (r = Inr () \<longleftrightarrow> cursor s + unat n \<le> 8 * length (dat s))
      \<and> cursor s' = min (cursor s + unat n) (8 * length (dat s))
      \<and> (\<forall>k < 8 * length (dat s). dbit (dat s') k \<longleftrightarrow>
            dbit (dat s) k \<or> (cursor s \<le> k \<and> k < cursor s + unat n \<and> bit v (k - cursor s)))"
proof (cases "off \<noteq> 0 \<and> cursor s \<noteq> unat off")
  case True
  moreover from this have "getBitOffset s \<noteq> ucast off"
    using getBitOffset_cursor[OF assms(1)] unat_ucast_up[of off, where 'b = 32] by auto
  ultimately show ?thesis by (simp add: putNumberRaw_def)
next
  case False
  let ?s = "s\<lparr>dat := or_bits (dat s) (cursor s) (unat n) v\<rparr>" and ?L = "8 * length (dat s)"
  have ok: "stream_ok ?s" using assms(1) by (simp add: stream_ok_def cursor_def)
  have c: "cursor (at_bit ?s i) = i" "stream_ok (at_bit ?s i)" if "i \<le> ?L" for i
    using that assms(1) stream_ok_at_bit[OF ok] by (auto simp: cursor_at_bit stream_ok_def)
  have p: "putNumberRaw v n off s = put_loop v n s"
    using False by (intro putNumberRaw_at assms(1)) auto
  show ?thesis
  proof (cases "cursor s + unat n \<le> ?L")
    case True
    with put_loop_spec(1)[OF assms(1) True] c[OF True] False show ?thesis
      by (auto simp: p dbit_or_bits)
  next
    case lt: False
    obtain e where "put_loop v n s = Some (Inl e, at_bit ?s ?L)"
      using put_loop_spec(2)[OF assms(1) lt assms(2), of v] by blast
    with lt c[of ?L] False show ?thesis
      by (auto simp: p dbit_or_bits not_le)
  qed
qed

theorem putNumberRaw_correct_witness:
  "\<exists>r s'. putNumberRaw 0x7FF 11 0 (NewDataStream [0, 0] 2) = Some (r, s') \<and> r = Inr ()
     \<and> cursor s' = 11 \<and> dbit (dat s') 10 \<and> \<not> dbit (dat s') 11"
proof -
  have "bit (0x7FF :: u64) 10" "\<not> dbit [0, 0] 11" by (simp_all add: dbit_def)
  then show ?thesis
    using putNumberRaw_correct[of "NewDataStream [0, 0] 2" 0 "0x7FF" 11]
    by (force simp: stream_ok_def NewDataStream_def cursor_def)
qed

text \<open>
  Claim C24. What is written is read back: fields written one after the other into clear bytes
  that have room for all of them, and then read from the same position with the same widths,
  give every value back, cut to its width (64 bits for wider fields).
\<close>

theorem fields_roundtrip:
  assumes "stream_ok s" and "cursor s + total_bits (map fst fs) \<le> 8 * length (dat s)"
    and "\<forall>k. cursor s \<le> k \<longrightarrow> k < 8 * length (dat s) \<longrightarrow> \<not> dbit (dat s) k"
  shows "\<exists>s' s''. put_fields fs s = Some (Inr (), s')
     \<and> get_fields (map fst fs) (at_bit s' (cursor s))
         = Some (Inr (map (\<lambda>(n, v). take_bit (unat n) v) fs), s'')
     \<and> cursor s'' = cursor s'"
proof -
  let ?d = "put_all (dat s) (cursor s) fs" and ?i = "cursor s + total_bits (map fst fs)"
  let ?s' = "at_bit (s\<lparr>dat := ?d\<rparr>) ?i"
  let ?t = "at_bit ?s' (cursor s)"
  have small: "cursor s < 8 * 65536" "?i < 8 * 65536"
    using assms(1,2) by (simp_all add: stream_ok_def)
  have "stream_ok (s\<lparr>dat := ?d\<rparr>)" using assms(1) by (simp add: stream_ok_def cursor_def)
  then have "stream_ok ?t" using assms(1,2) by (auto intro!: stream_ok_at_bit)
  then obtain vs where vs: "get_fields (map fst fs) ?t = Some (Inr vs, at_bit ?t ?i)"
    "length vs = length fs"
    "\<forall>j < length fs. vs ! j
       = wire_bits ?d (cursor s + total_bits (take j (map fst fs))) (unat (fst (fs ! j)))"
    using get_fields_spec[of ?t "map fst fs"] assms(2) small by (auto simp: cursor_at_bit)
  have "vs = map (\<lambda>(n, v). take_bit (unat n) v) fs"
    using vs(2,3) wire_bits_put_all[OF _ assms(2)] assms(2,3)
    by (intro nth_equalityI) (auto simp: case_prod_beta)
  with vs(1) put_fields_spec[OF assms(1,2)] show ?thesis by auto
qed

definition ex_fields :: "(u16 \<times> u64) list" where
  "ex_fields = [(3, 5), (13, 0x1ABC)]"

theorem fields_roundtrip_witness:
  "\<exists>s' s''. put_fields ex_fields (NewDataStream [0, 0, 0] 3) = Some (Inr (), s')
     \<and> get_fields (map fst ex_fields) (at_bit s' (cursor (NewDataStream [0, 0, 0] 3)))
         = Some (Inr (map (\<lambda>(n, v). take_bit (unat n) v) ex_fields), s'')
     \<and> cursor s'' = cursor s'"
proof (rule fields_roundtrip)
  have "dbit [0, 0, 0] k = False" if "k < 24" for k
    using that less_mult_imp_div_less[of k 3 8] by (auto simp: dbit_def less_Suc_eq numeral_3_eq_3)
  then show "\<forall>k. cursor (NewDataStream [0, 0, 0] 3) \<le> k
      \<longrightarrow> k < 8 * length (dat (NewDataStream [0, 0, 0] 3))
      \<longrightarrow> \<not> dbit (dat (NewDataStream [0, 0, 0] 3)) k"
    by (simp add: NewDataStream_def)
qed (simp_all add: stream_ok_def NewDataStream_def cursor_def total_bits_def
    ex_fields_def)

end
