(* ===== verification/Rawfields.thy ===== *)
theory Rawfields
  imports Bitstream
begin

text \<open>
  Integer fields of a message (\<open>internal/pgn/fieldspecs_generated.go\<close>, \<open>readdatastream.go\<close>,
  \<open>writedatastream.go\<close>): a field has a width, a sign, an offset, and reserves the top values of
  its range for \<open>missing\<close> and \<open>invalid\<close>. The float fields of \<open>FieldSpec\<close> (resolution and domain)
  are not read by these operations and are left out.

  An \<open>int64\<close> is a 64-bit word read with \<open>sint\<close>. A value of a Go integer type is the number it
  stands for; \<open>goint\<close> is such a type, by its width and its sign, and \<open>go_conv\<close> the conversion
  of 64 bits to it.
\<close>

section \<open>Field specifications\<close>

type_synonym i64 = "64 word"

record FieldSpec =
  BitLength :: u16
  BitOffset :: u16
  MaxRawValue :: u64
  MissingValue :: u64
  Offset :: i64
  IsSigned :: bool
  ReservedCount :: u8
  BitLengthVariable :: bool

type_synonym goint = "nat \<times> bool"

definition go_conv :: "goint \<Rightarrow> u64 \<Rightarrow> int" where
  "go_conv T x =
     (case T of (w, s) \<Rightarrow> if s then signed_take_bit (w - 1) (uint x) else take_bit w (uint x))"

definition MaxInt64 :: i64 where "MaxInt64 = 0x7FFFFFFFFFFFFFFF"
definition MinInt64 :: i64 where "MinInt64 = 0x8000000000000000"

section \<open>Reading\<close>

definition readLookupField :: "u16 \<Rightarrow> (DataStream, u64) step" where
  "readLookupField bitLength =
     (if bitLength > 64
      then failE (''requested '' @ decimal (unat bitLength) @ '' bitLength in ReadLookupField'')
      else getNumberRaw bitLength)"

definition getNullableNumberRaw :: "FieldSpec \<Rightarrow> (DataStream, u64 option) step" where
  "getNullableNumberRaw spec =
     seqE (getNumberRaw (BitLength spec)) (\<lambda>v.
       if IsSigned spec \<and> v AND push_bit (unat (BitLength spec - 1)) 1 > 0 then returnE (Some v)
       else if v > MaxRawValue spec then returnE None
       else returnE (Some v))"

definition getSignedNullableNumber :: "FieldSpec \<Rightarrow> (DataStream, i64 option) step" where
  "getSignedNullableNumber spec =
     seqE (getNullableNumberRaw spec) (\<lambda>v.
       case v of
         None \<Rightarrow> returnE None
       | Some v \<Rightarrow>
           (let signBit = push_bit (unat (BitLength spec - 1)) 1;
                v = (if v AND signBit \<noteq> 0 \<and> BitLength spec < 64
                     then v OR push_bit (unat (BitLength spec)) 0xFFFFFFFFFFFFFFFF else v)
            in returnE (Some v)))"

definition signExtendInt64 :: "u64 \<Rightarrow> u16 \<Rightarrow> i64" where
  "signExtendInt64 rawValue bitLength =
     (if bitLength < 64 \<and> rawValue AND push_bit (unat (bitLength - 1)) 1 \<noteq> 0
      then rawValue OR push_bit (unat bitLength) 0xFFFFFFFFFFFFFFFF else rawValue)"

definition applySignedOffset :: "i64 \<Rightarrow> i64 \<Rightarrow> goerror + i64" where
  "applySignedOffset v off =
     (if sint off > 0 \<and> sint v > sint (MaxInt64 - off)
      then Inl (''signed offset overflow: '' @ decimal_int (sint v) @ '' + '' @ decimal_int (sint off))
      else if sint off < 0 \<and> sint v < sint (MinInt64 - off)
      then Inl (''signed offset underflow: '' @ decimal_int (sint v) @ '' + '' @ decimal_int (sint off))
      else Inr (v + off))"

definition applyUnsignedOffset :: "u64 \<Rightarrow> i64 \<Rightarrow> goerror + u64" where
  "applyUnsignedOffset v off =
     (if sint off < 0
      then (let magnitude = - (off + 1) + 1
            in if v < magnitude
               then Inl (''unsigned offset underflow: '' @ decimal (unat v) @ '' + '' @ decimal_int (sint off))
               else Inr (v - magnitude))
      else if v > NOT 0 - off
      then Inl (''unsigned offset overflow: '' @ decimal (unat v) @ '' + '' @ decimal_int (sint off))
      else Inr (v + off))"

definition liftE :: "goerror + 'a \<Rightarrow> (DataStream, 'a) step" where
  "liftE r = (case r of Inl e \<Rightarrow> failE e | Inr v \<Rightarrow> returnE v)"

text \<open>\<open>None\<close> is a nil specification; the result is \<open>None\<close> for a missing or invalid value.\<close>

definition ReadRaw :: "goint \<Rightarrow> FieldSpec option \<Rightarrow> (DataStream, int option) step" where
  "ReadRaw T spec' =
     (case spec' of
        None \<Rightarrow> failE ''FieldSpec is nil''
      | Some spec \<Rightarrow>
          if BitLength spec > 64
          then failE (''requested '' @ decimal (unat (BitLength spec)) @ '' bitLength exceeds 64 bits'')
          else if IsSigned spec then
            seqE (if ReservedCount spec = 0
                  then seqE (getNumberRaw (BitLength spec))
                         (\<lambda>v. returnE (Some (signExtendInt64 v (BitLength spec))))
                  else getSignedNullableNumber spec)
              (\<lambda>v. case v of
                     None \<Rightarrow> returnE None
                   | Some v \<Rightarrow>
                       seqE (if Offset spec \<noteq> 0 then liftE (applySignedOffset v (Offset spec))
                             else returnE v)
                         (\<lambda>v. returnE (Some (go_conv T v))))
          else
            seqE (if ReservedCount spec = 0
                  then seqE (getNumberRaw (BitLength spec)) (\<lambda>v. returnE (Some v))
                  else getNullableNumberRaw spec)
              (\<lambda>v. case v of
                     None \<Rightarrow> returnE None
                   | Some v \<Rightarrow>
                       seqE (if Offset spec \<noteq> 0 then liftE (applyUnsignedOffset v (Offset spec))
                             else returnE v)
                         (\<lambda>v. returnE (Some (go_conv T v)))))"

section \<open>Writing\<close>

text \<open>
  The raw value of a signed field: clamped to the range of its width, then masked; and of an
  unsigned one: pinned to the maximum when the field reserves values.
\<close>

definition raw_signed :: "FieldSpec \<Rightarrow> i64 \<Rightarrow> u64" where
  "raw_signed spec v =
     (let v = (if Offset spec \<noteq> 0 then v - Offset spec else v);
          maxPositive = push_bit (unat (BitLength spec - 1)) 1 - 1;
          minNegative = - push_bit (unat (BitLength spec - 1)) 1;
          maxPositive = (if ReservedCount spec > 0 then maxPositive - ucast (ReservedCount spec)
                         else maxPositive);
          v = (if sint v > sint maxPositive then maxPositive else v);
          v = (if sint v < sint minNegative then minNegative else v);
          bitMask = push_bit (unat (BitLength spec)) 1 - 1
      in v AND bitMask)"

definition raw_unsigned :: "FieldSpec \<Rightarrow> u64 \<Rightarrow> u64" where
  "raw_unsigned spec v =
     (let v = (if Offset spec \<noteq> 0 then v - Offset spec else v)
      in if ReservedCount spec > 0 \<and> v > MaxRawValue spec then MaxRawValue spec else v)"

definition WriteRaw :: "int option \<Rightarrow> FieldSpec option \<Rightarrow> (DataStream, unit) step" where
  "WriteRaw value spec' =
     (case spec' of
        None \<Rightarrow> failE ''FieldSpec is nil''
      | Some spec \<Rightarrow>
          (case value of
             None \<Rightarrow>
               if ReservedCount spec = 0
               then failE ''cannot write nil value to field with no reserved values''
               else putNumberRaw (MissingValue spec) (BitLength spec) 0
           | Some v \<Rightarrow>
               (let outVal = (if IsSigned spec then raw_signed spec (word_of_int v)
                              else raw_unsigned spec (word_of_int v))
                in putNumberRaw outVal (BitLength spec) 0)))"

section \<open>Well-formed specifications\<close>

text \<open>
  What the generated specifications satisfy: the maximum and the missing value are those of the
  width, and a field without reserved values has none of them.
\<close>

definition top_value :: "FieldSpec \<Rightarrow> nat" where
  "top_value spec = (if IsSigned spec then 2 ^ (unat (BitLength spec) - 1) - 1
                     else 2 ^ unat (BitLength spec) - 1)"

definition spec_ok :: "FieldSpec \<Rightarrow> bool" where
  "spec_ok spec \<longleftrightarrow> 0 < BitLength spec \<and> BitLength spec \<le> 64
     \<and> (ReservedCount spec \<noteq> 0 \<longrightarrow> unat (ReservedCount spec) \<le> top_value spec
          \<and> unat (MaxRawValue spec) = top_value spec - unat (ReservedCount spec)
          \<and> unat (MissingValue spec) = top_value spec)"

text \<open>The numbers the field can carry, before its offset is added, and the clamp to them.\<close>

definition field_min :: "FieldSpec \<Rightarrow> int" where
  "field_min spec = (if IsSigned spec then - (2 ^ (unat (BitLength spec) - 1)) else 0)"

definition field_max :: "FieldSpec \<Rightarrow> int" where
  "field_max spec = int (top_value spec) - int (unat (ReservedCount spec))"

definition field_clamp :: "FieldSpec \<Rightarrow> int \<Rightarrow> int" where
  "field_clamp spec v = max (field_min spec) (min (field_max spec) v)"

definition go_range :: "goint \<Rightarrow> int \<Rightarrow> bool" where
  "go_range T v \<longleftrightarrow>
     (case T of (w, s) \<Rightarrow> 0 < w \<and> w \<le> 64 \<and>
        (if s then - (2 ^ (w - 1)) \<le> v \<and> v < 2 ^ (w - 1) else 0 \<le> v \<and> v < 2 ^ w))"

lemma go_conv_of_int:
  assumes "go_range T v"
  shows "go_conv T (word_of_int v) = v"
proof -
  obtain w s where T: "T = (w, s)" by (cases T)
  show ?thesis
  proof (cases s)
    case True
    then have "signed_take_bit (w - 1) (take_bit 64 v) = signed_take_bit (w - 1) v"
      using assms by (auto simp: T go_range_def signed_take_bit_take_bit)
    moreover have "signed_take_bit (w - 1) v = v"
      using assms True by (intro signed_take_bit_int_eq_self) (auto simp: T go_range_def)
    ultimately show ?thesis using True by (simp add: T go_conv_def unsigned_of_int)
  next
    case False
    then have "take_bit w (take_bit 64 v) = take_bit w v"
      using assms by (simp add: T go_range_def)
    moreover have "take_bit w v = v"
      using assms False by (intro take_bit_int_eq_self) (auto simp: T go_range_def)
    ultimately show ?thesis using False by (simp add: T go_conv_def unsigned_of_int)
  qed
qed

section \<open>A number written and read back\<close>

text \<open>Room for \<open>n\<close> bits at the cursor, over bytes still clear.\<close>

definition writable :: "DataStream \<Rightarrow> u16 \<Rightarrow> bool" where
  "writable s n \<longleftrightarrow> stream_ok s \<and> cursor s + unat n \<le> 8 * length (dat s)
     \<and> (\<forall>k. cursor s \<le> k \<longrightarrow> k < 8 * length (dat s) \<longrightarrow> \<not> dbit (dat s) k)"

definition written :: "DataStream \<Rightarrow> u16 \<Rightarrow> u64 \<Rightarrow> DataStream" where
  "written s n w = at_bit (s\<lparr>dat := or_bits (dat s) (cursor s) (unat n) w\<rparr>) (cursor s + unat n)"

lemma written_cursor:
  assumes "writable s n"
  shows "cursor (written s n w) = cursor s + unat n" and "stream_ok (written s n w)"
    and "length (dat (written s n w)) = length (dat s)" and "dcap (written s n w) = dcap s"
proof -
  have "stream_ok (s\<lparr>dat := or_bits (dat s) (cursor s) (unat n) w\<rparr>)"
    using assms by (simp add: writable_def stream_ok_def cursor_def)
  then show "stream_ok (written s n w)"
    using assms by (auto simp: written_def writable_def intro: stream_ok_at_bit)
  show "cursor (written s n w) = cursor s + unat n"
    using assms by (simp add: written_def writable_def cursor_at_bit stream_ok_def)
qed (simp_all add: written_def)

lemma written_clear:
  assumes "writable s n" and "cursor s + unat n + unat m \<le> 8 * length (dat s)"
  shows "writable (written s n w) m"
  using assms written_cursor[OF assms(1), of w]
  by (auto simp: writable_def written_def dbit_or_bits)

lemma written_prefix:
  assumes "writable s n" and "k < cursor s"
  shows "dbit (dat (written s n w)) k = dbit (dat s) k"
  using assms by (auto simp: writable_def written_def dbit_or_bits)

lemma put_written:
  "writable s n \<Longrightarrow> putNumberRaw w n 0 s = Some (Inr (), written s n w)"
  by (simp add: putNumberRaw_at put_loop_spec(1) writable_def written_def)

lemma get_written:
  assumes "writable s n"
  shows "getNumberRaw n (at_bit (written s n w) (cursor s))
    = Some (Inr (take_bit (unat n) w), written s n w)"
proof -
  let ?t = "at_bit (written s n w) (cursor s)"
  have c: "cursor ?t = cursor s" "stream_ok ?t"
    using assms written_cursor[OF assms, of w] stream_ok_at_bit[of "written s n w" "cursor s"]
    by (auto simp: cursor_at_bit writable_def stream_ok_def)
  have "wire_bits (dat (written s n w)) (cursor s) (unat n) = take_bit (unat n) w"
    using assms
    by (intro bit_word_eqI)
       (auto simp: bit_wire_bits bit_take_bit_iff written_def dbit_or_bits writable_def)
  moreover have "at_bit (written s n w) (cursor s + unat n) = written s n w"
    by (simp add: written_def)
  ultimately show ?thesis
    using getNumberRaw_spec(1)[OF c(2), of n] assms by (simp add: c writable_def written_cursor(3))
qed

section \<open>Signs and masks\<close>

lemma sint_word_of_int:
  "- (2 ^ 63) \<le> i \<Longrightarrow> i < 2 ^ 63 \<Longrightarrow> sint (word_of_int i :: i64) = i"
  by (simp add: signed_of_int signed_take_bit_int_eq_self)

lemma unat_word_of_int:
  "0 \<le> i \<Longrightarrow> i < 2 ^ 64 \<Longrightarrow> unat (word_of_int i :: u64) = nat i"
  by (simp add: unsigned_of_int take_bit_int_eq_self)

lemma bit_mask_take:
  fixes w :: u64
  assumes "n \<le> 64"
  shows "w AND (push_bit n 1 - 1) = take_bit n w"
  by (simp add: push_bit_eq_mult take_bit_eq_mask mask_eq_exp_minus_1)

lemma test_bit_and:
  fixes w :: u64
  assumes "m < 64"
  shows "w AND push_bit m 1 \<noteq> 0 \<longleftrightarrow> bit w m"
  using assms by (simp add: push_bit_eq_mult bit_iff_and_push_bit_not_eq_0)

lemma test_bit_and_pos:
  fixes w :: u64
  assumes "m < 64"
  shows "w AND push_bit m 1 > 0 \<longleftrightarrow> bit w m"
  using test_bit_and[OF assms, of w] by (simp add: word_gt_0)

lemma unat_width:
  fixes n :: u16
  assumes "0 < n" and "n \<le> 64"
  shows "0 < unat n" and "unat n \<le> 64" and "unat (n - 1) = unat n - 1"
proof -
  show "0 < unat n" using assms(1) by (simp add: word_less_nat_alt)
  show "unat n \<le> 64" using assms(2) by (simp add: word_le_nat_alt)
  show "unat (n - 1) = unat n - 1"
    using assms(1) by (subst unat_sub) (auto simp: word_le_nat_alt word_less_nat_alt)
qed

lemma sign_extended:
  fixes n :: u16
  assumes "0 < n" and "n \<le> 64" and "v = take_bit (unat n) w"
  shows "(if v AND push_bit (unat (n - 1)) 1 \<noteq> 0 \<and> n < 64
      then v OR push_bit (unat n) 0xFFFFFFFFFFFFFFFF else v) = signed_take_bit (unat n - 1) (w :: u64)"
proof -
  note u = unat_width[OF assms(1,2)]
  have b: "v AND push_bit (unat (n - 1)) 1 \<noteq> 0 \<longleftrightarrow> bit w (unat n - 1)"
    using u by (subst test_bit_and) (auto simp: assms(3) bit_take_bit_iff)
  have lt: "n < 64 \<longleftrightarrow> unat n < 64" by (simp add: word_less_nat_alt)
  have ones: "(0xFFFFFFFFFFFFFFFF :: u64) = - 1" by simp
  show ?thesis
    unfolding b lt ones
  proof (rule bit_word_eqI)
    fix k assume k: "k < LENGTH(64)"
    consider "k < unat n - 1" | "k = unat n - 1" | "unat n \<le> k" using u by linarith
    then show "bit (if bit w (unat n - 1) \<and> unat n < 64 then v OR push_bit (unat n) (- 1) else v) k
        = bit (signed_take_bit (unat n - 1) w) k"
      by cases (use u k in \<open>auto simp: assms(3) bit_simps bit_signed_take_bit_iff min_def\<close>)
  qed
qed

section \<open>What is written for a value\<close>

lemma spec_ok_width:
  assumes "spec_ok spec"
  shows "0 < BitLength spec" "BitLength spec \<le> 64"
    and "0 < unat (BitLength spec)" "unat (BitLength spec) \<le> 64"
    and "unat (BitLength spec - 1) = unat (BitLength spec) - 1"
  using assms unat_width[of "BitLength spec"] by (simp_all add: spec_ok_def)

lemma pow_width: "0 < n \<Longrightarrow> n \<le> 64 \<Longrightarrow> (2 :: int) ^ (n - 1) \<le> 2 ^ 63"
  by (intro power_increasing) auto

lemma int_top_value:
  assumes "spec_ok spec"
  shows "int (top_value spec) = (if IsSigned spec then 2 ^ (unat (BitLength spec) - 1) - 1
    else 2 ^ unat (BitLength spec) - 1)"
  by (simp add: top_value_def of_nat_diff)

lemma field_range:
  assumes "spec_ok spec"
  shows "field_max spec < (if IsSigned spec then 2 ^ (unat (BitLength spec) - 1)
      else 2 ^ unat (BitLength spec))"
    and "ReservedCount spec = 0 \<or> 0 \<le> field_max spec"
proof -
  have "ReservedCount spec \<noteq> 0 \<longrightarrow> int (unat (ReservedCount spec)) \<le> int (top_value spec)"
    using assms by (auto simp: spec_ok_def simp del: of_nat_unat)
  then show "ReservedCount spec = 0 \<or> 0 \<le> field_max spec"
    unfolding field_max_def by linarith
  have "field_max spec \<le> int (top_value spec)" by (simp add: field_max_def)
  with int_top_value[OF assms] show "field_max spec < (if IsSigned spec
      then 2 ^ (unat (BitLength spec) - 1) else 2 ^ unat (BitLength spec))" by auto
qed

lemma offset_word:
  "(if Offset spec \<noteq> 0 then word_of_int v - Offset spec else word_of_int v)
    = (word_of_int (v - sint (Offset spec)) :: i64)"
  by simp

text \<open>The comparisons of the code, on words, are those of the numbers.\<close>

lemma clamp_words:
  fixes lo hi x :: int
  assumes "- (2 ^ 63) \<le> lo" "lo < 2 ^ 63" "- (2 ^ 63) \<le> hi" "hi < 2 ^ 63"
    and "- (2 ^ 63) \<le> x" "x < 2 ^ 63"
  defines "v \<equiv> (if sint (word_of_int x :: i64) > sint (word_of_int hi :: i64)
      then word_of_int hi else word_of_int x :: i64)"
  shows "(if sint v < sint (word_of_int lo :: i64) then word_of_int lo else v)
    = word_of_int (max lo (min hi x))"
proof -
  note s = sint_word_of_int[OF assms(1,2)] sint_word_of_int[OF assms(3,4)]
    sint_word_of_int[OF assms(5,6)]
  have "v = word_of_int (min hi x)" "sint v = min hi x"
    unfolding v_def s min_def by (auto simp: s)
  then show ?thesis
    unfolding s by (cases "min hi x < lo") (auto simp: max_absorb1 max_absorb2 less_imp_le
        simp del: min_less_iff_disj min.bounded_iff)
qed

lemma pin_words:
  fixes hi x :: int
  assumes "0 \<le> hi" "hi < 2 ^ 64" "0 \<le> x" "x < 2 ^ 64"
  shows "(if word_of_int x > (word_of_int hi :: u64) then word_of_int hi else word_of_int x)
    = (word_of_int (max 0 (min hi x)) :: u64)"
proof -
  have "word_of_int x > (word_of_int hi :: u64) \<longleftrightarrow> nat hi < nat x"
    unfolding word_less_nat_alt unat_word_of_int[OF assms(1,2)] unat_word_of_int[OF assms(3,4)] ..
  then show ?thesis using assms by (auto simp: max_def min_def)
qed

lemma signed_take_bit_of_int:
  assumes "m < 64"
  shows "signed_take_bit m (word_of_int c :: u64) = word_of_int (signed_take_bit m c)"
  using assms
  by (intro bit_word_eqI) (auto simp: bit_signed_take_bit_iff bit_word_of_int_iff min_def)

lemma raw_signed_clamp:
  assumes "spec_ok spec" and "IsSigned spec"
    and "- (2 ^ 63) \<le> v - sint (Offset spec)" and "v - sint (Offset spec) < 2 ^ 63"
  shows "raw_signed spec (word_of_int v)
    = take_bit (unat (BitLength spec)) (word_of_int (field_clamp spec (v - sint (Offset spec))))"
proof -
  let ?n = "unat (BitLength spec)" and ?x = "v - sint (Offset spec)"
  let ?p = "(2 :: int) ^ (?n - 1)"
  note w = spec_ok_width[OF assms(1)]
  have p: "0 < ?p" "?p \<le> 2 ^ 63" using pow_width[OF w(3,4)] by simp_all
  have M: "field_max spec = ?p - 1 - int (unat (ReservedCount spec))"
    using assms(2) by (simp add: field_max_def int_top_value[OF assms(1)])
  have m: "field_min spec = - ?p" using assms(2) by (simp add: field_min_def)
  have M0: "- 1 \<le> field_max spec" "field_max spec < 2 ^ 63"
    using field_range[OF assms(1)] M p assms(2) by auto
  have one: "push_bit (?n - 1) 1 = (word_of_int ?p :: i64)" by (simp add: push_bit_of_1)
  have maxp: "(if ReservedCount spec > 0 then push_bit (?n - 1) 1 - 1 - ucast (ReservedCount spec)
      else push_bit (?n - 1) 1 - 1) = (word_of_int (field_max spec) :: i64)"
  proof -
    have "(ucast (ReservedCount spec) :: i64) = word_of_int (int (unat (ReservedCount spec)))"
      by (intro bit_word_eqI) (simp add: bit_ucast_iff bit_word_of_int_iff bit_uint_iff)
    then show ?thesis by (auto simp: M one word_gt_0 simp flip: word_of_int_inverse)
  qed
  have minp: "- push_bit (?n - 1) 1 = (word_of_int (field_min spec) :: i64)" by (simp add: m one)
  have m0: "- (2 ^ 63) \<le> field_min spec" "field_min spec < 2 ^ 63"
    using p unfolding m by linarith+
  have M1: "- (2 ^ 63) \<le> field_max spec" using M0 by simp
  note c = clamp_words[OF m0 M1 M0(2) assms(3,4)]
  show ?thesis
    unfolding raw_signed_def Let_def offset_word w(5) maxp minp c field_clamp_def
    using w(4) by (simp only: bit_mask_take)
qed

lemma raw_unsigned_clamp:
  assumes "spec_ok spec" and "\<not> IsSigned spec"
    and "0 \<le> v - sint (Offset spec)" and "v - sint (Offset spec) < 2 ^ 64"
    and "ReservedCount spec = 0 \<longrightarrow> v - sint (Offset spec) \<le> field_max spec"
  shows "raw_unsigned spec (word_of_int v) = word_of_int (field_clamp spec (v - sint (Offset spec)))"
proof (cases "ReservedCount spec = 0")
  case True
  then show ?thesis
    unfolding raw_unsigned_def Let_def offset_word
    using assms(2,3,5) by (simp add: field_clamp_def field_min_def)
next
  case False
  then have M: "int (unat (MaxRawValue spec)) = field_max spec"
    using assms(1) by (simp add: spec_ok_def field_max_def of_nat_diff)
  have 0: "0 \<le> field_max spec" by (simp flip: M)
  have 64: "field_max spec < 2 ^ 64"
    using unsigned_less[of "MaxRawValue spec"] by (simp flip: M)
  have w: "MaxRawValue spec = word_of_int (field_max spec)"
    unfolding M[symmetric] by simp
  have c: "field_clamp spec (v - sint (Offset spec)) = max 0 (min (field_max spec) (v - sint (Offset spec)))"
    using assms(2) by (simp add: field_clamp_def field_min_def)
  show ?thesis
    unfolding raw_unsigned_def Let_def offset_word w c pin_words[OF 0 64 assms(3,4), symmetric]
    using False by (simp add: word_gt_0)
qed

section \<open>What is read from it\<close>

lemma field_value_word:
  assumes "spec_ok spec" and "0 \<le> c" and "c \<le> field_max spec"
  shows "take_bit (unat (BitLength spec)) (word_of_int c) = (word_of_int c :: u64)"
    and "unat (word_of_int c :: u64) = nat c"
    and "ReservedCount spec \<noteq> 0 \<Longrightarrow> word_of_int c \<le> MaxRawValue spec"
proof -
  let ?n = "unat (BitLength spec)"
  note w = spec_ok_width[OF assms(1)]
  have "(2 :: int) ^ (?n - 1) \<le> 2 ^ ?n" by (intro power_increasing) simp_all
  moreover have "field_max spec < 2 ^ (?n - 1) \<or> field_max spec < 2 ^ ?n"
    using field_range(1)[OF assms(1)] by (auto split: if_splits)
  ultimately have lt: "c < 2 ^ ?n" using assms(3) by linarith
  have "(2 :: int) ^ ?n \<le> 2 ^ 64" using w by (intro power_increasing) simp_all
  with lt assms(2) show u: "unat (word_of_int c :: u64) = nat c"
    by (intro unat_word_of_int) auto
  have "take_bit ?n c = c" using assms(2) lt by (rule take_bit_int_eq_self)
  moreover have "take_bit ?n (word_of_int c :: u64) = word_of_int (take_bit ?n c)"
    using w by (intro bit_word_eqI) (auto simp: bit_take_bit_iff bit_word_of_int_iff)
  ultimately show "take_bit ?n (word_of_int c) = (word_of_int c :: u64)" by simp
  assume "ReservedCount spec \<noteq> 0"
  then have "int (unat (MaxRawValue spec)) = field_max spec"
    using assms(1) by (simp add: spec_ok_def field_max_def of_nat_diff)
  then show "word_of_int c \<le> MaxRawValue spec"
    using assms(3) unfolding word_le_nat_alt u nat_le_iff by simp
qed

lemma read_signed:
  assumes "spec_ok spec" and "IsSigned spec" and "writable s (BitLength spec)"
    and "field_min spec \<le> c" and "c \<le> field_max spec"
    and "r = at_bit (written s (BitLength spec) (word_of_int c)) (cursor s)"
  shows "(if ReservedCount spec = 0
      then seqE (getNumberRaw (BitLength spec)) (\<lambda>v. returnE (Some (signExtendInt64 v (BitLength spec))))
      else getSignedNullableNumber spec) r
    = Some (Inr (Some (word_of_int c)), written s (BitLength spec) (word_of_int c))"
proof -
  let ?n = "unat (BitLength spec)" and ?w = "word_of_int c :: u64"
  note w = spec_ok_width[OF assms(1)]
  have r: "getNumberRaw (BitLength spec) r = Some (Inr (take_bit ?n ?w), written s (BitLength spec) ?w)"
    unfolding assms(6) by (rule get_written[OF assms(3)])
  have "signed_take_bit (?n - 1) c = c"
    using field_range(1)[OF assms(1)] assms(2,4,5)
    by (intro signed_take_bit_int_eq_self) (auto simp: field_min_def)
  then have s: "signed_take_bit (?n - 1) ?w = ?w"
    using w by (simp add: signed_take_bit_of_int)
  note ext = sign_extended[OF w(1,2) refl, of ?w, unfolded s]
  show ?thesis
  proof (cases "ReservedCount spec = 0")
    case True
    then show ?thesis
      using ext by (simp add: seqE_def r signExtendInt64_def conj_commute)
  next
    case False
    have b: "take_bit ?n ?w AND push_bit (unat (BitLength spec - 1)) 1 > 0 \<longleftrightarrow> c < 0"
    proof -
      have "bit ?w (?n - 1) \<longleftrightarrow> bit c (?n - 1)" using w by (auto simp: bit_word_of_int_iff)
      also have "\<dots> \<longleftrightarrow> c < 0"
        using \<open>signed_take_bit (?n - 1) c = c\<close> by (metis signed_take_bit_negative_iff)
      finally show ?thesis
        unfolding w(5) by (subst test_bit_and_pos) (use w in \<open>auto simp: bit_take_bit_iff\<close>)
    qed
    have "take_bit ?n ?w \<le> MaxRawValue spec" if "0 \<le> c"
      using field_value_word[OF assms(1) that assms(5)] False by simp
    with b have n: "getNullableNumberRaw spec r
        = Some (Inr (Some (take_bit ?n ?w)), written s (BitLength spec) ?w)"
      using assms(2) by (auto simp: getNullableNumberRaw_def seqE_def r not_less)
    show ?thesis
      using ext False by (simp add: getSignedNullableNumber_def seqE_def n Let_def)
  qed
qed

lemma read_unsigned:
  assumes "spec_ok spec" and "\<not> IsSigned spec" and "writable s (BitLength spec)"
    and "field_min spec \<le> c" and "c \<le> field_max spec"
    and "r = at_bit (written s (BitLength spec) (word_of_int c)) (cursor s)"
  shows "(if ReservedCount spec = 0
      then seqE (getNumberRaw (BitLength spec)) (\<lambda>v. returnE (Some v))
      else getNullableNumberRaw spec) r
    = Some (Inr (Some (word_of_int c)), written s (BitLength spec) (word_of_int c))"
proof -
  have "0 \<le> c" using assms(2,4) by (simp add: field_min_def)
  note v = field_value_word[OF assms(1) this assms(5)]
  have "getNumberRaw (BitLength spec) r
      = Some (Inr (word_of_int c), written s (BitLength spec) (word_of_int c))"
    unfolding assms(6) using get_written[OF assms(3)] v(1) by simp
  with v(3) assms(2) show ?thesis
    by (auto simp: seqE_def getNullableNumberRaw_def simp flip: not_less)
qed

lemma read_missing:
  assumes "spec_ok spec" and "writable s (BitLength spec)" and "ReservedCount spec \<noteq> 0"
    and "r = at_bit (written s (BitLength spec) (MissingValue spec)) (cursor s)"
  shows "getNullableNumberRaw spec r
    = Some (Inr None, written s (BitLength spec) (MissingValue spec))"
proof -
  let ?n = "unat (BitLength spec)"
  note w = spec_ok_width[OF assms(1)]
  have m: "int (unat (MissingValue spec)) = int (top_value spec)"
    "unat (MaxRawValue spec) < unat (MissingValue spec)"
    using assms(1,3) unat_gt_0[of "ReservedCount spec"] by (auto simp: spec_ok_def)
  have "(2 :: int) ^ (?n - 1) \<le> 2 ^ ?n" by (intro power_increasing) simp_all
  moreover have "int (unat (MissingValue spec)) = 2 ^ (?n - 1) - 1
      \<or> int (unat (MissingValue spec)) = 2 ^ ?n - 1"
    unfolding m(1) int_top_value[OF assms(1)] by auto
  ultimately have "int (unat (MissingValue spec)) < 2 ^ ?n" by linarith
  then have "unat (MissingValue spec) < 2 ^ ?n" by (metis of_nat_less_iff of_nat_power of_nat_numeral)
  then have t: "take_bit ?n (MissingValue spec) = MissingValue spec"
    by (metis take_bit_nat_eq_self unsigned_take_bit_eq unsigned_word_eqI)
  have g: "getNumberRaw (BitLength spec) r
      = Some (Inr (MissingValue spec), written s (BitLength spec) (MissingValue spec))"
    unfolding assms(4) using get_written[OF assms(2)] t by simp
  have "\<not> bit (MissingValue spec) (?n - 1)" if "IsSigned spec"
  proof -
    have "unat (MissingValue spec) < 2 ^ (?n - 1)"
      using assms(1,3) that by (simp add: spec_ok_def top_value_def)
    then have "take_bit (?n - 1) (MissingValue spec) = MissingValue spec"
      by (metis take_bit_nat_eq_self unsigned_take_bit_eq unsigned_word_eqI)
    then show ?thesis by (metis bit_take_bit_iff less_irrefl)
  qed
  then have "\<not> MissingValue spec AND push_bit (unat (BitLength spec - 1)) 1 > 0"
    if "IsSigned spec"
    using that w(3,4) unfolding w(5) by (subst test_bit_and_pos) auto
  with m(2) show ?thesis
    by (auto simp: getNullableNumberRaw_def seqE_def g word_less_nat_alt)
qed

section \<open>Offsets\<close>

lemma sint_bounds: "- (2 ^ 63) \<le> sint (w :: i64)" "sint (w :: i64) < 2 ^ 63"
  using sint_range_size[of w] by (simp_all add: word_size)

lemma sint_eq_word_of_int:
  "- (2 ^ 63) \<le> i \<Longrightarrow> i < 2 ^ 63 \<Longrightarrow> w = word_of_int i \<Longrightarrow> sint (w :: i64) = i"
  by (simp only: sint_word_of_int)

lemma applySignedOffset_eq:
  "applySignedOffset v off = (if - (2 ^ 63) \<le> sint v + sint off \<and> sint v + sint off < 2 ^ 63
     then Inr (word_of_int (sint v + sint off))
     else Inl ((if sint off > 0 then ''signed offset overflow: '' else ''signed offset underflow: '')
       @ decimal_int (sint v) @ '' + '' @ decimal_int (sint off)))"
proof -
  have "sint (MaxInt64 - off) = 2 ^ 63 - 1 - sint off" if "sint off > 0"
    using that sint_bounds[of off] by (intro sint_eq_word_of_int) (auto simp: MaxInt64_def)
  moreover have "sint (MinInt64 - off) = - (2 ^ 63) - sint off" if "sint off < 0"
    using that sint_bounds[of off] by (intro sint_eq_word_of_int) (auto simp: MinInt64_def)
  ultimately show ?thesis
    using sint_bounds[of v] sint_bounds[of off]
    by (auto simp: applySignedOffset_def)
qed

lemma applyUnsignedOffset_eq:
  "applyUnsignedOffset v off = (if 0 \<le> uint v + sint off \<and> uint v + sint off < 2 ^ 64
     then Inr (word_of_int (uint v + sint off))
     else Inl ((if sint off < 0 then ''unsigned offset underflow: '' else ''unsigned offset overflow: '')
       @ decimal (unat v) @ '' + '' @ decimal_int (sint off)))"
proof (cases "sint off < 0")
  case True
  have "- off = word_of_int (- sint off)" by simp
  then have "uint (- off) = take_bit LENGTH(64) (- sint off)"
    by (simp only: uint_word_of_int_eq)
  also have "\<dots> = - sint off"
    using True sint_bounds[of off] by (intro take_bit_int_eq_self) auto
  finally have "v < - off \<longleftrightarrow> uint v < - sint off" by (simp add: word_less_def)
  moreover have "uint v + sint off < 2 ^ 64" using True uint_bounded[of v] by simp
  ultimately show ?thesis
    using True by (auto simp: applyUnsignedOffset_def Let_def)
next
  case False
  have "take_bit LENGTH(64) (sint off) = sint off"
    using False sint_bounds[of off] by (intro take_bit_int_eq_self) auto
  then have o: "uint off = sint off" by (simp add: uint_sint)
  have "uint (NOT 0 :: u64) = 2 ^ 64 - 1"
    by (simp add: uint_word_ariths)
  then have "uint (NOT 0 - off) = 2 ^ 64 - 1 - sint off"
    using sint_bounds[of off] by (simp add: uint_sub_if' o)
  then have "v > NOT 0 - off \<longleftrightarrow> uint v > 2 ^ 64 - 1 - sint off" by (simp add: word_less_def)
  then show ?thesis
    using False by (auto simp: applyUnsignedOffset_def)
qed

section \<open>A field written and read back\<close>

text \<open>
  \<open>field_takes T spec v\<close>: the subtraction of the offset does not wrap around, a field without
  reserved values is in range (an unsigned one is not clamped), and what comes back fits the Go
  type it is read into.
\<close>

definition field_value :: "FieldSpec \<Rightarrow> int \<Rightarrow> int" where
  "field_value spec v = field_clamp spec (v - sint (Offset spec)) + sint (Offset spec)"

definition field_takes :: "goint \<Rightarrow> FieldSpec \<Rightarrow> int \<Rightarrow> bool" where
  "field_takes T spec v \<longleftrightarrow> go_range T (field_value spec v) \<and>
     (if IsSigned spec
      then - (2 ^ 63) \<le> v - sint (Offset spec) \<and> v - sint (Offset spec) < 2 ^ 63
        \<and> - (2 ^ 63) \<le> field_value spec v \<and> field_value spec v < 2 ^ 63
      else 0 \<le> v - sint (Offset spec) \<and> v - sint (Offset spec) < 2 ^ 64
        \<and> 0 \<le> field_value spec v \<and> field_value spec v < 2 ^ 64
        \<and> (ReservedCount spec = 0 \<longrightarrow> v - sint (Offset spec) \<le> field_max spec))"

lemma field_clamp_range:
  assumes "spec_ok spec"
  shows "field_min spec \<le> field_clamp spec x" and "field_clamp spec x \<le> field_max spec"
proof -
  show "field_min spec \<le> field_clamp spec x" by (simp add: field_clamp_def)
  have "field_min spec \<le> field_max spec"
    using field_range(2)[OF assms] int_top_value[OF assms]
    by (auto simp: field_min_def field_max_def intro: order_trans[of _ 0])
  then show "field_clamp spec x \<le> field_max spec" by (simp add: field_clamp_def)
qed

lemma write_read_field:
  assumes "spec_ok spec" and "writable s (BitLength spec)" and "field_takes T spec v"
  defines "s' \<equiv> written s (BitLength spec) (word_of_int (field_clamp spec (v - sint (Offset spec))))"
  shows "WriteRaw (Some v) (Some spec) s = Some (Inr (), s')"
    and "ReadRaw T (Some spec) (at_bit s' (cursor s)) = Some (Inr (Some (field_value spec v)), s')"
proof -
  let ?c = "field_clamp spec (v - sint (Offset spec))" and ?n = "BitLength spec"
  note c = field_clamp_range[OF assms(1)] and w = spec_ok_width[OF assms(1)]
  have t: "written s ?n (take_bit (unat ?n) x) = written s ?n x" for x
  proof -
    have "or_bits (dat s) (cursor s) (unat ?n) (take_bit (unat ?n) x)
        = or_bits (dat s) (cursor s) (unat ?n) x"
      by (rule bytes_eqI) (auto simp: dbit_or_bits bit_take_bit_iff)
    then show ?thesis by (simp add: written_def)
  qed
  have "putNumberRaw (take_bit (unat ?n) (word_of_int ?c)) ?n 0 s = Some (Inr (), s')"
    using put_written[OF assms(2)] by (simp add: s'_def t)
  moreover have "putNumberRaw (word_of_int ?c) ?n 0 s = Some (Inr (), s')"
    using put_written[OF assms(2)] by (simp add: s'_def)
  ultimately show "WriteRaw (Some v) (Some spec) s = Some (Inr (), s')"
    using assms(1,3) by (simp add: WriteRaw_def raw_signed_clamp raw_unsigned_clamp field_takes_def
        split: if_splits)
  have g: "go_conv T (word_of_int (field_value spec v)) = field_value spec v"
    using assms(3) by (intro go_conv_of_int) (simp add: field_takes_def)
  have 64: "\<not> 64 < ?n" using w(2) by (simp add: not_less)
  show "ReadRaw T (Some spec) (at_bit s' (cursor s)) = Some (Inr (Some (field_value spec v)), s')"
  proof (cases "IsSigned spec")
    case True
    note r = read_signed[OF assms(1) True assms(2) c refl]
    have "sint (word_of_int ?c :: i64) = ?c"
    proof -
      have "- (2 ^ (unat ?n - 1)) \<le> ?c" "?c < 2 ^ (unat ?n - 1)"
        using c[of "v - sint (Offset spec)"] True field_range(1)[OF assms(1)]
        by (simp_all add: field_min_def)
      with pow_width[OF w(3,4)] show ?thesis by (intro sint_word_of_int) linarith+
    qed
    then have "(if Offset spec \<noteq> 0 then liftE (applySignedOffset (word_of_int ?c) (Offset spec))
          else returnE (word_of_int ?c)) s' = Some (Inr (word_of_int (field_value spec v)), s')"
      using assms(3) True by (auto simp: applySignedOffset_eq liftE_def field_takes_def field_value_def)
    with r True 64 g show ?thesis
      by (simp add: ReadRaw_def s'_def seqE_def)
  next
    case False
    note r = read_unsigned[OF assms(1) False assms(2) c refl]
    have "uint (word_of_int ?c :: u64) = ?c"
      using field_value_word(2)[OF assms(1) _ c(2)] c(1) False
      by (metis field_min_def int_nat_eq of_nat_unat)
    then have "(if Offset spec \<noteq> 0 then liftE (applyUnsignedOffset (word_of_int ?c) (Offset spec))
          else returnE (word_of_int ?c)) s' = Some (Inr (word_of_int (field_value spec v)), s')"
      using assms(3) False by (auto simp: applyUnsignedOffset_eq liftE_def field_takes_def field_value_def)
    with r False 64 g show ?thesis
      by (simp add: ReadRaw_def s'_def seqE_def)
  qed
qed

section \<open>Properties\<close>


text \<open>A temperature-like signed field with an offset, and a plain byte.\<close>

definition ex_signed_spec :: FieldSpec where
  "ex_signed_spec = \<lparr>BitLength = 32, BitOffset = 0, MaxRawValue = 0x7FFFFFFD,
     MissingValue = 0x7FFFFFFF, Offset = - 2000000000, IsSigned = True, ReservedCount = 2,
     BitLengthVariable = False\<rparr>"

definition ex_byte_spec :: FieldSpec where
  "ex_byte_spec = \<lparr>BitLength = 8, BitOffset = 0, MaxRawValue = 0xFD, MissingValue = 0xFF,
     Offset = 0, IsSigned = False, ReservedCount = 2, BitLengthVariable = False\<rparr>"

lemma ex_specs_ok: "spec_ok ex_signed_spec" "spec_ok ex_byte_spec"
  by (simp_all add: spec_ok_def top_value_def ex_signed_spec_def ex_byte_spec_def)

lemma writable_new:
  assumes "length d < 65536" and "\<forall>b \<in> set d. b = 0" and "unat n \<le> 8 * length d"
    and "length d = c"
  shows "writable (NewDataStream d c) n"
proof -
  have "\<not> dbit d k" if "k < 8 * length d" for k
  proof -
    have "k div 8 < length d" using that by auto
    then have "d ! (k div 8) = 0" using assms(2) nth_mem by blast
    then show ?thesis by (simp add: dbit_def)
  qed
  with assms(1,3,4) show ?thesis
    by (simp add: writable_def NewDataStream_def stream_ok_def cursor_def)
qed


text \<open>
  A missing value survives the wire: a nil written to a well-formed field that
  reserves values is read back as nil, over exactly the bits of the field; without reserved
  values the write is refused with an error and writes nothing.
\<close>

theorem nil_field_roundtrip:
  assumes "spec_ok spec" and "writable s (BitLength spec)"
  shows "if ReservedCount spec = 0 then \<exists>e. WriteRaw None (Some spec) s = Some (Inl e, s)
     else \<exists>s'. WriteRaw None (Some spec) s = Some (Inr (), s')
       \<and> cursor s' = cursor s + unat (BitLength spec)
       \<and> ReadRaw T (Some spec) (at_bit s' (cursor s)) = Some (Inr None, s')"
proof (cases "ReservedCount spec = 0")
  case False
  let ?s' = "written s (BitLength spec) (MissingValue spec)"
  have "WriteRaw None (Some spec) s = Some (Inr (), ?s')"
    using False put_written[OF assms(2)] by (simp add: WriteRaw_def)
  moreover have "\<not> 64 < BitLength spec" using assms(1) by (simp add: spec_ok_def not_less)
  then have "ReadRaw T (Some spec) (at_bit ?s' (cursor s)) = Some (Inr None, ?s')"
    using False read_missing[OF assms False refl]
    by (simp add: ReadRaw_def seqE_def getSignedNullableNumber_def)
  ultimately show ?thesis using False written_cursor(1)[OF assms(2)] by auto
qed (simp add: WriteRaw_def)

theorem nil_field_roundtrip_witness:
  "\<exists>s'. WriteRaw None (Some ex_byte_spec) (NewDataStream [0] 1) = Some (Inr (), s')
     \<and> ReadRaw (8, False) (Some ex_byte_spec) (at_bit s' 0) = Some (Inr None, s')"
proof -
  have "writable (NewDataStream [0] 1) (BitLength ex_byte_spec)"
    using writable_new[of "[0]" 8 1] by (simp add: ex_byte_spec_def)
  from nil_field_roundtrip[OF ex_specs_ok(2) this, of "(8, False)"] show ?thesis
    by (auto simp: ex_byte_spec_def NewDataStream_def cursor_def)
qed

text \<open>
  The offset arithmetic is exact: each of the two additions gives the sum, read with
  its own sign, whenever the sum is representable, and an error exactly when it is not; it
  never wraps around.
\<close>

theorem offsets_exact:
  "(case applySignedOffset v off of
      Inr w \<Rightarrow> sint w = sint v + sint off
    | Inl _ \<Rightarrow> \<not> (- (2 ^ 63) \<le> sint v + sint off \<and> sint v + sint off < 2 ^ 63))
   \<and> (case applyUnsignedOffset u off of
      Inr w \<Rightarrow> uint w = uint u + sint off
    | Inl _ \<Rightarrow> \<not> (0 \<le> uint u + sint off \<and> uint u + sint off < 2 ^ 64))"
proof -
  have "sint (word_of_int (sint v + sint off) :: i64) = sint v + sint off"
    if "- (2 ^ 63) \<le> sint v + sint off" "sint v + sint off < 2 ^ 63"
    using that by (rule sint_word_of_int)
  moreover have "uint (word_of_int (uint u + sint off) :: u64) = uint u + sint off"
    if "0 \<le> uint u + sint off" "uint u + sint off < 2 ^ 64"
    using unat_word_of_int[OF that] that by (metis int_nat_eq of_nat_unat)
  ultimately show ?thesis
    by (simp add: applySignedOffset_eq applyUnsignedOffset_eq del: wi_hom_syms wi_hom_add)
qed

end
