(* ===== verification/Fieldgen.thy ===== *)
theory Fieldgen
  imports Rawfields
begin

text \<open>
  The part of the code generator that computes the field specifications
  (\<open>cmd/pgngen/main.go\<close>): from the width, the sign and the type of a field of the PGN database to
  its maximum, its missing value and its number of reserved values. The library's reads and
  writes are correct for specifications in which these agree (\<open>spec_ok\<close>); here the generator is
  shown to produce only such ones.
\<close>

text \<open>The fields of \<open>PGNField\<close> these functions read.\<close>

record PGNField =
  fld_BitLength :: u16
  fld_BitLengthVariable :: bool
  fld_BitOffset :: u16
  fld_FieldType :: string
  fld_Offset :: i64
  fld_Signed :: bool

definition reservedNumericType :: "string \<Rightarrow> bool" where
  "reservedNumericType fieldType \<longleftrightarrow>
     fieldType \<in> {''NUMBER'', ''DATE'', ''TIME'', ''PGN'', ''ISO_NAME'', ''DURATION'',
       ''DYNAMIC_FIELD_KEY'', ''DYNAMIC_FIELD_LENGTH''}"

definition calcMaxRawValue :: "PGNField \<Rightarrow> u64" where
  "calcMaxRawValue field =
     (if fld_BitLength field = 0 then 0
      else if \<not> reservedNumericType (fld_FieldType field) then 0
      else (let maxRawVal = drop_bit (unat (64 - fld_BitLength field)) 0xFFFFFFFFFFFFFFFF
            in if fld_Signed field then drop_bit 1 maxRawVal else maxRawVal))"

definition getReservedValueCount :: "PGNField \<Rightarrow> u8" where
  "getReservedValueCount field =
     (if \<not> reservedNumericType (fld_FieldType field) then 0
      else if fld_BitLength field = 0 then 0
      else if fld_BitLength field \<ge> 4 then 2 else 1)"

definition calcMaxValidRawValue :: "PGNField \<Rightarrow> u64" where
  "calcMaxValidRawValue field =
     (if fld_BitLength field = 0 \<or> \<not> reservedNumericType (fld_FieldType field) then 0
      else (let reservedCount = getReservedValueCount field; maxRaw = calcMaxRawValue field
            in if reservedCount > 0 then maxRaw - ucast reservedCount else maxRaw))"

definition calcMissingValue :: "PGNField \<Rightarrow> u64" where
  "calcMissingValue field =
     (if getReservedValueCount field = 0 then 0
      else (let missing = drop_bit (unat (64 - fld_BitLength field)) 0xFFFFFFFFFFFFFFFF
            in if fld_Signed field then drop_bit 1 missing else missing))"

text \<open>The specification whose Go text \<open>generateFieldSpecConstant\<close> prints.\<close>

definition generateFieldSpecConstant :: "PGNField \<Rightarrow> FieldSpec" where
  "generateFieldSpecConstant field =
     \<lparr>BitLength = fld_BitLength field, BitOffset = fld_BitOffset field,
      MaxRawValue = calcMaxValidRawValue field, MissingValue = calcMissingValue field,
      Offset = fld_Offset field, IsSigned = fld_Signed field,
      ReservedCount = getReservedValueCount field,
      BitLengthVariable = fld_BitLengthVariable field\<rparr>"

section \<open>The values are those of the width\<close>

lemma unat_ones:
  assumes "m \<le> 64"
  shows "unat (drop_bit m (0xFFFFFFFFFFFFFFFF :: u64)) = 2 ^ (64 - m) - 1"
proof -
  have "(0xFFFFFFFFFFFFFFFF :: u64) = mask 64" by (simp add: mask_numeral)
  moreover have "drop_bit m (mask 64 :: u64) = mask (64 - m)"
    by (rule bit_word_eqI) (use assms in \<open>auto simp: bit_simps\<close>)
  moreover have "unat (mask k :: u64) = 2 ^ k - 1" if "k \<le> 64" for k
  proof -
    have "unat (mask k :: u64) = mask k"
      by (rule bit_eqI) (use that in \<open>auto simp: bit_simps\<close>)
    then show ?thesis by (simp add: mask_eq_exp_minus_1)
  qed
  ultimately show ?thesis by simp
qed

lemma calcMissingValue_top:
  assumes "0 < fld_BitLength field" and "fld_BitLength field \<le> 64"
    and "reservedNumericType (fld_FieldType field)"
  shows "unat (calcMissingValue field) = top_value (generateFieldSpecConstant field)"
    and "calcMaxRawValue field = calcMissingValue field"
proof -
  let ?n = "unat (fld_BitLength field)"
  note n = unat_width[OF assms(1,2)]
  have u: "unat (64 - fld_BitLength field) = 64 - ?n"
    using assms(2) by (subst unat_sub) (simp_all add: word_le_nat_alt)
  have ones: "unat (drop_bit (64 - ?n) (0xFFFFFFFFFFFFFFFF :: u64)) = 2 ^ ?n - 1"
    using unat_ones[of "64 - ?n"] n by simp
  have half: "unat (drop_bit 1 (drop_bit (64 - ?n) (0xFFFFFFFFFFFFFFFF :: u64))) = 2 ^ (?n - 1) - 1"
    using unat_ones[of "Suc (64 - ?n)"] n by simp
  have r: "getReservedValueCount field \<noteq> 0"
    using assms by (simp add: getReservedValueCount_def word_gt_0)
  show "unat (calcMissingValue field) = top_value (generateFieldSpecConstant field)"
    using r ones half u
    by (simp add: calcMissingValue_def Let_def top_value_def generateFieldSpecConstant_def)
  show "calcMaxRawValue field = calcMissingValue field"
    using r assms by (simp add: calcMissingValue_def calcMaxRawValue_def Let_def word_gt_0)
qed

section \<open>Properties\<close>

text \<open>
  Claim C39. The generator and the run time agree: for every field of 1 to 64 bits (a signed one
  of at least 2) the generated specification is well-formed, so that the integer round trips
  hold for every generated field.
\<close>

theorem generated_specs_ok:
  assumes "0 < fld_BitLength field" and "fld_BitLength field \<le> 64"
    and "fld_Signed field \<longrightarrow> 2 \<le> fld_BitLength field"
  shows "spec_ok (generateFieldSpecConstant field)"
proof (cases "reservedNumericType (fld_FieldType field)")
  case False
  with assms show ?thesis
    by (simp add: spec_ok_def generateFieldSpecConstant_def getReservedValueCount_def)
next
  case True
  let ?n = "unat (fld_BitLength field)" and ?spec = "generateFieldSpecConstant field"
  note n = unat_width[OF assms(1,2)] and m = calcMissingValue_top[OF assms(1,2) True]
  let ?r = "unat (getReservedValueCount field)"
  have "fld_BitLength field \<ge> 4 \<longleftrightarrow> 4 \<le> ?n" by (simp add: word_le_nat_alt)
  then have r: "?r = (if 4 \<le> ?n then 2 else 1)"
    using True assms(1) by (auto simp: getReservedValueCount_def word_gt_0)
  have "?r \<le> top_value ?spec"
  proof -
    have two: "fld_Signed field \<longrightarrow> 2 \<le> ?n" using assms(3) by (simp add: word_le_nat_alt)
    have "(2 :: nat) ^ 3 \<le> 2 ^ (?n - 1)" if "4 \<le> ?n"
      using that by (intro power_increasing) auto
    moreover have "(2 :: nat) ^ 4 \<le> 2 ^ ?n" if "4 \<le> ?n"
      using that by (intro power_increasing) auto
    moreover have "(2 :: nat) ^ 1 \<le> 2 ^ ?n" using n by (intro power_increasing) auto
    moreover have "(2 :: nat) ^ 1 \<le> 2 ^ (?n - 1)" if "2 \<le> ?n"
      using that by (intro power_increasing) auto
    ultimately show ?thesis
      using two by (auto simp: r top_value_def generateFieldSpecConstant_def)
  qed
  moreover have "unat (calcMaxValidRawValue field) = top_value ?spec - ?r"
  proof -
    have "unat (ucast (getReservedValueCount field) :: u64) = ?r" by (simp add: unat_ucast_up)
    moreover have "calcMaxValidRawValue field
        = calcMissingValue field - ucast (getReservedValueCount field)"
      using True assms(1) m(2) by (simp add: calcMaxValidRawValue_def Let_def word_gt_0)
    ultimately show ?thesis
      using \<open>?r \<le> top_value ?spec\<close> m(1) by (simp add: unat_sub word_le_nat_alt)
  qed
  ultimately show ?thesis
    using m(1) assms(1,2) by (simp add: spec_ok_def) (simp add: generateFieldSpecConstant_def)
qed

theorem generated_specs_ok_witness:
  "spec_ok (generateFieldSpecConstant
     \<lparr>fld_BitLength = 21, fld_BitLengthVariable = False, fld_BitOffset = 0,
      fld_FieldType = ''NUMBER'', fld_Offset = 0, fld_Signed = False\<rparr>)"
  by (rule generated_specs_ok) simp_all

end
