(* ===== verification/Stringfields.thy ===== *)
theory Stringfields
  imports Rawfields
begin

text \<open>
  Bytes and text in a message (\<open>internal/pgn/readdatastream.go\<close>, \<open>writedatastream.go\<close> and
  \<open>pkg/pgn/stringlau.go\<close>): binary fields, strings of a fixed length, strings with a length byte
  (\<open>STRING_LZ\<close>) and strings with a length and a control byte (\<open>STRING_LAU\<close>). A Go string is its
  bytes; a byte slice is passed by value, so that \<open>append\<close> never reaches memory of the caller.
\<close>

section \<open>Binary fields\<close>

definition MaxPGNLength :: u16 where
  "MaxPGNLength = 223"

text \<open>The bytes a field of so many bits needs.\<close>

definition byte_count :: "u16 \<Rightarrow> u16" where
  "byte_count bitLength = of_nat ((unat bitLength + 7) div 8)"

fun read_bytes :: "nat \<Rightarrow> DataStream \<Rightarrow> bytes \<times> DataStream" where
  "read_bytes 0 s = ([], s)"
| "read_bytes (Suc n) s =
     (let b = dat s ! unat (byteOffset s);
          (bs, s) = read_bytes n (s\<lparr>byteOffset := byteOffset s + 1\<rparr>)
      in (b # bs, s))"

definition readBinaryData :: "u16 \<Rightarrow> (DataStream, bytes) step" where
  "readBinaryData bitLength s =
     (if bitOffset s \<noteq> 0 then failE ''binary data must be aligned on byte boundary'' s
      else (let numBytes = byte_count bitLength;
                bytesRemaining = int (length (dat s)) - int (unat (byteOffset s))
            in if bytesRemaining < int (unat numBytes)
               then failE (''not enough bytes remaining to read '' @ decimal (unat bitLength) @ '' bits'') s
               else (let oddBits = bitLength AND 7;
                         (arr, s) = read_bytes (unat numBytes) s
                     in if oddBits \<noteq> 0
                        then returnE (arr[unat (numBytes - 1) := arr ! unat (numBytes - 1)
                                 AND drop_bit (unat (8 - oddBits)) 0xFF])
                               (s\<lparr>bitOffset := bitOffset s + ucast oddBits,
                                  byteOffset := byteOffset s - 1\<rparr>)
                        else returnE arr s)))"

fun write_bytes :: "bytes \<Rightarrow> DataStream \<Rightarrow> DataStream option" where
  "write_bytes [] s = Some s"
| "write_bytes (b # bs) s =
     (if unat (byteOffset s) \<ge> length (dat s) then None
      else write_bytes bs (s\<lparr>dat := (dat s)[unat (byteOffset s) := b], byteOffset := byteOffset s + 1\<rparr>))"

text \<open>A nil slice behaves as an empty one. \<open>None\<close> is an index panic.\<close>

definition writeBinary :: "bytes \<Rightarrow> u16 \<Rightarrow> u16 \<Rightarrow> (DataStream, unit) step" where
  "writeBinary v bitLength off s =
     (if getBitOffset s \<noteq> ucast off \<and> off \<noteq> 0
      then failE (''attempt to write field at wrong offset in writeBinary: ''
              @ decimal (unat (getBitOffset s)) @ '', '' @ decimal (unat off)) s
      else
        (let numBytes = (if bitLength = 0 then of_nat (length v) else byte_count bitLength);
             room = MaxPGNLength - off div 8
         in if numBytes > room \<and> room = 0
            then failE ''attempt to write binary field at maximum pgn length'' s
            else
              (let numBytes = (if numBytes > room then room else numBytes);
                   short = bitLength \<noteq> 0 \<and> (of_nat (length v) :: u16) < numBytes
               in if short \<and> length v > unat numBytes then None
                  else (let v = (if short then v @ replicate (unat numBytes - length v) 0 else v)
                    in if bitOffset s \<noteq> 0 then failE ''BINARY field must be byte aligned'' s
                       else (case write_bytes (take (unat numBytes) v) s of
                           None \<Rightarrow> None
                         | Some s \<Rightarrow>
                             (let oddBits = bitLength mod 8; i = unat (byteOffset s - 1)
                              in if oddBits = 0 then returnE () s
                                 else if i \<ge> length (dat s) then None
                                 else returnE () (s\<lparr>byteOffset := byteOffset s - 1,
                                        bitOffset := ucast oddBits,
                                        dat := (dat s)[i := dat s ! i
                                          AND drop_bit (unat (8 - oddBits)) 0xFF]\<rparr>)))))))"

definition readVariableDataWithSpec :: "FieldSpec option \<Rightarrow> (DataStream, bytes) step" where
  "readVariableDataWithSpec spec' =
     (case spec' of
        None \<Rightarrow> failE ''FieldSpec is nil''
      | Some spec \<Rightarrow> readBinaryData ((BitLength spec + 7) AND NOT 7))"

section \<open>Text of the standard library\<close>

text \<open>\<open>utf16.Decode\<close>, the encoding of a rune in UTF-8, and the width of the rune a string starts with.\<close>

fun utf16_decode :: "nat list \<Rightarrow> nat list" where
  "utf16_decode [] = []"
| "utf16_decode [r] = [if r < 0xD800 \<or> 0xE000 \<le> r then r else 0xFFFD]"
| "utf16_decode (r # r2 # rs) =
     (if r < 0xD800 \<or> 0xE000 \<le> r then r # utf16_decode (r2 # rs)
      else if r < 0xDC00 \<and> 0xDC00 \<le> r2 \<and> r2 < 0xE000
      then ((r - 0xD800) * 0x400 + (r2 - 0xDC00) + 0x10000) # utf16_decode rs
      else 0xFFFD # utf16_decode (r2 # rs))"

definition utf8_rune :: "nat \<Rightarrow> bytes" where
  "utf8_rune r =
     (if r < 0x80 then [of_nat r]
      else if r < 0x800 then [of_nat (0xC0 + r div 0x40), of_nat (0x80 + r mod 0x40)]
      else if r < 0x10000
      then [of_nat (0xE0 + r div 0x1000), of_nat (0x80 + r div 0x40 mod 0x40), of_nat (0x80 + r mod 0x40)]
      else [of_nat (0xF0 + r div 0x40000), of_nat (0x80 + r div 0x1000 mod 0x40),
            of_nat (0x80 + r div 0x40 mod 0x40), of_nat (0x80 + r mod 0x40)])"

definition cont_byte :: "u8 \<Rightarrow> bool" where
  "cont_byte b \<longleftrightarrow> 0x80 \<le> b \<and> b \<le> 0xBF"

definition rune_width :: "bytes \<Rightarrow> nat" where
  "rune_width bs =
     (let at = (\<lambda>i. if i < length bs then bs ! i else 0); b = at 0; c = at 1; d = at 2; e = at 3
      in if bs = [] then 0
         else if 0xC2 \<le> b \<and> b \<le> 0xDF \<and> cont_byte c then 2
         else if 0xE0 \<le> b \<and> b \<le> 0xEF \<and> (if b = 0xE0 then 0xA0 else 0x80) \<le> c
                \<and> c \<le> (if b = 0xED then 0x9F else 0xBF) \<and> cont_byte d then 3
         else if 0xF0 \<le> b \<and> b \<le> 0xF4 \<and> (if b = 0xF0 then 0x90 else 0x80) \<le> c
                \<and> c \<le> (if b = 0xF4 then 0x8F else 0xBF) \<and> cont_byte d \<and> cont_byte e then 4
         else 1)"

lemma rune_width_pos: "bs \<noteq> [] \<Longrightarrow> 0 < rune_width bs"
  unfolding rune_width_def Let_def by (simp split del: if_split) (simp split: if_split)

text \<open>The positions a \<open>range\<close> loop over a string visits: where its runes start.\<close>

function rune_starts :: "nat \<Rightarrow> bytes \<Rightarrow> nat list" where
  "rune_starts i bs = (if bs = [] then [] else i # rune_starts (i + rune_width bs) (drop (rune_width bs) bs))"
  by pat_completeness auto
termination
  by (relation "measure (\<lambda>(_, bs). length bs)") (auto simp: rune_width_pos)

declare rune_starts.simps [simp del]

section \<open>Strings with a length and a control byte\<close>

definition trimASCIILAUTerminator :: "bytes \<Rightarrow> bytes" where
  "trimASCIILAUTerminator arr = (if length arr > 0 \<and> last arr = 0 then butlast arr else arr)"

definition trimUTF16LAUTerminator :: "bytes \<Rightarrow> bytes" where
  "trimUTF16LAUTerminator arr =
     (if length arr \<ge> 2 \<and> arr ! (length arr - 2) = 0 \<and> last arr = 0 then take (length arr - 2) arr
      else if length arr mod 2 \<noteq> 0 \<and> length arr > 0 \<and> last arr = 0 then butlast arr
      else arr)"

fun code_units :: "bytes \<Rightarrow> nat list" where
  "code_units (a # b # bs) = (unat a * 256 + unat b) # code_units bs"
| "code_units _ = []"

definition readStringWithLengthAndControl :: "(DataStream, gostring) step" where
  "readStringWithLengthAndControl =
     seqE (readBinaryData 16) (\<lambda>lc.
       if lc = [] then failE ''no data available for string length and control''
       else if lc ! 0 \<le> 2 then returnE []
       else (let byteLength = unat (lc ! 0) - 2
             in seqE (readBinaryData (of_nat byteLength * 8)) (\<lambda>arr.
                  if lc ! 1 = 0
                  then (let arr = trimUTF16LAUTerminator arr
                        in if length arr mod 2 \<noteq> 0
                           then failE (''UTF-16 string has odd byte length: '' @ decimal (length arr))
                           else returnE (concat (map utf8_rune (utf16_decode (code_units arr)))))
                  else returnE (trimASCIILAUTerminator arr))))"

definition DecodeStringLAU :: "bytes \<Rightarrow> (goerror + gostring) option" where
  "DecodeStringLAU d =
     map_option fst (readStringWithLengthAndControl (NewDataStream d (length d)))"

definition maxStringLAUUTF8Bytes :: nat where
  "maxStringLAUUTF8Bytes = 253"

definition EncodeStringLAU :: "gostring \<Rightarrow> goerror + bytes" where
  "EncodeStringLAU v =
     (if length v > maxStringLAUUTF8Bytes
      then Inl (''STRING_LAU value is too long: '' @ decimal (length v) @ '' bytes'')
      else Inr (of_nat (length v + 2) # 1 # v))"

definition writeStringLau :: "gostring \<Rightarrow> u16 \<Rightarrow> (DataStream, unit) step" where
  "writeStringLau v off =
     (let out = (if v = [] then [2, 1] else [of_nat (length v) + 2, 1] @ v)
      in writeBinary out (of_nat (length out * 8)) off)"

section \<open>Strings with a length byte\<close>

definition readStringWithLength :: "u16 \<Rightarrow> (DataStream, gostring) step" where
  "readStringWithLength bitLength =
     seqE (readBinaryData 8) (\<lambda>lengthByte.
       if lengthByte = [] then failE ''no data available for string length byte''
       else (let strLen = lengthByte ! 0
             in if strLen = 0 then returnE []
                else (let bytesToRead = ucast (strLen + 1) * 8;
                          remainingBits = bitLength - 8;
                          bytesToRead = (if bitLength > 0 \<and> bytesToRead > remainingBits
                                         then remainingBits else bytesToRead)
                      in seqE (readBinaryData bytesToRead) (\<lambda>arr.
                           if arr = [] then failE ''no data available for string content''
                           else if length arr < unat (strLen + 1) then failE ''string not properly terminated''
                           else if unat strLen \<ge> length arr then (\<lambda>_. None)
                           else if arr ! unat strLen \<noteq> 0 then failE ''string not properly terminated''
                           else returnE (take (unat strLen) arr)))))"

text \<open>
  The loop that copies the string visits the starts of its runes only. \<open>None\<close> is the index
  panic on a buffer shorter than the string.
\<close>

fun copy_runes :: "nat list \<Rightarrow> gostring \<Rightarrow> bytes \<Rightarrow> bytes option" where
  "copy_runes [] v out = Some out"
| "copy_runes (i # is) v out =
     (if i + 1 \<ge> length out then None else copy_runes is v (out[i + 1 := v ! i]))"

definition writeStringWithLength :: "gostring \<Rightarrow> u16 \<Rightarrow> u16 \<Rightarrow> (DataStream, unit) step" where
  "writeStringWithLength v bitLength off s =
     (let len = of_nat (length v) + 1 :: u8; fieldLength = ucast (bitLength div 8) :: u8
      in if len + 1 > fieldLength
         then failE ''attempt to write string with length longer than field's length'' s
         else if fieldLength = 0 then None
         else (case copy_runes (rune_starts 0 v) v ((replicate (unat fieldLength) 0)[0 := len]) of
                 None \<Rightarrow> None
               | Some out \<Rightarrow> writeBinary out bitLength off s))"

section \<open>Strings of a fixed length\<close>

definition cut_at :: "u8 \<Rightarrow> gostring \<Rightarrow> gostring" where
  "cut_at b v = takeWhile (\<lambda>c. c \<noteq> b) v"

definition readFixedString :: "u16 \<Rightarrow> (DataStream, gostring) step" where
  "readFixedString bitLength =
     seqE (readBinaryData bitLength) (\<lambda>arr.
       returnE (cut_at 0x40 (cut_at 0xFF (cut_at 0 arr))))"

definition writeStringFix :: "bytes \<Rightarrow> u16 \<Rightarrow> u16 \<Rightarrow> (DataStream, unit) step" where
  "writeStringFix v bitLength off =
     (let byteCount = unat (bitLength div 8)
      in writeBinary (v @ replicate (byteCount - length v) 0xFF) bitLength off)"

section \<open>Whole bytes at an aligned cursor\<close>

definition aligned :: "DataStream \<Rightarrow> bool" where
  "aligned s \<longleftrightarrow> stream_ok s \<and> bitOffset s = 0"

definition byte_pos :: "DataStream \<Rightarrow> nat" where
  "byte_pos s = unat (byteOffset s)"

lemma aligned_facts:
  assumes "aligned s"
  shows "cursor s = 8 * byte_pos s" "byte_pos s \<le> length (dat s)" "length (dat s) < 65536"
    "stream_ok s" "bitOffset s = 0"
  using assms by (auto simp: aligned_def byte_pos_def stream_ok_def cursor_def)

lemma aligned_at_bit:
  assumes "aligned s" and "k \<le> length (dat s)"
  shows "aligned (at_bit s (8 * k))" and "byte_pos (at_bit s (8 * k)) = k"
  using assms stream_ok_at_bit[of s "8 * k"]
  by (auto simp: aligned_def byte_pos_def stream_ok_def) (auto simp: at_bit_def unat_of_nat)

lemma moved_bytes:
  assumes "aligned s" and "byte_pos s + m \<le> length (dat s)"
  shows "s\<lparr>byteOffset := byteOffset s + of_nat m\<rparr> = at_bit s (8 * (byte_pos s + m))"
  using assms by (cases s) (simp add: at_bit_def aligned_def byte_pos_def)

lemma and_7: "(w :: u16) AND 7 = w mod 8"
proof -
  have "w AND mask 3 = w mod 2 ^ 3" by (simp only: take_bit_eq_mask[symmetric] take_bit_eq_mod)
  then show ?thesis by (simp add: mask_numeral)
qed

lemma whole_bytes:
  fixes bl :: u16
  assumes "unat bl = 8 * m"
  shows "bl AND 7 = 0" "bl mod 8 = 0" "unat (byte_count bl) = m" "bl = 0 \<longleftrightarrow> m = 0" "m < 8192"
proof -
  show m: "bl mod 8 = 0"
    by (rule word_unat_eq_iff[THEN iffD2]) (simp add: unat_mod assms)
  then show "bl AND 7 = 0" by (simp add: and_7)
  show m2: "m < 8192" using unat_lt_65536[of bl] assms by simp
  have "(8 * m + 7) div 8 = m" by simp
  then show "unat (byte_count bl) = m"
    using m2 by (simp add: byte_count_def assms unat_of_nat)
  show "bl = 0 \<longleftrightarrow> m = 0" using assms by (metis mult_is_0 unat_eq_0 zero_neq_numeral)
qed

lemma read_bytes_spec:
  assumes "byte_pos s + n \<le> length (dat s)" and "length (dat s) < 65536"
  shows "read_bytes n s = (take n (drop (byte_pos s) (dat s)), s\<lparr>byteOffset := byteOffset s + of_nat n\<rparr>)"
  using assms
proof (induction n arbitrary: s)
  case (Suc n)
  let ?s = "s\<lparr>byteOffset := byteOffset s + 1\<rparr>"
  have b: "byte_pos ?s = Suc (byte_pos s)"
    using Suc.prems by (simp add: byte_pos_def unat_word_ariths)
  have "drop (byte_pos s) (dat s) = dat s ! byte_pos s # drop (Suc (byte_pos s)) (dat s)"
    using Suc.prems by (intro Cons_nth_drop_Suc[symmetric]) simp
  with Suc.IH[of ?s] Suc.prems show ?case
    by (simp add: b Let_def byte_pos_def[of s, symmetric] add.assoc)
qed simp

lemma readBinaryData_aligned:
  assumes "aligned s" and "unat bl = 8 * m" and "byte_pos s + m \<le> length (dat s)"
  shows "readBinaryData bl s
    = Some (Inr (take m (drop (byte_pos s) (dat s))), at_bit s (8 * (byte_pos s + m)))"
proof -
  have "\<not> int (length (dat s)) - int (unat (byteOffset s)) < int (unat (byte_count bl))"
    using assms(3) whole_bytes(3)[OF assms(2)] by (simp add: byte_pos_def del: of_nat_unat)
  then show ?thesis
    using aligned_facts[OF assms(1)] whole_bytes[OF assms(2)] read_bytes_spec[OF assms(3)]
      moved_bytes[OF assms(1,3)]
    by (simp add: readBinaryData_def Let_def del: of_nat_unat)
qed

lemma readBinaryData_short:
  assumes "aligned s" and "unat bl = 8 * m" and "\<not> byte_pos s + m \<le> length (dat s)"
  shows "\<exists>e. readBinaryData bl s = Some (Inl e, s)"
proof -
  have "int (length (dat s)) - int (unat (byteOffset s)) < int (unat (byte_count bl))"
    using assms(3) whole_bytes(3)[OF assms(2)] by (simp add: byte_pos_def del: of_nat_unat)
  then show ?thesis
    using aligned_facts[OF assms(1)] by (simp add: readBinaryData_def)
qed

definition overwrite :: "bytes \<Rightarrow> nat \<Rightarrow> bytes \<Rightarrow> bytes" where
  "overwrite d i v = take i d @ v @ drop (i + length v) d"

lemma length_overwrite: "i + length v \<le> length d \<Longrightarrow> length (overwrite d i v) = length d"
  by (simp add: overwrite_def)

lemma drop_overwrite: "i \<le> length d \<Longrightarrow> drop i (overwrite d i v) = v @ drop (i + length v) d"
  by (simp add: overwrite_def)

lemma write_bytes_spec:
  assumes "byte_pos s + length v \<le> length (dat s)" and "length (dat s) < 65536"
  shows "write_bytes v s = Some (s\<lparr>dat := overwrite (dat s) (byte_pos s) v,
    byteOffset := byteOffset s + of_nat (length v)\<rparr>)"
  using assms
proof (induction v arbitrary: s)
  case Nil
  then show ?case by (simp add: overwrite_def)
next
  case (Cons b v)
  let ?s = "s\<lparr>dat := (dat s)[byte_pos s := b], byteOffset := byteOffset s + 1\<rparr>"
  have b: "byte_pos ?s = Suc (byte_pos s)"
    using Cons.prems by (simp add: byte_pos_def unat_word_ariths)
  have "overwrite (dat ?s) (byte_pos ?s) v = overwrite (dat s) (byte_pos s) (b # v)"
    using Cons.prems by (simp add: b overwrite_def take_Suc_conv_app_nth)
  with Cons.IH[of ?s] Cons.prems show ?case
    by (simp add: b byte_pos_def[of s, symmetric] add.assoc not_le)
qed

lemma writeBinary_aligned:
  assumes "aligned s" and "unat bl = 8 * m" and "0 < m" and "byte_pos s + m \<le> length (dat s)"
    and "off = 0 \<or> cursor s = unat off" and "unat off div 8 + m \<le> 223" and "length v < 65536"
  shows "writeBinary v bl off s = Some (Inr (), at_bit
    (s\<lparr>dat := overwrite (dat s) (byte_pos s) (take m (v @ replicate m 0))\<rparr>) (8 * (byte_pos s + m)))"
proof -
  note a = aligned_facts[OF assms(1)] and w = whole_bytes[OF assms(2)]
  have off: "\<not> (getBitOffset s \<noteq> ucast off \<and> off \<noteq> 0)"
    using assms(5) getBitOffset_cursor[OF a(4)]
    by (auto intro!: word_unat_eq_iff[THEN iffD2] simp: unat_ucast_up)
  have "unat (off div 8) = unat off div 8" by (simp add: unat_div)
  then have room: "unat (MaxPGNLength - off div 8) = 223 - unat off div 8"
    using assms(6) by (simp add: MaxPGNLength_def unat_sub word_le_nat_alt)
  then have le: "\<not> byte_count bl > MaxPGNLength - off div 8"
    using assms(6) w(3) by (simp add: word_less_nat_alt)
  have short: "(of_nat (length v) :: u16) < byte_count bl \<longleftrightarrow> length v < m"
    using assms(7) w(3) by (simp add: word_less_nat_alt unat_of_nat)
  let ?v = "take m (v @ replicate m 0)"
  have lv: "length ?v = m" by simp
  have v: "take m (if length v < m then v @ replicate (m - length v) 0 else v) = ?v"
    by simp
  have "write_bytes ?v s = Some (s\<lparr>dat := overwrite (dat s) (byte_pos s) ?v,
      byteOffset := byteOffset s + of_nat m\<rparr>)"
    using write_bytes_spec[of s ?v] assms(4) a(3) unfolding lv by blast
  moreover have "s\<lparr>dat := d, byteOffset := byteOffset s + of_nat m\<rparr>
      = at_bit (s\<lparr>dat := d\<rparr>) (8 * (byte_pos s + m))" for d
    using a(5) by (cases s) (simp add: at_bit_def byte_pos_def)
  ultimately show ?thesis
    using off le short w assms(3) a(5)
    by (cases "length v < m") (simp_all add: writeBinary_def Let_def)
qed

section \<open>Strings on the wire\<close>

lemma byte_pos_new [simp]: "byte_pos (NewDataStream d c) = 0"
  by (simp add: byte_pos_def NewDataStream_def)

lemma aligned_new: "length d < 65536 \<Longrightarrow> length d \<le> c \<Longrightarrow> aligned (NewDataStream d c)"
  by (simp add: aligned_def stream_ok_def NewDataStream_def cursor_def)

lemma unat_of_nat_8: "n < 256 \<Longrightarrow> unat (of_nat n :: u8) = n"
  by (simp add: unat_of_nat)

lemma unat_of_nat_16: "n < 65536 \<Longrightarrow> unat (of_nat n :: u16) = n"
  by (simp add: unat_of_nat)

lemma read_lau:
  assumes "aligned s" and "drop (byte_pos s) (dat s) = of_nat (length v + 2) # 1 # v @ rest"
    and "length v \<le> 253"
  shows "readStringWithLengthAndControl s
    = Some (Inr (trimASCIILAUTerminator v), at_bit s (8 * (byte_pos s + (length v + 2))))"
proof -
  let ?n = "length v"
  have len: "length (dat s) - byte_pos s = ?n + 2 + length rest"
    using arg_cong[OF assms(2), of length] by simp
  have h: "byte_pos s + 2 \<le> length (dat s)" "byte_pos s + (?n + 2) \<le> length (dat s)"
    using len by linarith+
  have b: "unat (of_nat (?n + 2) :: u8) = ?n + 2"
    by (rule unat_of_nat_8) (use assms(3) in simp)
  have hd: "readBinaryData 16 s
      = Some (Inr [of_nat (?n + 2), 1], at_bit s (8 * (byte_pos s + 2)))"
    using readBinaryData_aligned[OF assms(1), of 16 2] h by (simp add: assms(2))
  let ?s = "at_bit s (8 * (byte_pos s + 2))"
  have al: "aligned ?s" "byte_pos ?s = byte_pos s + 2" by (rule aligned_at_bit[OF assms(1) h(1)])+
  have d: "drop (byte_pos ?s) (dat ?s) = v @ rest"
    unfolding al(2) at_bit_simps using arg_cong[OF assms(2), of "drop 2"] by (simp add: add.commute)
  have le: "(of_nat (?n + 2) :: u8) \<le> 2 \<longleftrightarrow> ?n = 0"
    unfolding word_le_nat_alt b by simp
  show ?thesis
  proof (cases "?n = 0")
    case True
    then show ?thesis
      using le by (simp add: readStringWithLengthAndControl_def seqE_def hd
          trimASCIILAUTerminator_def add.commute)
  next
    case False
    have "unat (of_nat ?n * 8 :: u16) = 8 * ?n"
      using unat_of_nat_16[of "?n * 8"] assms(3) by (simp add: mult.commute)
    moreover have "byte_pos ?s + ?n \<le> length (dat ?s)"
      unfolding al(2) at_bit_simps using h(2) by linarith
    ultimately have "readBinaryData (of_nat ?n * 8) ?s
        = Some (Inr v, at_bit s (8 * (byte_pos s + (?n + 2))))"
      using readBinaryData_aligned[OF al(1), of "of_nat ?n * 8" ?n, unfolded d] unfolding al(2)
      by (simp add: add.commute)
    with False le b show ?thesis
      by (simp add: readStringWithLengthAndControl_def seqE_def hd Let_def)
  qed
qed

lemma overwrite_then_read:
  assumes "aligned s" and "byte_pos s + length v \<le> length (dat s)" and "k \<le> length v"
    and "s' = at_bit (s\<lparr>dat := overwrite (dat s) (byte_pos s) v\<rparr>) (8 * (byte_pos s + k))"
    and "r = at_bit s' (cursor s)"
  shows "aligned r" and "byte_pos r = byte_pos s" and "length (dat r) = length (dat s)"
    and "drop (byte_pos s) (dat r) = v @ drop (byte_pos s + length v) (dat s)"
    and "at_bit r i = at_bit s' i"
proof -
  let ?t = "s\<lparr>dat := overwrite (dat s) (byte_pos s) v\<rparr>"
  have len: "length (dat ?t) = length (dat s)" using assms(2) by (simp add: length_overwrite)
  have t: "aligned ?t" using assms(1) len by (simp add: aligned_def stream_ok_def cursor_def)
  have r: "r = at_bit ?t (8 * byte_pos s)"
    using aligned_facts(1)[OF assms(1)] by (simp add: assms(4,5))
  show "aligned r" "byte_pos r = byte_pos s"
    using aligned_at_bit[OF t, of "byte_pos s"] aligned_facts(2)[OF assms(1)] len by (simp_all add: r)
  show "length (dat r) = length (dat s)" using len by (simp add: r)
  show "drop (byte_pos s) (dat r) = v @ drop (byte_pos s + length v) (dat s)"
    using aligned_facts(2)[OF assms(1)] by (simp add: r drop_overwrite)
  show "at_bit r i = at_bit s' i" by (simp add: assms(4,5))
qed

lemma read_fixed:
  assumes "aligned r" and "unat bl = 8 * m" and "byte_pos r + m \<le> length (dat r)"
    and "take m (drop (byte_pos r) (dat r)) = v @ replicate k 0xFF"
    and "{0, 0xFF, 0x40} \<inter> set v = {}"
  shows "readFixedString bl r = Some (Inr v, at_bit r (8 * (byte_pos r + m)))"
proof -
  have t: "takeWhile (\<lambda>c. c \<noteq> b) v = v" if "b \<in> {0, 0xFF, 0x40}" for b
    using assms(5) that by (simp add: takeWhile_eq_all_conv) blast
  have "cut_at 0 (v @ replicate k 0xFF) = v @ replicate k 0xFF"
    using t[of 0] assms(5) by (auto simp: cut_at_def takeWhile_eq_all_conv)
  moreover have "cut_at 0xFF (v @ replicate k 0xFF) = v"
    using t[of "0xFF"] assms(5) by (cases k) (auto simp: cut_at_def takeWhile_append)
  moreover have "cut_at 0x40 v = v" using t[of "0x40"] by (simp add: cut_at_def)
  ultimately show ?thesis
    using readBinaryData_aligned[OF assms(1-3)] by (simp add: readFixedString_def seqE_def assms(4))
qed

lemma rune_starts_ascii:
  assumes "\<forall>b \<in> set v. b < 0x80"
  shows "rune_starts i v = [i..<i + length v]"
  using assms
proof (induction v arbitrary: i)
  case Nil
  then show ?case by (subst rune_starts.simps) simp
next
  case (Cons b v)
  have "\<not> 0xC2 \<le> b" "\<not> 0xE0 \<le> b" "\<not> 0xF0 \<le> b"
    using Cons.prems by (simp_all add: word_le_nat_alt word_less_nat_alt)
  then have "rune_width (b # v) = 1" by (simp add: rune_width_def Let_def)
  with Cons show ?case by (subst rune_starts.simps) (simp add: upt_conv_Cons del: upt_Suc)
qed

lemma copy_runes_all:
  assumes "length v + 1 \<le> length out" and "i \<le> length v"
  shows "copy_runes [i..<length v] v out = Some (take (i + 1) out @ drop i v @ drop (length v + 1) out)"
  using assms
proof (induction "length v - i" arbitrary: i out)
  case 0
  then show ?case by simp
next
  case (Suc k)
  then have i: "i < length v" by simp
  then have "[i..<length v] = i # [Suc i..<length v]" by (simp add: upt_conv_Cons)
  moreover have "drop i v = v ! i # drop (Suc i) v" using i by (simp add: Cons_nth_drop_Suc)
  moreover have "take (Suc (Suc i)) (out[Suc i := v ! i]) = take (Suc i) out @ [v ! i]"
    using i Suc.prems by (simp add: take_Suc_conv_app_nth)
  ultimately show ?case
    using Suc.hyps(1)[of "Suc i" "out[Suc i := v ! i]"] Suc.hyps(2) Suc.prems i by simp
qed

text \<open>A text with a length byte as it stands in its field of \<open>m\<close> bytes.\<close>

lemma write_lz:
  assumes "aligned s" and "unat bl = 8 * m" and "m \<le> 223" and "length v + 2 \<le> m"
    and "byte_pos s + m \<le> length (dat s)"
    and "off = 0 \<or> cursor s = unat off" and "unat off div 8 + m \<le> 223" and "\<forall>b \<in> set v. b < 0x80"
  shows "writeStringWithLength v bl off s = Some (Inr (), at_bit (s\<lparr>dat := overwrite (dat s) (byte_pos s)
    (of_nat (length v + 1) # v @ replicate (m - 1 - length v) 0)\<rparr>) (8 * (byte_pos s + m)))"
proof -
  let ?n = "length v" and ?out = "of_nat (length v + 1) # v @ replicate (m - 1 - length v) 0"
  have "unat (bl div 8) = m" by (simp add: unat_div assms(2))
  then have f: "unat (ucast (bl div 8) :: u8) = m"
    using assms(3) by (simp add: unsigned_ucast_eq take_bit_nat_eq_self)
  have len: "of_nat ?n + 1 + 1 = (of_nat (?n + 2) :: u8)" by simp
  have l: "unat (of_nat (?n + 2) :: u8) = ?n + 2"
    using assms(3,4) by (intro unat_of_nat_8) simp
  have le: "\<not> (of_nat ?n + 1 + 1 :: u8) > ucast (bl div 8)"
    unfolding len word_less_nat_alt l f using assms(4) by simp
  have nz: "(ucast (bl div 8) :: u8) \<noteq> 0" using f assms(4) by auto
  have "copy_runes (rune_starts 0 v) v ((replicate m 0)[0 := of_nat ?n + 1]) = Some ?out"
    using copy_runes_all[of v "(replicate m 0)[0 := of_nat ?n + 1]" 0] assms(4)
    by (cases m) (auto simp: rune_starts_ascii[OF assms(8)] add.commute)
  moreover have "length ?out = m" using assms(4) by simp
  then have "take m (?out @ replicate m 0) = ?out" by (metis append_eq_conv_conj)
  ultimately show ?thesis
    using le nz writeBinary_aligned[OF assms(1,2) _ assms(5,6,7), of ?out] assms(3,4)
    by (simp add: writeStringWithLength_def Let_def f)
qed

lemma read_lz:
  assumes "aligned r" and "unat bl = 8 * m" and "n + 1 < m" and "m \<le> 223"
    and "byte_pos r + m \<le> length (dat r)"
    and "drop (byte_pos r) (dat r) = of_nat n # arr @ rest" and "length arr = n + 1" and "0 < n"
    and "arr ! n = 0"
  shows "readStringWithLength bl r = Some (Inr (take n arr), at_bit r (8 * (byte_pos r + (n + 2))))"
proof -
  have n: "unat (of_nat n :: u8) = n" using assms(3,4) by (intro unat_of_nat_8) simp
  have n1: "unat (of_nat n + 1 :: u8) = n + 1"
    using unat_of_nat_8[of "n + 1"] assms(3,4) by (simp add: add.commute)
  have b1: "byte_pos r + 1 \<le> length (dat r)" using assms(3,5) by simp
  let ?r = "at_bit r (8 * (byte_pos r + 1))"
  have al: "aligned ?r" "byte_pos ?r = byte_pos r + 1" by (rule aligned_at_bit[OF assms(1) b1])+
  have hd: "readBinaryData 8 r = Some (Inr [of_nat n], ?r)"
    using readBinaryData_aligned[OF assms(1), of 8 1] b1 by (simp add: assms(6))
  have d: "drop (byte_pos ?r) (dat ?r) = arr @ rest"
    unfolding al(2) at_bit_simps using arg_cong[OF assms(6), of "drop 1"] by (simp add: add.commute)
  have u: "unat (ucast (of_nat n + 1 :: u8) * 8 :: u16) = 8 * (n + 1)"
    using n1 assms(3,4) by (simp add: unat_word_ariths unat_ucast_up)
  have "unat (bl - 8) = 8 * m - 8"
    using assms(2,3) by (simp add: unat_sub word_le_nat_alt)
  then have fits: "\<not> ucast (of_nat n + 1 :: u8) * 8 > bl - 8"
    unfolding word_less_nat_alt u using assms(3) by simp
  have fit2: "byte_pos ?r + (n + 1) \<le> length (dat ?r)"
    unfolding al(2) at_bit_simps using assms(3,5) by simp
  have rd: "readBinaryData (ucast (of_nat n + 1 :: u8) * 8) ?r
      = Some (Inr arr, at_bit r (8 * (byte_pos r + (n + 2))))"
    using readBinaryData_aligned[OF al(1) u fit2, unfolded d] assms(7) unfolding al(2)
    by (simp add: add.assoc)
  have "(of_nat n :: u8) \<noteq> 0" using n assms(8) by (metis unat_0 less_irrefl)
  moreover have "arr \<noteq> []" using assms(7) by auto
  ultimately show ?thesis
    using fits rd assms(7,9) n n1 by (simp add: readStringWithLength_def seqE_def hd Let_def)
qed

section \<open>Properties\<close>

text \<open>An encoded text, decoded.\<close>

lemma lau_roundtrip:
  "case EncodeStringLAU v of
     Inl e \<Rightarrow> length v > 253
   | Inr d \<Rightarrow> length v \<le> 253
       \<and> DecodeStringLAU d = Some (Inr (if v \<noteq> [] \<and> last v = 0 then butlast v else v))"
proof (cases "length v > 253")
  case True
  then show ?thesis by (simp add: EncodeStringLAU_def maxStringLAUUTF8Bytes_def)
next
  case False
  let ?d = "of_nat (length v + 2) # 1 # v"
  have "aligned (NewDataStream ?d (length ?d))" using False by (intro aligned_new) simp_all
  moreover have "drop (byte_pos (NewDataStream ?d (length ?d))) (dat (NewDataStream ?d (length ?d)))
      = of_nat (length v + 2) # 1 # v @ []"
    by (simp add: NewDataStream_def byte_pos_def)
  ultimately have "DecodeStringLAU ?d = Some (Inr (trimASCIILAUTerminator v))"
    using read_lau[of "NewDataStream ?d (length ?d)" v "[]"] False by (simp add: DecodeStringLAU_def)
  then show ?thesis
    using False by (simp add: EncodeStringLAU_def maxStringLAUUTF8Bytes_def trimASCIILAUTerminator_def)
qed

text \<open>
  Claim C40. The STRING_LAU codec: a text of at most 253 bytes is encoded, and decoding the bytes
  gives the text back, less one NUL at its end when it has one (the decoder takes it for the
  terminator); every longer text is refused.
\<close>

theorem string_lau_roundtrip:
  "case EncodeStringLAU v of
     Inl e \<Rightarrow> length v > 253
   | Inr d \<Rightarrow> length v \<le> 253
       \<and> DecodeStringLAU d = Some (Inr (if v \<noteq> [] \<and> last v = 0 then butlast v else v))"
  by (rule lau_roundtrip)

text \<open>
  Fixed strings survive the wire: a string without the padding bytes 0, 0xFF and
  \<open>@\<close>, written to a field of \<open>m\<close> bytes at an aligned position with room and read back, comes back
  cut to the \<open>m\<close> bytes of the field, over exactly these bytes.
\<close>

theorem fixed_string_roundtrip:
  assumes "aligned s" and "unat bl = 8 * m" and "0 < m" and "byte_pos s + m \<le> length (dat s)"
    and "off = 0 \<or> cursor s = unat off" and "unat off div 8 + m \<le> 223"
    and "length v < 50000" and "{0, 0xFF, 0x40} \<inter> set v = {}"
  shows "\<exists>s'. writeStringFix v bl off s = Some (Inr (), s')
     \<and> readFixedString bl (at_bit s' (cursor s)) = Some (Inr (take m v), s')
     \<and> byte_pos s' = byte_pos s + m"
proof -
  let ?w = "take m ((v @ replicate (m - length v) 0xFF) @ replicate m 0)"
  define s' where "s' = at_bit (s\<lparr>dat := overwrite (dat s) (byte_pos s) ?w\<rparr>) (8 * (byte_pos s + m))"
  have lw: "length ?w = m" by simp
  have w: "?w = take m v @ replicate (m - length v) 0xFF"
    by (cases "length v \<le> m") auto
  have "m < 8192" by (rule whole_bytes(5)[OF assms(2)])
  then have "writeStringFix v bl off s = Some (Inr (), s')"
    using writeBinary_aligned[OF assms(1-6), of "v @ replicate (m - length v) 0xFF"] assms(7)
    by (simp add: writeStringFix_def s'_def unat_div assms(2))
  moreover
  note r = overwrite_then_read[OF assms(1) _ _ s'_def refl, unfolded lw, OF assms(4) order_refl]
  have "readFixedString bl (at_bit s' (cursor s)) = Some (Inr (take m v), at_bit s' (8 * (byte_pos s + m)))"
  proof -
    have "take m (drop (byte_pos s) (dat (at_bit s' (cursor s)))) = take m v @ replicate (m - length v) 0xFF"
      unfolding r(4) w[symmetric] using lw by (metis append_eq_conv_conj)
    moreover have "{0, 0xFF, 0x40} \<inter> set (take m v) = {}"
      using assms(8) set_take_subset[of m v] by blast
    ultimately show ?thesis
      using read_fixed[OF r(1) assms(2), of "take m v" "m - length v"] assms(4)
      unfolding r(2,3,5) by blast
  qed
  moreover have "at_bit s' (8 * (byte_pos s + m)) = s'" by (simp add: s'_def)
  moreover have "byte_pos s' = byte_pos s + m"
  proof -
    have "aligned (s\<lparr>dat := overwrite (dat s) (byte_pos s) ?w\<rparr>)"
      using assms(1,4) lw by (simp add: aligned_def stream_ok_def cursor_def length_overwrite)
    then show ?thesis
      using aligned_at_bit(2)[of _ "byte_pos s + m"] assms(4) lw
      by (simp add: s'_def length_overwrite)
  qed
  ultimately show ?thesis by auto
qed

theorem fixed_string_roundtrip_witness:
  "\<exists>s'. writeStringFix [0x42, 0x6F, 0x61, 0x74] 48 0 (NewDataStream (replicate 8 0) 8) = Some (Inr (), s')
     \<and> readFixedString 48 (at_bit s' (cursor (NewDataStream (replicate 8 0) 8)))
         = Some (Inr (take 6 [0x42, 0x6F, 0x61, 0x74]), s')
     \<and> byte_pos s' = byte_pos (NewDataStream (replicate 8 0) 8) + 6"
  by (rule fixed_string_roundtrip)
     (simp_all add: aligned_new, simp_all add: NewDataStream_def byte_pos_def)

text \<open>
  A string with a length byte does not survive the wire: the writer counts the
  terminating zero in the length byte and the reader does not, so that an ASCII text written to
  a field with three bytes or more to spare comes back with a NUL appended, and the reader
  stops behind that byte and not at the end of the field.
\<close>

theorem string_lz_gains_nul:
  assumes "aligned s" and "unat bl = 8 * m" and "m \<le> 223" and "length v + 3 \<le> m"
    and "byte_pos s + m \<le> length (dat s)"
    and "off = 0 \<or> cursor s = unat off" and "unat off div 8 + m \<le> 223" and "\<forall>b \<in> set v. b < 0x80"
  shows "\<exists>s'. writeStringWithLength v bl off s = Some (Inr (), s')
     \<and> readStringWithLength bl (at_bit s' (cursor s))
         = Some (Inr (v @ [0]), at_bit s' (8 * (byte_pos s + (length v + 3))))"
proof -
  let ?n = "length v" and ?w = "of_nat (length v + 1) # v @ replicate (m - 1 - length v) 0"
  define s' where "s' = at_bit (s\<lparr>dat := overwrite (dat s) (byte_pos s) ?w\<rparr>) (8 * (byte_pos s + m))"
  have lw: "length ?w = m" using assms(4) by simp
  have "?n + 2 \<le> m" using assms(4) by simp
  then have "writeStringWithLength v bl off s = Some (Inr (), s')"
    using write_lz[OF assms(1-3) _ assms(5-8)] by (simp add: s'_def)
  moreover
  note r = overwrite_then_read[OF assms(1) _ _ s'_def refl, unfolded lw, OF assms(5) order_refl]
  have "m - 1 - ?n = 2 + (m - 3 - ?n)" using assms(4) by simp
  then have "replicate (m - 1 - ?n) (0 :: u8) = [0, 0] @ replicate (m - 3 - ?n) 0"
    by (simp add: replicate_add numeral_2_eq_2)
  then have d: "drop (byte_pos s) (dat (at_bit s' (cursor s)))
      = of_nat (?n + 1) # (v @ [0, 0]) @ replicate (m - 3 - ?n) 0 @ drop (byte_pos s + m) (dat s)"
    unfolding r(4) by simp
  have "readStringWithLength bl (at_bit s' (cursor s))
      = Some (Inr (take (?n + 1) (v @ [0, 0])), at_bit (at_bit s' (cursor s)) (8 * (byte_pos s + (?n + 1 + 2))))"
    using read_lz[OF r(1) assms(2) _ assms(3) _ d[folded r(2)]] assms(4,5) unfolding r(2,3)
    by (simp add: nth_append)
  ultimately show ?thesis by (intro exI[of _ s']) (simp add: ac_simps)
qed

theorem string_lz_gains_nul_witness:
  "\<exists>s'. writeStringWithLength [0x48, 0x69] 64 0 (NewDataStream (replicate 8 0) 8) = Some (Inr (), s')
     \<and> readStringWithLength 64 (at_bit s' (cursor (NewDataStream (replicate 8 0) 8)))
         = Some (Inr ([0x48, 0x69] @ [0]),
             at_bit s' (8 * (byte_pos (NewDataStream (replicate 8 0) 8) + (length [0x48 :: u8, 0x69] + 3))))"
  by (rule string_lz_gains_nul[where m = 8])
     (simp_all add: aligned_new, simp_all add: NewDataStream_def byte_pos_def)

end
