(* ===== verification/Nodename.thy ===== *)
theory Nodename
  imports Packets
begin

text \<open>
  The NAME of a node (\<open>pkg/node/node.go\<close>): the 64 bits that identify a device on the bus and
  decide address conflicts, computed from the configuration of the node itself, from the address
  claim of another one, or from a command to change the address. A nil pointer is \<open>None\<close>.
\<close>

section \<open>Messages and configuration\<close>

record DeviceInfo =
  dev_UniqueNumber :: u32
  dev_ManufacturerCode :: u16
  dev_DeviceFunction :: u16
  dev_DeviceClass :: u8
  dev_DeviceInstanceLower :: u8
  dev_DeviceInstanceUpper :: u8
  dev_SystemInstance :: u8
  dev_IndustryGroup :: u8
  dev_ArbitraryAddressCapable :: bool

record ISOAddressClaim =
  clm_Info :: MessageInfo
  clm_UniqueNumber :: "u32 option"
  clm_ManufacturerCode :: u16
  clm_DeviceInstanceLower :: "u8 option"
  clm_DeviceInstanceUpper :: "u8 option"
  clm_DeviceFunction :: u16
  clm_DeviceClass :: u8
  clm_SystemInstance :: "u8 option"
  clm_IndustryGroup :: u8
  clm_ArbitraryAddressCapable :: u8

record ISOCommandedAddress =
  cmd_Info :: MessageInfo
  cmd_UniqueNumber :: bytes
  cmd_ManufacturerCode :: u16
  cmd_DeviceInstanceLower :: "u8 option"
  cmd_DeviceInstanceUpper :: "u8 option"
  cmd_DeviceFunction :: u16
  cmd_DeviceClass :: u8
  cmd_SystemInstance :: "u8 option"
  cmd_IndustryCode :: u8
  cmd_NewSourceAddress :: "u8 option"

definition Yes_2 :: u8 where "Yes_2 = 1"
definition ISOAddressClaimPGN :: u32 where "ISOAddressClaimPGN = 60928"

section \<open>Operations\<close>

definition computeName :: "DeviceInfo \<Rightarrow> goerror + u64" where
  "computeName d =
     (if dev_UniqueNumber d > 0x1FFFFF
      then Inl (''unique number '' @ decimal (unat (dev_UniqueNumber d)) @ '' is too large'')
      else if dev_ManufacturerCode d > 0x7FF
      then Inl (''manufacturer code '' @ decimal (unat (dev_ManufacturerCode d)) @ '' is too large'')
      else if dev_DeviceInstanceLower d > 7
      then Inl (''device instance lower '' @ decimal (unat (dev_DeviceInstanceLower d)) @ '' is too large'')
      else if dev_DeviceInstanceUpper d > 31
      then Inl (''device instance upper '' @ decimal (unat (dev_DeviceInstanceUpper d)) @ '' is too large'')
      else if dev_DeviceFunction d > 255
      then Inl (''device function '' @ decimal (unat (dev_DeviceFunction d)) @ '' is too large'')
      else if dev_DeviceClass d > 127
      then Inl (''device class '' @ decimal (unat (dev_DeviceClass d)) @ '' is too large'')
      else if dev_SystemInstance d > 15
      then Inl (''system instance '' @ decimal (unat (dev_SystemInstance d)) @ '' is too large'')
      else if dev_IndustryGroup d > 7
      then Inl (''industry group '' @ decimal (unat (dev_IndustryGroup d)) @ '' is too large'')
      else
        (let name = ucast (dev_UniqueNumber d) OR push_bit 21 (ucast (dev_ManufacturerCode d))
               OR push_bit 32 (ucast (dev_DeviceInstanceLower d))
               OR push_bit 35 (ucast (dev_DeviceInstanceUpper d))
               OR push_bit 40 (ucast (dev_DeviceFunction d)) OR push_bit 48 0
               OR push_bit 49 (ucast (dev_DeviceClass d))
               OR push_bit 56 (ucast (dev_SystemInstance d))
               OR push_bit 60 (ucast (dev_IndustryGroup d))
         in Inr (if dev_ArbitraryAddressCapable d then name OR push_bit 63 1 else name)))"

text \<open>\<open>name |= uint64(v) << k\<close> for a pointer that is set, or a code that is not 0.\<close>

definition or_opt :: "nat \<Rightarrow> 'a::len word option \<Rightarrow> u64 \<Rightarrow> u64" where
  "or_opt k v name = (case v of None \<Rightarrow> name | Some x \<Rightarrow> name OR push_bit k (ucast x))"

definition or_nz :: "nat \<Rightarrow> 'a::len word \<Rightarrow> u64 \<Rightarrow> u64" where
  "or_nz k v name = (if v \<noteq> 0 then name OR push_bit k (ucast v) else name)"

definition computeNameFromClaim :: "ISOAddressClaim \<Rightarrow> u64" where
  "computeNameFromClaim claim =
     (let name = 0;
          name = or_opt 0 (clm_UniqueNumber claim) name;
          name = or_nz 21 (clm_ManufacturerCode claim) name;
          name = or_opt 32 (clm_DeviceInstanceLower claim) name;
          name = or_opt 35 (clm_DeviceInstanceUpper claim) name;
          name = or_nz 40 (clm_DeviceFunction claim) name;
          name = or_nz 49 (clm_DeviceClass claim) name;
          name = or_opt 56 (clm_SystemInstance claim) name;
          name = or_nz 60 (clm_IndustryGroup claim) name
      in if clm_ArbitraryAddressCapable claim = Yes_2 then name OR push_bit 63 1 else name)"

definition computeNameFromCommand :: "ISOCommandedAddress \<Rightarrow> u64" where
  "computeNameFromCommand cmd =
     (let name = 0;
          u = cmd_UniqueNumber cmd;
          name = (if length u \<ge> 3
                  then name OR (ucast (u ! 0) OR push_bit 8 (ucast (u ! 1)) OR push_bit 16 (ucast (u ! 2)))
                  else name);
          name = or_nz 21 (cmd_ManufacturerCode cmd) name;
          name = or_opt 32 (cmd_DeviceInstanceLower cmd) name;
          name = or_opt 35 (cmd_DeviceInstanceUpper cmd) name;
          name = or_nz 40 (cmd_DeviceFunction cmd) name;
          name = or_nz 49 (cmd_DeviceClass cmd) name;
          name = or_opt 56 (cmd_SystemInstance cmd) name;
          name = or_nz 60 (cmd_IndustryCode cmd) name
      in name)"

definition buildAddressClaim :: "DeviceInfo \<Rightarrow> u8 \<Rightarrow> ISOAddressClaim" where
  "buildAddressClaim d networkAddress =
     (let arbitraryBit = (if dev_ArbitraryAddressCapable d then 1 else 0)
      in \<lparr>clm_Info = \<lparr>Timestamp = 0, Priority = 6, PGN = ISOAddressClaimPGN,
                      SourceId = networkAddress, TargetId = 255\<rparr>,
          clm_UniqueNumber = Some (dev_UniqueNumber d),
          clm_ManufacturerCode = dev_ManufacturerCode d,
          clm_DeviceInstanceLower = Some (dev_DeviceInstanceLower d),
          clm_DeviceInstanceUpper = Some (dev_DeviceInstanceUpper d),
          clm_DeviceFunction = dev_DeviceFunction d,
          clm_DeviceClass = dev_DeviceClass d,
          clm_SystemInstance = Some (dev_SystemInstance d),
          clm_IndustryGroup = dev_IndustryGroup d,
          clm_ArbitraryAddressCapable = arbitraryBit\<rparr>)"

section \<open>The fields of a NAME\<close>

text \<open>The layout: which bits each field takes.\<close>

definition name_of :: "u64 \<Rightarrow> u64 \<Rightarrow> u64 \<Rightarrow> u64 \<Rightarrow> u64 \<Rightarrow> u64 \<Rightarrow> u64 \<Rightarrow> u64 \<Rightarrow> bool \<Rightarrow> u64" where
  "name_of u m l h f c s g a = u OR push_bit 21 m OR push_bit 32 l OR push_bit 35 h OR push_bit 40 f
     OR push_bit 49 c OR push_bit 56 s OR push_bit 60 g OR (if a then push_bit 63 1 else 0)"

definition name_field :: "nat \<Rightarrow> nat \<Rightarrow> u64 \<Rightarrow> u64" where
  "name_field k n name = take_bit n (drop_bit k name)"

definition name_parts :: "u64 \<Rightarrow> u64 \<Rightarrow> u64 \<Rightarrow> u64 \<Rightarrow> u64 \<Rightarrow> u64 \<Rightarrow> u64 \<Rightarrow> u64 \<Rightarrow> bool" where
  "name_parts u m l h f c s g \<longleftrightarrow> (\<forall>n. (21 \<le> n \<longrightarrow> \<not> bit u n) \<and> (11 \<le> n \<longrightarrow> \<not> bit m n)
     \<and> (3 \<le> n \<longrightarrow> \<not> bit l n) \<and> (5 \<le> n \<longrightarrow> \<not> bit h n) \<and> (8 \<le> n \<longrightarrow> \<not> bit f n)
     \<and> (7 \<le> n \<longrightarrow> \<not> bit c n) \<and> (4 \<le> n \<longrightarrow> \<not> bit s n) \<and> (3 \<le> n \<longrightarrow> \<not> bit g n))"

lemma bit_name_of:
  "bit (name_of u m l h f c s g a) k \<longleftrightarrow> k < 64 \<and> (bit u k \<or> (21 \<le> k \<and> bit m (k - 21))
     \<or> (32 \<le> k \<and> bit l (k - 32)) \<or> (35 \<le> k \<and> bit h (k - 35)) \<or> (40 \<le> k \<and> bit f (k - 40))
     \<or> (49 \<le> k \<and> bit c (k - 49)) \<or> (56 \<le> k \<and> bit s (k - 56)) \<or> (60 \<le> k \<and> bit g (k - 60))
     \<or> (a \<and> k = 63))"
proof (cases "k < 64")
  case True
  then have top: "bit (push_bit 63 (1 :: u64)) k \<longleftrightarrow> k = 63"
    unfolding bit_push_bit_iff by (auto simp: bit_1_iff)
  show ?thesis
  proof (cases a)
    case a: True
    show ?thesis
      unfolding name_of_def bit_or_iff if_P[OF a] top unfolding bit_push_bit_iff
      using True a by simp
  next
    case False
    then show ?thesis
      using True by (simp add: name_of_def bit_or_iff bit_push_bit_iff)
  qed
next
  case False
  then show ?thesis by (simp add: impossible_bit)
qed

lemma name_fields:
  assumes "name_parts u m l h f c s g"
  shows "name_field 0 21 (name_of u m l h f c s g a) = u"
    and "name_field 21 11 (name_of u m l h f c s g a) = m"
    and "name_field 32 3 (name_of u m l h f c s g a) = l"
    and "name_field 35 5 (name_of u m l h f c s g a) = h"
    and "name_field 40 8 (name_of u m l h f c s g a) = f"
    and "name_field 49 7 (name_of u m l h f c s g a) = c"
    and "name_field 56 4 (name_of u m l h f c s g a) = s"
    and "name_field 60 3 (name_of u m l h f c s g a) = g"
    and "bit (name_of u m l h f c s g a) 63 = a"
    and "\<not> bit (name_of u m l h f c s g a) 48"
proof -
  have *: "name_field k n w = x" if "\<And>j. n \<le> j \<Longrightarrow> \<not> bit x j" "\<And>j. j < n \<Longrightarrow> bit w (k + j) = bit x j"
    for k n w x
  proof (rule bit_word_eqI)
    fix j assume "j < LENGTH(64)"
    with that[of j] show "bit (name_field k n w) j = bit x j"
      by (cases "j < n") (auto simp: name_field_def bit_take_bit_iff bit_drop_bit_eq)
  qed
  have b: "\<And>n. 21 \<le> n \<Longrightarrow> \<not> bit u n" "\<And>n. 11 \<le> n \<Longrightarrow> \<not> bit m n" "\<And>n. 3 \<le> n \<Longrightarrow> \<not> bit l n"
    "\<And>n. 5 \<le> n \<Longrightarrow> \<not> bit h n" "\<And>n. 8 \<le> n \<Longrightarrow> \<not> bit f n" "\<And>n. 7 \<le> n \<Longrightarrow> \<not> bit c n"
    "\<And>n. 4 \<le> n \<Longrightarrow> \<not> bit s n" "\<And>n. 3 \<le> n \<Longrightarrow> \<not> bit g n"
    using assms by (simp_all add: name_parts_def)
  show "name_field 0 21 (name_of u m l h f c s g a) = u"
    by (rule *) (simp_all add: b bit_name_of)
  show "name_field 21 11 (name_of u m l h f c s g a) = m"
    by (rule *) (simp_all add: b bit_name_of)
  show "name_field 32 3 (name_of u m l h f c s g a) = l"
    by (rule *) (simp_all add: b bit_name_of)
  show "name_field 35 5 (name_of u m l h f c s g a) = h"
    by (rule *) (simp_all add: b bit_name_of)
  show "name_field 40 8 (name_of u m l h f c s g a) = f"
    by (rule *) (simp_all add: b bit_name_of)
  show "name_field 49 7 (name_of u m l h f c s g a) = c"
    by (rule *) (simp_all add: b bit_name_of)
  show "name_field 56 4 (name_of u m l h f c s g a) = s"
    by (rule *) (simp_all add: b bit_name_of)
  show "name_field 60 3 (name_of u m l h f c s g a) = g"
    by (rule *) (simp_all add: b bit_name_of)
  show "bit (name_of u m l h f c s g a) 63 = a"
    by (simp add: b bit_name_of)
  show "\<not> bit (name_of u m l h f c s g a) 48"
    by (simp add: b bit_name_of)
qed

section \<open>The NAME of a configuration\<close>

definition device_ok :: "DeviceInfo \<Rightarrow> bool" where
  "device_ok d \<longleftrightarrow> dev_UniqueNumber d \<le> 0x1FFFFF \<and> dev_ManufacturerCode d \<le> 0x7FF
     \<and> dev_DeviceInstanceLower d \<le> 7 \<and> dev_DeviceInstanceUpper d \<le> 31
     \<and> dev_DeviceFunction d \<le> 255 \<and> dev_DeviceClass d \<le> 127
     \<and> dev_SystemInstance d \<le> 15 \<and> dev_IndustryGroup d \<le> 7"

definition device_name :: "DeviceInfo \<Rightarrow> u64" where
  "device_name d = name_of (ucast (dev_UniqueNumber d)) (ucast (dev_ManufacturerCode d))
     (ucast (dev_DeviceInstanceLower d)) (ucast (dev_DeviceInstanceUpper d))
     (ucast (dev_DeviceFunction d)) (ucast (dev_DeviceClass d)) (ucast (dev_SystemInstance d))
     (ucast (dev_IndustryGroup d)) (dev_ArbitraryAddressCapable d)"

lemma computeName_eq:
  "computeName d = Inr n \<longleftrightarrow> device_ok d \<and> n = device_name d"
  unfolding computeName_def device_ok_def device_name_def name_of_def Let_def not_less[symmetric]
  by (auto simp: or.assoc split: if_split)

lemma le_bits:
  fixes w :: "'a::len word"
  assumes "unat w < 2 ^ k" and "k \<le> n"
  shows "\<not> bit (ucast w :: u64) n"
proof -
  have "take_bit k w = w"
    using assms(1) by (metis take_bit_nat_eq_self unsigned_take_bit_eq unsigned_word_eqI)
  then have "\<not> bit w n" using assms(2) by (metis bit_take_bit_iff not_less)
  then show ?thesis by (simp add: bit_ucast_iff)
qed

lemma device_parts:
  assumes "device_ok d"
  shows "name_parts (ucast (dev_UniqueNumber d)) (ucast (dev_ManufacturerCode d))
     (ucast (dev_DeviceInstanceLower d)) (ucast (dev_DeviceInstanceUpper d))
     (ucast (dev_DeviceFunction d)) (ucast (dev_DeviceClass d)) (ucast (dev_SystemInstance d))
     (ucast (dev_IndustryGroup d))"
  using assms
  unfolding name_parts_def device_ok_def word_le_nat_alt
  by - (intro allI conjI impI; rule le_bits[rotated], assumption, simp)

lemma ucast_back:
  fixes w v :: "'a::len word"
  assumes "(ucast w :: u64) = ucast v" and "LENGTH('a) \<le> 64"
  shows "w = v"
  using arg_cong[OF assms(1), of unat] assms(2)
  by (intro word_unat_eq_iff[THEN iffD2]) (simp add: unat_ucast_up)

lemma device_name_inj:
  assumes "device_ok d" and "device_ok d'" and "device_name d = device_name d'"
  shows "d = d'"
proof -
  note f = name_fields[OF device_parts[OF assms(1)], of "dev_ArbitraryAddressCapable d",
      folded device_name_def]
  note f' = name_fields[OF device_parts[OF assms(2)], of "dev_ArbitraryAddressCapable d'",
      folded device_name_def, folded assms(3)]
  have "dev_UniqueNumber d = dev_UniqueNumber d'"
    using f(1) f'(1) by - (rule ucast_back[rotated], simp_all)
  moreover have "dev_ManufacturerCode d = dev_ManufacturerCode d'"
    using f(2) f'(2) by - (rule ucast_back[rotated], simp_all)
  moreover have "dev_DeviceInstanceLower d = dev_DeviceInstanceLower d'"
    using f(3) f'(3) by - (rule ucast_back[rotated], simp_all)
  moreover have "dev_DeviceInstanceUpper d = dev_DeviceInstanceUpper d'"
    using f(4) f'(4) by - (rule ucast_back[rotated], simp_all)
  moreover have "dev_DeviceFunction d = dev_DeviceFunction d'"
    using f(5) f'(5) by - (rule ucast_back[rotated], simp_all)
  moreover have "dev_DeviceClass d = dev_DeviceClass d'"
    using f(6) f'(6) by - (rule ucast_back[rotated], simp_all)
  moreover have "dev_SystemInstance d = dev_SystemInstance d'"
    using f(7) f'(7) by - (rule ucast_back[rotated], simp_all)
  moreover have "dev_IndustryGroup d = dev_IndustryGroup d'"
    using f(8) f'(8) by - (rule ucast_back[rotated], simp_all)
  moreover have "dev_ArbitraryAddressCapable d = dev_ArbitraryAddressCapable d'"
    using f(9) f'(9) by simp
  ultimately show ?thesis by (cases d; cases d') simp
qed

text \<open>A name put together step by step from optional fields, absent ones counting as 0.\<close>

definition opt_word :: "'a::len word option \<Rightarrow> u64" where
  "opt_word v = (case v of None \<Rightarrow> 0 | Some x \<Rightarrow> ucast x)"

lemma or_opt_eq: "or_opt k v name = name OR push_bit k (opt_word v)"
  by (simp add: or_opt_def opt_word_def split: option.split)

lemma or_nz_eq: "or_nz k v name = name OR push_bit k (ucast v)"
  by (simp add: or_nz_def)

lemma computeNameFromClaim_eq:
  "computeNameFromClaim claim = name_of (opt_word (clm_UniqueNumber claim))
     (ucast (clm_ManufacturerCode claim)) (opt_word (clm_DeviceInstanceLower claim))
     (opt_word (clm_DeviceInstanceUpper claim)) (ucast (clm_DeviceFunction claim))
     (ucast (clm_DeviceClass claim)) (opt_word (clm_SystemInstance claim))
     (ucast (clm_IndustryGroup claim)) (clm_ArbitraryAddressCapable claim = Yes_2)"
  by (simp add: computeNameFromClaim_def name_of_def or_opt_eq or_nz_eq or.assoc)

definition command_unique :: "bytes \<Rightarrow> u64" where
  "command_unique u = (if length u \<ge> 3
     then ucast (u ! 0) OR push_bit 8 (ucast (u ! 1)) OR push_bit 16 (ucast (u ! 2)) else 0)"

lemma computeNameFromCommand_eq:
  "computeNameFromCommand cmd = name_of (command_unique (cmd_UniqueNumber cmd))
     (ucast (cmd_ManufacturerCode cmd)) (opt_word (cmd_DeviceInstanceLower cmd))
     (opt_word (cmd_DeviceInstanceUpper cmd)) (ucast (cmd_DeviceFunction cmd))
     (ucast (cmd_DeviceClass cmd)) (opt_word (cmd_SystemInstance cmd))
     (ucast (cmd_IndustryCode cmd)) False"
  by (simp add: computeNameFromCommand_def name_of_def command_unique_def or_opt_eq or_nz_eq
      or.assoc Let_def)

lemma claim_name: "device_ok d \<Longrightarrow> computeNameFromClaim (buildAddressClaim d a) = device_name d"
  by (simp add: computeNameFromClaim_eq buildAddressClaim_def Let_def opt_word_def device_name_def Yes_2_def)

section \<open>Properties\<close>


definition ex_device :: DeviceInfo where
  "ex_device = \<lparr>dev_UniqueNumber = 12345, dev_ManufacturerCode = 2000, dev_DeviceFunction = 130,
     dev_DeviceClass = 25, dev_DeviceInstanceLower = 1, dev_DeviceInstanceUpper = 0,
     dev_SystemInstance = 0, dev_IndustryGroup = 4, dev_ArbitraryAddressCapable = True\<rparr>"

lemma ex_device_ok: "device_ok ex_device"
  by (simp add: device_ok_def ex_device_def)


text \<open>
  A node is known to the others by its own NAME: the NAME read from the address claim
  a node builds is the NAME computed from its configuration, whatever address it claims.
\<close>

theorem claim_carries_name:
  assumes "computeName d = Inr n"
  shows "computeNameFromClaim (buildAddressClaim d a) = n
    \<and> SourceId (clm_Info (buildAddressClaim d a)) = a"
  using assms claim_name[of d a] by (simp add: computeName_eq) (simp add: buildAddressClaim_def)

theorem claim_carries_name_witness:
  "computeNameFromClaim (buildAddressClaim ex_device 42) = device_name ex_device
    \<and> SourceId (clm_Info (buildAddressClaim ex_device 42)) = 42"
  by (rule claim_carries_name) (simp add: computeName_eq ex_device_ok)

text \<open>A command with fields of the widths the wire gives them, and the fields it names.\<close>

definition command_ok :: "ISOCommandedAddress \<Rightarrow> bool" where
  "command_ok c \<longleftrightarrow> name_parts (command_unique (cmd_UniqueNumber c)) (ucast (cmd_ManufacturerCode c))
     (opt_word (cmd_DeviceInstanceLower c)) (opt_word (cmd_DeviceInstanceUpper c))
     (ucast (cmd_DeviceFunction c)) (ucast (cmd_DeviceClass c)) (opt_word (cmd_SystemInstance c))
     (ucast (cmd_IndustryCode c))"

definition commands_device :: "ISOCommandedAddress \<Rightarrow> DeviceInfo \<Rightarrow> bool" where
  "commands_device c d \<longleftrightarrow> command_unique (cmd_UniqueNumber c) = ucast (dev_UniqueNumber d)
     \<and> cmd_ManufacturerCode c = dev_ManufacturerCode d
     \<and> opt_word (cmd_DeviceInstanceLower c) = ucast (dev_DeviceInstanceLower d)
     \<and> opt_word (cmd_DeviceInstanceUpper c) = ucast (dev_DeviceInstanceUpper d)
     \<and> cmd_DeviceFunction c = dev_DeviceFunction d \<and> cmd_DeviceClass c = dev_DeviceClass d
     \<and> opt_word (cmd_SystemInstance c) = ucast (dev_SystemInstance d)
     \<and> cmd_IndustryCode c = dev_IndustryGroup d"

lemma clear_top_bit:
  assumes "name_parts u m l h f c s g"
  shows "name_of u m l h f c s g a AND NOT (push_bit 63 1) = name_of u m l h f c s g False"
proof (rule bit_word_eqI)
  fix k assume k: "k < LENGTH(64)"
  have top: "bit (push_bit 63 (1 :: u64)) k \<longleftrightarrow> k = 63"
    unfolding bit_push_bit_iff using k by (auto simp: bit_1_iff)
  show "bit (name_of u m l h f c s g a AND NOT (push_bit 63 1)) k = bit (name_of u m l h f c s g False) k"
    unfolding bit_and_iff bit_not_iff top bit_name_of
    using k assms by (auto simp: name_parts_def)
qed

lemma command_matches:
  assumes "device_ok d" and "command_ok c"
  shows "computeNameFromCommand c = device_name d AND NOT (push_bit 63 1) \<longleftrightarrow> commands_device c d"
proof
  note D = device_parts[OF assms(1)] and C = assms(2)[unfolded command_ok_def]
  assume "computeNameFromCommand c = device_name d AND NOT (push_bit 63 1)"
  then have e: "computeNameFromCommand c = name_of (ucast (dev_UniqueNumber d))
     (ucast (dev_ManufacturerCode d)) (ucast (dev_DeviceInstanceLower d))
     (ucast (dev_DeviceInstanceUpper d)) (ucast (dev_DeviceFunction d)) (ucast (dev_DeviceClass d))
     (ucast (dev_SystemInstance d)) (ucast (dev_IndustryGroup d)) False"
    unfolding device_name_def clear_top_bit[OF D] .
  note f = name_fields(1-8)[OF D, of False, folded e]
  note f' = name_fields(1-8)[OF C, of False, folded computeNameFromCommand_eq]
  have "cmd_ManufacturerCode c = dev_ManufacturerCode d"
    using f(2) f'(2) by - (rule ucast_back[rotated], simp_all)
  moreover have "cmd_DeviceFunction c = dev_DeviceFunction d"
    using f(5) f'(5) by - (rule ucast_back[rotated], simp_all)
  moreover have "cmd_DeviceClass c = dev_DeviceClass d"
    using f(6) f'(6) by - (rule ucast_back[rotated], simp_all)
  moreover have "cmd_IndustryCode c = dev_IndustryGroup d"
    using f(8) f'(8) by - (rule ucast_back[rotated], simp_all)
  ultimately show "commands_device c d"
    using f(1,3,4,7) f'(1,3,4,7) by (simp add: commands_device_def)
next
  assume "commands_device c d"
  then show "computeNameFromCommand c = device_name d AND NOT (push_bit 63 1)"
    unfolding device_name_def clear_top_bit[OF device_parts[OF assms(1)]]
    by (simp add: computeNameFromCommand_eq commands_device_def)
qed

end
