(* ===== verification/Gofloat.thy ===== *)
theory Gofloat
  imports N2kPrelude Complex_Main "HOL-Library.Log_Nat"
begin

text \<open>
  Binary floating point of a given precision, in the range where neither overflow nor
  subnormal numbers occur: a finite float is the rational number it stands for, an operation
  rounds the exact result to the nearest number of \<open>p\<close> significant bits, ties to even.
  \<open>float32\<close> has 24 bits. The node converts a protocol version to such a float and back.
\<close>

section \<open>Rounding\<close>

text \<open>The exponent of a positive number: the largest power of two that is not above it.\<close>

definition ilog2 :: "rat \<Rightarrow> int" where
  "ilog2 x = (if 1 \<le> x then int (floorlog 2 (nat \<lfloor>x\<rfloor>)) - 1
              else - int (floorlog 2 (nat (\<lceil>1 / x\<rceil> - 1))))"

definition pow2 :: "int \<Rightarrow> rat" where
  "pow2 e = (if 0 \<le> e then 2 ^ nat e else 1 / 2 ^ nat (- e))"

definition round_half_even :: "rat \<Rightarrow> int" where
  "round_half_even x =
     (let f = \<lfloor>x\<rfloor>; d = x - of_int f
      in if d < 1 / 2 then f else if 1 / 2 < d then f + 1 else if even f then f else f + 1)"

definition fl :: "nat \<Rightarrow> rat \<Rightarrow> rat" where
  "fl p x = (if x = 0 then 0
     else (let q = pow2 (ilog2 \<bar>x\<bar> - (int p - 1)) in of_int (round_half_even (x / q)) * q))"

text \<open>\<open>float32(v) / 100.0\<close> and \<open>uint16(v * 100)\<close>.\<close>

definition version_float :: "u16 \<Rightarrow> rat" where
  "version_float v = fl 24 (of_nat (unat v) / 100)"

definition float_version :: "rat \<Rightarrow> u16" where
  "float_version x = word_of_int (let y = fl 24 (x * 100) in if 0 \<le> y then \<lfloor>y\<rfloor> else \<lceil>y\<rceil>)"

section \<open>Evaluation\<close>

text \<open>Exponents by counting bits, and powers of two in lowest terms, so that concrete floats evaluate quickly.\<close>

function bit_count :: "int \<Rightarrow> int" where
  "bit_count n = (if n \<le> 0 then 0 else 1 + bit_count (n div 2))"
  by auto
termination by (relation "measure nat") auto

declare bit_count.simps [simp del]

lemma floorlog_bit_count: "int (floorlog 2 (nat n)) = bit_count n"
proof (induction n rule: bit_count.induct)
  case (1 n)
  show ?case
  proof (cases "n \<le> 0")
    case True
    then show ?thesis by (simp add: bit_count.simps[of n] floorlog_def)
  next
    case False
    then have "floorlog 2 (nat n) = floorlog 2 (nat n div 2) + 1"
      using compute_floorlog[of 2 "nat n"] by simp
    moreover have "nat n div 2 = nat (n div 2)" using False by (simp add: nat_div_distrib)
    ultimately show ?thesis using 1 False by (simp add: bit_count.simps[of n])
  qed
qed

lemma ilog2_code [code]:
  "ilog2 x = (if 1 \<le> x then bit_count \<lfloor>x\<rfloor> - 1 else - bit_count (\<lceil>1 / x\<rceil> - 1))"
  by (simp only: ilog2_def floorlog_bit_count)

lemma pow2_code [code]: "pow2 e = (if 0 \<le> e then of_int (2 ^ nat e) else Fract 1 (2 ^ nat (- e)))"
  by (simp add: pow2_def Fract_of_int_quotient)

section \<open>The rounding error\<close>

lemma pow2_pos [simp]: "0 < pow2 e"
  by (simp add: pow2_def)

lemma pow2_nonzero [simp]: "pow2 e \<noteq> 0"
  by (simp add: pow2_def)

lemma pow2_minus_nat: "pow2 (e - int n) = pow2 e / 2 ^ n"
proof (cases "0 \<le> e")
  case True
  show ?thesis
  proof (cases "int n \<le> e")
    case True
    with \<open>0 \<le> e\<close> have "(2 :: rat) ^ nat e = 2 ^ nat (e - int n) * 2 ^ n"
      by (simp flip: power_add add: nat_diff_distrib)
    with True \<open>0 \<le> e\<close> show ?thesis by (simp add: pow2_def)
  next
    case False
    with \<open>0 \<le> e\<close> have "(2 :: rat) ^ n = 2 ^ nat (int n - e) * 2 ^ nat e"
      by (simp flip: power_add add: nat_diff_distrib)
    with False \<open>0 \<le> e\<close> show ?thesis by (simp add: pow2_def)
  qed
next
  case False
  then have "nat (int n - e) = nat (- e) + n" by simp
  with False show ?thesis by (simp add: pow2_def power_add)
qed

lemma pow2_ilog2_le:
  assumes "0 < x"
  shows "pow2 (ilog2 x) \<le> x"
proof (cases "1 \<le> x")
  case True
  let ?n = "nat \<lfloor>x\<rfloor>"
  have n: "?n > 0" using True by simp
  have "2 ^ (floorlog 2 ?n - 1) \<le> ?n" using floorlog_bounds[of ?n 2] n by simp
  then have "(of_nat (2 ^ (floorlog 2 ?n - 1)) :: rat) \<le> of_nat ?n"
    by (simp only: of_nat_le_iff)
  also have "of_nat ?n \<le> x" using True by (simp add: of_nat_nat)
  finally have "(2 :: rat) ^ (floorlog 2 ?n - 1) \<le> x" by simp
  moreover have "floorlog 2 ?n > 0" using n by (simp add: floorlog_def)
  ultimately show ?thesis using True by (simp add: ilog2_def pow2_def nat_diff_distrib)
next
  case False
  let ?y = "1 / x"
  let ?c = "nat (\<lceil>?y\<rceil> - 1)"
  have y: "1 < ?y" using False assms by simp
  then have c: "?c > 0" by linarith
  have "?c < 2 ^ floorlog 2 ?c" using floorlog_bounds[of ?c 2] c by simp
  then have "?c + 1 \<le> 2 ^ floorlog 2 ?c" by (simp only: Suc_eq_plus1[symmetric] Suc_le_eq)
  then have "(of_nat (?c + 1) :: rat) \<le> of_nat (2 ^ floorlog 2 ?c)"
    by (simp only: of_nat_le_iff)
  moreover have "?y \<le> of_nat (?c + 1)"
  proof -
    have "int (?c + 1) = \<lceil>?y\<rceil>" using c unfolding zero_less_nat_eq by linarith
    then have "(of_nat (?c + 1) :: rat) = of_int \<lceil>?y\<rceil>" by (metis of_int_of_nat_eq)
    then show ?thesis using le_of_int_ceiling[of ?y] by simp
  qed
  ultimately have "?y \<le> 2 ^ floorlog 2 ?c" by simp
  then have "1 / 2 ^ floorlog 2 ?c \<le> x"
    using assms by (simp add: field_simps)
  moreover have "0 < floorlog 2 ?c" using c by (simp add: floorlog_def)
  ultimately show ?thesis using False by (simp add: ilog2_def pow2_def)
qed

lemma round_half_even_error: "\<bar>of_int (round_half_even x) - x\<bar> \<le> 1 / 2"
  unfolding round_half_even_def Let_def using floor_correct[of x] by (auto simp: abs_le_iff)

lemma fl_error:
  assumes "0 < p"
  shows "\<bar>fl p x - x\<bar> \<le> \<bar>x\<bar> / 2 ^ p"
proof (cases "x = 0")
  case False
  define q where "q = pow2 (ilog2 \<bar>x\<bar> - (int p - 1))"
  have q: "0 < q" by (simp add: q_def)
  have "ilog2 \<bar>x\<bar> - (int p - 1) = ilog2 \<bar>x\<bar> - int (p - 1)" using assms by simp
  then have "q = pow2 (ilog2 \<bar>x\<bar>) / 2 ^ (p - 1)" unfolding q_def by (metis pow2_minus_nat)
  also have "\<dots> \<le> \<bar>x\<bar> / 2 ^ (p - 1)"
    using pow2_ilog2_le[of "\<bar>x\<bar>"] False by (intro divide_right_mono) simp_all
  finally have q_le: "q \<le> \<bar>x\<bar> / 2 ^ (p - 1)" .
  have "fl p x - x = (of_int (round_half_even (x / q)) - x / q) * q"
    using False q by (simp add: fl_def Let_def q_def left_diff_distrib)
  then have "\<bar>fl p x - x\<bar> = \<bar>of_int (round_half_even (x / q)) - x / q\<bar> * q"
    using q by (simp add: abs_mult)
  also have "\<dots> \<le> 1 / 2 * q"
    using round_half_even_error[of "x / q"] q by (intro mult_right_mono) simp_all
  also have "\<dots> \<le> 1 / 2 * (\<bar>x\<bar> / 2 ^ (p - 1))" using q_le by simp
  also have "\<dots> = \<bar>x\<bar> / 2 ^ p" using assms by (cases p) simp_all
  finally show ?thesis .
qed (simp add: fl_def)

text \<open>A version comes back as it was or one too small.\<close>

lemma float_version_bounds:
  "unat (float_version (version_float v)) \<in> {unat v - 1, unat v}"
proof -
  define n where "n = (of_nat (unat v) :: rat)"
  define x where "x = version_float v"
  define y where "y = fl 24 (x * 100)"
  have "unat v \<le> 65535" using unat_lt_65536[of v] by simp
  then have "n \<le> of_nat 65535" unfolding n_def by (simp only: of_nat_le_iff)
  then have n: "0 \<le> n" "n \<le> 65535"
    unfolding n_def by (simp_all only: of_nat_0_le_iff of_nat_numeral)
  have "\<bar>x - n / 100\<bar> \<le> \<bar>n / 100\<bar> / 2 ^ 24"
    using fl_error[of 24 "n / 100"] by (simp add: x_def version_float_def n_def)
  moreover have "\<bar>y - x * 100\<bar> \<le> \<bar>x * 100\<bar> / 2 ^ 24"
    using fl_error[of 24 "x * 100"] by (simp add: y_def)
  ultimately have d: "\<bar>y - n\<bar> < 1"
    using n by (simp add: abs_le_iff abs_less_iff abs_if split: if_splits)
  show ?thesis
  proof (cases "unat v = 0")
    case True
    then have "n = 0" by (simp add: n_def)
    then have "x = 0" by (simp add: x_def version_float_def n_def fl_def)
    then show ?thesis using True by (simp add: float_version_def fl_def x_def[symmetric])
  next
    case False
    then have "of_nat 1 \<le> n" unfolding n_def of_nat_le_iff by simp
    then have "1 \<le> n" by simp
    with d have y: "0 \<le> y" by linarith
    have f: "\<lfloor>y\<rfloor> = int (unat v) - 1 \<or> \<lfloor>y\<rfloor> = int (unat v)"
    proof -
      have "of_int (int (unat v) - 1) < y" "y < of_int (int (unat v) + 1)"
        using d by (simp_all add: n_def abs_less_iff)
      then show ?thesis by linarith
    qed
    have fv: "float_version x = word_of_int \<lfloor>y\<rfloor>"
      using y by (simp add: float_version_def y_def[symmetric])
    from f show ?thesis
    proof
      assume "\<lfloor>y\<rfloor> = int (unat v)"
      then show ?thesis using fv by (simp add: x_def)
    next
      assume "\<lfloor>y\<rfloor> = int (unat v) - 1"
      then have "\<lfloor>y\<rfloor> = int (unat v - 1)" using False by simp
      then have "float_version x = of_nat (unat v - 1)" using fv by simp
      moreover have "unat (of_nat (unat v - 1) :: u16) = unat v - 1"
        using unat_lt_65536[of v] by (simp add: unat_of_nat)
      ultimately show ?thesis by (simp add: x_def)
    qed
  qed
qed

lemma float_version_210: "float_version (version_float 210) = 209"
  by code_simp

end
