(* ===== verification/Messages.thy ===== *)
theory Messages
  imports Nodename Gofloat
begin

text \<open>
  The messages a node reads and writes (\<open>pkg/pgn/types_generated.go\<close>), with the constants of
  \<open>pkg/pgn/enums_generated.go\<close> and \<open>pkg/pgn/consts_generated.go\<close> it uses. A pointer is an
  option, an enumeration is the number it is declared on, a \<open>float32\<close> the rational number it
  stands for; the fields of a struct carry a prefix that keeps the records apart.
\<close>

section \<open>Messages\<close>

record ISORequest =
  irq_Info :: MessageInfo
  irq_PGN :: "u32 option"

record ISOAcknowledgement =
  iak_Info :: MessageInfo
  iak_Control :: u8
  iak_GroupFunction :: "u8 option"
  iak_PGN :: "u32 option"

text \<open>A selection (parameter and value) or a parameter with its value.\<close>

record FieldValue =
  fld_Parameter :: "u8 option"
  fld_Value :: bytes

record NMEARequestGroupFunction =
  nrq_Info :: MessageInfo
  nrq_FunctionCode :: u8
  nrq_PGN :: "u32 option"
  nrq_TransmissionInterval :: "rat option"
  nrq_TransmissionIntervalOffset :: "rat option"
  nrq_NumberOfParameters :: "u8 option"
  nrq_Repeating1 :: "FieldValue list"

record NMEACommandGroupFunction =
  ncm_Info :: MessageInfo
  ncm_FunctionCode :: u8
  ncm_PGN :: "u32 option"
  ncm_Priority :: u8
  ncm_NumberOfParameters :: "u8 option"
  ncm_Repeating1 :: "FieldValue list"

record NMEAWriteFieldsGroupFunction =
  nwf_Info :: MessageInfo
  nwf_FunctionCode :: u8
  nwf_PGN :: "u32 option"
  nwf_ManufacturerCode :: u16
  nwf_IndustryCode :: u8
  nwf_UniqueID :: "u8 option"
  nwf_NumberOfSelectionPairs :: "u8 option"
  nwf_NumberOfParameters :: "u8 option"
  nwf_Repeating1 :: "FieldValue list"
  nwf_Repeating2 :: "FieldValue list"

record NMEAReadFieldsGroupFunction =
  nrf_Info :: MessageInfo
  nrf_FunctionCode :: u8
  nrf_PGN :: "u32 option"
  nrf_ManufacturerCode :: u16
  nrf_IndustryCode :: u8
  nrf_UniqueID :: "u8 option"
  nrf_NumberOfSelectionPairs :: "u8 option"
  nrf_NumberOfParameters :: "u8 option"
  nrf_Repeating1 :: "FieldValue list"
  nrf_Repeating2 :: "u8 option list"

record NMEAAcknowledgeGroupFunction =
  nak_Info :: MessageInfo
  nak_FunctionCode :: u8
  nak_PGN :: "u32 option"
  nak_PGNErrorCode :: u8
  nak_TransmissionIntervalPriorityErrorCode :: u8
  nak_NumberOfParameters :: "u8 option"
  nak_Repeating1 :: "u8 list"

record NMEAWriteFieldsReplyGroupFunction =
  nwr_Info :: MessageInfo
  nwr_FunctionCode :: u8
  nwr_PGN :: "u32 option"
  nwr_ManufacturerCode :: u16
  nwr_IndustryCode :: u8
  nwr_UniqueID :: "u8 option"
  nwr_NumberOfSelectionPairs :: "u8 option"
  nwr_NumberOfParameters :: "u8 option"
  nwr_Repeating1 :: "FieldValue list"
  nwr_Repeating2 :: "FieldValue list"

record NMEAReadFieldsReplyGroupFunction =
  nrr_Info :: MessageInfo
  nrr_FunctionCode :: u8
  nrr_PGN :: "u32 option"
  nrr_ManufacturerCode :: u16
  nrr_IndustryCode :: u8
  nrr_UniqueID :: "u8 option"
  nrr_NumberOfSelectionPairs :: "u8 option"
  nrr_NumberOfParameters :: "u8 option"
  nrr_Repeating1 :: "FieldValue list"
  nrr_Repeating2 :: "FieldValue list"

record ProductInformation =
  pin_Info :: MessageInfo
  pin_NMEA2000Version :: "rat option"
  pin_ProductCode :: "u16 option"
  pin_ModelID :: gostring
  pin_SoftwareVersionCode :: gostring
  pin_ModelVersion :: gostring
  pin_ModelSerialCode :: gostring
  pin_CertificationLevel :: u8
  pin_LoadEquivalency :: "u8 option"

record ConfigurationInformation =
  cin_Info :: MessageInfo
  cin_InstallationDescription1 :: gostring
  cin_InstallationDescription2 :: gostring
  cin_ManufacturerInformation :: gostring

record PGNListTransmitAndReceive =
  lst_Info :: MessageInfo
  lst_FunctionCode :: u8
  lst_Repeating1 :: "u32 option list"

record Heartbeat =
  hbt_Info :: MessageInfo
  hbt_DataTransmitOffset :: "rat option"
  hbt_SequenceCounter :: "u8 option"
  hbt_Controller1State :: u8
  hbt_Controller2State :: u8
  hbt_EquipmentStatus :: u8

text \<open>
  A value of any of these types. The other structs of the package are an application's own:
  of them the node reads and sets the header only (\<open>OtherStruct\<close>), and a value that is no
  pointer to a struct with a header is \<open>NotAMessage\<close>.
\<close>

datatype message =
    MISORequest ISORequest
  | MISOAcknowledgement ISOAcknowledgement
  | MISOAddressClaim ISOAddressClaim
  | MISOCommandedAddress ISOCommandedAddress
  | MNMEARequest NMEARequestGroupFunction
  | MNMEACommand NMEACommandGroupFunction
  | MNMEAWriteFields NMEAWriteFieldsGroupFunction
  | MNMEAReadFields NMEAReadFieldsGroupFunction
  | MNMEAAcknowledge NMEAAcknowledgeGroupFunction
  | MNMEAWriteFieldsReply NMEAWriteFieldsReplyGroupFunction
  | MNMEAReadFieldsReply NMEAReadFieldsReplyGroupFunction
  | MProductInformation ProductInformation
  | MConfigurationInformation ConfigurationInformation
  | MPGNList PGNListTransmitAndReceive
  | MHeartbeat Heartbeat
  | OtherStruct MessageInfo bytes
  | NotAMessage

fun msg_Info :: "message \<Rightarrow> MessageInfo option" where
  "msg_Info (MISORequest m) = Some (irq_Info m)"
| "msg_Info (MISOAcknowledgement m) = Some (iak_Info m)"
| "msg_Info (MISOAddressClaim m) = Some (clm_Info m)"
| "msg_Info (MISOCommandedAddress m) = Some (cmd_Info m)"
| "msg_Info (MNMEARequest m) = Some (nrq_Info m)"
| "msg_Info (MNMEACommand m) = Some (ncm_Info m)"
| "msg_Info (MNMEAWriteFields m) = Some (nwf_Info m)"
| "msg_Info (MNMEAReadFields m) = Some (nrf_Info m)"
| "msg_Info (MNMEAAcknowledge m) = Some (nak_Info m)"
| "msg_Info (MNMEAWriteFieldsReply m) = Some (nwr_Info m)"
| "msg_Info (MNMEAReadFieldsReply m) = Some (nrr_Info m)"
| "msg_Info (MProductInformation m) = Some (pin_Info m)"
| "msg_Info (MConfigurationInformation m) = Some (cin_Info m)"
| "msg_Info (MPGNList m) = Some (lst_Info m)"
| "msg_Info (MHeartbeat m) = Some (hbt_Info m)"
| "msg_Info (OtherStruct info _) = Some info"
| "msg_Info NotAMessage = None"

fun with_Info :: "message \<Rightarrow> MessageInfo \<Rightarrow> message" where
  "with_Info (MISORequest m) i = MISORequest (m\<lparr>irq_Info := i\<rparr>)"
| "with_Info (MISOAcknowledgement m) i = MISOAcknowledgement (m\<lparr>iak_Info := i\<rparr>)"
| "with_Info (MISOAddressClaim m) i = MISOAddressClaim (m\<lparr>clm_Info := i\<rparr>)"
| "with_Info (MISOCommandedAddress m) i = MISOCommandedAddress (m\<lparr>cmd_Info := i\<rparr>)"
| "with_Info (MNMEARequest m) i = MNMEARequest (m\<lparr>nrq_Info := i\<rparr>)"
| "with_Info (MNMEACommand m) i = MNMEACommand (m\<lparr>ncm_Info := i\<rparr>)"
| "with_Info (MNMEAWriteFields m) i = MNMEAWriteFields (m\<lparr>nwf_Info := i\<rparr>)"
| "with_Info (MNMEAReadFields m) i = MNMEAReadFields (m\<lparr>nrf_Info := i\<rparr>)"
| "with_Info (MNMEAAcknowledge m) i = MNMEAAcknowledge (m\<lparr>nak_Info := i\<rparr>)"
| "with_Info (MNMEAWriteFieldsReply m) i = MNMEAWriteFieldsReply (m\<lparr>nwr_Info := i\<rparr>)"
| "with_Info (MNMEAReadFieldsReply m) i = MNMEAReadFieldsReply (m\<lparr>nrr_Info := i\<rparr>)"
| "with_Info (MProductInformation m) i = MProductInformation (m\<lparr>pin_Info := i\<rparr>)"
| "with_Info (MConfigurationInformation m) i = MConfigurationInformation (m\<lparr>cin_Info := i\<rparr>)"
| "with_Info (MPGNList m) i = MPGNList (m\<lparr>lst_Info := i\<rparr>)"
| "with_Info (MHeartbeat m) i = MHeartbeat (m\<lparr>hbt_Info := i\<rparr>)"
| "with_Info (OtherStruct _ b) i = OtherStruct i b"
| "with_Info NotAMessage i = NotAMessage"

lemma msg_Info_with_Info: "msg_Info m \<noteq> None \<Longrightarrow> msg_Info (with_Info m i) = Some i"
  by (cases m) simp_all

lemma msg_Info_None: "msg_Info m = None \<longleftrightarrow> m = NotAMessage"
  by (cases m) simp_all

section \<open>Constants\<close>

definition ISOAcknowledgementPGN :: u32 where "ISOAcknowledgementPGN = 59392"
definition ISORequestPGN :: u32 where "ISORequestPGN = 59904"
definition ISOCommandedAddressPGN :: u32 where "ISOCommandedAddressPGN = 65240"
definition NMEARequestGroupFunctionPGN :: u32 where "NMEARequestGroupFunctionPGN = 126208"
definition NMEACommandGroupFunctionPGN :: u32 where "NMEACommandGroupFunctionPGN = 126208"
definition NMEAAcknowledgeGroupFunctionPGN :: u32 where "NMEAAcknowledgeGroupFunctionPGN = 126208"
definition NMEAReadFieldsReplyGroupFunctionPGN :: u32 where
  "NMEAReadFieldsReplyGroupFunctionPGN = 126208"
definition NMEAWriteFieldsReplyGroupFunctionPGN :: u32 where
  "NMEAWriteFieldsReplyGroupFunctionPGN = 126208"
definition PGNListTransmitAndReceivePGN :: u32 where "PGNListTransmitAndReceivePGN = 126464"
definition HeartbeatPGN :: u32 where "HeartbeatPGN = 126993"
definition ProductInformationPGN :: u32 where "ProductInformationPGN = 126996"
definition ConfigurationInformationPGN :: u32 where "ConfigurationInformationPGN = 126998"

definition Nak :: u8 where "Nak = 1"
definition WriteFields :: u8 where "WriteFields = 5"
definition Acknowledge_5 :: u8 where "Acknowledge_5 = 2"
definition ReadFieldsReply :: u8 where "ReadFieldsReply = 4"
definition WriteFieldsReply :: u8 where "WriteFieldsReply = 6"
definition Acknowledge_6 :: u8 where "Acknowledge_6 = 0"
definition PGNNotSupported :: u8 where "PGNNotSupported = 1"
definition Acknowledge_2 :: u8 where "Acknowledge_2 = 0"
definition NotSupported :: u8 where "NotSupported = 4"
definition Acknowledge_3 :: u8 where "Acknowledge_3 = 0"
definition InvalidParameterField :: u8 where "InvalidParameterField = 1"
definition AccessDenied_2 :: u8 where "AccessDenied_2 = 4"
definition ReadOrWriteNotSupported :: u8 where "ReadOrWriteNotSupported = 6"
definition TransmitPGNList :: u8 where "TransmitPGNList = 0"
definition ReceivePGNList :: u8 where "ReceivePGNList = 1"
definition ErrorActive :: u8 where "ErrorActive = 0"
definition Operational :: u8 where "Operational = 0"

end
