(* ===== verification/Devices.thy ===== *)
theory Devices
  imports Messages "HOL-Library.Multiset"
begin

text \<open>
  The devices a node has seen on the bus (\<open>pkg/node/node.go\<close>): devices by NAME, the NAME at each
  address, and the devices at an address whose NAME is not known yet. The three maps are part of
  the node's state, which extends the record declared here. A nil pointer or slice is \<open>None\<close>,
  the zero time is \<open>None\<close>, a nil and an empty PGN list differ, as they do for
  \<open>reflect.DeepEqual\<close>. The operations return the changes they publish.
\<close>

section \<open>State\<close>

record ProductInfo =
  prd_NMEA2000Version :: u16
  prd_ProductCode :: u16
  prd_ModelID :: gostring
  prd_SoftwareVersionCode :: gostring
  prd_ModelVersion :: gostring
  prd_ModelSerialCode :: gostring
  prd_CertificationLevel :: u8
  prd_LoadEquivalency :: u8

record ConfigurationInfo =
  cfg_InstallationDescription1 :: gostring
  cfg_InstallationDescription2 :: gostring
  cfg_ManufacturerInformation :: gostring

record KnownDevice =
  Address :: u8
  Name :: u64
  LastSeen :: "gotime option"
  DevProductInfo :: "ProductInfo option"
  DevConfigInfo :: "ConfigurationInfo option"
  TransmitPGNs :: "u32 list option"
  ReceivePGNs :: "u32 list option"

definition no_device :: KnownDevice where
  "no_device = \<lparr>Address = 0, Name = 0, LastSeen = None, DevProductInfo = None,
     DevConfigInfo = None, TransmitPGNs = None, ReceivePGNs = None\<rparr>"

datatype DeviceChangeKind = DeviceChangeObserved | DeviceChangeAddressChanged
  | DeviceChangeProductInfoChanged | DeviceChangeConfigurationInfoChanged
  | DeviceChangePGNListsChanged | DeviceChangeExpired

record DeviceChange =
  Kind :: DeviceChangeKind
  Device :: KnownDevice
  OldAddress :: "u8 option"
  ChangedPGNs :: "u32 list option"

record DeviceTables =
  knownDevices :: "u64 \<rightharpoonup> KnownDevice"
  knownDeviceNamesByAddress :: "u8 \<rightharpoonup> u64"
  unknownKnownDevicesByAddress :: "u8 \<rightharpoonup> KnownDevice"

section \<open>Single devices\<close>

text \<open>\<open>append([]uint32(nil), x...)\<close>: an empty slice is copied to a nil one.\<close>

definition copy_list :: "'a list option \<Rightarrow> 'a list option" where
  "copy_list v = (case v of Some (x # xs) \<Rightarrow> Some (x # xs) | _ \<Rightarrow> None)"

definition cloneKnownDevice :: "KnownDevice \<Rightarrow> KnownDevice" where
  "cloneKnownDevice d = d\<lparr>TransmitPGNs := copy_list (TransmitPGNs d), ReceivePGNs := copy_list (ReceivePGNs d)\<rparr>"

definition mergeKnownDevice :: "KnownDevice \<Rightarrow> KnownDevice \<Rightarrow> KnownDevice" where
  "mergeKnownDevice d ov =
     (let ret = d;
          ret = (if Address d = 0 then ret\<lparr>Address := Address ov\<rparr> else ret);
          ret = (case LastSeen d of
                   None \<Rightarrow> ret\<lparr>LastSeen := LastSeen ov\<rparr>
                 | Some t \<Rightarrow>
                     (case LastSeen ov of
                        Some u \<Rightarrow> if u > t then ret\<lparr>LastSeen := LastSeen ov\<rparr> else ret
                      | None \<Rightarrow> ret));
          ret = (if DevProductInfo d = None \<and> DevProductInfo ov \<noteq> None
                 then ret\<lparr>DevProductInfo := DevProductInfo ov\<rparr> else ret);
          ret = (if DevConfigInfo d = None \<and> DevConfigInfo ov \<noteq> None
                 then ret\<lparr>DevConfigInfo := DevConfigInfo ov\<rparr> else ret);
          ret = (if TransmitPGNs d = None \<and> TransmitPGNs ov \<noteq> None
                 then ret\<lparr>TransmitPGNs := copy_list (TransmitPGNs ov)\<rparr> else ret);
          ret = (if ReceivePGNs d = None \<and> ReceivePGNs ov \<noteq> None
                 then ret\<lparr>ReceivePGNs := copy_list (ReceivePGNs ov)\<rparr> else ret)
      in ret)"

definition knownDevicePGNListValues :: "u32 option list \<Rightarrow> u32 list" where
  "knownDevicePGNListValues list = List.map_filter (\<lambda>p. p) list"

definition knownDeviceForAddressLocked :: "'a DeviceTables_scheme \<Rightarrow> u8 \<Rightarrow> KnownDevice" where
  "knownDeviceForAddressLocked n address =
     (case knownDeviceNamesByAddress n address of
        Some name \<Rightarrow> (case knownDevices n name of Some d \<Rightarrow> d | None \<Rightarrow> no_device)
      | None \<Rightarrow>
          (case unknownKnownDevicesByAddress n address of
             Some d \<Rightarrow> d
           | None \<Rightarrow> no_device\<lparr>Address := address\<rparr>))"

definition setKnownDeviceForAddressLocked ::
  "'a DeviceTables_scheme \<Rightarrow> u8 \<Rightarrow> KnownDevice \<Rightarrow> 'a DeviceTables_scheme" where
  "setKnownDeviceForAddressLocked n address d =
     (if Name d \<noteq> 0
      then n\<lparr>knownDevices := (knownDevices n)(Name d \<mapsto> d),
             knownDeviceNamesByAddress := (knownDeviceNamesByAddress n)(address \<mapsto> Name d),
             unknownKnownDevicesByAddress := (unknownKnownDevicesByAddress n)(address := None)\<rparr>
      else n\<lparr>unknownKnownDevicesByAddress := (unknownKnownDevicesByAddress n)(address \<mapsto> d)\<rparr>)"

section \<open>Updates from the bus\<close>

definition updateKnownDeviceFromClaim ::
  "gotime \<Rightarrow> 'a DeviceTables_scheme \<Rightarrow> ISOAddressClaim \<Rightarrow> u64
     \<Rightarrow> 'a DeviceTables_scheme \<times> DeviceChange list" where
  "updateKnownDeviceFromClaim now n claim name =
     (let address = SourceId (clm_Info claim);
          device = (case knownDevices n name of Some d \<Rightarrow> d | None \<Rightarrow> no_device);
          knownName = knownDevices n name \<noteq> None;
          oldAddress = Address device;
          (device, n) =
            (case unknownKnownDevicesByAddress n address of
               Some unknown \<Rightarrow> (mergeKnownDevice device unknown,
                 n\<lparr>unknownKnownDevicesByAddress := (unknownKnownDevicesByAddress n)(address := None)\<rparr>)
             | None \<Rightarrow> (device, n));
          n = (case knownDeviceNamesByAddress n address of
                 Some previousName \<Rightarrow>
                   if previousName \<noteq> name
                   then n\<lparr>knownDevices := (knownDevices n)(previousName \<mapsto>
                          (case knownDevices n previousName of Some d \<Rightarrow> d | None \<Rightarrow> no_device)
                            \<lparr>Address := 255\<rparr>)\<rparr>
                   else n
               | None \<Rightarrow> n);
          n = (if knownName \<and> oldAddress \<le> 253 \<and> oldAddress \<noteq> address
               then n\<lparr>knownDeviceNamesByAddress := (knownDeviceNamesByAddress n)(oldAddress := None)\<rparr>
               else n);
          device = device\<lparr>Address := address, Name := name, LastSeen := Some now\<rparr>;
          n = n\<lparr>knownDevices := (knownDevices n)(name \<mapsto> device),
                knownDeviceNamesByAddress := (knownDeviceNamesByAddress n)(address \<mapsto> name)\<rparr>
      in (n,
          if \<not> knownName
          then [\<lparr>Kind = DeviceChangeObserved, Device = cloneKnownDevice device,
                 OldAddress = None, ChangedPGNs = None\<rparr>]
          else if oldAddress \<noteq> address
          then [\<lparr>Kind = DeviceChangeAddressChanged, Device = cloneKnownDevice device,
                 OldAddress = Some oldAddress, ChangedPGNs = None\<rparr>]
          else []))"

definition updateKnownDeviceFromProductInfo ::
  "gotime \<Rightarrow> 'a DeviceTables_scheme \<Rightarrow> ProductInformation
     \<Rightarrow> 'a DeviceTables_scheme \<times> DeviceChange list" where
  "updateKnownDeviceFromProductInfo now n info =
     (let src = SourceId (pin_Info info);
          device = (knownDeviceForAddressLocked n src)\<lparr>Address := src, LastSeen := Some now\<rparr>;
          productCode = (case pin_ProductCode info of Some v \<Rightarrow> v | None \<Rightarrow> 0);
          nmea2000Version = (case pin_NMEA2000Version info of Some v \<Rightarrow> float_version v | None \<Rightarrow> 0);
          loadEquivalency = (case pin_LoadEquivalency info of Some v \<Rightarrow> v | None \<Rightarrow> 0);
          productInfo = \<lparr>prd_NMEA2000Version = nmea2000Version, prd_ProductCode = productCode,
            prd_ModelID = pin_ModelID info, prd_SoftwareVersionCode = pin_SoftwareVersionCode info,
            prd_ModelVersion = pin_ModelVersion info, prd_ModelSerialCode = pin_ModelSerialCode info,
            prd_CertificationLevel = pin_CertificationLevel info,
            prd_LoadEquivalency = loadEquivalency\<rparr>;
          (device, changes) =
            (if DevProductInfo device \<noteq> Some productInfo
             then (let device = device\<lparr>DevProductInfo := Some productInfo\<rparr>
                   in (device, [\<lparr>Kind = DeviceChangeProductInfoChanged,
                        Device = cloneKnownDevice device, OldAddress = None, ChangedPGNs = None\<rparr>]))
             else (device, []))
      in (setKnownDeviceForAddressLocked n src device, changes))"

definition updateKnownDeviceFromConfigurationInfo ::
  "gotime \<Rightarrow> 'a DeviceTables_scheme \<Rightarrow> ConfigurationInformation
     \<Rightarrow> 'a DeviceTables_scheme \<times> DeviceChange list" where
  "updateKnownDeviceFromConfigurationInfo now n info =
     (let src = SourceId (cin_Info info);
          device = (knownDeviceForAddressLocked n src)\<lparr>Address := src, LastSeen := Some now\<rparr>;
          configInfo = \<lparr>cfg_InstallationDescription1 = cin_InstallationDescription1 info,
            cfg_InstallationDescription2 = cin_InstallationDescription2 info,
            cfg_ManufacturerInformation = cin_ManufacturerInformation info\<rparr>;
          (device, changes) =
            (if DevConfigInfo device \<noteq> Some configInfo
             then (let device = device\<lparr>DevConfigInfo := Some configInfo\<rparr>
                   in (device, [\<lparr>Kind = DeviceChangeConfigurationInfoChanged,
                        Device = cloneKnownDevice device, OldAddress = None, ChangedPGNs = None\<rparr>]))
             else (device, []))
      in (setKnownDeviceForAddressLocked n src device, changes))"

definition updateKnownDeviceFromPgnList ::
  "gotime \<Rightarrow> 'a DeviceTables_scheme \<Rightarrow> PGNListTransmitAndReceive
     \<Rightarrow> 'a DeviceTables_scheme \<times> DeviceChange list" where
  "updateKnownDeviceFromPgnList now n info =
     (let src = SourceId (lst_Info info);
          device = (knownDeviceForAddressLocked n src)\<lparr>Address := src, LastSeen := Some now\<rparr>;
          pgns = knownDevicePGNListValues (lst_Repeating1 info);
          finish = (\<lambda>device changedPGNs.
            (setKnownDeviceForAddressLocked n src device,
             if changedPGNs \<noteq> None
             then [\<lparr>Kind = DeviceChangePGNListsChanged, Device = cloneKnownDevice device,
                    OldAddress = None, ChangedPGNs = changedPGNs\<rparr>]
             else []))
      in if lst_FunctionCode info = TransmitPGNList
         then (if TransmitPGNs device \<noteq> Some pgns
               then finish (device\<lparr>TransmitPGNs := Some pgns\<rparr>) (copy_list (Some pgns))
               else finish device None)
         else if lst_FunctionCode info = ReceivePGNList
         then (if ReceivePGNs device \<noteq> Some pgns
               then finish (device\<lparr>ReceivePGNs := Some pgns\<rparr>) (copy_list (Some pgns))
               else finish device None)
         else (n, []))"

section \<open>The next free address\<close>

definition claimed_address :: "'a DeviceTables_scheme \<Rightarrow> u8 \<Rightarrow> u8 \<Rightarrow> bool" where
  "claimed_address n after a \<longleftrightarrow> a = after
     \<or> (a \<le> 253 \<and> (knownDeviceNamesByAddress n a \<noteq> None \<or> unknownKnownDevicesByAddress n a \<noteq> None))"

definition candidate :: "u8 \<Rightarrow> nat \<Rightarrow> u8" where
  "candidate after i = ucast ((ucast after + of_nat i :: u16) mod 254)"

fun first_free :: "(u8 \<Rightarrow> bool) \<Rightarrow> u8 list \<Rightarrow> u8 option" where
  "first_free claimed [] = None"
| "first_free claimed (c # cs) = (if \<not> claimed c then Some c else first_free claimed cs)"

definition nextAvailableAddressLocked :: "'a DeviceTables_scheme \<Rightarrow> u8 \<Rightarrow> u8 option" where
  "nextAvailableAddressLocked n after =
     first_free (claimed_address n after) (map (candidate after) [1..<255])"

text \<open>
  The devices a caller of \<open>KnownDevices\<close> gets. The order in which Go visits a map is not
  specified, and the sort is not stable: any list of these devices, sorted by address, is a result.
\<close>

definition KnownDevices :: "'a DeviceTables_scheme \<Rightarrow> KnownDevice list \<Rightarrow> bool" where
  "KnownDevices n devices \<longleftrightarrow> sorted (map Address devices) \<and>
     (\<exists>names addresses. distinct names \<and> distinct addresses
        \<and> set names = {name. \<exists>d. knownDevices n name = Some d \<and> Address d \<le> 253}
        \<and> set addresses = dom (unknownKnownDevicesByAddress n)
        \<and> mset devices = mset (map (cloneKnownDevice \<circ> the \<circ> knownDevices n) names
            @ map (cloneKnownDevice \<circ> the \<circ> unknownKnownDevicesByAddress n) addresses))"

section \<open>The tables agree\<close>

text \<open>
  The invariant: every address in use belongs to one device that has this address, every known
  device is filed under its NAME and has lost its address (255) or is found there, and a device
  without a NAME is at an address no known device has.
\<close>

definition tables_ok :: "'a DeviceTables_scheme \<Rightarrow> bool" where
  "tables_ok n \<longleftrightarrow>
     (\<forall>a nm. knownDeviceNamesByAddress n a = Some nm \<longrightarrow> a \<le> 253 \<and> nm \<noteq> 0
        \<and> (\<exists>d. knownDevices n nm = Some d \<and> Address d = a))
   \<and> (\<forall>nm d. knownDevices n nm = Some d \<longrightarrow> Name d = nm
        \<and> (Address d = 255 \<or> knownDeviceNamesByAddress n (Address d) = Some nm))
   \<and> (\<forall>a d. unknownKnownDevicesByAddress n a = Some d \<longrightarrow> a \<le> 253
        \<and> knownDeviceNamesByAddress n a = None \<and> Address d = a \<and> Name d = 0)"

text \<open>What happens to the three maps on a claim, the device's own details aside.\<close>

lemma claim_tables:
  assumes "updateKnownDeviceFromClaim now n claim name = (n', cs)"
  defines "a \<equiv> SourceId (clm_Info claim)"
  shows "unknownKnownDevicesByAddress n' = (unknownKnownDevicesByAddress n)(a := None)"
    and "knownDeviceNamesByAddress n' = (\<lambda>b. if b = a then Some name
      else if \<exists>d. knownDevices n name = Some d \<and> Address d \<le> 253 \<and> Address d = b then None
      else knownDeviceNamesByAddress n b)"
    and "\<exists>dev. knownDevices n' name = Some dev \<and> Address dev = a \<and> Name dev = name
      \<and> LastSeen dev = Some now"
    and "nm \<noteq> name \<Longrightarrow> knownDevices n' nm =
      (if knownDeviceNamesByAddress n a = Some nm
       then Some ((case knownDevices n nm of Some d \<Rightarrow> d | None \<Rightarrow> no_device)\<lparr>Address := 255\<rparr>)
       else knownDevices n nm)"
  using assms
  by (auto simp: updateKnownDeviceFromClaim_def Let_def fun_eq_iff split: option.splits if_splits)

lemma tables_okD:
  assumes "tables_ok n"
  shows "knownDeviceNamesByAddress n a = Some nm \<Longrightarrow>
      a \<le> 253 \<and> nm \<noteq> 0 \<and> (\<exists>d. knownDevices n nm = Some d \<and> Address d = a)"
    and "knownDevices n nm = Some d \<Longrightarrow>
      Name d = nm \<and> (Address d = 255 \<or> knownDeviceNamesByAddress n (Address d) = Some nm)"
    and "unknownKnownDevicesByAddress n a = Some d \<Longrightarrow>
      a \<le> 253 \<and> knownDeviceNamesByAddress n a = None \<and> Address d = a \<and> Name d = 0"
  using assms by (auto simp: tables_ok_def)

lemma claim_tables_ok:
  assumes ok: "tables_ok n" and src: "SourceId (clm_Info claim) \<le> 253" and name: "name \<noteq> 0"
    and upd: "updateKnownDeviceFromClaim now n claim name = (n', cs)"
  shows "tables_ok n'"
proof -
  let ?a = "SourceId (clm_Info claim)"
  note t = claim_tables[OF upd]
  obtain dev where dev: "knownDevices n' name = Some dev" "Address dev = ?a" "Name dev = name"
    using t(3) by blast
  have 1: "a \<le> 253 \<and> nm \<noteq> 0 \<and> (\<exists>d. knownDevices n' nm = Some d \<and> Address d = a)"
    if "knownDeviceNamesByAddress n' a = Some nm" for a nm
  proof (cases "a = ?a")
    case True
    with that t(2) have "nm = name" by simp
    with True src name dev show ?thesis by simp
  next
    case False
    with that t(2) have o: "knownDeviceNamesByAddress n a = Some nm"
      and m: "\<not> (\<exists>d. knownDevices n name = Some d \<and> Address d \<le> 253 \<and> Address d = a)"
      by (auto split: if_splits)
    from tables_okD(1)[OF ok o] obtain d where
      d: "a \<le> 253" "nm \<noteq> 0" "knownDevices n nm = Some d" "Address d = a" by blast
    with m have "nm \<noteq> name" by auto
    moreover have "knownDeviceNamesByAddress n ?a \<noteq> Some nm"
      using tables_okD(1)[OF ok, of ?a nm] d False by auto
    ultimately show ?thesis using t(4)[of nm] d by simp
  qed
  have 2: "Name d = nm \<and> (Address d = 255 \<or> knownDeviceNamesByAddress n' (Address d) = Some nm)"
    if k: "knownDevices n' nm = Some d" for nm d
  proof (cases "nm = name")
    case True
    with k dev t(2) show ?thesis by auto
  next
    case False
    show ?thesis
    proof (cases "knownDeviceNamesByAddress n ?a = Some nm")
      case True
      obtain e where e: "knownDevices n nm = Some e" using tables_okD(1)[OF ok True] by blast
      with True t(4)[OF False] k tables_okD(2)[OF ok e] show ?thesis by auto
    next
      case other: False
      with k t(4)[OF False] have o: "knownDevices n nm = Some d" by simp
      have "knownDeviceNamesByAddress n' (Address d) = Some nm" if "Address d \<noteq> 255"
      proof -
        have n: "knownDeviceNamesByAddress n (Address d) = Some nm"
          using tables_okD(2)[OF ok o] that by blast
        then have "Address d \<noteq> ?a" using other by auto
        moreover have "\<not> (knownDevices n name = Some e \<and> Address e \<le> 253 \<and> Address e = Address d)" for e
          using tables_okD(2)[OF ok, of name e] n False by auto
        ultimately show ?thesis using n t(2) by auto
      qed
      with tables_okD(2)[OF ok o] show ?thesis by blast
    qed
  qed
  have 3: "a \<le> 253 \<and> knownDeviceNamesByAddress n' a = None \<and> Address d = a \<and> Name d = 0"
    if "unknownKnownDevicesByAddress n' a = Some d" for a d
  proof -
    have "a \<noteq> ?a" and "unknownKnownDevicesByAddress n a = Some d"
      using that t(1) by (auto split: if_splits)
    with tables_okD(3)[OF ok this(2)] t(2) show ?thesis by auto
  qed
  show ?thesis using 1 2 3 by (auto simp: tables_ok_def)
qed

text \<open>The three other messages change the details of the device at their source only.\<close>

lemma set_device_tables_ok:
  assumes ok: "tables_ok n" and src: "src \<le> 253"
    and dev: "Address dev = src" "Name dev = Name (knownDeviceForAddressLocked n src)"
  shows "tables_ok (setKnownDeviceForAddressLocked n src dev)"
proof (cases "knownDeviceNamesByAddress n src")
  case (Some nm)
  obtain d where d: "knownDevices n nm = Some d" "Address d = src" "nm \<noteq> 0"
    using tables_okD(1)[OF ok Some] by blast
  have nm: "Name dev = nm"
    using dev(2) Some d tables_okD(2)[OF ok d(1)] by (simp add: knownDeviceForAddressLocked_def)
  have un: "unknownKnownDevicesByAddress n src = None"
    using tables_okD(3)[OF ok, of src] Some by (cases "unknownKnownDevicesByAddress n src") auto
  let ?n = "n\<lparr>knownDevices := (knownDevices n)(nm \<mapsto> dev)\<rparr>"
  have s: "setKnownDeviceForAddressLocked n src dev = ?n"
    using d(3) Some un by (simp add: setKnownDeviceForAddressLocked_def nm fun_upd_idem)
  have 1: "a \<le> 253 \<and> m \<noteq> 0 \<and> (\<exists>e. knownDevices ?n m = Some e \<and> Address e = a)"
    if "knownDeviceNamesByAddress n a = Some m" for a m
    using tables_okD(1)[OF ok that] d dev(1) by (cases "m = nm") auto
  have 2: "Name e = m \<and> (Address e = 255 \<or> knownDeviceNamesByAddress n (Address e) = Some m)"
    if "knownDevices ?n m = Some e" for m e
    using that tables_okD(2)[OF ok, of m e] nm dev(1) Some by (cases "m = nm") auto
  show ?thesis
    unfolding s tables_ok_def using 1 2 tables_okD(3)[OF ok] by simp
next
  case None
  have "Name dev = 0"
    using dev(2) None tables_okD(3)[OF ok, of src]
    by (auto simp: knownDeviceForAddressLocked_def no_device_def split: option.splits)
  then show ?thesis
    using ok None dev(1) src by (auto simp: tables_ok_def setKnownDeviceForAddressLocked_def)
qed

section \<open>Runs\<close>

text \<open>The messages that change what a node knows of the devices.\<close>

fun observe :: "gotime \<Rightarrow> 'a DeviceTables_scheme \<Rightarrow> message
    \<Rightarrow> 'a DeviceTables_scheme \<times> DeviceChange list" where
  "observe now n (MISOAddressClaim claim) =
     updateKnownDeviceFromClaim now n claim (computeNameFromClaim claim)"
| "observe now n (MProductInformation info) = updateKnownDeviceFromProductInfo now n info"
| "observe now n (MConfigurationInformation info) = updateKnownDeviceFromConfigurationInfo now n info"
| "observe now n (MPGNList info) = updateKnownDeviceFromPgnList now n info"
| "observe now n _ = (n, [])"

fun observe_all :: "'a DeviceTables_scheme \<Rightarrow> (gotime \<times> message) list \<Rightarrow> 'a DeviceTables_scheme" where
  "observe_all n [] = n"
| "observe_all n ((now, m) # ms) = observe_all (fst (observe now n m)) ms"

definition no_tables :: DeviceTables where
  "no_tables = \<lparr>knownDevices = Map.empty, knownDeviceNamesByAddress = Map.empty,
     unknownKnownDevicesByAddress = Map.empty\<rparr>"

lemma no_tables_ok: "tables_ok no_tables"
  by (simp add: tables_ok_def no_tables_def)

text \<open>Messages of devices that have an address, and claims with a NAME.\<close>

definition from_device :: "message \<Rightarrow> bool" where
  "from_device m \<longleftrightarrow> (\<forall>i. msg_Info m = Some i \<longrightarrow> SourceId i \<le> 253)
     \<and> (\<forall>claim. m = MISOAddressClaim claim \<longrightarrow> computeNameFromClaim claim \<noteq> 0)"

lemma observe_tables_ok:
  assumes "tables_ok n" and "from_device m"
  shows "tables_ok (fst (observe now n m))"
proof (cases m)
  case (MISOAddressClaim claim)
  with assms claim_tables_ok[OF assms(1), of claim "computeNameFromClaim claim" now] show ?thesis
    by (cases "updateKnownDeviceFromClaim now n claim (computeNameFromClaim claim)")
       (simp add: from_device_def)
next
  case (MProductInformation info)
  with assms show ?thesis
    by (auto simp: from_device_def updateKnownDeviceFromProductInfo_def Let_def
        intro!: set_device_tables_ok)
next
  case (MConfigurationInformation info)
  with assms show ?thesis
    by (auto simp: from_device_def updateKnownDeviceFromConfigurationInfo_def Let_def
        intro!: set_device_tables_ok)
next
  case (MPGNList info)
  with assms show ?thesis
    by (auto simp: from_device_def updateKnownDeviceFromPgnList_def Let_def
        intro!: set_device_tables_ok)
qed (use assms(1) in simp_all)

lemma observe_all_tables_ok:
  assumes "tables_ok n" and "\<forall>(now, m) \<in> set ms. from_device m"
  shows "tables_ok (observe_all n ms)"
  using assms
proof (induction n ms rule: observe_all.induct)
  case (2 n now m ms)
  then show ?case using observe_tables_ok[of n m now] by simp
qed simp

lemma tables_one_device:
  assumes "tables_ok n" and "knownDevices n nm = Some d" and "knownDevices n nm' = Some d'"
    and "Address d = Address d'" and "Address d \<le> 253"
  shows "nm = nm'"
  using tables_okD(2)[OF assms(1,2)] tables_okD(2)[OF assms(1,3)] assms(4,5) by auto

lemma KnownDevices_distinct:
  assumes "tables_ok n" and "KnownDevices n devices"
  shows "distinct (map Address devices)"
proof -
  from assms(2) obtain names addresses where d: "distinct names" "distinct addresses"
    and s: "set names = {name. \<exists>d. knownDevices n name = Some d \<and> Address d \<le> 253}"
      "set addresses = dom (unknownKnownDevicesByAddress n)"
    and m: "mset devices = mset (map (cloneKnownDevice \<circ> the \<circ> knownDevices n) names
        @ map (cloneKnownDevice \<circ> the \<circ> unknownKnownDevicesByAddress n) addresses)"
    by (auto simp: KnownDevices_def)
  let ?A = "map (\<lambda>nm. Address (the (knownDevices n nm))) names
    @ map (\<lambda>a. Address (the (unknownKnownDevicesByAddress n a))) addresses"
  have "mset (map Address devices) = mset ?A"
    using arg_cong[OF m, of "image_mset Address"]
    by (simp add: cloneKnownDevice_def multiset.map_comp comp_def)
  moreover have "distinct ?A"
  proof -
    have "inj_on (\<lambda>nm. Address (the (knownDevices n nm))) (set names)"
      using tables_one_device[OF assms(1)] by (fastforce simp: inj_on_def s)
    moreover have "inj_on (\<lambda>a. Address (the (unknownKnownDevicesByAddress n a))) (set addresses)"
      using tables_okD(3)[OF assms(1)] by (fastforce simp: inj_on_def s)
    moreover have "Address (the (knownDevices n nm)) \<noteq> Address (the (unknownKnownDevicesByAddress n a))"
      if "nm \<in> set names" "a \<in> set addresses" for nm a
    proof -
      from that s obtain e u where e: "knownDevices n nm = Some e" "Address e \<le> 253"
        "unknownKnownDevicesByAddress n a = Some u" by auto
      with tables_okD(2)[OF assms(1) e(1)] tables_okD(3)[OF assms(1) e(3)] show ?thesis by auto
    qed
    ultimately show ?thesis using d by (auto simp: distinct_map)
  qed
  ultimately show ?thesis by (metis mset_eq_imp_distinct_iff)
qed

section \<open>Free addresses\<close>

lemma unat_candidate:
  assumes "i < 255"
  shows "unat (candidate after i) = (unat after + i) mod 254"
proof -
  have a: "unat (ucast after :: u16) = unat after" by (simp add: unat_ucast_up)
  have "unat after + i < 65536" using assms unat_lt_256[of after] by simp
  then have "unat (ucast after + of_nat i :: u16) = unat after + i"
    using assms by (simp add: unat_word_ariths a unat_of_nat)
  then have "unat ((ucast after + of_nat i :: u16) mod 254) = (unat after + i) mod 254"
    by (simp add: unat_mod)
  moreover have "(unat after + i) mod 254 < 256" by (rule less_trans[of _ 254]) simp_all
  ultimately show ?thesis
    by (simp add: candidate_def unsigned_ucast_eq take_bit_nat_eq_self)
qed

lemma candidate_onto:
  assumes "a \<le> 253"
  obtains i where "1 \<le> i" and "i < 255" and "candidate after i = a"
proof -
  define i where "i = (let r = (unat a + 508 - unat after) mod 254 in if r = 0 then 254 else r)"
  have a: "unat a < 254" using assms by (simp add: word_le_nat_alt)
  have s: "unat after \<le> unat a + 508" using unat_lt_256[of after] by simp
  have i: "1 \<le> i" "i < 255" by (auto simp: i_def Let_def)
  have "(unat after + i) mod 254 = (unat after + (unat a + 508 - unat after)) mod 254"
    by (auto simp: i_def Let_def mod_simps)
  also have "\<dots> = (unat a + 2 * 254) mod 254" using s by simp
  also have "\<dots> = unat a" unfolding mod_mult_self1 using a by simp
  finally have "unat (candidate after i) = unat a" using unat_candidate[OF i(2)] by simp
  with i that show thesis by (simp add: word_unat_eq_iff)
qed

lemma first_free_find: "first_free claimed cs = List.find (\<lambda>c. \<not> claimed c) cs"
  by (induction cs) auto

text \<open>
  The search is sound and complete: the address found can be used, is not the one searched from,
  and all the addresses cyclically between the two are taken; with no address found, every other
  one is taken.
\<close>

definition taken :: "'a DeviceTables_scheme \<Rightarrow> u8 \<Rightarrow> bool" where
  "taken n a \<longleftrightarrow> knownDeviceNamesByAddress n a \<noteq> None \<or> unknownKnownDevicesByAddress n a \<noteq> None"

lemma candidate_le: "i < 255 \<Longrightarrow> candidate after i \<le> 253"
  using unat_candidate[of i after] mod_less_divisor[of 254 "unat after + i"]
  by (simp add: word_le_nat_alt)

lemma nextAvailable_spec:
  "case nextAvailableAddressLocked n after of
     Some c \<Rightarrow> c \<le> 253 \<and> c \<noteq> after \<and> \<not> taken n c \<and>
       (\<exists>d. 1 \<le> d \<and> d < 255 \<and> unat c = (unat after + d) mod 254 \<and>
         {b. b \<le> 253 \<and> b \<noteq> after \<and> (\<exists>e. 1 \<le> e \<and> e < d \<and> unat b = (unat after + e) mod 254)}
           \<subseteq> {b. taken n b})
   | None \<Rightarrow> {b. b \<le> 253} - {after} \<subseteq> {b. taken n b}"
proof (cases "nextAvailableAddressLocked n after")
  case None
  then have cl: "claimed_address n after c" if "c \<in> set (map (candidate after) [1..<255])" for c
    using that by (auto simp: nextAvailableAddressLocked_def first_free_find find_None_iff)
  have "taken n b" if "b \<le> 253" "b \<noteq> after" for b
  proof -
    obtain i where "1 \<le> i" "i < 255" "candidate after i = b"
      by (rule candidate_onto[OF \<open>b \<le> 253\<close>])
    then have "b \<in> set (map (candidate after) [1..<255])" by (auto simp del: upt_Suc)
    from cl[OF this] that show ?thesis by (simp add: claimed_address_def taken_def)
  qed
  with None show ?thesis by auto
next
  case (Some c)
  then obtain k where k: "k < 254" "c = candidate after (Suc k)" "\<not> claimed_address n after c"
    and before: "\<And>j. j < k \<Longrightarrow> claimed_address n after (candidate after (Suc j))"
    by (auto simp: nextAvailableAddressLocked_def first_free_find find_Some_iff simp del: upt_Suc)
  have c: "c \<le> 253" using candidate_le[of "Suc k" after] k by simp
  have "taken n b" if "b \<le> 253" "b \<noteq> after" "1 \<le> e" "e < Suc k"
    "unat b = (unat after + e) mod 254" for b e
  proof -
    have "b = candidate after e"
      using that unat_candidate[of e after] k(1) by (simp add: word_unat_eq_iff)
    then have "claimed_address n after b" using before[of "e - 1"] that(3,4) by simp
    with that(1,2) show ?thesis by (simp add: claimed_address_def taken_def)
  qed
  moreover have "unat c = (unat after + Suc k) mod 254"
    using unat_candidate[of "Suc k" after] k by simp
  ultimately have "1 \<le> Suc k \<and> Suc k < 255 \<and> unat c = (unat after + Suc k) mod 254 \<and>
      {b. b \<le> 253 \<and> b \<noteq> after \<and> (\<exists>e. 1 \<le> e \<and> e < Suc k \<and> unat b = (unat after + e) mod 254)}
        \<subseteq> {b. taken n b}"
    using k(1) by auto
  then have "\<exists>d. 1 \<le> d \<and> d < 255 \<and> unat c = (unat after + d) mod 254 \<and>
      {b. b \<le> 253 \<and> b \<noteq> after \<and> (\<exists>e. 1 \<le> e \<and> e < d \<and> unat b = (unat after + e) mod 254)}
        \<subseteq> {b. taken n b}" by blast
  moreover have "c \<noteq> after" and "\<not> taken n c"
    using k(3) c by (simp_all add: claimed_address_def taken_def)
  ultimately show ?thesis using Some c by simp
qed

text \<open>
  The next free address, searched cyclically from a given one. When one is found, it
  is at most 253, another than the one searched from, no known or unknown device has it, and every
  address passed over on the way, that is every one at a smaller distance, is taken; when none is
  found, every address other than the one searched from is taken.
\<close>

theorem nextAvailableAddress_correct:
  "case nextAvailableAddressLocked n after of
     Some c \<Rightarrow> c \<le> 253 \<and> c \<noteq> after \<and> \<not> taken n c \<and>
       (\<exists>d. 1 \<le> d \<and> d < 255 \<and> unat c = (unat after + d) mod 254 \<and>
         {b. b \<le> 253 \<and> b \<noteq> after \<and> (\<exists>e. 1 \<le> e \<and> e < d \<and> unat b = (unat after + e) mod 254)}
           \<subseteq> {b. taken n b})
   | None \<Rightarrow> {b. b \<le> 253} - {after} \<subseteq> {b. taken n b}"
  by (rule nextAvailable_spec)

section \<open>Properties of the tables\<close>

lemma claim_names_iff:
  assumes ok: "tables_ok n" and upd: "updateKnownDeviceFromClaim now n claim name = (n', cs)"
  defines "a \<equiv> SourceId (clm_Info claim)"
  assumes a: "a \<le> 253"
  shows "knownDeviceNamesByAddress n' b = Some nm \<longleftrightarrow>
    (if nm = name then b = a else b \<noteq> a \<and> knownDeviceNamesByAddress n b = Some nm)"
proof -
  have t: "knownDeviceNamesByAddress n' b = (if b = a then Some name
      else if \<exists>d. knownDevices n name = Some d \<and> Address d \<le> 253 \<and> Address d = b then None
      else knownDeviceNamesByAddress n b)"
    using claim_tables(2)[OF upd] by (simp add: a_def)
  show ?thesis
  proof (cases "b = a")
    case False
    show ?thesis
    proof (cases "knownDeviceNamesByAddress n b")
      case (Some m)
      then obtain d where d: "b \<le> 253" "knownDevices n m = Some d" "Address d = b"
        using tables_okD(1)[OF ok] by blast
      have "(\<exists>e. knownDevices n name = Some e \<and> Address e \<le> 253 \<and> Address e = b) \<longleftrightarrow> m = name"
        using d tables_okD(2)[OF ok] Some by fastforce
      with False t Some show ?thesis by auto
    next
      case None
      with False t show ?thesis by auto
    qed
  qed (use t in auto)
qed

text \<open>
  What an address claim does to the tables of a node that agree with each other. The
  claiming NAME is at the address of the claim and nowhere else, whatever it had before; every
  other NAME keeps its address unless that is the claimed one, and whoever had that is marked as
  having none. The change that is published is the first sighting of the NAME, its move from the
  old address, or none when it claims the address it has.
\<close>

theorem claim_moves_device:
  assumes "tables_ok n" and "SourceId (clm_Info claim) \<le> 253" and "name \<noteq> 0"
    and "updateKnownDeviceFromClaim now n claim name = (n', cs)"
  shows "(\<forall>b nm. knownDeviceNamesByAddress n' b = Some nm \<longleftrightarrow>
        (if nm = name then b = SourceId (clm_Info claim)
         else b \<noteq> SourceId (clm_Info claim) \<and> knownDeviceNamesByAddress n b = Some nm))
    \<and> unknownKnownDevicesByAddress n' (SourceId (clm_Info claim)) = None
    \<and> (\<forall>old. knownDeviceNamesByAddress n (SourceId (clm_Info claim)) = Some old \<and> old \<noteq> name \<longrightarrow>
        (\<exists>d. knownDevices n' old = Some d \<and> Address d = 255))
    \<and> tables_ok n'
    \<and> map (\<lambda>c. (Kind c, OldAddress c)) cs = (case knownDevices n name of
        None \<Rightarrow> [(DeviceChangeObserved, None)]
      | Some d \<Rightarrow> if Address d \<noteq> SourceId (clm_Info claim)
                   then [(DeviceChangeAddressChanged, Some (Address d))] else [])"
proof (intro conjI allI impI)
  show "knownDeviceNamesByAddress n' b = Some nm \<longleftrightarrow>
      (if nm = name then b = SourceId (clm_Info claim)
       else b \<noteq> SourceId (clm_Info claim) \<and> knownDeviceNamesByAddress n b = Some nm)" for b nm
    by (rule claim_names_iff[OF assms(1,4,2)])
  show "unknownKnownDevicesByAddress n' (SourceId (clm_Info claim)) = None"
    using claim_tables(1)[OF assms(4)] by simp
  show "tables_ok n'" by (rule claim_tables_ok[OF assms])
  show "\<exists>d. knownDevices n' old = Some d \<and> Address d = 255"
    if "knownDeviceNamesByAddress n (SourceId (clm_Info claim)) = Some old \<and> old \<noteq> name" for old
    using that claim_tables(4)[OF assms(4), of old] by auto
  show "map (\<lambda>c. (Kind c, OldAddress c)) cs = (case knownDevices n name of
        None \<Rightarrow> [(DeviceChangeObserved, None)]
      | Some d \<Rightarrow> if Address d \<noteq> SourceId (clm_Info claim)
                   then [(DeviceChangeAddressChanged, Some (Address d))] else [])"
    using assms(4)
    by (auto simp: updateKnownDeviceFromClaim_def Let_def split: option.splits if_splits)
qed

text \<open>The claim of a device with unique number \<open>u\<close> at an address, all else 0.\<close>

definition sample_claim :: "u32 \<Rightarrow> u8 \<Rightarrow> ISOAddressClaim" where
  "sample_claim u a = buildAddressClaim \<lparr>dev_UniqueNumber = u, dev_ManufacturerCode = 0,
     dev_DeviceFunction = 0, dev_DeviceClass = 0, dev_DeviceInstanceLower = 0,
     dev_DeviceInstanceUpper = 0, dev_SystemInstance = 0, dev_IndustryGroup = 0,
     dev_ArbitraryAddressCapable = False\<rparr> a"

lemma sample_claim_simps [simp]:
  "SourceId (clm_Info (sample_claim u a)) = a"
  "computeNameFromClaim (sample_claim u a) = ucast u"
  by (simp_all add: sample_claim_def buildAddressClaim_def computeNameFromClaim_def or_opt_def
      or_nz_def Let_def Yes_2_def)

lemma claim_moves_device_witness:
  "\<exists>n' cs. updateKnownDeviceFromClaim 1 no_tables (sample_claim 7 11) 7 = (n', cs)
     \<and> knownDeviceNamesByAddress n' 11 = Some 7 \<and> tables_ok n' \<and> length cs = 1"
proof -
  obtain n' cs where u: "updateKnownDeviceFromClaim 1 no_tables (sample_claim 7 11) 7 = (n', cs)"
    by (cases "updateKnownDeviceFromClaim 1 no_tables (sample_claim 7 11) 7")
  have "knownDeviceNamesByAddress n' 11 = Some 7 \<and> tables_ok n'"
    and m: "map (\<lambda>c. (Kind c, OldAddress c)) cs = [(DeviceChangeObserved, None)]"
    using claim_moves_device[OF no_tables_ok _ _ u] by (simp_all add: no_tables_def)
  moreover have "length cs = 1" using arg_cong[OF m, of length] by simp
  ultimately show ?thesis using u by blast
qed



text \<open>
  A device that once sent from the null address 254 (it could not claim one) and has
  since claimed an address stays filed under 254 too. When another device without an address
  sends its claim from 254, the first one is marked as having lost its address: it is no longer
  listed, although the table of addresses still has it where it is.
\<close>

theorem cannot_claim_hides_device:
  assumes "a \<le> 253" and "u \<noteq> v"
  shows "let n = observe_all no_tables [(t1, MISOAddressClaim (sample_claim u 254)),
           (t2, MISOAddressClaim (sample_claim u a)), (t3, MISOAddressClaim (sample_claim v 254))]
         in knownDeviceNamesByAddress n a = Some (ucast u)
          \<and> (\<exists>d. knownDevices n (ucast u) = Some d \<and> Address d = 255) \<and> KnownDevices n []"
proof -
  let ?n = "observe_all no_tables [(t1, MISOAddressClaim (sample_claim u 254)),
    (t2, MISOAddressClaim (sample_claim u a)), (t3, MISOAddressClaim (sample_claim v 254))]"
  have a: "a \<noteq> 254" using assms(1) by auto
  have uv: "(ucast u :: u64) \<noteq> ucast v"
  proof
    assume "(ucast u :: u64) = ucast v"
    then have "unat (ucast u :: u64) = unat (ucast v :: u64)" by (rule arg_cong)
    with assms(2) show False by (simp add: unat_ucast_up word_unat_eq_iff)
  qed
  have names: "knownDeviceNamesByAddress ?n a = Some (ucast u)"
    using a uv uv[symmetric] assms(1)
    by (simp add: updateKnownDeviceFromClaim_def Let_def no_tables_def no_device_def)
  have known: "knownDevices ?n nm = None \<or> (\<exists>d. knownDevices ?n nm = Some d \<and> Address d > 253)" for nm
    using a uv uv[symmetric] assms(1)
    by (auto simp: updateKnownDeviceFromClaim_def Let_def no_tables_def no_device_def)
  have u: "\<exists>d. knownDevices ?n (ucast u) = Some d \<and> Address d = 255"
    using a uv uv[symmetric] assms(1)
    by (simp add: updateKnownDeviceFromClaim_def Let_def no_tables_def no_device_def)
  have unknown: "unknownKnownDevicesByAddress ?n = Map.empty"
    by (simp add: updateKnownDeviceFromClaim_def Let_def no_tables_def split: option.split)
  have "\<not> (\<exists>d. knownDevices ?n nm = Some d \<and> Address d \<le> 253)" for nm
    using known[of nm] by (auto simp del: observe_all.simps simp: not_le[symmetric])
  then have "{name. \<exists>d. knownDevices ?n name = Some d \<and> Address d \<le> 253} = {}"
    by (simp only: Collect_empty_eq) blast
  then have "KnownDevices ?n []"
    unfolding KnownDevices_def unknown by (auto intro!: exI[of _ "[]"])
  with names u show ?thesis by (simp only: Let_def)
qed

lemma cannot_claim_hides_device_witness:
  "KnownDevices (observe_all no_tables [(1, MISOAddressClaim (sample_claim 7 254)),
     (2, MISOAddressClaim (sample_claim 7 11)), (3, MISOAddressClaim (sample_claim 8 254))]) []"
  using cannot_claim_hides_device[of 11 7 8 1 2 3] by (simp only: Let_def) simp

end
