(* ===== verification/Node.thy ===== *)
theory Node
  imports Devices Stringfields
begin

text \<open>
  A node on the bus (\<open>pkg/node/node.go\<close>): its state, its configuration, what it writes and how
  it answers requests and group functions. The record extends the device tables. What the code
  hands to the publisher is appended to \<open>written\<close>, what it passes to the subscribers of device
  changes to \<open>delivered\<close>; the publisher's answer to a write is an argument of the operation that
  returns it. The configuration provider is code of the application: a pair of functions on a
  state of its own.
\<close>

section \<open>State\<close>

record 'p ConfigurationProvider =
  GetConfigurationInfo :: "'p \<Rightarrow> (goerror + ConfigurationInfo) \<times> 'p"
  SetConfigurationInfo :: "ConfigurationInfo \<Rightarrow> 'p \<Rightarrow> goerror option \<times> 'p"

datatype addressState = stateUnclaimed | stateClaiming | stateClaimed | stateLost

definition ReadOnlyAddress :: u8 where "ReadOnlyAddress = 255"
definition nodePGNQueueSize :: nat where "nodePGNQueueSize = 2048"

text \<open>
  The context is \<open>None\<close> or whether it is cancelled; \<open>wakeUp\<close> is a channel of capacity one. The
  two tickers are local variables of the process loop, kept with their periods; \<open>phase\<close> is where
  the loop is.
\<close>

datatype loop_phase = NotRunning | AtTop | Waiting

record 'p Node = DeviceTables +
  deviceInfo :: DeviceInfo
  deviceInfoSet :: bool
  productInfo :: ProductInfo
  configProvider :: "'p ConfigurationProvider option"
  providerState :: 'p
  node_name :: u64
  networkAddress :: u8
  preferredAddress :: u8
  addressClaimed :: bool
  nd_addressState :: addressState
  readOnly :: bool
  transmitPGNs :: "u32 list"
  receivePGNs :: "u32 list"
  deviceChangeSubscribers :: "u64 \<rightharpoonup> nat"
  nextDeviceChangeSubscriptionID :: u64
  heartbeatEnabled :: bool
  heartbeatInterval :: goduration
  heartbeatSeq :: u8
  started :: bool
  ctx :: "bool option"
  subscriptions :: "u64 list"
  pgnIn :: "message list"
  pgnQueueDropped :: u64
  wakeUp :: bool
  claimTicker :: "goduration option"
  heartbeatTicker :: "goduration option"
  phase :: loop_phase
  written :: "message list"
  delivered :: "(nat \<times> DeviceChange) list"

record toSend =
  ts_pgn :: message
  ts_dest :: u8

definition empty_DeviceInfo :: DeviceInfo where
  "empty_DeviceInfo = \<lparr>dev_UniqueNumber = 0, dev_ManufacturerCode = 0, dev_DeviceFunction = 0,
     dev_DeviceClass = 0, dev_DeviceInstanceLower = 0, dev_DeviceInstanceUpper = 0,
     dev_SystemInstance = 0, dev_IndustryGroup = 0, dev_ArbitraryAddressCapable = False\<rparr>"

definition empty_ProductInfo :: ProductInfo where
  "empty_ProductInfo = \<lparr>prd_NMEA2000Version = 0, prd_ProductCode = 0, prd_ModelID = [],
     prd_SoftwareVersionCode = [], prd_ModelVersion = [], prd_ModelSerialCode = [],
     prd_CertificationLevel = 0, prd_LoadEquivalency = 0\<rparr>"

definition NewNode :: "'p \<Rightarrow> 'p Node" where
  "NewNode p = \<lparr>knownDevices = Map.empty, knownDeviceNamesByAddress = Map.empty,
     unknownKnownDevicesByAddress = Map.empty,
     deviceInfo = empty_DeviceInfo, deviceInfoSet = False, productInfo = empty_ProductInfo,
     configProvider = None, providerState = p, node_name = 0, networkAddress = 255,
     preferredAddress = 128, addressClaimed = False, nd_addressState = stateUnclaimed,
     readOnly = True, transmitPGNs = [], receivePGNs = [], deviceChangeSubscribers = Map.empty,
     nextDeviceChangeSubscriptionID = 1, heartbeatEnabled = False,
     heartbeatInterval = 60 * 1000000000, heartbeatSeq = 0, started = False, ctx = None,
     subscriptions = [], pgnIn = [], pgnQueueDropped = 0, wakeUp = False,
     claimTicker = None, heartbeatTicker = None, phase = NotRunning, written = [], delivered = []\<rparr>"

section \<open>Lifecycle and configuration\<close>

text \<open>
  \<open>subscribe\<close> is what the subscriber answers for each struct. On an error the subscriptions made
  so far stay.
\<close>

definition managementPGNs :: "string list" where
  "managementPGNs = [''ISORequest'', ''ISOAddressClaim'', ''ISOCommandedAddress'',
     ''ISOAcknowledgement'', ''NMEARequestGroupFunction'', ''NMEACommandGroupFunction'',
     ''NMEAWriteFieldsGroupFunction'', ''NMEAReadFieldsGroupFunction'', ''ProductInformation'',
     ''ConfigurationInformation'', ''PGNListTransmitAndReceive'']"

fun subscribe_to :: "(string \<Rightarrow> goerror + u64) \<Rightarrow> string list \<Rightarrow> ('p, 'a) Node_scheme
    \<Rightarrow> goerror option \<times> ('p, 'a) Node_scheme" where
  "subscribe_to subscribe [] n = (None, n)"
| "subscribe_to subscribe (s # ss) n =
     (case subscribe s of
        Inl e \<Rightarrow> (Some (''failed to subscribe to '' @ s @ '': '' @ e), n)
      | Inr sub \<Rightarrow> subscribe_to subscribe ss (n\<lparr>subscriptions := subscriptions n @ [sub]\<rparr>))"

definition Start :: "(string \<Rightarrow> goerror + u64) \<Rightarrow> ('p, 'a) Node_scheme
    \<Rightarrow> goerror option \<times> ('p, 'a) Node_scheme" where
  "Start subscribe n =
     (if started n then (Some ''node already started'', n)
      else (case subscribe_to subscribe managementPGNs n of
              (Some e, n) \<Rightarrow> (Some e, n)
            | (None, n) \<Rightarrow> (None, n\<lparr>ctx := Some False, started := True, phase := AtTop\<rparr>)))"

text \<open>
  \<open>Stop\<close> releases the mutex while it waits for the loop to return: its two critical sections are
  two operations. An error of the subscriber is logged only.
\<close>

definition Stop_begin :: "('p, 'a) Node_scheme \<Rightarrow> goerror option \<times> ('p, 'a) Node_scheme" where
  "Stop_begin n =
     (if \<not> started n then (Some ''node not started'', n)
      else (None, n\<lparr>subscriptions := [], ctx := map_option (\<lambda>_. True) (ctx n)\<rparr>))"

definition Stop_end :: "('p, 'a) Node_scheme \<Rightarrow> ('p, 'a) Node_scheme" where
  "Stop_end n = n\<lparr>started := False, nd_addressState := stateUnclaimed, addressClaimed := False,
     networkAddress := 255, readOnly := True, ctx := None\<rparr>"

definition ClaimAddress :: "u8 \<Rightarrow> ('p, 'a) Node_scheme \<Rightarrow> goerror option \<times> ('p, 'a) Node_scheme" where
  "ClaimAddress preferred n =
     (if preferred = ReadOnlyAddress
      then (None, n\<lparr>preferredAddress := preferred, networkAddress := ReadOnlyAddress,
              nd_addressState := stateUnclaimed, addressClaimed := False, readOnly := True,
              wakeUp := True\<rparr>)
      else if \<not> deviceInfoSet n
      then (Some ''cannot claim address, device info has not been set'', n)
      else if preferred > 253
      then (Some (''preferred address '' @ decimal (unat preferred) @ '' is out of range (0-253)''), n)
      else (None, n\<lparr>preferredAddress := preferred, readOnly := False,
              nd_addressState := stateClaiming, wakeUp := True\<rparr>))"

definition GetNetworkAddress :: "('p, 'a) Node_scheme \<Rightarrow> u8" where
  "GetNetworkAddress n = networkAddress n"

definition IsAddressClaimed :: "('p, 'a) Node_scheme \<Rightarrow> bool" where
  "IsAddressClaimed n = addressClaimed n"

text \<open>A nil callback is \<open>None\<close>; the others are numbered.\<close>

definition SubscribeToDeviceChanges ::
  "nat option \<Rightarrow> ('p, 'a) Node_scheme \<Rightarrow> u64 \<times> ('p, 'a) Node_scheme" where
  "SubscribeToDeviceChanges callback n =
     (case callback of
        None \<Rightarrow> (0, n)
      | Some cb \<Rightarrow>
          (let subID = nextDeviceChangeSubscriptionID n
           in (subID, n\<lparr>nextDeviceChangeSubscriptionID := subID + 1,
                        deviceChangeSubscribers := (deviceChangeSubscribers n)(subID \<mapsto> cb)\<rparr>)))"

definition UnsubscribeDeviceChanges ::
  "u64 \<Rightarrow> ('p, 'a) Node_scheme \<Rightarrow> goerror option \<times> ('p, 'a) Node_scheme" where
  "UnsubscribeDeviceChanges subID n =
     (if deviceChangeSubscribers n subID = None
      then (Some ''device change subscription not found'', n)
      else (None, n\<lparr>deviceChangeSubscribers := (deviceChangeSubscribers n)(subID := None)\<rparr>))"

text \<open>
  Go visits the map of subscribers in any order, the same for all changes of one call:
  \<open>order\<close> is that order.
\<close>

definition publishDeviceChanges ::
  "u64 list \<Rightarrow> DeviceChange list \<Rightarrow> ('p, 'a) Node_scheme \<Rightarrow> ('p, 'a) Node_scheme" where
  "publishDeviceChanges order changes n =
     (let subscribers = List.map_filter (deviceChangeSubscribers n) order
      in n\<lparr>delivered := delivered n @ concat (map (\<lambda>c. map (\<lambda>s. (s, c)) subscribers) changes)\<rparr>)"

definition setMessageInfo :: "message \<Rightarrow> u8 \<Rightarrow> u8 \<Rightarrow> goerror + message" where
  "setMessageInfo s source destination =
     (case msg_Info s of
        None \<Rightarrow> Inl ''expected a pointer to a struct''
      | Some info \<Rightarrow> Inr (with_Info s (info\<lparr>SourceId := source, TargetId := destination\<rparr>)))"

definition publish :: "message \<Rightarrow> ('p, 'a) Node_scheme \<Rightarrow> ('p, 'a) Node_scheme" where
  "publish m n = n\<lparr>written := written n @ [m]\<rparr>"

definition node_write :: "(message \<Rightarrow> goerror option) \<Rightarrow> message \<Rightarrow> u8 \<Rightarrow> ('p, 'a) Node_scheme
    \<Rightarrow> goerror option \<times> ('p, 'a) Node_scheme" where
  "node_write publisher pgnStruct destination n =
     (if readOnly n then (Some ''cannot write PGN, node is read-only'', n)
      else if \<not> addressClaimed n then (Some ''cannot write PGN, address not claimed'', n)
      else (case setMessageInfo pgnStruct (networkAddress n) destination of
              Inl e \<Rightarrow> (Some (''failed to set message info: '' @ e), n)
            | Inr m \<Rightarrow> (publisher m, publish m n)))"

definition Write :: "(message \<Rightarrow> goerror option) \<Rightarrow> message \<Rightarrow> ('p, 'a) Node_scheme
    \<Rightarrow> goerror option \<times> ('p, 'a) Node_scheme" where
  "Write publisher pgnStruct = node_write publisher pgnStruct 255"

definition WriteTo :: "(message \<Rightarrow> goerror option) \<Rightarrow> message \<Rightarrow> u8 \<Rightarrow> ('p, 'a) Node_scheme
    \<Rightarrow> goerror option \<times> ('p, 'a) Node_scheme" where
  "WriteTo publisher pgnStruct destination = node_write publisher pgnStruct destination"

definition SetDeviceInfo :: "DeviceInfo \<Rightarrow> ('p, 'a) Node_scheme
    \<Rightarrow> goerror option \<times> ('p, 'a) Node_scheme" where
  "SetDeviceInfo info n =
     (case computeName info of
        Inl e \<Rightarrow> (Some (''failed to compute NAME from device info: '' @ e), n)
      | Inr nm \<Rightarrow> (None, n\<lparr>deviceInfo := info, deviceInfoSet := True, node_name := nm\<rparr>))"

definition SetProductInfo :: "ProductInfo \<Rightarrow> ('p, 'a) Node_scheme \<Rightarrow> ('p, 'a) Node_scheme" where
  "SetProductInfo info n = n\<lparr>productInfo := info\<rparr>"

definition SetConfigurationProvider ::
  "'p ConfigurationProvider option \<Rightarrow> ('p, 'a) Node_scheme \<Rightarrow> ('p, 'a) Node_scheme" where
  "SetConfigurationProvider provider n = n\<lparr>configProvider := provider\<rparr>"

definition SetSupportedPGNs ::
  "u32 list \<Rightarrow> u32 list \<Rightarrow> ('p, 'a) Node_scheme \<Rightarrow> ('p, 'a) Node_scheme" where
  "SetSupportedPGNs transmit receive n = n\<lparr>transmitPGNs := transmit, receivePGNs := receive\<rparr>"

definition SetHeartbeatInterval :: "goduration \<Rightarrow> ('p, 'a) Node_scheme \<Rightarrow> ('p, 'a) Node_scheme" where
  "SetHeartbeatInterval interval n = n\<lparr>heartbeatInterval := interval, wakeUp := True\<rparr>"

definition EnableHeartbeat :: "bool \<Rightarrow> ('p, 'a) Node_scheme \<Rightarrow> ('p, 'a) Node_scheme" where
  "EnableHeartbeat enable n = n\<lparr>heartbeatEnabled := enable, wakeUp := True\<rparr>"

definition enqueuePgn :: "message \<Rightarrow> ('p, 'a) Node_scheme \<Rightarrow> ('p, 'a) Node_scheme" where
  "enqueuePgn p n =
     (if ctx n = Some True then n
      else if length (pgnIn n) < nodePGNQueueSize then n\<lparr>pgnIn := pgnIn n @ [p]\<rparr>
      else n\<lparr>pgnQueueDropped := pgnQueueDropped n + 1\<rparr>)"

section \<open>Requests\<close>

text \<open>\<open>append\<close> to the merged list of what was not seen before.\<close>

fun merge_into :: "u32 list \<Rightarrow> u32 list \<Rightarrow> u32 list" where
  "merge_into merged [] = merged"
| "merge_into merged (p # ps) =
     (if p \<in> set merged then merge_into merged ps else merge_into (merged @ [p]) ps)"

definition mergePGNs :: "u32 list \<Rightarrow> u32 list \<Rightarrow> u32 list" where
  "mergePGNs configured managed = merge_into (merge_into [] configured) managed"

definition managedTransmitPGNs :: "u32 list \<Rightarrow> bool \<Rightarrow> bool \<Rightarrow> u32 list" where
  "managedTransmitPGNs configured hasConfigurationProvider heartbeat =
     (let managed = [ISOAcknowledgementPGN, ISOAddressClaimPGN, NMEAAcknowledgeGroupFunctionPGN,
            PGNListTransmitAndReceivePGN, ProductInformationPGN];
          managed = (if hasConfigurationProvider then managed @ [ConfigurationInformationPGN] else managed);
          managed = (if heartbeat then managed @ [HeartbeatPGN] else managed)
      in mergePGNs configured managed)"

definition managedReceivePGNs :: "u32 list \<Rightarrow> u32 list" where
  "managedReceivePGNs configured = mergePGNs configured [ISOAcknowledgementPGN, ISORequestPGN,
     ISOAddressClaimPGN, ISOCommandedAddressPGN, NMEARequestGroupFunctionPGN,
     NMEACommandGroupFunctionPGN]"

definition header :: "u32 \<Rightarrow> u8 \<Rightarrow> u8 \<Rightarrow> u8 \<Rightarrow> MessageInfo" where
  "header p source target priority =
     \<lparr>Timestamp = 0, Priority = priority, PGN = p, SourceId = source, TargetId = target\<rparr>"

definition buildIsoNak :: "u8 \<Rightarrow> u8 \<Rightarrow> u32 \<Rightarrow> ISOAcknowledgement" where
  "buildIsoNak source destination requestedPgn =
     \<lparr>iak_Info = header ISOAcknowledgementPGN source destination 6, iak_Control = Nak,
      iak_GroupFunction = None, iak_PGN = Some requestedPgn\<rparr>"

definition buildNmeaGroupNak :: "u8 \<Rightarrow> u8 \<Rightarrow> u32 \<Rightarrow> u8 \<Rightarrow> NMEAAcknowledgeGroupFunction" where
  "buildNmeaGroupNak source destination requestedPgn parameterError =
     \<lparr>nak_Info = header NMEAAcknowledgeGroupFunctionPGN source destination 3,
      nak_FunctionCode = Acknowledge_5, nak_PGN = Some requestedPgn,
      nak_PGNErrorCode = PGNNotSupported,
      nak_TransmissionIntervalPriorityErrorCode = NotSupported,
      nak_NumberOfParameters = None, nak_Repeating1 = [parameterError]\<rparr>"

text \<open>The answers to a request, with the state the configuration provider is left in.\<close>

definition processIsoRequest :: "('p, 'a) Node_scheme \<Rightarrow> ISORequest
    \<Rightarrow> toSend list \<times> ('p, 'a) Node_scheme" where
  "processIsoRequest n req =
     (let src = SourceId (irq_Info req); tgt = TargetId (irq_Info req);
          own = networkAddress n; product = productInfo n;
          info = (\<lambda>p. header p own src 0);
          to = (\<lambda>m. \<lparr>ts_pgn = m, ts_dest = src\<rparr>)
      in case irq_PGN req of
           None \<Rightarrow> ([], n)
         | Some p \<Rightarrow>
             if readOnly n then ([], n)
             else if \<not> addressClaimed n then ([], n)
             else if tgt \<noteq> 255 \<and> tgt \<noteq> own then ([], n)
             else if p = ISOAddressClaimPGN
             then ([to (MISOAddressClaim (buildAddressClaim (deviceInfo n) own))], n)
             else if p = ProductInformationPGN
             then ([to (MProductInformation \<lparr>pin_Info = info ProductInformationPGN,
                      pin_NMEA2000Version = Some (version_float (prd_NMEA2000Version product)),
                      pin_ProductCode = Some (prd_ProductCode product),
                      pin_ModelID = prd_ModelID product,
                      pin_SoftwareVersionCode = prd_SoftwareVersionCode product,
                      pin_ModelVersion = prd_ModelVersion product,
                      pin_ModelSerialCode = prd_ModelSerialCode product,
                      pin_CertificationLevel = prd_CertificationLevel product,
                      pin_LoadEquivalency = Some (prd_LoadEquivalency product)\<rparr>)], n)
             else if p = PGNListTransmitAndReceivePGN
             then (let transmit = managedTransmitPGNs (transmitPGNs n) (configProvider n \<noteq> None)
                                    (heartbeatEnabled n);
                       receive = managedReceivePGNs (receivePGNs n)
                   in ([to (MPGNList \<lparr>lst_Info = info PGNListTransmitAndReceivePGN,
                            lst_FunctionCode = TransmitPGNList, lst_Repeating1 = map Some transmit\<rparr>),
                        to (MPGNList \<lparr>lst_Info = info PGNListTransmitAndReceivePGN,
                            lst_FunctionCode = ReceivePGNList, lst_Repeating1 = map Some receive\<rparr>)], n))
             else if p = ConfigurationInformationPGN
             then (case configProvider n of
                     None \<Rightarrow> ([to (MISOAcknowledgement (buildIsoNak own src p))], n)
                   | Some provider \<Rightarrow>
                       (case GetConfigurationInfo provider (providerState n) of
                          (Inl e, q) \<Rightarrow>
                            ([to (MISOAcknowledgement (buildIsoNak own src p))], n\<lparr>providerState := q\<rparr>)
                        | (Inr c, q) \<Rightarrow>
                            ([to (MConfigurationInformation \<lparr>cin_Info = info ConfigurationInformationPGN,
                                cin_InstallationDescription1 = cfg_InstallationDescription1 c,
                                cin_InstallationDescription2 = cfg_InstallationDescription2 c,
                                cin_ManufacturerInformation = cfg_ManufacturerInformation c\<rparr>)],
                             n\<lparr>providerState := q\<rparr>)))
             else ([], n))"

section \<open>Group functions\<close>

definition processUnsupportedGroupFunction ::
  "('p, 'a) Node_scheme \<Rightarrow> MessageInfo \<Rightarrow> u32 \<Rightarrow> u8 \<Rightarrow> toSend list" where
  "processUnsupportedGroupFunction n info requestedPgn parameterError =
     (if readOnly n then []
      else if \<not> addressClaimed n then []
      else if TargetId info \<noteq> 255 \<and> TargetId info \<noteq> networkAddress n then []
      else if TargetId info = 255 then []
      else [\<lparr>ts_pgn = MNMEAAcknowledge (buildNmeaGroupNak (networkAddress n) (SourceId info)
                        requestedPgn parameterError),
             ts_dest = SourceId info\<rparr>])"

definition processNmeaRequestGroupFunction :: "('p, 'a) Node_scheme \<Rightarrow> NMEARequestGroupFunction
    \<Rightarrow> toSend list \<times> ('p, 'a) Node_scheme" where
  "processNmeaRequestGroupFunction n req =
     (case nrq_PGN req of
        None \<Rightarrow> ([], n)
      | Some p \<Rightarrow>
          if nrq_NumberOfParameters req \<noteq> None \<and> nrq_NumberOfParameters req \<noteq> Some 0
          then (processUnsupportedGroupFunction n (nrq_Info req) p ReadOrWriteNotSupported, n)
          else processIsoRequest n \<lparr>irq_Info = nrq_Info req, irq_PGN = nrq_PGN req\<rparr>)"

text \<open>
  Decoding a value never panics (\<open>decode_total\<close> below), so that the second branch is not taken.
\<close>

definition decodeGroupFunctionLAU :: "bytes \<Rightarrow> goerror + gostring" where
  "decodeGroupFunctionLAU value = (case DecodeStringLAU value of Some r \<Rightarrow> r | None \<Rightarrow> Inl ''panic'')"

text \<open>
  The loop over the parameters of a write: the configuration and the fields of the reply, or
  \<open>None\<close> when one of them is invalid.
\<close>

fun apply_fields :: "FieldValue list \<Rightarrow> ConfigurationInfo \<Rightarrow> FieldValue list
    \<Rightarrow> (ConfigurationInfo \<times> FieldValue list) option" where
  "apply_fields [] info reply = Some (info, reply)"
| "apply_fields (f # fs) info reply =
     (case fld_Parameter f of
        None \<Rightarrow> apply_fields fs info reply
      | Some p \<Rightarrow>
          (case decodeGroupFunctionLAU (fld_Value f) of
             Inl e \<Rightarrow> None
           | Inr value \<Rightarrow>
               let reply = reply @ [\<lparr>fld_Parameter = Some p, fld_Value = fld_Value f\<rparr>]
               in if p = 1 then apply_fields fs (info\<lparr>cfg_InstallationDescription1 := value\<rparr>) reply
                  else if p = 2 then apply_fields fs (info\<lparr>cfg_InstallationDescription2 := value\<rparr>) reply
                  else if p = 3 then apply_fields fs (info\<lparr>cfg_ManufacturerInformation := value\<rparr>) reply
                  else None))"

definition processNmeaWriteFieldsGroupFunction ::
  "('p, 'a) Node_scheme \<Rightarrow> NMEAWriteFieldsGroupFunction \<Rightarrow> toSend list \<times> ('p, 'a) Node_scheme" where
  "processNmeaWriteFieldsGroupFunction n req =
     (case nwf_PGN req of
        None \<Rightarrow> ([], n)
      | Some p \<Rightarrow>
          if p \<noteq> ConfigurationInformationPGN
          then (processUnsupportedGroupFunction n (nwf_Info req) p ReadOrWriteNotSupported, n)
          else (case configProvider n of
              None \<Rightarrow> ([], n)
            | Some provider \<Rightarrow>
                if readOnly n \<or> \<not> addressClaimed n \<or> TargetId (nwf_Info req) \<noteq> networkAddress n
                   \<or> nwf_Repeating1 req \<noteq> []
                then ([], n)
                else (case GetConfigurationInfo provider (providerState n) of
                    (Inl e, q) \<Rightarrow>
                      (processUnsupportedGroupFunction n (nwf_Info req) p AccessDenied_2,
                       n\<lparr>providerState := q\<rparr>)
                  | (Inr info, q) \<Rightarrow>
                      (case apply_fields (nwf_Repeating2 req) info [] of
                         None \<Rightarrow>
                           (processUnsupportedGroupFunction n (nwf_Info req) p InvalidParameterField,
                            n\<lparr>providerState := q\<rparr>)
                       | Some (info, replyFields) \<Rightarrow>
                           (case SetConfigurationInfo provider info q of
                              (Some e, q) \<Rightarrow>
                                (processUnsupportedGroupFunction n (nwf_Info req) p AccessDenied_2,
                                 n\<lparr>providerState := q\<rparr>)
                            | (None, q) \<Rightarrow>
                                ([\<lparr>ts_pgn = MNMEAWriteFieldsReply
                                     \<lparr>nwr_Info = header NMEAWriteFieldsReplyGroupFunctionPGN
                                        (networkAddress n) (SourceId (nwf_Info req)) (Priority (nwf_Info req)),
                                      nwr_FunctionCode = WriteFieldsReply, nwr_PGN = nwf_PGN req,
                                      nwr_ManufacturerCode = nwf_ManufacturerCode req,
                                      nwr_IndustryCode = nwf_IndustryCode req,
                                      nwr_UniqueID = nwf_UniqueID req,
                                      nwr_NumberOfSelectionPairs = nwf_NumberOfSelectionPairs req,
                                      nwr_NumberOfParameters = nwf_NumberOfParameters req,
                                      nwr_Repeating1 = [], nwr_Repeating2 = replyFields\<rparr>,
                                   ts_dest = SourceId (nwf_Info req)\<rparr>],
                                 n\<lparr>providerState := q\<rparr>))))))"

definition processNmeaCommandGroupFunction ::
  "('p, 'a) Node_scheme \<Rightarrow> NMEACommandGroupFunction \<Rightarrow> toSend list \<times> ('p, 'a) Node_scheme" where
  "processNmeaCommandGroupFunction n cmd =
     (case ncm_PGN cmd of
        None \<Rightarrow> ([], n)
      | Some p \<Rightarrow>
          if p = ConfigurationInformationPGN \<and> ncm_Repeating1 cmd \<noteq> []
          then (if length (ncm_Repeating1 cmd) > 255
                then (processUnsupportedGroupFunction n (ncm_Info cmd) p InvalidParameterField, n)
                else (let parameters = ncm_Repeating1 cmd;
                          count = of_nat (length parameters);
                          req = \<lparr>nwf_Info = ncm_Info cmd, nwf_FunctionCode = WriteFields,
                            nwf_PGN = ncm_PGN cmd, nwf_ManufacturerCode = 0, nwf_IndustryCode = 0,
                            nwf_UniqueID = None, nwf_NumberOfSelectionPairs = Some 0,
                            nwf_NumberOfParameters = Some count, nwf_Repeating1 = [],
                            nwf_Repeating2 = parameters\<rparr>;
                          (responses, n) = processNmeaWriteFieldsGroupFunction n req
                      in if responses = [] then ([], n)
                         else ([\<lparr>ts_pgn = MNMEAAcknowledge
                                  \<lparr>nak_Info = header NMEAAcknowledgeGroupFunctionPGN
                                     (networkAddress n) (SourceId (ncm_Info cmd)) 3,
                                   nak_FunctionCode = Acknowledge_5, nak_PGN = ncm_PGN cmd,
                                   nak_PGNErrorCode = Acknowledge_6,
                                   nak_TransmissionIntervalPriorityErrorCode = Acknowledge_2,
                                   nak_NumberOfParameters = Some count,
                                   nak_Repeating1 = replicate (length parameters) Acknowledge_3\<rparr>,
                                 ts_dest = SourceId (ncm_Info cmd)\<rparr>], n)))
          else (processUnsupportedGroupFunction n (ncm_Info cmd) p ReadOrWriteNotSupported, n))"

text \<open>The loop over the parameters of a read, with the error the reply is replaced by.\<close>

fun read_fields :: "u8 option list \<Rightarrow> ConfigurationInfo \<Rightarrow> FieldValue list
    \<Rightarrow> u8 option + FieldValue list" where
  "read_fields [] info reply = Inr reply"
| "read_fields (f # fs) info reply =
     (case f of
        None \<Rightarrow> read_fields fs info reply
      | Some p \<Rightarrow>
          (case [1 \<mapsto> cfg_InstallationDescription1 info, 2 \<mapsto> cfg_InstallationDescription2 info,
                 3 \<mapsto> cfg_ManufacturerInformation info] p of
             None \<Rightarrow> Inl None
           | Some value \<Rightarrow>
               (case EncodeStringLAU value of
                  Inl e \<Rightarrow> Inl (Some InvalidParameterField)
                | Inr encoded \<Rightarrow>
                    read_fields fs info (reply @ [\<lparr>fld_Parameter = Some p, fld_Value = encoded\<rparr>]))))"

definition processNmeaReadFieldsGroupFunction ::
  "('p, 'a) Node_scheme \<Rightarrow> NMEAReadFieldsGroupFunction \<Rightarrow> toSend list \<times> ('p, 'a) Node_scheme" where
  "processNmeaReadFieldsGroupFunction n req =
     (if nrf_PGN req \<noteq> Some ConfigurationInformationPGN then ([], n)
      else (case configProvider n of
          None \<Rightarrow> ([], n)
        | Some provider \<Rightarrow>
            if readOnly n \<or> \<not> addressClaimed n \<or> TargetId (nrf_Info req) \<noteq> networkAddress n
               \<or> nrf_Repeating1 req \<noteq> []
            then ([], n)
            else (case GetConfigurationInfo provider (providerState n) of
                (Inl e, q) \<Rightarrow> ([], n\<lparr>providerState := q\<rparr>)
              | (Inr info, q) \<Rightarrow>
                  (case read_fields (nrf_Repeating2 req) info [] of
                     Inl None \<Rightarrow> ([], n\<lparr>providerState := q\<rparr>)
                   | Inl (Some e) \<Rightarrow>
                       (processUnsupportedGroupFunction n (nrf_Info req) ConfigurationInformationPGN e,
                        n\<lparr>providerState := q\<rparr>)
                   | Inr replied \<Rightarrow>
                       ([\<lparr>ts_pgn = MNMEAReadFieldsReply
                            \<lparr>nrr_Info = header NMEAReadFieldsReplyGroupFunctionPGN
                               (networkAddress n) (SourceId (nrf_Info req)) (Priority (nrf_Info req)),
                             nrr_FunctionCode = ReadFieldsReply, nrr_PGN = nrf_PGN req,
                             nrr_ManufacturerCode = nrf_ManufacturerCode req,
                             nrr_IndustryCode = nrf_IndustryCode req,
                             nrr_UniqueID = nrf_UniqueID req,
                             nrr_NumberOfSelectionPairs = nrf_NumberOfSelectionPairs req,
                             nrr_NumberOfParameters = nrf_NumberOfParameters req,
                             nrr_Repeating1 = [], nrr_Repeating2 = replied\<rparr>,
                          ts_dest = SourceId (nrf_Info req)\<rparr>],
                        n\<lparr>providerState := q\<rparr>)))))"

section \<open>Address claims\<close>

definition sendAddressClaim :: "('p, 'a) Node_scheme \<Rightarrow> ('p, 'a) Node_scheme" where
  "sendAddressClaim n =
     (if readOnly n then n
      else publish (MISOAddressClaim (buildAddressClaim (deviceInfo n) (networkAddress n))) n)"

definition processIsoCommandedAddress ::
  "('p, 'a) Node_scheme \<Rightarrow> ISOCommandedAddress \<Rightarrow> ('p, 'a) Node_scheme" where
  "processIsoCommandedAddress n cmd =
     (if readOnly n then n
      else if computeNameFromCommand cmd \<noteq> node_name n AND NOT (push_bit 63 1) then n
      else (case cmd_NewSourceAddress cmd of
              None \<Rightarrow> n
            | Some a \<Rightarrow> n\<lparr>preferredAddress := a, nd_addressState := stateClaiming,
                addressClaimed := False\<rparr>))"

text \<open>The changes of the device tables are published with the subscribers visited in \<open>order\<close>.\<close>

definition publish_update :: "u64 list \<Rightarrow> ('p, 'a) Node_scheme \<times> DeviceChange list
    \<Rightarrow> ('p, 'a) Node_scheme" where
  "publish_update order r = publishDeviceChanges order (snd r) (fst r)"

definition processIsoAddressClaim ::
  "gotime \<Rightarrow> u64 list \<Rightarrow> ('p, 'a) Node_scheme \<Rightarrow> ISOAddressClaim \<Rightarrow> ('p, 'a) Node_scheme" where
  "processIsoAddressClaim now order n claim =
     (let incomingName = computeNameFromClaim claim;
          n = publish_update order (updateKnownDeviceFromClaim now n claim incomingName);
          currentAddress = networkAddress n
      in if nd_addressState n \<noteq> stateClaiming \<and> nd_addressState n \<noteq> stateClaimed then n
         else if SourceId (clm_Info claim) \<noteq> currentAddress then n
         else if incomingName < node_name n
         then (let n = n\<lparr>addressClaimed := False\<rparr>;
                   n = (if dev_ArbitraryAddressCapable (deviceInfo n)
                        then (case nextAvailableAddressLocked n currentAddress of
                                Some nextAddress \<Rightarrow>
                                  n\<lparr>preferredAddress := nextAddress, nd_addressState := stateClaiming\<rparr>
                              | None \<Rightarrow> n\<lparr>nd_addressState := stateLost, networkAddress := 255\<rparr>)
                        else n\<lparr>nd_addressState := stateLost, networkAddress := 255\<rparr>)
               in n\<lparr>wakeUp := True\<rparr>)
         else sendAddressClaim n)"

section \<open>Dispatch\<close>

fun processPGN :: "gotime \<Rightarrow> u64 list \<Rightarrow> ('p, 'a) Node_scheme \<Rightarrow> message
    \<Rightarrow> toSend list \<times> ('p, 'a) Node_scheme" where
  "processPGN now order n (MISORequest v) = processIsoRequest n v"
| "processPGN now order n (MNMEARequest v) = processNmeaRequestGroupFunction n v"
| "processPGN now order n (MNMEACommand v) = processNmeaCommandGroupFunction n v"
| "processPGN now order n (MNMEAWriteFields v) = processNmeaWriteFieldsGroupFunction n v"
| "processPGN now order n (MNMEAReadFields v) = processNmeaReadFieldsGroupFunction n v"
| "processPGN now order n (MISOAddressClaim v) = ([], processIsoAddressClaim now order n v)"
| "processPGN now order n (MISOCommandedAddress v) = ([], processIsoCommandedAddress n v)"
| "processPGN now order n (MProductInformation v) =
     ([], publish_update order (updateKnownDeviceFromProductInfo now n v))"
| "processPGN now order n (MConfigurationInformation v) =
     ([], publish_update order (updateKnownDeviceFromConfigurationInfo now n v))"
| "processPGN now order n (MPGNList v) =
     ([], publish_update order (updateKnownDeviceFromPgnList now n v))"
| "processPGN now order n _ = ([], n)"

definition sendProcessResponses :: "toSend list \<Rightarrow> ('p, 'a) Node_scheme \<Rightarrow> ('p, 'a) Node_scheme" where
  "sendProcessResponses toSendList n =
     (if toSendList = [] then n
      else if readOnly n then n
      else foldl (\<lambda>n ts. publish (ts_pgn ts) n) n toSendList)"

definition sendHeartbeat :: "('p, 'a) Node_scheme \<Rightarrow> ('p, 'a) Node_scheme" where
  "sendHeartbeat n =
     (let hb = MHeartbeat \<lparr>hbt_Info = header HeartbeatPGN (networkAddress n) 0 0,
            hbt_DataTransmitOffset = None, hbt_SequenceCounter = Some (heartbeatSeq n),
            hbt_Controller1State = ErrorActive, hbt_Controller2State = ErrorActive,
            hbt_EquipmentStatus = Operational\<rparr>;
          n = snd (Write (\<lambda>_. None) hb n)
      in n\<lparr>heartbeatSeq := heartbeatSeq n + 1\<rparr>)"

section \<open>The lists of supported PGNs\<close>

lemma merge_into_facts:
  assumes "distinct merged"
  shows "distinct (merge_into merged ps) \<and> set (merge_into merged ps) = set merged \<union> set ps
    \<and> (\<exists>rest. merge_into merged ps = merged @ rest)
    \<and> (distinct (merged @ ps) \<longrightarrow> merge_into merged ps = merged @ ps)"
  using assms
proof (induction ps arbitrary: merged)
  case (Cons p ps)
  show ?case
  proof (cases "p \<in> set merged")
    case True
    then show ?thesis using Cons.IH[OF Cons.prems] by auto
  next
    case False
    then have "distinct (merged @ [p])" using Cons.prems by simp
    from Cons.IH[OF this] False show ?thesis by auto
  qed
qed simp

text \<open>
  The merged list of supported PGNs has no duplicates, holds exactly the configured and
  the managed ones, begins with the configured ones as they are when these have no duplicates, and
  the lists a node reports hold everything it handles itself whatever the application configures.
\<close>

theorem mergePGNs_correct:
  "distinct (mergePGNs configured managed)
   \<and> set (mergePGNs configured managed) = set configured \<union> set managed
   \<and> (distinct configured \<longrightarrow> take (length configured) (mergePGNs configured managed) = configured)
   \<and> {ISOAddressClaimPGN, PGNListTransmitAndReceivePGN, ProductInformationPGN}
       \<subseteq> set (managedTransmitPGNs configured provider heartbeat)
   \<and> (HeartbeatPGN \<in> set (managedTransmitPGNs configured provider heartbeat)
       \<longleftrightarrow> heartbeat \<or> HeartbeatPGN \<in> set configured)"
proof -
  have m: "set (mergePGNs c m) = set c \<union> set m \<and> distinct (mergePGNs c m)
      \<and> (distinct c \<longrightarrow> take (length c) (mergePGNs c m) = c)" for c m
  proof -
    have 1: "distinct (merge_into [] c)" "set (merge_into [] c) = set c"
      "distinct c \<Longrightarrow> merge_into [] c = c"
      using merge_into_facts[of "[]" c] by simp_all
    have 2: "distinct (mergePGNs c m)" "set (mergePGNs c m) = set c \<union> set m"
      "\<exists>rest. mergePGNs c m = merge_into [] c @ rest"
      using merge_into_facts[OF 1(1), of m] 1(2) by (simp_all add: mergePGNs_def)
    then show ?thesis using 1(3) by auto
  qed
  show ?thesis
    using m by (auto simp: managedTransmitPGNs_def Let_def HeartbeatPGN_def ISOAcknowledgementPGN_def
        ISOAddressClaimPGN_def NMEAAcknowledgeGroupFunctionPGN_def PGNListTransmitAndReceivePGN_def
        ProductInformationPGN_def ConfigurationInformationPGN_def)
qed

theorem mergePGNs_correct_witness:
  "take 2 (mergePGNs [127250, 60928] [59392, 60928]) = [127250, 60928]"
proof -
  have "distinct [127250, 60928 :: u32]" by simp
  with mergePGNs_correct[of "[127250, 60928]" "[59392, 60928]" False False]
  have "take (length [127250, 60928 :: u32]) (mergePGNs [127250, 60928] [59392, 60928]) = [127250, 60928]"
    by (simp only: simp_thms)
  then show ?thesis by (simp add: numeral_2_eq_2)
qed

section \<open>Answers\<close>

text \<open>What an answer of a node looks like, and which messages may only be answered when directed.\<close>

definition answer_ok :: "('p, 'a) Node_scheme \<Rightarrow> MessageInfo \<Rightarrow> toSend \<Rightarrow> bool" where
  "answer_ok n info r \<longleftrightarrow> ts_dest r = SourceId info \<and>
     (\<exists>i. msg_Info (ts_pgn r) = Some i \<and> SourceId i = networkAddress n
        \<and> (TargetId i = SourceId info \<or> (\<exists>c. ts_pgn r = MISOAddressClaim c) \<and> TargetId i = 255))"

fun directed_only :: "message \<Rightarrow> bool" where
  "directed_only (MNMEACommand _) = True"
| "directed_only (MNMEAWriteFields _) = True"
| "directed_only (MNMEAReadFields _) = True"
| "directed_only (MNMEARequest m) =
     (nrq_NumberOfParameters m \<noteq> None \<and> nrq_NumberOfParameters m \<noteq> Some 0)"
| "directed_only _ = False"

fun answerable :: "message \<Rightarrow> bool" where
  "answerable (MISORequest _) = True"
| "answerable (MNMEARequest _) = True"
| "answerable (MNMEACommand _) = True"
| "answerable (MNMEAWriteFields _) = True"
| "answerable (MNMEAReadFields _) = True"
| "answerable _ = False"

text \<open>A node that has its address answers to itself or to everyone with good answers.\<close>

definition answers_ok :: "('p, 'a) Node_scheme \<Rightarrow> MessageInfo \<Rightarrow> bool \<Rightarrow> toSend list \<Rightarrow> bool" where
  "answers_ok n info directed rs \<longleftrightarrow> (\<forall>r \<in> set rs. answer_ok n info r)
     \<and> (rs \<noteq> [] \<longrightarrow> \<not> readOnly n \<and> addressClaimed n
          \<and> (TargetId info = networkAddress n \<or> \<not> directed \<and> TargetId info = 255))"

lemma answers_ok_Nil [simp]: "answers_ok n info d []"
  by (simp add: answers_ok_def)

lemma answers_ok_weaken: "answers_ok n info True rs \<Longrightarrow> answers_ok n info d rs"
  by (auto simp: answers_ok_def)

lemma unsupported_ok: "answers_ok n info d (processUnsupportedGroupFunction n info p e)"
  by (simp add: answers_ok_def processUnsupportedGroupFunction_def answer_ok_def
      buildNmeaGroupNak_def header_def)

text \<open>The operations that answer change nothing of the node but the state of its provider.\<close>

definition same_but_provider :: "('p, 'a) Node_scheme \<Rightarrow> ('p, 'a) Node_scheme \<Rightarrow> bool" where
  "same_but_provider n n' \<longleftrightarrow> (\<exists>q. n' = n\<lparr>providerState := q\<rparr>)"

lemma same_but_provider_simps [simp]:
  "same_but_provider n n" "same_but_provider n (n\<lparr>providerState := q\<rparr>)"
  by (auto simp: same_but_provider_def intro: exI[of _ "providerState n"])

lemma iso_request_ok:
  assumes "processIsoRequest n req = (rs, n')"
  shows "answers_ok n (irq_Info req) False rs \<and> same_but_provider n n'"
  using assms
  by (auto simp: processIsoRequest_def answers_ok_def answer_ok_def Let_def header_def
      buildAddressClaim_def buildIsoNak_def split: option.splits if_splits sum.splits prod.splits)

lemma write_fields_ok:
  assumes "processNmeaWriteFieldsGroupFunction n req = (rs, n')"
  shows "answers_ok n (nwf_Info req) True rs \<and> same_but_provider n n'"
  using assms
  by (auto simp: processNmeaWriteFieldsGroupFunction_def unsupported_ok
      split: option.splits if_splits sum.splits prod.splits)
     (auto simp: answers_ok_def answer_ok_def header_def)

lemma read_fields_ok:
  assumes "processNmeaReadFieldsGroupFunction n req = (rs, n')"
  shows "answers_ok n (nrf_Info req) True rs \<and> same_but_provider n n'"
  using assms
  by (auto simp: processNmeaReadFieldsGroupFunction_def unsupported_ok
      split: option.splits if_splits sum.splits prod.splits)
     (auto simp: answers_ok_def answer_ok_def header_def)

lemma command_ok':
  assumes "processNmeaCommandGroupFunction n cmd = (rs, n')"
  shows "answers_ok n (ncm_Info cmd) True rs \<and> same_but_provider n n'"
proof (cases "ncm_PGN cmd = Some ConfigurationInformationPGN \<and> ncm_Repeating1 cmd \<noteq> []
    \<and> length (ncm_Repeating1 cmd) \<le> 255")
  case True
  define req where "req = \<lparr>nwf_Info = ncm_Info cmd, nwf_FunctionCode = WriteFields,
    nwf_PGN = ncm_PGN cmd, nwf_ManufacturerCode = 0, nwf_IndustryCode = 0,
    nwf_UniqueID = None, nwf_NumberOfSelectionPairs = Some 0,
    nwf_NumberOfParameters = Some (of_nat (length (ncm_Repeating1 cmd))), nwf_Repeating1 = [],
    nwf_Repeating2 = ncm_Repeating1 cmd\<rparr>"
  obtain rs2 n2 where w: "processNmeaWriteFieldsGroupFunction n req = (rs2, n2)"
    by (cases "processNmeaWriteFieldsGroupFunction n req")
  have ok: "answers_ok n (ncm_Info cmd) True rs2" "same_but_provider n n2"
    using write_fields_ok[OF w] by (simp_all add: req_def)
  then have na: "networkAddress n2 = networkAddress n" by (auto simp: same_but_provider_def)
  have n': "n' = n2" and rs: "rs = [] \<or> rs2 \<noteq> [] \<and> (\<exists>a. rs = [\<lparr>ts_pgn = MNMEAAcknowledge a, ts_dest = SourceId (ncm_Info cmd)\<rparr>]
      \<and> nak_Info a = header NMEAAcknowledgeGroupFunctionPGN (networkAddress n2) (SourceId (ncm_Info cmd)) 3)"
    using assms True w[unfolded req_def]
    by (auto simp: processNmeaCommandGroupFunction_def Let_def split: if_splits)
  from rs show ?thesis
  proof
    assume "rs = []"
    then show ?thesis using n' ok(2) by simp
  next
    assume "rs2 \<noteq> [] \<and> (\<exists>a. rs = [\<lparr>ts_pgn = MNMEAAcknowledge a, ts_dest = SourceId (ncm_Info cmd)\<rparr>]
      \<and> nak_Info a = header NMEAAcknowledgeGroupFunctionPGN (networkAddress n2) (SourceId (ncm_Info cmd)) 3)"
    then show ?thesis
      using n' ok na by (auto simp: answers_ok_def answer_ok_def header_def)
  qed
next
  case False
  with assms show ?thesis
    by (auto simp: processNmeaCommandGroupFunction_def unsupported_ok split: option.splits if_splits)
qed

lemma processPGN_answers:
  assumes "processPGN now order n m = (rs, n')" and "msg_Info m = Some info"
  shows "answers_ok n info (directed_only m) rs \<and> (answerable m \<longrightarrow> same_but_provider n n')
    \<and> (\<not> answerable m \<longrightarrow> rs = [])"
proof (cases m)
  case (MISORequest r)
  with assms iso_request_ok[of n r rs n'] show ?thesis by simp
next
  case (MNMEARequest r)
  with assms iso_request_ok[of n "\<lparr>irq_Info = nrq_Info r, irq_PGN = nrq_PGN r\<rparr>" rs n'] show ?thesis
    by (auto simp: processNmeaRequestGroupFunction_def unsupported_ok split: option.splits if_splits)
next
  case (MNMEACommand r)
  with assms command_ok'[of n r rs n'] show ?thesis by simp
next
  case (MNMEAWriteFields r)
  with assms write_fields_ok[of n r rs n'] show ?thesis by simp
next
  case (MNMEAReadFields r)
  with assms read_fields_ok[of n r rs n'] show ?thesis by simp
qed (use assms in auto)

text \<open>
  Claim C16. The answers of a node. Only requests and group functions get any; a node that is
  read-only or has not claimed its address gives none; a command, a write, a read, or a request
  with parameters is answered only when it is directed to the node's own address, a plain request
  when it is directed there or broadcast. Every answer is sent from the node's own address to the
  requester, an address claim to everyone. Answering changes nothing but what the configuration
  provider does to its own state.
\<close>

theorem answers_sound:
  assumes "processPGN now order n m = (rs, n')" and "msg_Info m = Some info"
  shows "(rs \<noteq> [] \<longrightarrow> answerable m \<and> \<not> readOnly n \<and> addressClaimed n
           \<and> (TargetId info = networkAddress n \<or> \<not> directed_only m \<and> TargetId info = 255))
    \<and> (\<forall>r \<in> set rs. answer_ok n info r)
    \<and> (answerable m \<longrightarrow> same_but_provider n n')"
  using processPGN_answers[OF assms] by (auto simp: answers_ok_def)

definition claimed_node :: "('p, 'a) Node_scheme \<Rightarrow> u8 \<Rightarrow> ('p, 'a) Node_scheme" where
  "claimed_node n a = n\<lparr>readOnly := False, addressClaimed := True, networkAddress := a,
     nd_addressState := stateClaimed\<rparr>"

theorem answers_sound_witness:
  "\<exists>r. fst (processPGN 0 [] (claimed_node (NewNode ()) 35)
       (MISORequest \<lparr>irq_Info = header ISORequestPGN 7 255 6, irq_PGN = Some ISOAddressClaimPGN\<rparr>)) = [r]
     \<and> ts_dest r = 7"
proof -
  let ?m = "MISORequest \<lparr>irq_Info = header ISORequestPGN 7 255 6, irq_PGN = Some ISOAddressClaimPGN\<rparr>"
  obtain rs n' where p: "processPGN 0 [] (claimed_node (NewNode ()) 35) ?m = (rs, n')"
    by (cases "processPGN 0 [] (claimed_node (NewNode ()) 35) ?m")
  then have "length rs = 1"
    by (auto simp: processIsoRequest_def claimed_node_def header_def)
  moreover have "\<forall>r \<in> set rs. ts_dest r = 7"
    using answers_sound[OF p] by (simp add: answer_ok_def header_def)
  ultimately show ?thesis using p by (cases rs) auto
qed

section \<open>Writing the configuration\<close>

lemma read_bytes_total: "\<exists>bs s'. read_bytes k s = (bs, s')"
  by (cases "read_bytes k s") simp

lemma readBinaryData_total: "\<exists>r. readBinaryData bl s = Some r"
  by (auto simp: readBinaryData_def Let_def split: prod.split)

lemma decode_total: "\<exists>r. DecodeStringLAU d = Some r"
proof -
  have "readStringWithLengthAndControl s \<noteq> None" for s
  proof -
    obtain r where r: "readBinaryData 16 s = Some r" using readBinaryData_total by blast
    obtain lc s' where cases: "(\<exists>e. r = (Inl e, s')) \<or> r = (Inr lc, s')"
      by (metis prod.collapse sum.exhaust)
    show ?thesis
    proof (cases "r = (Inr lc, s')")
      case True
      obtain r2 where r2: "readBinaryData (of_nat (unat (lc ! 0) - 2) * 8) s' = Some r2"
        using readBinaryData_total by blast
      show ?thesis
        using r r2 True
        by (cases r2; cases "fst r2")
           (auto simp: readStringWithLengthAndControl_def seqE_def Let_def)
    next
      case False
      with cases r show ?thesis by (auto simp: readStringWithLengthAndControl_def seqE_def)
    qed
  qed
  then show ?thesis by (auto simp: DecodeStringLAU_def)
qed

lemma decodeGroupFunctionLAU_Some: "DecodeStringLAU d = Some (decodeGroupFunctionLAU d)"
  using decode_total[of d] by (auto simp: decodeGroupFunctionLAU_def)

definition valid_field :: "FieldValue \<Rightarrow> bool" where
  "valid_field f \<longleftrightarrow> fld_Parameter f = None
     \<or> (fld_Parameter f \<in> {Some 1, Some 2, Some 3} \<and> (\<exists>v. decodeGroupFunctionLAU (fld_Value f) = Inr v))"

text \<open>The value the last field for a parameter gives it, or the one it had.\<close>

definition last_value :: "u8 \<Rightarrow> FieldValue list \<Rightarrow> gostring \<Rightarrow> gostring" where
  "last_value p fs old = last (old # List.map_filter (\<lambda>f. if fld_Parameter f = Some p
     then (case decodeGroupFunctionLAU (fld_Value f) of Inr v \<Rightarrow> Some v | Inl e \<Rightarrow> None) else None) fs)"

lemma last_value_simps [simp]:
  "last_value p [] old = old"
  "last_value p (f # fs) old = last_value p fs
     (if fld_Parameter f = Some p
      then (case decodeGroupFunctionLAU (fld_Value f) of Inr v \<Rightarrow> v | Inl e \<Rightarrow> old) else old)"
  by (auto simp: last_value_def map_filter_simps split: sum.split)

definition updated :: "FieldValue list \<Rightarrow> ConfigurationInfo \<Rightarrow> ConfigurationInfo" where
  "updated fs c = \<lparr>cfg_InstallationDescription1 = last_value 1 fs (cfg_InstallationDescription1 c),
     cfg_InstallationDescription2 = last_value 2 fs (cfg_InstallationDescription2 c),
     cfg_ManufacturerInformation = last_value 3 fs (cfg_ManufacturerInformation c)\<rparr>"

lemma apply_fields_spec:
  "apply_fields fs c reply = (if \<forall>f \<in> set fs. valid_field f
     then Some (updated fs c, reply @ filter (\<lambda>f. fld_Parameter f \<noteq> None) fs) else None)"
proof (induction fs arbitrary: c reply)
  case (Cons f fs)
  show ?case
  proof (cases "fld_Parameter f")
    case None
    then show ?thesis by (simp add: Cons.IH valid_field_def updated_def)
  next
    case (Some p)
    then have f: "\<lparr>fld_Parameter = Some p, fld_Value = fld_Value f\<rparr> = f" by simp
    show ?thesis
    proof (cases "decodeGroupFunctionLAU (fld_Value f)")
      case (Inl e)
      with Some show ?thesis by (simp add: valid_field_def)
    next
      case (Inr v)
      with Some f show ?thesis
        by (simp add: Cons.IH valid_field_def updated_def Let_def)
    qed
  qed
qed (simp add: updated_def)

text \<open>A node in a position to change its configuration.\<close>

definition config_ready :: "('p, 'a) Node_scheme \<Rightarrow> 'p ConfigurationProvider \<Rightarrow> ConfigurationInfo
    \<Rightarrow> 'p \<Rightarrow> bool" where
  "config_ready n provider c q \<longleftrightarrow> \<not> readOnly n \<and> addressClaimed n \<and> networkAddress n \<noteq> 255
     \<and> configProvider n = Some provider \<and> GetConfigurationInfo provider (providerState n) = (Inr c, q)"

definition group_nak :: "('p, 'a) Node_scheme \<Rightarrow> MessageInfo \<Rightarrow> u8 \<Rightarrow> toSend" where
  "group_nak n info e = \<lparr>ts_pgn = MNMEAAcknowledge (buildNmeaGroupNak (networkAddress n) (SourceId info)
     ConfigurationInformationPGN e), ts_dest = SourceId info\<rparr>"

lemma unsupported_nak:
  assumes "config_ready n provider c q" and "TargetId info = networkAddress n"
  shows "processUnsupportedGroupFunction n info ConfigurationInformationPGN e = [group_nak n info e]"
  using assms by (simp add: processUnsupportedGroupFunction_def config_ready_def group_nak_def)

lemma config_write_spec:
  assumes "config_ready n provider c q" and "nwf_PGN req = Some ConfigurationInformationPGN"
    and "TargetId (nwf_Info req) = networkAddress n" and "nwf_Repeating1 req = []"
  shows "processNmeaWriteFieldsGroupFunction n req =
    (if \<forall>f \<in> set (nwf_Repeating2 req). valid_field f
     then (case SetConfigurationInfo provider (updated (nwf_Repeating2 req) c) q of
             (Some e, q') \<Rightarrow> ([group_nak n (nwf_Info req) AccessDenied_2], n\<lparr>providerState := q'\<rparr>)
           | (None, q') \<Rightarrow> ([\<lparr>ts_pgn = MNMEAWriteFieldsReply
                \<lparr>nwr_Info = header NMEAWriteFieldsReplyGroupFunctionPGN
                   (networkAddress n) (SourceId (nwf_Info req)) (Priority (nwf_Info req)),
                 nwr_FunctionCode = WriteFieldsReply, nwr_PGN = nwf_PGN req,
                 nwr_ManufacturerCode = nwf_ManufacturerCode req, nwr_IndustryCode = nwf_IndustryCode req,
                 nwr_UniqueID = nwf_UniqueID req,
                 nwr_NumberOfSelectionPairs = nwf_NumberOfSelectionPairs req,
                 nwr_NumberOfParameters = nwf_NumberOfParameters req, nwr_Repeating1 = [],
                 nwr_Repeating2 = filter (\<lambda>f. fld_Parameter f \<noteq> None) (nwf_Repeating2 req)\<rparr>,
               ts_dest = SourceId (nwf_Info req)\<rparr>], n\<lparr>providerState := q'\<rparr>))
     else ([group_nak n (nwf_Info req) InvalidParameterField], n\<lparr>providerState := q\<rparr>))"
  using assms unsupported_nak[OF assms(1,3)]
  by (simp add: processNmeaWriteFieldsGroupFunction_def config_ready_def apply_fields_spec
      split: prod.split option.split)


text \<open>A provider that keeps what it is given, for the witnesses, and one that refuses.\<close>

definition sample_provider :: "ConfigurationInfo ConfigurationProvider" where
  "sample_provider = \<lparr>GetConfigurationInfo = (\<lambda>c. (Inr c, c)), SetConfigurationInfo = (\<lambda>c _. (None, c))\<rparr>"

definition refusing_provider :: "ConfigurationInfo ConfigurationProvider" where
  "refusing_provider = \<lparr>GetConfigurationInfo = (\<lambda>c. (Inr c, c)),
     SetConfigurationInfo = (\<lambda>c d. (Some ''denied'', d))\<rparr>"

definition sample_config :: ConfigurationInfo where
  "sample_config = \<lparr>cfg_InstallationDescription1 = [65], cfg_InstallationDescription2 = [66],
     cfg_ManufacturerInformation = [67]\<rparr>"

definition sample_node :: "ConfigurationInfo ConfigurationProvider \<Rightarrow> ConfigurationInfo Node" where
  "sample_node p = (claimed_node (NewNode sample_config) 35)\<lparr>configProvider := Some p\<rparr>"

definition sample_write :: "FieldValue list \<Rightarrow> NMEAWriteFieldsGroupFunction" where
  "sample_write fs = \<lparr>nwf_Info = header 126208 7 35 3, nwf_FunctionCode = WriteFields,
     nwf_PGN = Some ConfigurationInformationPGN, nwf_ManufacturerCode = 0, nwf_IndustryCode = 0,
     nwf_UniqueID = None, nwf_NumberOfSelectionPairs = Some 0,
     nwf_NumberOfParameters = Some (of_nat (length fs)), nwf_Repeating1 = [], nwf_Repeating2 = fs\<rparr>"

lemma sample_ready:
  "config_ready (sample_node sample_provider) sample_provider sample_config sample_config"
  "config_ready (sample_node refusing_provider) refusing_provider sample_config sample_config"
  by (simp_all add: config_ready_def sample_node_def claimed_node_def NewNode_def
      sample_provider_def refusing_provider_def)


text \<open>
  A command to change the configuration that is refused, because a parameter is invalid
  or because the provider does not accept it, is nevertheless answered with a positive
  acknowledgement of the PGN and of every parameter.
\<close>

theorem command_acknowledges_refusal:
  assumes "config_ready n provider c q" and "ncm_PGN cmd = Some ConfigurationInformationPGN"
    and "TargetId (ncm_Info cmd) = networkAddress n"
    and "ncm_Repeating1 cmd \<noteq> []" and "length (ncm_Repeating1 cmd) \<le> 255"
    and "\<not> (\<forall>f \<in> set (ncm_Repeating1 cmd). valid_field f)
       \<or> fst (SetConfigurationInfo provider (updated (ncm_Repeating1 cmd) c) q) \<noteq> None"
  shows "\<exists>a. fst (processNmeaCommandGroupFunction n cmd)
      = [\<lparr>ts_pgn = MNMEAAcknowledge a, ts_dest = SourceId (ncm_Info cmd)\<rparr>]
    \<and> nak_PGNErrorCode a = Acknowledge_6
    \<and> nak_Repeating1 a = replicate (length (ncm_Repeating1 cmd)) Acknowledge_3"
proof -
  define req where "req = \<lparr>nwf_Info = ncm_Info cmd, nwf_FunctionCode = WriteFields,
    nwf_PGN = ncm_PGN cmd, nwf_ManufacturerCode = 0, nwf_IndustryCode = 0,
    nwf_UniqueID = None, nwf_NumberOfSelectionPairs = Some 0,
    nwf_NumberOfParameters = Some (of_nat (length (ncm_Repeating1 cmd))), nwf_Repeating1 = [],
    nwf_Repeating2 = ncm_Repeating1 cmd\<rparr>"
  obtain rs2 n2 where w: "processNmeaWriteFieldsGroupFunction n req = (rs2, n2)"
    by (cases "processNmeaWriteFieldsGroupFunction n req")
  have "rs2 \<noteq> []"
    using w config_write_spec[OF assms(1), of req] assms(2,3)
    by (auto simp: req_def split: if_splits prod.splits option.splits)
  with w[unfolded req_def] assms(2,4,5) show ?thesis
    by (simp add: processNmeaCommandGroupFunction_def Let_def)
qed

definition sample_command :: NMEACommandGroupFunction where
  "sample_command = \<lparr>ncm_Info = header 126208 7 35 3, ncm_FunctionCode = 1,
     ncm_PGN = Some ConfigurationInformationPGN, ncm_Priority = 8, ncm_NumberOfParameters = Some 1,
     ncm_Repeating1 = [\<lparr>fld_Parameter = Some 1, fld_Value = [3, 1, 72]\<rparr>]\<rparr>"

theorem command_acknowledges_refusal_witness:
  "\<exists>a. fst (processNmeaCommandGroupFunction (sample_node refusing_provider) sample_command)
      = [\<lparr>ts_pgn = MNMEAAcknowledge a, ts_dest = 7\<rparr>] \<and> nak_PGNErrorCode a = 0"
  using command_acknowledges_refusal[OF sample_ready(2), of sample_command]
  by (auto simp: sample_command_def header_def sample_node_def claimed_node_def refusing_provider_def
      Acknowledge_6_def)

text \<open>
  What is written to the configuration can be read back. When the provider keeps what it
  accepts, a read of a parameter that follows a write, both directed to the node, is answered with
  the text of the last field of the write for it, or the old one: the value of the answer decodes
  to it, as long as it has at most 253 bytes and does not end with a NUL.
\<close>

theorem config_read_back:
  assumes "config_ready n provider c q" and "nwf_PGN w = Some ConfigurationInformationPGN"
    and "TargetId (nwf_Info w) = networkAddress n" and "nwf_Repeating1 w = []"
    and "\<forall>f \<in> set (nwf_Repeating2 w). valid_field f"
    and "SetConfigurationInfo provider (updated (nwf_Repeating2 w) c) q = (None, q')"
    and "GetConfigurationInfo provider q' = (Inr (updated (nwf_Repeating2 w) c), q'')"
    and "nrf_PGN r = Some ConfigurationInformationPGN" and "nrf_Repeating1 r = []"
    and "TargetId (nrf_Info r) = networkAddress n" and "nrf_Repeating2 r = [Some p]"
    and "old = (if p = 1 then cfg_InstallationDescription1 c
       else if p = 2 then cfg_InstallationDescription2 c else cfg_ManufacturerInformation c)"
    and "p \<in> {1, 2, 3}" and "v = last_value p (nwf_Repeating2 w) old"
    and "length v \<le> 253" and "v = [] \<or> last v \<noteq> 0"
  shows "\<exists>reply d. fst (processNmeaReadFieldsGroupFunction
        (snd (processNmeaWriteFieldsGroupFunction n w)) r)
      = [\<lparr>ts_pgn = MNMEAReadFieldsReply reply, ts_dest = SourceId (nrf_Info r)\<rparr>]
    \<and> nrr_Repeating2 reply = [\<lparr>fld_Parameter = Some p, fld_Value = d\<rparr>]
    \<and> DecodeStringLAU d = Some (Inr v)"
proof -
  let ?n = "n\<lparr>providerState := q'\<rparr>"
  have w: "snd (processNmeaWriteFieldsGroupFunction n w) = ?n"
    using config_write_spec[OF assms(1-4)] assms(5,6) by simp
  obtain d where d: "EncodeStringLAU v = Inr d"
    using assms(15) by (simp add: EncodeStringLAU_def maxStringLAUUTF8Bytes_def)
  with lau_roundtrip[of v] assms(16) have dec: "DecodeStringLAU d = Some (Inr v)" by auto
  have "[1 \<mapsto> cfg_InstallationDescription1 (updated (nwf_Repeating2 w) c),
      2 \<mapsto> cfg_InstallationDescription2 (updated (nwf_Repeating2 w) c),
      3 \<mapsto> cfg_ManufacturerInformation (updated (nwf_Repeating2 w) c)] p = Some v"
    using assms(12-14) by (auto simp: updated_def)
  then have "read_fields [Some p] (updated (nwf_Repeating2 w) c) []
      = Inr [\<lparr>fld_Parameter = Some p, fld_Value = d\<rparr>]"
    by (simp only: read_fields.simps option.case d sum.case append_Nil)
  moreover have "configProvider n = Some provider" "\<not> readOnly n" "addressClaimed n"
    using assms(1) by (simp_all add: config_ready_def)
  ultimately show ?thesis
    using assms(7-11) dec
    by (simp add: w processNmeaReadFieldsGroupFunction_def del: fun_upd_apply read_fields.simps)
qed

definition sample_read :: NMEAReadFieldsGroupFunction where
  "sample_read = \<lparr>nrf_Info = header 126208 7 35 3, nrf_FunctionCode = 3,
     nrf_PGN = Some ConfigurationInformationPGN, nrf_ManufacturerCode = 0, nrf_IndustryCode = 0,
     nrf_UniqueID = None, nrf_NumberOfSelectionPairs = Some 0, nrf_NumberOfParameters = Some 1,
     nrf_Repeating1 = [], nrf_Repeating2 = [Some 1]\<rparr>"

lemma sample_decode: "decodeGroupFunctionLAU [3, 1, 72] = Inr [72]"
proof -
  have "EncodeStringLAU [72] = Inr [3, 1, 72]"
    by (simp add: EncodeStringLAU_def maxStringLAUUTF8Bytes_def)
  with lau_roundtrip[of "[72]"] have "DecodeStringLAU [3, 1, 72] = Some (Inr [72])" by simp
  then show ?thesis by (simp add: decodeGroupFunctionLAU_def)
qed

theorem config_read_back_witness:
  "\<exists>reply d. fst (processNmeaReadFieldsGroupFunction (snd (processNmeaWriteFieldsGroupFunction
       (sample_node sample_provider) (sample_write [\<lparr>fld_Parameter = Some 1, fld_Value = [3, 1, 72]\<rparr>])))
       sample_read) = [\<lparr>ts_pgn = MNMEAReadFieldsReply reply, ts_dest = SourceId (nrf_Info sample_read)\<rparr>]
     \<and> nrr_Repeating2 reply = [\<lparr>fld_Parameter = Some 1, fld_Value = d\<rparr>]
     \<and> DecodeStringLAU d = Some (Inr [72])"
  by (rule config_read_back[OF sample_ready(1), where p = 1 and old = "[65]"
        and q' = "updated [\<lparr>fld_Parameter = Some 1, fld_Value = [3, 1, 72]\<rparr>] sample_config"
        and q'' = "updated [\<lparr>fld_Parameter = Some 1, fld_Value = [3, 1, 72]\<rparr>] sample_config"])
     (simp_all add: sample_write_def sample_read_def header_def sample_node_def claimed_node_def
       sample_provider_def sample_config_def valid_field_def sample_decode)

section \<open>Product information\<close>

lemma set_get_device:
  assumes "tables_ok t" and "Name d = Name (knownDeviceForAddressLocked t a)"
  shows "knownDeviceForAddressLocked (setKnownDeviceForAddressLocked t a d) a = d"
proof (cases "Name d = 0")
  case True
  have "knownDeviceNamesByAddress t a = None"
  proof (cases "knownDeviceNamesByAddress t a")
    case (Some nm)
    then obtain e where "nm \<noteq> 0" "knownDevices t nm = Some e" "Name e = nm"
      using tables_okD(1,2)[OF assms(1)] by blast
    with Some True assms(2) show ?thesis by (simp add: knownDeviceForAddressLocked_def)
  qed
  with True show ?thesis
    by (simp add: setKnownDeviceForAddressLocked_def knownDeviceForAddressLocked_def)
qed (simp add: setKnownDeviceForAddressLocked_def knownDeviceForAddressLocked_def)

text \<open>
  Product information as another node receives it. Of what a node answers to a request
  for its product information, another one that receives it as it is files, for the address it came from, everything as it
  was configured, the protocol version aside: that arrives as it is or one less, because the
  quotient by 100 and the product with it are rounded to 24 bits and the result is cut. Version
  2.10 arrives as 2.09.
\<close>

theorem product_information_received:
  assumes "processIsoRequest n req = ([\<lparr>ts_pgn = MProductInformation info, ts_dest = dst\<rparr>], n')"
    and "tables_ok t"
  shows "let t' = fst (updateKnownDeviceFromProductInfo now t info);
             got = the (DevProductInfo (knownDeviceForAddressLocked t' (networkAddress n)))
         in got\<lparr>prd_NMEA2000Version := prd_NMEA2000Version (productInfo n)\<rparr> = productInfo n
          \<and> unat (prd_NMEA2000Version got) \<in>
              {unat (prd_NMEA2000Version (productInfo n)) - 1, unat (prd_NMEA2000Version (productInfo n))}
          \<and> (prd_NMEA2000Version (productInfo n) = 210 \<longrightarrow> prd_NMEA2000Version got = 209)"
proof -
  define p where "p = productInfo n"
  have info: "SourceId (pin_Info info) = networkAddress n"
    "pin_NMEA2000Version info = Some (version_float (prd_NMEA2000Version p))"
    "pin_ProductCode info = Some (prd_ProductCode p)" "pin_ModelID info = prd_ModelID p"
    "pin_SoftwareVersionCode info = prd_SoftwareVersionCode p"
    "pin_ModelVersion info = prd_ModelVersion p" "pin_ModelSerialCode info = prd_ModelSerialCode p"
    "pin_CertificationLevel info = prd_CertificationLevel p"
    "pin_LoadEquivalency info = Some (prd_LoadEquivalency p)"
    using assms(1)
    by (auto simp: processIsoRequest_def Let_def header_def p_def
        split: option.splits if_splits sum.splits prod.splits)
  define d where "d = (knownDeviceForAddressLocked t (networkAddress n))
    \<lparr>Address := networkAddress n, LastSeen := Some now\<rparr>"
  define got where "got = p\<lparr>prd_NMEA2000Version := float_version (version_float (prd_NMEA2000Version p))\<rparr>"
  have got: "\<lparr>prd_NMEA2000Version = float_version (version_float (prd_NMEA2000Version p)),
      prd_ProductCode = prd_ProductCode p, prd_ModelID = prd_ModelID p,
      prd_SoftwareVersionCode = prd_SoftwareVersionCode p, prd_ModelVersion = prd_ModelVersion p,
      prd_ModelSerialCode = prd_ModelSerialCode p, prd_CertificationLevel = prd_CertificationLevel p,
      prd_LoadEquivalency = prd_LoadEquivalency p\<rparr> = got"
    by (simp add: got_def)
  have d0: "DevProductInfo (knownDeviceForAddressLocked t (networkAddress n)) = DevProductInfo d"
    by (simp add: d_def)
  have "fst (updateKnownDeviceFromProductInfo now t info) =
      setKnownDeviceForAddressLocked t (networkAddress n) (d\<lparr>DevProductInfo := Some got\<rparr>)"
  proof (cases "DevProductInfo d = Some got")
    case True
    then have d: "d\<lparr>DevProductInfo := Some got\<rparr> = d" by simp
    show ?thesis
      unfolding d using True
      by (simp add: updateKnownDeviceFromProductInfo_def Let_def info got d0 d_def[symmetric])
  next
    case False
    then show ?thesis
      by (simp add: updateKnownDeviceFromProductInfo_def Let_def info got d0 d_def[symmetric])
  qed
  then have "DevProductInfo (knownDeviceForAddressLocked
      (fst (updateKnownDeviceFromProductInfo now t info)) (networkAddress n)) = Some got"
    using set_get_device[OF assms(2), of "d\<lparr>DevProductInfo := Some got\<rparr>" "networkAddress n"]
    by (simp add: d_def)
  then show ?thesis
    using float_version_bounds[of "prd_NMEA2000Version p"] float_version_210
    by (simp add: got_def p_def)
qed

definition sample_product :: ProductInfo where
  "sample_product = empty_ProductInfo\<lparr>prd_NMEA2000Version := 210, prd_ProductCode := 1234\<rparr>"

theorem product_information_received_witness:
  "\<exists>info. fst (processIsoRequest (SetProductInfo sample_product (claimed_node (NewNode ()) 35))
       \<lparr>irq_Info = header ISORequestPGN 7 35 6, irq_PGN = Some ProductInformationPGN\<rparr>)
       = [\<lparr>ts_pgn = MProductInformation info, ts_dest = 7\<rparr>]
     \<and> prd_NMEA2000Version (the (DevProductInfo (knownDeviceForAddressLocked
          (fst (updateKnownDeviceFromProductInfo 1 no_tables info)) 35))) = 209"
proof -
  let ?n = "SetProductInfo sample_product (claimed_node (NewNode ()) 35)"
  let ?req = "\<lparr>irq_Info = header ISORequestPGN 7 35 6, irq_PGN = Some ProductInformationPGN\<rparr>"
  obtain info where r: "processIsoRequest ?n ?req = ([\<lparr>ts_pgn = MProductInformation info, ts_dest = 7\<rparr>], ?n)"
    by (simp add: processIsoRequest_def SetProductInfo_def claimed_node_def header_def
        ISOAddressClaimPGN_def ProductInformationPGN_def)
  have "networkAddress ?n = 35" "prd_NMEA2000Version (productInfo ?n) = 210"
    by (simp_all add: SetProductInfo_def claimed_node_def sample_product_def)
  with product_information_received[OF r no_tables_ok, of 1] r show ?thesis
    by (auto simp: Let_def)
qed

section \<open>Address conflicts\<close>

text \<open>What processing a claim leaves alone before the conflict is decided.\<close>

lemma claim_update_fields [simp]:
  "networkAddress (publish_update order (updateKnownDeviceFromClaim now n c nm)) = networkAddress n"
  "nd_addressState (publish_update order (updateKnownDeviceFromClaim now n c nm)) = nd_addressState n"
  "node_name (publish_update order (updateKnownDeviceFromClaim now n c nm)) = node_name n"
  "readOnly (publish_update order (updateKnownDeviceFromClaim now n c nm)) = readOnly n"
  "addressClaimed (publish_update order (updateKnownDeviceFromClaim now n c nm)) = addressClaimed n"
  "deviceInfo (publish_update order (updateKnownDeviceFromClaim now n c nm)) = deviceInfo n"
  "deviceInfoSet (publish_update order (updateKnownDeviceFromClaim now n c nm)) = deviceInfoSet n"
  "preferredAddress (publish_update order (updateKnownDeviceFromClaim now n c nm)) = preferredAddress n"
  "written (publish_update order (updateKnownDeviceFromClaim now n c nm)) = written n"
  "pgnIn (publish_update order (updateKnownDeviceFromClaim now n c nm)) = pgnIn n"
  "claimTicker (publish_update order (updateKnownDeviceFromClaim now n c nm)) = claimTicker n"
  by (auto simp: publish_update_def publishDeviceChanges_def updateKnownDeviceFromClaim_def Let_def
      split: option.split if_split)

text \<open>A node that holds an address or is claiming it, with the NAME of its configuration.\<close>

definition holds_address :: "('p, 'a) Node_scheme \<Rightarrow> u8 \<Rightarrow> bool" where
  "holds_address n a \<longleftrightarrow> nd_addressState n \<in> {stateClaiming, stateClaimed} \<and> \<not> readOnly n
     \<and> networkAddress n = a \<and> computeName (deviceInfo n) = Inr (node_name n)"

lemma holds_claim_name:
  "holds_address n a \<Longrightarrow> computeNameFromClaim (buildAddressClaim (deviceInfo n) a) = node_name n"
  using claim_name[of "deviceInfo n" a] by (simp add: holds_address_def computeName_eq)


definition device_node :: "u32 \<Rightarrow> u8 \<Rightarrow> unit Node" where
  "device_node u a = snd (SetDeviceInfo (empty_DeviceInfo\<lparr>dev_UniqueNumber := u\<rparr>) (claimed_node (NewNode ()) a))"


end
