(* ===== verification/Nodeloop.thy ===== *)
theory Nodeloop
  imports Node
begin

text \<open>
  The process loop of a node (\<open>process\<close> in \<open>pkg/node/node.go\<close>) and the calls of the application
  that run beside it, as a step relation. The mutex makes each call and each critical section of
  the loop atomic; the model takes a round of the loop up to its \<open>select\<close>, and the handling of
  one event, as one step each. A running ticker may fire at any time: the 250 ms of a claim and
  the period of the heartbeat are not measured, so that what holds in every reachable state holds
  whatever the timing, also when the loop has been kept busy by a callback.
\<close>

section \<open>The loop\<close>

text \<open>
  \<open>time.NewTicker\<close> panics on a period that is not positive: \<open>None\<close>. \<open>SetHeartbeatInterval\<close> does
  not refuse one.
\<close>

definition claimPeriod :: goduration where
  "claimPeriod = 250 * 1000000"

definition update_claim_ticker :: "('p, 'a) Node_scheme \<Rightarrow> ('p, 'a) Node_scheme \<times> bool" where
  "update_claim_ticker n =
     (if nd_addressState n = stateClaiming
      then (let n = (if claimTicker n \<noteq> None \<and> networkAddress n \<noteq> preferredAddress n
                     then n\<lparr>claimTicker := None\<rparr> else n)
            in if claimTicker n = None
               then (n\<lparr>claimTicker := Some claimPeriod, networkAddress := preferredAddress n\<rparr>, True)
               else (n, False))
      else if claimTicker n \<noteq> None then (n\<lparr>claimTicker := None\<rparr>, False)
      else (n, False))"

definition update_heartbeat_ticker :: "('p, 'a) Node_scheme \<Rightarrow> (('p, 'a) Node_scheme \<times> bool) option" where
  "update_heartbeat_ticker n =
     (if heartbeatEnabled n \<and> addressClaimed n
      then (if heartbeatTicker n = None
            then (if heartbeatInterval n \<le> 0 then None
                  else Some (n\<lparr>heartbeatTicker := Some (heartbeatInterval n)\<rparr>, True))
            else Some (n, False))
      else if heartbeatTicker n \<noteq> None then Some (n\<lparr>heartbeatTicker := None\<rparr>, False)
      else Some (n, False))"

definition loop_top :: "('p, 'a) Node_scheme \<Rightarrow> ('p, 'a) Node_scheme option" where
  "loop_top n =
     (let (n, shouldSendClaim) = update_claim_ticker n
      in case update_heartbeat_ticker n of
           None \<Rightarrow> None
         | Some (n, initialHeartbeat) \<Rightarrow>
             (let n = (if shouldSendClaim then sendAddressClaim n else n);
                  n = (if initialHeartbeat then sendHeartbeat n else n)
              in Some (n\<lparr>phase := Waiting\<rparr>)))"

definition on_receive :: "gotime \<Rightarrow> u64 list \<Rightarrow> message \<Rightarrow> ('p, 'a) Node_scheme \<Rightarrow> ('p, 'a) Node_scheme" where
  "on_receive now order m n =
     (let (rs, n) = processPGN now order n m in (sendProcessResponses rs n)\<lparr>phase := AtTop\<rparr>)"

definition on_claim_tick :: "('p, 'a) Node_scheme \<Rightarrow> ('p, 'a) Node_scheme" where
  "on_claim_tick n =
     (let n = (if nd_addressState n = stateClaiming
               then n\<lparr>nd_addressState := stateClaimed, addressClaimed := True\<rparr> else n)
      in n\<lparr>phase := AtTop\<rparr>)"

definition on_heartbeat_tick :: "('p, 'a) Node_scheme \<Rightarrow> ('p, 'a) Node_scheme" where
  "on_heartbeat_tick n = (sendHeartbeat n)\<lparr>phase := AtTop\<rparr>"

definition on_wake_up :: "('p, 'a) Node_scheme \<Rightarrow> ('p, 'a) Node_scheme" where
  "on_wake_up n = n\<lparr>wakeUp := False, phase := AtTop\<rparr>"

definition on_done :: "('p, 'a) Node_scheme \<Rightarrow> ('p, 'a) Node_scheme" where
  "on_done n = n\<lparr>claimTicker := None, heartbeatTicker := None, phase := NotRunning\<rparr>"

section \<open>Steps\<close>

text \<open>The calls of the application and of the bus.\<close>

inductive call_step :: "('p, 'a) Node_scheme \<Rightarrow> ('p, 'a) Node_scheme \<Rightarrow> bool" where
  start: "call_step n (snd (Start subscribe n))"
| stop_begin: "call_step n (snd (Stop_begin n))"
| stop_end: "started n \<Longrightarrow> ctx n = Some True \<Longrightarrow> phase n = NotRunning \<Longrightarrow> call_step n (Stop_end n)"
| claim: "call_step n (snd (ClaimAddress a n))"
| subscribe: "call_step n (snd (SubscribeToDeviceChanges cb n))"
| unsubscribe: "call_step n (snd (UnsubscribeDeviceChanges i n))"
| app_write: "call_step n (snd (WriteTo publisher m a n))"
| device_info: "call_step n (snd (SetDeviceInfo info n))"
| product_info: "call_step n (SetProductInfo p n)"
| provider: "call_step n (SetConfigurationProvider c n)"
| provider_state: "call_step n (n\<lparr>providerState := q\<rparr>)"
| supported: "call_step n (SetSupportedPGNs tx rx n)"
| interval: "call_step n (SetHeartbeatInterval d n)"
| enable: "call_step n (EnableHeartbeat b n)"
| enqueue: "call_step n (enqueuePgn m n)"

text \<open>The loop; at the \<open>select\<close> any event that is ready may be taken.\<close>

inductive loop_step :: "('p, 'a) Node_scheme \<Rightarrow> ('p, 'a) Node_scheme \<Rightarrow> bool" where
  top: "phase n = AtTop \<Longrightarrow> loop_top n = Some n' \<Longrightarrow> loop_step n n'"
| receive: "phase n = Waiting \<Longrightarrow> pgnIn n = m # ms \<Longrightarrow> distinct order
    \<Longrightarrow> set order = dom (deviceChangeSubscribers n)
    \<Longrightarrow> loop_step n (on_receive now order m (n\<lparr>pgnIn := ms\<rparr>))"
| claim_tick: "phase n = Waiting \<Longrightarrow> claimTicker n \<noteq> None \<Longrightarrow> loop_step n (on_claim_tick n)"
| heartbeat_tick: "phase n = Waiting \<Longrightarrow> heartbeatTicker n \<noteq> None \<Longrightarrow> loop_step n (on_heartbeat_tick n)"
| wake_up: "phase n = Waiting \<Longrightarrow> wakeUp n \<Longrightarrow> loop_step n (on_wake_up n)"
| cancelled: "phase n = Waiting \<Longrightarrow> ctx n = Some True \<Longrightarrow> loop_step n (on_done n)"

inductive node_step :: "('p, 'a) Node_scheme \<Rightarrow> ('p, 'a) Node_scheme \<Rightarrow> bool" where
  call: "call_step n n' \<Longrightarrow> node_step n n'"
| loop: "loop_step n n' \<Longrightarrow> node_step n n'"

inductive reachable :: "'p Node \<Rightarrow> bool" where
  init: "reachable (NewNode p)"
| step: "reachable n \<Longrightarrow> node_step n n' \<Longrightarrow> reachable n'"

section \<open>What every step keeps\<close>

fun claim_source :: "message \<Rightarrow> u8 option" where
  "claim_source (MISOAddressClaim c) = Some (SourceId (clm_Info c))"
| "claim_source _ = None"

text \<open>The source address of the last address claim among the messages written.\<close>

fun last_claim :: "message list \<Rightarrow> u8 option" where
  "last_claim [] = None"
| "last_claim (m # ms) = (case last_claim ms of None \<Rightarrow> claim_source m | Some a \<Rightarrow> Some a)"

lemma last_claim_append:
  "last_claim (xs @ ys) = (case last_claim ys of None \<Rightarrow> last_claim xs | Some a \<Rightarrow> Some a)"
  by (induction xs) (auto split: option.split)

lemma last_claim_same:
  "\<forall>m \<in> set ms. claim_source m = None \<or> claim_source m = Some a \<Longrightarrow> last_claim ms = None \<or> last_claim ms = Some a"
  by (induction ms) (auto split: option.split)

definition node_ok :: "('p, 'a) Node_scheme \<Rightarrow> bool" where
  "node_ok n \<longleftrightarrow> (readOnly n \<longleftrightarrow> nd_addressState n = stateUnclaimed)
     \<and> (addressClaimed n \<longrightarrow> nd_addressState n \<in> {stateClaiming, stateClaimed})
     \<and> (nd_addressState n = stateClaimed \<longrightarrow> addressClaimed n)
     \<and> (nd_addressState n \<in> {stateUnclaimed, stateLost} \<longrightarrow> networkAddress n = 255)
     \<and> (deviceInfoSet n \<longrightarrow> computeName (deviceInfo n) = Inr (node_name n))
     \<and> (\<not> readOnly n \<longrightarrow> deviceInfoSet n)
     \<and> length (pgnIn n) \<le> nodePGNQueueSize
     \<and> (started n \<longleftrightarrow> ctx n \<noteq> None) \<and> (phase n \<noteq> NotRunning \<longrightarrow> started n)
     \<and> (phase n = NotRunning \<longrightarrow> claimTicker n = None \<and> heartbeatTicker n = None)
     \<and> (networkAddress n \<noteq> 255 \<longrightarrow> last_claim (written n) = Some (networkAddress n))"

text \<open>What a step may write: only unless read-only, from the node's address, and nothing but claims
  without having claimed it.\<close>

definition writes_ok :: "('p, 'a) Node_scheme \<Rightarrow> ('p, 'a) Node_scheme \<Rightarrow> bool" where
  "writes_ok n n' \<longleftrightarrow> (\<exists>ms. written n' = written n @ ms \<and> (\<forall>m \<in> set ms. \<not> readOnly n
     \<and> (\<exists>i. msg_Info m = Some i \<and> SourceId i = networkAddress n')
     \<and> ((\<exists>c. m = MISOAddressClaim c) \<or> addressClaimed n)))"

lemma writes_ok_none: "written n' = written n \<Longrightarrow> writes_ok n n'"
  by (simp add: writes_ok_def)

lemma claim_source_info:
  "msg_Info m = Some i \<Longrightarrow> SourceId i = a \<Longrightarrow> claim_source m = None \<or> claim_source m = Some a"
  by (cases m) auto

text \<open>Messages from the node's own address do not disturb its last claim.\<close>

lemma last_claim_writes:
  assumes "\<forall>m \<in> set ms. \<exists>i. msg_Info m = Some i \<and> SourceId i = a" and "last_claim old = Some a"
  shows "last_claim (old @ ms) = Some a"
proof -
  have "\<forall>m \<in> set ms. claim_source m = None \<or> claim_source m = Some a"
    using assms(1) claim_source_info by blast
  from last_claim_same[OF this] assms(2) show ?thesis by (auto simp: last_claim_append)
qed

text \<open>The device updates touch the three tables and the deliveries only.\<close>

definition devices_only :: "('p, 'a) Node_scheme \<Rightarrow> ('p, 'a) Node_scheme \<Rightarrow> bool" where
  "devices_only n n' \<longleftrightarrow> (\<exists>k a u d. n' = n\<lparr>knownDevices := k, knownDeviceNamesByAddress := a,
     unknownKnownDevicesByAddress := u, delivered := d\<rparr>)"

lemma set_device_more [simp]:
  "DeviceTables.more (setKnownDeviceForAddressLocked t a d) = DeviceTables.more t"
  by (simp add: setKnownDeviceForAddressLocked_def)

lemma update_more:
  "DeviceTables.more (fst (updateKnownDeviceFromClaim now t c nm)) = DeviceTables.more t"
  "DeviceTables.more (fst (updateKnownDeviceFromProductInfo now t p)) = DeviceTables.more t"
  "DeviceTables.more (fst (updateKnownDeviceFromConfigurationInfo now t ci)) = DeviceTables.more t"
  "DeviceTables.more (fst (updateKnownDeviceFromPgnList now t l)) = DeviceTables.more t"
  by (auto simp: updateKnownDeviceFromClaim_def updateKnownDeviceFromProductInfo_def
      updateKnownDeviceFromConfigurationInfo_def updateKnownDeviceFromPgnList_def Let_def
      split: option.split if_split)

lemma devices_only_more:
  assumes "DeviceTables.more (fst r) = DeviceTables.more n"
  shows "devices_only n (publish_update order r)"
proof -
  obtain t cs where r: "r = (t, cs)" by (cases r)
  have t: "t = n\<lparr>knownDevices := knownDevices t, knownDeviceNamesByAddress := knownDeviceNamesByAddress t,
      unknownKnownDevicesByAddress := unknownKnownDevicesByAddress t\<rparr>"
    using assms r by (cases t; cases n) simp
  show ?thesis
    unfolding devices_only_def publish_update_def publishDeviceChanges_def Let_def r
    by (rule exI[of _ "knownDevices t"], rule exI[of _ "knownDeviceNamesByAddress t"],
        rule exI[of _ "unknownKnownDevicesByAddress t"], rule exI) (subst t, simp)
qed

lemmas update_devices_only = update_more[THEN devices_only_more]

section \<open>Single steps keep it\<close>

definition keeps :: "('p, 'a) Node_scheme \<Rightarrow> ('p, 'a) Node_scheme \<Rightarrow> bool" where
  "keeps n n' \<longleftrightarrow> (node_ok n \<longrightarrow> node_ok n' \<and> writes_ok n n')"

lemma keeps_silent: "(node_ok n \<Longrightarrow> node_ok n') \<Longrightarrow> written n' = written n \<Longrightarrow> keeps n n'"
  by (auto simp: keeps_def writes_ok_none)

text \<open>The invariant reads the control part of the state only.\<close>

definition control where
  "control n = (readOnly n, nd_addressState n, addressClaimed n, networkAddress n, deviceInfoSet n,
     deviceInfo n, node_name n, pgnIn n, started n, ctx n, phase n, claimTicker n, heartbeatTicker n,
     written n)"

lemma control_node_ok: "control n' = control n \<Longrightarrow> node_ok n' = node_ok n"
  by (simp add: control_def node_ok_def)

lemma keeps_control:
  assumes "control n' = control n"
  shows "keeps n n'"
proof (rule keeps_silent)
  show "node_ok n \<Longrightarrow> node_ok n'" by (simp only: control_node_ok[OF assms])
  show "written n' = written n" using assms by (simp add: control_def)
qed

lemma keeps_devices_only:
  assumes "devices_only n n'"
  shows "keeps n n'"
proof -
  from assms obtain k a u d where "n' = n\<lparr>knownDevices := k, knownDeviceNamesByAddress := a,
     unknownKnownDevicesByAddress := u, delivered := d\<rparr>" unfolding devices_only_def by blast
  then show ?thesis by (intro keeps_control) (simp add: control_def)
qed

lemma keeps_provider:
  assumes "same_but_provider n n'"
  shows "keeps n n'"
proof -
  from assms obtain q where "n' = n\<lparr>providerState := q\<rparr>" unfolding same_but_provider_def by blast
  then show ?thesis by (intro keeps_control) (simp add: control_def)
qed

text \<open>A message from the node's own address, written by a node that is not read-only.\<close>

lemma keeps_publish:
  assumes "\<forall>m \<in> set ms. \<not> readOnly n \<and> (\<exists>i. msg_Info m = Some i \<and> SourceId i = networkAddress n)
     \<and> ((\<exists>c. m = MISOAddressClaim c) \<or> addressClaimed n)"
    and "n' = n\<lparr>written := written n @ ms, heartbeatSeq := s\<rparr>"
  shows "keeps n n'"
proof -
  have "writes_ok n n'" using assms by (auto simp: writes_ok_def)
  moreover have "last_claim (written n @ ms) = Some (networkAddress n)"
    if "last_claim (written n) = Some (networkAddress n)"
    using assms(1) that by (intro last_claim_writes) auto
  ultimately show ?thesis using assms(2) by (auto simp: keeps_def node_ok_def)
qed

lemma heartbeatSeq_same: "n\<lparr>written := w\<rparr> = n\<lparr>written := w, heartbeatSeq := heartbeatSeq n\<rparr>"
  by simp

lemma claim_msg_info [simp]: "SourceId (clm_Info (buildAddressClaim d a)) = a"
  by (simp add: buildAddressClaim_def Let_def)

lemma keeps_sendAddressClaim: "keeps n (sendAddressClaim n)"
proof (cases "readOnly n")
  case True
  then show ?thesis by (auto simp: sendAddressClaim_def intro!: keeps_silent)
next
  case False
  then show ?thesis
    by (intro keeps_publish[where ms = "[MISOAddressClaim (buildAddressClaim (deviceInfo n) (networkAddress n))]"
          and s = "heartbeatSeq n"]) (auto simp: sendAddressClaim_def publish_def)
qed

lemma keeps_node_write: "keeps n (snd (node_write publisher m a n))"
proof (cases "readOnly n \<or> \<not> addressClaimed n \<or> msg_Info m = None")
  case True
  then show ?thesis
    by (auto simp: node_write_def setMessageInfo_def intro!: keeps_silent split: option.split)
next
  case False
  then obtain i where i: "msg_Info m = Some i" by auto
  let ?m = "with_Info m (i\<lparr>SourceId := networkAddress n, TargetId := a\<rparr>)"
  have "msg_Info ?m = Some (i\<lparr>SourceId := networkAddress n, TargetId := a\<rparr>)"
    using i msg_Info_with_Info by simp
  then show ?thesis
    using False i
    by (intro keeps_publish[where ms = "[?m]" and s = "heartbeatSeq n"])
       (auto simp: node_write_def setMessageInfo_def publish_def)
qed

lemma keeps_sendHeartbeat: "keeps n (sendHeartbeat n)"
proof (cases "readOnly n \<or> \<not> addressClaimed n")
  case True
  then have "sendHeartbeat n = n\<lparr>heartbeatSeq := heartbeatSeq n + 1\<rparr>"
    by (auto simp: sendHeartbeat_def Write_def node_write_def Let_def)
  then show ?thesis by (simp add: keeps_control control_def)
next
  case False
  define m where "m = MHeartbeat \<lparr>hbt_Info = header HeartbeatPGN (networkAddress n) 255 0,
            hbt_DataTransmitOffset = None, hbt_SequenceCounter = Some (heartbeatSeq n),
            hbt_Controller1State = ErrorActive, hbt_Controller2State = ErrorActive,
            hbt_EquipmentStatus = Operational\<rparr>"
  from False have "sendHeartbeat n = n\<lparr>written := written n @ [m], heartbeatSeq := heartbeatSeq n + 1\<rparr>"
    by (simp add: sendHeartbeat_def Write_def node_write_def setMessageInfo_def publish_def m_def header_def)
  with False show ?thesis
    by (intro keeps_publish[where ms = "[m]" and s = "heartbeatSeq n + 1"]) (auto simp: m_def header_def)
qed

text \<open>Two steps in a row, as long as the second leaves the address alone.\<close>

lemma keeps_trans:
  assumes "keeps n n'" and "keeps n' n''" and "networkAddress n'' = networkAddress n'"
    and "readOnly n' \<longleftrightarrow> readOnly n" and "addressClaimed n' \<longleftrightarrow> addressClaimed n"
  shows "keeps n n''"
proof -
  have "writes_ok n n''" if "writes_ok n n'" "writes_ok n' n''"
    using that assms(3-5) unfolding writes_ok_def by (auto simp: ball_Un)
  then show ?thesis using assms(1,2) by (auto simp: keeps_def)
qed

section \<open>Events keep it\<close>

lemma send_responses_eq:
  "sendProcessResponses rs n = n\<lparr>written := written n @ (if readOnly n then [] else map ts_pgn rs)\<rparr>"
proof -
  have "foldl (\<lambda>n ts. publish (ts_pgn ts) n) n rs = n\<lparr>written := written n @ map ts_pgn rs\<rparr>" for n :: "('a, 'b) Node_scheme"
    by (induction rs arbitrary: n) (simp_all add: publish_def)
  then show ?thesis by (simp add: sendProcessResponses_def)
qed

lemma keeps_answers:
  assumes "answers_ok n info d rs" and "same_but_provider n n'"
  shows "keeps n (sendProcessResponses rs n')"
proof -
  have k: "networkAddress n' = networkAddress n" "readOnly n' = readOnly n" "addressClaimed n' = addressClaimed n"
    using assms(2) by (auto simp: same_but_provider_def)
  have "keeps n' (sendProcessResponses rs n')"
    unfolding send_responses_eq
  proof (rule keeps_publish[where s = "heartbeatSeq n'"])
    show "\<forall>m \<in> set (if readOnly n' then [] else map ts_pgn rs). \<not> readOnly n'
        \<and> (\<exists>i. msg_Info m = Some i \<and> SourceId i = networkAddress n')
        \<and> ((\<exists>c. m = MISOAddressClaim c) \<or> addressClaimed n')"
      using assms(1) k by (auto simp: answers_ok_def answer_ok_def)
  qed simp
  then show ?thesis
    by (rule keeps_trans[OF keeps_provider[OF assms(2)]]) (simp_all add: send_responses_eq k)
qed

lemma keeps_if: "(b \<Longrightarrow> keeps n x) \<Longrightarrow> (\<not> b \<Longrightarrow> keeps n y) \<Longrightarrow> keeps n (if b then x else y)"
  by simp

lemma keeps_processIsoAddressClaim: "keeps n (processIsoAddressClaim now order n c)"
proof -
  define m where "m = publish_update order (updateKnownDeviceFromClaim now n c (computeNameFromClaim c))"
  have d: "devices_only n m" unfolding m_def by (rule update_devices_only)
  then have k: "networkAddress m = networkAddress n" "readOnly m = readOnly n"
    "addressClaimed m = addressClaimed n" "written m = written n"
    by (auto simp: devices_only_def)
  have ok: "node_ok m" if "node_ok n" using keeps_devices_only[OF d] that by (simp add: keeps_def)
  have p: "processIsoAddressClaim now order n c =
      (if nd_addressState m \<noteq> stateClaiming \<and> nd_addressState m \<noteq> stateClaimed then m
       else if SourceId (clm_Info c) \<noteq> networkAddress m then m
       else if computeNameFromClaim c < node_name m
       then (let n = m\<lparr>addressClaimed := False\<rparr>;
                 n = (if dev_ArbitraryAddressCapable (deviceInfo n)
                      then (case nextAvailableAddressLocked n (networkAddress m) of
                              Some nextAddress \<Rightarrow> n\<lparr>preferredAddress := nextAddress, nd_addressState := stateClaiming\<rparr>
                            | None \<Rightarrow> n\<lparr>nd_addressState := stateLost, networkAddress := 255\<rparr>)
                      else n\<lparr>nd_addressState := stateLost, networkAddress := 255\<rparr>)
             in n\<lparr>wakeUp := True\<rparr>)
       else sendAddressClaim m)" (is "_ = (if ?A then m else if ?B then m else if ?C then ?Y else _)")
    unfolding processIsoAddressClaim_def Let_def m_def ..
  have y: "keeps n ?Y" if "\<not> ?A"
  proof (rule keeps_silent)
    show "written ?Y = written n" using k(4) by (simp add: Let_def split: option.split)
    have "node_ok ?Y" if "node_ok m"
      using that \<open>\<not> ?A\<close> by (auto simp: node_ok_def Let_def split: option.split)
    then show "node_ok n \<Longrightarrow> node_ok ?Y" using ok by blast
  qed
  have s: "keeps n (sendAddressClaim m)"
    by (rule keeps_trans[OF keeps_devices_only[OF d] keeps_sendAddressClaim])
       (simp_all add: sendAddressClaim_def publish_def k)
  show ?thesis
    unfolding p
    by (rule keeps_if, rule keeps_devices_only[OF d], rule keeps_if, rule keeps_devices_only[OF d],
        rule keeps_if, rule y, assumption, rule s)
qed

lemma keeps_processIsoCommandedAddress: "keeps n (processIsoCommandedAddress n c)"
proof -
  have "node_ok (n\<lparr>preferredAddress := a, nd_addressState := stateClaiming, addressClaimed := False\<rparr>)"
    if "node_ok n" "\<not> readOnly n" for a
    using that unfolding node_ok_def by auto
  then have "keeps n (n\<lparr>preferredAddress := a, nd_addressState := stateClaiming, addressClaimed := False\<rparr>)"
    if "\<not> readOnly n" for a
    using that by (intro keeps_silent) simp_all
  moreover have "keeps n n" by (simp add: keeps_control)
  ultimately show ?thesis
    by (auto simp: processIsoCommandedAddress_def split: option.split)
qed

lemma keeps_process:
  assumes "processPGN now order n m = (rs, n')"
  shows "keeps n (sendProcessResponses rs n')"
proof (cases "msg_Info m")
  case None
  then have "m = NotAMessage" by (simp add: msg_Info_None)
  with assms show ?thesis by (auto simp: sendProcessResponses_def intro!: keeps_silent)
next
  case (Some info)
  note a = processPGN_answers[OF assms Some]
  show ?thesis
  proof (cases "answerable m")
    case True
    with a show ?thesis by (intro keeps_answers) auto
  next
    case False
    then have rs: "rs = []" using a by simp
    have "keeps n n'"
      using assms False
      by (cases m) (auto simp: keeps_processIsoAddressClaim keeps_processIsoCommandedAddress
          intro: keeps_silent keeps_devices_only update_devices_only)
    then show ?thesis by (simp add: rs sendProcessResponses_def)
  qed
qed

lemma devices_only_phase: "devices_only n n' \<Longrightarrow> phase n' = phase n"
  by (auto simp: devices_only_def)

lemma process_phase:
  assumes "processPGN now order n m = (rs, n')"
  shows "phase n' = phase n"
proof (cases "answerable m")
  case True
  then obtain info where "msg_Info m = Some info" by (cases m) auto
  from processPGN_answers[OF assms this] True show ?thesis by (auto simp: same_but_provider_def)
next
  case False
  have c: "phase (processIsoAddressClaim now order n c) = phase n" for c
    unfolding processIsoAddressClaim_def Let_def
    by (simp add: sendAddressClaim_def publish_def update_devices_only[THEN devices_only_phase]
        split: option.split)
  from False assms show ?thesis
    by (cases m) (auto simp: c processIsoCommandedAddress_def update_devices_only[THEN devices_only_phase]
        split: option.split)
qed

lemma keeps_on_receive:
  assumes "pgnIn n = m # ms" and "phase n = Waiting"
  shows "keeps n (on_receive now order m (n\<lparr>pgnIn := ms\<rparr>))"
proof -
  obtain rs n' where p: "processPGN now order (n\<lparr>pgnIn := ms\<rparr>) m = (rs, n')"
    by (cases "processPGN now order (n\<lparr>pgnIn := ms\<rparr>) m")
  define n1 where "n1 = sendProcessResponses rs n'"
  have ph: "phase n1 = Waiting"
    using process_phase[OF p] assms(2) by (simp add: n1_def send_responses_eq)
  have k: "keeps (n\<lparr>pgnIn := ms\<rparr>) n1" unfolding n1_def by (rule keeps_process[OF p])
  have "node_ok (n1\<lparr>phase := AtTop\<rparr>) \<and> writes_ok n (n1\<lparr>phase := AtTop\<rparr>)" if "node_ok n"
  proof -
    have "node_ok (n\<lparr>pgnIn := ms\<rparr>)" using that assms(1) by (auto simp: node_ok_def)
    with k have "node_ok n1" "writes_ok (n\<lparr>pgnIn := ms\<rparr>) n1" by (simp_all add: keeps_def)
    then show ?thesis using ph by (auto simp: node_ok_def writes_ok_def)
  qed
  moreover have "on_receive now order m (n\<lparr>pgnIn := ms\<rparr>) = n1\<lparr>phase := AtTop\<rparr>"
    by (simp add: on_receive_def p n1_def)
  ultimately show ?thesis by (simp add: keeps_def)
qed

lemma keeps_loop_top:
  assumes "phase n = AtTop" and "loop_top n = Some n'"
  shows "keeps n n'"
proof -
  obtain n1 sc where u: "update_claim_ticker n = (n1, sc)" by (cases "update_claim_ticker n")
  from assms(2) u obtain n2 ih where h: "update_heartbeat_ticker n1 = Some (n2, ih)"
    by (auto simp: loop_top_def split: option.splits)
  define n3 where "n3 = (if sc then sendAddressClaim n2 else n2)"
  define n4 where "n4 = (if ih then sendHeartbeat n3 else n3)"
  have n': "n' = n4\<lparr>phase := Waiting\<rparr>"
    using assms(2) u h by (auto simp: loop_top_def n3_def n4_def Let_def)
  define ct where "ct = claimTicker n1"
  define na where "na = networkAddress n1"
  define ht where "ht = heartbeatTicker n2"
  have n1: "n1 = n\<lparr>claimTicker := ct, networkAddress := na\<rparr>"
    and na: "if sc then nd_addressState n = stateClaiming else na = networkAddress n"
    using u by (auto simp: ct_def na_def update_claim_ticker_def Let_def split: if_splits)
  have "n2 = n1\<lparr>heartbeatTicker := ht\<rparr>"
    using h by (auto simp: ht_def update_heartbeat_ticker_def split: if_splits)
  with n1 have n2: "n2 = n\<lparr>claimTicker := ct, networkAddress := na, heartbeatTicker := ht\<rparr>" by simp
  have n3: "node_ok n3 \<and> writes_ok n n3" if "node_ok n"
  proof (cases sc)
    case True
    with na that have "\<not> readOnly n" "nd_addressState n = stateClaiming"
      by (auto simp: node_ok_def)
    then show ?thesis
      using True that assms(1)
      by (auto simp: n3_def n2 sendAddressClaim_def publish_def node_ok_def writes_ok_def last_claim_append)
  next
    case False
    with na that assms(1) show ?thesis
      by (auto simp: n3_def n2 node_ok_def writes_ok_def)
  qed
  have k3: "readOnly n3 = readOnly n" "addressClaimed n3 = addressClaimed n" "phase n3 = AtTop"
    using assms(1) by (simp_all add: n3_def n2 sendAddressClaim_def publish_def)
  have hb: "networkAddress (sendHeartbeat k) = networkAddress k \<and> phase (sendHeartbeat k) = phase k" for k :: "('a, 'b) Node_scheme"
    by (simp add: sendHeartbeat_def Write_def node_write_def publish_def Let_def split: sum.split)
  have "keeps n n3" using n3 by (simp add: keeps_def)
  then have "keeps n n4"
    unfolding n4_def using keeps_trans[OF _ keeps_sendHeartbeat, of n n3] k3 hb[of n3] by simp
  moreover have "phase n4 = AtTop" using k3 hb[of n3] by (simp add: n4_def)
  ultimately show ?thesis
    unfolding n' by (auto simp: keeps_def node_ok_def writes_ok_def)
qed

lemma subscribe_to_eq: "\<exists>s. snd (subscribe_to sb ss n) = n\<lparr>subscriptions := s\<rparr>"
proof (induction ss arbitrary: n)
  case Nil
  then show ?case by (auto intro: exI[of _ "subscriptions n"])
next
  case (Cons x ss)
  from Cons[of "n\<lparr>subscriptions := subscriptions n @ [y]\<rparr>" for y] show ?case
    by (auto split: sum.split intro: exI[of _ "subscriptions n"])
qed

lemma keeps_Start: "keeps n (snd (Start sb n))"
proof -
  obtain s where s: "snd (subscribe_to sb managementPGNs n) = n\<lparr>subscriptions := s\<rparr>"
    using subscribe_to_eq by blast
  then show ?thesis
    by (cases "subscribe_to sb managementPGNs n")
       (auto simp: Start_def node_ok_def intro!: keeps_silent split: option.split)
qed

lemma keeps_Stop_begin: "keeps n (snd (Stop_begin n))"
  by (rule keeps_silent) (auto simp: Stop_begin_def node_ok_def)

lemma keeps_Stop_end:
  assumes "phase n = NotRunning"
  shows "keeps n (Stop_end n)"
  by (rule keeps_silent) (use assms in \<open>auto simp: Stop_end_def node_ok_def\<close>)

lemma keeps_ClaimAddress: "keeps n (snd (ClaimAddress a n))"
  by (rule keeps_silent) (auto simp: ClaimAddress_def ReadOnlyAddress_def node_ok_def)

lemma keeps_SetDeviceInfo: "keeps n (snd (SetDeviceInfo info n))"
  by (rule keeps_silent) (auto simp: SetDeviceInfo_def node_ok_def split: sum.split)

lemma keeps_enqueuePgn: "keeps n (enqueuePgn m n)"
proof -
  have "node_ok (n\<lparr>pgnIn := l\<rparr>)" if "node_ok n" "length l \<le> nodePGNQueueSize" for l
    using that unfolding node_ok_def by auto
  then have "keeps n (n\<lparr>pgnIn := l\<rparr>)" if "length l \<le> nodePGNQueueSize" for l
    using that by (intro keeps_silent) simp_all
  then show ?thesis
    by (simp add: enqueuePgn_def keeps_control control_def)
qed

lemma keeps_call_step: "call_step n n' \<Longrightarrow> keeps n n'"
proof (induction rule: call_step.induct)
  case (app_write n publisher m a)
  show ?case by (simp add: WriteTo_def keeps_node_write)
qed (simp_all add: keeps_Start keeps_Stop_begin keeps_Stop_end keeps_ClaimAddress keeps_SetDeviceInfo
  keeps_enqueuePgn keeps_control control_def SubscribeToDeviceChanges_def
  UnsubscribeDeviceChanges_def SetProductInfo_def SetConfigurationProvider_def SetSupportedPGNs_def
  SetHeartbeatInterval_def EnableHeartbeat_def Let_def split: option.split)

lemma keeps_loop_step: "loop_step n n' \<Longrightarrow> keeps n n'"
proof (induction rule: loop_step.induct)
  case (top n n')
  then show ?case by (rule keeps_loop_top)
next
  case (receive n m ms order now)
  then show ?case by (intro keeps_on_receive)
next
  case (heartbeat_tick n)
  have hb: "phase (sendHeartbeat n) = phase n"
    by (simp add: sendHeartbeat_def Write_def node_write_def publish_def Let_def split: sum.split)
  from keeps_sendHeartbeat[of n] heartbeat_tick hb show ?case
    by (auto simp: on_heartbeat_tick_def keeps_def node_ok_def writes_ok_def)
next
  case (claim_tick n)
  show ?case by (rule keeps_silent) (use claim_tick in \<open>auto simp: on_claim_tick_def node_ok_def Let_def\<close>)
next
  case (wake_up n)
  show ?case by (rule keeps_silent) (use wake_up in \<open>auto simp: on_wake_up_def node_ok_def\<close>)
next
  case (cancelled n)
  show ?case by (rule keeps_silent) (use cancelled in \<open>auto simp: on_done_def node_ok_def\<close>)
qed

lemma keeps_node_step: "node_step n n' \<Longrightarrow> keeps n n'"
  by (auto elim!: node_step.cases intro: keeps_call_step keeps_loop_step)

lemma reachable_node_ok: "reachable n \<Longrightarrow> node_ok n"
proof (induction rule: reachable.induct)
  case (init p)
  show ?case by (simp add: NewNode_def node_ok_def)
next
  case (step n n')
  with keeps_node_step[OF step.hyps(2)] show ?case by (simp add: keeps_def)
qed

section \<open>Reachable states\<close>

lemma reachable_call: "reachable n \<Longrightarrow> call_step n n' \<Longrightarrow> reachable n'"
  by (blast intro: reachable.step node_step.call)

lemma reachable_loop: "reachable n \<Longrightarrow> loop_step n n' \<Longrightarrow> reachable n'"
  by (blast intro: reachable.step node_step.loop)

text \<open>A run: a node is configured, told to claim address 35, started, and makes its first round.\<close>

definition demo_claiming :: "unit Node" where
  "demo_claiming = snd (Start (\<lambda>_. Inr 1) (snd (ClaimAddress 35
     (snd (SetDeviceInfo (empty_DeviceInfo\<lparr>dev_UniqueNumber := 5\<rparr>) (NewNode ()))))))"

definition demo_waiting :: "unit Node" where
  "demo_waiting = the (loop_top demo_claiming)"

lemma demo_claiming_simps:
  "phase demo_claiming = AtTop" "nd_addressState demo_claiming = stateClaiming"
  "claimTicker demo_claiming = None" "preferredAddress demo_claiming = 35"
  "readOnly demo_claiming = False" "heartbeatEnabled demo_claiming = False"
  "addressClaimed demo_claiming = False" "heartbeatTicker demo_claiming = None"
  "deviceInfoSet demo_claiming = True"
  by (simp_all add: demo_claiming_def Start_def managementPGNs_def ClaimAddress_def SetDeviceInfo_def
      ReadOnlyAddress_def NewNode_def computeName_def empty_DeviceInfo_def)

lemma demo_top: "loop_top demo_claiming = Some demo_waiting"
  by (simp add: demo_waiting_def loop_top_def update_claim_ticker_def update_heartbeat_ticker_def
      demo_claiming_simps Let_def)

lemma demo_waiting_simps:
  "phase demo_waiting = Waiting" "nd_addressState demo_waiting = stateClaiming"
  "claimTicker demo_waiting = Some claimPeriod" "networkAddress demo_waiting = 35"
  "readOnly demo_waiting = False" "deviceInfoSet demo_waiting = True"
  by (simp_all add: demo_waiting_def loop_top_def update_claim_ticker_def update_heartbeat_ticker_def
      demo_claiming_simps Let_def sendAddressClaim_def publish_def)

lemma demo_reachable: "reachable demo_claiming" "reachable demo_waiting"
proof -
  show r: "reachable demo_claiming"
    unfolding demo_claiming_def
    by (intro reachable_call[OF _ call_step.start] reachable_call[OF _ call_step.claim]
        reachable_call[OF _ call_step.device_info] reachable.init)
  show "reachable demo_waiting"
    by (rule reachable_loop[OF r loop_step.top[OF demo_claiming_simps(1) demo_top]])
qed





section \<open>Claiming\<close>

lemma loop_top_claims:
  assumes "nd_addressState n = stateClaiming" and "claimTicker n = None" and "\<not> readOnly n"
    and "\<not> heartbeatEnabled n"
  shows "loop_top n = Some (n\<lparr>claimTicker := Some claimPeriod, networkAddress := preferredAddress n,
    heartbeatTicker := None,
    written := written n @ [MISOAddressClaim (buildAddressClaim (deviceInfo n) (preferredAddress n))],
    phase := Waiting\<rparr>)"
  using assms
  by (simp add: loop_top_def update_claim_ticker_def update_heartbeat_ticker_def
      sendAddressClaim_def publish_def Let_def)


definition demo_idle :: "unit Node" where
  "demo_idle = (snd (SetDeviceInfo empty_DeviceInfo (NewNode ())))\<lparr>phase := Waiting\<rparr>"


text \<open>
  An address can count as claimed although the node has none. When a node that is
  claiming is made read-only and told to claim again before its loop runs, the ticker of the
  first claim may still fire first: the node then holds the address 255 as claimed, with no claim
  written for it, and writes with it as the source.
\<close>

theorem claimed_without_address:
  "\<exists>n :: unit Node. reachable n \<and> addressClaimed n \<and> networkAddress n = 255
    \<and> (\<forall>publisher m i. msg_Info m = Some i \<longrightarrow> (\<exists>n' m'. snd (Write publisher m n) = n'
         \<and> written n' = written n @ [m'] \<and> msg_Info m' = Some (i\<lparr>SourceId := 255, TargetId := 255\<rparr>)))"
proof -
  define r where "r = snd (ClaimAddress 255 demo_waiting)"
  define c where "c = snd (ClaimAddress 40 r)"
  define n where "n = on_claim_tick c"
  have "reachable c"
    unfolding c_def r_def
    by (intro reachable_call[OF _ call_step.claim] demo_reachable(2))
  have c: "phase c = Waiting" "claimTicker c \<noteq> None" "nd_addressState c = stateClaiming"
    "networkAddress c = 255" "\<not> readOnly c"
    by (simp_all add: c_def r_def ClaimAddress_def ReadOnlyAddress_def demo_waiting_simps)
  have "reachable n"
    unfolding n_def by (rule reachable_loop[OF \<open>reachable c\<close> loop_step.claim_tick[OF c(1,2)]])
  moreover have n: "addressClaimed n" "networkAddress n = 255" "\<not> readOnly n"
    using c by (simp_all add: n_def on_claim_tick_def Let_def)
  moreover have "\<exists>n' m'. snd (Write publisher m n) = n' \<and> written n' = written n @ [m']
      \<and> msg_Info m' = Some (i\<lparr>SourceId := 255, TargetId := 255\<rparr>)" if "msg_Info m = Some i" for publisher m i
    using n that msg_Info_with_Info[of m "i\<lparr>SourceId := 255, TargetId := 255\<rparr>"]
    by (simp add: Write_def node_write_def setMessageInfo_def publish_def)
  ultimately show ?thesis by blast
qed

theorem claimed_without_address_witness:
  "\<exists>n :: unit Node. reachable n \<and> addressClaimed n \<and> networkAddress n = 255"
  using claimed_without_address by blast

text \<open>A period that is not positive stops the loop with a panic as soon as a heartbeat is due.\<close>

lemma loop_top_panics:
  "loop_top n = None \<longleftrightarrow> heartbeatEnabled n \<and> addressClaimed n \<and> heartbeatTicker n = None
     \<and> heartbeatInterval n \<le> 0"
  by (auto simp: loop_top_def update_claim_ticker_def update_heartbeat_ticker_def Let_def
      split: option.splits)

end
