(* ===== verification/Msgqueue.thy ===== *)
theory Msgqueue
  imports Canadapter
begin

text \<open>
  The queue of received messages (\<open>internal/n2kinternal/n2kinternal.go\<close>): a slice whose front
  moves, compacted from time to time. The interface of a queue is stated first, with what its
  clients rely on; the queue of the service is an instance of it, and its clients see a list.
\<close>

section \<open>Queues\<close>

text \<open>
  A queue stands for the list of its items; \<open>enq\<close> may refuse, \<open>deq\<close> takes the first, and
  \<open>run\<close> performs a list of operations, an item for an attempt to enqueue it and \<open>None\<close> for an
  attempt to dequeue.
\<close>

locale fifo =
  fixes items :: "'q \<Rightarrow> 'a list"
    and ok :: "'q \<Rightarrow> bool"
    and enq :: "'e \<Rightarrow> 'q \<Rightarrow> bool \<times> 'q"
    and deq :: "'q \<Rightarrow> ('a \<times> 'q) option"
    and item :: "'e \<Rightarrow> 'a"
  assumes enq_ok: "ok q \<Longrightarrow> ok (snd (enq e q))"
    and enq_items: "ok q \<Longrightarrow> items (snd (enq e q)) = (if fst (enq e q) then items q @ [item e] else items q)"
    and deq_None: "ok q \<Longrightarrow> deq q = None \<longleftrightarrow> items q = []"
    and deq_Some: "ok q \<Longrightarrow> deq q = Some (x, q') \<Longrightarrow> items q = x # items q' \<and> ok q'"
begin

fun run :: "'e option list \<Rightarrow> 'q \<Rightarrow> 'a list \<times> 'a list \<times> 'q" where
  "run [] q = ([], [], q)"
| "run (Some e # ops) q =
     (case enq e q of (acc, q') \<Rightarrow>
        (case run ops q' of (ins, outs, q'') \<Rightarrow> (if acc then item e # ins else ins, outs, q'')))"
| "run (None # ops) q =
     (case deq q of
        None \<Rightarrow> run ops q
      | Some (x, q') \<Rightarrow> (case run ops q' of (ins, outs, q'') \<Rightarrow> (ins, x # outs, q'')))"

text \<open>First in, first out: what went in before and since is what came out and what is left.\<close>

lemma run_fifo:
  assumes "ok q" and "run ops q = (ins, outs, q')"
  shows "items q @ ins = outs @ items q' \<and> ok q'"
  using assms
proof (induction ops arbitrary: q ins outs q')
  case (Cons op ops)
  show ?case
  proof (cases op)
    case (Some e)
    obtain acc q1 where e: "enq e q = (acc, q1)" by (cases "enq e q")
    obtain ins' outs' q2 where r: "run ops q1 = (ins', outs', q2)" by (cases "run ops q1")
    have "items q1 = (if acc then items q @ [item e] else items q)" "ok q1"
      using enq_items[OF Cons.prems(1), of e] enq_ok[OF Cons.prems(1), of e] e by simp_all
    with Cons.IH[OF this(2) r] Cons.prems(2) Some e r show ?thesis by (auto split: if_splits)
  next
    case None
    show ?thesis
    proof (cases "deq q")
      case None
      with Cons.IH[OF Cons.prems(1)] Cons.prems(2) \<open>op = None\<close> show ?thesis by simp
    next
      case (Some xq)
      obtain x q1 where d: "deq q = Some (x, q1)" using Some by (cases xq) simp
      obtain ins' outs' q2 where r: "run ops q1 = (ins', outs', q2)" by (cases "run ops q1")
      from deq_Some[OF Cons.prems(1) d] have "items q = x # items q1" "ok q1" by simp_all
      with Cons.IH[OF this(2) r] Cons.prems(2) None d r show ?thesis by auto
    qed
  qed
qed simp

end

section \<open>The queue of the service\<close>

text \<open>
  A nil message is \<open>None\<close>, the zero time year 1. The slice, the index of its front, and the
  notification channel of capacity one.
\<close>

record queuedMessage =
  qm_message :: "message option"
  enqueuedAt :: gotime

definition zero_time :: gotime where
  "zero_time = - 62135596800000000000"

record messageQueue =
  messages :: "queuedMessage list"
  mq_head :: nat
  notified :: bool

record messageQueueStats =
  st_depth :: int
  st_oldestAge :: goduration
  st_lag :: goduration

definition newMessageQueue :: messageQueue where
  "newMessageQueue = \<lparr>messages = [], mq_head = 0, notified = False\<rparr>"

definition maxDuration :: "goduration \<Rightarrow> goduration \<Rightarrow> goduration" where
  "maxDuration a b = (if a > b then a else b)"

definition depthLocked :: "messageQueue \<Rightarrow> int" where
  "depthLocked q = int (length (messages q)) - int (mq_head q)"

definition oldestAgeLocked :: "messageQueue \<Rightarrow> gotime \<Rightarrow> goduration" where
  "oldestAgeLocked q now =
     (if depthLocked q = 0 then 0
      else (let age = now - enqueuedAt (messages q ! mq_head q) in if age < 0 then 0 else age))"

definition statsLocked :: "messageQueue \<Rightarrow> gotime \<Rightarrow> goduration \<Rightarrow> messageQueueStats" where
  "statsLocked q now processingAge =
     (let oldestAge = oldestAgeLocked q now
      in \<lparr>st_depth = depthLocked q, st_oldestAge = oldestAge, st_lag = maxDuration oldestAge processingAge\<rparr>)"

definition mq_stats :: "messageQueue \<Rightarrow> gotime \<Rightarrow> messageQueueStats" where
  "mq_stats q now = statsLocked q now 0"

definition signal :: "messageQueue \<Rightarrow> messageQueue" where
  "signal q = q\<lparr>notified := True\<rparr>"

definition enqueueIfCurrent :: "messageQueue \<Rightarrow> queuedMessage \<Rightarrow> goduration \<Rightarrow> goduration
    \<Rightarrow> bool \<times> messageQueueStats \<times> messageQueue" where
  "enqueueIfCurrent q message maxAge processingAge =
     (let oldestAge = oldestAgeLocked q (enqueuedAt message);
          lag = maxDuration oldestAge processingAge
      in if lag > maxAge
         then (False, \<lparr>st_depth = depthLocked q, st_oldestAge = oldestAge, st_lag = lag\<rparr>, q)
         else (let q = q\<lparr>messages := messages q @ [message]\<rparr>
               in (True, statsLocked q (enqueuedAt message) processingAge, signal q)))"

definition compactLocked :: "messageQueue \<Rightarrow> messageQueue" where
  "compactLocked q =
     (if mq_head q = 0 then q
      else if mq_head q < 1024 \<and> mq_head q * 2 < length (messages q) then q
      else q\<lparr>messages := drop (mq_head q) (messages q), mq_head := 0\<rparr>)"

text \<open>
  One round of \<open>dequeue\<close>: the first message, or \<open>None\<close> when it has to wait for a notification or
  for its context.
\<close>

definition try_dequeue :: "messageQueue \<Rightarrow> (queuedMessage \<times> messageQueue) option" where
  "try_dequeue q =
     (if depthLocked q > 0
      then Some (messages q ! mq_head q,
             compactLocked (q\<lparr>messages := (messages q)[mq_head q := \<lparr>qm_message = None, enqueuedAt = zero_time\<rparr>],
                              mq_head := mq_head q + 1\<rparr>))
      else None)"

definition discard :: "messageQueue \<Rightarrow> int \<times> messageQueue" where
  "discard q = (depthLocked q, q\<lparr>messages := [], mq_head := 0\<rparr>)"

section \<open>The list it stands for\<close>

definition mq_items :: "messageQueue \<Rightarrow> queuedMessage list" where
  "mq_items q = drop (mq_head q) (messages q)"

text \<open>The front is inside the slice, and the slots before it are fewer than 1024 and than the rest.\<close>

definition mq_ok :: "messageQueue \<Rightarrow> bool" where
  "mq_ok q \<longleftrightarrow> mq_head q \<le> length (messages q)
     \<and> (mq_head q = 0 \<or> mq_head q < 1024 \<and> mq_head q * 2 < length (messages q))"

lemma depth_items: "mq_ok q \<Longrightarrow> depthLocked q = int (length (mq_items q))"
  by (simp add: depthLocked_def mq_items_def mq_ok_def)

lemma compact_ok:
  assumes "mq_head q \<le> length (messages q)"
  shows "mq_ok (compactLocked q)" and "mq_items (compactLocked q) = mq_items q"
  using assms by (auto simp: compactLocked_def mq_ok_def mq_items_def)

definition mq_enq :: "queuedMessage \<times> goduration \<times> goduration \<Rightarrow> messageQueue \<Rightarrow> bool \<times> messageQueue" where
  "mq_enq e q = (case e of (m, maxAge, processingAge) \<Rightarrow>
     (case enqueueIfCurrent q m maxAge processingAge of (accepted, _, q) \<Rightarrow> (accepted, q)))"

lemma mq_enq_cases:
  assumes "mq_ok q" and "mq_enq (m, a, p) q = (accepted, q')"
  shows "mq_ok q' \<and> mq_items q' = (if accepted then mq_items q @ [m] else mq_items q)"
  using assms
  by (auto simp: mq_enq_def enqueueIfCurrent_def Let_def signal_def mq_ok_def mq_items_def split: if_splits)

lemma try_dequeue_None: "mq_ok q \<Longrightarrow> try_dequeue q = None \<longleftrightarrow> mq_items q = []"
  by (auto simp: try_dequeue_def depth_items)

lemma try_dequeue_Some:
  assumes "mq_ok q" and "try_dequeue q = Some (m, q')"
  shows "mq_items q = m # mq_items q' \<and> mq_ok q'"
proof -
  let ?z = "\<lparr>qm_message = None, enqueuedAt = zero_time\<rparr>"
  let ?q = "q\<lparr>messages := (messages q)[mq_head q := ?z], mq_head := mq_head q + 1\<rparr>"
  have d: "mq_head q < length (messages q)" "m = messages q ! mq_head q" "q' = compactLocked ?q"
    using assms by (auto simp: try_dequeue_def depthLocked_def split: if_splits)
  have "mq_items ?q = drop (Suc (mq_head q)) (messages q)" by (simp add: mq_items_def)
  moreover have "mq_ok q'" "mq_items q' = mq_items ?q"
    unfolding d(3) using d(1) by (auto intro!: compact_ok)
  ultimately show ?thesis
    using d(1,2) by (simp add: mq_items_def Cons_nth_drop_Suc)
qed

interpretation mq: fifo mq_items mq_ok mq_enq try_dequeue fst
proof (unfold_locales, goal_cases)
  case (1 q e)
  then show ?case using mq_enq_cases[of q] by (cases e; cases "mq_enq e q") fastforce
next
  case (2 q e)
  then show ?case using mq_enq_cases[of q] by (cases e; cases "mq_enq e q") fastforce
next
  case (3 q)
  then show ?case by (rule try_dequeue_None)
next
  case (4 q x q')
  then show ?case by (rule try_dequeue_Some)
qed

text \<open>
  Claim C37. The queue of received messages is first in, first out, and keeps its memory small:
  after any mixture of attempts to enqueue and to dequeue, the messages accepted are those taken
  out, in the same order, followed by those still queued; and the slice it keeps has fewer than
  1024 slots more than messages, and no more than twice as many.
\<close>

theorem queue_fifo:
  assumes "mq.run ops newMessageQueue = (accepted, taken, q)"
  shows "accepted = taken @ mq_items q
    \<and> length (messages q) < length (mq_items q) + 1024
    \<and> length (messages q) \<le> 2 * length (mq_items q)"
proof -
  have "mq_ok newMessageQueue" and e: "mq_items newMessageQueue = []"
    by (simp_all add: newMessageQueue_def mq_ok_def mq_items_def)
  from mq.run_fifo[OF this(1) assms] e have f: "accepted = taken @ mq_items q" "mq_ok q" by simp_all
  then show ?thesis by (auto simp: mq_ok_def mq_items_def)
qed

theorem queue_fifo_witness:
  "\<exists>accepted taken q. mq.run [Some (\<lparr>qm_message = Some OtherMessage, enqueuedAt = 5\<rparr>, 10, 0), None] newMessageQueue
     = (accepted, taken, q) \<and> accepted = taken @ mq_items q \<and> length accepted = 1"
proof -
  let ?ops = "[Some (\<lparr>qm_message = Some OtherMessage, enqueuedAt = 5\<rparr>, 10, 0), None]"
  obtain accepted taken q where r: "mq.run ?ops newMessageQueue = (accepted, taken, q)"
    by (cases "mq.run ?ops newMessageQueue") auto
  from queue_fifo[OF r] have "accepted = taken @ mq_items q" by blast
  moreover have "length accepted = 1"
    using r by (auto simp: mq_enq_def enqueueIfCurrent_def oldestAgeLocked_def depthLocked_def
        newMessageQueue_def maxDuration_def Let_def split: prod.splits option.splits)
  ultimately show ?thesis using r by blast
qed

end
