(* ===== verification/Metrics.thy ===== *)
theory Metrics
  imports Canadapter "HOL-Library.Product_Lexorder" "HOL-Library.List_Lexorder" "HOL-Library.Multiset"
begin

text \<open>
  The processing metrics of the service (\<open>internal/n2kinternal/processing_metrics.go\<close>): counts
  and durations of a window that a snapshot closes. A Go map that is iterated is an association
  list in the order of the iteration, which Go does not specify: the results are shown not to
  depend on it. The log fields with floating point numbers are not modelled: of the callbacks that
  took most of the time a snapshot has the items, not their text.
\<close>

section \<open>Durations\<close>

record durationStats =
  ds_count :: u64
  ds_total :: goduration
  ds_max :: goduration

definition no_durations :: durationStats where
  "no_durations = \<lparr>ds_count = 0, ds_total = 0, ds_max = 0\<rparr>"

definition ds_observe :: "goduration \<Rightarrow> durationStats \<Rightarrow> durationStats" where
  "ds_observe d s =
     (let s = s\<lparr>ds_count := ds_count s + 1, ds_total := ds_total s + d\<rparr>
      in if d > ds_max s then s\<lparr>ds_max := d\<rparr> else s)"

definition maxInt64 :: u64 where "maxInt64 = 2 ^ 63 - 1"

text \<open>Integer division of Go truncates towards 0.\<close>

definition ds_avg :: "durationStats \<Rightarrow> goduration" where
  "ds_avg s = (if ds_count s = 0 then 0 else if ds_count s > maxInt64 then 0
     else sgn (ds_total s) * (\<bar>ds_total s\<bar> div int (unat (ds_count s))))"

section \<open>The metrics\<close>

definition processingMetricsTopCount :: nat where "processingMetricsTopCount = 5"

record processingMetrics =
  windowStart :: gotime
  frameStats :: durationStats
  packetStats :: durationStats
  subscriberStats :: durationStats
  callbackStats :: durationStats
  queueWaitStats :: durationStats
  pm_pgns :: "(u32 \<times> u64) list"
  pm_callbacks :: "(gostring \<times> durationStats) list"
  inFlightCallback :: gostring
  inFlightCallbackStart :: "gotime option"

record processingMetricsSnapshot =
  sn_interval :: goduration
  sn_frameStats :: durationStats
  sn_packetStats :: durationStats
  sn_subscriberStats :: durationStats
  sn_callbackStats :: durationStats
  sn_queueWaitStats :: durationStats
  sn_topPGNs :: string
  sn_topCallbacks :: "(gostring \<times> durationStats) list"
  sn_inFlightCallback :: gostring
  sn_inFlightCallbackAge :: goduration

definition newProcessingMetrics :: "gotime \<Rightarrow> processingMetrics" where
  "newProcessingMetrics now = \<lparr>windowStart = now, frameStats = no_durations,
     packetStats = no_durations, subscriberStats = no_durations, callbackStats = no_durations,
     queueWaitStats = no_durations, pm_pgns = [], pm_callbacks = [], inFlightCallback = [],
     inFlightCallbackStart = None\<rparr>"

text \<open>\<open>m[k] = f(m[k])\<close>, where a missing entry reads as \<open>z\<close>.\<close>

fun upd_entry :: "'v \<Rightarrow> ('v \<Rightarrow> 'v) \<Rightarrow> 'k \<Rightarrow> ('k \<times> 'v) list \<Rightarrow> ('k \<times> 'v) list" where
  "upd_entry z f k [] = [(k, f z)]"
| "upd_entry z f k ((k', v) # m) = (if k' = k then (k, f v) # m else (k', v) # upd_entry z f k m)"

definition observeFrame :: "u32 \<Rightarrow> bool \<Rightarrow> goduration \<Rightarrow> processingMetrics \<Rightarrow> processingMetrics" where
  "observeFrame p hasPGN d m =
     (let m = m\<lparr>frameStats := ds_observe d (frameStats m)\<rparr>
      in if hasPGN then m\<lparr>pm_pgns := upd_entry 0 (\<lambda>c. c + 1) p (pm_pgns m)\<rparr> else m)"

definition observePacket :: "goduration \<Rightarrow> processingMetrics \<Rightarrow> processingMetrics" where
  "observePacket d m = m\<lparr>packetStats := ds_observe d (packetStats m)\<rparr>"

definition observeSubscriber :: "goduration \<Rightarrow> processingMetrics \<Rightarrow> processingMetrics" where
  "observeSubscriber d m = m\<lparr>subscriberStats := ds_observe d (subscriberStats m)\<rparr>"

definition callback_key :: "gostring \<Rightarrow> gostring \<Rightarrow> gostring" where
  "callback_key structName callbackName = structName @ 47 # callbackName"

definition observeCallback :: "gostring \<Rightarrow> gostring \<Rightarrow> goduration \<Rightarrow> processingMetrics \<Rightarrow> processingMetrics" where
  "observeCallback structName callbackName d m =
     m\<lparr>callbackStats := ds_observe d (callbackStats m),
       pm_callbacks := upd_entry no_durations (ds_observe d) (callback_key structName callbackName)
         (pm_callbacks m)\<rparr>"

definition callbackStarted :: "gostring \<Rightarrow> gostring \<Rightarrow> gotime \<Rightarrow> processingMetrics \<Rightarrow> processingMetrics" where
  "callbackStarted structName callbackName now m =
     m\<lparr>inFlightCallback := callback_key structName callbackName, inFlightCallbackStart := Some now\<rparr>"

definition callbackFinished :: "processingMetrics \<Rightarrow> processingMetrics" where
  "callbackFinished m = m\<lparr>inFlightCallback := [], inFlightCallbackStart := None\<rparr>"

definition observeQueueWait :: "goduration \<Rightarrow> processingMetrics \<Rightarrow> processingMetrics" where
  "observeQueueWait d m = m\<lparr>queueWaitStats := ds_observe d (queueWaitStats m)\<rparr>"

text \<open>The items with the highest counts, those with equal counts by PGN.\<close>

definition top_items :: "(u32 \<times> u64) list \<Rightarrow> nat \<Rightarrow> (u32 \<times> u64) list" where
  "top_items counts limit =
     take limit (sort_key (\<lambda>(p, c). (- int (unat c), unat p)) counts)"

fun join_parts :: "string \<Rightarrow> string list \<Rightarrow> string" where
  "join_parts s [] = []"
| "join_parts s [p] = p"
| "join_parts s (p # q # ps) = p @ s @ join_parts s (q # ps)"

definition formatTopPGNs :: "(u32 \<times> u64) list \<Rightarrow> nat \<Rightarrow> string" where
  "formatTopPGNs counts limit =
     join_parts '','' (map (\<lambda>(p, c). decimal (unat p) @ ''='' @ decimal (unat c)) (top_items counts limit))"

text \<open>The callbacks with the highest totals, those with equal totals by name.\<close>

definition formatTopCallbacks :: "(gostring \<times> durationStats) list \<Rightarrow> nat \<Rightarrow> (gostring \<times> durationStats) list" where
  "formatTopCallbacks callbacks limit =
     take limit (sort_key (\<lambda>(name, stats). (- ds_total stats, name)) callbacks)"

definition snapshot :: "gotime \<Rightarrow> processingMetrics \<Rightarrow> processingMetricsSnapshot \<times> processingMetrics" where
  "snapshot now m =
     (\<lparr>sn_interval = now - windowStart m, sn_frameStats = frameStats m, sn_packetStats = packetStats m,
       sn_subscriberStats = subscriberStats m, sn_callbackStats = callbackStats m,
       sn_queueWaitStats = queueWaitStats m,
       sn_topPGNs = formatTopPGNs (pm_pgns m) processingMetricsTopCount,
       sn_topCallbacks = formatTopCallbacks (pm_callbacks m) processingMetricsTopCount,
       sn_inFlightCallback = inFlightCallback m,
       sn_inFlightCallbackAge = (case inFlightCallbackStart m of None \<Rightarrow> 0 | Some t \<Rightarrow> now - t)\<rparr>,
      m\<lparr>windowStart := now, frameStats := no_durations, packetStats := no_durations,
        subscriberStats := no_durations, callbackStats := no_durations,
        queueWaitStats := no_durations, pm_pgns := [], pm_callbacks := []\<rparr>)"

definition messagePGN :: "gotime \<Rightarrow> message \<Rightarrow> u32 \<times> bool" where
  "messagePGN now m =
     (case m of
        FrameMessage f \<Rightarrow> (hdr_PGN (DecodeCanID now (frame_ID f)), True)
      | OtherMessage \<Rightarrow> (0, False))"

section \<open>A window\<close>

lemma map_of_upd_entry:
  "map_of (upd_entry z f k m) k' =
     (if k' = k then Some (case map_of m k of None \<Rightarrow> f z | Some v \<Rightarrow> f v) else map_of m k')"
  by (induction m) auto

lemma keys_upd_entry:
  "fst ` set (upd_entry z f k m) = insert k (fst ` set m)"
proof (induction m)
  case (Cons e m)
  then show ?case by (cases e) (simp add: insert_commute)
qed simp

lemma distinct_upd_entry: "distinct (map fst m) \<Longrightarrow> distinct (map fst (upd_entry z f k m))"
proof (induction m)
  case (Cons e m)
  have "fst e \<notin> fst ` set (upd_entry z f k m)" if "fst e \<noteq> k"
    using Cons.prems that by (simp add: keys_upd_entry)
  with Cons show ?case by (cases e) auto
qed simp

type_synonym frame_obs = "u32 \<times> bool \<times> goduration"

definition observe_frames :: "frame_obs list \<Rightarrow> processingMetrics \<Rightarrow> processingMetrics" where
  "observe_frames fs m = foldl (\<lambda>m (p, h, d). observeFrame p h d m) m fs"

definition pgn_count :: "u32 \<Rightarrow> frame_obs list \<Rightarrow> nat" where
  "pgn_count p fs = length (filter (\<lambda>(q, h, _). h \<and> q = p) fs)"

definition durations :: "frame_obs list \<Rightarrow> goduration list" where
  "durations fs = map (snd \<circ> snd) fs"

text \<open>What the frames of a window add up to.\<close>

definition window_ok :: "frame_obs list \<Rightarrow> processingMetrics \<Rightarrow> bool" where
  "window_ok fs m \<longleftrightarrow> ds_count (frameStats m) = of_nat (length fs)
     \<and> ds_total (frameStats m) = sum_list (durations fs)
     \<and> (\<forall>d \<in> set (durations fs). d \<le> ds_max (frameStats m))
     \<and> ds_max (frameStats m) \<in> insert 0 (set (durations fs))
     \<and> distinct (map fst (pm_pgns m))
     \<and> (\<forall>p. map_of (pm_pgns m) p
          = (if pgn_count p fs = 0 then None else Some (of_nat (pgn_count p fs))))"

lemma observeFrame_window:
  assumes "window_ok fs m"
  shows "window_ok (fs @ [(p, h, d)]) (observeFrame p h d m)"
  using assms
  by (auto simp: window_ok_def observeFrame_def ds_observe_def durations_def pgn_count_def Let_def
      map_of_upd_entry distinct_upd_entry add.commute)

lemma observe_frames_window: "window_ok fs0 m \<Longrightarrow> window_ok (fs0 @ fs) (observe_frames fs m)"
proof (induction fs arbitrary: fs0 m)
  case (Cons f fs)
  obtain p h d where f: "f = (p, h, d)" by (cases f)
  from Cons.IH[OF observeFrame_window[OF Cons.prems, of p h d]] show ?case
    by (simp add: f observe_frames_def)
qed (simp add: observe_frames_def)

lemma snapshot_window: "window_ok [] (snd (snapshot now m))"
  by (simp add: window_ok_def snapshot_def no_durations_def durations_def pgn_count_def)

text \<open>The order of the map does not matter, since no two items have the same PGN.\<close>

lemma top_items_mset:
  assumes "mset counts = mset counts'" and "distinct (map fst counts)"
  shows "top_items counts limit = top_items counts' limit"
proof -
  let ?k = "\<lambda>(p :: u32, c :: u64). (- int (unat c), unat p)"
  have "inj_on fst (set counts)" using assms(2) by (simp add: distinct_map)
  then have "inj_on ?k (set counts)" 
    by (auto simp: inj_on_def dest!: word_unat_eq_iff[THEN iffD2] word_uint_eq_iff[THEN iffD2])
  then have "sort_key ?k counts = sort_key ?k counts'"
    using assms(1) by (intro sort_key_inj_key_eq) simp_all
  then show ?thesis by (simp add: top_items_def)
qed

lemma top_items_highest:
  assumes "x \<in> set (top_items counts limit)" and "y \<in> set counts" and "y \<notin> set (top_items counts limit)"
  shows "snd y \<le> snd x"
proof -
  let ?k = "\<lambda>(p :: u32, c :: u64). (- int (unat c), unat p)"
  let ?s = "sort_key ?k counts"
  have "y \<in> set (drop limit ?s)"
    using assms(2,3) set_append[of "take limit ?s" "drop limit ?s"] by (simp add: top_items_def)
  moreover have "sorted (map ?k (take limit ?s) @ map ?k (drop limit ?s))"
    using sorted_sort_key[of ?k counts] by (simp flip: map_append)
  ultimately have "?k x \<le> ?k y"
    using assms(1) by (auto simp: sorted_append top_items_def)
  then show ?thesis by (cases x; cases y) (auto simp: less_eq_prod_def word_le_def)
qed

text \<open>
  The metrics of a window. From one snapshot to the next, the frames are counted with
  their total and largest duration, every PGN as often as it was processed. The report names the
  five PGNs processed most, no PGN it leaves out was processed more often than one it names, and
  it does not depend on the order in which the map of counts is visited.
\<close>

theorem metrics_window:
  assumes "m = observe_frames fs (snd (snapshot start m0))"
  shows "window_ok fs m
    \<and> (\<forall>counts. mset counts = mset (pm_pgns m) \<longrightarrow>
        formatTopPGNs counts processingMetricsTopCount = sn_topPGNs (fst (snapshot now m)))
    \<and> length (top_items (pm_pgns m) processingMetricsTopCount) = min 5 (length (pm_pgns m))
    \<and> (\<forall>x \<in> set (top_items (pm_pgns m) processingMetricsTopCount).
        \<forall>y \<in> set (pm_pgns m) - set (top_items (pm_pgns m) processingMetricsTopCount). snd y \<le> snd x)"
proof -
  have w: "window_ok fs m"
    using observe_frames_window[OF snapshot_window, of fs start m0] assms by simp
  then have "distinct (map fst (pm_pgns m))" by (simp add: window_ok_def)
  then have "formatTopPGNs counts processingMetricsTopCount = sn_topPGNs (fst (snapshot now m))"
    if "mset counts = mset (pm_pgns m)" for counts
    using top_items_mset[of "pm_pgns m" counts processingMetricsTopCount] that
    by (simp add: formatTopPGNs_def snapshot_def)
  moreover have "length (top_items (pm_pgns m) processingMetricsTopCount) = min 5 (length (pm_pgns m))"
    by (simp add: top_items_def processingMetricsTopCount_def min.commute)
  ultimately show ?thesis
    using w top_items_highest by blast
qed

theorem metrics_window_witness:
  "map_of (pm_pgns (observe_frames [(127250, True, 4), (127251, True, 9), (127250, True, 2)]
     (snd (snapshot 10 (newProcessingMetrics 0))))) 127250 = Some 2"
proof -
  let ?fs = "[(127250, True, 4), (127251, True, 9), (127250, True, 2)]"
  have "window_ok ?fs (observe_frames ?fs (snd (snapshot 10 (newProcessingMetrics 0))))"
    using metrics_window[OF refl] by blast
  then show ?thesis by (simp add: window_ok_def pgn_count_def)
qed

end
