(* ===== verification/Subscriptions.thy ===== *)
theory Subscriptions
  imports N2kPrelude
begin

text \<open>
  The subscription manager (\<open>internal/subscribe/subscribe.go\<close>): callbacks for one struct or for
  all, and the calls a struct gives rise to. What the code finds out by reflection is data here:
  a type is its package and name, a callback the kinds of its parameters and a number that stands
  for the function, a value handed to the manager its type. Two subscriptions are the same
  pointer exactly when they have the same identifier. The values that the error texts print (kinds and
  type names) and the observer of callback times are left out.
\<close>

section \<open>State\<close>

record gotype =
  ty_package :: string
  ty_name :: string

datatype param = PointerTo gotype | Interface | StructType gotype | OtherKind gotype

datatype callback = Func nat "param list" | NotFunc

datatype value_kind = StructValue gotype | NonStruct

record trackedSub =
  subId :: u64
  structName :: string
  callback :: callback

record SubscribeManager =
  subs :: "u64 \<rightharpoonup> trackedSub"
  singles :: "string \<rightharpoonup> trackedSub list"
  all :: "trackedSub list"
  lastSubId :: u64

definition NewSubscribeManager :: SubscribeManager where
  "NewSubscribeManager = \<lparr>subs = Map.empty, singles = Map.empty, all = [], lastSubId = 0\<rparr>"

section \<open>Subscribing\<close>

definition addSubscription :: "string \<Rightarrow> callback \<Rightarrow> SubscribeManager \<Rightarrow> (goerror + u64) \<times> SubscribeManager" where
  "addSubscription name cb s =
     (let s = s\<lparr>lastSubId := lastSubId s + 1\<rparr>;
          ts = \<lparr>subId = lastSubId s, structName = name, callback = cb\<rparr>;
          s = s\<lparr>subs := (subs s)(subId ts \<mapsto> ts)\<rparr>;
          s = (if name = [] then s\<lparr>all := all s @ [ts]\<rparr>
               else (let arr = (case singles s name of None \<Rightarrow> [] | Some arr \<Rightarrow> arr)
                     in s\<lparr>singles := (singles s)(name \<mapsto> arr @ [ts])\<rparr>))
      in (Inr (subId ts), s))"

text \<open>
  \<open>In(0)\<close> of a function type without parameters panics: \<open>None\<close>.
\<close>

definition SubscribeToStruct :: "value_kind \<Rightarrow> callback \<Rightarrow> SubscribeManager
    \<Rightarrow> ((goerror + u64) \<times> SubscribeManager) option" where
  "SubscribeToStruct t cb s =
     (case t of
        NonStruct \<Rightarrow> Some (Inl ''subscribeToPgn called with non-struct type'', s)
      | StructValue ty \<Rightarrow>
          (case cb of
             NotFunc \<Rightarrow> Some (Inl ''subscribeToPgn called with non-func callback'', s)
           | Func f [] \<Rightarrow> None
           | Func f (p # ps) \<Rightarrow>
               if p \<noteq> StructType ty
               then Some (Inl ''subscribeToPgn called with callback type not matching passed type'', s)
               else Some (addSubscription (ty_name ty) cb s)))"

definition SubscribeToAllStructs :: "callback \<Rightarrow> SubscribeManager
    \<Rightarrow> ((goerror + u64) \<times> SubscribeManager) option" where
  "SubscribeToAllStructs cb s =
     (case cb of
        NotFunc \<Rightarrow> Some (Inl ''subscribeToAllStructs called with non-func callback'', s)
      | Func f [] \<Rightarrow> None
      | Func f (p # ps) \<Rightarrow>
          if p \<noteq> Interface
          then Some (Inl ''subscribeToAllStructs called with non-any-taking callback type'', s)
          else Some (addSubscription [] cb s))"

text \<open>The loops that look for the subscription and cut it out, \<open>None\<close> when it is not there.\<close>

fun cut_sub :: "u64 \<Rightarrow> trackedSub list \<Rightarrow> trackedSub list option" where
  "cut_sub i [] = None"
| "cut_sub i (t # ts) = (if subId t = i then Some ts else map_option ((#) t) (cut_sub i ts))"

definition Unsubscribe :: "u64 \<Rightarrow> SubscribeManager \<Rightarrow> goerror option \<times> SubscribeManager" where
  "Unsubscribe i s =
     (case subs s i of
        None \<Rightarrow> (Some (''subscription '' @ decimal (unat i) @ '' not found''), s)
      | Some ts \<Rightarrow>
          if structName ts = []
          then (case cut_sub (subId ts) (all s) of
                  None \<Rightarrow> (Some (''global subscription '' @ decimal (unat i) @ '' not tracked somehow''), s)
                | Some rest \<Rightarrow> (None, s\<lparr>all := rest\<rparr>))
          else (case singles s (structName ts) of
                  None \<Rightarrow> (Some (''struct subscription '' @ decimal (unat i) @ '' somehow not found in ''
                             @ structName ts), s)
                | Some arr \<Rightarrow>
                    (case cut_sub (subId ts) arr of
                       None \<Rightarrow> (Some (''struct subscription '' @ decimal (unat i)
                                  @ '' not tracked somehow in '' @ structName ts), s)
                     | Some rest \<Rightarrow>
                         if length arr = 1
                         then (None, s\<lparr>singles := (singles s)(structName ts := None)\<rparr>)
                         else (None, s\<lparr>singles := (singles s)(structName ts \<mapsto> rest)\<rparr>))))"

section \<open>Dispatch\<close>

datatype argument = ByPointer | ByValue

text \<open>
  The callbacks called for a value of a type, in order, each with how it gets the value. A callback
  whose parameter does not fit is skipped.
\<close>

fun call_of :: "gotype \<Rightarrow> trackedSub \<Rightarrow> (nat \<times> argument) option" where
  "call_of ty t =
     (case callback t of
        NotFunc \<Rightarrow> None
      | Func f [] \<Rightarrow> None
      | Func f (PointerTo p # ps) \<Rightarrow> if p \<noteq> ty then None else Some (f, ByPointer)
      | Func f (Interface # ps) \<Rightarrow> Some (f, ByValue)
      | Func f (StructType p # ps) \<Rightarrow> if p \<noteq> ty then None else Some (f, ByValue)
      | Func f (OtherKind p # ps) \<Rightarrow> if p \<noteq> ty then None else Some (f, ByValue))"

definition HandleStruct :: "gotype \<Rightarrow> SubscribeManager \<Rightarrow> (nat \<times> argument) list" where
  "HandleStruct ty s =
     (let single = (case singles s (ty_name ty) of None \<Rightarrow> [] | Some arr \<Rightarrow> arr);
          callList = single @ all s
      in List.map_filter (call_of ty) callList)"

section \<open>The list of live subscriptions\<close>

text \<open>
  What the manager promises, on the list of the subscriptions that are live in the order they were
  made: a new one is appended, unsubscribing removes it, a struct calls those for its name first
  and then those for all.
\<close>

definition spec_calls :: "gotype \<Rightarrow> trackedSub list \<Rightarrow> (nat \<times> argument) list" where
  "spec_calls ty live = List.map_filter (call_of ty)
     (filter (\<lambda>t. structName t = ty_name ty) live @ filter (\<lambda>t. structName t = []) live)"

definition subs_of :: "SubscribeManager \<Rightarrow> string \<Rightarrow> trackedSub list" where
  "subs_of s name = (if name = [] then all s else case singles s name of None \<Rightarrow> [] | Some arr \<Rightarrow> arr)"

definition index_ok :: "SubscribeManager \<Rightarrow> bool" where
  "index_ok s \<longleftrightarrow> (\<forall>name. singles s name \<noteq> Some []) \<and> (\<forall>i t. subs s i = Some t \<longrightarrow> subId t = i \<and> i \<le> lastSubId s)"

definition tracks :: "SubscribeManager \<Rightarrow> trackedSub list \<Rightarrow> bool" where
  "tracks s live \<longleftrightarrow> index_ok s \<and> (\<forall>name. subs_of s name = filter (\<lambda>t. structName t = name) live)
     \<and> distinct (map subId live) \<and> (\<forall>t \<in> set live. subs s (subId t) = Some t)"

lemma tracksD:
  assumes "tracks s live"
  shows "subs_of s name = filter (\<lambda>t. structName t = name) live"
    and "distinct (map subId live)"
    and "x \<in> set live \<Longrightarrow> subs s (subId x) = Some x"
    and "subs s i = Some t \<Longrightarrow> subId t = i \<and> i \<le> lastSubId s"
    and "singles s name \<noteq> Some []"
  using assms unfolding tracks_def index_ok_def by blast+

lemma tracks_new: "tracks NewSubscribeManager []"
  by (simp add: tracks_def index_ok_def subs_of_def NewSubscribeManager_def)

lemma tracks_calls:
  assumes "tracks s live" and "ty_name ty \<noteq> []"
  shows "HandleStruct ty s = spec_calls ty live"
  using tracksD(1)[OF assms(1), of "ty_name ty"] tracksD(1)[OF assms(1), of "[]"] assms(2)
  by (simp add: HandleStruct_def spec_calls_def subs_of_def Let_def)

lemma addSubscription_simp:
  "addSubscription name cb s =
     (Inr (lastSubId s + 1),
      (let t = \<lparr>subId = lastSubId s + 1, structName = name, callback = cb\<rparr>
       in if name = []
          then s\<lparr>lastSubId := lastSubId s + 1, subs := (subs s)(lastSubId s + 1 \<mapsto> t), all := all s @ [t]\<rparr>
          else s\<lparr>lastSubId := lastSubId s + 1, subs := (subs s)(lastSubId s + 1 \<mapsto> t),
                 singles := (singles s)(name \<mapsto> subs_of s name @ [t])\<rparr>))"
  by (simp add: addSubscription_def subs_of_def Let_def)

lemma addSubscription_eq:
  assumes "addSubscription name cb s = (r, s')"
  defines "t \<equiv> \<lparr>subId = lastSubId s + 1, structName = name, callback = cb\<rparr>"
  shows "r = Inr (lastSubId s + 1)" and "lastSubId s' = lastSubId s + 1"
    and "subs s' = (subs s)(lastSubId s + 1 \<mapsto> t)"
    and "subs_of s' = (subs_of s)(name := subs_of s name @ [t])"
    and "\<forall>nm. singles s nm \<noteq> Some [] \<Longrightarrow> singles s' nm \<noteq> Some []"
proof -
  let ?s = "snd (addSubscription name cb s)"
  have s': "s' = ?s" and "r = fst (addSubscription name cb s)" by (simp_all add: assms(1))
  then show "r = Inr (lastSubId s + 1)" by (simp add: addSubscription_simp)
  show "lastSubId s' = lastSubId s + 1" "subs s' = (subs s)(lastSubId s + 1 \<mapsto> t)"
    unfolding s' t_def by (simp_all add: addSubscription_simp Let_def)
  show "subs_of s' = (subs_of s)(name := subs_of s name @ [t])"
    unfolding s' t_def by (rule ext) (simp add: addSubscription_simp subs_of_def Let_def)
  show "singles s' nm \<noteq> Some []" if "\<forall>nm. singles s nm \<noteq> Some []"
    unfolding s' using that by (simp add: addSubscription_simp Let_def)
qed

lemma tracks_add:
  assumes t: "tracks s live" and room: "lastSubId s + 1 \<noteq> 0"
    and add: "addSubscription name cb s = (r, s')"
  shows "r = Inr (lastSubId s + 1) \<and> lastSubId s' = lastSubId s + 1
    \<and> tracks s' (live @ [\<lparr>subId = lastSubId s + 1, structName = name, callback = cb\<rparr>])"
proof -
  let ?i = "lastSubId s + 1"
  let ?t = "\<lparr>subId = ?i, structName = name, callback = cb\<rparr>"
  note a = addSubscription_eq[OF add]
  have "unat ?i = Suc (unat (lastSubId s))" using unatSuc[of "lastSubId s"] room by (simp add: add.commute)
  then have lt: "lastSubId s < ?i" by (simp add: word_less_nat_alt)
  have old: "subId u = j \<and> j < ?i" if "subs s j = Some u" for j u
    using tracksD(4)[OF t that] lt by (meson le_less_trans)
  have live: "subs s (subId u) = Some u \<and> subId u \<noteq> ?i" if "u \<in> set live" for u
    using tracksD(3)[OF t that] old[of "subId u" u] by auto
  have "?i \<notin> subId ` set live"
  proof
    assume "?i \<in> subId ` set live"
    then obtain u where "u \<in> set live" "subId u = ?i" by (metis imageE)
    with live show False by blast
  qed
  then have "distinct (map subId (live @ [?t]))" using tracksD(2)[OF t] by simp
  moreover have "\<forall>u \<in> set (live @ [?t]). subs s' (subId u) = Some u"
    using live by (simp add: a)
  moreover have "\<forall>j u. subs s' j = Some u \<longrightarrow> subId u = j \<and> j \<le> lastSubId s'"
    using old by (simp add: a(2,3) less_imp_le)
  moreover have "singles s' nm \<noteq> Some []" for nm
    using a(5) tracksD(5)[OF t] by blast
  ultimately show ?thesis
    using tracksD(1)[OF t] by (simp add: tracks_def index_ok_def a(1,2,4))
qed

lemma cut_sub_spec:
  "distinct (map subId ts) \<Longrightarrow> cut_sub i ts =
     (if i \<in> subId ` set ts then Some (filter (\<lambda>t. subId t \<noteq> i) ts) else None)"
proof (induction ts)
  case (Cons t ts)
  show ?case
  proof (cases "subId t = i")
    case True
    have "subId x \<noteq> i" if "x \<in> set ts" for x
      using Cons.prems True imageI[OF that, of subId] by auto
    then have "filter (\<lambda>t. subId t \<noteq> i) ts = ts" by (simp add: filter_True)
    with True show ?thesis by simp
  next
    case False
    with Cons show ?thesis by auto
  qed
qed simp

lemma cut_sub_length: "cut_sub i ts = Some rest \<Longrightarrow> length ts = Suc (length rest)"
  by (induction ts arbitrary: rest) (auto split: if_splits)

text \<open>Both branches of \<open>Unsubscribe\<close> cut the subscription out of the index it is in.\<close>

lemma Unsubscribe_eq:
  assumes "subs s i = Some ts" and "subId ts = i" and "Unsubscribe i s = (e, s')"
  shows "case cut_sub i (subs_of s (structName ts)) of
      None \<Rightarrow> e \<noteq> None \<and> s' = s
    | Some rest \<Rightarrow> e = None \<and> subs_of s' = (subs_of s)(structName ts := rest) \<and> subs s' = subs s
        \<and> lastSubId s' = lastSubId s \<and> ((\<forall>nm. singles s nm \<noteq> Some []) \<longrightarrow> (\<forall>nm. singles s' nm \<noteq> Some []))"
proof (cases "structName ts = []")
  case True
  with assms show ?thesis
    by (auto simp: Unsubscribe_def subs_of_def fun_eq_iff simp del: append.simps split: option.splits)
next
  case False
  show ?thesis
  proof (cases "singles s (structName ts)")
    case None
    with assms False show ?thesis
      by (auto simp: Unsubscribe_def subs_of_def simp del: append.simps)
  next
    case (Some arr)
    show ?thesis
    proof (cases "cut_sub i arr")
      case None
      with Some assms False show ?thesis
        by (auto simp: Unsubscribe_def subs_of_def simp del: append.simps)
    next
      case (Some rest)
      define new where "new = (if length arr = 1 then None else Some rest)"
      have new: "new \<noteq> Some []" "(case new of None \<Rightarrow> [] | Some arr \<Rightarrow> arr) = rest"
        using cut_sub_length[OF Some] by (auto simp: new_def)
      have "Unsubscribe i s = (None, s\<lparr>singles := (singles s)(structName ts := new)\<rparr>)"
        using assms(1,2) False \<open>singles s (structName ts) = Some arr\<close> Some
        by (cases "length arr = 1") (simp_all add: Unsubscribe_def new_def)
      with assms(3) have s': "e = None" "s' = s\<lparr>singles := (singles s)(structName ts := new)\<rparr>" by simp_all
      have "cut_sub i (subs_of s (structName ts)) = Some rest"
        using False \<open>singles s (structName ts) = Some arr\<close> Some by (simp add: subs_of_def)
      then show ?thesis
        using s' new False by (simp add: subs_of_def fun_eq_iff)
    qed
  qed
qed

lemma tracks_unsubscribe:
  assumes t: "tracks s live" and u: "Unsubscribe i s = (e, s')"
  shows "if i \<in> subId ` set live then e = None \<and> tracks s' (filter (\<lambda>t. subId t \<noteq> i) live)
    else e \<noteq> None \<and> s' = s"
proof (cases "subs s i")
  case None
  have "i \<notin> subId ` set live" using tracksD(3)[OF t] None by (metis imageE option.distinct(1))
  with None u show ?thesis by (auto simp add: Unsubscribe_def simp del: append.simps)
next
  case (Some ts)
  then have i: "subId ts = i" using tracksD(4)[OF t] by blast
  have own: "x = ts" if "x \<in> set live" "subId x = i" for x
    using tracksD(3)[OF t that(1)] that(2) Some by simp
  let ?own = "filter (\<lambda>t. structName t = structName ts) live"
  have mem: "i \<in> subId ` set ?own \<longleftrightarrow> i \<in> subId ` set live"
  proof
    assume "i \<in> subId ` set live"
    then obtain x where "x \<in> set live" "subId x = i" by (metis imageE)
    with own have "ts \<in> set ?own" by simp
    then show "i \<in> subId ` set ?own" using i by (metis imageI)
  qed auto
  have d: "distinct (map subId (filter P live))" for P
    using tracksD(2)[OF t] by (simp add: distinct_map_filter)
  have cut: "cut_sub i (subs_of s (structName ts)) = (if i \<in> subId ` set live
      then Some (filter (\<lambda>t. subId t \<noteq> i) ?own) else None)"
    unfolding tracksD(1)[OF t] cut_sub_spec[OF d] mem ..
  show ?thesis
  proof (cases "i \<in> subId ` set live")
    case True
    from Unsubscribe_eq[OF Some i u] cut True have s': "e = None"
      "subs_of s' = (subs_of s)(structName ts := filter (\<lambda>t. subId t \<noteq> i) ?own)" "subs s' = subs s"
      "lastSubId s' = lastSubId s" "(\<forall>nm. singles s nm \<noteq> Some []) \<longrightarrow> (\<forall>nm. singles s' nm \<noteq> Some [])"
      by simp_all
    have "subs_of s' nm = filter (\<lambda>t. structName t = nm) (filter (\<lambda>t. subId t \<noteq> i) live)" for nm
      using own unfolding s'(2) fun_upd_def tracksD(1)[OF t] filter_filter
      by (auto intro!: filter_cong)
    moreover have "index_ok s'" using t s'(3-5) by (simp add: tracks_def index_ok_def)
    moreover have "\<forall>x \<in> set (filter (\<lambda>t. subId t \<noteq> i) live). subs s' (subId x) = Some x"
      using tracksD(3)[OF t] by (simp add: s'(3))
    ultimately have "tracks s' (filter (\<lambda>t. subId t \<noteq> i) live)"
      using d unfolding tracks_def by blast
    with True s'(1) show ?thesis by simp
  next
    case False
    with Unsubscribe_eq[OF Some i u] cut show ?thesis by simp
  qed
qed

section \<open>Histories\<close>

datatype sub_op = SubStruct value_kind callback | SubAll callback | Unsub u64

fun exec_op :: "sub_op \<Rightarrow> SubscribeManager \<Rightarrow> SubscribeManager option" where
  "exec_op (SubStruct t cb) s = map_option snd (SubscribeToStruct t cb s)"
| "exec_op (SubAll cb) s = map_option snd (SubscribeToAllStructs cb s)"
| "exec_op (Unsub i) s = Some (snd (Unsubscribe i s))"

fun exec_ops :: "sub_op list \<Rightarrow> SubscribeManager \<Rightarrow> SubscribeManager option" where
  "exec_ops [] s = Some s"
| "exec_ops (p # ps) s = (case exec_op p s of None \<Rightarrow> None | Some s \<Rightarrow> exec_ops ps s)"

text \<open>The name a subscription is accepted under: that of the struct, or none for all structs.\<close>

fun accepted :: "sub_op \<Rightarrow> (string \<times> callback) option" where
  "accepted (SubStruct (StructValue ty) (Func f (p # ps))) =
     (if p = StructType ty then Some (ty_name ty, Func f (p # ps)) else None)"
| "accepted (SubAll (Func f (p # ps))) = (if p = Interface then Some ([], Func f (p # ps)) else None)"
| "accepted _ = None"

fun spec_op :: "sub_op \<Rightarrow> u64 \<times> trackedSub list \<Rightarrow> u64 \<times> trackedSub list" where
  "spec_op (Unsub i) (n, live) = (n, filter (\<lambda>t. subId t \<noteq> i) live)"
| "spec_op p (n, live) =
     (case accepted p of
        None \<Rightarrow> (n, live)
      | Some (name, cb) \<Rightarrow> (n + 1, live @ [\<lparr>subId = n + 1, structName = name, callback = cb\<rparr>]))"

definition spec_live :: "sub_op list \<Rightarrow> trackedSub list" where
  "spec_live ps = snd (foldl (\<lambda>st p. spec_op p st) (0, []) ps)"

lemma sub_op_refines:
  assumes "tracks s live" and "exec_op p s = Some s'" and "lastSubId s + 1 \<noteq> 0"
  shows "tracks s' (snd (spec_op p (lastSubId s, live))) \<and> lastSubId s' = fst (spec_op p (lastSubId s, live))"
proof -
  show ?thesis
  proof (cases p)
    case (SubStruct t cb)
    with assms(1,2) show ?thesis
      by (auto simp: SubscribeToStruct_def dest: tracks_add[OF assms(1,3)]
          split: value_kind.splits callback.splits list.splits if_splits)
  next
    case (SubAll cb)
    with assms(1,2) show ?thesis
      by (auto simp: SubscribeToAllStructs_def dest: tracks_add[OF assms(1,3)]
          split: callback.splits list.splits if_splits)
  next
    case (Unsub i)
    obtain e s2 where u: "Unsubscribe i s = (e, s2)" by (cases "Unsubscribe i s")
    have last: "lastSubId s2 = lastSubId s"
      using u by (auto simp: Unsubscribe_def split: option.splits if_splits)
    from tracks_unsubscribe[OF assms(1) u] have "tracks s2 (filter (\<lambda>t. subId t \<noteq> i) live)"
    proof (cases "i \<in> subId ` set live")
      case False
      then have "filter (\<lambda>t. subId t \<noteq> i) live = live" by (auto intro!: filter_True)
      with tracks_unsubscribe[OF assms(1) u] False assms(1) show ?thesis by simp
    qed simp
    with assms(2) Unsub u last show ?thesis by simp
  qed
qed

lemma spec_op_count: "fst (spec_op p (n, live)) = n \<or> fst (spec_op p (n, live)) = n + 1"
  by (cases p) (auto split: option.splits)

lemma exec_ops_refine:
  assumes "tracks s live" and "exec_ops ps s = Some s'" and "unat (lastSubId s) + length ps < 2 ^ 64"
  shows "tracks s' (snd (foldl (\<lambda>st p. spec_op p st) (lastSubId s, live) ps))"
  using assms
proof (induction ps arbitrary: s live)
  case (Cons p ps)
  then obtain s1 where s1: "exec_op p s = Some s1" "exec_ops ps s1 = Some s'"
    by (auto split: option.splits)
  have room: "unat (lastSubId s + 1) = Suc (unat (lastSubId s))"
    using Cons.prems(3) by (simp add: unat_word_ariths)
  then have "lastSubId s + 1 \<noteq> 0" by force
  from sub_op_refines[OF Cons.prems(1) s1(1) this] obtain live1 where
    live1: "spec_op p (lastSubId s, live) = (lastSubId s1, live1)" "tracks s1 live1"
    by (metis prod.collapse)
  have "unat (lastSubId s1) \<le> Suc (unat (lastSubId s))"
    using spec_op_count[of p "lastSubId s" live] room by (auto simp: live1)
  with Cons.prems(3) have "unat (lastSubId s1) + length ps < 2 ^ 64" by simp
  from Cons.IH[OF live1(2) s1(2) this] show ?case by (simp add: live1(1))
qed simp



text \<open>
  A subscription stays in the table of identifiers after it is gone, so that unsubscribing it again
  fails with the error meant for a broken index.
\<close>

lemma unsubscribed_stays:
  assumes "tracks s live" and "i \<in> subId ` set live" and "Unsubscribe i s = (e, s')"
  shows "subs s' i \<noteq> None \<and> fst (Unsubscribe i s') \<noteq> None"
proof -
  obtain ts where ts: "ts \<in> set live" "subId ts = i" using assms(2) by blast
  then have s: "subs s i = Some ts" using tracksD(3)[OF assms(1)] by blast
  have t: "tracks s' (filter (\<lambda>t. subId t \<noteq> i) live)" "e = None"
    using tracks_unsubscribe[OF assms(1,3)] assms(2) by simp_all
  have "subs s' = subs s"
    using Unsubscribe_eq[OF s ts(2) assms(3)] t(2) by (auto split: option.splits)
  moreover obtain e2 s2 where u: "Unsubscribe i s' = (e2, s2)" by (cases "Unsubscribe i s'")
  ultimately show ?thesis
    using tracks_unsubscribe[OF t(1) u] s by (auto split: if_splits)
qed

end
