(* ===== verification/Dispatch.thy ===== *)
theory Dispatch
  imports Packets Rawfields
begin

text \<open>
  From a packet to a struct (\<open>internal/pkt/packetstruct.go\<close>, \<open>unknownpgn.go\<close>, and the runtime part
  of \<open>internal/pgn/discriminators_generated.go\<close>): a PGN has variants, told apart by fields with
  fixed values; the first variant whose fields match decodes the packet, and a packet that none
  decodes becomes an \<open>UnknownPGN\<close>. The table of variants and the decoders, which \<open>cmd/pgngen\<close>
  generates, are parameters: \<open>'p\<close> is the type of the structs.
\<close>

section \<open>Finding the decoder\<close>

record MatchFieldSpec =
  match_FieldSpec :: FieldSpec
  MatchValue :: int

type_synonym 'p decoder = "MessageInfo \<Rightarrow> DataStream \<Rightarrow> goerror + 'p"

record 'p PgnDiscriminator =
  Decoder :: "'p decoder"
  MatchSpecs :: "MatchFieldSpec list"

type_synonym 'p variants = "u32 \<Rightarrow> 'p PgnDiscriminator list option"

text \<open>The Go type \<open>uint64\<close>, and \<open>ManufacturerCodeConst\<close>, a \<open>uint16\<close>.\<close>

definition go_uint64 :: goint where "go_uint64 = (64, False)"
definition go_uint16 :: goint where "go_uint16 = (16, False)"

fun match_specs :: "MatchFieldSpec list \<Rightarrow> DataStream \<Rightarrow> (bool \<times> DataStream) option" where
  "match_specs [] s = Some (True, s)"
| "match_specs (m # ms) s =
     (case ReadRaw go_uint64 (Some (match_FieldSpec m)) (SetPosition s (BitOffset (match_FieldSpec m))) of
        None \<Rightarrow> None
      | Some (Inl e, s) \<Rightarrow> Some (False, s)
      | Some (Inr None, s) \<Rightarrow> Some (False, s)
      | Some (Inr (Some v), s) \<Rightarrow>
          if v \<noteq> uint (word_of_int (MatchValue m) :: u64) then Some (False, s) else match_specs ms s)"

text \<open>The deferred \<open>SetPosition\<close> runs on every path.\<close>

definition matchesVariant :: "DataStream \<Rightarrow> MatchFieldSpec list \<Rightarrow> (bool \<times> DataStream) option" where
  "matchesVariant s specs =
     map_option (\<lambda>(b, s'). (b, SetPosition s' (Position s))) (match_specs specs s)"

fun find_variant :: "u32 \<Rightarrow> 'p PgnDiscriminator list \<Rightarrow> (DataStream, 'p decoder) step" where
  "find_variant pgn [] s = failE (''no matching variant found for PGN '' @ decimal (unat pgn)) s"
| "find_variant pgn (d # ds) s =
     (case matchesVariant s (MatchSpecs d) of
        None \<Rightarrow> None
      | Some (True, s) \<Rightarrow> returnE (Decoder d) s
      | Some (False, s) \<Rightarrow> find_variant pgn ds s)"

definition FindDecoder :: "'p variants \<Rightarrow> u32 \<Rightarrow> (DataStream, 'p decoder) step" where
  "FindDecoder PgnDiscriminatorMap pgn s =
     (case PgnDiscriminatorMap pgn of
        None \<Rightarrow> failE (''no decoder found for PGN '' @ decimal (unat pgn)) s
      | Some discriminators \<Rightarrow> find_variant pgn discriminators s)"

section \<open>Unknown PGNs\<close>

record UnknownPGN =
  un_Info :: MessageInfo
  un_Data :: bytes
  un_ManufacturerCode :: int
  un_Reason :: goerror

fun joined :: "string \<Rightarrow> string list \<Rightarrow> string" where
  "joined sep [] = []"
| "joined sep [s] = s"
| "joined sep (s # t # ts) = s @ sep @ joined sep (t # ts)"

definition mergeErrorStrings :: "goerror list \<Rightarrow> string" where
  "mergeErrorStrings errs = joined '', '' errs"

definition manufacturer_spec :: FieldSpec where
  "manufacturer_spec = \<lparr>BitLength = 11, BitOffset = 0, MaxRawValue = 0, MissingValue = 0, Offset = 0,
     IsSigned = False, ReservedCount = 0, BitLengthVariable = False\<rparr>"

text \<open>\<open>None\<close> is the nil dereference of the manufacturer code that could not be read.\<close>

definition buildUnknownPGN :: "Packet \<Rightarrow> UnknownPGN option" where
  "buildUnknownPGN p =
     (let ret = \<lparr>un_Info = Info p, un_Data = Data p, un_ManufacturerCode = 0,
                 un_Reason = mergeErrorStrings (ParseErrors p)\<rparr>
      in if IsProprietaryPGN (PGN (un_Info ret)) \<and> length (Data p) > 2
         then (case ReadRaw go_uint16 (Some manufacturer_spec) (NewDataStream (Data p) (length (Data p))) of
                 Some (Inr (Some c), _) \<Rightarrow> Some (ret\<lparr>un_ManufacturerCode := c\<rparr>)
               | _ \<Rightarrow> None)
         else Some ret)"

section \<open>The handler of packets\<close>

datatype 'p decoded = Known 'p | Unknown UnknownPGN

text \<open>
  Whether a struct handler is set, and what it is given. \<open>%w\<close> prints the wrapped error.
\<close>

definition pgnReady :: "bool \<Rightarrow> 'p decoded \<Rightarrow> 'p decoded list" where
  "pgnReady handler fullPGN = (if handler then [fullPGN] else [])"

definition ps_HandlePacket :: "'p variants \<Rightarrow> bool \<Rightarrow> Packet \<Rightarrow> 'p decoded list option" where
  "ps_HandlePacket PgnDiscriminatorMap handler p =
     (case FindDecoder PgnDiscriminatorMap (PGN (Info p)) (NewDataStream (Data p) (length (Data p))) of
        None \<Rightarrow> None
      | Some (Inl err, stream) \<Rightarrow>
          (let p = p\<lparr>ParseErrors := ParseErrors p
                 @ [''no matching decoder for PGN '' @ decimal (unat (PGN (Info p))) @ '': '' @ err]\<rparr>
           in map_option (\<lambda>u. pgnReady handler (Unknown u)) (buildUnknownPGN p))
      | Some (Inr decoder, stream) \<Rightarrow>
          (case decoder (Info p) stream of
             Inl err \<Rightarrow>
               (let p = p\<lparr>ParseErrors := ParseErrors p @ [err]\<rparr>
                in map_option (\<lambda>u. pgnReady handler (Unknown u)) (buildUnknownPGN p))
           | Inr ret \<Rightarrow> Some (pgnReady handler (Known ret))))"

section \<open>What a match means\<close>

text \<open>The specifications the generator writes into the table are unsigned, at most 64 bits, and without offset.\<close>

definition plain_match :: "MatchFieldSpec \<Rightarrow> bool" where
  "plain_match m \<longleftrightarrow> (let spec = match_FieldSpec m
     in BitLength spec \<le> 64 \<and> \<not> IsSigned spec \<and> Offset spec = 0)"

text \<open>The field lies within the data, its bits are the value, and that is not a reserved one.\<close>

definition matches :: "bytes \<Rightarrow> MatchFieldSpec \<Rightarrow> bool" where
  "matches d m \<longleftrightarrow>
     (let spec = match_FieldSpec m; v = wire_bits d (unat (BitOffset spec)) (unat (BitLength spec))
      in unat (BitOffset spec) + unat (BitLength spec) \<le> 8 * length d
         \<and> v = word_of_int (MatchValue m) \<and> (ReservedCount spec = 0 \<or> v \<le> MaxRawValue spec))"

definition first_match :: "bytes \<Rightarrow> 'p PgnDiscriminator list \<Rightarrow> 'p PgnDiscriminator option" where
  "first_match d ds = find (\<lambda>v. list_all (matches d) (MatchSpecs v)) ds"

lemma SetPosition_cursor:
  "bitOffset (SetPosition s off) < 8" "cursor (SetPosition s off) = unat off"
  "dat (SetPosition s off) = dat s" "dcap (SetPosition s off) = dcap s"
proof -
  have m: "unat (off mod 8) = unat off mod 8" "unat (off div 8) = unat off div 8"
    by (simp_all add: unat_mod_distrib unat_div_distrib)
  then have "unat (ucast (off mod 8) :: u8) = unat off mod 8"
    by (simp add: unsigned_ucast_eq take_bit_nat_eq_self less_trans[OF pos_mod_bound])
  with m show "bitOffset (SetPosition s off) < 8" "cursor (SetPosition s off) = unat off"
    by (simp_all add: SetPosition_def cursor_def word_less_nat_alt)
qed (simp_all add: SetPosition_def)

lemma getNumberRaw_at:
  assumes "length (dat s) < 65536" and "length (dat s) \<le> dcap s"
    and "s0 = SetPosition s off"
  shows "if unat off + unat n \<le> 8 * length (dat s)
    then \<exists>s'. getNumberRaw n s0 = Some (Inr (wire_bits (dat s) (unat off) (unat n)), s')
           \<and> dat s' = dat s \<and> dcap s' = dcap s
    else \<exists>e. getNumberRaw n s0 = Some (Inl e, s0)"
proof -
  note c = SetPosition_cursor[of s off, folded assms(3)]
  show ?thesis
  proof (cases "unat off \<le> 8 * length (dat s)")
    case True
    then have "stream_ok s0" using assms(1,2) c by (simp add: stream_ok_def)
    from getNumberRaw_spec[OF this, of n] show ?thesis by (auto simp: c)
  next
    case False
    have "int (unat n) > bits_left s0"
      using False c(2) unfolding bits_left_def cursor_def c(3) by linarith
    with False show ?thesis by (simp add: getNumberRaw_def)
  qed
qed

lemma go_uint64_conv [simp]: "go_conv go_uint64 w = uint w"
  using unsigned_less[of w] by (simp add: go_conv_def go_uint64_def take_bit_int_eq_self_iff)

lemma read_match:
  assumes "length (dat s) < 65536" and "length (dat s) \<le> dcap s" and "plain_match m"
  shows "\<exists>r s'. ReadRaw go_uint64 (Some (match_FieldSpec m)) (SetPosition s (BitOffset (match_FieldSpec m)))
      = Some (r, s') \<and> dat s' = dat s \<and> dcap s' = dcap s
      \<and> (matches (dat s) m \<longleftrightarrow> r = Inr (Some (uint (word_of_int (MatchValue m) :: u64))))"
  using getNumberRaw_at[OF assms(1,2) refl, of "BitOffset (match_FieldSpec m)" "BitLength (match_FieldSpec m)"]
    assms(3) SetPosition_cursor[of s "BitOffset (match_FieldSpec m)"]
  by (auto simp: ReadRaw_def plain_match_def matches_def Let_def seqE_def getNullableNumberRaw_def
      word_uint_eq_iff[symmetric] simp flip: not_less split: if_splits)

lemma match_specs_matches:
  assumes "length (dat s) < 65536" and "length (dat s) \<le> dcap s" and "list_all plain_match ms"
  shows "\<exists>s'. match_specs ms s = Some (list_all (matches (dat s)) ms, s')
    \<and> dat s' = dat s \<and> dcap s' = dcap s"
  using assms
proof (induction ms arbitrary: s)
  case (Cons m ms)
  obtain r s1 where r: "ReadRaw go_uint64 (Some (match_FieldSpec m))
      (SetPosition s (BitOffset (match_FieldSpec m))) = Some (r, s1)" "dat s1 = dat s" "dcap s1 = dcap s"
    "matches (dat s) m \<longleftrightarrow> r = Inr (Some (uint (word_of_int (MatchValue m) :: u64)))"
    using read_match[of s m] Cons.prems by auto
  show ?case
  proof (cases "matches (dat s) m")
    case True
    with r Cons.IH[of s1] Cons.prems show ?thesis by simp
  next
    case False
    with r show ?thesis by (cases r) (auto split: option.splits)
  qed
qed simp

lemma SetPosition_new:
  assumes "dat s = d" and "dcap s = n"
  shows "SetPosition s (Position (NewDataStream d n)) = NewDataStream d n"
  using assms
  by (simp add: SetPosition_def Position_def getBitOffset_def NewDataStream_def)

lemma find_variant_first:
  assumes "length d < 65536" and "list_all (\<lambda>v. list_all plain_match (MatchSpecs v)) ds"
  shows "case first_match d ds of
      Some v \<Rightarrow> find_variant pgn ds (NewDataStream d (length d))
        = Some (Inr (Decoder v), NewDataStream d (length d))
    | None \<Rightarrow> find_variant pgn ds (NewDataStream d (length d))
        = Some (Inl (''no matching variant found for PGN '' @ decimal (unat pgn)), NewDataStream d (length d))"
  using assms(2)
proof (induction ds)
  case Nil
  then show ?case by (simp add: first_match_def del: append.simps)
next
  case (Cons v ds)
  let ?s = "NewDataStream d (length d)"
  have "dat ?s = d" "dcap ?s = length d" by (simp_all add: NewDataStream_def)
  with match_specs_matches[of ?s "MatchSpecs v"] Cons.prems assms(1) obtain s' where
    "match_specs (MatchSpecs v) ?s = Some (list_all (matches d) (MatchSpecs v), s')"
    "dat s' = d" "dcap s' = length d" by auto
  then have "matchesVariant ?s (MatchSpecs v) = Some (list_all (matches d) (MatchSpecs v), ?s)"
    by (simp add: matchesVariant_def SetPosition_new)
  with Cons show ?case
    by (cases "list_all (matches d) (MatchSpecs v)") (auto simp: first_match_def split: option.splits)
qed

text \<open>An unknown PGN is always built: three bytes hold the manufacturer code.\<close>

definition manufacturer_code :: "Packet \<Rightarrow> int" where
  "manufacturer_code p = (if IsProprietaryPGN (PGN (Info p)) \<and> length (Data p) > 2
     then uint (wire_bits (Data p) 0 11) else 0)"

definition unknown_of :: "Packet \<Rightarrow> goerror \<Rightarrow> UnknownPGN" where
  "unknown_of p err = \<lparr>un_Info = Info p, un_Data = Data p, un_ManufacturerCode = manufacturer_code p,
     un_Reason = mergeErrorStrings (ParseErrors p @ [err])\<rparr>"

lemma unknown_packet:
  assumes "length (Data p) < 65536"
  shows "buildUnknownPGN (p\<lparr>ParseErrors := ParseErrors p @ [err]\<rparr>) = Some (unknown_of p err)"
proof (cases "IsProprietaryPGN (PGN (Info p)) \<and> length (Data p) > 2")
  case True
  let ?s = "NewDataStream (Data p) (length (Data p))" and ?w = "wire_bits (Data p) 0 11"
  have "?s = SetPosition ?s 0" by (simp add: SetPosition_def NewDataStream_def)
  from getNumberRaw_at[OF _ _ this, of 11] obtain s' where "getNumberRaw 11 ?s = Some (Inr ?w, s')"
    using assms True by (auto simp: NewDataStream_def)
  moreover have "take_bit 16 ?w = ?w"
    by (rule bit_eqI) (auto simp: bit_take_bit_iff bit_wire_bits)
  then have "take_bit 16 (uint ?w) = uint ?w" by (metis unsigned_take_bit_eq)
  ultimately show ?thesis
    using True by (simp add: buildUnknownPGN_def ReadRaw_def manufacturer_spec_def seqE_def go_conv_def
        go_uint16_def unknown_of_def manufacturer_code_def)
qed (auto simp: buildUnknownPGN_def unknown_of_def manufacturer_code_def)

section \<open>Properties\<close>

text \<open>What the handler is given: the result of the first matching variant, or the unknown PGN.\<close>

definition spec_decoded :: "'p variants \<Rightarrow> Packet \<Rightarrow> 'p decoded \<Rightarrow> bool" where
  "spec_decoded table p x \<longleftrightarrow>
     (let found = (case table (PGN (Info p)) of None \<Rightarrow> None | Some ds \<Rightarrow> first_match (Data p) ds);
          result = (case found of None \<Rightarrow> None
                    | Some v \<Rightarrow> Some (Decoder v (Info p) (NewDataStream (Data p) (length (Data p)))))
      in case result of
           Some (Inr ret) \<Rightarrow> x = Known ret
         | Some (Inl err) \<Rightarrow> x = Unknown (unknown_of p err)
         | None \<Rightarrow> \<exists>err. x = Unknown (unknown_of p err))"

lemma dispatch_decoded:
  assumes "length (Data p) < 65536"
    and "\<And>ds. table (PGN (Info p)) = Some ds \<Longrightarrow> list_all (\<lambda>v. list_all plain_match (MatchSpecs v)) ds"
  shows "\<exists>x. ps_HandlePacket table handler p = Some (pgnReady handler x) \<and> spec_decoded table p x"
proof (cases "table (PGN (Info p))")
  case None
  with unknown_packet[OF assms(1)] show ?thesis
    by (auto simp: ps_HandlePacket_def FindDecoder_def spec_decoded_def Let_def simp del: append.simps)
next
  case (Some ds)
  note f = find_variant_first[OF assms(1) assms(2)[OF Some], of "PGN (Info p)"]
  show ?thesis
  proof (cases "first_match (Data p) ds")
    case None
    with Some f unknown_packet[OF assms(1)] show ?thesis
      by (auto simp: ps_HandlePacket_def FindDecoder_def spec_decoded_def Let_def simp del: append.simps)
  next
    case (Some v)
    with \<open>table (PGN (Info p)) = Some ds\<close> f unknown_packet[OF assms(1)] show ?thesis
      by (cases "Decoder v (Info p) (NewDataStream (Data p) (length (Data p)))")
         (auto simp: ps_HandlePacket_def FindDecoder_def spec_decoded_def Let_def)+
  qed
qed

text \<open>
  Claim C20. Every packet is handed on, once: as the struct that the first variant of its PGN whose
  match fields have the required values in the packet's bits decodes it to, whatever the fields read
  on the way; or, when there is no such variant or its decoder fails, as an unknown PGN with the
  packet's information and data, all its errors as the reason and, for a proprietary PGN of more than
  two bytes, the manufacturer code of its first eleven bits. Nothing on the way panics.
\<close>

theorem dispatch_correct:
  assumes "length (Data p) < 65536"
    and "\<forall>ds. table (PGN (Info p)) = Some ds \<longrightarrow> list_all (\<lambda>v. list_all plain_match (MatchSpecs v)) ds"
  shows "\<exists>x. ps_HandlePacket table True p = Some [x] \<and> spec_decoded table p x"
  using dispatch_decoded[OF assms(1), of table True] assms(2) by (auto simp: pgnReady_def)

text \<open>The entries of PGN 126208 for the request and the command group function.\<close>

definition ex_match :: "int \<Rightarrow> MatchFieldSpec" where
  "ex_match v = \<lparr>match_FieldSpec = \<lparr>BitLength = 8, BitOffset = 0, MaxRawValue = 0, MissingValue = 0,
     Offset = 0, IsSigned = False, ReservedCount = 0, BitLengthVariable = False\<rparr>, MatchValue = v\<rparr>"

definition ex_variants :: "string variants" where
  "ex_variants pgn = (if pgn = 126208
     then Some [\<lparr>Decoder = \<lambda>_ _. Inr ''request'', MatchSpecs = [ex_match 0]\<rparr>,
                \<lparr>Decoder = \<lambda>_ _. Inr ''command'', MatchSpecs = [ex_match 1]\<rparr>]
     else None)"

definition ex_command :: Packet where
  "ex_command = NewPacket \<lparr>Timestamp = 0, Priority = 3, PGN = 126208, SourceId = 1, TargetId = 2\<rparr> [1, 0xF0, 1]"

theorem dispatch_correct_witness:
  "ps_HandlePacket ex_variants True ex_command = Some [Known ''command'']"
proof -
  have "\<exists>x. ps_HandlePacket ex_variants True ex_command = Some [x] \<and> spec_decoded ex_variants ex_command x"
    by (rule dispatch_correct) (simp_all add: ex_variants_def ex_command_def plain_match_def ex_match_def)
  moreover have "first_match (Data ex_command) (the (ex_variants (PGN (Info ex_command))))
      = Some \<lparr>Decoder = \<lambda>_ _. Inr ''command'', MatchSpecs = [ex_match 1]\<rparr>"
    by (simp add: first_match_def ex_variants_def ex_command_def ex_match_def matches_def wire_bits_def
        dbit_def upt_rec)
  ultimately show ?thesis
    by (auto simp: spec_decoded_def ex_variants_def ex_command_def)
qed

end
