(* ===== verification/Service.thy ===== *)
theory Service
  imports Msgqueue Metrics Subscriptions Dispatch
begin

text \<open>
  The N2K service (\<open>internal/n2kinternal/n2kinternal.go\<close>): received messages go through the queue
  to one processor goroutine, which hands them to the adapter; complete packets become structs and
  structs are handed to the subscribers. The pieces a lock or a channel makes atomic are the
  actions of the model, and any sequence of actions is a run; an action that its state does not
  allow does nothing. The clock readings and the durations measured are part of an action.
  \<open>None\<close> is a panic. The start and the end of the processor are driven by the lifecycle of the
  endpoint, which starts one only after the one before has returned.

  The generated table of variants and the Go type of a decoded struct are parameters. The hook on
  received frames, what a callback does, and the times of single callbacks are left out. Messages
  are values, so the copy \<open>cloneMessage\<close> makes is not visible.
\<close>

section \<open>State\<close>

record 'p environment =
  env_variants :: "'p variants"
  env_type :: "'p \<Rightarrow> gotype"

text \<open>Where the processor goroutine is, and what it holds.\<close>

datatype phase = NoProcessor | Waiting | Blocked
  | Taken queuedMessage | Busy queuedMessage | Finishing queuedMessage

record N2kService =
  sv_adapter :: CANAdapter
  sv_replayAdapter :: "CANAdapter option"
  sv_subscriber :: SubscribeManager
  sv_messageQueue :: messageQueue
  messageQueueMaxAge :: goduration
  messageQueueProcessingNano :: int
  messageQueueDropped :: u64
  messageQueueBacklogDropped :: u64
  messageQueueStaleDropped :: u64
  messageQueueWG :: int
  sv_metrics :: processingMetrics
  processorCancel :: bool
  processorCtxDone :: bool
  sv_phase :: phase
  sv_log :: bool
  queueLastLog :: "gotime option"
  queueLastDroppedLog :: u64
  queueLastBacklogDroppedLog :: u64
  queueLastStaleDroppedLog :: u64

definition DefaultMessageQueueMaxAge :: goduration where "DefaultMessageQueueMaxAge = 500000000"
definition messageQueueLogInterval :: goduration where "messageQueueLogInterval = 1000000000"

definition WithMessageQueueMaxAge :: "goduration \<Rightarrow> goduration \<Rightarrow> goduration" where
  "WithMessageQueueMaxAge maxAge options = (if maxAge < 0 then 0 else maxAge)"

definition NewN2kService :: "(goduration \<Rightarrow> goduration) list \<Rightarrow> bool \<Rightarrow> gotime \<Rightarrow> N2kService" where
  "NewN2kService opts log now =
     \<lparr>sv_adapter = SetWriter (SetOutput NewCANAdapter True) True, sv_replayAdapter = None,
      sv_subscriber = NewSubscribeManager, sv_messageQueue = newMessageQueue,
      messageQueueMaxAge = fold (\<lambda>opt. opt) opts DefaultMessageQueueMaxAge,
      messageQueueProcessingNano = 0, messageQueueDropped = 0, messageQueueBacklogDropped = 0,
      messageQueueStaleDropped = 0, messageQueueWG = 0, sv_metrics = newProcessingMetrics now,
      processorCancel = False, processorCtxDone = False, sv_phase = NoProcessor, sv_log = log,
      queueLastLog = None, queueLastDroppedLog = 0, queueLastBacklogDroppedLog = 0,
      queueLastStaleDroppedLog = 0\<rparr>"

record messageQueueSnapshot =
  qs_depth :: int
  qs_oldestAge :: goduration
  qs_processingAge :: goduration
  qs_lag :: goduration

record queueReport =
  rp_time :: gotime
  rp_queue :: messageQueueSnapshot
  rp_dropped :: "u64 \<times> u64"
  rp_backlogDropped :: "u64 \<times> u64"
  rp_staleDropped :: "u64 \<times> u64"
  rp_metrics :: processingMetricsSnapshot

text \<open>What a run shows: the fate of every message, the packets decoded, the callbacks called, the reports logged.\<close>

datatype 'p event = Accepted queuedMessage | Rejected queuedMessage | Dropped queuedMessage
  | Discarded "queuedMessage list" | Processed queuedMessage gotime
  | Decoded gotime message "Packet list" | Called nat argument "'p decoded" | Logged queueReport

type_synonym 'p effect = "N2kService \<Rightarrow> ('p event list \<times> N2kService) option"

text \<open>One effect after the other.\<close>

definition andThen :: "'p effect \<Rightarrow> 'p effect \<Rightarrow> 'p effect" where
  "andThen f g s = (case f s of None \<Rightarrow> None
     | Some (es, s) \<Rightarrow> (case g s of None \<Rightarrow> None | Some (es', s) \<Rightarrow> Some (es @ es', s)))"

definition update :: "(N2kService \<Rightarrow> N2kService) \<Rightarrow> 'p effect" where
  "update f s = Some ([], f s)"

definition emit :: "'p event \<Rightarrow> 'p effect" where
  "emit e s = Some ([e], s)"

section \<open>The queue's lag and its reports\<close>

definition messageQueueProcessingAge :: "gotime \<Rightarrow> N2kService \<Rightarrow> goduration" where
  "messageQueueProcessingAge now s =
     (if messageQueueProcessingNano s = 0 then 0
      else (let age = now - messageQueueProcessingNano s in if age < 0 then 0 else age))"

definition sv_messageQueueStats :: "gotime \<Rightarrow> N2kService \<Rightarrow> messageQueueSnapshot" where
  "sv_messageQueueStats now s =
     (let queueStats = mq_stats (sv_messageQueue s) now;
          processingAge = messageQueueProcessingAge now s
      in \<lparr>qs_depth = st_depth queueStats, qs_oldestAge = st_oldestAge queueStats,
          qs_processingAge = processingAge, qs_lag = maxDuration (st_oldestAge queueStats) processingAge\<rparr>)"

definition MessageQueueLag :: "gotime \<Rightarrow> N2kService \<Rightarrow> goduration" where
  "MessageQueueLag now s = qs_lag (sv_messageQueueStats now s)"

definition maybeLogMessageQueueBacklog :: "gotime \<Rightarrow> 'p effect" where
  "maybeLogMessageQueueBacklog now s =
     (if \<not> sv_log s then Some ([], s)
      else if (case queueLastLog s of None \<Rightarrow> False | Some t \<Rightarrow> now - t < messageQueueLogInterval)
      then Some ([], s)
      else (let queueStats = sv_messageQueueStats now s;
                droppedTotal = messageQueueDropped s;
                droppedInterval = droppedTotal - queueLastDroppedLog s;
                backlogDroppedTotal = messageQueueBacklogDropped s;
                backlogDroppedInterval = backlogDroppedTotal - queueLastBacklogDroppedLog s;
                staleDroppedTotal = messageQueueStaleDropped s;
                staleDroppedInterval = staleDroppedTotal - queueLastStaleDroppedLog s
            in if droppedInterval = 0 \<and> qs_lag queueStats \<le> messageQueueMaxAge s then Some ([], s)
               else (let (metricsSnapshot, metrics) = snapshot now (sv_metrics s);
                         s = s\<lparr>queueLastLog := Some now, queueLastDroppedLog := droppedTotal,
                               queueLastBacklogDroppedLog := backlogDroppedTotal,
                               queueLastStaleDroppedLog := staleDroppedTotal, sv_metrics := metrics\<rparr>
                     in Some ([Logged \<lparr>rp_time = now, rp_queue = queueStats,
                          rp_dropped = (droppedInterval, droppedTotal),
                          rp_backlogDropped = (backlogDroppedInterval, backlogDroppedTotal),
                          rp_staleDropped = (staleDroppedInterval, staleDroppedTotal),
                          rp_metrics = metricsSnapshot\<rparr>], s))))"

section \<open>From a message to the subscribers\<close>

text \<open>The durations measured while a message is processed, one for each level.\<close>

record timing =
  time_frame :: goduration
  time_packet :: goduration
  time_struct :: goduration

definition unknownPGN_type :: gotype where
  "unknownPGN_type = \<lparr>ty_package = ''pgn'', ty_name = ''UnknownPGN''\<rparr>"

definition decoded_type :: "'p environment \<Rightarrow> 'p decoded \<Rightarrow> gotype" where
  "decoded_type env x = (case x of Known p \<Rightarrow> env_type env p | Unknown u \<Rightarrow> unknownPGN_type)"

definition sv_HandleStruct :: "'p environment \<Rightarrow> timing \<Rightarrow> 'p decoded \<Rightarrow> 'p effect" where
  "sv_HandleStruct env t p s =
     Some (map (\<lambda>(f, a). Called f a p) (HandleStruct (decoded_type env p) (sv_subscriber s)),
       s\<lparr>sv_metrics := observeSubscriber (time_struct t) (sv_metrics s)\<rparr>)"

definition sv_HandlePacket :: "'p environment \<Rightarrow> timing \<Rightarrow> Packet \<Rightarrow> 'p effect" where
  "sv_HandlePacket env t packet s =
     (case ps_HandlePacket (env_variants env) True packet of
        None \<Rightarrow> None
      | Some structs \<Rightarrow>
          andThen (fold (\<lambda>p k. andThen k (sv_HandleStruct env t p)) structs (update id))
            (update (\<lambda>s. s\<lparr>sv_metrics := observePacket (time_packet t) (sv_metrics s)\<rparr>)) s)"

definition handle_packets :: "'p environment \<Rightarrow> timing \<Rightarrow> Packet list \<Rightarrow> 'p effect" where
  "handle_packets env t packets = fold (\<lambda>p k. andThen k (sv_HandlePacket env t p)) packets (update id)"

definition processMessage :: "'p environment \<Rightarrow> gotime \<Rightarrow> timing \<Rightarrow> message \<Rightarrow> 'p effect" where
  "processMessage env now t m s =
     (let (pgnNum, hasPGN) = messagePGN now m
      in case HandleMessage now (sv_adapter s) m of
           None \<Rightarrow> None
         | Some (adapter, packets) \<Rightarrow>
             andThen (emit (Decoded now m packets))
               (andThen (handle_packets env t packets)
                 (update (\<lambda>s. s\<lparr>sv_metrics := observeFrame pgnNum hasPGN (time_frame t) (sv_metrics s)\<rparr>)))
               (s\<lparr>sv_adapter := adapter\<rparr>))"

definition HandleReplayCANFrame :: "'p environment \<Rightarrow> gotime \<Rightarrow> timing \<Rightarrow> Frame \<Rightarrow> 'p effect" where
  "HandleReplayCANFrame env now t frame s =
     (let replay = (case sv_replayAdapter s of None \<Rightarrow> SetOutput NewCANAdapter True | Some a \<Rightarrow> a)
      in case HandleMessage now replay (FrameMessage frame) of
           None \<Rightarrow> None
         | Some (replay, packets) \<Rightarrow>
             handle_packets env t packets (s\<lparr>sv_replayAdapter := Some replay\<rparr>))"

section \<open>Receiving\<close>

definition wg_done :: "nat \<Rightarrow> 'p effect" where
  "wg_done n s = (if messageQueueWG s < int n then None
     else Some ([], s\<lparr>messageQueueWG := messageQueueWG s - int n\<rparr>))"

text \<open>The increments of the counters of dropped messages.\<close>

definition count_backlog_drop :: "N2kService \<Rightarrow> N2kService" where
  "count_backlog_drop s = s\<lparr>messageQueueDropped := messageQueueDropped s + 1,
     messageQueueBacklogDropped := messageQueueBacklogDropped s + 1\<rparr>"

definition count_stale_drop :: "N2kService \<Rightarrow> N2kService" where
  "count_stale_drop s = s\<lparr>messageQueueDropped := messageQueueDropped s + 1,
     messageQueueStaleDropped := messageQueueStaleDropped s + 1\<rparr>"

definition sv_HandleMessage :: "'p environment \<Rightarrow> gotime \<Rightarrow> timing \<Rightarrow> message \<Rightarrow> 'p effect" where
  "sv_HandleMessage env now t m s =
     (let queued = \<lparr>qm_message = Some m, enqueuedAt = now\<rparr>
      in if \<not> processorCancel s then processMessage env now t m s
         else (let s = s\<lparr>messageQueueWG := messageQueueWG s + 1\<rparr>;
                   (accepted, queueStats, q) = enqueueIfCurrent (sv_messageQueue s) queued
                      (messageQueueMaxAge s) (messageQueueProcessingAge (enqueuedAt queued) s);
                   s = s\<lparr>sv_messageQueue := q\<rparr>
               in if \<not> accepted
                  then andThen (emit (Rejected queued)) (andThen (wg_done 1) (andThen (update count_backlog_drop)
                         (maybeLogMessageQueueBacklog now))) s
                  else andThen (emit (Accepted queued))
                         (if st_lag queueStats > messageQueueMaxAge s then maybeLogMessageQueueBacklog now
                          else update id) s))"

section \<open>The processor\<close>

definition startMessageProcessor :: "N2kService \<Rightarrow> N2kService" where
  "startMessageProcessor s =
     (if processorCancel s then s
      else s\<lparr>processorCancel := True, processorCtxDone := False, sv_phase := Waiting\<rparr>)"

text \<open>The first half of \<open>stopMessageProcessor\<close>; the second waits for the phase \<open>NoProcessor\<close>.\<close>

definition stopMessageProcessor :: "N2kService \<Rightarrow> N2kService" where
  "stopMessageProcessor s = s\<lparr>processorCancel := False,
     processorCtxDone := processorCtxDone s \<or> processorCancel s\<rparr>"

text \<open>
  \<open>processQueuedMessage\<close> up to the decision, then the processing, then what is deferred. A message
  of the queue is never nil.
\<close>

definition begin_message :: "gotime \<Rightarrow> queuedMessage \<Rightarrow> 'p effect" where
  "begin_message now queued s =
     (let s = s\<lparr>messageQueueProcessingNano := enqueuedAt queued\<rparr>;
          queueWait = now - enqueuedAt queued;
          s = s\<lparr>sv_metrics := observeQueueWait queueWait (sv_metrics s)\<rparr>
      in if queueWait > messageQueueMaxAge s
         then andThen (emit (Dropped queued)) (andThen (update count_stale_drop)
                (andThen (maybeLogMessageQueueBacklog now)
                  (update (\<lambda>s. s\<lparr>sv_phase := Finishing queued\<rparr>)))) s
         else andThen (emit (Processed queued now)) (update (\<lambda>s. s\<lparr>sv_phase := Busy queued\<rparr>)) s)"

definition process_message :: "'p environment \<Rightarrow> gotime \<Rightarrow> timing \<Rightarrow> queuedMessage \<Rightarrow> 'p effect" where
  "process_message env now t queued =
     andThen (processMessage env now t (case qm_message queued of None \<Rightarrow> OtherMessage | Some m \<Rightarrow> m))
       (update (\<lambda>s. s\<lparr>sv_phase := Finishing queued\<rparr>))"

definition finish_message :: "gotime \<Rightarrow> bool \<Rightarrow> 'p effect" where
  "finish_message now tick =
     andThen (update (\<lambda>s. s\<lparr>messageQueueProcessingNano := 0\<rparr>))
       (andThen (wg_done 1)
         (andThen (if tick then maybeLogMessageQueueBacklog now else update id)
           (update (\<lambda>s. s\<lparr>sv_phase := Waiting\<rparr>))))"

text \<open>The first test of \<open>dequeue\<close>, its wait, and what follows when it gives up.\<close>

definition dequeue_message :: "'p effect" where
  "dequeue_message s =
     (case try_dequeue (sv_messageQueue s) of
        None \<Rightarrow> Some ([], s\<lparr>sv_phase := Blocked\<rparr>)
      | Some (queued, q) \<Rightarrow> Some ([], s\<lparr>sv_messageQueue := q, sv_phase := Taken queued\<rparr>))"

definition discardQueuedMessages :: "'p effect" where
  "discardQueuedMessages s =
     (let (count, q) = discard (sv_messageQueue s)
      in andThen (emit (Discarded (mq_items (sv_messageQueue s)))) (wg_done (nat count))
           (s\<lparr>sv_messageQueue := q\<rparr>))"

definition quit_processor :: "'p effect" where
  "quit_processor = andThen discardQueuedMessages
     (update (\<lambda>s. s\<lparr>processorCancel := False, sv_phase := NoProcessor\<rparr>))"

section \<open>Runs\<close>

datatype action = Receive gotime timing message | Replay gotime timing Frame | Manage sub_op
  | StartProcessor | StopProcessor | CancelContext
  | Dequeue | Wake | Quit | Begin gotime | Process gotime timing | Finish gotime bool

fun act :: "'p environment \<Rightarrow> action \<Rightarrow> 'p effect" where
  "act env (Receive now t m) s = sv_HandleMessage env now t m s"
| "act env (Replay now t f) s = HandleReplayCANFrame env now t f s"
| "act env (Manage p) s = map_option (\<lambda>m. ([], s\<lparr>sv_subscriber := m\<rparr>)) (exec_op p (sv_subscriber s))"
| "act env StartProcessor s = Some ([], if sv_phase s = NoProcessor then startMessageProcessor s else s)"
| "act env StopProcessor s = Some ([], stopMessageProcessor s)"
| "act env CancelContext s = Some ([], s\<lparr>processorCtxDone := True\<rparr>)"
| "act env Dequeue s = (if sv_phase s = Waiting then dequeue_message s else Some ([], s))"
| "act env Wake s =
     (if sv_phase s = Blocked \<and> notified (sv_messageQueue s)
      then Some ([], s\<lparr>sv_messageQueue := (sv_messageQueue s)\<lparr>notified := False\<rparr>, sv_phase := Waiting\<rparr>)
      else Some ([], s))"
| "act env Quit s = (if sv_phase s = Blocked \<and> processorCtxDone s then quit_processor s else Some ([], s))"
| "act env (Begin now) s = (case sv_phase s of Taken queued \<Rightarrow> begin_message now queued s | _ \<Rightarrow> Some ([], s))"
| "act env (Process now t) s =
     (case sv_phase s of Busy queued \<Rightarrow> process_message env now t queued s | _ \<Rightarrow> Some ([], s))"
| "act env (Finish now tick) s =
     (case sv_phase s of Finishing queued \<Rightarrow> finish_message now tick s | _ \<Rightarrow> Some ([], s))"

fun run_service :: "'p environment \<Rightarrow> action list \<Rightarrow> 'p effect" where
  "run_service env [] = update id"
| "run_service env (a # as) = andThen (act env a) (run_service env as)"

section \<open>The effects\<close>

lemma andThen_simps [simp]:
  "f s = Some (es, s1) \<Longrightarrow> andThen f g s = map_option (\<lambda>(es', s2). (es @ es', s2)) (g s1)"
  "f s = None \<Longrightarrow> andThen f g s = None"
  by (auto simp: andThen_def split: option.splits)

lemma effect_simps [simp]:
  "update f s = Some ([], f s)" "emit e s = Some ([e], s)"
  by (simp_all add: update_def emit_def)

lemma andThen_assoc: "andThen (andThen f g) h = andThen f (andThen g h)"
  by (rule ext) (auto simp: andThen_def split: option.splits)

lemma andThen_SomeE:
  assumes "andThen f g s = Some (es, s')"
  obtains es1 s1 es2 where "f s = Some (es1, s1)" and "g s1 = Some (es2, s')" and "es = es1 @ es2"
  using assms by (auto simp: andThen_def split: option.splits)

text \<open>The calls a packet gives rise to.\<close>

definition struct_calls :: "'p environment \<Rightarrow> SubscribeManager \<Rightarrow> 'p decoded \<Rightarrow> 'p event list" where
  "struct_calls env m x = map (\<lambda>(f, a). Called f a x) (HandleStruct (decoded_type env x) m)"

definition packet_calls :: "'p environment \<Rightarrow> SubscribeManager \<Rightarrow> Packet \<Rightarrow> 'p event list" where
  "packet_calls env m p = concat (map (struct_calls env m) (the (ps_HandlePacket (env_variants env) True p)))"

definition table_ok :: "'p environment \<Rightarrow> bool" where
  "table_ok env \<longleftrightarrow> (\<forall>pgn ds. env_variants env pgn = Some ds \<longrightarrow>
     list_all (\<lambda>v. list_all plain_match (MatchSpecs v)) ds)"

text \<open>Effects that only emit and touch the metrics, one after the other.\<close>

definition calls_only :: "'p effect \<Rightarrow> (SubscribeManager \<Rightarrow> 'p event list) \<Rightarrow> bool" where
  "calls_only f g \<longleftrightarrow> (\<forall>s. \<exists>mm. f s = Some (g (sv_subscriber s), s\<lparr>sv_metrics := mm\<rparr>))"

lemma calls_onlyE:
  assumes "calls_only f g"
  obtains mm where "f s = Some (g (sv_subscriber s), s\<lparr>sv_metrics := mm\<rparr>)"
  using assms by (auto simp: calls_only_def)

lemma calls_only_andThen:
  assumes "calls_only f g" and "calls_only f' g'"
  shows "calls_only (andThen f f') (\<lambda>m. g m @ g' m)"
  unfolding calls_only_def
proof
  fix s
  obtain mm where f: "f s = Some (g (sv_subscriber s), s\<lparr>sv_metrics := mm\<rparr>)"
    using calls_onlyE[OF assms(1)] .
  obtain mm' where "f' (s\<lparr>sv_metrics := mm\<rparr>) = Some (g' (sv_subscriber s), s\<lparr>sv_metrics := mm'\<rparr>)"
    using calls_onlyE[OF assms(2), of "s\<lparr>sv_metrics := mm\<rparr>"] by auto
  with f show "\<exists>mm. andThen f f' s = Some (g (sv_subscriber s) @ g' (sv_subscriber s), s\<lparr>sv_metrics := mm\<rparr>)"
    by auto
qed

lemma calls_only_fold:
  assumes "\<forall>x \<in> set xs. calls_only (k x) (g x)" and "calls_only f h"
  shows "calls_only (fold (\<lambda>x f. andThen f (k x)) xs f) (\<lambda>m. h m @ concat (map (\<lambda>x. g x m) xs))"
  using assms
proof (induction xs arbitrary: f h)
  case (Cons x xs)
  then have "calls_only (andThen f (k x)) (\<lambda>m. h m @ g x m)" by (simp add: calls_only_andThen)
  with Cons show ?case by fastforce
qed simp

lemma calls_only_metrics: "calls_only (update (\<lambda>s. s\<lparr>sv_metrics := o_m (sv_metrics s)\<rparr>)) (\<lambda>_. [])"
  by (auto simp: calls_only_def)

lemma calls_only_id: "calls_only (update id) (\<lambda>_. [])"
  using calls_only_metrics[of id] by (simp add: id_def)

lemma calls_only_struct: "calls_only (sv_HandleStruct env t p) (\<lambda>m. struct_calls env m p)"
  by (auto simp: calls_only_def sv_HandleStruct_def struct_calls_def)

lemma calls_only_packet:
  assumes "table_ok env" and "length (Data p) < 65536"
  shows "calls_only (sv_HandlePacket env t p) (\<lambda>m. packet_calls env m p)"
proof -
  obtain x where x: "ps_HandlePacket (env_variants env) True p = Some [x]"
    using dispatch_decoded[OF assms(2), of "env_variants env" True] assms(1)
    by (auto simp: table_ok_def pgnReady_def)
  have "calls_only (andThen (fold (\<lambda>p k. andThen k (sv_HandleStruct env t p)) [x] (update id))
      (update (\<lambda>s. s\<lparr>sv_metrics := observePacket (time_packet t) (sv_metrics s)\<rparr>)))
      (\<lambda>m. ([] @ concat (map (\<lambda>p. struct_calls env m p) [x])) @ [])"
    by (intro calls_only_andThen calls_only_fold calls_only_metrics calls_only_id ballI calls_only_struct)
  moreover have "sv_HandlePacket env t p = andThen (fold (\<lambda>p k. andThen k (sv_HandleStruct env t p)) [x] (update id))
      (update (\<lambda>s. s\<lparr>sv_metrics := observePacket (time_packet t) (sv_metrics s)\<rparr>))"
    by (rule ext) (simp add: sv_HandlePacket_def x)
  ultimately show ?thesis by (simp add: packet_calls_def x)
qed

lemma calls_only_packets:
  assumes "table_ok env" and "\<forall>p \<in> set ps. length (Data p) < 65536"
  shows "calls_only (handle_packets env t ps) (\<lambda>m. concat (map (packet_calls env m) ps))"
proof -
  have "calls_only (fold (\<lambda>p k. andThen k (sv_HandlePacket env t p)) ps (update id))
      (\<lambda>m. [] @ concat (map (\<lambda>p. packet_calls env m p) ps))"
    using assms by (intro calls_only_fold calls_only_id ballI calls_only_packet) auto
  then show ?thesis by (simp add: handle_packets_def)
qed

text \<open>Frames have 8 bytes: the data of a \<open>can.Frame\<close> is an array.\<close>

definition msg_ok :: "message \<Rightarrow> bool" where
  "msg_ok m \<longleftrightarrow> (case m of FrameMessage f \<Rightarrow> length (frame_Data f) = 8 | OtherMessage \<Rightarrow> True)"

definition adapter_ok :: "CANAdapter \<Rightarrow> bool" where
  "adapter_ok a \<longleftrightarrow> mb_inv (multi a) \<and> handler a"

lemma HandleMessage_ok:
  assumes "adapter_ok a" and "msg_ok m"
  shows "\<exists>a' ps. HandleMessage now a m = Some (a', ps) \<and> adapter_ok a'
    \<and> (\<forall>p \<in> set ps. length (Data p) < 65536)"
proof (cases m)
  case (FrameMessage f)
  let ?p = "NewPacket (ExtractMessageInfo now f) (frame_Data f)"
  have p: "frame_packet ?p" "\<not> Complete ?p" using assms(2) by (auto simp: FrameMessage msg_ok_def frame_packet_def)
  have inv: "mb_inv (multi a)" using assms(1) by (simp add: adapter_ok_def)
  obtain m' qs where r: "run_builder (multi a) [?p] = Some (m', qs)" "mb_inv m'"
    using mb.run_total[of "multi a" "[?p]"] p inv by (auto simp: mb_inv_all)
  then obtain q where q: "Add (multi a) ?p = Some (m', q)" "qs = [q]"
    by (auto split: option.splits prod.splits)
  have "Complete q \<longrightarrow> length (Data q) \<le> 223"
    using run_complete_bound[OF r(1) inv] p q(2) by auto
  with q r assms show ?thesis
    by (auto simp: FrameMessage HandleMessage_def Let_def packetReady_def adapter_ok_def msg_ok_def)
qed (use assms in \<open>simp add: HandleMessage_def\<close>)

lemma processMessage_eq:
  assumes "table_ok env" and "adapter_ok (sv_adapter s)" and "msg_ok m"
  shows "\<exists>a ps mm. HandleMessage now (sv_adapter s) m = Some (a, ps) \<and> adapter_ok a
    \<and> processMessage env now t m s
      = Some (Decoded now m ps # concat (map (packet_calls env (sv_subscriber s)) ps),
          s\<lparr>sv_adapter := a, sv_metrics := mm\<rparr>)"
proof -
  obtain a ps where h: "HandleMessage now (sv_adapter s) m = Some (a, ps)" "adapter_ok a"
    "\<forall>p \<in> set ps. length (Data p) < 65536"
    using HandleMessage_ok[OF assms(2,3)] by blast
  obtain mm where "handle_packets env t ps (s\<lparr>sv_adapter := a\<rparr>)
      = Some (concat (map (packet_calls env (sv_subscriber s)) ps), s\<lparr>sv_adapter := a, sv_metrics := mm\<rparr>)"
    using calls_onlyE[OF calls_only_packets[OF assms(1) h(3), of t], of "s\<lparr>sv_adapter := a\<rparr>"] by auto
  with h show ?thesis by (auto simp: processMessage_def Let_def split: prod.splits)
qed

text \<open>Logging touches the metrics and the log state only.\<close>

definition report_of :: "gotime \<Rightarrow> N2kService \<Rightarrow> messageQueueSnapshot \<Rightarrow> processingMetricsSnapshot \<Rightarrow> queueReport" where
  "report_of now s q x = \<lparr>rp_time = now, rp_queue = q,
     rp_dropped = (messageQueueDropped s - queueLastDroppedLog s, messageQueueDropped s),
     rp_backlogDropped = (messageQueueBacklogDropped s - queueLastBacklogDroppedLog s, messageQueueBacklogDropped s),
     rp_staleDropped = (messageQueueStaleDropped s - queueLastStaleDroppedLog s, messageQueueStaleDropped s),
     rp_metrics = x\<rparr>"

lemma maybeLog_cases:
  fixes f :: "'p effect"
  assumes "f = maybeLogMessageQueueBacklog now"
  shows "f s = Some ([], s) \<or> (\<exists>q x mm. f s = Some ([Logged (report_of now s q x)],
       s\<lparr>queueLastLog := Some now, queueLastDroppedLog := messageQueueDropped s,
         queueLastBacklogDroppedLog := messageQueueBacklogDropped s,
         queueLastStaleDroppedLog := messageQueueStaleDropped s, sv_metrics := mm\<rparr>)
     \<and> (\<forall>t. queueLastLog s = Some t \<longrightarrow> messageQueueLogInterval \<le> now - t))"
  unfolding assms
  by (auto simp: maybeLogMessageQueueBacklog_def report_of_def Let_def not_less split: if_splits prod.splits option.splits)

section \<open>The invariant of a run\<close>

text \<open>What a trace says of the messages: those accepted, and those whose fate is settled, in order.\<close>

fun accepted_of :: "'p event \<Rightarrow> queuedMessage list" where
  "accepted_of (Accepted q) = [q]"
| "accepted_of _ = []"

fun settled_of :: "'p event \<Rightarrow> queuedMessage list" where
  "settled_of (Processed q _) = [q]"
| "settled_of (Dropped q) = [q]"
| "settled_of (Discarded qs) = qs"
| "settled_of _ = []"

fun decoded_of :: "'p event \<Rightarrow> (gotime \<times> message) list" where
  "decoded_of (Decoded now m _) = [(now, m)]"
| "decoded_of _ = []"

fun packets_of :: "'p event \<Rightarrow> Packet list" where
  "packets_of (Decoded _ _ ps) = ps"
| "packets_of _ = []"

fun reports_of :: "'p event \<Rightarrow> queueReport list" where
  "reports_of (Logged r) = [r]"
| "reports_of _ = []"

fun is_Rejected :: "'p event \<Rightarrow> bool" where "is_Rejected (Rejected q) = True" | "is_Rejected _ = False"
fun is_Dropped :: "'p event \<Rightarrow> bool" where "is_Dropped (Dropped q) = True" | "is_Dropped _ = False"

definition on_trace :: "('p event \<Rightarrow> 'a list) \<Rightarrow> 'p event list \<Rightarrow> 'a list" where
  "on_trace f tr = concat (map f tr)"

lemma on_trace_simps [simp]:
  "on_trace f [] = []" "on_trace f (e # es) = f e @ on_trace f es"
  "on_trace f (es @ es') = on_trace f es @ on_trace f es'"
  by (simp_all add: on_trace_def)

definition count :: "('p event \<Rightarrow> bool) \<Rightarrow> 'p event list \<Rightarrow> nat" where
  "count P tr = length (filter P tr)"

lemma count_simps [simp]:
  "count P [] = 0" "count P (e # es) = of_bool (P e) + count P es"
  "count P (es @ es') = count P es + count P es'"
  by (simp_all add: count_def)

definition processor_ok :: "goduration \<Rightarrow> 'p event list \<Rightarrow> bool" where
  "processor_ok age tr \<longleftrightarrow> (\<forall>q now. Processed q now \<in> set tr \<longrightarrow> now - enqueuedAt q \<le> age)"

text \<open>The message taken whose fate is open, and the one for which a \<open>Done\<close> is still due.\<close>

fun in_hand :: "phase \<Rightarrow> queuedMessage list" where
  "in_hand (Taken q) = [q]"
| "in_hand _ = []"

fun held :: "phase \<Rightarrow> queuedMessage list" where
  "held (Taken q) = [q]" | "held (Busy q) = [q]" | "held (Finishing q) = [q]"
| "held _ = []"

definition queued_ok :: "queuedMessage \<Rightarrow> bool" where
  "queued_ok q \<longleftrightarrow> (\<exists>m. qm_message q = Some m \<and> msg_ok m)"

definition flow_ok :: "'p event list \<Rightarrow> N2kService \<Rightarrow> bool" where
  "flow_ok tr s \<longleftrightarrow> mq_ok (sv_messageQueue s)
     \<and> messageQueueWG s = int (length (mq_items (sv_messageQueue s))) + int (length (held (sv_phase s)))
     \<and> on_trace accepted_of tr = on_trace settled_of tr @ in_hand (sv_phase s) @ mq_items (sv_messageQueue s)
     \<and> (sv_phase s = NoProcessor \<longrightarrow> \<not> processorCancel s \<and> mq_items (sv_messageQueue s) = [])
     \<and> processor_ok (messageQueueMaxAge s) tr
     \<and> list_all queued_ok (held (sv_phase s) @ mq_items (sv_messageQueue s))"

definition counts_ok :: "'p event list \<Rightarrow> N2kService \<Rightarrow> bool" where
  "counts_ok tr s \<longleftrightarrow> messageQueueBacklogDropped s = of_nat (count is_Rejected tr)
     \<and> messageQueueStaleDropped s = of_nat (count is_Dropped tr)
     \<and> messageQueueDropped s = of_nat (count is_Rejected tr + count is_Dropped tr)"

definition adapters_ok :: "'p event list \<Rightarrow> N2kService \<Rightarrow> bool" where
  "adapters_ok tr s \<longleftrightarrow> adapter_ok (sv_adapter s) \<and> (\<forall>a. sv_replayAdapter s = Some a \<longrightarrow> adapter_ok a)
     \<and> run_adapter (SetWriter (SetOutput NewCANAdapter True) True) (on_trace decoded_of tr)
         = Some (sv_adapter s, on_trace packets_of tr)"

text \<open>Reports are at least an interval apart, and their numbers add up.\<close>

fun spaced :: "gotime list \<Rightarrow> bool" where
  "spaced (a # b # ts) = (messageQueueLogInterval \<le> b - a \<and> spaced (b # ts))"
| "spaced _ = True"

definition logs_ok :: "'p event list \<Rightarrow> N2kService \<Rightarrow> bool" where
  "logs_ok tr s \<longleftrightarrow> (let rs = on_trace reports_of tr
     in spaced (map rp_time rs)
        \<and> queueLastLog s = (if rs = [] then None else Some (rp_time (last rs)))
        \<and> sum_list (map (fst \<circ> rp_dropped) rs) = queueLastDroppedLog s
        \<and> sum_list (map (fst \<circ> rp_backlogDropped) rs) = queueLastBacklogDroppedLog s
        \<and> sum_list (map (fst \<circ> rp_staleDropped) rs) = queueLastStaleDroppedLog s)"

definition svc_inv :: "'p event list \<Rightarrow> N2kService \<Rightarrow> bool" where
  "svc_inv tr s \<longleftrightarrow> flow_ok tr s \<and> counts_ok tr s \<and> adapters_ok tr s \<and> logs_ok tr s"

lemma spaced_snoc: "spaced (ts @ [t]) \<longleftrightarrow> spaced ts \<and> (ts \<noteq> [] \<longrightarrow> messageQueueLogInterval \<le> t - last ts)"
  by (induction ts rule: spaced.induct) auto

text \<open>Calls and reports leave all but their own part of the invariant alone.\<close>

definition calls :: "'p event list \<Rightarrow> bool" where
  "calls es \<longleftrightarrow> (\<forall>e \<in> set es. \<exists>f a x. e = Called f a x)"

lemma calls_trace [simp]:
  assumes "calls es"
  shows "on_trace accepted_of es = []" "on_trace settled_of es = []" "on_trace decoded_of es = []"
    "on_trace packets_of es = []" "on_trace reports_of es = []" "count is_Rejected es = 0"
    "count is_Dropped es = 0" "Processed q now \<notin> set es"
  using assms by (induction es) (auto simp: calls_def)

lemma calls_packets [simp]: "calls (concat (map (packet_calls env m) ps))"
  by (auto simp: calls_def packet_calls_def struct_calls_def)

lemma processor_ok_simps [simp]:
  "processor_ok age []"
  "processor_ok age (tr @ es) \<longleftrightarrow> processor_ok age tr \<and> processor_ok age es"
  "processor_ok age (e # es) \<longleftrightarrow> (\<forall>q now. e = Processed q now \<longrightarrow> now - enqueuedAt q \<le> age) \<and> processor_ok age es"
  "calls es \<Longrightarrow> processor_ok age es"
  by (auto simp: processor_ok_def)

lemmas flow_parts = flow_ok_def counts_ok_def adapters_ok_def

definition log_update :: "N2kService \<Rightarrow> N2kService \<Rightarrow> bool" where
  "log_update s s' \<longleftrightarrow> (\<exists>q d b st m. s' = s\<lparr>queueLastLog := q, queueLastDroppedLog := d,
     queueLastBacklogDroppedLog := b, queueLastStaleDroppedLog := st, sv_metrics := m\<rparr>)"

lemma log_update_refl: "log_update s s"
  unfolding log_update_def
  by (intro exI[of _ "queueLastLog s"] exI[of _ "queueLastDroppedLog s"]
      exI[of _ "queueLastBacklogDroppedLog s"] exI[of _ "queueLastStaleDroppedLog s"] exI[of _ "sv_metrics s"]) simp

lemma log_update_parts:
  assumes "log_update s s'"
  shows "flow_ok tr s' = flow_ok tr s" "counts_ok tr s' = counts_ok tr s" "adapters_ok tr s' = adapters_ok tr s"
  using assms by (auto simp: log_update_def flow_parts)

lemma maybeLog_ok:
  fixes tr :: "'p event list"
  assumes "logs_ok tr s"
  shows "\<exists>es s'. (maybeLogMessageQueueBacklog now :: 'p effect) s = Some (es, s') \<and> logs_ok (tr @ es) s'
    \<and> log_update s s' \<and> (es = [] \<or> (\<exists>r. es = [Logged r]))"
  using maybeLog_cases[OF refl, of now s, where ?'p = 'p]
proof (elim disjE exE conjE)
  assume "(maybeLogMessageQueueBacklog now :: 'p effect) s = Some ([], s)"
  with assms show ?thesis by (simp add: log_update_refl)
next
  fix q x mm
  let ?s = "s\<lparr>queueLastLog := Some now, queueLastDroppedLog := messageQueueDropped s,
         queueLastBacklogDroppedLog := messageQueueBacklogDropped s,
         queueLastStaleDroppedLog := messageQueueStaleDropped s, sv_metrics := mm\<rparr>"
  assume l: "(maybeLogMessageQueueBacklog now :: 'p effect) s = Some ([Logged (report_of now s q x)], ?s)"
    and t: "\<forall>t. queueLastLog s = Some t \<longrightarrow> messageQueueLogInterval \<le> now - t"
  have "logs_ok (tr @ [Logged (report_of now s q x)]) ?s"
    using assms t by (auto simp: logs_ok_def Let_def spaced_snoc report_of_def last_map split: if_splits)
  moreover have "log_update s ?s" unfolding log_update_def by blast
  ultimately show ?thesis using l by blast
qed

text \<open>Events that say nothing about the messages.\<close>

definition neutral :: "'p event list \<Rightarrow> bool" where
  "neutral es \<longleftrightarrow> on_trace accepted_of es = [] \<and> on_trace settled_of es = []
     \<and> count is_Rejected es = 0 \<and> count is_Dropped es = 0 \<and> (\<forall>age. processor_ok age es)"

lemma neutral_parts:
  assumes "neutral es"
  shows "flow_ok (tr @ es) s = flow_ok tr s" "counts_ok (tr @ es) s = counts_ok tr s"
  using assms by (simp_all add: neutral_def flow_ok_def counts_ok_def)

lemma neutral_logged: "es = [] \<or> (\<exists>r. es = [Logged r]) \<Longrightarrow> neutral es"
  by (auto simp: neutral_def)

lemma neutral_calls: "calls es \<Longrightarrow> neutral es"
  by (simp add: neutral_def)

lemma neutral_decoded: "neutral es \<Longrightarrow> neutral (Decoded now m ps # es)"
  by (simp add: neutral_def)

section \<open>Every action keeps the invariant and does not panic\<close>

definition step_ok :: "'p event list \<Rightarrow> ('p event list \<times> N2kService) option \<Rightarrow> bool" where
  "step_ok tr r \<longleftrightarrow> (\<exists>es s. r = Some (es, s) \<and> svc_inv (tr @ es) s)"

lemma step_okI: "r = Some (es, s) \<Longrightarrow> svc_inv (tr @ es) s \<Longrightarrow> step_ok tr r"
  by (auto simp: step_ok_def)

lemma step_ok_andThen:
  assumes "step_ok tr (f s)" and "\<And>es s'. f s = Some (es, s') \<Longrightarrow> svc_inv (tr @ es) s' \<Longrightarrow> step_ok (tr @ es) (g s')"
  shows "step_ok tr (andThen f g s)"
proof -
  obtain es s1 where f: "f s = Some (es, s1)" "svc_inv (tr @ es) s1" using assms(1) by (auto simp: step_ok_def)
  with assms(2) obtain es2 s2 where "g s1 = Some (es2, s2)" "svc_inv ((tr @ es) @ es2) s2"
    by (force simp: step_ok_def)
  with f(1) show ?thesis by (auto simp: step_ok_def)
qed

lemma svc_invD:
  assumes "svc_inv tr s"
  shows "flow_ok tr s" "counts_ok tr s" "adapters_ok tr s" "logs_ok tr s"
  using assms by (simp_all add: svc_inv_def)

lemma step_log:
  assumes "svc_inv tr s"
  shows "step_ok tr (maybeLogMessageQueueBacklog now s)"
proof -
  obtain es s' where l: "maybeLogMessageQueueBacklog now s = Some (es, s')" "logs_ok (tr @ es) s'"
    "log_update s s'" "es = [] \<or> (\<exists>r. es = [Logged r])"
    using maybeLog_ok[OF svc_invD(4)[OF assms], of now] by blast
  have "adapters_ok (tr @ es) s = adapters_ok tr s" using l(4) by (auto simp: adapters_ok_def)
  then have "svc_inv (tr @ es) s'"
    using svc_invD(1-3)[OF assms] l(2) log_update_parts[OF l(3), of "tr @ es"] neutral_parts[OF neutral_logged[OF l(4)], of tr]
    by (simp add: svc_inv_def)
  with l(1) show ?thesis by (rule step_okI)
qed

lemma processMessage_ok:
  assumes "table_ok env" and "adapters_ok tr s" and "msg_ok m"
  shows "\<exists>ps cs a mm. processMessage env now t m s
      = Some (Decoded now m ps # cs, s\<lparr>sv_adapter := a, sv_metrics := mm\<rparr>)
    \<and> calls cs \<and> adapters_ok (tr @ Decoded now m ps # cs) (s\<lparr>sv_adapter := a, sv_metrics := mm\<rparr>)"
proof -
  have a: "adapter_ok (sv_adapter s)" using assms(2) by (simp add: adapters_ok_def)
  obtain a ps mm where p: "HandleMessage now (sv_adapter s) m = Some (a, ps)" "adapter_ok a"
    "processMessage env now t m s = Some (Decoded now m ps # concat (map (packet_calls env (sv_subscriber s)) ps),
       s\<lparr>sv_adapter := a, sv_metrics := mm\<rparr>)"
    using processMessage_eq[OF assms(1) a assms(3)] by blast
  moreover have "adapters_ok (tr @ Decoded now m ps # concat (map (packet_calls env (sv_subscriber s)) ps))
      (s\<lparr>sv_adapter := a, sv_metrics := mm\<rparr>)"
    using assms(2) p(1,2) by (simp add: adapters_ok_def run_adapter_append)
  ultimately show ?thesis using calls_packets by blast
qed

lemma step_process:
  assumes "table_ok env" and "svc_inv tr s" and "msg_ok m"
  shows "step_ok tr (processMessage env now t m s)"
proof -
  obtain ps cs a mm where p: "processMessage env now t m s
      = Some (Decoded now m ps # cs, s\<lparr>sv_adapter := a, sv_metrics := mm\<rparr>)" "calls cs"
    "adapters_ok (tr @ Decoded now m ps # cs) (s\<lparr>sv_adapter := a, sv_metrics := mm\<rparr>)"
    using processMessage_ok[OF assms(1) svc_invD(3)[OF assms(2)] assms(3)] by blast
  have "svc_inv (tr @ Decoded now m ps # cs) (s\<lparr>sv_adapter := a, sv_metrics := mm\<rparr>)"
    unfolding svc_inv_def neutral_parts[OF neutral_decoded[OF neutral_calls[OF p(2)]]]
    using svc_invD[OF assms(2)] p(2,3) by (simp add: flow_ok_def counts_ok_def logs_ok_def)
  with p(1) show ?thesis by (rule step_okI)
qed

lemma step_replay:
  assumes "table_ok env" and "svc_inv tr s" and "length (frame_Data f) = 8"
  shows "step_ok tr (HandleReplayCANFrame env now t f s)"
proof -
  let ?r = "case sv_replayAdapter s of None \<Rightarrow> SetOutput NewCANAdapter True | Some a \<Rightarrow> a"
  have "adapter_ok ?r"
    using assms(2) by (auto simp: svc_inv_def adapters_ok_def adapter_ok_def SetOutput_def NewCANAdapter_def
        mb_inv_new split: option.splits)
  then obtain a ps where h: "HandleMessage now ?r (FrameMessage f) = Some (a, ps)" "adapter_ok a"
    "\<forall>p \<in> set ps. length (Data p) < 65536"
    using HandleMessage_ok[of ?r "FrameMessage f" now] assms(3) by (auto simp: msg_ok_def)
  obtain mm where c: "handle_packets env t ps (s\<lparr>sv_replayAdapter := Some a\<rparr>)
      = Some (concat (map (packet_calls env (sv_subscriber s)) ps),
          s\<lparr>sv_replayAdapter := Some a, sv_metrics := mm\<rparr>)" (is "_ = Some (?cs, ?s)")
    using calls_onlyE[OF calls_only_packets[OF assms(1) h(3), of t], of "s\<lparr>sv_replayAdapter := Some a\<rparr>"] by auto
  have "svc_inv (tr @ ?cs) ?s"
    unfolding svc_inv_def neutral_parts[OF neutral_calls[OF calls_packets]]
    using svc_invD[OF assms(2)] h(2) by (simp add: flow_ok_def counts_ok_def logs_ok_def adapters_ok_def)
  moreover have "HandleReplayCANFrame env now t f s = Some (?cs, ?s)"
    by (simp add: HandleReplayCANFrame_def h(1) c)
  ultimately show ?thesis by (intro step_okI)
qed

lemma enqueue_cases:
  assumes "mq_ok q" and "enqueueIfCurrent q m a p = (acc, st, q')"
  shows "mq_ok q' \<and> mq_items q' = (if acc then mq_items q @ [m] else mq_items q)"
  using mq_enq_cases[of q m a p acc q'] assms by (simp add: mq_enq_def)

lemma step_receive:
  fixes env :: "'p environment"
  assumes "table_ok env" and "svc_inv tr s" and "msg_ok m"
  shows "step_ok tr (sv_HandleMessage env now t m s)"
proof (cases "processorCancel s")
  case False
  then show ?thesis using step_process[OF assms] by (simp add: sv_HandleMessage_def)
next
  case True
  let ?q = "\<lparr>qm_message = Some m, enqueuedAt = now\<rparr>"
  obtain acc st q' where e: "enqueueIfCurrent (sv_messageQueue s) ?q (messageQueueMaxAge s)
      (messageQueueProcessingAge now (s\<lparr>messageQueueWG := messageQueueWG s + 1\<rparr>)) = (acc, st, q')"
    by (metis prod_cases3)
  note f = svc_invD[OF assms(2)]
  from enqueue_cases[OF _ e] f(1) have q: "mq_ok q'"
    "mq_items q' = (if acc then mq_items (sv_messageQueue s) @ [?q] else mq_items (sv_messageQueue s))"
    by (simp_all add: flow_ok_def)
  show ?thesis
  proof (cases acc)
    case acc: True
    let ?s = "s\<lparr>messageQueueWG := messageQueueWG s + 1, sv_messageQueue := q'\<rparr>"
    have inv: "svc_inv (tr @ [Accepted ?q]) ?s"
      using f q acc True assms(3)
      by (auto simp: svc_inv_def flow_ok_def counts_ok_def adapters_ok_def logs_ok_def queued_ok_def)
    have "step_ok tr (andThen (emit (Accepted ?q))
        (if st_lag st > messageQueueMaxAge ?s then maybeLogMessageQueueBacklog now else update id) ?s)"
      by (rule step_ok_andThen) (use inv step_log[OF inv, of now] in \<open>auto simp: step_ok_def\<close>)
    then show ?thesis using True e acc by (simp add: sv_HandleMessage_def Let_def)
  next
    case rej: False
    let ?s = "s\<lparr>messageQueueWG := messageQueueWG s + 1, sv_messageQueue := q'\<rparr>"
    let ?s' = "count_backlog_drop (s\<lparr>sv_messageQueue := q'\<rparr>)"
    have inv: "svc_inv (tr @ [Rejected ?q]) ?s'"
      using f q rej by (auto simp: svc_inv_def flow_ok_def counts_ok_def adapters_ok_def logs_ok_def count_backlog_drop_def)
    have "1 \<le> messageQueueWG ?s" using f(1) by (simp add: flow_ok_def)
    then have w: "andThen (wg_done 1) (andThen (update count_backlog_drop) (maybeLogMessageQueueBacklog now :: 'p effect)) ?s
        = maybeLogMessageQueueBacklog now ?s'"
      by (simp add: wg_done_def andThen_def split: option.splits)
    have "step_ok tr (andThen (\<lambda>_. Some ([Rejected ?q], ?s')) (maybeLogMessageQueueBacklog now) ?s)"
      by (rule step_ok_andThen) (use inv step_log[OF inv, of now] in \<open>auto simp: step_ok_def\<close>)
    moreover have "sv_HandleMessage env now t m s
        = map_option (\<lambda>(es', s'). (Rejected ?q # es', s')) (maybeLogMessageQueueBacklog now ?s')"
      using True e rej w by (simp add: sv_HandleMessage_def Let_def)
    ultimately show ?thesis by simp
  qed
qed

lemmas inv_defs = svc_inv_def flow_ok_def counts_ok_def adapters_ok_def

lemma logs_ok_frame [simp]:
  "logs_ok tr (s\<lparr>sv_adapter := a\<rparr>) = logs_ok tr s" "logs_ok tr (s\<lparr>sv_subscriber := m\<rparr>) = logs_ok tr s"
  "logs_ok tr (s\<lparr>sv_messageQueue := q\<rparr>) = logs_ok tr s" "logs_ok tr (s\<lparr>messageQueueWG := w\<rparr>) = logs_ok tr s"
  "logs_ok tr (s\<lparr>messageQueueProcessingNano := n\<rparr>) = logs_ok tr s" "logs_ok tr (s\<lparr>sv_metrics := x\<rparr>) = logs_ok tr s"
  "logs_ok tr (s\<lparr>processorCancel := c\<rparr>) = logs_ok tr s" "logs_ok tr (s\<lparr>processorCtxDone := c\<rparr>) = logs_ok tr s"
  "logs_ok tr (s\<lparr>sv_phase := ph\<rparr>) = logs_ok tr s" "logs_ok tr (count_stale_drop s) = logs_ok tr s"
  by (simp_all add: logs_ok_def count_stale_drop_def)

lemma logs_ok_trace [simp]: "on_trace reports_of es = [] \<Longrightarrow> logs_ok (tr @ es) s = logs_ok tr s"
  by (simp add: logs_ok_def)

text \<open>A step that emits nothing and keeps counters, adapters and logs.\<close>

lemma step_silent:
  assumes "svc_inv tr s" and "r = Some ([], s')" and "flow_ok tr s'"
    and "counts_ok tr s' = counts_ok tr s" and "adapters_ok tr s' = adapters_ok tr s"
    and "logs_ok tr s' = logs_ok tr s"
  shows "step_ok tr r"
  using assms by (simp add: step_ok_def svc_inv_def)

lemma step_dequeue:
  assumes "svc_inv tr s" and "sv_phase s = Waiting"
  shows "step_ok tr (dequeue_message s)"
proof (cases "try_dequeue (sv_messageQueue s)")
  case None
  show ?thesis
    by (rule step_silent[OF assms(1), where s' = "s\<lparr>sv_phase := Blocked\<rparr>"])
       (use assms None in \<open>simp_all add: dequeue_message_def inv_defs\<close>)
next
  case (Some r)
  then obtain q mq where d: "try_dequeue (sv_messageQueue s) = Some (q, mq)" by (cases r) simp
  have "mq_items (sv_messageQueue s) = q # mq_items mq \<and> mq_ok mq"
    using try_dequeue_Some[OF _ d] assms(1) by (simp add: inv_defs)
  then show ?thesis
    by (intro step_silent[OF assms(1), where s' = "s\<lparr>sv_messageQueue := mq, sv_phase := Taken q\<rparr>"])
       (use assms d in \<open>simp_all add: dequeue_message_def inv_defs\<close>)
qed

lemma step_quit:
  assumes "svc_inv tr s" and "sv_phase s = Blocked"
  shows "step_ok tr (quit_processor s)"
proof -
  let ?is = "mq_items (sv_messageQueue s)"
  let ?q = "(sv_messageQueue s)\<lparr>messages := [], mq_head := 0\<rparr>"
  let ?s = "s\<lparr>sv_messageQueue := ?q, messageQueueWG := 0, processorCancel := False, sv_phase := NoProcessor\<rparr>"
  have f: "flow_ok tr s" using assms(1) by (rule svc_invD)
  then have "discard (sv_messageQueue s) = (int (length ?is), ?q)" "messageQueueWG s = int (length ?is)"
    using assms(2) by (simp_all add: discard_def depth_items flow_ok_def)
  then have "quit_processor s = Some ([Discarded ?is], ?s)"
    by (simp add: quit_processor_def discardQueuedMessages_def wg_done_def)
  moreover have "mq_ok ?q" "mq_items ?q = []" by (simp_all add: mq_ok_def mq_items_def)
  then have "svc_inv (tr @ [Discarded ?is]) ?s"
    using assms by (simp add: inv_defs)
  ultimately show ?thesis by (rule step_okI)
qed

lemma step_begin:
  fixes tr :: "'p event list"
  assumes "svc_inv tr s" and "sv_phase s = Taken q"
  shows "step_ok tr (begin_message now q s)"
proof -
  let ?s = "s\<lparr>messageQueueProcessingNano := enqueuedAt q,
    sv_metrics := observeQueueWait (now - enqueuedAt q) (sv_metrics s)\<rparr>"
  show ?thesis
  proof (cases "now - enqueuedAt q > messageQueueMaxAge s")
    case False
    have "svc_inv (tr @ [Processed q now]) (?s\<lparr>sv_phase := Busy q\<rparr>)"
      using assms False by (auto simp: inv_defs)
    with False show ?thesis by (intro step_okI) (simp_all add: begin_message_def Let_def)
  next
    case True
    let ?l = "maybeLogMessageQueueBacklog now :: 'p effect"
    have "logs_ok (tr @ [Dropped q]) (count_stale_drop ?s)"
      using svc_invD(4)[OF assms(1)] by simp
    then obtain es s' where l: "?l (count_stale_drop ?s) = Some (es, s')"
      "logs_ok ((tr @ [Dropped q]) @ es) s'" "log_update (count_stale_drop ?s) s'"
      "es = [] \<or> (\<exists>r. es = [Logged r])"
      using maybeLog_ok by blast
    have "svc_inv ((tr @ [Dropped q]) @ es) (s'\<lparr>sv_phase := Finishing q\<rparr>)"
      unfolding svc_inv_def neutral_parts[OF neutral_logged[OF l(4)]]
      using assms l(2,3,4) by (auto simp: inv_defs log_update_def count_stale_drop_def)
    moreover have "begin_message now q s = Some (Dropped q # es, s'\<lparr>sv_phase := Finishing q\<rparr>)"
      using True l(1) by (simp add: begin_message_def Let_def)
    ultimately show ?thesis by (intro step_okI) simp_all
  qed
qed

lemma step_process_message:
  assumes "table_ok env" and "svc_inv tr s" and "sv_phase s = Busy q"
  shows "step_ok tr (process_message env now t q s)"
proof -
  obtain m where m: "qm_message q = Some m" "msg_ok m"
    using assms(2,3) by (auto simp: inv_defs queued_ok_def)
  obtain ps cs a mm where p: "processMessage env now t m s
      = Some (Decoded now m ps # cs, s\<lparr>sv_adapter := a, sv_metrics := mm\<rparr>)" "calls cs"
    "adapters_ok (tr @ Decoded now m ps # cs) (s\<lparr>sv_adapter := a, sv_metrics := mm\<rparr>)"
    using processMessage_ok[OF assms(1) svc_invD(3)[OF assms(2)] m(2)] by blast
  let ?s = "s\<lparr>sv_adapter := a, sv_metrics := mm, sv_phase := Finishing q\<rparr>"
  have "adapters_ok (tr @ Decoded now m ps # cs) ?s" using p(3) by (simp add: adapters_ok_def)
  then have "svc_inv (tr @ Decoded now m ps # cs) ?s"
    unfolding svc_inv_def neutral_parts[OF neutral_decoded[OF neutral_calls[OF p(2)]]]
    using svc_invD[OF assms(2)] assms(3) p(2) by (simp add: flow_ok_def counts_ok_def logs_ok_def)
  moreover have "process_message env now t q s = Some (Decoded now m ps # cs, ?s)"
    using p(1) m(1) by (simp add: process_message_def)
  ultimately show ?thesis by (intro step_okI)
qed

lemma step_finish:
  fixes tr :: "'p event list"
  assumes "svc_inv tr s" and "sv_phase s = Finishing q"
  shows "step_ok tr (finish_message now tick s)"
proof -
  let ?s = "s\<lparr>messageQueueProcessingNano := 0, messageQueueWG := messageQueueWG s - 1\<rparr>"
  have wg: "1 \<le> messageQueueWG s" using assms by (simp add: inv_defs)
  have "\<exists>es s'. (if tick then maybeLogMessageQueueBacklog now else update id :: 'p effect) ?s = Some (es, s')
      \<and> logs_ok (tr @ es) s' \<and> log_update ?s s' \<and> (es = [] \<or> (\<exists>r. es = [Logged r]))"
  proof (cases tick)
    case True
    then show ?thesis using maybeLog_ok[of tr ?s now] svc_invD(4)[OF assms(1)] by simp
  next
    case False
    then show ?thesis using log_update_refl[of ?s] svc_invD(4)[OF assms(1)] by simp
  qed
  then obtain es s' where l: "(if tick then maybeLogMessageQueueBacklog now else update id :: 'p effect) ?s = Some (es, s')"
    "logs_ok (tr @ es) s'" "log_update ?s s'" "es = [] \<or> (\<exists>r. es = [Logged r])" by blast
  have "svc_inv (tr @ es) (s'\<lparr>sv_phase := Waiting\<rparr>)"
    unfolding svc_inv_def neutral_parts[OF neutral_logged[OF l(4)]]
    using assms l(2,3,4) by (auto simp: inv_defs log_update_def)
  moreover have "finish_message now tick s = Some (es, s'\<lparr>sv_phase := Waiting\<rparr>)"
    using wg l(1) by (simp add: finish_message_def wg_done_def)
  ultimately show ?thesis by (intro step_okI)
qed

text \<open>The actions that Go's types and the callers make possible: frames of 8 bytes, callbacks with a parameter.\<close>

fun has_parameter :: "callback \<Rightarrow> bool" where
  "has_parameter (Func f []) = False"
| "has_parameter _ = True"

fun action_ok :: "action \<Rightarrow> bool" where
  "action_ok (Receive now t m) = msg_ok m"
| "action_ok (Replay now t f) = (length (frame_Data f) = 8)"
| "action_ok (Manage (SubStruct v cb)) = has_parameter cb"
| "action_ok (Manage (SubAll cb)) = has_parameter cb"
| "action_ok _ = True"

lemma exec_op_total: "action_ok (Manage p) \<Longrightarrow> \<exists>m'. exec_op p m = Some m'"
  by (cases p) (auto simp: SubscribeToStruct_def SubscribeToAllStructs_def addSubscription_def Let_def
      elim!: has_parameter.elims split: value_kind.splits)

lemma step_act:
  assumes "table_ok env" and "svc_inv tr s" and "action_ok a"
  shows "step_ok tr (act env a s)"
proof (cases a)
  case (Manage p)
  obtain m' where "exec_op p (sv_subscriber s) = Some m'" using exec_op_total assms(3) Manage by blast
  then show ?thesis using assms(2) Manage by (intro step_silent[OF assms(2)]) (auto simp: inv_defs)
next
  case Quit
  show ?thesis
    using assms(2) step_quit[OF assms(2)] by (simp add: Quit step_ok_def)
next
  case (Begin now)
  show ?thesis using assms(2) step_begin[OF assms(2)] by (simp add: Begin step_ok_def split: phase.split)
next
  case (Process now t)
  show ?thesis using assms(2) step_process_message[OF assms(1,2)] by (simp add: Process step_ok_def split: phase.split)
next
  case (Finish now tick)
  show ?thesis using assms(2) step_finish[OF assms(2)] by (simp add: Finish step_ok_def split: phase.split)
next
  case Dequeue
  show ?thesis using assms(2) step_dequeue[OF assms(2)] by (simp add: Dequeue step_ok_def)
next
  case (Receive now t m)
  with assms step_receive show ?thesis by auto
next
  case (Replay now t f)
  with assms step_replay show ?thesis by auto
qed (use assms(2) in \<open>auto simp: step_ok_def inv_defs startMessageProcessor_def stopMessageProcessor_def
      mq_ok_def mq_items_def\<close>)

lemma step_run:
  assumes "table_ok env" and "svc_inv tr s" and "list_all action_ok as"
  shows "step_ok tr (run_service env as s)"
  using assms(2,3)
proof (induction as arbitrary: tr s)
  case (Cons a as)
  then show ?case by (auto intro!: step_ok_andThen step_act[OF assms(1)])
qed (simp add: step_ok_def)

lemma svc_inv_new: "svc_inv [] (NewN2kService opts log now)"
  by (simp add: inv_defs logs_ok_def NewN2kService_def newMessageQueue_def mq_ok_def mq_items_def adapter_ok_def
      SetWriter_def SetOutput_def NewCANAdapter_def mb_inv_new)

section \<open>A processor that keeps up\<close>

text \<open>The messages offered to the queue, those processed, and the calls made.\<close>

fun offered_of :: "'p event \<Rightarrow> message list" where
  "offered_of (Accepted q) = [the (qm_message q)]"
| "offered_of (Rejected q) = [the (qm_message q)]"
| "offered_of _ = []"

fun processed_of :: "'p event \<Rightarrow> message list" where
  "processed_of (Processed q _) = [the (qm_message q)]"
| "processed_of _ = []"

fun discarded_of :: "'p event \<Rightarrow> queuedMessage list" where
  "discarded_of (Discarded qs) = qs"
| "discarded_of _ = []"

fun called_of :: "'p event \<Rightarrow> (nat \<times> argument \<times> 'p decoded) list" where
  "called_of (Called f a x) = [(f, a, x)]"
| "called_of _ = []"

fun busy :: "phase \<Rightarrow> message list" where
  "busy (Busy q) = [the (qm_message q)]"
| "busy _ = []"

definition packet_called :: "'p environment \<Rightarrow> SubscribeManager \<Rightarrow> Packet \<Rightarrow> (nat \<times> argument \<times> 'p decoded) list" where
  "packet_called env m p = on_trace called_of (packet_calls env m p)"

text \<open>What happens while a processor runs: no start, no end, no change of the subscriptions.\<close>

fun live_action :: "action \<Rightarrow> bool" where
  "live_action (Replay now t f) = False"
| "live_action (Manage p) = False"
| "live_action StartProcessor = False"
| "live_action StopProcessor = False"
| "live_action CancelContext = False"
| "live_action _ = True"

fun received_of :: "action \<Rightarrow> message list" where
  "received_of (Receive now t m) = [m]"
| "received_of _ = []"

definition live_inv :: "'p environment \<Rightarrow> SubscribeManager \<Rightarrow> message list \<Rightarrow> 'p event list \<Rightarrow> N2kService \<Rightarrow> bool" where
  "live_inv env mgr ms tr s \<longleftrightarrow>
     processorCancel s \<and> \<not> processorCtxDone s \<and> sv_phase s \<noteq> NoProcessor \<and> sv_subscriber s = mgr
     \<and> on_trace offered_of tr = ms \<and> on_trace discarded_of tr = []
     \<and> on_trace processed_of tr = map snd (on_trace decoded_of tr) @ busy (sv_phase s)
     \<and> on_trace called_of tr = concat (map (packet_called env mgr) (on_trace packets_of tr))"

lemma called_trace [simp]:
  "on_trace offered_of (concat (map (packet_calls env m) ps)) = []"
  "on_trace discarded_of (concat (map (packet_calls env m) ps)) = []"
  "on_trace processed_of (concat (map (packet_calls env m) ps)) = []"
  "on_trace called_of (concat (map (packet_calls env m) ps)) = concat (map (packet_called env m) ps)"
proof -
  have "calls es \<Longrightarrow> on_trace offered_of es = [] \<and> on_trace discarded_of es = [] \<and> on_trace processed_of es = []"
    for es :: "'p event list"
    by (induction es) (auto simp: calls_def)
  note n = this[OF calls_packets]
  show
    "on_trace offered_of (concat (map (packet_calls env m) ps)) = []"
    "on_trace discarded_of (concat (map (packet_calls env m) ps)) = []"
    "on_trace processed_of (concat (map (packet_calls env m) ps)) = []" by (simp_all add: n)
  show "on_trace called_of (concat (map (packet_calls env m) ps)) = concat (map (packet_called env m) ps)"
    by (induction ps) (simp_all add: packet_called_def)
qed

lemma live_log:
  fixes f :: "'p effect"
  assumes "f = maybeLogMessageQueueBacklog now \<or> f = update id" and "f s = Some (es, s')"
  shows "live_inv env mgr ms (tr @ es) s' = live_inv env mgr ms tr s
    \<and> (\<forall>x. live_inv env mgr ms (tr @ es) (s'\<lparr>sv_phase := x\<rparr>) = live_inv env mgr ms tr (s\<lparr>sv_phase := x\<rparr>))"
  using assms(1)
proof
  assume "f = maybeLogMessageQueueBacklog now"
  from maybeLog_cases[OF this, of s] assms(2) show ?thesis by (auto simp: live_inv_def)
qed (use assms(2) in simp)

lemma live_process:
  assumes "table_ok env" and "svc_inv tr s" and "live_inv env mgr ms tr s" and "sv_phase s = Busy q"
    and "process_message env now t q s = Some (es, s')"
  shows "live_inv env mgr ms (tr @ es) s'"
proof -
  obtain m where m: "qm_message q = Some m" "msg_ok m"
    using assms(2,4) by (auto simp: inv_defs queued_ok_def)
  have a: "adapter_ok (sv_adapter s)" using assms(2) by (simp add: inv_defs)
  obtain a ps mm where "processMessage env now t m s
      = Some (Decoded now m ps # concat (map (packet_calls env (sv_subscriber s)) ps), s\<lparr>sv_adapter := a, sv_metrics := mm\<rparr>)"
    using processMessage_eq[OF assms(1) a m(2)] by blast
  then have "es = Decoded now m ps # concat (map (packet_calls env (sv_subscriber s)) ps)"
    "s' = s\<lparr>sv_adapter := a, sv_metrics := mm, sv_phase := Finishing q\<rparr>"
    using assms(5) m(1) by (simp_all add: process_message_def)
  with assms(3,4) m(1) show ?thesis by (auto simp: live_inv_def)
qed

lemma live_begin:
  fixes tr :: "'p event list"
  assumes "live_inv env mgr ms tr s" and "sv_phase s = Taken q" and "begin_message now q s = Some (es, s')"
  shows "live_inv env mgr ms (tr @ es) s'"
proof (cases "now - enqueuedAt q > messageQueueMaxAge s")
  case False
  with assms show ?thesis by (auto simp: begin_message_def Let_def live_inv_def)
next
  case True
  let ?s = "count_stale_drop (s\<lparr>messageQueueProcessingNano := enqueuedAt q,
    sv_metrics := observeQueueWait (now - enqueuedAt q) (sv_metrics s)\<rparr>)"
  from assms(3) True obtain es1 s1 where l: "(maybeLogMessageQueueBacklog now :: 'p effect) ?s = Some (es1, s1)"
    "es = Dropped q # es1" "s' = s1\<lparr>sv_phase := Finishing q\<rparr>"
    by (auto simp: begin_message_def Let_def elim!: andThen_SomeE)
  have "live_inv env mgr ms (tr @ [Dropped q]) (?s\<lparr>sv_phase := Finishing q\<rparr>)"
    using assms(1,2) by (simp add: live_inv_def count_stale_drop_def)
  with live_log[OF disjI1[OF refl] l(1), of env mgr ms "tr @ [Dropped q]"] show ?thesis by (simp add: l(2,3))
qed

lemma live_finish:
  fixes tr :: "'p event list"
  assumes "live_inv env mgr ms tr s" and "sv_phase s = Finishing q" and "finish_message now tick s = Some (es, s')"
  shows "live_inv env mgr ms (tr @ es) s'"
proof -
  let ?s = "s\<lparr>messageQueueProcessingNano := 0, messageQueueWG := messageQueueWG s - 1\<rparr>"
  let ?f = "if tick then maybeLogMessageQueueBacklog now else update id :: 'p effect"
  from assms(3) obtain s1 where l: "?f ?s = Some (es, s1)" "s' = s1\<lparr>sv_phase := Waiting\<rparr>"
    by (auto simp: finish_message_def wg_done_def elim!: andThen_SomeE split: if_splits)
  have "live_inv env mgr ms tr (?s\<lparr>sv_phase := Waiting\<rparr>)"
    using assms(1,2) by (simp add: live_inv_def)
  with live_log[where f = ?f and now = now, OF _ l(1), of env mgr ms tr] show ?thesis by (simp add: l(2))
qed

lemma live_receive:
  fixes tr :: "'p event list"
  assumes "live_inv env mgr ms tr s" and "sv_HandleMessage env now t m s = Some (es, s')"
  shows "live_inv env mgr (ms @ [m]) (tr @ es) s'"
proof -
  let ?q = "\<lparr>qm_message = Some m, enqueuedAt = now\<rparr>"
  obtain acc st q' where e: "enqueueIfCurrent (sv_messageQueue s) ?q (messageQueueMaxAge s)
      (messageQueueProcessingAge now (s\<lparr>messageQueueWG := messageQueueWG s + 1\<rparr>)) = (acc, st, q')"
    by (metis prod_cases3)
  let ?s = "s\<lparr>messageQueueWG := messageQueueWG s + 1, sv_messageQueue := q'\<rparr>"
  have c: "processorCancel s" using assms(1) by (simp add: live_inv_def)
  show ?thesis
  proof (cases acc)
    case True
    let ?f = "if st_lag st > messageQueueMaxAge s then maybeLogMessageQueueBacklog now else update id :: 'p effect"
    from assms(2) c e True obtain es1 where l: "?f ?s = Some (es1, s')" "es = Accepted ?q # es1"
      by (auto simp: sv_HandleMessage_def Let_def elim!: andThen_SomeE split: if_splits)
    have "live_inv env mgr (ms @ [m]) (tr @ [Accepted ?q]) ?s" using assms(1) by (simp add: live_inv_def)
    with live_log[where f = ?f and now = now, OF _ l(1), of env mgr "ms @ [m]" "tr @ [Accepted ?q]"] show ?thesis by (simp add: l(2))
  next
    case False
    from assms(2) c e False obtain es1 where l:
      "(maybeLogMessageQueueBacklog now :: 'p effect) (count_backlog_drop (s\<lparr>sv_messageQueue := q'\<rparr>)) = Some (es1, s')"
      "es = Rejected ?q # es1"
      by (auto simp: sv_HandleMessage_def Let_def wg_done_def elim!: andThen_SomeE split: if_splits)
    have "live_inv env mgr (ms @ [m]) (tr @ [Rejected ?q]) (count_backlog_drop (s\<lparr>sv_messageQueue := q'\<rparr>))"
      using assms(1) by (simp add: live_inv_def count_backlog_drop_def)
    with live_log[OF disjI1[OF refl] l(1), of env mgr "ms @ [m]" "tr @ [Rejected ?q]"] show ?thesis by (simp add: l(2))
  qed
qed

lemma live_act:
  assumes "table_ok env" and "svc_inv tr s" and "live_inv env mgr ms tr s" and "live_action a"
    and "act env a s = Some (es, s')"
  shows "live_inv env mgr (ms @ received_of a) (tr @ es) s'"
proof (cases a)
  case (Receive now t m)
  with live_receive[OF assms(3)] assms(5) show ?thesis by simp
next
  case (Begin now)
  with live_begin[OF assms(3)] assms(3,5) show ?thesis by (auto split: phase.splits)
next
  case (Process now t)
  with live_process[OF assms(1-3)] assms(3,5) show ?thesis by (auto split: phase.splits)
next
  case (Finish now tick)
  with live_finish[OF assms(3)] assms(3,5) show ?thesis by (auto split: phase.splits)
qed (use assms(3-5) in \<open>auto simp: live_inv_def dequeue_message_def split: if_splits option.splits prod.splits\<close>)

lemma live_run:
  assumes "table_ok env" and "svc_inv tr s" and "live_inv env mgr ms tr s" and "list_all live_action as"
    and "list_all action_ok as" and "run_service env as s = Some (es, s')"
  shows "live_inv env mgr (ms @ concat (map received_of as)) (tr @ es) s' \<and> svc_inv (tr @ es) s'"
  using assms(2-6)
proof (induction as arbitrary: tr s ms es)
  case (Cons a as)
  from Cons.prems(5) obtain es1 s1 es2 where r: "act env a s = Some (es1, s1)"
    "run_service env as s1 = Some (es2, s')" "es = es1 @ es2" by (auto elim!: andThen_SomeE)
  have "step_ok tr (act env a s)" by (rule step_act[OF assms(1) Cons.prems(1)]) (use Cons.prems(4) in simp)
  then have "svc_inv (tr @ es1) s1" using r(1) by (simp add: step_ok_def)
  moreover have "live_inv env mgr (ms @ received_of a) (tr @ es1) s1"
    by (rule live_act[OF assms(1) Cons.prems(1,2) _ r(1)]) (use Cons.prems(3) in simp)
  ultimately show ?case using Cons.IH[OF _ _ _ _ r(2), of "tr @ es1" "ms @ received_of a"] Cons.prems(3,4) r(3) by simp
qed simp

lemma frames_8:
  assumes "\<forall>(info, data) \<in> set ms. sendable info data" and "frameWriter c" and "send_all c ms = (c', fs)"
  shows "\<forall>f \<in> set fs. length (frame_Data f) = 8"
  using assms
proof (induction ms arbitrary: c fs)
  case (Cons x ms)
  obtain info data where x: "x = (info, data)" by (cases x)
  obtain e c1 fs1 where w: "WritePgn c info data = (e, c1, fs1)" by (cases "WritePgn c info data") auto
  obtain fs2 where fs: "send_all c1 ms = (c', fs2)" "fs = fs1 @ fs2"
    using Cons.prems(3) by (auto simp: x w split: prod.splits)
  have "\<forall>f \<in> set fs1. length (frame_Data f) = 8"
    using w Cons.prems(1,2) WritePgn_sendable[of info data c]
    by (auto simp: x fast_frames_def length_frame_of received_data_def sendable_def split: if_splits)
  moreover have "\<forall>f \<in> set fs2. length (frame_Data f) = 8"
    using Cons.IH[OF _ _ fs(1)] Cons.prems(1,2) WritePgn_frameWriter[OF w] by simp
  ultimately show ?case by (auto simp: fs(2))
qed simp

lemma packet_called_spec:
  assumes "table_ok env" and "length (Data p) < 65536" and "tracks mgr live"
    and "\<forall>p. ty_name (env_type env p) \<noteq> []"
  shows "\<exists>x. spec_decoded (env_variants env) p x
    \<and> packet_called env mgr p = map (\<lambda>(f, a). (f, a, x)) (spec_calls (decoded_type env x) live)"
proof -
  obtain x where x: "ps_HandlePacket (env_variants env) True p = Some [x]" "spec_decoded (env_variants env) p x"
    using dispatch_decoded[OF assms(2), of "env_variants env" True] assms(1) by (auto simp: table_ok_def pgnReady_def)
  have "ty_name (decoded_type env x) \<noteq> []"
    using assms(4) by (simp add: decoded_type_def unknownPGN_type_def split: decoded.split)
  from tracks_calls[OF assms(3) this] x(1)
  have "packet_called env mgr p = map (\<lambda>(f, a). (f, a, x)) (spec_calls (decoded_type env x) live)"
    by (simp add: packet_called_def packet_calls_def struct_calls_def on_trace_def comp_def case_prod_beta concat_map_singleton)
  with x(2) show ?thesis by blast
qed

lemma run_service_append: "run_service env (as @ bs) = andThen (run_service env as) (run_service env bs)"
proof (induction as)
  case Nil
  show ?case by (rule ext) (auto simp: andThen_def split: option.splits)
qed (simp add: andThen_assoc)

lemma run_manage:
  assumes "run_service env (map Manage ops) s = Some (es, s')"
  shows "es = [] \<and> (\<exists>m. exec_ops ops (sv_subscriber s) = Some m \<and> s' = s\<lparr>sv_subscriber := m\<rparr>)"
  using assms
proof (induction ops arbitrary: s es)
  case Nil
  then show ?case by (auto intro: exI[of _ "sv_subscriber s"])
next
  case (Cons p ops)
  then show ?case by (fastforce elim!: andThen_SomeE)
qed

lemma accepted_offered:
  "count is_Rejected tr = 0 \<Longrightarrow> map (the \<circ> qm_message) (on_trace accepted_of tr) = on_trace offered_of tr"
proof (induction tr)
  case (Cons e tr)
  then show ?case by (cases e) simp_all
qed simp

lemma settled_processed:
  "count is_Dropped tr = 0 \<Longrightarrow> on_trace discarded_of tr = []
    \<Longrightarrow> map (the \<circ> qm_message) (on_trace settled_of tr) = on_trace processed_of tr"
proof (induction tr)
  case (Cons e tr)
  then show ?case by (cases e) simp_all
qed simp

lemma delivered_length:
  assumes "\<forall>(info, data) \<in> set ms. sendable info data"
    and "list_all2 (\<lambda>(info, data) p. delivered info data p) ms ps" and "p \<in> set ps"
  shows "length (Data p) < 65536"
proof -
  obtain i where i: "i < length ps" "p = ps ! i" using assms(3) by (auto simp: in_set_conv_nth)
  then have "i < length ms" using list_all2_lengthD[OF assms(2)] by simp
  then obtain info data where "ms ! i = (info, data)" "sendable info data" "delivered info data p"
    using list_all2_nthD2[OF assms(2) i(1)] assms(1) i(2) nth_mem by (cases "ms ! i") fastforce
  then show ?thesis by (auto simp: delivered_def sendable_def received_data_def split: if_splits)
qed

lemma choose_list:
  assumes "\<forall>p \<in> set ps. \<exists>x. P p x \<and> f p = g x"
  shows "\<exists>xs. list_all2 P ps xs \<and> map f ps = map g xs"
  using assms
proof (induction ps)
  case (Cons p ps)
  then obtain x xs where "P p x" "f p = g x" "list_all2 P ps xs" "map f ps = map g xs" by auto
  then show ?case by (intro exI[of _ "x # xs"]) simp
qed simp

section \<open>Properties\<close>


text \<open>
  The warnings about the queue are rate limited and exact: in any run, two of them are at
  least a second apart, and the numbers of dropped messages they report since the last one add up
  to the total that the last one reports, in all and for each cause.
\<close>

theorem reports_account:
  assumes "table_ok env" and "list_all action_ok as"
  shows "\<exists>tr s. run_service env as (NewN2kService opts log now) = Some (tr, s)
    \<and> (let rs = on_trace reports_of tr
       in spaced (map rp_time rs)
          \<and> sum_list (map (fst \<circ> rp_dropped) rs) = queueLastDroppedLog s
          \<and> sum_list (map (fst \<circ> rp_backlogDropped) rs) = queueLastBacklogDroppedLog s
          \<and> sum_list (map (fst \<circ> rp_staleDropped) rs) = queueLastStaleDroppedLog s)"
  using step_run[OF assms(1) svc_inv_new assms(2), of opts log now]
  by (auto simp: step_ok_def inv_defs logs_ok_def Let_def)

text \<open>
  Claim C9. From the sender's adapter to the receiver's callbacks. When the frames of sendable
  messages are received while the processor runs, none is dropped, and the wait group is back to 0:
  the packets are exactly these messages, in this order, each is decoded by the first variant that
  matches its bits (or as an unknown PGN), and the callbacks called are, for one struct after the
  other, those of the live subscriptions, first those for its name, then those for all structs.
\<close>

theorem service_delivers:
  fixes env :: "'p environment"
  assumes "table_ok env" and "\<forall>p. ty_name (env_type env p) \<noteq> []"
    and "\<forall>(info, data) \<in> set ms. sendable info data" and "frameWriter c" and "seq_ids_ok c"
    and "send_all c ms = (c', fs)"
    and "list_all live_action as" and "concat (map received_of as) = map FrameMessage fs"
    and "length ops < 2 ^ 64"
    and "run_service env (map Manage ops @ StartProcessor # as) (NewN2kService opts log now) = Some (tr, s)"
    and "count is_Rejected tr = 0" and "count is_Dropped tr = 0" and "messageQueueWG s = 0"
  shows "\<exists>ps xs. list_all2 (\<lambda>(info, data) p. delivered info data p) ms ps
    \<and> list_all2 (spec_decoded (env_variants env)) ps xs
    \<and> on_trace called_of tr
       = concat (map (\<lambda>x. map (\<lambda>(f, a). (f, a, x)) (spec_calls (decoded_type env x) (spec_live ops))) xs)"
proof -
  let ?s0 = "NewN2kService opts log now"
  obtain s1 where s1: "run_service env (map Manage ops) ?s0 = Some ([], s1)"
    and as: "run_service env (StartProcessor # as) s1 = Some (tr, s)"
    using assms(10) run_manage by (fastforce simp: run_service_append elim!: andThen_SomeE)
  from run_manage[OF s1] obtain m where m: "exec_ops ops NewSubscribeManager = Some m" "s1 = ?s0\<lparr>sv_subscriber := m\<rparr>"
    by (auto simp: NewN2kService_def)
  let ?s2 = "startMessageProcessor s1"
  have r: "run_service env as ?s2 = Some (tr, s)"
    using as by (auto simp: m(2) NewN2kService_def elim!: andThen_SomeE)
  have "svc_inv ([] :: 'p event list) ?s2" using svc_inv_new[of opts log now]
    by (simp add: inv_defs logs_ok_def m(2) startMessageProcessor_def NewN2kService_def)
  moreover have "live_inv env m [] [] ?s2"
    by (simp add: live_inv_def m(2) startMessageProcessor_def NewN2kService_def)
  moreover have "list_all action_ok as"
  proof -
    have "\<forall>f \<in> set fs. length (frame_Data f) = 8" by (rule frames_8[OF assms(3,4,6)])
    then have ok: "\<forall>x \<in> set (concat (map received_of as)). msg_ok x" by (auto simp: assms(8) msg_ok_def)
    have "action_ok a" if "a \<in> set as" for a
    proof -
      have "live_action a" using assms(7) that by (simp add: list_all_iff)
      moreover have "\<forall>x \<in> set (received_of a). msg_ok x" using ok that by auto
      ultimately show ?thesis by (cases a) simp_all
    qed
    then show ?thesis by (simp add: list_all_iff)
  qed
  ultimately have inv: "live_inv env m (map FrameMessage fs) tr s" "svc_inv tr s"
    using live_run[OF assms(1) _ _ assms(7) _ r, of "[]" m "[]"] assms(8) by simp_all
  have "int (length (mq_items (sv_messageQueue s))) + int (length (held (sv_phase s))) = 0"
    using svc_invD(1)[OF inv(2)] assms(13) unfolding flow_ok_def by linarith
  then have "length (mq_items (sv_messageQueue s)) = 0" "length (held (sv_phase s)) = 0" by linarith+
  then have idle: "mq_items (sv_messageQueue s) = []" "held (sv_phase s) = []" by simp_all
  then have "in_hand (sv_phase s) = []" "busy (sv_phase s) = []" by (cases "sv_phase s"; simp)+
  then have all: "on_trace accepted_of tr = on_trace settled_of tr"
    "on_trace processed_of tr = map snd (on_trace decoded_of tr)"
    using inv idle by (simp_all add: inv_defs live_inv_def)
  have off: "on_trace offered_of tr = map FrameMessage fs" "on_trace discarded_of tr = []"
    "on_trace called_of tr = concat (map (packet_called env m) (on_trace packets_of tr))"
    using inv(1) by (simp_all add: live_inv_def)
  have d: "map snd (on_trace decoded_of tr) = map FrameMessage fs"
    using accepted_offered[OF assms(11)] settled_processed[OF assms(12) off(2)] all off(1) by simp
  let ?a = "SetWriter (SetOutput NewCANAdapter True) True" and ?ts = "map fst (on_trace decoded_of tr)"
  have l: "length ?ts = length fs" using d by (metis length_map)
  have "on_trace decoded_of tr = zip ?ts (map FrameMessage fs)" by (simp add: zip_map_fst_snd flip: d)
  then have "on_trace decoded_of tr = arrivals (zip ?ts fs)" by (simp add: arrivals_def zip_map2)
  moreover have "handler ?a" "mb_inv (multi ?a)"
    by (simp_all add: SetWriter_def SetOutput_def NewCANAdapter_def mb_inv_new)
  from deliver_messages[OF assms(3-5) this assms(6) l] obtain r' ps where
    ps: "run_adapter ?a (arrivals (zip ?ts fs)) = Some (r', ps)"
    "list_all2 (\<lambda>(info, data) p. delivered info data p) ms ps" by blast
  moreover have "run_adapter ?a (on_trace decoded_of tr) = Some (sv_adapter s, on_trace packets_of tr)"
    using inv(2) by (simp add: inv_defs)
  ultimately have ps_tr: "on_trace packets_of tr = ps" by simp
  have "tracks m (spec_live ops)"
    using exec_ops_refine[OF tracks_new m(1)] assms(9) by (simp add: spec_live_def NewSubscribeManager_def)
  then have "\<forall>p \<in> set ps. \<exists>x. spec_decoded (env_variants env) p x
      \<and> packet_called env m p = map (\<lambda>(f, a). (f, a, x)) (spec_calls (decoded_type env x) (spec_live ops))"
    using packet_called_spec[OF assms(1) delivered_length[OF assms(3) ps(2)] _ assms(2)] by blast
  from choose_list[OF this] obtain xs where xs: "list_all2 (spec_decoded (env_variants env)) ps xs"
    "map (packet_called env m) ps
      = map (\<lambda>x. map (\<lambda>(f, a). (f, a, x)) (spec_calls (decoded_type env x) (spec_live ops))) xs" by blast
  with ps(2) off(3) ps_tr show ?thesis by auto
qed

text \<open>A request received by a service with one subscription to its struct.\<close>

definition ex_type :: gotype where
  "ex_type = \<lparr>ty_package = ''pgn'', ty_name = ''IsoRequest''\<rparr>"

definition ex_env :: "string environment" where
  "ex_env = \<lparr>env_variants = (\<lambda>pgn. if pgn = 59904
       then Some [\<lparr>Decoder = \<lambda>_ _. Inr ''request'', MatchSpecs = []\<rparr>] else None),
     env_type = \<lambda>_. ex_type\<rparr>"

definition ex_ops :: "sub_op list" where
  "ex_ops = [SubStruct (StructValue ex_type) (Func 1 [StructType ex_type])]"

definition ex_request :: "MessageInfo \<times> bytes" where
  "ex_request = (\<lparr>Timestamp = 0, Priority = 6, PGN = 59904, SourceId = 1, TargetId = 42\<rparr>, [0, 0xEE, 0])"

definition ex_actions :: "message \<Rightarrow> action list" where
  "ex_actions m = (let t = \<lparr>time_frame = 1, time_packet = 1, time_struct = 1\<rparr>
     in [Receive 10 t m, Dequeue, Begin 20, Process 20 t, Finish 30 False, Dequeue])"

lemma ex_env_ok: "table_ok ex_env" "\<forall>p. ty_name (env_type ex_env p) \<noteq> []"
  by (simp_all add: table_ok_def ex_env_def ex_type_def)

lemma ex_request_sendable: "\<forall>(info, data) \<in> set [ex_request]. sendable info data"
  using ex_messages_sendable by (simp add: ex_messages_def ex_request_def)

lemma ex_actions_ok: "msg_ok m \<Longrightarrow> list_all action_ok (map Manage ex_ops @ StartProcessor # ex_actions m)"
  by (simp add: ex_ops_def ex_actions_def Let_def)

lemma run_service_Nil: "run_service env [] s = Some ([], s)"
  by simp

lemma run_service_Cons:
  assumes "act env a s = Some (es, s1)" and "run_service env as s1 = Some (es', s2)"
  shows "run_service env (a # as) s = Some (es @ es', s2)"
  using assms by (simp add: andThen_def)

text \<open>The run, whatever the message: it is processed, and nothing else happens to it.\<close>

lemma ex_run:
  assumes "msg_ok m"
  shows "\<exists>tr s. run_service ex_env (map Manage ex_ops @ StartProcessor # ex_actions m)
      (NewN2kService [] False 0) = Some (tr, s)
    \<and> count is_Rejected tr = 0 \<and> count is_Dropped tr = 0 \<and> messageQueueWG s = 0
    \<and> messageQueueStaleDropped s = 0 \<and> on_trace accepted_of tr = [\<lparr>qm_message = Some m, enqueuedAt = 10\<rparr>]"
proof -
  let ?q = "\<lparr>qm_message = Some m, enqueuedAt = 10\<rparr>" and ?t = "\<lparr>time_frame = 1, time_packet = 1, time_struct = 1\<rparr>"
  let ?s0 = "NewN2kService [] False 0"
  obtain mgr where mgr: "exec_op (SubStruct (StructValue ex_type) (Func 1 [StructType ex_type])) NewSubscribeManager = Some mgr"
    by (simp add: SubscribeToStruct_def)
  let ?s1 = "?s0\<lparr>sv_subscriber := mgr\<rparr>"
  let ?s2 = "?s1\<lparr>processorCancel := True, sv_phase := Waiting\<rparr>"
  let ?mq = "\<lparr>messages = [?q], mq_head = 0, notified = True\<rparr>" and ?mq' = "\<lparr>messages = [], mq_head = 0, notified = True\<rparr>"
  let ?s3 = "?s2\<lparr>messageQueueWG := 1, sv_messageQueue := ?mq\<rparr>"
  let ?s4 = "?s3\<lparr>sv_messageQueue := ?mq', sv_phase := Taken ?q\<rparr>"
  let ?s5 = "?s4\<lparr>messageQueueProcessingNano := 10, sv_metrics := observeQueueWait 10 (sv_metrics ?s0), sv_phase := Busy ?q\<rparr>"
  have s1: "act ex_env (Manage (SubStruct (StructValue ex_type) (Func 1 [StructType ex_type]))) ?s0 = Some ([], ?s1)"
    using mgr by (simp add: NewN2kService_def)
  have s2: "act ex_env StartProcessor ?s1 = Some ([], ?s2)"
    by (simp add: NewN2kService_def startMessageProcessor_def)
  have s3: "act ex_env (Receive 10 ?t m) ?s2 = Some ([Accepted ?q], ?s3)"
    by (simp add: NewN2kService_def sv_HandleMessage_def enqueueIfCurrent_def oldestAgeLocked_def depthLocked_def
        newMessageQueue_def maxDuration_def messageQueueProcessingAge_def DefaultMessageQueueMaxAge_def
        statsLocked_def signal_def Let_def)
  have s4: "act ex_env Dequeue ?s3 = Some ([], ?s4)"
    by (simp add: dequeue_message_def try_dequeue_def depthLocked_def compactLocked_def)
  have s5: "act ex_env (Begin 20) ?s4 = Some ([Processed ?q 20], ?s5)"
    by (simp add: begin_message_def NewN2kService_def DefaultMessageQueueMaxAge_def Let_def)
  have "adapter_ok (sv_adapter ?s5)"
    by (simp add: NewN2kService_def adapter_ok_def SetWriter_def SetOutput_def NewCANAdapter_def mb_inv_new)
  from processMessage_eq[OF ex_env_ok(1) this assms, of 20 ?t] obtain a ps mm where
    "processMessage ex_env 20 ?t m ?s5 = Some (Decoded 20 m ps # concat (map (packet_calls ex_env mgr) ps),
       ?s5\<lparr>sv_adapter := a, sv_metrics := mm\<rparr>)" by auto
  then have s6: "act ex_env (Process 20 ?t) ?s5 = Some (Decoded 20 m ps # concat (map (packet_calls ex_env mgr) ps),
       ?s5\<lparr>sv_adapter := a, sv_metrics := mm, sv_phase := Finishing ?q\<rparr>)" (is "_ = Some (?es, ?s6)")
    by (simp add: process_message_def)
  let ?s7 = "?s6\<lparr>messageQueueProcessingNano := 0, messageQueueWG := 0, sv_phase := Waiting\<rparr>"
  have s7: "act ex_env (Finish 30 False) ?s6 = Some ([], ?s7)"
    by (simp add: finish_message_def wg_done_def)
  have s8: "act ex_env Dequeue ?s7 = Some ([], ?s7\<lparr>sv_phase := Blocked\<rparr>)"
    by (simp add: dequeue_message_def try_dequeue_def depthLocked_def)
  note run = run_service_Cons[OF s1 run_service_Cons[OF s2 run_service_Cons[OF s3 run_service_Cons[OF s4 run_service_Cons[OF s5 run_service_Cons[OF s6
    run_service_Cons[OF s7 run_service_Cons[OF s8 run_service_Nil]]]]]]]]
  have "run_service ex_env (map Manage ex_ops @ StartProcessor # ex_actions m) ?s0
      = Some ([Accepted ?q, Processed ?q 20] @ ?es, ?s7\<lparr>sv_phase := Blocked\<rparr>)"
    using run by (simp add: ex_ops_def ex_actions_def Let_def del: run_service.simps act.simps)
  then show ?thesis by (simp add: NewN2kService_def)
qed


theorem reports_account_witness:
  "\<exists>tr s. run_service ex_env (map Manage ex_ops @ StartProcessor # ex_actions OtherMessage)
      (NewN2kService [] False 0) = Some (tr, s)
    \<and> sum_list (map (fst \<circ> rp_dropped) (on_trace reports_of tr)) = queueLastDroppedLog s"
proof -
  have m: "msg_ok OtherMessage" by (simp add: msg_ok_def)
  show ?thesis
    using reports_account[OF ex_env_ok(1) ex_actions_ok[OF m], of "[]" False 0] unfolding Let_def by blast
qed

theorem service_delivers_witness:
  "\<exists>f tr s ps xs. snd (send_all (SetWriter NewCANAdapter True) [ex_request]) = [f]
    \<and> run_service ex_env (map Manage ex_ops @ StartProcessor # ex_actions (FrameMessage f)) (NewN2kService [] False 0)
        = Some (tr, s)
    \<and> list_all2 (\<lambda>(info, data) p. delivered info data p) [ex_request] ps
    \<and> on_trace called_of tr
       = concat (map (\<lambda>x. map (\<lambda>(f, a). (f, a, x)) (spec_calls (decoded_type ex_env x) (spec_live ex_ops))) xs)"
proof -
  let ?c = "SetWriter NewCANAdapter True"
  have "\<not> IsFast 59904" by code_simp
  then obtain c' f where s: "send_all ?c [ex_request] = (c', [f])"
    using WritePgn_sendable[of "fst ex_request" "snd ex_request" ?c] ex_request_sendable
    by (simp add: ex_request_def SetWriter_def)
  have w: "frameWriter ?c" "seq_ids_ok ?c" by (simp_all add: SetWriter_def NewCANAdapter_def seq_ids_ok_def inner_def)
  have "length (frame_Data f) = 8" using frames_8[OF ex_request_sendable w(1) s] by simp
  then obtain tr s where r: "run_service ex_env (map Manage ex_ops @ StartProcessor # ex_actions (FrameMessage f))
      (NewN2kService [] False 0) = Some (tr, s)"
    "count is_Rejected tr = 0" "count is_Dropped tr = 0" "messageQueueWG s = 0"
    using ex_run[of "FrameMessage f"] by (auto simp: msg_ok_def)
  have "\<exists>ps xs. list_all2 (\<lambda>(info, data) p. delivered info data p) [ex_request] ps
    \<and> list_all2 (spec_decoded (env_variants ex_env)) ps xs
    \<and> on_trace called_of tr
       = concat (map (\<lambda>x. map (\<lambda>(f, a). (f, a, x)) (spec_calls (decoded_type ex_env x) (spec_live ex_ops))) xs)"
    by (rule service_delivers[OF ex_env_ok ex_request_sendable w s _ _ _ r])
       (simp_all add: ex_actions_def ex_ops_def Let_def)
  with s r(1) show ?thesis by auto
qed

end
