(* ===== verification/Lifecycle.thy ===== *)
theory Lifecycle
  imports N2kPrelude
begin

text \<open>
  The lifecycle of the service's endpoint (\<open>internal/n2kinternal/n2kinternal.go\<close>): \<open>Start\<close>, \<open>Stop\<close>,
  \<open>UpdateEndpoint\<close> and \<open>Wait\<close>, the goroutine that runs an endpoint, the one that closes it when its
  context ends, and the processor of messages. Each \<open>Start\<close> that finds no run makes a new generation,
  here a number. \<open>lifecycleOpMu\<close> serialises \<open>Start\<close>, \<open>Stop\<close> and \<open>UpdateEndpoint\<close>, so that one of them at
  a time is under way: \<open>op\<close> says where. Between the critical sections of \<open>lifecycleMu\<close> and the other
  calls that take a lock of their own, any step of any goroutine can happen. What an endpoint's
  \<open>Start\<close>, \<open>Run\<close> and \<open>Close\<close> return, when \<open>Run\<close> returns and when a caller's context ends is open.
\<close>

section \<open>State\<close>

text \<open>
  The goroutine of \<open>runEndpoint\<close>: before the start, in \<open>Run\<close>, and before each of the calls that follow,
  with what it has in its variables \<open>err\<close>, \<open>drainErr\<close>, \<open>closeErr\<close> and, while it waits, the processor.
\<close>

datatype run_pc = NotStarted | InRun | RunReturned "goerror option" | ToDeactivate "goerror option"
  | Draining "goerror option" | ToClose "goerror option" "goerror option"
  | ToStopProcessor "goerror option" "goerror option" "goerror option"
  | WaitProcessor "goerror option" "goerror option" "goerror option" "nat option"
  | ToFinish "goerror option" "goerror option" "goerror option" | Finishing "goerror list" | RunEnded

datatype closer_pc = NoCloser | CloserWaits | CloserMarks | CloserDeactivates | CloserCloses | CloserEnded

text \<open>
  A generation. \<open>closeOnce\<close> and \<open>closeErr\<close> are one field, \<open>None\<close> until the endpoint was closed; so are
  \<open>done\<close> and \<open>result\<close>. A joined error is the list of its parts, the empty list is nil.
\<close>

record serviceEndpointRun =
  run_ep :: nat
  run_output :: nat
  ctxEnded :: bool
  run_stopping :: bool
  closeErr :: "goerror option option"
  run_result :: "goerror list option"
  run_pc :: run_pc
  closer_pc :: closer_pc

text \<open>What a \<open>Stop\<close> or an \<open>UpdateEndpoint\<close>, which also has the new endpoint, is about to do.\<close>

datatype op_pc = Idle | Starting nat | StartedEp nat | CloseFailed nat "goerror option"
  | FinishFailed nat "goerror list"
  | StopDeactivate "nat option" "nat option" | StopClose "nat option" "nat option"
  | StopWait "nat option" "nat option" | StopProcessor "nat option" | StopWaitProcessor "nat option" "nat option"

text \<open>
  An output is a number and in \<open>active\<close> while it hands messages on. A processor is named by the
  generation that started it; \<open>processorDone\<close> is the one installed. \<open>cancelling\<close> holds the runs of the
  calls of \<open>cancelCurrentEndpointRun\<close> that have yet to deactivate an output. \<open>closeCalls\<close> records the calls of
  \<open>Close\<close>: the generation, if it was for one, and the endpoint.
\<close>

record lifecycle =
  lc_endpoint :: nat
  endpointOutput :: nat
  outputs :: nat
  active :: "nat set"
  endpointRun :: "nat option"
  lastRun :: "nat option"
  generations :: nat
  gen :: "nat \<Rightarrow> serviceEndpointRun"
  op :: op_pc
  processorDone :: "nat option"
  processors :: "nat set"
  cancelledProcessors :: "nat set"
  cancelling :: "nat list"
  closeCalls :: "(nat option \<times> nat) list"

definition no_run :: serviceEndpointRun where
  "no_run = \<lparr>run_ep = 0, run_output = 0, ctxEnded = False, run_stopping = False, closeErr = None,
     run_result = None, run_pc = NotStarted, closer_pc = NoCloser\<rparr>"

text \<open>The state after \<open>NewN2kService\<close>.\<close>

definition new_lifecycle :: "nat \<Rightarrow> lifecycle" where
  "new_lifecycle ep = \<lparr>lc_endpoint = ep, endpointOutput = 0, outputs = 1, active = {}, endpointRun = None,
     lastRun = None, generations = 0, gen = \<lambda>_. no_run, op = Idle, processorDone = None,
     processors = {}, cancelledProcessors = {}, cancelling = [], closeCalls = []\<rparr>"

definition update_run :: "nat \<Rightarrow> (serviceEndpointRun \<Rightarrow> serviceEndpointRun) \<Rightarrow> lifecycle \<Rightarrow> lifecycle" where
  "update_run g f s = s\<lparr>gen := (gen s)(g := f (gen s g))\<rparr>"

definition go_run :: "nat \<Rightarrow> run_pc \<Rightarrow> lifecycle \<Rightarrow> lifecycle" where
  "go_run g pc = update_run g (\<lambda>r. r\<lparr>run_pc := pc\<rparr>)"

definition go_closer :: "nat \<Rightarrow> closer_pc \<Rightarrow> lifecycle \<Rightarrow> lifecycle" where
  "go_closer g pc = update_run g (\<lambda>r. r\<lparr>closer_pc := pc\<rparr>)"

definition run_done :: "lifecycle \<Rightarrow> nat \<Rightarrow> bool" where
  "run_done s g \<longleftrightarrow> run_result (gen s g) \<noteq> None"

section \<open>Shared operations\<close>

definition deactivate :: "nat \<Rightarrow> lifecycle \<Rightarrow> lifecycle" where
  "deactivate output s = s\<lparr>active := active s - {output}\<rparr>"

text \<open>\<open>c\<close> is what \<open>Close\<close> returns, if it is called.\<close>

definition closeEndpoint :: "nat \<Rightarrow> goerror option \<Rightarrow> lifecycle \<Rightarrow> lifecycle" where
  "closeEndpoint g c s =
     (if closeErr (gen s g) \<noteq> None then s
      else update_run g (\<lambda>r. r\<lparr>closeErr := Some c\<rparr>)
             (s\<lparr>closeCalls := closeCalls s @ [(Some g, run_ep (gen s g))]\<rparr>))"

definition closed_with :: "lifecycle \<Rightarrow> nat \<Rightarrow> goerror option" where
  "closed_with s g = (case closeErr (gen s g) of Some c \<Rightarrow> c | None \<Rightarrow> None)"

text \<open>\<open>run.cancel()\<close>, with which \<open>finishEndpointRun\<close> begins, and the critical section that follows.\<close>

definition cancel_run :: "nat \<Rightarrow> lifecycle \<Rightarrow> lifecycle" where
  "cancel_run g = update_run g (\<lambda>r. r\<lparr>ctxEnded := True\<rparr>)"

definition finishEndpointRun :: "nat \<Rightarrow> goerror list \<Rightarrow> lifecycle \<Rightarrow> lifecycle" where
  "finishEndpointRun g result s =
     (let s = update_run g (\<lambda>r. r\<lparr>run_result := Some result\<rparr>) s
      in if endpointRun s = Some g then s\<lparr>endpointRun := None\<rparr> else s)"

definition startProcessor :: "nat \<Rightarrow> lifecycle \<Rightarrow> lifecycle" where
  "startProcessor g s =
     (if processorDone s \<noteq> None then s
      else s\<lparr>processorDone := Some g, processors := insert g (processors s)\<rparr>)"

text \<open>The first half of \<open>stopMessageProcessor\<close>; the second waits until the processor has ended.\<close>

definition cancelProcessor :: "lifecycle \<Rightarrow> lifecycle" where
  "cancelProcessor s = s\<lparr>processorDone := None,
     cancelledProcessors := cancelledProcessors s \<union> set_option (processorDone s)\<rparr>"

definition processor_ended :: "nat option \<Rightarrow> lifecycle \<Rightarrow> bool" where
  "processor_ended d s \<longleftrightarrow> (case d of None \<Rightarrow> True | Some p \<Rightarrow> p \<notin> processors s)"

definition joined_errors :: "goerror option list \<Rightarrow> goerror list" where
  "joined_errors es = List.map_filter id es"

section \<open>Start\<close>

text \<open>
  The first critical section; the outcome is what \<open>Start\<close> returns if it returns here. The caller's
  context may have ended already.
\<close>

definition Start_begin :: "goerror option \<Rightarrow> lifecycle \<Rightarrow> goerror list option \<times> lifecycle" where
  "Start_begin ctxErr s =
     (case ctxErr of
        Some e \<Rightarrow> (Some [e], s)
      | None \<Rightarrow>
          (case endpointRun s of
             Some g \<Rightarrow>
               (Some (if run_stopping (gen s g) \<or> ctxEnded (gen s g)
                      then [''N2K service is stopping''] else []), s)
           | None \<Rightarrow>
               (let g = generations s;
                    run = no_run\<lparr>run_ep := lc_endpoint s, run_output := endpointOutput s\<rparr>
                in (None, s\<lparr>generations := g + 1, gen := (gen s)(g := run), endpointRun := Some g,
                            lastRun := Some g, op := Starting g\<rparr>))))"

definition Start_endpoint :: "nat \<Rightarrow> goerror option \<Rightarrow> lifecycle \<Rightarrow> lifecycle" where
  "Start_endpoint g err s =
     (case err of Some e \<Rightarrow> s\<lparr>op := CloseFailed g (Some e)\<rparr> | None \<Rightarrow> s\<lparr>op := StartedEp g\<rparr>)"

definition Start_activate :: "nat \<Rightarrow> lifecycle \<Rightarrow> lifecycle" where
  "Start_activate g s =
     (let stopping = run_stopping (gen s g) \<or> ctxEnded (gen s g) \<or> endpointRun s \<noteq> Some g
      in if \<not> stopping
         then (let s = s\<lparr>active := insert (run_output (gen s g)) (active s)\<rparr>;
                   s = startProcessor g s
               in (go_closer g CloserWaits (go_run g InRun s))\<lparr>op := Idle\<rparr>)
         else s\<lparr>op := CloseFailed g None\<rparr>)"

text \<open>The endpoint did not start (\<open>err\<close>), or the run was stopped meanwhile: then the context has ended.\<close>

definition Start_close :: "nat \<Rightarrow> goerror option \<Rightarrow> goerror option \<Rightarrow> lifecycle \<Rightarrow> lifecycle" where
  "Start_close g err c s =
     (let s = closeEndpoint g c s;
          err = (case err of Some e \<Rightarrow> Some e
                 | None \<Rightarrow> if ctxEnded (gen s g) then Some ''context canceled'' else None)
      in (cancel_run g s)\<lparr>op := FinishFailed g (joined_errors [err, closed_with s g])\<rparr>)"

definition Start_finish :: "nat \<Rightarrow> goerror list \<Rightarrow> lifecycle \<Rightarrow> lifecycle" where
  "Start_finish g result s = (finishEndpointRun g result s)\<lparr>op := Idle\<rparr>"

section \<open>Stop and UpdateEndpoint\<close>

text \<open>\<open>cancelCurrentEndpointRun\<close>, which runs before the lock is taken, up to its last call.\<close>

definition cancel_current :: "lifecycle \<Rightarrow> lifecycle" where
  "cancel_current s =
     (case endpointRun s of None \<Rightarrow> s
      | Some g \<Rightarrow> (update_run g (\<lambda>r. r\<lparr>run_stopping := True, ctxEnded := True\<rparr>) s)
                    \<lparr>cancelling := g # cancelling s\<rparr>)"

definition cancel_deactivate_run :: "nat \<Rightarrow> lifecycle \<Rightarrow> lifecycle" where
  "cancel_deactivate_run g s = (deactivate (run_output (gen s g)) s)\<lparr>cancelling := remove1 g (cancelling s)\<rparr>"

text \<open>\<open>stopCurrentEndpoint\<close>; \<open>ep\<close> is the endpoint of \<open>UpdateEndpoint\<close>, \<open>None\<close> in a \<open>Stop\<close>.\<close>

definition Stop_mark :: "nat option \<Rightarrow> lifecycle \<Rightarrow> lifecycle" where
  "Stop_mark ep s =
     (let run = (case endpointRun s of None \<Rightarrow> lastRun s | Some g \<Rightarrow> Some g);
          s = (case run of None \<Rightarrow> s
               | Some g \<Rightarrow> update_run g (\<lambda>r. r\<lparr>run_stopping := True, ctxEnded := True\<rparr>) s)
      in s\<lparr>op := StopDeactivate run ep\<rparr>)"

definition Stop_close :: "nat option \<Rightarrow> nat option \<Rightarrow> goerror option \<Rightarrow> lifecycle \<Rightarrow> lifecycle" where
  "Stop_close run ep c s =
     (case run of
        Some g \<Rightarrow> (closeEndpoint g c s)\<lparr>op := StopWait run ep\<rparr>
      | None \<Rightarrow> s\<lparr>closeCalls := closeCalls s @ [(None, lc_endpoint s)], op := StopWait run ep\<rparr>)"

definition Stop_processor :: "nat option \<Rightarrow> lifecycle \<Rightarrow> lifecycle" where
  "Stop_processor ep s = (cancelProcessor s)\<lparr>op := StopWaitProcessor (processorDone s) ep\<rparr>"

definition Stop_finish :: "nat option \<Rightarrow> lifecycle \<Rightarrow> lifecycle" where
  "Stop_finish ep s =
     (case ep of
        None \<Rightarrow> s\<lparr>op := Idle\<rparr>
      | Some ep \<Rightarrow> s\<lparr>lc_endpoint := ep, endpointOutput := outputs s, outputs := outputs s + 1,
                     lastRun := None, op := Idle\<rparr>)"

section \<open>The goroutines\<close>

text \<open>\<open>waitForMessageQueueDrain\<close> gives \<open>d\<close>: an error only when the context has ended.\<close>

definition run_drain :: "nat \<Rightarrow> goerror option \<Rightarrow> goerror option \<Rightarrow> lifecycle \<Rightarrow> lifecycle" where
  "run_drain g err d s = go_run g (ToClose err d) s"

definition run_close :: "nat \<Rightarrow> goerror option \<Rightarrow> goerror option \<Rightarrow> goerror option \<Rightarrow> lifecycle \<Rightarrow> lifecycle" where
  "run_close g err d c s =
     (let s = closeEndpoint g c s in go_run g (ToStopProcessor err d (closed_with s g)) s)"

definition run_stop_processor ::
  "nat \<Rightarrow> goerror option \<Rightarrow> goerror option \<Rightarrow> goerror option \<Rightarrow> lifecycle \<Rightarrow> lifecycle" where
  "run_stop_processor g err d c s = go_run g (WaitProcessor err d c (processorDone s)) (cancelProcessor s)"

definition run_finish ::
  "nat \<Rightarrow> goerror option \<Rightarrow> goerror option \<Rightarrow> goerror option \<Rightarrow> lifecycle \<Rightarrow> lifecycle" where
  "run_finish g err d c s =
     (let result = (if ctxEnded (gen s g) then joined_errors [c] else joined_errors [err, d, c])
      in go_run g (Finishing result) (cancel_run g s))"

text \<open>The processor that ends removes itself, unless it was replaced or removed.\<close>

definition processor_exit :: "nat \<Rightarrow> lifecycle \<Rightarrow> lifecycle" where
  "processor_exit p s = s\<lparr>processors := processors s - {p},
     processorDone := (if processorDone s = Some p then None else processorDone s)\<rparr>"

text \<open>
  The steps, each for the generation it is about: of a \<open>Start\<close> under way; of a \<open>Stop\<close> or an \<open>UpdateEndpoint\<close>;
  of the goroutines; and of the callers who cancel a context.
\<close>

inductive start_step :: "nat \<Rightarrow> lifecycle \<Rightarrow> lifecycle \<Rightarrow> bool" where
  start_endpoint: "op s = Starting g \<Longrightarrow> start_step g s (Start_endpoint g err s)"
| start_activate: "op s = StartedEp g \<Longrightarrow> start_step g s (Start_activate g s)"
| start_close: "op s = CloseFailed g err \<Longrightarrow> start_step g s (Start_close g err c s)"
| start_finish: "op s = FinishFailed g result \<Longrightarrow> start_step g s (Start_finish g result s)"

inductive stop_step :: "lifecycle \<Rightarrow> lifecycle \<Rightarrow> bool" where
  stop_deactivate: "op s = StopDeactivate run ep
    \<Longrightarrow> stop_step s ((deactivate (endpointOutput s) s)\<lparr>op := StopClose run ep\<rparr>)"
| stop_close: "op s = StopClose run ep \<Longrightarrow> stop_step s (Stop_close run ep c s)"
| stop_wait: "op s = StopWait run ep \<Longrightarrow> (case run of None \<Rightarrow> True | Some g \<Rightarrow> run_done s g)
    \<Longrightarrow> stop_step s (s\<lparr>op := StopProcessor ep\<rparr>)"
| stop_processor: "op s = StopProcessor ep \<Longrightarrow> stop_step s (Stop_processor ep s)"
| stop_finish: "op s = StopWaitProcessor d ep \<Longrightarrow> processor_ended d s \<Longrightarrow> stop_step s (Stop_finish ep s)"

inductive run_step :: "nat \<Rightarrow> lifecycle \<Rightarrow> lifecycle \<Rightarrow> bool" where
  run_returns: "run_pc (gen s g) = InRun \<Longrightarrow> run_step g s (go_run g (RunReturned err) s)"
| run_marks: "run_pc (gen s g) = RunReturned err
    \<Longrightarrow> run_step g s (go_run g (ToDeactivate err) (update_run g (\<lambda>r. r\<lparr>run_stopping := True\<rparr>) s))"
| run_deactivates: "run_pc (gen s g) = ToDeactivate err
    \<Longrightarrow> run_step g s (go_run g (Draining err) (deactivate (run_output (gen s g)) s))"
| run_drains: "run_pc (gen s g) = Draining err \<Longrightarrow> d = None \<or> ctxEnded (gen s g)
    \<Longrightarrow> run_step g s (run_drain g err d s)"
| run_closes: "run_pc (gen s g) = ToClose err d \<Longrightarrow> run_step g s (run_close g err d c s)"
| run_stops: "run_pc (gen s g) = ToStopProcessor err d c \<Longrightarrow> run_step g s (run_stop_processor g err d c s)"
| run_waits: "run_pc (gen s g) = WaitProcessor err d c p \<Longrightarrow> processor_ended p s
    \<Longrightarrow> run_step g s (go_run g (ToFinish err d c) s)"
| run_finishes: "run_pc (gen s g) = ToFinish err d c \<Longrightarrow> run_step g s (run_finish g err d c s)"
| run_publishes: "run_pc (gen s g) = Finishing result
    \<Longrightarrow> run_step g s (go_run g RunEnded (finishEndpointRun g result s))"
| closer_ctx: "closer_pc (gen s g) = CloserWaits \<Longrightarrow> ctxEnded (gen s g)
    \<Longrightarrow> run_step g s (go_closer g CloserMarks s)"
| closer_done: "closer_pc (gen s g) = CloserWaits \<Longrightarrow> run_done s g \<Longrightarrow> run_step g s (go_closer g CloserEnded s)"
| closer_marks: "closer_pc (gen s g) = CloserMarks
    \<Longrightarrow> run_step g s (go_closer g CloserDeactivates (update_run g (\<lambda>r. r\<lparr>run_stopping := True\<rparr>) s))"
| closer_deactivates: "closer_pc (gen s g) = CloserDeactivates
    \<Longrightarrow> run_step g s (go_closer g CloserCloses (deactivate (run_output (gen s g)) s))"
| closer_closes: "closer_pc (gen s g) = CloserCloses
    \<Longrightarrow> run_step g s (go_closer g CloserEnded (closeEndpoint g c s))"
| processor_ends: "g \<in> processors s \<Longrightarrow> g \<in> cancelledProcessors s \<or> ctxEnded (gen s g)
    \<Longrightarrow> run_step g s (processor_exit g s)"

inductive cancel_step :: "nat \<Rightarrow> lifecycle \<Rightarrow> lifecycle \<Rightarrow> bool" where
  caller_ctx: "g < generations s \<Longrightarrow> cancel_step g s (cancel_run g s)"
| cancel: "endpointRun s = Some g \<Longrightarrow> cancel_step g s (cancel_current s)"
| cancel_deactivate: "g \<in> set (cancelling s) \<Longrightarrow> cancel_step g s (cancel_deactivate_run g s)"

inductive life_step :: "lifecycle \<Rightarrow> lifecycle \<Rightarrow> bool" where
  begin_start: "op s = Idle \<Longrightarrow> life_step s (snd (Start_begin ctxErr s))"
| begin_stop: "op s = Idle \<Longrightarrow> life_step s (Stop_mark ep s)"
| in_start: "start_step g s s' \<Longrightarrow> life_step s s'"
| in_stop: "stop_step s s' \<Longrightarrow> life_step s s'"
| in_run: "run_step g s s' \<Longrightarrow> life_step s s'"
| in_cancel: "cancel_step g s s' \<Longrightarrow> life_step s s'"

inductive life_reachable :: "lifecycle \<Rightarrow> bool" where
  new: "life_reachable (new_lifecycle ep)"
| step: "life_reachable s \<Longrightarrow> life_step s s' \<Longrightarrow> life_reachable s'"

section \<open>The invariant\<close>

text \<open>How far the goroutine of a generation is; 0 before it begins and 10 once it has ended.\<close>

fun stage :: "run_pc \<Rightarrow> nat" where
  "stage NotStarted = 0"
| "stage InRun = 1"
| "stage (RunReturned e) = 2"
| "stage (ToDeactivate e) = 3"
| "stage (Draining e) = 4"
| "stage (ToClose e d) = 5"
| "stage (ToStopProcessor e d c) = 6"
| "stage (WaitProcessor e d c p) = 7"
| "stage (ToFinish e d c) = 8"
| "stage (Finishing r) = 9"
| "stage RunEnded = 10"

fun waits_for :: "run_pc \<Rightarrow> nat option option" where
  "waits_for (WaitProcessor e d c p) = Some p"
| "waits_for _ = None"

text \<open>The generation a \<open>Start\<close> under way is about, and the one it is about to give up.\<close>

fun starting :: "op_pc \<Rightarrow> nat option" where
  "starting (Starting g) = Some g"
| "starting (StartedEp g) = Some g"
| "starting (CloseFailed g e) = Some g"
| "starting (FinishFailed g r) = Some g"
| "starting _ = None"

fun giving_up :: "op_pc \<Rightarrow> nat option" where
  "giving_up (FinishFailed g r) = Some g"
| "giving_up _ = None"

text \<open>The run a \<open>Stop\<close> under way leaves possible as the current one.\<close>

fun stop_run :: "op_pc \<Rightarrow> nat option option" where
  "stop_run (StopDeactivate r e) = Some r"
| "stop_run (StopClose r e) = Some r"
| "stop_run (StopWait r e) = Some r"
| "stop_run (StopProcessor e) = Some None"
| "stop_run (StopWaitProcessor d e) = Some None"
| "stop_run _ = None"

abbreviation stage_of :: "lifecycle \<Rightarrow> nat \<Rightarrow> nat" where
  "stage_of s g \<equiv> stage (run_pc (gen s g))"

abbreviation current :: "lifecycle \<Rightarrow> nat \<Rightarrow> bool" where
  "current s g \<equiv> endpointRun s = Some g"

definition close_count :: "lifecycle \<Rightarrow> nat \<Rightarrow> nat" where
  "close_count s g = length (filter (\<lambda>c. fst c = Some g) (closeCalls s))"

definition generation_ok :: "lifecycle \<Rightarrow> nat \<Rightarrow> bool" where
  "generation_ok s g \<longleftrightarrow>
     (if g < generations s then current s g \<longleftrightarrow> run_result (gen s g) = None
      else \<not> current s g \<and> gen s g = no_run \<and> lastRun s \<noteq> Some g \<and> stop_run (op s) \<noteq> Some (Some g))
     \<and> (starting (op s) = Some g \<longleftrightarrow> current s g \<and> stage_of s g = 0)
     \<and> (stage_of s g \<noteq> 0 \<longrightarrow> (current s g \<longleftrightarrow> stage_of s g < 10))
     \<and> (current s g \<longrightarrow> stop_run (op s) = None \<or> stop_run (op s) = Some (Some g))"

definition closing_ok :: "lifecycle \<Rightarrow> nat \<Rightarrow> bool" where
  "closing_ok s g \<longleftrightarrow>
     (5 < stage_of s g \<or> run_result (gen s g) \<noteq> None \<or> giving_up (op s) = Some g \<longrightarrow> closeErr (gen s g) \<noteq> None)
     \<and> close_count s g = of_bool (closeErr (gen s g) \<noteq> None)"

definition processor_ok :: "lifecycle \<Rightarrow> nat \<Rightarrow> bool" where
  "processor_ok s g \<longleftrightarrow>
     (g \<in> processors s \<longrightarrow> 0 < stage_of s g \<and> stage_of s g < 8
        \<and> (waits_for (run_pc (gen s g)) = None \<or> waits_for (run_pc (gen s g)) = Some (Some g)))
     \<and> (processorDone s = Some g \<longleftrightarrow> g \<in> processors s \<and> stage_of s g < 7)"

definition output_ok :: "lifecycle \<Rightarrow> nat \<Rightarrow> bool" where
  "output_ok s g \<longleftrightarrow> (if current s g
     then active s \<subseteq> {run_output (gen s g)} \<and> (0 < stage_of s g \<and> stage_of s g < 4 \<or> active s = {})
     else endpointRun s = None \<longrightarrow> active s = {})"

definition life_ok :: "lifecycle \<Rightarrow> bool" where
  "life_ok s \<longleftrightarrow> (\<forall>g. generation_ok s g \<and> closing_ok s g \<and> processor_ok s g \<and> output_ok s g)"

lemmas life_ops = update_run_def cancel_run_def go_run_def go_closer_def run_done_def deactivate_def closeEndpoint_def
  closed_with_def finishEndpointRun_def startProcessor_def cancelProcessor_def processor_ended_def
  Start_endpoint_def Start_activate_def Start_close_def Start_finish_def cancel_current_def
  cancel_deactivate_run_def Stop_mark_def Stop_close_def Stop_processor_def Stop_finish_def run_drain_def
  run_close_def run_stop_processor_def run_finish_def processor_exit_def no_run_def Let_def

lemma close_count_simps [simp]:
  "close_count (s\<lparr>generations := n\<rparr>) = close_count s" "close_count (s\<lparr>gen := f\<rparr>) = close_count s"
  "close_count (s\<lparr>endpointRun := r\<rparr>) = close_count s" "close_count (s\<lparr>lastRun := r\<rparr>) = close_count s"
  "close_count (s\<lparr>op := x\<rparr>) = close_count s" "close_count (s\<lparr>active := a\<rparr>) = close_count s"
  "close_count (s\<lparr>processorDone := d\<rparr>) = close_count s" "close_count (s\<lparr>processors := ps\<rparr>) = close_count s"
  "close_count (s\<lparr>cancelledProcessors := ps\<rparr>) = close_count s" "close_count (s\<lparr>cancelling := cs\<rparr>) = close_count s"
  "close_count (s\<lparr>lc_endpoint := e\<rparr>) = close_count s" "close_count (s\<lparr>endpointOutput := n\<rparr>) = close_count s"
  "close_count (s\<lparr>outputs := n\<rparr>) = close_count s"
  "close_count (s\<lparr>closeCalls := closeCalls s @ [(c, e)]\<rparr>) g = close_count s g + of_bool (c = Some g)"
  by (simp_all add: close_count_def fun_eq_iff)

lemma start_cases:
  obtains (stays) "snd (Start_begin ctxErr s) = s"
  | (new_run) "endpointRun s = None"
      "snd (Start_begin ctxErr s) = s\<lparr>generations := generations s + 1,
         gen := (gen s)(generations s := no_run\<lparr>run_ep := lc_endpoint s, run_output := endpointOutput s\<rparr>),
         endpointRun := Some (generations s), lastRun := Some (generations s), op := Starting (generations s)\<rparr>"
  by (cases ctxErr; cases "endpointRun s") (auto simp: Start_begin_def Let_def)


lemma life_okI:
  "(\<And>g. generation_ok s g) \<Longrightarrow> (\<And>g. closing_ok s g) \<Longrightarrow> (\<And>g. processor_ok s g) \<Longrightarrow> (\<And>g. output_ok s g)
     \<Longrightarrow> life_ok s"
  by (simp add: life_ok_def)

lemma life_ok_start_step:
  assumes "start_step h s s'" and "life_ok s"
  shows "generation_ok s' g" "closing_ok s' g" "processor_ok s' g" "output_ok s' g"
proof -
  have I: "generation_ok s x" "closing_ok s x" "processor_ok s x" "output_ok s x" for x
    using assms(2) by (auto simp: life_ok_def)
  show "generation_ok s' g"
    using assms(1) I(1)[of g] I(1)[of h]
    by cases (auto simp: generation_ok_def life_ops split: option.splits if_splits)
  show "closing_ok s' g"
    using assms(1) I(2)[of g] I(1)[of h]
    by cases (auto simp: closing_ok_def generation_ok_def life_ops split: option.splits if_splits)
  show "processor_ok s' g"
    using assms(1) I(3)[of g] I(1)[of h]
    by cases (auto simp: processor_ok_def generation_ok_def life_ops split: option.splits if_splits)
  show "output_ok s' g"
    using assms(1) I(4)[of g] I(4)[of h] I(1)[of h]
    by cases (auto simp: output_ok_def generation_ok_def life_ops split: option.splits if_splits)
qed

lemma life_ok_stop_step:
  assumes "stop_step s s'" and "life_ok s"
  shows "generation_ok s' g" "closing_ok s' g" "processor_ok s' g" "output_ok s' g"
proof -
  have I: "generation_ok s x" "closing_ok s x" "processor_ok s x" "output_ok s x" for x
    using assms(2) by (auto simp: life_ok_def)
  show "generation_ok s' g"
    using assms(1) I(1)[of g]
    by cases (auto simp: generation_ok_def life_ops split: option.splits if_splits)
  show "closing_ok s' g"
    using assms(1) I(2)[of g] I(1)[of g]
    by cases (auto simp: closing_ok_def generation_ok_def life_ops split: option.splits if_splits)
  show "processor_ok s' g"
    using assms(1) I(3)[of g] I(1)[of g]
    by cases (auto simp: processor_ok_def generation_ok_def life_ops split: option.splits if_splits)
  show "output_ok s' g"
    using assms(1) I(4)[of g] I(1)[of g]
    by cases (auto simp: output_ok_def generation_ok_def life_ops split: option.splits if_splits)
qed

lemma life_ok_run_step:
  assumes "run_step h s s'" and "life_ok s"
  shows "generation_ok s' g" "closing_ok s' g" "processor_ok s' g" "output_ok s' g"
proof -
  have I: "generation_ok s x" "closing_ok s x" "processor_ok s x" "output_ok s x" for x
    using assms(2) by (auto simp: life_ok_def)
  show "generation_ok s' g"
  proof (cases "g = h")
    case True
    show ?thesis using assms(1) I(1)[of g] unfolding True
      by cases (simp_all add: generation_ok_def life_ops split: option.splits if_splits, auto)
  next
    case False
    show ?thesis using assms(1) I(1)[of g] I(1)[of h] False
      by cases (simp_all add: generation_ok_def life_ops split: option.splits if_splits)
  qed
  show "closing_ok s' g"
    using assms(1) I(2)[of g] by cases (auto simp: closing_ok_def life_ops split: option.splits if_splits)
  show "processor_ok s' g"
    using assms(1) I(3)[of g] I(3)[of h] I(1)[of g] I(1)[of h]
    by cases (auto simp: processor_ok_def generation_ok_def life_ops split: option.splits if_splits)
  show "output_ok s' g"
    using assms(1) I(4)[of g] I(4)[of h] I(1)[of h]
    by cases (auto simp: output_ok_def generation_ok_def life_ops split: option.splits if_splits)
qed

lemma life_ok_cancel_step:
  assumes "cancel_step h s s'" and "life_ok s"
  shows "generation_ok s' g" "closing_ok s' g" "processor_ok s' g" "output_ok s' g"
proof -
  have I: "generation_ok s g" "closing_ok s g" "processor_ok s g" "output_ok s g"
    using assms(2) by (auto simp: life_ok_def)
  show "generation_ok s' g"
  proof (cases "g = h")
    case True
    show ?thesis using assms(1) I(1) unfolding True
      by cases (simp_all add: generation_ok_def life_ops split: option.splits if_splits, auto)
  next
    case False
    show ?thesis using assms(1) I(1) False
      by cases (simp_all add: generation_ok_def life_ops split: option.splits if_splits)
  qed
  show "closing_ok s' g"
    using assms(1) I(2) by cases (auto simp: closing_ok_def life_ops)
  show "processor_ok s' g"
    using assms(1) I(3) by cases (auto simp: processor_ok_def life_ops)
  show "output_ok s' g"
    using assms(1) I(4) by cases (auto simp: output_ok_def life_ops split: if_splits)
qed

lemma nothing_current:
  assumes "life_ok s" and "endpointRun s = None"
  shows "processors s = {}" "processorDone s = None" "active s = {}"
    "g < generations s \<Longrightarrow> run_result (gen s g) \<noteq> None"
proof -
  have I: "generation_ok s x" "processor_ok s x" "output_ok s x" for x using assms(1) by (auto simp: life_ok_def)
  have none: "x \<notin> processors s" for x using I(1,2)[of x] assms(2) by (auto simp: generation_ok_def processor_ok_def split: if_splits)
  then show "processors s = {}" by blast
  show "processorDone s = None" using none I(2)[of "the (processorDone s)"]
    by (cases "processorDone s") (auto simp: processor_ok_def)
  show "active s = {}" using I(3)[of 0] assms(2) by (simp add: output_ok_def)
  show "run_result (gen s g) \<noteq> None" if "g < generations s"
    using I(1)[of g] assms(2) that by (simp add: generation_ok_def)
qed

lemma life_ok_begin:
  assumes "life_ok s" and "op s = Idle"
  shows "life_ok (snd (Start_begin ctxErr s))" and "life_ok (Stop_mark ep s)"
proof -
  have I: "generation_ok s g" "closing_ok s g" "processor_ok s g" "output_ok s g" for g
    using assms(1) by (auto simp: life_ok_def)
  have "generation_ok s' g \<and> closing_ok s' g \<and> processor_ok s' g \<and> output_ok s' g"
    if "s' = Stop_mark ep s" for s' g
    using I[of g] assms(2) that unfolding generation_ok_def closing_ok_def processor_ok_def output_ok_def Stop_mark_def
    by (cases "endpointRun s"; cases "lastRun s") (auto simp: update_run_def split: if_splits)
  then show "life_ok (Stop_mark ep s)" by (simp add: life_ok_def)
  show "life_ok (snd (Start_begin ctxErr s))"
  proof (cases "ctxErr = None \<and> endpointRun s = None")
    case True
    have none: "processors s = {}" "processorDone s = None" "active s = {}" using nothing_current[of s] assms True by simp_all
    have "generation_ok s' g \<and> closing_ok s' g \<and> processor_ok s' g \<and> output_ok s' g"
      if "s' = snd (Start_begin ctxErr s)" for s' g
      using I[of g] assms(2) True none that
      unfolding generation_ok_def closing_ok_def processor_ok_def output_ok_def Start_begin_def
      by (cases "g = generations s") (auto simp: no_run_def Let_def close_count_def split: if_splits)
    then show ?thesis by (simp add: life_ok_def)
  qed (use assms(1) in \<open>auto simp: Start_begin_def split: option.splits\<close>)
qed

lemma life_ok_reachable: "life_reachable s \<Longrightarrow> life_ok s"
proof (induction rule: life_reachable.induct)
  case (new ep)
  show ?case by (simp add: life_ok_def new_lifecycle_def generation_ok_def closing_ok_def processor_ok_def
    output_ok_def no_run_def close_count_def)
next
  case (step s s')
  from step.hyps(2) step.IH show ?case
    by cases (auto intro: life_ok_begin life_okI life_ok_start_step life_ok_stop_step life_ok_run_step life_ok_cancel_step)
qed

section \<open>Schedules\<close>

text \<open>A \<open>Start\<close> that nothing disturbs, on an endpoint that starts.\<close>

definition started_from :: "lifecycle \<Rightarrow> lifecycle" where
  "started_from s = Start_activate (generations s) (Start_endpoint (generations s) None (snd (Start_begin None s)))"

lemma started_reachable:
  assumes "life_reachable s" and "op s = Idle" and "endpointRun s = None"
  shows "life_reachable (started_from s)"
proof -
  have a: "life_reachable (snd (Start_begin None s))" by (rule life_reachable.step[OF assms(1) begin_start[OF assms(2)]])
  have b: "life_reachable (Start_endpoint (generations s) None (snd (Start_begin None s)))"
    by (rule life_reachable.step[OF a in_start[OF start_endpoint]]) (use assms in \<open>simp add: Start_begin_def Let_def\<close>)
  show ?thesis unfolding started_from_def
    by (rule life_reachable.step[OF b in_start[OF start_activate]]) (use assms in \<open>simp add: Start_begin_def Start_endpoint_def Let_def\<close>)
qed

text \<open>A service started on the endpoint \<open>ep\<close>.\<close>

definition started_run :: "nat \<Rightarrow> lifecycle" where
  "started_run ep = started_from (new_lifecycle ep)"

lemma started_run_reachable: "life_reachable (started_run ep)"
  unfolding started_run_def by (rule started_reachable[OF life_reachable.new]) (simp_all add: new_lifecycle_def)

lemma run_reachable: "life_reachable s \<Longrightarrow> run_step g s s' \<Longrightarrow> life_reachable s'"
  by (rule life_reachable.step[OF _ in_run])

lemma started_run_state: "started_run ep = \<lparr>lc_endpoint = ep, endpointOutput = 0, outputs = 1, active = {0},
    endpointRun = Some 0, lastRun = Some 0, generations = 1,
    gen = (\<lambda>_. no_run)(0 := no_run\<lparr>run_ep := ep, run_pc := InRun, closer_pc := CloserWaits\<rparr>),
    op = Idle, processorDone = Some 0, processors = {0}, cancelledProcessors = {}, cancelling = [], closeCalls = []\<rparr>"
  by (simp add: started_run_def started_from_def new_lifecycle_def Start_begin_def life_ops)

text \<open>
  A schedule for a goroutine whose calls return without an error: its next step, or while it waits for the
  processor it has cancelled, the end of that.
\<close>

definition quiet_run :: "nat \<Rightarrow> lifecycle \<Rightarrow> lifecycle" where
  "quiet_run g s = (case run_pc (gen s g) of
     InRun \<Rightarrow> go_run g (RunReturned None) s
   | RunReturned err \<Rightarrow> go_run g (ToDeactivate err) (update_run g (\<lambda>r. r\<lparr>run_stopping := True\<rparr>) s)
   | ToDeactivate err \<Rightarrow> go_run g (Draining err) (deactivate (run_output (gen s g)) s)
   | Draining err \<Rightarrow> run_drain g err None s
   | ToClose err d \<Rightarrow> run_close g err d None s
   | ToStopProcessor err d c \<Rightarrow> run_stop_processor g err d c s
   | WaitProcessor err d c p \<Rightarrow>
       if processor_ended p s then go_run g (ToFinish err d c) s
       else if g \<in> processors s \<and> g \<in> cancelledProcessors s then processor_exit g s else s
   | ToFinish err d c \<Rightarrow> run_finish g err d c s
   | Finishing result \<Rightarrow> go_run g RunEnded (finishEndpointRun g result s)
   | _ \<Rightarrow> s)"

lemma quiet_run_reachable: "life_reachable s \<Longrightarrow> life_reachable (quiet_run g s)"
  unfolding quiet_run_def by (auto intro: run_reachable run_step.intros split: run_pc.split)

lemma quiet_runs_reachable: "life_reachable s \<Longrightarrow> life_reachable ((quiet_run g ^^ n) s)"
  by (induction n) (auto simp: quiet_run_reachable)

text \<open>The same for a \<open>Stop\<close>: its next step, if it need not wait.\<close>

definition quiet_stop :: "lifecycle \<Rightarrow> lifecycle" where
  "quiet_stop s = (case op s of
     StopDeactivate run ep \<Rightarrow> (deactivate (endpointOutput s) s)\<lparr>op := StopClose run ep\<rparr>
   | StopClose run ep \<Rightarrow> Stop_close run ep None s
   | StopWait run ep \<Rightarrow>
       if case run of None \<Rightarrow> True | Some g \<Rightarrow> run_done s g then s\<lparr>op := StopProcessor ep\<rparr> else s
   | StopProcessor ep \<Rightarrow> Stop_processor ep s
   | _ \<Rightarrow> s)"

lemma quiet_stop_reachable: "life_reachable s \<Longrightarrow> life_reachable (quiet_stop s)"
  unfolding quiet_stop_def by (auto intro: life_reachable.step[OF _ in_stop] stop_step.intros split: op_pc.split)

text \<open>A service on the endpoint \<open>ep\<close> that was started and is being stopped, when its run has finished.\<close>

definition stopped_run :: "nat \<Rightarrow> lifecycle" where
  "stopped_run ep = quiet_stop (quiet_stop ((quiet_run 0 ^^ 10) (quiet_stop (quiet_stop (Stop_mark None (started_run ep))))))"

lemma stopped_run_reachable: "life_reachable (stopped_run ep)"
proof -
  have "life_reachable (Stop_mark None (started_run ep))"
    by (rule life_reachable.step[OF started_run_reachable begin_stop]) (simp add: started_run_state)
  then show ?thesis unfolding stopped_run_def by (intro quiet_stop_reachable quiet_runs_reachable)
qed

lemma stopped_run_op: "op (stopped_run ep) = StopWaitProcessor None None"
  by (simp add: stopped_run_def started_run_state quiet_run_def quiet_stop_def life_ops numeral_eq_Suc)

section \<open>What the lifecycle guarantees\<close>

lemma lifecycle_facts:
  assumes "life_reachable s"
  shows "endpointRun s = Some g \<longleftrightarrow> g < generations s \<and> run_result (gen s g) = None"
    and "out \<in> active s \<Longrightarrow>
      \<exists>g. endpointRun s = Some g \<and> out = run_output (gen s g) \<and> 0 < stage_of s g \<and> stage_of s g < 4"
    and "p \<in> processors s \<Longrightarrow> endpointRun s = Some p"
    and "close_count s g = (if closeErr (gen s g) = None then 0 else 1)"
    and "run_result (gen s g) \<noteq> None \<Longrightarrow> close_count s g = 1"
proof -
  have ok: "life_ok s" by (rule life_ok_reachable[OF assms])
  have I: "generation_ok s x" "closing_ok s x" "processor_ok s x" "output_ok s x" for x
    using ok by (auto simp: life_ok_def)
  show "endpointRun s = Some g \<longleftrightarrow> g < generations s \<and> run_result (gen s g) = None"
    using I(1)[of g] by (simp add: generation_ok_def split: if_splits)
  show "\<exists>g. endpointRun s = Some g \<and> out = run_output (gen s g) \<and> 0 < stage_of s g \<and> stage_of s g < 4"
    if "out \<in> active s"
    using I(4)[of "the (endpointRun s)"] that by (cases "endpointRun s") (auto simp: output_ok_def)
  show "endpointRun s = Some p" if "p \<in> processors s"
    using I(1,3)[of p] that by (auto simp: generation_ok_def processor_ok_def)
  show "close_count s g = (if closeErr (gen s g) = None then 0 else 1)"
    and "run_result (gen s g) \<noteq> None \<Longrightarrow> close_count s g = 1"
    using I(2)[of g] by (simp_all add: closing_ok_def)
qed

lemma started_alone:
  assumes "life_reachable s" and "op s = StartedEp g"
  shows "processors s = {} \<and> processorDone s = None \<and> active s = {} \<and> current s g \<and> stage_of s g = 0"
proof -
  have ok: "life_ok s" by (rule life_ok_reachable[OF assms(1)])
  have I: "generation_ok s x" "processor_ok s x" "output_ok s x" for x using ok by (auto simp: life_ok_def)
  have g: "current s g" "stage_of s g = 0" using I(1)[of g] assms(2) by (auto simp: generation_ok_def)
  have none: "x \<notin> processors s" for x
    using lifecycle_facts(3)[OF assms(1), of x] g I(2)[of g] by (auto simp: processor_ok_def)
  have "processorDone s \<noteq> Some x" for x using I(2)[of x] none[of x] by (simp add: processor_ok_def)
  then show ?thesis using g none I(3)[of g] by (auto simp: output_ok_def)
qed

text \<open>
  Claim C11. In every reachable state of the service's lifecycle, whatever the interleaving: the run installed
  is the only generation that has begun and not finished; messages are handed on only to the output of that
  run, and only between its activation and the deactivation that follows \<open>Run\<close>; a message processor belongs to
  that run, so there is at most one; and the endpoint of each generation is closed at most once, and exactly
  once when the generation has finished.
\<close>

theorem lifecycle_safe:
  assumes "life_reachable s"
  shows "(endpointRun s = Some g \<longleftrightarrow> g < generations s \<and> run_result (gen s g) = None)
    \<and> active s \<subseteq> {out. \<exists>g. endpointRun s = Some g \<and> out = run_output (gen s g) \<and> 0 < stage_of s g \<and> stage_of s g < 4}
    \<and> processors s \<subseteq> set_option (endpointRun s)
    \<and> close_count s g \<le> 1
    \<and> (g < generations s \<longrightarrow> endpointRun s \<noteq> Some g \<longrightarrow> close_count s g = 1)"
  using lifecycle_facts[OF assms] by (fastforce split: if_splits)

lemma lifecycle_safe_witness:
  "endpointRun (started_run 7) = Some 0 \<and> active (started_run 7) = {0} \<and> processors (started_run 7) = {0}
     \<and> close_count (stopped_run 7) 0 = 1"
  using lifecycle_safe[OF started_run_reachable, of 7 0] lifecycle_safe[OF stopped_run_reachable, of 7 0]
  by (simp add: started_run_state stopped_run_def quiet_run_def quiet_stop_def life_ops numeral_eq_Suc)


text \<open>
  When a \<open>Start\<close> that was not cancelled activates its run, no message processor of an earlier run is left
  and no output is active: the run gets its own processor, which is the only one, and its output is the only one.
\<close>

lemma activated_alone:
  assumes "life_reachable s" and "op s = StartedEp g" and "\<not> run_stopping (gen s g)" and "\<not> ctxEnded (gen s g)"
  shows "Start_activate g s = s\<lparr>active := {run_output (gen s g)}, processorDone := Some g, processors := {g},
      gen := (gen s)(g := (gen s g)\<lparr>run_pc := InRun, closer_pc := CloserWaits\<rparr>), op := Idle\<rparr>"
  using started_alone[OF assms(1,2)] assms(3,4) by (simp add: Start_activate_def life_ops)




text \<open>
  \<open>CurrentRun\<close> gives a handle of the last generation. What \<open>Wait\<close> can return for a handle: the result, if the
  run has finished, and the error of the caller's context, if that has ended; it blocks when there is neither,
  and when both are ready either can be chosen.
\<close>

definition CurrentRun :: "lifecycle \<Rightarrow> goerror + nat" where
  "CurrentRun s = (case lastRun s of None \<Rightarrow> Inl ''N2K service has not been started'' | Some g \<Rightarrow> Inr g)"

definition Wait_outcomes :: "goerror option \<Rightarrow> lifecycle \<Rightarrow> nat \<Rightarrow> goerror list set" where
  "Wait_outcomes ctxErr s g = set_option (run_result (gen s g)) \<union> (\<lambda>e. [e]) ` set_option ctxErr"

lemma result_final:
  assumes "life_reachable s" and "life_step s s'" and "run_result (gen s g) = Some r"
  shows "run_result (gen s' g) = Some r"
proof -
  have ok: "life_ok s" by (rule life_ok_reachable[OF assms(1)])
  have I: "generation_ok s g" using ok by (auto simp: life_ok_def)
  have g: "g < generations s" "\<not> current s g"  using I assms(3) by (auto simp: generation_ok_def no_run_def split: if_splits)
  show ?thesis using assms(2)
  proof cases
    case (in_start h)
    then show ?thesis using I assms(3) g by cases (auto simp: generation_ok_def life_ops split: option.splits)
  next
    case (in_run h)
    then show ?thesis using I assms(3) g by cases (auto simp: generation_ok_def life_ops split: option.splits)
  next
    case in_stop
    then show ?thesis using assms(3) by cases (auto simp: life_ops split: option.splits)
  next
    case (in_cancel h)
    then show ?thesis using assms(3) by cases (auto simp: life_ops split: option.splits)
  qed (use assms(3) g in \<open>auto simp: Start_begin_def life_ops split: option.splits\<close>)
qed

lemma result_stays: "life_step\<^sup>*\<^sup>* s s' \<Longrightarrow> life_reachable s \<Longrightarrow> run_result (gen s g) = Some r
    \<Longrightarrow> run_result (gen s' g) = Some r \<and> life_reachable s'"
  by (induction rule: rtranclp_induct) (auto intro: result_final life_reachable.step)

text \<open>
  A handle stays bound to its generation: what \<open>Wait\<close> once returned for it (with a context that has not
  ended) is the only thing it returns at any later time, whatever is stopped, replaced or started in between.
\<close>

theorem wait_result_final:
  assumes "life_reachable s" and "r \<in> Wait_outcomes None s g" and "life_step\<^sup>*\<^sup>* s s'"
  shows "Wait_outcomes None s' g = {r}"
  using result_stays[OF assms(3,1)] assms(2) by (auto simp: Wait_outcomes_def)

lemma wait_result_final_witness: "Wait_outcomes None (Stop_finish None (stopped_run 7)) 0 = {[]}"
proof (rule wait_result_final[OF stopped_run_reachable])
  show "[] \<in> Wait_outcomes None (stopped_run 7) 0"
    by (simp add: stopped_run_def started_run_state quiet_run_def quiet_stop_def life_ops numeral_eq_Suc Wait_outcomes_def
      joined_errors_def List.map_filter_def)
  show "life_step\<^sup>*\<^sup>* (stopped_run 7) (Stop_finish None (stopped_run 7))"
    by (intro r_into_rtranclp in_stop[OF stop_finish[OF stopped_run_op]]) (simp add: processor_ended_def)
qed

end
