(* ===== verification/Lifeprogress.thy ===== *)
theory Lifeprogress
  imports Lifecycle
begin

text \<open>
  Progress of the endpoint lifecycle: a measure that every step of an operation or a goroutine of the service
  decreases, and that some such step is possible while an operation is under way or a run is installed. And a
  run of the service in which a late goroutine of a finished generation silences the generation after it.
\<close>

section \<open>Every operation completes\<close>

text \<open>A step of the service itself, not a new call and no cancellation from outside.\<close>

definition own_step :: "lifecycle \<Rightarrow> lifecycle \<Rightarrow> bool" where
  "own_step s s' \<longleftrightarrow> (\<exists>g. start_step g s s') \<or> stop_step s s' \<or> (\<exists>g. run_step g s s')"

fun op_work :: "op_pc \<Rightarrow> nat" where
  "op_work Idle = 0"
| "op_work (Starting g) = 6"
| "op_work (StartedEp g) = 5"
| "op_work (CloseFailed g e) = 2"
| "op_work (FinishFailed g r) = 1"
| "op_work (StopDeactivate r e) = 5"
| "op_work (StopClose r e) = 4"
| "op_work (StopWait r e) = 3"
| "op_work (StopProcessor e) = 2"
| "op_work (StopWaitProcessor d e) = 1"

fun closer_work :: "closer_pc \<Rightarrow> nat" where
  "closer_work NoCloser = 0"
| "closer_work CloserWaits = 4"
| "closer_work CloserMarks = 3"
| "closer_work CloserDeactivates = 2"
| "closer_work CloserCloses = 1"
| "closer_work CloserEnded = 0"

definition run_work :: "serviceEndpointRun \<Rightarrow> nat" where
  "run_work r = (10 - stage (run_pc r)) + closer_work (closer_pc r)"

definition gens_work :: "nat \<Rightarrow> (nat \<Rightarrow> serviceEndpointRun) \<Rightarrow> nat" where
  "gens_work n f = (\<Sum>g < n. run_work (f g))"

definition life_work :: "lifecycle \<Rightarrow> nat" where
  "life_work s = op_work (op s) + card (processors s) + gens_work (generations s) (gen s)"

lemma run_work_le: "g < n \<Longrightarrow> run_work (f g) \<le> gens_work n f"
  unfolding gens_work_def by (rule member_le_sum) auto

lemma gens_work_upd:
  assumes "g < n"
  shows "gens_work n (f(g := r)) = gens_work n f + run_work r - run_work (f g)"
proof -
  have "gens_work n (f(g := r)) = run_work r + (\<Sum>i \<in> {..<n} - {g}. run_work (f i))"
    using assms unfolding gens_work_def by (subst sum.remove[of _ g]) auto
  moreover have "gens_work n f = run_work (f g) + (\<Sum>i \<in> {..<n} - {g}. run_work (f i))"
    using assms unfolding gens_work_def by (subst sum.remove[of _ g]) auto
  ultimately show ?thesis by simp
qed

lemma gens_work_same: "run_work r = run_work (f g) \<Longrightarrow> gens_work n (f(g := r)) = gens_work n f"
  unfolding gens_work_def by (rule sum.cong) auto

lemma reachable_facts:
  assumes "life_reachable s"
  shows "finite (processors s)" "gen s g \<noteq> no_run \<Longrightarrow> g < generations s"
    "starting (op s) = Some g \<Longrightarrow> g < generations s \<and> stage_of s g = 0 \<and> g \<notin> processors s"
proof -
  have ok: "life_ok s" by (rule life_ok_reachable[OF assms])
  have "processors s \<subseteq> set_option (endpointRun s)" using lifecycle_facts(3)[OF assms] by auto
  then show "finite (processors s)" by (rule finite_subset) simp
  have I: "generation_ok s g" "processor_ok s g" using ok by (auto simp: life_ok_def)
  show "gen s g \<noteq> no_run \<Longrightarrow> g < generations s" using I by (auto simp: generation_ok_def split: if_splits)
  show "starting (op s) = Some g \<Longrightarrow> g < generations s \<and> stage_of s g = 0 \<and> g \<notin> processors s"
    using I by (auto simp: generation_ok_def processor_ok_def split: if_splits)
qed

lemma start_step_work:
  assumes "start_step g s s'" and "life_reachable s"
  shows "life_work s' < life_work s"
proof -
  have g: "starting (op s) = Some g" using assms(1) by cases auto
  note f = reachable_facts[OF assms(2)] 
  have *: "g < generations s" "stage_of s g = 0" "g \<notin> processors s" using f(3)[OF g] by auto
  show ?thesis using assms(1) * f(1) run_work_le[of g "generations s" "gen s"]
    by cases (auto simp: life_work_def life_ops gens_work_upd run_work_def split: option.splits if_splits)
qed

lemma stop_step_work: "stop_step s s' \<Longrightarrow> life_work s' < life_work s"
  by (cases rule: stop_step.cases)
    (auto simp: life_work_def life_ops gens_work_same run_work_def split: option.splits if_splits)

lemma run_step_work:
  assumes "run_step g s s'" and "life_reachable s"
  shows "life_work s' < life_work s"
proof -
  note f = reachable_facts[OF assms(2)]
  have g: "g < generations s" if "run_pc (gen s g) \<noteq> NotStarted \<or> closer_pc (gen s g) \<noteq> NoCloser"
    using f(2)[of g] that unfolding no_run_def by (metis serviceEndpointRun.select_convs(7,8))
  have p: "0 < card (processors s)" if "g \<in> processors s" using f(1) that by (auto simp: card_gt_0_iff)
  show ?thesis using assms(1) f(1) g p run_work_le[of g "generations s" "gen s"]
    by cases (auto simp: life_work_def life_ops gens_work_upd run_work_def split: option.splits if_splits)
qed

lemma waited_processor_cancelled:
  assumes "life_reachable s"
  shows "g \<in> processors s \<Longrightarrow> waits_for (run_pc (gen s g)) \<noteq> None \<Longrightarrow> g \<in> cancelledProcessors s"
  using assms
proof (induction arbitrary: g rule: life_reachable.induct)
  case (new ep)
  then show ?case by (simp add: new_lifecycle_def)
next
  case (step s s')
  have I: "processor_ok s g" using life_ok_reachable[OF step.hyps(1)] by (auto simp: life_ok_def)
  from step.hyps(2) show ?case
  proof cases
    case (in_start h)
    then show ?thesis using step.IH[of g] step.prems
      by cases (auto simp: life_ops split: option.splits if_splits)
  next
    case (in_run h)
    then show ?thesis using step.IH[of g] step.prems I
      by cases (auto simp: life_ops processor_ok_def split: option.splits if_splits)
  next
    case in_stop
    then show ?thesis using step.IH[of g] step.prems by cases (auto simp: life_ops split: option.splits if_splits)
  next
    case (in_cancel h)
    then show ?thesis using step.IH[of g] step.prems by cases (auto simp: life_ops split: option.splits if_splits)
  qed (use step.IH[of g] step.prems in \<open>auto simp: Start_begin_def life_ops split: option.splits if_splits\<close>)
qed


lemma run_can_step:
  assumes "life_reachable s" and "current s g" and "starting (op s) \<noteq> Some g"
  shows "\<exists>h s'. run_step h s s'"
proof (cases "run_pc (gen s g)")
  case NotStarted
  then show ?thesis
    using assms(2,3) life_ok_reachable[OF assms(1)] by (auto simp: life_ok_def generation_ok_def)
next
  case (WaitProcessor err d c p)
  show ?thesis
  proof (cases "processor_ended p s")
    case True
    then show ?thesis using run_waits[OF WaitProcessor] by blast
  next
    case False
    then obtain q where q: "q \<in> processors s" "p = Some q" by (auto simp: processor_ended_def split: option.splits)
    then have "q = g" using lifecycle_facts(3)[OF assms(1) q(1)] assms(2) by simp
    then show ?thesis
      using waited_processor_cancelled[OF assms(1) q(1)] WaitProcessor processor_ends[OF q(1)] by auto
  qed
next
  case RunEnded
  then show ?thesis
    using assms(2) life_ok_reachable[OF assms(1)] by (auto simp: life_ok_def generation_ok_def)
qed (meson run_returns run_marks run_deactivates run_drains run_closes run_stops run_finishes run_publishes)+

lemma own_enabled:
  "start_step g s s' \<Longrightarrow> \<exists>s'. own_step s s'"
  "stop_step s s' \<Longrightarrow> \<exists>s'. own_step s s'"
  "run_step g s s' \<Longrightarrow> \<exists>s'. own_step s s'"
  by (auto simp: own_step_def)

lemma own_step_exists:
  assumes "life_reachable s" and "op s \<noteq> Idle \<or> endpointRun s \<noteq> None"
  shows "\<exists>s'. own_step s s'"
proof (cases "\<exists>g. current s g \<and> starting (op s) \<noteq> Some g")
  case True
  then show ?thesis using run_can_step[OF assms(1)] own_enabled(3) by blast
next
  case False
  have ok: "life_ok s" by (rule life_ok_reachable[OF assms(1)])
  show ?thesis
  proof (cases "op s")
    case Idle
    then show ?thesis using False assms(2) by auto
  next
    case (StopWait r ep)
    then have "endpointRun s = None" using False by (cases "endpointRun s") auto
    then have "case r of None \<Rightarrow> True | Some g \<Rightarrow> run_done s g"
      using ok StopWait by (auto simp: life_ok_def generation_ok_def run_done_def split: option.splits if_splits)
    then show ?thesis using stop_wait[OF StopWait] own_enabled(2) by blast
  next
    case (StopWaitProcessor d ep)
    then have none: "endpointRun s = None" using False by (cases "endpointRun s") auto
    then have "processor_ended d s" using nothing_current[OF ok none] by (simp add: processor_ended_def split: option.splits)
    then show ?thesis using stop_finish[OF StopWaitProcessor] own_enabled(2) by blast
  qed (blast intro: own_enabled(1,2) start_step.intros stop_step.intros)+
qed




section \<open>A goroutine that is late\<close>

text \<open>The \<open>Run\<close> of the endpoint has returned, the run has finished, and the goroutine that closes it is late.\<close>

definition late_closer :: "nat \<Rightarrow> lifecycle" where
  "late_closer ep = \<lparr>lc_endpoint = ep, endpointOutput = 0, outputs = 1, active = {}, endpointRun = None,
    lastRun = Some 0, generations = 1,
    gen = (\<lambda>_. no_run)(0 := \<lparr>run_ep = ep, run_output = 0, ctxEnded = True, run_stopping = True,
      closeErr = Some None, run_result = Some [], run_pc = RunEnded, closer_pc = CloserDeactivates\<rparr>),
    op = Idle, processorDone = None, processors = {}, cancelledProcessors = {0}, cancelling = [],
    closeCalls = [(Some 0, ep)]\<rparr>"

lemma late_closer_reachable: "life_reachable (late_closer ep)"
proof -
  define s where "s = (quiet_run 0 ^^ 10) (started_run ep)"
  have s: "s = (late_closer ep)\<lparr>gen := (gen (late_closer ep))(0 := (gen (late_closer ep) 0)\<lparr>closer_pc := CloserWaits\<rparr>)\<rparr>"
    by (simp add: s_def started_run_state quiet_run_def life_ops numeral_eq_Suc late_closer_def joined_errors_def List.map_filter_def)
  have "life_reachable s" unfolding s_def by (rule quiet_runs_reachable[OF started_run_reachable])
  then have "life_reachable (go_closer 0 CloserMarks s)"
    by (rule run_reachable[OF _ closer_ctx]) (simp_all add: s late_closer_def)
  then have "life_reachable (go_closer 0 CloserDeactivates
      (update_run 0 (\<lambda>r. r\<lparr>run_stopping := True\<rparr>) (go_closer 0 CloserMarks s)))"
    by (rule run_reachable[OF _ closer_marks]) (simp add: s late_closer_def life_ops)
  also have "go_closer 0 CloserDeactivates (update_run 0 (\<lambda>r. r\<lparr>run_stopping := True\<rparr>) (go_closer 0 CloserMarks s))
      = late_closer ep"
    by (simp add: s late_closer_def life_ops)
  finally show ?thesis .
qed

text \<open>
  When a run has finished, \<open>finishEndpointRun\<close> cancels its context, and \<open>closeEndpointOnContext\<close> may take that branch
  of its \<open>select\<close>. If it is late, a \<open>Start\<close> of a new run on the same endpoint activates the output the two
  generations share, and the late goroutine deactivates it: the new run goes on, and hands nothing on.
\<close>

theorem restart_silenced:
  "\<exists>s. life_reachable s \<and> endpointRun s = Some 1 \<and> run_pc (gen s 1) = InRun \<and> \<not> run_stopping (gen s 1)
     \<and> \<not> ctxEnded (gen s 1) \<and> processors s = {1} \<and> active s = {}"
proof -
  define s where "s = started_from (late_closer 7)"
  have s: "s = (late_closer 7)\<lparr>active := {0}, endpointRun := Some 1, lastRun := Some 1, generations := 2,
      gen := (gen (late_closer 7))(1 := no_run\<lparr>run_ep := 7, run_pc := InRun, closer_pc := CloserWaits\<rparr>),
      processorDone := Some 1, processors := {1}\<rparr>"
    by (simp add: s_def started_from_def Start_begin_def life_ops late_closer_def)
  define s' where "s' = go_closer 0 CloserCloses (deactivate (run_output (gen s 0)) s)"
  have "life_reachable s" unfolding s_def
    by (rule started_reachable[OF late_closer_reachable]) (simp_all add: late_closer_def)
  moreover have "closer_pc (gen s 0) = CloserDeactivates" by (simp add: s late_closer_def)
  ultimately have "life_reachable s'" unfolding s'_def using run_reachable closer_deactivates by blast
  moreover have "endpointRun s' = Some 1 \<and> run_pc (gen s' 1) = InRun \<and> \<not> run_stopping (gen s' 1)
     \<and> \<not> ctxEnded (gen s' 1) \<and> processors s' = {1} \<and> active s' = {}"
    by (simp add: s'_def s late_closer_def life_ops)
  ultimately show ?thesis by blast
qed


end
