(* ===== verification/Rawformat.thy ===== *)
theory Rawformat
  imports Canadapter
begin

text \<open>
  The RAW text format (\<open>internal/converter/converter.go\<close>) and the endpoints that write and replay files of
  it (\<open>pkg/endpoint/rawendpoint/rawendpoint.go\<close>): a frame is a line of comma-separated fields, a line of more than 8
  data bytes is a fast-packet message. Text is a list of characters, one per byte. The time stamp of a line is
  a parameter; what is a number in it is read as \<open>strconv.ParseUint\<close> does with an explicit base.
\<close>

section \<open>Numbers in text\<close>

fun split_commas :: "string \<Rightarrow> string list" where
  "split_commas [] = [[]]"
| "split_commas (c # cs) =
     (if c = CHR '','' then [] # split_commas cs
      else (case split_commas cs of [] \<Rightarrow> [[c]] | e # es \<Rightarrow> (c # e) # es))"

datatype num_error = ErrSyntax | ErrRange

text \<open>Letters of both cases are digits from 10 on; setting bit 5 makes a letter lower case.\<close>

definition digit_value :: "char \<Rightarrow> nat option" where
  "digit_value c =
     (let n = of_char c :: nat; l = or n 32
      in if 48 \<le> n \<and> n \<le> 57 then Some (n - 48)
         else if 97 \<le> l \<and> l \<le> 122 then Some (l - 97 + 10) else None)"

fun parse_digits :: "nat \<Rightarrow> nat \<Rightarrow> nat \<Rightarrow> string \<Rightarrow> num_error + nat" where
  "parse_digits base maxVal n [] = Inr n"
| "parse_digits base maxVal n (c # cs) =
     (case digit_value c of
        None \<Rightarrow> Inl ErrSyntax
      | Some d \<Rightarrow>
          if d \<ge> base then Inl ErrSyntax
          else if n * base + d > maxVal then Inl ErrRange
          else parse_digits base maxVal (n * base + d) cs)"

definition ParseUint :: "string \<Rightarrow> nat \<Rightarrow> nat \<Rightarrow> num_error + nat" where
  "ParseUint s base bitSize = (if s = [] then Inl ErrSyntax else parse_digits base (2 ^ bitSize - 1) 0 s)"

section \<open>From text to frames\<close>

datatype raw_field = RawPriority | RawPGN | RawSource | RawDestination | RawLength

datatype raw_error = InsufficientElements | InvalidField raw_field num_error | LengthExceedsBytes
  | InvalidByte nat num_error

definition parse_field :: "raw_field \<Rightarrow> string \<Rightarrow> nat \<Rightarrow> (nat \<Rightarrow> raw_error + 'a) \<Rightarrow> raw_error + 'a" where
  "parse_field f e bitSize k =
     (case ParseUint e 10 bitSize of Inl err \<Rightarrow> Inl (InvalidField f err) | Inr n \<Rightarrow> k n)"

text \<open>The data bytes of a frame; an error names the position \<open>i\<close>.\<close>

fun parse_bytes :: "nat \<Rightarrow> string list \<Rightarrow> raw_error + bytes" where
  "parse_bytes i [] = Inr []"
| "parse_bytes i (e # es) =
     (case ParseUint e 16 8 of
        Inl err \<Rightarrow> Inl (InvalidByte i err)
      | Inr b \<Rightarrow> (case parse_bytes (i + 1) es of Inl err \<Rightarrow> Inl err | Inr bs \<Rightarrow> Inr (of_nat b # bs)))"

text \<open>They are stored into the data array from \<open>offset\<close> on.\<close>

fun store_bytes :: "nat \<Rightarrow> bytes \<Rightarrow> bytes \<Rightarrow> bytes" where
  "store_bytes offset [] frameData = frameData"
| "store_bytes offset (b # bs) frameData = store_bytes (offset + 1) bs (frameData[offset := b])"

text \<open>The loop over the consecutive frames; \<open>es\<close> are the elements from \<open>dataIndex\<close> that remain.\<close>

function more_frames :: "u32 \<Rightarrow> nat \<Rightarrow> u8 \<Rightarrow> string list \<Rightarrow> raw_error + Frame list" where
  "more_frames i dataIndex frameNum es =
     (if es = [] then Inr []
      else
        (let bytesToCopy = min 7 (length es)
         in case parse_bytes dataIndex (take bytesToCopy es) of
              Inl err \<Rightarrow> Inl err
            | Inr bs \<Rightarrow>
                (let frame = \<lparr>frame_ID = i, frame_Length = 8,
                       frame_Data = store_bytes 1 bs ((replicate 8 0)[0 := push_bit 5 0 OR (frameNum AND 0x1F)])\<rparr>
                 in case more_frames i (dataIndex + bytesToCopy) (frameNum + 1) (drop bytesToCopy es) of
                      Inl err \<Rightarrow> Inl err
                    | Inr frames \<Rightarrow> Inr (frame # frames))))"
  by pat_completeness auto
termination by (relation "measure (\<lambda>(_, _, _, es). length es)") auto

declare more_frames.simps [simp del]

definition CanFrameFromRaw :: "string \<Rightarrow> raw_error + Frame list" where
  "CanFrameFromRaw line =
     (let elems = split_commas line
      in if length elems < 6 then Inl InsufficientElements
         else
           parse_field RawPriority (elems ! 1) 8 (\<lambda>priority.
           parse_field RawPGN (elems ! 2) 32 (\<lambda>pgn.
           parse_field RawSource (elems ! 3) 8 (\<lambda>source.
           parse_field RawDestination (elems ! 4) 8 (\<lambda>destination.
           parse_field RawLength (elems ! 5) 8 (\<lambda>len.
             if len > length elems - 6 then Inl LengthExceedsBytes
             else
               (let i = CanIDFromData (of_nat pgn) (of_nat source) (of_nat priority) (of_nat destination);
                    es = take len (drop 6 elems)
                in if len \<le> 8
                   then (case parse_bytes 0 es of
                           Inl err \<Rightarrow> Inl err
                         | Inr bs \<Rightarrow> Inr [\<lparr>frame_ID = i, frame_Length = of_nat len,
                                          frame_Data = store_bytes 0 bs (replicate 8 0)\<rparr>])
                   else (case parse_bytes 0 (take 6 es) of
                           Inl err \<Rightarrow> Inl err
                         | Inr bs \<Rightarrow>
                             (let frame = \<lparr>frame_ID = i, frame_Length = 8,
                                    frame_Data = store_bytes 2 bs ((replicate 8 0)[0 := push_bit 5 0, 1 := of_nat len])\<rparr>
                              in case more_frames i 12 1 (drop 6 es) of
                                   Inl err \<Rightarrow> Inl err
                                 | Inr frames \<Rightarrow> Inr (frame # frames))))))))))"

section \<open>From frames to text\<close>

definition hex_digit :: "nat \<Rightarrow> char" where
  "hex_digit n = char_of (if n < 10 then 48 + n else 87 + n)"

text \<open>The \<open>%02x\<close> verb on a byte.\<close>

definition hex2 :: "u8 \<Rightarrow> string" where
  "hex2 b = [hex_digit (unat b div 16), hex_digit (unat b mod 16)]"

fun commas :: "string list \<Rightarrow> string" where
  "commas [] = []"
| "commas [e] = e"
| "commas (e # es) = e @ CHR '','' # commas es"

abbreviation newline :: char where
  "newline \<equiv> CHR 0x0A"

definition RawFromCanFrame :: "string \<Rightarrow> Frame \<Rightarrow> string" where
  "RawFromCanFrame stamp f =
     (let h = DecodeCanID 0 (frame_ID f)
      in commas ([stamp, decimal (unat (hdr_Priority h)), decimal (unat (hdr_PGN h)),
           decimal (unat (hdr_SourceID h)), decimal (unat (hdr_TargetID h)), decimal (unat (frame_Length f))]
           @ map (\<lambda>i. hex2 (frame_Data f ! i)) [0..<8]) @ [newline])"

section \<open>Files\<close>

text \<open>
  What \<open>RawEndpoint\<close> writes to its file, and what a scanner of lines reads from it; \<open>stamps\<close> are the clock's.
\<close>

definition write_frames :: "string list \<Rightarrow> Frame list \<Rightarrow> string" where
  "write_frames stamps fs = concat (map2 RawFromCanFrame stamps fs)"

fun split_lines :: "string \<Rightarrow> string list" where
  "split_lines [] = []"
| "split_lines (c # cs) =
     (if c = newline then [] # split_lines cs
      else (case split_lines cs of [] \<Rightarrow> [[c]] | l # ls \<Rightarrow> (c # l) # ls))"

definition drop_cr :: "string \<Rightarrow> string" where
  "drop_cr l = (if l \<noteq> [] \<and> last l = CHR 0x0D then butlast l else l)"

definition scan_lines :: "string \<Rightarrow> string list" where
  "scan_lines text = map drop_cr (split_lines text)"

text \<open>
  A line of \<open>RawFileEndpoint.Run\<close>: the frames it hands on. An empty line and one that does not parse give
  none; a message of several frames gets the random sequence number \<open>seqID\<close>, from 0 to 6.
\<close>

definition play_line :: "u8 \<Rightarrow> string \<Rightarrow> Frame list" where
  "play_line seqID line =
     (if line = [] then []
      else (case CanFrameFromRaw line of
              Inl err \<Rightarrow> []
            | Inr frames \<Rightarrow>
                if length frames > 1
                then map (\<lambda>f. f\<lparr>frame_Data := (frame_Data f)
                       [0 := push_bit 5 seqID OR (frame_Data f ! 0 AND 0x1F)]\<rparr>) frames
                else [frames ! 0]))"

definition play_file :: "u8 list \<Rightarrow> string \<Rightarrow> Frame list" where
  "play_file seqIDs text = concat (map2 play_line seqIDs (scan_lines text))"

section \<open>Text of numbers\<close>

lemma of_char_byte [simp]: "n < 256 \<Longrightarrow> (of_char (char_of n) :: nat) = n"
  by (simp add: of_char_of)

lemma digit_value_decimal [simp]: "n < 10 \<Longrightarrow> digit_value (char_of (48 + n)) = Some n"
  by (simp add: digit_value_def Let_def)

lemma digit_value_hex [simp]: "n < 16 \<Longrightarrow> digit_value (hex_digit n) = Some n"
proof -
  have "\<forall>n \<in> set [0..<16]. digit_value (hex_digit n) = Some n"
    by (simp add: upt_rec hex_digit_def digit_value_def Let_def)
  then show "n < 16 \<Longrightarrow> digit_value (hex_digit n) = Some n" by simp
qed

lemma parse_digits_append:
  "parse_digits base m n (xs @ ys) =
     (case parse_digits base m n xs of Inl err \<Rightarrow> Inl err | Inr k \<Rightarrow> parse_digits base m k ys)"
  by (induction base m n xs rule: parse_digits.induct) (auto split: option.splits)

lemma decimal_nonempty [simp]: "decimal n \<noteq> []"
  by (subst decimal.simps) simp

lemma parse_decimal: "n \<le> m \<Longrightarrow> parse_digits 10 m 0 (decimal n) = Inr n"
proof (induction n rule: decimal.induct)
  case (1 n)
  show ?case
  proof (cases "n < 10")
    case True
    then show ?thesis using 1(2) by (subst decimal.simps) simp
  next
    case False
    have "parse_digits 10 m 0 (decimal (n div 10)) = Inr (n div 10)"
      using 1(1)[OF False] 1(2) by (meson div_le_dividend le_trans)
    then show ?thesis using 1(2) False by (subst decimal.simps) (simp add: parse_digits_append)
  qed
qed

lemma ParseUint_decimal: "n < 2 ^ b \<Longrightarrow> ParseUint (decimal n) 10 b = Inr n"
  by (simp add: ParseUint_def parse_decimal)

lemma ParseUint_hex2: "ParseUint (hex2 b) 16 8 = Inr (unat b)"
proof -
  have "unat b < 256" by (rule unat_lt_256)
  then have "unat b div 16 < 16" "unat b mod 16 < 16" "unat b div 16 * 16 + unat b mod 16 = unat b" "unat b div 16 \<le> 255"
    by auto
  then show ?thesis using \<open>unat b < 256\<close> by (simp add: ParseUint_def hex2_def) presburger
qed

lemma parse_bytes_hex2: "parse_bytes i (map hex2 bs) = Inr bs"
  by (induction bs arbitrary: i) (simp_all add: ParseUint_hex2)

text \<open>No number has a comma or a newline in it.\<close>

definition plain_text :: "string \<Rightarrow> bool" where
  "plain_text s \<longleftrightarrow> CHR '','' \<notin> set s \<and> newline \<notin> set s \<and> CHR 0x0D \<notin> set s"

lemma plain_char:
  assumes "n < 256" and "n \<noteq> 44" and "n \<noteq> 10" and "n \<noteq> 13"
  shows "plain_text [char_of (n :: nat)]"
proof -
  have "char_of n \<noteq> c" if "(of_char c :: nat) \<noteq> n" for c
    using that assms(1) of_char_byte by blast
  then show ?thesis using assms by (simp add: plain_text_def eq_commute[of _ "char_of n"])
qed

lemma plain_digit: "n < 10 \<Longrightarrow> plain_text [char_of (48 + n :: nat)]"
  by (rule plain_char) auto

lemma plain_append [simp]: "plain_text (xs @ ys) \<longleftrightarrow> plain_text xs \<and> plain_text ys"
  by (auto simp: plain_text_def)

lemma plain_decimal [simp]: "plain_text (decimal n)"
  by (induction n rule: decimal.induct) (subst decimal.simps, simp add: plain_digit)

lemma plain_hex2 [simp]: "plain_text (hex2 b)"
proof -
  have "plain_text [hex_digit n]" if "n < 16" for n
    unfolding hex_digit_def by (rule plain_char) (use that in auto)
  from this[of "unat b div 16"] this[of "unat b mod 16"] show ?thesis
    using unat_lt_256[of b] plain_append[of "[hex_digit (unat b div 16)]" "[hex_digit (unat b mod 16)]"]
    by (simp add: hex2_def)
qed

lemma split_plain: "plain_text e \<Longrightarrow> split_commas e = [e]"
  by (induction e) (auto simp: plain_text_def)

lemma split_comma: "plain_text e \<Longrightarrow> split_commas (e @ CHR '','' # rest) = e # split_commas rest"
  by (induction e) (auto simp: plain_text_def)

lemma split_commas_commas: "es \<noteq> [] \<Longrightarrow> \<forall>e \<in> set es. plain_text e \<Longrightarrow> split_commas (commas es) = es"
  by (induction es rule: commas.induct) (auto simp: split_plain split_comma)

section \<open>Frames through text\<close>

lemma store_bytes_eq:
  "offset + length bs \<le> length d \<Longrightarrow>
     store_bytes offset bs d = take offset d @ bs @ drop (offset + length bs) d"
proof (induction offset bs d rule: store_bytes.induct)
  case (2 offset b bs d)
  then have "store_bytes offset (b # bs) d = take (offset + 1) (d[offset := b]) @ bs @ drop (offset + 1 + length bs) d"
    by simp
  also have "take (offset + 1) (d[offset := b]) = take offset d @ [b]"
    using 2(2) by (simp add: take_Suc_conv_app_nth)
  finally show ?case by simp
qed simp

text \<open>A line of the format: time, priority, PGN, source, destination, length and the bytes.\<close>

definition raw_line :: "string \<Rightarrow> u8 \<Rightarrow> u32 \<Rightarrow> u8 \<Rightarrow> u8 \<Rightarrow> nat \<Rightarrow> bytes \<Rightarrow> string" where
  "raw_line stamp priority pgn source destination len bs =
     commas ([stamp, decimal (unat priority), decimal (unat pgn), decimal (unat source),
       decimal (unat destination), decimal len] @ map hex2 bs)"

lemma raw_line_nonempty [simp]: "raw_line stamp priority pgn source destination len bs \<noteq> []"
  by (simp add: raw_line_def)

lemma split_raw_line:
  assumes "plain_text stamp"
  shows "split_commas (raw_line stamp priority pgn source destination len bs) =
     [stamp, decimal (unat priority), decimal (unat pgn), decimal (unat source),
       decimal (unat destination), decimal len] @ map hex2 bs"
  unfolding raw_line_def by (rule split_commas_commas) (use assms in auto)

lemma unat_lt_32: "unat (x :: u32) < 2 ^ 32"
  using unsigned_less[of x] by simp

lemma parse_raw_line:
  assumes "plain_text stamp" and "len < 256" and "len \<le> length bs"
  shows "CanFrameFromRaw (raw_line stamp priority pgn source destination len bs) =
     (let i = CanIDFromData pgn source priority destination; ds = take len bs
      in if len \<le> 8
         then Inr [\<lparr>frame_ID = i, frame_Length = of_nat len, frame_Data = ds @ replicate (8 - len) 0\<rparr>]
         else (case more_frames i 12 1 (map hex2 (drop 6 ds)) of
                 Inl err \<Rightarrow> Inl err
               | Inr frames \<Rightarrow> Inr (\<lparr>frame_ID = i, frame_Length = 8,
                    frame_Data = 0 # of_nat len # take 6 ds\<rparr> # frames)))"
proof -
  have small: "ParseUint (decimal (unat x)) 10 8 = Inr (unat x)" for x :: u8
    using ParseUint_decimal[of "unat x" 8] unat_lt_256[of x] by simp
  have pgn: "ParseUint (decimal (unat pgn)) 10 32 = Inr (unat pgn)"
    by (rule ParseUint_decimal[OF unat_lt_32])
  have len: "ParseUint (decimal len) 10 8 = Inr len"
    using ParseUint_decimal[of len 8] assms(2) by simp
  have bytes: "parse_bytes i (take n (map hex2 xs)) = Inr (take n xs)" for i n xs
    by (simp add: take_map parse_bytes_hex2)
  have s: "store_bytes 0 ds (replicate 8 0) = ds @ replicate (8 - length ds) 0" if "length ds \<le> 8" for ds
    using that by (simp add: store_bytes_eq drop_replicate)
  have f: "store_bytes 2 ds ((replicate 8 0)[0 := a, 1 := b]) = a # b # ds" if "length ds = 6" for ds a b
    using that by (simp add: store_bytes_eq numeral_eq_Suc)
  show ?thesis
  proof (cases "len \<le> 8")
    case True
    then show ?thesis using assms(3) s[of "take len bs"]
      by (simp add: CanFrameFromRaw_def split_raw_line[OF assms(1)] parse_field_def small pgn len Let_def bytes min_def)
  next
    case False
    then have six: "take 6 (take len bs) = take 6 bs" by simp
    show ?thesis using assms(3) False f[of "take 6 bs"] six
      by (simp add: CanFrameFromRaw_def split_raw_line[OF assms(1)] parse_field_def small pgn len Let_def
        parse_bytes_hex2 take_map drop_map del: take_take split: sum.split)
  qed
qed

text \<open>The consecutive frames of a message from number \<open>k\<close> on are those of the format, padded with zeros.\<close>

lemma payload_padded:
  assumes "0 < k"
  shows "payload 0 d k = take 7 (drop (7 * k - 1) d) @ replicate (7 - length (take 7 (drop (7 * k - 1) d))) 0"
  using assms by (intro nth_equalityI) (auto simp: payload_def fill_def nth_append)

lemma store_frame:
  assumes "length bs \<le> 7"
  shows "store_bytes 1 bs ((replicate 8 0)[0 := x]) = x # bs @ replicate (7 - length bs) 0"
proof -
  have "(replicate 8 0)[0 := x] = x # replicate 7 0" by (simp add: numeral_eq_Suc)
  then show ?thesis using assms by (simp add: store_bytes_eq drop_replicate)
qed

lemma frame_number: "k < 32 \<Longrightarrow> (of_nat k :: u8) AND 0x1F = of_nat k"
proof -
  assume "k < 32"
  then have "take_bit 5 (of_nat k :: u8) = of_nat k" by (simp add: take_bit_of_nat take_bit_nat_eq_self)
  then show ?thesis by (simp add: take_bit_eq_mask mask_numeral)
qed

lemma more_frames_spec:
  assumes "0 < k" and "length d < 7 * 32"
  shows "more_frames i n (of_nat k) (map hex2 (drop (7 * k - 1) d)) =
    Inr (map (\<lambda>k. \<lparr>frame_ID = i, frame_Length = 8, frame_Data = frame_of 0 0 d k\<rparr>) [k..<length d div 7 + 1])"
  using assms(1)
proof (induction "length d div 7 + 1 - k" arbitrary: k n)
  case 0
  have "length d div 7 + 1 \<le> k" using "0.hyps" by simp
  moreover from this have "length d \<le> 7 * k - 1" using div_less_iff_less_mult[of 7 "length d" k] by linarith
  ultimately have "drop (7 * k - 1) d = []" "[k..<length d div 7 + 1] = []" by (simp_all del: upt_Suc)
  then show ?case by (subst more_frames.simps) (simp only: list.map simp_thms if_True)
next
  case (Suc m)
  let ?bs = "drop (7 * k - 1) d"
  have k: "7 * k - 1 < length d" "k \<le> length d div 7" "k < 32"
  proof -
    show le: "k \<le> length d div 7" using Suc.hyps(2) by simp
    with assms(2) show "k < 32" using div_less_iff_less_mult[of 7 "length d" 32] by linarith
    show "7 * k - 1 < length d" using le Suc.prems div_less_iff_less_mult[of 7 "length d" k] by linarith
  qed
  note id = frame_number[OF k(3)]
  have f: "store_bytes 1 (take 7 ?bs) ((replicate 8 0)[0 := push_bit 5 0 OR (of_nat k AND 0x1F)])
      = frame_of 0 0 d k"
    using Suc.prems store_frame[of "take 7 ?bs" "of_nat k"] unfolding id by (simp add: frame_of_def payload_padded)
  have d: "drop 7 ?bs = drop (7 * Suc k - 1) d" using Suc.prems by (simp add: add.commute)
  have u: "[k..<length d div 7 + 1] = k # [Suc k..<length d div 7 + 1]" using k(2) by (simp add: upt_conv_Cons)
  have m: "min 7 (length ?bs) = length (take 7 ?bs)" by simp
  have t: "take (length (take 7 ?bs)) ?bs = take 7 ?bs" "drop (length (take 7 ?bs)) ?bs = drop 7 ?bs" by (simp_all add: min_def)
  have "more_frames i (n + length (take 7 ?bs)) (of_nat k + 1) (map hex2 (drop 7 ?bs)) =
      Inr (map (\<lambda>k. \<lparr>frame_ID = i, frame_Length = 8, frame_Data = frame_of 0 0 d k\<rparr>) [Suc k..<length d div 7 + 1])"
    using Suc.hyps(1)[of "Suc k" "n + length (take 7 ?bs)"] Suc.hyps(2) d by (simp add: add.commute)
  moreover have "map hex2 ?bs \<noteq> []" using k(1) by simp
  ultimately show ?case
    by (subst more_frames.simps)
       (simp only: if_False u length_map Let_def m take_map drop_map t parse_bytes_hex2 sum.case f list.map)
qed

text \<open>The line of a message that is longer than a frame.\<close>

lemma play_message:
  assumes "plain_text stamp" and "8 < length d" and "length d \<le> 223" and "sid < 8"
  shows "play_line sid (raw_line stamp priority pgn source destination (length d) d) =
     fast_frames 0 (CanIDFromData pgn source priority destination) sid d"
proof -
  let ?i = "CanIDFromData pgn source priority destination" and ?n = "length d div 7"
  let ?frame = "\<lambda>s k. \<lparr>frame_ID = ?i, frame_Length = 8, frame_Data = frame_of 0 s d k\<rparr>"
  have "take 6 d = map ((!) d) [0..<6]" using assms(2) by (intro nth_equalityI) auto
  then have zero: "0 # of_nat (length d) # take 6 d = frame_of 0 0 d 0"
    using assms(2) by (simp add: frame_of_def payload_def fill_def)
  have "more_frames ?i 12 (of_nat 1) (map hex2 (drop (7 * 1 - 1) d)) = Inr (map (?frame 0) [1..<?n + 1])"
    by (rule more_frames_spec) (use assms in auto)
  then have more: "more_frames ?i 12 1 (map hex2 (drop 6 d)) = Inr (map (?frame 0) [1..<?n + 1])" by simp
  have frames: "CanFrameFromRaw (raw_line stamp priority pgn source destination (length d) d)
      = Inr (map (?frame 0) [0..<?n + 1])"
    unfolding parse_raw_line[OF assms(1), of "length d" d, OF _ order_refl] using assms(2,3) more zero
    by (simp add: parse_raw_line[OF assms(1)] Let_def upt_conv_Cons del: upt_Suc)
  have "(?frame 0 k)\<lparr>frame_Data := (frame_Data (?frame 0 k))[0 := push_bit 5 sid OR (frame_Data (?frame 0 k) ! 0 AND 0x1F)]\<rparr>
      = ?frame sid k" if "k < ?n + 1" for k
  proof -
    have "k < 32" using that assms(3) by auto
    from frame_number[OF this] show ?thesis by (simp add: frame_of_def)
  qed
  then show ?thesis using assms(2) by (simp add: play_line_def frames fast_frames_def del: upt_Suc)
qed

text \<open>A frame that is written: an extended identifier, at most 8 bytes. What comes back is the data up to its length.\<close>

definition raw_frame :: "Frame \<Rightarrow> bool" where
  "raw_frame f \<longleftrightarrow> frame_ID f AND 0xE0000000 = 0x80000000 \<and> frame_Length f \<le> 8 \<and> length (frame_Data f) = 8"

definition truncated :: "Frame \<Rightarrow> Frame" where
  "truncated f = f\<lparr>frame_Data := take (unat (frame_Length f)) (frame_Data f) @ replicate (8 - unat (frame_Length f)) 0\<rparr>"

definition frame_line :: "string \<Rightarrow> Frame \<Rightarrow> string" where
  "frame_line stamp f = (let h = DecodeCanID 0 (frame_ID f)
     in raw_line stamp (hdr_Priority h) (hdr_PGN h) (hdr_SourceID h) (hdr_TargetID h) (unat (frame_Length f)) (frame_Data f))"

lemma RawFromCanFrame_line:
  "length (frame_Data f) = 8 \<Longrightarrow> RawFromCanFrame stamp f = frame_line stamp f @ [newline]"
  using map_nth[of "frame_Data f"]
  by (simp add: RawFromCanFrame_def frame_line_def raw_line_def Let_def flip: map_map[unfolded comp_def]) 

lemma play_frame_line:
  assumes "plain_text stamp" and "raw_frame f"
  shows "play_line sid (frame_line stamp f) = [truncated f]"
proof -
  have "unat (frame_Length f) \<le> 8" using assms(2) by (simp add: raw_frame_def word_le_nat_alt)
  then show ?thesis using assms(2)
    by (simp add: play_line_def frame_line_def Let_def parse_raw_line[OF assms(1)] raw_frame_def truncated_def
      CanIDFromData_DecodeCanID)
qed

definition one_line :: "string \<Rightarrow> bool" where
  "one_line s \<longleftrightarrow> newline \<notin> set s \<and> CHR 0x0D \<notin> set s"

lemma one_line_commas: "\<forall>e \<in> set es. plain_text e \<Longrightarrow> one_line (commas es)"
  by (induction es rule: commas.induct) (auto simp: plain_text_def one_line_def)

lemma one_line_frame_line: "plain_text stamp \<Longrightarrow> one_line (frame_line stamp f)"
  unfolding frame_line_def raw_line_def Let_def by (rule one_line_commas) auto

lemma split_lines_line: "newline \<notin> set l \<Longrightarrow> split_lines (l @ newline # rest) = l # split_lines rest"
  by (induction l) auto

lemma drop_cr_line: "one_line l \<Longrightarrow> drop_cr l = l"
  by (metis drop_cr_def last_in_set one_line_def)

lemma scan_frames:
  assumes "length stamps = length fs" and "\<forall>s \<in> set stamps. plain_text s" and "\<forall>f \<in> set fs. raw_frame f"
  shows "scan_lines (write_frames stamps fs) = map2 frame_line stamps fs"
  using assms
proof (induction stamps fs rule: list_induct2)
  case Nil
  show ?case by (simp add: scan_lines_def write_frames_def)
next
  case (Cons s stamps f fs)
  have "one_line (frame_line s f)" using Cons.prems by (simp add: one_line_frame_line)
  then show ?case using Cons
    by (simp add: scan_lines_def write_frames_def RawFromCanFrame_line raw_frame_def split_lines_line drop_cr_line
      one_line_def)
qed

lemma play_frames:
  assumes "length stamps = length fs" and "length seqIDs = length fs"
    and "\<forall>s \<in> set stamps. plain_text s" and "\<forall>f \<in> set fs. raw_frame f"
  shows "play_file seqIDs (write_frames stamps fs) = map truncated fs"
proof -
  have "concat (map2 play_line seqIDs (map2 frame_line stamps fs)) = map truncated fs"
    using assms
  proof (induction stamps fs arbitrary: seqIDs rule: list_induct2)
    case (Cons s stamps f fs)
    then show ?case by (cases seqIDs) (simp_all add: play_frame_line)
  qed simp
  then show ?thesis by (simp add: play_file_def scan_frames[OF assms(1,3,4)])
qed

section \<open>Properties\<close>

text \<open>
  Claim C33. A RAW file replays what was written to it: for any sequence of frames with extended identifiers and
  at most 8 bytes, the text that the RAW endpoint writes, scanned and replayed by the RAW file endpoint, gives these
  frames in this order, each with its identifier, its length and its data; what the data array holds behind the
  length comes back as zeros.
\<close>

theorem raw_file_roundtrip:
  assumes "length stamps = length fs" and "length seqIDs = length fs"
    and "\<forall>s \<in> set stamps. plain_text s" and "\<forall>f \<in> set fs. raw_frame f"
  shows "play_file seqIDs (write_frames stamps fs) = map truncated fs"
  using assms by (rule play_frames)

definition ex_raw_frames :: "Frame list" where
  "ex_raw_frames = [\<lparr>frame_ID = 0x98EA2A11, frame_Length = 3, frame_Data = [0, 0xEE, 0, 255, 255, 255, 255, 255]\<rparr>,
     \<lparr>frame_ID = 0x99F80501, frame_Length = 8, frame_Data = [0, 9, 1, 2, 3, 4, 5, 6]\<rparr>]"

theorem raw_file_roundtrip_witness:
  "play_file [3, 5] (write_frames [''2020-01-01T00:00:00Z'', ''x''] ex_raw_frames) =
     [\<lparr>frame_ID = 0x98EA2A11, frame_Length = 3, frame_Data = [0, 0xEE, 0, 0, 0, 0, 0, 0]\<rparr>,
      \<lparr>frame_ID = 0x99F80501, frame_Length = 8, frame_Data = [0, 9, 1, 2, 3, 4, 5, 6]\<rparr>]"
proof -
  have "replicate 5 (0 :: u8) = [0, 0, 0, 0, 0]" by (simp add: numeral_eq_Suc)
  then show ?thesis using raw_file_roundtrip[of "[''2020-01-01T00:00:00Z'', ''x'']" ex_raw_frames "[3, 5]"]
    by (simp add: ex_raw_frames_def plain_text_def raw_frame_def truncated_def)
qed

text \<open>
  Claim C34. A fast message in a RAW file, a line with its 9 to 223 data bytes, is replayed as frames from which the
  adapter reassembles exactly that message, whatever sequence number is drawn for it and whatever state the adapter is in.
\<close>

theorem raw_message_delivered:
  assumes "sendable info data" and "IsFast (PGN info)" and "8 < length data" and "plain_text stamp" and "sid < 7"
    and "handler r" and "mb_inv (multi r)" and "length ts = length data div 7 + 1"
    and "line = raw_line stamp (Priority info) (PGN info) (SourceId info) (TargetId info) (length data) data"
  shows "\<exists>m p. run_adapter r (arrivals (zip ts (play_line sid line))) = Some (r\<lparr>multi := m\<rparr>, [p])
     \<and> mb_inv m \<and> delivered info data p"
proof -
  have "sid < 8" using assms(5) by (rule less_trans) simp
  moreover have "play_line sid line = fast_frames 0 (info_id info) sid data"
    using play_message[OF assms(4,3) _ \<open>sid < 8\<close>] assms(1,2) unfolding assms(9)
    by (simp add: info_id_def CanIDFromStruct_def sendable_def)
  ultimately show ?thesis using receive_fast[OF assms(1,2) _ assms(6-8)] by simp
qed

theorem raw_message_delivered_witness:
  "\<exists>m p. run_adapter (SetOutput NewCANAdapter True) (arrivals (zip [7, 8] (play_line 5
       (raw_line ''t'' 3 129029 1 255 9 [1, 2, 3, 4, 5, 6, 7, 8, 9]))))
     = Some ((SetOutput NewCANAdapter True)\<lparr>multi := m\<rparr>, [p]) \<and> mb_inv m
     \<and> delivered \<lparr>Timestamp = 0, Priority = 3, PGN = 129029, SourceId = 1, TargetId = 255\<rparr> [1, 2, 3, 4, 5, 6, 7, 8, 9] p"
proof -
  have f: "IsFast 129029" by code_simp
  have l: "(9 :: nat) = length [1, 2, 3, 4, 5, 6, 7, 8, 9 :: u8]" by simp
  show ?thesis unfolding l
    by (rule raw_message_delivered[where stamp = "''t''"])
       (simp_all add: f sendable_def pdu1_def pdu_format_def plain_text_def SetOutput_def NewCANAdapter_def mb_inv_new)
qed

text \<open>
  A fast message of at most 8 bytes is not replayed as one: the line becomes a single frame without the bytes for
  sequence and length. The adapter takes the first byte of its data for the number of a frame.
\<close>

lemma raw_short_fast:
  assumes "IsFast pgn" and "length data \<le> 8" and "plain_text stamp"
  shows "play_line sid (raw_line stamp priority pgn source destination (length data) data) =
     [\<lparr>frame_ID = CanIDFromData pgn source priority destination, frame_Length = of_nat (length data),
       frame_Data = data @ replicate (8 - length data) 0\<rparr>]"
  using assms(2) by (simp add: play_line_def parse_raw_line[OF assms(3)] Let_def)

end
