(* ===== verification/Fileendpoint.thy ===== *)
theory Fileendpoint
  imports N2kPrelude
begin

text \<open>
  The life of an endpoint that replays a file (\<open>RawFileEndpoint\<close> in \<open>pkg/endpoint/rawendpoint/rawendpoint.go\<close>;
  \<open>N2kFileEndpoint\<close> has the same fields and guards): opening, playing once at a time, closing from another goroutine. Files are
  numbered as they are opened. Each operation is what happens under the endpoint's lock.
\<close>

record file_endpoint =
  inFile :: "nat option"
  fe_running :: bool
  fe_closed :: bool
  opened :: nat
  closedFiles :: "nat list"
  playing :: "nat option"

definition NewRawFileEndpoint :: file_endpoint where
  "NewRawFileEndpoint = \<lparr>inFile = None, fe_running = False, fe_closed = False, opened = 0,
     closedFiles = [], playing = None\<rparr>"

text \<open>\<open>openErr\<close> is what \<open>os.Open\<close> reports.\<close>

definition fe_Start :: "goerror option \<Rightarrow> file_endpoint \<Rightarrow> (goerror + unit) \<times> file_endpoint" where
  "fe_Start openErr r =
     (if fe_closed r then (Inl ''raw input endpoint is closed'', r)
      else if inFile r \<noteq> None then (Inr (), r)
      else (case openErr of
              Some e \<Rightarrow> (Inl e, r)
            | None \<Rightarrow> (Inr (), r\<lparr>inFile := Some (opened r), opened := opened r + 1\<rparr>)))"

text \<open>\<open>Run\<close> after its call of \<open>Start\<close>, up to the playback.\<close>

definition fe_begin :: "file_endpoint \<Rightarrow> (goerror + nat) \<times> file_endpoint" where
  "fe_begin r =
     (if fe_closed r then (Inl ''raw input endpoint is closed'', r)
      else if fe_running r then (Inl ''raw input endpoint is already running'', r)
      else
        (let file = inFile r; r = r\<lparr>fe_running := True\<rparr>
         in case file of
              None \<Rightarrow> (Inl ''raw input file is not open'', r\<lparr>fe_running := False\<rparr>)
            | Some f \<Rightarrow> (Inr f, r\<lparr>playing := Some f\<rparr>)))"

definition close_file :: "nat option \<Rightarrow> file_endpoint \<Rightarrow> file_endpoint" where
  "close_file file r = (case file of None \<Rightarrow> r | Some f \<Rightarrow> r\<lparr>closedFiles := closedFiles r @ [f]\<rparr>)"

text \<open>The end of the playback of \<open>file\<close>.\<close>

definition finishRun :: "nat \<Rightarrow> file_endpoint \<Rightarrow> file_endpoint" where
  "finishRun file r =
     (let r = r\<lparr>fe_running := False, playing := None\<rparr>
      in if inFile r = Some file then close_file (Some file) (r\<lparr>inFile := None\<rparr>) else r)"

definition fe_Close :: "file_endpoint \<Rightarrow> file_endpoint" where
  "fe_Close r = close_file (inFile r) (r\<lparr>fe_closed := True, inFile := None\<rparr>)"

inductive fe_reachable :: "file_endpoint \<Rightarrow> bool" where
  new: "fe_reachable NewRawFileEndpoint"
| start: "fe_reachable r \<Longrightarrow> fe_reachable (snd (fe_Start openErr r))"
| begin_run: "fe_reachable r \<Longrightarrow> fe_reachable (snd (fe_begin r))"
| finish_run: "fe_reachable r \<Longrightarrow> playing r = Some f \<Longrightarrow> fe_reachable (finishRun f r)"
| close: "fe_reachable r \<Longrightarrow> fe_reachable (fe_Close r)"

definition fe_ok :: "file_endpoint \<Rightarrow> bool" where
  "fe_ok r \<longleftrightarrow> distinct (closedFiles r) \<and> set (closedFiles r) = {0..<opened r} - set_option (inFile r)
     \<and> set_option (inFile r) \<subseteq> {0..<opened r} \<and> (fe_running r \<longleftrightarrow> playing r \<noteq> None)
     \<and> (fe_closed r \<longrightarrow> inFile r = None)"

lemma fe_ok_reachable: "fe_reachable r \<Longrightarrow> fe_ok r"
proof (induction rule: fe_reachable.induct)
  case new
  show ?case by (simp add: fe_ok_def NewRawFileEndpoint_def)
next
  case (start r openErr)
  then show ?case by (auto simp: fe_ok_def fe_Start_def split: option.splits)
next
  case (begin_run r)
  then show ?case by (auto simp: fe_ok_def fe_begin_def Let_def split: option.splits)
next
  case (finish_run r f)
  then show ?case by (auto simp: fe_ok_def finishRun_def close_file_def Let_def split: option.splits)
next
  case (close r)
  then show ?case by (auto simp: fe_ok_def fe_Close_def close_file_def split: option.splits)
qed

text \<open>
  Claim C35. A file endpoint handles its files properly, whatever the order in which it is started, run, finished
  and closed: no file is closed twice, every file that was opened is closed or is the one that is open, one
  playback runs at a time, and after \<open>Close\<close> nothing is open and neither \<open>Start\<close> nor \<open>Run\<close> opens or plays anything.
\<close>

theorem file_endpoint_safe:
  assumes "fe_reachable r"
  shows "distinct (closedFiles r) \<and> set (closedFiles r) = {0..<opened r} - set_option (inFile r)
    \<and> (fe_closed r \<longrightarrow> inFile r = None \<and> (\<exists>e. fe_Start openErr r = (Inl e, r)) \<and> (\<exists>e. fe_begin r = (Inl e, r)))
    \<and> (playing r \<noteq> None \<longrightarrow> (\<exists>e. fe_begin r = (Inl e, r)))"
  using fe_ok_reachable[OF assms] by (auto simp: fe_ok_def fe_Start_def fe_begin_def)

theorem file_endpoint_safe_witness:
  "closedFiles (finishRun 0 (fe_Close (snd (fe_begin (snd (fe_Start None NewRawFileEndpoint)))))) = [0]
   \<and> distinct (closedFiles (finishRun 0 (fe_Close (snd (fe_begin (snd (fe_Start None NewRawFileEndpoint)))))))"
proof -
  let ?r = "fe_Close (snd (fe_begin (snd (fe_Start None NewRawFileEndpoint))))"
  have "playing ?r = Some 0"
    by (simp add: fe_Close_def close_file_def fe_begin_def fe_Start_def NewRawFileEndpoint_def Let_def)
  then have "fe_reachable (finishRun 0 ?r)" by (intro fe_reachable.intros)
  from file_endpoint_safe[OF this] show ?thesis
    by (simp add: finishRun_def fe_Close_def close_file_def fe_begin_def fe_Start_def NewRawFileEndpoint_def Let_def)
qed

end
