(* ===== verification/Codec.thy ===== *)
theory Codec
  imports Dispatch Stringfields Messages Canadapter
begin

text \<open>
  The form of the generated codecs (\<open>internal/pgn/decoders_generated.go\<close>, \<open>encoders_generated.go\<close>): a decoder reads the
  fields of a struct one after the other from a stream, an encoder writes them in the same order and fills in the
  header; \<open>Publisher.Write\<close> of \<open>write.go\<close> runs an encoder on an empty buffer. The theory has the steps the generated
  functions are composed of, and the rules by which an encoder and its decoder are matched, one per step.
  The locale \<open>codec\<close> is the contract of such a pair; every pair of the model is an interpretation of it.
\<close>

section \<open>Steps of the generated code\<close>

text \<open>Integer fields without an offset; the generated specifications differ in these numbers.\<close>

abbreviation unsigned_spec :: "u16 \<Rightarrow> u16 \<Rightarrow> u64 \<Rightarrow> u64 \<Rightarrow> u8 \<Rightarrow> FieldSpec" where
  "unsigned_spec len off maxRaw missing reserved \<equiv> \<lparr>BitLength = len, BitOffset = off, MaxRawValue = maxRaw,
     MissingValue = missing, Offset = 0, IsSigned = False, ReservedCount = reserved, BitLengthVariable = False\<rparr>"

abbreviation signed_spec :: "u16 \<Rightarrow> u16 \<Rightarrow> u64 \<Rightarrow> u64 \<Rightarrow> u8 \<Rightarrow> FieldSpec" where
  "signed_spec len off maxRaw missing reserved \<equiv> \<lparr>BitLength = len, BitOffset = off, MaxRawValue = maxRaw,
     MissingValue = missing, Offset = 0, IsSigned = True, ReservedCount = reserved, BitLengthVariable = False\<rparr>"

definition go_uint8 :: goint where "go_uint8 = (8, False)"
definition go_uint32 :: goint where "go_uint32 = (32, False)"
definition go_int8 :: goint where "go_int8 = (8, True)"
definition go_int16 :: goint where "go_int16 = (16, True)"
definition go_int32 :: goint where "go_int32 = (32, True)"

lemmas go_types = go_uint8_def go_uint16_def go_uint32_def go_uint64_def go_int8_def go_int16_def go_int32_def

text \<open>\<open>field name m k\<close>: what \<open>m\<close> reads goes to \<open>k\<close>, its error is returned under the name of the field.\<close>

definition field :: "string \<Rightarrow> (DataStream, 'a) step \<Rightarrow> ('a \<Rightarrow> (DataStream, 'b) step) \<Rightarrow> (DataStream, 'b) step" where
  "field name m k s = (case m s of
     None \<Rightarrow> None
   | Some (Inl e, s) \<Rightarrow> Some (Inl (''parse failed for '' @ name @ '': '' @ e), s)
   | Some (Inr v, s) \<Rightarrow> k v s)"

text \<open>\<open>stream.skipBits(n)\<close>, its error dropped.\<close>

definition skip :: "u16 \<Rightarrow> (DataStream, 'b) step \<Rightarrow> (DataStream, 'b) step" where
  "skip n k s = k (snd (skipBits n s))"

definition finish_info :: "gotime \<Rightarrow> u32 \<Rightarrow> MessageInfo \<Rightarrow> MessageInfo" where
  "finish_info now pgn info = (if PGN info = 0 then info\<lparr>PGN := pgn\<rparr> else info)\<lparr>Timestamp := now\<rparr>"

text \<open>
  \<open>Publisher.Write\<close>, up to the handler: the header and the bytes it is given. The encoder is the one for the
  struct; \<open>None\<close> is a panic.
\<close>

definition publish :: "(DataStream, MessageInfo) step \<Rightarrow> (goerror + MessageInfo \<times> bytes) option" where
  "publish encode =
     (case encode (NewDataStream (replicate 223 0) 223) of
        None \<Rightarrow> None
      | Some (Inl err, stream) \<Rightarrow> Some (Inl err)
      | Some (Inr info, stream) \<Rightarrow> map_option (\<lambda>d. Inr (info, d)) (GetData stream))"

section \<open>An encoder matched with its decoder\<close>

text \<open>A stream over bytes that are clear from bit \<open>i\<close> on, with room for \<open>n\<close> bits there.\<close>

definition ready :: "DataStream \<Rightarrow> nat \<Rightarrow> nat \<Rightarrow> bool" where
  "ready s i n \<longleftrightarrow> stream_ok s \<and> cursor s = i \<and> i + n \<le> 8 * length (dat s)
     \<and> (\<forall>k. i \<le> k \<longrightarrow> k < 8 * length (dat s) \<longrightarrow> \<not> dbit (dat s) k)"

text \<open>What is left of it after \<open>n\<close> bits have been written.\<close>

definition wrote :: "DataStream \<Rightarrow> nat \<Rightarrow> nat \<Rightarrow> DataStream \<Rightarrow> bool" where
  "wrote s i n s' \<longleftrightarrow> ready s' (i + n) 0 \<and> length (dat s') = length (dat s) \<and> dcap s' = dcap s
     \<and> (\<forall>k < i. dbit (dat s') k = dbit (dat s) k)"

text \<open>A stream at bit \<open>i\<close> with the same \<open>n\<close> bits there.\<close>

definition agrees :: "DataStream \<Rightarrow> nat \<Rightarrow> nat \<Rightarrow> DataStream \<Rightarrow> bool" where
  "agrees s' i n t \<longleftrightarrow> stream_ok t \<and> cursor t = i \<and> i + n \<le> 8 * length (dat t)
     \<and> (\<forall>k. i \<le> k \<longrightarrow> k < i + n \<longrightarrow> dbit (dat t) k = dbit (dat s') k)"

text \<open>
  From bit \<open>i\<close> on, \<open>w\<close> writes \<open>n\<close> bits and returns \<open>b\<close>; and wherever these bits stand from bit \<open>i\<close> on, in a
  stream over bytes that satisfy \<open>P\<close>, \<open>r\<close> reads \<open>a\<close> from them and moves by \<open>n\<close> bits. Most readers look at no more
  than these bits; one that reads up to the end of the data needs \<open>P\<close>.
\<close>

definition carries_on :: "(bytes \<Rightarrow> bool) \<Rightarrow> nat \<Rightarrow> nat \<Rightarrow> (DataStream, 'b) step \<Rightarrow> 'b \<Rightarrow> (DataStream, 'a) step \<Rightarrow> 'a \<Rightarrow> bool" where
  "carries_on P i n w b r a \<longleftrightarrow> (\<forall>s. ready s i n \<longrightarrow>
     (\<exists>s'. w s = Some (Inr b, s') \<and> wrote s i n s'
        \<and> (\<forall>t. agrees s' i n t \<longrightarrow> P (dat t) \<longrightarrow> r t = Some (Inr a, at_bit t (i + n)))))"

definition carries :: "nat \<Rightarrow> nat \<Rightarrow> (DataStream, 'b) step \<Rightarrow> 'b \<Rightarrow> (DataStream, 'a) step \<Rightarrow> 'a \<Rightarrow> bool" where
  "carries i n w b r a \<longleftrightarrow> (\<forall>s. ready s i n \<longrightarrow>
     (\<exists>s'. w s = Some (Inr b, s') \<and> wrote s i n s'
        \<and> (\<forall>t. agrees s' i n t \<longrightarrow> r t = Some (Inr a, at_bit t (i + n)))))"

lemma carries_everywhere: "carries i n w b r a = carries_on (\<lambda>_. True) i n w b r a"
  by (simp add: carries_def carries_on_def)

lemma agrees_start: "agrees s' i n t \<Longrightarrow> at_bit t i = t"
  by (metis agrees_def at_bit_cursor stream_ok_def)

lemma carries_end: "carries i 0 (returnE b) b (returnE v) v"
  by (auto simp: carries_def wrote_def ready_def agrees_start)

lemma carries_on_seq:
  assumes 1: "carries i n w1 u r a" and 2: "carries_on P (i + n) m w2 b (k a) v"
  shows "carries_on P i (n + m) (seqE w1 (\<lambda>_. w2)) b (field name r k) v"
  unfolding carries_on_def
proof (intro allI impI)
  fix s assume s: "ready s i (n + m)"
  then have "ready s i n" by (simp add: ready_def)
  with 1 obtain s1 where w1: "w1 s = Some (Inr u, s1)" "wrote s i n s1"
    and r1: "\<And>t. agrees s1 i n t \<Longrightarrow> r t = Some (Inr a, at_bit t (i + n))"
    unfolding carries_def by blast
  then have "ready s1 (i + n) m" using s by (simp add: ready_def wrote_def)
  with 2 obtain s2 where w2: "w2 s1 = Some (Inr b, s2)" "wrote s1 (i + n) m s2"
    and r2: "\<And>t. agrees s2 (i + n) m t \<Longrightarrow> P (dat t) \<Longrightarrow> k a t = Some (Inr v, at_bit t (i + n + m))"
    unfolding carries_on_def by blast
  have "field name r k t = Some (Inr v, at_bit t (i + (n + m)))" if t: "agrees s2 i (n + m) t" "P (dat t)" for t
  proof -
    have "dbit (dat s2) k = dbit (dat s1) k" if "k < i + n" for k
      using w2(2) that by (simp add: wrote_def)
    then have "agrees s1 i n t" using t(1) by (simp add: agrees_def)
    moreover have "i + n < 8 * 65536" using t(1) by (simp add: agrees_def stream_ok_def)
    then have "agrees s2 (i + n) m (at_bit t (i + n))"
      using t(1) by (auto simp: agrees_def cursor_at_bit intro: stream_ok_at_bit)
    ultimately show ?thesis using r1 r2 t(2) by (simp add: field_def add.assoc)
  qed
  moreover have "wrote s i (n + m) s2"
    using w1(2) w2(2) by (simp add: wrote_def add.assoc)
  ultimately show "\<exists>s'. seqE w1 (\<lambda>_. w2) s = Some (Inr b, s') \<and> wrote s i (n + m) s'
      \<and> (\<forall>t. agrees s' i (n + m) t \<longrightarrow> P (dat t) \<longrightarrow> field name r k t = Some (Inr v, at_bit t (i + (n + m))))"
    using w1(1) w2(1) by (intro exI[of _ s2]) (simp add: seqE_Inr)
qed

lemma carries_seq:
  assumes "carries i n w1 u r a" and "carries (i + n) m w2 b (k a) v"
  shows "carries i (n + m) (seqE w1 (\<lambda>_. w2)) b (field name r k) v"
  using carries_on_seq[where k = k, OF assms(1), of "\<lambda>_. True" m w2 b v] assms(2) by (simp add: carries_everywhere)

text \<open>A step that only writes, against one that only moves.\<close>

lemma carries_seq_skip:
  assumes "carries i n w1 u (\<lambda>t. Some (Inr (), snd (skipBits sn t))) ()" and "carries (i + n) m w2 b k v"
  shows "carries i (n + m) (seqE w1 (\<lambda>_. w2)) b (skip sn k) v"
proof -
  have "skip sn k = field x (\<lambda>t. Some (Inr (), snd (skipBits sn t))) (\<lambda>_. k)" for x
    by (simp add: fun_eq_iff skip_def field_def)
  with carries_seq[OF assms] show ?thesis by simp
qed

section \<open>Numbers\<close>

text \<open>A reader that takes \<open>n\<close> bits, whatever the stream, and turns them into \<open>f\<close> of them.\<close>

definition reads :: "nat \<Rightarrow> (DataStream, 'a) step \<Rightarrow> (u64 \<Rightarrow> goerror + 'a) \<Rightarrow> bool" where
  "reads n r f \<longleftrightarrow> (\<forall>t. stream_ok t \<longrightarrow> cursor t + n \<le> 8 * length (dat t) \<longrightarrow>
     r t = Some (f (wire_bits (dat t) (cursor t) n), at_bit t (cursor t + n)))"

lemma reads_getNumberRaw: "reads (unat n) (getNumberRaw n) Inr"
  by (simp add: reads_def getNumberRaw_spec(1))

lemma reads_seqE:
  assumes "reads n r f" and "\<And>v. \<exists>x. \<forall>t. k v t = Some (x, t)"
  shows "\<exists>g. reads n (seqE r k) g"
proof -
  obtain h where h: "\<And>v t. k v t = Some (h v, t)" using assms(2) by metis
  have "reads n (seqE r k) (\<lambda>w. case f w of Inl e \<Rightarrow> Inl e | Inr v \<Rightarrow> h v)"
    using assms(1) by (auto simp: reads_def seqE_def h split: sum.split)
  then show ?thesis by blast
qed

lemma reads_cong: "reads n r f \<Longrightarrow> r = r' \<Longrightarrow> reads n r' f"
  by simp

lemma liftE_pure: "\<exists>x. \<forall>t. liftE r t = Some (x, t)"
  by (cases r) (auto simp: liftE_def)

lemma wire_bits_take_bit: "take_bit n (wire_bits d i n) = wire_bits d i n"
  by (rule bit_word_eqI) (auto simp: bit_take_bit_iff bit_wire_bits)

lemma carries_number:
  assumes "reads (unat n) r f" and "f (take_bit (unat n) w) = Inr a"
    and "off = 0 \<or> unat off = i" and "unat n = m"
  shows "carries i m (putNumberRaw w n off) () r a"
  unfolding carries_def
proof (intro allI impI)
  fix s assume s: "ready s i m"
  then have ws: "writable s n" by (simp add: writable_def ready_def assms(4))
  have "putNumberRaw w n off s = put_loop w n s"
    using s assms(3) by (intro putNumberRaw_at) (auto simp: ready_def)
  then have p: "putNumberRaw w n off s = Some (Inr (), written s n w)"
    using put_loop_spec(1) ws by (simp add: writable_def written_def)
  have c: "cursor s = i" using s by (simp add: ready_def)
  have "wrote s i m (written s n w)"
    using written_cursor[OF ws, of w] s written_prefix[OF ws]
    by (auto simp: wrote_def ready_def assms(4) written_def dbit_or_bits)
  moreover have "r t = Some (Inr a, at_bit t (i + m))" if t: "agrees (written s n w) i m t" for t
  proof -
    have "wire_bits (dat t) i m = take_bit m w"
      using t s by (intro bit_word_eqI)
        (auto simp: bit_wire_bits bit_take_bit_iff agrees_def ready_def written_def dbit_or_bits assms(4))
    then show ?thesis using assms(1,2) t by (simp add: reads_def agrees_def assms(4))
  qed
  ultimately show "\<exists>s'. putNumberRaw w n off s = Some (Inr (), s') \<and> wrote s i m s'
      \<and> (\<forall>t. agrees s' i m t \<longrightarrow> r t = Some (Inr a, at_bit t (i + m)))"
    using p by blast
qed

lemma reads_readLookupField:
  assumes "n \<le> 64"
  shows "reads (unat n) (readLookupField n) Inr"
proof -
  have "readLookupField n = getNumberRaw n"
    using assms by (auto simp: fun_eq_iff readLookupField_def dest: leD)
  then show ?thesis using reads_getNumberRaw by simp
qed

text \<open>An enumeration is put as its number and read as its low bits.\<close>

lemma carries_lookup:
  "n \<le> 64 \<Longrightarrow> off = 0 \<or> unat off = i \<Longrightarrow> unat n = m
     \<Longrightarrow> carries i m (putNumberRaw w n off) () (readLookupField n) (take_bit m w)"
  by (rule carries_number[OF reads_readLookupField]) auto

lemma forward_any:
  assumes "bitOffset s < 8" and "unat g < 8"
  shows "forward s g = at_bit s (cursor s + unat g)"
proof -
  have u: "unat (bitOffset s + g) = unat (bitOffset s) + unat g"
    using assms by (subst unat_word_ariths) (simp add: word_less_nat_alt)
  have div: "(cursor s + unat g) div 8 = unat (byteOffset s) + (unat (bitOffset s) + unat g) div 8"
    and mod: "(cursor s + unat g) mod 8 = (unat (bitOffset s) + unat g) mod 8"
    by (simp_all add: cursor_def add.assoc)
  show ?thesis
  proof (cases "unat (bitOffset s) + unat g < 8")
    case True
    then have "\<not> bitOffset s + g \<ge> 8" by (simp add: word_le_nat_alt u)
    moreover have "of_nat (unat (bitOffset s) + unat g) = bitOffset s + g" by simp
    ultimately show ?thesis using True div mod by (simp add: forward_def at_bit_def)
  next
    case False
    let ?b = "unat (bitOffset s) + unat g"
    have b: "8 \<le> ?b" "?b < 16" using False assms by (simp_all add: word_less_nat_alt)
    then have q: "?b div 8 = 1" "?b mod 8 = ?b - 8" by (simp_all add: div_nat_eqI mod_if)
    have "of_nat (?b - 8) = bitOffset s + g - 8" using b by (simp add: of_nat_diff)
    moreover have "bitOffset s + g \<ge> 8" using b by (simp add: word_le_nat_alt u)
    ultimately show ?thesis using div mod q by (simp add: forward_def at_bit_def)
  qed
qed

lemma skipBits_at_bit:
  assumes "stream_ok t" and "cursor t + unat n \<le> 8 * length (dat t)"
  shows "snd (skipBits n t) = at_bit t (cursor t + unat n)"
proof -
  let ?s = "t\<lparr>byteOffset := byteOffset t + drop_bit 3 n\<rparr>"
  have d: "unat (drop_bit 3 n) = unat n div 8"
    by (simp add: drop_bit_eq_div unat_div)
  have m: "unat (n AND 7) = unat n mod 8" by (simp add: and_7 unat_mod)
  have "unat (byteOffset t) + unat n div 8 < 65536"
    using assms by (simp add: stream_ok_def cursor_def) linarith
  then have "unat (byteOffset ?s) = unat (byteOffset t) + unat n div 8"
    by (simp add: unat_word_ariths d)
  then have c: "cursor ?s = cursor t + 8 * (unat n div 8)" by (simp add: cursor_def)
  have g: "unat (ucast (n AND 7) :: u8) = unat n mod 8"
    using mod_less_divisor[of 8 "unat n"]
    by (simp only: unsigned_ucast_eq m take_bit_nat_eq_self_iff) simp
  have "forward ?s (ucast (n AND 7)) = at_bit ?s (cursor ?s + unat n mod 8)"
    using forward_any[of ?s "ucast (n AND 7)"] assms(1) g by (simp add: stream_ok_def)
  also have "\<dots> = at_bit t (cursor t + unat n)"
    unfolding c by (simp add: at_bit_def add.assoc)
  finally show ?thesis by (simp add: skipBits_def Let_def)
qed

lemma reads_skip: "reads (unat n) (\<lambda>t. Some (Inr (), snd (skipBits n t))) (\<lambda>_. Inr ())"
  by (simp add: reads_def skipBits_at_bit)

text \<open>Reserved and spare bits.\<close>

lemma carries_reserved:
  "off = 0 \<or> unat off = i \<Longrightarrow> unat n = m \<Longrightarrow>
     carries i m (writeReserved n off) () (\<lambda>t. Some (Inr (), snd (skipBits n t))) ()"
  unfolding writeReserved_def by (rule carries_number[OF reads_skip]) auto

lemma carries_spare:
  "off = 0 \<or> unat off = i \<Longrightarrow> unat n = m \<Longrightarrow>
     carries i m (writeSpare n off) () (\<lambda>t. Some (Inr (), snd (skipBits n t))) ()"
  unfolding writeSpare_def by (rule carries_number[OF reads_skip]) auto

section \<open>Integer fields\<close>

lemma reads_getNullableNumberRaw: "\<exists>f. reads (unat (BitLength spec)) (getNullableNumberRaw spec) f"
  unfolding getNullableNumberRaw_def by (rule reads_seqE[OF reads_getNumberRaw]) auto

lemma reads_getSignedNullableNumber: "\<exists>f. reads (unat (BitLength spec)) (getSignedNullableNumber spec) f"
proof -
  obtain f where "reads (unat (BitLength spec)) (getNullableNumberRaw spec) f"
    using reads_getNullableNumberRaw by blast
  then show ?thesis
    unfolding getSignedNullableNumber_def by (rule reads_seqE) (auto split: option.split)
qed

lemma reads_ReadRaw:
  assumes "BitLength spec \<le> 64"
  shows "\<exists>f. reads (unat (BitLength spec)) (ReadRaw T (Some spec)) f"
proof -
  let ?n = "unat (BitLength spec)"
  have plain: "\<exists>f. reads ?n (seqE (getNumberRaw (BitLength spec)) (\<lambda>v. returnE (Some (h v)))) f" for h :: "u64 \<Rightarrow> u64"
    by (rule reads_seqE[OF reads_getNumberRaw]) auto
  have last: "\<exists>f. reads ?n (seqE r (\<lambda>v. case v of None \<Rightarrow> returnE None
        | Some v \<Rightarrow> seqE (if c then liftE (g v) else returnE v) (\<lambda>v. returnE (Some (go_conv T v))))) f"
    if r: "\<exists>f. reads ?n r f" for r c g
  proof -
    from r obtain f where "reads ?n r f" ..
    then show ?thesis
    proof (rule reads_seqE)
      fix v
      have "\<exists>x. \<forall>t. liftE (g w) t = Some (x, t)" for w by (rule liftE_pure)
      then show "\<exists>x. \<forall>t. (case v of None \<Rightarrow> returnE None
          | Some v \<Rightarrow> seqE (if c then liftE (g v) else returnE v) (\<lambda>v. returnE (Some (go_conv T v)))) t = Some (x, t)"
        by (cases v; cases "g (the v)") (auto simp: seqE_def liftE_def)
    qed
  qed
  have r: "\<exists>f. reads ?n (if ReservedCount spec = 0 then seqE (getNumberRaw (BitLength spec)) (\<lambda>v. returnE (Some (h v))) else r) f"
    if "\<exists>f. reads ?n r f" for h :: "u64 \<Rightarrow> u64" and r
    using that plain[of h] by simp
  show ?thesis
    using assms last[OF r[OF reads_getSignedNullableNumber]] last[OF r[OF reads_getNullableNumberRaw, of "\<lambda>v. v"]]
    by (auto simp: ReadRaw_def dest: leD)
qed

text \<open>
  What a field that is written comes back as, when it has no offset: clamped to the range of the field, or cut to
  its width where the encoder does not clamp.
\<close>

definition pinned :: "FieldSpec \<Rightarrow> int \<Rightarrow> int" where
  "pinned spec v = (if IsSigned spec \<or> ReservedCount spec \<noteq> 0 then field_clamp spec v
     else take_bit (unat (BitLength spec)) v)"

text \<open>A carrying lemma follows from one write and one read, at the start of eight clear bytes.\<close>

lemma carries_once:
  assumes f: "\<exists>f. reads (unat n) r f" and n: "n \<le> 64"
    and r: "\<And>s. writable s n \<Longrightarrow> r (at_bit (written s n w) (cursor s)) = Some (Inr a, written s n w)"
    and m: "unat n = m"
  shows "carries i m (putNumberRaw w n 0) () r a"
proof -
  define s where "s = NewDataStream (replicate 8 0) 8"
  obtain f where f: "reads (unat n) r f" using assms(1) ..
  have 64: "unat n \<le> 64" using n by (simp add: word_le_nat_alt)
  then have ws: "writable s n" unfolding s_def by (intro writable_new) auto
  then have c: "cursor s = 0" "length (dat s) = 8" by (simp_all add: s_def NewDataStream_def cursor_def)
  let ?s' = "written s n w"
  have "r (at_bit ?s' 0) = Some (Inr a, ?s')" using r[OF ws] by (simp add: c)
  moreover have "stream_ok (at_bit ?s' 0)" "cursor (at_bit ?s' 0) = 0" "length (dat ?s') = 8"
    using written_cursor[OF ws, of w] c by (auto intro: stream_ok_at_bit simp: cursor_at_bit)
  moreover have "wire_bits (dat ?s') 0 (unat n) = take_bit (unat n) w"
    using ws c by (intro bit_word_eqI)
      (auto simp: bit_wire_bits bit_take_bit_iff written_def dbit_or_bits writable_def)
  ultimately have "f (take_bit (unat n) w) = Inr a"
    using f 64 by (simp add: reads_def)
  then show ?thesis by (intro carries_number[OF f _ _ m]) auto
qed

lemma carries_in_range:
  assumes "spec_ok spec" and "field_takes T spec v" and "unat (BitLength spec) = m"
  shows "carries i m (WriteRaw (Some v) (Some spec)) () (ReadRaw T (Some spec)) (Some (field_value spec v))"
proof -
  let ?n = "BitLength spec"
  define w where "w = (if IsSigned spec then raw_signed spec (word_of_int v) else raw_unsigned spec (word_of_int v))"
  have wr: "WriteRaw (Some v) (Some spec) = putNumberRaw w ?n 0"
    by (simp add: fun_eq_iff WriteRaw_def w_def)
  have 64: "?n \<le> 64" using assms(1) by (simp add: spec_ok_def)
  show ?thesis
    unfolding wr
  proof (rule carries_once[OF reads_ReadRaw[OF 64] 64 _ assms(3)])
    fix s assume ws: "writable s ?n"
    show "ReadRaw T (Some spec) (at_bit (written s ?n w) (cursor s))
        = Some (Inr (Some (field_value spec v)), written s ?n w)"
      using write_read_field[OF assms(1) ws assms(2)] put_written[OF ws, of w] by (simp add: wr)
  qed
qed

lemma carries_nil:
  assumes "spec_ok spec" and "ReservedCount spec \<noteq> 0" and "unat (BitLength spec) = m"
  shows "carries i m (WriteRaw None (Some spec)) () (ReadRaw T (Some spec)) None"
proof -
  have wr: "WriteRaw None (Some spec) = putNumberRaw (MissingValue spec) (BitLength spec) 0"
    using assms(2) by (simp add: fun_eq_iff WriteRaw_def)
  have 64: "BitLength spec \<le> 64" using assms(1) by (simp add: spec_ok_def)
  have "ReadRaw T (Some spec) (at_bit (written s (BitLength spec) (MissingValue spec)) (cursor s))
      = Some (Inr None, written s (BitLength spec) (MissingValue spec))"
    if "writable s (BitLength spec)" for s
    using read_missing[OF assms(1) that assms(2) refl] assms(2) 64
    by (auto simp: ReadRaw_def seqE_def getSignedNullableNumber_def dest: leD)
  then show ?thesis unfolding wr by (rule carries_once[OF reads_ReadRaw[OF 64] 64 _ assms(3)])
qed

lemma written_take_bit: "written s n (take_bit (unat n) w) = written s n w"
proof -
  have "or_bits (dat s) (cursor s) (unat n) (take_bit (unat n) w) = or_bits (dat s) (cursor s) (unat n) w"
    by (rule bytes_eqI) (auto simp: dbit_or_bits bit_take_bit_iff)
  then show ?thesis by (simp add: written_def)
qed

lemma carries_take_bit:
  assumes "carries i m (putNumberRaw (take_bit (unat n) w) n 0) u r a" and "unat n = m"
  shows "carries i m (putNumberRaw w n 0) u r a"
proof -
  have "putNumberRaw w n 0 s = putNumberRaw (take_bit (unat n) w) n 0 s" if "ready s i m" for s
    using that put_written[of s n w] put_written[of s n "take_bit (unat n) w"]
    unfolding written_take_bit by (simp add: writable_def ready_def assms(2))
  with assms(1) show ?thesis by (simp add: carries_def)
qed

lemma field_max_nonneg: "spec_ok spec \<Longrightarrow> 0 \<le> field_max spec"
  using field_range(2)[of spec] by (auto simp: field_max_def)

lemma field_takes_plain:
  assumes ok: "spec_ok spec" and o: "Offset spec = 0" and T: "snd T = IsSigned spec" and y: "go_range T y"
    and r: "IsSigned spec \<or> ReservedCount spec \<noteq> 0 \<or> y \<le> field_max spec"
  shows "field_takes T spec y" and "field_value spec y = field_clamp spec y"
proof -
  show fv: "field_value spec y = field_clamp spec y" by (simp add: field_value_def o)
  obtain l where l: "T = (l, IsSigned spec)" using T by (cases T) simp
  have "0 < l" "l \<le> 64" using y by (simp_all add: l go_range_def)
  then have w: "(2 :: int) ^ (l - 1) \<le> 2 ^ 63" "(2 :: int) ^ l \<le> 2 ^ 64" "(0 :: int) < 2 ^ (l - 1)"
    by (intro power_increasing; simp)+ simp
  have b: "IsSigned spec \<Longrightarrow> - (2 ^ (l - 1)) \<le> y \<and> y < 2 ^ (l - 1)"
    "\<not> IsSigned spec \<Longrightarrow> 0 \<le> y \<and> y < 2 ^ l"
    using y by (auto simp: l go_range_def)
  have c: "min 0 y \<le> field_clamp spec y" "field_clamp spec y \<le> max 0 y"
  proof -
    have "field_min spec \<le> 0" by (simp add: field_min_def)
    then show "min 0 y \<le> field_clamp spec y" "field_clamp spec y \<le> max 0 y"
      using field_max_nonneg[OF ok] unfolding field_clamp_def by linarith+
  qed
  show "field_takes T spec y"
  proof (cases "IsSigned spec")
    case True
    with b(1) c w have "- (2 ^ (l - 1)) \<le> field_clamp spec y" "field_clamp spec y < 2 ^ (l - 1)" by linarith+
    with True b(1) w y show ?thesis by (simp add: field_takes_def fv o l go_range_def)
  next
    case False
    with b(2) c w have "0 \<le> field_clamp spec y" "field_clamp spec y < 2 ^ l" by linarith+
    with False b(2) w y r show ?thesis by (auto simp: field_takes_def fv o l go_range_def)
  qed
qed

lemma carries_raw:
  assumes "spec_ok spec" and "Offset spec = 0" and "snd T = IsSigned spec" and "unat (BitLength spec) = m"
    and nil: "v = None \<Longrightarrow> ReservedCount spec \<noteq> 0" and range: "\<And>x. v = Some x \<Longrightarrow> go_range T x"
  shows "carries i m (WriteRaw v (Some spec)) () (ReadRaw T (Some spec)) (map_option (pinned spec) v)"
proof (cases v)
  case None
  with carries_nil[OF assms(1) nil assms(4)] show ?thesis by simp
next
  case (Some x)
  show ?thesis
  proof (cases "IsSigned spec \<or> ReservedCount spec \<noteq> 0")
    case True
    then have "field_takes T spec x" "field_value spec x = field_clamp spec x"
      using field_takes_plain[OF assms(1-3) range[OF Some]] by auto
    with True carries_in_range[OF assms(1) _ assms(4)] show ?thesis by (metis Some option.map(2) pinned_def)
  next
    case False
    let ?n = "BitLength spec"
    let ?y = "take_bit (unat ?n) x"
    have n: "unat ?n \<le> 64" using assms(1) by (simp add: spec_ok_def word_le_nat_alt)
    have max: "field_max spec = 2 ^ unat ?n - 1"
      using False int_top_value[OF assms(1)] by (simp add: field_max_def)
    have x: "0 \<le> x" "go_range T x" using range[OF Some] False assms(3) by (auto simp: go_range_def split: prod.splits)
    have y: "?y \<le> field_max spec" "0 \<le> ?y" "?y \<le> x"
      using x by (simp_all add: max take_bit_int_less_exp zle_diff1_eq take_bit_int_less_eq_self_iff)
    have "go_range T ?y" using x y False assms(3) by (auto simp: go_range_def split: prod.splits)
    then have "field_takes T spec ?y" "field_value spec ?y = ?y"
      using field_takes_plain[OF assms(1-3), of ?y] y(1,2) False by (simp_all add: field_clamp_def field_min_def)
    then have c: "carries i m (WriteRaw (Some ?y) (Some spec)) () (ReadRaw T (Some spec)) (Some ?y)"
      using carries_in_range[OF assms(1) _ assms(4), of T ?y i] by simp
    have wr: "WriteRaw (Some z) (Some spec) = putNumberRaw (word_of_int z) ?n 0" for z
      using False assms(2) by (simp add: fun_eq_iff WriteRaw_def raw_unsigned_def)
    have e: "word_of_int ?y = take_bit (unat ?n) (word_of_int x :: u64)"
      using n by (intro bit_word_eqI) (auto simp: bit_take_bit_iff bit_word_of_int_iff)
    have "carries i m (putNumberRaw (word_of_int x) ?n 0) () (ReadRaw T (Some spec)) (Some ?y)"
      using c unfolding wr e by (rule carries_take_bit[OF _ assms(4)])
    moreover have "pinned spec x = ?y" using False by (simp add: pinned_def)
    ultimately show ?thesis by (simp add: Some wr)
  qed
qed

section \<open>Bytes\<close>

lemma carries_map: "carries i m w u r a \<Longrightarrow> carries i m w u (seqE r (\<lambda>x. returnE (h x))) (h a)"
  unfolding carries_def by (metis seqE_Inr returnE_apply)

lemma aligned_cursor: "stream_ok s \<Longrightarrow> cursor s = 8 * j \<Longrightarrow> aligned s \<and> byte_pos s = j"
  by (auto simp: aligned_def byte_pos_def stream_ok_def cursor_def word_less_nat_alt unat_eq_0[symmetric]) presburger+

lemma byte_from_bits:
  assumes "\<And>k. k < 8 \<Longrightarrow> dbit d (8 * p + k) = dbit d' (8 * q + k)"
  shows "d ! p = d' ! q"
  using assms by (intro bit_word_eqI) (simp add: dbit_def)

lemma dbit_append: "dbit (d @ e) k = (if k < 8 * length d then dbit d k else dbit e (k - 8 * length d))"
proof (cases "k < 8 * length d")
  case True
  then have "k div 8 < length d" by auto
  with True show ?thesis by (simp add: dbit_def nth_append)
next
  case False
  then obtain q where q: "k = q + 8 * length d" by (metis add.commute le_Suc_ex not_less)
  then show ?thesis by (simp add: dbit_def nth_append)
qed

lemma dbit_overwrite:
  assumes "j + length v \<le> length d"
  shows "dbit (overwrite d j v) k
    = (if 8 * j \<le> k \<and> k < 8 * (j + length v) then dbit v (k - 8 * j) else dbit d k)"
proof -
  have t: "dbit (take j d) k = dbit d k" if "k < 8 * j"
  proof -
    have "k div 8 < j" using that by auto
    then show ?thesis by (simp add: dbit_def)
  qed
  have u: "dbit (drop (j + length v) d) (k - 8 * j - 8 * length v) = dbit d k" if l: "8 * (j + length v) \<le> k"
  proof -
    obtain q where "k = q + 8 * (j + length v)" using l by (metis add.commute le_Suc_ex)
    then have "k = q + 8 * (j + length v)" by simp
    moreover have "(q + 8 * (j + length v)) div 8 = j + length v + q div 8" "(q + 8 * (j + length v)) mod 8 = q mod 8"
      by simp (rule mod_mult_self2)
    ultimately show ?thesis using assms by (simp add: dbit_def)
  qed
  show ?thesis
  proof -
    have l: "length (take j d) = j" using assms by simp
    show ?thesis
      unfolding overwrite_def dbit_append l using t u by (auto simp: distrib_left)
  qed
qed

lemma carries_binary:
  assumes "unat bl = 8 * m" and "0 < m" and "i = 8 * j" and "off = 0 \<or> unat off = i" and "j + m \<le> 223"
    and "length v < 65536" and "k = 8 * m"
  shows "carries i k (writeBinary v bl off) () (readBinaryData bl) (take m (v @ replicate m 0))"
  unfolding carries_def
proof (intro allI impI)
  fix s assume s: "ready s i k"
  then have a: "aligned s" "byte_pos s = j" "j + m \<le> length (dat s)" "cursor s = i"
    using aligned_cursor[of s j] by (auto simp: ready_def assms(3,7))
  let ?v = "take m (v @ replicate m 0)"
  let ?d = "overwrite (dat s) j ?v"
  let ?s' = "at_bit (s\<lparr>dat := ?d\<rparr>) (8 * (j + m))"
  have lv: "length ?v = m" by simp
  have ld: "length ?d = length (dat s)" using a lv by (simp add: length_overwrite)
  have w: "writeBinary v bl off s = Some (Inr (), ?s')"
    using writeBinary_aligned[OF a(1) assms(1,2) _ _ _ assms(6), of off] a assms(3,4,5) by auto
  have c: "cursor ?s' = 8 * (j + m)" using a(3) s by (intro cursor_at_bit) (auto simp: ready_def stream_ok_def)
  have "stream_ok (s\<lparr>dat := ?d\<rparr>)" using s ld by (simp add: ready_def stream_ok_def cursor_def)
  then have "stream_ok ?s'" using a(3) ld by (intro stream_ok_at_bit) simp_all
  moreover have dd: "dbit ?d q = (if 8 * j \<le> q \<and> q < 8 * (j + m) then dbit ?v (q - 8 * j) else dbit (dat s) q)" for q
    using dbit_overwrite[of j ?v "dat s" q] a(3) by (simp only: lv)
  ultimately have "wrote s i k ?s'"
    using s a(3) ld c by (auto simp: wrote_def ready_def assms(3,7))
  moreover have "readBinaryData bl t = Some (Inr ?v, at_bit t (i + k))" if t: "agrees ?s' i k t" for t
  proof -
    have b: "aligned t" "byte_pos t = j" "j + m \<le> length (dat t)"
      using t aligned_cursor[of t j] by (auto simp: agrees_def assms(3,7))
    have "take m (drop j (dat t)) = ?v"
    proof (rule nth_equalityI)
      fix q assume "q < length (take m (drop j (dat t)))"
      then have q: "q < m" by simp
      have "dbit (dat t) (8 * (j + q) + n) = dbit ?v (8 * q + n)" if "n < 8" for n
      proof -
        have r: "8 * j \<le> 8 * (j + q) + n" "8 * (j + q) + n < 8 * (j + m)" "8 * (j + q) + n - 8 * j = 8 * q + n"
          using that q by auto
        then have "dbit (dat t) (8 * (j + q) + n) = dbit ?d (8 * (j + q) + n)"
          using t by (simp add: agrees_def assms(3,7))
        then show ?thesis unfolding dd using r by simp
      qed
      then have "dat t ! (j + q) = ?v ! q" by (rule byte_from_bits)
      with q b(3) show "take m (drop j (dat t)) ! q = ?v ! q" by simp
    qed (use b(3) in simp)
    then show ?thesis
      using readBinaryData_aligned[OF b(1) assms(1)] b by (simp add: assms(3,7) distrib_left)
  qed
  ultimately show "\<exists>s'. writeBinary v bl off s = Some (Inr (), s') \<and> wrote s i k s'
      \<and> (\<forall>t. agrees s' i k t \<longrightarrow> readBinaryData bl t = Some (Inr ?v, at_bit t (i + k)))"
    using w by blast
qed

text \<open>A string of a fixed length, padded and cut at the first padding byte.\<close>

definition fixed_text :: "nat \<Rightarrow> bytes \<Rightarrow> gostring" where
  "fixed_text m v = cut_at 0x40 (cut_at 0xFF (cut_at 0 (take m (v @ replicate m 0xFF))))"

lemma carries_fixed_string:
  assumes "unat bl = 8 * m" and "0 < m" and "i = 8 * j" and "off = 0 \<or> unat off = i" and "j + m \<le> 223"
    and "length v < 65000" and "k = 8 * m"
  shows "carries i k (writeStringFix v bl off) () (readFixedString bl) (fixed_text m v)"
proof -
  let ?w = "v @ replicate (m - length v) 0xFF"
  have m: "unat (bl div 8) = m" by (simp add: unat_div assms(1))
  have "take m (?w @ replicate m 0) = take m (v @ replicate m 0xFF)" by (cases "length v \<le> m") auto
  then have "carries i k (writeBinary ?w bl off) () (readBinaryData bl) (take m (v @ replicate m 0xFF))"
    using carries_binary[OF assms(1-5) _ assms(7), of ?w] assms(5,6) by simp
  from carries_map[OF this, of "\<lambda>arr. cut_at 0x40 (cut_at 0xFF (cut_at 0 arr))"] show ?thesis
    by (simp add: writeStringFix_def readFixedString_def fixed_text_def m)
qed

section \<open>One rule for each step\<close>

text \<open>
  An encoder and a decoder are matched by these rules, one for each kind of field; the last premise is the rest of the
  two functions, the others are facts on the field that evaluate.
\<close>

definition pin :: "FieldSpec \<Rightarrow> 'a::len word option \<Rightarrow> 'a word option" where
  "pin spec v = map_option (\<lambda>x. of_int (pinned spec (uint x))) v"

definition pin_signed :: "FieldSpec \<Rightarrow> 'a::len word option \<Rightarrow> 'a word option" where
  "pin_signed spec v = map_option (\<lambda>x. of_int (pinned spec (sint x))) v"

lemma pin_read:
  "map_option of_int (map_option (pinned spec) (map_option uint v)) = pin spec v"
  "map_option of_int (map_option (pinned spec) (map_option sint v)) = pin_signed spec v"
  by (simp_all add: pin_def pin_signed_def option.map_comp comp_def)

lemma lookup_read:
  "LENGTH('a::len) \<le> 64 \<Longrightarrow> ucast (take_bit n (ucast w :: u64)) = take_bit n (w :: 'a word)"
  by (rule bit_word_eqI) (auto simp: bit_take_bit_iff bit_ucast_iff)

lemma lookup_read_1: "LENGTH('a::len) \<le> 64 \<Longrightarrow> ucast (ucast w mod 2 :: u64) = w mod (2 :: 'a word)"
  using lookup_read[of 1 w] by (simp add: take_bit_eq_mod)

lemma carries_cong: "carries i n w b r a \<Longrightarrow> n = n' \<Longrightarrow> a = a' \<Longrightarrow> carries i n' w b r a'"
  by simp

lemma unsigned_step:
  fixes v :: "'a::len word option"
  assumes "spec_ok spec" and "Offset spec = 0" and "\<not> IsSigned spec" and "ReservedCount spec \<noteq> 0 \<or> v \<noteq> None"
    and "T = (LENGTH('a), False)" and "LENGTH('a) \<le> 64" and "i + unat (BitLength spec) = j"
    and "carries j m w b (k (map_option (pinned spec) (map_option uint v))) x"
  shows "carries i (unat (BitLength spec) + m)
    (seqE (WriteRaw (map_option uint v) (Some spec)) (\<lambda>_. w)) b (field name (ReadRaw T (Some spec)) k) x"
proof (rule carries_seq[where k = k, OF carries_raw assms(8)[folded assms(7)]])
  show "go_range T y" if "map_option uint v = Some y" for y
    using that assms(5,6) uint_lt2p by (auto simp: go_range_def)
qed (use assms(1-5) in auto)

lemma signed_step:
  fixes v :: "'a::len word option"
  assumes "spec_ok spec" and "Offset spec = 0" and "IsSigned spec" and "ReservedCount spec \<noteq> 0 \<or> v \<noteq> None"
    and "T = (LENGTH('a), True)" and "LENGTH('a) \<le> 64" and "i + unat (BitLength spec) = j"
    and "carries j m w b (k (map_option (pinned spec) (map_option sint v))) x"
  shows "carries i (unat (BitLength spec) + m)
    (seqE (WriteRaw (map_option sint v) (Some spec)) (\<lambda>_. w)) b (field name (ReadRaw T (Some spec)) k) x"
proof (rule carries_seq[where k = k, OF carries_raw assms(8)[folded assms(7)]])
  show "go_range T y" if "map_option sint v = Some y" for y
    using that assms(5,6) sint_greater_eq sint_less by (auto simp: go_range_def)
qed (use assms(1-5) in auto)

lemma lookup_step:
  assumes "n \<le> 64" and "off = 0 \<or> unat off = i" and "i + unat n = j"
    and "carries j m w b (k (take_bit (unat n) v)) x"
  shows "carries i (unat n + m) (seqE (putNumberRaw v n off) (\<lambda>_. w)) b (field name (readLookupField n) k) x"
  by (rule carries_seq[where k = k, OF carries_lookup[OF assms(1,2) refl] assms(4)[folded assms(3)]])

lemma reserved_step:
  assumes "off = 0 \<or> unat off = i" and "i + unat n = j" and "carries j m w b k x"
  shows "carries i (unat n + m) (seqE (writeReserved n off) (\<lambda>_. w)) b (skip n k) x"
  by (rule carries_seq_skip[OF carries_reserved[OF assms(1) refl] assms(3)[folded assms(2)]])

lemma spare_step:
  assumes "off = 0 \<or> unat off = i" and "i + unat n = j" and "carries j m w b k x"
  shows "carries i (unat n + m) (seqE (writeSpare n off) (\<lambda>_. w)) b (skip n k) x"
  by (rule carries_seq_skip[OF carries_spare[OF assms(1) refl] assms(3)[folded assms(2)]])

lemma binary_step:
  assumes "unat n mod 8 = 0" and "0 < unat n" and "i mod 8 = 0" and "off = 0 \<or> unat off = i"
    and "i + unat n \<le> 8 * 223" and "length v < 65536" and "i + unat n = j"
    and "carries j m w b (k (take (unat n div 8) (v @ replicate (unat n div 8) 0))) x"
  shows "carries i (unat n + m) (seqE (writeBinary v n off) (\<lambda>_. w)) b (field name (readBinaryData n) k) x"
  by (rule carries_seq[where k = k, OF carries_binary[where j = "i div 8"] assms(8)[folded assms(7)]])
    (use assms(1-6) in auto)

lemma text_step:
  assumes "unat n mod 8 = 0" and "0 < unat n" and "i mod 8 = 0" and "off = 0 \<or> unat off = i"
    and "i + unat n \<le> 8 * 223" and "length v < 65000" and "i + unat n = j"
    and "carries j m w b (k (fixed_text (unat n div 8) v)) x"
  shows "carries i (unat n + m) (seqE (writeStringFix v n off) (\<lambda>_. w)) b (field name (readFixedString n) k) x"
  by (rule carries_seq[where k = k, OF carries_fixed_string[where j = "i div 8"] assms(8)[folded assms(7)]])
    (use assms(1-6) in auto)

section \<open>Publishing and decoding\<close>

lemma carries_on_publish:
  assumes "carries_on P 0 (8 * len) w info r v" and "len \<le> 223"
  obtains d where "publish w = Some (Inr (info, d))" and "length d = len"
    and "\<And>e c. length d + length e < 65536 \<Longrightarrow> length d + length e \<le> c \<Longrightarrow> P (d @ e) \<Longrightarrow>
      \<exists>t. r (NewDataStream (d @ e) c) = Some (Inr v, t)"
proof -
  let ?s = "NewDataStream (replicate 223 0) 223"
  have "ready ?s 0 (8 * len)"
    using assms(2) writable_new[of "replicate 223 0" 0 223] by (auto simp: ready_def writable_def NewDataStream_def cursor_def)
  with assms(1) obtain s' where w: "w ?s = Some (Inr info, s')" "wrote ?s 0 (8 * len) s'"
    and r: "\<And>t. agrees s' 0 (8 * len) t \<Longrightarrow> P (dat t) \<Longrightarrow> r t = Some (Inr v, at_bit t (8 * len))"
    unfolding carries_on_def by auto
  then have s': "aligned s'" "byte_pos s' = len" "length (dat s') = 223"
    using aligned_cursor[of s' len] by (auto simp: wrote_def ready_def NewDataStream_def)
  let ?d = "take len (dat s')"
  have "publish w = Some (Inr (info, ?d))"
    using w(1) s' assms(2) by (simp add: publish_def GetData_def byte_pos_def)
  moreover have "\<exists>t. r (NewDataStream (?d @ e) c) = Some (Inr v, t)"
    if e: "length ?d + length e < 65536" "length ?d + length e \<le> c" "P (?d @ e)" for e c
  proof -
    have "dbit (?d @ e) k = dbit (dat s') k" if "k < 8 * len" for k
    proof -
      have "k div 8 < len" using that by auto
      then show ?thesis using that s'(3) assms(2) by (simp add: dbit_def nth_append)
    qed
    moreover have "stream_ok (NewDataStream (?d @ e) c)"
      using e(1,2) by (simp add: stream_ok_def NewDataStream_def cursor_def)
    ultimately have "agrees s' 0 (8 * len) (NewDataStream (?d @ e) c)"
      using s'(3) assms(2) by (simp add: agrees_def NewDataStream_def cursor_def)
    then have "r (NewDataStream (?d @ e) c) = Some (Inr v, at_bit (NewDataStream (?d @ e) c) (8 * len))"
      using e(3) by (intro r) (simp_all add: NewDataStream_def)
    then show ?thesis by blast
  qed
  ultimately show thesis using s'(3) assms(2) by (intro that) auto
qed

lemma carries_publish:
  assumes "carries 0 (8 * len) w info r v" and "len \<le> 223"
  obtains d where "publish w = Some (Inr (info, d))" and "length d = len"
    and "\<And>e c. length d + length e < 65536 \<Longrightarrow> length d + length e \<le> c \<Longrightarrow>
      \<exists>t. r (NewDataStream (d @ e) c) = Some (Inr v, t)"
  by (rule carries_on_publish[OF assms[unfolded carries_everywhere]]) (auto intro: that)

text \<open>A decoder for the table of \<open>discriminators_generated.go\<close>; \<open>None\<close> is a panic, which the theorems exclude.\<close>

definition entry :: "('a \<Rightarrow> 'p) \<Rightarrow> (MessageInfo \<Rightarrow> (DataStream, 'a) step) \<Rightarrow> 'p decoder" where
  "entry f decode info s =
     (case decode info s of Some (Inr v, _) \<Rightarrow> Inr (f v) | Some (Inl e, _) \<Rightarrow> Inl e | None \<Rightarrow> Inl ''panic'')"

definition variant :: "'p decoder \<Rightarrow> 'p PgnDiscriminator" where
  "variant d = \<lparr>Decoder = d, MatchSpecs = []\<rparr>"

lemma delivered_PGN: "delivered info d q \<Longrightarrow> PGN (Info q) = PGN info"
  by (metis MessageInfo.select_convs(3) MessageInfo.surjective MessageInfo.update_convs(1) delivered_def)

text \<open>The first entry of a PGN, when it matches everything, decodes each packet of the PGN.\<close>

lemma first_variant:
  assumes "table (PGN (Info q)) = Some (variant dec # ds)"
  shows "FindDecoder table (PGN (Info q)) (NewDataStream (Data q) n) = Some (Inr dec, NewDataStream (Data q) n)"
proof -
  let ?s = "NewDataStream (Data q) n"
  have "matchesVariant ?s [] = Some (True, ?s)"
    using SetPosition_new[of ?s "Data q" n] by (simp add: matchesVariant_def) (simp add: NewDataStream_def)
  then show ?thesis by (simp add: FindDecoder_def assms variant_def)
qed

lemma handled_by:
  assumes "table (PGN (Info q)) = Some (variant (entry f decode) # ds)"
    and "decode (Info q) (NewDataStream (Data q) (length (Data q))) = Some (Inr v, t)"
  shows "ps_HandlePacket table True q = Some [Known (f v)]"
  using first_variant[where dec = "entry f decode" and ds = ds and table = table, OF assms(1)] assms(2)
  by (simp add: ps_HandlePacket_def entry_def pgnReady_def)

section \<open>The contract of a codec\<close>

text \<open>
  The property a pair is for, in terms of \<open>Publisher.Write\<close> and the decoder alone: each struct that \<open>fits\<close> is published
  as \<open>len\<close> bytes under its header, and whatever follows these bytes (the padding of a frame, say), they are decoded
  as \<open>comes_back\<close> of the struct.
\<close>

definition round_trip :: "(gotime \<Rightarrow> 'm \<Rightarrow> (DataStream, MessageInfo) step) \<Rightarrow> (MessageInfo \<Rightarrow> (DataStream, 'm) step)
    \<Rightarrow> ('m \<Rightarrow> MessageInfo) \<Rightarrow> u32 \<Rightarrow> nat \<Rightarrow> ('m \<Rightarrow> bool) \<Rightarrow> (MessageInfo \<Rightarrow> 'm \<Rightarrow> 'm) \<Rightarrow> bool" where
  "round_trip encode decode info_of pgn len fits comes_back \<longleftrightarrow> (\<forall>now p. fits p \<longrightarrow>
     (\<exists>d. publish (encode now p) = Some (Inr (finish_info now pgn (info_of p), d)) \<and> length d = len
        \<and> (\<forall>info e. length e < 65000 \<longrightarrow>
             (\<exists>t. decode info (NewDataStream (d @ e) (len + length e)) = Some (Inr (comes_back info p), t)))))"

text \<open>
  An encoder and its decoder: a struct that \<open>fits\<close> is written into \<open>len\<close> bytes and read from them, when they are all
  there is, as \<open>comes_back info p\<close>: the struct with the fields as the wire can carry them and the header of the packet.
\<close>

locale whole_codec =
  fixes encode :: "gotime \<Rightarrow> 'm \<Rightarrow> (DataStream, MessageInfo) step"
    and decode :: "MessageInfo \<Rightarrow> (DataStream, 'm) step"
    and info_of :: "'m \<Rightarrow> MessageInfo"
    and pgn :: u32
    and len :: "'m \<Rightarrow> nat"
    and fits :: "'m \<Rightarrow> bool"
    and comes_back :: "MessageInfo \<Rightarrow> 'm \<Rightarrow> 'm"
  assumes whole_wire: "fits p \<Longrightarrow> carries_on (\<lambda>d. length d = len p) 0 (8 * len p)
      (encode now p) (finish_info now pgn (info_of p)) (decode info) (comes_back info p)"
    and whole_bounds: "fits p \<Longrightarrow> len p \<le> 223"
begin

lemma whole_published:
  assumes "fits p"
  obtains d where "publish (encode now p) = Some (Inr (finish_info now pgn (info_of p), d))" and "length d = len p"
    and "\<And>info. \<exists>t. decode info (NewDataStream d (length d)) = Some (Inr (comes_back info p), t)"
proof -
  have c: "carries_on (\<lambda>d. length d = len p) 0 (8 * len p) (encode now p) (finish_info now pgn (info_of p))
      (decode info) (comes_back info p)" for info
    by (rule whole_wire[OF assms])
  obtain d where d: "publish (encode now p) = Some (Inr (finish_info now pgn (info_of p), d))" "length d = len p"
    by (rule carries_on_publish[OF c whole_bounds[OF assms]])
  moreover have "\<exists>t. decode info (NewDataStream d (length d)) = Some (Inr (comes_back info p), t)" for info
  proof (rule carries_on_publish[OF c[of info] whole_bounds[OF assms]])
    fix d'
    assume d': "publish (encode now p) = Some (Inr (finish_info now pgn (info_of p), d'))"
      and r: "\<And>e n. length d' + length e < 65536 \<Longrightarrow> length d' + length e \<le> n \<Longrightarrow> length (d' @ e) = len p \<Longrightarrow>
        \<exists>t. decode info (NewDataStream (d' @ e) n) = Some (Inr (comes_back info p), t)"
    have "d' = d" using d(1) d' by simp
    then show ?thesis using r[of "[]" "length d"] d(2) whole_bounds[OF assms] by simp
  qed
  ultimately show thesis by (rule that)
qed

lemma whole_handled:
  assumes "fits p" and "publish (encode now p) = Some (Inr (info, d))"
    and "table pgn = Some (variant (entry f decode) # ds)" and "PGN (Info q) = pgn" and "Data q = d"
  shows "ps_HandlePacket table True q = Some [Known (f (comes_back (Info q) p))]"
proof -
  obtain t where "decode (Info q) (NewDataStream d (length d)) = Some (Inr (comes_back (Info q) p), t)"
    by (rule whole_published[OF assms(1), of now]) (use assms(2) in auto)
  then show ?thesis using assms(3-5) by (intro handled_by[where f = f and decode = decode and ds = ds]) simp_all
qed

text \<open>From one node to another, as a fast packet, which keeps the length of the data.\<close>

lemma whole_crosses_the_bus:
  assumes "fits p" and "publish (encode now p) = Some (Inr (info, d))" and "sendable info d"
    and "table pgn = Some (variant (entry f decode) # ds)" and "PGN info = pgn" and "IsFast pgn"
    and "frameWriter s" and "seq_ids_ok s" and "handler r" and "mb_inv (multi r)"
    and "WritePgn s info d = (e, s', fs)" and "length ts = length fs"
  shows "\<exists>m q. run_adapter r (arrivals (zip ts fs)) = Some (r\<lparr>multi := m\<rparr>, [q])
     \<and> Info q = info\<lparr>Timestamp := Timestamp (Info q)\<rparr>
     \<and> ps_HandlePacket table True q = Some [Known (f (comes_back (Info q) p))]"
proof -
  obtain m q where q: "run_adapter r (arrivals (zip ts fs)) = Some (r\<lparr>multi := m\<rparr>, [q])" "delivered info d q"
    using receive_message[OF assms(3,7-12)] by blast
  then have "PGN (Info q) = pgn" using assms(5) by (metis delivered_PGN)
  then have "ps_HandlePacket table True q = Some [Known (f (comes_back (Info q) p))]"
    using assms(1,2,4-6) q(2) by (intro whole_handled) (auto simp: delivered_def received_data_def)
  with q show ?thesis by (auto simp: delivered_def)
qed

end

text \<open>Most messages are of a fixed length and are read from their bytes whatever follows them.\<close>

locale codec =
  fixes encode :: "gotime \<Rightarrow> 'm \<Rightarrow> (DataStream, MessageInfo) step"
    and decode :: "MessageInfo \<Rightarrow> (DataStream, 'm) step"
    and info_of :: "'m \<Rightarrow> MessageInfo"
    and pgn :: u32
    and len :: nat
    and fits :: "'m \<Rightarrow> bool"
    and comes_back :: "MessageInfo \<Rightarrow> 'm \<Rightarrow> 'm"
  assumes wire: "fits p \<Longrightarrow>
      carries 0 (8 * len) (encode now p) (finish_info now pgn (info_of p)) (decode info) (comes_back info p)"
    and bounds: "0 < len" "len \<le> 223"
begin

lemma published:
  assumes "fits p"
  obtains d where "publish (encode now p) = Some (Inr (finish_info now pgn (info_of p), d))" and "length d = len"
    and "\<And>info e c. length d + length e < 65536 \<Longrightarrow> length d + length e \<le> c \<Longrightarrow>
      \<exists>t. decode info (NewDataStream (d @ e) c) = Some (Inr (comes_back info p), t)"
proof -
  have c: "carries 0 (8 * len) (encode now p) (finish_info now pgn (info_of p)) (decode info) (comes_back info p)" for info
    by (rule wire[OF assms])
  obtain d where d: "publish (encode now p) = Some (Inr (finish_info now pgn (info_of p), d))" "length d = len"
    by (rule carries_publish[OF c bounds(2)])
  moreover have "\<exists>t. decode info (NewDataStream (d @ e) c') = Some (Inr (comes_back info p), t)"
    if "length d + length e < 65536" "length d + length e \<le> c'" for info e c'
    by (rule carries_publish[OF c[of info] bounds(2)]) (use d that in auto)
  ultimately show thesis by (rule that)
qed

lemma roundtrip:
  assumes "fits p"
  shows "\<exists>d. publish (encode now p) = Some (Inr (finish_info now pgn (info_of p), d)) \<and> length d = len
     \<and> (\<exists>t. decode info (NewDataStream d len) = Some (Inr (comes_back info p), t))"
proof -
  obtain d where d: "publish (encode now p) = Some (Inr (finish_info now pgn (info_of p), d))" "length d = len"
    "\<And>info e c. length d + length e < 65536 \<Longrightarrow> length d + length e \<le> c \<Longrightarrow>
      \<exists>t. decode info (NewDataStream (d @ e) c) = Some (Inr (comes_back info p), t)"
    using published[OF assms] by blast
  from d(3)[of "[]" len info] d(1,2) bounds show ?thesis by auto
qed

lemma round_trips: "round_trip encode decode info_of pgn len fits comes_back"
  unfolding round_trip_def
proof (intro allI impI)
  fix now p assume p: "fits p"
  obtain d where d: "publish (encode now p) = Some (Inr (finish_info now pgn (info_of p), d))" "length d = len"
    and r: "\<And>info e c. length d + length e < 65536 \<Longrightarrow> length d + length e \<le> c \<Longrightarrow>
      \<exists>t. decode info (NewDataStream (d @ e) c) = Some (Inr (comes_back info p), t)"
    using published[OF p] by blast
  have "\<exists>t. decode info (NewDataStream (d @ e) (len + length e)) = Some (Inr (comes_back info p), t)"
    if "length e < 65000" for info e
    using that d(2) bounds by (intro r) simp_all
  with d show "\<exists>d. publish (encode now p) = Some (Inr (finish_info now pgn (info_of p), d)) \<and> length d = len
      \<and> (\<forall>info e. length e < 65000 \<longrightarrow>
           (\<exists>t. decode info (NewDataStream (d @ e) (len + length e)) = Some (Inr (comes_back info p), t)))"
    by (intro exI[of _ d]) simp
qed

text \<open>The packet of such a message, with padding or without, is decoded by a table that has the codec first.\<close>

lemma handled:
  assumes "fits p" and "publish (encode now p) = Some (Inr (info, d))"
    and "table pgn = Some (variant (entry f decode) # ds)" and "PGN (Info q) = pgn"
    and "Data q = d @ e" and "length e < 65000"
  shows "ps_HandlePacket table True q = Some [Known (f (comes_back (Info q) p))]"
proof -
  let ?s = "NewDataStream (Data q) (length (Data q))"
  obtain d' where d': "publish (encode now p) = Some (Inr (finish_info now pgn (info_of p), d'))" "length d' = len"
    "\<And>info e c. length d' + length e < 65536 \<Longrightarrow> length d' + length e \<le> c \<Longrightarrow>
      \<exists>t. decode info (NewDataStream (d' @ e) c) = Some (Inr (comes_back info p), t)"
    using published[OF assms(1)] by blast
  have "d' = d" using d'(1) assms(2) by simp
  then obtain t where "decode (Info q) ?s = Some (Inr (comes_back (Info q) p), t)"
    using d'(3)[of e "length (Data q)" "Info q"] d'(2) bounds(2) assms(5,6) by auto
  then show ?thesis using assms(3,4) by (intro handled_by[where f = f and decode = decode and ds = ds]) simp_all
qed

text \<open>From one node to another: what is published goes out in frames, which another adapter and its table turn back.\<close>

lemma crosses_the_bus:
  assumes "fits p" and "publish (encode now p) = Some (Inr (info, d))" and "sendable info d"
    and "table pgn = Some (variant (entry f decode) # ds)" and "PGN info = pgn"
    and "frameWriter s" and "seq_ids_ok s" and "handler r" and "mb_inv (multi r)"
    and "WritePgn s info d = (e, s', fs)" and "length ts = length fs"
  shows "\<exists>m q. run_adapter r (arrivals (zip ts fs)) = Some (r\<lparr>multi := m\<rparr>, [q])
     \<and> Info q = info\<lparr>Timestamp := Timestamp (Info q)\<rparr>
     \<and> ps_HandlePacket table True q = Some [Known (f (comes_back (Info q) p))]"
proof -
  obtain m q where q: "run_adapter r (arrivals (zip ts fs)) = Some (r\<lparr>multi := m\<rparr>, [q])" "delivered info d q"
    using receive_message[OF assms(3,6-11)] by blast
  obtain e where e: "Data q = d @ e" "length e \<le> 8"
    using q(2) by (cases "IsFast (PGN info)") (auto simp: delivered_def received_data_def)
  have "PGN (Info q) = pgn" using q(2) assms(5) by (metis delivered_PGN)
  then have "ps_HandlePacket table True q = Some [Known (f (comes_back (Info q) p))]"
    using assms(1,2,4) e by (intro handled) auto
  with q show ?thesis by (auto simp: delivered_def)
qed

end

sublocale codec \<subseteq> whole_codec encode decode info_of pgn "\<lambda>_. len" fits comes_back
proof
  show "carries_on (\<lambda>d. length d = len) 0 (8 * len) (encode now p) (finish_info now pgn (info_of p)) (decode info)
      (comes_back info p)" if "fits p" for p now info
    using wire[OF that] unfolding carries_def carries_on_def by blast
qed (rule bounds)

end
