(* ===== verification/Scaled.thy ===== *)
theory Scaled
  imports Codec
begin

text \<open>
  Scaled fields (\<open>ReadScaled\<close> of \<open>internal/pgn/readdatastream.go\<close>, \<open>WriteScaled\<close> of \<open>writedatastream.go\<close>,
  \<open>calcPrecision\<close> and \<open>roundFloat\<close> of \<open>datastream.go\<close>): a raw integer times a resolution is a float. A finite float is
  the rational number it stands for (\<open>Gofloat\<close>); infinities, NaN and numbers outside the range of normal numbers are
  not modelled. \<open>math.Pow(10, n)\<close> is the power rounded to a \<open>float64\<close>, which it is for the few digits used here.
\<close>

section \<open>Floats\<close>

abbreviation fl64 :: "rat \<Rightarrow> rat" where "fl64 \<equiv> fl 53"

text \<open>\<open>math.Round\<close>: half away from zero.\<close>

definition go_round :: "rat \<Rightarrow> int" where
  "go_round x = (if 0 \<le> x then \<lfloor>x + 1 / 2\<rfloor> else - \<lfloor>- x + 1 / 2\<rfloor>)"

definition go_trunc :: "rat \<Rightarrow> int" where
  "go_trunc x = (if 0 \<le> x then \<lfloor>x\<rfloor> else \<lceil>x\<rceil>)"

text \<open>
  The conversions \<open>int64(x)\<close> and \<open>uint64(x)\<close>. Of a number out of range Go leaves the result to the machine, which is
  the parameter \<open>hw\<close>.
\<close>

definition to_int64 :: "(rat \<Rightarrow> u64) \<Rightarrow> rat \<Rightarrow> i64" where
  "to_int64 hw x = (if - (2 ^ 63) \<le> go_trunc x \<and> go_trunc x < 2 ^ 63 then word_of_int (go_trunc x) else hw x)"

definition to_uint64 :: "(rat \<Rightarrow> u64) \<Rightarrow> rat \<Rightarrow> u64" where
  "to_uint64 hw x = (if 0 \<le> go_trunc x \<and> go_trunc x < 2 ^ 64 then word_of_int (go_trunc x) else hw x)"

text \<open>The loop of \<open>calcPrecision\<close> does not end for a resolution of zero, for which it is not called.\<close>

partial_function (option) count_digits :: "rat \<Rightarrow> u8 \<Rightarrow> u8 option" where
  "count_digits precision digits =
     (if precision \<ge> 0 \<and> precision < 1 then count_digits (fl64 (precision * 10)) (digits + 1) else Some digits)"

declare count_digits.simps [code]

definition calcPrecision :: "rat \<Rightarrow> u8 option" where
  "calcPrecision resolution = count_digits resolution 0"

definition roundFloat :: "rat \<Rightarrow> u8 \<Rightarrow> rat" where
  "roundFloat val precision =
     (let ratio = fl64 (10 ^ unat precision) in fl64 (of_int (go_round (fl64 (val * ratio))) / ratio))"

section \<open>Reading and writing\<close>

record ScaledSpec = FieldSpec +
  Resolution :: rat
  DomainMin :: "rat option"
  DomainMax :: "rat option"

abbreviation scaled_spec :: "u16 \<Rightarrow> u16 \<Rightarrow> u64 \<Rightarrow> u64 \<Rightarrow> i64 \<Rightarrow> bool \<Rightarrow> u8 \<Rightarrow> rat \<Rightarrow> rat option \<Rightarrow> rat option \<Rightarrow> ScaledSpec" where
  "scaled_spec len off maxRaw missing offset isSigned reserved resolution dmin dmax \<equiv> \<lparr>BitLength = len, BitOffset = off,
     MaxRawValue = maxRaw, MissingValue = missing, Offset = offset, IsSigned = isSigned, ReservedCount = reserved,
     BitLengthVariable = False, Resolution = resolution, DomainMin = dmin, DomainMax = dmax\<rparr>"

definition clamp_domain :: "ScaledSpec \<Rightarrow> rat \<Rightarrow> rat" where
  "clamp_domain spec val =
     (let val = (case DomainMax spec of Some m \<Rightarrow> if val > m then m else val | None \<Rightarrow> val)
      in case DomainMin spec of Some m \<Rightarrow> if val < m then m else val | None \<Rightarrow> val)"

text \<open>The float read, from the raw integer; \<open>p\<close> is the precision of the type \<open>T\<close>. \<open>None\<close> if \<open>calcPrecision\<close> does not return.\<close>

definition scaled_value :: "nat \<Rightarrow> ScaledSpec \<Rightarrow> int \<Rightarrow> rat option" where
  "scaled_value p spec raw =
     (let val = fl64 (of_int raw)
      in map_option (\<lambda>val.
           let val = fl64 (val + fl64 (of_int (sint (Offset spec)))) in fl p (clamp_domain spec val))
        (if Resolution spec \<noteq> 0 \<and> Resolution spec \<noteq> 1
         then map_option (roundFloat (fl64 (val * Resolution spec))) (calcPrecision (Resolution spec))
         else Some val))"

definition read_scaled_raw :: "ScaledSpec \<Rightarrow> (DataStream, int option) step" where
  "read_scaled_raw spec =
     (if ReservedCount spec = 0
      then seqE (getNumberRaw (BitLength spec)) (\<lambda>v.
        if IsSigned spec
        then (let v = (if BitLength spec < 64 \<and> v AND push_bit (unat (BitLength spec - 1)) 1 \<noteq> 0
                       then v OR push_bit (unat (BitLength spec)) 0xFFFFFFFFFFFFFFFF else v)
              in returnE (Some (sint v)))
        else returnE (Some (uint v)))
      else if IsSigned spec
        then seqE (getSignedNullableNumber (FieldSpec.truncate spec)) (\<lambda>v. returnE (map_option sint v))
        else seqE (getNullableNumberRaw (FieldSpec.truncate spec)) (\<lambda>v. returnE (map_option uint v)))"

definition ReadScaled :: "nat \<Rightarrow> ScaledSpec option \<Rightarrow> (DataStream, rat option) step" where
  "ReadScaled p spec' =
     (case spec' of
        None \<Rightarrow> failE ''FieldSpec is nil''
      | Some spec \<Rightarrow>
          if BitLength spec > 64
          then failE (''requested '' @ decimal (unat (BitLength spec)) @ '' bitLength exceeds 64 bits'')
          else seqE (read_scaled_raw spec) (\<lambda>raw s.
            case raw of
              None \<Rightarrow> returnE None s
            | Some raw \<Rightarrow> (case scaled_value p spec raw of
                None \<Rightarrow> None
              | Some v \<Rightarrow> returnE (Some v) s)))"

text \<open>The number that is truncated, and the raw value written.\<close>

definition scaled_number :: "ScaledSpec \<Rightarrow> rat \<Rightarrow> rat option" where
  "scaled_number spec value =
     (let val = clamp_domain spec value;
          val = fl64 (val - fl64 (of_int (sint (Offset spec))))
      in if Resolution spec \<noteq> 0 \<and> Resolution spec \<noteq> 1
         then map_option (roundFloat (fl64 (val / Resolution spec))) (calcPrecision (Resolution spec))
         else Some val)"

definition scaled_raw :: "(rat \<Rightarrow> u64) \<Rightarrow> ScaledSpec \<Rightarrow> rat \<Rightarrow> u64 option" where
  "scaled_raw hw spec value = map_option (\<lambda>val.
     if IsSigned spec
     then (let intVal = to_int64 hw val
           in if ReservedCount spec > 0
              then (let maxVal = MaxRawValue spec; minVal = - push_bit (unat (BitLength spec - 1)) 1;
                        intVal = (if sint intVal > sint maxVal then maxVal else intVal)
                    in if sint intVal < sint minVal then minVal else intVal)
              else intVal)
     else (let outVal = to_uint64 hw (if val < 0 then 0 else val)
           in if ReservedCount spec > 0 \<and> outVal > MaxRawValue spec then MaxRawValue spec else outVal))
   (scaled_number spec value)"

definition WriteScaled :: "(rat \<Rightarrow> u64) \<Rightarrow> rat option \<Rightarrow> ScaledSpec option \<Rightarrow> (DataStream, unit) step" where
  "WriteScaled hw value spec' s =
     (case spec' of
        None \<Rightarrow> failE ''FieldSpec is nil'' s
      | Some spec \<Rightarrow>
          (case value of
             None \<Rightarrow>
               if ReservedCount spec = 0
               then failE ''cannot write nil value to field with no reserved values'' s
               else putNumberRaw (MissingValue spec) (BitLength spec) 0 s
           | Some v \<Rightarrow> (case scaled_raw hw spec v of
               None \<Rightarrow> None
             | Some outVal \<Rightarrow> putNumberRaw outVal (BitLength spec) 0 s)))"

section \<open>The digits of a resolution\<close>

lemma fl_near:
  assumes "\<bar>x - y\<bar> \<le> e" and "0 < p"
  shows "\<bar>fl p x - y\<bar> \<le> e + (\<bar>y\<bar> + e) / 2 ^ p"
proof -
  have "\<bar>x\<bar> \<le> \<bar>y\<bar> + e" using assms(1) by linarith
  then have "\<bar>x\<bar> / 2 ^ p \<le> (\<bar>y\<bar> + e) / 2 ^ p" by (rule divide_right_mono) simp
  with fl_error[OF assms(2), of x] assms(1) show ?thesis by linarith
qed

lemma fl64_near: "\<bar>x - y\<bar> \<le> e \<Longrightarrow> \<bar>fl64 x - y\<bar> \<le> e + (\<bar>y\<bar> + e) / 9007199254740992"
  using fl_near[of x y e 53] by simp

text \<open>The loop ends for a positive resolution: each round multiplies by nine at least.\<close>

lemma count_digits_returns:
  assumes "0 < r" and "1 \<le> r * 9 ^ n"
  shows "\<exists>d. count_digits r k = Some d"
  using assms
proof (induction n arbitrary: r k)
  case 0
  then show ?case by (simp add: count_digits.simps[of r])
next
  case (Suc n)
  show ?case
  proof (cases "r < 1")
    case True
    have "\<bar>fl64 (r * 10) - r * 10\<bar> \<le> \<bar>r * 10\<bar> / 2 ^ 53" by (rule fl_error) simp
    moreover have "\<bar>r * 10\<bar> / 2 ^ 53 \<le> r" using Suc.prems(1) by simp
    ultimately have n: "r * 9 \<le> fl64 (r * 10)" by linarith
    then have "1 \<le> fl64 (r * 10) * 9 ^ n"
    proof -
      have "r * 9 * 9 ^ n \<le> fl64 (r * 10) * 9 ^ n" using n by (rule mult_right_mono) simp
      then show ?thesis using Suc.prems(2) by (simp only: power_Suc mult.assoc)
    qed
    moreover have "0 < fl64 (r * 10)" using n Suc.prems(1) by linarith
    ultimately show ?thesis
      using Suc.IH True Suc.prems(1) by (subst count_digits.simps) simp
  qed (simp add: count_digits.simps[of r])
qed

lemma calcPrecision_returns:
  assumes "0 < resolution"
  shows "\<exists>d. calcPrecision resolution = Some d"
proof -
  obtain n where n: "1 / resolution < of_nat n" using reals_Archimedean2 by blast
  have "(of_nat n :: rat) \<le> 9 ^ n"
  proof (induction n)
    case (Suc n)
    then show ?case using one_le_power[of "9 :: rat" n] unfolding of_nat_Suc power_Suc by linarith
  qed simp
  with n have "1 / resolution < 9 ^ n" by linarith
  then have "1 \<le> resolution * 9 ^ n" using assms by (simp add: field_simps)
  with count_digits_returns[OF assms] show ?thesis by (simp add: calcPrecision_def)
qed

text \<open>A number of at most \<open>p\<close> bits is a float, and so are its products with ten while they fit: the loop is exact then.\<close>

lemma fl_0 [simp]: "fl p 0 = 0"
  by (simp add: fl_def)

lemma pow2_add_nat: "pow2 (e + int n) = pow2 e * 2 ^ n"
  using pow2_minus_nat[of "e + int n" n] by simp

lemma pow2_mono: "a \<le> b \<Longrightarrow> pow2 a \<le> pow2 b"
  using pow2_add_nat[of a "nat (b - a)"] one_le_power[of "2 :: rat" "nat (b - a)"] by simp

lemma fl_exact:
  assumes "\<bar>a\<bar> < 2 ^ p" and "0 < p"
  shows "fl p (of_int a * pow2 e) = of_int a * pow2 e"
proof (cases "a = 0")
  case False
  define x where "x = of_int a * pow2 e"
  define L where "L = ilog2 \<bar>x\<bar>"
  have x: "0 < \<bar>x\<bar>" using False by (simp add: x_def)
  have "\<bar>x\<bar> < 2 ^ p * pow2 e"
  proof -
    have "\<bar>of_int a :: rat\<bar> < 2 ^ p" using assms(1) by (metis of_int_abs of_int_less_iff of_int_numeral of_int_power)
    then have "\<bar>of_int a :: rat\<bar> * pow2 e < 2 ^ p * pow2 e" by (intro mult_strict_right_mono) simp_all
    moreover have "\<bar>pow2 e\<bar> = pow2 e" using pow2_pos[of e] by linarith
    ultimately show ?thesis by (simp add: x_def abs_mult)
  qed
  then have "pow2 L < pow2 (e + int p)"
    using pow2_ilog2_le[OF x] by (simp add: pow2_add_nat L_def mult.commute)
  then have "L < e + int p" using pow2_mono[of "e + int p" L] by linarith
  then have "e = L - (int p - 1) + int (nat (e - (L - (int p - 1))))" using assms(2) by simp
  then obtain n where n: "e = L - (int p - 1) + int n" by blast
  have "x / pow2 (L - (int p - 1)) = of_int (a * 2 ^ n)"
    unfolding x_def n pow2_add_nat by simp
  moreover have "round_half_even (of_int i) = i" for i by (simp add: round_half_even_def)
  moreover have "of_int (a * 2 ^ n) * pow2 (L - (int p - 1)) = x"
    unfolding x_def n pow2_add_nat by simp
  ultimately show ?thesis using x by (simp add: fl_def L_def Let_def x_def del: of_int_mult)
qed simp

lemma count_digits_exact:
  assumes "r = of_int a * pow2 e" and "0 < a" and "a * 5 ^ n < 2 ^ 53"
    and "1 \<le> r * 10 ^ n" and "n = 0 \<or> r * 10 ^ (n - 1) < 1"
  shows "count_digits r k = Some (k + of_nat n)"
  using assms
proof (induction n arbitrary: r a e k)
  case 0
  then show ?case by (subst count_digits.simps) simp
next
  case (Suc n)
  have r0: "0 \<le> r"
    unfolding Suc.prems(1) using Suc.prems(2) less_imp_le[OF pow2_pos[of e]] by (intro mult_nonneg_nonneg) simp_all
  then have "r * 1 \<le> r * 10 ^ n" by (intro mult_left_mono) simp_all
  with r0 have r: "0 \<le> r" "r < 1" using Suc.prems(5) by auto
  have r10: "r * 10 = of_int (a * 5) * pow2 (e + int 1)"
    using Suc.prems(1) by (simp only: pow2_add_nat) simp
  have "a * 5 * 1 \<le> a * 5 * 5 ^ n" using Suc.prems(2) by (intro mult_left_mono) simp_all
  then have "\<bar>a * 5\<bar> < 2 ^ 53" using Suc.prems(2,3) unfolding power_Suc mult.assoc[symmetric] by linarith
  then have f: "fl64 (r * 10) = r * 10" unfolding r10 by (rule fl_exact) simp
  have "count_digits (r * 10) (k + 1) = Some (k + 1 + of_nat n)"
  proof (rule Suc.IH[OF r10])
    show "0 < a * 5" using Suc.prems(2) by simp
    show "a * 5 * 5 ^ n < 2 ^ 53" using Suc.prems(3) by (simp only: power_Suc mult.assoc)
    show "1 \<le> r * 10 * 10 ^ n" using Suc.prems(4) by (simp only: power_Suc mult.assoc)
    show "n = 0 \<or> r * 10 * 10 ^ (n - 1) < 1" using Suc.prems(5) by (cases n) (simp_all add: mult.assoc)
  qed
  then show ?case using r f by (subst count_digits.simps) (simp add: add.assoc)
qed

lemma fl_positive:
  assumes "0 < x" and "0 < p"
  shows "0 < fl p x"
proof -
  have "\<bar>x\<bar> / 2 ^ p < x" using assms one_less_power[of "2 :: rat" p] by (simp add: divide_less_eq)
  with fl_error[OF assms(2), of x] show ?thesis by linarith
qed

lemma calcPrecision_some: "0 < x \<Longrightarrow> \<exists>d. calcPrecision x = Some d" "0 < x \<Longrightarrow> \<exists>d. calcPrecision (fl64 x) = Some d"
  using calcPrecision_returns fl_positive[of x 53] by auto

section \<open>Rounding errors\<close>

lemma ten_power_float:
  assumes "n \<le> 22"
  shows "fl64 (10 ^ n) = 10 ^ n"
proof -
  have "list_all (\<lambda>n. fl64 (10 ^ n) = 10 ^ n) [0..<23]" by code_simp
  with assms show ?thesis by (simp add: list_all_iff)
qed

lemma go_round_near: "\<bar>of_int (go_round x) - x\<bar> \<le> 1 / 2"
proof (cases "0 \<le> x")
  case True
  then show ?thesis
    using floor_correct[of "x + 1 / 2"] unfolding go_round_def abs_le_iff by simp linarith
next
  case False
  then show ?thesis
    using floor_correct[of "- x + 1 / 2"] unfolding go_round_def abs_le_iff by simp linarith
qed

lemma roundFloat_near:
  assumes "\<bar>x - y\<bar> \<le> e" and "unat k \<le> 22"
  shows "\<bar>roundFloat x k - y\<bar> \<le> 101 / 200 / 10 ^ unat k + 101 / 100 * e + 3 * \<bar>y\<bar> / 9007199254740992"
proof -
  define R where "R = (10 :: rat) ^ unat k"
  have R: "0 < R" "fl64 (10 ^ unat k) = R" using ten_power_float[OF assms(2)] by (simp_all add: R_def)
  have e: "0 \<le> e" using assms(1) by linarith
  let ?c = "fl64 (x * R)" and ?u = "9007199254740992 :: rat"
  let ?d = "of_int (go_round ?c) :: rat"
  have "\<bar>x * R - y * R\<bar> \<le> e * R"
    using mult_right_mono[OF assms(1), of R] R(1) by (simp add: abs_mult flip: left_diff_distrib)
  then have "\<bar>?c - y * R\<bar> \<le> e * R + (\<bar>y * R\<bar> + e * R) / ?u" by (rule fl64_near)
  then have "\<bar>?d - y * R\<bar> \<le> 1 / 2 + (e * R + (\<bar>y * R\<bar> + e * R) / ?u)"
    using go_round_near[of ?c] by linarith
  then have "\<bar>?d - y * R\<bar> / R \<le> (1 / 2 + (e * R + (\<bar>y * R\<bar> + e * R) / ?u)) / R"
    using R(1) by (intro divide_right_mono) simp_all
  moreover have "\<bar>?d - y * R\<bar> / R = \<bar>?d / R - y\<bar>"
  proof -
    have "?d / R - y = (?d - y * R) / R" using R(1) by (simp add: field_simps)
    then show ?thesis using R(1) by (simp add: abs_divide)
  qed
  moreover have "(1 / 2 + (e * R + (\<bar>y * R\<bar> + e * R) / ?u)) / R = 1 / 2 / R + (e + (\<bar>y\<bar> + e) / ?u)"
    using R(1) by (simp add: abs_mult field_simps)
  ultimately have "\<bar>?d / R - y\<bar> \<le> 1 / 2 / R + (e + (\<bar>y\<bar> + e) / ?u)" by simp
  moreover define w where "w = 1 / R"
  ultimately have "\<bar>?d / R - y\<bar> \<le> w / 2 + (e + (\<bar>y\<bar> + e) / ?u)" by simp
  note fl64_near[OF this]
  moreover have "roundFloat x k = fl64 (?d / R)" by (simp add: roundFloat_def Let_def R)
  moreover have "0 \<le> w" using R(1) by (simp add: w_def)
  ultimately have "\<bar>roundFloat x k - y\<bar> \<le> 101 / 200 * w + 101 / 100 * e + 3 * \<bar>y\<bar> / ?u"
    using e abs_ge_zero[of y] unfolding add_divide_distrib by linarith
  then show ?thesis by (simp add: w_def R_def)
qed

section \<open>A scaled value, and the raw value it is written as\<close>

text \<open>
  A resolution of \<open>k\<close> digits, below one: it is not smaller than the last of these digits. All resolutions below one in
  the generated specifications are of this kind.
\<close>

definition digits_ok :: "ScaledSpec \<Rightarrow> u8 \<Rightarrow> bool" where
  "digits_ok spec k \<longleftrightarrow> 0 < Resolution spec \<and> Resolution spec < 1 \<and> calcPrecision (Resolution spec) = Some k
     \<and> 0 < unat k \<and> unat k \<le> 22 \<and> 1 \<le> Resolution spec * 10 ^ unat k \<and> Offset spec = 0"

definition unclamped :: "ScaledSpec \<Rightarrow> u8 \<Rightarrow> int \<Rightarrow> rat" where
  "unclamped spec k raw = fl64 (roundFloat (fl64 (fl64 (of_int raw) * Resolution spec)) k)"

lemma scaled_value_eq:
  "digits_ok spec k \<Longrightarrow> clamp_domain spec (unclamped spec k raw) = unclamped spec k raw
     \<Longrightarrow> scaled_value p spec raw = Some (fl p (unclamped spec k raw))"
  by (simp add: scaled_value_def digits_ok_def unclamped_def)

lemma unclamped_near:
  assumes ok: "digits_ok spec k"
  shows "\<bar>unclamped spec k raw - of_int raw * Resolution spec\<bar>
    \<le> (102 / 200 + 10 * \<bar>of_int raw\<bar> / 9007199254740992) * Resolution spec"
proof -
  let ?r = "of_int raw :: rat" and ?q = "Resolution spec" and ?u = "9007199254740992 :: rat"
  define M where "M = ?r * ?q"
  define m where "m = \<bar>?r\<bar> * ?q"
  define w where "w = 1 / (10 :: rat) ^ unat k"
  have q: "0 < ?q" and w: "0 \<le> w" "w \<le> ?q"
    using ok by (auto simp: digits_ok_def w_def field_simps)
  have m: "\<bar>M\<bar> = m" "0 \<le> m" using q by (simp_all add: M_def m_def abs_mult)
  have "\<bar>fl64 ?r - ?r\<bar> \<le> \<bar>?r\<bar> / ?u" using fl64_near[of ?r ?r 0] by simp
  then have "\<bar>fl64 ?r * ?q - M\<bar> \<le> m / ?u"
    using mult_right_mono[of "\<bar>fl64 ?r - ?r\<bar>" "\<bar>?r\<bar> / ?u" ?q] q
    by (simp add: M_def m_def abs_mult flip: left_diff_distrib)
  from fl64_near[OF this] have "\<bar>fl64 (fl64 ?r * ?q) - M\<bar> \<le> 3 * m / ?u"
    using m unfolding add_divide_distrib by linarith
  from roundFloat_near[OF this, of k]
  have "\<bar>roundFloat (fl64 (fl64 ?r * ?q)) k - M\<bar> \<le> 101 / 200 * w + 101 / 100 * (3 * m / ?u) + 3 * m / ?u"
    using ok m by (simp add: digits_ok_def w_def)
  from fl64_near[OF this] have "\<bar>unclamped spec k raw - M\<bar> \<le> 102 / 200 * w + 10 * m / ?u"
    using m w unfolding unclamped_def add_divide_distrib by linarith
  also have "\<dots> \<le> 102 / 200 * ?q + 10 * m / ?u" using w by simp
  finally show ?thesis by (simp add: M_def m_def algebra_simps)
qed

text \<open>A type of float, \<open>float32\<close> or \<open>float64\<close>, and the raw values it holds to a few parts in a hundred.\<close>

definition held :: "nat \<Rightarrow> int \<Rightarrow> bool" where
  "held p raw \<longleftrightarrow> (p = 24 \<and> \<bar>raw\<bar> \<le> 2 ^ 18) \<or> (p = 53 \<and> \<bar>raw\<bar> \<le> 2 ^ 40)"

lemma value_near:
  assumes ok: "digits_ok spec k" and h: "held p raw"
  shows "\<bar>fl p (unclamped spec k raw) - of_int raw * Resolution spec\<bar> \<le> 54 / 100 * Resolution spec"
proof -
  let ?q = "Resolution spec" and ?M = "of_int raw * Resolution spec"
  define B :: rat where "B = \<bar>of_int raw\<bar>"
  have q: "0 < ?q" using ok by (simp add: digits_ok_def)
  define e where "e = (102 / 200 + 10 * B / 9007199254740992) * ?q"
  have n: "\<bar>unclamped spec k raw - ?M\<bar> \<le> e" using unclamped_near[OF ok, of raw] by (simp add: e_def B_def)
  have p: "0 < p" using h by (auto simp: held_def)
  have M: "\<bar>?M\<bar> = B * ?q" using q by (simp add: B_def abs_mult)
  have "B \<le> 2 ^ 18 \<and> p = 24 \<or> B \<le> 2 ^ 40 \<and> p = 53"
    using h unfolding held_def B_def by (metis of_int_abs of_int_le_iff of_int_numeral of_int_power)
  then have "102 / 200 + 10 * B / 9007199254740992 + (B + (102 / 200 + 10 * B / 9007199254740992)) / 2 ^ p \<le> 54 / 100"
  proof (elim disjE conjE)
    assume "p = 24" "B \<le> 2 ^ 18"
    then have e: "(2 :: rat) ^ p = 16777216" and "B \<le> 262144" by simp_all
    then show ?thesis unfolding e add_divide_distrib by linarith
  next
    assume "p = 53" "B \<le> 2 ^ 40"
    then have e: "(2 :: rat) ^ p = 9007199254740992" and "B \<le> 1099511627776" by simp_all
    then show ?thesis unfolding e add_divide_distrib by linarith
  qed
  then have "(102 / 200 + 10 * B / 9007199254740992 + (B + (102 / 200 + 10 * B / 9007199254740992)) / 2 ^ p) * ?q \<le> 54 / 100 * ?q"
    using q by (intro mult_right_mono) simp_all
  moreover have "e + (\<bar>?M\<bar> + e) / 2 ^ p
      = (102 / 200 + 10 * B / 9007199254740992 + (B + (102 / 200 + 10 * B / 9007199254740992)) / 2 ^ p) * ?q"
    unfolding M e_def by (simp add: field_simps)
  ultimately show ?thesis using fl_near[OF n p] by linarith
qed

lemma go_trunc_near:
  assumes "\<bar>f - of_int r\<bar> < 1"
  shows "go_trunc f \<in> {r, r - sgn r}"
proof (cases "0 < r")
  case True
  then have "0 \<le> f" using assms by linarith
  moreover have "\<lfloor>f\<rfloor> = r \<or> \<lfloor>f\<rfloor> = r - 1" using assms by linarith
  ultimately show ?thesis using True by (auto simp: go_trunc_def)
next
  case False
  show ?thesis
  proof (cases "r = 0")
    case True
    then have "0 \<le> f \<Longrightarrow> \<lfloor>f\<rfloor> = 0" "f < 0 \<Longrightarrow> \<lceil>f\<rceil> = 0" using assms by linarith+
    then show ?thesis using True by (simp add: go_trunc_def)
  next
    case False
    with \<open>\<not> 0 < r\<close> have r: "r < 0" by simp
    then have "f < 0" using assms by linarith
    moreover have "\<lceil>f\<rceil> = r \<or> \<lceil>f\<rceil> = r + 1" using assms by linarith
    ultimately show ?thesis using r by (auto simp: go_trunc_def)
  qed
qed

lemma number_near:
  assumes ok: "digits_ok spec k" and h: "held p raw"
    and x: "\<bar>x - of_int raw * Resolution spec\<bar> \<le> 54 / 100 * Resolution spec" and c: "clamp_domain spec x = x"
  shows "\<exists>f. scaled_number spec x = Some f \<and> \<bar>f - of_int raw\<bar> < 1"
proof -
  let ?q = "Resolution spec" and ?u = "9007199254740992 :: rat" and ?r = "of_int raw :: rat"
  define B where "B = \<bar>?r\<bar>"
  have q: "0 < ?q" using ok by (simp add: digits_ok_def)
  have "\<bar>raw\<bar> \<le> 1099511627776" using h by (auto simp: held_def)
  then have B: "B \<le> 1099511627776" unfolding B_def by (metis of_int_abs of_int_le_iff of_int_numeral)
  have M: "\<bar>?r * ?q\<bar> = B * ?q" using q by (simp add: B_def abs_mult)
  have "\<bar>fl64 x - ?r * ?q\<bar> \<le> 54 / 100 * ?q + (B * ?q + 54 / 100 * ?q) / ?u"
    using fl64_near[OF x] by (simp add: M)
  also have "\<dots> = (54 / 100 + (B + 54 / 100) / ?u) * ?q" by (simp add: field_simps)
  also have "\<dots> \<le> 56 / 100 * ?q"
  proof (rule mult_right_mono)
    show "54 / 100 + (B + 54 / 100) / ?u \<le> 56 / 100" using B unfolding add_divide_distrib by linarith
  qed (use q in simp)
  finally have "\<bar>fl64 x - ?r * ?q\<bar> / ?q \<le> 56 / 100" using q by (simp add: pos_divide_le_eq)
  moreover have "fl64 x / ?q - ?r = (fl64 x - ?r * ?q) / ?q" using q by (simp add: field_simps)
  ultimately have "\<bar>fl64 x / ?q - ?r\<bar> \<le> 56 / 100" using q by (simp add: abs_divide)
  from fl64_near[OF this] have "\<bar>fl64 (fl64 x / ?q) - ?r\<bar> \<le> 59 / 100" using B unfolding B_def[symmetric] add_divide_distrib by linarith
  from roundFloat_near[OF this, of k]
  have "\<bar>roundFloat (fl64 (fl64 x / ?q)) k - ?r\<bar> \<le> 101 / 200 / 10 ^ unat k + 101 / 100 * (59 / 100) + 3 * B / ?u"
    using ok by (simp add: digits_ok_def B_def)
  moreover have "(10 :: rat) ^ 1 \<le> 10 ^ unat k"
    using ok by (intro power_increasing) (simp_all add: digits_ok_def)
  then have "101 / 200 / (10 :: rat) ^ unat k \<le> 101 / 200 / 10"
    by (intro divide_left_mono) simp_all
  ultimately have "\<bar>roundFloat (fl64 (fl64 x / ?q)) k - ?r\<bar> < 1" using B by simp
  then show ?thesis
    using ok c by (simp add: scaled_number_def digits_ok_def)
qed

section \<open>The raw value written\<close>

text \<open>The integer of a raw value, as a field of the sign reads it.\<close>

definition raw_int :: "ScaledSpec \<Rightarrow> u64 \<Rightarrow> int" where
  "raw_int spec w = (if IsSigned spec then sint w else uint w)"

abbreviation plain :: "ScaledSpec \<Rightarrow> FieldSpec" where "plain \<equiv> FieldSpec.truncate"

lemma plain_simps [simp]:
  "BitLength (plain spec) = BitLength spec" "BitOffset (plain spec) = BitOffset spec"
  "MaxRawValue (plain spec) = MaxRawValue spec" "MissingValue (plain spec) = MissingValue spec"
  "Offset (plain spec) = Offset spec" "IsSigned (plain spec) = IsSigned spec"
  "ReservedCount (plain spec) = ReservedCount spec"
  by (simp_all add: FieldSpec.truncate_def)

text \<open>With reserved values the raw value is clamped to the range of the field.\<close>

lemma word_of_raw_int: "word_of_int (raw_int spec w) = w"
  by (simp add: raw_int_def)

lemma max_raw:
  assumes "spec_ok (plain spec)" and "ReservedCount spec \<noteq> 0"
  shows "uint (MaxRawValue spec) = field_max (plain spec)"
    and "IsSigned spec \<Longrightarrow> sint (MaxRawValue spec) = field_max (plain spec)"
    and "IsSigned spec \<Longrightarrow> sint (- push_bit (unat (BitLength spec - 1)) 1 :: u64) = field_min (plain spec)"
proof -
  have "int (unat (MaxRawValue spec)) = field_max (plain spec)"
    using assms by (simp add: spec_ok_def field_max_def of_nat_diff)
  then show m: "uint (MaxRawValue spec) = field_max (plain spec)" by simp
  note w = spec_ok_width[OF assms(1), unfolded plain_simps]
  {
    assume s: "IsSigned spec"
    then have "field_max (plain spec) < 2 ^ (unat (BitLength spec) - 1)"
      using field_range(1)[OF assms(1)] by simp
    with pow_width[OF w(3,4)] have "field_max (plain spec) < 2 ^ 63" by linarith
    moreover have "MaxRawValue spec = word_of_int (field_max (plain spec))" by (simp flip: m)
    ultimately show "sint (MaxRawValue spec) = field_max (plain spec)"
      using field_max_nonneg[OF assms(1)] by (simp add: sint_word_of_int)
    have "- push_bit (unat (BitLength spec - 1)) 1 = (word_of_int (- (2 ^ (unat (BitLength spec) - 1))) :: u64)"
      using w(5) by (simp add: push_bit_eq_mult)
    then show "sint (- push_bit (unat (BitLength spec - 1)) 1 :: u64) = field_min (plain spec)"
      using s pow_width[OF w(3,4)] sint_word_of_int[of "- (2 ^ (unat (BitLength spec) - 1))"]
        less_trans[of "- (2 ^ (unat (BitLength spec) - 1))" 0 "2 ^ 63 :: int"]
      by (simp add: field_min_def)
  }
qed

definition converted :: "(rat \<Rightarrow> u64) \<Rightarrow> ScaledSpec \<Rightarrow> rat \<Rightarrow> u64" where
  "converted hw spec f = (if IsSigned spec then to_int64 hw f else to_uint64 hw (if f < 0 then 0 else f))"

lemma scaled_raw_clamps:
  assumes "spec_ok (plain spec)" and "ReservedCount spec \<noteq> 0" and "scaled_number spec x = Some f"
  shows "\<exists>w. scaled_raw hw spec x = Some w
    \<and> raw_int spec w = field_clamp (plain spec) (raw_int spec (converted hw spec f))"
proof (cases "IsSigned spec")
  case True
  note m = max_raw(2,3)[OF assms(1,2) True] field_clamp_range[OF assms(1)]
  have r: "0 < ReservedCount spec" using assms(2) by (simp add: word_gt_0)
  show ?thesis
    using True r m assms(3) by (auto simp: scaled_raw_def Let_def raw_int_def converted_def field_clamp_def)
next
  case False
  note m = max_raw(1)[OF assms(1,2)]
  have r: "0 < ReservedCount spec" using assms(2) by (simp add: word_gt_0)
  show ?thesis
    using False r m assms(3) field_max_nonneg[OF assms(1)]
    by (auto simp: scaled_raw_def raw_int_def converted_def field_clamp_def field_min_def word_less_def Let_def)
qed

text \<open>What is written for a number that truncates into the range of the field.\<close>

lemma converted_trunc:
  assumes "spec_ok (plain spec)" and "field_min (plain spec) \<le> go_trunc f" and "go_trunc f \<le> field_max (plain spec)"
  shows "raw_int spec (converted hw spec f) = go_trunc f"
proof (cases "IsSigned spec")
  case True
  note w = spec_ok_width[OF assms(1), unfolded plain_simps]
  have "- (2 ^ 63) \<le> go_trunc f" "go_trunc f < 2 ^ 63"
    using True assms(2,3) field_range(1)[OF assms(1)] pow_width[OF w(3,4)] by (simp_all add: field_min_def)
  then show ?thesis using True by (simp add: raw_int_def converted_def to_int64_def sint_word_of_int)
next
  case False
  note w = spec_ok_width[OF assms(1), unfolded plain_simps]
  have "(2 :: int) ^ unat (BitLength spec) \<le> 2 ^ 64" using w(4) by (intro power_increasing) simp_all
  then have t: "0 \<le> go_trunc f" "go_trunc f < 2 ^ 64"
    using False assms(2,3) field_range(1)[OF assms(1)] by (simp_all add: field_min_def)
  have f: "go_trunc (if f < 0 then 0 else f) = go_trunc f"
  proof (cases "f < 0")
    case True
    with t(1) have "\<lceil>f\<rceil> = 0" by (simp add: go_trunc_def) linarith
    with True show ?thesis by (simp add: go_trunc_def)
  qed simp
  show ?thesis
    using False t unat_word_of_int[OF t]
    by (simp add: raw_int_def converted_def to_uint64_def f) (metis f int_nat_eq of_nat_unat)
qed

lemma scaled_raw_trunc:
  assumes "spec_ok (plain spec)" and "ReservedCount spec \<noteq> 0" and "scaled_number spec x = Some f"
    and "field_min (plain spec) \<le> go_trunc f" and "go_trunc f \<le> field_max (plain spec)"
  shows "\<exists>w. scaled_raw hw spec x = Some w \<and> raw_int spec w = go_trunc f"
  using scaled_raw_clamps[OF assms(1-3)] converted_trunc[OF assms(1,4,5)] assms(4,5)
  by (auto simp: field_clamp_def)

section \<open>Scaled fields on the wire\<close>

lemma scaled_value_returns:
  "calcPrecision (Resolution spec) \<noteq> None \<Longrightarrow> \<exists>y. scaled_value p spec raw = Some y"
  by (auto simp: scaled_value_def Let_def)

lemma reads_ReadScaled:
  assumes "BitLength spec \<le> 64" and "calcPrecision (Resolution spec) \<noteq> None"
  shows "\<exists>f. reads (unat (BitLength spec)) (ReadScaled p (Some spec)) f"
proof -
  let ?n = "unat (BitLength spec)"
  obtain f g where f: "reads ?n (getSignedNullableNumber (plain spec)) f"
    and g: "reads ?n (getNullableNumberRaw (plain spec)) g"
    using reads_getSignedNullableNumber[of "plain spec"] reads_getNullableNumberRaw[of "plain spec"] by auto
  have "\<exists>f. reads ?n (read_scaled_raw spec) f"
    unfolding read_scaled_raw_def
    by (auto simp: Let_def intro!: reads_seqE[OF reads_getNumberRaw] reads_seqE[OF f] reads_seqE[OF g])
  then obtain h where h: "reads ?n (read_scaled_raw spec) h" ..
  have "\<exists>f. reads ?n (seqE (read_scaled_raw spec) (\<lambda>raw s. case raw of None \<Rightarrow> returnE None s
      | Some raw \<Rightarrow> (case scaled_value p spec raw of None \<Rightarrow> None | Some v \<Rightarrow> returnE (Some v) s))) f"
  proof (rule reads_seqE[OF h])
    fix v :: "int option"
    show "\<exists>x. \<forall>t. (case v of None \<Rightarrow> returnE None t | Some raw \<Rightarrow> (case scaled_value p spec raw of None \<Rightarrow> None
        | Some v \<Rightarrow> returnE (Some v) t)) = Some (x, t)"
    proof (cases v)
      case (Some raw)
      obtain y where "scaled_value p spec raw = Some y" using scaled_value_returns[OF assms(2)] by blast
      with Some show ?thesis by auto
    qed auto
  qed
  with assms(1) show ?thesis by (auto simp: ReadScaled_def dest: leD)
qed

text \<open>The value a written value is read back as.\<close>

definition scaled_back :: "(rat \<Rightarrow> u64) \<Rightarrow> nat \<Rightarrow> ScaledSpec \<Rightarrow> rat \<Rightarrow> rat" where
  "scaled_back hw p spec x = the (scaled_value p spec (raw_int spec (the (scaled_raw hw spec x))))"

lemma read_written_raw:
  assumes "spec_ok (plain spec)" and "ReservedCount spec \<noteq> 0" and "writable s (BitLength spec)"
    and "field_min (plain spec) \<le> raw_int spec w" and "raw_int spec w \<le> field_max (plain spec)"
  shows "read_scaled_raw spec (at_bit (written s (BitLength spec) w) (cursor s))
    = Some (Inr (Some (raw_int spec w)), written s (BitLength spec) w)"
proof (cases "IsSigned spec")
  case True
  then show ?thesis
    using read_signed[OF assms(1) _ _ assms(4,5) refl, of s] assms(2,3)
    by (simp add: read_scaled_raw_def seqE_def word_of_raw_int raw_int_def)
next
  case False
  then show ?thesis
    using read_unsigned[OF assms(1) _ _ assms(4,5) refl, of s] assms(2,3)
    by (simp add: read_scaled_raw_def seqE_def word_of_raw_int raw_int_def)
qed

lemma carries_scaled:
  assumes ok: "spec_ok (plain spec)" and r: "ReservedCount spec \<noteq> 0"
    and c: "calcPrecision (Resolution spec) \<noteq> None" and m: "unat (BitLength spec) = m"
  shows "carries i m (WriteScaled hw v (Some spec)) () (ReadScaled p (Some spec)) (map_option (scaled_back hw p spec) v)"
proof -
  let ?n = "BitLength spec"
  have 64: "?n \<le> 64" "\<not> 64 < ?n" using ok by (auto simp: spec_ok_def dest: leD)
  note reads = reads_ReadScaled[OF 64(1) c, of p]
  show ?thesis
  proof (cases v)
    case None
    have "WriteScaled hw v (Some spec) = putNumberRaw (MissingValue spec) ?n 0"
      using r None by (simp add: fun_eq_iff WriteScaled_def)
    moreover have "ReadScaled p (Some spec) (at_bit (written s ?n (MissingValue spec)) (cursor s))
        = Some (Inr None, written s ?n (MissingValue spec))" if "writable s ?n" for s
      using read_missing[OF ok _ _ refl, of s] that r 64(2)
      by (simp add: ReadScaled_def read_scaled_raw_def seqE_def getSignedNullableNumber_def)
    ultimately show ?thesis using carries_once[OF reads 64(1) _ m] None by simp
  next
    case (Some x)
    have "scaled_number spec x \<noteq> None" using c by (auto simp: scaled_number_def Let_def)
    then obtain f where f: "scaled_number spec x = Some f" by blast
    obtain w where w: "scaled_raw hw spec x = Some w"
      "raw_int spec w = field_clamp (plain spec) (raw_int spec (converted hw spec f))"
      using scaled_raw_clamps[OF ok r f] by blast
    have "WriteScaled hw v (Some spec) = putNumberRaw w ?n 0"
      using Some w(1) by (simp add: fun_eq_iff WriteScaled_def)
    moreover have "ReadScaled p (Some spec) (at_bit (written s ?n w) (cursor s))
        = Some (Inr (Some (scaled_back hw p spec x)), written s ?n w)" if "writable s ?n" for s
    proof -
      have "read_scaled_raw spec (at_bit (written s ?n w) (cursor s)) = Some (Inr (Some (raw_int spec w)), written s ?n w)"
        using read_written_raw[OF ok r that] w(2) field_clamp_range[OF ok] by simp
      moreover obtain y where "scaled_value p spec (raw_int spec w) = Some y"
        using scaled_value_returns[OF c] by blast
      ultimately show ?thesis using 64(2) by (simp add: ReadScaled_def seqE_def scaled_back_def w(1))
    qed
    ultimately show ?thesis using carries_once[OF reads 64(1) _ m] Some by simp
  qed
qed

lemma scaled_step:
  assumes "spec_ok (plain spec)" and "ReservedCount spec \<noteq> 0" and "calcPrecision (Resolution spec) \<noteq> None"
    and "i + unat (BitLength spec) = j"
    and "carries j m w b (k (map_option (scaled_back hw p spec) v)) x"
  shows "carries i (unat (BitLength spec) + m)
    (seqE (WriteScaled hw v (Some spec)) (\<lambda>_. w)) b (field name (ReadScaled p (Some spec)) k) x"
  by (rule carries_seq[where k = k, OF carries_scaled[OF assms(1-3) refl] assms(5)[folded assms(4)]])

section \<open>Quantities\<close>

text \<open>
  Lengths, speeds and the like are values of \<open>github.com/boatkit-io/tugboat/pkg/units\<close>, which is not part of the
  repository: the constructors (\<open>units.NewDistance(units.Meter, v)\<close>) and the conversions (\<open>v.Convert(units.Meter).Value\<close>)
  are parameters. A type of quantity goes with one unit, so the unit stands for the type switch of \<open>writeUnit\<close>.
\<close>

datatype canboat_unit = Meter | MetersPerSecond | Liter | Kelvin | Pa | LitersPerHour

record 'q units_lib =
  newUnit :: "canboat_unit \<Rightarrow> rat \<Rightarrow> 'q"
  inUnit :: "canboat_unit \<Rightarrow> 'q \<Rightarrow> rat"

definition nullableUnit :: "'q units_lib \<Rightarrow> canboat_unit \<Rightarrow> rat option \<Rightarrow> 'q option" where
  "nullableUnit lib u v = (case v of None \<Rightarrow> None | Some v \<Rightarrow> Some (newUnit lib u v))"

definition writeUnit :: "'q units_lib \<Rightarrow> (rat \<Rightarrow> u64) \<Rightarrow> canboat_unit \<Rightarrow> 'q option \<Rightarrow> ScaledSpec option
    \<Rightarrow> (DataStream, unit) step" where
  "writeUnit lib hw u value spec =
     (case value of None \<Rightarrow> WriteScaled hw None spec | Some v \<Rightarrow> WriteScaled hw (Some (inUnit lib u v)) spec)"

lemma unit_step:
  assumes "spec_ok (plain spec)" and "ReservedCount spec \<noteq> 0" and "calcPrecision (Resolution spec) \<noteq> None"
    and "i + unat (BitLength spec) = j"
    and "carries j m w b (k (map_option (scaled_back hw p spec) (map_option (inUnit lib u) v))) x"
  shows "carries i (unat (BitLength spec) + m)
    (seqE (writeUnit lib hw u v (Some spec)) (\<lambda>_. w)) b (field name (ReadScaled p (Some spec)) k) x"
proof -
  have "writeUnit lib hw u v (Some spec) = WriteScaled hw (map_option (inUnit lib u) v) (Some spec)"
    by (cases v) (simp_all add: writeUnit_def fun_eq_iff)
  with scaled_step[where k = k, OF assms] show ?thesis by simp
qed

text \<open>A quantity written and read back.\<close>

definition unit_back :: "'q units_lib \<Rightarrow> (rat \<Rightarrow> u64) \<Rightarrow> canboat_unit \<Rightarrow> ScaledSpec \<Rightarrow> 'q \<Rightarrow> 'q" where
  "unit_back lib hw u spec v = newUnit lib u (scaled_back hw 24 spec (inUnit lib u v))"

lemma unit_read:
  "nullableUnit lib u (map_option (scaled_back hw 24 spec) (map_option (inUnit lib u) v)) = map_option (unit_back lib hw u spec) v"
  by (cases v) (simp_all add: nullableUnit_def unit_back_def)

lemmas codec_steps = unsigned_step signed_step lookup_step reserved_step spare_step binary_step text_step
  scaled_step unit_step

lemmas codec_facts = go_types spec_ok_def top_value_def calcPrecision_some FieldSpec.truncate_def

section \<open>Properties\<close>


text \<open>The latitude of a position: a \<open>float64\<close>. The generator keeps resolutions as \<open>float32\<close>, which its digits show.\<close>

definition fieldSpec_PositionRapidUpdate_Latitude :: ScaledSpec where
  "fieldSpec_PositionRapidUpdate_Latitude =
     scaled_spec 32 0 0x7FFFFFFD 0x7FFFFFFF 0 True 2 (fl64 0.00000010000000116860974) (Some (- 90)) (Some 90)"

lemma latitude_resolution: "Resolution fieldSpec_PositionRapidUpdate_Latitude = 14073749 / 2 ^ 47"
  by code_simp

lemma latitude_digits: "calcPrecision (Resolution fieldSpec_PositionRapidUpdate_Latitude) = Some 7"
  using count_digits_exact[of "14073749 / 2 ^ 47" 14073749 "- 47" 7 0]
  by (simp add: calcPrecision_def latitude_resolution pow2_def)

lemma latitude_ok:
  "digits_ok fieldSpec_PositionRapidUpdate_Latitude 7" "spec_ok (plain fieldSpec_PositionRapidUpdate_Latitude)"
  using latitude_digits
  by (simp_all add: digits_ok_def latitude_resolution)
     (simp_all add: fieldSpec_PositionRapidUpdate_Latitude_def spec_ok_def top_value_def)

lemma latitude_unclamped:
  "unclamped fieldSpec_PositionRapidUpdate_Latitude 7 (- 337000000) = fl64 (- 33.7000004)"
  "unclamped fieldSpec_PositionRapidUpdate_Latitude 7 750000000 = fl64 75.0000009"
  "unclamped fieldSpec_PositionRapidUpdate_Latitude 7 5 = fl64 0.0000005"
  unfolding unclamped_def latitude_resolution by code_simp+

lemma latitude_clamp:
  "\<bar>x\<bar> \<le> 90 \<Longrightarrow> clamp_domain fieldSpec_PositionRapidUpdate_Latitude x = x"
  by (auto simp: clamp_domain_def fieldSpec_PositionRapidUpdate_Latitude_def abs_le_iff)

lemma fl_bounded:
  assumes "\<bar>x\<bar> \<le> 89"
  shows "\<bar>fl64 x\<bar> \<le> 89.5" and "\<bar>fl64 (fl64 x)\<bar> \<le> 90"
proof -
  have "\<bar>fl64 x\<bar> \<le> 89 + 89 / 9007199254740992" using fl64_near[of x 0 89] assms by simp
  moreover have "\<bar>fl64 (fl64 x)\<bar> \<le> \<bar>fl64 x\<bar> + \<bar>fl64 x\<bar> / 9007199254740992"
    using fl64_near[of "fl64 x" 0 "\<bar>fl64 x\<bar>"] by simp
  ultimately show "\<bar>fl64 x\<bar> \<le> 89.5" "\<bar>fl64 (fl64 x)\<bar> \<le> 90" by linarith+
qed


text \<open>
  A latitude is not preserved: the resolution, rounded to a \<open>float32\<close>, puts 75 degrees 0.0000009 degrees
  (ten centimetres) off, and the raw value 5, read as 0.0000005, is written again as 4.
\<close>

theorem latitude_drifts:
  "(\<exists>x. scaled_value 53 fieldSpec_PositionRapidUpdate_Latitude 750000000 = Some x \<and> x > 75 + 8 / 10 ^ 7)
   \<and> (\<exists>x. scaled_value 53 fieldSpec_PositionRapidUpdate_Latitude 5 = Some x \<and> \<bar>x - 5 / 10 ^ 7\<bar> < 1 / 10 ^ 15
        \<and> (\<exists>f. scaled_number fieldSpec_PositionRapidUpdate_Latitude x = Some f \<and> go_trunc f = 4))"
proof -
  let ?spec = fieldSpec_PositionRapidUpdate_Latitude
  have r: "scaled_value 53 ?spec raw = Some (fl64 (fl64 x))"
    if "unclamped ?spec 7 raw = fl64 x" "\<bar>x\<bar> \<le> 89" for raw x
  proof -
    have "clamp_domain ?spec (fl64 x) = fl64 x" using fl_bounded(1)[OF that(2)] by (intro latitude_clamp) simp
    then show ?thesis using scaled_value_eq[OF latitude_ok(1), of raw 53] that(1) by simp
  qed
  let ?x = "fl64 (fl64 0.0000005)"
  have "\<bar>?x - 5 / 10 ^ 7\<bar> < 1 / 10 ^ 15" "fl64 (fl64 75.0000009) > 75 + 8 / 10 ^ 7" by code_simp+
  moreover have "scaled_number ?spec ?x = Some (roundFloat (fl64 (fl64 ?x / (14073749 / 2 ^ 47))) 7)"
  proof -
    have "clamp_domain ?spec ?x = ?x" using fl_bounded(2)[of "0.0000005"] by (intro latitude_clamp) simp
    moreover have "Offset ?spec = 0" by (simp add: fieldSpec_PositionRapidUpdate_Latitude_def)
    ultimately show ?thesis using latitude_digits by (simp add: scaled_number_def latitude_resolution)
  qed
  moreover have "go_trunc (roundFloat (fl64 (fl64 ?x / (14073749 / 2 ^ 47))) 7) = 4" by code_simp
  ultimately show ?thesis using r[OF latitude_unclamped(2)] r[OF latitude_unclamped(3)] by auto
qed

end
