(* ===== verification/Pgnmanagement.thy ===== *)
theory Pgnmanagement
  imports Scaled
begin

text \<open>
  Messages of network management and alerts, and the unstructured messages of the PGN ranges without a definition.
  Each subsection has the field specifications of a message (\<open>fieldspec_vars_generated.go\<close>), its struct
  (\<open>pkg/pgn/types_generated.go\<close>), its decoder and its encoder (\<open>decoders_generated.go\<close>,
  \<open>encoders_generated.go\<close>); the function \<open>_received\<close> says what a struct is after the wire:
  an integer clamped to its field (\<open>pin\<close>), an enumeration cut to its width, bytes cut and filled up, text
  cut at its padding, a scaled number or a quantity rounded to the resolution of its field
  (\<open>scaled_back\<close>, \<open>unit_back\<close>). The lemma \<open>_codec\<close> says that the pair satisfies
  the contract \<open>codec\<close>. \<open>hw\<close> is what the processor makes of a float that no
  \<open>uint64\<close> holds, \<open>lib\<close> the package \<open>units\<close>, which is not part of this
  repository.
\<close>

section \<open>Messages\<close>

subsection \<open>ZeroXe8000Xee00StandardizedSingleFrameAddressed\<close>

record ZeroXe8000Xee00StandardizedSingleFrameAddressed =
  ZeroXe8000Xee00StandardizedSingleFrameAddressed_Info :: MessageInfo
  ZeroXe8000Xee00StandardizedSingleFrameAddressed_Data :: bytes

definition DecodeZeroXe8000Xee00StandardizedSingleFrameAddressed :: "MessageInfo \<Rightarrow> (DataStream, ZeroXe8000Xee00StandardizedSingleFrameAddressed) step" where
  "DecodeZeroXe8000Xee00StandardizedSingleFrameAddressed info =
     field ''ZeroXe8000Xee00StandardizedSingleFrameAddressed-Data'' (readBinaryData 64) (\<lambda>v1.
     returnE \<lparr>ZeroXe8000Xee00StandardizedSingleFrameAddressed_Info = info,
       ZeroXe8000Xee00StandardizedSingleFrameAddressed_Data = v1\<rparr>)"

definition EncodeZeroXe8000Xee00StandardizedSingleFrameAddressed :: "gotime \<Rightarrow> ZeroXe8000Xee00StandardizedSingleFrameAddressed \<Rightarrow> (DataStream, MessageInfo) step" where
  "EncodeZeroXe8000Xee00StandardizedSingleFrameAddressed now p =
     seqE (writeBinary (ZeroXe8000Xee00StandardizedSingleFrameAddressed_Data p) 64 0) (\<lambda>_.
     returnE (finish_info now 59392 (ZeroXe8000Xee00StandardizedSingleFrameAddressed_Info p)))"

definition ZeroXe8000Xee00StandardizedSingleFrameAddressed_received :: "MessageInfo \<Rightarrow> ZeroXe8000Xee00StandardizedSingleFrameAddressed \<Rightarrow> ZeroXe8000Xee00StandardizedSingleFrameAddressed" where
  "ZeroXe8000Xee00StandardizedSingleFrameAddressed_received info p = \<lparr>ZeroXe8000Xee00StandardizedSingleFrameAddressed_Info = info,
     ZeroXe8000Xee00StandardizedSingleFrameAddressed_Data = take 8 (ZeroXe8000Xee00StandardizedSingleFrameAddressed_Data p @ replicate 8 0)\<rparr>"

lemma ZeroXe8000Xee00StandardizedSingleFrameAddressed_codec: "codec EncodeZeroXe8000Xee00StandardizedSingleFrameAddressed DecodeZeroXe8000Xee00StandardizedSingleFrameAddressed ZeroXe8000Xee00StandardizedSingleFrameAddressed_Info 59392 8
    (\<lambda>p. length (ZeroXe8000Xee00StandardizedSingleFrameAddressed_Data p) < 65000) ZeroXe8000Xee00StandardizedSingleFrameAddressed_received"
  unfolding EncodeZeroXe8000Xee00StandardizedSingleFrameAddressed_def DecodeZeroXe8000Xee00StandardizedSingleFrameAddressed_def ZeroXe8000Xee00StandardizedSingleFrameAddressed_received_def
  by (rule codec.intro, rule carries_cong, (rule codec_steps carries_end
      | simp add: codec_facts pin_read lookup_read lookup_read_1 unit_read )+)

subsection \<open>ISOAcknowledgement\<close>

definition fieldSpec_ISOAcknowledgement_GroupFunction :: FieldSpec where
  "fieldSpec_ISOAcknowledgement_GroupFunction = unsigned_spec 8 8 0xFD 0xFF 2"

definition fieldSpec_ISOAcknowledgement_PGN :: FieldSpec where
  "fieldSpec_ISOAcknowledgement_PGN = unsigned_spec 24 40 0xFFFFFD 0xFFFFFF 2"

definition DecodeISOAcknowledgement :: "MessageInfo \<Rightarrow> (DataStream, ISOAcknowledgement) step" where
  "DecodeISOAcknowledgement info =
     field ''ISOAcknowledgement-Control'' (readLookupField 8) (\<lambda>v1.
     field ''ISOAcknowledgement-GroupFunction'' (ReadRaw go_uint8 (Some fieldSpec_ISOAcknowledgement_GroupFunction)) (\<lambda>v2.
     skip 24 (
     field ''ISOAcknowledgement-PGN'' (ReadRaw go_uint32 (Some fieldSpec_ISOAcknowledgement_PGN)) (\<lambda>v4.
     returnE \<lparr>iak_Info = info,
       iak_Control = ucast v1,
       iak_GroupFunction = map_option of_int v2,
       iak_PGN = map_option of_int v4\<rparr>))))"

definition EncodeISOAcknowledgement :: "gotime \<Rightarrow> ISOAcknowledgement \<Rightarrow> (DataStream, MessageInfo) step" where
  "EncodeISOAcknowledgement now p =
     seqE (putNumberRaw (ucast (iak_Control p)) 8 0) (\<lambda>_.
     seqE (WriteRaw (map_option uint (iak_GroupFunction p)) (Some fieldSpec_ISOAcknowledgement_GroupFunction)) (\<lambda>_.
     seqE (writeReserved 24 16) (\<lambda>_.
     seqE (WriteRaw (map_option uint (iak_PGN p)) (Some fieldSpec_ISOAcknowledgement_PGN)) (\<lambda>_.
     returnE (finish_info now 59392 (iak_Info p))))))"

definition ISOAcknowledgement_received :: "MessageInfo \<Rightarrow> ISOAcknowledgement \<Rightarrow> ISOAcknowledgement" where
  "ISOAcknowledgement_received info p = \<lparr>iak_Info = info,
     iak_Control = take_bit 8 (iak_Control p),
     iak_GroupFunction = pin fieldSpec_ISOAcknowledgement_GroupFunction (iak_GroupFunction p),
     iak_PGN = pin fieldSpec_ISOAcknowledgement_PGN (iak_PGN p)\<rparr>"

lemma ISOAcknowledgement_codec: "codec EncodeISOAcknowledgement DecodeISOAcknowledgement iak_Info 59392 8
    (\<lambda>_. True) ISOAcknowledgement_received"
  unfolding EncodeISOAcknowledgement_def DecodeISOAcknowledgement_def ISOAcknowledgement_received_def
  by (rule codec.intro, rule carries_cong, (rule codec_steps carries_end
      | simp add: codec_facts pin_read lookup_read lookup_read_1 unit_read fieldSpec_ISOAcknowledgement_GroupFunction_def fieldSpec_ISOAcknowledgement_PGN_def)+)

subsection \<open>ISORequest\<close>

definition fieldSpec_ISORequest_PGN :: FieldSpec where
  "fieldSpec_ISORequest_PGN = unsigned_spec 24 0 0xFFFFFD 0xFFFFFF 2"

definition DecodeISORequest :: "MessageInfo \<Rightarrow> (DataStream, ISORequest) step" where
  "DecodeISORequest info =
     field ''ISORequest-PGN'' (ReadRaw go_uint32 (Some fieldSpec_ISORequest_PGN)) (\<lambda>v1.
     returnE \<lparr>irq_Info = info,
       irq_PGN = map_option of_int v1\<rparr>)"

definition EncodeISORequest :: "gotime \<Rightarrow> ISORequest \<Rightarrow> (DataStream, MessageInfo) step" where
  "EncodeISORequest now p =
     seqE (WriteRaw (map_option uint (irq_PGN p)) (Some fieldSpec_ISORequest_PGN)) (\<lambda>_.
     returnE (finish_info now 59904 (irq_Info p)))"

definition ISORequest_received :: "MessageInfo \<Rightarrow> ISORequest \<Rightarrow> ISORequest" where
  "ISORequest_received info p = \<lparr>irq_Info = info,
     irq_PGN = pin fieldSpec_ISORequest_PGN (irq_PGN p)\<rparr>"

lemma ISORequest_codec: "codec EncodeISORequest DecodeISORequest irq_Info 59904 3
    (\<lambda>_. True) ISORequest_received"
  unfolding EncodeISORequest_def DecodeISORequest_def ISORequest_received_def
  by (rule codec.intro, rule carries_cong, (rule codec_steps carries_end
      | simp add: codec_facts pin_read lookup_read lookup_read_1 unit_read fieldSpec_ISORequest_PGN_def)+)

subsection \<open>ISOTransportProtocolDataTransfer\<close>

definition fieldSpec_ISOTransportProtocolDataTransfer_SID :: FieldSpec where
  "fieldSpec_ISOTransportProtocolDataTransfer_SID = unsigned_spec 8 0 0xFD 0xFF 2"

record ISOTransportProtocolDataTransfer =
  ISOTransportProtocolDataTransfer_Info :: MessageInfo
  ISOTransportProtocolDataTransfer_SID :: "u8 option"
  ISOTransportProtocolDataTransfer_Data :: bytes

definition DecodeISOTransportProtocolDataTransfer :: "MessageInfo \<Rightarrow> (DataStream, ISOTransportProtocolDataTransfer) step" where
  "DecodeISOTransportProtocolDataTransfer info =
     field ''ISOTransportProtocolDataTransfer-SID'' (ReadRaw go_uint8 (Some fieldSpec_ISOTransportProtocolDataTransfer_SID)) (\<lambda>v1.
     field ''ISOTransportProtocolDataTransfer-Data'' (readBinaryData 56) (\<lambda>v2.
     returnE \<lparr>ISOTransportProtocolDataTransfer_Info = info,
       ISOTransportProtocolDataTransfer_SID = map_option of_int v1,
       ISOTransportProtocolDataTransfer_Data = v2\<rparr>))"

definition EncodeISOTransportProtocolDataTransfer :: "gotime \<Rightarrow> ISOTransportProtocolDataTransfer \<Rightarrow> (DataStream, MessageInfo) step" where
  "EncodeISOTransportProtocolDataTransfer now p =
     seqE (WriteRaw (map_option uint (ISOTransportProtocolDataTransfer_SID p)) (Some fieldSpec_ISOTransportProtocolDataTransfer_SID)) (\<lambda>_.
     seqE (writeBinary (ISOTransportProtocolDataTransfer_Data p) 56 8) (\<lambda>_.
     returnE (finish_info now 60160 (ISOTransportProtocolDataTransfer_Info p))))"

definition ISOTransportProtocolDataTransfer_received :: "MessageInfo \<Rightarrow> ISOTransportProtocolDataTransfer \<Rightarrow> ISOTransportProtocolDataTransfer" where
  "ISOTransportProtocolDataTransfer_received info p = \<lparr>ISOTransportProtocolDataTransfer_Info = info,
     ISOTransportProtocolDataTransfer_SID = pin fieldSpec_ISOTransportProtocolDataTransfer_SID (ISOTransportProtocolDataTransfer_SID p),
     ISOTransportProtocolDataTransfer_Data = take 7 (ISOTransportProtocolDataTransfer_Data p @ replicate 7 0)\<rparr>"

lemma ISOTransportProtocolDataTransfer_codec: "codec EncodeISOTransportProtocolDataTransfer DecodeISOTransportProtocolDataTransfer ISOTransportProtocolDataTransfer_Info 60160 8
    (\<lambda>p. length (ISOTransportProtocolDataTransfer_Data p) < 65000) ISOTransportProtocolDataTransfer_received"
  unfolding EncodeISOTransportProtocolDataTransfer_def DecodeISOTransportProtocolDataTransfer_def ISOTransportProtocolDataTransfer_received_def
  by (rule codec.intro, rule carries_cong, (rule codec_steps carries_end
      | simp add: codec_facts pin_read lookup_read lookup_read_1 unit_read fieldSpec_ISOTransportProtocolDataTransfer_SID_def)+)

subsection \<open>ISOAddressClaim\<close>

definition fieldSpec_ISOAddressClaim_UniqueNumber :: FieldSpec where
  "fieldSpec_ISOAddressClaim_UniqueNumber = unsigned_spec 21 0 0x1FFFFD 0x1FFFFF 2"

definition fieldSpec_ISOAddressClaim_DeviceInstanceLower :: FieldSpec where
  "fieldSpec_ISOAddressClaim_DeviceInstanceLower = unsigned_spec 3 32 0x6 0x7 1"

definition fieldSpec_ISOAddressClaim_DeviceInstanceUpper :: FieldSpec where
  "fieldSpec_ISOAddressClaim_DeviceInstanceUpper = unsigned_spec 5 35 0x1D 0x1F 2"

definition fieldSpec_ISOAddressClaim_SystemInstance :: FieldSpec where
  "fieldSpec_ISOAddressClaim_SystemInstance = unsigned_spec 4 56 0xD 0xF 2"

definition DecodeISOAddressClaim :: "MessageInfo \<Rightarrow> (DataStream, ISOAddressClaim) step" where
  "DecodeISOAddressClaim info =
     field ''ISOAddressClaim-UniqueNumber'' (ReadRaw go_uint32 (Some fieldSpec_ISOAddressClaim_UniqueNumber)) (\<lambda>v1.
     field ''ISOAddressClaim-ManufacturerCode'' (readLookupField 11) (\<lambda>v2.
     field ''ISOAddressClaim-DeviceInstanceLower'' (ReadRaw go_uint8 (Some fieldSpec_ISOAddressClaim_DeviceInstanceLower)) (\<lambda>v3.
     field ''ISOAddressClaim-DeviceInstanceUpper'' (ReadRaw go_uint8 (Some fieldSpec_ISOAddressClaim_DeviceInstanceUpper)) (\<lambda>v4.
     field ''ISOAddressClaim-DeviceFunction'' (readLookupField 8) (\<lambda>v5.
     skip 1 (
     field ''ISOAddressClaim-DeviceClass'' (readLookupField 7) (\<lambda>v7.
     field ''ISOAddressClaim-SystemInstance'' (ReadRaw go_uint8 (Some fieldSpec_ISOAddressClaim_SystemInstance)) (\<lambda>v8.
     field ''ISOAddressClaim-IndustryGroup'' (readLookupField 3) (\<lambda>v9.
     field ''ISOAddressClaim-ArbitraryAddressCapable'' (readLookupField 1) (\<lambda>v10.
     returnE \<lparr>clm_Info = info,
       clm_UniqueNumber = map_option of_int v1,
       clm_ManufacturerCode = ucast v2,
       clm_DeviceInstanceLower = map_option of_int v3,
       clm_DeviceInstanceUpper = map_option of_int v4,
       clm_DeviceFunction = ucast v5,
       clm_DeviceClass = ucast v7,
       clm_SystemInstance = map_option of_int v8,
       clm_IndustryGroup = ucast v9,
       clm_ArbitraryAddressCapable = ucast v10\<rparr>))))))))))"

definition EncodeISOAddressClaim :: "gotime \<Rightarrow> ISOAddressClaim \<Rightarrow> (DataStream, MessageInfo) step" where
  "EncodeISOAddressClaim now p =
     seqE (WriteRaw (map_option uint (clm_UniqueNumber p)) (Some fieldSpec_ISOAddressClaim_UniqueNumber)) (\<lambda>_.
     seqE (putNumberRaw (ucast (clm_ManufacturerCode p)) 11 21) (\<lambda>_.
     seqE (WriteRaw (map_option uint (clm_DeviceInstanceLower p)) (Some fieldSpec_ISOAddressClaim_DeviceInstanceLower)) (\<lambda>_.
     seqE (WriteRaw (map_option uint (clm_DeviceInstanceUpper p)) (Some fieldSpec_ISOAddressClaim_DeviceInstanceUpper)) (\<lambda>_.
     seqE (putNumberRaw (ucast (clm_DeviceFunction p)) 8 40) (\<lambda>_.
     seqE (writeSpare 1 48) (\<lambda>_.
     seqE (putNumberRaw (ucast (clm_DeviceClass p)) 7 49) (\<lambda>_.
     seqE (WriteRaw (map_option uint (clm_SystemInstance p)) (Some fieldSpec_ISOAddressClaim_SystemInstance)) (\<lambda>_.
     seqE (putNumberRaw (ucast (clm_IndustryGroup p)) 3 60) (\<lambda>_.
     seqE (putNumberRaw (ucast (clm_ArbitraryAddressCapable p)) 1 63) (\<lambda>_.
     returnE (finish_info now 60928 (clm_Info p))))))))))))"

definition ISOAddressClaim_received :: "MessageInfo \<Rightarrow> ISOAddressClaim \<Rightarrow> ISOAddressClaim" where
  "ISOAddressClaim_received info p = \<lparr>clm_Info = info,
     clm_UniqueNumber = pin fieldSpec_ISOAddressClaim_UniqueNumber (clm_UniqueNumber p),
     clm_ManufacturerCode = take_bit 11 (clm_ManufacturerCode p),
     clm_DeviceInstanceLower = pin fieldSpec_ISOAddressClaim_DeviceInstanceLower (clm_DeviceInstanceLower p),
     clm_DeviceInstanceUpper = pin fieldSpec_ISOAddressClaim_DeviceInstanceUpper (clm_DeviceInstanceUpper p),
     clm_DeviceFunction = take_bit 8 (clm_DeviceFunction p),
     clm_DeviceClass = take_bit 7 (clm_DeviceClass p),
     clm_SystemInstance = pin fieldSpec_ISOAddressClaim_SystemInstance (clm_SystemInstance p),
     clm_IndustryGroup = take_bit 3 (clm_IndustryGroup p),
     clm_ArbitraryAddressCapable = take_bit 1 (clm_ArbitraryAddressCapable p)\<rparr>"

lemma ISOAddressClaim_codec: "codec EncodeISOAddressClaim DecodeISOAddressClaim clm_Info 60928 8
    (\<lambda>_. True) ISOAddressClaim_received"
  unfolding EncodeISOAddressClaim_def DecodeISOAddressClaim_def ISOAddressClaim_received_def
  by (rule codec.intro, rule carries_cong, (rule codec_steps carries_end
      | simp add: codec_facts pin_read lookup_read lookup_read_1 unit_read fieldSpec_ISOAddressClaim_UniqueNumber_def fieldSpec_ISOAddressClaim_DeviceInstanceLower_def fieldSpec_ISOAddressClaim_DeviceInstanceUpper_def fieldSpec_ISOAddressClaim_SystemInstance_def)+)

subsection \<open>ZeroXef00ManufacturerProprietarySingleFrameAddressed\<close>

record ZeroXef00ManufacturerProprietarySingleFrameAddressed =
  ZeroXef00ManufacturerProprietarySingleFrameAddressed_Info :: MessageInfo
  ZeroXef00ManufacturerProprietarySingleFrameAddressed_ManufacturerCode :: u16
  ZeroXef00ManufacturerProprietarySingleFrameAddressed_IndustryCode :: u8
  ZeroXef00ManufacturerProprietarySingleFrameAddressed_Data :: bytes

definition DecodeZeroXef00ManufacturerProprietarySingleFrameAddressed :: "MessageInfo \<Rightarrow> (DataStream, ZeroXef00ManufacturerProprietarySingleFrameAddressed) step" where
  "DecodeZeroXef00ManufacturerProprietarySingleFrameAddressed info =
     field ''ZeroXef00ManufacturerProprietarySingleFrameAddressed-ManufacturerCode'' (readLookupField 11) (\<lambda>v1.
     skip 2 (
     field ''ZeroXef00ManufacturerProprietarySingleFrameAddressed-IndustryCode'' (readLookupField 3) (\<lambda>v3.
     field ''ZeroXef00ManufacturerProprietarySingleFrameAddressed-Data'' (readBinaryData 48) (\<lambda>v4.
     returnE \<lparr>ZeroXef00ManufacturerProprietarySingleFrameAddressed_Info = info,
       ZeroXef00ManufacturerProprietarySingleFrameAddressed_ManufacturerCode = ucast v1,
       ZeroXef00ManufacturerProprietarySingleFrameAddressed_IndustryCode = ucast v3,
       ZeroXef00ManufacturerProprietarySingleFrameAddressed_Data = v4\<rparr>))))"

definition EncodeZeroXef00ManufacturerProprietarySingleFrameAddressed :: "gotime \<Rightarrow> ZeroXef00ManufacturerProprietarySingleFrameAddressed \<Rightarrow> (DataStream, MessageInfo) step" where
  "EncodeZeroXef00ManufacturerProprietarySingleFrameAddressed now p =
     seqE (putNumberRaw (ucast (ZeroXef00ManufacturerProprietarySingleFrameAddressed_ManufacturerCode p)) 11 0) (\<lambda>_.
     seqE (writeReserved 2 11) (\<lambda>_.
     seqE (putNumberRaw (ucast (ZeroXef00ManufacturerProprietarySingleFrameAddressed_IndustryCode p)) 3 13) (\<lambda>_.
     seqE (writeBinary (ZeroXef00ManufacturerProprietarySingleFrameAddressed_Data p) 48 16) (\<lambda>_.
     returnE (finish_info now 61184 (ZeroXef00ManufacturerProprietarySingleFrameAddressed_Info p))))))"

definition ZeroXef00ManufacturerProprietarySingleFrameAddressed_received :: "MessageInfo \<Rightarrow> ZeroXef00ManufacturerProprietarySingleFrameAddressed \<Rightarrow> ZeroXef00ManufacturerProprietarySingleFrameAddressed" where
  "ZeroXef00ManufacturerProprietarySingleFrameAddressed_received info p = \<lparr>ZeroXef00ManufacturerProprietarySingleFrameAddressed_Info = info,
     ZeroXef00ManufacturerProprietarySingleFrameAddressed_ManufacturerCode = take_bit 11 (ZeroXef00ManufacturerProprietarySingleFrameAddressed_ManufacturerCode p),
     ZeroXef00ManufacturerProprietarySingleFrameAddressed_IndustryCode = take_bit 3 (ZeroXef00ManufacturerProprietarySingleFrameAddressed_IndustryCode p),
     ZeroXef00ManufacturerProprietarySingleFrameAddressed_Data = take 6 (ZeroXef00ManufacturerProprietarySingleFrameAddressed_Data p @ replicate 6 0)\<rparr>"

lemma ZeroXef00ManufacturerProprietarySingleFrameAddressed_codec: "codec EncodeZeroXef00ManufacturerProprietarySingleFrameAddressed DecodeZeroXef00ManufacturerProprietarySingleFrameAddressed ZeroXef00ManufacturerProprietarySingleFrameAddressed_Info 61184 8
    (\<lambda>p. length (ZeroXef00ManufacturerProprietarySingleFrameAddressed_Data p) < 65000) ZeroXef00ManufacturerProprietarySingleFrameAddressed_received"
  unfolding EncodeZeroXef00ManufacturerProprietarySingleFrameAddressed_def DecodeZeroXef00ManufacturerProprietarySingleFrameAddressed_def ZeroXef00ManufacturerProprietarySingleFrameAddressed_received_def
  by (rule codec.intro, rule carries_cong, (rule codec_steps carries_end
      | simp add: codec_facts pin_read lookup_read lookup_read_1 unit_read )+)

subsection \<open>ZeroXf0000XfeffStandardizedSingleFrameNonAddressed\<close>

record ZeroXf0000XfeffStandardizedSingleFrameNonAddressed =
  ZeroXf0000XfeffStandardizedSingleFrameNonAddressed_Info :: MessageInfo
  ZeroXf0000XfeffStandardizedSingleFrameNonAddressed_ManufacturerCode :: u16
  ZeroXf0000XfeffStandardizedSingleFrameNonAddressed_IndustryCode :: u8
  ZeroXf0000XfeffStandardizedSingleFrameNonAddressed_Data :: bytes

definition DecodeZeroXf0000XfeffStandardizedSingleFrameNonAddressed :: "MessageInfo \<Rightarrow> (DataStream, ZeroXf0000XfeffStandardizedSingleFrameNonAddressed) step" where
  "DecodeZeroXf0000XfeffStandardizedSingleFrameNonAddressed info =
     field ''ZeroXf0000XfeffStandardizedSingleFrameNonAddressed-ManufacturerCode'' (readLookupField 11) (\<lambda>v1.
     skip 2 (
     field ''ZeroXf0000XfeffStandardizedSingleFrameNonAddressed-IndustryCode'' (readLookupField 3) (\<lambda>v3.
     field ''ZeroXf0000XfeffStandardizedSingleFrameNonAddressed-Data'' (readBinaryData 48) (\<lambda>v4.
     returnE \<lparr>ZeroXf0000XfeffStandardizedSingleFrameNonAddressed_Info = info,
       ZeroXf0000XfeffStandardizedSingleFrameNonAddressed_ManufacturerCode = ucast v1,
       ZeroXf0000XfeffStandardizedSingleFrameNonAddressed_IndustryCode = ucast v3,
       ZeroXf0000XfeffStandardizedSingleFrameNonAddressed_Data = v4\<rparr>))))"

definition EncodeZeroXf0000XfeffStandardizedSingleFrameNonAddressed :: "gotime \<Rightarrow> ZeroXf0000XfeffStandardizedSingleFrameNonAddressed \<Rightarrow> (DataStream, MessageInfo) step" where
  "EncodeZeroXf0000XfeffStandardizedSingleFrameNonAddressed now p =
     seqE (putNumberRaw (ucast (ZeroXf0000XfeffStandardizedSingleFrameNonAddressed_ManufacturerCode p)) 11 0) (\<lambda>_.
     seqE (writeReserved 2 11) (\<lambda>_.
     seqE (putNumberRaw (ucast (ZeroXf0000XfeffStandardizedSingleFrameNonAddressed_IndustryCode p)) 3 13) (\<lambda>_.
     seqE (writeBinary (ZeroXf0000XfeffStandardizedSingleFrameNonAddressed_Data p) 48 16) (\<lambda>_.
     returnE (finish_info now 61440 (ZeroXf0000XfeffStandardizedSingleFrameNonAddressed_Info p))))))"

definition ZeroXf0000XfeffStandardizedSingleFrameNonAddressed_received :: "MessageInfo \<Rightarrow> ZeroXf0000XfeffStandardizedSingleFrameNonAddressed \<Rightarrow> ZeroXf0000XfeffStandardizedSingleFrameNonAddressed" where
  "ZeroXf0000XfeffStandardizedSingleFrameNonAddressed_received info p = \<lparr>ZeroXf0000XfeffStandardizedSingleFrameNonAddressed_Info = info,
     ZeroXf0000XfeffStandardizedSingleFrameNonAddressed_ManufacturerCode = take_bit 11 (ZeroXf0000XfeffStandardizedSingleFrameNonAddressed_ManufacturerCode p),
     ZeroXf0000XfeffStandardizedSingleFrameNonAddressed_IndustryCode = take_bit 3 (ZeroXf0000XfeffStandardizedSingleFrameNonAddressed_IndustryCode p),
     ZeroXf0000XfeffStandardizedSingleFrameNonAddressed_Data = take 6 (ZeroXf0000XfeffStandardizedSingleFrameNonAddressed_Data p @ replicate 6 0)\<rparr>"

lemma ZeroXf0000XfeffStandardizedSingleFrameNonAddressed_codec: "codec EncodeZeroXf0000XfeffStandardizedSingleFrameNonAddressed DecodeZeroXf0000XfeffStandardizedSingleFrameNonAddressed ZeroXf0000XfeffStandardizedSingleFrameNonAddressed_Info 61440 8
    (\<lambda>p. length (ZeroXf0000XfeffStandardizedSingleFrameNonAddressed_Data p) < 65000) ZeroXf0000XfeffStandardizedSingleFrameNonAddressed_received"
  unfolding EncodeZeroXf0000XfeffStandardizedSingleFrameNonAddressed_def DecodeZeroXf0000XfeffStandardizedSingleFrameNonAddressed_def ZeroXf0000XfeffStandardizedSingleFrameNonAddressed_received_def
  by (rule codec.intro, rule carries_cong, (rule codec_steps carries_end
      | simp add: codec_facts pin_read lookup_read lookup_read_1 unit_read )+)

subsection \<open>ZeroXff000XffffManufacturerProprietarySingleFrameNonAddressed\<close>

record ZeroXff000XffffManufacturerProprietarySingleFrameNonAddressed =
  ZeroXff000XffffManufacturerProprietarySingleFrameNonAddressed_Info :: MessageInfo
  ZeroXff000XffffManufacturerProprietarySingleFrameNonAddressed_ManufacturerCode :: u16
  ZeroXff000XffffManufacturerProprietarySingleFrameNonAddressed_IndustryCode :: u8
  ZeroXff000XffffManufacturerProprietarySingleFrameNonAddressed_Data :: bytes

definition DecodeZeroXff000XffffManufacturerProprietarySingleFrameNonAddressed :: "MessageInfo \<Rightarrow> (DataStream, ZeroXff000XffffManufacturerProprietarySingleFrameNonAddressed) step" where
  "DecodeZeroXff000XffffManufacturerProprietarySingleFrameNonAddressed info =
     field ''ZeroXff000XffffManufacturerProprietarySingleFrameNonAddressed-ManufacturerCode'' (readLookupField 11) (\<lambda>v1.
     skip 2 (
     field ''ZeroXff000XffffManufacturerProprietarySingleFrameNonAddressed-IndustryCode'' (readLookupField 3) (\<lambda>v3.
     field ''ZeroXff000XffffManufacturerProprietarySingleFrameNonAddressed-Data'' (readBinaryData 48) (\<lambda>v4.
     returnE \<lparr>ZeroXff000XffffManufacturerProprietarySingleFrameNonAddressed_Info = info,
       ZeroXff000XffffManufacturerProprietarySingleFrameNonAddressed_ManufacturerCode = ucast v1,
       ZeroXff000XffffManufacturerProprietarySingleFrameNonAddressed_IndustryCode = ucast v3,
       ZeroXff000XffffManufacturerProprietarySingleFrameNonAddressed_Data = v4\<rparr>))))"

definition EncodeZeroXff000XffffManufacturerProprietarySingleFrameNonAddressed :: "gotime \<Rightarrow> ZeroXff000XffffManufacturerProprietarySingleFrameNonAddressed \<Rightarrow> (DataStream, MessageInfo) step" where
  "EncodeZeroXff000XffffManufacturerProprietarySingleFrameNonAddressed now p =
     seqE (putNumberRaw (ucast (ZeroXff000XffffManufacturerProprietarySingleFrameNonAddressed_ManufacturerCode p)) 11 0) (\<lambda>_.
     seqE (writeReserved 2 11) (\<lambda>_.
     seqE (putNumberRaw (ucast (ZeroXff000XffffManufacturerProprietarySingleFrameNonAddressed_IndustryCode p)) 3 13) (\<lambda>_.
     seqE (writeBinary (ZeroXff000XffffManufacturerProprietarySingleFrameNonAddressed_Data p) 48 16) (\<lambda>_.
     returnE (finish_info now 65280 (ZeroXff000XffffManufacturerProprietarySingleFrameNonAddressed_Info p))))))"

definition ZeroXff000XffffManufacturerProprietarySingleFrameNonAddressed_received :: "MessageInfo \<Rightarrow> ZeroXff000XffffManufacturerProprietarySingleFrameNonAddressed \<Rightarrow> ZeroXff000XffffManufacturerProprietarySingleFrameNonAddressed" where
  "ZeroXff000XffffManufacturerProprietarySingleFrameNonAddressed_received info p = \<lparr>ZeroXff000XffffManufacturerProprietarySingleFrameNonAddressed_Info = info,
     ZeroXff000XffffManufacturerProprietarySingleFrameNonAddressed_ManufacturerCode = take_bit 11 (ZeroXff000XffffManufacturerProprietarySingleFrameNonAddressed_ManufacturerCode p),
     ZeroXff000XffffManufacturerProprietarySingleFrameNonAddressed_IndustryCode = take_bit 3 (ZeroXff000XffffManufacturerProprietarySingleFrameNonAddressed_IndustryCode p),
     ZeroXff000XffffManufacturerProprietarySingleFrameNonAddressed_Data = take 6 (ZeroXff000XffffManufacturerProprietarySingleFrameNonAddressed_Data p @ replicate 6 0)\<rparr>"

lemma ZeroXff000XffffManufacturerProprietarySingleFrameNonAddressed_codec: "codec EncodeZeroXff000XffffManufacturerProprietarySingleFrameNonAddressed DecodeZeroXff000XffffManufacturerProprietarySingleFrameNonAddressed ZeroXff000XffffManufacturerProprietarySingleFrameNonAddressed_Info 65280 8
    (\<lambda>p. length (ZeroXff000XffffManufacturerProprietarySingleFrameNonAddressed_Data p) < 65000) ZeroXff000XffffManufacturerProprietarySingleFrameNonAddressed_received"
  unfolding EncodeZeroXff000XffffManufacturerProprietarySingleFrameNonAddressed_def DecodeZeroXff000XffffManufacturerProprietarySingleFrameNonAddressed_def ZeroXff000XffffManufacturerProprietarySingleFrameNonAddressed_received_def
  by (rule codec.intro, rule carries_cong, (rule codec_steps carries_end
      | simp add: codec_facts pin_read lookup_read lookup_read_1 unit_read )+)

subsection \<open>ZeroX1Ed000X1Ee00StandardizedFastPacketAddressed\<close>

record ZeroX1Ed000X1Ee00StandardizedFastPacketAddressed =
  ZeroX1Ed000X1Ee00StandardizedFastPacketAddressed_Info :: MessageInfo
  ZeroX1Ed000X1Ee00StandardizedFastPacketAddressed_Data :: bytes

definition DecodeZeroX1Ed000X1Ee00StandardizedFastPacketAddressed :: "MessageInfo \<Rightarrow> (DataStream, ZeroX1Ed000X1Ee00StandardizedFastPacketAddressed) step" where
  "DecodeZeroX1Ed000X1Ee00StandardizedFastPacketAddressed info =
     field ''ZeroX1Ed000X1Ee00StandardizedFastPacketAddressed-Data'' (readBinaryData 1784) (\<lambda>v1.
     returnE \<lparr>ZeroX1Ed000X1Ee00StandardizedFastPacketAddressed_Info = info,
       ZeroX1Ed000X1Ee00StandardizedFastPacketAddressed_Data = v1\<rparr>)"

definition EncodeZeroX1Ed000X1Ee00StandardizedFastPacketAddressed :: "gotime \<Rightarrow> ZeroX1Ed000X1Ee00StandardizedFastPacketAddressed \<Rightarrow> (DataStream, MessageInfo) step" where
  "EncodeZeroX1Ed000X1Ee00StandardizedFastPacketAddressed now p =
     seqE (writeBinary (ZeroX1Ed000X1Ee00StandardizedFastPacketAddressed_Data p) 1784 0) (\<lambda>_.
     returnE (finish_info now 126208 (ZeroX1Ed000X1Ee00StandardizedFastPacketAddressed_Info p)))"

definition ZeroX1Ed000X1Ee00StandardizedFastPacketAddressed_received :: "MessageInfo \<Rightarrow> ZeroX1Ed000X1Ee00StandardizedFastPacketAddressed \<Rightarrow> ZeroX1Ed000X1Ee00StandardizedFastPacketAddressed" where
  "ZeroX1Ed000X1Ee00StandardizedFastPacketAddressed_received info p = \<lparr>ZeroX1Ed000X1Ee00StandardizedFastPacketAddressed_Info = info,
     ZeroX1Ed000X1Ee00StandardizedFastPacketAddressed_Data = take 223 (ZeroX1Ed000X1Ee00StandardizedFastPacketAddressed_Data p @ replicate 223 0)\<rparr>"

lemma ZeroX1Ed000X1Ee00StandardizedFastPacketAddressed_codec: "codec EncodeZeroX1Ed000X1Ee00StandardizedFastPacketAddressed DecodeZeroX1Ed000X1Ee00StandardizedFastPacketAddressed ZeroX1Ed000X1Ee00StandardizedFastPacketAddressed_Info 126208 223
    (\<lambda>p. length (ZeroX1Ed000X1Ee00StandardizedFastPacketAddressed_Data p) < 65000) ZeroX1Ed000X1Ee00StandardizedFastPacketAddressed_received"
  unfolding EncodeZeroX1Ed000X1Ee00StandardizedFastPacketAddressed_def DecodeZeroX1Ed000X1Ee00StandardizedFastPacketAddressed_def ZeroX1Ed000X1Ee00StandardizedFastPacketAddressed_received_def
  by (rule codec.intro, rule carries_cong, (rule codec_steps carries_end
      | simp add: codec_facts pin_read lookup_read lookup_read_1 unit_read )+)

subsection \<open>ZeroX1Ef00ManufacturerProprietaryFastPacketAddressed\<close>

record ZeroX1Ef00ManufacturerProprietaryFastPacketAddressed =
  ZeroX1Ef00ManufacturerProprietaryFastPacketAddressed_Info :: MessageInfo
  ZeroX1Ef00ManufacturerProprietaryFastPacketAddressed_ManufacturerCode :: u16
  ZeroX1Ef00ManufacturerProprietaryFastPacketAddressed_IndustryCode :: u8
  ZeroX1Ef00ManufacturerProprietaryFastPacketAddressed_Data :: bytes

definition DecodeZeroX1Ef00ManufacturerProprietaryFastPacketAddressed :: "MessageInfo \<Rightarrow> (DataStream, ZeroX1Ef00ManufacturerProprietaryFastPacketAddressed) step" where
  "DecodeZeroX1Ef00ManufacturerProprietaryFastPacketAddressed info =
     field ''ZeroX1Ef00ManufacturerProprietaryFastPacketAddressed-ManufacturerCode'' (readLookupField 11) (\<lambda>v1.
     skip 2 (
     field ''ZeroX1Ef00ManufacturerProprietaryFastPacketAddressed-IndustryCode'' (readLookupField 3) (\<lambda>v3.
     field ''ZeroX1Ef00ManufacturerProprietaryFastPacketAddressed-Data'' (readBinaryData 1768) (\<lambda>v4.
     returnE \<lparr>ZeroX1Ef00ManufacturerProprietaryFastPacketAddressed_Info = info,
       ZeroX1Ef00ManufacturerProprietaryFastPacketAddressed_ManufacturerCode = ucast v1,
       ZeroX1Ef00ManufacturerProprietaryFastPacketAddressed_IndustryCode = ucast v3,
       ZeroX1Ef00ManufacturerProprietaryFastPacketAddressed_Data = v4\<rparr>))))"

definition EncodeZeroX1Ef00ManufacturerProprietaryFastPacketAddressed :: "gotime \<Rightarrow> ZeroX1Ef00ManufacturerProprietaryFastPacketAddressed \<Rightarrow> (DataStream, MessageInfo) step" where
  "EncodeZeroX1Ef00ManufacturerProprietaryFastPacketAddressed now p =
     seqE (putNumberRaw (ucast (ZeroX1Ef00ManufacturerProprietaryFastPacketAddressed_ManufacturerCode p)) 11 0) (\<lambda>_.
     seqE (writeReserved 2 11) (\<lambda>_.
     seqE (putNumberRaw (ucast (ZeroX1Ef00ManufacturerProprietaryFastPacketAddressed_IndustryCode p)) 3 13) (\<lambda>_.
     seqE (writeBinary (ZeroX1Ef00ManufacturerProprietaryFastPacketAddressed_Data p) 1768 16) (\<lambda>_.
     returnE (finish_info now 126720 (ZeroX1Ef00ManufacturerProprietaryFastPacketAddressed_Info p))))))"

definition ZeroX1Ef00ManufacturerProprietaryFastPacketAddressed_received :: "MessageInfo \<Rightarrow> ZeroX1Ef00ManufacturerProprietaryFastPacketAddressed \<Rightarrow> ZeroX1Ef00ManufacturerProprietaryFastPacketAddressed" where
  "ZeroX1Ef00ManufacturerProprietaryFastPacketAddressed_received info p = \<lparr>ZeroX1Ef00ManufacturerProprietaryFastPacketAddressed_Info = info,
     ZeroX1Ef00ManufacturerProprietaryFastPacketAddressed_ManufacturerCode = take_bit 11 (ZeroX1Ef00ManufacturerProprietaryFastPacketAddressed_ManufacturerCode p),
     ZeroX1Ef00ManufacturerProprietaryFastPacketAddressed_IndustryCode = take_bit 3 (ZeroX1Ef00ManufacturerProprietaryFastPacketAddressed_IndustryCode p),
     ZeroX1Ef00ManufacturerProprietaryFastPacketAddressed_Data = take 221 (ZeroX1Ef00ManufacturerProprietaryFastPacketAddressed_Data p @ replicate 221 0)\<rparr>"

lemma ZeroX1Ef00ManufacturerProprietaryFastPacketAddressed_codec: "codec EncodeZeroX1Ef00ManufacturerProprietaryFastPacketAddressed DecodeZeroX1Ef00ManufacturerProprietaryFastPacketAddressed ZeroX1Ef00ManufacturerProprietaryFastPacketAddressed_Info 126720 223
    (\<lambda>p. length (ZeroX1Ef00ManufacturerProprietaryFastPacketAddressed_Data p) < 65000) ZeroX1Ef00ManufacturerProprietaryFastPacketAddressed_received"
  unfolding EncodeZeroX1Ef00ManufacturerProprietaryFastPacketAddressed_def DecodeZeroX1Ef00ManufacturerProprietaryFastPacketAddressed_def ZeroX1Ef00ManufacturerProprietaryFastPacketAddressed_received_def
  by (rule codec.intro, rule carries_cong, (rule codec_steps carries_end
      | simp add: codec_facts pin_read lookup_read lookup_read_1 unit_read )+)

subsection \<open>ZeroX1F0000X1FeffStandardizedMixedSingleFastPacketNonAddressed\<close>

record ZeroX1F0000X1FeffStandardizedMixedSingleFastPacketNonAddressed =
  ZeroX1F0000X1FeffStandardizedMixedSingleFastPacketNonAddressed_Info :: MessageInfo
  ZeroX1F0000X1FeffStandardizedMixedSingleFastPacketNonAddressed_Data :: bytes

definition DecodeZeroX1F0000X1FeffStandardizedMixedSingleFastPacketNonAddressed :: "MessageInfo \<Rightarrow> (DataStream, ZeroX1F0000X1FeffStandardizedMixedSingleFastPacketNonAddressed) step" where
  "DecodeZeroX1F0000X1FeffStandardizedMixedSingleFastPacketNonAddressed info =
     field ''ZeroX1F0000X1FeffStandardizedMixedSingleFastPacketNonAddressed-Data'' (readBinaryData 1784) (\<lambda>v1.
     returnE \<lparr>ZeroX1F0000X1FeffStandardizedMixedSingleFastPacketNonAddressed_Info = info,
       ZeroX1F0000X1FeffStandardizedMixedSingleFastPacketNonAddressed_Data = v1\<rparr>)"

definition EncodeZeroX1F0000X1FeffStandardizedMixedSingleFastPacketNonAddressed :: "gotime \<Rightarrow> ZeroX1F0000X1FeffStandardizedMixedSingleFastPacketNonAddressed \<Rightarrow> (DataStream, MessageInfo) step" where
  "EncodeZeroX1F0000X1FeffStandardizedMixedSingleFastPacketNonAddressed now p =
     seqE (writeBinary (ZeroX1F0000X1FeffStandardizedMixedSingleFastPacketNonAddressed_Data p) 1784 0) (\<lambda>_.
     returnE (finish_info now 126976 (ZeroX1F0000X1FeffStandardizedMixedSingleFastPacketNonAddressed_Info p)))"

definition ZeroX1F0000X1FeffStandardizedMixedSingleFastPacketNonAddressed_received :: "MessageInfo \<Rightarrow> ZeroX1F0000X1FeffStandardizedMixedSingleFastPacketNonAddressed \<Rightarrow> ZeroX1F0000X1FeffStandardizedMixedSingleFastPacketNonAddressed" where
  "ZeroX1F0000X1FeffStandardizedMixedSingleFastPacketNonAddressed_received info p = \<lparr>ZeroX1F0000X1FeffStandardizedMixedSingleFastPacketNonAddressed_Info = info,
     ZeroX1F0000X1FeffStandardizedMixedSingleFastPacketNonAddressed_Data = take 223 (ZeroX1F0000X1FeffStandardizedMixedSingleFastPacketNonAddressed_Data p @ replicate 223 0)\<rparr>"

lemma ZeroX1F0000X1FeffStandardizedMixedSingleFastPacketNonAddressed_codec: "codec EncodeZeroX1F0000X1FeffStandardizedMixedSingleFastPacketNonAddressed DecodeZeroX1F0000X1FeffStandardizedMixedSingleFastPacketNonAddressed ZeroX1F0000X1FeffStandardizedMixedSingleFastPacketNonAddressed_Info 126976 223
    (\<lambda>p. length (ZeroX1F0000X1FeffStandardizedMixedSingleFastPacketNonAddressed_Data p) < 65000) ZeroX1F0000X1FeffStandardizedMixedSingleFastPacketNonAddressed_received"
  unfolding EncodeZeroX1F0000X1FeffStandardizedMixedSingleFastPacketNonAddressed_def DecodeZeroX1F0000X1FeffStandardizedMixedSingleFastPacketNonAddressed_def ZeroX1F0000X1FeffStandardizedMixedSingleFastPacketNonAddressed_received_def
  by (rule codec.intro, rule carries_cong, (rule codec_steps carries_end
      | simp add: codec_facts pin_read lookup_read lookup_read_1 unit_read )+)

subsection \<open>Alert\<close>

definition fieldSpec_Alert_AlertSystem :: FieldSpec where
  "fieldSpec_Alert_AlertSystem = unsigned_spec 8 8 0xFD 0xFF 2"

definition fieldSpec_Alert_AlertSubSystem :: FieldSpec where
  "fieldSpec_Alert_AlertSubSystem = unsigned_spec 8 16 0xFD 0xFF 2"

definition fieldSpec_Alert_AlertID :: FieldSpec where
  "fieldSpec_Alert_AlertID = unsigned_spec 16 24 0xFFFD 0xFFFF 2"

definition fieldSpec_Alert_DataSourceNetworkIDName :: FieldSpec where
  "fieldSpec_Alert_DataSourceNetworkIDName = unsigned_spec 64 40 0xFFFFFFFFFFFFFFFD 0xFFFFFFFFFFFFFFFF 2"

definition fieldSpec_Alert_DataSourceInstance :: FieldSpec where
  "fieldSpec_Alert_DataSourceInstance = unsigned_spec 8 104 0xFD 0xFF 2"

definition fieldSpec_Alert_DataSourceIndexSource :: FieldSpec where
  "fieldSpec_Alert_DataSourceIndexSource = unsigned_spec 8 112 0xFD 0xFF 2"

definition fieldSpec_Alert_AlertOccurrenceNumber :: FieldSpec where
  "fieldSpec_Alert_AlertOccurrenceNumber = unsigned_spec 8 120 0xFD 0xFF 2"

definition fieldSpec_Alert_AcknowledgeSourceNetworkIDName :: FieldSpec where
  "fieldSpec_Alert_AcknowledgeSourceNetworkIDName = unsigned_spec 64 136 0xFFFFFFFFFFFFFFFD 0xFFFFFFFFFFFFFFFF 2"

definition fieldSpec_Alert_AlertPriority :: FieldSpec where
  "fieldSpec_Alert_AlertPriority = unsigned_spec 8 208 0xFD 0xFF 2"

record Alert =
  Alert_Info :: MessageInfo
  Alert_AlertType :: u8
  Alert_AlertCategory :: u8
  Alert_AlertSystem :: "u8 option"
  Alert_AlertSubSystem :: "u8 option"
  Alert_AlertID :: "u16 option"
  Alert_DataSourceNetworkIDName :: "u64 option"
  Alert_DataSourceInstance :: "u8 option"
  Alert_DataSourceIndexSource :: "u8 option"
  Alert_AlertOccurrenceNumber :: "u8 option"
  Alert_TemporarySilenceStatus :: u8
  Alert_AcknowledgeStatus :: u8
  Alert_EscalationStatus :: u8
  Alert_TemporarySilenceSupport :: u8
  Alert_AcknowledgeSupport :: u8
  Alert_EscalationSupport :: u8
  Alert_AcknowledgeSourceNetworkIDName :: "u64 option"
  Alert_TriggerCondition :: u8
  Alert_ThresholdStatus :: u8
  Alert_AlertPriority :: "u8 option"
  Alert_AlertState :: u8

definition DecodeAlert :: "MessageInfo \<Rightarrow> (DataStream, Alert) step" where
  "DecodeAlert info =
     field ''Alert-AlertType'' (readLookupField 4) (\<lambda>v1.
     field ''Alert-AlertCategory'' (readLookupField 4) (\<lambda>v2.
     field ''Alert-AlertSystem'' (ReadRaw go_uint8 (Some fieldSpec_Alert_AlertSystem)) (\<lambda>v3.
     field ''Alert-AlertSubSystem'' (ReadRaw go_uint8 (Some fieldSpec_Alert_AlertSubSystem)) (\<lambda>v4.
     field ''Alert-AlertID'' (ReadRaw go_uint16 (Some fieldSpec_Alert_AlertID)) (\<lambda>v5.
     field ''Alert-DataSourceNetworkIDName'' (ReadRaw go_uint64 (Some fieldSpec_Alert_DataSourceNetworkIDName)) (\<lambda>v6.
     field ''Alert-DataSourceInstance'' (ReadRaw go_uint8 (Some fieldSpec_Alert_DataSourceInstance)) (\<lambda>v7.
     field ''Alert-DataSourceIndexSource'' (ReadRaw go_uint8 (Some fieldSpec_Alert_DataSourceIndexSource)) (\<lambda>v8.
     field ''Alert-AlertOccurrenceNumber'' (ReadRaw go_uint8 (Some fieldSpec_Alert_AlertOccurrenceNumber)) (\<lambda>v9.
     field ''Alert-TemporarySilenceStatus'' (readLookupField 1) (\<lambda>v10.
     field ''Alert-AcknowledgeStatus'' (readLookupField 1) (\<lambda>v11.
     field ''Alert-EscalationStatus'' (readLookupField 1) (\<lambda>v12.
     field ''Alert-TemporarySilenceSupport'' (readLookupField 1) (\<lambda>v13.
     field ''Alert-AcknowledgeSupport'' (readLookupField 1) (\<lambda>v14.
     field ''Alert-EscalationSupport'' (readLookupField 1) (\<lambda>v15.
     skip 2 (
     field ''Alert-AcknowledgeSourceNetworkIDName'' (ReadRaw go_uint64 (Some fieldSpec_Alert_AcknowledgeSourceNetworkIDName)) (\<lambda>v17.
     field ''Alert-TriggerCondition'' (readLookupField 4) (\<lambda>v18.
     field ''Alert-ThresholdStatus'' (readLookupField 4) (\<lambda>v19.
     field ''Alert-AlertPriority'' (ReadRaw go_uint8 (Some fieldSpec_Alert_AlertPriority)) (\<lambda>v20.
     field ''Alert-AlertState'' (readLookupField 8) (\<lambda>v21.
     returnE \<lparr>Alert_Info = info,
       Alert_AlertType = ucast v1,
       Alert_AlertCategory = ucast v2,
       Alert_AlertSystem = map_option of_int v3,
       Alert_AlertSubSystem = map_option of_int v4,
       Alert_AlertID = map_option of_int v5,
       Alert_DataSourceNetworkIDName = map_option of_int v6,
       Alert_DataSourceInstance = map_option of_int v7,
       Alert_DataSourceIndexSource = map_option of_int v8,
       Alert_AlertOccurrenceNumber = map_option of_int v9,
       Alert_TemporarySilenceStatus = ucast v10,
       Alert_AcknowledgeStatus = ucast v11,
       Alert_EscalationStatus = ucast v12,
       Alert_TemporarySilenceSupport = ucast v13,
       Alert_AcknowledgeSupport = ucast v14,
       Alert_EscalationSupport = ucast v15,
       Alert_AcknowledgeSourceNetworkIDName = map_option of_int v17,
       Alert_TriggerCondition = ucast v18,
       Alert_ThresholdStatus = ucast v19,
       Alert_AlertPriority = map_option of_int v20,
       Alert_AlertState = ucast v21\<rparr>)))))))))))))))))))))"

definition EncodeAlert :: "gotime \<Rightarrow> Alert \<Rightarrow> (DataStream, MessageInfo) step" where
  "EncodeAlert now p =
     seqE (putNumberRaw (ucast (Alert_AlertType p)) 4 0) (\<lambda>_.
     seqE (putNumberRaw (ucast (Alert_AlertCategory p)) 4 4) (\<lambda>_.
     seqE (WriteRaw (map_option uint (Alert_AlertSystem p)) (Some fieldSpec_Alert_AlertSystem)) (\<lambda>_.
     seqE (WriteRaw (map_option uint (Alert_AlertSubSystem p)) (Some fieldSpec_Alert_AlertSubSystem)) (\<lambda>_.
     seqE (WriteRaw (map_option uint (Alert_AlertID p)) (Some fieldSpec_Alert_AlertID)) (\<lambda>_.
     seqE (WriteRaw (map_option uint (Alert_DataSourceNetworkIDName p)) (Some fieldSpec_Alert_DataSourceNetworkIDName)) (\<lambda>_.
     seqE (WriteRaw (map_option uint (Alert_DataSourceInstance p)) (Some fieldSpec_Alert_DataSourceInstance)) (\<lambda>_.
     seqE (WriteRaw (map_option uint (Alert_DataSourceIndexSource p)) (Some fieldSpec_Alert_DataSourceIndexSource)) (\<lambda>_.
     seqE (WriteRaw (map_option uint (Alert_AlertOccurrenceNumber p)) (Some fieldSpec_Alert_AlertOccurrenceNumber)) (\<lambda>_.
     seqE (putNumberRaw (ucast (Alert_TemporarySilenceStatus p)) 1 128) (\<lambda>_.
     seqE (putNumberRaw (ucast (Alert_AcknowledgeStatus p)) 1 129) (\<lambda>_.
     seqE (putNumberRaw (ucast (Alert_EscalationStatus p)) 1 130) (\<lambda>_.
     seqE (putNumberRaw (ucast (Alert_TemporarySilenceSupport p)) 1 131) (\<lambda>_.
     seqE (putNumberRaw (ucast (Alert_AcknowledgeSupport p)) 1 132) (\<lambda>_.
     seqE (putNumberRaw (ucast (Alert_EscalationSupport p)) 1 133) (\<lambda>_.
     seqE (writeReserved 2 134) (\<lambda>_.
     seqE (WriteRaw (map_option uint (Alert_AcknowledgeSourceNetworkIDName p)) (Some fieldSpec_Alert_AcknowledgeSourceNetworkIDName)) (\<lambda>_.
     seqE (putNumberRaw (ucast (Alert_TriggerCondition p)) 4 200) (\<lambda>_.
     seqE (putNumberRaw (ucast (Alert_ThresholdStatus p)) 4 204) (\<lambda>_.
     seqE (WriteRaw (map_option uint (Alert_AlertPriority p)) (Some fieldSpec_Alert_AlertPriority)) (\<lambda>_.
     seqE (putNumberRaw (ucast (Alert_AlertState p)) 8 216) (\<lambda>_.
     returnE (finish_info now 126983 (Alert_Info p)))))))))))))))))))))))"

definition Alert_received :: "MessageInfo \<Rightarrow> Alert \<Rightarrow> Alert" where
  "Alert_received info p = \<lparr>Alert_Info = info,
     Alert_AlertType = take_bit 4 (Alert_AlertType p),
     Alert_AlertCategory = take_bit 4 (Alert_AlertCategory p),
     Alert_AlertSystem = pin fieldSpec_Alert_AlertSystem (Alert_AlertSystem p),
     Alert_AlertSubSystem = pin fieldSpec_Alert_AlertSubSystem (Alert_AlertSubSystem p),
     Alert_AlertID = pin fieldSpec_Alert_AlertID (Alert_AlertID p),
     Alert_DataSourceNetworkIDName = pin fieldSpec_Alert_DataSourceNetworkIDName (Alert_DataSourceNetworkIDName p),
     Alert_DataSourceInstance = pin fieldSpec_Alert_DataSourceInstance (Alert_DataSourceInstance p),
     Alert_DataSourceIndexSource = pin fieldSpec_Alert_DataSourceIndexSource (Alert_DataSourceIndexSource p),
     Alert_AlertOccurrenceNumber = pin fieldSpec_Alert_AlertOccurrenceNumber (Alert_AlertOccurrenceNumber p),
     Alert_TemporarySilenceStatus = take_bit 1 (Alert_TemporarySilenceStatus p),
     Alert_AcknowledgeStatus = take_bit 1 (Alert_AcknowledgeStatus p),
     Alert_EscalationStatus = take_bit 1 (Alert_EscalationStatus p),
     Alert_TemporarySilenceSupport = take_bit 1 (Alert_TemporarySilenceSupport p),
     Alert_AcknowledgeSupport = take_bit 1 (Alert_AcknowledgeSupport p),
     Alert_EscalationSupport = take_bit 1 (Alert_EscalationSupport p),
     Alert_AcknowledgeSourceNetworkIDName = pin fieldSpec_Alert_AcknowledgeSourceNetworkIDName (Alert_AcknowledgeSourceNetworkIDName p),
     Alert_TriggerCondition = take_bit 4 (Alert_TriggerCondition p),
     Alert_ThresholdStatus = take_bit 4 (Alert_ThresholdStatus p),
     Alert_AlertPriority = pin fieldSpec_Alert_AlertPriority (Alert_AlertPriority p),
     Alert_AlertState = take_bit 8 (Alert_AlertState p)\<rparr>"

lemma Alert_codec: "codec EncodeAlert DecodeAlert Alert_Info 126983 28
    (\<lambda>_. True) Alert_received"
  unfolding EncodeAlert_def DecodeAlert_def Alert_received_def
  by (rule codec.intro, rule carries_cong, (rule codec_steps carries_end
      | simp add: codec_facts pin_read lookup_read lookup_read_1 unit_read fieldSpec_Alert_AlertSystem_def fieldSpec_Alert_AlertSubSystem_def fieldSpec_Alert_AlertID_def fieldSpec_Alert_DataSourceNetworkIDName_def fieldSpec_Alert_DataSourceInstance_def fieldSpec_Alert_DataSourceIndexSource_def fieldSpec_Alert_AlertOccurrenceNumber_def fieldSpec_Alert_AcknowledgeSourceNetworkIDName_def fieldSpec_Alert_AlertPriority_def)+)

subsection \<open>AlertResponse\<close>

definition fieldSpec_AlertResponse_AlertSystem :: FieldSpec where
  "fieldSpec_AlertResponse_AlertSystem = unsigned_spec 8 8 0xFD 0xFF 2"

definition fieldSpec_AlertResponse_AlertSubSystem :: FieldSpec where
  "fieldSpec_AlertResponse_AlertSubSystem = unsigned_spec 8 16 0xFD 0xFF 2"

definition fieldSpec_AlertResponse_AlertID :: FieldSpec where
  "fieldSpec_AlertResponse_AlertID = unsigned_spec 16 24 0xFFFD 0xFFFF 2"

definition fieldSpec_AlertResponse_DataSourceNetworkIDName :: FieldSpec where
  "fieldSpec_AlertResponse_DataSourceNetworkIDName = unsigned_spec 64 40 0xFFFFFFFFFFFFFFFD 0xFFFFFFFFFFFFFFFF 2"

definition fieldSpec_AlertResponse_DataSourceInstance :: FieldSpec where
  "fieldSpec_AlertResponse_DataSourceInstance = unsigned_spec 8 104 0xFD 0xFF 2"

definition fieldSpec_AlertResponse_DataSourceIndexSource :: FieldSpec where
  "fieldSpec_AlertResponse_DataSourceIndexSource = unsigned_spec 8 112 0xFD 0xFF 2"

definition fieldSpec_AlertResponse_AlertOccurrenceNumber :: FieldSpec where
  "fieldSpec_AlertResponse_AlertOccurrenceNumber = unsigned_spec 8 120 0xFD 0xFF 2"

definition fieldSpec_AlertResponse_AcknowledgeSourceNetworkIDName :: FieldSpec where
  "fieldSpec_AlertResponse_AcknowledgeSourceNetworkIDName = unsigned_spec 64 128 0xFFFFFFFFFFFFFFFD 0xFFFFFFFFFFFFFFFF 2"

record AlertResponse =
  AlertResponse_Info :: MessageInfo
  AlertResponse_AlertType :: u8
  AlertResponse_AlertCategory :: u8
  AlertResponse_AlertSystem :: "u8 option"
  AlertResponse_AlertSubSystem :: "u8 option"
  AlertResponse_AlertID :: "u16 option"
  AlertResponse_DataSourceNetworkIDName :: "u64 option"
  AlertResponse_DataSourceInstance :: "u8 option"
  AlertResponse_DataSourceIndexSource :: "u8 option"
  AlertResponse_AlertOccurrenceNumber :: "u8 option"
  AlertResponse_AcknowledgeSourceNetworkIDName :: "u64 option"
  AlertResponse_ResponseCommand :: u8

definition DecodeAlertResponse :: "MessageInfo \<Rightarrow> (DataStream, AlertResponse) step" where
  "DecodeAlertResponse info =
     field ''AlertResponse-AlertType'' (readLookupField 4) (\<lambda>v1.
     field ''AlertResponse-AlertCategory'' (readLookupField 4) (\<lambda>v2.
     field ''AlertResponse-AlertSystem'' (ReadRaw go_uint8 (Some fieldSpec_AlertResponse_AlertSystem)) (\<lambda>v3.
     field ''AlertResponse-AlertSubSystem'' (ReadRaw go_uint8 (Some fieldSpec_AlertResponse_AlertSubSystem)) (\<lambda>v4.
     field ''AlertResponse-AlertID'' (ReadRaw go_uint16 (Some fieldSpec_AlertResponse_AlertID)) (\<lambda>v5.
     field ''AlertResponse-DataSourceNetworkIDName'' (ReadRaw go_uint64 (Some fieldSpec_AlertResponse_DataSourceNetworkIDName)) (\<lambda>v6.
     field ''AlertResponse-DataSourceInstance'' (ReadRaw go_uint8 (Some fieldSpec_AlertResponse_DataSourceInstance)) (\<lambda>v7.
     field ''AlertResponse-DataSourceIndexSource'' (ReadRaw go_uint8 (Some fieldSpec_AlertResponse_DataSourceIndexSource)) (\<lambda>v8.
     field ''AlertResponse-AlertOccurrenceNumber'' (ReadRaw go_uint8 (Some fieldSpec_AlertResponse_AlertOccurrenceNumber)) (\<lambda>v9.
     field ''AlertResponse-AcknowledgeSourceNetworkIDName'' (ReadRaw go_uint64 (Some fieldSpec_AlertResponse_AcknowledgeSourceNetworkIDName)) (\<lambda>v10.
     field ''AlertResponse-ResponseCommand'' (readLookupField 2) (\<lambda>v11.
     skip 6 (
     returnE \<lparr>AlertResponse_Info = info,
       AlertResponse_AlertType = ucast v1,
       AlertResponse_AlertCategory = ucast v2,
       AlertResponse_AlertSystem = map_option of_int v3,
       AlertResponse_AlertSubSystem = map_option of_int v4,
       AlertResponse_AlertID = map_option of_int v5,
       AlertResponse_DataSourceNetworkIDName = map_option of_int v6,
       AlertResponse_DataSourceInstance = map_option of_int v7,
       AlertResponse_DataSourceIndexSource = map_option of_int v8,
       AlertResponse_AlertOccurrenceNumber = map_option of_int v9,
       AlertResponse_AcknowledgeSourceNetworkIDName = map_option of_int v10,
       AlertResponse_ResponseCommand = ucast v11\<rparr>))))))))))))"

definition EncodeAlertResponse :: "gotime \<Rightarrow> AlertResponse \<Rightarrow> (DataStream, MessageInfo) step" where
  "EncodeAlertResponse now p =
     seqE (putNumberRaw (ucast (AlertResponse_AlertType p)) 4 0) (\<lambda>_.
     seqE (putNumberRaw (ucast (AlertResponse_AlertCategory p)) 4 4) (\<lambda>_.
     seqE (WriteRaw (map_option uint (AlertResponse_AlertSystem p)) (Some fieldSpec_AlertResponse_AlertSystem)) (\<lambda>_.
     seqE (WriteRaw (map_option uint (AlertResponse_AlertSubSystem p)) (Some fieldSpec_AlertResponse_AlertSubSystem)) (\<lambda>_.
     seqE (WriteRaw (map_option uint (AlertResponse_AlertID p)) (Some fieldSpec_AlertResponse_AlertID)) (\<lambda>_.
     seqE (WriteRaw (map_option uint (AlertResponse_DataSourceNetworkIDName p)) (Some fieldSpec_AlertResponse_DataSourceNetworkIDName)) (\<lambda>_.
     seqE (WriteRaw (map_option uint (AlertResponse_DataSourceInstance p)) (Some fieldSpec_AlertResponse_DataSourceInstance)) (\<lambda>_.
     seqE (WriteRaw (map_option uint (AlertResponse_DataSourceIndexSource p)) (Some fieldSpec_AlertResponse_DataSourceIndexSource)) (\<lambda>_.
     seqE (WriteRaw (map_option uint (AlertResponse_AlertOccurrenceNumber p)) (Some fieldSpec_AlertResponse_AlertOccurrenceNumber)) (\<lambda>_.
     seqE (WriteRaw (map_option uint (AlertResponse_AcknowledgeSourceNetworkIDName p)) (Some fieldSpec_AlertResponse_AcknowledgeSourceNetworkIDName)) (\<lambda>_.
     seqE (putNumberRaw (ucast (AlertResponse_ResponseCommand p)) 2 192) (\<lambda>_.
     seqE (writeReserved 6 194) (\<lambda>_.
     returnE (finish_info now 126984 (AlertResponse_Info p))))))))))))))"

definition AlertResponse_received :: "MessageInfo \<Rightarrow> AlertResponse \<Rightarrow> AlertResponse" where
  "AlertResponse_received info p = \<lparr>AlertResponse_Info = info,
     AlertResponse_AlertType = take_bit 4 (AlertResponse_AlertType p),
     AlertResponse_AlertCategory = take_bit 4 (AlertResponse_AlertCategory p),
     AlertResponse_AlertSystem = pin fieldSpec_AlertResponse_AlertSystem (AlertResponse_AlertSystem p),
     AlertResponse_AlertSubSystem = pin fieldSpec_AlertResponse_AlertSubSystem (AlertResponse_AlertSubSystem p),
     AlertResponse_AlertID = pin fieldSpec_AlertResponse_AlertID (AlertResponse_AlertID p),
     AlertResponse_DataSourceNetworkIDName = pin fieldSpec_AlertResponse_DataSourceNetworkIDName (AlertResponse_DataSourceNetworkIDName p),
     AlertResponse_DataSourceInstance = pin fieldSpec_AlertResponse_DataSourceInstance (AlertResponse_DataSourceInstance p),
     AlertResponse_DataSourceIndexSource = pin fieldSpec_AlertResponse_DataSourceIndexSource (AlertResponse_DataSourceIndexSource p),
     AlertResponse_AlertOccurrenceNumber = pin fieldSpec_AlertResponse_AlertOccurrenceNumber (AlertResponse_AlertOccurrenceNumber p),
     AlertResponse_AcknowledgeSourceNetworkIDName = pin fieldSpec_AlertResponse_AcknowledgeSourceNetworkIDName (AlertResponse_AcknowledgeSourceNetworkIDName p),
     AlertResponse_ResponseCommand = take_bit 2 (AlertResponse_ResponseCommand p)\<rparr>"

lemma AlertResponse_codec: "codec EncodeAlertResponse DecodeAlertResponse AlertResponse_Info 126984 25
    (\<lambda>_. True) AlertResponse_received"
  unfolding EncodeAlertResponse_def DecodeAlertResponse_def AlertResponse_received_def
  by (rule codec.intro, rule carries_cong, (rule codec_steps carries_end
      | simp add: codec_facts pin_read lookup_read lookup_read_1 unit_read fieldSpec_AlertResponse_AlertSystem_def fieldSpec_AlertResponse_AlertSubSystem_def fieldSpec_AlertResponse_AlertID_def fieldSpec_AlertResponse_DataSourceNetworkIDName_def fieldSpec_AlertResponse_DataSourceInstance_def fieldSpec_AlertResponse_DataSourceIndexSource_def fieldSpec_AlertResponse_AlertOccurrenceNumber_def fieldSpec_AlertResponse_AcknowledgeSourceNetworkIDName_def)+)

subsection \<open>AlertConfiguration\<close>

definition fieldSpec_AlertConfiguration_AlertSystem :: FieldSpec where
  "fieldSpec_AlertConfiguration_AlertSystem = unsigned_spec 8 8 0xFD 0xFF 2"

definition fieldSpec_AlertConfiguration_AlertSubSystem :: FieldSpec where
  "fieldSpec_AlertConfiguration_AlertSubSystem = unsigned_spec 8 16 0xFD 0xFF 2"

definition fieldSpec_AlertConfiguration_AlertID :: FieldSpec where
  "fieldSpec_AlertConfiguration_AlertID = unsigned_spec 16 24 0xFFFD 0xFFFF 2"

definition fieldSpec_AlertConfiguration_DataSourceNetworkIDName :: FieldSpec where
  "fieldSpec_AlertConfiguration_DataSourceNetworkIDName = unsigned_spec 64 40 0xFFFFFFFFFFFFFFFD 0xFFFFFFFFFFFFFFFF 2"

definition fieldSpec_AlertConfiguration_DataSourceInstance :: FieldSpec where
  "fieldSpec_AlertConfiguration_DataSourceInstance = unsigned_spec 8 104 0xFD 0xFF 2"

definition fieldSpec_AlertConfiguration_DataSourceIndexSource :: FieldSpec where
  "fieldSpec_AlertConfiguration_DataSourceIndexSource = unsigned_spec 8 112 0xFD 0xFF 2"

definition fieldSpec_AlertConfiguration_AlertOccurrenceNumber :: FieldSpec where
  "fieldSpec_AlertConfiguration_AlertOccurrenceNumber = unsigned_spec 8 120 0xFD 0xFF 2"

definition fieldSpec_AlertConfiguration_AlertControl :: FieldSpec where
  "fieldSpec_AlertConfiguration_AlertControl = unsigned_spec 2 128 0x2 0x3 1"

definition fieldSpec_AlertConfiguration_UserDefinedAlertAssignment :: FieldSpec where
  "fieldSpec_AlertConfiguration_UserDefinedAlertAssignment = unsigned_spec 2 130 0x2 0x3 1"

definition fieldSpec_AlertConfiguration_ReactivationPeriod :: FieldSpec where
  "fieldSpec_AlertConfiguration_ReactivationPeriod = unsigned_spec 8 136 0xFD 0xFF 2"

definition fieldSpec_AlertConfiguration_TemporarySilencePeriod :: FieldSpec where
  "fieldSpec_AlertConfiguration_TemporarySilencePeriod = unsigned_spec 8 144 0xFD 0xFF 2"

definition fieldSpec_AlertConfiguration_EscalationPeriod :: FieldSpec where
  "fieldSpec_AlertConfiguration_EscalationPeriod = unsigned_spec 8 152 0xFD 0xFF 2"

record AlertConfiguration =
  AlertConfiguration_Info :: MessageInfo
  AlertConfiguration_AlertType :: u8
  AlertConfiguration_AlertCategory :: u8
  AlertConfiguration_AlertSystem :: "u8 option"
  AlertConfiguration_AlertSubSystem :: "u8 option"
  AlertConfiguration_AlertID :: "u16 option"
  AlertConfiguration_DataSourceNetworkIDName :: "u64 option"
  AlertConfiguration_DataSourceInstance :: "u8 option"
  AlertConfiguration_DataSourceIndexSource :: "u8 option"
  AlertConfiguration_AlertOccurrenceNumber :: "u8 option"
  AlertConfiguration_AlertControl :: "u8 option"
  AlertConfiguration_UserDefinedAlertAssignment :: "u8 option"
  AlertConfiguration_ReactivationPeriod :: "u8 option"
  AlertConfiguration_TemporarySilencePeriod :: "u8 option"
  AlertConfiguration_EscalationPeriod :: "u8 option"

definition DecodeAlertConfiguration :: "MessageInfo \<Rightarrow> (DataStream, AlertConfiguration) step" where
  "DecodeAlertConfiguration info =
     field ''AlertConfiguration-AlertType'' (readLookupField 4) (\<lambda>v1.
     field ''AlertConfiguration-AlertCategory'' (readLookupField 4) (\<lambda>v2.
     field ''AlertConfiguration-AlertSystem'' (ReadRaw go_uint8 (Some fieldSpec_AlertConfiguration_AlertSystem)) (\<lambda>v3.
     field ''AlertConfiguration-AlertSubSystem'' (ReadRaw go_uint8 (Some fieldSpec_AlertConfiguration_AlertSubSystem)) (\<lambda>v4.
     field ''AlertConfiguration-AlertID'' (ReadRaw go_uint16 (Some fieldSpec_AlertConfiguration_AlertID)) (\<lambda>v5.
     field ''AlertConfiguration-DataSourceNetworkIDName'' (ReadRaw go_uint64 (Some fieldSpec_AlertConfiguration_DataSourceNetworkIDName)) (\<lambda>v6.
     field ''AlertConfiguration-DataSourceInstance'' (ReadRaw go_uint8 (Some fieldSpec_AlertConfiguration_DataSourceInstance)) (\<lambda>v7.
     field ''AlertConfiguration-DataSourceIndexSource'' (ReadRaw go_uint8 (Some fieldSpec_AlertConfiguration_DataSourceIndexSource)) (\<lambda>v8.
     field ''AlertConfiguration-AlertOccurrenceNumber'' (ReadRaw go_uint8 (Some fieldSpec_AlertConfiguration_AlertOccurrenceNumber)) (\<lambda>v9.
     field ''AlertConfiguration-AlertControl'' (ReadRaw go_uint8 (Some fieldSpec_AlertConfiguration_AlertControl)) (\<lambda>v10.
     field ''AlertConfiguration-UserDefinedAlertAssignment'' (ReadRaw go_uint8 (Some fieldSpec_AlertConfiguration_UserDefinedAlertAssignment)) (\<lambda>v11.
     skip 4 (
     field ''AlertConfiguration-ReactivationPeriod'' (ReadRaw go_uint8 (Some fieldSpec_AlertConfiguration_ReactivationPeriod)) (\<lambda>v13.
     field ''AlertConfiguration-TemporarySilencePeriod'' (ReadRaw go_uint8 (Some fieldSpec_AlertConfiguration_TemporarySilencePeriod)) (\<lambda>v14.
     field ''AlertConfiguration-EscalationPeriod'' (ReadRaw go_uint8 (Some fieldSpec_AlertConfiguration_EscalationPeriod)) (\<lambda>v15.
     returnE \<lparr>AlertConfiguration_Info = info,
       AlertConfiguration_AlertType = ucast v1,
       AlertConfiguration_AlertCategory = ucast v2,
       AlertConfiguration_AlertSystem = map_option of_int v3,
       AlertConfiguration_AlertSubSystem = map_option of_int v4,
       AlertConfiguration_AlertID = map_option of_int v5,
       AlertConfiguration_DataSourceNetworkIDName = map_option of_int v6,
       AlertConfiguration_DataSourceInstance = map_option of_int v7,
       AlertConfiguration_DataSourceIndexSource = map_option of_int v8,
       AlertConfiguration_AlertOccurrenceNumber = map_option of_int v9,
       AlertConfiguration_AlertControl = map_option of_int v10,
       AlertConfiguration_UserDefinedAlertAssignment = map_option of_int v11,
       AlertConfiguration_ReactivationPeriod = map_option of_int v13,
       AlertConfiguration_TemporarySilencePeriod = map_option of_int v14,
       AlertConfiguration_EscalationPeriod = map_option of_int v15\<rparr>)))))))))))))))"

definition EncodeAlertConfiguration :: "gotime \<Rightarrow> AlertConfiguration \<Rightarrow> (DataStream, MessageInfo) step" where
  "EncodeAlertConfiguration now p =
     seqE (putNumberRaw (ucast (AlertConfiguration_AlertType p)) 4 0) (\<lambda>_.
     seqE (putNumberRaw (ucast (AlertConfiguration_AlertCategory p)) 4 4) (\<lambda>_.
     seqE (WriteRaw (map_option uint (AlertConfiguration_AlertSystem p)) (Some fieldSpec_AlertConfiguration_AlertSystem)) (\<lambda>_.
     seqE (WriteRaw (map_option uint (AlertConfiguration_AlertSubSystem p)) (Some fieldSpec_AlertConfiguration_AlertSubSystem)) (\<lambda>_.
     seqE (WriteRaw (map_option uint (AlertConfiguration_AlertID p)) (Some fieldSpec_AlertConfiguration_AlertID)) (\<lambda>_.
     seqE (WriteRaw (map_option uint (AlertConfiguration_DataSourceNetworkIDName p)) (Some fieldSpec_AlertConfiguration_DataSourceNetworkIDName)) (\<lambda>_.
     seqE (WriteRaw (map_option uint (AlertConfiguration_DataSourceInstance p)) (Some fieldSpec_AlertConfiguration_DataSourceInstance)) (\<lambda>_.
     seqE (WriteRaw (map_option uint (AlertConfiguration_DataSourceIndexSource p)) (Some fieldSpec_AlertConfiguration_DataSourceIndexSource)) (\<lambda>_.
     seqE (WriteRaw (map_option uint (AlertConfiguration_AlertOccurrenceNumber p)) (Some fieldSpec_AlertConfiguration_AlertOccurrenceNumber)) (\<lambda>_.
     seqE (WriteRaw (map_option uint (AlertConfiguration_AlertControl p)) (Some fieldSpec_AlertConfiguration_AlertControl)) (\<lambda>_.
     seqE (WriteRaw (map_option uint (AlertConfiguration_UserDefinedAlertAssignment p)) (Some fieldSpec_AlertConfiguration_UserDefinedAlertAssignment)) (\<lambda>_.
     seqE (writeReserved 4 132) (\<lambda>_.
     seqE (WriteRaw (map_option uint (AlertConfiguration_ReactivationPeriod p)) (Some fieldSpec_AlertConfiguration_ReactivationPeriod)) (\<lambda>_.
     seqE (WriteRaw (map_option uint (AlertConfiguration_TemporarySilencePeriod p)) (Some fieldSpec_AlertConfiguration_TemporarySilencePeriod)) (\<lambda>_.
     seqE (WriteRaw (map_option uint (AlertConfiguration_EscalationPeriod p)) (Some fieldSpec_AlertConfiguration_EscalationPeriod)) (\<lambda>_.
     returnE (finish_info now 126986 (AlertConfiguration_Info p)))))))))))))))))"

definition AlertConfiguration_received :: "MessageInfo \<Rightarrow> AlertConfiguration \<Rightarrow> AlertConfiguration" where
  "AlertConfiguration_received info p = \<lparr>AlertConfiguration_Info = info,
     AlertConfiguration_AlertType = take_bit 4 (AlertConfiguration_AlertType p),
     AlertConfiguration_AlertCategory = take_bit 4 (AlertConfiguration_AlertCategory p),
     AlertConfiguration_AlertSystem = pin fieldSpec_AlertConfiguration_AlertSystem (AlertConfiguration_AlertSystem p),
     AlertConfiguration_AlertSubSystem = pin fieldSpec_AlertConfiguration_AlertSubSystem (AlertConfiguration_AlertSubSystem p),
     AlertConfiguration_AlertID = pin fieldSpec_AlertConfiguration_AlertID (AlertConfiguration_AlertID p),
     AlertConfiguration_DataSourceNetworkIDName = pin fieldSpec_AlertConfiguration_DataSourceNetworkIDName (AlertConfiguration_DataSourceNetworkIDName p),
     AlertConfiguration_DataSourceInstance = pin fieldSpec_AlertConfiguration_DataSourceInstance (AlertConfiguration_DataSourceInstance p),
     AlertConfiguration_DataSourceIndexSource = pin fieldSpec_AlertConfiguration_DataSourceIndexSource (AlertConfiguration_DataSourceIndexSource p),
     AlertConfiguration_AlertOccurrenceNumber = pin fieldSpec_AlertConfiguration_AlertOccurrenceNumber (AlertConfiguration_AlertOccurrenceNumber p),
     AlertConfiguration_AlertControl = pin fieldSpec_AlertConfiguration_AlertControl (AlertConfiguration_AlertControl p),
     AlertConfiguration_UserDefinedAlertAssignment = pin fieldSpec_AlertConfiguration_UserDefinedAlertAssignment (AlertConfiguration_UserDefinedAlertAssignment p),
     AlertConfiguration_ReactivationPeriod = pin fieldSpec_AlertConfiguration_ReactivationPeriod (AlertConfiguration_ReactivationPeriod p),
     AlertConfiguration_TemporarySilencePeriod = pin fieldSpec_AlertConfiguration_TemporarySilencePeriod (AlertConfiguration_TemporarySilencePeriod p),
     AlertConfiguration_EscalationPeriod = pin fieldSpec_AlertConfiguration_EscalationPeriod (AlertConfiguration_EscalationPeriod p)\<rparr>"

lemma AlertConfiguration_codec: "codec EncodeAlertConfiguration DecodeAlertConfiguration AlertConfiguration_Info 126986 20
    (\<lambda>_. True) AlertConfiguration_received"
  unfolding EncodeAlertConfiguration_def DecodeAlertConfiguration_def AlertConfiguration_received_def
  by (rule codec.intro, rule carries_cong, (rule codec_steps carries_end
      | simp add: codec_facts pin_read lookup_read lookup_read_1 unit_read fieldSpec_AlertConfiguration_AlertSystem_def fieldSpec_AlertConfiguration_AlertSubSystem_def fieldSpec_AlertConfiguration_AlertID_def fieldSpec_AlertConfiguration_DataSourceNetworkIDName_def fieldSpec_AlertConfiguration_DataSourceInstance_def fieldSpec_AlertConfiguration_DataSourceIndexSource_def fieldSpec_AlertConfiguration_AlertOccurrenceNumber_def fieldSpec_AlertConfiguration_AlertControl_def fieldSpec_AlertConfiguration_UserDefinedAlertAssignment_def fieldSpec_AlertConfiguration_ReactivationPeriod_def fieldSpec_AlertConfiguration_TemporarySilencePeriod_def fieldSpec_AlertConfiguration_EscalationPeriod_def)+)

subsection \<open>SystemTime\<close>

definition fieldSpec_SystemTime_SID :: FieldSpec where
  "fieldSpec_SystemTime_SID = unsigned_spec 8 0 0xFD 0xFF 2"

definition fieldSpec_SystemTime_Date :: FieldSpec where
  "fieldSpec_SystemTime_Date = unsigned_spec 16 16 0xFFFD 0xFFFF 2"

definition fieldSpec_SystemTime_Time :: ScaledSpec where
  "fieldSpec_SystemTime_Time =
     scaled_spec 32 32 0xFFFFFFFD 0xFFFFFFFF 0 False 2 (fl64 0.00009999999747378752) (Some 0) (Some 86401)"

record SystemTime =
  SystemTime_Info :: MessageInfo
  SystemTime_SID :: "u8 option"
  SystemTime_Source :: u8
  SystemTime_Date :: "u16 option"
  SystemTime_Time :: "rat option"

definition DecodeSystemTime :: "MessageInfo \<Rightarrow> (DataStream, SystemTime) step" where
  "DecodeSystemTime info =
     field ''SystemTime-SID'' (ReadRaw go_uint8 (Some fieldSpec_SystemTime_SID)) (\<lambda>v1.
     field ''SystemTime-Source'' (readLookupField 4) (\<lambda>v2.
     skip 4 (
     field ''SystemTime-Date'' (ReadRaw go_uint16 (Some fieldSpec_SystemTime_Date)) (\<lambda>v4.
     field ''SystemTime-Time'' (ReadScaled 24 (Some fieldSpec_SystemTime_Time)) (\<lambda>v5.
     returnE \<lparr>SystemTime_Info = info,
       SystemTime_SID = map_option of_int v1,
       SystemTime_Source = ucast v2,
       SystemTime_Date = map_option of_int v4,
       SystemTime_Time = v5\<rparr>)))))"

definition EncodeSystemTime :: "(rat \<Rightarrow> u64) \<Rightarrow> gotime \<Rightarrow> SystemTime \<Rightarrow> (DataStream, MessageInfo) step" where
  "EncodeSystemTime hw now p =
     seqE (WriteRaw (map_option uint (SystemTime_SID p)) (Some fieldSpec_SystemTime_SID)) (\<lambda>_.
     seqE (putNumberRaw (ucast (SystemTime_Source p)) 4 8) (\<lambda>_.
     seqE (writeReserved 4 12) (\<lambda>_.
     seqE (WriteRaw (map_option uint (SystemTime_Date p)) (Some fieldSpec_SystemTime_Date)) (\<lambda>_.
     seqE (WriteScaled hw (SystemTime_Time p) (Some fieldSpec_SystemTime_Time)) (\<lambda>_.
     returnE (finish_info now 126992 (SystemTime_Info p)))))))"

definition SystemTime_received :: "(rat \<Rightarrow> u64) \<Rightarrow> MessageInfo \<Rightarrow> SystemTime \<Rightarrow> SystemTime" where
  "SystemTime_received hw info p = \<lparr>SystemTime_Info = info,
     SystemTime_SID = pin fieldSpec_SystemTime_SID (SystemTime_SID p),
     SystemTime_Source = take_bit 4 (SystemTime_Source p),
     SystemTime_Date = pin fieldSpec_SystemTime_Date (SystemTime_Date p),
     SystemTime_Time = map_option (scaled_back hw 24 fieldSpec_SystemTime_Time) (SystemTime_Time p)\<rparr>"

lemma SystemTime_codec: "codec (EncodeSystemTime hw) DecodeSystemTime SystemTime_Info 126992 8
    (\<lambda>_. True) (SystemTime_received hw)"
  unfolding EncodeSystemTime_def DecodeSystemTime_def SystemTime_received_def
  by (rule codec.intro, rule carries_cong, (rule codec_steps carries_end
      | simp add: codec_facts pin_read lookup_read lookup_read_1 unit_read fieldSpec_SystemTime_SID_def fieldSpec_SystemTime_Date_def fieldSpec_SystemTime_Time_def)+)

subsection \<open>Heartbeat\<close>

definition fieldSpec_Heartbeat_DataTransmitOffset :: ScaledSpec where
  "fieldSpec_Heartbeat_DataTransmitOffset =
     scaled_spec 16 0 0xFFFD 0xFFFF 0 False 2 (fl64 0.0010000000474974513) None None"

definition fieldSpec_Heartbeat_SequenceCounter :: FieldSpec where
  "fieldSpec_Heartbeat_SequenceCounter = unsigned_spec 8 16 0xFD 0xFF 2"

definition DecodeHeartbeat :: "MessageInfo \<Rightarrow> (DataStream, Heartbeat) step" where
  "DecodeHeartbeat info =
     field ''Heartbeat-DataTransmitOffset'' (ReadScaled 24 (Some fieldSpec_Heartbeat_DataTransmitOffset)) (\<lambda>v1.
     field ''Heartbeat-SequenceCounter'' (ReadRaw go_uint8 (Some fieldSpec_Heartbeat_SequenceCounter)) (\<lambda>v2.
     field ''Heartbeat-Controller1State'' (readLookupField 2) (\<lambda>v3.
     field ''Heartbeat-Controller2State'' (readLookupField 2) (\<lambda>v4.
     field ''Heartbeat-EquipmentStatus'' (readLookupField 2) (\<lambda>v5.
     skip 34 (
     returnE \<lparr>hbt_Info = info,
       hbt_DataTransmitOffset = v1,
       hbt_SequenceCounter = map_option of_int v2,
       hbt_Controller1State = ucast v3,
       hbt_Controller2State = ucast v4,
       hbt_EquipmentStatus = ucast v5\<rparr>))))))"

definition EncodeHeartbeat :: "(rat \<Rightarrow> u64) \<Rightarrow> gotime \<Rightarrow> Heartbeat \<Rightarrow> (DataStream, MessageInfo) step" where
  "EncodeHeartbeat hw now p =
     seqE (WriteScaled hw (hbt_DataTransmitOffset p) (Some fieldSpec_Heartbeat_DataTransmitOffset)) (\<lambda>_.
     seqE (WriteRaw (map_option uint (hbt_SequenceCounter p)) (Some fieldSpec_Heartbeat_SequenceCounter)) (\<lambda>_.
     seqE (putNumberRaw (ucast (hbt_Controller1State p)) 2 24) (\<lambda>_.
     seqE (putNumberRaw (ucast (hbt_Controller2State p)) 2 26) (\<lambda>_.
     seqE (putNumberRaw (ucast (hbt_EquipmentStatus p)) 2 28) (\<lambda>_.
     seqE (writeReserved 34 30) (\<lambda>_.
     returnE (finish_info now 126993 (hbt_Info p))))))))"

definition Heartbeat_received :: "(rat \<Rightarrow> u64) \<Rightarrow> MessageInfo \<Rightarrow> Heartbeat \<Rightarrow> Heartbeat" where
  "Heartbeat_received hw info p = \<lparr>hbt_Info = info,
     hbt_DataTransmitOffset = map_option (scaled_back hw 24 fieldSpec_Heartbeat_DataTransmitOffset) (hbt_DataTransmitOffset p),
     hbt_SequenceCounter = pin fieldSpec_Heartbeat_SequenceCounter (hbt_SequenceCounter p),
     hbt_Controller1State = take_bit 2 (hbt_Controller1State p),
     hbt_Controller2State = take_bit 2 (hbt_Controller2State p),
     hbt_EquipmentStatus = take_bit 2 (hbt_EquipmentStatus p)\<rparr>"

lemma Heartbeat_codec: "codec (EncodeHeartbeat hw) DecodeHeartbeat hbt_Info 126993 8
    (\<lambda>_. True) (Heartbeat_received hw)"
  unfolding EncodeHeartbeat_def DecodeHeartbeat_def Heartbeat_received_def
  by (rule codec.intro, rule carries_cong, (rule codec_steps carries_end
      | simp add: codec_facts pin_read lookup_read lookup_read_1 unit_read fieldSpec_Heartbeat_DataTransmitOffset_def fieldSpec_Heartbeat_SequenceCounter_def)+)

subsection \<open>ProductInformation\<close>

definition fieldSpec_ProductInformation_NMEA2000Version :: ScaledSpec where
  "fieldSpec_ProductInformation_NMEA2000Version =
     scaled_spec 16 0 0xFFFD 0xFFFF 0 False 2 (fl64 0.0010000000474974513) None None"

definition fieldSpec_ProductInformation_ProductCode :: FieldSpec where
  "fieldSpec_ProductInformation_ProductCode = unsigned_spec 16 16 0xFFFD 0xFFFF 2"

definition fieldSpec_ProductInformation_LoadEquivalency :: FieldSpec where
  "fieldSpec_ProductInformation_LoadEquivalency = unsigned_spec 8 1064 0xFD 0xFF 2"

definition DecodeProductInformation :: "MessageInfo \<Rightarrow> (DataStream, ProductInformation) step" where
  "DecodeProductInformation info =
     field ''ProductInformation-NMEA2000Version'' (ReadScaled 24 (Some fieldSpec_ProductInformation_NMEA2000Version)) (\<lambda>v1.
     field ''ProductInformation-ProductCode'' (ReadRaw go_uint16 (Some fieldSpec_ProductInformation_ProductCode)) (\<lambda>v2.
     field ''ProductInformation-ModelID'' (readFixedString 256) (\<lambda>v3.
     field ''ProductInformation-SoftwareVersionCode'' (readFixedString 256) (\<lambda>v4.
     field ''ProductInformation-ModelVersion'' (readFixedString 256) (\<lambda>v5.
     field ''ProductInformation-ModelSerialCode'' (readFixedString 256) (\<lambda>v6.
     field ''ProductInformation-CertificationLevel'' (readLookupField 8) (\<lambda>v7.
     field ''ProductInformation-LoadEquivalency'' (ReadRaw go_uint8 (Some fieldSpec_ProductInformation_LoadEquivalency)) (\<lambda>v8.
     returnE \<lparr>pin_Info = info,
       pin_NMEA2000Version = v1,
       pin_ProductCode = map_option of_int v2,
       pin_ModelID = v3,
       pin_SoftwareVersionCode = v4,
       pin_ModelVersion = v5,
       pin_ModelSerialCode = v6,
       pin_CertificationLevel = ucast v7,
       pin_LoadEquivalency = map_option of_int v8\<rparr>))))))))"

definition EncodeProductInformation :: "(rat \<Rightarrow> u64) \<Rightarrow> gotime \<Rightarrow> ProductInformation \<Rightarrow> (DataStream, MessageInfo) step" where
  "EncodeProductInformation hw now p =
     seqE (WriteScaled hw (pin_NMEA2000Version p) (Some fieldSpec_ProductInformation_NMEA2000Version)) (\<lambda>_.
     seqE (WriteRaw (map_option uint (pin_ProductCode p)) (Some fieldSpec_ProductInformation_ProductCode)) (\<lambda>_.
     seqE (writeStringFix (pin_ModelID p) 256 32) (\<lambda>_.
     seqE (writeStringFix (pin_SoftwareVersionCode p) 256 288) (\<lambda>_.
     seqE (writeStringFix (pin_ModelVersion p) 256 544) (\<lambda>_.
     seqE (writeStringFix (pin_ModelSerialCode p) 256 800) (\<lambda>_.
     seqE (putNumberRaw (ucast (pin_CertificationLevel p)) 8 1056) (\<lambda>_.
     seqE (WriteRaw (map_option uint (pin_LoadEquivalency p)) (Some fieldSpec_ProductInformation_LoadEquivalency)) (\<lambda>_.
     returnE (finish_info now 126996 (pin_Info p))))))))))"

definition ProductInformation_received :: "(rat \<Rightarrow> u64) \<Rightarrow> MessageInfo \<Rightarrow> ProductInformation \<Rightarrow> ProductInformation" where
  "ProductInformation_received hw info p = \<lparr>pin_Info = info,
     pin_NMEA2000Version = map_option (scaled_back hw 24 fieldSpec_ProductInformation_NMEA2000Version) (pin_NMEA2000Version p),
     pin_ProductCode = pin fieldSpec_ProductInformation_ProductCode (pin_ProductCode p),
     pin_ModelID = fixed_text 32 (pin_ModelID p),
     pin_SoftwareVersionCode = fixed_text 32 (pin_SoftwareVersionCode p),
     pin_ModelVersion = fixed_text 32 (pin_ModelVersion p),
     pin_ModelSerialCode = fixed_text 32 (pin_ModelSerialCode p),
     pin_CertificationLevel = take_bit 8 (pin_CertificationLevel p),
     pin_LoadEquivalency = pin fieldSpec_ProductInformation_LoadEquivalency (pin_LoadEquivalency p)\<rparr>"

lemma ProductInformation_codec: "codec (EncodeProductInformation hw) DecodeProductInformation pin_Info 126996 134
    (\<lambda>p. length (pin_ModelID p) < 65000 \<and> length (pin_SoftwareVersionCode p) < 65000 \<and> length (pin_ModelVersion p) < 65000 \<and> length (pin_ModelSerialCode p) < 65000) (ProductInformation_received hw)"
  unfolding EncodeProductInformation_def DecodeProductInformation_def ProductInformation_received_def
  by (rule codec.intro, rule carries_cong, (rule codec_steps carries_end
      | simp add: codec_facts pin_read lookup_read lookup_read_1 unit_read fieldSpec_ProductInformation_NMEA2000Version_def fieldSpec_ProductInformation_ProductCode_def fieldSpec_ProductInformation_LoadEquivalency_def)+)

section \<open>Properties\<close>

interpretation product_information: codec "EncodeProductInformation hw" DecodeProductInformation "pin_Info" 126996 134 "\<lambda>p. length (pin_ModelID p) < 65000 \<and> length (pin_SoftwareVersionCode p) < 65000 \<and> length (pin_ModelVersion p) < 65000 \<and> length (pin_ModelSerialCode p) < 65000" "ProductInformation_received hw"
  by (rule ProductInformation_codec)

text \<open>
  Claim C7. The messages of network management survive the wire: what the encoder of each of these 17 messages
  writes, its decoder reads back, whatever follows it in the packet, as the struct that was written with every field
  as its specification can carry it.
\<close>

theorem management_codecs:
  "round_trip EncodeZeroXe8000Xee00StandardizedSingleFrameAddressed DecodeZeroXe8000Xee00StandardizedSingleFrameAddressed ZeroXe8000Xee00StandardizedSingleFrameAddressed_Info 59392 8
    (\<lambda>p. length (ZeroXe8000Xee00StandardizedSingleFrameAddressed_Data p) < 65000) ZeroXe8000Xee00StandardizedSingleFrameAddressed_received \<and>
   round_trip EncodeISOAcknowledgement DecodeISOAcknowledgement iak_Info 59392 8
    (\<lambda>_. True) ISOAcknowledgement_received \<and>
   round_trip EncodeISORequest DecodeISORequest irq_Info 59904 3
    (\<lambda>_. True) ISORequest_received \<and>
   round_trip EncodeISOTransportProtocolDataTransfer DecodeISOTransportProtocolDataTransfer ISOTransportProtocolDataTransfer_Info 60160 8
    (\<lambda>p. length (ISOTransportProtocolDataTransfer_Data p) < 65000) ISOTransportProtocolDataTransfer_received \<and>
   round_trip EncodeISOAddressClaim DecodeISOAddressClaim clm_Info 60928 8
    (\<lambda>_. True) ISOAddressClaim_received \<and>
   round_trip EncodeZeroXef00ManufacturerProprietarySingleFrameAddressed DecodeZeroXef00ManufacturerProprietarySingleFrameAddressed ZeroXef00ManufacturerProprietarySingleFrameAddressed_Info 61184 8
    (\<lambda>p. length (ZeroXef00ManufacturerProprietarySingleFrameAddressed_Data p) < 65000) ZeroXef00ManufacturerProprietarySingleFrameAddressed_received \<and>
   round_trip EncodeZeroXf0000XfeffStandardizedSingleFrameNonAddressed DecodeZeroXf0000XfeffStandardizedSingleFrameNonAddressed ZeroXf0000XfeffStandardizedSingleFrameNonAddressed_Info 61440 8
    (\<lambda>p. length (ZeroXf0000XfeffStandardizedSingleFrameNonAddressed_Data p) < 65000) ZeroXf0000XfeffStandardizedSingleFrameNonAddressed_received \<and>
   round_trip EncodeZeroXff000XffffManufacturerProprietarySingleFrameNonAddressed DecodeZeroXff000XffffManufacturerProprietarySingleFrameNonAddressed ZeroXff000XffffManufacturerProprietarySingleFrameNonAddressed_Info 65280 8
    (\<lambda>p. length (ZeroXff000XffffManufacturerProprietarySingleFrameNonAddressed_Data p) < 65000) ZeroXff000XffffManufacturerProprietarySingleFrameNonAddressed_received \<and>
   round_trip EncodeZeroX1Ed000X1Ee00StandardizedFastPacketAddressed DecodeZeroX1Ed000X1Ee00StandardizedFastPacketAddressed ZeroX1Ed000X1Ee00StandardizedFastPacketAddressed_Info 126208 223
    (\<lambda>p. length (ZeroX1Ed000X1Ee00StandardizedFastPacketAddressed_Data p) < 65000) ZeroX1Ed000X1Ee00StandardizedFastPacketAddressed_received \<and>
   round_trip EncodeZeroX1Ef00ManufacturerProprietaryFastPacketAddressed DecodeZeroX1Ef00ManufacturerProprietaryFastPacketAddressed ZeroX1Ef00ManufacturerProprietaryFastPacketAddressed_Info 126720 223
    (\<lambda>p. length (ZeroX1Ef00ManufacturerProprietaryFastPacketAddressed_Data p) < 65000) ZeroX1Ef00ManufacturerProprietaryFastPacketAddressed_received \<and>
   round_trip EncodeZeroX1F0000X1FeffStandardizedMixedSingleFastPacketNonAddressed DecodeZeroX1F0000X1FeffStandardizedMixedSingleFastPacketNonAddressed ZeroX1F0000X1FeffStandardizedMixedSingleFastPacketNonAddressed_Info 126976 223
    (\<lambda>p. length (ZeroX1F0000X1FeffStandardizedMixedSingleFastPacketNonAddressed_Data p) < 65000) ZeroX1F0000X1FeffStandardizedMixedSingleFastPacketNonAddressed_received \<and>
   round_trip EncodeAlert DecodeAlert Alert_Info 126983 28
    (\<lambda>_. True) Alert_received \<and>
   round_trip EncodeAlertResponse DecodeAlertResponse AlertResponse_Info 126984 25
    (\<lambda>_. True) AlertResponse_received \<and>
   round_trip EncodeAlertConfiguration DecodeAlertConfiguration AlertConfiguration_Info 126986 20
    (\<lambda>_. True) AlertConfiguration_received \<and>
   round_trip (EncodeSystemTime hw) DecodeSystemTime SystemTime_Info 126992 8
    (\<lambda>_. True) (SystemTime_received hw) \<and>
   round_trip (EncodeHeartbeat hw) DecodeHeartbeat hbt_Info 126993 8
    (\<lambda>_. True) (Heartbeat_received hw) \<and>
   round_trip (EncodeProductInformation hw) DecodeProductInformation pin_Info 126996 134
    (\<lambda>p. length (pin_ModelID p) < 65000 \<and> length (pin_SoftwareVersionCode p) < 65000 \<and> length (pin_ModelVersion p) < 65000 \<and> length (pin_ModelSerialCode p) < 65000) (ProductInformation_received hw)"
  by (intro conjI codec.round_trips ZeroXe8000Xee00StandardizedSingleFrameAddressed_codec ISOAcknowledgement_codec ISORequest_codec
      ISOTransportProtocolDataTransfer_codec ISOAddressClaim_codec
      ZeroXef00ManufacturerProprietarySingleFrameAddressed_codec
      ZeroXf0000XfeffStandardizedSingleFrameNonAddressed_codec
      ZeroXff000XffffManufacturerProprietarySingleFrameNonAddressed_codec
      ZeroX1Ed000X1Ee00StandardizedFastPacketAddressed_codec
      ZeroX1Ef00ManufacturerProprietaryFastPacketAddressed_codec
      ZeroX1F0000X1FeffStandardizedMixedSingleFastPacketNonAddressed_codec Alert_codec AlertResponse_codec
      AlertConfiguration_codec SystemTime_codec Heartbeat_codec ProductInformation_codec)

end
