(* ===== verification/Managementwire.thy ===== *)
theory Managementwire
  imports Pgnmanagement Node
begin

text \<open>
  Address management over the wire: the table of decoders for its PGNs (\<open>discriminators_generated.go\<close>), the lists of
  PGNs, whose decoder repeats a field to the end of the data, and what becomes of address claims and acknowledgements
  between the code of \<open>pkg/node\<close> at both ends of a bus.
\<close>

section \<open>Lists of PGNs\<close>

definition fieldSpec_PGNListTransmitAndReceive_PGN :: FieldSpec where
  "fieldSpec_PGNListTransmitAndReceive_PGN = unsigned_spec 24 8 0xFFFFFD 0xFFFFFF 2"

text \<open>The loop over a repeated field, until the end of the data exactly.\<close>

partial_function (option) decode_PGNs ::
  "u32 option list \<Rightarrow> DataStream \<Rightarrow> ((goerror + u32 option list) \<times> DataStream) option" where
  "decode_PGNs rep s =
     (case ReadRaw go_uint32 (Some fieldSpec_PGNListTransmitAndReceive_PGN) s of
        None \<Rightarrow> None
      | Some (Inl e, s) \<Rightarrow> Some (Inl (''parse failed for PGNListTransmitAndReceive-PGN: '' @ e), s)
      | Some (Inr v, s) \<Rightarrow>
          (let rep = rep @ [map_option of_int v]
           in if isEOF s then Some (Inr rep, s) else decode_PGNs rep s))"

definition DecodePGNListTransmitAndReceive :: "MessageInfo \<Rightarrow> (DataStream, PGNListTransmitAndReceive) step" where
  "DecodePGNListTransmitAndReceive info =
     field ''PGNListTransmitAndReceive-FunctionCode'' (readLookupField 8) (\<lambda>function s.
       if isEOF s then returnE \<lparr>lst_Info = info, lst_FunctionCode = ucast function, lst_Repeating1 = []\<rparr> s
       else seqE (decode_PGNs []) (\<lambda>rep.
              returnE \<lparr>lst_Info = info, lst_FunctionCode = ucast function, lst_Repeating1 = rep\<rparr>) s)"

fun encodePGNListTransmitAndReceiveRepeating1 :: "u32 option list \<Rightarrow> (DataStream, unit) step" where
  "encodePGNListTransmitAndReceiveRepeating1 [] = returnE ()"
| "encodePGNListTransmitAndReceiveRepeating1 (v # rep) =
     seqE (WriteRaw (map_option uint v) (Some fieldSpec_PGNListTransmitAndReceive_PGN)) (\<lambda>_.
     encodePGNListTransmitAndReceiveRepeating1 rep)"

definition EncodePGNListTransmitAndReceive ::
  "gotime \<Rightarrow> PGNListTransmitAndReceive \<Rightarrow> (DataStream, MessageInfo) step" where
  "EncodePGNListTransmitAndReceive now p =
     seqE (putNumberRaw (ucast (lst_FunctionCode p)) 8 0) (\<lambda>_.
     seqE (encodePGNListTransmitAndReceiveRepeating1 (lst_Repeating1 p)) (\<lambda>_.
     returnE (finish_info now 126464 (lst_Info p))))"

definition PGNListTransmitAndReceive_received ::
  "MessageInfo \<Rightarrow> PGNListTransmitAndReceive \<Rightarrow> PGNListTransmitAndReceive" where
  "PGNListTransmitAndReceive_received info p = p\<lparr>lst_Info := info,
     lst_Repeating1 := map (pin fieldSpec_PGNListTransmitAndReceive_PGN) (lst_Repeating1 p)\<rparr>"

lemma isEOF_cursor: "stream_ok t \<Longrightarrow> isEOF t \<longleftrightarrow> cursor t = 8 * length (dat t)"
proof -
  assume t: "stream_ok t"
  have "isEOF t \<longleftrightarrow> unat (byteOffset t) = length (dat t) \<and> unat (bitOffset t) = 0"
    using t by (simp add: isEOF_def stream_ok_def word_unat_eq_iff unat_of_nat)
  moreover have "8 * unat (byteOffset t) + unat (bitOffset t) = 8 * length (dat t) \<longleftrightarrow>
      unat (byteOffset t) = length (dat t) \<and> unat (bitOffset t) = 0"
  proof -
    have "8 * b + c = 8 * l \<longleftrightarrow> b = l \<and> c = 0" if "c < 8" for b c l :: nat using that by presburger
    then show ?thesis using t by (simp add: stream_ok_def word_less_nat_alt)
  qed
  ultimately show ?thesis by (simp add: cursor_def)
qed

lemma carries_on_map:
  assumes "carries_on P i n w () r a"
  shows "carries_on P i n (seqE w (\<lambda>_. returnE b)) b (seqE r (\<lambda>x. returnE (f x))) (f a)"
  unfolding carries_on_def
proof (intro allI impI)
  fix s assume "ready s i n"
  then obtain s' where "w s = Some (Inr (), s')" "wrote s i n s'"
    "\<forall>t. agrees s' i n t \<longrightarrow> P (dat t) \<longrightarrow> r t = Some (Inr a, at_bit t (i + n))"
    using assms unfolding carries_on_def by blast
  then show "\<exists>s'. seqE w (\<lambda>_. returnE b) s = Some (Inr b, s') \<and> wrote s i n s' \<and>
      (\<forall>t. agrees s' i n t \<longrightarrow> P (dat t) \<longrightarrow> seqE r (\<lambda>x. returnE (f x)) t = Some (Inr (f a), at_bit t (i + n)))"
    by (intro exI[of _ s']) (simp add: seqE_Inr returnE_apply)
qed

text \<open>Reading the repeated field and going on is one step of the form of the others.\<close>

lemma decode_PGNs_field:
  "decode_PGNs acc = field ''PGNListTransmitAndReceive-PGN''
     (ReadRaw go_uint32 (Some fieldSpec_PGNListTransmitAndReceive_PGN))
     (\<lambda>v s. if isEOF s then Some (Inr (acc @ [map_option of_int v]), s) else decode_PGNs (acc @ [map_option of_int v]) s)"
  by (rule ext, subst decode_PGNs.simps) (auto simp: field_def Let_def split: option.splits sum.splits)

lemma carries_on_read_cong:
  assumes "carries_on P i n w b r a"
    and "\<And>t. stream_ok t \<Longrightarrow> cursor t = i \<Longrightarrow> P (dat t) \<Longrightarrow> r' t = r t"
  shows "carries_on P i n w b r' a"
  using assms(1) unfolding carries_on_def by (metis agrees_def assms(2))

lemma carries_on_PGN:
  "carries i 24 (WriteRaw (map_option uint v) (Some fieldSpec_PGNListTransmitAndReceive_PGN)) ()
     (ReadRaw go_uint32 (Some fieldSpec_PGNListTransmitAndReceive_PGN))
     (map_option (pinned fieldSpec_PGNListTransmitAndReceive_PGN) (map_option uint (v :: u32 option)))"
  by (rule carries_raw)
    (use uint_lt2p[where 'a = 32] in \<open>auto simp: codec_facts fieldSpec_PGNListTransmitAndReceive_PGN_def go_range_def\<close>)

lemma carries_PGNs:
  assumes "rep \<noteq> []" and "L = i + 24 * length rep"
  shows "carries_on (\<lambda>d. 8 * length d = L) i (24 * length rep) (encodePGNListTransmitAndReceiveRepeating1 rep) ()
     (decode_PGNs acc) (acc @ map (pin fieldSpec_PGNListTransmitAndReceive_PGN) rep)"
  using assms
proof (induction rep arbitrary: i acc)
  case (Cons v rep)
  let ?S = fieldSpec_PGNListTransmitAndReceive_PGN
  let ?acc = "acc @ [pin ?S v]"
  let ?k = "\<lambda>x s. if isEOF s then Some (Inr (acc @ [map_option of_int x]), s) else decode_PGNs (acc @ [map_option of_int x]) s"
  have "carries_on (\<lambda>d. 8 * length d = L) (i + 24) (24 * length rep) (encodePGNListTransmitAndReceiveRepeating1 rep) ()
    (?k (map_option (pinned ?S) (map_option uint v))) (acc @ map (pin ?S) (v # rep))"
  proof (cases "rep = []")
    case True
    have "carries_on (\<lambda>d. 8 * length d = L) (i + 24) 0 (returnE ()) () (returnE ?acc) ?acc"
      using carries_end by (auto simp: carries_everywhere carries_on_def)
    then show ?thesis
      using True Cons.prems(2)
      by (auto simp: pin_read isEOF_cursor returnE_def elim: carries_on_read_cong)
  next
    case False
    from Cons.IH[OF False, of "i + 24" ?acc] Cons.prems(2)
    have "carries_on (\<lambda>d. 8 * length d = L) (i + 24) (24 * length rep) (encodePGNListTransmitAndReceiveRepeating1 rep) ()
        (decode_PGNs ?acc) (?acc @ map (pin ?S) rep)" by simp
    then show ?thesis
      using False Cons.prems(2) by (auto simp: pin_read isEOF_cursor elim!: carries_on_read_cong)
  qed
  from carries_on_seq[where k = ?k, OF carries_on_PGN this]
  show ?case by (simp add: decode_PGNs_field)
qed simp

lemma PGNListTransmitAndReceive_codec:
  "whole_codec EncodePGNListTransmitAndReceive DecodePGNListTransmitAndReceive lst_Info 126464
     (\<lambda>p. 1 + 3 * length (lst_Repeating1 p)) (\<lambda>p. length (lst_Repeating1 p) \<le> 74) PGNListTransmitAndReceive_received"
proof
  fix p :: PGNListTransmitAndReceive and now info
  let ?S = fieldSpec_PGNListTransmitAndReceive_PGN
  let ?rep = "lst_Repeating1 p" and ?i = "finish_info now 126464 (lst_Info p)"
  let ?P = "\<lambda>d. length d = 1 + 3 * length ?rep"
  have f: "ucast (take_bit 8 (ucast (lst_FunctionCode p) :: u64)) = lst_FunctionCode p"
    using lookup_read[where 'a = 8, of 8 "lst_FunctionCode p"] by (simp add: word_size take_bit_word_eq_self)
  let ?out = "\<lambda>rep. \<lparr>lst_Info = info, lst_FunctionCode = lst_FunctionCode p, lst_Repeating1 = rep\<rparr>"
  let ?w = "seqE (encodePGNListTransmitAndReceiveRepeating1 ?rep) (\<lambda>_. returnE ?i)"
  let ?k = "\<lambda>(function :: u64) s. if isEOF s
     then returnE \<lparr>lst_Info = info, lst_FunctionCode = ucast function, lst_Repeating1 = []\<rparr> s
     else seqE (decode_PGNs []) (\<lambda>rep. returnE \<lparr>lst_Info = info, lst_FunctionCode = ucast function, lst_Repeating1 = rep\<rparr>) s"
  have P: "?P = (\<lambda>d. 8 * length d = 8 + 24 * length ?rep)" by auto
  have e: "?out (map (pin ?S) ?rep) = PGNListTransmitAndReceive_received info p"
    by (simp add: PGNListTransmitAndReceive_received_def)
  have rest: "carries_on ?P 8 (24 * length ?rep) ?w ?i (?k (take_bit 8 (ucast (lst_FunctionCode p))))
      (PGNListTransmitAndReceive_received info p)"
  proof (cases "?rep = []")
    case True
    have "carries_on ?P 8 0 (returnE ?i) ?i (returnE (?out [])) (?out [])"
      using carries_end by (auto simp: carries_everywhere carries_on_def)
    then have "carries_on ?P 8 0 (returnE ?i) ?i (?k (take_bit 8 (ucast (lst_FunctionCode p)))) (?out [])"
      using True by (elim carries_on_read_cong) (simp add: isEOF_cursor f)
    then show ?thesis using True e by (simp add: seqE_def[abs_def] returnE_def[abs_def])
  next
    case False
    have "carries_on ?P 8 (24 * length ?rep) (encodePGNListTransmitAndReceiveRepeating1 ?rep) ()
        (decode_PGNs []) (map (pin ?S) ?rep)"
      using carries_PGNs[OF False refl, of 8 "[]"] unfolding P by simp
    then have "carries_on ?P 8 (24 * length ?rep) ?w ?i (seqE (decode_PGNs []) (\<lambda>rep. returnE (?out rep)))
        (?out (map (pin ?S) ?rep))"
      by (rule carries_on_map)
    then show ?thesis
      unfolding e using False by (elim carries_on_read_cong) (simp add: isEOF_cursor f P)
  qed
  have "carries 0 8 (putNumberRaw (ucast (lst_FunctionCode p)) 8 0) () (readLookupField 8) (take_bit 8 (ucast (lst_FunctionCode p)))"
    by (rule carries_lookup) simp_all
  from carries_on_seq[where k = ?k, OF this, of ?P] rest
  show "carries_on ?P 0 (8 * (1 + 3 * length ?rep)) (EncodePGNListTransmitAndReceive now p) ?i
      (DecodePGNListTransmitAndReceive info) (PGNListTransmitAndReceive_received info p)"
    unfolding EncodePGNListTransmitAndReceive_def DecodePGNListTransmitAndReceive_def by simp
qed auto

interpretation pgn_list: whole_codec EncodePGNListTransmitAndReceive DecodePGNListTransmitAndReceive lst_Info 126464
  "\<lambda>p. 1 + 3 * length (lst_Repeating1 p)" "\<lambda>p. length (lst_Repeating1 p) \<le> 74" PGNListTransmitAndReceive_received
  by (rule PGNListTransmitAndReceive_codec)

section \<open>The table of decoders\<close>

text \<open>
  The entries of the messages of the node; none has a match specification. Data without structure becomes an
  \<open>OtherStruct\<close>, as for every struct the node has no case for.
\<close>

definition unstructured :: "ZeroXe8000Xee00StandardizedSingleFrameAddressed \<Rightarrow> Messages.message" where
  "unstructured m = OtherStruct (ZeroXe8000Xee00StandardizedSingleFrameAddressed_Info m)
     (ZeroXe8000Xee00StandardizedSingleFrameAddressed_Data m)"

definition variants_59392 :: "Messages.message PgnDiscriminator list" where
  "variants_59392 = [variant (entry unstructured DecodeZeroXe8000Xee00StandardizedSingleFrameAddressed),
     variant (entry MISOAcknowledgement DecodeISOAcknowledgement)]"
definition variants_59904 :: "Messages.message PgnDiscriminator list" where
  "variants_59904 = [variant (entry MISORequest DecodeISORequest)]"
definition variants_60928 :: "Messages.message PgnDiscriminator list" where
  "variants_60928 = [variant (entry MISOAddressClaim DecodeISOAddressClaim)]"
definition variants_126464 :: "Messages.message PgnDiscriminator list" where
  "variants_126464 = [variant (entry MPGNList DecodePGNListTransmitAndReceive)]"
definition variants_126993 :: "Messages.message PgnDiscriminator list" where
  "variants_126993 = [variant (entry MHeartbeat DecodeHeartbeat)]"
definition variants_126996 :: "Messages.message PgnDiscriminator list" where
  "variants_126996 = [variant (entry MProductInformation DecodeProductInformation)]"

definition management_variants :: "Messages.message variants" where
  "management_variants = [59392 \<mapsto> variants_59392, 59904 \<mapsto> variants_59904, 60928 \<mapsto> variants_60928,
     126464 \<mapsto> variants_126464, 126993 \<mapsto> variants_126993, 126996 \<mapsto> variants_126996]"

text \<open>From the adapter of one node to the packet handler of another; \<open>ts k\<close> is when frame \<open>k\<close> arrives.\<close>

definition transmit :: "'p variants \<Rightarrow> CANAdapter \<Rightarrow> CANAdapter \<Rightarrow> (nat \<Rightarrow> gotime) \<Rightarrow> MessageInfo \<Rightarrow> bytes
    \<Rightarrow> 'p decoded list option list option" where
  "transmit table s r ts info d =
     (case WritePgn s info d of (_, _, fs) \<Rightarrow>
        (case run_adapter r (arrivals (zip (map ts [0..<length fs]) fs)) of
           None \<Rightarrow> None
         | Some (_, qs) \<Rightarrow> Some (map (ps_HandlePacket table True) qs)))"

definition bus_ready :: "CANAdapter \<Rightarrow> CANAdapter \<Rightarrow> bool" where
  "bus_ready s r \<longleftrightarrow> frameWriter s \<and> seq_ids_ok s \<and> handler r \<and> mb_inv (multi r)"

lemma transmit_message:
  assumes "bus_ready s r" and "sendable info d"
  obtains q where "Canadapter.delivered info d q" and "transmit table s r ts info d = Some [ps_HandlePacket table True q]"
proof -
  obtain e s' fs where w: "WritePgn s info d = (e, s', fs)" by (metis prod_cases3)
  have "length (map ts [0..<length fs]) = length fs" by simp
  with receive_message[OF assms(2) _ _ _ _ w] assms(1) obtain m q where
    "run_adapter r (arrivals (zip (map ts [0..<length fs]) fs)) = Some (r\<lparr>multi := m\<rparr>, [q])" "Canadapter.delivered info d q"
    unfolding bus_ready_def by blast
  then show thesis by (intro that) (simp_all add: transmit_def w)
qed

section \<open>Address claims\<close>

interpretation address_claim: codec EncodeISOAddressClaim DecodeISOAddressClaim clm_Info 60928 8
  "\<lambda>_. True" ISOAddressClaim_received
  by (rule ISOAddressClaim_codec)

text \<open>The claim that a node sends with this configuration, as another node reads it.\<close>

definition claim_heard :: "gotime \<Rightarrow> CANAdapter \<Rightarrow> CANAdapter \<Rightarrow> (nat \<Rightarrow> gotime) \<Rightarrow> DeviceInfo \<Rightarrow> u8
    \<Rightarrow> ISOAddressClaim option" where
  "claim_heard now s r ts d a =
     (case Codec.publish (EncodeISOAddressClaim now (buildAddressClaim d a)) of
        Some (Inr (info, bytes)) \<Rightarrow>
          (case transmit management_variants s r ts info bytes of
             Some [Some [Known (MISOAddressClaim claim)]] \<Rightarrow> Some claim
           | _ \<Rightarrow> None)
      | _ \<Rightarrow> None)"

text \<open>
  The configuration that other nodes can know: the largest values of a number field mean that there is none, and the
  encoder writes the largest number instead.
\<close>

definition wire_device :: "DeviceInfo \<Rightarrow> DeviceInfo" where
  "wire_device d = d\<lparr>dev_UniqueNumber := min (dev_UniqueNumber d) 0x1FFFFD,
     dev_DeviceInstanceLower := min (dev_DeviceInstanceLower d) 6,
     dev_DeviceInstanceUpper := min (dev_DeviceInstanceUpper d) 0x1D,
     dev_SystemInstance := min (dev_SystemInstance d) 0xD\<rparr>"

lemma pin_unsigned:
  fixes w :: "'a::len word"
  assumes "\<not> IsSigned spec" and "ReservedCount spec \<noteq> 0" and "top_value spec = unat w + unat (ReservedCount spec)"
  shows "pin spec (Some v) = Some (min v w)"
proof -
  have "field_clamp spec (uint v) = uint (min v w)"
    using assms(1,3) by (auto simp: field_clamp_def field_min_def field_max_def min_def word_le_def)
  then show ?thesis using assms(2) by (simp add: pin_def pinned_def)
qed

lemma claim_numbers:
  "pin fieldSpec_ISOAddressClaim_UniqueNumber (Some v) = Some (min v 0x1FFFFD)"
  "pin fieldSpec_ISOAddressClaim_DeviceInstanceLower (Some w) = Some (min w 6)"
  "pin fieldSpec_ISOAddressClaim_DeviceInstanceUpper (Some w) = Some (min w 0x1D)"
  "pin fieldSpec_ISOAddressClaim_SystemInstance (Some w) = Some (min w 0xD)"
  for v :: u32 and w :: u8
  by (rule pin_unsigned; simp add: top_value_def fieldSpec_ISOAddressClaim_UniqueNumber_def
      fieldSpec_ISOAddressClaim_DeviceInstanceLower_def fieldSpec_ISOAddressClaim_DeviceInstanceUpper_def
      fieldSpec_ISOAddressClaim_SystemInstance_def)+

lemma take_bit_small: "unat w < 2 ^ n \<Longrightarrow> take_bit n w = (w :: 'a::len word)"
  by (metis take_bit_nat_eq_self unsigned_take_bit_eq unsigned_word_eqI)

lemma claim_received:
  assumes "device_ok d"
  shows "ISOAddressClaim_received info (buildAddressClaim d a) = (buildAddressClaim (wire_device d) a)\<lparr>clm_Info := info\<rparr>"
proof -
  have "take_bit 11 (dev_ManufacturerCode d) = dev_ManufacturerCode d" "take_bit 8 (dev_DeviceFunction d) = dev_DeviceFunction d"
    "take_bit 7 (dev_DeviceClass d) = dev_DeviceClass d" "take_bit 3 (dev_IndustryGroup d) = dev_IndustryGroup d"
    using assms by (auto intro!: take_bit_small simp: device_ok_def word_le_nat_alt)
  then show ?thesis
    by (simp add: ISOAddressClaim_received_def buildAddressClaim_def Let_def wire_device_def claim_numbers)
qed

lemma wire_device_ok: "device_ok d \<Longrightarrow> device_ok (wire_device d)"
  by (auto simp: device_ok_def wire_device_def min_def)

lemma claim_heard_eq:
  assumes "device_ok d" and "bus_ready s r"
  obtains info where "claim_heard now s r ts d a = Some ((buildAddressClaim (wire_device d) a)\<lparr>clm_Info := info\<rparr>)"
    and "SourceId info = a"
proof -
  let ?p = "buildAddressClaim d a"
  let ?i = "(clm_Info ?p)\<lparr>Timestamp := now\<rparr>"
  have i: "finish_info now 60928 (clm_Info ?p) = ?i" "PGN ?i = 60928" "SourceId ?i = a" "TargetId ?i = 255" "Priority ?i = 6"
    by (simp_all add: finish_info_def buildAddressClaim_def ISOAddressClaimPGN_def Let_def)
  obtain b where b: "Codec.publish (EncodeISOAddressClaim now ?p) = Some (Inr (?i, b))" "length b = 8"
    using address_claim.roundtrip[OF TrueI, of now ?p] i(1) by auto
  have single: "\<not> IsFast 60928" by code_simp
  have "sendable ?i b"
    using i b(2) single by (simp add: sendable_def pdu1_def pdu_format_def)
  with transmit_message[OF assms(2)] obtain q where q: "Canadapter.delivered ?i b q"
    "transmit management_variants s r ts ?i b = Some [ps_HandlePacket management_variants True q]" by metis
  have table: "management_variants 60928 = Some (variant (entry MISOAddressClaim DecodeISOAddressClaim) # [])"
    by (simp add: management_variants_def variants_60928_def)
  have "PGN (Info q) = 60928" "Data q = b @ []" "SourceId (Info q) = a"
    using q(1) b(2) single i by (auto simp: Canadapter.delivered_def received_data_def elim!: ssubst[of "Info q"])
  then have "ps_HandlePacket management_variants True q = Some [Known (MISOAddressClaim (ISOAddressClaim_received (Info q) ?p))]"
    using b(1) table by (intro address_claim.handled) auto
  then have "claim_heard now s r ts d a = Some ((buildAddressClaim (wire_device d) a)\<lparr>clm_Info := Info q\<rparr>)"
    by (simp add: claim_heard_def b(1) q(2) claim_received[OF assms(1)])
  then show thesis using \<open>SourceId (Info q) = a\<close> by (rule that)
qed

text \<open>The NAME as a number.\<close>

lemma unat_or_push_bit:
  fixes x y :: u64
  assumes "unat x < 2 ^ k" and "unat y < 2 ^ (64 - k)" and "k \<le> 64"
  shows "unat (x OR push_bit k y) = unat x + unat y * 2 ^ k"
proof -
  have "\<not> bit x n" if "k \<le> n" for n
    using take_bit_small[OF assms(1)] that by (metis bit_take_bit_iff not_less)
  then have "x AND push_bit k y = 0"
    by (intro bit_word_eqI) (auto simp: bit_and_iff bit_push_bit_iff)
  then have e: "x OR push_bit k y = x + push_bit k y" by (simp add: disjunctive_add_eq_or)
  have "(unat y + 1) * 2 ^ k \<le> 2 ^ (64 - k) * 2 ^ k" using assms(2) by (intro mult_le_mono1) simp
  also have "\<dots> = (2 :: nat) ^ 64" using assms(3) by (simp only: power_add[symmetric]) simp
  finally have b: "unat x + unat y * 2 ^ k < 2 ^ 64" using assms(1) by simp
  have "push_bit k y = word_of_nat (unat y * 2 ^ k)" by (simp add: push_bit_eq_mult)
  moreover have "unat y * 2 ^ k < 2 ^ 64" using b by simp
  ultimately have "unat (push_bit k y) = unat y * 2 ^ k" by (intro of_nat_inverse) simp_all
  with b show ?thesis unfolding e by (simp add: unat_word_ariths)
qed

lemma unat_name_of:
  fixes u :: u64
  assumes "unat u < 2 ^ 21" and "unat m < 2 ^ 11" and "unat l < 2 ^ 3" and "unat h < 2 ^ 5" and "unat f < 2 ^ 8"
    and "unat c < 2 ^ 7" and "unat s < 2 ^ 4" and "unat g < 2 ^ 3"
  shows "unat (name_of u m l h f c s g a) = unat u + unat m * 2 ^ 21 + unat l * 2 ^ 32 + unat h * 2 ^ 35
     + unat f * 2 ^ 40 + unat c * 2 ^ 49 + unat s * 2 ^ 56 + unat g * 2 ^ 60 + (if a then 2 ^ 63 else 0)"
proof -
  define x1 where "x1 = u OR push_bit 21 m"
  define x2 where "x2 = x1 OR push_bit 32 l"
  define x3 where "x3 = x2 OR push_bit 35 h"
  define x4 where "x4 = x3 OR push_bit 40 f"
  define x5 where "x5 = x4 OR push_bit 49 c"
  define x6 where "x6 = x5 OR push_bit 56 s"
  define x7 where "x7 = x6 OR push_bit 60 g"
  have 1: "unat x1 = unat u + unat m * 2 ^ 21"
    unfolding x1_def using assms by (intro unat_or_push_bit) simp_all
  have 2: "unat x2 = unat x1 + unat l * 2 ^ 32"
    unfolding x2_def using assms 1 by (intro unat_or_push_bit) simp_all
  have 3: "unat x3 = unat x2 + unat h * 2 ^ 35"
    unfolding x3_def using assms 1 2 by (intro unat_or_push_bit) simp_all
  have 4: "unat x4 = unat x3 + unat f * 2 ^ 40"
    unfolding x4_def using assms 1 2 3 by (intro unat_or_push_bit) simp_all
  have 5: "unat x5 = unat x4 + unat c * 2 ^ 49"
    unfolding x5_def using assms 1 2 3 4 by (intro unat_or_push_bit) simp_all
  have 6: "unat x6 = unat x5 + unat s * 2 ^ 56"
    unfolding x6_def using assms 1 2 3 4 5 by (intro unat_or_push_bit) simp_all
  have 7: "unat x7 = unat x6 + unat g * 2 ^ 60"
    unfolding x7_def using assms 1 2 3 4 5 6 by (intro unat_or_push_bit) simp_all
  let ?a = "if a then 1 else 0 :: u64"
  have "name_of u m l h f c s g a = x7 OR push_bit 63 ?a"
    by (simp add: name_of_def x7_def x6_def x5_def x4_def x3_def x2_def x1_def or.assoc)
  moreover have "unat (x7 OR push_bit 63 ?a) = unat x7 + unat ?a * 2 ^ 63"
    using assms 1 2 3 4 5 6 7 by (intro unat_or_push_bit) simp_all
  ultimately show ?thesis using 1 2 3 4 5 6 7 by simp
qed

text \<open>A configuration with a value that stands for none is announced with a lower NAME than its own.\<close>

lemma wire_device_lower:
  assumes "device_ok d" and "wire_device d \<noteq> d"
  shows "device_name (wire_device d) < device_name d"
proof -
  have b: "unat (dev_UniqueNumber d) < 2 ^ 21" "unat (dev_ManufacturerCode d) < 2 ^ 11"
    "unat (dev_DeviceInstanceLower d) < 2 ^ 3" "unat (dev_DeviceInstanceUpper d) < 2 ^ 5"
    "unat (dev_DeviceFunction d) < 2 ^ 8" "unat (dev_DeviceClass d) < 2 ^ 7"
    "unat (dev_SystemInstance d) < 2 ^ 4" "unat (dev_IndustryGroup d) < 2 ^ 3" if "device_ok d" for d
    using that by (simp_all add: device_ok_def word_le_nat_alt)
  have n: "unat (device_name d) = unat (dev_UniqueNumber d) + unat (dev_ManufacturerCode d) * 2 ^ 21
     + unat (dev_DeviceInstanceLower d) * 2 ^ 32 + unat (dev_DeviceInstanceUpper d) * 2 ^ 35
     + unat (dev_DeviceFunction d) * 2 ^ 40 + unat (dev_DeviceClass d) * 2 ^ 49 + unat (dev_SystemInstance d) * 2 ^ 56
     + unat (dev_IndustryGroup d) * 2 ^ 60 + (if dev_ArbitraryAddressCapable d then 2 ^ 63 else 0)" if "device_ok d" for d
    unfolding device_name_def using b[OF that] by (subst unat_name_of) (simp_all add: unat_ucast_up)
  let ?w = "wire_device d"
  have "unat (dev_UniqueNumber ?w) \<le> unat (dev_UniqueNumber d)"
    "unat (dev_DeviceInstanceLower ?w) \<le> unat (dev_DeviceInstanceLower d)"
    "unat (dev_DeviceInstanceUpper ?w) \<le> unat (dev_DeviceInstanceUpper d)"
    "unat (dev_SystemInstance ?w) \<le> unat (dev_SystemInstance d)"
    by (simp_all add: wire_device_def min_def word_le_nat_alt)
  then have "unat (device_name ?w) \<le> unat (device_name d)"
    unfolding n[OF assms(1)] n[OF wire_device_ok[OF assms(1)]] by (simp add: wire_device_def)
  moreover have "device_name ?w \<noteq> device_name d"
    using device_name_inj[OF wire_device_ok[OF assms(1)] assms(1)] assms(2) by blast
  ultimately show ?thesis by (simp add: word_less_nat_alt le_less word_unat_eq_iff)
qed

lemma claim_name_wire:
  assumes "device_ok d"
  shows "computeNameFromClaim ((buildAddressClaim (wire_device d) a)\<lparr>clm_Info := info\<rparr>) = device_name (wire_device d)"
proof -
  have "computeNameFromClaim (c\<lparr>clm_Info := info\<rparr>) = computeNameFromClaim c" for c
    by (simp add: computeNameFromClaim_eq)
  then show ?thesis using claim_name[OF wire_device_ok[OF assms]] by simp
qed

definition a_sender :: CANAdapter where "a_sender = SetWriter NewCANAdapter True"
definition a_receiver :: CANAdapter where "a_receiver = SetOutput NewCANAdapter True"

lemma bus_ready_new: "bus_ready a_sender a_receiver"
  by (simp add: bus_ready_def a_sender_def a_receiver_def SetWriter_def SetOutput_def NewCANAdapter_def mb_inv_new
      seq_ids_ok_def inner_def)

section \<open>Properties\<close>

text \<open>
  Claim C2. What a node announces reaches the others: the claim of a configuration with a NAME, encoded, sent in a
  frame, put together, looked up in the table and decoded, is heard as a claim of its address. The NAME it is heard
  with is never higher than its own, and is its own exactly when no field of the configuration has a value that the
  wire format reserves, which the encoder replaces by the largest number.
\<close>

theorem claim_reaches_others:
  assumes "computeName d = Inr n" and "bus_ready s r"
  shows "\<exists>c. claim_heard now s r ts d a = Some c \<and> SourceId (clm_Info c) = a
     \<and> computeNameFromClaim c = device_name (wire_device d) \<and> computeNameFromClaim c \<le> n
     \<and> (computeNameFromClaim c = n \<longleftrightarrow> wire_device d = d)"
proof -
  have d: "device_ok d" "n = device_name d" using assms(1) by (simp_all add: computeName_eq)
  obtain info where c: "claim_heard now s r ts d a = Some ((buildAddressClaim (wire_device d) a)\<lparr>clm_Info := info\<rparr>)"
    "SourceId info = a"
    by (rule claim_heard_eq[OF d(1) assms(2)])
  then show ?thesis
    using claim_name_wire[OF d(1)] wire_device_lower[OF d(1)] d(2) by (cases "wire_device d = d") auto
qed

theorem claim_reaches_others_witness:
  "\<exists>c. claim_heard 5 a_sender a_receiver (\<lambda>k. 6) ex_device 42 = Some c \<and> SourceId (clm_Info c) = 42
     \<and> computeNameFromClaim c = device_name ex_device"
proof -
  have "wire_device ex_device = ex_device" by (simp add: wire_device_def ex_device_def min_def)
  with claim_reaches_others[of ex_device "device_name ex_device", OF _ bus_ready_new, where now = 5 and ts = "\<lambda>k. 6" and a = 42]
  show ?thesis by (auto simp: computeName_eq ex_device_ok)
qed

lemma lower_claim_yields:
  assumes "holds_address n a" and "SourceId (clm_Info c) = a" and "computeNameFromClaim c < node_name n"
  shows "\<not> addressClaimed (processIsoAddressClaim t order n c)"
proof -
  define m where "m = publish_update order (updateKnownDeviceFromClaim t n c (computeNameFromClaim c))"
  have "(nd_addressState m \<noteq> stateClaiming \<and> nd_addressState m \<noteq> stateClaimed) = False"
    and "networkAddress m = a" and "(computeNameFromClaim c < node_name m) = True"
    using assms by (auto simp: m_def holds_address_def)
  then show ?thesis
    unfolding processIsoAddressClaim_def Let_def m_def[symmetric] assms(2)
    by (auto split: option.split)
qed

text \<open>
  Claim C14. Two devices may lose their address to each other: when both hold it and their configurations are not the
  same but are the same on the wire, both with reserved values, each hears of a NAME lower than its own, and after they
  have read each other's claims neither holds the address.
\<close>

theorem reserved_names_both_yield:
  assumes "holds_address n1 a" and "holds_address n2 a" and "wire_device (deviceInfo n1) = wire_device (deviceInfo n2)"
    and "wire_device (deviceInfo n1) \<noteq> deviceInfo n1" and "wire_device (deviceInfo n2) \<noteq> deviceInfo n2"
    and "bus_ready s1 r2" and "bus_ready s2 r1"
  shows "\<exists>c1 c2. claim_heard t1 s1 r2 ts1 (deviceInfo n1) a = Some c1 \<and> claim_heard t2 s2 r1 ts2 (deviceInfo n2) a = Some c2
     \<and> \<not> addressClaimed (processIsoAddressClaim u1 o1 n1 c2) \<and> \<not> addressClaimed (processIsoAddressClaim u2 o2 n2 c1)"
proof -
  have d: "device_ok (deviceInfo n1)" "device_ok (deviceInfo n2)"
    "node_name n1 = device_name (deviceInfo n1)" "node_name n2 = device_name (deviceInfo n2)"
    using assms(1,2) by (simp_all add: holds_address_def computeName_eq)
  obtain i1 where c1: "claim_heard t1 s1 r2 ts1 (deviceInfo n1) a
      = Some ((buildAddressClaim (wire_device (deviceInfo n1)) a)\<lparr>clm_Info := i1\<rparr>)" "SourceId i1 = a"
    by (rule claim_heard_eq[OF d(1) assms(6)])
  obtain i2 where c2: "claim_heard t2 s2 r1 ts2 (deviceInfo n2) a
      = Some ((buildAddressClaim (wire_device (deviceInfo n2)) a)\<lparr>clm_Info := i2\<rparr>)" "SourceId i2 = a"
    by (rule claim_heard_eq[OF d(2) assms(7)])
  have "\<not> addressClaimed (processIsoAddressClaim u1 o1 n1 ((buildAddressClaim (wire_device (deviceInfo n2)) a)\<lparr>clm_Info := i2\<rparr>))"
    using c2(2) claim_name_wire[OF d(2)] wire_device_lower[OF d(1) assms(4)] assms(3) d(3)
    by (intro lower_claim_yields[OF assms(1)]) simp_all
  moreover have "\<not> addressClaimed (processIsoAddressClaim u2 o2 n2 ((buildAddressClaim (wire_device (deviceInfo n1)) a)\<lparr>clm_Info := i1\<rparr>))"
    using c1(2) claim_name_wire[OF d(1)] wire_device_lower[OF d(2) assms(5)] assms(3) d(4)
    by (intro lower_claim_yields[OF assms(2)]) simp_all
  ultimately show ?thesis using c1(1) c2(1) by blast
qed

theorem reserved_names_both_yield_witness:
  "\<exists>c1 c2. claim_heard 1 a_sender a_receiver (\<lambda>k. 2) (deviceInfo (device_node 0x1FFFFE 35)) 35 = Some c1
     \<and> claim_heard 1 a_sender a_receiver (\<lambda>k. 2) (deviceInfo (device_node 0x1FFFFF 35)) 35 = Some c2
     \<and> \<not> addressClaimed (processIsoAddressClaim 3 [] (device_node 0x1FFFFE 35) c2)
     \<and> \<not> addressClaimed (processIsoAddressClaim 3 [] (device_node 0x1FFFFF 35) c1)"
proof (rule reserved_names_both_yield[OF _ _ _ _ _ bus_ready_new bus_ready_new])
  show "holds_address (device_node 0x1FFFFE 35) 35" "holds_address (device_node 0x1FFFFF 35) 35"
    by (simp_all add: holds_address_def device_node_def SetDeviceInfo_def claimed_node_def computeName_def
        empty_DeviceInfo_def)
qed (simp_all add: wire_device_def device_node_def SetDeviceInfo_def claimed_node_def empty_DeviceInfo_def min_def computeName_def)

interpretation acknowledgement: codec EncodeISOAcknowledgement DecodeISOAcknowledgement iak_Info 59392 8
  "\<lambda>_. True" ISOAcknowledgement_received
  by (rule ISOAcknowledgement_codec)

lemma unstructured_handled:
  assumes "PGN (Info q) = 59392" and "8 \<le> length (Data q)" and "length (Data q) < 65536"
  shows "ps_HandlePacket management_variants True q = Some [Known (OtherStruct (Info q) (take 8 (Data q)))]"
proof -
  let ?s = "NewDataStream (Data q) (length (Data q))"
  have "aligned ?s" "byte_pos ?s = 0" using assms(3) by (simp_all add: aligned_def byte_pos_def NewDataStream_def stream_ok_def cursor_def)
  then have "readBinaryData 64 ?s = Some (Inr (take 8 (Data q)), at_bit ?s 64)"
    using readBinaryData_aligned[of ?s 64 8] assms(2) by (simp add: NewDataStream_def)
  then have "DecodeZeroXe8000Xee00StandardizedSingleFrameAddressed (Info q) ?s = Some (Inr
      \<lparr>ZeroXe8000Xee00StandardizedSingleFrameAddressed_Info = Info q,
       ZeroXe8000Xee00StandardizedSingleFrameAddressed_Data = take 8 (Data q)\<rparr>, at_bit ?s 64)"
    by (simp add: DecodeZeroXe8000Xee00StandardizedSingleFrameAddressed_def field_def returnE_apply)
  moreover have "management_variants (PGN (Info q)) = Some (variant (entry unstructured
      DecodeZeroXe8000Xee00StandardizedSingleFrameAddressed) # [variant (entry MISOAcknowledgement DecodeISOAcknowledgement)])"
    by (simp add: assms(1) management_variants_def variants_59392_def)
  ultimately show ?thesis
    using handled_by[where f = unstructured] by (fastforce simp: unstructured_def)
qed

text \<open>
  Claim C21. An acknowledgement never arrives as one: whatever a node acknowledges or refuses with an
  \<open>ISOAcknowledgement\<close>, the node it is for decodes it as eight bytes without structure, because the table has their
  decoder before that of the acknowledgement and it takes everything.
\<close>

theorem acknowledgement_shadowed:
  assumes "bus_ready s r" and "PGN (iak_Info p) \<in> {0, 59392}" and "Priority (iak_Info p) < 8"
  shows "\<exists>info d i. Codec.publish (EncodeISOAcknowledgement now p) = Some (Inr (info, d)) \<and> length d = 8
     \<and> transmit management_variants s r ts info d = Some [Some [Known (OtherStruct i d)]]
     \<and> PGN i = 59392 \<and> SourceId i = SourceId (iak_Info p) \<and> TargetId i = TargetId (iak_Info p)"
proof -
  define i where "i = finish_info now 59392 (iak_Info p)"
  have i: "PGN i = 59392" "Priority i < 8" "SourceId i = SourceId (iak_Info p)" "TargetId i = TargetId (iak_Info p)"
    using assms(2,3) by (auto simp: i_def finish_info_def)
  obtain d where d: "Codec.publish (EncodeISOAcknowledgement now p) = Some (Inr (i, d))" "length d = 8"
    using acknowledgement.roundtrip[OF TrueI, of now p] by (auto simp: i_def)
  have single: "\<not> IsFast 59392" by code_simp
  then have "sendable i d" using i d(2) by (simp add: sendable_def pdu1_def pdu_format_def)
  with transmit_message[OF assms(1)] obtain q where q: "Canadapter.delivered i d q"
    "transmit management_variants s r ts i d = Some [ps_HandlePacket management_variants True q]" by metis
  have "PGN (Info q) = 59392" "Data q = d" "SourceId (Info q) = SourceId i" "TargetId (Info q) = TargetId i"
    using q(1) d(2) single i(1)
    by (auto simp: Canadapter.delivered_def received_data_def elim!: ssubst[of "Info q"])
  then show ?thesis using unstructured_handled[of q] d q(2) i by auto
qed

theorem acknowledgement_shadowed_witness:
  "\<exists>info d i. Codec.publish (EncodeISOAcknowledgement 1 \<lparr>iak_Info = header ISOAcknowledgementPGN 35 7 6,
        iak_Control = 1, iak_GroupFunction = None, iak_PGN = Some 126998\<rparr>) = Some (Inr (info, d)) \<and> length d = 8
     \<and> transmit management_variants a_sender a_receiver (\<lambda>k. 2) info d = Some [Some [Known (OtherStruct i d)]]
     \<and> SourceId i = 35"
  using acknowledgement_shadowed[OF bus_ready_new, of "\<lparr>iak_Info = header ISOAcknowledgementPGN 35 7 6,
        iak_Control = 1, iak_GroupFunction = None, iak_PGN = Some 126998\<rparr>" 1 "\<lambda>k. 2"]
  by (auto simp: header_def ISOAcknowledgementPGN_def)



end
