(* ===== verification/Pgnpower.thy ===== *)
theory Pgnpower
  imports Scaled
begin

text \<open>
  Messages of electrical systems: AC sources and loads, batteries, chargers, inverters and switch banks. Each
  subsection has the field specifications of a message (\<open>fieldspec_vars_generated.go\<close>), its struct
  (\<open>pkg/pgn/types_generated.go\<close>), its decoder and its encoder (\<open>decoders_generated.go\<close>,
  \<open>encoders_generated.go\<close>); the function \<open>_received\<close> says what a struct is after the wire:
  an integer clamped to its field (\<open>pin\<close>), an enumeration cut to its width, bytes cut and filled up, text
  cut at its padding, a scaled number or a quantity rounded to the resolution of its field
  (\<open>scaled_back\<close>, \<open>unit_back\<close>). The lemma \<open>_codec\<close> says that the pair satisfies
  the contract \<open>codec\<close>. \<open>hw\<close> is what the processor makes of a float that no
  \<open>uint64\<close> holds, \<open>lib\<close> the package \<open>units\<close>, which is not part of this
  repository.
\<close>

section \<open>Messages\<close>

subsection \<open>Bus1PhaseCBasicACQuantities\<close>

definition fieldSpec_Bus1PhaseCBasicACQuantities_LineLineACRMSVoltage :: FieldSpec where
  "fieldSpec_Bus1PhaseCBasicACQuantities_LineLineACRMSVoltage = unsigned_spec 16 0 0xFFFD 0xFFFF 2"

definition fieldSpec_Bus1PhaseCBasicACQuantities_LineNeutralACRMSVoltage :: FieldSpec where
  "fieldSpec_Bus1PhaseCBasicACQuantities_LineNeutralACRMSVoltage = unsigned_spec 16 16 0xFFFD 0xFFFF 2"

definition fieldSpec_Bus1PhaseCBasicACQuantities_ACFrequency :: ScaledSpec where
  "fieldSpec_Bus1PhaseCBasicACQuantities_ACFrequency =
     scaled_spec 16 32 0xFFFD 0xFFFF 0 False 2 0.0078125 None None"

record Bus1PhaseCBasicACQuantities =
  Bus1PhaseCBasicACQuantities_Info :: MessageInfo
  Bus1PhaseCBasicACQuantities_LineLineACRMSVoltage :: "u16 option"
  Bus1PhaseCBasicACQuantities_LineNeutralACRMSVoltage :: "u16 option"
  Bus1PhaseCBasicACQuantities_ACFrequency :: "rat option"

definition DecodeBus1PhaseCBasicACQuantities :: "MessageInfo \<Rightarrow> (DataStream, Bus1PhaseCBasicACQuantities) step" where
  "DecodeBus1PhaseCBasicACQuantities info =
     field ''Bus1PhaseCBasicACQuantities-LineLineACRMSVoltage'' (ReadRaw go_uint16 (Some fieldSpec_Bus1PhaseCBasicACQuantities_LineLineACRMSVoltage)) (\<lambda>v1.
     field ''Bus1PhaseCBasicACQuantities-LineNeutralACRMSVoltage'' (ReadRaw go_uint16 (Some fieldSpec_Bus1PhaseCBasicACQuantities_LineNeutralACRMSVoltage)) (\<lambda>v2.
     field ''Bus1PhaseCBasicACQuantities-ACFrequency'' (ReadScaled 24 (Some fieldSpec_Bus1PhaseCBasicACQuantities_ACFrequency)) (\<lambda>v3.
     skip 16 (
     returnE \<lparr>Bus1PhaseCBasicACQuantities_Info = info,
       Bus1PhaseCBasicACQuantities_LineLineACRMSVoltage = map_option of_int v1,
       Bus1PhaseCBasicACQuantities_LineNeutralACRMSVoltage = map_option of_int v2,
       Bus1PhaseCBasicACQuantities_ACFrequency = v3\<rparr>))))"

definition EncodeBus1PhaseCBasicACQuantities :: "(rat \<Rightarrow> u64) \<Rightarrow> gotime \<Rightarrow> Bus1PhaseCBasicACQuantities \<Rightarrow> (DataStream, MessageInfo) step" where
  "EncodeBus1PhaseCBasicACQuantities hw now p =
     seqE (WriteRaw (map_option uint (Bus1PhaseCBasicACQuantities_LineLineACRMSVoltage p)) (Some fieldSpec_Bus1PhaseCBasicACQuantities_LineLineACRMSVoltage)) (\<lambda>_.
     seqE (WriteRaw (map_option uint (Bus1PhaseCBasicACQuantities_LineNeutralACRMSVoltage p)) (Some fieldSpec_Bus1PhaseCBasicACQuantities_LineNeutralACRMSVoltage)) (\<lambda>_.
     seqE (WriteScaled hw (Bus1PhaseCBasicACQuantities_ACFrequency p) (Some fieldSpec_Bus1PhaseCBasicACQuantities_ACFrequency)) (\<lambda>_.
     seqE (writeReserved 16 48) (\<lambda>_.
     returnE (finish_info now 65001 (Bus1PhaseCBasicACQuantities_Info p))))))"

definition Bus1PhaseCBasicACQuantities_received :: "(rat \<Rightarrow> u64) \<Rightarrow> MessageInfo \<Rightarrow> Bus1PhaseCBasicACQuantities \<Rightarrow> Bus1PhaseCBasicACQuantities" where
  "Bus1PhaseCBasicACQuantities_received hw info p = \<lparr>Bus1PhaseCBasicACQuantities_Info = info,
     Bus1PhaseCBasicACQuantities_LineLineACRMSVoltage = pin fieldSpec_Bus1PhaseCBasicACQuantities_LineLineACRMSVoltage (Bus1PhaseCBasicACQuantities_LineLineACRMSVoltage p),
     Bus1PhaseCBasicACQuantities_LineNeutralACRMSVoltage = pin fieldSpec_Bus1PhaseCBasicACQuantities_LineNeutralACRMSVoltage (Bus1PhaseCBasicACQuantities_LineNeutralACRMSVoltage p),
     Bus1PhaseCBasicACQuantities_ACFrequency = map_option (scaled_back hw 24 fieldSpec_Bus1PhaseCBasicACQuantities_ACFrequency) (Bus1PhaseCBasicACQuantities_ACFrequency p)\<rparr>"

lemma Bus1PhaseCBasicACQuantities_codec: "codec (EncodeBus1PhaseCBasicACQuantities hw) DecodeBus1PhaseCBasicACQuantities Bus1PhaseCBasicACQuantities_Info 65001 8
    (\<lambda>_. True) (Bus1PhaseCBasicACQuantities_received hw)"
  unfolding EncodeBus1PhaseCBasicACQuantities_def DecodeBus1PhaseCBasicACQuantities_def Bus1PhaseCBasicACQuantities_received_def
  by (rule codec.intro, rule carries_cong, (rule codec_steps carries_end
      | simp add: codec_facts pin_read lookup_read lookup_read_1 unit_read fieldSpec_Bus1PhaseCBasicACQuantities_LineLineACRMSVoltage_def fieldSpec_Bus1PhaseCBasicACQuantities_LineNeutralACRMSVoltage_def fieldSpec_Bus1PhaseCBasicACQuantities_ACFrequency_def)+)

subsection \<open>Bus1PhaseBBasicACQuantities\<close>

definition fieldSpec_Bus1PhaseBBasicACQuantities_LineLineACRMSVoltage :: FieldSpec where
  "fieldSpec_Bus1PhaseBBasicACQuantities_LineLineACRMSVoltage = unsigned_spec 16 0 0xFFFD 0xFFFF 2"

definition fieldSpec_Bus1PhaseBBasicACQuantities_LineNeutralACRMSVoltage :: FieldSpec where
  "fieldSpec_Bus1PhaseBBasicACQuantities_LineNeutralACRMSVoltage = unsigned_spec 16 16 0xFFFD 0xFFFF 2"

definition fieldSpec_Bus1PhaseBBasicACQuantities_ACFrequency :: ScaledSpec where
  "fieldSpec_Bus1PhaseBBasicACQuantities_ACFrequency =
     scaled_spec 16 32 0xFFFD 0xFFFF 0 False 2 0.0078125 None None"

record Bus1PhaseBBasicACQuantities =
  Bus1PhaseBBasicACQuantities_Info :: MessageInfo
  Bus1PhaseBBasicACQuantities_LineLineACRMSVoltage :: "u16 option"
  Bus1PhaseBBasicACQuantities_LineNeutralACRMSVoltage :: "u16 option"
  Bus1PhaseBBasicACQuantities_ACFrequency :: "rat option"

definition DecodeBus1PhaseBBasicACQuantities :: "MessageInfo \<Rightarrow> (DataStream, Bus1PhaseBBasicACQuantities) step" where
  "DecodeBus1PhaseBBasicACQuantities info =
     field ''Bus1PhaseBBasicACQuantities-LineLineACRMSVoltage'' (ReadRaw go_uint16 (Some fieldSpec_Bus1PhaseBBasicACQuantities_LineLineACRMSVoltage)) (\<lambda>v1.
     field ''Bus1PhaseBBasicACQuantities-LineNeutralACRMSVoltage'' (ReadRaw go_uint16 (Some fieldSpec_Bus1PhaseBBasicACQuantities_LineNeutralACRMSVoltage)) (\<lambda>v2.
     field ''Bus1PhaseBBasicACQuantities-ACFrequency'' (ReadScaled 24 (Some fieldSpec_Bus1PhaseBBasicACQuantities_ACFrequency)) (\<lambda>v3.
     skip 16 (
     returnE \<lparr>Bus1PhaseBBasicACQuantities_Info = info,
       Bus1PhaseBBasicACQuantities_LineLineACRMSVoltage = map_option of_int v1,
       Bus1PhaseBBasicACQuantities_LineNeutralACRMSVoltage = map_option of_int v2,
       Bus1PhaseBBasicACQuantities_ACFrequency = v3\<rparr>))))"

definition EncodeBus1PhaseBBasicACQuantities :: "(rat \<Rightarrow> u64) \<Rightarrow> gotime \<Rightarrow> Bus1PhaseBBasicACQuantities \<Rightarrow> (DataStream, MessageInfo) step" where
  "EncodeBus1PhaseBBasicACQuantities hw now p =
     seqE (WriteRaw (map_option uint (Bus1PhaseBBasicACQuantities_LineLineACRMSVoltage p)) (Some fieldSpec_Bus1PhaseBBasicACQuantities_LineLineACRMSVoltage)) (\<lambda>_.
     seqE (WriteRaw (map_option uint (Bus1PhaseBBasicACQuantities_LineNeutralACRMSVoltage p)) (Some fieldSpec_Bus1PhaseBBasicACQuantities_LineNeutralACRMSVoltage)) (\<lambda>_.
     seqE (WriteScaled hw (Bus1PhaseBBasicACQuantities_ACFrequency p) (Some fieldSpec_Bus1PhaseBBasicACQuantities_ACFrequency)) (\<lambda>_.
     seqE (writeReserved 16 48) (\<lambda>_.
     returnE (finish_info now 65002 (Bus1PhaseBBasicACQuantities_Info p))))))"

definition Bus1PhaseBBasicACQuantities_received :: "(rat \<Rightarrow> u64) \<Rightarrow> MessageInfo \<Rightarrow> Bus1PhaseBBasicACQuantities \<Rightarrow> Bus1PhaseBBasicACQuantities" where
  "Bus1PhaseBBasicACQuantities_received hw info p = \<lparr>Bus1PhaseBBasicACQuantities_Info = info,
     Bus1PhaseBBasicACQuantities_LineLineACRMSVoltage = pin fieldSpec_Bus1PhaseBBasicACQuantities_LineLineACRMSVoltage (Bus1PhaseBBasicACQuantities_LineLineACRMSVoltage p),
     Bus1PhaseBBasicACQuantities_LineNeutralACRMSVoltage = pin fieldSpec_Bus1PhaseBBasicACQuantities_LineNeutralACRMSVoltage (Bus1PhaseBBasicACQuantities_LineNeutralACRMSVoltage p),
     Bus1PhaseBBasicACQuantities_ACFrequency = map_option (scaled_back hw 24 fieldSpec_Bus1PhaseBBasicACQuantities_ACFrequency) (Bus1PhaseBBasicACQuantities_ACFrequency p)\<rparr>"

lemma Bus1PhaseBBasicACQuantities_codec: "codec (EncodeBus1PhaseBBasicACQuantities hw) DecodeBus1PhaseBBasicACQuantities Bus1PhaseBBasicACQuantities_Info 65002 8
    (\<lambda>_. True) (Bus1PhaseBBasicACQuantities_received hw)"
  unfolding EncodeBus1PhaseBBasicACQuantities_def DecodeBus1PhaseBBasicACQuantities_def Bus1PhaseBBasicACQuantities_received_def
  by (rule codec.intro, rule carries_cong, (rule codec_steps carries_end
      | simp add: codec_facts pin_read lookup_read lookup_read_1 unit_read fieldSpec_Bus1PhaseBBasicACQuantities_LineLineACRMSVoltage_def fieldSpec_Bus1PhaseBBasicACQuantities_LineNeutralACRMSVoltage_def fieldSpec_Bus1PhaseBBasicACQuantities_ACFrequency_def)+)

subsection \<open>Bus1PhaseABasicACQuantities\<close>

definition fieldSpec_Bus1PhaseABasicACQuantities_LineLineACRMSVoltage :: FieldSpec where
  "fieldSpec_Bus1PhaseABasicACQuantities_LineLineACRMSVoltage = unsigned_spec 16 0 0xFFFD 0xFFFF 2"

definition fieldSpec_Bus1PhaseABasicACQuantities_LineNeutralACRMSVoltage :: FieldSpec where
  "fieldSpec_Bus1PhaseABasicACQuantities_LineNeutralACRMSVoltage = unsigned_spec 16 16 0xFFFD 0xFFFF 2"

definition fieldSpec_Bus1PhaseABasicACQuantities_ACFrequency :: ScaledSpec where
  "fieldSpec_Bus1PhaseABasicACQuantities_ACFrequency =
     scaled_spec 16 32 0xFFFD 0xFFFF 0 False 2 0.0078125 None None"

record Bus1PhaseABasicACQuantities =
  Bus1PhaseABasicACQuantities_Info :: MessageInfo
  Bus1PhaseABasicACQuantities_LineLineACRMSVoltage :: "u16 option"
  Bus1PhaseABasicACQuantities_LineNeutralACRMSVoltage :: "u16 option"
  Bus1PhaseABasicACQuantities_ACFrequency :: "rat option"

definition DecodeBus1PhaseABasicACQuantities :: "MessageInfo \<Rightarrow> (DataStream, Bus1PhaseABasicACQuantities) step" where
  "DecodeBus1PhaseABasicACQuantities info =
     field ''Bus1PhaseABasicACQuantities-LineLineACRMSVoltage'' (ReadRaw go_uint16 (Some fieldSpec_Bus1PhaseABasicACQuantities_LineLineACRMSVoltage)) (\<lambda>v1.
     field ''Bus1PhaseABasicACQuantities-LineNeutralACRMSVoltage'' (ReadRaw go_uint16 (Some fieldSpec_Bus1PhaseABasicACQuantities_LineNeutralACRMSVoltage)) (\<lambda>v2.
     field ''Bus1PhaseABasicACQuantities-ACFrequency'' (ReadScaled 24 (Some fieldSpec_Bus1PhaseABasicACQuantities_ACFrequency)) (\<lambda>v3.
     skip 16 (
     returnE \<lparr>Bus1PhaseABasicACQuantities_Info = info,
       Bus1PhaseABasicACQuantities_LineLineACRMSVoltage = map_option of_int v1,
       Bus1PhaseABasicACQuantities_LineNeutralACRMSVoltage = map_option of_int v2,
       Bus1PhaseABasicACQuantities_ACFrequency = v3\<rparr>))))"

definition EncodeBus1PhaseABasicACQuantities :: "(rat \<Rightarrow> u64) \<Rightarrow> gotime \<Rightarrow> Bus1PhaseABasicACQuantities \<Rightarrow> (DataStream, MessageInfo) step" where
  "EncodeBus1PhaseABasicACQuantities hw now p =
     seqE (WriteRaw (map_option uint (Bus1PhaseABasicACQuantities_LineLineACRMSVoltage p)) (Some fieldSpec_Bus1PhaseABasicACQuantities_LineLineACRMSVoltage)) (\<lambda>_.
     seqE (WriteRaw (map_option uint (Bus1PhaseABasicACQuantities_LineNeutralACRMSVoltage p)) (Some fieldSpec_Bus1PhaseABasicACQuantities_LineNeutralACRMSVoltage)) (\<lambda>_.
     seqE (WriteScaled hw (Bus1PhaseABasicACQuantities_ACFrequency p) (Some fieldSpec_Bus1PhaseABasicACQuantities_ACFrequency)) (\<lambda>_.
     seqE (writeReserved 16 48) (\<lambda>_.
     returnE (finish_info now 65003 (Bus1PhaseABasicACQuantities_Info p))))))"

definition Bus1PhaseABasicACQuantities_received :: "(rat \<Rightarrow> u64) \<Rightarrow> MessageInfo \<Rightarrow> Bus1PhaseABasicACQuantities \<Rightarrow> Bus1PhaseABasicACQuantities" where
  "Bus1PhaseABasicACQuantities_received hw info p = \<lparr>Bus1PhaseABasicACQuantities_Info = info,
     Bus1PhaseABasicACQuantities_LineLineACRMSVoltage = pin fieldSpec_Bus1PhaseABasicACQuantities_LineLineACRMSVoltage (Bus1PhaseABasicACQuantities_LineLineACRMSVoltage p),
     Bus1PhaseABasicACQuantities_LineNeutralACRMSVoltage = pin fieldSpec_Bus1PhaseABasicACQuantities_LineNeutralACRMSVoltage (Bus1PhaseABasicACQuantities_LineNeutralACRMSVoltage p),
     Bus1PhaseABasicACQuantities_ACFrequency = map_option (scaled_back hw 24 fieldSpec_Bus1PhaseABasicACQuantities_ACFrequency) (Bus1PhaseABasicACQuantities_ACFrequency p)\<rparr>"

lemma Bus1PhaseABasicACQuantities_codec: "codec (EncodeBus1PhaseABasicACQuantities hw) DecodeBus1PhaseABasicACQuantities Bus1PhaseABasicACQuantities_Info 65003 8
    (\<lambda>_. True) (Bus1PhaseABasicACQuantities_received hw)"
  unfolding EncodeBus1PhaseABasicACQuantities_def DecodeBus1PhaseABasicACQuantities_def Bus1PhaseABasicACQuantities_received_def
  by (rule codec.intro, rule carries_cong, (rule codec_steps carries_end
      | simp add: codec_facts pin_read lookup_read lookup_read_1 unit_read fieldSpec_Bus1PhaseABasicACQuantities_LineLineACRMSVoltage_def fieldSpec_Bus1PhaseABasicACQuantities_LineNeutralACRMSVoltage_def fieldSpec_Bus1PhaseABasicACQuantities_ACFrequency_def)+)

subsection \<open>Bus1AverageBasicACQuantities\<close>

definition fieldSpec_Bus1AverageBasicACQuantities_LineLineACRMSVoltage :: FieldSpec where
  "fieldSpec_Bus1AverageBasicACQuantities_LineLineACRMSVoltage = unsigned_spec 16 0 0xFFFD 0xFFFF 2"

definition fieldSpec_Bus1AverageBasicACQuantities_LineNeutralACRMSVoltage :: FieldSpec where
  "fieldSpec_Bus1AverageBasicACQuantities_LineNeutralACRMSVoltage = unsigned_spec 16 16 0xFFFD 0xFFFF 2"

definition fieldSpec_Bus1AverageBasicACQuantities_ACFrequency :: ScaledSpec where
  "fieldSpec_Bus1AverageBasicACQuantities_ACFrequency =
     scaled_spec 16 32 0xFFFD 0xFFFF 0 False 2 0.0078125 None None"

record Bus1AverageBasicACQuantities =
  Bus1AverageBasicACQuantities_Info :: MessageInfo
  Bus1AverageBasicACQuantities_LineLineACRMSVoltage :: "u16 option"
  Bus1AverageBasicACQuantities_LineNeutralACRMSVoltage :: "u16 option"
  Bus1AverageBasicACQuantities_ACFrequency :: "rat option"

definition DecodeBus1AverageBasicACQuantities :: "MessageInfo \<Rightarrow> (DataStream, Bus1AverageBasicACQuantities) step" where
  "DecodeBus1AverageBasicACQuantities info =
     field ''Bus1AverageBasicACQuantities-LineLineACRMSVoltage'' (ReadRaw go_uint16 (Some fieldSpec_Bus1AverageBasicACQuantities_LineLineACRMSVoltage)) (\<lambda>v1.
     field ''Bus1AverageBasicACQuantities-LineNeutralACRMSVoltage'' (ReadRaw go_uint16 (Some fieldSpec_Bus1AverageBasicACQuantities_LineNeutralACRMSVoltage)) (\<lambda>v2.
     field ''Bus1AverageBasicACQuantities-ACFrequency'' (ReadScaled 24 (Some fieldSpec_Bus1AverageBasicACQuantities_ACFrequency)) (\<lambda>v3.
     skip 16 (
     returnE \<lparr>Bus1AverageBasicACQuantities_Info = info,
       Bus1AverageBasicACQuantities_LineLineACRMSVoltage = map_option of_int v1,
       Bus1AverageBasicACQuantities_LineNeutralACRMSVoltage = map_option of_int v2,
       Bus1AverageBasicACQuantities_ACFrequency = v3\<rparr>))))"

definition EncodeBus1AverageBasicACQuantities :: "(rat \<Rightarrow> u64) \<Rightarrow> gotime \<Rightarrow> Bus1AverageBasicACQuantities \<Rightarrow> (DataStream, MessageInfo) step" where
  "EncodeBus1AverageBasicACQuantities hw now p =
     seqE (WriteRaw (map_option uint (Bus1AverageBasicACQuantities_LineLineACRMSVoltage p)) (Some fieldSpec_Bus1AverageBasicACQuantities_LineLineACRMSVoltage)) (\<lambda>_.
     seqE (WriteRaw (map_option uint (Bus1AverageBasicACQuantities_LineNeutralACRMSVoltage p)) (Some fieldSpec_Bus1AverageBasicACQuantities_LineNeutralACRMSVoltage)) (\<lambda>_.
     seqE (WriteScaled hw (Bus1AverageBasicACQuantities_ACFrequency p) (Some fieldSpec_Bus1AverageBasicACQuantities_ACFrequency)) (\<lambda>_.
     seqE (writeReserved 16 48) (\<lambda>_.
     returnE (finish_info now 65004 (Bus1AverageBasicACQuantities_Info p))))))"

definition Bus1AverageBasicACQuantities_received :: "(rat \<Rightarrow> u64) \<Rightarrow> MessageInfo \<Rightarrow> Bus1AverageBasicACQuantities \<Rightarrow> Bus1AverageBasicACQuantities" where
  "Bus1AverageBasicACQuantities_received hw info p = \<lparr>Bus1AverageBasicACQuantities_Info = info,
     Bus1AverageBasicACQuantities_LineLineACRMSVoltage = pin fieldSpec_Bus1AverageBasicACQuantities_LineLineACRMSVoltage (Bus1AverageBasicACQuantities_LineLineACRMSVoltage p),
     Bus1AverageBasicACQuantities_LineNeutralACRMSVoltage = pin fieldSpec_Bus1AverageBasicACQuantities_LineNeutralACRMSVoltage (Bus1AverageBasicACQuantities_LineNeutralACRMSVoltage p),
     Bus1AverageBasicACQuantities_ACFrequency = map_option (scaled_back hw 24 fieldSpec_Bus1AverageBasicACQuantities_ACFrequency) (Bus1AverageBasicACQuantities_ACFrequency p)\<rparr>"

lemma Bus1AverageBasicACQuantities_codec: "codec (EncodeBus1AverageBasicACQuantities hw) DecodeBus1AverageBasicACQuantities Bus1AverageBasicACQuantities_Info 65004 8
    (\<lambda>_. True) (Bus1AverageBasicACQuantities_received hw)"
  unfolding EncodeBus1AverageBasicACQuantities_def DecodeBus1AverageBasicACQuantities_def Bus1AverageBasicACQuantities_received_def
  by (rule codec.intro, rule carries_cong, (rule codec_steps carries_end
      | simp add: codec_facts pin_read lookup_read lookup_read_1 unit_read fieldSpec_Bus1AverageBasicACQuantities_LineLineACRMSVoltage_def fieldSpec_Bus1AverageBasicACQuantities_LineNeutralACRMSVoltage_def fieldSpec_Bus1AverageBasicACQuantities_ACFrequency_def)+)

subsection \<open>UtilityTotalACEnergy\<close>

definition fieldSpec_UtilityTotalACEnergy_TotalEnergyExport :: FieldSpec where
  "fieldSpec_UtilityTotalACEnergy_TotalEnergyExport = unsigned_spec 32 0 0xFFFFFFFD 0xFFFFFFFF 2"

definition fieldSpec_UtilityTotalACEnergy_TotalEnergyImport :: FieldSpec where
  "fieldSpec_UtilityTotalACEnergy_TotalEnergyImport = unsigned_spec 32 32 0xFFFFFFFD 0xFFFFFFFF 2"

record UtilityTotalACEnergy =
  UtilityTotalACEnergy_Info :: MessageInfo
  UtilityTotalACEnergy_TotalEnergyExport :: "u32 option"
  UtilityTotalACEnergy_TotalEnergyImport :: "u32 option"

definition DecodeUtilityTotalACEnergy :: "MessageInfo \<Rightarrow> (DataStream, UtilityTotalACEnergy) step" where
  "DecodeUtilityTotalACEnergy info =
     field ''UtilityTotalACEnergy-TotalEnergyExport'' (ReadRaw go_uint32 (Some fieldSpec_UtilityTotalACEnergy_TotalEnergyExport)) (\<lambda>v1.
     field ''UtilityTotalACEnergy-TotalEnergyImport'' (ReadRaw go_uint32 (Some fieldSpec_UtilityTotalACEnergy_TotalEnergyImport)) (\<lambda>v2.
     returnE \<lparr>UtilityTotalACEnergy_Info = info,
       UtilityTotalACEnergy_TotalEnergyExport = map_option of_int v1,
       UtilityTotalACEnergy_TotalEnergyImport = map_option of_int v2\<rparr>))"

definition EncodeUtilityTotalACEnergy :: "gotime \<Rightarrow> UtilityTotalACEnergy \<Rightarrow> (DataStream, MessageInfo) step" where
  "EncodeUtilityTotalACEnergy now p =
     seqE (WriteRaw (map_option uint (UtilityTotalACEnergy_TotalEnergyExport p)) (Some fieldSpec_UtilityTotalACEnergy_TotalEnergyExport)) (\<lambda>_.
     seqE (WriteRaw (map_option uint (UtilityTotalACEnergy_TotalEnergyImport p)) (Some fieldSpec_UtilityTotalACEnergy_TotalEnergyImport)) (\<lambda>_.
     returnE (finish_info now 65005 (UtilityTotalACEnergy_Info p))))"

definition UtilityTotalACEnergy_received :: "MessageInfo \<Rightarrow> UtilityTotalACEnergy \<Rightarrow> UtilityTotalACEnergy" where
  "UtilityTotalACEnergy_received info p = \<lparr>UtilityTotalACEnergy_Info = info,
     UtilityTotalACEnergy_TotalEnergyExport = pin fieldSpec_UtilityTotalACEnergy_TotalEnergyExport (UtilityTotalACEnergy_TotalEnergyExport p),
     UtilityTotalACEnergy_TotalEnergyImport = pin fieldSpec_UtilityTotalACEnergy_TotalEnergyImport (UtilityTotalACEnergy_TotalEnergyImport p)\<rparr>"

lemma UtilityTotalACEnergy_codec: "codec EncodeUtilityTotalACEnergy DecodeUtilityTotalACEnergy UtilityTotalACEnergy_Info 65005 8
    (\<lambda>_. True) UtilityTotalACEnergy_received"
  unfolding EncodeUtilityTotalACEnergy_def DecodeUtilityTotalACEnergy_def UtilityTotalACEnergy_received_def
  by (rule codec.intro, rule carries_cong, (rule codec_steps carries_end
      | simp add: codec_facts pin_read lookup_read lookup_read_1 unit_read fieldSpec_UtilityTotalACEnergy_TotalEnergyExport_def fieldSpec_UtilityTotalACEnergy_TotalEnergyImport_def)+)

subsection \<open>UtilityPhaseCACReactivePower\<close>

definition fieldSpec_UtilityPhaseCACReactivePower_ReactivePower :: FieldSpec where
  "fieldSpec_UtilityPhaseCACReactivePower_ReactivePower = unsigned_spec 16 0 0xFFFD 0xFFFF 2"

definition fieldSpec_UtilityPhaseCACReactivePower_PowerFactor :: ScaledSpec where
  "fieldSpec_UtilityPhaseCACReactivePower_PowerFactor =
     scaled_spec 16 16 0xFFFD 0xFFFF 0 False 2 (fl64 0.00006103519990574569) None None"

record UtilityPhaseCACReactivePower =
  UtilityPhaseCACReactivePower_Info :: MessageInfo
  UtilityPhaseCACReactivePower_ReactivePower :: "u16 option"
  UtilityPhaseCACReactivePower_PowerFactor :: "rat option"
  UtilityPhaseCACReactivePower_PowerFactorLagging :: u8

definition DecodeUtilityPhaseCACReactivePower :: "MessageInfo \<Rightarrow> (DataStream, UtilityPhaseCACReactivePower) step" where
  "DecodeUtilityPhaseCACReactivePower info =
     field ''UtilityPhaseCACReactivePower-ReactivePower'' (ReadRaw go_uint16 (Some fieldSpec_UtilityPhaseCACReactivePower_ReactivePower)) (\<lambda>v1.
     field ''UtilityPhaseCACReactivePower-PowerFactor'' (ReadScaled 24 (Some fieldSpec_UtilityPhaseCACReactivePower_PowerFactor)) (\<lambda>v2.
     field ''UtilityPhaseCACReactivePower-PowerFactorLagging'' (readLookupField 2) (\<lambda>v3.
     skip 30 (
     returnE \<lparr>UtilityPhaseCACReactivePower_Info = info,
       UtilityPhaseCACReactivePower_ReactivePower = map_option of_int v1,
       UtilityPhaseCACReactivePower_PowerFactor = v2,
       UtilityPhaseCACReactivePower_PowerFactorLagging = ucast v3\<rparr>))))"

definition EncodeUtilityPhaseCACReactivePower :: "(rat \<Rightarrow> u64) \<Rightarrow> gotime \<Rightarrow> UtilityPhaseCACReactivePower \<Rightarrow> (DataStream, MessageInfo) step" where
  "EncodeUtilityPhaseCACReactivePower hw now p =
     seqE (WriteRaw (map_option uint (UtilityPhaseCACReactivePower_ReactivePower p)) (Some fieldSpec_UtilityPhaseCACReactivePower_ReactivePower)) (\<lambda>_.
     seqE (WriteScaled hw (UtilityPhaseCACReactivePower_PowerFactor p) (Some fieldSpec_UtilityPhaseCACReactivePower_PowerFactor)) (\<lambda>_.
     seqE (putNumberRaw (ucast (UtilityPhaseCACReactivePower_PowerFactorLagging p)) 2 32) (\<lambda>_.
     seqE (writeReserved 30 34) (\<lambda>_.
     returnE (finish_info now 65006 (UtilityPhaseCACReactivePower_Info p))))))"

definition UtilityPhaseCACReactivePower_received :: "(rat \<Rightarrow> u64) \<Rightarrow> MessageInfo \<Rightarrow> UtilityPhaseCACReactivePower \<Rightarrow> UtilityPhaseCACReactivePower" where
  "UtilityPhaseCACReactivePower_received hw info p = \<lparr>UtilityPhaseCACReactivePower_Info = info,
     UtilityPhaseCACReactivePower_ReactivePower = pin fieldSpec_UtilityPhaseCACReactivePower_ReactivePower (UtilityPhaseCACReactivePower_ReactivePower p),
     UtilityPhaseCACReactivePower_PowerFactor = map_option (scaled_back hw 24 fieldSpec_UtilityPhaseCACReactivePower_PowerFactor) (UtilityPhaseCACReactivePower_PowerFactor p),
     UtilityPhaseCACReactivePower_PowerFactorLagging = take_bit 2 (UtilityPhaseCACReactivePower_PowerFactorLagging p)\<rparr>"

lemma UtilityPhaseCACReactivePower_codec: "codec (EncodeUtilityPhaseCACReactivePower hw) DecodeUtilityPhaseCACReactivePower UtilityPhaseCACReactivePower_Info 65006 8
    (\<lambda>_. True) (UtilityPhaseCACReactivePower_received hw)"
  unfolding EncodeUtilityPhaseCACReactivePower_def DecodeUtilityPhaseCACReactivePower_def UtilityPhaseCACReactivePower_received_def
  by (rule codec.intro, rule carries_cong, (rule codec_steps carries_end
      | simp add: codec_facts pin_read lookup_read lookup_read_1 unit_read fieldSpec_UtilityPhaseCACReactivePower_ReactivePower_def fieldSpec_UtilityPhaseCACReactivePower_PowerFactor_def)+)

subsection \<open>UtilityPhaseCBasicACQuantities\<close>

definition fieldSpec_UtilityPhaseCBasicACQuantities_LineLineACRMSVoltage :: FieldSpec where
  "fieldSpec_UtilityPhaseCBasicACQuantities_LineLineACRMSVoltage = unsigned_spec 16 0 0xFFFD 0xFFFF 2"

definition fieldSpec_UtilityPhaseCBasicACQuantities_LineNeutralACRMSVoltage :: FieldSpec where
  "fieldSpec_UtilityPhaseCBasicACQuantities_LineNeutralACRMSVoltage = unsigned_spec 16 16 0xFFFD 0xFFFF 2"

definition fieldSpec_UtilityPhaseCBasicACQuantities_ACFrequency :: ScaledSpec where
  "fieldSpec_UtilityPhaseCBasicACQuantities_ACFrequency =
     scaled_spec 16 32 0xFFFD 0xFFFF 0 False 2 0.0078125 None None"

definition fieldSpec_UtilityPhaseCBasicACQuantities_ACRMSCurrent :: FieldSpec where
  "fieldSpec_UtilityPhaseCBasicACQuantities_ACRMSCurrent = unsigned_spec 16 48 0xFFFD 0xFFFF 2"

record UtilityPhaseCBasicACQuantities =
  UtilityPhaseCBasicACQuantities_Info :: MessageInfo
  UtilityPhaseCBasicACQuantities_LineLineACRMSVoltage :: "u16 option"
  UtilityPhaseCBasicACQuantities_LineNeutralACRMSVoltage :: "u16 option"
  UtilityPhaseCBasicACQuantities_ACFrequency :: "rat option"
  UtilityPhaseCBasicACQuantities_ACRMSCurrent :: "u16 option"

definition DecodeUtilityPhaseCBasicACQuantities :: "MessageInfo \<Rightarrow> (DataStream, UtilityPhaseCBasicACQuantities) step" where
  "DecodeUtilityPhaseCBasicACQuantities info =
     field ''UtilityPhaseCBasicACQuantities-LineLineACRMSVoltage'' (ReadRaw go_uint16 (Some fieldSpec_UtilityPhaseCBasicACQuantities_LineLineACRMSVoltage)) (\<lambda>v1.
     field ''UtilityPhaseCBasicACQuantities-LineNeutralACRMSVoltage'' (ReadRaw go_uint16 (Some fieldSpec_UtilityPhaseCBasicACQuantities_LineNeutralACRMSVoltage)) (\<lambda>v2.
     field ''UtilityPhaseCBasicACQuantities-ACFrequency'' (ReadScaled 24 (Some fieldSpec_UtilityPhaseCBasicACQuantities_ACFrequency)) (\<lambda>v3.
     field ''UtilityPhaseCBasicACQuantities-ACRMSCurrent'' (ReadRaw go_uint16 (Some fieldSpec_UtilityPhaseCBasicACQuantities_ACRMSCurrent)) (\<lambda>v4.
     returnE \<lparr>UtilityPhaseCBasicACQuantities_Info = info,
       UtilityPhaseCBasicACQuantities_LineLineACRMSVoltage = map_option of_int v1,
       UtilityPhaseCBasicACQuantities_LineNeutralACRMSVoltage = map_option of_int v2,
       UtilityPhaseCBasicACQuantities_ACFrequency = v3,
       UtilityPhaseCBasicACQuantities_ACRMSCurrent = map_option of_int v4\<rparr>))))"

definition EncodeUtilityPhaseCBasicACQuantities :: "(rat \<Rightarrow> u64) \<Rightarrow> gotime \<Rightarrow> UtilityPhaseCBasicACQuantities \<Rightarrow> (DataStream, MessageInfo) step" where
  "EncodeUtilityPhaseCBasicACQuantities hw now p =
     seqE (WriteRaw (map_option uint (UtilityPhaseCBasicACQuantities_LineLineACRMSVoltage p)) (Some fieldSpec_UtilityPhaseCBasicACQuantities_LineLineACRMSVoltage)) (\<lambda>_.
     seqE (WriteRaw (map_option uint (UtilityPhaseCBasicACQuantities_LineNeutralACRMSVoltage p)) (Some fieldSpec_UtilityPhaseCBasicACQuantities_LineNeutralACRMSVoltage)) (\<lambda>_.
     seqE (WriteScaled hw (UtilityPhaseCBasicACQuantities_ACFrequency p) (Some fieldSpec_UtilityPhaseCBasicACQuantities_ACFrequency)) (\<lambda>_.
     seqE (WriteRaw (map_option uint (UtilityPhaseCBasicACQuantities_ACRMSCurrent p)) (Some fieldSpec_UtilityPhaseCBasicACQuantities_ACRMSCurrent)) (\<lambda>_.
     returnE (finish_info now 65008 (UtilityPhaseCBasicACQuantities_Info p))))))"

definition UtilityPhaseCBasicACQuantities_received :: "(rat \<Rightarrow> u64) \<Rightarrow> MessageInfo \<Rightarrow> UtilityPhaseCBasicACQuantities \<Rightarrow> UtilityPhaseCBasicACQuantities" where
  "UtilityPhaseCBasicACQuantities_received hw info p = \<lparr>UtilityPhaseCBasicACQuantities_Info = info,
     UtilityPhaseCBasicACQuantities_LineLineACRMSVoltage = pin fieldSpec_UtilityPhaseCBasicACQuantities_LineLineACRMSVoltage (UtilityPhaseCBasicACQuantities_LineLineACRMSVoltage p),
     UtilityPhaseCBasicACQuantities_LineNeutralACRMSVoltage = pin fieldSpec_UtilityPhaseCBasicACQuantities_LineNeutralACRMSVoltage (UtilityPhaseCBasicACQuantities_LineNeutralACRMSVoltage p),
     UtilityPhaseCBasicACQuantities_ACFrequency = map_option (scaled_back hw 24 fieldSpec_UtilityPhaseCBasicACQuantities_ACFrequency) (UtilityPhaseCBasicACQuantities_ACFrequency p),
     UtilityPhaseCBasicACQuantities_ACRMSCurrent = pin fieldSpec_UtilityPhaseCBasicACQuantities_ACRMSCurrent (UtilityPhaseCBasicACQuantities_ACRMSCurrent p)\<rparr>"

lemma UtilityPhaseCBasicACQuantities_codec: "codec (EncodeUtilityPhaseCBasicACQuantities hw) DecodeUtilityPhaseCBasicACQuantities UtilityPhaseCBasicACQuantities_Info 65008 8
    (\<lambda>_. True) (UtilityPhaseCBasicACQuantities_received hw)"
  unfolding EncodeUtilityPhaseCBasicACQuantities_def DecodeUtilityPhaseCBasicACQuantities_def UtilityPhaseCBasicACQuantities_received_def
  by (rule codec.intro, rule carries_cong, (rule codec_steps carries_end
      | simp add: codec_facts pin_read lookup_read lookup_read_1 unit_read fieldSpec_UtilityPhaseCBasicACQuantities_LineLineACRMSVoltage_def fieldSpec_UtilityPhaseCBasicACQuantities_LineNeutralACRMSVoltage_def fieldSpec_UtilityPhaseCBasicACQuantities_ACFrequency_def fieldSpec_UtilityPhaseCBasicACQuantities_ACRMSCurrent_def)+)

subsection \<open>UtilityPhaseBACReactivePower\<close>

definition fieldSpec_UtilityPhaseBACReactivePower_ReactivePower :: FieldSpec where
  "fieldSpec_UtilityPhaseBACReactivePower_ReactivePower = unsigned_spec 16 0 0xFFFD 0xFFFF 2"

definition fieldSpec_UtilityPhaseBACReactivePower_PowerFactor :: ScaledSpec where
  "fieldSpec_UtilityPhaseBACReactivePower_PowerFactor =
     scaled_spec 16 16 0xFFFD 0xFFFF 0 False 2 (fl64 0.00006103519990574569) None None"

record UtilityPhaseBACReactivePower =
  UtilityPhaseBACReactivePower_Info :: MessageInfo
  UtilityPhaseBACReactivePower_ReactivePower :: "u16 option"
  UtilityPhaseBACReactivePower_PowerFactor :: "rat option"
  UtilityPhaseBACReactivePower_PowerFactorLagging :: u8

definition DecodeUtilityPhaseBACReactivePower :: "MessageInfo \<Rightarrow> (DataStream, UtilityPhaseBACReactivePower) step" where
  "DecodeUtilityPhaseBACReactivePower info =
     field ''UtilityPhaseBACReactivePower-ReactivePower'' (ReadRaw go_uint16 (Some fieldSpec_UtilityPhaseBACReactivePower_ReactivePower)) (\<lambda>v1.
     field ''UtilityPhaseBACReactivePower-PowerFactor'' (ReadScaled 24 (Some fieldSpec_UtilityPhaseBACReactivePower_PowerFactor)) (\<lambda>v2.
     field ''UtilityPhaseBACReactivePower-PowerFactorLagging'' (readLookupField 2) (\<lambda>v3.
     skip 30 (
     returnE \<lparr>UtilityPhaseBACReactivePower_Info = info,
       UtilityPhaseBACReactivePower_ReactivePower = map_option of_int v1,
       UtilityPhaseBACReactivePower_PowerFactor = v2,
       UtilityPhaseBACReactivePower_PowerFactorLagging = ucast v3\<rparr>))))"

definition EncodeUtilityPhaseBACReactivePower :: "(rat \<Rightarrow> u64) \<Rightarrow> gotime \<Rightarrow> UtilityPhaseBACReactivePower \<Rightarrow> (DataStream, MessageInfo) step" where
  "EncodeUtilityPhaseBACReactivePower hw now p =
     seqE (WriteRaw (map_option uint (UtilityPhaseBACReactivePower_ReactivePower p)) (Some fieldSpec_UtilityPhaseBACReactivePower_ReactivePower)) (\<lambda>_.
     seqE (WriteScaled hw (UtilityPhaseBACReactivePower_PowerFactor p) (Some fieldSpec_UtilityPhaseBACReactivePower_PowerFactor)) (\<lambda>_.
     seqE (putNumberRaw (ucast (UtilityPhaseBACReactivePower_PowerFactorLagging p)) 2 32) (\<lambda>_.
     seqE (writeReserved 30 34) (\<lambda>_.
     returnE (finish_info now 65009 (UtilityPhaseBACReactivePower_Info p))))))"

definition UtilityPhaseBACReactivePower_received :: "(rat \<Rightarrow> u64) \<Rightarrow> MessageInfo \<Rightarrow> UtilityPhaseBACReactivePower \<Rightarrow> UtilityPhaseBACReactivePower" where
  "UtilityPhaseBACReactivePower_received hw info p = \<lparr>UtilityPhaseBACReactivePower_Info = info,
     UtilityPhaseBACReactivePower_ReactivePower = pin fieldSpec_UtilityPhaseBACReactivePower_ReactivePower (UtilityPhaseBACReactivePower_ReactivePower p),
     UtilityPhaseBACReactivePower_PowerFactor = map_option (scaled_back hw 24 fieldSpec_UtilityPhaseBACReactivePower_PowerFactor) (UtilityPhaseBACReactivePower_PowerFactor p),
     UtilityPhaseBACReactivePower_PowerFactorLagging = take_bit 2 (UtilityPhaseBACReactivePower_PowerFactorLagging p)\<rparr>"

lemma UtilityPhaseBACReactivePower_codec: "codec (EncodeUtilityPhaseBACReactivePower hw) DecodeUtilityPhaseBACReactivePower UtilityPhaseBACReactivePower_Info 65009 8
    (\<lambda>_. True) (UtilityPhaseBACReactivePower_received hw)"
  unfolding EncodeUtilityPhaseBACReactivePower_def DecodeUtilityPhaseBACReactivePower_def UtilityPhaseBACReactivePower_received_def
  by (rule codec.intro, rule carries_cong, (rule codec_steps carries_end
      | simp add: codec_facts pin_read lookup_read lookup_read_1 unit_read fieldSpec_UtilityPhaseBACReactivePower_ReactivePower_def fieldSpec_UtilityPhaseBACReactivePower_PowerFactor_def)+)

subsection \<open>UtilityPhaseBBasicACQuantities\<close>

definition fieldSpec_UtilityPhaseBBasicACQuantities_LineLineACRMSVoltage :: FieldSpec where
  "fieldSpec_UtilityPhaseBBasicACQuantities_LineLineACRMSVoltage = unsigned_spec 16 0 0xFFFD 0xFFFF 2"

definition fieldSpec_UtilityPhaseBBasicACQuantities_LineNeutralACRMSVoltage :: FieldSpec where
  "fieldSpec_UtilityPhaseBBasicACQuantities_LineNeutralACRMSVoltage = unsigned_spec 16 16 0xFFFD 0xFFFF 2"

definition fieldSpec_UtilityPhaseBBasicACQuantities_ACFrequency :: ScaledSpec where
  "fieldSpec_UtilityPhaseBBasicACQuantities_ACFrequency =
     scaled_spec 16 32 0xFFFD 0xFFFF 0 False 2 0.0078125 None None"

definition fieldSpec_UtilityPhaseBBasicACQuantities_ACRMSCurrent :: FieldSpec where
  "fieldSpec_UtilityPhaseBBasicACQuantities_ACRMSCurrent = unsigned_spec 16 48 0xFFFD 0xFFFF 2"

record UtilityPhaseBBasicACQuantities =
  UtilityPhaseBBasicACQuantities_Info :: MessageInfo
  UtilityPhaseBBasicACQuantities_LineLineACRMSVoltage :: "u16 option"
  UtilityPhaseBBasicACQuantities_LineNeutralACRMSVoltage :: "u16 option"
  UtilityPhaseBBasicACQuantities_ACFrequency :: "rat option"
  UtilityPhaseBBasicACQuantities_ACRMSCurrent :: "u16 option"

definition DecodeUtilityPhaseBBasicACQuantities :: "MessageInfo \<Rightarrow> (DataStream, UtilityPhaseBBasicACQuantities) step" where
  "DecodeUtilityPhaseBBasicACQuantities info =
     field ''UtilityPhaseBBasicACQuantities-LineLineACRMSVoltage'' (ReadRaw go_uint16 (Some fieldSpec_UtilityPhaseBBasicACQuantities_LineLineACRMSVoltage)) (\<lambda>v1.
     field ''UtilityPhaseBBasicACQuantities-LineNeutralACRMSVoltage'' (ReadRaw go_uint16 (Some fieldSpec_UtilityPhaseBBasicACQuantities_LineNeutralACRMSVoltage)) (\<lambda>v2.
     field ''UtilityPhaseBBasicACQuantities-ACFrequency'' (ReadScaled 24 (Some fieldSpec_UtilityPhaseBBasicACQuantities_ACFrequency)) (\<lambda>v3.
     field ''UtilityPhaseBBasicACQuantities-ACRMSCurrent'' (ReadRaw go_uint16 (Some fieldSpec_UtilityPhaseBBasicACQuantities_ACRMSCurrent)) (\<lambda>v4.
     returnE \<lparr>UtilityPhaseBBasicACQuantities_Info = info,
       UtilityPhaseBBasicACQuantities_LineLineACRMSVoltage = map_option of_int v1,
       UtilityPhaseBBasicACQuantities_LineNeutralACRMSVoltage = map_option of_int v2,
       UtilityPhaseBBasicACQuantities_ACFrequency = v3,
       UtilityPhaseBBasicACQuantities_ACRMSCurrent = map_option of_int v4\<rparr>))))"

definition EncodeUtilityPhaseBBasicACQuantities :: "(rat \<Rightarrow> u64) \<Rightarrow> gotime \<Rightarrow> UtilityPhaseBBasicACQuantities \<Rightarrow> (DataStream, MessageInfo) step" where
  "EncodeUtilityPhaseBBasicACQuantities hw now p =
     seqE (WriteRaw (map_option uint (UtilityPhaseBBasicACQuantities_LineLineACRMSVoltage p)) (Some fieldSpec_UtilityPhaseBBasicACQuantities_LineLineACRMSVoltage)) (\<lambda>_.
     seqE (WriteRaw (map_option uint (UtilityPhaseBBasicACQuantities_LineNeutralACRMSVoltage p)) (Some fieldSpec_UtilityPhaseBBasicACQuantities_LineNeutralACRMSVoltage)) (\<lambda>_.
     seqE (WriteScaled hw (UtilityPhaseBBasicACQuantities_ACFrequency p) (Some fieldSpec_UtilityPhaseBBasicACQuantities_ACFrequency)) (\<lambda>_.
     seqE (WriteRaw (map_option uint (UtilityPhaseBBasicACQuantities_ACRMSCurrent p)) (Some fieldSpec_UtilityPhaseBBasicACQuantities_ACRMSCurrent)) (\<lambda>_.
     returnE (finish_info now 65011 (UtilityPhaseBBasicACQuantities_Info p))))))"

definition UtilityPhaseBBasicACQuantities_received :: "(rat \<Rightarrow> u64) \<Rightarrow> MessageInfo \<Rightarrow> UtilityPhaseBBasicACQuantities \<Rightarrow> UtilityPhaseBBasicACQuantities" where
  "UtilityPhaseBBasicACQuantities_received hw info p = \<lparr>UtilityPhaseBBasicACQuantities_Info = info,
     UtilityPhaseBBasicACQuantities_LineLineACRMSVoltage = pin fieldSpec_UtilityPhaseBBasicACQuantities_LineLineACRMSVoltage (UtilityPhaseBBasicACQuantities_LineLineACRMSVoltage p),
     UtilityPhaseBBasicACQuantities_LineNeutralACRMSVoltage = pin fieldSpec_UtilityPhaseBBasicACQuantities_LineNeutralACRMSVoltage (UtilityPhaseBBasicACQuantities_LineNeutralACRMSVoltage p),
     UtilityPhaseBBasicACQuantities_ACFrequency = map_option (scaled_back hw 24 fieldSpec_UtilityPhaseBBasicACQuantities_ACFrequency) (UtilityPhaseBBasicACQuantities_ACFrequency p),
     UtilityPhaseBBasicACQuantities_ACRMSCurrent = pin fieldSpec_UtilityPhaseBBasicACQuantities_ACRMSCurrent (UtilityPhaseBBasicACQuantities_ACRMSCurrent p)\<rparr>"

lemma UtilityPhaseBBasicACQuantities_codec: "codec (EncodeUtilityPhaseBBasicACQuantities hw) DecodeUtilityPhaseBBasicACQuantities UtilityPhaseBBasicACQuantities_Info 65011 8
    (\<lambda>_. True) (UtilityPhaseBBasicACQuantities_received hw)"
  unfolding EncodeUtilityPhaseBBasicACQuantities_def DecodeUtilityPhaseBBasicACQuantities_def UtilityPhaseBBasicACQuantities_received_def
  by (rule codec.intro, rule carries_cong, (rule codec_steps carries_end
      | simp add: codec_facts pin_read lookup_read lookup_read_1 unit_read fieldSpec_UtilityPhaseBBasicACQuantities_LineLineACRMSVoltage_def fieldSpec_UtilityPhaseBBasicACQuantities_LineNeutralACRMSVoltage_def fieldSpec_UtilityPhaseBBasicACQuantities_ACFrequency_def fieldSpec_UtilityPhaseBBasicACQuantities_ACRMSCurrent_def)+)

subsection \<open>UtilityPhaseABasicACQuantities\<close>

definition fieldSpec_UtilityPhaseABasicACQuantities_LineLineACRMSVoltage :: FieldSpec where
  "fieldSpec_UtilityPhaseABasicACQuantities_LineLineACRMSVoltage = unsigned_spec 16 0 0xFFFD 0xFFFF 2"

definition fieldSpec_UtilityPhaseABasicACQuantities_LineNeutralACRMSVoltage :: FieldSpec where
  "fieldSpec_UtilityPhaseABasicACQuantities_LineNeutralACRMSVoltage = unsigned_spec 16 16 0xFFFD 0xFFFF 2"

definition fieldSpec_UtilityPhaseABasicACQuantities_ACFrequency :: ScaledSpec where
  "fieldSpec_UtilityPhaseABasicACQuantities_ACFrequency =
     scaled_spec 16 32 0xFFFD 0xFFFF 0 False 2 0.0078125 None None"

definition fieldSpec_UtilityPhaseABasicACQuantities_ACRMSCurrent :: FieldSpec where
  "fieldSpec_UtilityPhaseABasicACQuantities_ACRMSCurrent = unsigned_spec 16 48 0xFFFD 0xFFFF 2"

record UtilityPhaseABasicACQuantities =
  UtilityPhaseABasicACQuantities_Info :: MessageInfo
  UtilityPhaseABasicACQuantities_LineLineACRMSVoltage :: "u16 option"
  UtilityPhaseABasicACQuantities_LineNeutralACRMSVoltage :: "u16 option"
  UtilityPhaseABasicACQuantities_ACFrequency :: "rat option"
  UtilityPhaseABasicACQuantities_ACRMSCurrent :: "u16 option"

definition DecodeUtilityPhaseABasicACQuantities :: "MessageInfo \<Rightarrow> (DataStream, UtilityPhaseABasicACQuantities) step" where
  "DecodeUtilityPhaseABasicACQuantities info =
     field ''UtilityPhaseABasicACQuantities-LineLineACRMSVoltage'' (ReadRaw go_uint16 (Some fieldSpec_UtilityPhaseABasicACQuantities_LineLineACRMSVoltage)) (\<lambda>v1.
     field ''UtilityPhaseABasicACQuantities-LineNeutralACRMSVoltage'' (ReadRaw go_uint16 (Some fieldSpec_UtilityPhaseABasicACQuantities_LineNeutralACRMSVoltage)) (\<lambda>v2.
     field ''UtilityPhaseABasicACQuantities-ACFrequency'' (ReadScaled 24 (Some fieldSpec_UtilityPhaseABasicACQuantities_ACFrequency)) (\<lambda>v3.
     field ''UtilityPhaseABasicACQuantities-ACRMSCurrent'' (ReadRaw go_uint16 (Some fieldSpec_UtilityPhaseABasicACQuantities_ACRMSCurrent)) (\<lambda>v4.
     returnE \<lparr>UtilityPhaseABasicACQuantities_Info = info,
       UtilityPhaseABasicACQuantities_LineLineACRMSVoltage = map_option of_int v1,
       UtilityPhaseABasicACQuantities_LineNeutralACRMSVoltage = map_option of_int v2,
       UtilityPhaseABasicACQuantities_ACFrequency = v3,
       UtilityPhaseABasicACQuantities_ACRMSCurrent = map_option of_int v4\<rparr>))))"

definition EncodeUtilityPhaseABasicACQuantities :: "(rat \<Rightarrow> u64) \<Rightarrow> gotime \<Rightarrow> UtilityPhaseABasicACQuantities \<Rightarrow> (DataStream, MessageInfo) step" where
  "EncodeUtilityPhaseABasicACQuantities hw now p =
     seqE (WriteRaw (map_option uint (UtilityPhaseABasicACQuantities_LineLineACRMSVoltage p)) (Some fieldSpec_UtilityPhaseABasicACQuantities_LineLineACRMSVoltage)) (\<lambda>_.
     seqE (WriteRaw (map_option uint (UtilityPhaseABasicACQuantities_LineNeutralACRMSVoltage p)) (Some fieldSpec_UtilityPhaseABasicACQuantities_LineNeutralACRMSVoltage)) (\<lambda>_.
     seqE (WriteScaled hw (UtilityPhaseABasicACQuantities_ACFrequency p) (Some fieldSpec_UtilityPhaseABasicACQuantities_ACFrequency)) (\<lambda>_.
     seqE (WriteRaw (map_option uint (UtilityPhaseABasicACQuantities_ACRMSCurrent p)) (Some fieldSpec_UtilityPhaseABasicACQuantities_ACRMSCurrent)) (\<lambda>_.
     returnE (finish_info now 65014 (UtilityPhaseABasicACQuantities_Info p))))))"

definition UtilityPhaseABasicACQuantities_received :: "(rat \<Rightarrow> u64) \<Rightarrow> MessageInfo \<Rightarrow> UtilityPhaseABasicACQuantities \<Rightarrow> UtilityPhaseABasicACQuantities" where
  "UtilityPhaseABasicACQuantities_received hw info p = \<lparr>UtilityPhaseABasicACQuantities_Info = info,
     UtilityPhaseABasicACQuantities_LineLineACRMSVoltage = pin fieldSpec_UtilityPhaseABasicACQuantities_LineLineACRMSVoltage (UtilityPhaseABasicACQuantities_LineLineACRMSVoltage p),
     UtilityPhaseABasicACQuantities_LineNeutralACRMSVoltage = pin fieldSpec_UtilityPhaseABasicACQuantities_LineNeutralACRMSVoltage (UtilityPhaseABasicACQuantities_LineNeutralACRMSVoltage p),
     UtilityPhaseABasicACQuantities_ACFrequency = map_option (scaled_back hw 24 fieldSpec_UtilityPhaseABasicACQuantities_ACFrequency) (UtilityPhaseABasicACQuantities_ACFrequency p),
     UtilityPhaseABasicACQuantities_ACRMSCurrent = pin fieldSpec_UtilityPhaseABasicACQuantities_ACRMSCurrent (UtilityPhaseABasicACQuantities_ACRMSCurrent p)\<rparr>"

lemma UtilityPhaseABasicACQuantities_codec: "codec (EncodeUtilityPhaseABasicACQuantities hw) DecodeUtilityPhaseABasicACQuantities UtilityPhaseABasicACQuantities_Info 65014 8
    (\<lambda>_. True) (UtilityPhaseABasicACQuantities_received hw)"
  unfolding EncodeUtilityPhaseABasicACQuantities_def DecodeUtilityPhaseABasicACQuantities_def UtilityPhaseABasicACQuantities_received_def
  by (rule codec.intro, rule carries_cong, (rule codec_steps carries_end
      | simp add: codec_facts pin_read lookup_read lookup_read_1 unit_read fieldSpec_UtilityPhaseABasicACQuantities_LineLineACRMSVoltage_def fieldSpec_UtilityPhaseABasicACQuantities_LineNeutralACRMSVoltage_def fieldSpec_UtilityPhaseABasicACQuantities_ACFrequency_def fieldSpec_UtilityPhaseABasicACQuantities_ACRMSCurrent_def)+)

subsection \<open>UtilityAverageBasicACQuantities\<close>

definition fieldSpec_UtilityAverageBasicACQuantities_LineLineACRMSVoltage :: FieldSpec where
  "fieldSpec_UtilityAverageBasicACQuantities_LineLineACRMSVoltage = unsigned_spec 16 0 0xFFFD 0xFFFF 2"

definition fieldSpec_UtilityAverageBasicACQuantities_LineNeutralACRMSVoltage :: FieldSpec where
  "fieldSpec_UtilityAverageBasicACQuantities_LineNeutralACRMSVoltage = unsigned_spec 16 16 0xFFFD 0xFFFF 2"

definition fieldSpec_UtilityAverageBasicACQuantities_ACFrequency :: ScaledSpec where
  "fieldSpec_UtilityAverageBasicACQuantities_ACFrequency =
     scaled_spec 16 32 0xFFFD 0xFFFF 0 False 2 0.0078125 None None"

definition fieldSpec_UtilityAverageBasicACQuantities_ACRMSCurrent :: FieldSpec where
  "fieldSpec_UtilityAverageBasicACQuantities_ACRMSCurrent = unsigned_spec 16 48 0xFFFD 0xFFFF 2"

record UtilityAverageBasicACQuantities =
  UtilityAverageBasicACQuantities_Info :: MessageInfo
  UtilityAverageBasicACQuantities_LineLineACRMSVoltage :: "u16 option"
  UtilityAverageBasicACQuantities_LineNeutralACRMSVoltage :: "u16 option"
  UtilityAverageBasicACQuantities_ACFrequency :: "rat option"
  UtilityAverageBasicACQuantities_ACRMSCurrent :: "u16 option"

definition DecodeUtilityAverageBasicACQuantities :: "MessageInfo \<Rightarrow> (DataStream, UtilityAverageBasicACQuantities) step" where
  "DecodeUtilityAverageBasicACQuantities info =
     field ''UtilityAverageBasicACQuantities-LineLineACRMSVoltage'' (ReadRaw go_uint16 (Some fieldSpec_UtilityAverageBasicACQuantities_LineLineACRMSVoltage)) (\<lambda>v1.
     field ''UtilityAverageBasicACQuantities-LineNeutralACRMSVoltage'' (ReadRaw go_uint16 (Some fieldSpec_UtilityAverageBasicACQuantities_LineNeutralACRMSVoltage)) (\<lambda>v2.
     field ''UtilityAverageBasicACQuantities-ACFrequency'' (ReadScaled 24 (Some fieldSpec_UtilityAverageBasicACQuantities_ACFrequency)) (\<lambda>v3.
     field ''UtilityAverageBasicACQuantities-ACRMSCurrent'' (ReadRaw go_uint16 (Some fieldSpec_UtilityAverageBasicACQuantities_ACRMSCurrent)) (\<lambda>v4.
     returnE \<lparr>UtilityAverageBasicACQuantities_Info = info,
       UtilityAverageBasicACQuantities_LineLineACRMSVoltage = map_option of_int v1,
       UtilityAverageBasicACQuantities_LineNeutralACRMSVoltage = map_option of_int v2,
       UtilityAverageBasicACQuantities_ACFrequency = v3,
       UtilityAverageBasicACQuantities_ACRMSCurrent = map_option of_int v4\<rparr>))))"

definition EncodeUtilityAverageBasicACQuantities :: "(rat \<Rightarrow> u64) \<Rightarrow> gotime \<Rightarrow> UtilityAverageBasicACQuantities \<Rightarrow> (DataStream, MessageInfo) step" where
  "EncodeUtilityAverageBasicACQuantities hw now p =
     seqE (WriteRaw (map_option uint (UtilityAverageBasicACQuantities_LineLineACRMSVoltage p)) (Some fieldSpec_UtilityAverageBasicACQuantities_LineLineACRMSVoltage)) (\<lambda>_.
     seqE (WriteRaw (map_option uint (UtilityAverageBasicACQuantities_LineNeutralACRMSVoltage p)) (Some fieldSpec_UtilityAverageBasicACQuantities_LineNeutralACRMSVoltage)) (\<lambda>_.
     seqE (WriteScaled hw (UtilityAverageBasicACQuantities_ACFrequency p) (Some fieldSpec_UtilityAverageBasicACQuantities_ACFrequency)) (\<lambda>_.
     seqE (WriteRaw (map_option uint (UtilityAverageBasicACQuantities_ACRMSCurrent p)) (Some fieldSpec_UtilityAverageBasicACQuantities_ACRMSCurrent)) (\<lambda>_.
     returnE (finish_info now 65017 (UtilityAverageBasicACQuantities_Info p))))))"

definition UtilityAverageBasicACQuantities_received :: "(rat \<Rightarrow> u64) \<Rightarrow> MessageInfo \<Rightarrow> UtilityAverageBasicACQuantities \<Rightarrow> UtilityAverageBasicACQuantities" where
  "UtilityAverageBasicACQuantities_received hw info p = \<lparr>UtilityAverageBasicACQuantities_Info = info,
     UtilityAverageBasicACQuantities_LineLineACRMSVoltage = pin fieldSpec_UtilityAverageBasicACQuantities_LineLineACRMSVoltage (UtilityAverageBasicACQuantities_LineLineACRMSVoltage p),
     UtilityAverageBasicACQuantities_LineNeutralACRMSVoltage = pin fieldSpec_UtilityAverageBasicACQuantities_LineNeutralACRMSVoltage (UtilityAverageBasicACQuantities_LineNeutralACRMSVoltage p),
     UtilityAverageBasicACQuantities_ACFrequency = map_option (scaled_back hw 24 fieldSpec_UtilityAverageBasicACQuantities_ACFrequency) (UtilityAverageBasicACQuantities_ACFrequency p),
     UtilityAverageBasicACQuantities_ACRMSCurrent = pin fieldSpec_UtilityAverageBasicACQuantities_ACRMSCurrent (UtilityAverageBasicACQuantities_ACRMSCurrent p)\<rparr>"

lemma UtilityAverageBasicACQuantities_codec: "codec (EncodeUtilityAverageBasicACQuantities hw) DecodeUtilityAverageBasicACQuantities UtilityAverageBasicACQuantities_Info 65017 8
    (\<lambda>_. True) (UtilityAverageBasicACQuantities_received hw)"
  unfolding EncodeUtilityAverageBasicACQuantities_def DecodeUtilityAverageBasicACQuantities_def UtilityAverageBasicACQuantities_received_def
  by (rule codec.intro, rule carries_cong, (rule codec_steps carries_end
      | simp add: codec_facts pin_read lookup_read lookup_read_1 unit_read fieldSpec_UtilityAverageBasicACQuantities_LineLineACRMSVoltage_def fieldSpec_UtilityAverageBasicACQuantities_LineNeutralACRMSVoltage_def fieldSpec_UtilityAverageBasicACQuantities_ACFrequency_def fieldSpec_UtilityAverageBasicACQuantities_ACRMSCurrent_def)+)

subsection \<open>GeneratorTotalACEnergy\<close>

definition fieldSpec_GeneratorTotalACEnergy_TotalEnergyExport :: FieldSpec where
  "fieldSpec_GeneratorTotalACEnergy_TotalEnergyExport = unsigned_spec 32 0 0xFFFFFFFD 0xFFFFFFFF 2"

definition fieldSpec_GeneratorTotalACEnergy_TotalEnergyImport :: FieldSpec where
  "fieldSpec_GeneratorTotalACEnergy_TotalEnergyImport = unsigned_spec 32 32 0xFFFFFFFD 0xFFFFFFFF 2"

record GeneratorTotalACEnergy =
  GeneratorTotalACEnergy_Info :: MessageInfo
  GeneratorTotalACEnergy_TotalEnergyExport :: "u32 option"
  GeneratorTotalACEnergy_TotalEnergyImport :: "u32 option"

definition DecodeGeneratorTotalACEnergy :: "MessageInfo \<Rightarrow> (DataStream, GeneratorTotalACEnergy) step" where
  "DecodeGeneratorTotalACEnergy info =
     field ''GeneratorTotalACEnergy-TotalEnergyExport'' (ReadRaw go_uint32 (Some fieldSpec_GeneratorTotalACEnergy_TotalEnergyExport)) (\<lambda>v1.
     field ''GeneratorTotalACEnergy-TotalEnergyImport'' (ReadRaw go_uint32 (Some fieldSpec_GeneratorTotalACEnergy_TotalEnergyImport)) (\<lambda>v2.
     returnE \<lparr>GeneratorTotalACEnergy_Info = info,
       GeneratorTotalACEnergy_TotalEnergyExport = map_option of_int v1,
       GeneratorTotalACEnergy_TotalEnergyImport = map_option of_int v2\<rparr>))"

definition EncodeGeneratorTotalACEnergy :: "gotime \<Rightarrow> GeneratorTotalACEnergy \<Rightarrow> (DataStream, MessageInfo) step" where
  "EncodeGeneratorTotalACEnergy now p =
     seqE (WriteRaw (map_option uint (GeneratorTotalACEnergy_TotalEnergyExport p)) (Some fieldSpec_GeneratorTotalACEnergy_TotalEnergyExport)) (\<lambda>_.
     seqE (WriteRaw (map_option uint (GeneratorTotalACEnergy_TotalEnergyImport p)) (Some fieldSpec_GeneratorTotalACEnergy_TotalEnergyImport)) (\<lambda>_.
     returnE (finish_info now 65018 (GeneratorTotalACEnergy_Info p))))"

definition GeneratorTotalACEnergy_received :: "MessageInfo \<Rightarrow> GeneratorTotalACEnergy \<Rightarrow> GeneratorTotalACEnergy" where
  "GeneratorTotalACEnergy_received info p = \<lparr>GeneratorTotalACEnergy_Info = info,
     GeneratorTotalACEnergy_TotalEnergyExport = pin fieldSpec_GeneratorTotalACEnergy_TotalEnergyExport (GeneratorTotalACEnergy_TotalEnergyExport p),
     GeneratorTotalACEnergy_TotalEnergyImport = pin fieldSpec_GeneratorTotalACEnergy_TotalEnergyImport (GeneratorTotalACEnergy_TotalEnergyImport p)\<rparr>"

lemma GeneratorTotalACEnergy_codec: "codec EncodeGeneratorTotalACEnergy DecodeGeneratorTotalACEnergy GeneratorTotalACEnergy_Info 65018 8
    (\<lambda>_. True) GeneratorTotalACEnergy_received"
  unfolding EncodeGeneratorTotalACEnergy_def DecodeGeneratorTotalACEnergy_def GeneratorTotalACEnergy_received_def
  by (rule codec.intro, rule carries_cong, (rule codec_steps carries_end
      | simp add: codec_facts pin_read lookup_read lookup_read_1 unit_read fieldSpec_GeneratorTotalACEnergy_TotalEnergyExport_def fieldSpec_GeneratorTotalACEnergy_TotalEnergyImport_def)+)

subsection \<open>GeneratorPhaseCBasicACQuantities\<close>

definition fieldSpec_GeneratorPhaseCBasicACQuantities_LineLineACRMSVoltage :: FieldSpec where
  "fieldSpec_GeneratorPhaseCBasicACQuantities_LineLineACRMSVoltage = unsigned_spec 16 0 0xFFFD 0xFFFF 2"

definition fieldSpec_GeneratorPhaseCBasicACQuantities_LineNeutralACRMSVoltage :: FieldSpec where
  "fieldSpec_GeneratorPhaseCBasicACQuantities_LineNeutralACRMSVoltage = unsigned_spec 16 16 0xFFFD 0xFFFF 2"

definition fieldSpec_GeneratorPhaseCBasicACQuantities_ACFrequency :: ScaledSpec where
  "fieldSpec_GeneratorPhaseCBasicACQuantities_ACFrequency =
     scaled_spec 16 32 0xFFFD 0xFFFF 0 False 2 0.0078125 None None"

definition fieldSpec_GeneratorPhaseCBasicACQuantities_ACRMSCurrent :: FieldSpec where
  "fieldSpec_GeneratorPhaseCBasicACQuantities_ACRMSCurrent = unsigned_spec 16 48 0xFFFD 0xFFFF 2"

record GeneratorPhaseCBasicACQuantities =
  GeneratorPhaseCBasicACQuantities_Info :: MessageInfo
  GeneratorPhaseCBasicACQuantities_LineLineACRMSVoltage :: "u16 option"
  GeneratorPhaseCBasicACQuantities_LineNeutralACRMSVoltage :: "u16 option"
  GeneratorPhaseCBasicACQuantities_ACFrequency :: "rat option"
  GeneratorPhaseCBasicACQuantities_ACRMSCurrent :: "u16 option"

definition DecodeGeneratorPhaseCBasicACQuantities :: "MessageInfo \<Rightarrow> (DataStream, GeneratorPhaseCBasicACQuantities) step" where
  "DecodeGeneratorPhaseCBasicACQuantities info =
     field ''GeneratorPhaseCBasicACQuantities-LineLineACRMSVoltage'' (ReadRaw go_uint16 (Some fieldSpec_GeneratorPhaseCBasicACQuantities_LineLineACRMSVoltage)) (\<lambda>v1.
     field ''GeneratorPhaseCBasicACQuantities-LineNeutralACRMSVoltage'' (ReadRaw go_uint16 (Some fieldSpec_GeneratorPhaseCBasicACQuantities_LineNeutralACRMSVoltage)) (\<lambda>v2.
     field ''GeneratorPhaseCBasicACQuantities-ACFrequency'' (ReadScaled 24 (Some fieldSpec_GeneratorPhaseCBasicACQuantities_ACFrequency)) (\<lambda>v3.
     field ''GeneratorPhaseCBasicACQuantities-ACRMSCurrent'' (ReadRaw go_uint16 (Some fieldSpec_GeneratorPhaseCBasicACQuantities_ACRMSCurrent)) (\<lambda>v4.
     returnE \<lparr>GeneratorPhaseCBasicACQuantities_Info = info,
       GeneratorPhaseCBasicACQuantities_LineLineACRMSVoltage = map_option of_int v1,
       GeneratorPhaseCBasicACQuantities_LineNeutralACRMSVoltage = map_option of_int v2,
       GeneratorPhaseCBasicACQuantities_ACFrequency = v3,
       GeneratorPhaseCBasicACQuantities_ACRMSCurrent = map_option of_int v4\<rparr>))))"

definition EncodeGeneratorPhaseCBasicACQuantities :: "(rat \<Rightarrow> u64) \<Rightarrow> gotime \<Rightarrow> GeneratorPhaseCBasicACQuantities \<Rightarrow> (DataStream, MessageInfo) step" where
  "EncodeGeneratorPhaseCBasicACQuantities hw now p =
     seqE (WriteRaw (map_option uint (GeneratorPhaseCBasicACQuantities_LineLineACRMSVoltage p)) (Some fieldSpec_GeneratorPhaseCBasicACQuantities_LineLineACRMSVoltage)) (\<lambda>_.
     seqE (WriteRaw (map_option uint (GeneratorPhaseCBasicACQuantities_LineNeutralACRMSVoltage p)) (Some fieldSpec_GeneratorPhaseCBasicACQuantities_LineNeutralACRMSVoltage)) (\<lambda>_.
     seqE (WriteScaled hw (GeneratorPhaseCBasicACQuantities_ACFrequency p) (Some fieldSpec_GeneratorPhaseCBasicACQuantities_ACFrequency)) (\<lambda>_.
     seqE (WriteRaw (map_option uint (GeneratorPhaseCBasicACQuantities_ACRMSCurrent p)) (Some fieldSpec_GeneratorPhaseCBasicACQuantities_ACRMSCurrent)) (\<lambda>_.
     returnE (finish_info now 65021 (GeneratorPhaseCBasicACQuantities_Info p))))))"

definition GeneratorPhaseCBasicACQuantities_received :: "(rat \<Rightarrow> u64) \<Rightarrow> MessageInfo \<Rightarrow> GeneratorPhaseCBasicACQuantities \<Rightarrow> GeneratorPhaseCBasicACQuantities" where
  "GeneratorPhaseCBasicACQuantities_received hw info p = \<lparr>GeneratorPhaseCBasicACQuantities_Info = info,
     GeneratorPhaseCBasicACQuantities_LineLineACRMSVoltage = pin fieldSpec_GeneratorPhaseCBasicACQuantities_LineLineACRMSVoltage (GeneratorPhaseCBasicACQuantities_LineLineACRMSVoltage p),
     GeneratorPhaseCBasicACQuantities_LineNeutralACRMSVoltage = pin fieldSpec_GeneratorPhaseCBasicACQuantities_LineNeutralACRMSVoltage (GeneratorPhaseCBasicACQuantities_LineNeutralACRMSVoltage p),
     GeneratorPhaseCBasicACQuantities_ACFrequency = map_option (scaled_back hw 24 fieldSpec_GeneratorPhaseCBasicACQuantities_ACFrequency) (GeneratorPhaseCBasicACQuantities_ACFrequency p),
     GeneratorPhaseCBasicACQuantities_ACRMSCurrent = pin fieldSpec_GeneratorPhaseCBasicACQuantities_ACRMSCurrent (GeneratorPhaseCBasicACQuantities_ACRMSCurrent p)\<rparr>"

lemma GeneratorPhaseCBasicACQuantities_codec: "codec (EncodeGeneratorPhaseCBasicACQuantities hw) DecodeGeneratorPhaseCBasicACQuantities GeneratorPhaseCBasicACQuantities_Info 65021 8
    (\<lambda>_. True) (GeneratorPhaseCBasicACQuantities_received hw)"
  unfolding EncodeGeneratorPhaseCBasicACQuantities_def DecodeGeneratorPhaseCBasicACQuantities_def GeneratorPhaseCBasicACQuantities_received_def
  by (rule codec.intro, rule carries_cong, (rule codec_steps carries_end
      | simp add: codec_facts pin_read lookup_read lookup_read_1 unit_read fieldSpec_GeneratorPhaseCBasicACQuantities_LineLineACRMSVoltage_def fieldSpec_GeneratorPhaseCBasicACQuantities_LineNeutralACRMSVoltage_def fieldSpec_GeneratorPhaseCBasicACQuantities_ACFrequency_def fieldSpec_GeneratorPhaseCBasicACQuantities_ACRMSCurrent_def)+)

subsection \<open>GeneratorPhaseBBasicACQuantities\<close>

definition fieldSpec_GeneratorPhaseBBasicACQuantities_LineLineACRMSVoltage :: FieldSpec where
  "fieldSpec_GeneratorPhaseBBasicACQuantities_LineLineACRMSVoltage = unsigned_spec 16 0 0xFFFD 0xFFFF 2"

definition fieldSpec_GeneratorPhaseBBasicACQuantities_LineNeutralACRMSVoltage :: FieldSpec where
  "fieldSpec_GeneratorPhaseBBasicACQuantities_LineNeutralACRMSVoltage = unsigned_spec 16 16 0xFFFD 0xFFFF 2"

definition fieldSpec_GeneratorPhaseBBasicACQuantities_ACFrequency :: ScaledSpec where
  "fieldSpec_GeneratorPhaseBBasicACQuantities_ACFrequency =
     scaled_spec 16 32 0xFFFD 0xFFFF 0 False 2 0.0078125 None None"

definition fieldSpec_GeneratorPhaseBBasicACQuantities_ACRMSCurrent :: FieldSpec where
  "fieldSpec_GeneratorPhaseBBasicACQuantities_ACRMSCurrent = unsigned_spec 16 48 0xFFFD 0xFFFF 2"

record GeneratorPhaseBBasicACQuantities =
  GeneratorPhaseBBasicACQuantities_Info :: MessageInfo
  GeneratorPhaseBBasicACQuantities_LineLineACRMSVoltage :: "u16 option"
  GeneratorPhaseBBasicACQuantities_LineNeutralACRMSVoltage :: "u16 option"
  GeneratorPhaseBBasicACQuantities_ACFrequency :: "rat option"
  GeneratorPhaseBBasicACQuantities_ACRMSCurrent :: "u16 option"

definition DecodeGeneratorPhaseBBasicACQuantities :: "MessageInfo \<Rightarrow> (DataStream, GeneratorPhaseBBasicACQuantities) step" where
  "DecodeGeneratorPhaseBBasicACQuantities info =
     field ''GeneratorPhaseBBasicACQuantities-LineLineACRMSVoltage'' (ReadRaw go_uint16 (Some fieldSpec_GeneratorPhaseBBasicACQuantities_LineLineACRMSVoltage)) (\<lambda>v1.
     field ''GeneratorPhaseBBasicACQuantities-LineNeutralACRMSVoltage'' (ReadRaw go_uint16 (Some fieldSpec_GeneratorPhaseBBasicACQuantities_LineNeutralACRMSVoltage)) (\<lambda>v2.
     field ''GeneratorPhaseBBasicACQuantities-ACFrequency'' (ReadScaled 24 (Some fieldSpec_GeneratorPhaseBBasicACQuantities_ACFrequency)) (\<lambda>v3.
     field ''GeneratorPhaseBBasicACQuantities-ACRMSCurrent'' (ReadRaw go_uint16 (Some fieldSpec_GeneratorPhaseBBasicACQuantities_ACRMSCurrent)) (\<lambda>v4.
     returnE \<lparr>GeneratorPhaseBBasicACQuantities_Info = info,
       GeneratorPhaseBBasicACQuantities_LineLineACRMSVoltage = map_option of_int v1,
       GeneratorPhaseBBasicACQuantities_LineNeutralACRMSVoltage = map_option of_int v2,
       GeneratorPhaseBBasicACQuantities_ACFrequency = v3,
       GeneratorPhaseBBasicACQuantities_ACRMSCurrent = map_option of_int v4\<rparr>))))"

definition EncodeGeneratorPhaseBBasicACQuantities :: "(rat \<Rightarrow> u64) \<Rightarrow> gotime \<Rightarrow> GeneratorPhaseBBasicACQuantities \<Rightarrow> (DataStream, MessageInfo) step" where
  "EncodeGeneratorPhaseBBasicACQuantities hw now p =
     seqE (WriteRaw (map_option uint (GeneratorPhaseBBasicACQuantities_LineLineACRMSVoltage p)) (Some fieldSpec_GeneratorPhaseBBasicACQuantities_LineLineACRMSVoltage)) (\<lambda>_.
     seqE (WriteRaw (map_option uint (GeneratorPhaseBBasicACQuantities_LineNeutralACRMSVoltage p)) (Some fieldSpec_GeneratorPhaseBBasicACQuantities_LineNeutralACRMSVoltage)) (\<lambda>_.
     seqE (WriteScaled hw (GeneratorPhaseBBasicACQuantities_ACFrequency p) (Some fieldSpec_GeneratorPhaseBBasicACQuantities_ACFrequency)) (\<lambda>_.
     seqE (WriteRaw (map_option uint (GeneratorPhaseBBasicACQuantities_ACRMSCurrent p)) (Some fieldSpec_GeneratorPhaseBBasicACQuantities_ACRMSCurrent)) (\<lambda>_.
     returnE (finish_info now 65024 (GeneratorPhaseBBasicACQuantities_Info p))))))"

definition GeneratorPhaseBBasicACQuantities_received :: "(rat \<Rightarrow> u64) \<Rightarrow> MessageInfo \<Rightarrow> GeneratorPhaseBBasicACQuantities \<Rightarrow> GeneratorPhaseBBasicACQuantities" where
  "GeneratorPhaseBBasicACQuantities_received hw info p = \<lparr>GeneratorPhaseBBasicACQuantities_Info = info,
     GeneratorPhaseBBasicACQuantities_LineLineACRMSVoltage = pin fieldSpec_GeneratorPhaseBBasicACQuantities_LineLineACRMSVoltage (GeneratorPhaseBBasicACQuantities_LineLineACRMSVoltage p),
     GeneratorPhaseBBasicACQuantities_LineNeutralACRMSVoltage = pin fieldSpec_GeneratorPhaseBBasicACQuantities_LineNeutralACRMSVoltage (GeneratorPhaseBBasicACQuantities_LineNeutralACRMSVoltage p),
     GeneratorPhaseBBasicACQuantities_ACFrequency = map_option (scaled_back hw 24 fieldSpec_GeneratorPhaseBBasicACQuantities_ACFrequency) (GeneratorPhaseBBasicACQuantities_ACFrequency p),
     GeneratorPhaseBBasicACQuantities_ACRMSCurrent = pin fieldSpec_GeneratorPhaseBBasicACQuantities_ACRMSCurrent (GeneratorPhaseBBasicACQuantities_ACRMSCurrent p)\<rparr>"

lemma GeneratorPhaseBBasicACQuantities_codec: "codec (EncodeGeneratorPhaseBBasicACQuantities hw) DecodeGeneratorPhaseBBasicACQuantities GeneratorPhaseBBasicACQuantities_Info 65024 8
    (\<lambda>_. True) (GeneratorPhaseBBasicACQuantities_received hw)"
  unfolding EncodeGeneratorPhaseBBasicACQuantities_def DecodeGeneratorPhaseBBasicACQuantities_def GeneratorPhaseBBasicACQuantities_received_def
  by (rule codec.intro, rule carries_cong, (rule codec_steps carries_end
      | simp add: codec_facts pin_read lookup_read lookup_read_1 unit_read fieldSpec_GeneratorPhaseBBasicACQuantities_LineLineACRMSVoltage_def fieldSpec_GeneratorPhaseBBasicACQuantities_LineNeutralACRMSVoltage_def fieldSpec_GeneratorPhaseBBasicACQuantities_ACFrequency_def fieldSpec_GeneratorPhaseBBasicACQuantities_ACRMSCurrent_def)+)

subsection \<open>GeneratorPhaseABasicACQuantities\<close>

definition fieldSpec_GeneratorPhaseABasicACQuantities_LineLineACRMSVoltage :: FieldSpec where
  "fieldSpec_GeneratorPhaseABasicACQuantities_LineLineACRMSVoltage = unsigned_spec 16 0 0xFFFD 0xFFFF 2"

definition fieldSpec_GeneratorPhaseABasicACQuantities_LineNeutralACRMSVoltage :: FieldSpec where
  "fieldSpec_GeneratorPhaseABasicACQuantities_LineNeutralACRMSVoltage = unsigned_spec 16 16 0xFFFD 0xFFFF 2"

definition fieldSpec_GeneratorPhaseABasicACQuantities_ACFrequency :: ScaledSpec where
  "fieldSpec_GeneratorPhaseABasicACQuantities_ACFrequency =
     scaled_spec 16 32 0xFFFD 0xFFFF 0 False 2 0.0078125 None None"

definition fieldSpec_GeneratorPhaseABasicACQuantities_ACRMSCurrent :: FieldSpec where
  "fieldSpec_GeneratorPhaseABasicACQuantities_ACRMSCurrent = unsigned_spec 16 48 0xFFFD 0xFFFF 2"

record GeneratorPhaseABasicACQuantities =
  GeneratorPhaseABasicACQuantities_Info :: MessageInfo
  GeneratorPhaseABasicACQuantities_LineLineACRMSVoltage :: "u16 option"
  GeneratorPhaseABasicACQuantities_LineNeutralACRMSVoltage :: "u16 option"
  GeneratorPhaseABasicACQuantities_ACFrequency :: "rat option"
  GeneratorPhaseABasicACQuantities_ACRMSCurrent :: "u16 option"

definition DecodeGeneratorPhaseABasicACQuantities :: "MessageInfo \<Rightarrow> (DataStream, GeneratorPhaseABasicACQuantities) step" where
  "DecodeGeneratorPhaseABasicACQuantities info =
     field ''GeneratorPhaseABasicACQuantities-LineLineACRMSVoltage'' (ReadRaw go_uint16 (Some fieldSpec_GeneratorPhaseABasicACQuantities_LineLineACRMSVoltage)) (\<lambda>v1.
     field ''GeneratorPhaseABasicACQuantities-LineNeutralACRMSVoltage'' (ReadRaw go_uint16 (Some fieldSpec_GeneratorPhaseABasicACQuantities_LineNeutralACRMSVoltage)) (\<lambda>v2.
     field ''GeneratorPhaseABasicACQuantities-ACFrequency'' (ReadScaled 24 (Some fieldSpec_GeneratorPhaseABasicACQuantities_ACFrequency)) (\<lambda>v3.
     field ''GeneratorPhaseABasicACQuantities-ACRMSCurrent'' (ReadRaw go_uint16 (Some fieldSpec_GeneratorPhaseABasicACQuantities_ACRMSCurrent)) (\<lambda>v4.
     returnE \<lparr>GeneratorPhaseABasicACQuantities_Info = info,
       GeneratorPhaseABasicACQuantities_LineLineACRMSVoltage = map_option of_int v1,
       GeneratorPhaseABasicACQuantities_LineNeutralACRMSVoltage = map_option of_int v2,
       GeneratorPhaseABasicACQuantities_ACFrequency = v3,
       GeneratorPhaseABasicACQuantities_ACRMSCurrent = map_option of_int v4\<rparr>))))"

definition EncodeGeneratorPhaseABasicACQuantities :: "(rat \<Rightarrow> u64) \<Rightarrow> gotime \<Rightarrow> GeneratorPhaseABasicACQuantities \<Rightarrow> (DataStream, MessageInfo) step" where
  "EncodeGeneratorPhaseABasicACQuantities hw now p =
     seqE (WriteRaw (map_option uint (GeneratorPhaseABasicACQuantities_LineLineACRMSVoltage p)) (Some fieldSpec_GeneratorPhaseABasicACQuantities_LineLineACRMSVoltage)) (\<lambda>_.
     seqE (WriteRaw (map_option uint (GeneratorPhaseABasicACQuantities_LineNeutralACRMSVoltage p)) (Some fieldSpec_GeneratorPhaseABasicACQuantities_LineNeutralACRMSVoltage)) (\<lambda>_.
     seqE (WriteScaled hw (GeneratorPhaseABasicACQuantities_ACFrequency p) (Some fieldSpec_GeneratorPhaseABasicACQuantities_ACFrequency)) (\<lambda>_.
     seqE (WriteRaw (map_option uint (GeneratorPhaseABasicACQuantities_ACRMSCurrent p)) (Some fieldSpec_GeneratorPhaseABasicACQuantities_ACRMSCurrent)) (\<lambda>_.
     returnE (finish_info now 65027 (GeneratorPhaseABasicACQuantities_Info p))))))"

definition GeneratorPhaseABasicACQuantities_received :: "(rat \<Rightarrow> u64) \<Rightarrow> MessageInfo \<Rightarrow> GeneratorPhaseABasicACQuantities \<Rightarrow> GeneratorPhaseABasicACQuantities" where
  "GeneratorPhaseABasicACQuantities_received hw info p = \<lparr>GeneratorPhaseABasicACQuantities_Info = info,
     GeneratorPhaseABasicACQuantities_LineLineACRMSVoltage = pin fieldSpec_GeneratorPhaseABasicACQuantities_LineLineACRMSVoltage (GeneratorPhaseABasicACQuantities_LineLineACRMSVoltage p),
     GeneratorPhaseABasicACQuantities_LineNeutralACRMSVoltage = pin fieldSpec_GeneratorPhaseABasicACQuantities_LineNeutralACRMSVoltage (GeneratorPhaseABasicACQuantities_LineNeutralACRMSVoltage p),
     GeneratorPhaseABasicACQuantities_ACFrequency = map_option (scaled_back hw 24 fieldSpec_GeneratorPhaseABasicACQuantities_ACFrequency) (GeneratorPhaseABasicACQuantities_ACFrequency p),
     GeneratorPhaseABasicACQuantities_ACRMSCurrent = pin fieldSpec_GeneratorPhaseABasicACQuantities_ACRMSCurrent (GeneratorPhaseABasicACQuantities_ACRMSCurrent p)\<rparr>"

lemma GeneratorPhaseABasicACQuantities_codec: "codec (EncodeGeneratorPhaseABasicACQuantities hw) DecodeGeneratorPhaseABasicACQuantities GeneratorPhaseABasicACQuantities_Info 65027 8
    (\<lambda>_. True) (GeneratorPhaseABasicACQuantities_received hw)"
  unfolding EncodeGeneratorPhaseABasicACQuantities_def DecodeGeneratorPhaseABasicACQuantities_def GeneratorPhaseABasicACQuantities_received_def
  by (rule codec.intro, rule carries_cong, (rule codec_steps carries_end
      | simp add: codec_facts pin_read lookup_read lookup_read_1 unit_read fieldSpec_GeneratorPhaseABasicACQuantities_LineLineACRMSVoltage_def fieldSpec_GeneratorPhaseABasicACQuantities_LineNeutralACRMSVoltage_def fieldSpec_GeneratorPhaseABasicACQuantities_ACFrequency_def fieldSpec_GeneratorPhaseABasicACQuantities_ACRMSCurrent_def)+)

subsection \<open>GeneratorAverageBasicACQuantities\<close>

definition fieldSpec_GeneratorAverageBasicACQuantities_LineLineACRMSVoltage :: FieldSpec where
  "fieldSpec_GeneratorAverageBasicACQuantities_LineLineACRMSVoltage = unsigned_spec 16 0 0xFFFD 0xFFFF 2"

definition fieldSpec_GeneratorAverageBasicACQuantities_LineNeutralACRMSVoltage :: FieldSpec where
  "fieldSpec_GeneratorAverageBasicACQuantities_LineNeutralACRMSVoltage = unsigned_spec 16 16 0xFFFD 0xFFFF 2"

definition fieldSpec_GeneratorAverageBasicACQuantities_ACFrequency :: ScaledSpec where
  "fieldSpec_GeneratorAverageBasicACQuantities_ACFrequency =
     scaled_spec 16 32 0xFFFD 0xFFFF 0 False 2 0.0078125 None None"

definition fieldSpec_GeneratorAverageBasicACQuantities_ACRMSCurrent :: FieldSpec where
  "fieldSpec_GeneratorAverageBasicACQuantities_ACRMSCurrent = unsigned_spec 16 48 0xFFFD 0xFFFF 2"

record GeneratorAverageBasicACQuantities =
  GeneratorAverageBasicACQuantities_Info :: MessageInfo
  GeneratorAverageBasicACQuantities_LineLineACRMSVoltage :: "u16 option"
  GeneratorAverageBasicACQuantities_LineNeutralACRMSVoltage :: "u16 option"
  GeneratorAverageBasicACQuantities_ACFrequency :: "rat option"
  GeneratorAverageBasicACQuantities_ACRMSCurrent :: "u16 option"

definition DecodeGeneratorAverageBasicACQuantities :: "MessageInfo \<Rightarrow> (DataStream, GeneratorAverageBasicACQuantities) step" where
  "DecodeGeneratorAverageBasicACQuantities info =
     field ''GeneratorAverageBasicACQuantities-LineLineACRMSVoltage'' (ReadRaw go_uint16 (Some fieldSpec_GeneratorAverageBasicACQuantities_LineLineACRMSVoltage)) (\<lambda>v1.
     field ''GeneratorAverageBasicACQuantities-LineNeutralACRMSVoltage'' (ReadRaw go_uint16 (Some fieldSpec_GeneratorAverageBasicACQuantities_LineNeutralACRMSVoltage)) (\<lambda>v2.
     field ''GeneratorAverageBasicACQuantities-ACFrequency'' (ReadScaled 24 (Some fieldSpec_GeneratorAverageBasicACQuantities_ACFrequency)) (\<lambda>v3.
     field ''GeneratorAverageBasicACQuantities-ACRMSCurrent'' (ReadRaw go_uint16 (Some fieldSpec_GeneratorAverageBasicACQuantities_ACRMSCurrent)) (\<lambda>v4.
     returnE \<lparr>GeneratorAverageBasicACQuantities_Info = info,
       GeneratorAverageBasicACQuantities_LineLineACRMSVoltage = map_option of_int v1,
       GeneratorAverageBasicACQuantities_LineNeutralACRMSVoltage = map_option of_int v2,
       GeneratorAverageBasicACQuantities_ACFrequency = v3,
       GeneratorAverageBasicACQuantities_ACRMSCurrent = map_option of_int v4\<rparr>))))"

definition EncodeGeneratorAverageBasicACQuantities :: "(rat \<Rightarrow> u64) \<Rightarrow> gotime \<Rightarrow> GeneratorAverageBasicACQuantities \<Rightarrow> (DataStream, MessageInfo) step" where
  "EncodeGeneratorAverageBasicACQuantities hw now p =
     seqE (WriteRaw (map_option uint (GeneratorAverageBasicACQuantities_LineLineACRMSVoltage p)) (Some fieldSpec_GeneratorAverageBasicACQuantities_LineLineACRMSVoltage)) (\<lambda>_.
     seqE (WriteRaw (map_option uint (GeneratorAverageBasicACQuantities_LineNeutralACRMSVoltage p)) (Some fieldSpec_GeneratorAverageBasicACQuantities_LineNeutralACRMSVoltage)) (\<lambda>_.
     seqE (WriteScaled hw (GeneratorAverageBasicACQuantities_ACFrequency p) (Some fieldSpec_GeneratorAverageBasicACQuantities_ACFrequency)) (\<lambda>_.
     seqE (WriteRaw (map_option uint (GeneratorAverageBasicACQuantities_ACRMSCurrent p)) (Some fieldSpec_GeneratorAverageBasicACQuantities_ACRMSCurrent)) (\<lambda>_.
     returnE (finish_info now 65030 (GeneratorAverageBasicACQuantities_Info p))))))"

definition GeneratorAverageBasicACQuantities_received :: "(rat \<Rightarrow> u64) \<Rightarrow> MessageInfo \<Rightarrow> GeneratorAverageBasicACQuantities \<Rightarrow> GeneratorAverageBasicACQuantities" where
  "GeneratorAverageBasicACQuantities_received hw info p = \<lparr>GeneratorAverageBasicACQuantities_Info = info,
     GeneratorAverageBasicACQuantities_LineLineACRMSVoltage = pin fieldSpec_GeneratorAverageBasicACQuantities_LineLineACRMSVoltage (GeneratorAverageBasicACQuantities_LineLineACRMSVoltage p),
     GeneratorAverageBasicACQuantities_LineNeutralACRMSVoltage = pin fieldSpec_GeneratorAverageBasicACQuantities_LineNeutralACRMSVoltage (GeneratorAverageBasicACQuantities_LineNeutralACRMSVoltage p),
     GeneratorAverageBasicACQuantities_ACFrequency = map_option (scaled_back hw 24 fieldSpec_GeneratorAverageBasicACQuantities_ACFrequency) (GeneratorAverageBasicACQuantities_ACFrequency p),
     GeneratorAverageBasicACQuantities_ACRMSCurrent = pin fieldSpec_GeneratorAverageBasicACQuantities_ACRMSCurrent (GeneratorAverageBasicACQuantities_ACRMSCurrent p)\<rparr>"

lemma GeneratorAverageBasicACQuantities_codec: "codec (EncodeGeneratorAverageBasicACQuantities hw) DecodeGeneratorAverageBasicACQuantities GeneratorAverageBasicACQuantities_Info 65030 8
    (\<lambda>_. True) (GeneratorAverageBasicACQuantities_received hw)"
  unfolding EncodeGeneratorAverageBasicACQuantities_def DecodeGeneratorAverageBasicACQuantities_def GeneratorAverageBasicACQuantities_received_def
  by (rule codec.intro, rule carries_cong, (rule codec_steps carries_end
      | simp add: codec_facts pin_read lookup_read lookup_read_1 unit_read fieldSpec_GeneratorAverageBasicACQuantities_LineLineACRMSVoltage_def fieldSpec_GeneratorAverageBasicACQuantities_LineNeutralACRMSVoltage_def fieldSpec_GeneratorAverageBasicACQuantities_ACFrequency_def fieldSpec_GeneratorAverageBasicACQuantities_ACRMSCurrent_def)+)

subsection \<open>LoadControllerConnectionStateControl\<close>

definition fieldSpec_LoadControllerConnectionStateControl_SequenceID :: FieldSpec where
  "fieldSpec_LoadControllerConnectionStateControl_SequenceID = unsigned_spec 8 0 0xFD 0xFF 2"

definition fieldSpec_LoadControllerConnectionStateControl_ConnectionID :: FieldSpec where
  "fieldSpec_LoadControllerConnectionStateControl_ConnectionID = unsigned_spec 8 8 0xFD 0xFF 2"

definition fieldSpec_LoadControllerConnectionStateControl_State :: FieldSpec where
  "fieldSpec_LoadControllerConnectionStateControl_State = unsigned_spec 8 16 0xFD 0xFF 2"

definition fieldSpec_LoadControllerConnectionStateControl_Status :: FieldSpec where
  "fieldSpec_LoadControllerConnectionStateControl_Status = unsigned_spec 8 24 0xFD 0xFF 2"

definition fieldSpec_LoadControllerConnectionStateControl_OperationalStatusControl :: FieldSpec where
  "fieldSpec_LoadControllerConnectionStateControl_OperationalStatusControl = unsigned_spec 8 32 0xFD 0xFF 2"

definition fieldSpec_LoadControllerConnectionStateControl_PwmDutyCycle :: FieldSpec where
  "fieldSpec_LoadControllerConnectionStateControl_PwmDutyCycle = unsigned_spec 8 40 0xFD 0xFF 2"

definition fieldSpec_LoadControllerConnectionStateControl_Timeon :: FieldSpec where
  "fieldSpec_LoadControllerConnectionStateControl_Timeon = unsigned_spec 8 48 0xFD 0xFF 2"

definition fieldSpec_LoadControllerConnectionStateControl_Timeoff :: FieldSpec where
  "fieldSpec_LoadControllerConnectionStateControl_Timeoff = unsigned_spec 8 56 0xFD 0xFF 2"

record LoadControllerConnectionStateControl =
  LoadControllerConnectionStateControl_Info :: MessageInfo
  LoadControllerConnectionStateControl_SequenceID :: "u8 option"
  LoadControllerConnectionStateControl_ConnectionID :: "u8 option"
  LoadControllerConnectionStateControl_State :: "u8 option"
  LoadControllerConnectionStateControl_Status :: "u8 option"
  LoadControllerConnectionStateControl_OperationalStatusControl :: "u8 option"
  LoadControllerConnectionStateControl_PwmDutyCycle :: "u8 option"
  LoadControllerConnectionStateControl_Timeon :: "u8 option"
  LoadControllerConnectionStateControl_Timeoff :: "u8 option"

definition DecodeLoadControllerConnectionStateControl :: "MessageInfo \<Rightarrow> (DataStream, LoadControllerConnectionStateControl) step" where
  "DecodeLoadControllerConnectionStateControl info =
     field ''LoadControllerConnectionStateControl-SequenceID'' (ReadRaw go_uint8 (Some fieldSpec_LoadControllerConnectionStateControl_SequenceID)) (\<lambda>v1.
     field ''LoadControllerConnectionStateControl-ConnectionID'' (ReadRaw go_uint8 (Some fieldSpec_LoadControllerConnectionStateControl_ConnectionID)) (\<lambda>v2.
     field ''LoadControllerConnectionStateControl-State'' (ReadRaw go_uint8 (Some fieldSpec_LoadControllerConnectionStateControl_State)) (\<lambda>v3.
     field ''LoadControllerConnectionStateControl-Status'' (ReadRaw go_uint8 (Some fieldSpec_LoadControllerConnectionStateControl_Status)) (\<lambda>v4.
     field ''LoadControllerConnectionStateControl-OperationalStatusControl'' (ReadRaw go_uint8 (Some fieldSpec_LoadControllerConnectionStateControl_OperationalStatusControl)) (\<lambda>v5.
     field ''LoadControllerConnectionStateControl-PwmDutyCycle'' (ReadRaw go_uint8 (Some fieldSpec_LoadControllerConnectionStateControl_PwmDutyCycle)) (\<lambda>v6.
     field ''LoadControllerConnectionStateControl-Timeon'' (ReadRaw go_uint8 (Some fieldSpec_LoadControllerConnectionStateControl_Timeon)) (\<lambda>v7.
     field ''LoadControllerConnectionStateControl-Timeoff'' (ReadRaw go_uint8 (Some fieldSpec_LoadControllerConnectionStateControl_Timeoff)) (\<lambda>v8.
     returnE \<lparr>LoadControllerConnectionStateControl_Info = info,
       LoadControllerConnectionStateControl_SequenceID = map_option of_int v1,
       LoadControllerConnectionStateControl_ConnectionID = map_option of_int v2,
       LoadControllerConnectionStateControl_State = map_option of_int v3,
       LoadControllerConnectionStateControl_Status = map_option of_int v4,
       LoadControllerConnectionStateControl_OperationalStatusControl = map_option of_int v5,
       LoadControllerConnectionStateControl_PwmDutyCycle = map_option of_int v6,
       LoadControllerConnectionStateControl_Timeon = map_option of_int v7,
       LoadControllerConnectionStateControl_Timeoff = map_option of_int v8\<rparr>))))))))"

definition EncodeLoadControllerConnectionStateControl :: "gotime \<Rightarrow> LoadControllerConnectionStateControl \<Rightarrow> (DataStream, MessageInfo) step" where
  "EncodeLoadControllerConnectionStateControl now p =
     seqE (WriteRaw (map_option uint (LoadControllerConnectionStateControl_SequenceID p)) (Some fieldSpec_LoadControllerConnectionStateControl_SequenceID)) (\<lambda>_.
     seqE (WriteRaw (map_option uint (LoadControllerConnectionStateControl_ConnectionID p)) (Some fieldSpec_LoadControllerConnectionStateControl_ConnectionID)) (\<lambda>_.
     seqE (WriteRaw (map_option uint (LoadControllerConnectionStateControl_State p)) (Some fieldSpec_LoadControllerConnectionStateControl_State)) (\<lambda>_.
     seqE (WriteRaw (map_option uint (LoadControllerConnectionStateControl_Status p)) (Some fieldSpec_LoadControllerConnectionStateControl_Status)) (\<lambda>_.
     seqE (WriteRaw (map_option uint (LoadControllerConnectionStateControl_OperationalStatusControl p)) (Some fieldSpec_LoadControllerConnectionStateControl_OperationalStatusControl)) (\<lambda>_.
     seqE (WriteRaw (map_option uint (LoadControllerConnectionStateControl_PwmDutyCycle p)) (Some fieldSpec_LoadControllerConnectionStateControl_PwmDutyCycle)) (\<lambda>_.
     seqE (WriteRaw (map_option uint (LoadControllerConnectionStateControl_Timeon p)) (Some fieldSpec_LoadControllerConnectionStateControl_Timeon)) (\<lambda>_.
     seqE (WriteRaw (map_option uint (LoadControllerConnectionStateControl_Timeoff p)) (Some fieldSpec_LoadControllerConnectionStateControl_Timeoff)) (\<lambda>_.
     returnE (finish_info now 127500 (LoadControllerConnectionStateControl_Info p))))))))))"

definition LoadControllerConnectionStateControl_received :: "MessageInfo \<Rightarrow> LoadControllerConnectionStateControl \<Rightarrow> LoadControllerConnectionStateControl" where
  "LoadControllerConnectionStateControl_received info p = \<lparr>LoadControllerConnectionStateControl_Info = info,
     LoadControllerConnectionStateControl_SequenceID = pin fieldSpec_LoadControllerConnectionStateControl_SequenceID (LoadControllerConnectionStateControl_SequenceID p),
     LoadControllerConnectionStateControl_ConnectionID = pin fieldSpec_LoadControllerConnectionStateControl_ConnectionID (LoadControllerConnectionStateControl_ConnectionID p),
     LoadControllerConnectionStateControl_State = pin fieldSpec_LoadControllerConnectionStateControl_State (LoadControllerConnectionStateControl_State p),
     LoadControllerConnectionStateControl_Status = pin fieldSpec_LoadControllerConnectionStateControl_Status (LoadControllerConnectionStateControl_Status p),
     LoadControllerConnectionStateControl_OperationalStatusControl = pin fieldSpec_LoadControllerConnectionStateControl_OperationalStatusControl (LoadControllerConnectionStateControl_OperationalStatusControl p),
     LoadControllerConnectionStateControl_PwmDutyCycle = pin fieldSpec_LoadControllerConnectionStateControl_PwmDutyCycle (LoadControllerConnectionStateControl_PwmDutyCycle p),
     LoadControllerConnectionStateControl_Timeon = pin fieldSpec_LoadControllerConnectionStateControl_Timeon (LoadControllerConnectionStateControl_Timeon p),
     LoadControllerConnectionStateControl_Timeoff = pin fieldSpec_LoadControllerConnectionStateControl_Timeoff (LoadControllerConnectionStateControl_Timeoff p)\<rparr>"

lemma LoadControllerConnectionStateControl_codec: "codec EncodeLoadControllerConnectionStateControl DecodeLoadControllerConnectionStateControl LoadControllerConnectionStateControl_Info 127500 8
    (\<lambda>_. True) LoadControllerConnectionStateControl_received"
  unfolding EncodeLoadControllerConnectionStateControl_def DecodeLoadControllerConnectionStateControl_def LoadControllerConnectionStateControl_received_def
  by (rule codec.intro, rule carries_cong, (rule codec_steps carries_end
      | simp add: codec_facts pin_read lookup_read lookup_read_1 unit_read fieldSpec_LoadControllerConnectionStateControl_SequenceID_def fieldSpec_LoadControllerConnectionStateControl_ConnectionID_def fieldSpec_LoadControllerConnectionStateControl_State_def fieldSpec_LoadControllerConnectionStateControl_Status_def fieldSpec_LoadControllerConnectionStateControl_OperationalStatusControl_def fieldSpec_LoadControllerConnectionStateControl_PwmDutyCycle_def fieldSpec_LoadControllerConnectionStateControl_Timeon_def fieldSpec_LoadControllerConnectionStateControl_Timeoff_def)+)

subsection \<open>BinarySwitchBankStatus\<close>

definition fieldSpec_BinarySwitchBankStatus_Instance :: FieldSpec where
  "fieldSpec_BinarySwitchBankStatus_Instance = unsigned_spec 8 0 0xFD 0xFF 2"

record BinarySwitchBankStatus =
  BinarySwitchBankStatus_Info :: MessageInfo
  BinarySwitchBankStatus_Instance :: "u8 option"
  BinarySwitchBankStatus_Indicator1 :: u8
  BinarySwitchBankStatus_Indicator2 :: u8
  BinarySwitchBankStatus_Indicator3 :: u8
  BinarySwitchBankStatus_Indicator4 :: u8
  BinarySwitchBankStatus_Indicator5 :: u8
  BinarySwitchBankStatus_Indicator6 :: u8
  BinarySwitchBankStatus_Indicator7 :: u8
  BinarySwitchBankStatus_Indicator8 :: u8
  BinarySwitchBankStatus_Indicator9 :: u8
  BinarySwitchBankStatus_Indicator10 :: u8
  BinarySwitchBankStatus_Indicator11 :: u8
  BinarySwitchBankStatus_Indicator12 :: u8
  BinarySwitchBankStatus_Indicator13 :: u8
  BinarySwitchBankStatus_Indicator14 :: u8
  BinarySwitchBankStatus_Indicator15 :: u8
  BinarySwitchBankStatus_Indicator16 :: u8
  BinarySwitchBankStatus_Indicator17 :: u8
  BinarySwitchBankStatus_Indicator18 :: u8
  BinarySwitchBankStatus_Indicator19 :: u8
  BinarySwitchBankStatus_Indicator20 :: u8
  BinarySwitchBankStatus_Indicator21 :: u8
  BinarySwitchBankStatus_Indicator22 :: u8
  BinarySwitchBankStatus_Indicator23 :: u8
  BinarySwitchBankStatus_Indicator24 :: u8
  BinarySwitchBankStatus_Indicator25 :: u8
  BinarySwitchBankStatus_Indicator26 :: u8
  BinarySwitchBankStatus_Indicator27 :: u8
  BinarySwitchBankStatus_Indicator28 :: u8

definition DecodeBinarySwitchBankStatus :: "MessageInfo \<Rightarrow> (DataStream, BinarySwitchBankStatus) step" where
  "DecodeBinarySwitchBankStatus info =
     field ''BinarySwitchBankStatus-Instance'' (ReadRaw go_uint8 (Some fieldSpec_BinarySwitchBankStatus_Instance)) (\<lambda>v1.
     field ''BinarySwitchBankStatus-Indicator1'' (readLookupField 2) (\<lambda>v2.
     field ''BinarySwitchBankStatus-Indicator2'' (readLookupField 2) (\<lambda>v3.
     field ''BinarySwitchBankStatus-Indicator3'' (readLookupField 2) (\<lambda>v4.
     field ''BinarySwitchBankStatus-Indicator4'' (readLookupField 2) (\<lambda>v5.
     field ''BinarySwitchBankStatus-Indicator5'' (readLookupField 2) (\<lambda>v6.
     field ''BinarySwitchBankStatus-Indicator6'' (readLookupField 2) (\<lambda>v7.
     field ''BinarySwitchBankStatus-Indicator7'' (readLookupField 2) (\<lambda>v8.
     field ''BinarySwitchBankStatus-Indicator8'' (readLookupField 2) (\<lambda>v9.
     field ''BinarySwitchBankStatus-Indicator9'' (readLookupField 2) (\<lambda>v10.
     field ''BinarySwitchBankStatus-Indicator10'' (readLookupField 2) (\<lambda>v11.
     field ''BinarySwitchBankStatus-Indicator11'' (readLookupField 2) (\<lambda>v12.
     field ''BinarySwitchBankStatus-Indicator12'' (readLookupField 2) (\<lambda>v13.
     field ''BinarySwitchBankStatus-Indicator13'' (readLookupField 2) (\<lambda>v14.
     field ''BinarySwitchBankStatus-Indicator14'' (readLookupField 2) (\<lambda>v15.
     field ''BinarySwitchBankStatus-Indicator15'' (readLookupField 2) (\<lambda>v16.
     field ''BinarySwitchBankStatus-Indicator16'' (readLookupField 2) (\<lambda>v17.
     field ''BinarySwitchBankStatus-Indicator17'' (readLookupField 2) (\<lambda>v18.
     field ''BinarySwitchBankStatus-Indicator18'' (readLookupField 2) (\<lambda>v19.
     field ''BinarySwitchBankStatus-Indicator19'' (readLookupField 2) (\<lambda>v20.
     field ''BinarySwitchBankStatus-Indicator20'' (readLookupField 2) (\<lambda>v21.
     field ''BinarySwitchBankStatus-Indicator21'' (readLookupField 2) (\<lambda>v22.
     field ''BinarySwitchBankStatus-Indicator22'' (readLookupField 2) (\<lambda>v23.
     field ''BinarySwitchBankStatus-Indicator23'' (readLookupField 2) (\<lambda>v24.
     field ''BinarySwitchBankStatus-Indicator24'' (readLookupField 2) (\<lambda>v25.
     field ''BinarySwitchBankStatus-Indicator25'' (readLookupField 2) (\<lambda>v26.
     field ''BinarySwitchBankStatus-Indicator26'' (readLookupField 2) (\<lambda>v27.
     field ''BinarySwitchBankStatus-Indicator27'' (readLookupField 2) (\<lambda>v28.
     field ''BinarySwitchBankStatus-Indicator28'' (readLookupField 2) (\<lambda>v29.
     returnE \<lparr>BinarySwitchBankStatus_Info = info,
       BinarySwitchBankStatus_Instance = map_option of_int v1,
       BinarySwitchBankStatus_Indicator1 = ucast v2,
       BinarySwitchBankStatus_Indicator2 = ucast v3,
       BinarySwitchBankStatus_Indicator3 = ucast v4,
       BinarySwitchBankStatus_Indicator4 = ucast v5,
       BinarySwitchBankStatus_Indicator5 = ucast v6,
       BinarySwitchBankStatus_Indicator6 = ucast v7,
       BinarySwitchBankStatus_Indicator7 = ucast v8,
       BinarySwitchBankStatus_Indicator8 = ucast v9,
       BinarySwitchBankStatus_Indicator9 = ucast v10,
       BinarySwitchBankStatus_Indicator10 = ucast v11,
       BinarySwitchBankStatus_Indicator11 = ucast v12,
       BinarySwitchBankStatus_Indicator12 = ucast v13,
       BinarySwitchBankStatus_Indicator13 = ucast v14,
       BinarySwitchBankStatus_Indicator14 = ucast v15,
       BinarySwitchBankStatus_Indicator15 = ucast v16,
       BinarySwitchBankStatus_Indicator16 = ucast v17,
       BinarySwitchBankStatus_Indicator17 = ucast v18,
       BinarySwitchBankStatus_Indicator18 = ucast v19,
       BinarySwitchBankStatus_Indicator19 = ucast v20,
       BinarySwitchBankStatus_Indicator20 = ucast v21,
       BinarySwitchBankStatus_Indicator21 = ucast v22,
       BinarySwitchBankStatus_Indicator22 = ucast v23,
       BinarySwitchBankStatus_Indicator23 = ucast v24,
       BinarySwitchBankStatus_Indicator24 = ucast v25,
       BinarySwitchBankStatus_Indicator25 = ucast v26,
       BinarySwitchBankStatus_Indicator26 = ucast v27,
       BinarySwitchBankStatus_Indicator27 = ucast v28,
       BinarySwitchBankStatus_Indicator28 = ucast v29\<rparr>)))))))))))))))))))))))))))))"

definition EncodeBinarySwitchBankStatus :: "gotime \<Rightarrow> BinarySwitchBankStatus \<Rightarrow> (DataStream, MessageInfo) step" where
  "EncodeBinarySwitchBankStatus now p =
     seqE (WriteRaw (map_option uint (BinarySwitchBankStatus_Instance p)) (Some fieldSpec_BinarySwitchBankStatus_Instance)) (\<lambda>_.
     seqE (putNumberRaw (ucast (BinarySwitchBankStatus_Indicator1 p)) 2 8) (\<lambda>_.
     seqE (putNumberRaw (ucast (BinarySwitchBankStatus_Indicator2 p)) 2 10) (\<lambda>_.
     seqE (putNumberRaw (ucast (BinarySwitchBankStatus_Indicator3 p)) 2 12) (\<lambda>_.
     seqE (putNumberRaw (ucast (BinarySwitchBankStatus_Indicator4 p)) 2 14) (\<lambda>_.
     seqE (putNumberRaw (ucast (BinarySwitchBankStatus_Indicator5 p)) 2 16) (\<lambda>_.
     seqE (putNumberRaw (ucast (BinarySwitchBankStatus_Indicator6 p)) 2 18) (\<lambda>_.
     seqE (putNumberRaw (ucast (BinarySwitchBankStatus_Indicator7 p)) 2 20) (\<lambda>_.
     seqE (putNumberRaw (ucast (BinarySwitchBankStatus_Indicator8 p)) 2 22) (\<lambda>_.
     seqE (putNumberRaw (ucast (BinarySwitchBankStatus_Indicator9 p)) 2 24) (\<lambda>_.
     seqE (putNumberRaw (ucast (BinarySwitchBankStatus_Indicator10 p)) 2 26) (\<lambda>_.
     seqE (putNumberRaw (ucast (BinarySwitchBankStatus_Indicator11 p)) 2 28) (\<lambda>_.
     seqE (putNumberRaw (ucast (BinarySwitchBankStatus_Indicator12 p)) 2 30) (\<lambda>_.
     seqE (putNumberRaw (ucast (BinarySwitchBankStatus_Indicator13 p)) 2 32) (\<lambda>_.
     seqE (putNumberRaw (ucast (BinarySwitchBankStatus_Indicator14 p)) 2 34) (\<lambda>_.
     seqE (putNumberRaw (ucast (BinarySwitchBankStatus_Indicator15 p)) 2 36) (\<lambda>_.
     seqE (putNumberRaw (ucast (BinarySwitchBankStatus_Indicator16 p)) 2 38) (\<lambda>_.
     seqE (putNumberRaw (ucast (BinarySwitchBankStatus_Indicator17 p)) 2 40) (\<lambda>_.
     seqE (putNumberRaw (ucast (BinarySwitchBankStatus_Indicator18 p)) 2 42) (\<lambda>_.
     seqE (putNumberRaw (ucast (BinarySwitchBankStatus_Indicator19 p)) 2 44) (\<lambda>_.
     seqE (putNumberRaw (ucast (BinarySwitchBankStatus_Indicator20 p)) 2 46) (\<lambda>_.
     seqE (putNumberRaw (ucast (BinarySwitchBankStatus_Indicator21 p)) 2 48) (\<lambda>_.
     seqE (putNumberRaw (ucast (BinarySwitchBankStatus_Indicator22 p)) 2 50) (\<lambda>_.
     seqE (putNumberRaw (ucast (BinarySwitchBankStatus_Indicator23 p)) 2 52) (\<lambda>_.
     seqE (putNumberRaw (ucast (BinarySwitchBankStatus_Indicator24 p)) 2 54) (\<lambda>_.
     seqE (putNumberRaw (ucast (BinarySwitchBankStatus_Indicator25 p)) 2 56) (\<lambda>_.
     seqE (putNumberRaw (ucast (BinarySwitchBankStatus_Indicator26 p)) 2 58) (\<lambda>_.
     seqE (putNumberRaw (ucast (BinarySwitchBankStatus_Indicator27 p)) 2 60) (\<lambda>_.
     seqE (putNumberRaw (ucast (BinarySwitchBankStatus_Indicator28 p)) 2 62) (\<lambda>_.
     returnE (finish_info now 127501 (BinarySwitchBankStatus_Info p)))))))))))))))))))))))))))))))"

definition BinarySwitchBankStatus_received :: "MessageInfo \<Rightarrow> BinarySwitchBankStatus \<Rightarrow> BinarySwitchBankStatus" where
  "BinarySwitchBankStatus_received info p = \<lparr>BinarySwitchBankStatus_Info = info,
     BinarySwitchBankStatus_Instance = pin fieldSpec_BinarySwitchBankStatus_Instance (BinarySwitchBankStatus_Instance p),
     BinarySwitchBankStatus_Indicator1 = take_bit 2 (BinarySwitchBankStatus_Indicator1 p),
     BinarySwitchBankStatus_Indicator2 = take_bit 2 (BinarySwitchBankStatus_Indicator2 p),
     BinarySwitchBankStatus_Indicator3 = take_bit 2 (BinarySwitchBankStatus_Indicator3 p),
     BinarySwitchBankStatus_Indicator4 = take_bit 2 (BinarySwitchBankStatus_Indicator4 p),
     BinarySwitchBankStatus_Indicator5 = take_bit 2 (BinarySwitchBankStatus_Indicator5 p),
     BinarySwitchBankStatus_Indicator6 = take_bit 2 (BinarySwitchBankStatus_Indicator6 p),
     BinarySwitchBankStatus_Indicator7 = take_bit 2 (BinarySwitchBankStatus_Indicator7 p),
     BinarySwitchBankStatus_Indicator8 = take_bit 2 (BinarySwitchBankStatus_Indicator8 p),
     BinarySwitchBankStatus_Indicator9 = take_bit 2 (BinarySwitchBankStatus_Indicator9 p),
     BinarySwitchBankStatus_Indicator10 = take_bit 2 (BinarySwitchBankStatus_Indicator10 p),
     BinarySwitchBankStatus_Indicator11 = take_bit 2 (BinarySwitchBankStatus_Indicator11 p),
     BinarySwitchBankStatus_Indicator12 = take_bit 2 (BinarySwitchBankStatus_Indicator12 p),
     BinarySwitchBankStatus_Indicator13 = take_bit 2 (BinarySwitchBankStatus_Indicator13 p),
     BinarySwitchBankStatus_Indicator14 = take_bit 2 (BinarySwitchBankStatus_Indicator14 p),
     BinarySwitchBankStatus_Indicator15 = take_bit 2 (BinarySwitchBankStatus_Indicator15 p),
     BinarySwitchBankStatus_Indicator16 = take_bit 2 (BinarySwitchBankStatus_Indicator16 p),
     BinarySwitchBankStatus_Indicator17 = take_bit 2 (BinarySwitchBankStatus_Indicator17 p),
     BinarySwitchBankStatus_Indicator18 = take_bit 2 (BinarySwitchBankStatus_Indicator18 p),
     BinarySwitchBankStatus_Indicator19 = take_bit 2 (BinarySwitchBankStatus_Indicator19 p),
     BinarySwitchBankStatus_Indicator20 = take_bit 2 (BinarySwitchBankStatus_Indicator20 p),
     BinarySwitchBankStatus_Indicator21 = take_bit 2 (BinarySwitchBankStatus_Indicator21 p),
     BinarySwitchBankStatus_Indicator22 = take_bit 2 (BinarySwitchBankStatus_Indicator22 p),
     BinarySwitchBankStatus_Indicator23 = take_bit 2 (BinarySwitchBankStatus_Indicator23 p),
     BinarySwitchBankStatus_Indicator24 = take_bit 2 (BinarySwitchBankStatus_Indicator24 p),
     BinarySwitchBankStatus_Indicator25 = take_bit 2 (BinarySwitchBankStatus_Indicator25 p),
     BinarySwitchBankStatus_Indicator26 = take_bit 2 (BinarySwitchBankStatus_Indicator26 p),
     BinarySwitchBankStatus_Indicator27 = take_bit 2 (BinarySwitchBankStatus_Indicator27 p),
     BinarySwitchBankStatus_Indicator28 = take_bit 2 (BinarySwitchBankStatus_Indicator28 p)\<rparr>"

lemma BinarySwitchBankStatus_codec: "codec EncodeBinarySwitchBankStatus DecodeBinarySwitchBankStatus BinarySwitchBankStatus_Info 127501 8
    (\<lambda>_. True) BinarySwitchBankStatus_received"
  unfolding EncodeBinarySwitchBankStatus_def DecodeBinarySwitchBankStatus_def BinarySwitchBankStatus_received_def
  by (rule codec.intro, rule carries_cong, (rule codec_steps carries_end
      | simp add: codec_facts pin_read lookup_read lookup_read_1 unit_read fieldSpec_BinarySwitchBankStatus_Instance_def)+)

subsection \<open>SwitchBankControl\<close>

definition fieldSpec_SwitchBankControl_Instance :: FieldSpec where
  "fieldSpec_SwitchBankControl_Instance = unsigned_spec 8 0 0xFD 0xFF 2"

record SwitchBankControl =
  SwitchBankControl_Info :: MessageInfo
  SwitchBankControl_Instance :: "u8 option"
  SwitchBankControl_Switch1 :: u8
  SwitchBankControl_Switch2 :: u8
  SwitchBankControl_Switch3 :: u8
  SwitchBankControl_Switch4 :: u8
  SwitchBankControl_Switch5 :: u8
  SwitchBankControl_Switch6 :: u8
  SwitchBankControl_Switch7 :: u8
  SwitchBankControl_Switch8 :: u8
  SwitchBankControl_Switch9 :: u8
  SwitchBankControl_Switch10 :: u8
  SwitchBankControl_Switch11 :: u8
  SwitchBankControl_Switch12 :: u8
  SwitchBankControl_Switch13 :: u8
  SwitchBankControl_Switch14 :: u8
  SwitchBankControl_Switch15 :: u8
  SwitchBankControl_Switch16 :: u8
  SwitchBankControl_Switch17 :: u8
  SwitchBankControl_Switch18 :: u8
  SwitchBankControl_Switch19 :: u8
  SwitchBankControl_Switch20 :: u8
  SwitchBankControl_Switch21 :: u8
  SwitchBankControl_Switch22 :: u8
  SwitchBankControl_Switch23 :: u8
  SwitchBankControl_Switch24 :: u8
  SwitchBankControl_Switch25 :: u8
  SwitchBankControl_Switch26 :: u8
  SwitchBankControl_Switch27 :: u8
  SwitchBankControl_Switch28 :: u8

definition DecodeSwitchBankControl :: "MessageInfo \<Rightarrow> (DataStream, SwitchBankControl) step" where
  "DecodeSwitchBankControl info =
     field ''SwitchBankControl-Instance'' (ReadRaw go_uint8 (Some fieldSpec_SwitchBankControl_Instance)) (\<lambda>v1.
     field ''SwitchBankControl-Switch1'' (readLookupField 2) (\<lambda>v2.
     field ''SwitchBankControl-Switch2'' (readLookupField 2) (\<lambda>v3.
     field ''SwitchBankControl-Switch3'' (readLookupField 2) (\<lambda>v4.
     field ''SwitchBankControl-Switch4'' (readLookupField 2) (\<lambda>v5.
     field ''SwitchBankControl-Switch5'' (readLookupField 2) (\<lambda>v6.
     field ''SwitchBankControl-Switch6'' (readLookupField 2) (\<lambda>v7.
     field ''SwitchBankControl-Switch7'' (readLookupField 2) (\<lambda>v8.
     field ''SwitchBankControl-Switch8'' (readLookupField 2) (\<lambda>v9.
     field ''SwitchBankControl-Switch9'' (readLookupField 2) (\<lambda>v10.
     field ''SwitchBankControl-Switch10'' (readLookupField 2) (\<lambda>v11.
     field ''SwitchBankControl-Switch11'' (readLookupField 2) (\<lambda>v12.
     field ''SwitchBankControl-Switch12'' (readLookupField 2) (\<lambda>v13.
     field ''SwitchBankControl-Switch13'' (readLookupField 2) (\<lambda>v14.
     field ''SwitchBankControl-Switch14'' (readLookupField 2) (\<lambda>v15.
     field ''SwitchBankControl-Switch15'' (readLookupField 2) (\<lambda>v16.
     field ''SwitchBankControl-Switch16'' (readLookupField 2) (\<lambda>v17.
     field ''SwitchBankControl-Switch17'' (readLookupField 2) (\<lambda>v18.
     field ''SwitchBankControl-Switch18'' (readLookupField 2) (\<lambda>v19.
     field ''SwitchBankControl-Switch19'' (readLookupField 2) (\<lambda>v20.
     field ''SwitchBankControl-Switch20'' (readLookupField 2) (\<lambda>v21.
     field ''SwitchBankControl-Switch21'' (readLookupField 2) (\<lambda>v22.
     field ''SwitchBankControl-Switch22'' (readLookupField 2) (\<lambda>v23.
     field ''SwitchBankControl-Switch23'' (readLookupField 2) (\<lambda>v24.
     field ''SwitchBankControl-Switch24'' (readLookupField 2) (\<lambda>v25.
     field ''SwitchBankControl-Switch25'' (readLookupField 2) (\<lambda>v26.
     field ''SwitchBankControl-Switch26'' (readLookupField 2) (\<lambda>v27.
     field ''SwitchBankControl-Switch27'' (readLookupField 2) (\<lambda>v28.
     field ''SwitchBankControl-Switch28'' (readLookupField 2) (\<lambda>v29.
     returnE \<lparr>SwitchBankControl_Info = info,
       SwitchBankControl_Instance = map_option of_int v1,
       SwitchBankControl_Switch1 = ucast v2,
       SwitchBankControl_Switch2 = ucast v3,
       SwitchBankControl_Switch3 = ucast v4,
       SwitchBankControl_Switch4 = ucast v5,
       SwitchBankControl_Switch5 = ucast v6,
       SwitchBankControl_Switch6 = ucast v7,
       SwitchBankControl_Switch7 = ucast v8,
       SwitchBankControl_Switch8 = ucast v9,
       SwitchBankControl_Switch9 = ucast v10,
       SwitchBankControl_Switch10 = ucast v11,
       SwitchBankControl_Switch11 = ucast v12,
       SwitchBankControl_Switch12 = ucast v13,
       SwitchBankControl_Switch13 = ucast v14,
       SwitchBankControl_Switch14 = ucast v15,
       SwitchBankControl_Switch15 = ucast v16,
       SwitchBankControl_Switch16 = ucast v17,
       SwitchBankControl_Switch17 = ucast v18,
       SwitchBankControl_Switch18 = ucast v19,
       SwitchBankControl_Switch19 = ucast v20,
       SwitchBankControl_Switch20 = ucast v21,
       SwitchBankControl_Switch21 = ucast v22,
       SwitchBankControl_Switch22 = ucast v23,
       SwitchBankControl_Switch23 = ucast v24,
       SwitchBankControl_Switch24 = ucast v25,
       SwitchBankControl_Switch25 = ucast v26,
       SwitchBankControl_Switch26 = ucast v27,
       SwitchBankControl_Switch27 = ucast v28,
       SwitchBankControl_Switch28 = ucast v29\<rparr>)))))))))))))))))))))))))))))"

definition EncodeSwitchBankControl :: "gotime \<Rightarrow> SwitchBankControl \<Rightarrow> (DataStream, MessageInfo) step" where
  "EncodeSwitchBankControl now p =
     seqE (WriteRaw (map_option uint (SwitchBankControl_Instance p)) (Some fieldSpec_SwitchBankControl_Instance)) (\<lambda>_.
     seqE (putNumberRaw (ucast (SwitchBankControl_Switch1 p)) 2 8) (\<lambda>_.
     seqE (putNumberRaw (ucast (SwitchBankControl_Switch2 p)) 2 10) (\<lambda>_.
     seqE (putNumberRaw (ucast (SwitchBankControl_Switch3 p)) 2 12) (\<lambda>_.
     seqE (putNumberRaw (ucast (SwitchBankControl_Switch4 p)) 2 14) (\<lambda>_.
     seqE (putNumberRaw (ucast (SwitchBankControl_Switch5 p)) 2 16) (\<lambda>_.
     seqE (putNumberRaw (ucast (SwitchBankControl_Switch6 p)) 2 18) (\<lambda>_.
     seqE (putNumberRaw (ucast (SwitchBankControl_Switch7 p)) 2 20) (\<lambda>_.
     seqE (putNumberRaw (ucast (SwitchBankControl_Switch8 p)) 2 22) (\<lambda>_.
     seqE (putNumberRaw (ucast (SwitchBankControl_Switch9 p)) 2 24) (\<lambda>_.
     seqE (putNumberRaw (ucast (SwitchBankControl_Switch10 p)) 2 26) (\<lambda>_.
     seqE (putNumberRaw (ucast (SwitchBankControl_Switch11 p)) 2 28) (\<lambda>_.
     seqE (putNumberRaw (ucast (SwitchBankControl_Switch12 p)) 2 30) (\<lambda>_.
     seqE (putNumberRaw (ucast (SwitchBankControl_Switch13 p)) 2 32) (\<lambda>_.
     seqE (putNumberRaw (ucast (SwitchBankControl_Switch14 p)) 2 34) (\<lambda>_.
     seqE (putNumberRaw (ucast (SwitchBankControl_Switch15 p)) 2 36) (\<lambda>_.
     seqE (putNumberRaw (ucast (SwitchBankControl_Switch16 p)) 2 38) (\<lambda>_.
     seqE (putNumberRaw (ucast (SwitchBankControl_Switch17 p)) 2 40) (\<lambda>_.
     seqE (putNumberRaw (ucast (SwitchBankControl_Switch18 p)) 2 42) (\<lambda>_.
     seqE (putNumberRaw (ucast (SwitchBankControl_Switch19 p)) 2 44) (\<lambda>_.
     seqE (putNumberRaw (ucast (SwitchBankControl_Switch20 p)) 2 46) (\<lambda>_.
     seqE (putNumberRaw (ucast (SwitchBankControl_Switch21 p)) 2 48) (\<lambda>_.
     seqE (putNumberRaw (ucast (SwitchBankControl_Switch22 p)) 2 50) (\<lambda>_.
     seqE (putNumberRaw (ucast (SwitchBankControl_Switch23 p)) 2 52) (\<lambda>_.
     seqE (putNumberRaw (ucast (SwitchBankControl_Switch24 p)) 2 54) (\<lambda>_.
     seqE (putNumberRaw (ucast (SwitchBankControl_Switch25 p)) 2 56) (\<lambda>_.
     seqE (putNumberRaw (ucast (SwitchBankControl_Switch26 p)) 2 58) (\<lambda>_.
     seqE (putNumberRaw (ucast (SwitchBankControl_Switch27 p)) 2 60) (\<lambda>_.
     seqE (putNumberRaw (ucast (SwitchBankControl_Switch28 p)) 2 62) (\<lambda>_.
     returnE (finish_info now 127502 (SwitchBankControl_Info p)))))))))))))))))))))))))))))))"

definition SwitchBankControl_received :: "MessageInfo \<Rightarrow> SwitchBankControl \<Rightarrow> SwitchBankControl" where
  "SwitchBankControl_received info p = \<lparr>SwitchBankControl_Info = info,
     SwitchBankControl_Instance = pin fieldSpec_SwitchBankControl_Instance (SwitchBankControl_Instance p),
     SwitchBankControl_Switch1 = take_bit 2 (SwitchBankControl_Switch1 p),
     SwitchBankControl_Switch2 = take_bit 2 (SwitchBankControl_Switch2 p),
     SwitchBankControl_Switch3 = take_bit 2 (SwitchBankControl_Switch3 p),
     SwitchBankControl_Switch4 = take_bit 2 (SwitchBankControl_Switch4 p),
     SwitchBankControl_Switch5 = take_bit 2 (SwitchBankControl_Switch5 p),
     SwitchBankControl_Switch6 = take_bit 2 (SwitchBankControl_Switch6 p),
     SwitchBankControl_Switch7 = take_bit 2 (SwitchBankControl_Switch7 p),
     SwitchBankControl_Switch8 = take_bit 2 (SwitchBankControl_Switch8 p),
     SwitchBankControl_Switch9 = take_bit 2 (SwitchBankControl_Switch9 p),
     SwitchBankControl_Switch10 = take_bit 2 (SwitchBankControl_Switch10 p),
     SwitchBankControl_Switch11 = take_bit 2 (SwitchBankControl_Switch11 p),
     SwitchBankControl_Switch12 = take_bit 2 (SwitchBankControl_Switch12 p),
     SwitchBankControl_Switch13 = take_bit 2 (SwitchBankControl_Switch13 p),
     SwitchBankControl_Switch14 = take_bit 2 (SwitchBankControl_Switch14 p),
     SwitchBankControl_Switch15 = take_bit 2 (SwitchBankControl_Switch15 p),
     SwitchBankControl_Switch16 = take_bit 2 (SwitchBankControl_Switch16 p),
     SwitchBankControl_Switch17 = take_bit 2 (SwitchBankControl_Switch17 p),
     SwitchBankControl_Switch18 = take_bit 2 (SwitchBankControl_Switch18 p),
     SwitchBankControl_Switch19 = take_bit 2 (SwitchBankControl_Switch19 p),
     SwitchBankControl_Switch20 = take_bit 2 (SwitchBankControl_Switch20 p),
     SwitchBankControl_Switch21 = take_bit 2 (SwitchBankControl_Switch21 p),
     SwitchBankControl_Switch22 = take_bit 2 (SwitchBankControl_Switch22 p),
     SwitchBankControl_Switch23 = take_bit 2 (SwitchBankControl_Switch23 p),
     SwitchBankControl_Switch24 = take_bit 2 (SwitchBankControl_Switch24 p),
     SwitchBankControl_Switch25 = take_bit 2 (SwitchBankControl_Switch25 p),
     SwitchBankControl_Switch26 = take_bit 2 (SwitchBankControl_Switch26 p),
     SwitchBankControl_Switch27 = take_bit 2 (SwitchBankControl_Switch27 p),
     SwitchBankControl_Switch28 = take_bit 2 (SwitchBankControl_Switch28 p)\<rparr>"

lemma SwitchBankControl_codec: "codec EncodeSwitchBankControl DecodeSwitchBankControl SwitchBankControl_Info 127502 8
    (\<lambda>_. True) SwitchBankControl_received"
  unfolding EncodeSwitchBankControl_def DecodeSwitchBankControl_def SwitchBankControl_received_def
  by (rule codec.intro, rule carries_cong, (rule codec_steps carries_end
      | simp add: codec_facts pin_read lookup_read lookup_read_1 unit_read fieldSpec_SwitchBankControl_Instance_def)+)

subsection \<open>DCDetailedStatus\<close>

definition fieldSpec_DCDetailedStatus_SID :: FieldSpec where
  "fieldSpec_DCDetailedStatus_SID = unsigned_spec 8 0 0xFD 0xFF 2"

definition fieldSpec_DCDetailedStatus_Instance :: FieldSpec where
  "fieldSpec_DCDetailedStatus_Instance = unsigned_spec 8 8 0xFD 0xFF 2"

definition fieldSpec_DCDetailedStatus_StateOfCharge :: FieldSpec where
  "fieldSpec_DCDetailedStatus_StateOfCharge = unsigned_spec 8 24 0xFD 0xFF 2"

definition fieldSpec_DCDetailedStatus_StateOfHealth :: FieldSpec where
  "fieldSpec_DCDetailedStatus_StateOfHealth = unsigned_spec 8 32 0xFD 0xFF 2"

definition fieldSpec_DCDetailedStatus_TimeRemaining :: ScaledSpec where
  "fieldSpec_DCDetailedStatus_TimeRemaining =
     scaled_spec 16 40 0xFFFD 0xFFFF 0 False 2 60 None None"

definition fieldSpec_DCDetailedStatus_RippleVoltage :: ScaledSpec where
  "fieldSpec_DCDetailedStatus_RippleVoltage =
     scaled_spec 16 56 0xFFFD 0xFFFF 0 False 2 (fl64 0.0010000000474974513) None None"

definition fieldSpec_DCDetailedStatus_RemainingCapacity :: FieldSpec where
  "fieldSpec_DCDetailedStatus_RemainingCapacity = unsigned_spec 16 72 0xFFFD 0xFFFF 2"

record DCDetailedStatus =
  DCDetailedStatus_Info :: MessageInfo
  DCDetailedStatus_SID :: "u8 option"
  DCDetailedStatus_Instance :: "u8 option"
  DCDetailedStatus_DCType :: u8
  DCDetailedStatus_StateOfCharge :: "u8 option"
  DCDetailedStatus_StateOfHealth :: "u8 option"
  DCDetailedStatus_TimeRemaining :: "rat option"
  DCDetailedStatus_RippleVoltage :: "rat option"
  DCDetailedStatus_RemainingCapacity :: "u16 option"

definition DecodeDCDetailedStatus :: "MessageInfo \<Rightarrow> (DataStream, DCDetailedStatus) step" where
  "DecodeDCDetailedStatus info =
     field ''DCDetailedStatus-SID'' (ReadRaw go_uint8 (Some fieldSpec_DCDetailedStatus_SID)) (\<lambda>v1.
     field ''DCDetailedStatus-Instance'' (ReadRaw go_uint8 (Some fieldSpec_DCDetailedStatus_Instance)) (\<lambda>v2.
     field ''DCDetailedStatus-DCType'' (readLookupField 8) (\<lambda>v3.
     field ''DCDetailedStatus-StateOfCharge'' (ReadRaw go_uint8 (Some fieldSpec_DCDetailedStatus_StateOfCharge)) (\<lambda>v4.
     field ''DCDetailedStatus-StateOfHealth'' (ReadRaw go_uint8 (Some fieldSpec_DCDetailedStatus_StateOfHealth)) (\<lambda>v5.
     field ''DCDetailedStatus-TimeRemaining'' (ReadScaled 24 (Some fieldSpec_DCDetailedStatus_TimeRemaining)) (\<lambda>v6.
     field ''DCDetailedStatus-RippleVoltage'' (ReadScaled 24 (Some fieldSpec_DCDetailedStatus_RippleVoltage)) (\<lambda>v7.
     field ''DCDetailedStatus-RemainingCapacity'' (ReadRaw go_uint16 (Some fieldSpec_DCDetailedStatus_RemainingCapacity)) (\<lambda>v8.
     returnE \<lparr>DCDetailedStatus_Info = info,
       DCDetailedStatus_SID = map_option of_int v1,
       DCDetailedStatus_Instance = map_option of_int v2,
       DCDetailedStatus_DCType = ucast v3,
       DCDetailedStatus_StateOfCharge = map_option of_int v4,
       DCDetailedStatus_StateOfHealth = map_option of_int v5,
       DCDetailedStatus_TimeRemaining = v6,
       DCDetailedStatus_RippleVoltage = v7,
       DCDetailedStatus_RemainingCapacity = map_option of_int v8\<rparr>))))))))"

definition EncodeDCDetailedStatus :: "(rat \<Rightarrow> u64) \<Rightarrow> gotime \<Rightarrow> DCDetailedStatus \<Rightarrow> (DataStream, MessageInfo) step" where
  "EncodeDCDetailedStatus hw now p =
     seqE (WriteRaw (map_option uint (DCDetailedStatus_SID p)) (Some fieldSpec_DCDetailedStatus_SID)) (\<lambda>_.
     seqE (WriteRaw (map_option uint (DCDetailedStatus_Instance p)) (Some fieldSpec_DCDetailedStatus_Instance)) (\<lambda>_.
     seqE (putNumberRaw (ucast (DCDetailedStatus_DCType p)) 8 16) (\<lambda>_.
     seqE (WriteRaw (map_option uint (DCDetailedStatus_StateOfCharge p)) (Some fieldSpec_DCDetailedStatus_StateOfCharge)) (\<lambda>_.
     seqE (WriteRaw (map_option uint (DCDetailedStatus_StateOfHealth p)) (Some fieldSpec_DCDetailedStatus_StateOfHealth)) (\<lambda>_.
     seqE (WriteScaled hw (DCDetailedStatus_TimeRemaining p) (Some fieldSpec_DCDetailedStatus_TimeRemaining)) (\<lambda>_.
     seqE (WriteScaled hw (DCDetailedStatus_RippleVoltage p) (Some fieldSpec_DCDetailedStatus_RippleVoltage)) (\<lambda>_.
     seqE (WriteRaw (map_option uint (DCDetailedStatus_RemainingCapacity p)) (Some fieldSpec_DCDetailedStatus_RemainingCapacity)) (\<lambda>_.
     returnE (finish_info now 127506 (DCDetailedStatus_Info p))))))))))"

definition DCDetailedStatus_received :: "(rat \<Rightarrow> u64) \<Rightarrow> MessageInfo \<Rightarrow> DCDetailedStatus \<Rightarrow> DCDetailedStatus" where
  "DCDetailedStatus_received hw info p = \<lparr>DCDetailedStatus_Info = info,
     DCDetailedStatus_SID = pin fieldSpec_DCDetailedStatus_SID (DCDetailedStatus_SID p),
     DCDetailedStatus_Instance = pin fieldSpec_DCDetailedStatus_Instance (DCDetailedStatus_Instance p),
     DCDetailedStatus_DCType = take_bit 8 (DCDetailedStatus_DCType p),
     DCDetailedStatus_StateOfCharge = pin fieldSpec_DCDetailedStatus_StateOfCharge (DCDetailedStatus_StateOfCharge p),
     DCDetailedStatus_StateOfHealth = pin fieldSpec_DCDetailedStatus_StateOfHealth (DCDetailedStatus_StateOfHealth p),
     DCDetailedStatus_TimeRemaining = map_option (scaled_back hw 24 fieldSpec_DCDetailedStatus_TimeRemaining) (DCDetailedStatus_TimeRemaining p),
     DCDetailedStatus_RippleVoltage = map_option (scaled_back hw 24 fieldSpec_DCDetailedStatus_RippleVoltage) (DCDetailedStatus_RippleVoltage p),
     DCDetailedStatus_RemainingCapacity = pin fieldSpec_DCDetailedStatus_RemainingCapacity (DCDetailedStatus_RemainingCapacity p)\<rparr>"

lemma DCDetailedStatus_codec: "codec (EncodeDCDetailedStatus hw) DecodeDCDetailedStatus DCDetailedStatus_Info 127506 11
    (\<lambda>_. True) (DCDetailedStatus_received hw)"
  unfolding EncodeDCDetailedStatus_def DecodeDCDetailedStatus_def DCDetailedStatus_received_def
  by (rule codec.intro, rule carries_cong, (rule codec_steps carries_end
      | simp add: codec_facts pin_read lookup_read lookup_read_1 unit_read fieldSpec_DCDetailedStatus_SID_def fieldSpec_DCDetailedStatus_Instance_def fieldSpec_DCDetailedStatus_StateOfCharge_def fieldSpec_DCDetailedStatus_StateOfHealth_def fieldSpec_DCDetailedStatus_TimeRemaining_def fieldSpec_DCDetailedStatus_RippleVoltage_def fieldSpec_DCDetailedStatus_RemainingCapacity_def)+)

subsection \<open>ChargerStatus\<close>

definition fieldSpec_ChargerStatus_Instance :: FieldSpec where
  "fieldSpec_ChargerStatus_Instance = unsigned_spec 8 0 0xFD 0xFF 2"

definition fieldSpec_ChargerStatus_BatteryInstance :: FieldSpec where
  "fieldSpec_ChargerStatus_BatteryInstance = unsigned_spec 8 8 0xFD 0xFF 2"

definition fieldSpec_ChargerStatus_EqualizationTimeRemaining :: ScaledSpec where
  "fieldSpec_ChargerStatus_EqualizationTimeRemaining =
     scaled_spec 16 32 0xFFFD 0xFFFF 0 False 2 60 None None"

record ChargerStatus =
  ChargerStatus_Info :: MessageInfo
  ChargerStatus_Instance :: "u8 option"
  ChargerStatus_BatteryInstance :: "u8 option"
  ChargerStatus_OperatingState :: u8
  ChargerStatus_ChargeMode :: u8
  ChargerStatus_Enabled :: u8
  ChargerStatus_EqualizationPending :: u8
  ChargerStatus_EqualizationTimeRemaining :: "rat option"

definition DecodeChargerStatus :: "MessageInfo \<Rightarrow> (DataStream, ChargerStatus) step" where
  "DecodeChargerStatus info =
     field ''ChargerStatus-Instance'' (ReadRaw go_uint8 (Some fieldSpec_ChargerStatus_Instance)) (\<lambda>v1.
     field ''ChargerStatus-BatteryInstance'' (ReadRaw go_uint8 (Some fieldSpec_ChargerStatus_BatteryInstance)) (\<lambda>v2.
     field ''ChargerStatus-OperatingState'' (readLookupField 4) (\<lambda>v3.
     field ''ChargerStatus-ChargeMode'' (readLookupField 4) (\<lambda>v4.
     field ''ChargerStatus-Enabled'' (readLookupField 2) (\<lambda>v5.
     field ''ChargerStatus-EqualizationPending'' (readLookupField 2) (\<lambda>v6.
     skip 4 (
     field ''ChargerStatus-EqualizationTimeRemaining'' (ReadScaled 24 (Some fieldSpec_ChargerStatus_EqualizationTimeRemaining)) (\<lambda>v8.
     returnE \<lparr>ChargerStatus_Info = info,
       ChargerStatus_Instance = map_option of_int v1,
       ChargerStatus_BatteryInstance = map_option of_int v2,
       ChargerStatus_OperatingState = ucast v3,
       ChargerStatus_ChargeMode = ucast v4,
       ChargerStatus_Enabled = ucast v5,
       ChargerStatus_EqualizationPending = ucast v6,
       ChargerStatus_EqualizationTimeRemaining = v8\<rparr>))))))))"

definition EncodeChargerStatus :: "(rat \<Rightarrow> u64) \<Rightarrow> gotime \<Rightarrow> ChargerStatus \<Rightarrow> (DataStream, MessageInfo) step" where
  "EncodeChargerStatus hw now p =
     seqE (WriteRaw (map_option uint (ChargerStatus_Instance p)) (Some fieldSpec_ChargerStatus_Instance)) (\<lambda>_.
     seqE (WriteRaw (map_option uint (ChargerStatus_BatteryInstance p)) (Some fieldSpec_ChargerStatus_BatteryInstance)) (\<lambda>_.
     seqE (putNumberRaw (ucast (ChargerStatus_OperatingState p)) 4 16) (\<lambda>_.
     seqE (putNumberRaw (ucast (ChargerStatus_ChargeMode p)) 4 20) (\<lambda>_.
     seqE (putNumberRaw (ucast (ChargerStatus_Enabled p)) 2 24) (\<lambda>_.
     seqE (putNumberRaw (ucast (ChargerStatus_EqualizationPending p)) 2 26) (\<lambda>_.
     seqE (writeReserved 4 28) (\<lambda>_.
     seqE (WriteScaled hw (ChargerStatus_EqualizationTimeRemaining p) (Some fieldSpec_ChargerStatus_EqualizationTimeRemaining)) (\<lambda>_.
     returnE (finish_info now 127507 (ChargerStatus_Info p))))))))))"

definition ChargerStatus_received :: "(rat \<Rightarrow> u64) \<Rightarrow> MessageInfo \<Rightarrow> ChargerStatus \<Rightarrow> ChargerStatus" where
  "ChargerStatus_received hw info p = \<lparr>ChargerStatus_Info = info,
     ChargerStatus_Instance = pin fieldSpec_ChargerStatus_Instance (ChargerStatus_Instance p),
     ChargerStatus_BatteryInstance = pin fieldSpec_ChargerStatus_BatteryInstance (ChargerStatus_BatteryInstance p),
     ChargerStatus_OperatingState = take_bit 4 (ChargerStatus_OperatingState p),
     ChargerStatus_ChargeMode = take_bit 4 (ChargerStatus_ChargeMode p),
     ChargerStatus_Enabled = take_bit 2 (ChargerStatus_Enabled p),
     ChargerStatus_EqualizationPending = take_bit 2 (ChargerStatus_EqualizationPending p),
     ChargerStatus_EqualizationTimeRemaining = map_option (scaled_back hw 24 fieldSpec_ChargerStatus_EqualizationTimeRemaining) (ChargerStatus_EqualizationTimeRemaining p)\<rparr>"

lemma ChargerStatus_codec: "codec (EncodeChargerStatus hw) DecodeChargerStatus ChargerStatus_Info 127507 6
    (\<lambda>_. True) (ChargerStatus_received hw)"
  unfolding EncodeChargerStatus_def DecodeChargerStatus_def ChargerStatus_received_def
  by (rule codec.intro, rule carries_cong, (rule codec_steps carries_end
      | simp add: codec_facts pin_read lookup_read lookup_read_1 unit_read fieldSpec_ChargerStatus_Instance_def fieldSpec_ChargerStatus_BatteryInstance_def fieldSpec_ChargerStatus_EqualizationTimeRemaining_def)+)

subsection \<open>BatteryStatus\<close>

definition fieldSpec_BatteryStatus_Instance :: FieldSpec where
  "fieldSpec_BatteryStatus_Instance = unsigned_spec 8 0 0xFD 0xFF 2"

definition fieldSpec_BatteryStatus_Voltage :: ScaledSpec where
  "fieldSpec_BatteryStatus_Voltage =
     scaled_spec 16 8 0x7FFD 0x7FFF 0 True 2 (fl64 0.009999999776482582) None None"

definition fieldSpec_BatteryStatus_Current :: ScaledSpec where
  "fieldSpec_BatteryStatus_Current =
     scaled_spec 16 24 0x7FFD 0x7FFF 0 True 2 (fl64 0.10000000149011612) (Some (fl64 (- 3276.7))) (Some (fl64 3276.4))"

definition fieldSpec_BatteryStatus_Temperature :: ScaledSpec where
  "fieldSpec_BatteryStatus_Temperature =
     scaled_spec 16 40 0xFFFD 0xFFFF 0 False 2 (fl64 0.009999999776482582) None None"

definition fieldSpec_BatteryStatus_SID :: FieldSpec where
  "fieldSpec_BatteryStatus_SID = unsigned_spec 8 56 0xFD 0xFF 2"

record 'q BatteryStatus =
  BatteryStatus_Info :: MessageInfo
  BatteryStatus_Instance :: "u8 option"
  BatteryStatus_Voltage :: "rat option"
  BatteryStatus_Current :: "rat option"
  BatteryStatus_Temperature :: "'q option"
  BatteryStatus_SID :: "u8 option"

definition DecodeBatteryStatus :: "'q units_lib \<Rightarrow> MessageInfo \<Rightarrow> (DataStream, 'q BatteryStatus) step" where
  "DecodeBatteryStatus lib info =
     field ''BatteryStatus-Instance'' (ReadRaw go_uint8 (Some fieldSpec_BatteryStatus_Instance)) (\<lambda>v1.
     field ''BatteryStatus-Voltage'' (ReadScaled 24 (Some fieldSpec_BatteryStatus_Voltage)) (\<lambda>v2.
     field ''BatteryStatus-Current'' (ReadScaled 24 (Some fieldSpec_BatteryStatus_Current)) (\<lambda>v3.
     field ''BatteryStatus-Temperature'' (ReadScaled 24 (Some fieldSpec_BatteryStatus_Temperature)) (\<lambda>v4.
     field ''BatteryStatus-SID'' (ReadRaw go_uint8 (Some fieldSpec_BatteryStatus_SID)) (\<lambda>v5.
     returnE \<lparr>BatteryStatus_Info = info,
       BatteryStatus_Instance = map_option of_int v1,
       BatteryStatus_Voltage = v2,
       BatteryStatus_Current = v3,
       BatteryStatus_Temperature = nullableUnit lib Kelvin v4,
       BatteryStatus_SID = map_option of_int v5\<rparr>)))))"

definition EncodeBatteryStatus :: "'q units_lib \<Rightarrow> (rat \<Rightarrow> u64) \<Rightarrow> gotime \<Rightarrow> 'q BatteryStatus \<Rightarrow> (DataStream, MessageInfo) step" where
  "EncodeBatteryStatus lib hw now p =
     seqE (WriteRaw (map_option uint (BatteryStatus_Instance p)) (Some fieldSpec_BatteryStatus_Instance)) (\<lambda>_.
     seqE (WriteScaled hw (BatteryStatus_Voltage p) (Some fieldSpec_BatteryStatus_Voltage)) (\<lambda>_.
     seqE (WriteScaled hw (BatteryStatus_Current p) (Some fieldSpec_BatteryStatus_Current)) (\<lambda>_.
     seqE (writeUnit lib hw Kelvin (BatteryStatus_Temperature p) (Some fieldSpec_BatteryStatus_Temperature)) (\<lambda>_.
     seqE (WriteRaw (map_option uint (BatteryStatus_SID p)) (Some fieldSpec_BatteryStatus_SID)) (\<lambda>_.
     returnE (finish_info now 127508 (BatteryStatus_Info p)))))))"

definition BatteryStatus_received :: "'q units_lib \<Rightarrow> (rat \<Rightarrow> u64) \<Rightarrow> MessageInfo \<Rightarrow> 'q BatteryStatus \<Rightarrow> 'q BatteryStatus" where
  "BatteryStatus_received lib hw info p = \<lparr>BatteryStatus_Info = info,
     BatteryStatus_Instance = pin fieldSpec_BatteryStatus_Instance (BatteryStatus_Instance p),
     BatteryStatus_Voltage = map_option (scaled_back hw 24 fieldSpec_BatteryStatus_Voltage) (BatteryStatus_Voltage p),
     BatteryStatus_Current = map_option (scaled_back hw 24 fieldSpec_BatteryStatus_Current) (BatteryStatus_Current p),
     BatteryStatus_Temperature = map_option (unit_back lib hw Kelvin fieldSpec_BatteryStatus_Temperature) (BatteryStatus_Temperature p),
     BatteryStatus_SID = pin fieldSpec_BatteryStatus_SID (BatteryStatus_SID p)\<rparr>"

lemma BatteryStatus_codec: "codec (EncodeBatteryStatus lib hw) (DecodeBatteryStatus lib) BatteryStatus_Info 127508 8
    (\<lambda>_. True) (BatteryStatus_received lib hw)"
  unfolding EncodeBatteryStatus_def DecodeBatteryStatus_def BatteryStatus_received_def
  by (rule codec.intro, rule carries_cong, (rule codec_steps carries_end
      | simp add: codec_facts pin_read lookup_read lookup_read_1 unit_read fieldSpec_BatteryStatus_Instance_def fieldSpec_BatteryStatus_Voltage_def fieldSpec_BatteryStatus_Current_def fieldSpec_BatteryStatus_Temperature_def fieldSpec_BatteryStatus_SID_def)+)

subsection \<open>InverterStatus\<close>

definition fieldSpec_InverterStatus_Instance :: FieldSpec where
  "fieldSpec_InverterStatus_Instance = unsigned_spec 8 0 0xFD 0xFF 2"

definition fieldSpec_InverterStatus_ACInstance :: FieldSpec where
  "fieldSpec_InverterStatus_ACInstance = unsigned_spec 8 8 0xFD 0xFF 2"

definition fieldSpec_InverterStatus_DCInstance :: FieldSpec where
  "fieldSpec_InverterStatus_DCInstance = unsigned_spec 8 16 0xFD 0xFF 2"

record InverterStatus =
  InverterStatus_Info :: MessageInfo
  InverterStatus_Instance :: "u8 option"
  InverterStatus_ACInstance :: "u8 option"
  InverterStatus_DCInstance :: "u8 option"
  InverterStatus_OperatingState :: u8
  InverterStatus_InverterEnable :: u8

definition DecodeInverterStatus :: "MessageInfo \<Rightarrow> (DataStream, InverterStatus) step" where
  "DecodeInverterStatus info =
     field ''InverterStatus-Instance'' (ReadRaw go_uint8 (Some fieldSpec_InverterStatus_Instance)) (\<lambda>v1.
     field ''InverterStatus-ACInstance'' (ReadRaw go_uint8 (Some fieldSpec_InverterStatus_ACInstance)) (\<lambda>v2.
     field ''InverterStatus-DCInstance'' (ReadRaw go_uint8 (Some fieldSpec_InverterStatus_DCInstance)) (\<lambda>v3.
     field ''InverterStatus-OperatingState'' (readLookupField 4) (\<lambda>v4.
     field ''InverterStatus-InverterEnable'' (readLookupField 2) (\<lambda>v5.
     skip 2 (
     returnE \<lparr>InverterStatus_Info = info,
       InverterStatus_Instance = map_option of_int v1,
       InverterStatus_ACInstance = map_option of_int v2,
       InverterStatus_DCInstance = map_option of_int v3,
       InverterStatus_OperatingState = ucast v4,
       InverterStatus_InverterEnable = ucast v5\<rparr>))))))"

definition EncodeInverterStatus :: "gotime \<Rightarrow> InverterStatus \<Rightarrow> (DataStream, MessageInfo) step" where
  "EncodeInverterStatus now p =
     seqE (WriteRaw (map_option uint (InverterStatus_Instance p)) (Some fieldSpec_InverterStatus_Instance)) (\<lambda>_.
     seqE (WriteRaw (map_option uint (InverterStatus_ACInstance p)) (Some fieldSpec_InverterStatus_ACInstance)) (\<lambda>_.
     seqE (WriteRaw (map_option uint (InverterStatus_DCInstance p)) (Some fieldSpec_InverterStatus_DCInstance)) (\<lambda>_.
     seqE (putNumberRaw (ucast (InverterStatus_OperatingState p)) 4 24) (\<lambda>_.
     seqE (putNumberRaw (ucast (InverterStatus_InverterEnable p)) 2 28) (\<lambda>_.
     seqE (writeReserved 2 30) (\<lambda>_.
     returnE (finish_info now 127509 (InverterStatus_Info p))))))))"

definition InverterStatus_received :: "MessageInfo \<Rightarrow> InverterStatus \<Rightarrow> InverterStatus" where
  "InverterStatus_received info p = \<lparr>InverterStatus_Info = info,
     InverterStatus_Instance = pin fieldSpec_InverterStatus_Instance (InverterStatus_Instance p),
     InverterStatus_ACInstance = pin fieldSpec_InverterStatus_ACInstance (InverterStatus_ACInstance p),
     InverterStatus_DCInstance = pin fieldSpec_InverterStatus_DCInstance (InverterStatus_DCInstance p),
     InverterStatus_OperatingState = take_bit 4 (InverterStatus_OperatingState p),
     InverterStatus_InverterEnable = take_bit 2 (InverterStatus_InverterEnable p)\<rparr>"

lemma InverterStatus_codec: "codec EncodeInverterStatus DecodeInverterStatus InverterStatus_Info 127509 4
    (\<lambda>_. True) InverterStatus_received"
  unfolding EncodeInverterStatus_def DecodeInverterStatus_def InverterStatus_received_def
  by (rule codec.intro, rule carries_cong, (rule codec_steps carries_end
      | simp add: codec_facts pin_read lookup_read lookup_read_1 unit_read fieldSpec_InverterStatus_Instance_def fieldSpec_InverterStatus_ACInstance_def fieldSpec_InverterStatus_DCInstance_def)+)

subsection \<open>ChargerConfigurationStatus\<close>

definition fieldSpec_ChargerConfigurationStatus_Instance :: FieldSpec where
  "fieldSpec_ChargerConfigurationStatus_Instance = unsigned_spec 8 0 0xFD 0xFF 2"

definition fieldSpec_ChargerConfigurationStatus_BatteryInstance :: FieldSpec where
  "fieldSpec_ChargerConfigurationStatus_BatteryInstance = unsigned_spec 8 8 0xFD 0xFF 2"

definition fieldSpec_ChargerConfigurationStatus_ChargeCurrentLimit :: FieldSpec where
  "fieldSpec_ChargerConfigurationStatus_ChargeCurrentLimit = unsigned_spec 8 24 0xFD 0xFF 2"

definition fieldSpec_ChargerConfigurationStatus_EqualizeTime :: ScaledSpec where
  "fieldSpec_ChargerConfigurationStatus_EqualizeTime =
     scaled_spec 16 48 0xFFFD 0xFFFF 0 False 2 60 None None"

record ChargerConfigurationStatus =
  ChargerConfigurationStatus_Info :: MessageInfo
  ChargerConfigurationStatus_Instance :: "u8 option"
  ChargerConfigurationStatus_BatteryInstance :: "u8 option"
  ChargerConfigurationStatus_ChargerEnableDisable :: u8
  ChargerConfigurationStatus_ChargeCurrentLimit :: "u8 option"
  ChargerConfigurationStatus_ChargingAlgorithm :: u8
  ChargerConfigurationStatus_ChargerMode :: u8
  ChargerConfigurationStatus_EstimatedTemperature :: u8
  ChargerConfigurationStatus_EqualizeOneTimeEnableDisable :: u8
  ChargerConfigurationStatus_OverChargeEnableDisable :: u8
  ChargerConfigurationStatus_EqualizeTime :: "rat option"

definition DecodeChargerConfigurationStatus :: "MessageInfo \<Rightarrow> (DataStream, ChargerConfigurationStatus) step" where
  "DecodeChargerConfigurationStatus info =
     field ''ChargerConfigurationStatus-Instance'' (ReadRaw go_uint8 (Some fieldSpec_ChargerConfigurationStatus_Instance)) (\<lambda>v1.
     field ''ChargerConfigurationStatus-BatteryInstance'' (ReadRaw go_uint8 (Some fieldSpec_ChargerConfigurationStatus_BatteryInstance)) (\<lambda>v2.
     field ''ChargerConfigurationStatus-ChargerEnableDisable'' (readLookupField 2) (\<lambda>v3.
     skip 6 (
     field ''ChargerConfigurationStatus-ChargeCurrentLimit'' (ReadRaw go_uint8 (Some fieldSpec_ChargerConfigurationStatus_ChargeCurrentLimit)) (\<lambda>v5.
     field ''ChargerConfigurationStatus-ChargingAlgorithm'' (readLookupField 4) (\<lambda>v6.
     field ''ChargerConfigurationStatus-ChargerMode'' (readLookupField 4) (\<lambda>v7.
     field ''ChargerConfigurationStatus-EstimatedTemperature'' (readLookupField 4) (\<lambda>v8.
     field ''ChargerConfigurationStatus-EqualizeOneTimeEnableDisable'' (readLookupField 2) (\<lambda>v9.
     field ''ChargerConfigurationStatus-OverChargeEnableDisable'' (readLookupField 2) (\<lambda>v10.
     field ''ChargerConfigurationStatus-EqualizeTime'' (ReadScaled 24 (Some fieldSpec_ChargerConfigurationStatus_EqualizeTime)) (\<lambda>v11.
     returnE \<lparr>ChargerConfigurationStatus_Info = info,
       ChargerConfigurationStatus_Instance = map_option of_int v1,
       ChargerConfigurationStatus_BatteryInstance = map_option of_int v2,
       ChargerConfigurationStatus_ChargerEnableDisable = ucast v3,
       ChargerConfigurationStatus_ChargeCurrentLimit = map_option of_int v5,
       ChargerConfigurationStatus_ChargingAlgorithm = ucast v6,
       ChargerConfigurationStatus_ChargerMode = ucast v7,
       ChargerConfigurationStatus_EstimatedTemperature = ucast v8,
       ChargerConfigurationStatus_EqualizeOneTimeEnableDisable = ucast v9,
       ChargerConfigurationStatus_OverChargeEnableDisable = ucast v10,
       ChargerConfigurationStatus_EqualizeTime = v11\<rparr>)))))))))))"

definition EncodeChargerConfigurationStatus :: "(rat \<Rightarrow> u64) \<Rightarrow> gotime \<Rightarrow> ChargerConfigurationStatus \<Rightarrow> (DataStream, MessageInfo) step" where
  "EncodeChargerConfigurationStatus hw now p =
     seqE (WriteRaw (map_option uint (ChargerConfigurationStatus_Instance p)) (Some fieldSpec_ChargerConfigurationStatus_Instance)) (\<lambda>_.
     seqE (WriteRaw (map_option uint (ChargerConfigurationStatus_BatteryInstance p)) (Some fieldSpec_ChargerConfigurationStatus_BatteryInstance)) (\<lambda>_.
     seqE (putNumberRaw (ucast (ChargerConfigurationStatus_ChargerEnableDisable p)) 2 16) (\<lambda>_.
     seqE (writeReserved 6 18) (\<lambda>_.
     seqE (WriteRaw (map_option uint (ChargerConfigurationStatus_ChargeCurrentLimit p)) (Some fieldSpec_ChargerConfigurationStatus_ChargeCurrentLimit)) (\<lambda>_.
     seqE (putNumberRaw (ucast (ChargerConfigurationStatus_ChargingAlgorithm p)) 4 32) (\<lambda>_.
     seqE (putNumberRaw (ucast (ChargerConfigurationStatus_ChargerMode p)) 4 36) (\<lambda>_.
     seqE (putNumberRaw (ucast (ChargerConfigurationStatus_EstimatedTemperature p)) 4 40) (\<lambda>_.
     seqE (putNumberRaw (ucast (ChargerConfigurationStatus_EqualizeOneTimeEnableDisable p)) 2 44) (\<lambda>_.
     seqE (putNumberRaw (ucast (ChargerConfigurationStatus_OverChargeEnableDisable p)) 2 46) (\<lambda>_.
     seqE (WriteScaled hw (ChargerConfigurationStatus_EqualizeTime p) (Some fieldSpec_ChargerConfigurationStatus_EqualizeTime)) (\<lambda>_.
     returnE (finish_info now 127510 (ChargerConfigurationStatus_Info p)))))))))))))"

definition ChargerConfigurationStatus_received :: "(rat \<Rightarrow> u64) \<Rightarrow> MessageInfo \<Rightarrow> ChargerConfigurationStatus \<Rightarrow> ChargerConfigurationStatus" where
  "ChargerConfigurationStatus_received hw info p = \<lparr>ChargerConfigurationStatus_Info = info,
     ChargerConfigurationStatus_Instance = pin fieldSpec_ChargerConfigurationStatus_Instance (ChargerConfigurationStatus_Instance p),
     ChargerConfigurationStatus_BatteryInstance = pin fieldSpec_ChargerConfigurationStatus_BatteryInstance (ChargerConfigurationStatus_BatteryInstance p),
     ChargerConfigurationStatus_ChargerEnableDisable = take_bit 2 (ChargerConfigurationStatus_ChargerEnableDisable p),
     ChargerConfigurationStatus_ChargeCurrentLimit = pin fieldSpec_ChargerConfigurationStatus_ChargeCurrentLimit (ChargerConfigurationStatus_ChargeCurrentLimit p),
     ChargerConfigurationStatus_ChargingAlgorithm = take_bit 4 (ChargerConfigurationStatus_ChargingAlgorithm p),
     ChargerConfigurationStatus_ChargerMode = take_bit 4 (ChargerConfigurationStatus_ChargerMode p),
     ChargerConfigurationStatus_EstimatedTemperature = take_bit 4 (ChargerConfigurationStatus_EstimatedTemperature p),
     ChargerConfigurationStatus_EqualizeOneTimeEnableDisable = take_bit 2 (ChargerConfigurationStatus_EqualizeOneTimeEnableDisable p),
     ChargerConfigurationStatus_OverChargeEnableDisable = take_bit 2 (ChargerConfigurationStatus_OverChargeEnableDisable p),
     ChargerConfigurationStatus_EqualizeTime = map_option (scaled_back hw 24 fieldSpec_ChargerConfigurationStatus_EqualizeTime) (ChargerConfigurationStatus_EqualizeTime p)\<rparr>"

lemma ChargerConfigurationStatus_codec: "codec (EncodeChargerConfigurationStatus hw) DecodeChargerConfigurationStatus ChargerConfigurationStatus_Info 127510 8
    (\<lambda>_. True) (ChargerConfigurationStatus_received hw)"
  unfolding EncodeChargerConfigurationStatus_def DecodeChargerConfigurationStatus_def ChargerConfigurationStatus_received_def
  by (rule codec.intro, rule carries_cong, (rule codec_steps carries_end
      | simp add: codec_facts pin_read lookup_read lookup_read_1 unit_read fieldSpec_ChargerConfigurationStatus_Instance_def fieldSpec_ChargerConfigurationStatus_BatteryInstance_def fieldSpec_ChargerConfigurationStatus_ChargeCurrentLimit_def fieldSpec_ChargerConfigurationStatus_EqualizeTime_def)+)

subsection \<open>InverterConfigurationStatus\<close>

definition fieldSpec_InverterConfigurationStatus_Instance :: FieldSpec where
  "fieldSpec_InverterConfigurationStatus_Instance = unsigned_spec 8 0 0xFD 0xFF 2"

definition fieldSpec_InverterConfigurationStatus_ACInstance :: FieldSpec where
  "fieldSpec_InverterConfigurationStatus_ACInstance = unsigned_spec 8 8 0xFD 0xFF 2"

definition fieldSpec_InverterConfigurationStatus_DCInstance :: FieldSpec where
  "fieldSpec_InverterConfigurationStatus_DCInstance = unsigned_spec 8 16 0xFD 0xFF 2"

definition fieldSpec_InverterConfigurationStatus_LoadSensePowerThreshold :: FieldSpec where
  "fieldSpec_InverterConfigurationStatus_LoadSensePowerThreshold = unsigned_spec 16 32 0xFFFD 0xFFFF 2"

definition fieldSpec_InverterConfigurationStatus_LoadSenseInterval :: ScaledSpec where
  "fieldSpec_InverterConfigurationStatus_LoadSenseInterval =
     scaled_spec 16 48 0xFFFD 0xFFFF 0 False 2 (fl64 0.009999999776482582) None None"

record InverterConfigurationStatus =
  InverterConfigurationStatus_Info :: MessageInfo
  InverterConfigurationStatus_Instance :: "u8 option"
  InverterConfigurationStatus_ACInstance :: "u8 option"
  InverterConfigurationStatus_DCInstance :: "u8 option"
  InverterConfigurationStatus_InverterEnableDisable :: u8
  InverterConfigurationStatus_InverterMode :: u8
  InverterConfigurationStatus_LoadSenseEnableDisable :: u8
  InverterConfigurationStatus_LoadSensePowerThreshold :: "u16 option"
  InverterConfigurationStatus_LoadSenseInterval :: "rat option"

definition DecodeInverterConfigurationStatus :: "MessageInfo \<Rightarrow> (DataStream, InverterConfigurationStatus) step" where
  "DecodeInverterConfigurationStatus info =
     field ''InverterConfigurationStatus-Instance'' (ReadRaw go_uint8 (Some fieldSpec_InverterConfigurationStatus_Instance)) (\<lambda>v1.
     field ''InverterConfigurationStatus-ACInstance'' (ReadRaw go_uint8 (Some fieldSpec_InverterConfigurationStatus_ACInstance)) (\<lambda>v2.
     field ''InverterConfigurationStatus-DCInstance'' (ReadRaw go_uint8 (Some fieldSpec_InverterConfigurationStatus_DCInstance)) (\<lambda>v3.
     field ''InverterConfigurationStatus-InverterEnableDisable'' (readLookupField 2) (\<lambda>v4.
     field ''InverterConfigurationStatus-InverterMode'' (readLookupField 4) (\<lambda>v5.
     field ''InverterConfigurationStatus-LoadSenseEnableDisable'' (readLookupField 2) (\<lambda>v6.
     field ''InverterConfigurationStatus-LoadSensePowerThreshold'' (ReadRaw go_uint16 (Some fieldSpec_InverterConfigurationStatus_LoadSensePowerThreshold)) (\<lambda>v7.
     field ''InverterConfigurationStatus-LoadSenseInterval'' (ReadScaled 24 (Some fieldSpec_InverterConfigurationStatus_LoadSenseInterval)) (\<lambda>v8.
     returnE \<lparr>InverterConfigurationStatus_Info = info,
       InverterConfigurationStatus_Instance = map_option of_int v1,
       InverterConfigurationStatus_ACInstance = map_option of_int v2,
       InverterConfigurationStatus_DCInstance = map_option of_int v3,
       InverterConfigurationStatus_InverterEnableDisable = ucast v4,
       InverterConfigurationStatus_InverterMode = ucast v5,
       InverterConfigurationStatus_LoadSenseEnableDisable = ucast v6,
       InverterConfigurationStatus_LoadSensePowerThreshold = map_option of_int v7,
       InverterConfigurationStatus_LoadSenseInterval = v8\<rparr>))))))))"

definition EncodeInverterConfigurationStatus :: "(rat \<Rightarrow> u64) \<Rightarrow> gotime \<Rightarrow> InverterConfigurationStatus \<Rightarrow> (DataStream, MessageInfo) step" where
  "EncodeInverterConfigurationStatus hw now p =
     seqE (WriteRaw (map_option uint (InverterConfigurationStatus_Instance p)) (Some fieldSpec_InverterConfigurationStatus_Instance)) (\<lambda>_.
     seqE (WriteRaw (map_option uint (InverterConfigurationStatus_ACInstance p)) (Some fieldSpec_InverterConfigurationStatus_ACInstance)) (\<lambda>_.
     seqE (WriteRaw (map_option uint (InverterConfigurationStatus_DCInstance p)) (Some fieldSpec_InverterConfigurationStatus_DCInstance)) (\<lambda>_.
     seqE (putNumberRaw (ucast (InverterConfigurationStatus_InverterEnableDisable p)) 2 24) (\<lambda>_.
     seqE (putNumberRaw (ucast (InverterConfigurationStatus_InverterMode p)) 4 26) (\<lambda>_.
     seqE (putNumberRaw (ucast (InverterConfigurationStatus_LoadSenseEnableDisable p)) 2 30) (\<lambda>_.
     seqE (WriteRaw (map_option uint (InverterConfigurationStatus_LoadSensePowerThreshold p)) (Some fieldSpec_InverterConfigurationStatus_LoadSensePowerThreshold)) (\<lambda>_.
     seqE (WriteScaled hw (InverterConfigurationStatus_LoadSenseInterval p) (Some fieldSpec_InverterConfigurationStatus_LoadSenseInterval)) (\<lambda>_.
     returnE (finish_info now 127511 (InverterConfigurationStatus_Info p))))))))))"

definition InverterConfigurationStatus_received :: "(rat \<Rightarrow> u64) \<Rightarrow> MessageInfo \<Rightarrow> InverterConfigurationStatus \<Rightarrow> InverterConfigurationStatus" where
  "InverterConfigurationStatus_received hw info p = \<lparr>InverterConfigurationStatus_Info = info,
     InverterConfigurationStatus_Instance = pin fieldSpec_InverterConfigurationStatus_Instance (InverterConfigurationStatus_Instance p),
     InverterConfigurationStatus_ACInstance = pin fieldSpec_InverterConfigurationStatus_ACInstance (InverterConfigurationStatus_ACInstance p),
     InverterConfigurationStatus_DCInstance = pin fieldSpec_InverterConfigurationStatus_DCInstance (InverterConfigurationStatus_DCInstance p),
     InverterConfigurationStatus_InverterEnableDisable = take_bit 2 (InverterConfigurationStatus_InverterEnableDisable p),
     InverterConfigurationStatus_InverterMode = take_bit 4 (InverterConfigurationStatus_InverterMode p),
     InverterConfigurationStatus_LoadSenseEnableDisable = take_bit 2 (InverterConfigurationStatus_LoadSenseEnableDisable p),
     InverterConfigurationStatus_LoadSensePowerThreshold = pin fieldSpec_InverterConfigurationStatus_LoadSensePowerThreshold (InverterConfigurationStatus_LoadSensePowerThreshold p),
     InverterConfigurationStatus_LoadSenseInterval = map_option (scaled_back hw 24 fieldSpec_InverterConfigurationStatus_LoadSenseInterval) (InverterConfigurationStatus_LoadSenseInterval p)\<rparr>"

lemma InverterConfigurationStatus_codec: "codec (EncodeInverterConfigurationStatus hw) DecodeInverterConfigurationStatus InverterConfigurationStatus_Info 127511 8
    (\<lambda>_. True) (InverterConfigurationStatus_received hw)"
  unfolding EncodeInverterConfigurationStatus_def DecodeInverterConfigurationStatus_def InverterConfigurationStatus_received_def
  by (rule codec.intro, rule carries_cong, (rule codec_steps carries_end
      | simp add: codec_facts pin_read lookup_read lookup_read_1 unit_read fieldSpec_InverterConfigurationStatus_Instance_def fieldSpec_InverterConfigurationStatus_ACInstance_def fieldSpec_InverterConfigurationStatus_DCInstance_def fieldSpec_InverterConfigurationStatus_LoadSensePowerThreshold_def fieldSpec_InverterConfigurationStatus_LoadSenseInterval_def)+)

subsection \<open>AgsConfigurationStatus\<close>

definition fieldSpec_AgsConfigurationStatus_Instance :: FieldSpec where
  "fieldSpec_AgsConfigurationStatus_Instance = unsigned_spec 8 0 0xFD 0xFF 2"

definition fieldSpec_AgsConfigurationStatus_GeneratorInstance :: FieldSpec where
  "fieldSpec_AgsConfigurationStatus_GeneratorInstance = unsigned_spec 8 8 0xFD 0xFF 2"

record AgsConfigurationStatus =
  AgsConfigurationStatus_Info :: MessageInfo
  AgsConfigurationStatus_Instance :: "u8 option"
  AgsConfigurationStatus_GeneratorInstance :: "u8 option"
  AgsConfigurationStatus_AgsMode :: u8

definition DecodeAgsConfigurationStatus :: "MessageInfo \<Rightarrow> (DataStream, AgsConfigurationStatus) step" where
  "DecodeAgsConfigurationStatus info =
     field ''AgsConfigurationStatus-Instance'' (ReadRaw go_uint8 (Some fieldSpec_AgsConfigurationStatus_Instance)) (\<lambda>v1.
     field ''AgsConfigurationStatus-GeneratorInstance'' (ReadRaw go_uint8 (Some fieldSpec_AgsConfigurationStatus_GeneratorInstance)) (\<lambda>v2.
     field ''AgsConfigurationStatus-AgsMode'' (readLookupField 4) (\<lambda>v3.
     skip 4 (
     returnE \<lparr>AgsConfigurationStatus_Info = info,
       AgsConfigurationStatus_Instance = map_option of_int v1,
       AgsConfigurationStatus_GeneratorInstance = map_option of_int v2,
       AgsConfigurationStatus_AgsMode = ucast v3\<rparr>))))"

definition EncodeAgsConfigurationStatus :: "gotime \<Rightarrow> AgsConfigurationStatus \<Rightarrow> (DataStream, MessageInfo) step" where
  "EncodeAgsConfigurationStatus now p =
     seqE (WriteRaw (map_option uint (AgsConfigurationStatus_Instance p)) (Some fieldSpec_AgsConfigurationStatus_Instance)) (\<lambda>_.
     seqE (WriteRaw (map_option uint (AgsConfigurationStatus_GeneratorInstance p)) (Some fieldSpec_AgsConfigurationStatus_GeneratorInstance)) (\<lambda>_.
     seqE (putNumberRaw (ucast (AgsConfigurationStatus_AgsMode p)) 4 16) (\<lambda>_.
     seqE (writeReserved 4 20) (\<lambda>_.
     returnE (finish_info now 127512 (AgsConfigurationStatus_Info p))))))"

definition AgsConfigurationStatus_received :: "MessageInfo \<Rightarrow> AgsConfigurationStatus \<Rightarrow> AgsConfigurationStatus" where
  "AgsConfigurationStatus_received info p = \<lparr>AgsConfigurationStatus_Info = info,
     AgsConfigurationStatus_Instance = pin fieldSpec_AgsConfigurationStatus_Instance (AgsConfigurationStatus_Instance p),
     AgsConfigurationStatus_GeneratorInstance = pin fieldSpec_AgsConfigurationStatus_GeneratorInstance (AgsConfigurationStatus_GeneratorInstance p),
     AgsConfigurationStatus_AgsMode = take_bit 4 (AgsConfigurationStatus_AgsMode p)\<rparr>"

lemma AgsConfigurationStatus_codec: "codec EncodeAgsConfigurationStatus DecodeAgsConfigurationStatus AgsConfigurationStatus_Info 127512 3
    (\<lambda>_. True) AgsConfigurationStatus_received"
  unfolding EncodeAgsConfigurationStatus_def DecodeAgsConfigurationStatus_def AgsConfigurationStatus_received_def
  by (rule codec.intro, rule carries_cong, (rule codec_steps carries_end
      | simp add: codec_facts pin_read lookup_read lookup_read_1 unit_read fieldSpec_AgsConfigurationStatus_Instance_def fieldSpec_AgsConfigurationStatus_GeneratorInstance_def)+)

subsection \<open>BatteryConfigurationStatus\<close>

definition fieldSpec_BatteryConfigurationStatus_Instance :: FieldSpec where
  "fieldSpec_BatteryConfigurationStatus_Instance = unsigned_spec 8 0 0xFD 0xFF 2"

definition fieldSpec_BatteryConfigurationStatus_Capacity :: FieldSpec where
  "fieldSpec_BatteryConfigurationStatus_Capacity = unsigned_spec 16 24 0xFFFD 0xFFFF 2"

definition fieldSpec_BatteryConfigurationStatus_TemperatureCoefficient :: FieldSpec where
  "fieldSpec_BatteryConfigurationStatus_TemperatureCoefficient = signed_spec 8 40 0x7D 0x7F 2"

definition fieldSpec_BatteryConfigurationStatus_PeukertExponent :: ScaledSpec where
  "fieldSpec_BatteryConfigurationStatus_PeukertExponent =
     scaled_spec 8 48 0xFD 0xFF 1 False 2 (fl64 0.0020000000949949026) None None"

definition fieldSpec_BatteryConfigurationStatus_ChargeEfficiencyFactor :: FieldSpec where
  "fieldSpec_BatteryConfigurationStatus_ChargeEfficiencyFactor = signed_spec 8 56 0x7D 0x7F 2"

record BatteryConfigurationStatus =
  BatteryConfigurationStatus_Info :: MessageInfo
  BatteryConfigurationStatus_Instance :: "u8 option"
  BatteryConfigurationStatus_BatteryType :: u8
  BatteryConfigurationStatus_SupportsEqualization :: u8
  BatteryConfigurationStatus_NominalVoltage :: u8
  BatteryConfigurationStatus_Chemistry :: u8
  BatteryConfigurationStatus_Capacity :: "u16 option"
  BatteryConfigurationStatus_TemperatureCoefficient :: "8 word option"
  BatteryConfigurationStatus_PeukertExponent :: "rat option"
  BatteryConfigurationStatus_ChargeEfficiencyFactor :: "8 word option"

definition DecodeBatteryConfigurationStatus :: "MessageInfo \<Rightarrow> (DataStream, BatteryConfigurationStatus) step" where
  "DecodeBatteryConfigurationStatus info =
     field ''BatteryConfigurationStatus-Instance'' (ReadRaw go_uint8 (Some fieldSpec_BatteryConfigurationStatus_Instance)) (\<lambda>v1.
     field ''BatteryConfigurationStatus-BatteryType'' (readLookupField 4) (\<lambda>v2.
     field ''BatteryConfigurationStatus-SupportsEqualization'' (readLookupField 2) (\<lambda>v3.
     skip 2 (
     field ''BatteryConfigurationStatus-NominalVoltage'' (readLookupField 4) (\<lambda>v5.
     field ''BatteryConfigurationStatus-Chemistry'' (readLookupField 4) (\<lambda>v6.
     field ''BatteryConfigurationStatus-Capacity'' (ReadRaw go_uint16 (Some fieldSpec_BatteryConfigurationStatus_Capacity)) (\<lambda>v7.
     field ''BatteryConfigurationStatus-TemperatureCoefficient'' (ReadRaw go_int8 (Some fieldSpec_BatteryConfigurationStatus_TemperatureCoefficient)) (\<lambda>v8.
     field ''BatteryConfigurationStatus-PeukertExponent'' (ReadScaled 24 (Some fieldSpec_BatteryConfigurationStatus_PeukertExponent)) (\<lambda>v9.
     field ''BatteryConfigurationStatus-ChargeEfficiencyFactor'' (ReadRaw go_int8 (Some fieldSpec_BatteryConfigurationStatus_ChargeEfficiencyFactor)) (\<lambda>v10.
     returnE \<lparr>BatteryConfigurationStatus_Info = info,
       BatteryConfigurationStatus_Instance = map_option of_int v1,
       BatteryConfigurationStatus_BatteryType = ucast v2,
       BatteryConfigurationStatus_SupportsEqualization = ucast v3,
       BatteryConfigurationStatus_NominalVoltage = ucast v5,
       BatteryConfigurationStatus_Chemistry = ucast v6,
       BatteryConfigurationStatus_Capacity = map_option of_int v7,
       BatteryConfigurationStatus_TemperatureCoefficient = map_option of_int v8,
       BatteryConfigurationStatus_PeukertExponent = v9,
       BatteryConfigurationStatus_ChargeEfficiencyFactor = map_option of_int v10\<rparr>))))))))))"

definition EncodeBatteryConfigurationStatus :: "(rat \<Rightarrow> u64) \<Rightarrow> gotime \<Rightarrow> BatteryConfigurationStatus \<Rightarrow> (DataStream, MessageInfo) step" where
  "EncodeBatteryConfigurationStatus hw now p =
     seqE (WriteRaw (map_option uint (BatteryConfigurationStatus_Instance p)) (Some fieldSpec_BatteryConfigurationStatus_Instance)) (\<lambda>_.
     seqE (putNumberRaw (ucast (BatteryConfigurationStatus_BatteryType p)) 4 8) (\<lambda>_.
     seqE (putNumberRaw (ucast (BatteryConfigurationStatus_SupportsEqualization p)) 2 12) (\<lambda>_.
     seqE (writeReserved 2 14) (\<lambda>_.
     seqE (putNumberRaw (ucast (BatteryConfigurationStatus_NominalVoltage p)) 4 16) (\<lambda>_.
     seqE (putNumberRaw (ucast (BatteryConfigurationStatus_Chemistry p)) 4 20) (\<lambda>_.
     seqE (WriteRaw (map_option uint (BatteryConfigurationStatus_Capacity p)) (Some fieldSpec_BatteryConfigurationStatus_Capacity)) (\<lambda>_.
     seqE (WriteRaw (map_option sint (BatteryConfigurationStatus_TemperatureCoefficient p)) (Some fieldSpec_BatteryConfigurationStatus_TemperatureCoefficient)) (\<lambda>_.
     seqE (WriteScaled hw (BatteryConfigurationStatus_PeukertExponent p) (Some fieldSpec_BatteryConfigurationStatus_PeukertExponent)) (\<lambda>_.
     seqE (WriteRaw (map_option sint (BatteryConfigurationStatus_ChargeEfficiencyFactor p)) (Some fieldSpec_BatteryConfigurationStatus_ChargeEfficiencyFactor)) (\<lambda>_.
     returnE (finish_info now 127513 (BatteryConfigurationStatus_Info p))))))))))))"

definition BatteryConfigurationStatus_received :: "(rat \<Rightarrow> u64) \<Rightarrow> MessageInfo \<Rightarrow> BatteryConfigurationStatus \<Rightarrow> BatteryConfigurationStatus" where
  "BatteryConfigurationStatus_received hw info p = \<lparr>BatteryConfigurationStatus_Info = info,
     BatteryConfigurationStatus_Instance = pin fieldSpec_BatteryConfigurationStatus_Instance (BatteryConfigurationStatus_Instance p),
     BatteryConfigurationStatus_BatteryType = take_bit 4 (BatteryConfigurationStatus_BatteryType p),
     BatteryConfigurationStatus_SupportsEqualization = take_bit 2 (BatteryConfigurationStatus_SupportsEqualization p),
     BatteryConfigurationStatus_NominalVoltage = take_bit 4 (BatteryConfigurationStatus_NominalVoltage p),
     BatteryConfigurationStatus_Chemistry = take_bit 4 (BatteryConfigurationStatus_Chemistry p),
     BatteryConfigurationStatus_Capacity = pin fieldSpec_BatteryConfigurationStatus_Capacity (BatteryConfigurationStatus_Capacity p),
     BatteryConfigurationStatus_TemperatureCoefficient = pin_signed fieldSpec_BatteryConfigurationStatus_TemperatureCoefficient (BatteryConfigurationStatus_TemperatureCoefficient p),
     BatteryConfigurationStatus_PeukertExponent = map_option (scaled_back hw 24 fieldSpec_BatteryConfigurationStatus_PeukertExponent) (BatteryConfigurationStatus_PeukertExponent p),
     BatteryConfigurationStatus_ChargeEfficiencyFactor = pin_signed fieldSpec_BatteryConfigurationStatus_ChargeEfficiencyFactor (BatteryConfigurationStatus_ChargeEfficiencyFactor p)\<rparr>"

lemma BatteryConfigurationStatus_codec: "codec (EncodeBatteryConfigurationStatus hw) DecodeBatteryConfigurationStatus BatteryConfigurationStatus_Info 127513 8
    (\<lambda>_. True) (BatteryConfigurationStatus_received hw)"
  unfolding EncodeBatteryConfigurationStatus_def DecodeBatteryConfigurationStatus_def BatteryConfigurationStatus_received_def
  by (rule codec.intro, rule carries_cong, (rule codec_steps carries_end
      | simp add: codec_facts pin_read lookup_read lookup_read_1 unit_read fieldSpec_BatteryConfigurationStatus_Instance_def fieldSpec_BatteryConfigurationStatus_Capacity_def fieldSpec_BatteryConfigurationStatus_TemperatureCoefficient_def fieldSpec_BatteryConfigurationStatus_PeukertExponent_def fieldSpec_BatteryConfigurationStatus_ChargeEfficiencyFactor_def)+)

subsection \<open>AgsStatus\<close>

definition fieldSpec_AgsStatus_Instance :: FieldSpec where
  "fieldSpec_AgsStatus_Instance = unsigned_spec 8 0 0xFD 0xFF 2"

definition fieldSpec_AgsStatus_GeneratorInstance :: FieldSpec where
  "fieldSpec_AgsStatus_GeneratorInstance = unsigned_spec 8 8 0xFD 0xFF 2"

record AgsStatus =
  AgsStatus_Info :: MessageInfo
  AgsStatus_Instance :: "u8 option"
  AgsStatus_GeneratorInstance :: "u8 option"
  AgsStatus_AgsOperatingState :: u8
  AgsStatus_GeneratorState :: u8
  AgsStatus_GeneratorOnReason :: u8
  AgsStatus_GeneratorOffReason :: u8

definition DecodeAgsStatus :: "MessageInfo \<Rightarrow> (DataStream, AgsStatus) step" where
  "DecodeAgsStatus info =
     field ''AgsStatus-Instance'' (ReadRaw go_uint8 (Some fieldSpec_AgsStatus_Instance)) (\<lambda>v1.
     field ''AgsStatus-GeneratorInstance'' (ReadRaw go_uint8 (Some fieldSpec_AgsStatus_GeneratorInstance)) (\<lambda>v2.
     field ''AgsStatus-AgsOperatingState'' (readLookupField 4) (\<lambda>v3.
     field ''AgsStatus-GeneratorState'' (readLookupField 4) (\<lambda>v4.
     field ''AgsStatus-GeneratorOnReason'' (readLookupField 8) (\<lambda>v5.
     field ''AgsStatus-GeneratorOffReason'' (readLookupField 8) (\<lambda>v6.
     returnE \<lparr>AgsStatus_Info = info,
       AgsStatus_Instance = map_option of_int v1,
       AgsStatus_GeneratorInstance = map_option of_int v2,
       AgsStatus_AgsOperatingState = ucast v3,
       AgsStatus_GeneratorState = ucast v4,
       AgsStatus_GeneratorOnReason = ucast v5,
       AgsStatus_GeneratorOffReason = ucast v6\<rparr>))))))"

definition EncodeAgsStatus :: "gotime \<Rightarrow> AgsStatus \<Rightarrow> (DataStream, MessageInfo) step" where
  "EncodeAgsStatus now p =
     seqE (WriteRaw (map_option uint (AgsStatus_Instance p)) (Some fieldSpec_AgsStatus_Instance)) (\<lambda>_.
     seqE (WriteRaw (map_option uint (AgsStatus_GeneratorInstance p)) (Some fieldSpec_AgsStatus_GeneratorInstance)) (\<lambda>_.
     seqE (putNumberRaw (ucast (AgsStatus_AgsOperatingState p)) 4 16) (\<lambda>_.
     seqE (putNumberRaw (ucast (AgsStatus_GeneratorState p)) 4 20) (\<lambda>_.
     seqE (putNumberRaw (ucast (AgsStatus_GeneratorOnReason p)) 8 24) (\<lambda>_.
     seqE (putNumberRaw (ucast (AgsStatus_GeneratorOffReason p)) 8 32) (\<lambda>_.
     returnE (finish_info now 127514 (AgsStatus_Info p))))))))"

definition AgsStatus_received :: "MessageInfo \<Rightarrow> AgsStatus \<Rightarrow> AgsStatus" where
  "AgsStatus_received info p = \<lparr>AgsStatus_Info = info,
     AgsStatus_Instance = pin fieldSpec_AgsStatus_Instance (AgsStatus_Instance p),
     AgsStatus_GeneratorInstance = pin fieldSpec_AgsStatus_GeneratorInstance (AgsStatus_GeneratorInstance p),
     AgsStatus_AgsOperatingState = take_bit 4 (AgsStatus_AgsOperatingState p),
     AgsStatus_GeneratorState = take_bit 4 (AgsStatus_GeneratorState p),
     AgsStatus_GeneratorOnReason = take_bit 8 (AgsStatus_GeneratorOnReason p),
     AgsStatus_GeneratorOffReason = take_bit 8 (AgsStatus_GeneratorOffReason p)\<rparr>"

lemma AgsStatus_codec: "codec EncodeAgsStatus DecodeAgsStatus AgsStatus_Info 127514 5
    (\<lambda>_. True) AgsStatus_received"
  unfolding EncodeAgsStatus_def DecodeAgsStatus_def AgsStatus_received_def
  by (rule codec.intro, rule carries_cong, (rule codec_steps carries_end
      | simp add: codec_facts pin_read lookup_read lookup_read_1 unit_read fieldSpec_AgsStatus_Instance_def fieldSpec_AgsStatus_GeneratorInstance_def)+)

subsection \<open>ACPowerCurrentPhaseA\<close>

definition fieldSpec_ACPowerCurrentPhaseA_SID :: FieldSpec where
  "fieldSpec_ACPowerCurrentPhaseA_SID = unsigned_spec 8 0 0xFD 0xFF 2"

definition fieldSpec_ACPowerCurrentPhaseA_ConnectionNumber :: FieldSpec where
  "fieldSpec_ACPowerCurrentPhaseA_ConnectionNumber = unsigned_spec 8 8 0xFD 0xFF 2"

definition fieldSpec_ACPowerCurrentPhaseA_ACRMSCurrent :: ScaledSpec where
  "fieldSpec_ACPowerCurrentPhaseA_ACRMSCurrent =
     scaled_spec 16 16 0xFFFD 0xFFFF 0 False 2 (fl64 0.10000000149011612) (Some 0) (Some 65532)"

definition fieldSpec_ACPowerCurrentPhaseA_Power :: FieldSpec where
  "fieldSpec_ACPowerCurrentPhaseA_Power = signed_spec 32 32 0x7FFFFFFD 0x7FFFFFFF 2"

record ACPowerCurrentPhaseA =
  ACPowerCurrentPhaseA_Info :: MessageInfo
  ACPowerCurrentPhaseA_SID :: "u8 option"
  ACPowerCurrentPhaseA_ConnectionNumber :: "u8 option"
  ACPowerCurrentPhaseA_ACRMSCurrent :: "rat option"
  ACPowerCurrentPhaseA_Power :: "32 word option"

definition DecodeACPowerCurrentPhaseA :: "MessageInfo \<Rightarrow> (DataStream, ACPowerCurrentPhaseA) step" where
  "DecodeACPowerCurrentPhaseA info =
     field ''ACPowerCurrentPhaseA-SID'' (ReadRaw go_uint8 (Some fieldSpec_ACPowerCurrentPhaseA_SID)) (\<lambda>v1.
     field ''ACPowerCurrentPhaseA-ConnectionNumber'' (ReadRaw go_uint8 (Some fieldSpec_ACPowerCurrentPhaseA_ConnectionNumber)) (\<lambda>v2.
     field ''ACPowerCurrentPhaseA-ACRMSCurrent'' (ReadScaled 24 (Some fieldSpec_ACPowerCurrentPhaseA_ACRMSCurrent)) (\<lambda>v3.
     field ''ACPowerCurrentPhaseA-Power'' (ReadRaw go_int32 (Some fieldSpec_ACPowerCurrentPhaseA_Power)) (\<lambda>v4.
     returnE \<lparr>ACPowerCurrentPhaseA_Info = info,
       ACPowerCurrentPhaseA_SID = map_option of_int v1,
       ACPowerCurrentPhaseA_ConnectionNumber = map_option of_int v2,
       ACPowerCurrentPhaseA_ACRMSCurrent = v3,
       ACPowerCurrentPhaseA_Power = map_option of_int v4\<rparr>))))"

definition EncodeACPowerCurrentPhaseA :: "(rat \<Rightarrow> u64) \<Rightarrow> gotime \<Rightarrow> ACPowerCurrentPhaseA \<Rightarrow> (DataStream, MessageInfo) step" where
  "EncodeACPowerCurrentPhaseA hw now p =
     seqE (WriteRaw (map_option uint (ACPowerCurrentPhaseA_SID p)) (Some fieldSpec_ACPowerCurrentPhaseA_SID)) (\<lambda>_.
     seqE (WriteRaw (map_option uint (ACPowerCurrentPhaseA_ConnectionNumber p)) (Some fieldSpec_ACPowerCurrentPhaseA_ConnectionNumber)) (\<lambda>_.
     seqE (WriteScaled hw (ACPowerCurrentPhaseA_ACRMSCurrent p) (Some fieldSpec_ACPowerCurrentPhaseA_ACRMSCurrent)) (\<lambda>_.
     seqE (WriteRaw (map_option sint (ACPowerCurrentPhaseA_Power p)) (Some fieldSpec_ACPowerCurrentPhaseA_Power)) (\<lambda>_.
     returnE (finish_info now 127744 (ACPowerCurrentPhaseA_Info p))))))"

definition ACPowerCurrentPhaseA_received :: "(rat \<Rightarrow> u64) \<Rightarrow> MessageInfo \<Rightarrow> ACPowerCurrentPhaseA \<Rightarrow> ACPowerCurrentPhaseA" where
  "ACPowerCurrentPhaseA_received hw info p = \<lparr>ACPowerCurrentPhaseA_Info = info,
     ACPowerCurrentPhaseA_SID = pin fieldSpec_ACPowerCurrentPhaseA_SID (ACPowerCurrentPhaseA_SID p),
     ACPowerCurrentPhaseA_ConnectionNumber = pin fieldSpec_ACPowerCurrentPhaseA_ConnectionNumber (ACPowerCurrentPhaseA_ConnectionNumber p),
     ACPowerCurrentPhaseA_ACRMSCurrent = map_option (scaled_back hw 24 fieldSpec_ACPowerCurrentPhaseA_ACRMSCurrent) (ACPowerCurrentPhaseA_ACRMSCurrent p),
     ACPowerCurrentPhaseA_Power = pin_signed fieldSpec_ACPowerCurrentPhaseA_Power (ACPowerCurrentPhaseA_Power p)\<rparr>"

lemma ACPowerCurrentPhaseA_codec: "codec (EncodeACPowerCurrentPhaseA hw) DecodeACPowerCurrentPhaseA ACPowerCurrentPhaseA_Info 127744 8
    (\<lambda>_. True) (ACPowerCurrentPhaseA_received hw)"
  unfolding EncodeACPowerCurrentPhaseA_def DecodeACPowerCurrentPhaseA_def ACPowerCurrentPhaseA_received_def
  by (rule codec.intro, rule carries_cong, (rule codec_steps carries_end
      | simp add: codec_facts pin_read lookup_read lookup_read_1 unit_read fieldSpec_ACPowerCurrentPhaseA_SID_def fieldSpec_ACPowerCurrentPhaseA_ConnectionNumber_def fieldSpec_ACPowerCurrentPhaseA_ACRMSCurrent_def fieldSpec_ACPowerCurrentPhaseA_Power_def)+)

subsection \<open>ACPowerCurrentPhaseB\<close>

definition fieldSpec_ACPowerCurrentPhaseB_SID :: FieldSpec where
  "fieldSpec_ACPowerCurrentPhaseB_SID = unsigned_spec 8 0 0xFD 0xFF 2"

definition fieldSpec_ACPowerCurrentPhaseB_ConnectionNumber :: FieldSpec where
  "fieldSpec_ACPowerCurrentPhaseB_ConnectionNumber = unsigned_spec 8 8 0xFD 0xFF 2"

definition fieldSpec_ACPowerCurrentPhaseB_ACRMSCurrent :: ScaledSpec where
  "fieldSpec_ACPowerCurrentPhaseB_ACRMSCurrent =
     scaled_spec 16 16 0xFFFD 0xFFFF 0 False 2 (fl64 0.10000000149011612) (Some 0) (Some 65532)"

definition fieldSpec_ACPowerCurrentPhaseB_Power :: FieldSpec where
  "fieldSpec_ACPowerCurrentPhaseB_Power = signed_spec 32 32 0x7FFFFFFD 0x7FFFFFFF 2"

record ACPowerCurrentPhaseB =
  ACPowerCurrentPhaseB_Info :: MessageInfo
  ACPowerCurrentPhaseB_SID :: "u8 option"
  ACPowerCurrentPhaseB_ConnectionNumber :: "u8 option"
  ACPowerCurrentPhaseB_ACRMSCurrent :: "rat option"
  ACPowerCurrentPhaseB_Power :: "32 word option"

definition DecodeACPowerCurrentPhaseB :: "MessageInfo \<Rightarrow> (DataStream, ACPowerCurrentPhaseB) step" where
  "DecodeACPowerCurrentPhaseB info =
     field ''ACPowerCurrentPhaseB-SID'' (ReadRaw go_uint8 (Some fieldSpec_ACPowerCurrentPhaseB_SID)) (\<lambda>v1.
     field ''ACPowerCurrentPhaseB-ConnectionNumber'' (ReadRaw go_uint8 (Some fieldSpec_ACPowerCurrentPhaseB_ConnectionNumber)) (\<lambda>v2.
     field ''ACPowerCurrentPhaseB-ACRMSCurrent'' (ReadScaled 24 (Some fieldSpec_ACPowerCurrentPhaseB_ACRMSCurrent)) (\<lambda>v3.
     field ''ACPowerCurrentPhaseB-Power'' (ReadRaw go_int32 (Some fieldSpec_ACPowerCurrentPhaseB_Power)) (\<lambda>v4.
     returnE \<lparr>ACPowerCurrentPhaseB_Info = info,
       ACPowerCurrentPhaseB_SID = map_option of_int v1,
       ACPowerCurrentPhaseB_ConnectionNumber = map_option of_int v2,
       ACPowerCurrentPhaseB_ACRMSCurrent = v3,
       ACPowerCurrentPhaseB_Power = map_option of_int v4\<rparr>))))"

definition EncodeACPowerCurrentPhaseB :: "(rat \<Rightarrow> u64) \<Rightarrow> gotime \<Rightarrow> ACPowerCurrentPhaseB \<Rightarrow> (DataStream, MessageInfo) step" where
  "EncodeACPowerCurrentPhaseB hw now p =
     seqE (WriteRaw (map_option uint (ACPowerCurrentPhaseB_SID p)) (Some fieldSpec_ACPowerCurrentPhaseB_SID)) (\<lambda>_.
     seqE (WriteRaw (map_option uint (ACPowerCurrentPhaseB_ConnectionNumber p)) (Some fieldSpec_ACPowerCurrentPhaseB_ConnectionNumber)) (\<lambda>_.
     seqE (WriteScaled hw (ACPowerCurrentPhaseB_ACRMSCurrent p) (Some fieldSpec_ACPowerCurrentPhaseB_ACRMSCurrent)) (\<lambda>_.
     seqE (WriteRaw (map_option sint (ACPowerCurrentPhaseB_Power p)) (Some fieldSpec_ACPowerCurrentPhaseB_Power)) (\<lambda>_.
     returnE (finish_info now 127745 (ACPowerCurrentPhaseB_Info p))))))"

definition ACPowerCurrentPhaseB_received :: "(rat \<Rightarrow> u64) \<Rightarrow> MessageInfo \<Rightarrow> ACPowerCurrentPhaseB \<Rightarrow> ACPowerCurrentPhaseB" where
  "ACPowerCurrentPhaseB_received hw info p = \<lparr>ACPowerCurrentPhaseB_Info = info,
     ACPowerCurrentPhaseB_SID = pin fieldSpec_ACPowerCurrentPhaseB_SID (ACPowerCurrentPhaseB_SID p),
     ACPowerCurrentPhaseB_ConnectionNumber = pin fieldSpec_ACPowerCurrentPhaseB_ConnectionNumber (ACPowerCurrentPhaseB_ConnectionNumber p),
     ACPowerCurrentPhaseB_ACRMSCurrent = map_option (scaled_back hw 24 fieldSpec_ACPowerCurrentPhaseB_ACRMSCurrent) (ACPowerCurrentPhaseB_ACRMSCurrent p),
     ACPowerCurrentPhaseB_Power = pin_signed fieldSpec_ACPowerCurrentPhaseB_Power (ACPowerCurrentPhaseB_Power p)\<rparr>"

lemma ACPowerCurrentPhaseB_codec: "codec (EncodeACPowerCurrentPhaseB hw) DecodeACPowerCurrentPhaseB ACPowerCurrentPhaseB_Info 127745 8
    (\<lambda>_. True) (ACPowerCurrentPhaseB_received hw)"
  unfolding EncodeACPowerCurrentPhaseB_def DecodeACPowerCurrentPhaseB_def ACPowerCurrentPhaseB_received_def
  by (rule codec.intro, rule carries_cong, (rule codec_steps carries_end
      | simp add: codec_facts pin_read lookup_read lookup_read_1 unit_read fieldSpec_ACPowerCurrentPhaseB_SID_def fieldSpec_ACPowerCurrentPhaseB_ConnectionNumber_def fieldSpec_ACPowerCurrentPhaseB_ACRMSCurrent_def fieldSpec_ACPowerCurrentPhaseB_Power_def)+)

subsection \<open>ACPowerCurrentPhaseC\<close>

definition fieldSpec_ACPowerCurrentPhaseC_SID :: FieldSpec where
  "fieldSpec_ACPowerCurrentPhaseC_SID = unsigned_spec 8 0 0xFD 0xFF 2"

definition fieldSpec_ACPowerCurrentPhaseC_ConnectionNumber :: FieldSpec where
  "fieldSpec_ACPowerCurrentPhaseC_ConnectionNumber = unsigned_spec 8 8 0xFD 0xFF 2"

definition fieldSpec_ACPowerCurrentPhaseC_ACRMSCurrent :: ScaledSpec where
  "fieldSpec_ACPowerCurrentPhaseC_ACRMSCurrent =
     scaled_spec 16 16 0xFFFD 0xFFFF 0 False 2 (fl64 0.10000000149011612) (Some 0) (Some 65532)"

definition fieldSpec_ACPowerCurrentPhaseC_Power :: FieldSpec where
  "fieldSpec_ACPowerCurrentPhaseC_Power = signed_spec 32 32 0x7FFFFFFD 0x7FFFFFFF 2"

record ACPowerCurrentPhaseC =
  ACPowerCurrentPhaseC_Info :: MessageInfo
  ACPowerCurrentPhaseC_SID :: "u8 option"
  ACPowerCurrentPhaseC_ConnectionNumber :: "u8 option"
  ACPowerCurrentPhaseC_ACRMSCurrent :: "rat option"
  ACPowerCurrentPhaseC_Power :: "32 word option"

definition DecodeACPowerCurrentPhaseC :: "MessageInfo \<Rightarrow> (DataStream, ACPowerCurrentPhaseC) step" where
  "DecodeACPowerCurrentPhaseC info =
     field ''ACPowerCurrentPhaseC-SID'' (ReadRaw go_uint8 (Some fieldSpec_ACPowerCurrentPhaseC_SID)) (\<lambda>v1.
     field ''ACPowerCurrentPhaseC-ConnectionNumber'' (ReadRaw go_uint8 (Some fieldSpec_ACPowerCurrentPhaseC_ConnectionNumber)) (\<lambda>v2.
     field ''ACPowerCurrentPhaseC-ACRMSCurrent'' (ReadScaled 24 (Some fieldSpec_ACPowerCurrentPhaseC_ACRMSCurrent)) (\<lambda>v3.
     field ''ACPowerCurrentPhaseC-Power'' (ReadRaw go_int32 (Some fieldSpec_ACPowerCurrentPhaseC_Power)) (\<lambda>v4.
     returnE \<lparr>ACPowerCurrentPhaseC_Info = info,
       ACPowerCurrentPhaseC_SID = map_option of_int v1,
       ACPowerCurrentPhaseC_ConnectionNumber = map_option of_int v2,
       ACPowerCurrentPhaseC_ACRMSCurrent = v3,
       ACPowerCurrentPhaseC_Power = map_option of_int v4\<rparr>))))"

definition EncodeACPowerCurrentPhaseC :: "(rat \<Rightarrow> u64) \<Rightarrow> gotime \<Rightarrow> ACPowerCurrentPhaseC \<Rightarrow> (DataStream, MessageInfo) step" where
  "EncodeACPowerCurrentPhaseC hw now p =
     seqE (WriteRaw (map_option uint (ACPowerCurrentPhaseC_SID p)) (Some fieldSpec_ACPowerCurrentPhaseC_SID)) (\<lambda>_.
     seqE (WriteRaw (map_option uint (ACPowerCurrentPhaseC_ConnectionNumber p)) (Some fieldSpec_ACPowerCurrentPhaseC_ConnectionNumber)) (\<lambda>_.
     seqE (WriteScaled hw (ACPowerCurrentPhaseC_ACRMSCurrent p) (Some fieldSpec_ACPowerCurrentPhaseC_ACRMSCurrent)) (\<lambda>_.
     seqE (WriteRaw (map_option sint (ACPowerCurrentPhaseC_Power p)) (Some fieldSpec_ACPowerCurrentPhaseC_Power)) (\<lambda>_.
     returnE (finish_info now 127746 (ACPowerCurrentPhaseC_Info p))))))"

definition ACPowerCurrentPhaseC_received :: "(rat \<Rightarrow> u64) \<Rightarrow> MessageInfo \<Rightarrow> ACPowerCurrentPhaseC \<Rightarrow> ACPowerCurrentPhaseC" where
  "ACPowerCurrentPhaseC_received hw info p = \<lparr>ACPowerCurrentPhaseC_Info = info,
     ACPowerCurrentPhaseC_SID = pin fieldSpec_ACPowerCurrentPhaseC_SID (ACPowerCurrentPhaseC_SID p),
     ACPowerCurrentPhaseC_ConnectionNumber = pin fieldSpec_ACPowerCurrentPhaseC_ConnectionNumber (ACPowerCurrentPhaseC_ConnectionNumber p),
     ACPowerCurrentPhaseC_ACRMSCurrent = map_option (scaled_back hw 24 fieldSpec_ACPowerCurrentPhaseC_ACRMSCurrent) (ACPowerCurrentPhaseC_ACRMSCurrent p),
     ACPowerCurrentPhaseC_Power = pin_signed fieldSpec_ACPowerCurrentPhaseC_Power (ACPowerCurrentPhaseC_Power p)\<rparr>"

lemma ACPowerCurrentPhaseC_codec: "codec (EncodeACPowerCurrentPhaseC hw) DecodeACPowerCurrentPhaseC ACPowerCurrentPhaseC_Info 127746 8
    (\<lambda>_. True) (ACPowerCurrentPhaseC_received hw)"
  unfolding EncodeACPowerCurrentPhaseC_def DecodeACPowerCurrentPhaseC_def ACPowerCurrentPhaseC_received_def
  by (rule codec.intro, rule carries_cong, (rule codec_steps carries_end
      | simp add: codec_facts pin_read lookup_read lookup_read_1 unit_read fieldSpec_ACPowerCurrentPhaseC_SID_def fieldSpec_ACPowerCurrentPhaseC_ConnectionNumber_def fieldSpec_ACPowerCurrentPhaseC_ACRMSCurrent_def fieldSpec_ACPowerCurrentPhaseC_Power_def)+)

subsection \<open>ACVoltageFrequencyPhaseA\<close>

definition fieldSpec_ACVoltageFrequencyPhaseA_SID :: FieldSpec where
  "fieldSpec_ACVoltageFrequencyPhaseA_SID = unsigned_spec 8 0 0xFD 0xFF 2"

definition fieldSpec_ACVoltageFrequencyPhaseA_ConnectionNumber :: FieldSpec where
  "fieldSpec_ACVoltageFrequencyPhaseA_ConnectionNumber = unsigned_spec 8 8 0xFD 0xFF 2"

definition fieldSpec_ACVoltageFrequencyPhaseA_ACVoltageLineToNeutral :: ScaledSpec where
  "fieldSpec_ACVoltageFrequencyPhaseA_ACVoltageLineToNeutral =
     scaled_spec 16 16 0xFFFD 0xFFFF 0 False 2 (fl64 0.10000000149011612) None None"

definition fieldSpec_ACVoltageFrequencyPhaseA_ACVoltageLineToLine :: ScaledSpec where
  "fieldSpec_ACVoltageFrequencyPhaseA_ACVoltageLineToLine =
     scaled_spec 16 32 0xFFFD 0xFFFF 0 False 2 (fl64 0.10000000149011612) None None"

definition fieldSpec_ACVoltageFrequencyPhaseA_Frequency :: ScaledSpec where
  "fieldSpec_ACVoltageFrequencyPhaseA_Frequency =
     scaled_spec 16 48 0xFFFD 0xFFFF 0 False 2 (fl64 0.10000000149011612) None None"

record ACVoltageFrequencyPhaseA =
  ACVoltageFrequencyPhaseA_Info :: MessageInfo
  ACVoltageFrequencyPhaseA_SID :: "u8 option"
  ACVoltageFrequencyPhaseA_ConnectionNumber :: "u8 option"
  ACVoltageFrequencyPhaseA_ACVoltageLineToNeutral :: "rat option"
  ACVoltageFrequencyPhaseA_ACVoltageLineToLine :: "rat option"
  ACVoltageFrequencyPhaseA_Frequency :: "rat option"

definition DecodeACVoltageFrequencyPhaseA :: "MessageInfo \<Rightarrow> (DataStream, ACVoltageFrequencyPhaseA) step" where
  "DecodeACVoltageFrequencyPhaseA info =
     field ''ACVoltageFrequencyPhaseA-SID'' (ReadRaw go_uint8 (Some fieldSpec_ACVoltageFrequencyPhaseA_SID)) (\<lambda>v1.
     field ''ACVoltageFrequencyPhaseA-ConnectionNumber'' (ReadRaw go_uint8 (Some fieldSpec_ACVoltageFrequencyPhaseA_ConnectionNumber)) (\<lambda>v2.
     field ''ACVoltageFrequencyPhaseA-ACVoltageLineToNeutral'' (ReadScaled 24 (Some fieldSpec_ACVoltageFrequencyPhaseA_ACVoltageLineToNeutral)) (\<lambda>v3.
     field ''ACVoltageFrequencyPhaseA-ACVoltageLineToLine'' (ReadScaled 24 (Some fieldSpec_ACVoltageFrequencyPhaseA_ACVoltageLineToLine)) (\<lambda>v4.
     field ''ACVoltageFrequencyPhaseA-Frequency'' (ReadScaled 24 (Some fieldSpec_ACVoltageFrequencyPhaseA_Frequency)) (\<lambda>v5.
     returnE \<lparr>ACVoltageFrequencyPhaseA_Info = info,
       ACVoltageFrequencyPhaseA_SID = map_option of_int v1,
       ACVoltageFrequencyPhaseA_ConnectionNumber = map_option of_int v2,
       ACVoltageFrequencyPhaseA_ACVoltageLineToNeutral = v3,
       ACVoltageFrequencyPhaseA_ACVoltageLineToLine = v4,
       ACVoltageFrequencyPhaseA_Frequency = v5\<rparr>)))))"

definition EncodeACVoltageFrequencyPhaseA :: "(rat \<Rightarrow> u64) \<Rightarrow> gotime \<Rightarrow> ACVoltageFrequencyPhaseA \<Rightarrow> (DataStream, MessageInfo) step" where
  "EncodeACVoltageFrequencyPhaseA hw now p =
     seqE (WriteRaw (map_option uint (ACVoltageFrequencyPhaseA_SID p)) (Some fieldSpec_ACVoltageFrequencyPhaseA_SID)) (\<lambda>_.
     seqE (WriteRaw (map_option uint (ACVoltageFrequencyPhaseA_ConnectionNumber p)) (Some fieldSpec_ACVoltageFrequencyPhaseA_ConnectionNumber)) (\<lambda>_.
     seqE (WriteScaled hw (ACVoltageFrequencyPhaseA_ACVoltageLineToNeutral p) (Some fieldSpec_ACVoltageFrequencyPhaseA_ACVoltageLineToNeutral)) (\<lambda>_.
     seqE (WriteScaled hw (ACVoltageFrequencyPhaseA_ACVoltageLineToLine p) (Some fieldSpec_ACVoltageFrequencyPhaseA_ACVoltageLineToLine)) (\<lambda>_.
     seqE (WriteScaled hw (ACVoltageFrequencyPhaseA_Frequency p) (Some fieldSpec_ACVoltageFrequencyPhaseA_Frequency)) (\<lambda>_.
     returnE (finish_info now 127747 (ACVoltageFrequencyPhaseA_Info p)))))))"

definition ACVoltageFrequencyPhaseA_received :: "(rat \<Rightarrow> u64) \<Rightarrow> MessageInfo \<Rightarrow> ACVoltageFrequencyPhaseA \<Rightarrow> ACVoltageFrequencyPhaseA" where
  "ACVoltageFrequencyPhaseA_received hw info p = \<lparr>ACVoltageFrequencyPhaseA_Info = info,
     ACVoltageFrequencyPhaseA_SID = pin fieldSpec_ACVoltageFrequencyPhaseA_SID (ACVoltageFrequencyPhaseA_SID p),
     ACVoltageFrequencyPhaseA_ConnectionNumber = pin fieldSpec_ACVoltageFrequencyPhaseA_ConnectionNumber (ACVoltageFrequencyPhaseA_ConnectionNumber p),
     ACVoltageFrequencyPhaseA_ACVoltageLineToNeutral = map_option (scaled_back hw 24 fieldSpec_ACVoltageFrequencyPhaseA_ACVoltageLineToNeutral) (ACVoltageFrequencyPhaseA_ACVoltageLineToNeutral p),
     ACVoltageFrequencyPhaseA_ACVoltageLineToLine = map_option (scaled_back hw 24 fieldSpec_ACVoltageFrequencyPhaseA_ACVoltageLineToLine) (ACVoltageFrequencyPhaseA_ACVoltageLineToLine p),
     ACVoltageFrequencyPhaseA_Frequency = map_option (scaled_back hw 24 fieldSpec_ACVoltageFrequencyPhaseA_Frequency) (ACVoltageFrequencyPhaseA_Frequency p)\<rparr>"

lemma ACVoltageFrequencyPhaseA_codec: "codec (EncodeACVoltageFrequencyPhaseA hw) DecodeACVoltageFrequencyPhaseA ACVoltageFrequencyPhaseA_Info 127747 8
    (\<lambda>_. True) (ACVoltageFrequencyPhaseA_received hw)"
  unfolding EncodeACVoltageFrequencyPhaseA_def DecodeACVoltageFrequencyPhaseA_def ACVoltageFrequencyPhaseA_received_def
  by (rule codec.intro, rule carries_cong, (rule codec_steps carries_end
      | simp add: codec_facts pin_read lookup_read lookup_read_1 unit_read fieldSpec_ACVoltageFrequencyPhaseA_SID_def fieldSpec_ACVoltageFrequencyPhaseA_ConnectionNumber_def fieldSpec_ACVoltageFrequencyPhaseA_ACVoltageLineToNeutral_def fieldSpec_ACVoltageFrequencyPhaseA_ACVoltageLineToLine_def fieldSpec_ACVoltageFrequencyPhaseA_Frequency_def)+)

subsection \<open>ACVoltageFrequencyPhaseB\<close>

definition fieldSpec_ACVoltageFrequencyPhaseB_SID :: FieldSpec where
  "fieldSpec_ACVoltageFrequencyPhaseB_SID = unsigned_spec 8 0 0xFD 0xFF 2"

definition fieldSpec_ACVoltageFrequencyPhaseB_ConnectionNumber :: FieldSpec where
  "fieldSpec_ACVoltageFrequencyPhaseB_ConnectionNumber = unsigned_spec 8 8 0xFD 0xFF 2"

definition fieldSpec_ACVoltageFrequencyPhaseB_ACVoltageLineToNeutral :: ScaledSpec where
  "fieldSpec_ACVoltageFrequencyPhaseB_ACVoltageLineToNeutral =
     scaled_spec 16 16 0xFFFD 0xFFFF 0 False 2 (fl64 0.10000000149011612) None None"

definition fieldSpec_ACVoltageFrequencyPhaseB_ACVoltageLineToLine :: ScaledSpec where
  "fieldSpec_ACVoltageFrequencyPhaseB_ACVoltageLineToLine =
     scaled_spec 16 32 0xFFFD 0xFFFF 0 False 2 (fl64 0.10000000149011612) None None"

definition fieldSpec_ACVoltageFrequencyPhaseB_Frequency :: ScaledSpec where
  "fieldSpec_ACVoltageFrequencyPhaseB_Frequency =
     scaled_spec 16 48 0xFFFD 0xFFFF 0 False 2 (fl64 0.10000000149011612) None None"

record ACVoltageFrequencyPhaseB =
  ACVoltageFrequencyPhaseB_Info :: MessageInfo
  ACVoltageFrequencyPhaseB_SID :: "u8 option"
  ACVoltageFrequencyPhaseB_ConnectionNumber :: "u8 option"
  ACVoltageFrequencyPhaseB_ACVoltageLineToNeutral :: "rat option"
  ACVoltageFrequencyPhaseB_ACVoltageLineToLine :: "rat option"
  ACVoltageFrequencyPhaseB_Frequency :: "rat option"

definition DecodeACVoltageFrequencyPhaseB :: "MessageInfo \<Rightarrow> (DataStream, ACVoltageFrequencyPhaseB) step" where
  "DecodeACVoltageFrequencyPhaseB info =
     field ''ACVoltageFrequencyPhaseB-SID'' (ReadRaw go_uint8 (Some fieldSpec_ACVoltageFrequencyPhaseB_SID)) (\<lambda>v1.
     field ''ACVoltageFrequencyPhaseB-ConnectionNumber'' (ReadRaw go_uint8 (Some fieldSpec_ACVoltageFrequencyPhaseB_ConnectionNumber)) (\<lambda>v2.
     field ''ACVoltageFrequencyPhaseB-ACVoltageLineToNeutral'' (ReadScaled 24 (Some fieldSpec_ACVoltageFrequencyPhaseB_ACVoltageLineToNeutral)) (\<lambda>v3.
     field ''ACVoltageFrequencyPhaseB-ACVoltageLineToLine'' (ReadScaled 24 (Some fieldSpec_ACVoltageFrequencyPhaseB_ACVoltageLineToLine)) (\<lambda>v4.
     field ''ACVoltageFrequencyPhaseB-Frequency'' (ReadScaled 24 (Some fieldSpec_ACVoltageFrequencyPhaseB_Frequency)) (\<lambda>v5.
     returnE \<lparr>ACVoltageFrequencyPhaseB_Info = info,
       ACVoltageFrequencyPhaseB_SID = map_option of_int v1,
       ACVoltageFrequencyPhaseB_ConnectionNumber = map_option of_int v2,
       ACVoltageFrequencyPhaseB_ACVoltageLineToNeutral = v3,
       ACVoltageFrequencyPhaseB_ACVoltageLineToLine = v4,
       ACVoltageFrequencyPhaseB_Frequency = v5\<rparr>)))))"

definition EncodeACVoltageFrequencyPhaseB :: "(rat \<Rightarrow> u64) \<Rightarrow> gotime \<Rightarrow> ACVoltageFrequencyPhaseB \<Rightarrow> (DataStream, MessageInfo) step" where
  "EncodeACVoltageFrequencyPhaseB hw now p =
     seqE (WriteRaw (map_option uint (ACVoltageFrequencyPhaseB_SID p)) (Some fieldSpec_ACVoltageFrequencyPhaseB_SID)) (\<lambda>_.
     seqE (WriteRaw (map_option uint (ACVoltageFrequencyPhaseB_ConnectionNumber p)) (Some fieldSpec_ACVoltageFrequencyPhaseB_ConnectionNumber)) (\<lambda>_.
     seqE (WriteScaled hw (ACVoltageFrequencyPhaseB_ACVoltageLineToNeutral p) (Some fieldSpec_ACVoltageFrequencyPhaseB_ACVoltageLineToNeutral)) (\<lambda>_.
     seqE (WriteScaled hw (ACVoltageFrequencyPhaseB_ACVoltageLineToLine p) (Some fieldSpec_ACVoltageFrequencyPhaseB_ACVoltageLineToLine)) (\<lambda>_.
     seqE (WriteScaled hw (ACVoltageFrequencyPhaseB_Frequency p) (Some fieldSpec_ACVoltageFrequencyPhaseB_Frequency)) (\<lambda>_.
     returnE (finish_info now 127748 (ACVoltageFrequencyPhaseB_Info p)))))))"

definition ACVoltageFrequencyPhaseB_received :: "(rat \<Rightarrow> u64) \<Rightarrow> MessageInfo \<Rightarrow> ACVoltageFrequencyPhaseB \<Rightarrow> ACVoltageFrequencyPhaseB" where
  "ACVoltageFrequencyPhaseB_received hw info p = \<lparr>ACVoltageFrequencyPhaseB_Info = info,
     ACVoltageFrequencyPhaseB_SID = pin fieldSpec_ACVoltageFrequencyPhaseB_SID (ACVoltageFrequencyPhaseB_SID p),
     ACVoltageFrequencyPhaseB_ConnectionNumber = pin fieldSpec_ACVoltageFrequencyPhaseB_ConnectionNumber (ACVoltageFrequencyPhaseB_ConnectionNumber p),
     ACVoltageFrequencyPhaseB_ACVoltageLineToNeutral = map_option (scaled_back hw 24 fieldSpec_ACVoltageFrequencyPhaseB_ACVoltageLineToNeutral) (ACVoltageFrequencyPhaseB_ACVoltageLineToNeutral p),
     ACVoltageFrequencyPhaseB_ACVoltageLineToLine = map_option (scaled_back hw 24 fieldSpec_ACVoltageFrequencyPhaseB_ACVoltageLineToLine) (ACVoltageFrequencyPhaseB_ACVoltageLineToLine p),
     ACVoltageFrequencyPhaseB_Frequency = map_option (scaled_back hw 24 fieldSpec_ACVoltageFrequencyPhaseB_Frequency) (ACVoltageFrequencyPhaseB_Frequency p)\<rparr>"

lemma ACVoltageFrequencyPhaseB_codec: "codec (EncodeACVoltageFrequencyPhaseB hw) DecodeACVoltageFrequencyPhaseB ACVoltageFrequencyPhaseB_Info 127748 8
    (\<lambda>_. True) (ACVoltageFrequencyPhaseB_received hw)"
  unfolding EncodeACVoltageFrequencyPhaseB_def DecodeACVoltageFrequencyPhaseB_def ACVoltageFrequencyPhaseB_received_def
  by (rule codec.intro, rule carries_cong, (rule codec_steps carries_end
      | simp add: codec_facts pin_read lookup_read lookup_read_1 unit_read fieldSpec_ACVoltageFrequencyPhaseB_SID_def fieldSpec_ACVoltageFrequencyPhaseB_ConnectionNumber_def fieldSpec_ACVoltageFrequencyPhaseB_ACVoltageLineToNeutral_def fieldSpec_ACVoltageFrequencyPhaseB_ACVoltageLineToLine_def fieldSpec_ACVoltageFrequencyPhaseB_Frequency_def)+)

subsection \<open>ACVoltageFrequencyPhaseC\<close>

definition fieldSpec_ACVoltageFrequencyPhaseC_SID :: FieldSpec where
  "fieldSpec_ACVoltageFrequencyPhaseC_SID = unsigned_spec 8 0 0xFD 0xFF 2"

definition fieldSpec_ACVoltageFrequencyPhaseC_ConnectionNumber :: FieldSpec where
  "fieldSpec_ACVoltageFrequencyPhaseC_ConnectionNumber = unsigned_spec 8 8 0xFD 0xFF 2"

definition fieldSpec_ACVoltageFrequencyPhaseC_ACVoltageLineToNeutral :: ScaledSpec where
  "fieldSpec_ACVoltageFrequencyPhaseC_ACVoltageLineToNeutral =
     scaled_spec 16 16 0xFFFD 0xFFFF 0 False 2 (fl64 0.10000000149011612) None None"

definition fieldSpec_ACVoltageFrequencyPhaseC_ACVoltageLineToLine :: ScaledSpec where
  "fieldSpec_ACVoltageFrequencyPhaseC_ACVoltageLineToLine =
     scaled_spec 16 32 0xFFFD 0xFFFF 0 False 2 (fl64 0.10000000149011612) None None"

definition fieldSpec_ACVoltageFrequencyPhaseC_Frequency :: ScaledSpec where
  "fieldSpec_ACVoltageFrequencyPhaseC_Frequency =
     scaled_spec 16 48 0xFFFD 0xFFFF 0 False 2 (fl64 0.10000000149011612) None None"

record ACVoltageFrequencyPhaseC =
  ACVoltageFrequencyPhaseC_Info :: MessageInfo
  ACVoltageFrequencyPhaseC_SID :: "u8 option"
  ACVoltageFrequencyPhaseC_ConnectionNumber :: "u8 option"
  ACVoltageFrequencyPhaseC_ACVoltageLineToNeutral :: "rat option"
  ACVoltageFrequencyPhaseC_ACVoltageLineToLine :: "rat option"
  ACVoltageFrequencyPhaseC_Frequency :: "rat option"

definition DecodeACVoltageFrequencyPhaseC :: "MessageInfo \<Rightarrow> (DataStream, ACVoltageFrequencyPhaseC) step" where
  "DecodeACVoltageFrequencyPhaseC info =
     field ''ACVoltageFrequencyPhaseC-SID'' (ReadRaw go_uint8 (Some fieldSpec_ACVoltageFrequencyPhaseC_SID)) (\<lambda>v1.
     field ''ACVoltageFrequencyPhaseC-ConnectionNumber'' (ReadRaw go_uint8 (Some fieldSpec_ACVoltageFrequencyPhaseC_ConnectionNumber)) (\<lambda>v2.
     field ''ACVoltageFrequencyPhaseC-ACVoltageLineToNeutral'' (ReadScaled 24 (Some fieldSpec_ACVoltageFrequencyPhaseC_ACVoltageLineToNeutral)) (\<lambda>v3.
     field ''ACVoltageFrequencyPhaseC-ACVoltageLineToLine'' (ReadScaled 24 (Some fieldSpec_ACVoltageFrequencyPhaseC_ACVoltageLineToLine)) (\<lambda>v4.
     field ''ACVoltageFrequencyPhaseC-Frequency'' (ReadScaled 24 (Some fieldSpec_ACVoltageFrequencyPhaseC_Frequency)) (\<lambda>v5.
     returnE \<lparr>ACVoltageFrequencyPhaseC_Info = info,
       ACVoltageFrequencyPhaseC_SID = map_option of_int v1,
       ACVoltageFrequencyPhaseC_ConnectionNumber = map_option of_int v2,
       ACVoltageFrequencyPhaseC_ACVoltageLineToNeutral = v3,
       ACVoltageFrequencyPhaseC_ACVoltageLineToLine = v4,
       ACVoltageFrequencyPhaseC_Frequency = v5\<rparr>)))))"

definition EncodeACVoltageFrequencyPhaseC :: "(rat \<Rightarrow> u64) \<Rightarrow> gotime \<Rightarrow> ACVoltageFrequencyPhaseC \<Rightarrow> (DataStream, MessageInfo) step" where
  "EncodeACVoltageFrequencyPhaseC hw now p =
     seqE (WriteRaw (map_option uint (ACVoltageFrequencyPhaseC_SID p)) (Some fieldSpec_ACVoltageFrequencyPhaseC_SID)) (\<lambda>_.
     seqE (WriteRaw (map_option uint (ACVoltageFrequencyPhaseC_ConnectionNumber p)) (Some fieldSpec_ACVoltageFrequencyPhaseC_ConnectionNumber)) (\<lambda>_.
     seqE (WriteScaled hw (ACVoltageFrequencyPhaseC_ACVoltageLineToNeutral p) (Some fieldSpec_ACVoltageFrequencyPhaseC_ACVoltageLineToNeutral)) (\<lambda>_.
     seqE (WriteScaled hw (ACVoltageFrequencyPhaseC_ACVoltageLineToLine p) (Some fieldSpec_ACVoltageFrequencyPhaseC_ACVoltageLineToLine)) (\<lambda>_.
     seqE (WriteScaled hw (ACVoltageFrequencyPhaseC_Frequency p) (Some fieldSpec_ACVoltageFrequencyPhaseC_Frequency)) (\<lambda>_.
     returnE (finish_info now 127749 (ACVoltageFrequencyPhaseC_Info p)))))))"

definition ACVoltageFrequencyPhaseC_received :: "(rat \<Rightarrow> u64) \<Rightarrow> MessageInfo \<Rightarrow> ACVoltageFrequencyPhaseC \<Rightarrow> ACVoltageFrequencyPhaseC" where
  "ACVoltageFrequencyPhaseC_received hw info p = \<lparr>ACVoltageFrequencyPhaseC_Info = info,
     ACVoltageFrequencyPhaseC_SID = pin fieldSpec_ACVoltageFrequencyPhaseC_SID (ACVoltageFrequencyPhaseC_SID p),
     ACVoltageFrequencyPhaseC_ConnectionNumber = pin fieldSpec_ACVoltageFrequencyPhaseC_ConnectionNumber (ACVoltageFrequencyPhaseC_ConnectionNumber p),
     ACVoltageFrequencyPhaseC_ACVoltageLineToNeutral = map_option (scaled_back hw 24 fieldSpec_ACVoltageFrequencyPhaseC_ACVoltageLineToNeutral) (ACVoltageFrequencyPhaseC_ACVoltageLineToNeutral p),
     ACVoltageFrequencyPhaseC_ACVoltageLineToLine = map_option (scaled_back hw 24 fieldSpec_ACVoltageFrequencyPhaseC_ACVoltageLineToLine) (ACVoltageFrequencyPhaseC_ACVoltageLineToLine p),
     ACVoltageFrequencyPhaseC_Frequency = map_option (scaled_back hw 24 fieldSpec_ACVoltageFrequencyPhaseC_Frequency) (ACVoltageFrequencyPhaseC_Frequency p)\<rparr>"

lemma ACVoltageFrequencyPhaseC_codec: "codec (EncodeACVoltageFrequencyPhaseC hw) DecodeACVoltageFrequencyPhaseC ACVoltageFrequencyPhaseC_Info 127749 8
    (\<lambda>_. True) (ACVoltageFrequencyPhaseC_received hw)"
  unfolding EncodeACVoltageFrequencyPhaseC_def DecodeACVoltageFrequencyPhaseC_def ACVoltageFrequencyPhaseC_received_def
  by (rule codec.intro, rule carries_cong, (rule codec_steps carries_end
      | simp add: codec_facts pin_read lookup_read lookup_read_1 unit_read fieldSpec_ACVoltageFrequencyPhaseC_SID_def fieldSpec_ACVoltageFrequencyPhaseC_ConnectionNumber_def fieldSpec_ACVoltageFrequencyPhaseC_ACVoltageLineToNeutral_def fieldSpec_ACVoltageFrequencyPhaseC_ACVoltageLineToLine_def fieldSpec_ACVoltageFrequencyPhaseC_Frequency_def)+)

subsection \<open>ConverterStatus\<close>

definition fieldSpec_ConverterStatus_SID :: FieldSpec where
  "fieldSpec_ConverterStatus_SID = unsigned_spec 8 0 0xFD 0xFF 2"

definition fieldSpec_ConverterStatus_ConnectionNumber :: FieldSpec where
  "fieldSpec_ConverterStatus_ConnectionNumber = unsigned_spec 8 8 0xFD 0xFF 2"

record ConverterStatus =
  ConverterStatus_Info :: MessageInfo
  ConverterStatus_SID :: "u8 option"
  ConverterStatus_ConnectionNumber :: "u8 option"
  ConverterStatus_OperatingState :: u8
  ConverterStatus_TemperatureState :: u8
  ConverterStatus_OverloadState :: u8
  ConverterStatus_LowDCVoltageState :: u8
  ConverterStatus_RippleState :: u8

definition DecodeConverterStatus :: "MessageInfo \<Rightarrow> (DataStream, ConverterStatus) step" where
  "DecodeConverterStatus info =
     field ''ConverterStatus-SID'' (ReadRaw go_uint8 (Some fieldSpec_ConverterStatus_SID)) (\<lambda>v1.
     field ''ConverterStatus-ConnectionNumber'' (ReadRaw go_uint8 (Some fieldSpec_ConverterStatus_ConnectionNumber)) (\<lambda>v2.
     field ''ConverterStatus-OperatingState'' (readLookupField 8) (\<lambda>v3.
     field ''ConverterStatus-TemperatureState'' (readLookupField 2) (\<lambda>v4.
     field ''ConverterStatus-OverloadState'' (readLookupField 2) (\<lambda>v5.
     field ''ConverterStatus-LowDCVoltageState'' (readLookupField 2) (\<lambda>v6.
     field ''ConverterStatus-RippleState'' (readLookupField 2) (\<lambda>v7.
     skip 32 (
     returnE \<lparr>ConverterStatus_Info = info,
       ConverterStatus_SID = map_option of_int v1,
       ConverterStatus_ConnectionNumber = map_option of_int v2,
       ConverterStatus_OperatingState = ucast v3,
       ConverterStatus_TemperatureState = ucast v4,
       ConverterStatus_OverloadState = ucast v5,
       ConverterStatus_LowDCVoltageState = ucast v6,
       ConverterStatus_RippleState = ucast v7\<rparr>))))))))"

definition EncodeConverterStatus :: "gotime \<Rightarrow> ConverterStatus \<Rightarrow> (DataStream, MessageInfo) step" where
  "EncodeConverterStatus now p =
     seqE (WriteRaw (map_option uint (ConverterStatus_SID p)) (Some fieldSpec_ConverterStatus_SID)) (\<lambda>_.
     seqE (WriteRaw (map_option uint (ConverterStatus_ConnectionNumber p)) (Some fieldSpec_ConverterStatus_ConnectionNumber)) (\<lambda>_.
     seqE (putNumberRaw (ucast (ConverterStatus_OperatingState p)) 8 16) (\<lambda>_.
     seqE (putNumberRaw (ucast (ConverterStatus_TemperatureState p)) 2 24) (\<lambda>_.
     seqE (putNumberRaw (ucast (ConverterStatus_OverloadState p)) 2 26) (\<lambda>_.
     seqE (putNumberRaw (ucast (ConverterStatus_LowDCVoltageState p)) 2 28) (\<lambda>_.
     seqE (putNumberRaw (ucast (ConverterStatus_RippleState p)) 2 30) (\<lambda>_.
     seqE (writeReserved 32 32) (\<lambda>_.
     returnE (finish_info now 127750 (ConverterStatus_Info p))))))))))"

definition ConverterStatus_received :: "MessageInfo \<Rightarrow> ConverterStatus \<Rightarrow> ConverterStatus" where
  "ConverterStatus_received info p = \<lparr>ConverterStatus_Info = info,
     ConverterStatus_SID = pin fieldSpec_ConverterStatus_SID (ConverterStatus_SID p),
     ConverterStatus_ConnectionNumber = pin fieldSpec_ConverterStatus_ConnectionNumber (ConverterStatus_ConnectionNumber p),
     ConverterStatus_OperatingState = take_bit 8 (ConverterStatus_OperatingState p),
     ConverterStatus_TemperatureState = take_bit 2 (ConverterStatus_TemperatureState p),
     ConverterStatus_OverloadState = take_bit 2 (ConverterStatus_OverloadState p),
     ConverterStatus_LowDCVoltageState = take_bit 2 (ConverterStatus_LowDCVoltageState p),
     ConverterStatus_RippleState = take_bit 2 (ConverterStatus_RippleState p)\<rparr>"

lemma ConverterStatus_codec: "codec EncodeConverterStatus DecodeConverterStatus ConverterStatus_Info 127750 8
    (\<lambda>_. True) ConverterStatus_received"
  unfolding EncodeConverterStatus_def DecodeConverterStatus_def ConverterStatus_received_def
  by (rule codec.intro, rule carries_cong, (rule codec_steps carries_end
      | simp add: codec_facts pin_read lookup_read lookup_read_1 unit_read fieldSpec_ConverterStatus_SID_def fieldSpec_ConverterStatus_ConnectionNumber_def)+)

subsection \<open>DCVoltageCurrent\<close>

definition fieldSpec_DCVoltageCurrent_SID :: FieldSpec where
  "fieldSpec_DCVoltageCurrent_SID = unsigned_spec 8 0 0xFD 0xFF 2"

definition fieldSpec_DCVoltageCurrent_ConnectionNumber :: FieldSpec where
  "fieldSpec_DCVoltageCurrent_ConnectionNumber = unsigned_spec 8 8 0xFD 0xFF 2"

definition fieldSpec_DCVoltageCurrent_DCVoltage :: ScaledSpec where
  "fieldSpec_DCVoltageCurrent_DCVoltage =
     scaled_spec 16 16 0xFFFD 0xFFFF 0 False 2 (fl64 0.10000000149011612) None None"

definition fieldSpec_DCVoltageCurrent_DCCurrent :: ScaledSpec where
  "fieldSpec_DCVoltageCurrent_DCCurrent =
     scaled_spec 24 32 0x7FFFFD 0x7FFFFF 0 True 2 (fl64 0.009999999776482582) (Some (fl64 (- 3276.7))) (Some (fl64 3276.4))"

record DCVoltageCurrent =
  DCVoltageCurrent_Info :: MessageInfo
  DCVoltageCurrent_SID :: "u8 option"
  DCVoltageCurrent_ConnectionNumber :: "u8 option"
  DCVoltageCurrent_DCVoltage :: "rat option"
  DCVoltageCurrent_DCCurrent :: "rat option"

definition DecodeDCVoltageCurrent :: "MessageInfo \<Rightarrow> (DataStream, DCVoltageCurrent) step" where
  "DecodeDCVoltageCurrent info =
     field ''DCVoltageCurrent-SID'' (ReadRaw go_uint8 (Some fieldSpec_DCVoltageCurrent_SID)) (\<lambda>v1.
     field ''DCVoltageCurrent-ConnectionNumber'' (ReadRaw go_uint8 (Some fieldSpec_DCVoltageCurrent_ConnectionNumber)) (\<lambda>v2.
     field ''DCVoltageCurrent-DCVoltage'' (ReadScaled 24 (Some fieldSpec_DCVoltageCurrent_DCVoltage)) (\<lambda>v3.
     field ''DCVoltageCurrent-DCCurrent'' (ReadScaled 24 (Some fieldSpec_DCVoltageCurrent_DCCurrent)) (\<lambda>v4.
     skip 8 (
     returnE \<lparr>DCVoltageCurrent_Info = info,
       DCVoltageCurrent_SID = map_option of_int v1,
       DCVoltageCurrent_ConnectionNumber = map_option of_int v2,
       DCVoltageCurrent_DCVoltage = v3,
       DCVoltageCurrent_DCCurrent = v4\<rparr>)))))"

definition EncodeDCVoltageCurrent :: "(rat \<Rightarrow> u64) \<Rightarrow> gotime \<Rightarrow> DCVoltageCurrent \<Rightarrow> (DataStream, MessageInfo) step" where
  "EncodeDCVoltageCurrent hw now p =
     seqE (WriteRaw (map_option uint (DCVoltageCurrent_SID p)) (Some fieldSpec_DCVoltageCurrent_SID)) (\<lambda>_.
     seqE (WriteRaw (map_option uint (DCVoltageCurrent_ConnectionNumber p)) (Some fieldSpec_DCVoltageCurrent_ConnectionNumber)) (\<lambda>_.
     seqE (WriteScaled hw (DCVoltageCurrent_DCVoltage p) (Some fieldSpec_DCVoltageCurrent_DCVoltage)) (\<lambda>_.
     seqE (WriteScaled hw (DCVoltageCurrent_DCCurrent p) (Some fieldSpec_DCVoltageCurrent_DCCurrent)) (\<lambda>_.
     seqE (writeReserved 8 56) (\<lambda>_.
     returnE (finish_info now 127751 (DCVoltageCurrent_Info p)))))))"

definition DCVoltageCurrent_received :: "(rat \<Rightarrow> u64) \<Rightarrow> MessageInfo \<Rightarrow> DCVoltageCurrent \<Rightarrow> DCVoltageCurrent" where
  "DCVoltageCurrent_received hw info p = \<lparr>DCVoltageCurrent_Info = info,
     DCVoltageCurrent_SID = pin fieldSpec_DCVoltageCurrent_SID (DCVoltageCurrent_SID p),
     DCVoltageCurrent_ConnectionNumber = pin fieldSpec_DCVoltageCurrent_ConnectionNumber (DCVoltageCurrent_ConnectionNumber p),
     DCVoltageCurrent_DCVoltage = map_option (scaled_back hw 24 fieldSpec_DCVoltageCurrent_DCVoltage) (DCVoltageCurrent_DCVoltage p),
     DCVoltageCurrent_DCCurrent = map_option (scaled_back hw 24 fieldSpec_DCVoltageCurrent_DCCurrent) (DCVoltageCurrent_DCCurrent p)\<rparr>"

lemma DCVoltageCurrent_codec: "codec (EncodeDCVoltageCurrent hw) DecodeDCVoltageCurrent DCVoltageCurrent_Info 127751 8
    (\<lambda>_. True) (DCVoltageCurrent_received hw)"
  unfolding EncodeDCVoltageCurrent_def DecodeDCVoltageCurrent_def DCVoltageCurrent_received_def
  by (rule codec.intro, rule carries_cong, (rule codec_steps carries_end
      | simp add: codec_facts pin_read lookup_read lookup_read_1 unit_read fieldSpec_DCVoltageCurrent_SID_def fieldSpec_DCVoltageCurrent_ConnectionNumber_def fieldSpec_DCVoltageCurrent_DCVoltage_def fieldSpec_DCVoltageCurrent_DCCurrent_def)+)

section \<open>Properties\<close>

interpretation battery: codec "EncodeBatteryStatus lib hw" "DecodeBatteryStatus lib" "BatteryStatus_Info" 127508 8 "\<lambda>_. True" "BatteryStatus_received lib hw"
  by (rule BatteryStatus_codec)


end
