(* ===== verification/Pgnpropulsion.thy ===== *)
theory Pgnpropulsion
  imports Scaled
begin

text \<open>
  Messages of engines, electric drives, thrusters, windlasses, rudders and tanks. Each subsection has the field
  specifications of a message (\<open>fieldspec_vars_generated.go\<close>), its struct
  (\<open>pkg/pgn/types_generated.go\<close>), its decoder and its encoder (\<open>decoders_generated.go\<close>,
  \<open>encoders_generated.go\<close>); the function \<open>_received\<close> says what a struct is after the wire:
  an integer clamped to its field (\<open>pin\<close>), an enumeration cut to its width, bytes cut and filled up, text
  cut at its padding, a scaled number or a quantity rounded to the resolution of its field
  (\<open>scaled_back\<close>, \<open>unit_back\<close>). The lemma \<open>_codec\<close> says that the pair satisfies
  the contract \<open>codec\<close>. \<open>hw\<close> is what the processor makes of a float that no
  \<open>uint64\<close> holds, \<open>lib\<close> the package \<open>units\<close>, which is not part of this
  repository.
\<close>

section \<open>Messages\<close>

subsection \<open>Rudder\<close>

definition fieldSpec_Rudder_Instance :: FieldSpec where
  "fieldSpec_Rudder_Instance = unsigned_spec 8 0 0xFD 0xFF 2"

definition fieldSpec_Rudder_AngleOrder :: ScaledSpec where
  "fieldSpec_Rudder_AngleOrder =
     scaled_spec 16 16 0x7FFD 0x7FFF 0 True 2 (fl64 0.00009999999747378752) (Some (fl64 (- 3.1415926))) (Some (fl64 3.1415926))"

definition fieldSpec_Rudder_Position :: ScaledSpec where
  "fieldSpec_Rudder_Position =
     scaled_spec 16 32 0x7FFD 0x7FFF 0 True 2 (fl64 0.00009999999747378752) (Some (fl64 (- 3.1415926))) (Some (fl64 3.1415926))"

record Rudder =
  Rudder_Info :: MessageInfo
  Rudder_Instance :: "u8 option"
  Rudder_DirectionOrder :: u8
  Rudder_AngleOrder :: "rat option"
  Rudder_Position :: "rat option"

definition DecodeRudder :: "MessageInfo \<Rightarrow> (DataStream, Rudder) step" where
  "DecodeRudder info =
     field ''Rudder-Instance'' (ReadRaw go_uint8 (Some fieldSpec_Rudder_Instance)) (\<lambda>v1.
     field ''Rudder-DirectionOrder'' (readLookupField 3) (\<lambda>v2.
     skip 5 (
     field ''Rudder-AngleOrder'' (ReadScaled 24 (Some fieldSpec_Rudder_AngleOrder)) (\<lambda>v4.
     field ''Rudder-Position'' (ReadScaled 24 (Some fieldSpec_Rudder_Position)) (\<lambda>v5.
     skip 16 (
     returnE \<lparr>Rudder_Info = info,
       Rudder_Instance = map_option of_int v1,
       Rudder_DirectionOrder = ucast v2,
       Rudder_AngleOrder = v4,
       Rudder_Position = v5\<rparr>))))))"

definition EncodeRudder :: "(rat \<Rightarrow> u64) \<Rightarrow> gotime \<Rightarrow> Rudder \<Rightarrow> (DataStream, MessageInfo) step" where
  "EncodeRudder hw now p =
     seqE (WriteRaw (map_option uint (Rudder_Instance p)) (Some fieldSpec_Rudder_Instance)) (\<lambda>_.
     seqE (putNumberRaw (ucast (Rudder_DirectionOrder p)) 3 8) (\<lambda>_.
     seqE (writeReserved 5 11) (\<lambda>_.
     seqE (WriteScaled hw (Rudder_AngleOrder p) (Some fieldSpec_Rudder_AngleOrder)) (\<lambda>_.
     seqE (WriteScaled hw (Rudder_Position p) (Some fieldSpec_Rudder_Position)) (\<lambda>_.
     seqE (writeReserved 16 48) (\<lambda>_.
     returnE (finish_info now 127245 (Rudder_Info p))))))))"

definition Rudder_received :: "(rat \<Rightarrow> u64) \<Rightarrow> MessageInfo \<Rightarrow> Rudder \<Rightarrow> Rudder" where
  "Rudder_received hw info p = \<lparr>Rudder_Info = info,
     Rudder_Instance = pin fieldSpec_Rudder_Instance (Rudder_Instance p),
     Rudder_DirectionOrder = take_bit 3 (Rudder_DirectionOrder p),
     Rudder_AngleOrder = map_option (scaled_back hw 24 fieldSpec_Rudder_AngleOrder) (Rudder_AngleOrder p),
     Rudder_Position = map_option (scaled_back hw 24 fieldSpec_Rudder_Position) (Rudder_Position p)\<rparr>"

lemma Rudder_codec: "codec (EncodeRudder hw) DecodeRudder Rudder_Info 127245 8
    (\<lambda>_. True) (Rudder_received hw)"
  unfolding EncodeRudder_def DecodeRudder_def Rudder_received_def
  by (rule codec.intro, rule carries_cong, (rule codec_steps carries_end
      | simp add: codec_facts pin_read lookup_read lookup_read_1 unit_read fieldSpec_Rudder_Instance_def fieldSpec_Rudder_AngleOrder_def fieldSpec_Rudder_Position_def)+)

subsection \<open>EngineParametersRapidUpdate\<close>

definition fieldSpec_EngineParametersRapidUpdate_Speed :: ScaledSpec where
  "fieldSpec_EngineParametersRapidUpdate_Speed =
     scaled_spec 16 8 0xFFFD 0xFFFF 0 False 2 0.25 None None"

definition fieldSpec_EngineParametersRapidUpdate_BoostPressure :: ScaledSpec where
  "fieldSpec_EngineParametersRapidUpdate_BoostPressure =
     scaled_spec 16 24 0xFFFD 0xFFFF 0 False 2 100 None None"

definition fieldSpec_EngineParametersRapidUpdate_TiltTrim :: FieldSpec where
  "fieldSpec_EngineParametersRapidUpdate_TiltTrim = signed_spec 8 40 0x7D 0x7F 2"

record 'q EngineParametersRapidUpdate =
  EngineParametersRapidUpdate_Info :: MessageInfo
  EngineParametersRapidUpdate_Instance :: u8
  EngineParametersRapidUpdate_Speed :: "rat option"
  EngineParametersRapidUpdate_BoostPressure :: "'q option"
  EngineParametersRapidUpdate_TiltTrim :: "8 word option"

definition DecodeEngineParametersRapidUpdate :: "'q units_lib \<Rightarrow> MessageInfo \<Rightarrow> (DataStream, 'q EngineParametersRapidUpdate) step" where
  "DecodeEngineParametersRapidUpdate lib info =
     field ''EngineParametersRapidUpdate-Instance'' (readLookupField 8) (\<lambda>v1.
     field ''EngineParametersRapidUpdate-Speed'' (ReadScaled 24 (Some fieldSpec_EngineParametersRapidUpdate_Speed)) (\<lambda>v2.
     field ''EngineParametersRapidUpdate-BoostPressure'' (ReadScaled 24 (Some fieldSpec_EngineParametersRapidUpdate_BoostPressure)) (\<lambda>v3.
     field ''EngineParametersRapidUpdate-TiltTrim'' (ReadRaw go_int8 (Some fieldSpec_EngineParametersRapidUpdate_TiltTrim)) (\<lambda>v4.
     skip 16 (
     returnE \<lparr>EngineParametersRapidUpdate_Info = info,
       EngineParametersRapidUpdate_Instance = ucast v1,
       EngineParametersRapidUpdate_Speed = v2,
       EngineParametersRapidUpdate_BoostPressure = nullableUnit lib Pa v3,
       EngineParametersRapidUpdate_TiltTrim = map_option of_int v4\<rparr>)))))"

definition EncodeEngineParametersRapidUpdate :: "'q units_lib \<Rightarrow> (rat \<Rightarrow> u64) \<Rightarrow> gotime \<Rightarrow> 'q EngineParametersRapidUpdate \<Rightarrow> (DataStream, MessageInfo) step" where
  "EncodeEngineParametersRapidUpdate lib hw now p =
     seqE (putNumberRaw (ucast (EngineParametersRapidUpdate_Instance p)) 8 0) (\<lambda>_.
     seqE (WriteScaled hw (EngineParametersRapidUpdate_Speed p) (Some fieldSpec_EngineParametersRapidUpdate_Speed)) (\<lambda>_.
     seqE (writeUnit lib hw Pa (EngineParametersRapidUpdate_BoostPressure p) (Some fieldSpec_EngineParametersRapidUpdate_BoostPressure)) (\<lambda>_.
     seqE (WriteRaw (map_option sint (EngineParametersRapidUpdate_TiltTrim p)) (Some fieldSpec_EngineParametersRapidUpdate_TiltTrim)) (\<lambda>_.
     seqE (writeReserved 16 48) (\<lambda>_.
     returnE (finish_info now 127488 (EngineParametersRapidUpdate_Info p)))))))"

definition EngineParametersRapidUpdate_received :: "'q units_lib \<Rightarrow> (rat \<Rightarrow> u64) \<Rightarrow> MessageInfo \<Rightarrow> 'q EngineParametersRapidUpdate \<Rightarrow> 'q EngineParametersRapidUpdate" where
  "EngineParametersRapidUpdate_received lib hw info p = \<lparr>EngineParametersRapidUpdate_Info = info,
     EngineParametersRapidUpdate_Instance = take_bit 8 (EngineParametersRapidUpdate_Instance p),
     EngineParametersRapidUpdate_Speed = map_option (scaled_back hw 24 fieldSpec_EngineParametersRapidUpdate_Speed) (EngineParametersRapidUpdate_Speed p),
     EngineParametersRapidUpdate_BoostPressure = map_option (unit_back lib hw Pa fieldSpec_EngineParametersRapidUpdate_BoostPressure) (EngineParametersRapidUpdate_BoostPressure p),
     EngineParametersRapidUpdate_TiltTrim = pin_signed fieldSpec_EngineParametersRapidUpdate_TiltTrim (EngineParametersRapidUpdate_TiltTrim p)\<rparr>"

lemma EngineParametersRapidUpdate_codec: "codec (EncodeEngineParametersRapidUpdate lib hw) (DecodeEngineParametersRapidUpdate lib) EngineParametersRapidUpdate_Info 127488 8
    (\<lambda>_. True) (EngineParametersRapidUpdate_received lib hw)"
  unfolding EncodeEngineParametersRapidUpdate_def DecodeEngineParametersRapidUpdate_def EngineParametersRapidUpdate_received_def
  by (rule codec.intro, rule carries_cong, (rule codec_steps carries_end
      | simp add: codec_facts pin_read lookup_read lookup_read_1 unit_read fieldSpec_EngineParametersRapidUpdate_Speed_def fieldSpec_EngineParametersRapidUpdate_BoostPressure_def fieldSpec_EngineParametersRapidUpdate_TiltTrim_def)+)

subsection \<open>EngineParametersDynamic\<close>

definition fieldSpec_EngineParametersDynamic_OilPressure :: ScaledSpec where
  "fieldSpec_EngineParametersDynamic_OilPressure =
     scaled_spec 16 8 0xFFFD 0xFFFF 0 False 2 100 None None"

definition fieldSpec_EngineParametersDynamic_OilTemperature :: ScaledSpec where
  "fieldSpec_EngineParametersDynamic_OilTemperature =
     scaled_spec 16 24 0xFFFD 0xFFFF 0 False 2 (fl64 0.10000000149011612) None None"

definition fieldSpec_EngineParametersDynamic_Temperature :: ScaledSpec where
  "fieldSpec_EngineParametersDynamic_Temperature =
     scaled_spec 16 40 0xFFFD 0xFFFF 0 False 2 (fl64 0.009999999776482582) None None"

definition fieldSpec_EngineParametersDynamic_AlternatorPotential :: ScaledSpec where
  "fieldSpec_EngineParametersDynamic_AlternatorPotential =
     scaled_spec 16 56 0x7FFD 0x7FFF 0 True 2 (fl64 0.009999999776482582) None None"

definition fieldSpec_EngineParametersDynamic_FuelRate :: ScaledSpec where
  "fieldSpec_EngineParametersDynamic_FuelRate =
     scaled_spec 16 72 0x7FFD 0x7FFF 0 True 2 (fl64 0.10000000149011612) None None"

definition fieldSpec_EngineParametersDynamic_TotalEngineHours :: FieldSpec where
  "fieldSpec_EngineParametersDynamic_TotalEngineHours = unsigned_spec 32 88 0xFFFFFFFD 0xFFFFFFFF 2"

definition fieldSpec_EngineParametersDynamic_CoolantPressure :: ScaledSpec where
  "fieldSpec_EngineParametersDynamic_CoolantPressure =
     scaled_spec 16 120 0xFFFD 0xFFFF 0 False 2 100 None None"

definition fieldSpec_EngineParametersDynamic_FuelPressure :: ScaledSpec where
  "fieldSpec_EngineParametersDynamic_FuelPressure =
     scaled_spec 16 136 0xFFFD 0xFFFF 0 False 2 1000 None None"

definition fieldSpec_EngineParametersDynamic_EngineLoad :: FieldSpec where
  "fieldSpec_EngineParametersDynamic_EngineLoad = signed_spec 8 192 0x7D 0x7F 2"

definition fieldSpec_EngineParametersDynamic_EngineTorque :: FieldSpec where
  "fieldSpec_EngineParametersDynamic_EngineTorque = signed_spec 8 200 0x7D 0x7F 2"

record 'q EngineParametersDynamic =
  EngineParametersDynamic_Info :: MessageInfo
  EngineParametersDynamic_Instance :: u8
  EngineParametersDynamic_OilPressure :: "'q option"
  EngineParametersDynamic_OilTemperature :: "'q option"
  EngineParametersDynamic_Temperature :: "'q option"
  EngineParametersDynamic_AlternatorPotential :: "rat option"
  EngineParametersDynamic_FuelRate :: "'q option"
  EngineParametersDynamic_TotalEngineHours :: "u32 option"
  EngineParametersDynamic_CoolantPressure :: "'q option"
  EngineParametersDynamic_FuelPressure :: "'q option"
  EngineParametersDynamic_DiscreteStatus1 :: u16
  EngineParametersDynamic_DiscreteStatus2 :: u16
  EngineParametersDynamic_EngineLoad :: "8 word option"
  EngineParametersDynamic_EngineTorque :: "8 word option"

definition DecodeEngineParametersDynamic :: "'q units_lib \<Rightarrow> MessageInfo \<Rightarrow> (DataStream, 'q EngineParametersDynamic) step" where
  "DecodeEngineParametersDynamic lib info =
     field ''EngineParametersDynamic-Instance'' (readLookupField 8) (\<lambda>v1.
     field ''EngineParametersDynamic-OilPressure'' (ReadScaled 24 (Some fieldSpec_EngineParametersDynamic_OilPressure)) (\<lambda>v2.
     field ''EngineParametersDynamic-OilTemperature'' (ReadScaled 24 (Some fieldSpec_EngineParametersDynamic_OilTemperature)) (\<lambda>v3.
     field ''EngineParametersDynamic-Temperature'' (ReadScaled 24 (Some fieldSpec_EngineParametersDynamic_Temperature)) (\<lambda>v4.
     field ''EngineParametersDynamic-AlternatorPotential'' (ReadScaled 24 (Some fieldSpec_EngineParametersDynamic_AlternatorPotential)) (\<lambda>v5.
     field ''EngineParametersDynamic-FuelRate'' (ReadScaled 24 (Some fieldSpec_EngineParametersDynamic_FuelRate)) (\<lambda>v6.
     field ''EngineParametersDynamic-TotalEngineHours'' (ReadRaw go_uint32 (Some fieldSpec_EngineParametersDynamic_TotalEngineHours)) (\<lambda>v7.
     field ''EngineParametersDynamic-CoolantPressure'' (ReadScaled 24 (Some fieldSpec_EngineParametersDynamic_CoolantPressure)) (\<lambda>v8.
     field ''EngineParametersDynamic-FuelPressure'' (ReadScaled 24 (Some fieldSpec_EngineParametersDynamic_FuelPressure)) (\<lambda>v9.
     skip 8 (
     field ''EngineParametersDynamic-DiscreteStatus1'' (readLookupField 16) (\<lambda>v11.
     field ''EngineParametersDynamic-DiscreteStatus2'' (readLookupField 16) (\<lambda>v12.
     field ''EngineParametersDynamic-EngineLoad'' (ReadRaw go_int8 (Some fieldSpec_EngineParametersDynamic_EngineLoad)) (\<lambda>v13.
     field ''EngineParametersDynamic-EngineTorque'' (ReadRaw go_int8 (Some fieldSpec_EngineParametersDynamic_EngineTorque)) (\<lambda>v14.
     returnE \<lparr>EngineParametersDynamic_Info = info,
       EngineParametersDynamic_Instance = ucast v1,
       EngineParametersDynamic_OilPressure = nullableUnit lib Pa v2,
       EngineParametersDynamic_OilTemperature = nullableUnit lib Kelvin v3,
       EngineParametersDynamic_Temperature = nullableUnit lib Kelvin v4,
       EngineParametersDynamic_AlternatorPotential = v5,
       EngineParametersDynamic_FuelRate = nullableUnit lib LitersPerHour v6,
       EngineParametersDynamic_TotalEngineHours = map_option of_int v7,
       EngineParametersDynamic_CoolantPressure = nullableUnit lib Pa v8,
       EngineParametersDynamic_FuelPressure = nullableUnit lib Pa v9,
       EngineParametersDynamic_DiscreteStatus1 = ucast v11,
       EngineParametersDynamic_DiscreteStatus2 = ucast v12,
       EngineParametersDynamic_EngineLoad = map_option of_int v13,
       EngineParametersDynamic_EngineTorque = map_option of_int v14\<rparr>))))))))))))))"

definition EncodeEngineParametersDynamic :: "'q units_lib \<Rightarrow> (rat \<Rightarrow> u64) \<Rightarrow> gotime \<Rightarrow> 'q EngineParametersDynamic \<Rightarrow> (DataStream, MessageInfo) step" where
  "EncodeEngineParametersDynamic lib hw now p =
     seqE (putNumberRaw (ucast (EngineParametersDynamic_Instance p)) 8 0) (\<lambda>_.
     seqE (writeUnit lib hw Pa (EngineParametersDynamic_OilPressure p) (Some fieldSpec_EngineParametersDynamic_OilPressure)) (\<lambda>_.
     seqE (writeUnit lib hw Kelvin (EngineParametersDynamic_OilTemperature p) (Some fieldSpec_EngineParametersDynamic_OilTemperature)) (\<lambda>_.
     seqE (writeUnit lib hw Kelvin (EngineParametersDynamic_Temperature p) (Some fieldSpec_EngineParametersDynamic_Temperature)) (\<lambda>_.
     seqE (WriteScaled hw (EngineParametersDynamic_AlternatorPotential p) (Some fieldSpec_EngineParametersDynamic_AlternatorPotential)) (\<lambda>_.
     seqE (writeUnit lib hw LitersPerHour (EngineParametersDynamic_FuelRate p) (Some fieldSpec_EngineParametersDynamic_FuelRate)) (\<lambda>_.
     seqE (WriteRaw (map_option uint (EngineParametersDynamic_TotalEngineHours p)) (Some fieldSpec_EngineParametersDynamic_TotalEngineHours)) (\<lambda>_.
     seqE (writeUnit lib hw Pa (EngineParametersDynamic_CoolantPressure p) (Some fieldSpec_EngineParametersDynamic_CoolantPressure)) (\<lambda>_.
     seqE (writeUnit lib hw Pa (EngineParametersDynamic_FuelPressure p) (Some fieldSpec_EngineParametersDynamic_FuelPressure)) (\<lambda>_.
     seqE (writeReserved 8 152) (\<lambda>_.
     seqE (putNumberRaw (ucast (EngineParametersDynamic_DiscreteStatus1 p)) 16 160) (\<lambda>_.
     seqE (putNumberRaw (ucast (EngineParametersDynamic_DiscreteStatus2 p)) 16 176) (\<lambda>_.
     seqE (WriteRaw (map_option sint (EngineParametersDynamic_EngineLoad p)) (Some fieldSpec_EngineParametersDynamic_EngineLoad)) (\<lambda>_.
     seqE (WriteRaw (map_option sint (EngineParametersDynamic_EngineTorque p)) (Some fieldSpec_EngineParametersDynamic_EngineTorque)) (\<lambda>_.
     returnE (finish_info now 127489 (EngineParametersDynamic_Info p))))))))))))))))"

definition EngineParametersDynamic_received :: "'q units_lib \<Rightarrow> (rat \<Rightarrow> u64) \<Rightarrow> MessageInfo \<Rightarrow> 'q EngineParametersDynamic \<Rightarrow> 'q EngineParametersDynamic" where
  "EngineParametersDynamic_received lib hw info p = \<lparr>EngineParametersDynamic_Info = info,
     EngineParametersDynamic_Instance = take_bit 8 (EngineParametersDynamic_Instance p),
     EngineParametersDynamic_OilPressure = map_option (unit_back lib hw Pa fieldSpec_EngineParametersDynamic_OilPressure) (EngineParametersDynamic_OilPressure p),
     EngineParametersDynamic_OilTemperature = map_option (unit_back lib hw Kelvin fieldSpec_EngineParametersDynamic_OilTemperature) (EngineParametersDynamic_OilTemperature p),
     EngineParametersDynamic_Temperature = map_option (unit_back lib hw Kelvin fieldSpec_EngineParametersDynamic_Temperature) (EngineParametersDynamic_Temperature p),
     EngineParametersDynamic_AlternatorPotential = map_option (scaled_back hw 24 fieldSpec_EngineParametersDynamic_AlternatorPotential) (EngineParametersDynamic_AlternatorPotential p),
     EngineParametersDynamic_FuelRate = map_option (unit_back lib hw LitersPerHour fieldSpec_EngineParametersDynamic_FuelRate) (EngineParametersDynamic_FuelRate p),
     EngineParametersDynamic_TotalEngineHours = pin fieldSpec_EngineParametersDynamic_TotalEngineHours (EngineParametersDynamic_TotalEngineHours p),
     EngineParametersDynamic_CoolantPressure = map_option (unit_back lib hw Pa fieldSpec_EngineParametersDynamic_CoolantPressure) (EngineParametersDynamic_CoolantPressure p),
     EngineParametersDynamic_FuelPressure = map_option (unit_back lib hw Pa fieldSpec_EngineParametersDynamic_FuelPressure) (EngineParametersDynamic_FuelPressure p),
     EngineParametersDynamic_DiscreteStatus1 = take_bit 16 (EngineParametersDynamic_DiscreteStatus1 p),
     EngineParametersDynamic_DiscreteStatus2 = take_bit 16 (EngineParametersDynamic_DiscreteStatus2 p),
     EngineParametersDynamic_EngineLoad = pin_signed fieldSpec_EngineParametersDynamic_EngineLoad (EngineParametersDynamic_EngineLoad p),
     EngineParametersDynamic_EngineTorque = pin_signed fieldSpec_EngineParametersDynamic_EngineTorque (EngineParametersDynamic_EngineTorque p)\<rparr>"

lemma EngineParametersDynamic_codec: "codec (EncodeEngineParametersDynamic lib hw) (DecodeEngineParametersDynamic lib) EngineParametersDynamic_Info 127489 26
    (\<lambda>_. True) (EngineParametersDynamic_received lib hw)"
  unfolding EncodeEngineParametersDynamic_def DecodeEngineParametersDynamic_def EngineParametersDynamic_received_def
  by (rule codec.intro, rule carries_cong, (rule codec_steps carries_end
      | simp add: codec_facts pin_read lookup_read lookup_read_1 unit_read fieldSpec_EngineParametersDynamic_OilPressure_def fieldSpec_EngineParametersDynamic_OilTemperature_def fieldSpec_EngineParametersDynamic_Temperature_def fieldSpec_EngineParametersDynamic_AlternatorPotential_def fieldSpec_EngineParametersDynamic_FuelRate_def fieldSpec_EngineParametersDynamic_TotalEngineHours_def fieldSpec_EngineParametersDynamic_CoolantPressure_def fieldSpec_EngineParametersDynamic_FuelPressure_def fieldSpec_EngineParametersDynamic_EngineLoad_def fieldSpec_EngineParametersDynamic_EngineTorque_def)+)

subsection \<open>ElectricDriveStatusDynamic\<close>

definition fieldSpec_ElectricDriveStatusDynamic_InverterMotorIdentifier :: FieldSpec where
  "fieldSpec_ElectricDriveStatusDynamic_InverterMotorIdentifier = unsigned_spec 8 0 0xFD 0xFF 2"

definition fieldSpec_ElectricDriveStatusDynamic_OperatingMode :: FieldSpec where
  "fieldSpec_ElectricDriveStatusDynamic_OperatingMode = unsigned_spec 4 8 0xD 0xF 2"

definition fieldSpec_ElectricDriveStatusDynamic_MotorTemperature :: ScaledSpec where
  "fieldSpec_ElectricDriveStatusDynamic_MotorTemperature =
     scaled_spec 16 16 0xFFFD 0xFFFF 0 False 2 (fl64 0.009999999776482582) None None"

definition fieldSpec_ElectricDriveStatusDynamic_InverterTemperature :: ScaledSpec where
  "fieldSpec_ElectricDriveStatusDynamic_InverterTemperature =
     scaled_spec 16 32 0xFFFD 0xFFFF 0 False 2 (fl64 0.009999999776482582) None None"

definition fieldSpec_ElectricDriveStatusDynamic_CoolantTemperature :: ScaledSpec where
  "fieldSpec_ElectricDriveStatusDynamic_CoolantTemperature =
     scaled_spec 16 48 0xFFFD 0xFFFF 0 False 2 (fl64 0.009999999776482582) None None"

definition fieldSpec_ElectricDriveStatusDynamic_GearTemperature :: ScaledSpec where
  "fieldSpec_ElectricDriveStatusDynamic_GearTemperature =
     scaled_spec 16 64 0xFFFD 0xFFFF 0 False 2 (fl64 0.009999999776482582) None None"

definition fieldSpec_ElectricDriveStatusDynamic_ShaftTorque :: FieldSpec where
  "fieldSpec_ElectricDriveStatusDynamic_ShaftTorque = unsigned_spec 16 80 0xFFFD 0xFFFF 2"

record 'q ElectricDriveStatusDynamic =
  ElectricDriveStatusDynamic_Info :: MessageInfo
  ElectricDriveStatusDynamic_InverterMotorIdentifier :: "u8 option"
  ElectricDriveStatusDynamic_OperatingMode :: "u8 option"
  ElectricDriveStatusDynamic_MotorTemperature :: "'q option"
  ElectricDriveStatusDynamic_InverterTemperature :: "'q option"
  ElectricDriveStatusDynamic_CoolantTemperature :: "'q option"
  ElectricDriveStatusDynamic_GearTemperature :: "'q option"
  ElectricDriveStatusDynamic_ShaftTorque :: "u16 option"

definition DecodeElectricDriveStatusDynamic :: "'q units_lib \<Rightarrow> MessageInfo \<Rightarrow> (DataStream, 'q ElectricDriveStatusDynamic) step" where
  "DecodeElectricDriveStatusDynamic lib info =
     field ''ElectricDriveStatusDynamic-InverterMotorIdentifier'' (ReadRaw go_uint8 (Some fieldSpec_ElectricDriveStatusDynamic_InverterMotorIdentifier)) (\<lambda>v1.
     field ''ElectricDriveStatusDynamic-OperatingMode'' (ReadRaw go_uint8 (Some fieldSpec_ElectricDriveStatusDynamic_OperatingMode)) (\<lambda>v2.
     skip 4 (
     field ''ElectricDriveStatusDynamic-MotorTemperature'' (ReadScaled 24 (Some fieldSpec_ElectricDriveStatusDynamic_MotorTemperature)) (\<lambda>v4.
     field ''ElectricDriveStatusDynamic-InverterTemperature'' (ReadScaled 24 (Some fieldSpec_ElectricDriveStatusDynamic_InverterTemperature)) (\<lambda>v5.
     field ''ElectricDriveStatusDynamic-CoolantTemperature'' (ReadScaled 24 (Some fieldSpec_ElectricDriveStatusDynamic_CoolantTemperature)) (\<lambda>v6.
     field ''ElectricDriveStatusDynamic-GearTemperature'' (ReadScaled 24 (Some fieldSpec_ElectricDriveStatusDynamic_GearTemperature)) (\<lambda>v7.
     field ''ElectricDriveStatusDynamic-ShaftTorque'' (ReadRaw go_uint16 (Some fieldSpec_ElectricDriveStatusDynamic_ShaftTorque)) (\<lambda>v8.
     returnE \<lparr>ElectricDriveStatusDynamic_Info = info,
       ElectricDriveStatusDynamic_InverterMotorIdentifier = map_option of_int v1,
       ElectricDriveStatusDynamic_OperatingMode = map_option of_int v2,
       ElectricDriveStatusDynamic_MotorTemperature = nullableUnit lib Kelvin v4,
       ElectricDriveStatusDynamic_InverterTemperature = nullableUnit lib Kelvin v5,
       ElectricDriveStatusDynamic_CoolantTemperature = nullableUnit lib Kelvin v6,
       ElectricDriveStatusDynamic_GearTemperature = nullableUnit lib Kelvin v7,
       ElectricDriveStatusDynamic_ShaftTorque = map_option of_int v8\<rparr>))))))))"

definition EncodeElectricDriveStatusDynamic :: "'q units_lib \<Rightarrow> (rat \<Rightarrow> u64) \<Rightarrow> gotime \<Rightarrow> 'q ElectricDriveStatusDynamic \<Rightarrow> (DataStream, MessageInfo) step" where
  "EncodeElectricDriveStatusDynamic lib hw now p =
     seqE (WriteRaw (map_option uint (ElectricDriveStatusDynamic_InverterMotorIdentifier p)) (Some fieldSpec_ElectricDriveStatusDynamic_InverterMotorIdentifier)) (\<lambda>_.
     seqE (WriteRaw (map_option uint (ElectricDriveStatusDynamic_OperatingMode p)) (Some fieldSpec_ElectricDriveStatusDynamic_OperatingMode)) (\<lambda>_.
     seqE (writeReserved 4 12) (\<lambda>_.
     seqE (writeUnit lib hw Kelvin (ElectricDriveStatusDynamic_MotorTemperature p) (Some fieldSpec_ElectricDriveStatusDynamic_MotorTemperature)) (\<lambda>_.
     seqE (writeUnit lib hw Kelvin (ElectricDriveStatusDynamic_InverterTemperature p) (Some fieldSpec_ElectricDriveStatusDynamic_InverterTemperature)) (\<lambda>_.
     seqE (writeUnit lib hw Kelvin (ElectricDriveStatusDynamic_CoolantTemperature p) (Some fieldSpec_ElectricDriveStatusDynamic_CoolantTemperature)) (\<lambda>_.
     seqE (writeUnit lib hw Kelvin (ElectricDriveStatusDynamic_GearTemperature p) (Some fieldSpec_ElectricDriveStatusDynamic_GearTemperature)) (\<lambda>_.
     seqE (WriteRaw (map_option uint (ElectricDriveStatusDynamic_ShaftTorque p)) (Some fieldSpec_ElectricDriveStatusDynamic_ShaftTorque)) (\<lambda>_.
     returnE (finish_info now 127490 (ElectricDriveStatusDynamic_Info p))))))))))"

definition ElectricDriveStatusDynamic_received :: "'q units_lib \<Rightarrow> (rat \<Rightarrow> u64) \<Rightarrow> MessageInfo \<Rightarrow> 'q ElectricDriveStatusDynamic \<Rightarrow> 'q ElectricDriveStatusDynamic" where
  "ElectricDriveStatusDynamic_received lib hw info p = \<lparr>ElectricDriveStatusDynamic_Info = info,
     ElectricDriveStatusDynamic_InverterMotorIdentifier = pin fieldSpec_ElectricDriveStatusDynamic_InverterMotorIdentifier (ElectricDriveStatusDynamic_InverterMotorIdentifier p),
     ElectricDriveStatusDynamic_OperatingMode = pin fieldSpec_ElectricDriveStatusDynamic_OperatingMode (ElectricDriveStatusDynamic_OperatingMode p),
     ElectricDriveStatusDynamic_MotorTemperature = map_option (unit_back lib hw Kelvin fieldSpec_ElectricDriveStatusDynamic_MotorTemperature) (ElectricDriveStatusDynamic_MotorTemperature p),
     ElectricDriveStatusDynamic_InverterTemperature = map_option (unit_back lib hw Kelvin fieldSpec_ElectricDriveStatusDynamic_InverterTemperature) (ElectricDriveStatusDynamic_InverterTemperature p),
     ElectricDriveStatusDynamic_CoolantTemperature = map_option (unit_back lib hw Kelvin fieldSpec_ElectricDriveStatusDynamic_CoolantTemperature) (ElectricDriveStatusDynamic_CoolantTemperature p),
     ElectricDriveStatusDynamic_GearTemperature = map_option (unit_back lib hw Kelvin fieldSpec_ElectricDriveStatusDynamic_GearTemperature) (ElectricDriveStatusDynamic_GearTemperature p),
     ElectricDriveStatusDynamic_ShaftTorque = pin fieldSpec_ElectricDriveStatusDynamic_ShaftTorque (ElectricDriveStatusDynamic_ShaftTorque p)\<rparr>"

lemma ElectricDriveStatusDynamic_codec: "codec (EncodeElectricDriveStatusDynamic lib hw) (DecodeElectricDriveStatusDynamic lib) ElectricDriveStatusDynamic_Info 127490 12
    (\<lambda>_. True) (ElectricDriveStatusDynamic_received lib hw)"
  unfolding EncodeElectricDriveStatusDynamic_def DecodeElectricDriveStatusDynamic_def ElectricDriveStatusDynamic_received_def
  by (rule codec.intro, rule carries_cong, (rule codec_steps carries_end
      | simp add: codec_facts pin_read lookup_read lookup_read_1 unit_read fieldSpec_ElectricDriveStatusDynamic_InverterMotorIdentifier_def fieldSpec_ElectricDriveStatusDynamic_OperatingMode_def fieldSpec_ElectricDriveStatusDynamic_MotorTemperature_def fieldSpec_ElectricDriveStatusDynamic_InverterTemperature_def fieldSpec_ElectricDriveStatusDynamic_CoolantTemperature_def fieldSpec_ElectricDriveStatusDynamic_GearTemperature_def fieldSpec_ElectricDriveStatusDynamic_ShaftTorque_def)+)

subsection \<open>ElectricEnergyStorageStatusDynamic\<close>

definition fieldSpec_ElectricEnergyStorageStatusDynamic_EnergyStorageIdentifier :: FieldSpec where
  "fieldSpec_ElectricEnergyStorageStatusDynamic_EnergyStorageIdentifier = unsigned_spec 8 0 0xFD 0xFF 2"

definition fieldSpec_ElectricEnergyStorageStatusDynamic_StateOfCharge :: FieldSpec where
  "fieldSpec_ElectricEnergyStorageStatusDynamic_StateOfCharge = unsigned_spec 8 8 0xFD 0xFF 2"

definition fieldSpec_ElectricEnergyStorageStatusDynamic_TimeRemaining :: ScaledSpec where
  "fieldSpec_ElectricEnergyStorageStatusDynamic_TimeRemaining =
     scaled_spec 16 16 0xFFFD 0xFFFF 0 False 2 60 None None"

definition fieldSpec_ElectricEnergyStorageStatusDynamic_HighestCellTemperature :: ScaledSpec where
  "fieldSpec_ElectricEnergyStorageStatusDynamic_HighestCellTemperature =
     scaled_spec 16 32 0xFFFD 0xFFFF 0 False 2 (fl64 0.009999999776482582) None None"

definition fieldSpec_ElectricEnergyStorageStatusDynamic_LowestCellTemperature :: ScaledSpec where
  "fieldSpec_ElectricEnergyStorageStatusDynamic_LowestCellTemperature =
     scaled_spec 16 48 0xFFFD 0xFFFF 0 False 2 (fl64 0.009999999776482582) None None"

definition fieldSpec_ElectricEnergyStorageStatusDynamic_AverageCellTemperature :: ScaledSpec where
  "fieldSpec_ElectricEnergyStorageStatusDynamic_AverageCellTemperature =
     scaled_spec 16 64 0xFFFD 0xFFFF 0 False 2 (fl64 0.009999999776482582) None None"

definition fieldSpec_ElectricEnergyStorageStatusDynamic_MaxDischargeCurrent :: ScaledSpec where
  "fieldSpec_ElectricEnergyStorageStatusDynamic_MaxDischargeCurrent =
     scaled_spec 16 80 0x7FFD 0x7FFF 0 True 2 (fl64 0.10000000149011612) (Some (fl64 (- 3276.7))) (Some (fl64 3276.4))"

definition fieldSpec_ElectricEnergyStorageStatusDynamic_MaxChargeCurrent :: ScaledSpec where
  "fieldSpec_ElectricEnergyStorageStatusDynamic_MaxChargeCurrent =
     scaled_spec 16 96 0x7FFD 0x7FFF 0 True 2 (fl64 0.10000000149011612) (Some (fl64 (- 3276.7))) (Some (fl64 3276.4))"

definition fieldSpec_ElectricEnergyStorageStatusDynamic_CoolingSystemStatus :: FieldSpec where
  "fieldSpec_ElectricEnergyStorageStatusDynamic_CoolingSystemStatus = unsigned_spec 4 112 0xD 0xF 2"

definition fieldSpec_ElectricEnergyStorageStatusDynamic_HeatingSystemStatus :: FieldSpec where
  "fieldSpec_ElectricEnergyStorageStatusDynamic_HeatingSystemStatus = unsigned_spec 4 116 0xD 0xF 2"

record 'q ElectricEnergyStorageStatusDynamic =
  ElectricEnergyStorageStatusDynamic_Info :: MessageInfo
  ElectricEnergyStorageStatusDynamic_EnergyStorageIdentifier :: "u8 option"
  ElectricEnergyStorageStatusDynamic_StateOfCharge :: "u8 option"
  ElectricEnergyStorageStatusDynamic_TimeRemaining :: "rat option"
  ElectricEnergyStorageStatusDynamic_HighestCellTemperature :: "'q option"
  ElectricEnergyStorageStatusDynamic_LowestCellTemperature :: "'q option"
  ElectricEnergyStorageStatusDynamic_AverageCellTemperature :: "'q option"
  ElectricEnergyStorageStatusDynamic_MaxDischargeCurrent :: "rat option"
  ElectricEnergyStorageStatusDynamic_MaxChargeCurrent :: "rat option"
  ElectricEnergyStorageStatusDynamic_CoolingSystemStatus :: "u8 option"
  ElectricEnergyStorageStatusDynamic_HeatingSystemStatus :: "u8 option"

definition DecodeElectricEnergyStorageStatusDynamic :: "'q units_lib \<Rightarrow> MessageInfo \<Rightarrow> (DataStream, 'q ElectricEnergyStorageStatusDynamic) step" where
  "DecodeElectricEnergyStorageStatusDynamic lib info =
     field ''ElectricEnergyStorageStatusDynamic-EnergyStorageIdentifier'' (ReadRaw go_uint8 (Some fieldSpec_ElectricEnergyStorageStatusDynamic_EnergyStorageIdentifier)) (\<lambda>v1.
     field ''ElectricEnergyStorageStatusDynamic-StateOfCharge'' (ReadRaw go_uint8 (Some fieldSpec_ElectricEnergyStorageStatusDynamic_StateOfCharge)) (\<lambda>v2.
     field ''ElectricEnergyStorageStatusDynamic-TimeRemaining'' (ReadScaled 24 (Some fieldSpec_ElectricEnergyStorageStatusDynamic_TimeRemaining)) (\<lambda>v3.
     field ''ElectricEnergyStorageStatusDynamic-HighestCellTemperature'' (ReadScaled 24 (Some fieldSpec_ElectricEnergyStorageStatusDynamic_HighestCellTemperature)) (\<lambda>v4.
     field ''ElectricEnergyStorageStatusDynamic-LowestCellTemperature'' (ReadScaled 24 (Some fieldSpec_ElectricEnergyStorageStatusDynamic_LowestCellTemperature)) (\<lambda>v5.
     field ''ElectricEnergyStorageStatusDynamic-AverageCellTemperature'' (ReadScaled 24 (Some fieldSpec_ElectricEnergyStorageStatusDynamic_AverageCellTemperature)) (\<lambda>v6.
     field ''ElectricEnergyStorageStatusDynamic-MaxDischargeCurrent'' (ReadScaled 24 (Some fieldSpec_ElectricEnergyStorageStatusDynamic_MaxDischargeCurrent)) (\<lambda>v7.
     field ''ElectricEnergyStorageStatusDynamic-MaxChargeCurrent'' (ReadScaled 24 (Some fieldSpec_ElectricEnergyStorageStatusDynamic_MaxChargeCurrent)) (\<lambda>v8.
     field ''ElectricEnergyStorageStatusDynamic-CoolingSystemStatus'' (ReadRaw go_uint8 (Some fieldSpec_ElectricEnergyStorageStatusDynamic_CoolingSystemStatus)) (\<lambda>v9.
     field ''ElectricEnergyStorageStatusDynamic-HeatingSystemStatus'' (ReadRaw go_uint8 (Some fieldSpec_ElectricEnergyStorageStatusDynamic_HeatingSystemStatus)) (\<lambda>v10.
     returnE \<lparr>ElectricEnergyStorageStatusDynamic_Info = info,
       ElectricEnergyStorageStatusDynamic_EnergyStorageIdentifier = map_option of_int v1,
       ElectricEnergyStorageStatusDynamic_StateOfCharge = map_option of_int v2,
       ElectricEnergyStorageStatusDynamic_TimeRemaining = v3,
       ElectricEnergyStorageStatusDynamic_HighestCellTemperature = nullableUnit lib Kelvin v4,
       ElectricEnergyStorageStatusDynamic_LowestCellTemperature = nullableUnit lib Kelvin v5,
       ElectricEnergyStorageStatusDynamic_AverageCellTemperature = nullableUnit lib Kelvin v6,
       ElectricEnergyStorageStatusDynamic_MaxDischargeCurrent = v7,
       ElectricEnergyStorageStatusDynamic_MaxChargeCurrent = v8,
       ElectricEnergyStorageStatusDynamic_CoolingSystemStatus = map_option of_int v9,
       ElectricEnergyStorageStatusDynamic_HeatingSystemStatus = map_option of_int v10\<rparr>))))))))))"

definition EncodeElectricEnergyStorageStatusDynamic :: "'q units_lib \<Rightarrow> (rat \<Rightarrow> u64) \<Rightarrow> gotime \<Rightarrow> 'q ElectricEnergyStorageStatusDynamic \<Rightarrow> (DataStream, MessageInfo) step" where
  "EncodeElectricEnergyStorageStatusDynamic lib hw now p =
     seqE (WriteRaw (map_option uint (ElectricEnergyStorageStatusDynamic_EnergyStorageIdentifier p)) (Some fieldSpec_ElectricEnergyStorageStatusDynamic_EnergyStorageIdentifier)) (\<lambda>_.
     seqE (WriteRaw (map_option uint (ElectricEnergyStorageStatusDynamic_StateOfCharge p)) (Some fieldSpec_ElectricEnergyStorageStatusDynamic_StateOfCharge)) (\<lambda>_.
     seqE (WriteScaled hw (ElectricEnergyStorageStatusDynamic_TimeRemaining p) (Some fieldSpec_ElectricEnergyStorageStatusDynamic_TimeRemaining)) (\<lambda>_.
     seqE (writeUnit lib hw Kelvin (ElectricEnergyStorageStatusDynamic_HighestCellTemperature p) (Some fieldSpec_ElectricEnergyStorageStatusDynamic_HighestCellTemperature)) (\<lambda>_.
     seqE (writeUnit lib hw Kelvin (ElectricEnergyStorageStatusDynamic_LowestCellTemperature p) (Some fieldSpec_ElectricEnergyStorageStatusDynamic_LowestCellTemperature)) (\<lambda>_.
     seqE (writeUnit lib hw Kelvin (ElectricEnergyStorageStatusDynamic_AverageCellTemperature p) (Some fieldSpec_ElectricEnergyStorageStatusDynamic_AverageCellTemperature)) (\<lambda>_.
     seqE (WriteScaled hw (ElectricEnergyStorageStatusDynamic_MaxDischargeCurrent p) (Some fieldSpec_ElectricEnergyStorageStatusDynamic_MaxDischargeCurrent)) (\<lambda>_.
     seqE (WriteScaled hw (ElectricEnergyStorageStatusDynamic_MaxChargeCurrent p) (Some fieldSpec_ElectricEnergyStorageStatusDynamic_MaxChargeCurrent)) (\<lambda>_.
     seqE (WriteRaw (map_option uint (ElectricEnergyStorageStatusDynamic_CoolingSystemStatus p)) (Some fieldSpec_ElectricEnergyStorageStatusDynamic_CoolingSystemStatus)) (\<lambda>_.
     seqE (WriteRaw (map_option uint (ElectricEnergyStorageStatusDynamic_HeatingSystemStatus p)) (Some fieldSpec_ElectricEnergyStorageStatusDynamic_HeatingSystemStatus)) (\<lambda>_.
     returnE (finish_info now 127491 (ElectricEnergyStorageStatusDynamic_Info p))))))))))))"

definition ElectricEnergyStorageStatusDynamic_received :: "'q units_lib \<Rightarrow> (rat \<Rightarrow> u64) \<Rightarrow> MessageInfo \<Rightarrow> 'q ElectricEnergyStorageStatusDynamic \<Rightarrow> 'q ElectricEnergyStorageStatusDynamic" where
  "ElectricEnergyStorageStatusDynamic_received lib hw info p = \<lparr>ElectricEnergyStorageStatusDynamic_Info = info,
     ElectricEnergyStorageStatusDynamic_EnergyStorageIdentifier = pin fieldSpec_ElectricEnergyStorageStatusDynamic_EnergyStorageIdentifier (ElectricEnergyStorageStatusDynamic_EnergyStorageIdentifier p),
     ElectricEnergyStorageStatusDynamic_StateOfCharge = pin fieldSpec_ElectricEnergyStorageStatusDynamic_StateOfCharge (ElectricEnergyStorageStatusDynamic_StateOfCharge p),
     ElectricEnergyStorageStatusDynamic_TimeRemaining = map_option (scaled_back hw 24 fieldSpec_ElectricEnergyStorageStatusDynamic_TimeRemaining) (ElectricEnergyStorageStatusDynamic_TimeRemaining p),
     ElectricEnergyStorageStatusDynamic_HighestCellTemperature = map_option (unit_back lib hw Kelvin fieldSpec_ElectricEnergyStorageStatusDynamic_HighestCellTemperature) (ElectricEnergyStorageStatusDynamic_HighestCellTemperature p),
     ElectricEnergyStorageStatusDynamic_LowestCellTemperature = map_option (unit_back lib hw Kelvin fieldSpec_ElectricEnergyStorageStatusDynamic_LowestCellTemperature) (ElectricEnergyStorageStatusDynamic_LowestCellTemperature p),
     ElectricEnergyStorageStatusDynamic_AverageCellTemperature = map_option (unit_back lib hw Kelvin fieldSpec_ElectricEnergyStorageStatusDynamic_AverageCellTemperature) (ElectricEnergyStorageStatusDynamic_AverageCellTemperature p),
     ElectricEnergyStorageStatusDynamic_MaxDischargeCurrent = map_option (scaled_back hw 24 fieldSpec_ElectricEnergyStorageStatusDynamic_MaxDischargeCurrent) (ElectricEnergyStorageStatusDynamic_MaxDischargeCurrent p),
     ElectricEnergyStorageStatusDynamic_MaxChargeCurrent = map_option (scaled_back hw 24 fieldSpec_ElectricEnergyStorageStatusDynamic_MaxChargeCurrent) (ElectricEnergyStorageStatusDynamic_MaxChargeCurrent p),
     ElectricEnergyStorageStatusDynamic_CoolingSystemStatus = pin fieldSpec_ElectricEnergyStorageStatusDynamic_CoolingSystemStatus (ElectricEnergyStorageStatusDynamic_CoolingSystemStatus p),
     ElectricEnergyStorageStatusDynamic_HeatingSystemStatus = pin fieldSpec_ElectricEnergyStorageStatusDynamic_HeatingSystemStatus (ElectricEnergyStorageStatusDynamic_HeatingSystemStatus p)\<rparr>"

lemma ElectricEnergyStorageStatusDynamic_codec: "codec (EncodeElectricEnergyStorageStatusDynamic lib hw) (DecodeElectricEnergyStorageStatusDynamic lib) ElectricEnergyStorageStatusDynamic_Info 127491 15
    (\<lambda>_. True) (ElectricEnergyStorageStatusDynamic_received lib hw)"
  unfolding EncodeElectricEnergyStorageStatusDynamic_def DecodeElectricEnergyStorageStatusDynamic_def ElectricEnergyStorageStatusDynamic_received_def
  by (rule codec.intro, rule carries_cong, (rule codec_steps carries_end
      | simp add: codec_facts pin_read lookup_read lookup_read_1 unit_read fieldSpec_ElectricEnergyStorageStatusDynamic_EnergyStorageIdentifier_def fieldSpec_ElectricEnergyStorageStatusDynamic_StateOfCharge_def fieldSpec_ElectricEnergyStorageStatusDynamic_TimeRemaining_def fieldSpec_ElectricEnergyStorageStatusDynamic_HighestCellTemperature_def fieldSpec_ElectricEnergyStorageStatusDynamic_LowestCellTemperature_def fieldSpec_ElectricEnergyStorageStatusDynamic_AverageCellTemperature_def fieldSpec_ElectricEnergyStorageStatusDynamic_MaxDischargeCurrent_def fieldSpec_ElectricEnergyStorageStatusDynamic_MaxChargeCurrent_def fieldSpec_ElectricEnergyStorageStatusDynamic_CoolingSystemStatus_def fieldSpec_ElectricEnergyStorageStatusDynamic_HeatingSystemStatus_def)+)

subsection \<open>TransmissionParametersDynamic\<close>

definition fieldSpec_TransmissionParametersDynamic_OilPressure :: ScaledSpec where
  "fieldSpec_TransmissionParametersDynamic_OilPressure =
     scaled_spec 16 16 0xFFFD 0xFFFF 0 False 2 100 None None"

definition fieldSpec_TransmissionParametersDynamic_OilTemperature :: ScaledSpec where
  "fieldSpec_TransmissionParametersDynamic_OilTemperature =
     scaled_spec 16 32 0xFFFD 0xFFFF 0 False 2 (fl64 0.10000000149011612) None None"

record 'q TransmissionParametersDynamic =
  TransmissionParametersDynamic_Info :: MessageInfo
  TransmissionParametersDynamic_Instance :: u8
  TransmissionParametersDynamic_TransmissionGear :: u8
  TransmissionParametersDynamic_OilPressure :: "'q option"
  TransmissionParametersDynamic_OilTemperature :: "'q option"
  TransmissionParametersDynamic_DiscreteStatus1 :: u16

definition DecodeTransmissionParametersDynamic :: "'q units_lib \<Rightarrow> MessageInfo \<Rightarrow> (DataStream, 'q TransmissionParametersDynamic) step" where
  "DecodeTransmissionParametersDynamic lib info =
     field ''TransmissionParametersDynamic-Instance'' (readLookupField 8) (\<lambda>v1.
     field ''TransmissionParametersDynamic-TransmissionGear'' (readLookupField 2) (\<lambda>v2.
     skip 6 (
     field ''TransmissionParametersDynamic-OilPressure'' (ReadScaled 24 (Some fieldSpec_TransmissionParametersDynamic_OilPressure)) (\<lambda>v4.
     field ''TransmissionParametersDynamic-OilTemperature'' (ReadScaled 24 (Some fieldSpec_TransmissionParametersDynamic_OilTemperature)) (\<lambda>v5.
     field ''TransmissionParametersDynamic-DiscreteStatus1'' (readLookupField 8) (\<lambda>v6.
     skip 8 (
     returnE \<lparr>TransmissionParametersDynamic_Info = info,
       TransmissionParametersDynamic_Instance = ucast v1,
       TransmissionParametersDynamic_TransmissionGear = ucast v2,
       TransmissionParametersDynamic_OilPressure = nullableUnit lib Pa v4,
       TransmissionParametersDynamic_OilTemperature = nullableUnit lib Kelvin v5,
       TransmissionParametersDynamic_DiscreteStatus1 = ucast v6\<rparr>)))))))"

definition EncodeTransmissionParametersDynamic :: "'q units_lib \<Rightarrow> (rat \<Rightarrow> u64) \<Rightarrow> gotime \<Rightarrow> 'q TransmissionParametersDynamic \<Rightarrow> (DataStream, MessageInfo) step" where
  "EncodeTransmissionParametersDynamic lib hw now p =
     seqE (putNumberRaw (ucast (TransmissionParametersDynamic_Instance p)) 8 0) (\<lambda>_.
     seqE (putNumberRaw (ucast (TransmissionParametersDynamic_TransmissionGear p)) 2 8) (\<lambda>_.
     seqE (writeReserved 6 10) (\<lambda>_.
     seqE (writeUnit lib hw Pa (TransmissionParametersDynamic_OilPressure p) (Some fieldSpec_TransmissionParametersDynamic_OilPressure)) (\<lambda>_.
     seqE (writeUnit lib hw Kelvin (TransmissionParametersDynamic_OilTemperature p) (Some fieldSpec_TransmissionParametersDynamic_OilTemperature)) (\<lambda>_.
     seqE (putNumberRaw (ucast (TransmissionParametersDynamic_DiscreteStatus1 p)) 8 48) (\<lambda>_.
     seqE (writeReserved 8 56) (\<lambda>_.
     returnE (finish_info now 127493 (TransmissionParametersDynamic_Info p)))))))))"

definition TransmissionParametersDynamic_received :: "'q units_lib \<Rightarrow> (rat \<Rightarrow> u64) \<Rightarrow> MessageInfo \<Rightarrow> 'q TransmissionParametersDynamic \<Rightarrow> 'q TransmissionParametersDynamic" where
  "TransmissionParametersDynamic_received lib hw info p = \<lparr>TransmissionParametersDynamic_Info = info,
     TransmissionParametersDynamic_Instance = take_bit 8 (TransmissionParametersDynamic_Instance p),
     TransmissionParametersDynamic_TransmissionGear = take_bit 2 (TransmissionParametersDynamic_TransmissionGear p),
     TransmissionParametersDynamic_OilPressure = map_option (unit_back lib hw Pa fieldSpec_TransmissionParametersDynamic_OilPressure) (TransmissionParametersDynamic_OilPressure p),
     TransmissionParametersDynamic_OilTemperature = map_option (unit_back lib hw Kelvin fieldSpec_TransmissionParametersDynamic_OilTemperature) (TransmissionParametersDynamic_OilTemperature p),
     TransmissionParametersDynamic_DiscreteStatus1 = take_bit 8 (TransmissionParametersDynamic_DiscreteStatus1 p)\<rparr>"

lemma TransmissionParametersDynamic_codec: "codec (EncodeTransmissionParametersDynamic lib hw) (DecodeTransmissionParametersDynamic lib) TransmissionParametersDynamic_Info 127493 8
    (\<lambda>_. True) (TransmissionParametersDynamic_received lib hw)"
  unfolding EncodeTransmissionParametersDynamic_def DecodeTransmissionParametersDynamic_def TransmissionParametersDynamic_received_def
  by (rule codec.intro, rule carries_cong, (rule codec_steps carries_end
      | simp add: codec_facts pin_read lookup_read lookup_read_1 unit_read fieldSpec_TransmissionParametersDynamic_OilPressure_def fieldSpec_TransmissionParametersDynamic_OilTemperature_def)+)

subsection \<open>ElectricDriveInformation\<close>

definition fieldSpec_ElectricDriveInformation_InverterMotorIdentifier :: FieldSpec where
  "fieldSpec_ElectricDriveInformation_InverterMotorIdentifier = unsigned_spec 8 0 0xFD 0xFF 2"

definition fieldSpec_ElectricDriveInformation_MotorType :: FieldSpec where
  "fieldSpec_ElectricDriveInformation_MotorType = unsigned_spec 4 8 0xD 0xF 2"

definition fieldSpec_ElectricDriveInformation_MotorVoltageRating :: ScaledSpec where
  "fieldSpec_ElectricDriveInformation_MotorVoltageRating =
     scaled_spec 16 16 0xFFFD 0xFFFF 0 False 2 (fl64 0.10000000149011612) None None"

definition fieldSpec_ElectricDriveInformation_MaximumContinuousMotorPower :: FieldSpec where
  "fieldSpec_ElectricDriveInformation_MaximumContinuousMotorPower = unsigned_spec 32 32 0xFFFFFFFD 0xFFFFFFFF 2"

definition fieldSpec_ElectricDriveInformation_MaximumBoostMotorPower :: FieldSpec where
  "fieldSpec_ElectricDriveInformation_MaximumBoostMotorPower = unsigned_spec 32 64 0xFFFFFFFD 0xFFFFFFFF 2"

definition fieldSpec_ElectricDriveInformation_MaximumMotorTemperatureRating :: ScaledSpec where
  "fieldSpec_ElectricDriveInformation_MaximumMotorTemperatureRating =
     scaled_spec 16 96 0xFFFD 0xFFFF 0 False 2 (fl64 0.009999999776482582) None None"

definition fieldSpec_ElectricDriveInformation_RatedMotorSpeed :: ScaledSpec where
  "fieldSpec_ElectricDriveInformation_RatedMotorSpeed =
     scaled_spec 16 112 0xFFFD 0xFFFF 0 False 2 0.25 None None"

definition fieldSpec_ElectricDriveInformation_MaximumControllerTemperatureRating :: ScaledSpec where
  "fieldSpec_ElectricDriveInformation_MaximumControllerTemperatureRating =
     scaled_spec 16 128 0xFFFD 0xFFFF 0 False 2 (fl64 0.009999999776482582) None None"

definition fieldSpec_ElectricDriveInformation_MotorShaftTorqueRating :: FieldSpec where
  "fieldSpec_ElectricDriveInformation_MotorShaftTorqueRating = unsigned_spec 16 144 0xFFFD 0xFFFF 2"

definition fieldSpec_ElectricDriveInformation_MotorDCVoltageDeratingThreshold :: ScaledSpec where
  "fieldSpec_ElectricDriveInformation_MotorDCVoltageDeratingThreshold =
     scaled_spec 16 160 0xFFFD 0xFFFF 0 False 2 (fl64 0.10000000149011612) None None"

definition fieldSpec_ElectricDriveInformation_MotorDCVoltageCutOffThreshold :: ScaledSpec where
  "fieldSpec_ElectricDriveInformation_MotorDCVoltageCutOffThreshold =
     scaled_spec 16 176 0xFFFD 0xFFFF 0 False 2 (fl64 0.10000000149011612) None None"

definition fieldSpec_ElectricDriveInformation_DriveMotorHours :: FieldSpec where
  "fieldSpec_ElectricDriveInformation_DriveMotorHours = unsigned_spec 32 192 0xFFFFFFFD 0xFFFFFFFF 2"

record 'q ElectricDriveInformation =
  ElectricDriveInformation_Info :: MessageInfo
  ElectricDriveInformation_InverterMotorIdentifier :: "u8 option"
  ElectricDriveInformation_MotorType :: "u8 option"
  ElectricDriveInformation_MotorVoltageRating :: "rat option"
  ElectricDriveInformation_MaximumContinuousMotorPower :: "u32 option"
  ElectricDriveInformation_MaximumBoostMotorPower :: "u32 option"
  ElectricDriveInformation_MaximumMotorTemperatureRating :: "'q option"
  ElectricDriveInformation_RatedMotorSpeed :: "rat option"
  ElectricDriveInformation_MaximumControllerTemperatureRating :: "'q option"
  ElectricDriveInformation_MotorShaftTorqueRating :: "u16 option"
  ElectricDriveInformation_MotorDCVoltageDeratingThreshold :: "rat option"
  ElectricDriveInformation_MotorDCVoltageCutOffThreshold :: "rat option"
  ElectricDriveInformation_DriveMotorHours :: "u32 option"

definition DecodeElectricDriveInformation :: "'q units_lib \<Rightarrow> MessageInfo \<Rightarrow> (DataStream, 'q ElectricDriveInformation) step" where
  "DecodeElectricDriveInformation lib info =
     field ''ElectricDriveInformation-InverterMotorIdentifier'' (ReadRaw go_uint8 (Some fieldSpec_ElectricDriveInformation_InverterMotorIdentifier)) (\<lambda>v1.
     field ''ElectricDriveInformation-MotorType'' (ReadRaw go_uint8 (Some fieldSpec_ElectricDriveInformation_MotorType)) (\<lambda>v2.
     skip 4 (
     field ''ElectricDriveInformation-MotorVoltageRating'' (ReadScaled 24 (Some fieldSpec_ElectricDriveInformation_MotorVoltageRating)) (\<lambda>v4.
     field ''ElectricDriveInformation-MaximumContinuousMotorPower'' (ReadRaw go_uint32 (Some fieldSpec_ElectricDriveInformation_MaximumContinuousMotorPower)) (\<lambda>v5.
     field ''ElectricDriveInformation-MaximumBoostMotorPower'' (ReadRaw go_uint32 (Some fieldSpec_ElectricDriveInformation_MaximumBoostMotorPower)) (\<lambda>v6.
     field ''ElectricDriveInformation-MaximumMotorTemperatureRating'' (ReadScaled 24 (Some fieldSpec_ElectricDriveInformation_MaximumMotorTemperatureRating)) (\<lambda>v7.
     field ''ElectricDriveInformation-RatedMotorSpeed'' (ReadScaled 24 (Some fieldSpec_ElectricDriveInformation_RatedMotorSpeed)) (\<lambda>v8.
     field ''ElectricDriveInformation-MaximumControllerTemperatureRating'' (ReadScaled 24 (Some fieldSpec_ElectricDriveInformation_MaximumControllerTemperatureRating)) (\<lambda>v9.
     field ''ElectricDriveInformation-MotorShaftTorqueRating'' (ReadRaw go_uint16 (Some fieldSpec_ElectricDriveInformation_MotorShaftTorqueRating)) (\<lambda>v10.
     field ''ElectricDriveInformation-MotorDCVoltageDeratingThreshold'' (ReadScaled 24 (Some fieldSpec_ElectricDriveInformation_MotorDCVoltageDeratingThreshold)) (\<lambda>v11.
     field ''ElectricDriveInformation-MotorDCVoltageCutOffThreshold'' (ReadScaled 24 (Some fieldSpec_ElectricDriveInformation_MotorDCVoltageCutOffThreshold)) (\<lambda>v12.
     field ''ElectricDriveInformation-DriveMotorHours'' (ReadRaw go_uint32 (Some fieldSpec_ElectricDriveInformation_DriveMotorHours)) (\<lambda>v13.
     returnE \<lparr>ElectricDriveInformation_Info = info,
       ElectricDriveInformation_InverterMotorIdentifier = map_option of_int v1,
       ElectricDriveInformation_MotorType = map_option of_int v2,
       ElectricDriveInformation_MotorVoltageRating = v4,
       ElectricDriveInformation_MaximumContinuousMotorPower = map_option of_int v5,
       ElectricDriveInformation_MaximumBoostMotorPower = map_option of_int v6,
       ElectricDriveInformation_MaximumMotorTemperatureRating = nullableUnit lib Kelvin v7,
       ElectricDriveInformation_RatedMotorSpeed = v8,
       ElectricDriveInformation_MaximumControllerTemperatureRating = nullableUnit lib Kelvin v9,
       ElectricDriveInformation_MotorShaftTorqueRating = map_option of_int v10,
       ElectricDriveInformation_MotorDCVoltageDeratingThreshold = v11,
       ElectricDriveInformation_MotorDCVoltageCutOffThreshold = v12,
       ElectricDriveInformation_DriveMotorHours = map_option of_int v13\<rparr>)))))))))))))"

definition EncodeElectricDriveInformation :: "'q units_lib \<Rightarrow> (rat \<Rightarrow> u64) \<Rightarrow> gotime \<Rightarrow> 'q ElectricDriveInformation \<Rightarrow> (DataStream, MessageInfo) step" where
  "EncodeElectricDriveInformation lib hw now p =
     seqE (WriteRaw (map_option uint (ElectricDriveInformation_InverterMotorIdentifier p)) (Some fieldSpec_ElectricDriveInformation_InverterMotorIdentifier)) (\<lambda>_.
     seqE (WriteRaw (map_option uint (ElectricDriveInformation_MotorType p)) (Some fieldSpec_ElectricDriveInformation_MotorType)) (\<lambda>_.
     seqE (writeReserved 4 12) (\<lambda>_.
     seqE (WriteScaled hw (ElectricDriveInformation_MotorVoltageRating p) (Some fieldSpec_ElectricDriveInformation_MotorVoltageRating)) (\<lambda>_.
     seqE (WriteRaw (map_option uint (ElectricDriveInformation_MaximumContinuousMotorPower p)) (Some fieldSpec_ElectricDriveInformation_MaximumContinuousMotorPower)) (\<lambda>_.
     seqE (WriteRaw (map_option uint (ElectricDriveInformation_MaximumBoostMotorPower p)) (Some fieldSpec_ElectricDriveInformation_MaximumBoostMotorPower)) (\<lambda>_.
     seqE (writeUnit lib hw Kelvin (ElectricDriveInformation_MaximumMotorTemperatureRating p) (Some fieldSpec_ElectricDriveInformation_MaximumMotorTemperatureRating)) (\<lambda>_.
     seqE (WriteScaled hw (ElectricDriveInformation_RatedMotorSpeed p) (Some fieldSpec_ElectricDriveInformation_RatedMotorSpeed)) (\<lambda>_.
     seqE (writeUnit lib hw Kelvin (ElectricDriveInformation_MaximumControllerTemperatureRating p) (Some fieldSpec_ElectricDriveInformation_MaximumControllerTemperatureRating)) (\<lambda>_.
     seqE (WriteRaw (map_option uint (ElectricDriveInformation_MotorShaftTorqueRating p)) (Some fieldSpec_ElectricDriveInformation_MotorShaftTorqueRating)) (\<lambda>_.
     seqE (WriteScaled hw (ElectricDriveInformation_MotorDCVoltageDeratingThreshold p) (Some fieldSpec_ElectricDriveInformation_MotorDCVoltageDeratingThreshold)) (\<lambda>_.
     seqE (WriteScaled hw (ElectricDriveInformation_MotorDCVoltageCutOffThreshold p) (Some fieldSpec_ElectricDriveInformation_MotorDCVoltageCutOffThreshold)) (\<lambda>_.
     seqE (WriteRaw (map_option uint (ElectricDriveInformation_DriveMotorHours p)) (Some fieldSpec_ElectricDriveInformation_DriveMotorHours)) (\<lambda>_.
     returnE (finish_info now 127494 (ElectricDriveInformation_Info p)))))))))))))))"

definition ElectricDriveInformation_received :: "'q units_lib \<Rightarrow> (rat \<Rightarrow> u64) \<Rightarrow> MessageInfo \<Rightarrow> 'q ElectricDriveInformation \<Rightarrow> 'q ElectricDriveInformation" where
  "ElectricDriveInformation_received lib hw info p = \<lparr>ElectricDriveInformation_Info = info,
     ElectricDriveInformation_InverterMotorIdentifier = pin fieldSpec_ElectricDriveInformation_InverterMotorIdentifier (ElectricDriveInformation_InverterMotorIdentifier p),
     ElectricDriveInformation_MotorType = pin fieldSpec_ElectricDriveInformation_MotorType (ElectricDriveInformation_MotorType p),
     ElectricDriveInformation_MotorVoltageRating = map_option (scaled_back hw 24 fieldSpec_ElectricDriveInformation_MotorVoltageRating) (ElectricDriveInformation_MotorVoltageRating p),
     ElectricDriveInformation_MaximumContinuousMotorPower = pin fieldSpec_ElectricDriveInformation_MaximumContinuousMotorPower (ElectricDriveInformation_MaximumContinuousMotorPower p),
     ElectricDriveInformation_MaximumBoostMotorPower = pin fieldSpec_ElectricDriveInformation_MaximumBoostMotorPower (ElectricDriveInformation_MaximumBoostMotorPower p),
     ElectricDriveInformation_MaximumMotorTemperatureRating = map_option (unit_back lib hw Kelvin fieldSpec_ElectricDriveInformation_MaximumMotorTemperatureRating) (ElectricDriveInformation_MaximumMotorTemperatureRating p),
     ElectricDriveInformation_RatedMotorSpeed = map_option (scaled_back hw 24 fieldSpec_ElectricDriveInformation_RatedMotorSpeed) (ElectricDriveInformation_RatedMotorSpeed p),
     ElectricDriveInformation_MaximumControllerTemperatureRating = map_option (unit_back lib hw Kelvin fieldSpec_ElectricDriveInformation_MaximumControllerTemperatureRating) (ElectricDriveInformation_MaximumControllerTemperatureRating p),
     ElectricDriveInformation_MotorShaftTorqueRating = pin fieldSpec_ElectricDriveInformation_MotorShaftTorqueRating (ElectricDriveInformation_MotorShaftTorqueRating p),
     ElectricDriveInformation_MotorDCVoltageDeratingThreshold = map_option (scaled_back hw 24 fieldSpec_ElectricDriveInformation_MotorDCVoltageDeratingThreshold) (ElectricDriveInformation_MotorDCVoltageDeratingThreshold p),
     ElectricDriveInformation_MotorDCVoltageCutOffThreshold = map_option (scaled_back hw 24 fieldSpec_ElectricDriveInformation_MotorDCVoltageCutOffThreshold) (ElectricDriveInformation_MotorDCVoltageCutOffThreshold p),
     ElectricDriveInformation_DriveMotorHours = pin fieldSpec_ElectricDriveInformation_DriveMotorHours (ElectricDriveInformation_DriveMotorHours p)\<rparr>"

lemma ElectricDriveInformation_codec: "codec (EncodeElectricDriveInformation lib hw) (DecodeElectricDriveInformation lib) ElectricDriveInformation_Info 127494 28
    (\<lambda>_. True) (ElectricDriveInformation_received lib hw)"
  unfolding EncodeElectricDriveInformation_def DecodeElectricDriveInformation_def ElectricDriveInformation_received_def
  by (rule codec.intro, rule carries_cong, (rule codec_steps carries_end
      | simp add: codec_facts pin_read lookup_read lookup_read_1 unit_read fieldSpec_ElectricDriveInformation_InverterMotorIdentifier_def fieldSpec_ElectricDriveInformation_MotorType_def fieldSpec_ElectricDriveInformation_MotorVoltageRating_def fieldSpec_ElectricDriveInformation_MaximumContinuousMotorPower_def fieldSpec_ElectricDriveInformation_MaximumBoostMotorPower_def fieldSpec_ElectricDriveInformation_MaximumMotorTemperatureRating_def fieldSpec_ElectricDriveInformation_RatedMotorSpeed_def fieldSpec_ElectricDriveInformation_MaximumControllerTemperatureRating_def fieldSpec_ElectricDriveInformation_MotorShaftTorqueRating_def fieldSpec_ElectricDriveInformation_MotorDCVoltageDeratingThreshold_def fieldSpec_ElectricDriveInformation_MotorDCVoltageCutOffThreshold_def fieldSpec_ElectricDriveInformation_DriveMotorHours_def)+)

subsection \<open>ElectricEnergyStorageInformation\<close>

definition fieldSpec_ElectricEnergyStorageInformation_EnergyStorageIdentifier :: FieldSpec where
  "fieldSpec_ElectricEnergyStorageInformation_EnergyStorageIdentifier = unsigned_spec 8 0 0xFD 0xFF 2"

definition fieldSpec_ElectricEnergyStorageInformation_MotorType :: FieldSpec where
  "fieldSpec_ElectricEnergyStorageInformation_MotorType = unsigned_spec 4 8 0xD 0xF 2"

definition fieldSpec_ElectricEnergyStorageInformation_StorageChemistryConversion :: FieldSpec where
  "fieldSpec_ElectricEnergyStorageInformation_StorageChemistryConversion = unsigned_spec 8 16 0xFD 0xFF 2"

definition fieldSpec_ElectricEnergyStorageInformation_MaximumTemperatureDerating :: ScaledSpec where
  "fieldSpec_ElectricEnergyStorageInformation_MaximumTemperatureDerating =
     scaled_spec 16 24 0xFFFD 0xFFFF 0 False 2 (fl64 0.009999999776482582) None None"

definition fieldSpec_ElectricEnergyStorageInformation_MaximumTemperatureShutOff :: ScaledSpec where
  "fieldSpec_ElectricEnergyStorageInformation_MaximumTemperatureShutOff =
     scaled_spec 16 40 0xFFFD 0xFFFF 0 False 2 (fl64 0.009999999776482582) None None"

definition fieldSpec_ElectricEnergyStorageInformation_MinimumTemperatureDerating :: ScaledSpec where
  "fieldSpec_ElectricEnergyStorageInformation_MinimumTemperatureDerating =
     scaled_spec 16 56 0xFFFD 0xFFFF 0 False 2 (fl64 0.009999999776482582) None None"

definition fieldSpec_ElectricEnergyStorageInformation_MinimumTemperatureShutOff :: ScaledSpec where
  "fieldSpec_ElectricEnergyStorageInformation_MinimumTemperatureShutOff =
     scaled_spec 16 72 0xFFFD 0xFFFF 0 False 2 (fl64 0.009999999776482582) None None"

definition fieldSpec_ElectricEnergyStorageInformation_UsableBatteryEnergy :: FieldSpec where
  "fieldSpec_ElectricEnergyStorageInformation_UsableBatteryEnergy = unsigned_spec 32 88 0xFFFFFFFD 0xFFFFFFFF 2"

definition fieldSpec_ElectricEnergyStorageInformation_StateOfHealth :: FieldSpec where
  "fieldSpec_ElectricEnergyStorageInformation_StateOfHealth = unsigned_spec 8 120 0xFD 0xFF 2"

definition fieldSpec_ElectricEnergyStorageInformation_BatteryCycleCounter :: FieldSpec where
  "fieldSpec_ElectricEnergyStorageInformation_BatteryCycleCounter = unsigned_spec 16 128 0xFFFD 0xFFFF 2"

definition fieldSpec_ElectricEnergyStorageInformation_BatteryFullStatus :: FieldSpec where
  "fieldSpec_ElectricEnergyStorageInformation_BatteryFullStatus = unsigned_spec 2 144 0x2 0x3 1"

definition fieldSpec_ElectricEnergyStorageInformation_BatteryEmptyStatus :: FieldSpec where
  "fieldSpec_ElectricEnergyStorageInformation_BatteryEmptyStatus = unsigned_spec 2 146 0x2 0x3 1"

definition fieldSpec_ElectricEnergyStorageInformation_MaximumChargeSoc :: FieldSpec where
  "fieldSpec_ElectricEnergyStorageInformation_MaximumChargeSoc = unsigned_spec 8 152 0xFD 0xFF 2"

definition fieldSpec_ElectricEnergyStorageInformation_MinimumChargeSoc :: FieldSpec where
  "fieldSpec_ElectricEnergyStorageInformation_MinimumChargeSoc = unsigned_spec 8 160 0xFD 0xFF 2"

record 'q ElectricEnergyStorageInformation =
  ElectricEnergyStorageInformation_Info :: MessageInfo
  ElectricEnergyStorageInformation_EnergyStorageIdentifier :: "u8 option"
  ElectricEnergyStorageInformation_MotorType :: "u8 option"
  ElectricEnergyStorageInformation_StorageChemistryConversion :: "u8 option"
  ElectricEnergyStorageInformation_MaximumTemperatureDerating :: "'q option"
  ElectricEnergyStorageInformation_MaximumTemperatureShutOff :: "'q option"
  ElectricEnergyStorageInformation_MinimumTemperatureDerating :: "'q option"
  ElectricEnergyStorageInformation_MinimumTemperatureShutOff :: "'q option"
  ElectricEnergyStorageInformation_UsableBatteryEnergy :: "u32 option"
  ElectricEnergyStorageInformation_StateOfHealth :: "u8 option"
  ElectricEnergyStorageInformation_BatteryCycleCounter :: "u16 option"
  ElectricEnergyStorageInformation_BatteryFullStatus :: "u8 option"
  ElectricEnergyStorageInformation_BatteryEmptyStatus :: "u8 option"
  ElectricEnergyStorageInformation_MaximumChargeSoc :: "u8 option"
  ElectricEnergyStorageInformation_MinimumChargeSoc :: "u8 option"

definition DecodeElectricEnergyStorageInformation :: "'q units_lib \<Rightarrow> MessageInfo \<Rightarrow> (DataStream, 'q ElectricEnergyStorageInformation) step" where
  "DecodeElectricEnergyStorageInformation lib info =
     field ''ElectricEnergyStorageInformation-EnergyStorageIdentifier'' (ReadRaw go_uint8 (Some fieldSpec_ElectricEnergyStorageInformation_EnergyStorageIdentifier)) (\<lambda>v1.
     field ''ElectricEnergyStorageInformation-MotorType'' (ReadRaw go_uint8 (Some fieldSpec_ElectricEnergyStorageInformation_MotorType)) (\<lambda>v2.
     skip 4 (
     field ''ElectricEnergyStorageInformation-StorageChemistryConversion'' (ReadRaw go_uint8 (Some fieldSpec_ElectricEnergyStorageInformation_StorageChemistryConversion)) (\<lambda>v4.
     field ''ElectricEnergyStorageInformation-MaximumTemperatureDerating'' (ReadScaled 24 (Some fieldSpec_ElectricEnergyStorageInformation_MaximumTemperatureDerating)) (\<lambda>v5.
     field ''ElectricEnergyStorageInformation-MaximumTemperatureShutOff'' (ReadScaled 24 (Some fieldSpec_ElectricEnergyStorageInformation_MaximumTemperatureShutOff)) (\<lambda>v6.
     field ''ElectricEnergyStorageInformation-MinimumTemperatureDerating'' (ReadScaled 24 (Some fieldSpec_ElectricEnergyStorageInformation_MinimumTemperatureDerating)) (\<lambda>v7.
     field ''ElectricEnergyStorageInformation-MinimumTemperatureShutOff'' (ReadScaled 24 (Some fieldSpec_ElectricEnergyStorageInformation_MinimumTemperatureShutOff)) (\<lambda>v8.
     field ''ElectricEnergyStorageInformation-UsableBatteryEnergy'' (ReadRaw go_uint32 (Some fieldSpec_ElectricEnergyStorageInformation_UsableBatteryEnergy)) (\<lambda>v9.
     field ''ElectricEnergyStorageInformation-StateOfHealth'' (ReadRaw go_uint8 (Some fieldSpec_ElectricEnergyStorageInformation_StateOfHealth)) (\<lambda>v10.
     field ''ElectricEnergyStorageInformation-BatteryCycleCounter'' (ReadRaw go_uint16 (Some fieldSpec_ElectricEnergyStorageInformation_BatteryCycleCounter)) (\<lambda>v11.
     field ''ElectricEnergyStorageInformation-BatteryFullStatus'' (ReadRaw go_uint8 (Some fieldSpec_ElectricEnergyStorageInformation_BatteryFullStatus)) (\<lambda>v12.
     field ''ElectricEnergyStorageInformation-BatteryEmptyStatus'' (ReadRaw go_uint8 (Some fieldSpec_ElectricEnergyStorageInformation_BatteryEmptyStatus)) (\<lambda>v13.
     skip 4 (
     field ''ElectricEnergyStorageInformation-MaximumChargeSoc'' (ReadRaw go_uint8 (Some fieldSpec_ElectricEnergyStorageInformation_MaximumChargeSoc)) (\<lambda>v15.
     field ''ElectricEnergyStorageInformation-MinimumChargeSoc'' (ReadRaw go_uint8 (Some fieldSpec_ElectricEnergyStorageInformation_MinimumChargeSoc)) (\<lambda>v16.
     returnE \<lparr>ElectricEnergyStorageInformation_Info = info,
       ElectricEnergyStorageInformation_EnergyStorageIdentifier = map_option of_int v1,
       ElectricEnergyStorageInformation_MotorType = map_option of_int v2,
       ElectricEnergyStorageInformation_StorageChemistryConversion = map_option of_int v4,
       ElectricEnergyStorageInformation_MaximumTemperatureDerating = nullableUnit lib Kelvin v5,
       ElectricEnergyStorageInformation_MaximumTemperatureShutOff = nullableUnit lib Kelvin v6,
       ElectricEnergyStorageInformation_MinimumTemperatureDerating = nullableUnit lib Kelvin v7,
       ElectricEnergyStorageInformation_MinimumTemperatureShutOff = nullableUnit lib Kelvin v8,
       ElectricEnergyStorageInformation_UsableBatteryEnergy = map_option of_int v9,
       ElectricEnergyStorageInformation_StateOfHealth = map_option of_int v10,
       ElectricEnergyStorageInformation_BatteryCycleCounter = map_option of_int v11,
       ElectricEnergyStorageInformation_BatteryFullStatus = map_option of_int v12,
       ElectricEnergyStorageInformation_BatteryEmptyStatus = map_option of_int v13,
       ElectricEnergyStorageInformation_MaximumChargeSoc = map_option of_int v15,
       ElectricEnergyStorageInformation_MinimumChargeSoc = map_option of_int v16\<rparr>))))))))))))))))"

definition EncodeElectricEnergyStorageInformation :: "'q units_lib \<Rightarrow> (rat \<Rightarrow> u64) \<Rightarrow> gotime \<Rightarrow> 'q ElectricEnergyStorageInformation \<Rightarrow> (DataStream, MessageInfo) step" where
  "EncodeElectricEnergyStorageInformation lib hw now p =
     seqE (WriteRaw (map_option uint (ElectricEnergyStorageInformation_EnergyStorageIdentifier p)) (Some fieldSpec_ElectricEnergyStorageInformation_EnergyStorageIdentifier)) (\<lambda>_.
     seqE (WriteRaw (map_option uint (ElectricEnergyStorageInformation_MotorType p)) (Some fieldSpec_ElectricEnergyStorageInformation_MotorType)) (\<lambda>_.
     seqE (writeReserved 4 12) (\<lambda>_.
     seqE (WriteRaw (map_option uint (ElectricEnergyStorageInformation_StorageChemistryConversion p)) (Some fieldSpec_ElectricEnergyStorageInformation_StorageChemistryConversion)) (\<lambda>_.
     seqE (writeUnit lib hw Kelvin (ElectricEnergyStorageInformation_MaximumTemperatureDerating p) (Some fieldSpec_ElectricEnergyStorageInformation_MaximumTemperatureDerating)) (\<lambda>_.
     seqE (writeUnit lib hw Kelvin (ElectricEnergyStorageInformation_MaximumTemperatureShutOff p) (Some fieldSpec_ElectricEnergyStorageInformation_MaximumTemperatureShutOff)) (\<lambda>_.
     seqE (writeUnit lib hw Kelvin (ElectricEnergyStorageInformation_MinimumTemperatureDerating p) (Some fieldSpec_ElectricEnergyStorageInformation_MinimumTemperatureDerating)) (\<lambda>_.
     seqE (writeUnit lib hw Kelvin (ElectricEnergyStorageInformation_MinimumTemperatureShutOff p) (Some fieldSpec_ElectricEnergyStorageInformation_MinimumTemperatureShutOff)) (\<lambda>_.
     seqE (WriteRaw (map_option uint (ElectricEnergyStorageInformation_UsableBatteryEnergy p)) (Some fieldSpec_ElectricEnergyStorageInformation_UsableBatteryEnergy)) (\<lambda>_.
     seqE (WriteRaw (map_option uint (ElectricEnergyStorageInformation_StateOfHealth p)) (Some fieldSpec_ElectricEnergyStorageInformation_StateOfHealth)) (\<lambda>_.
     seqE (WriteRaw (map_option uint (ElectricEnergyStorageInformation_BatteryCycleCounter p)) (Some fieldSpec_ElectricEnergyStorageInformation_BatteryCycleCounter)) (\<lambda>_.
     seqE (WriteRaw (map_option uint (ElectricEnergyStorageInformation_BatteryFullStatus p)) (Some fieldSpec_ElectricEnergyStorageInformation_BatteryFullStatus)) (\<lambda>_.
     seqE (WriteRaw (map_option uint (ElectricEnergyStorageInformation_BatteryEmptyStatus p)) (Some fieldSpec_ElectricEnergyStorageInformation_BatteryEmptyStatus)) (\<lambda>_.
     seqE (writeReserved 4 148) (\<lambda>_.
     seqE (WriteRaw (map_option uint (ElectricEnergyStorageInformation_MaximumChargeSoc p)) (Some fieldSpec_ElectricEnergyStorageInformation_MaximumChargeSoc)) (\<lambda>_.
     seqE (WriteRaw (map_option uint (ElectricEnergyStorageInformation_MinimumChargeSoc p)) (Some fieldSpec_ElectricEnergyStorageInformation_MinimumChargeSoc)) (\<lambda>_.
     returnE (finish_info now 127495 (ElectricEnergyStorageInformation_Info p))))))))))))))))))"

definition ElectricEnergyStorageInformation_received :: "'q units_lib \<Rightarrow> (rat \<Rightarrow> u64) \<Rightarrow> MessageInfo \<Rightarrow> 'q ElectricEnergyStorageInformation \<Rightarrow> 'q ElectricEnergyStorageInformation" where
  "ElectricEnergyStorageInformation_received lib hw info p = \<lparr>ElectricEnergyStorageInformation_Info = info,
     ElectricEnergyStorageInformation_EnergyStorageIdentifier = pin fieldSpec_ElectricEnergyStorageInformation_EnergyStorageIdentifier (ElectricEnergyStorageInformation_EnergyStorageIdentifier p),
     ElectricEnergyStorageInformation_MotorType = pin fieldSpec_ElectricEnergyStorageInformation_MotorType (ElectricEnergyStorageInformation_MotorType p),
     ElectricEnergyStorageInformation_StorageChemistryConversion = pin fieldSpec_ElectricEnergyStorageInformation_StorageChemistryConversion (ElectricEnergyStorageInformation_StorageChemistryConversion p),
     ElectricEnergyStorageInformation_MaximumTemperatureDerating = map_option (unit_back lib hw Kelvin fieldSpec_ElectricEnergyStorageInformation_MaximumTemperatureDerating) (ElectricEnergyStorageInformation_MaximumTemperatureDerating p),
     ElectricEnergyStorageInformation_MaximumTemperatureShutOff = map_option (unit_back lib hw Kelvin fieldSpec_ElectricEnergyStorageInformation_MaximumTemperatureShutOff) (ElectricEnergyStorageInformation_MaximumTemperatureShutOff p),
     ElectricEnergyStorageInformation_MinimumTemperatureDerating = map_option (unit_back lib hw Kelvin fieldSpec_ElectricEnergyStorageInformation_MinimumTemperatureDerating) (ElectricEnergyStorageInformation_MinimumTemperatureDerating p),
     ElectricEnergyStorageInformation_MinimumTemperatureShutOff = map_option (unit_back lib hw Kelvin fieldSpec_ElectricEnergyStorageInformation_MinimumTemperatureShutOff) (ElectricEnergyStorageInformation_MinimumTemperatureShutOff p),
     ElectricEnergyStorageInformation_UsableBatteryEnergy = pin fieldSpec_ElectricEnergyStorageInformation_UsableBatteryEnergy (ElectricEnergyStorageInformation_UsableBatteryEnergy p),
     ElectricEnergyStorageInformation_StateOfHealth = pin fieldSpec_ElectricEnergyStorageInformation_StateOfHealth (ElectricEnergyStorageInformation_StateOfHealth p),
     ElectricEnergyStorageInformation_BatteryCycleCounter = pin fieldSpec_ElectricEnergyStorageInformation_BatteryCycleCounter (ElectricEnergyStorageInformation_BatteryCycleCounter p),
     ElectricEnergyStorageInformation_BatteryFullStatus = pin fieldSpec_ElectricEnergyStorageInformation_BatteryFullStatus (ElectricEnergyStorageInformation_BatteryFullStatus p),
     ElectricEnergyStorageInformation_BatteryEmptyStatus = pin fieldSpec_ElectricEnergyStorageInformation_BatteryEmptyStatus (ElectricEnergyStorageInformation_BatteryEmptyStatus p),
     ElectricEnergyStorageInformation_MaximumChargeSoc = pin fieldSpec_ElectricEnergyStorageInformation_MaximumChargeSoc (ElectricEnergyStorageInformation_MaximumChargeSoc p),
     ElectricEnergyStorageInformation_MinimumChargeSoc = pin fieldSpec_ElectricEnergyStorageInformation_MinimumChargeSoc (ElectricEnergyStorageInformation_MinimumChargeSoc p)\<rparr>"

lemma ElectricEnergyStorageInformation_codec: "codec (EncodeElectricEnergyStorageInformation lib hw) (DecodeElectricEnergyStorageInformation lib) ElectricEnergyStorageInformation_Info 127495 21
    (\<lambda>_. True) (ElectricEnergyStorageInformation_received lib hw)"
  unfolding EncodeElectricEnergyStorageInformation_def DecodeElectricEnergyStorageInformation_def ElectricEnergyStorageInformation_received_def
  by (rule codec.intro, rule carries_cong, (rule codec_steps carries_end
      | simp add: codec_facts pin_read lookup_read lookup_read_1 unit_read fieldSpec_ElectricEnergyStorageInformation_EnergyStorageIdentifier_def fieldSpec_ElectricEnergyStorageInformation_MotorType_def fieldSpec_ElectricEnergyStorageInformation_StorageChemistryConversion_def fieldSpec_ElectricEnergyStorageInformation_MaximumTemperatureDerating_def fieldSpec_ElectricEnergyStorageInformation_MaximumTemperatureShutOff_def fieldSpec_ElectricEnergyStorageInformation_MinimumTemperatureDerating_def fieldSpec_ElectricEnergyStorageInformation_MinimumTemperatureShutOff_def fieldSpec_ElectricEnergyStorageInformation_UsableBatteryEnergy_def fieldSpec_ElectricEnergyStorageInformation_StateOfHealth_def fieldSpec_ElectricEnergyStorageInformation_BatteryCycleCounter_def fieldSpec_ElectricEnergyStorageInformation_BatteryFullStatus_def fieldSpec_ElectricEnergyStorageInformation_BatteryEmptyStatus_def fieldSpec_ElectricEnergyStorageInformation_MaximumChargeSoc_def fieldSpec_ElectricEnergyStorageInformation_MinimumChargeSoc_def)+)

subsection \<open>FluidLevel\<close>

definition fieldSpec_FluidLevel_Instance :: FieldSpec where
  "fieldSpec_FluidLevel_Instance = unsigned_spec 4 0 0xD 0xF 2"

definition fieldSpec_FluidLevel_Level :: ScaledSpec where
  "fieldSpec_FluidLevel_Level =
     scaled_spec 16 8 0x7FFD 0x7FFF 0 True 2 (fl64 0.004000000189989805) None None"

definition fieldSpec_FluidLevel_Capacity :: ScaledSpec where
  "fieldSpec_FluidLevel_Capacity =
     scaled_spec 32 24 0xFFFFFFFD 0xFFFFFFFF 0 False 2 (fl64 0.10000000149011612) None None"

record 'q FluidLevel =
  FluidLevel_Info :: MessageInfo
  FluidLevel_Instance :: "u8 option"
  FluidLevel_Type :: u8
  FluidLevel_Level :: "rat option"
  FluidLevel_Capacity :: "'q option"

definition DecodeFluidLevel :: "'q units_lib \<Rightarrow> MessageInfo \<Rightarrow> (DataStream, 'q FluidLevel) step" where
  "DecodeFluidLevel lib info =
     field ''FluidLevel-Instance'' (ReadRaw go_uint8 (Some fieldSpec_FluidLevel_Instance)) (\<lambda>v1.
     field ''FluidLevel-Type'' (readLookupField 4) (\<lambda>v2.
     field ''FluidLevel-Level'' (ReadScaled 24 (Some fieldSpec_FluidLevel_Level)) (\<lambda>v3.
     field ''FluidLevel-Capacity'' (ReadScaled 24 (Some fieldSpec_FluidLevel_Capacity)) (\<lambda>v4.
     skip 8 (
     returnE \<lparr>FluidLevel_Info = info,
       FluidLevel_Instance = map_option of_int v1,
       FluidLevel_Type = ucast v2,
       FluidLevel_Level = v3,
       FluidLevel_Capacity = nullableUnit lib Liter v4\<rparr>)))))"

definition EncodeFluidLevel :: "'q units_lib \<Rightarrow> (rat \<Rightarrow> u64) \<Rightarrow> gotime \<Rightarrow> 'q FluidLevel \<Rightarrow> (DataStream, MessageInfo) step" where
  "EncodeFluidLevel lib hw now p =
     seqE (WriteRaw (map_option uint (FluidLevel_Instance p)) (Some fieldSpec_FluidLevel_Instance)) (\<lambda>_.
     seqE (putNumberRaw (ucast (FluidLevel_Type p)) 4 4) (\<lambda>_.
     seqE (WriteScaled hw (FluidLevel_Level p) (Some fieldSpec_FluidLevel_Level)) (\<lambda>_.
     seqE (writeUnit lib hw Liter (FluidLevel_Capacity p) (Some fieldSpec_FluidLevel_Capacity)) (\<lambda>_.
     seqE (writeReserved 8 56) (\<lambda>_.
     returnE (finish_info now 127505 (FluidLevel_Info p)))))))"

definition FluidLevel_received :: "'q units_lib \<Rightarrow> (rat \<Rightarrow> u64) \<Rightarrow> MessageInfo \<Rightarrow> 'q FluidLevel \<Rightarrow> 'q FluidLevel" where
  "FluidLevel_received lib hw info p = \<lparr>FluidLevel_Info = info,
     FluidLevel_Instance = pin fieldSpec_FluidLevel_Instance (FluidLevel_Instance p),
     FluidLevel_Type = take_bit 4 (FluidLevel_Type p),
     FluidLevel_Level = map_option (scaled_back hw 24 fieldSpec_FluidLevel_Level) (FluidLevel_Level p),
     FluidLevel_Capacity = map_option (unit_back lib hw Liter fieldSpec_FluidLevel_Capacity) (FluidLevel_Capacity p)\<rparr>"

lemma FluidLevel_codec: "codec (EncodeFluidLevel lib hw) (DecodeFluidLevel lib) FluidLevel_Info 127505 8
    (\<lambda>_. True) (FluidLevel_received lib hw)"
  unfolding EncodeFluidLevel_def DecodeFluidLevel_def FluidLevel_received_def
  by (rule codec.intro, rule carries_cong, (rule codec_steps carries_end
      | simp add: codec_facts pin_read lookup_read lookup_read_1 unit_read fieldSpec_FluidLevel_Instance_def fieldSpec_FluidLevel_Level_def fieldSpec_FluidLevel_Capacity_def)+)

subsection \<open>ElectricDriveStatusRapidUpdate\<close>

definition fieldSpec_ElectricDriveStatusRapidUpdate_InverterMotorController :: FieldSpec where
  "fieldSpec_ElectricDriveStatusRapidUpdate_InverterMotorController = unsigned_spec 8 0 0xFD 0xFF 2"

definition fieldSpec_ElectricDriveStatusRapidUpdate_ActiveMotorMode :: FieldSpec where
  "fieldSpec_ElectricDriveStatusRapidUpdate_ActiveMotorMode = unsigned_spec 2 8 0x2 0x3 1"

definition fieldSpec_ElectricDriveStatusRapidUpdate_BrakeMode :: FieldSpec where
  "fieldSpec_ElectricDriveStatusRapidUpdate_BrakeMode = unsigned_spec 2 10 0x2 0x3 1"

definition fieldSpec_ElectricDriveStatusRapidUpdate_RotationalShaftSpeed :: ScaledSpec where
  "fieldSpec_ElectricDriveStatusRapidUpdate_RotationalShaftSpeed =
     scaled_spec 16 16 0xFFFD 0xFFFF 0 False 2 0.25 None None"

definition fieldSpec_ElectricDriveStatusRapidUpdate_MotorDCVoltage :: ScaledSpec where
  "fieldSpec_ElectricDriveStatusRapidUpdate_MotorDCVoltage =
     scaled_spec 16 32 0xFFFD 0xFFFF 0 False 2 (fl64 0.10000000149011612) None None"

definition fieldSpec_ElectricDriveStatusRapidUpdate_MotorDCCurrent :: ScaledSpec where
  "fieldSpec_ElectricDriveStatusRapidUpdate_MotorDCCurrent =
     scaled_spec 16 48 0x7FFD 0x7FFF 0 True 2 (fl64 0.10000000149011612) (Some (fl64 (- 3276.7))) (Some (fl64 3276.4))"

record ElectricDriveStatusRapidUpdate =
  ElectricDriveStatusRapidUpdate_Info :: MessageInfo
  ElectricDriveStatusRapidUpdate_InverterMotorController :: "u8 option"
  ElectricDriveStatusRapidUpdate_ActiveMotorMode :: "u8 option"
  ElectricDriveStatusRapidUpdate_BrakeMode :: "u8 option"
  ElectricDriveStatusRapidUpdate_RotationalShaftSpeed :: "rat option"
  ElectricDriveStatusRapidUpdate_MotorDCVoltage :: "rat option"
  ElectricDriveStatusRapidUpdate_MotorDCCurrent :: "rat option"

definition DecodeElectricDriveStatusRapidUpdate :: "MessageInfo \<Rightarrow> (DataStream, ElectricDriveStatusRapidUpdate) step" where
  "DecodeElectricDriveStatusRapidUpdate info =
     field ''ElectricDriveStatusRapidUpdate-InverterMotorController'' (ReadRaw go_uint8 (Some fieldSpec_ElectricDriveStatusRapidUpdate_InverterMotorController)) (\<lambda>v1.
     field ''ElectricDriveStatusRapidUpdate-ActiveMotorMode'' (ReadRaw go_uint8 (Some fieldSpec_ElectricDriveStatusRapidUpdate_ActiveMotorMode)) (\<lambda>v2.
     field ''ElectricDriveStatusRapidUpdate-BrakeMode'' (ReadRaw go_uint8 (Some fieldSpec_ElectricDriveStatusRapidUpdate_BrakeMode)) (\<lambda>v3.
     skip 4 (
     field ''ElectricDriveStatusRapidUpdate-RotationalShaftSpeed'' (ReadScaled 24 (Some fieldSpec_ElectricDriveStatusRapidUpdate_RotationalShaftSpeed)) (\<lambda>v5.
     field ''ElectricDriveStatusRapidUpdate-MotorDCVoltage'' (ReadScaled 24 (Some fieldSpec_ElectricDriveStatusRapidUpdate_MotorDCVoltage)) (\<lambda>v6.
     field ''ElectricDriveStatusRapidUpdate-MotorDCCurrent'' (ReadScaled 24 (Some fieldSpec_ElectricDriveStatusRapidUpdate_MotorDCCurrent)) (\<lambda>v7.
     returnE \<lparr>ElectricDriveStatusRapidUpdate_Info = info,
       ElectricDriveStatusRapidUpdate_InverterMotorController = map_option of_int v1,
       ElectricDriveStatusRapidUpdate_ActiveMotorMode = map_option of_int v2,
       ElectricDriveStatusRapidUpdate_BrakeMode = map_option of_int v3,
       ElectricDriveStatusRapidUpdate_RotationalShaftSpeed = v5,
       ElectricDriveStatusRapidUpdate_MotorDCVoltage = v6,
       ElectricDriveStatusRapidUpdate_MotorDCCurrent = v7\<rparr>)))))))"

definition EncodeElectricDriveStatusRapidUpdate :: "(rat \<Rightarrow> u64) \<Rightarrow> gotime \<Rightarrow> ElectricDriveStatusRapidUpdate \<Rightarrow> (DataStream, MessageInfo) step" where
  "EncodeElectricDriveStatusRapidUpdate hw now p =
     seqE (WriteRaw (map_option uint (ElectricDriveStatusRapidUpdate_InverterMotorController p)) (Some fieldSpec_ElectricDriveStatusRapidUpdate_InverterMotorController)) (\<lambda>_.
     seqE (WriteRaw (map_option uint (ElectricDriveStatusRapidUpdate_ActiveMotorMode p)) (Some fieldSpec_ElectricDriveStatusRapidUpdate_ActiveMotorMode)) (\<lambda>_.
     seqE (WriteRaw (map_option uint (ElectricDriveStatusRapidUpdate_BrakeMode p)) (Some fieldSpec_ElectricDriveStatusRapidUpdate_BrakeMode)) (\<lambda>_.
     seqE (writeReserved 4 12) (\<lambda>_.
     seqE (WriteScaled hw (ElectricDriveStatusRapidUpdate_RotationalShaftSpeed p) (Some fieldSpec_ElectricDriveStatusRapidUpdate_RotationalShaftSpeed)) (\<lambda>_.
     seqE (WriteScaled hw (ElectricDriveStatusRapidUpdate_MotorDCVoltage p) (Some fieldSpec_ElectricDriveStatusRapidUpdate_MotorDCVoltage)) (\<lambda>_.
     seqE (WriteScaled hw (ElectricDriveStatusRapidUpdate_MotorDCCurrent p) (Some fieldSpec_ElectricDriveStatusRapidUpdate_MotorDCCurrent)) (\<lambda>_.
     returnE (finish_info now 128002 (ElectricDriveStatusRapidUpdate_Info p)))))))))"

definition ElectricDriveStatusRapidUpdate_received :: "(rat \<Rightarrow> u64) \<Rightarrow> MessageInfo \<Rightarrow> ElectricDriveStatusRapidUpdate \<Rightarrow> ElectricDriveStatusRapidUpdate" where
  "ElectricDriveStatusRapidUpdate_received hw info p = \<lparr>ElectricDriveStatusRapidUpdate_Info = info,
     ElectricDriveStatusRapidUpdate_InverterMotorController = pin fieldSpec_ElectricDriveStatusRapidUpdate_InverterMotorController (ElectricDriveStatusRapidUpdate_InverterMotorController p),
     ElectricDriveStatusRapidUpdate_ActiveMotorMode = pin fieldSpec_ElectricDriveStatusRapidUpdate_ActiveMotorMode (ElectricDriveStatusRapidUpdate_ActiveMotorMode p),
     ElectricDriveStatusRapidUpdate_BrakeMode = pin fieldSpec_ElectricDriveStatusRapidUpdate_BrakeMode (ElectricDriveStatusRapidUpdate_BrakeMode p),
     ElectricDriveStatusRapidUpdate_RotationalShaftSpeed = map_option (scaled_back hw 24 fieldSpec_ElectricDriveStatusRapidUpdate_RotationalShaftSpeed) (ElectricDriveStatusRapidUpdate_RotationalShaftSpeed p),
     ElectricDriveStatusRapidUpdate_MotorDCVoltage = map_option (scaled_back hw 24 fieldSpec_ElectricDriveStatusRapidUpdate_MotorDCVoltage) (ElectricDriveStatusRapidUpdate_MotorDCVoltage p),
     ElectricDriveStatusRapidUpdate_MotorDCCurrent = map_option (scaled_back hw 24 fieldSpec_ElectricDriveStatusRapidUpdate_MotorDCCurrent) (ElectricDriveStatusRapidUpdate_MotorDCCurrent p)\<rparr>"

lemma ElectricDriveStatusRapidUpdate_codec: "codec (EncodeElectricDriveStatusRapidUpdate hw) DecodeElectricDriveStatusRapidUpdate ElectricDriveStatusRapidUpdate_Info 128002 8
    (\<lambda>_. True) (ElectricDriveStatusRapidUpdate_received hw)"
  unfolding EncodeElectricDriveStatusRapidUpdate_def DecodeElectricDriveStatusRapidUpdate_def ElectricDriveStatusRapidUpdate_received_def
  by (rule codec.intro, rule carries_cong, (rule codec_steps carries_end
      | simp add: codec_facts pin_read lookup_read lookup_read_1 unit_read fieldSpec_ElectricDriveStatusRapidUpdate_InverterMotorController_def fieldSpec_ElectricDriveStatusRapidUpdate_ActiveMotorMode_def fieldSpec_ElectricDriveStatusRapidUpdate_BrakeMode_def fieldSpec_ElectricDriveStatusRapidUpdate_RotationalShaftSpeed_def fieldSpec_ElectricDriveStatusRapidUpdate_MotorDCVoltage_def fieldSpec_ElectricDriveStatusRapidUpdate_MotorDCCurrent_def)+)

subsection \<open>ElectricEnergyStorageStatusRapidUpdate\<close>

definition fieldSpec_ElectricEnergyStorageStatusRapidUpdate_EnergyStorageIdentifier :: FieldSpec where
  "fieldSpec_ElectricEnergyStorageStatusRapidUpdate_EnergyStorageIdentifier = unsigned_spec 8 0 0xFD 0xFF 2"

definition fieldSpec_ElectricEnergyStorageStatusRapidUpdate_BatteryStatus :: FieldSpec where
  "fieldSpec_ElectricEnergyStorageStatusRapidUpdate_BatteryStatus = unsigned_spec 2 8 0x2 0x3 1"

definition fieldSpec_ElectricEnergyStorageStatusRapidUpdate_IsolationStatus :: FieldSpec where
  "fieldSpec_ElectricEnergyStorageStatusRapidUpdate_IsolationStatus = unsigned_spec 2 10 0x2 0x3 1"

definition fieldSpec_ElectricEnergyStorageStatusRapidUpdate_BatteryError :: FieldSpec where
  "fieldSpec_ElectricEnergyStorageStatusRapidUpdate_BatteryError = unsigned_spec 4 12 0xD 0xF 2"

definition fieldSpec_ElectricEnergyStorageStatusRapidUpdate_BatteryVoltage :: ScaledSpec where
  "fieldSpec_ElectricEnergyStorageStatusRapidUpdate_BatteryVoltage =
     scaled_spec 16 16 0xFFFD 0xFFFF 0 False 2 (fl64 0.10000000149011612) None None"

definition fieldSpec_ElectricEnergyStorageStatusRapidUpdate_BatteryCurrent :: ScaledSpec where
  "fieldSpec_ElectricEnergyStorageStatusRapidUpdate_BatteryCurrent =
     scaled_spec 16 32 0x7FFD 0x7FFF 0 True 2 (fl64 0.10000000149011612) (Some (fl64 (- 3276.7))) (Some (fl64 3276.4))"

record ElectricEnergyStorageStatusRapidUpdate =
  ElectricEnergyStorageStatusRapidUpdate_Info :: MessageInfo
  ElectricEnergyStorageStatusRapidUpdate_EnergyStorageIdentifier :: "u8 option"
  ElectricEnergyStorageStatusRapidUpdate_BatteryStatus :: "u8 option"
  ElectricEnergyStorageStatusRapidUpdate_IsolationStatus :: "u8 option"
  ElectricEnergyStorageStatusRapidUpdate_BatteryError :: "u8 option"
  ElectricEnergyStorageStatusRapidUpdate_BatteryVoltage :: "rat option"
  ElectricEnergyStorageStatusRapidUpdate_BatteryCurrent :: "rat option"

definition DecodeElectricEnergyStorageStatusRapidUpdate :: "MessageInfo \<Rightarrow> (DataStream, ElectricEnergyStorageStatusRapidUpdate) step" where
  "DecodeElectricEnergyStorageStatusRapidUpdate info =
     field ''ElectricEnergyStorageStatusRapidUpdate-EnergyStorageIdentifier'' (ReadRaw go_uint8 (Some fieldSpec_ElectricEnergyStorageStatusRapidUpdate_EnergyStorageIdentifier)) (\<lambda>v1.
     field ''ElectricEnergyStorageStatusRapidUpdate-BatteryStatus'' (ReadRaw go_uint8 (Some fieldSpec_ElectricEnergyStorageStatusRapidUpdate_BatteryStatus)) (\<lambda>v2.
     field ''ElectricEnergyStorageStatusRapidUpdate-IsolationStatus'' (ReadRaw go_uint8 (Some fieldSpec_ElectricEnergyStorageStatusRapidUpdate_IsolationStatus)) (\<lambda>v3.
     field ''ElectricEnergyStorageStatusRapidUpdate-BatteryError'' (ReadRaw go_uint8 (Some fieldSpec_ElectricEnergyStorageStatusRapidUpdate_BatteryError)) (\<lambda>v4.
     field ''ElectricEnergyStorageStatusRapidUpdate-BatteryVoltage'' (ReadScaled 24 (Some fieldSpec_ElectricEnergyStorageStatusRapidUpdate_BatteryVoltage)) (\<lambda>v5.
     field ''ElectricEnergyStorageStatusRapidUpdate-BatteryCurrent'' (ReadScaled 24 (Some fieldSpec_ElectricEnergyStorageStatusRapidUpdate_BatteryCurrent)) (\<lambda>v6.
     skip 16 (
     returnE \<lparr>ElectricEnergyStorageStatusRapidUpdate_Info = info,
       ElectricEnergyStorageStatusRapidUpdate_EnergyStorageIdentifier = map_option of_int v1,
       ElectricEnergyStorageStatusRapidUpdate_BatteryStatus = map_option of_int v2,
       ElectricEnergyStorageStatusRapidUpdate_IsolationStatus = map_option of_int v3,
       ElectricEnergyStorageStatusRapidUpdate_BatteryError = map_option of_int v4,
       ElectricEnergyStorageStatusRapidUpdate_BatteryVoltage = v5,
       ElectricEnergyStorageStatusRapidUpdate_BatteryCurrent = v6\<rparr>)))))))"

definition EncodeElectricEnergyStorageStatusRapidUpdate :: "(rat \<Rightarrow> u64) \<Rightarrow> gotime \<Rightarrow> ElectricEnergyStorageStatusRapidUpdate \<Rightarrow> (DataStream, MessageInfo) step" where
  "EncodeElectricEnergyStorageStatusRapidUpdate hw now p =
     seqE (WriteRaw (map_option uint (ElectricEnergyStorageStatusRapidUpdate_EnergyStorageIdentifier p)) (Some fieldSpec_ElectricEnergyStorageStatusRapidUpdate_EnergyStorageIdentifier)) (\<lambda>_.
     seqE (WriteRaw (map_option uint (ElectricEnergyStorageStatusRapidUpdate_BatteryStatus p)) (Some fieldSpec_ElectricEnergyStorageStatusRapidUpdate_BatteryStatus)) (\<lambda>_.
     seqE (WriteRaw (map_option uint (ElectricEnergyStorageStatusRapidUpdate_IsolationStatus p)) (Some fieldSpec_ElectricEnergyStorageStatusRapidUpdate_IsolationStatus)) (\<lambda>_.
     seqE (WriteRaw (map_option uint (ElectricEnergyStorageStatusRapidUpdate_BatteryError p)) (Some fieldSpec_ElectricEnergyStorageStatusRapidUpdate_BatteryError)) (\<lambda>_.
     seqE (WriteScaled hw (ElectricEnergyStorageStatusRapidUpdate_BatteryVoltage p) (Some fieldSpec_ElectricEnergyStorageStatusRapidUpdate_BatteryVoltage)) (\<lambda>_.
     seqE (WriteScaled hw (ElectricEnergyStorageStatusRapidUpdate_BatteryCurrent p) (Some fieldSpec_ElectricEnergyStorageStatusRapidUpdate_BatteryCurrent)) (\<lambda>_.
     seqE (writeReserved 16 48) (\<lambda>_.
     returnE (finish_info now 128003 (ElectricEnergyStorageStatusRapidUpdate_Info p)))))))))"

definition ElectricEnergyStorageStatusRapidUpdate_received :: "(rat \<Rightarrow> u64) \<Rightarrow> MessageInfo \<Rightarrow> ElectricEnergyStorageStatusRapidUpdate \<Rightarrow> ElectricEnergyStorageStatusRapidUpdate" where
  "ElectricEnergyStorageStatusRapidUpdate_received hw info p = \<lparr>ElectricEnergyStorageStatusRapidUpdate_Info = info,
     ElectricEnergyStorageStatusRapidUpdate_EnergyStorageIdentifier = pin fieldSpec_ElectricEnergyStorageStatusRapidUpdate_EnergyStorageIdentifier (ElectricEnergyStorageStatusRapidUpdate_EnergyStorageIdentifier p),
     ElectricEnergyStorageStatusRapidUpdate_BatteryStatus = pin fieldSpec_ElectricEnergyStorageStatusRapidUpdate_BatteryStatus (ElectricEnergyStorageStatusRapidUpdate_BatteryStatus p),
     ElectricEnergyStorageStatusRapidUpdate_IsolationStatus = pin fieldSpec_ElectricEnergyStorageStatusRapidUpdate_IsolationStatus (ElectricEnergyStorageStatusRapidUpdate_IsolationStatus p),
     ElectricEnergyStorageStatusRapidUpdate_BatteryError = pin fieldSpec_ElectricEnergyStorageStatusRapidUpdate_BatteryError (ElectricEnergyStorageStatusRapidUpdate_BatteryError p),
     ElectricEnergyStorageStatusRapidUpdate_BatteryVoltage = map_option (scaled_back hw 24 fieldSpec_ElectricEnergyStorageStatusRapidUpdate_BatteryVoltage) (ElectricEnergyStorageStatusRapidUpdate_BatteryVoltage p),
     ElectricEnergyStorageStatusRapidUpdate_BatteryCurrent = map_option (scaled_back hw 24 fieldSpec_ElectricEnergyStorageStatusRapidUpdate_BatteryCurrent) (ElectricEnergyStorageStatusRapidUpdate_BatteryCurrent p)\<rparr>"

lemma ElectricEnergyStorageStatusRapidUpdate_codec: "codec (EncodeElectricEnergyStorageStatusRapidUpdate hw) DecodeElectricEnergyStorageStatusRapidUpdate ElectricEnergyStorageStatusRapidUpdate_Info 128003 8
    (\<lambda>_. True) (ElectricEnergyStorageStatusRapidUpdate_received hw)"
  unfolding EncodeElectricEnergyStorageStatusRapidUpdate_def DecodeElectricEnergyStorageStatusRapidUpdate_def ElectricEnergyStorageStatusRapidUpdate_received_def
  by (rule codec.intro, rule carries_cong, (rule codec_steps carries_end
      | simp add: codec_facts pin_read lookup_read lookup_read_1 unit_read fieldSpec_ElectricEnergyStorageStatusRapidUpdate_EnergyStorageIdentifier_def fieldSpec_ElectricEnergyStorageStatusRapidUpdate_BatteryStatus_def fieldSpec_ElectricEnergyStorageStatusRapidUpdate_IsolationStatus_def fieldSpec_ElectricEnergyStorageStatusRapidUpdate_BatteryError_def fieldSpec_ElectricEnergyStorageStatusRapidUpdate_BatteryVoltage_def fieldSpec_ElectricEnergyStorageStatusRapidUpdate_BatteryCurrent_def)+)

subsection \<open>ThrusterControlStatus\<close>

definition fieldSpec_ThrusterControlStatus_SID :: FieldSpec where
  "fieldSpec_ThrusterControlStatus_SID = unsigned_spec 8 0 0xFD 0xFF 2"

definition fieldSpec_ThrusterControlStatus_Identifier :: FieldSpec where
  "fieldSpec_ThrusterControlStatus_Identifier = unsigned_spec 8 8 0xFD 0xFF 2"

definition fieldSpec_ThrusterControlStatus_SpeedControl :: FieldSpec where
  "fieldSpec_ThrusterControlStatus_SpeedControl = unsigned_spec 8 24 0xFD 0xFF 2"

definition fieldSpec_ThrusterControlStatus_CommandTimeout :: ScaledSpec where
  "fieldSpec_ThrusterControlStatus_CommandTimeout =
     scaled_spec 8 40 0xFD 0xFF 0 False 2 (fl64 0.004999999888241291) None None"

definition fieldSpec_ThrusterControlStatus_AzimuthControl :: ScaledSpec where
  "fieldSpec_ThrusterControlStatus_AzimuthControl =
     scaled_spec 16 48 0xFFFD 0xFFFF 0 False 2 (fl64 0.00009999999747378752) (Some 0) (Some (fl64 6.2831852))"

record ThrusterControlStatus =
  ThrusterControlStatus_Info :: MessageInfo
  ThrusterControlStatus_SID :: "u8 option"
  ThrusterControlStatus_Identifier :: "u8 option"
  ThrusterControlStatus_DirectionControl :: u8
  ThrusterControlStatus_PowerEnabled :: u8
  ThrusterControlStatus_RetractControl :: u8
  ThrusterControlStatus_SpeedControl :: "u8 option"
  ThrusterControlStatus_ControlEvents :: u16
  ThrusterControlStatus_CommandTimeout :: "rat option"
  ThrusterControlStatus_AzimuthControl :: "rat option"

definition DecodeThrusterControlStatus :: "MessageInfo \<Rightarrow> (DataStream, ThrusterControlStatus) step" where
  "DecodeThrusterControlStatus info =
     field ''ThrusterControlStatus-SID'' (ReadRaw go_uint8 (Some fieldSpec_ThrusterControlStatus_SID)) (\<lambda>v1.
     field ''ThrusterControlStatus-Identifier'' (ReadRaw go_uint8 (Some fieldSpec_ThrusterControlStatus_Identifier)) (\<lambda>v2.
     field ''ThrusterControlStatus-DirectionControl'' (readLookupField 4) (\<lambda>v3.
     field ''ThrusterControlStatus-PowerEnabled'' (readLookupField 2) (\<lambda>v4.
     field ''ThrusterControlStatus-RetractControl'' (readLookupField 2) (\<lambda>v5.
     field ''ThrusterControlStatus-SpeedControl'' (ReadRaw go_uint8 (Some fieldSpec_ThrusterControlStatus_SpeedControl)) (\<lambda>v6.
     field ''ThrusterControlStatus-ControlEvents'' (readLookupField 8) (\<lambda>v7.
     field ''ThrusterControlStatus-CommandTimeout'' (ReadScaled 24 (Some fieldSpec_ThrusterControlStatus_CommandTimeout)) (\<lambda>v8.
     field ''ThrusterControlStatus-AzimuthControl'' (ReadScaled 24 (Some fieldSpec_ThrusterControlStatus_AzimuthControl)) (\<lambda>v9.
     returnE \<lparr>ThrusterControlStatus_Info = info,
       ThrusterControlStatus_SID = map_option of_int v1,
       ThrusterControlStatus_Identifier = map_option of_int v2,
       ThrusterControlStatus_DirectionControl = ucast v3,
       ThrusterControlStatus_PowerEnabled = ucast v4,
       ThrusterControlStatus_RetractControl = ucast v5,
       ThrusterControlStatus_SpeedControl = map_option of_int v6,
       ThrusterControlStatus_ControlEvents = ucast v7,
       ThrusterControlStatus_CommandTimeout = v8,
       ThrusterControlStatus_AzimuthControl = v9\<rparr>)))))))))"

definition EncodeThrusterControlStatus :: "(rat \<Rightarrow> u64) \<Rightarrow> gotime \<Rightarrow> ThrusterControlStatus \<Rightarrow> (DataStream, MessageInfo) step" where
  "EncodeThrusterControlStatus hw now p =
     seqE (WriteRaw (map_option uint (ThrusterControlStatus_SID p)) (Some fieldSpec_ThrusterControlStatus_SID)) (\<lambda>_.
     seqE (WriteRaw (map_option uint (ThrusterControlStatus_Identifier p)) (Some fieldSpec_ThrusterControlStatus_Identifier)) (\<lambda>_.
     seqE (putNumberRaw (ucast (ThrusterControlStatus_DirectionControl p)) 4 16) (\<lambda>_.
     seqE (putNumberRaw (ucast (ThrusterControlStatus_PowerEnabled p)) 2 20) (\<lambda>_.
     seqE (putNumberRaw (ucast (ThrusterControlStatus_RetractControl p)) 2 22) (\<lambda>_.
     seqE (WriteRaw (map_option uint (ThrusterControlStatus_SpeedControl p)) (Some fieldSpec_ThrusterControlStatus_SpeedControl)) (\<lambda>_.
     seqE (putNumberRaw (ucast (ThrusterControlStatus_ControlEvents p)) 8 32) (\<lambda>_.
     seqE (WriteScaled hw (ThrusterControlStatus_CommandTimeout p) (Some fieldSpec_ThrusterControlStatus_CommandTimeout)) (\<lambda>_.
     seqE (WriteScaled hw (ThrusterControlStatus_AzimuthControl p) (Some fieldSpec_ThrusterControlStatus_AzimuthControl)) (\<lambda>_.
     returnE (finish_info now 128006 (ThrusterControlStatus_Info p)))))))))))"

definition ThrusterControlStatus_received :: "(rat \<Rightarrow> u64) \<Rightarrow> MessageInfo \<Rightarrow> ThrusterControlStatus \<Rightarrow> ThrusterControlStatus" where
  "ThrusterControlStatus_received hw info p = \<lparr>ThrusterControlStatus_Info = info,
     ThrusterControlStatus_SID = pin fieldSpec_ThrusterControlStatus_SID (ThrusterControlStatus_SID p),
     ThrusterControlStatus_Identifier = pin fieldSpec_ThrusterControlStatus_Identifier (ThrusterControlStatus_Identifier p),
     ThrusterControlStatus_DirectionControl = take_bit 4 (ThrusterControlStatus_DirectionControl p),
     ThrusterControlStatus_PowerEnabled = take_bit 2 (ThrusterControlStatus_PowerEnabled p),
     ThrusterControlStatus_RetractControl = take_bit 2 (ThrusterControlStatus_RetractControl p),
     ThrusterControlStatus_SpeedControl = pin fieldSpec_ThrusterControlStatus_SpeedControl (ThrusterControlStatus_SpeedControl p),
     ThrusterControlStatus_ControlEvents = take_bit 8 (ThrusterControlStatus_ControlEvents p),
     ThrusterControlStatus_CommandTimeout = map_option (scaled_back hw 24 fieldSpec_ThrusterControlStatus_CommandTimeout) (ThrusterControlStatus_CommandTimeout p),
     ThrusterControlStatus_AzimuthControl = map_option (scaled_back hw 24 fieldSpec_ThrusterControlStatus_AzimuthControl) (ThrusterControlStatus_AzimuthControl p)\<rparr>"

lemma ThrusterControlStatus_codec: "codec (EncodeThrusterControlStatus hw) DecodeThrusterControlStatus ThrusterControlStatus_Info 128006 8
    (\<lambda>_. True) (ThrusterControlStatus_received hw)"
  unfolding EncodeThrusterControlStatus_def DecodeThrusterControlStatus_def ThrusterControlStatus_received_def
  by (rule codec.intro, rule carries_cong, (rule codec_steps carries_end
      | simp add: codec_facts pin_read lookup_read lookup_read_1 unit_read fieldSpec_ThrusterControlStatus_SID_def fieldSpec_ThrusterControlStatus_Identifier_def fieldSpec_ThrusterControlStatus_SpeedControl_def fieldSpec_ThrusterControlStatus_CommandTimeout_def fieldSpec_ThrusterControlStatus_AzimuthControl_def)+)

subsection \<open>ThrusterInformation\<close>

definition fieldSpec_ThrusterInformation_Identifier :: FieldSpec where
  "fieldSpec_ThrusterInformation_Identifier = unsigned_spec 8 0 0xFD 0xFF 2"

definition fieldSpec_ThrusterInformation_PowerRating :: FieldSpec where
  "fieldSpec_ThrusterInformation_PowerRating = unsigned_spec 16 16 0xFFFD 0xFFFF 2"

definition fieldSpec_ThrusterInformation_MaximumTemperatureRating :: ScaledSpec where
  "fieldSpec_ThrusterInformation_MaximumTemperatureRating =
     scaled_spec 16 32 0xFFFD 0xFFFF 0 False 2 (fl64 0.009999999776482582) None None"

definition fieldSpec_ThrusterInformation_MaximumRotationalSpeed :: ScaledSpec where
  "fieldSpec_ThrusterInformation_MaximumRotationalSpeed =
     scaled_spec 16 48 0xFFFD 0xFFFF 0 False 2 0.25 None None"

record 'q ThrusterInformation =
  ThrusterInformation_Info :: MessageInfo
  ThrusterInformation_Identifier :: "u8 option"
  ThrusterInformation_MotorType :: u8
  ThrusterInformation_PowerRating :: "u16 option"
  ThrusterInformation_MaximumTemperatureRating :: "'q option"
  ThrusterInformation_MaximumRotationalSpeed :: "rat option"

definition DecodeThrusterInformation :: "'q units_lib \<Rightarrow> MessageInfo \<Rightarrow> (DataStream, 'q ThrusterInformation) step" where
  "DecodeThrusterInformation lib info =
     field ''ThrusterInformation-Identifier'' (ReadRaw go_uint8 (Some fieldSpec_ThrusterInformation_Identifier)) (\<lambda>v1.
     field ''ThrusterInformation-MotorType'' (readLookupField 4) (\<lambda>v2.
     skip 4 (
     field ''ThrusterInformation-PowerRating'' (ReadRaw go_uint16 (Some fieldSpec_ThrusterInformation_PowerRating)) (\<lambda>v4.
     field ''ThrusterInformation-MaximumTemperatureRating'' (ReadScaled 24 (Some fieldSpec_ThrusterInformation_MaximumTemperatureRating)) (\<lambda>v5.
     field ''ThrusterInformation-MaximumRotationalSpeed'' (ReadScaled 24 (Some fieldSpec_ThrusterInformation_MaximumRotationalSpeed)) (\<lambda>v6.
     returnE \<lparr>ThrusterInformation_Info = info,
       ThrusterInformation_Identifier = map_option of_int v1,
       ThrusterInformation_MotorType = ucast v2,
       ThrusterInformation_PowerRating = map_option of_int v4,
       ThrusterInformation_MaximumTemperatureRating = nullableUnit lib Kelvin v5,
       ThrusterInformation_MaximumRotationalSpeed = v6\<rparr>))))))"

definition EncodeThrusterInformation :: "'q units_lib \<Rightarrow> (rat \<Rightarrow> u64) \<Rightarrow> gotime \<Rightarrow> 'q ThrusterInformation \<Rightarrow> (DataStream, MessageInfo) step" where
  "EncodeThrusterInformation lib hw now p =
     seqE (WriteRaw (map_option uint (ThrusterInformation_Identifier p)) (Some fieldSpec_ThrusterInformation_Identifier)) (\<lambda>_.
     seqE (putNumberRaw (ucast (ThrusterInformation_MotorType p)) 4 8) (\<lambda>_.
     seqE (writeReserved 4 12) (\<lambda>_.
     seqE (WriteRaw (map_option uint (ThrusterInformation_PowerRating p)) (Some fieldSpec_ThrusterInformation_PowerRating)) (\<lambda>_.
     seqE (writeUnit lib hw Kelvin (ThrusterInformation_MaximumTemperatureRating p) (Some fieldSpec_ThrusterInformation_MaximumTemperatureRating)) (\<lambda>_.
     seqE (WriteScaled hw (ThrusterInformation_MaximumRotationalSpeed p) (Some fieldSpec_ThrusterInformation_MaximumRotationalSpeed)) (\<lambda>_.
     returnE (finish_info now 128007 (ThrusterInformation_Info p))))))))"

definition ThrusterInformation_received :: "'q units_lib \<Rightarrow> (rat \<Rightarrow> u64) \<Rightarrow> MessageInfo \<Rightarrow> 'q ThrusterInformation \<Rightarrow> 'q ThrusterInformation" where
  "ThrusterInformation_received lib hw info p = \<lparr>ThrusterInformation_Info = info,
     ThrusterInformation_Identifier = pin fieldSpec_ThrusterInformation_Identifier (ThrusterInformation_Identifier p),
     ThrusterInformation_MotorType = take_bit 4 (ThrusterInformation_MotorType p),
     ThrusterInformation_PowerRating = pin fieldSpec_ThrusterInformation_PowerRating (ThrusterInformation_PowerRating p),
     ThrusterInformation_MaximumTemperatureRating = map_option (unit_back lib hw Kelvin fieldSpec_ThrusterInformation_MaximumTemperatureRating) (ThrusterInformation_MaximumTemperatureRating p),
     ThrusterInformation_MaximumRotationalSpeed = map_option (scaled_back hw 24 fieldSpec_ThrusterInformation_MaximumRotationalSpeed) (ThrusterInformation_MaximumRotationalSpeed p)\<rparr>"

lemma ThrusterInformation_codec: "codec (EncodeThrusterInformation lib hw) (DecodeThrusterInformation lib) ThrusterInformation_Info 128007 8
    (\<lambda>_. True) (ThrusterInformation_received lib hw)"
  unfolding EncodeThrusterInformation_def DecodeThrusterInformation_def ThrusterInformation_received_def
  by (rule codec.intro, rule carries_cong, (rule codec_steps carries_end
      | simp add: codec_facts pin_read lookup_read lookup_read_1 unit_read fieldSpec_ThrusterInformation_Identifier_def fieldSpec_ThrusterInformation_PowerRating_def fieldSpec_ThrusterInformation_MaximumTemperatureRating_def fieldSpec_ThrusterInformation_MaximumRotationalSpeed_def)+)

subsection \<open>ThrusterMotorStatus\<close>

definition fieldSpec_ThrusterMotorStatus_SID :: FieldSpec where
  "fieldSpec_ThrusterMotorStatus_SID = unsigned_spec 8 0 0xFD 0xFF 2"

definition fieldSpec_ThrusterMotorStatus_Identifier :: FieldSpec where
  "fieldSpec_ThrusterMotorStatus_Identifier = unsigned_spec 8 8 0xFD 0xFF 2"

definition fieldSpec_ThrusterMotorStatus_Current :: FieldSpec where
  "fieldSpec_ThrusterMotorStatus_Current = unsigned_spec 8 24 0xFD 0xFF 2"

definition fieldSpec_ThrusterMotorStatus_Temperature :: ScaledSpec where
  "fieldSpec_ThrusterMotorStatus_Temperature =
     scaled_spec 16 32 0xFFFD 0xFFFF 0 False 2 (fl64 0.009999999776482582) None None"

definition fieldSpec_ThrusterMotorStatus_OperatingTime :: ScaledSpec where
  "fieldSpec_ThrusterMotorStatus_OperatingTime =
     scaled_spec 16 48 0xFFFD 0xFFFF 0 False 2 60 None None"

record 'q ThrusterMotorStatus =
  ThrusterMotorStatus_Info :: MessageInfo
  ThrusterMotorStatus_SID :: "u8 option"
  ThrusterMotorStatus_Identifier :: "u8 option"
  ThrusterMotorStatus_MotorEvents :: u16
  ThrusterMotorStatus_Current :: "u8 option"
  ThrusterMotorStatus_Temperature :: "'q option"
  ThrusterMotorStatus_OperatingTime :: "rat option"

definition DecodeThrusterMotorStatus :: "'q units_lib \<Rightarrow> MessageInfo \<Rightarrow> (DataStream, 'q ThrusterMotorStatus) step" where
  "DecodeThrusterMotorStatus lib info =
     field ''ThrusterMotorStatus-SID'' (ReadRaw go_uint8 (Some fieldSpec_ThrusterMotorStatus_SID)) (\<lambda>v1.
     field ''ThrusterMotorStatus-Identifier'' (ReadRaw go_uint8 (Some fieldSpec_ThrusterMotorStatus_Identifier)) (\<lambda>v2.
     field ''ThrusterMotorStatus-MotorEvents'' (readLookupField 8) (\<lambda>v3.
     field ''ThrusterMotorStatus-Current'' (ReadRaw go_uint8 (Some fieldSpec_ThrusterMotorStatus_Current)) (\<lambda>v4.
     field ''ThrusterMotorStatus-Temperature'' (ReadScaled 24 (Some fieldSpec_ThrusterMotorStatus_Temperature)) (\<lambda>v5.
     field ''ThrusterMotorStatus-OperatingTime'' (ReadScaled 24 (Some fieldSpec_ThrusterMotorStatus_OperatingTime)) (\<lambda>v6.
     returnE \<lparr>ThrusterMotorStatus_Info = info,
       ThrusterMotorStatus_SID = map_option of_int v1,
       ThrusterMotorStatus_Identifier = map_option of_int v2,
       ThrusterMotorStatus_MotorEvents = ucast v3,
       ThrusterMotorStatus_Current = map_option of_int v4,
       ThrusterMotorStatus_Temperature = nullableUnit lib Kelvin v5,
       ThrusterMotorStatus_OperatingTime = v6\<rparr>))))))"

definition EncodeThrusterMotorStatus :: "'q units_lib \<Rightarrow> (rat \<Rightarrow> u64) \<Rightarrow> gotime \<Rightarrow> 'q ThrusterMotorStatus \<Rightarrow> (DataStream, MessageInfo) step" where
  "EncodeThrusterMotorStatus lib hw now p =
     seqE (WriteRaw (map_option uint (ThrusterMotorStatus_SID p)) (Some fieldSpec_ThrusterMotorStatus_SID)) (\<lambda>_.
     seqE (WriteRaw (map_option uint (ThrusterMotorStatus_Identifier p)) (Some fieldSpec_ThrusterMotorStatus_Identifier)) (\<lambda>_.
     seqE (putNumberRaw (ucast (ThrusterMotorStatus_MotorEvents p)) 8 16) (\<lambda>_.
     seqE (WriteRaw (map_option uint (ThrusterMotorStatus_Current p)) (Some fieldSpec_ThrusterMotorStatus_Current)) (\<lambda>_.
     seqE (writeUnit lib hw Kelvin (ThrusterMotorStatus_Temperature p) (Some fieldSpec_ThrusterMotorStatus_Temperature)) (\<lambda>_.
     seqE (WriteScaled hw (ThrusterMotorStatus_OperatingTime p) (Some fieldSpec_ThrusterMotorStatus_OperatingTime)) (\<lambda>_.
     returnE (finish_info now 128008 (ThrusterMotorStatus_Info p))))))))"

definition ThrusterMotorStatus_received :: "'q units_lib \<Rightarrow> (rat \<Rightarrow> u64) \<Rightarrow> MessageInfo \<Rightarrow> 'q ThrusterMotorStatus \<Rightarrow> 'q ThrusterMotorStatus" where
  "ThrusterMotorStatus_received lib hw info p = \<lparr>ThrusterMotorStatus_Info = info,
     ThrusterMotorStatus_SID = pin fieldSpec_ThrusterMotorStatus_SID (ThrusterMotorStatus_SID p),
     ThrusterMotorStatus_Identifier = pin fieldSpec_ThrusterMotorStatus_Identifier (ThrusterMotorStatus_Identifier p),
     ThrusterMotorStatus_MotorEvents = take_bit 8 (ThrusterMotorStatus_MotorEvents p),
     ThrusterMotorStatus_Current = pin fieldSpec_ThrusterMotorStatus_Current (ThrusterMotorStatus_Current p),
     ThrusterMotorStatus_Temperature = map_option (unit_back lib hw Kelvin fieldSpec_ThrusterMotorStatus_Temperature) (ThrusterMotorStatus_Temperature p),
     ThrusterMotorStatus_OperatingTime = map_option (scaled_back hw 24 fieldSpec_ThrusterMotorStatus_OperatingTime) (ThrusterMotorStatus_OperatingTime p)\<rparr>"

lemma ThrusterMotorStatus_codec: "codec (EncodeThrusterMotorStatus lib hw) (DecodeThrusterMotorStatus lib) ThrusterMotorStatus_Info 128008 8
    (\<lambda>_. True) (ThrusterMotorStatus_received lib hw)"
  unfolding EncodeThrusterMotorStatus_def DecodeThrusterMotorStatus_def ThrusterMotorStatus_received_def
  by (rule codec.intro, rule carries_cong, (rule codec_steps carries_end
      | simp add: codec_facts pin_read lookup_read lookup_read_1 unit_read fieldSpec_ThrusterMotorStatus_SID_def fieldSpec_ThrusterMotorStatus_Identifier_def fieldSpec_ThrusterMotorStatus_Current_def fieldSpec_ThrusterMotorStatus_Temperature_def fieldSpec_ThrusterMotorStatus_OperatingTime_def)+)

subsection \<open>ElevatorMotorControl\<close>

definition fieldSpec_ElevatorMotorControl_SID :: FieldSpec where
  "fieldSpec_ElevatorMotorControl_SID = unsigned_spec 8 0 0xFD 0xFF 2"

definition fieldSpec_ElevatorMotorControl_ElevatorCarID :: FieldSpec where
  "fieldSpec_ElevatorMotorControl_ElevatorCarID = unsigned_spec 8 8 0xFD 0xFF 2"

definition fieldSpec_ElevatorMotorControl_ElevatorCarUsage :: FieldSpec where
  "fieldSpec_ElevatorMotorControl_ElevatorCarUsage = unsigned_spec 8 16 0xFD 0xFF 2"

definition fieldSpec_ElevatorMotorControl_MotorAccelerationDecelerationProfileSelection :: FieldSpec where
  "fieldSpec_ElevatorMotorControl_MotorAccelerationDecelerationProfileSelection = unsigned_spec 4 24 0xD 0xF 2"

definition fieldSpec_ElevatorMotorControl_MotorRotationalControlStatus :: FieldSpec where
  "fieldSpec_ElevatorMotorControl_MotorRotationalControlStatus = unsigned_spec 2 28 0x2 0x3 1"

record ElevatorMotorControl =
  ElevatorMotorControl_Info :: MessageInfo
  ElevatorMotorControl_SID :: "u8 option"
  ElevatorMotorControl_ElevatorCarID :: "u8 option"
  ElevatorMotorControl_ElevatorCarUsage :: "u8 option"
  ElevatorMotorControl_MotorAccelerationDecelerationProfileSelection :: "u8 option"
  ElevatorMotorControl_MotorRotationalControlStatus :: "u8 option"

definition DecodeElevatorMotorControl :: "MessageInfo \<Rightarrow> (DataStream, ElevatorMotorControl) step" where
  "DecodeElevatorMotorControl info =
     field ''ElevatorMotorControl-SID'' (ReadRaw go_uint8 (Some fieldSpec_ElevatorMotorControl_SID)) (\<lambda>v1.
     field ''ElevatorMotorControl-ElevatorCarID'' (ReadRaw go_uint8 (Some fieldSpec_ElevatorMotorControl_ElevatorCarID)) (\<lambda>v2.
     field ''ElevatorMotorControl-ElevatorCarUsage'' (ReadRaw go_uint8 (Some fieldSpec_ElevatorMotorControl_ElevatorCarUsage)) (\<lambda>v3.
     field ''ElevatorMotorControl-MotorAccelerationDecelerationProfileSelection'' (ReadRaw go_uint8 (Some fieldSpec_ElevatorMotorControl_MotorAccelerationDecelerationProfileSelection)) (\<lambda>v4.
     field ''ElevatorMotorControl-MotorRotationalControlStatus'' (ReadRaw go_uint8 (Some fieldSpec_ElevatorMotorControl_MotorRotationalControlStatus)) (\<lambda>v5.
     skip 34 (
     returnE \<lparr>ElevatorMotorControl_Info = info,
       ElevatorMotorControl_SID = map_option of_int v1,
       ElevatorMotorControl_ElevatorCarID = map_option of_int v2,
       ElevatorMotorControl_ElevatorCarUsage = map_option of_int v3,
       ElevatorMotorControl_MotorAccelerationDecelerationProfileSelection = map_option of_int v4,
       ElevatorMotorControl_MotorRotationalControlStatus = map_option of_int v5\<rparr>))))))"

definition EncodeElevatorMotorControl :: "gotime \<Rightarrow> ElevatorMotorControl \<Rightarrow> (DataStream, MessageInfo) step" where
  "EncodeElevatorMotorControl now p =
     seqE (WriteRaw (map_option uint (ElevatorMotorControl_SID p)) (Some fieldSpec_ElevatorMotorControl_SID)) (\<lambda>_.
     seqE (WriteRaw (map_option uint (ElevatorMotorControl_ElevatorCarID p)) (Some fieldSpec_ElevatorMotorControl_ElevatorCarID)) (\<lambda>_.
     seqE (WriteRaw (map_option uint (ElevatorMotorControl_ElevatorCarUsage p)) (Some fieldSpec_ElevatorMotorControl_ElevatorCarUsage)) (\<lambda>_.
     seqE (WriteRaw (map_option uint (ElevatorMotorControl_MotorAccelerationDecelerationProfileSelection p)) (Some fieldSpec_ElevatorMotorControl_MotorAccelerationDecelerationProfileSelection)) (\<lambda>_.
     seqE (WriteRaw (map_option uint (ElevatorMotorControl_MotorRotationalControlStatus p)) (Some fieldSpec_ElevatorMotorControl_MotorRotationalControlStatus)) (\<lambda>_.
     seqE (writeReserved 34 30) (\<lambda>_.
     returnE (finish_info now 128768 (ElevatorMotorControl_Info p))))))))"

definition ElevatorMotorControl_received :: "MessageInfo \<Rightarrow> ElevatorMotorControl \<Rightarrow> ElevatorMotorControl" where
  "ElevatorMotorControl_received info p = \<lparr>ElevatorMotorControl_Info = info,
     ElevatorMotorControl_SID = pin fieldSpec_ElevatorMotorControl_SID (ElevatorMotorControl_SID p),
     ElevatorMotorControl_ElevatorCarID = pin fieldSpec_ElevatorMotorControl_ElevatorCarID (ElevatorMotorControl_ElevatorCarID p),
     ElevatorMotorControl_ElevatorCarUsage = pin fieldSpec_ElevatorMotorControl_ElevatorCarUsage (ElevatorMotorControl_ElevatorCarUsage p),
     ElevatorMotorControl_MotorAccelerationDecelerationProfileSelection = pin fieldSpec_ElevatorMotorControl_MotorAccelerationDecelerationProfileSelection (ElevatorMotorControl_MotorAccelerationDecelerationProfileSelection p),
     ElevatorMotorControl_MotorRotationalControlStatus = pin fieldSpec_ElevatorMotorControl_MotorRotationalControlStatus (ElevatorMotorControl_MotorRotationalControlStatus p)\<rparr>"

lemma ElevatorMotorControl_codec: "codec EncodeElevatorMotorControl DecodeElevatorMotorControl ElevatorMotorControl_Info 128768 8
    (\<lambda>_. True) ElevatorMotorControl_received"
  unfolding EncodeElevatorMotorControl_def DecodeElevatorMotorControl_def ElevatorMotorControl_received_def
  by (rule codec.intro, rule carries_cong, (rule codec_steps carries_end
      | simp add: codec_facts pin_read lookup_read lookup_read_1 unit_read fieldSpec_ElevatorMotorControl_SID_def fieldSpec_ElevatorMotorControl_ElevatorCarID_def fieldSpec_ElevatorMotorControl_ElevatorCarUsage_def fieldSpec_ElevatorMotorControl_MotorAccelerationDecelerationProfileSelection_def fieldSpec_ElevatorMotorControl_MotorRotationalControlStatus_def)+)

subsection \<open>ElevatorDeckPushButton\<close>

definition fieldSpec_ElevatorDeckPushButton_SID :: FieldSpec where
  "fieldSpec_ElevatorDeckPushButton_SID = unsigned_spec 8 0 0xFD 0xFF 2"

definition fieldSpec_ElevatorDeckPushButton_ElevatorCallButtonID :: FieldSpec where
  "fieldSpec_ElevatorDeckPushButton_ElevatorCallButtonID = unsigned_spec 8 8 0xFD 0xFF 2"

definition fieldSpec_ElevatorDeckPushButton_DeckButtonID :: FieldSpec where
  "fieldSpec_ElevatorDeckPushButton_DeckButtonID = unsigned_spec 8 16 0xFD 0xFF 2"

definition fieldSpec_ElevatorDeckPushButton_ElevatorCarUsage :: FieldSpec where
  "fieldSpec_ElevatorDeckPushButton_ElevatorCarUsage = unsigned_spec 8 24 0xFD 0xFF 2"

definition fieldSpec_ElevatorDeckPushButton_ElevatorCarButtonSelection :: FieldSpec where
  "fieldSpec_ElevatorDeckPushButton_ElevatorCarButtonSelection = unsigned_spec 8 32 0xFD 0xFF 2"

record ElevatorDeckPushButton =
  ElevatorDeckPushButton_Info :: MessageInfo
  ElevatorDeckPushButton_SID :: "u8 option"
  ElevatorDeckPushButton_ElevatorCallButtonID :: "u8 option"
  ElevatorDeckPushButton_DeckButtonID :: "u8 option"
  ElevatorDeckPushButton_ElevatorCarUsage :: "u8 option"
  ElevatorDeckPushButton_ElevatorCarButtonSelection :: "u8 option"

definition DecodeElevatorDeckPushButton :: "MessageInfo \<Rightarrow> (DataStream, ElevatorDeckPushButton) step" where
  "DecodeElevatorDeckPushButton info =
     field ''ElevatorDeckPushButton-SID'' (ReadRaw go_uint8 (Some fieldSpec_ElevatorDeckPushButton_SID)) (\<lambda>v1.
     field ''ElevatorDeckPushButton-ElevatorCallButtonID'' (ReadRaw go_uint8 (Some fieldSpec_ElevatorDeckPushButton_ElevatorCallButtonID)) (\<lambda>v2.
     field ''ElevatorDeckPushButton-DeckButtonID'' (ReadRaw go_uint8 (Some fieldSpec_ElevatorDeckPushButton_DeckButtonID)) (\<lambda>v3.
     field ''ElevatorDeckPushButton-ElevatorCarUsage'' (ReadRaw go_uint8 (Some fieldSpec_ElevatorDeckPushButton_ElevatorCarUsage)) (\<lambda>v4.
     field ''ElevatorDeckPushButton-ElevatorCarButtonSelection'' (ReadRaw go_uint8 (Some fieldSpec_ElevatorDeckPushButton_ElevatorCarButtonSelection)) (\<lambda>v5.
     skip 24 (
     returnE \<lparr>ElevatorDeckPushButton_Info = info,
       ElevatorDeckPushButton_SID = map_option of_int v1,
       ElevatorDeckPushButton_ElevatorCallButtonID = map_option of_int v2,
       ElevatorDeckPushButton_DeckButtonID = map_option of_int v3,
       ElevatorDeckPushButton_ElevatorCarUsage = map_option of_int v4,
       ElevatorDeckPushButton_ElevatorCarButtonSelection = map_option of_int v5\<rparr>))))))"

definition EncodeElevatorDeckPushButton :: "gotime \<Rightarrow> ElevatorDeckPushButton \<Rightarrow> (DataStream, MessageInfo) step" where
  "EncodeElevatorDeckPushButton now p =
     seqE (WriteRaw (map_option uint (ElevatorDeckPushButton_SID p)) (Some fieldSpec_ElevatorDeckPushButton_SID)) (\<lambda>_.
     seqE (WriteRaw (map_option uint (ElevatorDeckPushButton_ElevatorCallButtonID p)) (Some fieldSpec_ElevatorDeckPushButton_ElevatorCallButtonID)) (\<lambda>_.
     seqE (WriteRaw (map_option uint (ElevatorDeckPushButton_DeckButtonID p)) (Some fieldSpec_ElevatorDeckPushButton_DeckButtonID)) (\<lambda>_.
     seqE (WriteRaw (map_option uint (ElevatorDeckPushButton_ElevatorCarUsage p)) (Some fieldSpec_ElevatorDeckPushButton_ElevatorCarUsage)) (\<lambda>_.
     seqE (WriteRaw (map_option uint (ElevatorDeckPushButton_ElevatorCarButtonSelection p)) (Some fieldSpec_ElevatorDeckPushButton_ElevatorCarButtonSelection)) (\<lambda>_.
     seqE (writeReserved 24 40) (\<lambda>_.
     returnE (finish_info now 128769 (ElevatorDeckPushButton_Info p))))))))"

definition ElevatorDeckPushButton_received :: "MessageInfo \<Rightarrow> ElevatorDeckPushButton \<Rightarrow> ElevatorDeckPushButton" where
  "ElevatorDeckPushButton_received info p = \<lparr>ElevatorDeckPushButton_Info = info,
     ElevatorDeckPushButton_SID = pin fieldSpec_ElevatorDeckPushButton_SID (ElevatorDeckPushButton_SID p),
     ElevatorDeckPushButton_ElevatorCallButtonID = pin fieldSpec_ElevatorDeckPushButton_ElevatorCallButtonID (ElevatorDeckPushButton_ElevatorCallButtonID p),
     ElevatorDeckPushButton_DeckButtonID = pin fieldSpec_ElevatorDeckPushButton_DeckButtonID (ElevatorDeckPushButton_DeckButtonID p),
     ElevatorDeckPushButton_ElevatorCarUsage = pin fieldSpec_ElevatorDeckPushButton_ElevatorCarUsage (ElevatorDeckPushButton_ElevatorCarUsage p),
     ElevatorDeckPushButton_ElevatorCarButtonSelection = pin fieldSpec_ElevatorDeckPushButton_ElevatorCarButtonSelection (ElevatorDeckPushButton_ElevatorCarButtonSelection p)\<rparr>"

lemma ElevatorDeckPushButton_codec: "codec EncodeElevatorDeckPushButton DecodeElevatorDeckPushButton ElevatorDeckPushButton_Info 128769 8
    (\<lambda>_. True) ElevatorDeckPushButton_received"
  unfolding EncodeElevatorDeckPushButton_def DecodeElevatorDeckPushButton_def ElevatorDeckPushButton_received_def
  by (rule codec.intro, rule carries_cong, (rule codec_steps carries_end
      | simp add: codec_facts pin_read lookup_read lookup_read_1 unit_read fieldSpec_ElevatorDeckPushButton_SID_def fieldSpec_ElevatorDeckPushButton_ElevatorCallButtonID_def fieldSpec_ElevatorDeckPushButton_DeckButtonID_def fieldSpec_ElevatorDeckPushButton_ElevatorCarUsage_def fieldSpec_ElevatorDeckPushButton_ElevatorCarButtonSelection_def)+)

subsection \<open>WindlassControlStatus\<close>

definition fieldSpec_WindlassControlStatus_SID :: FieldSpec where
  "fieldSpec_WindlassControlStatus_SID = unsigned_spec 8 0 0xFD 0xFF 2"

definition fieldSpec_WindlassControlStatus_WindlassID :: FieldSpec where
  "fieldSpec_WindlassControlStatus_WindlassID = unsigned_spec 8 8 0xFD 0xFF 2"

definition fieldSpec_WindlassControlStatus_CommandTimeout :: ScaledSpec where
  "fieldSpec_WindlassControlStatus_CommandTimeout =
     scaled_spec 8 40 0xFD 0xFF 0 False 2 (fl64 0.004999999888241291) None None"

record WindlassControlStatus =
  WindlassControlStatus_Info :: MessageInfo
  WindlassControlStatus_SID :: "u8 option"
  WindlassControlStatus_WindlassID :: "u8 option"
  WindlassControlStatus_WindlassDirectionControl :: u8
  WindlassControlStatus_AnchorDockingControl :: u8
  WindlassControlStatus_SpeedControlType :: u8
  WindlassControlStatus_SpeedControl :: bytes
  WindlassControlStatus_PowerEnable :: u8
  WindlassControlStatus_MechanicalLock :: u8
  WindlassControlStatus_DeckAndAnchorWash :: u8
  WindlassControlStatus_AnchorLight :: u8
  WindlassControlStatus_CommandTimeout :: "rat option"
  WindlassControlStatus_WindlassControlEvents :: u16

definition DecodeWindlassControlStatus :: "MessageInfo \<Rightarrow> (DataStream, WindlassControlStatus) step" where
  "DecodeWindlassControlStatus info =
     field ''WindlassControlStatus-SID'' (ReadRaw go_uint8 (Some fieldSpec_WindlassControlStatus_SID)) (\<lambda>v1.
     field ''WindlassControlStatus-WindlassID'' (ReadRaw go_uint8 (Some fieldSpec_WindlassControlStatus_WindlassID)) (\<lambda>v2.
     field ''WindlassControlStatus-WindlassDirectionControl'' (readLookupField 2) (\<lambda>v3.
     field ''WindlassControlStatus-AnchorDockingControl'' (readLookupField 2) (\<lambda>v4.
     field ''WindlassControlStatus-SpeedControlType'' (readLookupField 2) (\<lambda>v5.
     skip 2 (
     field ''WindlassControlStatus-SpeedControl'' (readBinaryData 8) (\<lambda>v7.
     field ''WindlassControlStatus-PowerEnable'' (readLookupField 2) (\<lambda>v8.
     field ''WindlassControlStatus-MechanicalLock'' (readLookupField 2) (\<lambda>v9.
     field ''WindlassControlStatus-DeckAndAnchorWash'' (readLookupField 2) (\<lambda>v10.
     field ''WindlassControlStatus-AnchorLight'' (readLookupField 2) (\<lambda>v11.
     field ''WindlassControlStatus-CommandTimeout'' (ReadScaled 24 (Some fieldSpec_WindlassControlStatus_CommandTimeout)) (\<lambda>v12.
     field ''WindlassControlStatus-WindlassControlEvents'' (readLookupField 4) (\<lambda>v13.
     skip 12 (
     returnE \<lparr>WindlassControlStatus_Info = info,
       WindlassControlStatus_SID = map_option of_int v1,
       WindlassControlStatus_WindlassID = map_option of_int v2,
       WindlassControlStatus_WindlassDirectionControl = ucast v3,
       WindlassControlStatus_AnchorDockingControl = ucast v4,
       WindlassControlStatus_SpeedControlType = ucast v5,
       WindlassControlStatus_SpeedControl = v7,
       WindlassControlStatus_PowerEnable = ucast v8,
       WindlassControlStatus_MechanicalLock = ucast v9,
       WindlassControlStatus_DeckAndAnchorWash = ucast v10,
       WindlassControlStatus_AnchorLight = ucast v11,
       WindlassControlStatus_CommandTimeout = v12,
       WindlassControlStatus_WindlassControlEvents = ucast v13\<rparr>))))))))))))))"

definition EncodeWindlassControlStatus :: "(rat \<Rightarrow> u64) \<Rightarrow> gotime \<Rightarrow> WindlassControlStatus \<Rightarrow> (DataStream, MessageInfo) step" where
  "EncodeWindlassControlStatus hw now p =
     seqE (WriteRaw (map_option uint (WindlassControlStatus_SID p)) (Some fieldSpec_WindlassControlStatus_SID)) (\<lambda>_.
     seqE (WriteRaw (map_option uint (WindlassControlStatus_WindlassID p)) (Some fieldSpec_WindlassControlStatus_WindlassID)) (\<lambda>_.
     seqE (putNumberRaw (ucast (WindlassControlStatus_WindlassDirectionControl p)) 2 16) (\<lambda>_.
     seqE (putNumberRaw (ucast (WindlassControlStatus_AnchorDockingControl p)) 2 18) (\<lambda>_.
     seqE (putNumberRaw (ucast (WindlassControlStatus_SpeedControlType p)) 2 20) (\<lambda>_.
     seqE (writeReserved 2 22) (\<lambda>_.
     seqE (writeBinary (WindlassControlStatus_SpeedControl p) 8 24) (\<lambda>_.
     seqE (putNumberRaw (ucast (WindlassControlStatus_PowerEnable p)) 2 32) (\<lambda>_.
     seqE (putNumberRaw (ucast (WindlassControlStatus_MechanicalLock p)) 2 34) (\<lambda>_.
     seqE (putNumberRaw (ucast (WindlassControlStatus_DeckAndAnchorWash p)) 2 36) (\<lambda>_.
     seqE (putNumberRaw (ucast (WindlassControlStatus_AnchorLight p)) 2 38) (\<lambda>_.
     seqE (WriteScaled hw (WindlassControlStatus_CommandTimeout p) (Some fieldSpec_WindlassControlStatus_CommandTimeout)) (\<lambda>_.
     seqE (putNumberRaw (ucast (WindlassControlStatus_WindlassControlEvents p)) 4 48) (\<lambda>_.
     seqE (writeReserved 12 52) (\<lambda>_.
     returnE (finish_info now 128776 (WindlassControlStatus_Info p))))))))))))))))"

definition WindlassControlStatus_received :: "(rat \<Rightarrow> u64) \<Rightarrow> MessageInfo \<Rightarrow> WindlassControlStatus \<Rightarrow> WindlassControlStatus" where
  "WindlassControlStatus_received hw info p = \<lparr>WindlassControlStatus_Info = info,
     WindlassControlStatus_SID = pin fieldSpec_WindlassControlStatus_SID (WindlassControlStatus_SID p),
     WindlassControlStatus_WindlassID = pin fieldSpec_WindlassControlStatus_WindlassID (WindlassControlStatus_WindlassID p),
     WindlassControlStatus_WindlassDirectionControl = take_bit 2 (WindlassControlStatus_WindlassDirectionControl p),
     WindlassControlStatus_AnchorDockingControl = take_bit 2 (WindlassControlStatus_AnchorDockingControl p),
     WindlassControlStatus_SpeedControlType = take_bit 2 (WindlassControlStatus_SpeedControlType p),
     WindlassControlStatus_SpeedControl = take 1 (WindlassControlStatus_SpeedControl p @ replicate 1 0),
     WindlassControlStatus_PowerEnable = take_bit 2 (WindlassControlStatus_PowerEnable p),
     WindlassControlStatus_MechanicalLock = take_bit 2 (WindlassControlStatus_MechanicalLock p),
     WindlassControlStatus_DeckAndAnchorWash = take_bit 2 (WindlassControlStatus_DeckAndAnchorWash p),
     WindlassControlStatus_AnchorLight = take_bit 2 (WindlassControlStatus_AnchorLight p),
     WindlassControlStatus_CommandTimeout = map_option (scaled_back hw 24 fieldSpec_WindlassControlStatus_CommandTimeout) (WindlassControlStatus_CommandTimeout p),
     WindlassControlStatus_WindlassControlEvents = take_bit 4 (WindlassControlStatus_WindlassControlEvents p)\<rparr>"

lemma WindlassControlStatus_codec: "codec (EncodeWindlassControlStatus hw) DecodeWindlassControlStatus WindlassControlStatus_Info 128776 8
    (\<lambda>p. length (WindlassControlStatus_SpeedControl p) < 65000) (WindlassControlStatus_received hw)"
  unfolding EncodeWindlassControlStatus_def DecodeWindlassControlStatus_def WindlassControlStatus_received_def
  by (rule codec.intro, rule carries_cong, (rule codec_steps carries_end
      | simp add: codec_facts pin_read lookup_read lookup_read_1 unit_read fieldSpec_WindlassControlStatus_SID_def fieldSpec_WindlassControlStatus_WindlassID_def fieldSpec_WindlassControlStatus_CommandTimeout_def)+)

subsection \<open>AnchorWindlassOperatingStatus\<close>

definition fieldSpec_AnchorWindlassOperatingStatus_SID :: FieldSpec where
  "fieldSpec_AnchorWindlassOperatingStatus_SID = unsigned_spec 8 0 0xFD 0xFF 2"

definition fieldSpec_AnchorWindlassOperatingStatus_WindlassID :: FieldSpec where
  "fieldSpec_AnchorWindlassOperatingStatus_WindlassID = unsigned_spec 8 8 0xFD 0xFF 2"

definition fieldSpec_AnchorWindlassOperatingStatus_RodeCounterValue :: ScaledSpec where
  "fieldSpec_AnchorWindlassOperatingStatus_RodeCounterValue =
     scaled_spec 16 24 0xFFFD 0xFFFF 0 False 2 (fl64 0.10000000149011612) None None"

definition fieldSpec_AnchorWindlassOperatingStatus_WindlassLineSpeed :: ScaledSpec where
  "fieldSpec_AnchorWindlassOperatingStatus_WindlassLineSpeed =
     scaled_spec 16 40 0xFFFD 0xFFFF 0 False 2 (fl64 0.009999999776482582) None None"

record 'q AnchorWindlassOperatingStatus =
  AnchorWindlassOperatingStatus_Info :: MessageInfo
  AnchorWindlassOperatingStatus_SID :: "u8 option"
  AnchorWindlassOperatingStatus_WindlassID :: "u8 option"
  AnchorWindlassOperatingStatus_WindlassDirectionControl :: u8
  AnchorWindlassOperatingStatus_WindlassMotionStatus :: u8
  AnchorWindlassOperatingStatus_RodeTypeStatus :: u8
  AnchorWindlassOperatingStatus_RodeCounterValue :: "'q option"
  AnchorWindlassOperatingStatus_WindlassLineSpeed :: "'q option"
  AnchorWindlassOperatingStatus_AnchorDockingStatus :: u8
  AnchorWindlassOperatingStatus_WindlassOperatingEvents :: u16

definition DecodeAnchorWindlassOperatingStatus :: "'q units_lib \<Rightarrow> MessageInfo \<Rightarrow> (DataStream, 'q AnchorWindlassOperatingStatus) step" where
  "DecodeAnchorWindlassOperatingStatus lib info =
     field ''AnchorWindlassOperatingStatus-SID'' (ReadRaw go_uint8 (Some fieldSpec_AnchorWindlassOperatingStatus_SID)) (\<lambda>v1.
     field ''AnchorWindlassOperatingStatus-WindlassID'' (ReadRaw go_uint8 (Some fieldSpec_AnchorWindlassOperatingStatus_WindlassID)) (\<lambda>v2.
     field ''AnchorWindlassOperatingStatus-WindlassDirectionControl'' (readLookupField 2) (\<lambda>v3.
     field ''AnchorWindlassOperatingStatus-WindlassMotionStatus'' (readLookupField 2) (\<lambda>v4.
     field ''AnchorWindlassOperatingStatus-RodeTypeStatus'' (readLookupField 2) (\<lambda>v5.
     skip 2 (
     field ''AnchorWindlassOperatingStatus-RodeCounterValue'' (ReadScaled 24 (Some fieldSpec_AnchorWindlassOperatingStatus_RodeCounterValue)) (\<lambda>v7.
     field ''AnchorWindlassOperatingStatus-WindlassLineSpeed'' (ReadScaled 24 (Some fieldSpec_AnchorWindlassOperatingStatus_WindlassLineSpeed)) (\<lambda>v8.
     field ''AnchorWindlassOperatingStatus-AnchorDockingStatus'' (readLookupField 2) (\<lambda>v9.
     field ''AnchorWindlassOperatingStatus-WindlassOperatingEvents'' (readLookupField 6) (\<lambda>v10.
     returnE \<lparr>AnchorWindlassOperatingStatus_Info = info,
       AnchorWindlassOperatingStatus_SID = map_option of_int v1,
       AnchorWindlassOperatingStatus_WindlassID = map_option of_int v2,
       AnchorWindlassOperatingStatus_WindlassDirectionControl = ucast v3,
       AnchorWindlassOperatingStatus_WindlassMotionStatus = ucast v4,
       AnchorWindlassOperatingStatus_RodeTypeStatus = ucast v5,
       AnchorWindlassOperatingStatus_RodeCounterValue = nullableUnit lib Meter v7,
       AnchorWindlassOperatingStatus_WindlassLineSpeed = nullableUnit lib MetersPerSecond v8,
       AnchorWindlassOperatingStatus_AnchorDockingStatus = ucast v9,
       AnchorWindlassOperatingStatus_WindlassOperatingEvents = ucast v10\<rparr>))))))))))"

definition EncodeAnchorWindlassOperatingStatus :: "'q units_lib \<Rightarrow> (rat \<Rightarrow> u64) \<Rightarrow> gotime \<Rightarrow> 'q AnchorWindlassOperatingStatus \<Rightarrow> (DataStream, MessageInfo) step" where
  "EncodeAnchorWindlassOperatingStatus lib hw now p =
     seqE (WriteRaw (map_option uint (AnchorWindlassOperatingStatus_SID p)) (Some fieldSpec_AnchorWindlassOperatingStatus_SID)) (\<lambda>_.
     seqE (WriteRaw (map_option uint (AnchorWindlassOperatingStatus_WindlassID p)) (Some fieldSpec_AnchorWindlassOperatingStatus_WindlassID)) (\<lambda>_.
     seqE (putNumberRaw (ucast (AnchorWindlassOperatingStatus_WindlassDirectionControl p)) 2 16) (\<lambda>_.
     seqE (putNumberRaw (ucast (AnchorWindlassOperatingStatus_WindlassMotionStatus p)) 2 18) (\<lambda>_.
     seqE (putNumberRaw (ucast (AnchorWindlassOperatingStatus_RodeTypeStatus p)) 2 20) (\<lambda>_.
     seqE (writeReserved 2 22) (\<lambda>_.
     seqE (writeUnit lib hw Meter (AnchorWindlassOperatingStatus_RodeCounterValue p) (Some fieldSpec_AnchorWindlassOperatingStatus_RodeCounterValue)) (\<lambda>_.
     seqE (writeUnit lib hw MetersPerSecond (AnchorWindlassOperatingStatus_WindlassLineSpeed p) (Some fieldSpec_AnchorWindlassOperatingStatus_WindlassLineSpeed)) (\<lambda>_.
     seqE (putNumberRaw (ucast (AnchorWindlassOperatingStatus_AnchorDockingStatus p)) 2 56) (\<lambda>_.
     seqE (putNumberRaw (ucast (AnchorWindlassOperatingStatus_WindlassOperatingEvents p)) 6 58) (\<lambda>_.
     returnE (finish_info now 128777 (AnchorWindlassOperatingStatus_Info p))))))))))))"

definition AnchorWindlassOperatingStatus_received :: "'q units_lib \<Rightarrow> (rat \<Rightarrow> u64) \<Rightarrow> MessageInfo \<Rightarrow> 'q AnchorWindlassOperatingStatus \<Rightarrow> 'q AnchorWindlassOperatingStatus" where
  "AnchorWindlassOperatingStatus_received lib hw info p = \<lparr>AnchorWindlassOperatingStatus_Info = info,
     AnchorWindlassOperatingStatus_SID = pin fieldSpec_AnchorWindlassOperatingStatus_SID (AnchorWindlassOperatingStatus_SID p),
     AnchorWindlassOperatingStatus_WindlassID = pin fieldSpec_AnchorWindlassOperatingStatus_WindlassID (AnchorWindlassOperatingStatus_WindlassID p),
     AnchorWindlassOperatingStatus_WindlassDirectionControl = take_bit 2 (AnchorWindlassOperatingStatus_WindlassDirectionControl p),
     AnchorWindlassOperatingStatus_WindlassMotionStatus = take_bit 2 (AnchorWindlassOperatingStatus_WindlassMotionStatus p),
     AnchorWindlassOperatingStatus_RodeTypeStatus = take_bit 2 (AnchorWindlassOperatingStatus_RodeTypeStatus p),
     AnchorWindlassOperatingStatus_RodeCounterValue = map_option (unit_back lib hw Meter fieldSpec_AnchorWindlassOperatingStatus_RodeCounterValue) (AnchorWindlassOperatingStatus_RodeCounterValue p),
     AnchorWindlassOperatingStatus_WindlassLineSpeed = map_option (unit_back lib hw MetersPerSecond fieldSpec_AnchorWindlassOperatingStatus_WindlassLineSpeed) (AnchorWindlassOperatingStatus_WindlassLineSpeed p),
     AnchorWindlassOperatingStatus_AnchorDockingStatus = take_bit 2 (AnchorWindlassOperatingStatus_AnchorDockingStatus p),
     AnchorWindlassOperatingStatus_WindlassOperatingEvents = take_bit 6 (AnchorWindlassOperatingStatus_WindlassOperatingEvents p)\<rparr>"

lemma AnchorWindlassOperatingStatus_codec: "codec (EncodeAnchorWindlassOperatingStatus lib hw) (DecodeAnchorWindlassOperatingStatus lib) AnchorWindlassOperatingStatus_Info 128777 8
    (\<lambda>_. True) (AnchorWindlassOperatingStatus_received lib hw)"
  unfolding EncodeAnchorWindlassOperatingStatus_def DecodeAnchorWindlassOperatingStatus_def AnchorWindlassOperatingStatus_received_def
  by (rule codec.intro, rule carries_cong, (rule codec_steps carries_end
      | simp add: codec_facts pin_read lookup_read lookup_read_1 unit_read fieldSpec_AnchorWindlassOperatingStatus_SID_def fieldSpec_AnchorWindlassOperatingStatus_WindlassID_def fieldSpec_AnchorWindlassOperatingStatus_RodeCounterValue_def fieldSpec_AnchorWindlassOperatingStatus_WindlassLineSpeed_def)+)

subsection \<open>AnchorWindlassMonitoringStatus\<close>

definition fieldSpec_AnchorWindlassMonitoringStatus_SID :: FieldSpec where
  "fieldSpec_AnchorWindlassMonitoringStatus_SID = unsigned_spec 8 0 0xFD 0xFF 2"

definition fieldSpec_AnchorWindlassMonitoringStatus_WindlassID :: FieldSpec where
  "fieldSpec_AnchorWindlassMonitoringStatus_WindlassID = unsigned_spec 8 8 0xFD 0xFF 2"

definition fieldSpec_AnchorWindlassMonitoringStatus_ControllerVoltage :: ScaledSpec where
  "fieldSpec_AnchorWindlassMonitoringStatus_ControllerVoltage =
     scaled_spec 8 24 0xFD 0xFF 0 False 2 (fl64 0.20000000298023224) None None"

definition fieldSpec_AnchorWindlassMonitoringStatus_MotorCurrent :: FieldSpec where
  "fieldSpec_AnchorWindlassMonitoringStatus_MotorCurrent = unsigned_spec 8 32 0xFD 0xFF 2"

definition fieldSpec_AnchorWindlassMonitoringStatus_TotalMotorTime :: ScaledSpec where
  "fieldSpec_AnchorWindlassMonitoringStatus_TotalMotorTime =
     scaled_spec 16 40 0xFFFD 0xFFFF 0 False 2 60 None None"

record AnchorWindlassMonitoringStatus =
  AnchorWindlassMonitoringStatus_Info :: MessageInfo
  AnchorWindlassMonitoringStatus_SID :: "u8 option"
  AnchorWindlassMonitoringStatus_WindlassID :: "u8 option"
  AnchorWindlassMonitoringStatus_WindlassMonitoringEvents :: u16
  AnchorWindlassMonitoringStatus_ControllerVoltage :: "rat option"
  AnchorWindlassMonitoringStatus_MotorCurrent :: "u8 option"
  AnchorWindlassMonitoringStatus_TotalMotorTime :: "rat option"

definition DecodeAnchorWindlassMonitoringStatus :: "MessageInfo \<Rightarrow> (DataStream, AnchorWindlassMonitoringStatus) step" where
  "DecodeAnchorWindlassMonitoringStatus info =
     field ''AnchorWindlassMonitoringStatus-SID'' (ReadRaw go_uint8 (Some fieldSpec_AnchorWindlassMonitoringStatus_SID)) (\<lambda>v1.
     field ''AnchorWindlassMonitoringStatus-WindlassID'' (ReadRaw go_uint8 (Some fieldSpec_AnchorWindlassMonitoringStatus_WindlassID)) (\<lambda>v2.
     field ''AnchorWindlassMonitoringStatus-WindlassMonitoringEvents'' (readLookupField 8) (\<lambda>v3.
     field ''AnchorWindlassMonitoringStatus-ControllerVoltage'' (ReadScaled 24 (Some fieldSpec_AnchorWindlassMonitoringStatus_ControllerVoltage)) (\<lambda>v4.
     field ''AnchorWindlassMonitoringStatus-MotorCurrent'' (ReadRaw go_uint8 (Some fieldSpec_AnchorWindlassMonitoringStatus_MotorCurrent)) (\<lambda>v5.
     field ''AnchorWindlassMonitoringStatus-TotalMotorTime'' (ReadScaled 24 (Some fieldSpec_AnchorWindlassMonitoringStatus_TotalMotorTime)) (\<lambda>v6.
     skip 8 (
     returnE \<lparr>AnchorWindlassMonitoringStatus_Info = info,
       AnchorWindlassMonitoringStatus_SID = map_option of_int v1,
       AnchorWindlassMonitoringStatus_WindlassID = map_option of_int v2,
       AnchorWindlassMonitoringStatus_WindlassMonitoringEvents = ucast v3,
       AnchorWindlassMonitoringStatus_ControllerVoltage = v4,
       AnchorWindlassMonitoringStatus_MotorCurrent = map_option of_int v5,
       AnchorWindlassMonitoringStatus_TotalMotorTime = v6\<rparr>)))))))"

definition EncodeAnchorWindlassMonitoringStatus :: "(rat \<Rightarrow> u64) \<Rightarrow> gotime \<Rightarrow> AnchorWindlassMonitoringStatus \<Rightarrow> (DataStream, MessageInfo) step" where
  "EncodeAnchorWindlassMonitoringStatus hw now p =
     seqE (WriteRaw (map_option uint (AnchorWindlassMonitoringStatus_SID p)) (Some fieldSpec_AnchorWindlassMonitoringStatus_SID)) (\<lambda>_.
     seqE (WriteRaw (map_option uint (AnchorWindlassMonitoringStatus_WindlassID p)) (Some fieldSpec_AnchorWindlassMonitoringStatus_WindlassID)) (\<lambda>_.
     seqE (putNumberRaw (ucast (AnchorWindlassMonitoringStatus_WindlassMonitoringEvents p)) 8 16) (\<lambda>_.
     seqE (WriteScaled hw (AnchorWindlassMonitoringStatus_ControllerVoltage p) (Some fieldSpec_AnchorWindlassMonitoringStatus_ControllerVoltage)) (\<lambda>_.
     seqE (WriteRaw (map_option uint (AnchorWindlassMonitoringStatus_MotorCurrent p)) (Some fieldSpec_AnchorWindlassMonitoringStatus_MotorCurrent)) (\<lambda>_.
     seqE (WriteScaled hw (AnchorWindlassMonitoringStatus_TotalMotorTime p) (Some fieldSpec_AnchorWindlassMonitoringStatus_TotalMotorTime)) (\<lambda>_.
     seqE (writeReserved 8 56) (\<lambda>_.
     returnE (finish_info now 128778 (AnchorWindlassMonitoringStatus_Info p)))))))))"

definition AnchorWindlassMonitoringStatus_received :: "(rat \<Rightarrow> u64) \<Rightarrow> MessageInfo \<Rightarrow> AnchorWindlassMonitoringStatus \<Rightarrow> AnchorWindlassMonitoringStatus" where
  "AnchorWindlassMonitoringStatus_received hw info p = \<lparr>AnchorWindlassMonitoringStatus_Info = info,
     AnchorWindlassMonitoringStatus_SID = pin fieldSpec_AnchorWindlassMonitoringStatus_SID (AnchorWindlassMonitoringStatus_SID p),
     AnchorWindlassMonitoringStatus_WindlassID = pin fieldSpec_AnchorWindlassMonitoringStatus_WindlassID (AnchorWindlassMonitoringStatus_WindlassID p),
     AnchorWindlassMonitoringStatus_WindlassMonitoringEvents = take_bit 8 (AnchorWindlassMonitoringStatus_WindlassMonitoringEvents p),
     AnchorWindlassMonitoringStatus_ControllerVoltage = map_option (scaled_back hw 24 fieldSpec_AnchorWindlassMonitoringStatus_ControllerVoltage) (AnchorWindlassMonitoringStatus_ControllerVoltage p),
     AnchorWindlassMonitoringStatus_MotorCurrent = pin fieldSpec_AnchorWindlassMonitoringStatus_MotorCurrent (AnchorWindlassMonitoringStatus_MotorCurrent p),
     AnchorWindlassMonitoringStatus_TotalMotorTime = map_option (scaled_back hw 24 fieldSpec_AnchorWindlassMonitoringStatus_TotalMotorTime) (AnchorWindlassMonitoringStatus_TotalMotorTime p)\<rparr>"

lemma AnchorWindlassMonitoringStatus_codec: "codec (EncodeAnchorWindlassMonitoringStatus hw) DecodeAnchorWindlassMonitoringStatus AnchorWindlassMonitoringStatus_Info 128778 8
    (\<lambda>_. True) (AnchorWindlassMonitoringStatus_received hw)"
  unfolding EncodeAnchorWindlassMonitoringStatus_def DecodeAnchorWindlassMonitoringStatus_def AnchorWindlassMonitoringStatus_received_def
  by (rule codec.intro, rule carries_cong, (rule codec_steps carries_end
      | simp add: codec_facts pin_read lookup_read lookup_read_1 unit_read fieldSpec_AnchorWindlassMonitoringStatus_SID_def fieldSpec_AnchorWindlassMonitoringStatus_WindlassID_def fieldSpec_AnchorWindlassMonitoringStatus_ControllerVoltage_def fieldSpec_AnchorWindlassMonitoringStatus_MotorCurrent_def fieldSpec_AnchorWindlassMonitoringStatus_TotalMotorTime_def)+)

subsection \<open>LinearActuatorControlStatus\<close>

definition fieldSpec_LinearActuatorControlStatus_ActuatorIdentifier :: FieldSpec where
  "fieldSpec_LinearActuatorControlStatus_ActuatorIdentifier = unsigned_spec 8 0 0xFD 0xFF 2"

definition fieldSpec_LinearActuatorControlStatus_CommandedDevicePosition :: FieldSpec where
  "fieldSpec_LinearActuatorControlStatus_CommandedDevicePosition = unsigned_spec 8 8 0xFD 0xFF 2"

definition fieldSpec_LinearActuatorControlStatus_DevicePosition :: FieldSpec where
  "fieldSpec_LinearActuatorControlStatus_DevicePosition = unsigned_spec 8 16 0xFD 0xFF 2"

definition fieldSpec_LinearActuatorControlStatus_MaximumDeviceTravel :: FieldSpec where
  "fieldSpec_LinearActuatorControlStatus_MaximumDeviceTravel = unsigned_spec 16 24 0xFFFD 0xFFFF 2"

definition fieldSpec_LinearActuatorControlStatus_DirectionOfTravel :: FieldSpec where
  "fieldSpec_LinearActuatorControlStatus_DirectionOfTravel = unsigned_spec 8 40 0xFD 0xFF 2"

record LinearActuatorControlStatus =
  LinearActuatorControlStatus_Info :: MessageInfo
  LinearActuatorControlStatus_ActuatorIdentifier :: "u8 option"
  LinearActuatorControlStatus_CommandedDevicePosition :: "u8 option"
  LinearActuatorControlStatus_DevicePosition :: "u8 option"
  LinearActuatorControlStatus_MaximumDeviceTravel :: "u16 option"
  LinearActuatorControlStatus_DirectionOfTravel :: "u8 option"

definition DecodeLinearActuatorControlStatus :: "MessageInfo \<Rightarrow> (DataStream, LinearActuatorControlStatus) step" where
  "DecodeLinearActuatorControlStatus info =
     field ''LinearActuatorControlStatus-ActuatorIdentifier'' (ReadRaw go_uint8 (Some fieldSpec_LinearActuatorControlStatus_ActuatorIdentifier)) (\<lambda>v1.
     field ''LinearActuatorControlStatus-CommandedDevicePosition'' (ReadRaw go_uint8 (Some fieldSpec_LinearActuatorControlStatus_CommandedDevicePosition)) (\<lambda>v2.
     field ''LinearActuatorControlStatus-DevicePosition'' (ReadRaw go_uint8 (Some fieldSpec_LinearActuatorControlStatus_DevicePosition)) (\<lambda>v3.
     field ''LinearActuatorControlStatus-MaximumDeviceTravel'' (ReadRaw go_uint16 (Some fieldSpec_LinearActuatorControlStatus_MaximumDeviceTravel)) (\<lambda>v4.
     field ''LinearActuatorControlStatus-DirectionOfTravel'' (ReadRaw go_uint8 (Some fieldSpec_LinearActuatorControlStatus_DirectionOfTravel)) (\<lambda>v5.
     skip 16 (
     returnE \<lparr>LinearActuatorControlStatus_Info = info,
       LinearActuatorControlStatus_ActuatorIdentifier = map_option of_int v1,
       LinearActuatorControlStatus_CommandedDevicePosition = map_option of_int v2,
       LinearActuatorControlStatus_DevicePosition = map_option of_int v3,
       LinearActuatorControlStatus_MaximumDeviceTravel = map_option of_int v4,
       LinearActuatorControlStatus_DirectionOfTravel = map_option of_int v5\<rparr>))))))"

definition EncodeLinearActuatorControlStatus :: "gotime \<Rightarrow> LinearActuatorControlStatus \<Rightarrow> (DataStream, MessageInfo) step" where
  "EncodeLinearActuatorControlStatus now p =
     seqE (WriteRaw (map_option uint (LinearActuatorControlStatus_ActuatorIdentifier p)) (Some fieldSpec_LinearActuatorControlStatus_ActuatorIdentifier)) (\<lambda>_.
     seqE (WriteRaw (map_option uint (LinearActuatorControlStatus_CommandedDevicePosition p)) (Some fieldSpec_LinearActuatorControlStatus_CommandedDevicePosition)) (\<lambda>_.
     seqE (WriteRaw (map_option uint (LinearActuatorControlStatus_DevicePosition p)) (Some fieldSpec_LinearActuatorControlStatus_DevicePosition)) (\<lambda>_.
     seqE (WriteRaw (map_option uint (LinearActuatorControlStatus_MaximumDeviceTravel p)) (Some fieldSpec_LinearActuatorControlStatus_MaximumDeviceTravel)) (\<lambda>_.
     seqE (WriteRaw (map_option uint (LinearActuatorControlStatus_DirectionOfTravel p)) (Some fieldSpec_LinearActuatorControlStatus_DirectionOfTravel)) (\<lambda>_.
     seqE (writeReserved 16 48) (\<lambda>_.
     returnE (finish_info now 128780 (LinearActuatorControlStatus_Info p))))))))"

definition LinearActuatorControlStatus_received :: "MessageInfo \<Rightarrow> LinearActuatorControlStatus \<Rightarrow> LinearActuatorControlStatus" where
  "LinearActuatorControlStatus_received info p = \<lparr>LinearActuatorControlStatus_Info = info,
     LinearActuatorControlStatus_ActuatorIdentifier = pin fieldSpec_LinearActuatorControlStatus_ActuatorIdentifier (LinearActuatorControlStatus_ActuatorIdentifier p),
     LinearActuatorControlStatus_CommandedDevicePosition = pin fieldSpec_LinearActuatorControlStatus_CommandedDevicePosition (LinearActuatorControlStatus_CommandedDevicePosition p),
     LinearActuatorControlStatus_DevicePosition = pin fieldSpec_LinearActuatorControlStatus_DevicePosition (LinearActuatorControlStatus_DevicePosition p),
     LinearActuatorControlStatus_MaximumDeviceTravel = pin fieldSpec_LinearActuatorControlStatus_MaximumDeviceTravel (LinearActuatorControlStatus_MaximumDeviceTravel p),
     LinearActuatorControlStatus_DirectionOfTravel = pin fieldSpec_LinearActuatorControlStatus_DirectionOfTravel (LinearActuatorControlStatus_DirectionOfTravel p)\<rparr>"

lemma LinearActuatorControlStatus_codec: "codec EncodeLinearActuatorControlStatus DecodeLinearActuatorControlStatus LinearActuatorControlStatus_Info 128780 8
    (\<lambda>_. True) LinearActuatorControlStatus_received"
  unfolding EncodeLinearActuatorControlStatus_def DecodeLinearActuatorControlStatus_def LinearActuatorControlStatus_received_def
  by (rule codec.intro, rule carries_cong, (rule codec_steps carries_end
      | simp add: codec_facts pin_read lookup_read lookup_read_1 unit_read fieldSpec_LinearActuatorControlStatus_ActuatorIdentifier_def fieldSpec_LinearActuatorControlStatus_CommandedDevicePosition_def fieldSpec_LinearActuatorControlStatus_DevicePosition_def fieldSpec_LinearActuatorControlStatus_MaximumDeviceTravel_def fieldSpec_LinearActuatorControlStatus_DirectionOfTravel_def)+)

section \<open>Properties\<close>

interpretation engine: codec "EncodeEngineParametersRapidUpdate lib hw" "DecodeEngineParametersRapidUpdate lib" "EngineParametersRapidUpdate_Info" 127488 8 "\<lambda>_. True" "EngineParametersRapidUpdate_received lib hw"
  by (rule EngineParametersRapidUpdate_codec)


end
