(* ===== verification/Pgnnavigation.thy ===== *)
theory Pgnnavigation
  imports Scaled
begin

text \<open>
  Messages of heading, attitude, position, speed, depth and routes. Each subsection has the field specifications of a
  message (\<open>fieldspec_vars_generated.go\<close>), its struct (\<open>pkg/pgn/types_generated.go\<close>), its
  decoder and its encoder (\<open>decoders_generated.go\<close>, \<open>encoders_generated.go\<close>); the function
  \<open>_received\<close> says what a struct is after the wire: an integer clamped to its field (\<open>pin\<close>),
  an enumeration cut to its width, bytes cut and filled up, text cut at its padding, a scaled number or a quantity
  rounded to the resolution of its field (\<open>scaled_back\<close>, \<open>unit_back\<close>). The lemma
  \<open>_codec\<close> says that the pair satisfies the contract \<open>codec\<close>. \<open>hw\<close> is what the
  processor makes of a float that no \<open>uint64\<close> holds, \<open>lib\<close> the package \<open>units\<close>,
  which is not part of this repository.
\<close>

section \<open>Messages\<close>

subsection \<open>ManOverboardNotification\<close>

definition fieldSpec_ManOverboardNotification_SID :: FieldSpec where
  "fieldSpec_ManOverboardNotification_SID = unsigned_spec 8 0 0xFD 0xFF 2"

definition fieldSpec_ManOverboardNotification_MOBEmitterID :: FieldSpec where
  "fieldSpec_ManOverboardNotification_MOBEmitterID = unsigned_spec 32 8 0xFFFFFFFD 0xFFFFFFFF 2"

definition fieldSpec_ManOverboardNotification_ActivationTime :: ScaledSpec where
  "fieldSpec_ManOverboardNotification_ActivationTime =
     scaled_spec 32 48 0xFFFFFFFD 0xFFFFFFFF 0 False 2 (fl64 0.00009999999747378752) (Some 0) (Some 86401)"

definition fieldSpec_ManOverboardNotification_PositionDate :: FieldSpec where
  "fieldSpec_ManOverboardNotification_PositionDate = unsigned_spec 16 88 0xFFFD 0xFFFF 2"

definition fieldSpec_ManOverboardNotification_PositionTime :: ScaledSpec where
  "fieldSpec_ManOverboardNotification_PositionTime =
     scaled_spec 32 104 0xFFFFFFFD 0xFFFFFFFF 0 False 2 (fl64 0.00009999999747378752) (Some 0) (Some 86401)"

definition fieldSpec_ManOverboardNotification_Latitude :: ScaledSpec where
  "fieldSpec_ManOverboardNotification_Latitude =
     scaled_spec 32 136 0x7FFFFFFD 0x7FFFFFFF 0 True 2 (fl64 0.00000010000000116860974) (Some (- 90)) (Some 90)"

definition fieldSpec_ManOverboardNotification_Longitude :: ScaledSpec where
  "fieldSpec_ManOverboardNotification_Longitude =
     scaled_spec 32 168 0x7FFFFFFD 0x7FFFFFFF 0 True 2 (fl64 0.00000010000000116860974) (Some (- 180)) (Some 180)"

definition fieldSpec_ManOverboardNotification_COG :: ScaledSpec where
  "fieldSpec_ManOverboardNotification_COG =
     scaled_spec 16 208 0xFFFD 0xFFFF 0 False 2 (fl64 0.00009999999747378752) (Some 0) (Some (fl64 6.2831852))"

definition fieldSpec_ManOverboardNotification_SOG :: ScaledSpec where
  "fieldSpec_ManOverboardNotification_SOG =
     scaled_spec 16 224 0xFFFD 0xFFFF 0 False 2 (fl64 0.009999999776482582) None None"

definition fieldSpec_ManOverboardNotification_MMSIOfVesselOfOrigin :: FieldSpec where
  "fieldSpec_ManOverboardNotification_MMSIOfVesselOfOrigin = unsigned_spec 32 240 0x0 0x0 0"

record 'q ManOverboardNotification =
  ManOverboardNotification_Info :: MessageInfo
  ManOverboardNotification_SID :: "u8 option"
  ManOverboardNotification_MOBEmitterID :: "u32 option"
  ManOverboardNotification_ManOverboardStatus :: u8
  ManOverboardNotification_ActivationTime :: "rat option"
  ManOverboardNotification_PositionSource :: u8
  ManOverboardNotification_PositionDate :: "u16 option"
  ManOverboardNotification_PositionTime :: "rat option"
  ManOverboardNotification_Latitude :: "rat option"
  ManOverboardNotification_Longitude :: "rat option"
  ManOverboardNotification_COGReference :: u8
  ManOverboardNotification_COG :: "rat option"
  ManOverboardNotification_SOG :: "'q option"
  ManOverboardNotification_MMSIOfVesselOfOrigin :: "u32 option"
  ManOverboardNotification_MOBEmitterBatteryLowStatus :: u8

definition DecodeManOverboardNotification :: "'q units_lib \<Rightarrow> MessageInfo \<Rightarrow> (DataStream, 'q ManOverboardNotification) step" where
  "DecodeManOverboardNotification lib info =
     field ''ManOverboardNotification-SID'' (ReadRaw go_uint8 (Some fieldSpec_ManOverboardNotification_SID)) (\<lambda>v1.
     field ''ManOverboardNotification-MOBEmitterID'' (ReadRaw go_uint32 (Some fieldSpec_ManOverboardNotification_MOBEmitterID)) (\<lambda>v2.
     field ''ManOverboardNotification-ManOverboardStatus'' (readLookupField 3) (\<lambda>v3.
     skip 5 (
     field ''ManOverboardNotification-ActivationTime'' (ReadScaled 24 (Some fieldSpec_ManOverboardNotification_ActivationTime)) (\<lambda>v5.
     field ''ManOverboardNotification-PositionSource'' (readLookupField 3) (\<lambda>v6.
     skip 5 (
     field ''ManOverboardNotification-PositionDate'' (ReadRaw go_uint16 (Some fieldSpec_ManOverboardNotification_PositionDate)) (\<lambda>v8.
     field ''ManOverboardNotification-PositionTime'' (ReadScaled 24 (Some fieldSpec_ManOverboardNotification_PositionTime)) (\<lambda>v9.
     field ''ManOverboardNotification-Latitude'' (ReadScaled 53 (Some fieldSpec_ManOverboardNotification_Latitude)) (\<lambda>v10.
     field ''ManOverboardNotification-Longitude'' (ReadScaled 53 (Some fieldSpec_ManOverboardNotification_Longitude)) (\<lambda>v11.
     field ''ManOverboardNotification-COGReference'' (readLookupField 2) (\<lambda>v12.
     skip 6 (
     field ''ManOverboardNotification-COG'' (ReadScaled 24 (Some fieldSpec_ManOverboardNotification_COG)) (\<lambda>v14.
     field ''ManOverboardNotification-SOG'' (ReadScaled 24 (Some fieldSpec_ManOverboardNotification_SOG)) (\<lambda>v15.
     field ''ManOverboardNotification-MMSIOfVesselOfOrigin'' (ReadRaw go_uint32 (Some fieldSpec_ManOverboardNotification_MMSIOfVesselOfOrigin)) (\<lambda>v16.
     field ''ManOverboardNotification-MOBEmitterBatteryLowStatus'' (readLookupField 3) (\<lambda>v17.
     skip 5 (
     returnE \<lparr>ManOverboardNotification_Info = info,
       ManOverboardNotification_SID = map_option of_int v1,
       ManOverboardNotification_MOBEmitterID = map_option of_int v2,
       ManOverboardNotification_ManOverboardStatus = ucast v3,
       ManOverboardNotification_ActivationTime = v5,
       ManOverboardNotification_PositionSource = ucast v6,
       ManOverboardNotification_PositionDate = map_option of_int v8,
       ManOverboardNotification_PositionTime = v9,
       ManOverboardNotification_Latitude = v10,
       ManOverboardNotification_Longitude = v11,
       ManOverboardNotification_COGReference = ucast v12,
       ManOverboardNotification_COG = v14,
       ManOverboardNotification_SOG = nullableUnit lib MetersPerSecond v15,
       ManOverboardNotification_MMSIOfVesselOfOrigin = map_option of_int v16,
       ManOverboardNotification_MOBEmitterBatteryLowStatus = ucast v17\<rparr>))))))))))))))))))"

definition EncodeManOverboardNotification :: "'q units_lib \<Rightarrow> (rat \<Rightarrow> u64) \<Rightarrow> gotime \<Rightarrow> 'q ManOverboardNotification \<Rightarrow> (DataStream, MessageInfo) step" where
  "EncodeManOverboardNotification lib hw now p =
     seqE (WriteRaw (map_option uint (ManOverboardNotification_SID p)) (Some fieldSpec_ManOverboardNotification_SID)) (\<lambda>_.
     seqE (WriteRaw (map_option uint (ManOverboardNotification_MOBEmitterID p)) (Some fieldSpec_ManOverboardNotification_MOBEmitterID)) (\<lambda>_.
     seqE (putNumberRaw (ucast (ManOverboardNotification_ManOverboardStatus p)) 3 40) (\<lambda>_.
     seqE (writeReserved 5 43) (\<lambda>_.
     seqE (WriteScaled hw (ManOverboardNotification_ActivationTime p) (Some fieldSpec_ManOverboardNotification_ActivationTime)) (\<lambda>_.
     seqE (putNumberRaw (ucast (ManOverboardNotification_PositionSource p)) 3 80) (\<lambda>_.
     seqE (writeReserved 5 83) (\<lambda>_.
     seqE (WriteRaw (map_option uint (ManOverboardNotification_PositionDate p)) (Some fieldSpec_ManOverboardNotification_PositionDate)) (\<lambda>_.
     seqE (WriteScaled hw (ManOverboardNotification_PositionTime p) (Some fieldSpec_ManOverboardNotification_PositionTime)) (\<lambda>_.
     seqE (WriteScaled hw (ManOverboardNotification_Latitude p) (Some fieldSpec_ManOverboardNotification_Latitude)) (\<lambda>_.
     seqE (WriteScaled hw (ManOverboardNotification_Longitude p) (Some fieldSpec_ManOverboardNotification_Longitude)) (\<lambda>_.
     seqE (putNumberRaw (ucast (ManOverboardNotification_COGReference p)) 2 200) (\<lambda>_.
     seqE (writeReserved 6 202) (\<lambda>_.
     seqE (WriteScaled hw (ManOverboardNotification_COG p) (Some fieldSpec_ManOverboardNotification_COG)) (\<lambda>_.
     seqE (writeUnit lib hw MetersPerSecond (ManOverboardNotification_SOG p) (Some fieldSpec_ManOverboardNotification_SOG)) (\<lambda>_.
     seqE (WriteRaw (map_option uint (ManOverboardNotification_MMSIOfVesselOfOrigin p)) (Some fieldSpec_ManOverboardNotification_MMSIOfVesselOfOrigin)) (\<lambda>_.
     seqE (putNumberRaw (ucast (ManOverboardNotification_MOBEmitterBatteryLowStatus p)) 3 272) (\<lambda>_.
     seqE (writeReserved 5 275) (\<lambda>_.
     returnE (finish_info now 127233 (ManOverboardNotification_Info p))))))))))))))))))))"

definition ManOverboardNotification_received :: "'q units_lib \<Rightarrow> (rat \<Rightarrow> u64) \<Rightarrow> MessageInfo \<Rightarrow> 'q ManOverboardNotification \<Rightarrow> 'q ManOverboardNotification" where
  "ManOverboardNotification_received lib hw info p = \<lparr>ManOverboardNotification_Info = info,
     ManOverboardNotification_SID = pin fieldSpec_ManOverboardNotification_SID (ManOverboardNotification_SID p),
     ManOverboardNotification_MOBEmitterID = pin fieldSpec_ManOverboardNotification_MOBEmitterID (ManOverboardNotification_MOBEmitterID p),
     ManOverboardNotification_ManOverboardStatus = take_bit 3 (ManOverboardNotification_ManOverboardStatus p),
     ManOverboardNotification_ActivationTime = map_option (scaled_back hw 24 fieldSpec_ManOverboardNotification_ActivationTime) (ManOverboardNotification_ActivationTime p),
     ManOverboardNotification_PositionSource = take_bit 3 (ManOverboardNotification_PositionSource p),
     ManOverboardNotification_PositionDate = pin fieldSpec_ManOverboardNotification_PositionDate (ManOverboardNotification_PositionDate p),
     ManOverboardNotification_PositionTime = map_option (scaled_back hw 24 fieldSpec_ManOverboardNotification_PositionTime) (ManOverboardNotification_PositionTime p),
     ManOverboardNotification_Latitude = map_option (scaled_back hw 53 fieldSpec_ManOverboardNotification_Latitude) (ManOverboardNotification_Latitude p),
     ManOverboardNotification_Longitude = map_option (scaled_back hw 53 fieldSpec_ManOverboardNotification_Longitude) (ManOverboardNotification_Longitude p),
     ManOverboardNotification_COGReference = take_bit 2 (ManOverboardNotification_COGReference p),
     ManOverboardNotification_COG = map_option (scaled_back hw 24 fieldSpec_ManOverboardNotification_COG) (ManOverboardNotification_COG p),
     ManOverboardNotification_SOG = map_option (unit_back lib hw MetersPerSecond fieldSpec_ManOverboardNotification_SOG) (ManOverboardNotification_SOG p),
     ManOverboardNotification_MMSIOfVesselOfOrigin = pin fieldSpec_ManOverboardNotification_MMSIOfVesselOfOrigin (ManOverboardNotification_MMSIOfVesselOfOrigin p),
     ManOverboardNotification_MOBEmitterBatteryLowStatus = take_bit 3 (ManOverboardNotification_MOBEmitterBatteryLowStatus p)\<rparr>"

lemma ManOverboardNotification_codec: "codec (EncodeManOverboardNotification lib hw) (DecodeManOverboardNotification lib) ManOverboardNotification_Info 127233 35
    (\<lambda>p. ManOverboardNotification_MMSIOfVesselOfOrigin p \<noteq> None) (ManOverboardNotification_received lib hw)"
  unfolding EncodeManOverboardNotification_def DecodeManOverboardNotification_def ManOverboardNotification_received_def
  by (rule codec.intro, rule carries_cong, (rule codec_steps carries_end
      | simp add: codec_facts pin_read lookup_read lookup_read_1 unit_read fieldSpec_ManOverboardNotification_SID_def fieldSpec_ManOverboardNotification_MOBEmitterID_def fieldSpec_ManOverboardNotification_ActivationTime_def fieldSpec_ManOverboardNotification_PositionDate_def fieldSpec_ManOverboardNotification_PositionTime_def fieldSpec_ManOverboardNotification_Latitude_def fieldSpec_ManOverboardNotification_Longitude_def fieldSpec_ManOverboardNotification_COG_def fieldSpec_ManOverboardNotification_SOG_def fieldSpec_ManOverboardNotification_MMSIOfVesselOfOrigin_def)+)

subsection \<open>VesselHeading\<close>

definition fieldSpec_VesselHeading_SID :: FieldSpec where
  "fieldSpec_VesselHeading_SID = unsigned_spec 8 0 0xFD 0xFF 2"

definition fieldSpec_VesselHeading_Heading :: ScaledSpec where
  "fieldSpec_VesselHeading_Heading =
     scaled_spec 16 8 0xFFFD 0xFFFF 0 False 2 (fl64 0.00009999999747378752) (Some 0) (Some (fl64 6.2831852))"

definition fieldSpec_VesselHeading_Deviation :: ScaledSpec where
  "fieldSpec_VesselHeading_Deviation =
     scaled_spec 16 24 0x7FFD 0x7FFF 0 True 2 (fl64 0.00009999999747378752) (Some (fl64 (- 3.1415926))) (Some (fl64 3.1415926))"

definition fieldSpec_VesselHeading_Variation :: ScaledSpec where
  "fieldSpec_VesselHeading_Variation =
     scaled_spec 16 40 0x7FFD 0x7FFF 0 True 2 (fl64 0.00009999999747378752) (Some (fl64 (- 3.1415926))) (Some (fl64 3.1415926))"

record VesselHeading =
  VesselHeading_Info :: MessageInfo
  VesselHeading_SID :: "u8 option"
  VesselHeading_Heading :: "rat option"
  VesselHeading_Deviation :: "rat option"
  VesselHeading_Variation :: "rat option"
  VesselHeading_Reference :: u8

definition DecodeVesselHeading :: "MessageInfo \<Rightarrow> (DataStream, VesselHeading) step" where
  "DecodeVesselHeading info =
     field ''VesselHeading-SID'' (ReadRaw go_uint8 (Some fieldSpec_VesselHeading_SID)) (\<lambda>v1.
     field ''VesselHeading-Heading'' (ReadScaled 24 (Some fieldSpec_VesselHeading_Heading)) (\<lambda>v2.
     field ''VesselHeading-Deviation'' (ReadScaled 24 (Some fieldSpec_VesselHeading_Deviation)) (\<lambda>v3.
     field ''VesselHeading-Variation'' (ReadScaled 24 (Some fieldSpec_VesselHeading_Variation)) (\<lambda>v4.
     field ''VesselHeading-Reference'' (readLookupField 2) (\<lambda>v5.
     skip 6 (
     returnE \<lparr>VesselHeading_Info = info,
       VesselHeading_SID = map_option of_int v1,
       VesselHeading_Heading = v2,
       VesselHeading_Deviation = v3,
       VesselHeading_Variation = v4,
       VesselHeading_Reference = ucast v5\<rparr>))))))"

definition EncodeVesselHeading :: "(rat \<Rightarrow> u64) \<Rightarrow> gotime \<Rightarrow> VesselHeading \<Rightarrow> (DataStream, MessageInfo) step" where
  "EncodeVesselHeading hw now p =
     seqE (WriteRaw (map_option uint (VesselHeading_SID p)) (Some fieldSpec_VesselHeading_SID)) (\<lambda>_.
     seqE (WriteScaled hw (VesselHeading_Heading p) (Some fieldSpec_VesselHeading_Heading)) (\<lambda>_.
     seqE (WriteScaled hw (VesselHeading_Deviation p) (Some fieldSpec_VesselHeading_Deviation)) (\<lambda>_.
     seqE (WriteScaled hw (VesselHeading_Variation p) (Some fieldSpec_VesselHeading_Variation)) (\<lambda>_.
     seqE (putNumberRaw (ucast (VesselHeading_Reference p)) 2 56) (\<lambda>_.
     seqE (writeReserved 6 58) (\<lambda>_.
     returnE (finish_info now 127250 (VesselHeading_Info p))))))))"

definition VesselHeading_received :: "(rat \<Rightarrow> u64) \<Rightarrow> MessageInfo \<Rightarrow> VesselHeading \<Rightarrow> VesselHeading" where
  "VesselHeading_received hw info p = \<lparr>VesselHeading_Info = info,
     VesselHeading_SID = pin fieldSpec_VesselHeading_SID (VesselHeading_SID p),
     VesselHeading_Heading = map_option (scaled_back hw 24 fieldSpec_VesselHeading_Heading) (VesselHeading_Heading p),
     VesselHeading_Deviation = map_option (scaled_back hw 24 fieldSpec_VesselHeading_Deviation) (VesselHeading_Deviation p),
     VesselHeading_Variation = map_option (scaled_back hw 24 fieldSpec_VesselHeading_Variation) (VesselHeading_Variation p),
     VesselHeading_Reference = take_bit 2 (VesselHeading_Reference p)\<rparr>"

lemma VesselHeading_codec: "codec (EncodeVesselHeading hw) DecodeVesselHeading VesselHeading_Info 127250 8
    (\<lambda>_. True) (VesselHeading_received hw)"
  unfolding EncodeVesselHeading_def DecodeVesselHeading_def VesselHeading_received_def
  by (rule codec.intro, rule carries_cong, (rule codec_steps carries_end
      | simp add: codec_facts pin_read lookup_read lookup_read_1 unit_read fieldSpec_VesselHeading_SID_def fieldSpec_VesselHeading_Heading_def fieldSpec_VesselHeading_Deviation_def fieldSpec_VesselHeading_Variation_def)+)

subsection \<open>RateOfTurn\<close>

definition fieldSpec_RateOfTurn_SID :: FieldSpec where
  "fieldSpec_RateOfTurn_SID = unsigned_spec 8 0 0xFD 0xFF 2"

definition fieldSpec_RateOfTurn_Rate :: ScaledSpec where
  "fieldSpec_RateOfTurn_Rate =
     scaled_spec 32 8 0x7FFFFFFD 0x7FFFFFFF 0 True 2 (fl64 0.000000031249999921101335) (Some (fl64 (- 1.02396875))) None"

record RateOfTurn =
  RateOfTurn_Info :: MessageInfo
  RateOfTurn_SID :: "u8 option"
  RateOfTurn_Rate :: "rat option"

definition DecodeRateOfTurn :: "MessageInfo \<Rightarrow> (DataStream, RateOfTurn) step" where
  "DecodeRateOfTurn info =
     field ''RateOfTurn-SID'' (ReadRaw go_uint8 (Some fieldSpec_RateOfTurn_SID)) (\<lambda>v1.
     field ''RateOfTurn-Rate'' (ReadScaled 53 (Some fieldSpec_RateOfTurn_Rate)) (\<lambda>v2.
     skip 24 (
     returnE \<lparr>RateOfTurn_Info = info,
       RateOfTurn_SID = map_option of_int v1,
       RateOfTurn_Rate = v2\<rparr>)))"

definition EncodeRateOfTurn :: "(rat \<Rightarrow> u64) \<Rightarrow> gotime \<Rightarrow> RateOfTurn \<Rightarrow> (DataStream, MessageInfo) step" where
  "EncodeRateOfTurn hw now p =
     seqE (WriteRaw (map_option uint (RateOfTurn_SID p)) (Some fieldSpec_RateOfTurn_SID)) (\<lambda>_.
     seqE (WriteScaled hw (RateOfTurn_Rate p) (Some fieldSpec_RateOfTurn_Rate)) (\<lambda>_.
     seqE (writeReserved 24 40) (\<lambda>_.
     returnE (finish_info now 127251 (RateOfTurn_Info p)))))"

definition RateOfTurn_received :: "(rat \<Rightarrow> u64) \<Rightarrow> MessageInfo \<Rightarrow> RateOfTurn \<Rightarrow> RateOfTurn" where
  "RateOfTurn_received hw info p = \<lparr>RateOfTurn_Info = info,
     RateOfTurn_SID = pin fieldSpec_RateOfTurn_SID (RateOfTurn_SID p),
     RateOfTurn_Rate = map_option (scaled_back hw 53 fieldSpec_RateOfTurn_Rate) (RateOfTurn_Rate p)\<rparr>"

lemma RateOfTurn_codec: "codec (EncodeRateOfTurn hw) DecodeRateOfTurn RateOfTurn_Info 127251 8
    (\<lambda>_. True) (RateOfTurn_received hw)"
  unfolding EncodeRateOfTurn_def DecodeRateOfTurn_def RateOfTurn_received_def
  by (rule codec.intro, rule carries_cong, (rule codec_steps carries_end
      | simp add: codec_facts pin_read lookup_read lookup_read_1 unit_read fieldSpec_RateOfTurn_SID_def fieldSpec_RateOfTurn_Rate_def)+)

subsection \<open>Heave\<close>

definition fieldSpec_Heave_SID :: FieldSpec where
  "fieldSpec_Heave_SID = unsigned_spec 8 0 0xFD 0xFF 2"

definition fieldSpec_Heave_Heave :: ScaledSpec where
  "fieldSpec_Heave_Heave =
     scaled_spec 16 8 0x7FFD 0x7FFF 0 True 2 (fl64 0.009999999776482582) None None"

record 'q Heave =
  Heave_Info :: MessageInfo
  Heave_SID :: "u8 option"
  Heave_Heave :: "'q option"

definition DecodeHeave :: "'q units_lib \<Rightarrow> MessageInfo \<Rightarrow> (DataStream, 'q Heave) step" where
  "DecodeHeave lib info =
     field ''Heave-SID'' (ReadRaw go_uint8 (Some fieldSpec_Heave_SID)) (\<lambda>v1.
     field ''Heave-Heave'' (ReadScaled 24 (Some fieldSpec_Heave_Heave)) (\<lambda>v2.
     skip 40 (
     returnE \<lparr>Heave_Info = info,
       Heave_SID = map_option of_int v1,
       Heave_Heave = nullableUnit lib Meter v2\<rparr>)))"

definition EncodeHeave :: "'q units_lib \<Rightarrow> (rat \<Rightarrow> u64) \<Rightarrow> gotime \<Rightarrow> 'q Heave \<Rightarrow> (DataStream, MessageInfo) step" where
  "EncodeHeave lib hw now p =
     seqE (WriteRaw (map_option uint (Heave_SID p)) (Some fieldSpec_Heave_SID)) (\<lambda>_.
     seqE (writeUnit lib hw Meter (Heave_Heave p) (Some fieldSpec_Heave_Heave)) (\<lambda>_.
     seqE (writeReserved 40 24) (\<lambda>_.
     returnE (finish_info now 127252 (Heave_Info p)))))"

definition Heave_received :: "'q units_lib \<Rightarrow> (rat \<Rightarrow> u64) \<Rightarrow> MessageInfo \<Rightarrow> 'q Heave \<Rightarrow> 'q Heave" where
  "Heave_received lib hw info p = \<lparr>Heave_Info = info,
     Heave_SID = pin fieldSpec_Heave_SID (Heave_SID p),
     Heave_Heave = map_option (unit_back lib hw Meter fieldSpec_Heave_Heave) (Heave_Heave p)\<rparr>"

lemma Heave_codec: "codec (EncodeHeave lib hw) (DecodeHeave lib) Heave_Info 127252 8
    (\<lambda>_. True) (Heave_received lib hw)"
  unfolding EncodeHeave_def DecodeHeave_def Heave_received_def
  by (rule codec.intro, rule carries_cong, (rule codec_steps carries_end
      | simp add: codec_facts pin_read lookup_read lookup_read_1 unit_read fieldSpec_Heave_SID_def fieldSpec_Heave_Heave_def)+)

subsection \<open>Attitude\<close>

definition fieldSpec_Attitude_SID :: FieldSpec where
  "fieldSpec_Attitude_SID = unsigned_spec 8 0 0xFD 0xFF 2"

definition fieldSpec_Attitude_Yaw :: ScaledSpec where
  "fieldSpec_Attitude_Yaw =
     scaled_spec 16 8 0x7FFD 0x7FFF 0 True 2 (fl64 0.00009999999747378752) (Some (fl64 (- 3.1415926))) (Some (fl64 3.1415926))"

definition fieldSpec_Attitude_Pitch :: ScaledSpec where
  "fieldSpec_Attitude_Pitch =
     scaled_spec 16 24 0x7FFD 0x7FFF 0 True 2 (fl64 0.00009999999747378752) (Some (fl64 (- 3.1415926))) (Some (fl64 3.1415926))"

definition fieldSpec_Attitude_Roll :: ScaledSpec where
  "fieldSpec_Attitude_Roll =
     scaled_spec 16 40 0x7FFD 0x7FFF 0 True 2 (fl64 0.00009999999747378752) (Some (fl64 (- 3.1415926))) (Some (fl64 3.1415926))"

record Attitude =
  Attitude_Info :: MessageInfo
  Attitude_SID :: "u8 option"
  Attitude_Yaw :: "rat option"
  Attitude_Pitch :: "rat option"
  Attitude_Roll :: "rat option"

definition DecodeAttitude :: "MessageInfo \<Rightarrow> (DataStream, Attitude) step" where
  "DecodeAttitude info =
     field ''Attitude-SID'' (ReadRaw go_uint8 (Some fieldSpec_Attitude_SID)) (\<lambda>v1.
     field ''Attitude-Yaw'' (ReadScaled 24 (Some fieldSpec_Attitude_Yaw)) (\<lambda>v2.
     field ''Attitude-Pitch'' (ReadScaled 24 (Some fieldSpec_Attitude_Pitch)) (\<lambda>v3.
     field ''Attitude-Roll'' (ReadScaled 24 (Some fieldSpec_Attitude_Roll)) (\<lambda>v4.
     skip 8 (
     returnE \<lparr>Attitude_Info = info,
       Attitude_SID = map_option of_int v1,
       Attitude_Yaw = v2,
       Attitude_Pitch = v3,
       Attitude_Roll = v4\<rparr>)))))"

definition EncodeAttitude :: "(rat \<Rightarrow> u64) \<Rightarrow> gotime \<Rightarrow> Attitude \<Rightarrow> (DataStream, MessageInfo) step" where
  "EncodeAttitude hw now p =
     seqE (WriteRaw (map_option uint (Attitude_SID p)) (Some fieldSpec_Attitude_SID)) (\<lambda>_.
     seqE (WriteScaled hw (Attitude_Yaw p) (Some fieldSpec_Attitude_Yaw)) (\<lambda>_.
     seqE (WriteScaled hw (Attitude_Pitch p) (Some fieldSpec_Attitude_Pitch)) (\<lambda>_.
     seqE (WriteScaled hw (Attitude_Roll p) (Some fieldSpec_Attitude_Roll)) (\<lambda>_.
     seqE (writeReserved 8 56) (\<lambda>_.
     returnE (finish_info now 127257 (Attitude_Info p)))))))"

definition Attitude_received :: "(rat \<Rightarrow> u64) \<Rightarrow> MessageInfo \<Rightarrow> Attitude \<Rightarrow> Attitude" where
  "Attitude_received hw info p = \<lparr>Attitude_Info = info,
     Attitude_SID = pin fieldSpec_Attitude_SID (Attitude_SID p),
     Attitude_Yaw = map_option (scaled_back hw 24 fieldSpec_Attitude_Yaw) (Attitude_Yaw p),
     Attitude_Pitch = map_option (scaled_back hw 24 fieldSpec_Attitude_Pitch) (Attitude_Pitch p),
     Attitude_Roll = map_option (scaled_back hw 24 fieldSpec_Attitude_Roll) (Attitude_Roll p)\<rparr>"

lemma Attitude_codec: "codec (EncodeAttitude hw) DecodeAttitude Attitude_Info 127257 8
    (\<lambda>_. True) (Attitude_received hw)"
  unfolding EncodeAttitude_def DecodeAttitude_def Attitude_received_def
  by (rule codec.intro, rule carries_cong, (rule codec_steps carries_end
      | simp add: codec_facts pin_read lookup_read lookup_read_1 unit_read fieldSpec_Attitude_SID_def fieldSpec_Attitude_Yaw_def fieldSpec_Attitude_Pitch_def fieldSpec_Attitude_Roll_def)+)

subsection \<open>MagneticVariation\<close>

definition fieldSpec_MagneticVariation_SID :: FieldSpec where
  "fieldSpec_MagneticVariation_SID = unsigned_spec 8 0 0xFD 0xFF 2"

definition fieldSpec_MagneticVariation_AgeOfService :: FieldSpec where
  "fieldSpec_MagneticVariation_AgeOfService = unsigned_spec 16 16 0xFFFD 0xFFFF 2"

definition fieldSpec_MagneticVariation_Variation :: ScaledSpec where
  "fieldSpec_MagneticVariation_Variation =
     scaled_spec 16 32 0x7FFD 0x7FFF 0 True 2 (fl64 0.00009999999747378752) (Some (fl64 (- 3.1415926))) (Some (fl64 3.1415926))"

record MagneticVariation =
  MagneticVariation_Info :: MessageInfo
  MagneticVariation_SID :: "u8 option"
  MagneticVariation_Source :: u8
  MagneticVariation_AgeOfService :: "u16 option"
  MagneticVariation_Variation :: "rat option"

definition DecodeMagneticVariation :: "MessageInfo \<Rightarrow> (DataStream, MagneticVariation) step" where
  "DecodeMagneticVariation info =
     field ''MagneticVariation-SID'' (ReadRaw go_uint8 (Some fieldSpec_MagneticVariation_SID)) (\<lambda>v1.
     field ''MagneticVariation-Source'' (readLookupField 4) (\<lambda>v2.
     skip 4 (
     field ''MagneticVariation-AgeOfService'' (ReadRaw go_uint16 (Some fieldSpec_MagneticVariation_AgeOfService)) (\<lambda>v4.
     field ''MagneticVariation-Variation'' (ReadScaled 24 (Some fieldSpec_MagneticVariation_Variation)) (\<lambda>v5.
     skip 16 (
     returnE \<lparr>MagneticVariation_Info = info,
       MagneticVariation_SID = map_option of_int v1,
       MagneticVariation_Source = ucast v2,
       MagneticVariation_AgeOfService = map_option of_int v4,
       MagneticVariation_Variation = v5\<rparr>))))))"

definition EncodeMagneticVariation :: "(rat \<Rightarrow> u64) \<Rightarrow> gotime \<Rightarrow> MagneticVariation \<Rightarrow> (DataStream, MessageInfo) step" where
  "EncodeMagneticVariation hw now p =
     seqE (WriteRaw (map_option uint (MagneticVariation_SID p)) (Some fieldSpec_MagneticVariation_SID)) (\<lambda>_.
     seqE (putNumberRaw (ucast (MagneticVariation_Source p)) 4 8) (\<lambda>_.
     seqE (writeReserved 4 12) (\<lambda>_.
     seqE (WriteRaw (map_option uint (MagneticVariation_AgeOfService p)) (Some fieldSpec_MagneticVariation_AgeOfService)) (\<lambda>_.
     seqE (WriteScaled hw (MagneticVariation_Variation p) (Some fieldSpec_MagneticVariation_Variation)) (\<lambda>_.
     seqE (writeReserved 16 48) (\<lambda>_.
     returnE (finish_info now 127258 (MagneticVariation_Info p))))))))"

definition MagneticVariation_received :: "(rat \<Rightarrow> u64) \<Rightarrow> MessageInfo \<Rightarrow> MagneticVariation \<Rightarrow> MagneticVariation" where
  "MagneticVariation_received hw info p = \<lparr>MagneticVariation_Info = info,
     MagneticVariation_SID = pin fieldSpec_MagneticVariation_SID (MagneticVariation_SID p),
     MagneticVariation_Source = take_bit 4 (MagneticVariation_Source p),
     MagneticVariation_AgeOfService = pin fieldSpec_MagneticVariation_AgeOfService (MagneticVariation_AgeOfService p),
     MagneticVariation_Variation = map_option (scaled_back hw 24 fieldSpec_MagneticVariation_Variation) (MagneticVariation_Variation p)\<rparr>"

lemma MagneticVariation_codec: "codec (EncodeMagneticVariation hw) DecodeMagneticVariation MagneticVariation_Info 127258 8
    (\<lambda>_. True) (MagneticVariation_received hw)"
  unfolding EncodeMagneticVariation_def DecodeMagneticVariation_def MagneticVariation_received_def
  by (rule codec.intro, rule carries_cong, (rule codec_steps carries_end
      | simp add: codec_facts pin_read lookup_read lookup_read_1 unit_read fieldSpec_MagneticVariation_SID_def fieldSpec_MagneticVariation_AgeOfService_def fieldSpec_MagneticVariation_Variation_def)+)

subsection \<open>LeewayAngle\<close>

definition fieldSpec_LeewayAngle_SID :: FieldSpec where
  "fieldSpec_LeewayAngle_SID = unsigned_spec 8 0 0xFD 0xFF 2"

definition fieldSpec_LeewayAngle_LeewayAngle :: ScaledSpec where
  "fieldSpec_LeewayAngle_LeewayAngle =
     scaled_spec 16 8 0x7FFD 0x7FFF 0 True 2 (fl64 0.00009999999747378752) (Some (fl64 (- 3.1415926))) (Some (fl64 3.1415926))"

record LeewayAngle =
  LeewayAngle_Info :: MessageInfo
  LeewayAngle_SID :: "u8 option"
  LeewayAngle_LeewayAngle :: "rat option"

definition DecodeLeewayAngle :: "MessageInfo \<Rightarrow> (DataStream, LeewayAngle) step" where
  "DecodeLeewayAngle info =
     field ''LeewayAngle-SID'' (ReadRaw go_uint8 (Some fieldSpec_LeewayAngle_SID)) (\<lambda>v1.
     field ''LeewayAngle-LeewayAngle'' (ReadScaled 24 (Some fieldSpec_LeewayAngle_LeewayAngle)) (\<lambda>v2.
     skip 40 (
     returnE \<lparr>LeewayAngle_Info = info,
       LeewayAngle_SID = map_option of_int v1,
       LeewayAngle_LeewayAngle = v2\<rparr>)))"

definition EncodeLeewayAngle :: "(rat \<Rightarrow> u64) \<Rightarrow> gotime \<Rightarrow> LeewayAngle \<Rightarrow> (DataStream, MessageInfo) step" where
  "EncodeLeewayAngle hw now p =
     seqE (WriteRaw (map_option uint (LeewayAngle_SID p)) (Some fieldSpec_LeewayAngle_SID)) (\<lambda>_.
     seqE (WriteScaled hw (LeewayAngle_LeewayAngle p) (Some fieldSpec_LeewayAngle_LeewayAngle)) (\<lambda>_.
     seqE (writeReserved 40 24) (\<lambda>_.
     returnE (finish_info now 128000 (LeewayAngle_Info p)))))"

definition LeewayAngle_received :: "(rat \<Rightarrow> u64) \<Rightarrow> MessageInfo \<Rightarrow> LeewayAngle \<Rightarrow> LeewayAngle" where
  "LeewayAngle_received hw info p = \<lparr>LeewayAngle_Info = info,
     LeewayAngle_SID = pin fieldSpec_LeewayAngle_SID (LeewayAngle_SID p),
     LeewayAngle_LeewayAngle = map_option (scaled_back hw 24 fieldSpec_LeewayAngle_LeewayAngle) (LeewayAngle_LeewayAngle p)\<rparr>"

lemma LeewayAngle_codec: "codec (EncodeLeewayAngle hw) DecodeLeewayAngle LeewayAngle_Info 128000 8
    (\<lambda>_. True) (LeewayAngle_received hw)"
  unfolding EncodeLeewayAngle_def DecodeLeewayAngle_def LeewayAngle_received_def
  by (rule codec.intro, rule carries_cong, (rule codec_steps carries_end
      | simp add: codec_facts pin_read lookup_read lookup_read_1 unit_read fieldSpec_LeewayAngle_SID_def fieldSpec_LeewayAngle_LeewayAngle_def)+)

subsection \<open>VesselAcceleration\<close>

definition fieldSpec_VesselAcceleration_SID :: FieldSpec where
  "fieldSpec_VesselAcceleration_SID = unsigned_spec 8 0 0xFD 0xFF 2"

definition fieldSpec_VesselAcceleration_LongitudinalAcceleration :: FieldSpec where
  "fieldSpec_VesselAcceleration_LongitudinalAcceleration = signed_spec 16 8 0x7FFD 0x7FFF 2"

definition fieldSpec_VesselAcceleration_TransverseAcceleration :: FieldSpec where
  "fieldSpec_VesselAcceleration_TransverseAcceleration = signed_spec 16 24 0x7FFD 0x7FFF 2"

definition fieldSpec_VesselAcceleration_VerticalAcceleration :: FieldSpec where
  "fieldSpec_VesselAcceleration_VerticalAcceleration = signed_spec 16 40 0x7FFD 0x7FFF 2"

record VesselAcceleration =
  VesselAcceleration_Info :: MessageInfo
  VesselAcceleration_SID :: "u8 option"
  VesselAcceleration_LongitudinalAcceleration :: "16 word option"
  VesselAcceleration_TransverseAcceleration :: "16 word option"
  VesselAcceleration_VerticalAcceleration :: "16 word option"

definition DecodeVesselAcceleration :: "MessageInfo \<Rightarrow> (DataStream, VesselAcceleration) step" where
  "DecodeVesselAcceleration info =
     field ''VesselAcceleration-SID'' (ReadRaw go_uint8 (Some fieldSpec_VesselAcceleration_SID)) (\<lambda>v1.
     field ''VesselAcceleration-LongitudinalAcceleration'' (ReadRaw go_int16 (Some fieldSpec_VesselAcceleration_LongitudinalAcceleration)) (\<lambda>v2.
     field ''VesselAcceleration-TransverseAcceleration'' (ReadRaw go_int16 (Some fieldSpec_VesselAcceleration_TransverseAcceleration)) (\<lambda>v3.
     field ''VesselAcceleration-VerticalAcceleration'' (ReadRaw go_int16 (Some fieldSpec_VesselAcceleration_VerticalAcceleration)) (\<lambda>v4.
     skip 8 (
     returnE \<lparr>VesselAcceleration_Info = info,
       VesselAcceleration_SID = map_option of_int v1,
       VesselAcceleration_LongitudinalAcceleration = map_option of_int v2,
       VesselAcceleration_TransverseAcceleration = map_option of_int v3,
       VesselAcceleration_VerticalAcceleration = map_option of_int v4\<rparr>)))))"

definition EncodeVesselAcceleration :: "gotime \<Rightarrow> VesselAcceleration \<Rightarrow> (DataStream, MessageInfo) step" where
  "EncodeVesselAcceleration now p =
     seqE (WriteRaw (map_option uint (VesselAcceleration_SID p)) (Some fieldSpec_VesselAcceleration_SID)) (\<lambda>_.
     seqE (WriteRaw (map_option sint (VesselAcceleration_LongitudinalAcceleration p)) (Some fieldSpec_VesselAcceleration_LongitudinalAcceleration)) (\<lambda>_.
     seqE (WriteRaw (map_option sint (VesselAcceleration_TransverseAcceleration p)) (Some fieldSpec_VesselAcceleration_TransverseAcceleration)) (\<lambda>_.
     seqE (WriteRaw (map_option sint (VesselAcceleration_VerticalAcceleration p)) (Some fieldSpec_VesselAcceleration_VerticalAcceleration)) (\<lambda>_.
     seqE (writeReserved 8 56) (\<lambda>_.
     returnE (finish_info now 128001 (VesselAcceleration_Info p)))))))"

definition VesselAcceleration_received :: "MessageInfo \<Rightarrow> VesselAcceleration \<Rightarrow> VesselAcceleration" where
  "VesselAcceleration_received info p = \<lparr>VesselAcceleration_Info = info,
     VesselAcceleration_SID = pin fieldSpec_VesselAcceleration_SID (VesselAcceleration_SID p),
     VesselAcceleration_LongitudinalAcceleration = pin_signed fieldSpec_VesselAcceleration_LongitudinalAcceleration (VesselAcceleration_LongitudinalAcceleration p),
     VesselAcceleration_TransverseAcceleration = pin_signed fieldSpec_VesselAcceleration_TransverseAcceleration (VesselAcceleration_TransverseAcceleration p),
     VesselAcceleration_VerticalAcceleration = pin_signed fieldSpec_VesselAcceleration_VerticalAcceleration (VesselAcceleration_VerticalAcceleration p)\<rparr>"

lemma VesselAcceleration_codec: "codec EncodeVesselAcceleration DecodeVesselAcceleration VesselAcceleration_Info 128001 8
    (\<lambda>_. True) VesselAcceleration_received"
  unfolding EncodeVesselAcceleration_def DecodeVesselAcceleration_def VesselAcceleration_received_def
  by (rule codec.intro, rule carries_cong, (rule codec_steps carries_end
      | simp add: codec_facts pin_read lookup_read lookup_read_1 unit_read fieldSpec_VesselAcceleration_SID_def fieldSpec_VesselAcceleration_LongitudinalAcceleration_def fieldSpec_VesselAcceleration_TransverseAcceleration_def fieldSpec_VesselAcceleration_VerticalAcceleration_def)+)

subsection \<open>Speed\<close>

definition fieldSpec_Speed_SID :: FieldSpec where
  "fieldSpec_Speed_SID = unsigned_spec 8 0 0xFD 0xFF 2"

definition fieldSpec_Speed_SpeedWaterReferenced :: ScaledSpec where
  "fieldSpec_Speed_SpeedWaterReferenced =
     scaled_spec 16 8 0xFFFD 0xFFFF 0 False 2 (fl64 0.009999999776482582) None None"

definition fieldSpec_Speed_SpeedGroundReferenced :: ScaledSpec where
  "fieldSpec_Speed_SpeedGroundReferenced =
     scaled_spec 16 24 0xFFFD 0xFFFF 0 False 2 (fl64 0.009999999776482582) None None"

definition fieldSpec_Speed_SpeedDirection :: FieldSpec where
  "fieldSpec_Speed_SpeedDirection = unsigned_spec 4 48 0xD 0xF 2"

record 'q Speed =
  Speed_Info :: MessageInfo
  Speed_SID :: "u8 option"
  Speed_SpeedWaterReferenced :: "'q option"
  Speed_SpeedGroundReferenced :: "'q option"
  Speed_SpeedWaterReferencedType :: u8
  Speed_SpeedDirection :: "u8 option"

definition DecodeSpeed :: "'q units_lib \<Rightarrow> MessageInfo \<Rightarrow> (DataStream, 'q Speed) step" where
  "DecodeSpeed lib info =
     field ''Speed-SID'' (ReadRaw go_uint8 (Some fieldSpec_Speed_SID)) (\<lambda>v1.
     field ''Speed-SpeedWaterReferenced'' (ReadScaled 24 (Some fieldSpec_Speed_SpeedWaterReferenced)) (\<lambda>v2.
     field ''Speed-SpeedGroundReferenced'' (ReadScaled 24 (Some fieldSpec_Speed_SpeedGroundReferenced)) (\<lambda>v3.
     field ''Speed-SpeedWaterReferencedType'' (readLookupField 8) (\<lambda>v4.
     field ''Speed-SpeedDirection'' (ReadRaw go_uint8 (Some fieldSpec_Speed_SpeedDirection)) (\<lambda>v5.
     skip 12 (
     returnE \<lparr>Speed_Info = info,
       Speed_SID = map_option of_int v1,
       Speed_SpeedWaterReferenced = nullableUnit lib MetersPerSecond v2,
       Speed_SpeedGroundReferenced = nullableUnit lib MetersPerSecond v3,
       Speed_SpeedWaterReferencedType = ucast v4,
       Speed_SpeedDirection = map_option of_int v5\<rparr>))))))"

definition EncodeSpeed :: "'q units_lib \<Rightarrow> (rat \<Rightarrow> u64) \<Rightarrow> gotime \<Rightarrow> 'q Speed \<Rightarrow> (DataStream, MessageInfo) step" where
  "EncodeSpeed lib hw now p =
     seqE (WriteRaw (map_option uint (Speed_SID p)) (Some fieldSpec_Speed_SID)) (\<lambda>_.
     seqE (writeUnit lib hw MetersPerSecond (Speed_SpeedWaterReferenced p) (Some fieldSpec_Speed_SpeedWaterReferenced)) (\<lambda>_.
     seqE (writeUnit lib hw MetersPerSecond (Speed_SpeedGroundReferenced p) (Some fieldSpec_Speed_SpeedGroundReferenced)) (\<lambda>_.
     seqE (putNumberRaw (ucast (Speed_SpeedWaterReferencedType p)) 8 40) (\<lambda>_.
     seqE (WriteRaw (map_option uint (Speed_SpeedDirection p)) (Some fieldSpec_Speed_SpeedDirection)) (\<lambda>_.
     seqE (writeReserved 12 52) (\<lambda>_.
     returnE (finish_info now 128259 (Speed_Info p))))))))"

definition Speed_received :: "'q units_lib \<Rightarrow> (rat \<Rightarrow> u64) \<Rightarrow> MessageInfo \<Rightarrow> 'q Speed \<Rightarrow> 'q Speed" where
  "Speed_received lib hw info p = \<lparr>Speed_Info = info,
     Speed_SID = pin fieldSpec_Speed_SID (Speed_SID p),
     Speed_SpeedWaterReferenced = map_option (unit_back lib hw MetersPerSecond fieldSpec_Speed_SpeedWaterReferenced) (Speed_SpeedWaterReferenced p),
     Speed_SpeedGroundReferenced = map_option (unit_back lib hw MetersPerSecond fieldSpec_Speed_SpeedGroundReferenced) (Speed_SpeedGroundReferenced p),
     Speed_SpeedWaterReferencedType = take_bit 8 (Speed_SpeedWaterReferencedType p),
     Speed_SpeedDirection = pin fieldSpec_Speed_SpeedDirection (Speed_SpeedDirection p)\<rparr>"

lemma Speed_codec: "codec (EncodeSpeed lib hw) (DecodeSpeed lib) Speed_Info 128259 8
    (\<lambda>_. True) (Speed_received lib hw)"
  unfolding EncodeSpeed_def DecodeSpeed_def Speed_received_def
  by (rule codec.intro, rule carries_cong, (rule codec_steps carries_end
      | simp add: codec_facts pin_read lookup_read lookup_read_1 unit_read fieldSpec_Speed_SID_def fieldSpec_Speed_SpeedWaterReferenced_def fieldSpec_Speed_SpeedGroundReferenced_def fieldSpec_Speed_SpeedDirection_def)+)

subsection \<open>WaterDepth\<close>

definition fieldSpec_WaterDepth_SID :: FieldSpec where
  "fieldSpec_WaterDepth_SID = unsigned_spec 8 0 0xFD 0xFF 2"

definition fieldSpec_WaterDepth_Depth :: ScaledSpec where
  "fieldSpec_WaterDepth_Depth =
     scaled_spec 32 8 0xFFFFFFFD 0xFFFFFFFF 0 False 2 (fl64 0.009999999776482582) None None"

definition fieldSpec_WaterDepth_Offset :: ScaledSpec where
  "fieldSpec_WaterDepth_Offset =
     scaled_spec 16 40 0x7FFD 0x7FFF 0 True 2 (fl64 0.0010000000474974513) None None"

definition fieldSpec_WaterDepth_Range :: ScaledSpec where
  "fieldSpec_WaterDepth_Range =
     scaled_spec 8 56 0xFD 0xFF 0 False 2 10 None None"

record 'q WaterDepth =
  WaterDepth_Info :: MessageInfo
  WaterDepth_SID :: "u8 option"
  WaterDepth_Depth :: "'q option"
  WaterDepth_Offset :: "'q option"
  WaterDepth_Range :: "'q option"

definition DecodeWaterDepth :: "'q units_lib \<Rightarrow> MessageInfo \<Rightarrow> (DataStream, 'q WaterDepth) step" where
  "DecodeWaterDepth lib info =
     field ''WaterDepth-SID'' (ReadRaw go_uint8 (Some fieldSpec_WaterDepth_SID)) (\<lambda>v1.
     field ''WaterDepth-Depth'' (ReadScaled 24 (Some fieldSpec_WaterDepth_Depth)) (\<lambda>v2.
     field ''WaterDepth-Offset'' (ReadScaled 24 (Some fieldSpec_WaterDepth_Offset)) (\<lambda>v3.
     field ''WaterDepth-Range'' (ReadScaled 24 (Some fieldSpec_WaterDepth_Range)) (\<lambda>v4.
     returnE \<lparr>WaterDepth_Info = info,
       WaterDepth_SID = map_option of_int v1,
       WaterDepth_Depth = nullableUnit lib Meter v2,
       WaterDepth_Offset = nullableUnit lib Meter v3,
       WaterDepth_Range = nullableUnit lib Meter v4\<rparr>))))"

definition EncodeWaterDepth :: "'q units_lib \<Rightarrow> (rat \<Rightarrow> u64) \<Rightarrow> gotime \<Rightarrow> 'q WaterDepth \<Rightarrow> (DataStream, MessageInfo) step" where
  "EncodeWaterDepth lib hw now p =
     seqE (WriteRaw (map_option uint (WaterDepth_SID p)) (Some fieldSpec_WaterDepth_SID)) (\<lambda>_.
     seqE (writeUnit lib hw Meter (WaterDepth_Depth p) (Some fieldSpec_WaterDepth_Depth)) (\<lambda>_.
     seqE (writeUnit lib hw Meter (WaterDepth_Offset p) (Some fieldSpec_WaterDepth_Offset)) (\<lambda>_.
     seqE (writeUnit lib hw Meter (WaterDepth_Range p) (Some fieldSpec_WaterDepth_Range)) (\<lambda>_.
     returnE (finish_info now 128267 (WaterDepth_Info p))))))"

definition WaterDepth_received :: "'q units_lib \<Rightarrow> (rat \<Rightarrow> u64) \<Rightarrow> MessageInfo \<Rightarrow> 'q WaterDepth \<Rightarrow> 'q WaterDepth" where
  "WaterDepth_received lib hw info p = \<lparr>WaterDepth_Info = info,
     WaterDepth_SID = pin fieldSpec_WaterDepth_SID (WaterDepth_SID p),
     WaterDepth_Depth = map_option (unit_back lib hw Meter fieldSpec_WaterDepth_Depth) (WaterDepth_Depth p),
     WaterDepth_Offset = map_option (unit_back lib hw Meter fieldSpec_WaterDepth_Offset) (WaterDepth_Offset p),
     WaterDepth_Range = map_option (unit_back lib hw Meter fieldSpec_WaterDepth_Range) (WaterDepth_Range p)\<rparr>"

lemma WaterDepth_codec: "codec (EncodeWaterDepth lib hw) (DecodeWaterDepth lib) WaterDepth_Info 128267 8
    (\<lambda>_. True) (WaterDepth_received lib hw)"
  unfolding EncodeWaterDepth_def DecodeWaterDepth_def WaterDepth_received_def
  by (rule codec.intro, rule carries_cong, (rule codec_steps carries_end
      | simp add: codec_facts pin_read lookup_read lookup_read_1 unit_read fieldSpec_WaterDepth_SID_def fieldSpec_WaterDepth_Depth_def fieldSpec_WaterDepth_Offset_def fieldSpec_WaterDepth_Range_def)+)

subsection \<open>PositionRapidUpdate\<close>

definition fieldSpec_PositionRapidUpdate_Longitude :: ScaledSpec where
  "fieldSpec_PositionRapidUpdate_Longitude =
     scaled_spec 32 32 0x7FFFFFFD 0x7FFFFFFF 0 True 2 (fl64 0.00000010000000116860974) (Some (- 180)) (Some 180)"

record PositionRapidUpdate =
  PositionRapidUpdate_Info :: MessageInfo
  PositionRapidUpdate_Latitude :: "rat option"
  PositionRapidUpdate_Longitude :: "rat option"

definition DecodePositionRapidUpdate :: "MessageInfo \<Rightarrow> (DataStream, PositionRapidUpdate) step" where
  "DecodePositionRapidUpdate info =
     field ''PositionRapidUpdate-Latitude'' (ReadScaled 53 (Some fieldSpec_PositionRapidUpdate_Latitude)) (\<lambda>v1.
     field ''PositionRapidUpdate-Longitude'' (ReadScaled 53 (Some fieldSpec_PositionRapidUpdate_Longitude)) (\<lambda>v2.
     returnE \<lparr>PositionRapidUpdate_Info = info,
       PositionRapidUpdate_Latitude = v1,
       PositionRapidUpdate_Longitude = v2\<rparr>))"

definition EncodePositionRapidUpdate :: "(rat \<Rightarrow> u64) \<Rightarrow> gotime \<Rightarrow> PositionRapidUpdate \<Rightarrow> (DataStream, MessageInfo) step" where
  "EncodePositionRapidUpdate hw now p =
     seqE (WriteScaled hw (PositionRapidUpdate_Latitude p) (Some fieldSpec_PositionRapidUpdate_Latitude)) (\<lambda>_.
     seqE (WriteScaled hw (PositionRapidUpdate_Longitude p) (Some fieldSpec_PositionRapidUpdate_Longitude)) (\<lambda>_.
     returnE (finish_info now 129025 (PositionRapidUpdate_Info p))))"

definition PositionRapidUpdate_received :: "(rat \<Rightarrow> u64) \<Rightarrow> MessageInfo \<Rightarrow> PositionRapidUpdate \<Rightarrow> PositionRapidUpdate" where
  "PositionRapidUpdate_received hw info p = \<lparr>PositionRapidUpdate_Info = info,
     PositionRapidUpdate_Latitude = map_option (scaled_back hw 53 fieldSpec_PositionRapidUpdate_Latitude) (PositionRapidUpdate_Latitude p),
     PositionRapidUpdate_Longitude = map_option (scaled_back hw 53 fieldSpec_PositionRapidUpdate_Longitude) (PositionRapidUpdate_Longitude p)\<rparr>"

lemma PositionRapidUpdate_codec: "codec (EncodePositionRapidUpdate hw) DecodePositionRapidUpdate PositionRapidUpdate_Info 129025 8
    (\<lambda>_. True) (PositionRapidUpdate_received hw)"
  unfolding EncodePositionRapidUpdate_def DecodePositionRapidUpdate_def PositionRapidUpdate_received_def
  by (rule codec.intro, rule carries_cong, (rule codec_steps carries_end
      | simp add: codec_facts pin_read lookup_read lookup_read_1 unit_read fieldSpec_PositionRapidUpdate_Latitude_def fieldSpec_PositionRapidUpdate_Longitude_def)+)

subsection \<open>COGSOGRapidUpdate\<close>

definition fieldSpec_COGSOGRapidUpdate_SID :: FieldSpec where
  "fieldSpec_COGSOGRapidUpdate_SID = unsigned_spec 8 0 0xFD 0xFF 2"

definition fieldSpec_COGSOGRapidUpdate_COG :: ScaledSpec where
  "fieldSpec_COGSOGRapidUpdate_COG =
     scaled_spec 16 16 0xFFFD 0xFFFF 0 False 2 (fl64 0.00009999999747378752) (Some 0) (Some (fl64 6.2831852))"

definition fieldSpec_COGSOGRapidUpdate_SOG :: ScaledSpec where
  "fieldSpec_COGSOGRapidUpdate_SOG =
     scaled_spec 16 32 0xFFFD 0xFFFF 0 False 2 (fl64 0.009999999776482582) None None"

record 'q COGSOGRapidUpdate =
  COGSOGRapidUpdate_Info :: MessageInfo
  COGSOGRapidUpdate_SID :: "u8 option"
  COGSOGRapidUpdate_COGReference :: u8
  COGSOGRapidUpdate_COG :: "rat option"
  COGSOGRapidUpdate_SOG :: "'q option"

definition DecodeCOGSOGRapidUpdate :: "'q units_lib \<Rightarrow> MessageInfo \<Rightarrow> (DataStream, 'q COGSOGRapidUpdate) step" where
  "DecodeCOGSOGRapidUpdate lib info =
     field ''COGSOGRapidUpdate-SID'' (ReadRaw go_uint8 (Some fieldSpec_COGSOGRapidUpdate_SID)) (\<lambda>v1.
     field ''COGSOGRapidUpdate-COGReference'' (readLookupField 2) (\<lambda>v2.
     skip 6 (
     field ''COGSOGRapidUpdate-COG'' (ReadScaled 24 (Some fieldSpec_COGSOGRapidUpdate_COG)) (\<lambda>v4.
     field ''COGSOGRapidUpdate-SOG'' (ReadScaled 24 (Some fieldSpec_COGSOGRapidUpdate_SOG)) (\<lambda>v5.
     skip 16 (
     returnE \<lparr>COGSOGRapidUpdate_Info = info,
       COGSOGRapidUpdate_SID = map_option of_int v1,
       COGSOGRapidUpdate_COGReference = ucast v2,
       COGSOGRapidUpdate_COG = v4,
       COGSOGRapidUpdate_SOG = nullableUnit lib MetersPerSecond v5\<rparr>))))))"

definition EncodeCOGSOGRapidUpdate :: "'q units_lib \<Rightarrow> (rat \<Rightarrow> u64) \<Rightarrow> gotime \<Rightarrow> 'q COGSOGRapidUpdate \<Rightarrow> (DataStream, MessageInfo) step" where
  "EncodeCOGSOGRapidUpdate lib hw now p =
     seqE (WriteRaw (map_option uint (COGSOGRapidUpdate_SID p)) (Some fieldSpec_COGSOGRapidUpdate_SID)) (\<lambda>_.
     seqE (putNumberRaw (ucast (COGSOGRapidUpdate_COGReference p)) 2 8) (\<lambda>_.
     seqE (writeReserved 6 10) (\<lambda>_.
     seqE (WriteScaled hw (COGSOGRapidUpdate_COG p) (Some fieldSpec_COGSOGRapidUpdate_COG)) (\<lambda>_.
     seqE (writeUnit lib hw MetersPerSecond (COGSOGRapidUpdate_SOG p) (Some fieldSpec_COGSOGRapidUpdate_SOG)) (\<lambda>_.
     seqE (writeReserved 16 48) (\<lambda>_.
     returnE (finish_info now 129026 (COGSOGRapidUpdate_Info p))))))))"

definition COGSOGRapidUpdate_received :: "'q units_lib \<Rightarrow> (rat \<Rightarrow> u64) \<Rightarrow> MessageInfo \<Rightarrow> 'q COGSOGRapidUpdate \<Rightarrow> 'q COGSOGRapidUpdate" where
  "COGSOGRapidUpdate_received lib hw info p = \<lparr>COGSOGRapidUpdate_Info = info,
     COGSOGRapidUpdate_SID = pin fieldSpec_COGSOGRapidUpdate_SID (COGSOGRapidUpdate_SID p),
     COGSOGRapidUpdate_COGReference = take_bit 2 (COGSOGRapidUpdate_COGReference p),
     COGSOGRapidUpdate_COG = map_option (scaled_back hw 24 fieldSpec_COGSOGRapidUpdate_COG) (COGSOGRapidUpdate_COG p),
     COGSOGRapidUpdate_SOG = map_option (unit_back lib hw MetersPerSecond fieldSpec_COGSOGRapidUpdate_SOG) (COGSOGRapidUpdate_SOG p)\<rparr>"

lemma COGSOGRapidUpdate_codec: "codec (EncodeCOGSOGRapidUpdate lib hw) (DecodeCOGSOGRapidUpdate lib) COGSOGRapidUpdate_Info 129026 8
    (\<lambda>_. True) (COGSOGRapidUpdate_received lib hw)"
  unfolding EncodeCOGSOGRapidUpdate_def DecodeCOGSOGRapidUpdate_def COGSOGRapidUpdate_received_def
  by (rule codec.intro, rule carries_cong, (rule codec_steps carries_end
      | simp add: codec_facts pin_read lookup_read lookup_read_1 unit_read fieldSpec_COGSOGRapidUpdate_SID_def fieldSpec_COGSOGRapidUpdate_COG_def fieldSpec_COGSOGRapidUpdate_SOG_def)+)

subsection \<open>PositionDeltaRapidUpdate\<close>

definition fieldSpec_PositionDeltaRapidUpdate_SID :: FieldSpec where
  "fieldSpec_PositionDeltaRapidUpdate_SID = unsigned_spec 8 0 0xFD 0xFF 2"

definition fieldSpec_PositionDeltaRapidUpdate_TimeDelta :: ScaledSpec where
  "fieldSpec_PositionDeltaRapidUpdate_TimeDelta =
     scaled_spec 8 8 0xFD 0xFF 0 False 2 (fl64 0.004999999888241291) None None"

definition fieldSpec_PositionDeltaRapidUpdate_LatitudeDelta :: ScaledSpec where
  "fieldSpec_PositionDeltaRapidUpdate_LatitudeDelta =
     scaled_spec 24 16 0x7FFFFD 0x7FFFFF 0 True 2 (fl64 0.000000002777780006013586) None None"

definition fieldSpec_PositionDeltaRapidUpdate_LongitudeDelta :: ScaledSpec where
  "fieldSpec_PositionDeltaRapidUpdate_LongitudeDelta =
     scaled_spec 24 40 0x7FFFFD 0x7FFFFF 0 True 2 (fl64 0.000000002777780006013586) None None"

record PositionDeltaRapidUpdate =
  PositionDeltaRapidUpdate_Info :: MessageInfo
  PositionDeltaRapidUpdate_SID :: "u8 option"
  PositionDeltaRapidUpdate_TimeDelta :: "rat option"
  PositionDeltaRapidUpdate_LatitudeDelta :: "rat option"
  PositionDeltaRapidUpdate_LongitudeDelta :: "rat option"

definition DecodePositionDeltaRapidUpdate :: "MessageInfo \<Rightarrow> (DataStream, PositionDeltaRapidUpdate) step" where
  "DecodePositionDeltaRapidUpdate info =
     field ''PositionDeltaRapidUpdate-SID'' (ReadRaw go_uint8 (Some fieldSpec_PositionDeltaRapidUpdate_SID)) (\<lambda>v1.
     field ''PositionDeltaRapidUpdate-TimeDelta'' (ReadScaled 24 (Some fieldSpec_PositionDeltaRapidUpdate_TimeDelta)) (\<lambda>v2.
     field ''PositionDeltaRapidUpdate-LatitudeDelta'' (ReadScaled 53 (Some fieldSpec_PositionDeltaRapidUpdate_LatitudeDelta)) (\<lambda>v3.
     field ''PositionDeltaRapidUpdate-LongitudeDelta'' (ReadScaled 53 (Some fieldSpec_PositionDeltaRapidUpdate_LongitudeDelta)) (\<lambda>v4.
     returnE \<lparr>PositionDeltaRapidUpdate_Info = info,
       PositionDeltaRapidUpdate_SID = map_option of_int v1,
       PositionDeltaRapidUpdate_TimeDelta = v2,
       PositionDeltaRapidUpdate_LatitudeDelta = v3,
       PositionDeltaRapidUpdate_LongitudeDelta = v4\<rparr>))))"

definition EncodePositionDeltaRapidUpdate :: "(rat \<Rightarrow> u64) \<Rightarrow> gotime \<Rightarrow> PositionDeltaRapidUpdate \<Rightarrow> (DataStream, MessageInfo) step" where
  "EncodePositionDeltaRapidUpdate hw now p =
     seqE (WriteRaw (map_option uint (PositionDeltaRapidUpdate_SID p)) (Some fieldSpec_PositionDeltaRapidUpdate_SID)) (\<lambda>_.
     seqE (WriteScaled hw (PositionDeltaRapidUpdate_TimeDelta p) (Some fieldSpec_PositionDeltaRapidUpdate_TimeDelta)) (\<lambda>_.
     seqE (WriteScaled hw (PositionDeltaRapidUpdate_LatitudeDelta p) (Some fieldSpec_PositionDeltaRapidUpdate_LatitudeDelta)) (\<lambda>_.
     seqE (WriteScaled hw (PositionDeltaRapidUpdate_LongitudeDelta p) (Some fieldSpec_PositionDeltaRapidUpdate_LongitudeDelta)) (\<lambda>_.
     returnE (finish_info now 129027 (PositionDeltaRapidUpdate_Info p))))))"

definition PositionDeltaRapidUpdate_received :: "(rat \<Rightarrow> u64) \<Rightarrow> MessageInfo \<Rightarrow> PositionDeltaRapidUpdate \<Rightarrow> PositionDeltaRapidUpdate" where
  "PositionDeltaRapidUpdate_received hw info p = \<lparr>PositionDeltaRapidUpdate_Info = info,
     PositionDeltaRapidUpdate_SID = pin fieldSpec_PositionDeltaRapidUpdate_SID (PositionDeltaRapidUpdate_SID p),
     PositionDeltaRapidUpdate_TimeDelta = map_option (scaled_back hw 24 fieldSpec_PositionDeltaRapidUpdate_TimeDelta) (PositionDeltaRapidUpdate_TimeDelta p),
     PositionDeltaRapidUpdate_LatitudeDelta = map_option (scaled_back hw 53 fieldSpec_PositionDeltaRapidUpdate_LatitudeDelta) (PositionDeltaRapidUpdate_LatitudeDelta p),
     PositionDeltaRapidUpdate_LongitudeDelta = map_option (scaled_back hw 53 fieldSpec_PositionDeltaRapidUpdate_LongitudeDelta) (PositionDeltaRapidUpdate_LongitudeDelta p)\<rparr>"

lemma PositionDeltaRapidUpdate_codec: "codec (EncodePositionDeltaRapidUpdate hw) DecodePositionDeltaRapidUpdate PositionDeltaRapidUpdate_Info 129027 8
    (\<lambda>_. True) (PositionDeltaRapidUpdate_received hw)"
  unfolding EncodePositionDeltaRapidUpdate_def DecodePositionDeltaRapidUpdate_def PositionDeltaRapidUpdate_received_def
  by (rule codec.intro, rule carries_cong, (rule codec_steps carries_end
      | simp add: codec_facts pin_read lookup_read lookup_read_1 unit_read fieldSpec_PositionDeltaRapidUpdate_SID_def fieldSpec_PositionDeltaRapidUpdate_TimeDelta_def fieldSpec_PositionDeltaRapidUpdate_LatitudeDelta_def fieldSpec_PositionDeltaRapidUpdate_LongitudeDelta_def)+)

subsection \<open>AltitudeDeltaRapidUpdate\<close>

definition fieldSpec_AltitudeDeltaRapidUpdate_SID :: FieldSpec where
  "fieldSpec_AltitudeDeltaRapidUpdate_SID = unsigned_spec 8 0 0xFD 0xFF 2"

definition fieldSpec_AltitudeDeltaRapidUpdate_TimeDelta :: ScaledSpec where
  "fieldSpec_AltitudeDeltaRapidUpdate_TimeDelta =
     scaled_spec 8 8 0xFD 0xFF 0 False 2 (fl64 0.004999999888241291) None None"

definition fieldSpec_AltitudeDeltaRapidUpdate_COG :: ScaledSpec where
  "fieldSpec_AltitudeDeltaRapidUpdate_COG =
     scaled_spec 16 24 0xFFFD 0xFFFF 0 False 2 (fl64 0.00009999999747378752) (Some 0) (Some (fl64 6.2831852))"

definition fieldSpec_AltitudeDeltaRapidUpdate_AltitudeDelta :: ScaledSpec where
  "fieldSpec_AltitudeDeltaRapidUpdate_AltitudeDelta =
     scaled_spec 24 40 0x7FFFFD 0x7FFFFF 0 True 2 (fl64 0.0010000000474974513) None None"

record 'q AltitudeDeltaRapidUpdate =
  AltitudeDeltaRapidUpdate_Info :: MessageInfo
  AltitudeDeltaRapidUpdate_SID :: "u8 option"
  AltitudeDeltaRapidUpdate_TimeDelta :: "rat option"
  AltitudeDeltaRapidUpdate_GNSSQuality :: u8
  AltitudeDeltaRapidUpdate_Direction :: u8
  AltitudeDeltaRapidUpdate_COG :: "rat option"
  AltitudeDeltaRapidUpdate_AltitudeDelta :: "'q option"

definition DecodeAltitudeDeltaRapidUpdate :: "'q units_lib \<Rightarrow> MessageInfo \<Rightarrow> (DataStream, 'q AltitudeDeltaRapidUpdate) step" where
  "DecodeAltitudeDeltaRapidUpdate lib info =
     field ''AltitudeDeltaRapidUpdate-SID'' (ReadRaw go_uint8 (Some fieldSpec_AltitudeDeltaRapidUpdate_SID)) (\<lambda>v1.
     field ''AltitudeDeltaRapidUpdate-TimeDelta'' (ReadScaled 24 (Some fieldSpec_AltitudeDeltaRapidUpdate_TimeDelta)) (\<lambda>v2.
     field ''AltitudeDeltaRapidUpdate-GNSSQuality'' (readLookupField 4) (\<lambda>v3.
     field ''AltitudeDeltaRapidUpdate-Direction'' (readLookupField 2) (\<lambda>v4.
     skip 2 (
     field ''AltitudeDeltaRapidUpdate-COG'' (ReadScaled 24 (Some fieldSpec_AltitudeDeltaRapidUpdate_COG)) (\<lambda>v6.
     field ''AltitudeDeltaRapidUpdate-AltitudeDelta'' (ReadScaled 24 (Some fieldSpec_AltitudeDeltaRapidUpdate_AltitudeDelta)) (\<lambda>v7.
     returnE \<lparr>AltitudeDeltaRapidUpdate_Info = info,
       AltitudeDeltaRapidUpdate_SID = map_option of_int v1,
       AltitudeDeltaRapidUpdate_TimeDelta = v2,
       AltitudeDeltaRapidUpdate_GNSSQuality = ucast v3,
       AltitudeDeltaRapidUpdate_Direction = ucast v4,
       AltitudeDeltaRapidUpdate_COG = v6,
       AltitudeDeltaRapidUpdate_AltitudeDelta = nullableUnit lib Meter v7\<rparr>)))))))"

definition EncodeAltitudeDeltaRapidUpdate :: "'q units_lib \<Rightarrow> (rat \<Rightarrow> u64) \<Rightarrow> gotime \<Rightarrow> 'q AltitudeDeltaRapidUpdate \<Rightarrow> (DataStream, MessageInfo) step" where
  "EncodeAltitudeDeltaRapidUpdate lib hw now p =
     seqE (WriteRaw (map_option uint (AltitudeDeltaRapidUpdate_SID p)) (Some fieldSpec_AltitudeDeltaRapidUpdate_SID)) (\<lambda>_.
     seqE (WriteScaled hw (AltitudeDeltaRapidUpdate_TimeDelta p) (Some fieldSpec_AltitudeDeltaRapidUpdate_TimeDelta)) (\<lambda>_.
     seqE (putNumberRaw (ucast (AltitudeDeltaRapidUpdate_GNSSQuality p)) 4 16) (\<lambda>_.
     seqE (putNumberRaw (ucast (AltitudeDeltaRapidUpdate_Direction p)) 2 20) (\<lambda>_.
     seqE (writeReserved 2 22) (\<lambda>_.
     seqE (WriteScaled hw (AltitudeDeltaRapidUpdate_COG p) (Some fieldSpec_AltitudeDeltaRapidUpdate_COG)) (\<lambda>_.
     seqE (writeUnit lib hw Meter (AltitudeDeltaRapidUpdate_AltitudeDelta p) (Some fieldSpec_AltitudeDeltaRapidUpdate_AltitudeDelta)) (\<lambda>_.
     returnE (finish_info now 129028 (AltitudeDeltaRapidUpdate_Info p)))))))))"

definition AltitudeDeltaRapidUpdate_received :: "'q units_lib \<Rightarrow> (rat \<Rightarrow> u64) \<Rightarrow> MessageInfo \<Rightarrow> 'q AltitudeDeltaRapidUpdate \<Rightarrow> 'q AltitudeDeltaRapidUpdate" where
  "AltitudeDeltaRapidUpdate_received lib hw info p = \<lparr>AltitudeDeltaRapidUpdate_Info = info,
     AltitudeDeltaRapidUpdate_SID = pin fieldSpec_AltitudeDeltaRapidUpdate_SID (AltitudeDeltaRapidUpdate_SID p),
     AltitudeDeltaRapidUpdate_TimeDelta = map_option (scaled_back hw 24 fieldSpec_AltitudeDeltaRapidUpdate_TimeDelta) (AltitudeDeltaRapidUpdate_TimeDelta p),
     AltitudeDeltaRapidUpdate_GNSSQuality = take_bit 4 (AltitudeDeltaRapidUpdate_GNSSQuality p),
     AltitudeDeltaRapidUpdate_Direction = take_bit 2 (AltitudeDeltaRapidUpdate_Direction p),
     AltitudeDeltaRapidUpdate_COG = map_option (scaled_back hw 24 fieldSpec_AltitudeDeltaRapidUpdate_COG) (AltitudeDeltaRapidUpdate_COG p),
     AltitudeDeltaRapidUpdate_AltitudeDelta = map_option (unit_back lib hw Meter fieldSpec_AltitudeDeltaRapidUpdate_AltitudeDelta) (AltitudeDeltaRapidUpdate_AltitudeDelta p)\<rparr>"

lemma AltitudeDeltaRapidUpdate_codec: "codec (EncodeAltitudeDeltaRapidUpdate lib hw) (DecodeAltitudeDeltaRapidUpdate lib) AltitudeDeltaRapidUpdate_Info 129028 8
    (\<lambda>_. True) (AltitudeDeltaRapidUpdate_received lib hw)"
  unfolding EncodeAltitudeDeltaRapidUpdate_def DecodeAltitudeDeltaRapidUpdate_def AltitudeDeltaRapidUpdate_received_def
  by (rule codec.intro, rule carries_cong, (rule codec_steps carries_end
      | simp add: codec_facts pin_read lookup_read lookup_read_1 unit_read fieldSpec_AltitudeDeltaRapidUpdate_SID_def fieldSpec_AltitudeDeltaRapidUpdate_TimeDelta_def fieldSpec_AltitudeDeltaRapidUpdate_COG_def fieldSpec_AltitudeDeltaRapidUpdate_AltitudeDelta_def)+)

subsection \<open>TimeDate\<close>

definition fieldSpec_TimeDate_Date :: FieldSpec where
  "fieldSpec_TimeDate_Date = unsigned_spec 16 0 0xFFFD 0xFFFF 2"

definition fieldSpec_TimeDate_Time :: ScaledSpec where
  "fieldSpec_TimeDate_Time =
     scaled_spec 32 16 0xFFFFFFFD 0xFFFFFFFF 0 False 2 (fl64 0.00009999999747378752) (Some 0) (Some 86401)"

definition fieldSpec_TimeDate_LocalOffset :: ScaledSpec where
  "fieldSpec_TimeDate_LocalOffset =
     scaled_spec 16 48 0x7FFD 0x7FFF 0 True 2 60 None None"

record TimeDate =
  TimeDate_Info :: MessageInfo
  TimeDate_Date :: "u16 option"
  TimeDate_Time :: "rat option"
  TimeDate_LocalOffset :: "rat option"

definition DecodeTimeDate :: "MessageInfo \<Rightarrow> (DataStream, TimeDate) step" where
  "DecodeTimeDate info =
     field ''TimeDate-Date'' (ReadRaw go_uint16 (Some fieldSpec_TimeDate_Date)) (\<lambda>v1.
     field ''TimeDate-Time'' (ReadScaled 24 (Some fieldSpec_TimeDate_Time)) (\<lambda>v2.
     field ''TimeDate-LocalOffset'' (ReadScaled 24 (Some fieldSpec_TimeDate_LocalOffset)) (\<lambda>v3.
     returnE \<lparr>TimeDate_Info = info,
       TimeDate_Date = map_option of_int v1,
       TimeDate_Time = v2,
       TimeDate_LocalOffset = v3\<rparr>)))"

definition EncodeTimeDate :: "(rat \<Rightarrow> u64) \<Rightarrow> gotime \<Rightarrow> TimeDate \<Rightarrow> (DataStream, MessageInfo) step" where
  "EncodeTimeDate hw now p =
     seqE (WriteRaw (map_option uint (TimeDate_Date p)) (Some fieldSpec_TimeDate_Date)) (\<lambda>_.
     seqE (WriteScaled hw (TimeDate_Time p) (Some fieldSpec_TimeDate_Time)) (\<lambda>_.
     seqE (WriteScaled hw (TimeDate_LocalOffset p) (Some fieldSpec_TimeDate_LocalOffset)) (\<lambda>_.
     returnE (finish_info now 129033 (TimeDate_Info p)))))"

definition TimeDate_received :: "(rat \<Rightarrow> u64) \<Rightarrow> MessageInfo \<Rightarrow> TimeDate \<Rightarrow> TimeDate" where
  "TimeDate_received hw info p = \<lparr>TimeDate_Info = info,
     TimeDate_Date = pin fieldSpec_TimeDate_Date (TimeDate_Date p),
     TimeDate_Time = map_option (scaled_back hw 24 fieldSpec_TimeDate_Time) (TimeDate_Time p),
     TimeDate_LocalOffset = map_option (scaled_back hw 24 fieldSpec_TimeDate_LocalOffset) (TimeDate_LocalOffset p)\<rparr>"

lemma TimeDate_codec: "codec (EncodeTimeDate hw) DecodeTimeDate TimeDate_Info 129033 8
    (\<lambda>_. True) (TimeDate_received hw)"
  unfolding EncodeTimeDate_def DecodeTimeDate_def TimeDate_received_def
  by (rule codec.intro, rule carries_cong, (rule codec_steps carries_end
      | simp add: codec_facts pin_read lookup_read lookup_read_1 unit_read fieldSpec_TimeDate_Date_def fieldSpec_TimeDate_Time_def fieldSpec_TimeDate_LocalOffset_def)+)

subsection \<open>Datum\<close>

definition fieldSpec_Datum_DeltaLatitude :: ScaledSpec where
  "fieldSpec_Datum_DeltaLatitude =
     scaled_spec 32 32 0x7FFFFFFD 0x7FFFFFFF 0 True 2 (fl64 0.00000010000000116860974) (Some (- 90)) (Some 90)"

definition fieldSpec_Datum_DeltaLongitude :: ScaledSpec where
  "fieldSpec_Datum_DeltaLongitude =
     scaled_spec 32 64 0x7FFFFFFD 0x7FFFFFFF 0 True 2 (fl64 0.00000010000000116860974) (Some (- 180)) (Some 180)"

definition fieldSpec_Datum_DeltaAltitude :: ScaledSpec where
  "fieldSpec_Datum_DeltaAltitude =
     scaled_spec 32 96 0x7FFFFFFD 0x7FFFFFFF 0 True 2 (fl64 0.009999999776482582) None None"

record 'q Datum =
  Datum_Info :: MessageInfo
  Datum_LocalDatum :: gostring
  Datum_DeltaLatitude :: "rat option"
  Datum_DeltaLongitude :: "rat option"
  Datum_DeltaAltitude :: "'q option"
  Datum_ReferenceDatum :: gostring

definition DecodeDatum :: "'q units_lib \<Rightarrow> MessageInfo \<Rightarrow> (DataStream, 'q Datum) step" where
  "DecodeDatum lib info =
     field ''Datum-LocalDatum'' (readFixedString 32) (\<lambda>v1.
     field ''Datum-DeltaLatitude'' (ReadScaled 53 (Some fieldSpec_Datum_DeltaLatitude)) (\<lambda>v2.
     field ''Datum-DeltaLongitude'' (ReadScaled 53 (Some fieldSpec_Datum_DeltaLongitude)) (\<lambda>v3.
     field ''Datum-DeltaAltitude'' (ReadScaled 24 (Some fieldSpec_Datum_DeltaAltitude)) (\<lambda>v4.
     field ''Datum-ReferenceDatum'' (readFixedString 32) (\<lambda>v5.
     returnE \<lparr>Datum_Info = info,
       Datum_LocalDatum = v1,
       Datum_DeltaLatitude = v2,
       Datum_DeltaLongitude = v3,
       Datum_DeltaAltitude = nullableUnit lib Meter v4,
       Datum_ReferenceDatum = v5\<rparr>)))))"

definition EncodeDatum :: "'q units_lib \<Rightarrow> (rat \<Rightarrow> u64) \<Rightarrow> gotime \<Rightarrow> 'q Datum \<Rightarrow> (DataStream, MessageInfo) step" where
  "EncodeDatum lib hw now p =
     seqE (writeStringFix (Datum_LocalDatum p) 32 0) (\<lambda>_.
     seqE (WriteScaled hw (Datum_DeltaLatitude p) (Some fieldSpec_Datum_DeltaLatitude)) (\<lambda>_.
     seqE (WriteScaled hw (Datum_DeltaLongitude p) (Some fieldSpec_Datum_DeltaLongitude)) (\<lambda>_.
     seqE (writeUnit lib hw Meter (Datum_DeltaAltitude p) (Some fieldSpec_Datum_DeltaAltitude)) (\<lambda>_.
     seqE (writeStringFix (Datum_ReferenceDatum p) 32 128) (\<lambda>_.
     returnE (finish_info now 129044 (Datum_Info p)))))))"

definition Datum_received :: "'q units_lib \<Rightarrow> (rat \<Rightarrow> u64) \<Rightarrow> MessageInfo \<Rightarrow> 'q Datum \<Rightarrow> 'q Datum" where
  "Datum_received lib hw info p = \<lparr>Datum_Info = info,
     Datum_LocalDatum = fixed_text 4 (Datum_LocalDatum p),
     Datum_DeltaLatitude = map_option (scaled_back hw 53 fieldSpec_Datum_DeltaLatitude) (Datum_DeltaLatitude p),
     Datum_DeltaLongitude = map_option (scaled_back hw 53 fieldSpec_Datum_DeltaLongitude) (Datum_DeltaLongitude p),
     Datum_DeltaAltitude = map_option (unit_back lib hw Meter fieldSpec_Datum_DeltaAltitude) (Datum_DeltaAltitude p),
     Datum_ReferenceDatum = fixed_text 4 (Datum_ReferenceDatum p)\<rparr>"

lemma Datum_codec: "codec (EncodeDatum lib hw) (DecodeDatum lib) Datum_Info 129044 20
    (\<lambda>p. length (Datum_LocalDatum p) < 65000 \<and> length (Datum_ReferenceDatum p) < 65000) (Datum_received lib hw)"
  unfolding EncodeDatum_def DecodeDatum_def Datum_received_def
  by (rule codec.intro, rule carries_cong, (rule codec_steps carries_end
      | simp add: codec_facts pin_read lookup_read lookup_read_1 unit_read fieldSpec_Datum_DeltaLatitude_def fieldSpec_Datum_DeltaLongitude_def fieldSpec_Datum_DeltaAltitude_def)+)

subsection \<open>CrossTrackError\<close>

definition fieldSpec_CrossTrackError_SID :: FieldSpec where
  "fieldSpec_CrossTrackError_SID = unsigned_spec 8 0 0xFD 0xFF 2"

definition fieldSpec_CrossTrackError_XTE :: ScaledSpec where
  "fieldSpec_CrossTrackError_XTE =
     scaled_spec 32 16 0x7FFFFFFD 0x7FFFFFFF 0 True 2 (fl64 0.009999999776482582) None None"

record 'q CrossTrackError =
  CrossTrackError_Info :: MessageInfo
  CrossTrackError_SID :: "u8 option"
  CrossTrackError_XTEMode :: u8
  CrossTrackError_NavigationTerminated :: u8
  CrossTrackError_XTE :: "'q option"

definition DecodeCrossTrackError :: "'q units_lib \<Rightarrow> MessageInfo \<Rightarrow> (DataStream, 'q CrossTrackError) step" where
  "DecodeCrossTrackError lib info =
     field ''CrossTrackError-SID'' (ReadRaw go_uint8 (Some fieldSpec_CrossTrackError_SID)) (\<lambda>v1.
     field ''CrossTrackError-XTEMode'' (readLookupField 4) (\<lambda>v2.
     skip 2 (
     field ''CrossTrackError-NavigationTerminated'' (readLookupField 2) (\<lambda>v4.
     field ''CrossTrackError-XTE'' (ReadScaled 24 (Some fieldSpec_CrossTrackError_XTE)) (\<lambda>v5.
     skip 16 (
     returnE \<lparr>CrossTrackError_Info = info,
       CrossTrackError_SID = map_option of_int v1,
       CrossTrackError_XTEMode = ucast v2,
       CrossTrackError_NavigationTerminated = ucast v4,
       CrossTrackError_XTE = nullableUnit lib Meter v5\<rparr>))))))"

definition EncodeCrossTrackError :: "'q units_lib \<Rightarrow> (rat \<Rightarrow> u64) \<Rightarrow> gotime \<Rightarrow> 'q CrossTrackError \<Rightarrow> (DataStream, MessageInfo) step" where
  "EncodeCrossTrackError lib hw now p =
     seqE (WriteRaw (map_option uint (CrossTrackError_SID p)) (Some fieldSpec_CrossTrackError_SID)) (\<lambda>_.
     seqE (putNumberRaw (ucast (CrossTrackError_XTEMode p)) 4 8) (\<lambda>_.
     seqE (writeReserved 2 12) (\<lambda>_.
     seqE (putNumberRaw (ucast (CrossTrackError_NavigationTerminated p)) 2 14) (\<lambda>_.
     seqE (writeUnit lib hw Meter (CrossTrackError_XTE p) (Some fieldSpec_CrossTrackError_XTE)) (\<lambda>_.
     seqE (writeReserved 16 48) (\<lambda>_.
     returnE (finish_info now 129283 (CrossTrackError_Info p))))))))"

definition CrossTrackError_received :: "'q units_lib \<Rightarrow> (rat \<Rightarrow> u64) \<Rightarrow> MessageInfo \<Rightarrow> 'q CrossTrackError \<Rightarrow> 'q CrossTrackError" where
  "CrossTrackError_received lib hw info p = \<lparr>CrossTrackError_Info = info,
     CrossTrackError_SID = pin fieldSpec_CrossTrackError_SID (CrossTrackError_SID p),
     CrossTrackError_XTEMode = take_bit 4 (CrossTrackError_XTEMode p),
     CrossTrackError_NavigationTerminated = take_bit 2 (CrossTrackError_NavigationTerminated p),
     CrossTrackError_XTE = map_option (unit_back lib hw Meter fieldSpec_CrossTrackError_XTE) (CrossTrackError_XTE p)\<rparr>"

lemma CrossTrackError_codec: "codec (EncodeCrossTrackError lib hw) (DecodeCrossTrackError lib) CrossTrackError_Info 129283 8
    (\<lambda>_. True) (CrossTrackError_received lib hw)"
  unfolding EncodeCrossTrackError_def DecodeCrossTrackError_def CrossTrackError_received_def
  by (rule codec.intro, rule carries_cong, (rule codec_steps carries_end
      | simp add: codec_facts pin_read lookup_read lookup_read_1 unit_read fieldSpec_CrossTrackError_SID_def fieldSpec_CrossTrackError_XTE_def)+)

subsection \<open>NavigationData\<close>

definition fieldSpec_NavigationData_SID :: FieldSpec where
  "fieldSpec_NavigationData_SID = unsigned_spec 8 0 0xFD 0xFF 2"

definition fieldSpec_NavigationData_DistanceToWaypoint :: ScaledSpec where
  "fieldSpec_NavigationData_DistanceToWaypoint =
     scaled_spec 32 8 0xFFFFFFFD 0xFFFFFFFF 0 False 2 (fl64 0.009999999776482582) None None"

definition fieldSpec_NavigationData_EtaTime :: ScaledSpec where
  "fieldSpec_NavigationData_EtaTime =
     scaled_spec 32 48 0xFFFFFFFD 0xFFFFFFFF 0 False 2 (fl64 0.00009999999747378752) (Some 0) (Some 86401)"

definition fieldSpec_NavigationData_EtaDate :: FieldSpec where
  "fieldSpec_NavigationData_EtaDate = unsigned_spec 16 80 0xFFFD 0xFFFF 2"

definition fieldSpec_NavigationData_BearingOriginToDestinationWaypoint :: ScaledSpec where
  "fieldSpec_NavigationData_BearingOriginToDestinationWaypoint =
     scaled_spec 16 96 0xFFFD 0xFFFF 0 False 2 (fl64 0.00009999999747378752) (Some 0) (Some (fl64 6.2831852))"

definition fieldSpec_NavigationData_BearingPositionToDestinationWaypoint :: ScaledSpec where
  "fieldSpec_NavigationData_BearingPositionToDestinationWaypoint =
     scaled_spec 16 112 0xFFFD 0xFFFF 0 False 2 (fl64 0.00009999999747378752) (Some 0) (Some (fl64 6.2831852))"

definition fieldSpec_NavigationData_OriginWaypointNumber :: FieldSpec where
  "fieldSpec_NavigationData_OriginWaypointNumber = unsigned_spec 32 128 0xFFFFFFFD 0xFFFFFFFF 2"

definition fieldSpec_NavigationData_DestinationWaypointNumber :: FieldSpec where
  "fieldSpec_NavigationData_DestinationWaypointNumber = unsigned_spec 32 160 0xFFFFFFFD 0xFFFFFFFF 2"

definition fieldSpec_NavigationData_DestinationLatitude :: ScaledSpec where
  "fieldSpec_NavigationData_DestinationLatitude =
     scaled_spec 32 192 0x7FFFFFFD 0x7FFFFFFF 0 True 2 (fl64 0.00000010000000116860974) (Some (- 90)) (Some 90)"

definition fieldSpec_NavigationData_DestinationLongitude :: ScaledSpec where
  "fieldSpec_NavigationData_DestinationLongitude =
     scaled_spec 32 224 0x7FFFFFFD 0x7FFFFFFF 0 True 2 (fl64 0.00000010000000116860974) (Some (- 180)) (Some 180)"

definition fieldSpec_NavigationData_WaypointClosingVelocity :: ScaledSpec where
  "fieldSpec_NavigationData_WaypointClosingVelocity =
     scaled_spec 16 256 0x7FFD 0x7FFF 0 True 2 (fl64 0.009999999776482582) None None"

record 'q NavigationData =
  NavigationData_Info :: MessageInfo
  NavigationData_SID :: "u8 option"
  NavigationData_DistanceToWaypoint :: "'q option"
  NavigationData_CourseBearingReference :: u8
  NavigationData_PerpendicularCrossed :: u8
  NavigationData_ArrivalCircleEntered :: u8
  NavigationData_CalculationType :: u8
  NavigationData_EtaTime :: "rat option"
  NavigationData_EtaDate :: "u16 option"
  NavigationData_BearingOriginToDestinationWaypoint :: "rat option"
  NavigationData_BearingPositionToDestinationWaypoint :: "rat option"
  NavigationData_OriginWaypointNumber :: "u32 option"
  NavigationData_DestinationWaypointNumber :: "u32 option"
  NavigationData_DestinationLatitude :: "rat option"
  NavigationData_DestinationLongitude :: "rat option"
  NavigationData_WaypointClosingVelocity :: "'q option"

definition DecodeNavigationData :: "'q units_lib \<Rightarrow> MessageInfo \<Rightarrow> (DataStream, 'q NavigationData) step" where
  "DecodeNavigationData lib info =
     field ''NavigationData-SID'' (ReadRaw go_uint8 (Some fieldSpec_NavigationData_SID)) (\<lambda>v1.
     field ''NavigationData-DistanceToWaypoint'' (ReadScaled 24 (Some fieldSpec_NavigationData_DistanceToWaypoint)) (\<lambda>v2.
     field ''NavigationData-CourseBearingReference'' (readLookupField 2) (\<lambda>v3.
     field ''NavigationData-PerpendicularCrossed'' (readLookupField 2) (\<lambda>v4.
     field ''NavigationData-ArrivalCircleEntered'' (readLookupField 2) (\<lambda>v5.
     field ''NavigationData-CalculationType'' (readLookupField 2) (\<lambda>v6.
     field ''NavigationData-EtaTime'' (ReadScaled 24 (Some fieldSpec_NavigationData_EtaTime)) (\<lambda>v7.
     field ''NavigationData-EtaDate'' (ReadRaw go_uint16 (Some fieldSpec_NavigationData_EtaDate)) (\<lambda>v8.
     field ''NavigationData-BearingOriginToDestinationWaypoint'' (ReadScaled 24 (Some fieldSpec_NavigationData_BearingOriginToDestinationWaypoint)) (\<lambda>v9.
     field ''NavigationData-BearingPositionToDestinationWaypoint'' (ReadScaled 24 (Some fieldSpec_NavigationData_BearingPositionToDestinationWaypoint)) (\<lambda>v10.
     field ''NavigationData-OriginWaypointNumber'' (ReadRaw go_uint32 (Some fieldSpec_NavigationData_OriginWaypointNumber)) (\<lambda>v11.
     field ''NavigationData-DestinationWaypointNumber'' (ReadRaw go_uint32 (Some fieldSpec_NavigationData_DestinationWaypointNumber)) (\<lambda>v12.
     field ''NavigationData-DestinationLatitude'' (ReadScaled 53 (Some fieldSpec_NavigationData_DestinationLatitude)) (\<lambda>v13.
     field ''NavigationData-DestinationLongitude'' (ReadScaled 53 (Some fieldSpec_NavigationData_DestinationLongitude)) (\<lambda>v14.
     field ''NavigationData-WaypointClosingVelocity'' (ReadScaled 24 (Some fieldSpec_NavigationData_WaypointClosingVelocity)) (\<lambda>v15.
     returnE \<lparr>NavigationData_Info = info,
       NavigationData_SID = map_option of_int v1,
       NavigationData_DistanceToWaypoint = nullableUnit lib Meter v2,
       NavigationData_CourseBearingReference = ucast v3,
       NavigationData_PerpendicularCrossed = ucast v4,
       NavigationData_ArrivalCircleEntered = ucast v5,
       NavigationData_CalculationType = ucast v6,
       NavigationData_EtaTime = v7,
       NavigationData_EtaDate = map_option of_int v8,
       NavigationData_BearingOriginToDestinationWaypoint = v9,
       NavigationData_BearingPositionToDestinationWaypoint = v10,
       NavigationData_OriginWaypointNumber = map_option of_int v11,
       NavigationData_DestinationWaypointNumber = map_option of_int v12,
       NavigationData_DestinationLatitude = v13,
       NavigationData_DestinationLongitude = v14,
       NavigationData_WaypointClosingVelocity = nullableUnit lib MetersPerSecond v15\<rparr>)))))))))))))))"

definition EncodeNavigationData :: "'q units_lib \<Rightarrow> (rat \<Rightarrow> u64) \<Rightarrow> gotime \<Rightarrow> 'q NavigationData \<Rightarrow> (DataStream, MessageInfo) step" where
  "EncodeNavigationData lib hw now p =
     seqE (WriteRaw (map_option uint (NavigationData_SID p)) (Some fieldSpec_NavigationData_SID)) (\<lambda>_.
     seqE (writeUnit lib hw Meter (NavigationData_DistanceToWaypoint p) (Some fieldSpec_NavigationData_DistanceToWaypoint)) (\<lambda>_.
     seqE (putNumberRaw (ucast (NavigationData_CourseBearingReference p)) 2 40) (\<lambda>_.
     seqE (putNumberRaw (ucast (NavigationData_PerpendicularCrossed p)) 2 42) (\<lambda>_.
     seqE (putNumberRaw (ucast (NavigationData_ArrivalCircleEntered p)) 2 44) (\<lambda>_.
     seqE (putNumberRaw (ucast (NavigationData_CalculationType p)) 2 46) (\<lambda>_.
     seqE (WriteScaled hw (NavigationData_EtaTime p) (Some fieldSpec_NavigationData_EtaTime)) (\<lambda>_.
     seqE (WriteRaw (map_option uint (NavigationData_EtaDate p)) (Some fieldSpec_NavigationData_EtaDate)) (\<lambda>_.
     seqE (WriteScaled hw (NavigationData_BearingOriginToDestinationWaypoint p) (Some fieldSpec_NavigationData_BearingOriginToDestinationWaypoint)) (\<lambda>_.
     seqE (WriteScaled hw (NavigationData_BearingPositionToDestinationWaypoint p) (Some fieldSpec_NavigationData_BearingPositionToDestinationWaypoint)) (\<lambda>_.
     seqE (WriteRaw (map_option uint (NavigationData_OriginWaypointNumber p)) (Some fieldSpec_NavigationData_OriginWaypointNumber)) (\<lambda>_.
     seqE (WriteRaw (map_option uint (NavigationData_DestinationWaypointNumber p)) (Some fieldSpec_NavigationData_DestinationWaypointNumber)) (\<lambda>_.
     seqE (WriteScaled hw (NavigationData_DestinationLatitude p) (Some fieldSpec_NavigationData_DestinationLatitude)) (\<lambda>_.
     seqE (WriteScaled hw (NavigationData_DestinationLongitude p) (Some fieldSpec_NavigationData_DestinationLongitude)) (\<lambda>_.
     seqE (writeUnit lib hw MetersPerSecond (NavigationData_WaypointClosingVelocity p) (Some fieldSpec_NavigationData_WaypointClosingVelocity)) (\<lambda>_.
     returnE (finish_info now 129284 (NavigationData_Info p)))))))))))))))))"

definition NavigationData_received :: "'q units_lib \<Rightarrow> (rat \<Rightarrow> u64) \<Rightarrow> MessageInfo \<Rightarrow> 'q NavigationData \<Rightarrow> 'q NavigationData" where
  "NavigationData_received lib hw info p = \<lparr>NavigationData_Info = info,
     NavigationData_SID = pin fieldSpec_NavigationData_SID (NavigationData_SID p),
     NavigationData_DistanceToWaypoint = map_option (unit_back lib hw Meter fieldSpec_NavigationData_DistanceToWaypoint) (NavigationData_DistanceToWaypoint p),
     NavigationData_CourseBearingReference = take_bit 2 (NavigationData_CourseBearingReference p),
     NavigationData_PerpendicularCrossed = take_bit 2 (NavigationData_PerpendicularCrossed p),
     NavigationData_ArrivalCircleEntered = take_bit 2 (NavigationData_ArrivalCircleEntered p),
     NavigationData_CalculationType = take_bit 2 (NavigationData_CalculationType p),
     NavigationData_EtaTime = map_option (scaled_back hw 24 fieldSpec_NavigationData_EtaTime) (NavigationData_EtaTime p),
     NavigationData_EtaDate = pin fieldSpec_NavigationData_EtaDate (NavigationData_EtaDate p),
     NavigationData_BearingOriginToDestinationWaypoint = map_option (scaled_back hw 24 fieldSpec_NavigationData_BearingOriginToDestinationWaypoint) (NavigationData_BearingOriginToDestinationWaypoint p),
     NavigationData_BearingPositionToDestinationWaypoint = map_option (scaled_back hw 24 fieldSpec_NavigationData_BearingPositionToDestinationWaypoint) (NavigationData_BearingPositionToDestinationWaypoint p),
     NavigationData_OriginWaypointNumber = pin fieldSpec_NavigationData_OriginWaypointNumber (NavigationData_OriginWaypointNumber p),
     NavigationData_DestinationWaypointNumber = pin fieldSpec_NavigationData_DestinationWaypointNumber (NavigationData_DestinationWaypointNumber p),
     NavigationData_DestinationLatitude = map_option (scaled_back hw 53 fieldSpec_NavigationData_DestinationLatitude) (NavigationData_DestinationLatitude p),
     NavigationData_DestinationLongitude = map_option (scaled_back hw 53 fieldSpec_NavigationData_DestinationLongitude) (NavigationData_DestinationLongitude p),
     NavigationData_WaypointClosingVelocity = map_option (unit_back lib hw MetersPerSecond fieldSpec_NavigationData_WaypointClosingVelocity) (NavigationData_WaypointClosingVelocity p)\<rparr>"

lemma NavigationData_codec: "codec (EncodeNavigationData lib hw) (DecodeNavigationData lib) NavigationData_Info 129284 34
    (\<lambda>_. True) (NavigationData_received lib hw)"
  unfolding EncodeNavigationData_def DecodeNavigationData_def NavigationData_received_def
  by (rule codec.intro, rule carries_cong, (rule codec_steps carries_end
      | simp add: codec_facts pin_read lookup_read lookup_read_1 unit_read fieldSpec_NavigationData_SID_def fieldSpec_NavigationData_DistanceToWaypoint_def fieldSpec_NavigationData_EtaTime_def fieldSpec_NavigationData_EtaDate_def fieldSpec_NavigationData_BearingOriginToDestinationWaypoint_def fieldSpec_NavigationData_BearingPositionToDestinationWaypoint_def fieldSpec_NavigationData_OriginWaypointNumber_def fieldSpec_NavigationData_DestinationWaypointNumber_def fieldSpec_NavigationData_DestinationLatitude_def fieldSpec_NavigationData_DestinationLongitude_def fieldSpec_NavigationData_WaypointClosingVelocity_def)+)

subsection \<open>SetDriftRapidUpdate\<close>

definition fieldSpec_SetDriftRapidUpdate_SID :: FieldSpec where
  "fieldSpec_SetDriftRapidUpdate_SID = unsigned_spec 8 0 0xFD 0xFF 2"

definition fieldSpec_SetDriftRapidUpdate_Set :: ScaledSpec where
  "fieldSpec_SetDriftRapidUpdate_Set =
     scaled_spec 16 16 0xFFFD 0xFFFF 0 False 2 (fl64 0.00009999999747378752) (Some 0) (Some (fl64 6.2831852))"

definition fieldSpec_SetDriftRapidUpdate_Drift :: ScaledSpec where
  "fieldSpec_SetDriftRapidUpdate_Drift =
     scaled_spec 16 32 0xFFFD 0xFFFF 0 False 2 (fl64 0.009999999776482582) None None"

record 'q SetDriftRapidUpdate =
  SetDriftRapidUpdate_Info :: MessageInfo
  SetDriftRapidUpdate_SID :: "u8 option"
  SetDriftRapidUpdate_SetReference :: u8
  SetDriftRapidUpdate_Set :: "rat option"
  SetDriftRapidUpdate_Drift :: "'q option"

definition DecodeSetDriftRapidUpdate :: "'q units_lib \<Rightarrow> MessageInfo \<Rightarrow> (DataStream, 'q SetDriftRapidUpdate) step" where
  "DecodeSetDriftRapidUpdate lib info =
     field ''SetDriftRapidUpdate-SID'' (ReadRaw go_uint8 (Some fieldSpec_SetDriftRapidUpdate_SID)) (\<lambda>v1.
     field ''SetDriftRapidUpdate-SetReference'' (readLookupField 2) (\<lambda>v2.
     skip 6 (
     field ''SetDriftRapidUpdate-Set'' (ReadScaled 24 (Some fieldSpec_SetDriftRapidUpdate_Set)) (\<lambda>v4.
     field ''SetDriftRapidUpdate-Drift'' (ReadScaled 24 (Some fieldSpec_SetDriftRapidUpdate_Drift)) (\<lambda>v5.
     skip 16 (
     returnE \<lparr>SetDriftRapidUpdate_Info = info,
       SetDriftRapidUpdate_SID = map_option of_int v1,
       SetDriftRapidUpdate_SetReference = ucast v2,
       SetDriftRapidUpdate_Set = v4,
       SetDriftRapidUpdate_Drift = nullableUnit lib MetersPerSecond v5\<rparr>))))))"

definition EncodeSetDriftRapidUpdate :: "'q units_lib \<Rightarrow> (rat \<Rightarrow> u64) \<Rightarrow> gotime \<Rightarrow> 'q SetDriftRapidUpdate \<Rightarrow> (DataStream, MessageInfo) step" where
  "EncodeSetDriftRapidUpdate lib hw now p =
     seqE (WriteRaw (map_option uint (SetDriftRapidUpdate_SID p)) (Some fieldSpec_SetDriftRapidUpdate_SID)) (\<lambda>_.
     seqE (putNumberRaw (ucast (SetDriftRapidUpdate_SetReference p)) 2 8) (\<lambda>_.
     seqE (writeReserved 6 10) (\<lambda>_.
     seqE (WriteScaled hw (SetDriftRapidUpdate_Set p) (Some fieldSpec_SetDriftRapidUpdate_Set)) (\<lambda>_.
     seqE (writeUnit lib hw MetersPerSecond (SetDriftRapidUpdate_Drift p) (Some fieldSpec_SetDriftRapidUpdate_Drift)) (\<lambda>_.
     seqE (writeReserved 16 48) (\<lambda>_.
     returnE (finish_info now 129291 (SetDriftRapidUpdate_Info p))))))))"

definition SetDriftRapidUpdate_received :: "'q units_lib \<Rightarrow> (rat \<Rightarrow> u64) \<Rightarrow> MessageInfo \<Rightarrow> 'q SetDriftRapidUpdate \<Rightarrow> 'q SetDriftRapidUpdate" where
  "SetDriftRapidUpdate_received lib hw info p = \<lparr>SetDriftRapidUpdate_Info = info,
     SetDriftRapidUpdate_SID = pin fieldSpec_SetDriftRapidUpdate_SID (SetDriftRapidUpdate_SID p),
     SetDriftRapidUpdate_SetReference = take_bit 2 (SetDriftRapidUpdate_SetReference p),
     SetDriftRapidUpdate_Set = map_option (scaled_back hw 24 fieldSpec_SetDriftRapidUpdate_Set) (SetDriftRapidUpdate_Set p),
     SetDriftRapidUpdate_Drift = map_option (unit_back lib hw MetersPerSecond fieldSpec_SetDriftRapidUpdate_Drift) (SetDriftRapidUpdate_Drift p)\<rparr>"

lemma SetDriftRapidUpdate_codec: "codec (EncodeSetDriftRapidUpdate lib hw) (DecodeSetDriftRapidUpdate lib) SetDriftRapidUpdate_Info 129291 8
    (\<lambda>_. True) (SetDriftRapidUpdate_received lib hw)"
  unfolding EncodeSetDriftRapidUpdate_def DecodeSetDriftRapidUpdate_def SetDriftRapidUpdate_received_def
  by (rule codec.intro, rule carries_cong, (rule codec_steps carries_end
      | simp add: codec_facts pin_read lookup_read lookup_read_1 unit_read fieldSpec_SetDriftRapidUpdate_SID_def fieldSpec_SetDriftRapidUpdate_Set_def fieldSpec_SetDriftRapidUpdate_Drift_def)+)

subsection \<open>NavigationRouteTimeToFromMark\<close>

definition fieldSpec_NavigationRouteTimeToFromMark_SID :: FieldSpec where
  "fieldSpec_NavigationRouteTimeToFromMark_SID = unsigned_spec 8 0 0xFD 0xFF 2"

definition fieldSpec_NavigationRouteTimeToFromMark_TimeToMark :: ScaledSpec where
  "fieldSpec_NavigationRouteTimeToFromMark_TimeToMark =
     scaled_spec 32 8 0x7FFFFFFD 0x7FFFFFFF 0 True 2 (fl64 0.0010000000474974513) None None"

definition fieldSpec_NavigationRouteTimeToFromMark_MarkID :: FieldSpec where
  "fieldSpec_NavigationRouteTimeToFromMark_MarkID = unsigned_spec 32 48 0xFFFFFFFD 0xFFFFFFFF 2"

record NavigationRouteTimeToFromMark =
  NavigationRouteTimeToFromMark_Info :: MessageInfo
  NavigationRouteTimeToFromMark_SID :: "u8 option"
  NavigationRouteTimeToFromMark_TimeToMark :: "rat option"
  NavigationRouteTimeToFromMark_MarkType :: u8
  NavigationRouteTimeToFromMark_MarkID :: "u32 option"

definition DecodeNavigationRouteTimeToFromMark :: "MessageInfo \<Rightarrow> (DataStream, NavigationRouteTimeToFromMark) step" where
  "DecodeNavigationRouteTimeToFromMark info =
     field ''NavigationRouteTimeToFromMark-SID'' (ReadRaw go_uint8 (Some fieldSpec_NavigationRouteTimeToFromMark_SID)) (\<lambda>v1.
     field ''NavigationRouteTimeToFromMark-TimeToMark'' (ReadScaled 24 (Some fieldSpec_NavigationRouteTimeToFromMark_TimeToMark)) (\<lambda>v2.
     field ''NavigationRouteTimeToFromMark-MarkType'' (readLookupField 4) (\<lambda>v3.
     skip 4 (
     field ''NavigationRouteTimeToFromMark-MarkID'' (ReadRaw go_uint32 (Some fieldSpec_NavigationRouteTimeToFromMark_MarkID)) (\<lambda>v5.
     returnE \<lparr>NavigationRouteTimeToFromMark_Info = info,
       NavigationRouteTimeToFromMark_SID = map_option of_int v1,
       NavigationRouteTimeToFromMark_TimeToMark = v2,
       NavigationRouteTimeToFromMark_MarkType = ucast v3,
       NavigationRouteTimeToFromMark_MarkID = map_option of_int v5\<rparr>)))))"

definition EncodeNavigationRouteTimeToFromMark :: "(rat \<Rightarrow> u64) \<Rightarrow> gotime \<Rightarrow> NavigationRouteTimeToFromMark \<Rightarrow> (DataStream, MessageInfo) step" where
  "EncodeNavigationRouteTimeToFromMark hw now p =
     seqE (WriteRaw (map_option uint (NavigationRouteTimeToFromMark_SID p)) (Some fieldSpec_NavigationRouteTimeToFromMark_SID)) (\<lambda>_.
     seqE (WriteScaled hw (NavigationRouteTimeToFromMark_TimeToMark p) (Some fieldSpec_NavigationRouteTimeToFromMark_TimeToMark)) (\<lambda>_.
     seqE (putNumberRaw (ucast (NavigationRouteTimeToFromMark_MarkType p)) 4 40) (\<lambda>_.
     seqE (writeReserved 4 44) (\<lambda>_.
     seqE (WriteRaw (map_option uint (NavigationRouteTimeToFromMark_MarkID p)) (Some fieldSpec_NavigationRouteTimeToFromMark_MarkID)) (\<lambda>_.
     returnE (finish_info now 129301 (NavigationRouteTimeToFromMark_Info p)))))))"

definition NavigationRouteTimeToFromMark_received :: "(rat \<Rightarrow> u64) \<Rightarrow> MessageInfo \<Rightarrow> NavigationRouteTimeToFromMark \<Rightarrow> NavigationRouteTimeToFromMark" where
  "NavigationRouteTimeToFromMark_received hw info p = \<lparr>NavigationRouteTimeToFromMark_Info = info,
     NavigationRouteTimeToFromMark_SID = pin fieldSpec_NavigationRouteTimeToFromMark_SID (NavigationRouteTimeToFromMark_SID p),
     NavigationRouteTimeToFromMark_TimeToMark = map_option (scaled_back hw 24 fieldSpec_NavigationRouteTimeToFromMark_TimeToMark) (NavigationRouteTimeToFromMark_TimeToMark p),
     NavigationRouteTimeToFromMark_MarkType = take_bit 4 (NavigationRouteTimeToFromMark_MarkType p),
     NavigationRouteTimeToFromMark_MarkID = pin fieldSpec_NavigationRouteTimeToFromMark_MarkID (NavigationRouteTimeToFromMark_MarkID p)\<rparr>"

lemma NavigationRouteTimeToFromMark_codec: "codec (EncodeNavigationRouteTimeToFromMark hw) DecodeNavigationRouteTimeToFromMark NavigationRouteTimeToFromMark_Info 129301 10
    (\<lambda>_. True) (NavigationRouteTimeToFromMark_received hw)"
  unfolding EncodeNavigationRouteTimeToFromMark_def DecodeNavigationRouteTimeToFromMark_def NavigationRouteTimeToFromMark_received_def
  by (rule codec.intro, rule carries_cong, (rule codec_steps carries_end
      | simp add: codec_facts pin_read lookup_read lookup_read_1 unit_read fieldSpec_NavigationRouteTimeToFromMark_SID_def fieldSpec_NavigationRouteTimeToFromMark_TimeToMark_def fieldSpec_NavigationRouteTimeToFromMark_MarkID_def)+)

subsection \<open>BearingAndDistanceBetweenTwoMarks\<close>

definition fieldSpec_BearingAndDistanceBetweenTwoMarks_SID :: FieldSpec where
  "fieldSpec_BearingAndDistanceBetweenTwoMarks_SID = unsigned_spec 8 0 0xFD 0xFF 2"

definition fieldSpec_BearingAndDistanceBetweenTwoMarks_BearingOriginToDestination :: ScaledSpec where
  "fieldSpec_BearingAndDistanceBetweenTwoMarks_BearingOriginToDestination =
     scaled_spec 16 16 0xFFFD 0xFFFF 0 False 2 (fl64 0.00009999999747378752) (Some 0) (Some (fl64 6.2831852))"

definition fieldSpec_BearingAndDistanceBetweenTwoMarks_Distance :: ScaledSpec where
  "fieldSpec_BearingAndDistanceBetweenTwoMarks_Distance =
     scaled_spec 32 32 0xFFFFFFFD 0xFFFFFFFF 0 False 2 (fl64 0.009999999776482582) None None"

definition fieldSpec_BearingAndDistanceBetweenTwoMarks_OriginMarkID :: FieldSpec where
  "fieldSpec_BearingAndDistanceBetweenTwoMarks_OriginMarkID = unsigned_spec 32 72 0xFFFFFFFD 0xFFFFFFFF 2"

definition fieldSpec_BearingAndDistanceBetweenTwoMarks_DestinationMarkID :: FieldSpec where
  "fieldSpec_BearingAndDistanceBetweenTwoMarks_DestinationMarkID = unsigned_spec 32 104 0xFFFFFFFD 0xFFFFFFFF 2"

record 'q BearingAndDistanceBetweenTwoMarks =
  BearingAndDistanceBetweenTwoMarks_Info :: MessageInfo
  BearingAndDistanceBetweenTwoMarks_SID :: "u8 option"
  BearingAndDistanceBetweenTwoMarks_BearingReference :: u8
  BearingAndDistanceBetweenTwoMarks_CalculationType :: u8
  BearingAndDistanceBetweenTwoMarks_BearingOriginToDestination :: "rat option"
  BearingAndDistanceBetweenTwoMarks_Distance :: "'q option"
  BearingAndDistanceBetweenTwoMarks_OriginMarkType :: u8
  BearingAndDistanceBetweenTwoMarks_DestinationMarkType :: u8
  BearingAndDistanceBetweenTwoMarks_OriginMarkID :: "u32 option"
  BearingAndDistanceBetweenTwoMarks_DestinationMarkID :: "u32 option"

definition DecodeBearingAndDistanceBetweenTwoMarks :: "'q units_lib \<Rightarrow> MessageInfo \<Rightarrow> (DataStream, 'q BearingAndDistanceBetweenTwoMarks) step" where
  "DecodeBearingAndDistanceBetweenTwoMarks lib info =
     field ''BearingAndDistanceBetweenTwoMarks-SID'' (ReadRaw go_uint8 (Some fieldSpec_BearingAndDistanceBetweenTwoMarks_SID)) (\<lambda>v1.
     field ''BearingAndDistanceBetweenTwoMarks-BearingReference'' (readLookupField 2) (\<lambda>v2.
     field ''BearingAndDistanceBetweenTwoMarks-CalculationType'' (readLookupField 2) (\<lambda>v3.
     skip 4 (
     field ''BearingAndDistanceBetweenTwoMarks-BearingOriginToDestination'' (ReadScaled 24 (Some fieldSpec_BearingAndDistanceBetweenTwoMarks_BearingOriginToDestination)) (\<lambda>v5.
     field ''BearingAndDistanceBetweenTwoMarks-Distance'' (ReadScaled 24 (Some fieldSpec_BearingAndDistanceBetweenTwoMarks_Distance)) (\<lambda>v6.
     field ''BearingAndDistanceBetweenTwoMarks-OriginMarkType'' (readLookupField 4) (\<lambda>v7.
     field ''BearingAndDistanceBetweenTwoMarks-DestinationMarkType'' (readLookupField 4) (\<lambda>v8.
     field ''BearingAndDistanceBetweenTwoMarks-OriginMarkID'' (ReadRaw go_uint32 (Some fieldSpec_BearingAndDistanceBetweenTwoMarks_OriginMarkID)) (\<lambda>v9.
     field ''BearingAndDistanceBetweenTwoMarks-DestinationMarkID'' (ReadRaw go_uint32 (Some fieldSpec_BearingAndDistanceBetweenTwoMarks_DestinationMarkID)) (\<lambda>v10.
     returnE \<lparr>BearingAndDistanceBetweenTwoMarks_Info = info,
       BearingAndDistanceBetweenTwoMarks_SID = map_option of_int v1,
       BearingAndDistanceBetweenTwoMarks_BearingReference = ucast v2,
       BearingAndDistanceBetweenTwoMarks_CalculationType = ucast v3,
       BearingAndDistanceBetweenTwoMarks_BearingOriginToDestination = v5,
       BearingAndDistanceBetweenTwoMarks_Distance = nullableUnit lib Meter v6,
       BearingAndDistanceBetweenTwoMarks_OriginMarkType = ucast v7,
       BearingAndDistanceBetweenTwoMarks_DestinationMarkType = ucast v8,
       BearingAndDistanceBetweenTwoMarks_OriginMarkID = map_option of_int v9,
       BearingAndDistanceBetweenTwoMarks_DestinationMarkID = map_option of_int v10\<rparr>))))))))))"

definition EncodeBearingAndDistanceBetweenTwoMarks :: "'q units_lib \<Rightarrow> (rat \<Rightarrow> u64) \<Rightarrow> gotime \<Rightarrow> 'q BearingAndDistanceBetweenTwoMarks \<Rightarrow> (DataStream, MessageInfo) step" where
  "EncodeBearingAndDistanceBetweenTwoMarks lib hw now p =
     seqE (WriteRaw (map_option uint (BearingAndDistanceBetweenTwoMarks_SID p)) (Some fieldSpec_BearingAndDistanceBetweenTwoMarks_SID)) (\<lambda>_.
     seqE (putNumberRaw (ucast (BearingAndDistanceBetweenTwoMarks_BearingReference p)) 2 8) (\<lambda>_.
     seqE (putNumberRaw (ucast (BearingAndDistanceBetweenTwoMarks_CalculationType p)) 2 10) (\<lambda>_.
     seqE (writeReserved 4 12) (\<lambda>_.
     seqE (WriteScaled hw (BearingAndDistanceBetweenTwoMarks_BearingOriginToDestination p) (Some fieldSpec_BearingAndDistanceBetweenTwoMarks_BearingOriginToDestination)) (\<lambda>_.
     seqE (writeUnit lib hw Meter (BearingAndDistanceBetweenTwoMarks_Distance p) (Some fieldSpec_BearingAndDistanceBetweenTwoMarks_Distance)) (\<lambda>_.
     seqE (putNumberRaw (ucast (BearingAndDistanceBetweenTwoMarks_OriginMarkType p)) 4 64) (\<lambda>_.
     seqE (putNumberRaw (ucast (BearingAndDistanceBetweenTwoMarks_DestinationMarkType p)) 4 68) (\<lambda>_.
     seqE (WriteRaw (map_option uint (BearingAndDistanceBetweenTwoMarks_OriginMarkID p)) (Some fieldSpec_BearingAndDistanceBetweenTwoMarks_OriginMarkID)) (\<lambda>_.
     seqE (WriteRaw (map_option uint (BearingAndDistanceBetweenTwoMarks_DestinationMarkID p)) (Some fieldSpec_BearingAndDistanceBetweenTwoMarks_DestinationMarkID)) (\<lambda>_.
     returnE (finish_info now 129302 (BearingAndDistanceBetweenTwoMarks_Info p))))))))))))"

definition BearingAndDistanceBetweenTwoMarks_received :: "'q units_lib \<Rightarrow> (rat \<Rightarrow> u64) \<Rightarrow> MessageInfo \<Rightarrow> 'q BearingAndDistanceBetweenTwoMarks \<Rightarrow> 'q BearingAndDistanceBetweenTwoMarks" where
  "BearingAndDistanceBetweenTwoMarks_received lib hw info p = \<lparr>BearingAndDistanceBetweenTwoMarks_Info = info,
     BearingAndDistanceBetweenTwoMarks_SID = pin fieldSpec_BearingAndDistanceBetweenTwoMarks_SID (BearingAndDistanceBetweenTwoMarks_SID p),
     BearingAndDistanceBetweenTwoMarks_BearingReference = take_bit 2 (BearingAndDistanceBetweenTwoMarks_BearingReference p),
     BearingAndDistanceBetweenTwoMarks_CalculationType = take_bit 2 (BearingAndDistanceBetweenTwoMarks_CalculationType p),
     BearingAndDistanceBetweenTwoMarks_BearingOriginToDestination = map_option (scaled_back hw 24 fieldSpec_BearingAndDistanceBetweenTwoMarks_BearingOriginToDestination) (BearingAndDistanceBetweenTwoMarks_BearingOriginToDestination p),
     BearingAndDistanceBetweenTwoMarks_Distance = map_option (unit_back lib hw Meter fieldSpec_BearingAndDistanceBetweenTwoMarks_Distance) (BearingAndDistanceBetweenTwoMarks_Distance p),
     BearingAndDistanceBetweenTwoMarks_OriginMarkType = take_bit 4 (BearingAndDistanceBetweenTwoMarks_OriginMarkType p),
     BearingAndDistanceBetweenTwoMarks_DestinationMarkType = take_bit 4 (BearingAndDistanceBetweenTwoMarks_DestinationMarkType p),
     BearingAndDistanceBetweenTwoMarks_OriginMarkID = pin fieldSpec_BearingAndDistanceBetweenTwoMarks_OriginMarkID (BearingAndDistanceBetweenTwoMarks_OriginMarkID p),
     BearingAndDistanceBetweenTwoMarks_DestinationMarkID = pin fieldSpec_BearingAndDistanceBetweenTwoMarks_DestinationMarkID (BearingAndDistanceBetweenTwoMarks_DestinationMarkID p)\<rparr>"

lemma BearingAndDistanceBetweenTwoMarks_codec: "codec (EncodeBearingAndDistanceBetweenTwoMarks lib hw) (DecodeBearingAndDistanceBetweenTwoMarks lib) BearingAndDistanceBetweenTwoMarks_Info 129302 17
    (\<lambda>_. True) (BearingAndDistanceBetweenTwoMarks_received lib hw)"
  unfolding EncodeBearingAndDistanceBetweenTwoMarks_def DecodeBearingAndDistanceBetweenTwoMarks_def BearingAndDistanceBetweenTwoMarks_received_def
  by (rule codec.intro, rule carries_cong, (rule codec_steps carries_end
      | simp add: codec_facts pin_read lookup_read lookup_read_1 unit_read fieldSpec_BearingAndDistanceBetweenTwoMarks_SID_def fieldSpec_BearingAndDistanceBetweenTwoMarks_BearingOriginToDestination_def fieldSpec_BearingAndDistanceBetweenTwoMarks_Distance_def fieldSpec_BearingAndDistanceBetweenTwoMarks_OriginMarkID_def fieldSpec_BearingAndDistanceBetweenTwoMarks_DestinationMarkID_def)+)

subsection \<open>SmallCraftStatus\<close>

definition fieldSpec_SmallCraftStatus_PortTrimTab :: FieldSpec where
  "fieldSpec_SmallCraftStatus_PortTrimTab = signed_spec 8 0 0x7D 0x7F 2"

definition fieldSpec_SmallCraftStatus_StarboardTrimTab :: FieldSpec where
  "fieldSpec_SmallCraftStatus_StarboardTrimTab = signed_spec 8 8 0x7D 0x7F 2"

record SmallCraftStatus =
  SmallCraftStatus_Info :: MessageInfo
  SmallCraftStatus_PortTrimTab :: "8 word option"
  SmallCraftStatus_StarboardTrimTab :: "8 word option"

definition DecodeSmallCraftStatus :: "MessageInfo \<Rightarrow> (DataStream, SmallCraftStatus) step" where
  "DecodeSmallCraftStatus info =
     field ''SmallCraftStatus-PortTrimTab'' (ReadRaw go_int8 (Some fieldSpec_SmallCraftStatus_PortTrimTab)) (\<lambda>v1.
     field ''SmallCraftStatus-StarboardTrimTab'' (ReadRaw go_int8 (Some fieldSpec_SmallCraftStatus_StarboardTrimTab)) (\<lambda>v2.
     skip 48 (
     returnE \<lparr>SmallCraftStatus_Info = info,
       SmallCraftStatus_PortTrimTab = map_option of_int v1,
       SmallCraftStatus_StarboardTrimTab = map_option of_int v2\<rparr>)))"

definition EncodeSmallCraftStatus :: "gotime \<Rightarrow> SmallCraftStatus \<Rightarrow> (DataStream, MessageInfo) step" where
  "EncodeSmallCraftStatus now p =
     seqE (WriteRaw (map_option sint (SmallCraftStatus_PortTrimTab p)) (Some fieldSpec_SmallCraftStatus_PortTrimTab)) (\<lambda>_.
     seqE (WriteRaw (map_option sint (SmallCraftStatus_StarboardTrimTab p)) (Some fieldSpec_SmallCraftStatus_StarboardTrimTab)) (\<lambda>_.
     seqE (writeReserved 48 16) (\<lambda>_.
     returnE (finish_info now 130576 (SmallCraftStatus_Info p)))))"

definition SmallCraftStatus_received :: "MessageInfo \<Rightarrow> SmallCraftStatus \<Rightarrow> SmallCraftStatus" where
  "SmallCraftStatus_received info p = \<lparr>SmallCraftStatus_Info = info,
     SmallCraftStatus_PortTrimTab = pin_signed fieldSpec_SmallCraftStatus_PortTrimTab (SmallCraftStatus_PortTrimTab p),
     SmallCraftStatus_StarboardTrimTab = pin_signed fieldSpec_SmallCraftStatus_StarboardTrimTab (SmallCraftStatus_StarboardTrimTab p)\<rparr>"

lemma SmallCraftStatus_codec: "codec EncodeSmallCraftStatus DecodeSmallCraftStatus SmallCraftStatus_Info 130576 8
    (\<lambda>_. True) SmallCraftStatus_received"
  unfolding EncodeSmallCraftStatus_def DecodeSmallCraftStatus_def SmallCraftStatus_received_def
  by (rule codec.intro, rule carries_cong, (rule codec_steps carries_end
      | simp add: codec_facts pin_read lookup_read lookup_read_1 unit_read fieldSpec_SmallCraftStatus_PortTrimTab_def fieldSpec_SmallCraftStatus_StarboardTrimTab_def)+)

subsection \<open>DirectionData\<close>

definition fieldSpec_DirectionData_SID :: FieldSpec where
  "fieldSpec_DirectionData_SID = unsigned_spec 8 8 0xFD 0xFF 2"

definition fieldSpec_DirectionData_COG :: ScaledSpec where
  "fieldSpec_DirectionData_COG =
     scaled_spec 16 16 0xFFFD 0xFFFF 0 False 2 (fl64 0.00009999999747378752) (Some 0) (Some (fl64 6.2831852))"

definition fieldSpec_DirectionData_SOG :: ScaledSpec where
  "fieldSpec_DirectionData_SOG =
     scaled_spec 16 32 0xFFFD 0xFFFF 0 False 2 (fl64 0.009999999776482582) None None"

definition fieldSpec_DirectionData_Heading :: ScaledSpec where
  "fieldSpec_DirectionData_Heading =
     scaled_spec 16 48 0xFFFD 0xFFFF 0 False 2 (fl64 0.00009999999747378752) (Some 0) (Some (fl64 6.2831852))"

definition fieldSpec_DirectionData_SpeedThroughWater :: ScaledSpec where
  "fieldSpec_DirectionData_SpeedThroughWater =
     scaled_spec 16 64 0xFFFD 0xFFFF 0 False 2 (fl64 0.009999999776482582) None None"

definition fieldSpec_DirectionData_Set :: ScaledSpec where
  "fieldSpec_DirectionData_Set =
     scaled_spec 16 80 0xFFFD 0xFFFF 0 False 2 (fl64 0.00009999999747378752) (Some 0) (Some (fl64 6.2831852))"

definition fieldSpec_DirectionData_Drift :: ScaledSpec where
  "fieldSpec_DirectionData_Drift =
     scaled_spec 16 96 0xFFFD 0xFFFF 0 False 2 (fl64 0.009999999776482582) None None"

record 'q DirectionData =
  DirectionData_Info :: MessageInfo
  DirectionData_DataMode :: u8
  DirectionData_COGReference :: u8
  DirectionData_SID :: "u8 option"
  DirectionData_COG :: "rat option"
  DirectionData_SOG :: "'q option"
  DirectionData_Heading :: "rat option"
  DirectionData_SpeedThroughWater :: "'q option"
  DirectionData_Set :: "rat option"
  DirectionData_Drift :: "'q option"

definition DecodeDirectionData :: "'q units_lib \<Rightarrow> MessageInfo \<Rightarrow> (DataStream, 'q DirectionData) step" where
  "DecodeDirectionData lib info =
     field ''DirectionData-DataMode'' (readLookupField 4) (\<lambda>v1.
     field ''DirectionData-COGReference'' (readLookupField 2) (\<lambda>v2.
     skip 2 (
     field ''DirectionData-SID'' (ReadRaw go_uint8 (Some fieldSpec_DirectionData_SID)) (\<lambda>v4.
     field ''DirectionData-COG'' (ReadScaled 24 (Some fieldSpec_DirectionData_COG)) (\<lambda>v5.
     field ''DirectionData-SOG'' (ReadScaled 24 (Some fieldSpec_DirectionData_SOG)) (\<lambda>v6.
     field ''DirectionData-Heading'' (ReadScaled 24 (Some fieldSpec_DirectionData_Heading)) (\<lambda>v7.
     field ''DirectionData-SpeedThroughWater'' (ReadScaled 24 (Some fieldSpec_DirectionData_SpeedThroughWater)) (\<lambda>v8.
     field ''DirectionData-Set'' (ReadScaled 24 (Some fieldSpec_DirectionData_Set)) (\<lambda>v9.
     field ''DirectionData-Drift'' (ReadScaled 24 (Some fieldSpec_DirectionData_Drift)) (\<lambda>v10.
     returnE \<lparr>DirectionData_Info = info,
       DirectionData_DataMode = ucast v1,
       DirectionData_COGReference = ucast v2,
       DirectionData_SID = map_option of_int v4,
       DirectionData_COG = v5,
       DirectionData_SOG = nullableUnit lib MetersPerSecond v6,
       DirectionData_Heading = v7,
       DirectionData_SpeedThroughWater = nullableUnit lib MetersPerSecond v8,
       DirectionData_Set = v9,
       DirectionData_Drift = nullableUnit lib MetersPerSecond v10\<rparr>))))))))))"

definition EncodeDirectionData :: "'q units_lib \<Rightarrow> (rat \<Rightarrow> u64) \<Rightarrow> gotime \<Rightarrow> 'q DirectionData \<Rightarrow> (DataStream, MessageInfo) step" where
  "EncodeDirectionData lib hw now p =
     seqE (putNumberRaw (ucast (DirectionData_DataMode p)) 4 0) (\<lambda>_.
     seqE (putNumberRaw (ucast (DirectionData_COGReference p)) 2 4) (\<lambda>_.
     seqE (writeReserved 2 6) (\<lambda>_.
     seqE (WriteRaw (map_option uint (DirectionData_SID p)) (Some fieldSpec_DirectionData_SID)) (\<lambda>_.
     seqE (WriteScaled hw (DirectionData_COG p) (Some fieldSpec_DirectionData_COG)) (\<lambda>_.
     seqE (writeUnit lib hw MetersPerSecond (DirectionData_SOG p) (Some fieldSpec_DirectionData_SOG)) (\<lambda>_.
     seqE (WriteScaled hw (DirectionData_Heading p) (Some fieldSpec_DirectionData_Heading)) (\<lambda>_.
     seqE (writeUnit lib hw MetersPerSecond (DirectionData_SpeedThroughWater p) (Some fieldSpec_DirectionData_SpeedThroughWater)) (\<lambda>_.
     seqE (WriteScaled hw (DirectionData_Set p) (Some fieldSpec_DirectionData_Set)) (\<lambda>_.
     seqE (writeUnit lib hw MetersPerSecond (DirectionData_Drift p) (Some fieldSpec_DirectionData_Drift)) (\<lambda>_.
     returnE (finish_info now 130577 (DirectionData_Info p))))))))))))"

definition DirectionData_received :: "'q units_lib \<Rightarrow> (rat \<Rightarrow> u64) \<Rightarrow> MessageInfo \<Rightarrow> 'q DirectionData \<Rightarrow> 'q DirectionData" where
  "DirectionData_received lib hw info p = \<lparr>DirectionData_Info = info,
     DirectionData_DataMode = take_bit 4 (DirectionData_DataMode p),
     DirectionData_COGReference = take_bit 2 (DirectionData_COGReference p),
     DirectionData_SID = pin fieldSpec_DirectionData_SID (DirectionData_SID p),
     DirectionData_COG = map_option (scaled_back hw 24 fieldSpec_DirectionData_COG) (DirectionData_COG p),
     DirectionData_SOG = map_option (unit_back lib hw MetersPerSecond fieldSpec_DirectionData_SOG) (DirectionData_SOG p),
     DirectionData_Heading = map_option (scaled_back hw 24 fieldSpec_DirectionData_Heading) (DirectionData_Heading p),
     DirectionData_SpeedThroughWater = map_option (unit_back lib hw MetersPerSecond fieldSpec_DirectionData_SpeedThroughWater) (DirectionData_SpeedThroughWater p),
     DirectionData_Set = map_option (scaled_back hw 24 fieldSpec_DirectionData_Set) (DirectionData_Set p),
     DirectionData_Drift = map_option (unit_back lib hw MetersPerSecond fieldSpec_DirectionData_Drift) (DirectionData_Drift p)\<rparr>"

lemma DirectionData_codec: "codec (EncodeDirectionData lib hw) (DecodeDirectionData lib) DirectionData_Info 130577 14
    (\<lambda>_. True) (DirectionData_received lib hw)"
  unfolding EncodeDirectionData_def DecodeDirectionData_def DirectionData_received_def
  by (rule codec.intro, rule carries_cong, (rule codec_steps carries_end
      | simp add: codec_facts pin_read lookup_read lookup_read_1 unit_read fieldSpec_DirectionData_SID_def fieldSpec_DirectionData_COG_def fieldSpec_DirectionData_SOG_def fieldSpec_DirectionData_Heading_def fieldSpec_DirectionData_SpeedThroughWater_def fieldSpec_DirectionData_Set_def fieldSpec_DirectionData_Drift_def)+)

subsection \<open>VesselSpeedComponents\<close>

definition fieldSpec_VesselSpeedComponents_LongitudinalSpeedWaterReferenced :: ScaledSpec where
  "fieldSpec_VesselSpeedComponents_LongitudinalSpeedWaterReferenced =
     scaled_spec 16 0 0x7FFD 0x7FFF 0 True 2 (fl64 0.0010000000474974513) None None"

definition fieldSpec_VesselSpeedComponents_TransverseSpeedWaterReferenced :: ScaledSpec where
  "fieldSpec_VesselSpeedComponents_TransverseSpeedWaterReferenced =
     scaled_spec 16 16 0x7FFD 0x7FFF 0 True 2 (fl64 0.0010000000474974513) None None"

definition fieldSpec_VesselSpeedComponents_LongitudinalSpeedGroundReferenced :: ScaledSpec where
  "fieldSpec_VesselSpeedComponents_LongitudinalSpeedGroundReferenced =
     scaled_spec 16 32 0x7FFD 0x7FFF 0 True 2 (fl64 0.0010000000474974513) None None"

definition fieldSpec_VesselSpeedComponents_TransverseSpeedGroundReferenced :: ScaledSpec where
  "fieldSpec_VesselSpeedComponents_TransverseSpeedGroundReferenced =
     scaled_spec 16 48 0x7FFD 0x7FFF 0 True 2 (fl64 0.0010000000474974513) None None"

definition fieldSpec_VesselSpeedComponents_SternSpeedWaterReferenced :: ScaledSpec where
  "fieldSpec_VesselSpeedComponents_SternSpeedWaterReferenced =
     scaled_spec 16 64 0x7FFD 0x7FFF 0 True 2 (fl64 0.0010000000474974513) None None"

definition fieldSpec_VesselSpeedComponents_SternSpeedGroundReferenced :: ScaledSpec where
  "fieldSpec_VesselSpeedComponents_SternSpeedGroundReferenced =
     scaled_spec 16 80 0x7FFD 0x7FFF 0 True 2 (fl64 0.0010000000474974513) None None"

record 'q VesselSpeedComponents =
  VesselSpeedComponents_Info :: MessageInfo
  VesselSpeedComponents_LongitudinalSpeedWaterReferenced :: "'q option"
  VesselSpeedComponents_TransverseSpeedWaterReferenced :: "'q option"
  VesselSpeedComponents_LongitudinalSpeedGroundReferenced :: "'q option"
  VesselSpeedComponents_TransverseSpeedGroundReferenced :: "'q option"
  VesselSpeedComponents_SternSpeedWaterReferenced :: "'q option"
  VesselSpeedComponents_SternSpeedGroundReferenced :: "'q option"

definition DecodeVesselSpeedComponents :: "'q units_lib \<Rightarrow> MessageInfo \<Rightarrow> (DataStream, 'q VesselSpeedComponents) step" where
  "DecodeVesselSpeedComponents lib info =
     field ''VesselSpeedComponents-LongitudinalSpeedWaterReferenced'' (ReadScaled 24 (Some fieldSpec_VesselSpeedComponents_LongitudinalSpeedWaterReferenced)) (\<lambda>v1.
     field ''VesselSpeedComponents-TransverseSpeedWaterReferenced'' (ReadScaled 24 (Some fieldSpec_VesselSpeedComponents_TransverseSpeedWaterReferenced)) (\<lambda>v2.
     field ''VesselSpeedComponents-LongitudinalSpeedGroundReferenced'' (ReadScaled 24 (Some fieldSpec_VesselSpeedComponents_LongitudinalSpeedGroundReferenced)) (\<lambda>v3.
     field ''VesselSpeedComponents-TransverseSpeedGroundReferenced'' (ReadScaled 24 (Some fieldSpec_VesselSpeedComponents_TransverseSpeedGroundReferenced)) (\<lambda>v4.
     field ''VesselSpeedComponents-SternSpeedWaterReferenced'' (ReadScaled 24 (Some fieldSpec_VesselSpeedComponents_SternSpeedWaterReferenced)) (\<lambda>v5.
     field ''VesselSpeedComponents-SternSpeedGroundReferenced'' (ReadScaled 24 (Some fieldSpec_VesselSpeedComponents_SternSpeedGroundReferenced)) (\<lambda>v6.
     returnE \<lparr>VesselSpeedComponents_Info = info,
       VesselSpeedComponents_LongitudinalSpeedWaterReferenced = nullableUnit lib MetersPerSecond v1,
       VesselSpeedComponents_TransverseSpeedWaterReferenced = nullableUnit lib MetersPerSecond v2,
       VesselSpeedComponents_LongitudinalSpeedGroundReferenced = nullableUnit lib MetersPerSecond v3,
       VesselSpeedComponents_TransverseSpeedGroundReferenced = nullableUnit lib MetersPerSecond v4,
       VesselSpeedComponents_SternSpeedWaterReferenced = nullableUnit lib MetersPerSecond v5,
       VesselSpeedComponents_SternSpeedGroundReferenced = nullableUnit lib MetersPerSecond v6\<rparr>))))))"

definition EncodeVesselSpeedComponents :: "'q units_lib \<Rightarrow> (rat \<Rightarrow> u64) \<Rightarrow> gotime \<Rightarrow> 'q VesselSpeedComponents \<Rightarrow> (DataStream, MessageInfo) step" where
  "EncodeVesselSpeedComponents lib hw now p =
     seqE (writeUnit lib hw MetersPerSecond (VesselSpeedComponents_LongitudinalSpeedWaterReferenced p) (Some fieldSpec_VesselSpeedComponents_LongitudinalSpeedWaterReferenced)) (\<lambda>_.
     seqE (writeUnit lib hw MetersPerSecond (VesselSpeedComponents_TransverseSpeedWaterReferenced p) (Some fieldSpec_VesselSpeedComponents_TransverseSpeedWaterReferenced)) (\<lambda>_.
     seqE (writeUnit lib hw MetersPerSecond (VesselSpeedComponents_LongitudinalSpeedGroundReferenced p) (Some fieldSpec_VesselSpeedComponents_LongitudinalSpeedGroundReferenced)) (\<lambda>_.
     seqE (writeUnit lib hw MetersPerSecond (VesselSpeedComponents_TransverseSpeedGroundReferenced p) (Some fieldSpec_VesselSpeedComponents_TransverseSpeedGroundReferenced)) (\<lambda>_.
     seqE (writeUnit lib hw MetersPerSecond (VesselSpeedComponents_SternSpeedWaterReferenced p) (Some fieldSpec_VesselSpeedComponents_SternSpeedWaterReferenced)) (\<lambda>_.
     seqE (writeUnit lib hw MetersPerSecond (VesselSpeedComponents_SternSpeedGroundReferenced p) (Some fieldSpec_VesselSpeedComponents_SternSpeedGroundReferenced)) (\<lambda>_.
     returnE (finish_info now 130578 (VesselSpeedComponents_Info p))))))))"

definition VesselSpeedComponents_received :: "'q units_lib \<Rightarrow> (rat \<Rightarrow> u64) \<Rightarrow> MessageInfo \<Rightarrow> 'q VesselSpeedComponents \<Rightarrow> 'q VesselSpeedComponents" where
  "VesselSpeedComponents_received lib hw info p = \<lparr>VesselSpeedComponents_Info = info,
     VesselSpeedComponents_LongitudinalSpeedWaterReferenced = map_option (unit_back lib hw MetersPerSecond fieldSpec_VesselSpeedComponents_LongitudinalSpeedWaterReferenced) (VesselSpeedComponents_LongitudinalSpeedWaterReferenced p),
     VesselSpeedComponents_TransverseSpeedWaterReferenced = map_option (unit_back lib hw MetersPerSecond fieldSpec_VesselSpeedComponents_TransverseSpeedWaterReferenced) (VesselSpeedComponents_TransverseSpeedWaterReferenced p),
     VesselSpeedComponents_LongitudinalSpeedGroundReferenced = map_option (unit_back lib hw MetersPerSecond fieldSpec_VesselSpeedComponents_LongitudinalSpeedGroundReferenced) (VesselSpeedComponents_LongitudinalSpeedGroundReferenced p),
     VesselSpeedComponents_TransverseSpeedGroundReferenced = map_option (unit_back lib hw MetersPerSecond fieldSpec_VesselSpeedComponents_TransverseSpeedGroundReferenced) (VesselSpeedComponents_TransverseSpeedGroundReferenced p),
     VesselSpeedComponents_SternSpeedWaterReferenced = map_option (unit_back lib hw MetersPerSecond fieldSpec_VesselSpeedComponents_SternSpeedWaterReferenced) (VesselSpeedComponents_SternSpeedWaterReferenced p),
     VesselSpeedComponents_SternSpeedGroundReferenced = map_option (unit_back lib hw MetersPerSecond fieldSpec_VesselSpeedComponents_SternSpeedGroundReferenced) (VesselSpeedComponents_SternSpeedGroundReferenced p)\<rparr>"

lemma VesselSpeedComponents_codec: "codec (EncodeVesselSpeedComponents lib hw) (DecodeVesselSpeedComponents lib) VesselSpeedComponents_Info 130578 12
    (\<lambda>_. True) (VesselSpeedComponents_received lib hw)"
  unfolding EncodeVesselSpeedComponents_def DecodeVesselSpeedComponents_def VesselSpeedComponents_received_def
  by (rule codec.intro, rule carries_cong, (rule codec_steps carries_end
      | simp add: codec_facts pin_read lookup_read lookup_read_1 unit_read fieldSpec_VesselSpeedComponents_LongitudinalSpeedWaterReferenced_def fieldSpec_VesselSpeedComponents_TransverseSpeedWaterReferenced_def fieldSpec_VesselSpeedComponents_LongitudinalSpeedGroundReferenced_def fieldSpec_VesselSpeedComponents_TransverseSpeedGroundReferenced_def fieldSpec_VesselSpeedComponents_SternSpeedWaterReferenced_def fieldSpec_VesselSpeedComponents_SternSpeedGroundReferenced_def)+)

section \<open>Properties\<close>

interpretation vessel_heading: codec "EncodeVesselHeading hw" DecodeVesselHeading "VesselHeading_Info" 127250 8 "\<lambda>_. True" "VesselHeading_received hw"
  by (rule VesselHeading_codec)


end
