(* ===== verification/Pgnradio.thy ===== *)
theory Pgnradio
  imports Scaled
begin

text \<open>
  Messages of satellite navigation, AIS and Loran-C. Each subsection has the field specifications of a message
  (\<open>fieldspec_vars_generated.go\<close>), its struct (\<open>pkg/pgn/types_generated.go\<close>), its decoder
  and its encoder (\<open>decoders_generated.go\<close>, \<open>encoders_generated.go\<close>); the function
  \<open>_received\<close> says what a struct is after the wire: an integer clamped to its field (\<open>pin\<close>),
  an enumeration cut to its width, bytes cut and filled up, text cut at its padding, a scaled number or a quantity
  rounded to the resolution of its field (\<open>scaled_back\<close>, \<open>unit_back\<close>). The lemma
  \<open>_codec\<close> says that the pair satisfies the contract \<open>codec\<close>. \<open>hw\<close> is what the
  processor makes of a float that no \<open>uint64\<close> holds, \<open>lib\<close> the package \<open>units\<close>,
  which is not part of this repository.
\<close>

section \<open>Messages\<close>

subsection \<open>GNSSControlStatus\<close>

definition fieldSpec_GNSSControlStatus_SvElevationMask :: ScaledSpec where
  "fieldSpec_GNSSControlStatus_SvElevationMask =
     scaled_spec 16 0 0x7FFD 0x7FFF 0 True 2 (fl64 0.00009999999747378752) (Some (fl64 (- 3.1415926))) (Some (fl64 3.1415926))"

definition fieldSpec_GNSSControlStatus_PdopMask :: ScaledSpec where
  "fieldSpec_GNSSControlStatus_PdopMask =
     scaled_spec 16 16 0x7FFD 0x7FFF 0 True 2 (fl64 0.009999999776482582) None None"

definition fieldSpec_GNSSControlStatus_PdopSwitch :: ScaledSpec where
  "fieldSpec_GNSSControlStatus_PdopSwitch =
     scaled_spec 16 32 0x7FFD 0x7FFF 0 True 2 (fl64 0.009999999776482582) None None"

definition fieldSpec_GNSSControlStatus_SnrMask :: ScaledSpec where
  "fieldSpec_GNSSControlStatus_SnrMask =
     scaled_spec 16 48 0x7FFD 0x7FFF 0 True 2 (fl64 0.009999999776482582) None None"

definition fieldSpec_GNSSControlStatus_MaxCorrectionAge :: ScaledSpec where
  "fieldSpec_GNSSControlStatus_MaxCorrectionAge =
     scaled_spec 16 72 0xFFFD 0xFFFF 0 False 2 (fl64 0.009999999776482582) None None"

definition fieldSpec_GNSSControlStatus_AntennaAltitudeFor2DMode :: ScaledSpec where
  "fieldSpec_GNSSControlStatus_AntennaAltitudeFor2DMode =
     scaled_spec 32 88 0x7FFFFFFD 0x7FFFFFFF 0 True 2 (fl64 0.009999999776482582) None None"

record 'q GNSSControlStatus =
  GNSSControlStatus_Info :: MessageInfo
  GNSSControlStatus_SvElevationMask :: "rat option"
  GNSSControlStatus_PdopMask :: "rat option"
  GNSSControlStatus_PdopSwitch :: "rat option"
  GNSSControlStatus_SnrMask :: "rat option"
  GNSSControlStatus_GNSSModeDesired :: u8
  GNSSControlStatus_DGNSSModeDesired :: u8
  GNSSControlStatus_PositionVelocityFilter :: u8
  GNSSControlStatus_MaxCorrectionAge :: "rat option"
  GNSSControlStatus_AntennaAltitudeFor2DMode :: "'q option"
  GNSSControlStatus_UseAntennaAltitudeFor2DMode :: u8

definition DecodeGNSSControlStatus :: "'q units_lib \<Rightarrow> MessageInfo \<Rightarrow> (DataStream, 'q GNSSControlStatus) step" where
  "DecodeGNSSControlStatus lib info =
     field ''GNSSControlStatus-SvElevationMask'' (ReadScaled 24 (Some fieldSpec_GNSSControlStatus_SvElevationMask)) (\<lambda>v1.
     field ''GNSSControlStatus-PdopMask'' (ReadScaled 24 (Some fieldSpec_GNSSControlStatus_PdopMask)) (\<lambda>v2.
     field ''GNSSControlStatus-PdopSwitch'' (ReadScaled 24 (Some fieldSpec_GNSSControlStatus_PdopSwitch)) (\<lambda>v3.
     field ''GNSSControlStatus-SnrMask'' (ReadScaled 24 (Some fieldSpec_GNSSControlStatus_SnrMask)) (\<lambda>v4.
     field ''GNSSControlStatus-GNSSModeDesired'' (readLookupField 3) (\<lambda>v5.
     field ''GNSSControlStatus-DGNSSModeDesired'' (readLookupField 3) (\<lambda>v6.
     field ''GNSSControlStatus-PositionVelocityFilter'' (readLookupField 2) (\<lambda>v7.
     field ''GNSSControlStatus-MaxCorrectionAge'' (ReadScaled 24 (Some fieldSpec_GNSSControlStatus_MaxCorrectionAge)) (\<lambda>v8.
     field ''GNSSControlStatus-AntennaAltitudeFor2DMode'' (ReadScaled 24 (Some fieldSpec_GNSSControlStatus_AntennaAltitudeFor2DMode)) (\<lambda>v9.
     field ''GNSSControlStatus-UseAntennaAltitudeFor2DMode'' (readLookupField 2) (\<lambda>v10.
     skip 6 (
     returnE \<lparr>GNSSControlStatus_Info = info,
       GNSSControlStatus_SvElevationMask = v1,
       GNSSControlStatus_PdopMask = v2,
       GNSSControlStatus_PdopSwitch = v3,
       GNSSControlStatus_SnrMask = v4,
       GNSSControlStatus_GNSSModeDesired = ucast v5,
       GNSSControlStatus_DGNSSModeDesired = ucast v6,
       GNSSControlStatus_PositionVelocityFilter = ucast v7,
       GNSSControlStatus_MaxCorrectionAge = v8,
       GNSSControlStatus_AntennaAltitudeFor2DMode = nullableUnit lib Meter v9,
       GNSSControlStatus_UseAntennaAltitudeFor2DMode = ucast v10\<rparr>)))))))))))"

definition EncodeGNSSControlStatus :: "'q units_lib \<Rightarrow> (rat \<Rightarrow> u64) \<Rightarrow> gotime \<Rightarrow> 'q GNSSControlStatus \<Rightarrow> (DataStream, MessageInfo) step" where
  "EncodeGNSSControlStatus lib hw now p =
     seqE (WriteScaled hw (GNSSControlStatus_SvElevationMask p) (Some fieldSpec_GNSSControlStatus_SvElevationMask)) (\<lambda>_.
     seqE (WriteScaled hw (GNSSControlStatus_PdopMask p) (Some fieldSpec_GNSSControlStatus_PdopMask)) (\<lambda>_.
     seqE (WriteScaled hw (GNSSControlStatus_PdopSwitch p) (Some fieldSpec_GNSSControlStatus_PdopSwitch)) (\<lambda>_.
     seqE (WriteScaled hw (GNSSControlStatus_SnrMask p) (Some fieldSpec_GNSSControlStatus_SnrMask)) (\<lambda>_.
     seqE (putNumberRaw (ucast (GNSSControlStatus_GNSSModeDesired p)) 3 64) (\<lambda>_.
     seqE (putNumberRaw (ucast (GNSSControlStatus_DGNSSModeDesired p)) 3 67) (\<lambda>_.
     seqE (putNumberRaw (ucast (GNSSControlStatus_PositionVelocityFilter p)) 2 70) (\<lambda>_.
     seqE (WriteScaled hw (GNSSControlStatus_MaxCorrectionAge p) (Some fieldSpec_GNSSControlStatus_MaxCorrectionAge)) (\<lambda>_.
     seqE (writeUnit lib hw Meter (GNSSControlStatus_AntennaAltitudeFor2DMode p) (Some fieldSpec_GNSSControlStatus_AntennaAltitudeFor2DMode)) (\<lambda>_.
     seqE (putNumberRaw (ucast (GNSSControlStatus_UseAntennaAltitudeFor2DMode p)) 2 120) (\<lambda>_.
     seqE (writeReserved 6 122) (\<lambda>_.
     returnE (finish_info now 129538 (GNSSControlStatus_Info p)))))))))))))"

definition GNSSControlStatus_received :: "'q units_lib \<Rightarrow> (rat \<Rightarrow> u64) \<Rightarrow> MessageInfo \<Rightarrow> 'q GNSSControlStatus \<Rightarrow> 'q GNSSControlStatus" where
  "GNSSControlStatus_received lib hw info p = \<lparr>GNSSControlStatus_Info = info,
     GNSSControlStatus_SvElevationMask = map_option (scaled_back hw 24 fieldSpec_GNSSControlStatus_SvElevationMask) (GNSSControlStatus_SvElevationMask p),
     GNSSControlStatus_PdopMask = map_option (scaled_back hw 24 fieldSpec_GNSSControlStatus_PdopMask) (GNSSControlStatus_PdopMask p),
     GNSSControlStatus_PdopSwitch = map_option (scaled_back hw 24 fieldSpec_GNSSControlStatus_PdopSwitch) (GNSSControlStatus_PdopSwitch p),
     GNSSControlStatus_SnrMask = map_option (scaled_back hw 24 fieldSpec_GNSSControlStatus_SnrMask) (GNSSControlStatus_SnrMask p),
     GNSSControlStatus_GNSSModeDesired = take_bit 3 (GNSSControlStatus_GNSSModeDesired p),
     GNSSControlStatus_DGNSSModeDesired = take_bit 3 (GNSSControlStatus_DGNSSModeDesired p),
     GNSSControlStatus_PositionVelocityFilter = take_bit 2 (GNSSControlStatus_PositionVelocityFilter p),
     GNSSControlStatus_MaxCorrectionAge = map_option (scaled_back hw 24 fieldSpec_GNSSControlStatus_MaxCorrectionAge) (GNSSControlStatus_MaxCorrectionAge p),
     GNSSControlStatus_AntennaAltitudeFor2DMode = map_option (unit_back lib hw Meter fieldSpec_GNSSControlStatus_AntennaAltitudeFor2DMode) (GNSSControlStatus_AntennaAltitudeFor2DMode p),
     GNSSControlStatus_UseAntennaAltitudeFor2DMode = take_bit 2 (GNSSControlStatus_UseAntennaAltitudeFor2DMode p)\<rparr>"

lemma GNSSControlStatus_codec: "codec (EncodeGNSSControlStatus lib hw) (DecodeGNSSControlStatus lib) GNSSControlStatus_Info 129538 16
    (\<lambda>_. True) (GNSSControlStatus_received lib hw)"
  unfolding EncodeGNSSControlStatus_def DecodeGNSSControlStatus_def GNSSControlStatus_received_def
  by (rule codec.intro, rule carries_cong, (rule codec_steps carries_end
      | simp add: codec_facts pin_read lookup_read lookup_read_1 unit_read fieldSpec_GNSSControlStatus_SvElevationMask_def fieldSpec_GNSSControlStatus_PdopMask_def fieldSpec_GNSSControlStatus_PdopSwitch_def fieldSpec_GNSSControlStatus_SnrMask_def fieldSpec_GNSSControlStatus_MaxCorrectionAge_def fieldSpec_GNSSControlStatus_AntennaAltitudeFor2DMode_def)+)

subsection \<open>GNSSDOPs\<close>

definition fieldSpec_GNSSDOPs_SID :: FieldSpec where
  "fieldSpec_GNSSDOPs_SID = unsigned_spec 8 0 0xFD 0xFF 2"

definition fieldSpec_GNSSDOPs_Hdop :: ScaledSpec where
  "fieldSpec_GNSSDOPs_Hdop =
     scaled_spec 16 16 0x7FFD 0x7FFF 0 True 2 (fl64 0.009999999776482582) None None"

definition fieldSpec_GNSSDOPs_Vdop :: ScaledSpec where
  "fieldSpec_GNSSDOPs_Vdop =
     scaled_spec 16 32 0x7FFD 0x7FFF 0 True 2 (fl64 0.009999999776482582) None None"

definition fieldSpec_GNSSDOPs_Tdop :: ScaledSpec where
  "fieldSpec_GNSSDOPs_Tdop =
     scaled_spec 16 48 0x7FFD 0x7FFF 0 True 2 (fl64 0.009999999776482582) None None"

record GNSSDOPs =
  GNSSDOPs_Info :: MessageInfo
  GNSSDOPs_SID :: "u8 option"
  GNSSDOPs_DesiredMode :: u8
  GNSSDOPs_ActualMode :: u8
  GNSSDOPs_Hdop :: "rat option"
  GNSSDOPs_Vdop :: "rat option"
  GNSSDOPs_Tdop :: "rat option"

definition DecodeGNSSDOPs :: "MessageInfo \<Rightarrow> (DataStream, GNSSDOPs) step" where
  "DecodeGNSSDOPs info =
     field ''GNSSDOPs-SID'' (ReadRaw go_uint8 (Some fieldSpec_GNSSDOPs_SID)) (\<lambda>v1.
     field ''GNSSDOPs-DesiredMode'' (readLookupField 3) (\<lambda>v2.
     field ''GNSSDOPs-ActualMode'' (readLookupField 3) (\<lambda>v3.
     skip 2 (
     field ''GNSSDOPs-Hdop'' (ReadScaled 24 (Some fieldSpec_GNSSDOPs_Hdop)) (\<lambda>v5.
     field ''GNSSDOPs-Vdop'' (ReadScaled 24 (Some fieldSpec_GNSSDOPs_Vdop)) (\<lambda>v6.
     field ''GNSSDOPs-Tdop'' (ReadScaled 24 (Some fieldSpec_GNSSDOPs_Tdop)) (\<lambda>v7.
     returnE \<lparr>GNSSDOPs_Info = info,
       GNSSDOPs_SID = map_option of_int v1,
       GNSSDOPs_DesiredMode = ucast v2,
       GNSSDOPs_ActualMode = ucast v3,
       GNSSDOPs_Hdop = v5,
       GNSSDOPs_Vdop = v6,
       GNSSDOPs_Tdop = v7\<rparr>)))))))"

definition EncodeGNSSDOPs :: "(rat \<Rightarrow> u64) \<Rightarrow> gotime \<Rightarrow> GNSSDOPs \<Rightarrow> (DataStream, MessageInfo) step" where
  "EncodeGNSSDOPs hw now p =
     seqE (WriteRaw (map_option uint (GNSSDOPs_SID p)) (Some fieldSpec_GNSSDOPs_SID)) (\<lambda>_.
     seqE (putNumberRaw (ucast (GNSSDOPs_DesiredMode p)) 3 8) (\<lambda>_.
     seqE (putNumberRaw (ucast (GNSSDOPs_ActualMode p)) 3 11) (\<lambda>_.
     seqE (writeReserved 2 14) (\<lambda>_.
     seqE (WriteScaled hw (GNSSDOPs_Hdop p) (Some fieldSpec_GNSSDOPs_Hdop)) (\<lambda>_.
     seqE (WriteScaled hw (GNSSDOPs_Vdop p) (Some fieldSpec_GNSSDOPs_Vdop)) (\<lambda>_.
     seqE (WriteScaled hw (GNSSDOPs_Tdop p) (Some fieldSpec_GNSSDOPs_Tdop)) (\<lambda>_.
     returnE (finish_info now 129539 (GNSSDOPs_Info p)))))))))"

definition GNSSDOPs_received :: "(rat \<Rightarrow> u64) \<Rightarrow> MessageInfo \<Rightarrow> GNSSDOPs \<Rightarrow> GNSSDOPs" where
  "GNSSDOPs_received hw info p = \<lparr>GNSSDOPs_Info = info,
     GNSSDOPs_SID = pin fieldSpec_GNSSDOPs_SID (GNSSDOPs_SID p),
     GNSSDOPs_DesiredMode = take_bit 3 (GNSSDOPs_DesiredMode p),
     GNSSDOPs_ActualMode = take_bit 3 (GNSSDOPs_ActualMode p),
     GNSSDOPs_Hdop = map_option (scaled_back hw 24 fieldSpec_GNSSDOPs_Hdop) (GNSSDOPs_Hdop p),
     GNSSDOPs_Vdop = map_option (scaled_back hw 24 fieldSpec_GNSSDOPs_Vdop) (GNSSDOPs_Vdop p),
     GNSSDOPs_Tdop = map_option (scaled_back hw 24 fieldSpec_GNSSDOPs_Tdop) (GNSSDOPs_Tdop p)\<rparr>"

lemma GNSSDOPs_codec: "codec (EncodeGNSSDOPs hw) DecodeGNSSDOPs GNSSDOPs_Info 129539 8
    (\<lambda>_. True) (GNSSDOPs_received hw)"
  unfolding EncodeGNSSDOPs_def DecodeGNSSDOPs_def GNSSDOPs_received_def
  by (rule codec.intro, rule carries_cong, (rule codec_steps carries_end
      | simp add: codec_facts pin_read lookup_read lookup_read_1 unit_read fieldSpec_GNSSDOPs_SID_def fieldSpec_GNSSDOPs_Hdop_def fieldSpec_GNSSDOPs_Vdop_def fieldSpec_GNSSDOPs_Tdop_def)+)

subsection \<open>GPSAlmanacData\<close>

definition fieldSpec_GPSAlmanacData_Prn :: FieldSpec where
  "fieldSpec_GPSAlmanacData_Prn = unsigned_spec 8 0 0xFD 0xFF 2"

definition fieldSpec_GPSAlmanacData_GPSWeekNumber :: FieldSpec where
  "fieldSpec_GPSAlmanacData_GPSWeekNumber = unsigned_spec 16 8 0xFFFD 0xFFFF 2"

definition fieldSpec_GPSAlmanacData_Eccentricity :: ScaledSpec where
  "fieldSpec_GPSAlmanacData_Eccentricity =
     scaled_spec 16 32 0xFFFD 0xFFFF 0 False 2 (fl64 0.0000004768369876728684) None None"

definition fieldSpec_GPSAlmanacData_AlmanacReferenceTime :: ScaledSpec where
  "fieldSpec_GPSAlmanacData_AlmanacReferenceTime =
     scaled_spec 8 48 0xFD 0xFF 0 False 2 4096 None None"

definition fieldSpec_GPSAlmanacData_InclinationAngle :: ScaledSpec where
  "fieldSpec_GPSAlmanacData_InclinationAngle =
     scaled_spec 16 56 0x7FFD 0x7FFF 0 True 2 (fl64 0.0000019073499970545527) None None"

definition fieldSpec_GPSAlmanacData_RateOfRightAscension :: ScaledSpec where
  "fieldSpec_GPSAlmanacData_RateOfRightAscension =
     scaled_spec 16 72 0x7FFD 0x7FFF 0 True 2 (fl64 0.00000000000363798010813432) None None"

definition fieldSpec_GPSAlmanacData_RootOfSemiMajorAxis :: ScaledSpec where
  "fieldSpec_GPSAlmanacData_RootOfSemiMajorAxis =
     scaled_spec 24 88 0xFFFFFD 0xFFFFFF 0 False 2 (fl64 0.0004882809880655259) None None"

definition fieldSpec_GPSAlmanacData_ArgumentOfPerigee :: ScaledSpec where
  "fieldSpec_GPSAlmanacData_ArgumentOfPerigee =
     scaled_spec 24 112 0x7FFFFD 0x7FFFFF 0 True 2 (fl64 0.00000011920899822825959) None None"

definition fieldSpec_GPSAlmanacData_LongitudeOfAscensionNode :: ScaledSpec where
  "fieldSpec_GPSAlmanacData_LongitudeOfAscensionNode =
     scaled_spec 24 136 0x7FFFFD 0x7FFFFF 0 True 2 (fl64 0.00000011920899822825959) None None"

definition fieldSpec_GPSAlmanacData_MeanAnomaly :: ScaledSpec where
  "fieldSpec_GPSAlmanacData_MeanAnomaly =
     scaled_spec 24 160 0x7FFFFD 0x7FFFFF 0 True 2 (fl64 0.00000011920899822825959) None None"

definition fieldSpec_GPSAlmanacData_ClockParameter1 :: ScaledSpec where
  "fieldSpec_GPSAlmanacData_ClockParameter1 =
     scaled_spec 11 184 0x3FD 0x3FF 0 True 2 (fl64 0.0000009536739753457368) None None"

definition fieldSpec_GPSAlmanacData_ClockParameter2 :: ScaledSpec where
  "fieldSpec_GPSAlmanacData_ClockParameter2 =
     scaled_spec 11 195 0x3FD 0x3FF 0 True 2 (fl64 0.00000000000363798010813432) None None"

record GPSAlmanacData =
  GPSAlmanacData_Info :: MessageInfo
  GPSAlmanacData_Prn :: "u8 option"
  GPSAlmanacData_GPSWeekNumber :: "u16 option"
  GPSAlmanacData_SvHealthBits :: bytes
  GPSAlmanacData_Eccentricity :: "rat option"
  GPSAlmanacData_AlmanacReferenceTime :: "rat option"
  GPSAlmanacData_InclinationAngle :: "rat option"
  GPSAlmanacData_RateOfRightAscension :: "rat option"
  GPSAlmanacData_RootOfSemiMajorAxis :: "rat option"
  GPSAlmanacData_ArgumentOfPerigee :: "rat option"
  GPSAlmanacData_LongitudeOfAscensionNode :: "rat option"
  GPSAlmanacData_MeanAnomaly :: "rat option"
  GPSAlmanacData_ClockParameter1 :: "rat option"
  GPSAlmanacData_ClockParameter2 :: "rat option"

definition DecodeGPSAlmanacData :: "MessageInfo \<Rightarrow> (DataStream, GPSAlmanacData) step" where
  "DecodeGPSAlmanacData info =
     field ''GPSAlmanacData-Prn'' (ReadRaw go_uint8 (Some fieldSpec_GPSAlmanacData_Prn)) (\<lambda>v1.
     field ''GPSAlmanacData-GPSWeekNumber'' (ReadRaw go_uint16 (Some fieldSpec_GPSAlmanacData_GPSWeekNumber)) (\<lambda>v2.
     field ''GPSAlmanacData-SvHealthBits'' (readBinaryData 8) (\<lambda>v3.
     field ''GPSAlmanacData-Eccentricity'' (ReadScaled 24 (Some fieldSpec_GPSAlmanacData_Eccentricity)) (\<lambda>v4.
     field ''GPSAlmanacData-AlmanacReferenceTime'' (ReadScaled 24 (Some fieldSpec_GPSAlmanacData_AlmanacReferenceTime)) (\<lambda>v5.
     field ''GPSAlmanacData-InclinationAngle'' (ReadScaled 24 (Some fieldSpec_GPSAlmanacData_InclinationAngle)) (\<lambda>v6.
     field ''GPSAlmanacData-RateOfRightAscension'' (ReadScaled 53 (Some fieldSpec_GPSAlmanacData_RateOfRightAscension)) (\<lambda>v7.
     field ''GPSAlmanacData-RootOfSemiMajorAxis'' (ReadScaled 24 (Some fieldSpec_GPSAlmanacData_RootOfSemiMajorAxis)) (\<lambda>v8.
     field ''GPSAlmanacData-ArgumentOfPerigee'' (ReadScaled 24 (Some fieldSpec_GPSAlmanacData_ArgumentOfPerigee)) (\<lambda>v9.
     field ''GPSAlmanacData-LongitudeOfAscensionNode'' (ReadScaled 24 (Some fieldSpec_GPSAlmanacData_LongitudeOfAscensionNode)) (\<lambda>v10.
     field ''GPSAlmanacData-MeanAnomaly'' (ReadScaled 24 (Some fieldSpec_GPSAlmanacData_MeanAnomaly)) (\<lambda>v11.
     field ''GPSAlmanacData-ClockParameter1'' (ReadScaled 24 (Some fieldSpec_GPSAlmanacData_ClockParameter1)) (\<lambda>v12.
     field ''GPSAlmanacData-ClockParameter2'' (ReadScaled 53 (Some fieldSpec_GPSAlmanacData_ClockParameter2)) (\<lambda>v13.
     skip 2 (
     returnE \<lparr>GPSAlmanacData_Info = info,
       GPSAlmanacData_Prn = map_option of_int v1,
       GPSAlmanacData_GPSWeekNumber = map_option of_int v2,
       GPSAlmanacData_SvHealthBits = v3,
       GPSAlmanacData_Eccentricity = v4,
       GPSAlmanacData_AlmanacReferenceTime = v5,
       GPSAlmanacData_InclinationAngle = v6,
       GPSAlmanacData_RateOfRightAscension = v7,
       GPSAlmanacData_RootOfSemiMajorAxis = v8,
       GPSAlmanacData_ArgumentOfPerigee = v9,
       GPSAlmanacData_LongitudeOfAscensionNode = v10,
       GPSAlmanacData_MeanAnomaly = v11,
       GPSAlmanacData_ClockParameter1 = v12,
       GPSAlmanacData_ClockParameter2 = v13\<rparr>))))))))))))))"

definition EncodeGPSAlmanacData :: "(rat \<Rightarrow> u64) \<Rightarrow> gotime \<Rightarrow> GPSAlmanacData \<Rightarrow> (DataStream, MessageInfo) step" where
  "EncodeGPSAlmanacData hw now p =
     seqE (WriteRaw (map_option uint (GPSAlmanacData_Prn p)) (Some fieldSpec_GPSAlmanacData_Prn)) (\<lambda>_.
     seqE (WriteRaw (map_option uint (GPSAlmanacData_GPSWeekNumber p)) (Some fieldSpec_GPSAlmanacData_GPSWeekNumber)) (\<lambda>_.
     seqE (writeBinary (GPSAlmanacData_SvHealthBits p) 8 24) (\<lambda>_.
     seqE (WriteScaled hw (GPSAlmanacData_Eccentricity p) (Some fieldSpec_GPSAlmanacData_Eccentricity)) (\<lambda>_.
     seqE (WriteScaled hw (GPSAlmanacData_AlmanacReferenceTime p) (Some fieldSpec_GPSAlmanacData_AlmanacReferenceTime)) (\<lambda>_.
     seqE (WriteScaled hw (GPSAlmanacData_InclinationAngle p) (Some fieldSpec_GPSAlmanacData_InclinationAngle)) (\<lambda>_.
     seqE (WriteScaled hw (GPSAlmanacData_RateOfRightAscension p) (Some fieldSpec_GPSAlmanacData_RateOfRightAscension)) (\<lambda>_.
     seqE (WriteScaled hw (GPSAlmanacData_RootOfSemiMajorAxis p) (Some fieldSpec_GPSAlmanacData_RootOfSemiMajorAxis)) (\<lambda>_.
     seqE (WriteScaled hw (GPSAlmanacData_ArgumentOfPerigee p) (Some fieldSpec_GPSAlmanacData_ArgumentOfPerigee)) (\<lambda>_.
     seqE (WriteScaled hw (GPSAlmanacData_LongitudeOfAscensionNode p) (Some fieldSpec_GPSAlmanacData_LongitudeOfAscensionNode)) (\<lambda>_.
     seqE (WriteScaled hw (GPSAlmanacData_MeanAnomaly p) (Some fieldSpec_GPSAlmanacData_MeanAnomaly)) (\<lambda>_.
     seqE (WriteScaled hw (GPSAlmanacData_ClockParameter1 p) (Some fieldSpec_GPSAlmanacData_ClockParameter1)) (\<lambda>_.
     seqE (WriteScaled hw (GPSAlmanacData_ClockParameter2 p) (Some fieldSpec_GPSAlmanacData_ClockParameter2)) (\<lambda>_.
     seqE (writeReserved 2 206) (\<lambda>_.
     returnE (finish_info now 129541 (GPSAlmanacData_Info p))))))))))))))))"

definition GPSAlmanacData_received :: "(rat \<Rightarrow> u64) \<Rightarrow> MessageInfo \<Rightarrow> GPSAlmanacData \<Rightarrow> GPSAlmanacData" where
  "GPSAlmanacData_received hw info p = \<lparr>GPSAlmanacData_Info = info,
     GPSAlmanacData_Prn = pin fieldSpec_GPSAlmanacData_Prn (GPSAlmanacData_Prn p),
     GPSAlmanacData_GPSWeekNumber = pin fieldSpec_GPSAlmanacData_GPSWeekNumber (GPSAlmanacData_GPSWeekNumber p),
     GPSAlmanacData_SvHealthBits = take 1 (GPSAlmanacData_SvHealthBits p @ replicate 1 0),
     GPSAlmanacData_Eccentricity = map_option (scaled_back hw 24 fieldSpec_GPSAlmanacData_Eccentricity) (GPSAlmanacData_Eccentricity p),
     GPSAlmanacData_AlmanacReferenceTime = map_option (scaled_back hw 24 fieldSpec_GPSAlmanacData_AlmanacReferenceTime) (GPSAlmanacData_AlmanacReferenceTime p),
     GPSAlmanacData_InclinationAngle = map_option (scaled_back hw 24 fieldSpec_GPSAlmanacData_InclinationAngle) (GPSAlmanacData_InclinationAngle p),
     GPSAlmanacData_RateOfRightAscension = map_option (scaled_back hw 53 fieldSpec_GPSAlmanacData_RateOfRightAscension) (GPSAlmanacData_RateOfRightAscension p),
     GPSAlmanacData_RootOfSemiMajorAxis = map_option (scaled_back hw 24 fieldSpec_GPSAlmanacData_RootOfSemiMajorAxis) (GPSAlmanacData_RootOfSemiMajorAxis p),
     GPSAlmanacData_ArgumentOfPerigee = map_option (scaled_back hw 24 fieldSpec_GPSAlmanacData_ArgumentOfPerigee) (GPSAlmanacData_ArgumentOfPerigee p),
     GPSAlmanacData_LongitudeOfAscensionNode = map_option (scaled_back hw 24 fieldSpec_GPSAlmanacData_LongitudeOfAscensionNode) (GPSAlmanacData_LongitudeOfAscensionNode p),
     GPSAlmanacData_MeanAnomaly = map_option (scaled_back hw 24 fieldSpec_GPSAlmanacData_MeanAnomaly) (GPSAlmanacData_MeanAnomaly p),
     GPSAlmanacData_ClockParameter1 = map_option (scaled_back hw 24 fieldSpec_GPSAlmanacData_ClockParameter1) (GPSAlmanacData_ClockParameter1 p),
     GPSAlmanacData_ClockParameter2 = map_option (scaled_back hw 53 fieldSpec_GPSAlmanacData_ClockParameter2) (GPSAlmanacData_ClockParameter2 p)\<rparr>"

lemma GPSAlmanacData_codec: "codec (EncodeGPSAlmanacData hw) DecodeGPSAlmanacData GPSAlmanacData_Info 129541 26
    (\<lambda>p. length (GPSAlmanacData_SvHealthBits p) < 65000) (GPSAlmanacData_received hw)"
  unfolding EncodeGPSAlmanacData_def DecodeGPSAlmanacData_def GPSAlmanacData_received_def
  by (rule codec.intro, rule carries_cong, (rule codec_steps carries_end
      | simp add: codec_facts pin_read lookup_read lookup_read_1 unit_read fieldSpec_GPSAlmanacData_Prn_def fieldSpec_GPSAlmanacData_GPSWeekNumber_def fieldSpec_GPSAlmanacData_Eccentricity_def fieldSpec_GPSAlmanacData_AlmanacReferenceTime_def fieldSpec_GPSAlmanacData_InclinationAngle_def fieldSpec_GPSAlmanacData_RateOfRightAscension_def fieldSpec_GPSAlmanacData_RootOfSemiMajorAxis_def fieldSpec_GPSAlmanacData_ArgumentOfPerigee_def fieldSpec_GPSAlmanacData_LongitudeOfAscensionNode_def fieldSpec_GPSAlmanacData_MeanAnomaly_def fieldSpec_GPSAlmanacData_ClockParameter1_def fieldSpec_GPSAlmanacData_ClockParameter2_def)+)

subsection \<open>GNSSPseudorangeNoiseStatistics\<close>

definition fieldSpec_GNSSPseudorangeNoiseStatistics_SID :: FieldSpec where
  "fieldSpec_GNSSPseudorangeNoiseStatistics_SID = unsigned_spec 8 0 0xFD 0xFF 2"

definition fieldSpec_GNSSPseudorangeNoiseStatistics_RMSOfPositionUncertainty :: ScaledSpec where
  "fieldSpec_GNSSPseudorangeNoiseStatistics_RMSOfPositionUncertainty =
     scaled_spec 16 8 0xFFFD 0xFFFF 0 False 2 (fl64 0.009999999776482582) None None"

definition fieldSpec_GNSSPseudorangeNoiseStatistics_StdOfMajorAxis :: ScaledSpec where
  "fieldSpec_GNSSPseudorangeNoiseStatistics_StdOfMajorAxis =
     scaled_spec 16 24 0xFFFD 0xFFFF 0 False 2 (fl64 0.009999999776482582) None None"

definition fieldSpec_GNSSPseudorangeNoiseStatistics_StdOfMinorAxis :: ScaledSpec where
  "fieldSpec_GNSSPseudorangeNoiseStatistics_StdOfMinorAxis =
     scaled_spec 16 40 0xFFFD 0xFFFF 0 False 2 (fl64 0.009999999776482582) None None"

definition fieldSpec_GNSSPseudorangeNoiseStatistics_OrientationOfMajorAxis :: ScaledSpec where
  "fieldSpec_GNSSPseudorangeNoiseStatistics_OrientationOfMajorAxis =
     scaled_spec 16 56 0xFFFD 0xFFFF 0 False 2 (fl64 0.00009999999747378752) (Some 0) (Some (fl64 6.2831852))"

definition fieldSpec_GNSSPseudorangeNoiseStatistics_StdOfLatError :: ScaledSpec where
  "fieldSpec_GNSSPseudorangeNoiseStatistics_StdOfLatError =
     scaled_spec 16 72 0xFFFD 0xFFFF 0 False 2 (fl64 0.009999999776482582) None None"

definition fieldSpec_GNSSPseudorangeNoiseStatistics_StdOfLonError :: ScaledSpec where
  "fieldSpec_GNSSPseudorangeNoiseStatistics_StdOfLonError =
     scaled_spec 16 88 0xFFFD 0xFFFF 0 False 2 (fl64 0.009999999776482582) None None"

definition fieldSpec_GNSSPseudorangeNoiseStatistics_StdOfAltError :: ScaledSpec where
  "fieldSpec_GNSSPseudorangeNoiseStatistics_StdOfAltError =
     scaled_spec 16 104 0xFFFD 0xFFFF 0 False 2 (fl64 0.009999999776482582) None None"

record 'q GNSSPseudorangeNoiseStatistics =
  GNSSPseudorangeNoiseStatistics_Info :: MessageInfo
  GNSSPseudorangeNoiseStatistics_SID :: "u8 option"
  GNSSPseudorangeNoiseStatistics_RMSOfPositionUncertainty :: "'q option"
  GNSSPseudorangeNoiseStatistics_StdOfMajorAxis :: "'q option"
  GNSSPseudorangeNoiseStatistics_StdOfMinorAxis :: "'q option"
  GNSSPseudorangeNoiseStatistics_OrientationOfMajorAxis :: "rat option"
  GNSSPseudorangeNoiseStatistics_StdOfLatError :: "'q option"
  GNSSPseudorangeNoiseStatistics_StdOfLonError :: "'q option"
  GNSSPseudorangeNoiseStatistics_StdOfAltError :: "'q option"

definition DecodeGNSSPseudorangeNoiseStatistics :: "'q units_lib \<Rightarrow> MessageInfo \<Rightarrow> (DataStream, 'q GNSSPseudorangeNoiseStatistics) step" where
  "DecodeGNSSPseudorangeNoiseStatistics lib info =
     field ''GNSSPseudorangeNoiseStatistics-SID'' (ReadRaw go_uint8 (Some fieldSpec_GNSSPseudorangeNoiseStatistics_SID)) (\<lambda>v1.
     field ''GNSSPseudorangeNoiseStatistics-RMSOfPositionUncertainty'' (ReadScaled 24 (Some fieldSpec_GNSSPseudorangeNoiseStatistics_RMSOfPositionUncertainty)) (\<lambda>v2.
     field ''GNSSPseudorangeNoiseStatistics-StdOfMajorAxis'' (ReadScaled 24 (Some fieldSpec_GNSSPseudorangeNoiseStatistics_StdOfMajorAxis)) (\<lambda>v3.
     field ''GNSSPseudorangeNoiseStatistics-StdOfMinorAxis'' (ReadScaled 24 (Some fieldSpec_GNSSPseudorangeNoiseStatistics_StdOfMinorAxis)) (\<lambda>v4.
     field ''GNSSPseudorangeNoiseStatistics-OrientationOfMajorAxis'' (ReadScaled 24 (Some fieldSpec_GNSSPseudorangeNoiseStatistics_OrientationOfMajorAxis)) (\<lambda>v5.
     field ''GNSSPseudorangeNoiseStatistics-StdOfLatError'' (ReadScaled 24 (Some fieldSpec_GNSSPseudorangeNoiseStatistics_StdOfLatError)) (\<lambda>v6.
     field ''GNSSPseudorangeNoiseStatistics-StdOfLonError'' (ReadScaled 24 (Some fieldSpec_GNSSPseudorangeNoiseStatistics_StdOfLonError)) (\<lambda>v7.
     field ''GNSSPseudorangeNoiseStatistics-StdOfAltError'' (ReadScaled 24 (Some fieldSpec_GNSSPseudorangeNoiseStatistics_StdOfAltError)) (\<lambda>v8.
     returnE \<lparr>GNSSPseudorangeNoiseStatistics_Info = info,
       GNSSPseudorangeNoiseStatistics_SID = map_option of_int v1,
       GNSSPseudorangeNoiseStatistics_RMSOfPositionUncertainty = nullableUnit lib Meter v2,
       GNSSPseudorangeNoiseStatistics_StdOfMajorAxis = nullableUnit lib Meter v3,
       GNSSPseudorangeNoiseStatistics_StdOfMinorAxis = nullableUnit lib Meter v4,
       GNSSPseudorangeNoiseStatistics_OrientationOfMajorAxis = v5,
       GNSSPseudorangeNoiseStatistics_StdOfLatError = nullableUnit lib Meter v6,
       GNSSPseudorangeNoiseStatistics_StdOfLonError = nullableUnit lib Meter v7,
       GNSSPseudorangeNoiseStatistics_StdOfAltError = nullableUnit lib Meter v8\<rparr>))))))))"

definition EncodeGNSSPseudorangeNoiseStatistics :: "'q units_lib \<Rightarrow> (rat \<Rightarrow> u64) \<Rightarrow> gotime \<Rightarrow> 'q GNSSPseudorangeNoiseStatistics \<Rightarrow> (DataStream, MessageInfo) step" where
  "EncodeGNSSPseudorangeNoiseStatistics lib hw now p =
     seqE (WriteRaw (map_option uint (GNSSPseudorangeNoiseStatistics_SID p)) (Some fieldSpec_GNSSPseudorangeNoiseStatistics_SID)) (\<lambda>_.
     seqE (writeUnit lib hw Meter (GNSSPseudorangeNoiseStatistics_RMSOfPositionUncertainty p) (Some fieldSpec_GNSSPseudorangeNoiseStatistics_RMSOfPositionUncertainty)) (\<lambda>_.
     seqE (writeUnit lib hw Meter (GNSSPseudorangeNoiseStatistics_StdOfMajorAxis p) (Some fieldSpec_GNSSPseudorangeNoiseStatistics_StdOfMajorAxis)) (\<lambda>_.
     seqE (writeUnit lib hw Meter (GNSSPseudorangeNoiseStatistics_StdOfMinorAxis p) (Some fieldSpec_GNSSPseudorangeNoiseStatistics_StdOfMinorAxis)) (\<lambda>_.
     seqE (WriteScaled hw (GNSSPseudorangeNoiseStatistics_OrientationOfMajorAxis p) (Some fieldSpec_GNSSPseudorangeNoiseStatistics_OrientationOfMajorAxis)) (\<lambda>_.
     seqE (writeUnit lib hw Meter (GNSSPseudorangeNoiseStatistics_StdOfLatError p) (Some fieldSpec_GNSSPseudorangeNoiseStatistics_StdOfLatError)) (\<lambda>_.
     seqE (writeUnit lib hw Meter (GNSSPseudorangeNoiseStatistics_StdOfLonError p) (Some fieldSpec_GNSSPseudorangeNoiseStatistics_StdOfLonError)) (\<lambda>_.
     seqE (writeUnit lib hw Meter (GNSSPseudorangeNoiseStatistics_StdOfAltError p) (Some fieldSpec_GNSSPseudorangeNoiseStatistics_StdOfAltError)) (\<lambda>_.
     returnE (finish_info now 129542 (GNSSPseudorangeNoiseStatistics_Info p))))))))))"

definition GNSSPseudorangeNoiseStatistics_received :: "'q units_lib \<Rightarrow> (rat \<Rightarrow> u64) \<Rightarrow> MessageInfo \<Rightarrow> 'q GNSSPseudorangeNoiseStatistics \<Rightarrow> 'q GNSSPseudorangeNoiseStatistics" where
  "GNSSPseudorangeNoiseStatistics_received lib hw info p = \<lparr>GNSSPseudorangeNoiseStatistics_Info = info,
     GNSSPseudorangeNoiseStatistics_SID = pin fieldSpec_GNSSPseudorangeNoiseStatistics_SID (GNSSPseudorangeNoiseStatistics_SID p),
     GNSSPseudorangeNoiseStatistics_RMSOfPositionUncertainty = map_option (unit_back lib hw Meter fieldSpec_GNSSPseudorangeNoiseStatistics_RMSOfPositionUncertainty) (GNSSPseudorangeNoiseStatistics_RMSOfPositionUncertainty p),
     GNSSPseudorangeNoiseStatistics_StdOfMajorAxis = map_option (unit_back lib hw Meter fieldSpec_GNSSPseudorangeNoiseStatistics_StdOfMajorAxis) (GNSSPseudorangeNoiseStatistics_StdOfMajorAxis p),
     GNSSPseudorangeNoiseStatistics_StdOfMinorAxis = map_option (unit_back lib hw Meter fieldSpec_GNSSPseudorangeNoiseStatistics_StdOfMinorAxis) (GNSSPseudorangeNoiseStatistics_StdOfMinorAxis p),
     GNSSPseudorangeNoiseStatistics_OrientationOfMajorAxis = map_option (scaled_back hw 24 fieldSpec_GNSSPseudorangeNoiseStatistics_OrientationOfMajorAxis) (GNSSPseudorangeNoiseStatistics_OrientationOfMajorAxis p),
     GNSSPseudorangeNoiseStatistics_StdOfLatError = map_option (unit_back lib hw Meter fieldSpec_GNSSPseudorangeNoiseStatistics_StdOfLatError) (GNSSPseudorangeNoiseStatistics_StdOfLatError p),
     GNSSPseudorangeNoiseStatistics_StdOfLonError = map_option (unit_back lib hw Meter fieldSpec_GNSSPseudorangeNoiseStatistics_StdOfLonError) (GNSSPseudorangeNoiseStatistics_StdOfLonError p),
     GNSSPseudorangeNoiseStatistics_StdOfAltError = map_option (unit_back lib hw Meter fieldSpec_GNSSPseudorangeNoiseStatistics_StdOfAltError) (GNSSPseudorangeNoiseStatistics_StdOfAltError p)\<rparr>"

lemma GNSSPseudorangeNoiseStatistics_codec: "codec (EncodeGNSSPseudorangeNoiseStatistics lib hw) (DecodeGNSSPseudorangeNoiseStatistics lib) GNSSPseudorangeNoiseStatistics_Info 129542 15
    (\<lambda>_. True) (GNSSPseudorangeNoiseStatistics_received lib hw)"
  unfolding EncodeGNSSPseudorangeNoiseStatistics_def DecodeGNSSPseudorangeNoiseStatistics_def GNSSPseudorangeNoiseStatistics_received_def
  by (rule codec.intro, rule carries_cong, (rule codec_steps carries_end
      | simp add: codec_facts pin_read lookup_read lookup_read_1 unit_read fieldSpec_GNSSPseudorangeNoiseStatistics_SID_def fieldSpec_GNSSPseudorangeNoiseStatistics_RMSOfPositionUncertainty_def fieldSpec_GNSSPseudorangeNoiseStatistics_StdOfMajorAxis_def fieldSpec_GNSSPseudorangeNoiseStatistics_StdOfMinorAxis_def fieldSpec_GNSSPseudorangeNoiseStatistics_OrientationOfMajorAxis_def fieldSpec_GNSSPseudorangeNoiseStatistics_StdOfLatError_def fieldSpec_GNSSPseudorangeNoiseStatistics_StdOfLonError_def fieldSpec_GNSSPseudorangeNoiseStatistics_StdOfAltError_def)+)

subsection \<open>GNSSRAIMOutput\<close>

definition fieldSpec_GNSSRAIMOutput_SID :: FieldSpec where
  "fieldSpec_GNSSRAIMOutput_SID = unsigned_spec 8 0 0xFD 0xFF 2"

definition fieldSpec_GNSSRAIMOutput_LatitudeExpectedError :: ScaledSpec where
  "fieldSpec_GNSSRAIMOutput_LatitudeExpectedError =
     scaled_spec 16 16 0x7FFD 0x7FFF 0 True 2 (fl64 0.009999999776482582) None None"

definition fieldSpec_GNSSRAIMOutput_LongitudeExpectedError :: ScaledSpec where
  "fieldSpec_GNSSRAIMOutput_LongitudeExpectedError =
     scaled_spec 16 32 0x7FFD 0x7FFF 0 True 2 (fl64 0.009999999776482582) None None"

definition fieldSpec_GNSSRAIMOutput_AltitudeExpectedError :: ScaledSpec where
  "fieldSpec_GNSSRAIMOutput_AltitudeExpectedError =
     scaled_spec 16 48 0x7FFD 0x7FFF 0 True 2 (fl64 0.009999999776482582) None None"

definition fieldSpec_GNSSRAIMOutput_SvIDOfMostLikelyFailedSat :: FieldSpec where
  "fieldSpec_GNSSRAIMOutput_SvIDOfMostLikelyFailedSat = unsigned_spec 8 64 0xFD 0xFF 2"

definition fieldSpec_GNSSRAIMOutput_ProbabilityOfMissedDetection :: ScaledSpec where
  "fieldSpec_GNSSRAIMOutput_ProbabilityOfMissedDetection =
     scaled_spec 16 72 0x7FFD 0x7FFF 0 True 2 (fl64 0.009999999776482582) None None"

definition fieldSpec_GNSSRAIMOutput_EstimateOfPseudorangeBias :: ScaledSpec where
  "fieldSpec_GNSSRAIMOutput_EstimateOfPseudorangeBias =
     scaled_spec 16 88 0x7FFD 0x7FFF 0 True 2 (fl64 0.009999999776482582) None None"

definition fieldSpec_GNSSRAIMOutput_StdDeviationOfBias :: ScaledSpec where
  "fieldSpec_GNSSRAIMOutput_StdDeviationOfBias =
     scaled_spec 16 104 0x7FFD 0x7FFF 0 True 2 (fl64 0.009999999776482582) None None"

record 'q GNSSRAIMOutput =
  GNSSRAIMOutput_Info :: MessageInfo
  GNSSRAIMOutput_SID :: "u8 option"
  GNSSRAIMOutput_IntegrityFlag :: u8
  GNSSRAIMOutput_LatitudeExpectedError :: "'q option"
  GNSSRAIMOutput_LongitudeExpectedError :: "'q option"
  GNSSRAIMOutput_AltitudeExpectedError :: "'q option"
  GNSSRAIMOutput_SvIDOfMostLikelyFailedSat :: "u8 option"
  GNSSRAIMOutput_ProbabilityOfMissedDetection :: "'q option"
  GNSSRAIMOutput_EstimateOfPseudorangeBias :: "'q option"
  GNSSRAIMOutput_StdDeviationOfBias :: "'q option"

definition DecodeGNSSRAIMOutput :: "'q units_lib \<Rightarrow> MessageInfo \<Rightarrow> (DataStream, 'q GNSSRAIMOutput) step" where
  "DecodeGNSSRAIMOutput lib info =
     field ''GNSSRAIMOutput-SID'' (ReadRaw go_uint8 (Some fieldSpec_GNSSRAIMOutput_SID)) (\<lambda>v1.
     field ''GNSSRAIMOutput-IntegrityFlag'' (readLookupField 2) (\<lambda>v2.
     skip 6 (
     field ''GNSSRAIMOutput-LatitudeExpectedError'' (ReadScaled 24 (Some fieldSpec_GNSSRAIMOutput_LatitudeExpectedError)) (\<lambda>v4.
     field ''GNSSRAIMOutput-LongitudeExpectedError'' (ReadScaled 24 (Some fieldSpec_GNSSRAIMOutput_LongitudeExpectedError)) (\<lambda>v5.
     field ''GNSSRAIMOutput-AltitudeExpectedError'' (ReadScaled 24 (Some fieldSpec_GNSSRAIMOutput_AltitudeExpectedError)) (\<lambda>v6.
     field ''GNSSRAIMOutput-SvIDOfMostLikelyFailedSat'' (ReadRaw go_uint8 (Some fieldSpec_GNSSRAIMOutput_SvIDOfMostLikelyFailedSat)) (\<lambda>v7.
     field ''GNSSRAIMOutput-ProbabilityOfMissedDetection'' (ReadScaled 24 (Some fieldSpec_GNSSRAIMOutput_ProbabilityOfMissedDetection)) (\<lambda>v8.
     field ''GNSSRAIMOutput-EstimateOfPseudorangeBias'' (ReadScaled 24 (Some fieldSpec_GNSSRAIMOutput_EstimateOfPseudorangeBias)) (\<lambda>v9.
     field ''GNSSRAIMOutput-StdDeviationOfBias'' (ReadScaled 24 (Some fieldSpec_GNSSRAIMOutput_StdDeviationOfBias)) (\<lambda>v10.
     returnE \<lparr>GNSSRAIMOutput_Info = info,
       GNSSRAIMOutput_SID = map_option of_int v1,
       GNSSRAIMOutput_IntegrityFlag = ucast v2,
       GNSSRAIMOutput_LatitudeExpectedError = nullableUnit lib Meter v4,
       GNSSRAIMOutput_LongitudeExpectedError = nullableUnit lib Meter v5,
       GNSSRAIMOutput_AltitudeExpectedError = nullableUnit lib Meter v6,
       GNSSRAIMOutput_SvIDOfMostLikelyFailedSat = map_option of_int v7,
       GNSSRAIMOutput_ProbabilityOfMissedDetection = nullableUnit lib Meter v8,
       GNSSRAIMOutput_EstimateOfPseudorangeBias = nullableUnit lib Meter v9,
       GNSSRAIMOutput_StdDeviationOfBias = nullableUnit lib Meter v10\<rparr>))))))))))"

definition EncodeGNSSRAIMOutput :: "'q units_lib \<Rightarrow> (rat \<Rightarrow> u64) \<Rightarrow> gotime \<Rightarrow> 'q GNSSRAIMOutput \<Rightarrow> (DataStream, MessageInfo) step" where
  "EncodeGNSSRAIMOutput lib hw now p =
     seqE (WriteRaw (map_option uint (GNSSRAIMOutput_SID p)) (Some fieldSpec_GNSSRAIMOutput_SID)) (\<lambda>_.
     seqE (putNumberRaw (ucast (GNSSRAIMOutput_IntegrityFlag p)) 2 8) (\<lambda>_.
     seqE (writeReserved 6 10) (\<lambda>_.
     seqE (writeUnit lib hw Meter (GNSSRAIMOutput_LatitudeExpectedError p) (Some fieldSpec_GNSSRAIMOutput_LatitudeExpectedError)) (\<lambda>_.
     seqE (writeUnit lib hw Meter (GNSSRAIMOutput_LongitudeExpectedError p) (Some fieldSpec_GNSSRAIMOutput_LongitudeExpectedError)) (\<lambda>_.
     seqE (writeUnit lib hw Meter (GNSSRAIMOutput_AltitudeExpectedError p) (Some fieldSpec_GNSSRAIMOutput_AltitudeExpectedError)) (\<lambda>_.
     seqE (WriteRaw (map_option uint (GNSSRAIMOutput_SvIDOfMostLikelyFailedSat p)) (Some fieldSpec_GNSSRAIMOutput_SvIDOfMostLikelyFailedSat)) (\<lambda>_.
     seqE (writeUnit lib hw Meter (GNSSRAIMOutput_ProbabilityOfMissedDetection p) (Some fieldSpec_GNSSRAIMOutput_ProbabilityOfMissedDetection)) (\<lambda>_.
     seqE (writeUnit lib hw Meter (GNSSRAIMOutput_EstimateOfPseudorangeBias p) (Some fieldSpec_GNSSRAIMOutput_EstimateOfPseudorangeBias)) (\<lambda>_.
     seqE (writeUnit lib hw Meter (GNSSRAIMOutput_StdDeviationOfBias p) (Some fieldSpec_GNSSRAIMOutput_StdDeviationOfBias)) (\<lambda>_.
     returnE (finish_info now 129545 (GNSSRAIMOutput_Info p))))))))))))"

definition GNSSRAIMOutput_received :: "'q units_lib \<Rightarrow> (rat \<Rightarrow> u64) \<Rightarrow> MessageInfo \<Rightarrow> 'q GNSSRAIMOutput \<Rightarrow> 'q GNSSRAIMOutput" where
  "GNSSRAIMOutput_received lib hw info p = \<lparr>GNSSRAIMOutput_Info = info,
     GNSSRAIMOutput_SID = pin fieldSpec_GNSSRAIMOutput_SID (GNSSRAIMOutput_SID p),
     GNSSRAIMOutput_IntegrityFlag = take_bit 2 (GNSSRAIMOutput_IntegrityFlag p),
     GNSSRAIMOutput_LatitudeExpectedError = map_option (unit_back lib hw Meter fieldSpec_GNSSRAIMOutput_LatitudeExpectedError) (GNSSRAIMOutput_LatitudeExpectedError p),
     GNSSRAIMOutput_LongitudeExpectedError = map_option (unit_back lib hw Meter fieldSpec_GNSSRAIMOutput_LongitudeExpectedError) (GNSSRAIMOutput_LongitudeExpectedError p),
     GNSSRAIMOutput_AltitudeExpectedError = map_option (unit_back lib hw Meter fieldSpec_GNSSRAIMOutput_AltitudeExpectedError) (GNSSRAIMOutput_AltitudeExpectedError p),
     GNSSRAIMOutput_SvIDOfMostLikelyFailedSat = pin fieldSpec_GNSSRAIMOutput_SvIDOfMostLikelyFailedSat (GNSSRAIMOutput_SvIDOfMostLikelyFailedSat p),
     GNSSRAIMOutput_ProbabilityOfMissedDetection = map_option (unit_back lib hw Meter fieldSpec_GNSSRAIMOutput_ProbabilityOfMissedDetection) (GNSSRAIMOutput_ProbabilityOfMissedDetection p),
     GNSSRAIMOutput_EstimateOfPseudorangeBias = map_option (unit_back lib hw Meter fieldSpec_GNSSRAIMOutput_EstimateOfPseudorangeBias) (GNSSRAIMOutput_EstimateOfPseudorangeBias p),
     GNSSRAIMOutput_StdDeviationOfBias = map_option (unit_back lib hw Meter fieldSpec_GNSSRAIMOutput_StdDeviationOfBias) (GNSSRAIMOutput_StdDeviationOfBias p)\<rparr>"

lemma GNSSRAIMOutput_codec: "codec (EncodeGNSSRAIMOutput lib hw) (DecodeGNSSRAIMOutput lib) GNSSRAIMOutput_Info 129545 15
    (\<lambda>_. True) (GNSSRAIMOutput_received lib hw)"
  unfolding EncodeGNSSRAIMOutput_def DecodeGNSSRAIMOutput_def GNSSRAIMOutput_received_def
  by (rule codec.intro, rule carries_cong, (rule codec_steps carries_end
      | simp add: codec_facts pin_read lookup_read lookup_read_1 unit_read fieldSpec_GNSSRAIMOutput_SID_def fieldSpec_GNSSRAIMOutput_LatitudeExpectedError_def fieldSpec_GNSSRAIMOutput_LongitudeExpectedError_def fieldSpec_GNSSRAIMOutput_AltitudeExpectedError_def fieldSpec_GNSSRAIMOutput_SvIDOfMostLikelyFailedSat_def fieldSpec_GNSSRAIMOutput_ProbabilityOfMissedDetection_def fieldSpec_GNSSRAIMOutput_EstimateOfPseudorangeBias_def fieldSpec_GNSSRAIMOutput_StdDeviationOfBias_def)+)

subsection \<open>GNSSRAIMSettings\<close>

definition fieldSpec_GNSSRAIMSettings_RadialPositionErrorMaximumThreshold :: ScaledSpec where
  "fieldSpec_GNSSRAIMSettings_RadialPositionErrorMaximumThreshold =
     scaled_spec 16 0 0xFFFD 0xFFFF 0 False 2 (fl64 0.009999999776482582) None None"

definition fieldSpec_GNSSRAIMSettings_ProbabilityOfFalseAlarm :: FieldSpec where
  "fieldSpec_GNSSRAIMSettings_ProbabilityOfFalseAlarm = signed_spec 8 16 0x7D 0x7F 2"

definition fieldSpec_GNSSRAIMSettings_ProbabilityOfMissedDetection :: FieldSpec where
  "fieldSpec_GNSSRAIMSettings_ProbabilityOfMissedDetection = signed_spec 8 24 0x7D 0x7F 2"

definition fieldSpec_GNSSRAIMSettings_PseudorangeResidualFilteringTimeConstant :: FieldSpec where
  "fieldSpec_GNSSRAIMSettings_PseudorangeResidualFilteringTimeConstant = unsigned_spec 16 32 0xFFFD 0xFFFF 2"

record 'q GNSSRAIMSettings =
  GNSSRAIMSettings_Info :: MessageInfo
  GNSSRAIMSettings_RadialPositionErrorMaximumThreshold :: "'q option"
  GNSSRAIMSettings_ProbabilityOfFalseAlarm :: "8 word option"
  GNSSRAIMSettings_ProbabilityOfMissedDetection :: "8 word option"
  GNSSRAIMSettings_PseudorangeResidualFilteringTimeConstant :: "u16 option"

definition DecodeGNSSRAIMSettings :: "'q units_lib \<Rightarrow> MessageInfo \<Rightarrow> (DataStream, 'q GNSSRAIMSettings) step" where
  "DecodeGNSSRAIMSettings lib info =
     field ''GNSSRAIMSettings-RadialPositionErrorMaximumThreshold'' (ReadScaled 24 (Some fieldSpec_GNSSRAIMSettings_RadialPositionErrorMaximumThreshold)) (\<lambda>v1.
     field ''GNSSRAIMSettings-ProbabilityOfFalseAlarm'' (ReadRaw go_int8 (Some fieldSpec_GNSSRAIMSettings_ProbabilityOfFalseAlarm)) (\<lambda>v2.
     field ''GNSSRAIMSettings-ProbabilityOfMissedDetection'' (ReadRaw go_int8 (Some fieldSpec_GNSSRAIMSettings_ProbabilityOfMissedDetection)) (\<lambda>v3.
     field ''GNSSRAIMSettings-PseudorangeResidualFilteringTimeConstant'' (ReadRaw go_uint16 (Some fieldSpec_GNSSRAIMSettings_PseudorangeResidualFilteringTimeConstant)) (\<lambda>v4.
     skip 16 (
     returnE \<lparr>GNSSRAIMSettings_Info = info,
       GNSSRAIMSettings_RadialPositionErrorMaximumThreshold = nullableUnit lib Meter v1,
       GNSSRAIMSettings_ProbabilityOfFalseAlarm = map_option of_int v2,
       GNSSRAIMSettings_ProbabilityOfMissedDetection = map_option of_int v3,
       GNSSRAIMSettings_PseudorangeResidualFilteringTimeConstant = map_option of_int v4\<rparr>)))))"

definition EncodeGNSSRAIMSettings :: "'q units_lib \<Rightarrow> (rat \<Rightarrow> u64) \<Rightarrow> gotime \<Rightarrow> 'q GNSSRAIMSettings \<Rightarrow> (DataStream, MessageInfo) step" where
  "EncodeGNSSRAIMSettings lib hw now p =
     seqE (writeUnit lib hw Meter (GNSSRAIMSettings_RadialPositionErrorMaximumThreshold p) (Some fieldSpec_GNSSRAIMSettings_RadialPositionErrorMaximumThreshold)) (\<lambda>_.
     seqE (WriteRaw (map_option sint (GNSSRAIMSettings_ProbabilityOfFalseAlarm p)) (Some fieldSpec_GNSSRAIMSettings_ProbabilityOfFalseAlarm)) (\<lambda>_.
     seqE (WriteRaw (map_option sint (GNSSRAIMSettings_ProbabilityOfMissedDetection p)) (Some fieldSpec_GNSSRAIMSettings_ProbabilityOfMissedDetection)) (\<lambda>_.
     seqE (WriteRaw (map_option uint (GNSSRAIMSettings_PseudorangeResidualFilteringTimeConstant p)) (Some fieldSpec_GNSSRAIMSettings_PseudorangeResidualFilteringTimeConstant)) (\<lambda>_.
     seqE (writeReserved 16 48) (\<lambda>_.
     returnE (finish_info now 129546 (GNSSRAIMSettings_Info p)))))))"

definition GNSSRAIMSettings_received :: "'q units_lib \<Rightarrow> (rat \<Rightarrow> u64) \<Rightarrow> MessageInfo \<Rightarrow> 'q GNSSRAIMSettings \<Rightarrow> 'q GNSSRAIMSettings" where
  "GNSSRAIMSettings_received lib hw info p = \<lparr>GNSSRAIMSettings_Info = info,
     GNSSRAIMSettings_RadialPositionErrorMaximumThreshold = map_option (unit_back lib hw Meter fieldSpec_GNSSRAIMSettings_RadialPositionErrorMaximumThreshold) (GNSSRAIMSettings_RadialPositionErrorMaximumThreshold p),
     GNSSRAIMSettings_ProbabilityOfFalseAlarm = pin_signed fieldSpec_GNSSRAIMSettings_ProbabilityOfFalseAlarm (GNSSRAIMSettings_ProbabilityOfFalseAlarm p),
     GNSSRAIMSettings_ProbabilityOfMissedDetection = pin_signed fieldSpec_GNSSRAIMSettings_ProbabilityOfMissedDetection (GNSSRAIMSettings_ProbabilityOfMissedDetection p),
     GNSSRAIMSettings_PseudorangeResidualFilteringTimeConstant = pin fieldSpec_GNSSRAIMSettings_PseudorangeResidualFilteringTimeConstant (GNSSRAIMSettings_PseudorangeResidualFilteringTimeConstant p)\<rparr>"

lemma GNSSRAIMSettings_codec: "codec (EncodeGNSSRAIMSettings lib hw) (DecodeGNSSRAIMSettings lib) GNSSRAIMSettings_Info 129546 8
    (\<lambda>_. True) (GNSSRAIMSettings_received lib hw)"
  unfolding EncodeGNSSRAIMSettings_def DecodeGNSSRAIMSettings_def GNSSRAIMSettings_received_def
  by (rule codec.intro, rule carries_cong, (rule codec_steps carries_end
      | simp add: codec_facts pin_read lookup_read lookup_read_1 unit_read fieldSpec_GNSSRAIMSettings_RadialPositionErrorMaximumThreshold_def fieldSpec_GNSSRAIMSettings_ProbabilityOfFalseAlarm_def fieldSpec_GNSSRAIMSettings_ProbabilityOfMissedDetection_def fieldSpec_GNSSRAIMSettings_PseudorangeResidualFilteringTimeConstant_def)+)

subsection \<open>GNSSPseudorangeErrorStatistics\<close>

definition fieldSpec_GNSSPseudorangeErrorStatistics_SID :: FieldSpec where
  "fieldSpec_GNSSPseudorangeErrorStatistics_SID = unsigned_spec 8 0 0xFD 0xFF 2"

definition fieldSpec_GNSSPseudorangeErrorStatistics_RMSStdDevOfRangeInputs :: ScaledSpec where
  "fieldSpec_GNSSPseudorangeErrorStatistics_RMSStdDevOfRangeInputs =
     scaled_spec 16 8 0xFFFD 0xFFFF 0 False 2 (fl64 0.009999999776482582) None None"

definition fieldSpec_GNSSPseudorangeErrorStatistics_StdDevOfMajorErrorEllipse :: ScaledSpec where
  "fieldSpec_GNSSPseudorangeErrorStatistics_StdDevOfMajorErrorEllipse =
     scaled_spec 16 24 0xFFFD 0xFFFF 0 False 2 (fl64 0.009999999776482582) None None"

definition fieldSpec_GNSSPseudorangeErrorStatistics_StdDevOfMinorErrorEllipse :: ScaledSpec where
  "fieldSpec_GNSSPseudorangeErrorStatistics_StdDevOfMinorErrorEllipse =
     scaled_spec 16 40 0xFFFD 0xFFFF 0 False 2 (fl64 0.009999999776482582) None None"

definition fieldSpec_GNSSPseudorangeErrorStatistics_OrientationOfErrorEllipse :: ScaledSpec where
  "fieldSpec_GNSSPseudorangeErrorStatistics_OrientationOfErrorEllipse =
     scaled_spec 16 56 0xFFFD 0xFFFF 0 False 2 (fl64 0.00009999999747378752) (Some 0) (Some (fl64 6.2831852))"

definition fieldSpec_GNSSPseudorangeErrorStatistics_StdDevLatError :: ScaledSpec where
  "fieldSpec_GNSSPseudorangeErrorStatistics_StdDevLatError =
     scaled_spec 16 72 0xFFFD 0xFFFF 0 False 2 (fl64 0.009999999776482582) None None"

definition fieldSpec_GNSSPseudorangeErrorStatistics_StdDevLonError :: ScaledSpec where
  "fieldSpec_GNSSPseudorangeErrorStatistics_StdDevLonError =
     scaled_spec 16 88 0xFFFD 0xFFFF 0 False 2 (fl64 0.009999999776482582) None None"

definition fieldSpec_GNSSPseudorangeErrorStatistics_StdDevAltError :: ScaledSpec where
  "fieldSpec_GNSSPseudorangeErrorStatistics_StdDevAltError =
     scaled_spec 16 104 0xFFFD 0xFFFF 0 False 2 (fl64 0.009999999776482582) None None"

record 'q GNSSPseudorangeErrorStatistics =
  GNSSPseudorangeErrorStatistics_Info :: MessageInfo
  GNSSPseudorangeErrorStatistics_SID :: "u8 option"
  GNSSPseudorangeErrorStatistics_RMSStdDevOfRangeInputs :: "'q option"
  GNSSPseudorangeErrorStatistics_StdDevOfMajorErrorEllipse :: "'q option"
  GNSSPseudorangeErrorStatistics_StdDevOfMinorErrorEllipse :: "'q option"
  GNSSPseudorangeErrorStatistics_OrientationOfErrorEllipse :: "rat option"
  GNSSPseudorangeErrorStatistics_StdDevLatError :: "'q option"
  GNSSPseudorangeErrorStatistics_StdDevLonError :: "'q option"
  GNSSPseudorangeErrorStatistics_StdDevAltError :: "'q option"

definition DecodeGNSSPseudorangeErrorStatistics :: "'q units_lib \<Rightarrow> MessageInfo \<Rightarrow> (DataStream, 'q GNSSPseudorangeErrorStatistics) step" where
  "DecodeGNSSPseudorangeErrorStatistics lib info =
     field ''GNSSPseudorangeErrorStatistics-SID'' (ReadRaw go_uint8 (Some fieldSpec_GNSSPseudorangeErrorStatistics_SID)) (\<lambda>v1.
     field ''GNSSPseudorangeErrorStatistics-RMSStdDevOfRangeInputs'' (ReadScaled 24 (Some fieldSpec_GNSSPseudorangeErrorStatistics_RMSStdDevOfRangeInputs)) (\<lambda>v2.
     field ''GNSSPseudorangeErrorStatistics-StdDevOfMajorErrorEllipse'' (ReadScaled 24 (Some fieldSpec_GNSSPseudorangeErrorStatistics_StdDevOfMajorErrorEllipse)) (\<lambda>v3.
     field ''GNSSPseudorangeErrorStatistics-StdDevOfMinorErrorEllipse'' (ReadScaled 24 (Some fieldSpec_GNSSPseudorangeErrorStatistics_StdDevOfMinorErrorEllipse)) (\<lambda>v4.
     field ''GNSSPseudorangeErrorStatistics-OrientationOfErrorEllipse'' (ReadScaled 24 (Some fieldSpec_GNSSPseudorangeErrorStatistics_OrientationOfErrorEllipse)) (\<lambda>v5.
     field ''GNSSPseudorangeErrorStatistics-StdDevLatError'' (ReadScaled 24 (Some fieldSpec_GNSSPseudorangeErrorStatistics_StdDevLatError)) (\<lambda>v6.
     field ''GNSSPseudorangeErrorStatistics-StdDevLonError'' (ReadScaled 24 (Some fieldSpec_GNSSPseudorangeErrorStatistics_StdDevLonError)) (\<lambda>v7.
     field ''GNSSPseudorangeErrorStatistics-StdDevAltError'' (ReadScaled 24 (Some fieldSpec_GNSSPseudorangeErrorStatistics_StdDevAltError)) (\<lambda>v8.
     returnE \<lparr>GNSSPseudorangeErrorStatistics_Info = info,
       GNSSPseudorangeErrorStatistics_SID = map_option of_int v1,
       GNSSPseudorangeErrorStatistics_RMSStdDevOfRangeInputs = nullableUnit lib Meter v2,
       GNSSPseudorangeErrorStatistics_StdDevOfMajorErrorEllipse = nullableUnit lib Meter v3,
       GNSSPseudorangeErrorStatistics_StdDevOfMinorErrorEllipse = nullableUnit lib Meter v4,
       GNSSPseudorangeErrorStatistics_OrientationOfErrorEllipse = v5,
       GNSSPseudorangeErrorStatistics_StdDevLatError = nullableUnit lib Meter v6,
       GNSSPseudorangeErrorStatistics_StdDevLonError = nullableUnit lib Meter v7,
       GNSSPseudorangeErrorStatistics_StdDevAltError = nullableUnit lib Meter v8\<rparr>))))))))"

definition EncodeGNSSPseudorangeErrorStatistics :: "'q units_lib \<Rightarrow> (rat \<Rightarrow> u64) \<Rightarrow> gotime \<Rightarrow> 'q GNSSPseudorangeErrorStatistics \<Rightarrow> (DataStream, MessageInfo) step" where
  "EncodeGNSSPseudorangeErrorStatistics lib hw now p =
     seqE (WriteRaw (map_option uint (GNSSPseudorangeErrorStatistics_SID p)) (Some fieldSpec_GNSSPseudorangeErrorStatistics_SID)) (\<lambda>_.
     seqE (writeUnit lib hw Meter (GNSSPseudorangeErrorStatistics_RMSStdDevOfRangeInputs p) (Some fieldSpec_GNSSPseudorangeErrorStatistics_RMSStdDevOfRangeInputs)) (\<lambda>_.
     seqE (writeUnit lib hw Meter (GNSSPseudorangeErrorStatistics_StdDevOfMajorErrorEllipse p) (Some fieldSpec_GNSSPseudorangeErrorStatistics_StdDevOfMajorErrorEllipse)) (\<lambda>_.
     seqE (writeUnit lib hw Meter (GNSSPseudorangeErrorStatistics_StdDevOfMinorErrorEllipse p) (Some fieldSpec_GNSSPseudorangeErrorStatistics_StdDevOfMinorErrorEllipse)) (\<lambda>_.
     seqE (WriteScaled hw (GNSSPseudorangeErrorStatistics_OrientationOfErrorEllipse p) (Some fieldSpec_GNSSPseudorangeErrorStatistics_OrientationOfErrorEllipse)) (\<lambda>_.
     seqE (writeUnit lib hw Meter (GNSSPseudorangeErrorStatistics_StdDevLatError p) (Some fieldSpec_GNSSPseudorangeErrorStatistics_StdDevLatError)) (\<lambda>_.
     seqE (writeUnit lib hw Meter (GNSSPseudorangeErrorStatistics_StdDevLonError p) (Some fieldSpec_GNSSPseudorangeErrorStatistics_StdDevLonError)) (\<lambda>_.
     seqE (writeUnit lib hw Meter (GNSSPseudorangeErrorStatistics_StdDevAltError p) (Some fieldSpec_GNSSPseudorangeErrorStatistics_StdDevAltError)) (\<lambda>_.
     returnE (finish_info now 129547 (GNSSPseudorangeErrorStatistics_Info p))))))))))"

definition GNSSPseudorangeErrorStatistics_received :: "'q units_lib \<Rightarrow> (rat \<Rightarrow> u64) \<Rightarrow> MessageInfo \<Rightarrow> 'q GNSSPseudorangeErrorStatistics \<Rightarrow> 'q GNSSPseudorangeErrorStatistics" where
  "GNSSPseudorangeErrorStatistics_received lib hw info p = \<lparr>GNSSPseudorangeErrorStatistics_Info = info,
     GNSSPseudorangeErrorStatistics_SID = pin fieldSpec_GNSSPseudorangeErrorStatistics_SID (GNSSPseudorangeErrorStatistics_SID p),
     GNSSPseudorangeErrorStatistics_RMSStdDevOfRangeInputs = map_option (unit_back lib hw Meter fieldSpec_GNSSPseudorangeErrorStatistics_RMSStdDevOfRangeInputs) (GNSSPseudorangeErrorStatistics_RMSStdDevOfRangeInputs p),
     GNSSPseudorangeErrorStatistics_StdDevOfMajorErrorEllipse = map_option (unit_back lib hw Meter fieldSpec_GNSSPseudorangeErrorStatistics_StdDevOfMajorErrorEllipse) (GNSSPseudorangeErrorStatistics_StdDevOfMajorErrorEllipse p),
     GNSSPseudorangeErrorStatistics_StdDevOfMinorErrorEllipse = map_option (unit_back lib hw Meter fieldSpec_GNSSPseudorangeErrorStatistics_StdDevOfMinorErrorEllipse) (GNSSPseudorangeErrorStatistics_StdDevOfMinorErrorEllipse p),
     GNSSPseudorangeErrorStatistics_OrientationOfErrorEllipse = map_option (scaled_back hw 24 fieldSpec_GNSSPseudorangeErrorStatistics_OrientationOfErrorEllipse) (GNSSPseudorangeErrorStatistics_OrientationOfErrorEllipse p),
     GNSSPseudorangeErrorStatistics_StdDevLatError = map_option (unit_back lib hw Meter fieldSpec_GNSSPseudorangeErrorStatistics_StdDevLatError) (GNSSPseudorangeErrorStatistics_StdDevLatError p),
     GNSSPseudorangeErrorStatistics_StdDevLonError = map_option (unit_back lib hw Meter fieldSpec_GNSSPseudorangeErrorStatistics_StdDevLonError) (GNSSPseudorangeErrorStatistics_StdDevLonError p),
     GNSSPseudorangeErrorStatistics_StdDevAltError = map_option (unit_back lib hw Meter fieldSpec_GNSSPseudorangeErrorStatistics_StdDevAltError) (GNSSPseudorangeErrorStatistics_StdDevAltError p)\<rparr>"

lemma GNSSPseudorangeErrorStatistics_codec: "codec (EncodeGNSSPseudorangeErrorStatistics lib hw) (DecodeGNSSPseudorangeErrorStatistics lib) GNSSPseudorangeErrorStatistics_Info 129547 15
    (\<lambda>_. True) (GNSSPseudorangeErrorStatistics_received lib hw)"
  unfolding EncodeGNSSPseudorangeErrorStatistics_def DecodeGNSSPseudorangeErrorStatistics_def GNSSPseudorangeErrorStatistics_received_def
  by (rule codec.intro, rule carries_cong, (rule codec_steps carries_end
      | simp add: codec_facts pin_read lookup_read lookup_read_1 unit_read fieldSpec_GNSSPseudorangeErrorStatistics_SID_def fieldSpec_GNSSPseudorangeErrorStatistics_RMSStdDevOfRangeInputs_def fieldSpec_GNSSPseudorangeErrorStatistics_StdDevOfMajorErrorEllipse_def fieldSpec_GNSSPseudorangeErrorStatistics_StdDevOfMinorErrorEllipse_def fieldSpec_GNSSPseudorangeErrorStatistics_OrientationOfErrorEllipse_def fieldSpec_GNSSPseudorangeErrorStatistics_StdDevLatError_def fieldSpec_GNSSPseudorangeErrorStatistics_StdDevLonError_def fieldSpec_GNSSPseudorangeErrorStatistics_StdDevAltError_def)+)

subsection \<open>DGNSSCorrections\<close>

definition fieldSpec_DGNSSCorrections_SID :: FieldSpec where
  "fieldSpec_DGNSSCorrections_SID = unsigned_spec 8 0 0xFD 0xFF 2"

definition fieldSpec_DGNSSCorrections_ReferenceStationID :: FieldSpec where
  "fieldSpec_DGNSSCorrections_ReferenceStationID = unsigned_spec 12 8 0xFFD 0xFFF 2"

definition fieldSpec_DGNSSCorrections_TimeOfCorrections :: ScaledSpec where
  "fieldSpec_DGNSSCorrections_TimeOfCorrections =
     scaled_spec 16 24 0xFFFD 0xFFFF 0 False 2 (fl64 0.10000000149011612) None None"

definition fieldSpec_DGNSSCorrections_SatelliteID :: FieldSpec where
  "fieldSpec_DGNSSCorrections_SatelliteID = unsigned_spec 8 48 0xFD 0xFF 2"

definition fieldSpec_DGNSSCorrections_Prc :: ScaledSpec where
  "fieldSpec_DGNSSCorrections_Prc =
     scaled_spec 32 56 0x7FFFFFFD 0x7FFFFFFF 0 True 2 (fl64 0.00009999999747378752) None None"

definition fieldSpec_DGNSSCorrections_Rrc :: ScaledSpec where
  "fieldSpec_DGNSSCorrections_Rrc =
     scaled_spec 16 88 0x7FFD 0x7FFF 0 True 2 (fl64 0.00009999999747378752) None None"

definition fieldSpec_DGNSSCorrections_Udre :: ScaledSpec where
  "fieldSpec_DGNSSCorrections_Udre =
     scaled_spec 16 104 0xFFFD 0xFFFF 0 False 2 (fl64 0.009999999776482582) None None"

definition fieldSpec_DGNSSCorrections_Iod :: FieldSpec where
  "fieldSpec_DGNSSCorrections_Iod = unsigned_spec 8 120 0xFD 0xFF 2"

record 'q DGNSSCorrections =
  DGNSSCorrections_Info :: MessageInfo
  DGNSSCorrections_SID :: "u8 option"
  DGNSSCorrections_ReferenceStationID :: "u16 option"
  DGNSSCorrections_ReferenceStationType :: u8
  DGNSSCorrections_TimeOfCorrections :: "rat option"
  DGNSSCorrections_StationHealth :: u8
  DGNSSCorrections_SatelliteID :: "u8 option"
  DGNSSCorrections_Prc :: "'q option"
  DGNSSCorrections_Rrc :: "'q option"
  DGNSSCorrections_Udre :: "'q option"
  DGNSSCorrections_Iod :: "u8 option"

definition DecodeDGNSSCorrections :: "'q units_lib \<Rightarrow> MessageInfo \<Rightarrow> (DataStream, 'q DGNSSCorrections) step" where
  "DecodeDGNSSCorrections lib info =
     field ''DGNSSCorrections-SID'' (ReadRaw go_uint8 (Some fieldSpec_DGNSSCorrections_SID)) (\<lambda>v1.
     field ''DGNSSCorrections-ReferenceStationID'' (ReadRaw go_uint16 (Some fieldSpec_DGNSSCorrections_ReferenceStationID)) (\<lambda>v2.
     field ''DGNSSCorrections-ReferenceStationType'' (readLookupField 4) (\<lambda>v3.
     field ''DGNSSCorrections-TimeOfCorrections'' (ReadScaled 24 (Some fieldSpec_DGNSSCorrections_TimeOfCorrections)) (\<lambda>v4.
     field ''DGNSSCorrections-StationHealth'' (readLookupField 4) (\<lambda>v5.
     skip 4 (
     field ''DGNSSCorrections-SatelliteID'' (ReadRaw go_uint8 (Some fieldSpec_DGNSSCorrections_SatelliteID)) (\<lambda>v7.
     field ''DGNSSCorrections-Prc'' (ReadScaled 24 (Some fieldSpec_DGNSSCorrections_Prc)) (\<lambda>v8.
     field ''DGNSSCorrections-Rrc'' (ReadScaled 24 (Some fieldSpec_DGNSSCorrections_Rrc)) (\<lambda>v9.
     field ''DGNSSCorrections-Udre'' (ReadScaled 24 (Some fieldSpec_DGNSSCorrections_Udre)) (\<lambda>v10.
     field ''DGNSSCorrections-Iod'' (ReadRaw go_uint8 (Some fieldSpec_DGNSSCorrections_Iod)) (\<lambda>v11.
     returnE \<lparr>DGNSSCorrections_Info = info,
       DGNSSCorrections_SID = map_option of_int v1,
       DGNSSCorrections_ReferenceStationID = map_option of_int v2,
       DGNSSCorrections_ReferenceStationType = ucast v3,
       DGNSSCorrections_TimeOfCorrections = v4,
       DGNSSCorrections_StationHealth = ucast v5,
       DGNSSCorrections_SatelliteID = map_option of_int v7,
       DGNSSCorrections_Prc = nullableUnit lib Meter v8,
       DGNSSCorrections_Rrc = nullableUnit lib MetersPerSecond v9,
       DGNSSCorrections_Udre = nullableUnit lib Meter v10,
       DGNSSCorrections_Iod = map_option of_int v11\<rparr>)))))))))))"

definition EncodeDGNSSCorrections :: "'q units_lib \<Rightarrow> (rat \<Rightarrow> u64) \<Rightarrow> gotime \<Rightarrow> 'q DGNSSCorrections \<Rightarrow> (DataStream, MessageInfo) step" where
  "EncodeDGNSSCorrections lib hw now p =
     seqE (WriteRaw (map_option uint (DGNSSCorrections_SID p)) (Some fieldSpec_DGNSSCorrections_SID)) (\<lambda>_.
     seqE (WriteRaw (map_option uint (DGNSSCorrections_ReferenceStationID p)) (Some fieldSpec_DGNSSCorrections_ReferenceStationID)) (\<lambda>_.
     seqE (putNumberRaw (ucast (DGNSSCorrections_ReferenceStationType p)) 4 20) (\<lambda>_.
     seqE (WriteScaled hw (DGNSSCorrections_TimeOfCorrections p) (Some fieldSpec_DGNSSCorrections_TimeOfCorrections)) (\<lambda>_.
     seqE (putNumberRaw (ucast (DGNSSCorrections_StationHealth p)) 4 40) (\<lambda>_.
     seqE (writeReserved 4 44) (\<lambda>_.
     seqE (WriteRaw (map_option uint (DGNSSCorrections_SatelliteID p)) (Some fieldSpec_DGNSSCorrections_SatelliteID)) (\<lambda>_.
     seqE (writeUnit lib hw Meter (DGNSSCorrections_Prc p) (Some fieldSpec_DGNSSCorrections_Prc)) (\<lambda>_.
     seqE (writeUnit lib hw MetersPerSecond (DGNSSCorrections_Rrc p) (Some fieldSpec_DGNSSCorrections_Rrc)) (\<lambda>_.
     seqE (writeUnit lib hw Meter (DGNSSCorrections_Udre p) (Some fieldSpec_DGNSSCorrections_Udre)) (\<lambda>_.
     seqE (WriteRaw (map_option uint (DGNSSCorrections_Iod p)) (Some fieldSpec_DGNSSCorrections_Iod)) (\<lambda>_.
     returnE (finish_info now 129549 (DGNSSCorrections_Info p)))))))))))))"

definition DGNSSCorrections_received :: "'q units_lib \<Rightarrow> (rat \<Rightarrow> u64) \<Rightarrow> MessageInfo \<Rightarrow> 'q DGNSSCorrections \<Rightarrow> 'q DGNSSCorrections" where
  "DGNSSCorrections_received lib hw info p = \<lparr>DGNSSCorrections_Info = info,
     DGNSSCorrections_SID = pin fieldSpec_DGNSSCorrections_SID (DGNSSCorrections_SID p),
     DGNSSCorrections_ReferenceStationID = pin fieldSpec_DGNSSCorrections_ReferenceStationID (DGNSSCorrections_ReferenceStationID p),
     DGNSSCorrections_ReferenceStationType = take_bit 4 (DGNSSCorrections_ReferenceStationType p),
     DGNSSCorrections_TimeOfCorrections = map_option (scaled_back hw 24 fieldSpec_DGNSSCorrections_TimeOfCorrections) (DGNSSCorrections_TimeOfCorrections p),
     DGNSSCorrections_StationHealth = take_bit 4 (DGNSSCorrections_StationHealth p),
     DGNSSCorrections_SatelliteID = pin fieldSpec_DGNSSCorrections_SatelliteID (DGNSSCorrections_SatelliteID p),
     DGNSSCorrections_Prc = map_option (unit_back lib hw Meter fieldSpec_DGNSSCorrections_Prc) (DGNSSCorrections_Prc p),
     DGNSSCorrections_Rrc = map_option (unit_back lib hw MetersPerSecond fieldSpec_DGNSSCorrections_Rrc) (DGNSSCorrections_Rrc p),
     DGNSSCorrections_Udre = map_option (unit_back lib hw Meter fieldSpec_DGNSSCorrections_Udre) (DGNSSCorrections_Udre p),
     DGNSSCorrections_Iod = pin fieldSpec_DGNSSCorrections_Iod (DGNSSCorrections_Iod p)\<rparr>"

lemma DGNSSCorrections_codec: "codec (EncodeDGNSSCorrections lib hw) (DecodeDGNSSCorrections lib) DGNSSCorrections_Info 129549 16
    (\<lambda>_. True) (DGNSSCorrections_received lib hw)"
  unfolding EncodeDGNSSCorrections_def DecodeDGNSSCorrections_def DGNSSCorrections_received_def
  by (rule codec.intro, rule carries_cong, (rule codec_steps carries_end
      | simp add: codec_facts pin_read lookup_read lookup_read_1 unit_read fieldSpec_DGNSSCorrections_SID_def fieldSpec_DGNSSCorrections_ReferenceStationID_def fieldSpec_DGNSSCorrections_TimeOfCorrections_def fieldSpec_DGNSSCorrections_SatelliteID_def fieldSpec_DGNSSCorrections_Prc_def fieldSpec_DGNSSCorrections_Rrc_def fieldSpec_DGNSSCorrections_Udre_def fieldSpec_DGNSSCorrections_Iod_def)+)

subsection \<open>GNSSDifferentialCorrectionReceiverInterface\<close>

definition fieldSpec_GNSSDifferentialCorrectionReceiverInterface_Channel :: FieldSpec where
  "fieldSpec_GNSSDifferentialCorrectionReceiverInterface_Channel = unsigned_spec 8 0 0xFD 0xFF 2"

definition fieldSpec_GNSSDifferentialCorrectionReceiverInterface_Frequency :: ScaledSpec where
  "fieldSpec_GNSSDifferentialCorrectionReceiverInterface_Frequency =
     scaled_spec 32 8 0xFFFFFFFD 0xFFFFFFFF 0 False 2 10 None None"

record GNSSDifferentialCorrectionReceiverInterface =
  GNSSDifferentialCorrectionReceiverInterface_Info :: MessageInfo
  GNSSDifferentialCorrectionReceiverInterface_Channel :: "u8 option"
  GNSSDifferentialCorrectionReceiverInterface_Frequency :: "rat option"
  GNSSDifferentialCorrectionReceiverInterface_SerialInterfaceBitRate :: u8
  GNSSDifferentialCorrectionReceiverInterface_SerialInterfaceDetectionMode :: u8
  GNSSDifferentialCorrectionReceiverInterface_DifferentialSource :: u8
  GNSSDifferentialCorrectionReceiverInterface_DifferentialOperationMode :: u8

definition DecodeGNSSDifferentialCorrectionReceiverInterface :: "MessageInfo \<Rightarrow> (DataStream, GNSSDifferentialCorrectionReceiverInterface) step" where
  "DecodeGNSSDifferentialCorrectionReceiverInterface info =
     field ''GNSSDifferentialCorrectionReceiverInterface-Channel'' (ReadRaw go_uint8 (Some fieldSpec_GNSSDifferentialCorrectionReceiverInterface_Channel)) (\<lambda>v1.
     field ''GNSSDifferentialCorrectionReceiverInterface-Frequency'' (ReadScaled 24 (Some fieldSpec_GNSSDifferentialCorrectionReceiverInterface_Frequency)) (\<lambda>v2.
     field ''GNSSDifferentialCorrectionReceiverInterface-SerialInterfaceBitRate'' (readLookupField 5) (\<lambda>v3.
     field ''GNSSDifferentialCorrectionReceiverInterface-SerialInterfaceDetectionMode'' (readLookupField 3) (\<lambda>v4.
     field ''GNSSDifferentialCorrectionReceiverInterface-DifferentialSource'' (readLookupField 4) (\<lambda>v5.
     field ''GNSSDifferentialCorrectionReceiverInterface-DifferentialOperationMode'' (readLookupField 4) (\<lambda>v6.
     skip 8 (
     returnE \<lparr>GNSSDifferentialCorrectionReceiverInterface_Info = info,
       GNSSDifferentialCorrectionReceiverInterface_Channel = map_option of_int v1,
       GNSSDifferentialCorrectionReceiverInterface_Frequency = v2,
       GNSSDifferentialCorrectionReceiverInterface_SerialInterfaceBitRate = ucast v3,
       GNSSDifferentialCorrectionReceiverInterface_SerialInterfaceDetectionMode = ucast v4,
       GNSSDifferentialCorrectionReceiverInterface_DifferentialSource = ucast v5,
       GNSSDifferentialCorrectionReceiverInterface_DifferentialOperationMode = ucast v6\<rparr>)))))))"

definition EncodeGNSSDifferentialCorrectionReceiverInterface :: "(rat \<Rightarrow> u64) \<Rightarrow> gotime \<Rightarrow> GNSSDifferentialCorrectionReceiverInterface \<Rightarrow> (DataStream, MessageInfo) step" where
  "EncodeGNSSDifferentialCorrectionReceiverInterface hw now p =
     seqE (WriteRaw (map_option uint (GNSSDifferentialCorrectionReceiverInterface_Channel p)) (Some fieldSpec_GNSSDifferentialCorrectionReceiverInterface_Channel)) (\<lambda>_.
     seqE (WriteScaled hw (GNSSDifferentialCorrectionReceiverInterface_Frequency p) (Some fieldSpec_GNSSDifferentialCorrectionReceiverInterface_Frequency)) (\<lambda>_.
     seqE (putNumberRaw (ucast (GNSSDifferentialCorrectionReceiverInterface_SerialInterfaceBitRate p)) 5 40) (\<lambda>_.
     seqE (putNumberRaw (ucast (GNSSDifferentialCorrectionReceiverInterface_SerialInterfaceDetectionMode p)) 3 45) (\<lambda>_.
     seqE (putNumberRaw (ucast (GNSSDifferentialCorrectionReceiverInterface_DifferentialSource p)) 4 48) (\<lambda>_.
     seqE (putNumberRaw (ucast (GNSSDifferentialCorrectionReceiverInterface_DifferentialOperationMode p)) 4 52) (\<lambda>_.
     seqE (writeReserved 8 56) (\<lambda>_.
     returnE (finish_info now 129550 (GNSSDifferentialCorrectionReceiverInterface_Info p)))))))))"

definition GNSSDifferentialCorrectionReceiverInterface_received :: "(rat \<Rightarrow> u64) \<Rightarrow> MessageInfo \<Rightarrow> GNSSDifferentialCorrectionReceiverInterface \<Rightarrow> GNSSDifferentialCorrectionReceiverInterface" where
  "GNSSDifferentialCorrectionReceiverInterface_received hw info p = \<lparr>GNSSDifferentialCorrectionReceiverInterface_Info = info,
     GNSSDifferentialCorrectionReceiverInterface_Channel = pin fieldSpec_GNSSDifferentialCorrectionReceiverInterface_Channel (GNSSDifferentialCorrectionReceiverInterface_Channel p),
     GNSSDifferentialCorrectionReceiverInterface_Frequency = map_option (scaled_back hw 24 fieldSpec_GNSSDifferentialCorrectionReceiverInterface_Frequency) (GNSSDifferentialCorrectionReceiverInterface_Frequency p),
     GNSSDifferentialCorrectionReceiverInterface_SerialInterfaceBitRate = take_bit 5 (GNSSDifferentialCorrectionReceiverInterface_SerialInterfaceBitRate p),
     GNSSDifferentialCorrectionReceiverInterface_SerialInterfaceDetectionMode = take_bit 3 (GNSSDifferentialCorrectionReceiverInterface_SerialInterfaceDetectionMode p),
     GNSSDifferentialCorrectionReceiverInterface_DifferentialSource = take_bit 4 (GNSSDifferentialCorrectionReceiverInterface_DifferentialSource p),
     GNSSDifferentialCorrectionReceiverInterface_DifferentialOperationMode = take_bit 4 (GNSSDifferentialCorrectionReceiverInterface_DifferentialOperationMode p)\<rparr>"

lemma GNSSDifferentialCorrectionReceiverInterface_codec: "codec (EncodeGNSSDifferentialCorrectionReceiverInterface hw) DecodeGNSSDifferentialCorrectionReceiverInterface GNSSDifferentialCorrectionReceiverInterface_Info 129550 8
    (\<lambda>_. True) (GNSSDifferentialCorrectionReceiverInterface_received hw)"
  unfolding EncodeGNSSDifferentialCorrectionReceiverInterface_def DecodeGNSSDifferentialCorrectionReceiverInterface_def GNSSDifferentialCorrectionReceiverInterface_received_def
  by (rule codec.intro, rule carries_cong, (rule codec_steps carries_end
      | simp add: codec_facts pin_read lookup_read lookup_read_1 unit_read fieldSpec_GNSSDifferentialCorrectionReceiverInterface_Channel_def fieldSpec_GNSSDifferentialCorrectionReceiverInterface_Frequency_def)+)

subsection \<open>GNSSDifferentialCorrectionReceiverSignal\<close>

definition fieldSpec_GNSSDifferentialCorrectionReceiverSignal_SID :: FieldSpec where
  "fieldSpec_GNSSDifferentialCorrectionReceiverSignal_SID = unsigned_spec 8 0 0xFD 0xFF 2"

definition fieldSpec_GNSSDifferentialCorrectionReceiverSignal_Channel :: FieldSpec where
  "fieldSpec_GNSSDifferentialCorrectionReceiverSignal_Channel = unsigned_spec 8 8 0xFD 0xFF 2"

definition fieldSpec_GNSSDifferentialCorrectionReceiverSignal_SignalStrength :: ScaledSpec where
  "fieldSpec_GNSSDifferentialCorrectionReceiverSignal_SignalStrength =
     scaled_spec 32 16 0x7FFFFFFD 0x7FFFFFFF 0 True 2 (fl64 0.009999999776482582) None None"

definition fieldSpec_GNSSDifferentialCorrectionReceiverSignal_SignalSnr :: ScaledSpec where
  "fieldSpec_GNSSDifferentialCorrectionReceiverSignal_SignalSnr =
     scaled_spec 16 48 0x7FFD 0x7FFF 0 True 2 (fl64 0.009999999776482582) None None"

definition fieldSpec_GNSSDifferentialCorrectionReceiverSignal_Frequency :: ScaledSpec where
  "fieldSpec_GNSSDifferentialCorrectionReceiverSignal_Frequency =
     scaled_spec 32 64 0xFFFFFFFD 0xFFFFFFFF 0 False 2 10 None None"

definition fieldSpec_GNSSDifferentialCorrectionReceiverSignal_ReferenceStationID :: FieldSpec where
  "fieldSpec_GNSSDifferentialCorrectionReceiverSignal_ReferenceStationID = unsigned_spec 12 100 0xFFD 0xFFF 2"

definition fieldSpec_GNSSDifferentialCorrectionReceiverSignal_TimeSinceLastSatDifferentialSync :: ScaledSpec where
  "fieldSpec_GNSSDifferentialCorrectionReceiverSignal_TimeSinceLastSatDifferentialSync =
     scaled_spec 16 128 0xFFFD 0xFFFF 0 False 2 (fl64 0.009999999776482582) None None"

definition fieldSpec_GNSSDifferentialCorrectionReceiverSignal_SatelliteServiceIDNo :: FieldSpec where
  "fieldSpec_GNSSDifferentialCorrectionReceiverSignal_SatelliteServiceIDNo = unsigned_spec 16 144 0xFFFD 0xFFFF 2"

record GNSSDifferentialCorrectionReceiverSignal =
  GNSSDifferentialCorrectionReceiverSignal_Info :: MessageInfo
  GNSSDifferentialCorrectionReceiverSignal_SID :: "u8 option"
  GNSSDifferentialCorrectionReceiverSignal_Channel :: "u8 option"
  GNSSDifferentialCorrectionReceiverSignal_SignalStrength :: "rat option"
  GNSSDifferentialCorrectionReceiverSignal_SignalSnr :: "rat option"
  GNSSDifferentialCorrectionReceiverSignal_Frequency :: "rat option"
  GNSSDifferentialCorrectionReceiverSignal_StationType :: u8
  GNSSDifferentialCorrectionReceiverSignal_ReferenceStationID :: "u16 option"
  GNSSDifferentialCorrectionReceiverSignal_DifferentialSignalBitRate :: u8
  GNSSDifferentialCorrectionReceiverSignal_DifferentialSignalDetectionMode :: u8
  GNSSDifferentialCorrectionReceiverSignal_UsedAsCorrectionSource :: u8
  GNSSDifferentialCorrectionReceiverSignal_DifferentialSource :: u8
  GNSSDifferentialCorrectionReceiverSignal_TimeSinceLastSatDifferentialSync :: "rat option"
  GNSSDifferentialCorrectionReceiverSignal_SatelliteServiceIDNo :: "u16 option"

definition DecodeGNSSDifferentialCorrectionReceiverSignal :: "MessageInfo \<Rightarrow> (DataStream, GNSSDifferentialCorrectionReceiverSignal) step" where
  "DecodeGNSSDifferentialCorrectionReceiverSignal info =
     field ''GNSSDifferentialCorrectionReceiverSignal-SID'' (ReadRaw go_uint8 (Some fieldSpec_GNSSDifferentialCorrectionReceiverSignal_SID)) (\<lambda>v1.
     field ''GNSSDifferentialCorrectionReceiverSignal-Channel'' (ReadRaw go_uint8 (Some fieldSpec_GNSSDifferentialCorrectionReceiverSignal_Channel)) (\<lambda>v2.
     field ''GNSSDifferentialCorrectionReceiverSignal-SignalStrength'' (ReadScaled 24 (Some fieldSpec_GNSSDifferentialCorrectionReceiverSignal_SignalStrength)) (\<lambda>v3.
     field ''GNSSDifferentialCorrectionReceiverSignal-SignalSnr'' (ReadScaled 24 (Some fieldSpec_GNSSDifferentialCorrectionReceiverSignal_SignalSnr)) (\<lambda>v4.
     field ''GNSSDifferentialCorrectionReceiverSignal-Frequency'' (ReadScaled 24 (Some fieldSpec_GNSSDifferentialCorrectionReceiverSignal_Frequency)) (\<lambda>v5.
     field ''GNSSDifferentialCorrectionReceiverSignal-StationType'' (readLookupField 4) (\<lambda>v6.
     field ''GNSSDifferentialCorrectionReceiverSignal-ReferenceStationID'' (ReadRaw go_uint16 (Some fieldSpec_GNSSDifferentialCorrectionReceiverSignal_ReferenceStationID)) (\<lambda>v7.
     field ''GNSSDifferentialCorrectionReceiverSignal-DifferentialSignalBitRate'' (readLookupField 5) (\<lambda>v8.
     field ''GNSSDifferentialCorrectionReceiverSignal-DifferentialSignalDetectionMode'' (readLookupField 3) (\<lambda>v9.
     field ''GNSSDifferentialCorrectionReceiverSignal-UsedAsCorrectionSource'' (readLookupField 2) (\<lambda>v10.
     skip 2 (
     field ''GNSSDifferentialCorrectionReceiverSignal-DifferentialSource'' (readLookupField 4) (\<lambda>v12.
     field ''GNSSDifferentialCorrectionReceiverSignal-TimeSinceLastSatDifferentialSync'' (ReadScaled 24 (Some fieldSpec_GNSSDifferentialCorrectionReceiverSignal_TimeSinceLastSatDifferentialSync)) (\<lambda>v13.
     field ''GNSSDifferentialCorrectionReceiverSignal-SatelliteServiceIDNo'' (ReadRaw go_uint16 (Some fieldSpec_GNSSDifferentialCorrectionReceiverSignal_SatelliteServiceIDNo)) (\<lambda>v14.
     returnE \<lparr>GNSSDifferentialCorrectionReceiverSignal_Info = info,
       GNSSDifferentialCorrectionReceiverSignal_SID = map_option of_int v1,
       GNSSDifferentialCorrectionReceiverSignal_Channel = map_option of_int v2,
       GNSSDifferentialCorrectionReceiverSignal_SignalStrength = v3,
       GNSSDifferentialCorrectionReceiverSignal_SignalSnr = v4,
       GNSSDifferentialCorrectionReceiverSignal_Frequency = v5,
       GNSSDifferentialCorrectionReceiverSignal_StationType = ucast v6,
       GNSSDifferentialCorrectionReceiverSignal_ReferenceStationID = map_option of_int v7,
       GNSSDifferentialCorrectionReceiverSignal_DifferentialSignalBitRate = ucast v8,
       GNSSDifferentialCorrectionReceiverSignal_DifferentialSignalDetectionMode = ucast v9,
       GNSSDifferentialCorrectionReceiverSignal_UsedAsCorrectionSource = ucast v10,
       GNSSDifferentialCorrectionReceiverSignal_DifferentialSource = ucast v12,
       GNSSDifferentialCorrectionReceiverSignal_TimeSinceLastSatDifferentialSync = v13,
       GNSSDifferentialCorrectionReceiverSignal_SatelliteServiceIDNo = map_option of_int v14\<rparr>))))))))))))))"

definition EncodeGNSSDifferentialCorrectionReceiverSignal :: "(rat \<Rightarrow> u64) \<Rightarrow> gotime \<Rightarrow> GNSSDifferentialCorrectionReceiverSignal \<Rightarrow> (DataStream, MessageInfo) step" where
  "EncodeGNSSDifferentialCorrectionReceiverSignal hw now p =
     seqE (WriteRaw (map_option uint (GNSSDifferentialCorrectionReceiverSignal_SID p)) (Some fieldSpec_GNSSDifferentialCorrectionReceiverSignal_SID)) (\<lambda>_.
     seqE (WriteRaw (map_option uint (GNSSDifferentialCorrectionReceiverSignal_Channel p)) (Some fieldSpec_GNSSDifferentialCorrectionReceiverSignal_Channel)) (\<lambda>_.
     seqE (WriteScaled hw (GNSSDifferentialCorrectionReceiverSignal_SignalStrength p) (Some fieldSpec_GNSSDifferentialCorrectionReceiverSignal_SignalStrength)) (\<lambda>_.
     seqE (WriteScaled hw (GNSSDifferentialCorrectionReceiverSignal_SignalSnr p) (Some fieldSpec_GNSSDifferentialCorrectionReceiverSignal_SignalSnr)) (\<lambda>_.
     seqE (WriteScaled hw (GNSSDifferentialCorrectionReceiverSignal_Frequency p) (Some fieldSpec_GNSSDifferentialCorrectionReceiverSignal_Frequency)) (\<lambda>_.
     seqE (putNumberRaw (ucast (GNSSDifferentialCorrectionReceiverSignal_StationType p)) 4 96) (\<lambda>_.
     seqE (WriteRaw (map_option uint (GNSSDifferentialCorrectionReceiverSignal_ReferenceStationID p)) (Some fieldSpec_GNSSDifferentialCorrectionReceiverSignal_ReferenceStationID)) (\<lambda>_.
     seqE (putNumberRaw (ucast (GNSSDifferentialCorrectionReceiverSignal_DifferentialSignalBitRate p)) 5 112) (\<lambda>_.
     seqE (putNumberRaw (ucast (GNSSDifferentialCorrectionReceiverSignal_DifferentialSignalDetectionMode p)) 3 117) (\<lambda>_.
     seqE (putNumberRaw (ucast (GNSSDifferentialCorrectionReceiverSignal_UsedAsCorrectionSource p)) 2 120) (\<lambda>_.
     seqE (writeReserved 2 122) (\<lambda>_.
     seqE (putNumberRaw (ucast (GNSSDifferentialCorrectionReceiverSignal_DifferentialSource p)) 4 124) (\<lambda>_.
     seqE (WriteScaled hw (GNSSDifferentialCorrectionReceiverSignal_TimeSinceLastSatDifferentialSync p) (Some fieldSpec_GNSSDifferentialCorrectionReceiverSignal_TimeSinceLastSatDifferentialSync)) (\<lambda>_.
     seqE (WriteRaw (map_option uint (GNSSDifferentialCorrectionReceiverSignal_SatelliteServiceIDNo p)) (Some fieldSpec_GNSSDifferentialCorrectionReceiverSignal_SatelliteServiceIDNo)) (\<lambda>_.
     returnE (finish_info now 129551 (GNSSDifferentialCorrectionReceiverSignal_Info p))))))))))))))))"

definition GNSSDifferentialCorrectionReceiverSignal_received :: "(rat \<Rightarrow> u64) \<Rightarrow> MessageInfo \<Rightarrow> GNSSDifferentialCorrectionReceiverSignal \<Rightarrow> GNSSDifferentialCorrectionReceiverSignal" where
  "GNSSDifferentialCorrectionReceiverSignal_received hw info p = \<lparr>GNSSDifferentialCorrectionReceiverSignal_Info = info,
     GNSSDifferentialCorrectionReceiverSignal_SID = pin fieldSpec_GNSSDifferentialCorrectionReceiverSignal_SID (GNSSDifferentialCorrectionReceiverSignal_SID p),
     GNSSDifferentialCorrectionReceiverSignal_Channel = pin fieldSpec_GNSSDifferentialCorrectionReceiverSignal_Channel (GNSSDifferentialCorrectionReceiverSignal_Channel p),
     GNSSDifferentialCorrectionReceiverSignal_SignalStrength = map_option (scaled_back hw 24 fieldSpec_GNSSDifferentialCorrectionReceiverSignal_SignalStrength) (GNSSDifferentialCorrectionReceiverSignal_SignalStrength p),
     GNSSDifferentialCorrectionReceiverSignal_SignalSnr = map_option (scaled_back hw 24 fieldSpec_GNSSDifferentialCorrectionReceiverSignal_SignalSnr) (GNSSDifferentialCorrectionReceiverSignal_SignalSnr p),
     GNSSDifferentialCorrectionReceiverSignal_Frequency = map_option (scaled_back hw 24 fieldSpec_GNSSDifferentialCorrectionReceiverSignal_Frequency) (GNSSDifferentialCorrectionReceiverSignal_Frequency p),
     GNSSDifferentialCorrectionReceiverSignal_StationType = take_bit 4 (GNSSDifferentialCorrectionReceiverSignal_StationType p),
     GNSSDifferentialCorrectionReceiverSignal_ReferenceStationID = pin fieldSpec_GNSSDifferentialCorrectionReceiverSignal_ReferenceStationID (GNSSDifferentialCorrectionReceiverSignal_ReferenceStationID p),
     GNSSDifferentialCorrectionReceiverSignal_DifferentialSignalBitRate = take_bit 5 (GNSSDifferentialCorrectionReceiverSignal_DifferentialSignalBitRate p),
     GNSSDifferentialCorrectionReceiverSignal_DifferentialSignalDetectionMode = take_bit 3 (GNSSDifferentialCorrectionReceiverSignal_DifferentialSignalDetectionMode p),
     GNSSDifferentialCorrectionReceiverSignal_UsedAsCorrectionSource = take_bit 2 (GNSSDifferentialCorrectionReceiverSignal_UsedAsCorrectionSource p),
     GNSSDifferentialCorrectionReceiverSignal_DifferentialSource = take_bit 4 (GNSSDifferentialCorrectionReceiverSignal_DifferentialSource p),
     GNSSDifferentialCorrectionReceiverSignal_TimeSinceLastSatDifferentialSync = map_option (scaled_back hw 24 fieldSpec_GNSSDifferentialCorrectionReceiverSignal_TimeSinceLastSatDifferentialSync) (GNSSDifferentialCorrectionReceiverSignal_TimeSinceLastSatDifferentialSync p),
     GNSSDifferentialCorrectionReceiverSignal_SatelliteServiceIDNo = pin fieldSpec_GNSSDifferentialCorrectionReceiverSignal_SatelliteServiceIDNo (GNSSDifferentialCorrectionReceiverSignal_SatelliteServiceIDNo p)\<rparr>"

lemma GNSSDifferentialCorrectionReceiverSignal_codec: "codec (EncodeGNSSDifferentialCorrectionReceiverSignal hw) DecodeGNSSDifferentialCorrectionReceiverSignal GNSSDifferentialCorrectionReceiverSignal_Info 129551 20
    (\<lambda>_. True) (GNSSDifferentialCorrectionReceiverSignal_received hw)"
  unfolding EncodeGNSSDifferentialCorrectionReceiverSignal_def DecodeGNSSDifferentialCorrectionReceiverSignal_def GNSSDifferentialCorrectionReceiverSignal_received_def
  by (rule codec.intro, rule carries_cong, (rule codec_steps carries_end
      | simp add: codec_facts pin_read lookup_read lookup_read_1 unit_read fieldSpec_GNSSDifferentialCorrectionReceiverSignal_SID_def fieldSpec_GNSSDifferentialCorrectionReceiverSignal_Channel_def fieldSpec_GNSSDifferentialCorrectionReceiverSignal_SignalStrength_def fieldSpec_GNSSDifferentialCorrectionReceiverSignal_SignalSnr_def fieldSpec_GNSSDifferentialCorrectionReceiverSignal_Frequency_def fieldSpec_GNSSDifferentialCorrectionReceiverSignal_ReferenceStationID_def fieldSpec_GNSSDifferentialCorrectionReceiverSignal_TimeSinceLastSatDifferentialSync_def fieldSpec_GNSSDifferentialCorrectionReceiverSignal_SatelliteServiceIDNo_def)+)

subsection \<open>GLONASSAlmanacData\<close>

definition fieldSpec_GLONASSAlmanacData_Prn :: FieldSpec where
  "fieldSpec_GLONASSAlmanacData_Prn = unsigned_spec 8 0 0xFD 0xFF 2"

definition fieldSpec_GLONASSAlmanacData_Na :: FieldSpec where
  "fieldSpec_GLONASSAlmanacData_Na = unsigned_spec 16 8 0xFFFD 0xFFFF 2"

definition fieldSpec_GLONASSAlmanacData_Cna :: FieldSpec where
  "fieldSpec_GLONASSAlmanacData_Cna = unsigned_spec 1 26 0x0 0x1 1"

definition fieldSpec_GLONASSAlmanacData_Hna :: FieldSpec where
  "fieldSpec_GLONASSAlmanacData_Hna = unsigned_spec 5 27 0x1D 0x1F 2"

definition fieldSpec_GLONASSAlmanacData_EpsilonNa :: FieldSpec where
  "fieldSpec_GLONASSAlmanacData_EpsilonNa = unsigned_spec 16 32 0xFFFD 0xFFFF 2"

definition fieldSpec_GLONASSAlmanacData_DeltatnaDot :: FieldSpec where
  "fieldSpec_GLONASSAlmanacData_DeltatnaDot = unsigned_spec 8 48 0xFD 0xFF 2"

definition fieldSpec_GLONASSAlmanacData_OmegaNa :: FieldSpec where
  "fieldSpec_GLONASSAlmanacData_OmegaNa = unsigned_spec 16 56 0xFFFD 0xFFFF 2"

definition fieldSpec_GLONASSAlmanacData_DeltaTna :: FieldSpec where
  "fieldSpec_GLONASSAlmanacData_DeltaTna = unsigned_spec 24 72 0xFFFFFD 0xFFFFFF 2"

definition fieldSpec_GLONASSAlmanacData_Tna :: FieldSpec where
  "fieldSpec_GLONASSAlmanacData_Tna = unsigned_spec 24 96 0xFFFFFD 0xFFFFFF 2"

definition fieldSpec_GLONASSAlmanacData_LambdaNa :: FieldSpec where
  "fieldSpec_GLONASSAlmanacData_LambdaNa = unsigned_spec 24 120 0xFFFFFD 0xFFFFFF 2"

definition fieldSpec_GLONASSAlmanacData_DeltaIna :: FieldSpec where
  "fieldSpec_GLONASSAlmanacData_DeltaIna = unsigned_spec 24 144 0xFFFFFD 0xFFFFFF 2"

definition fieldSpec_GLONASSAlmanacData_TauCa :: FieldSpec where
  "fieldSpec_GLONASSAlmanacData_TauCa = unsigned_spec 28 168 0xFFFFFFD 0xFFFFFFF 2"

definition fieldSpec_GLONASSAlmanacData_TauNa :: FieldSpec where
  "fieldSpec_GLONASSAlmanacData_TauNa = unsigned_spec 12 196 0xFFD 0xFFF 2"

record GLONASSAlmanacData =
  GLONASSAlmanacData_Info :: MessageInfo
  GLONASSAlmanacData_Prn :: "u8 option"
  GLONASSAlmanacData_Na :: "u16 option"
  GLONASSAlmanacData_Cna :: "u8 option"
  GLONASSAlmanacData_Hna :: "u8 option"
  GLONASSAlmanacData_EpsilonNa :: "u16 option"
  GLONASSAlmanacData_DeltatnaDot :: "u8 option"
  GLONASSAlmanacData_OmegaNa :: "u16 option"
  GLONASSAlmanacData_DeltaTna :: "u32 option"
  GLONASSAlmanacData_Tna :: "u32 option"
  GLONASSAlmanacData_LambdaNa :: "u32 option"
  GLONASSAlmanacData_DeltaIna :: "u32 option"
  GLONASSAlmanacData_TauCa :: "u32 option"
  GLONASSAlmanacData_TauNa :: "u16 option"

definition DecodeGLONASSAlmanacData :: "MessageInfo \<Rightarrow> (DataStream, GLONASSAlmanacData) step" where
  "DecodeGLONASSAlmanacData info =
     field ''GLONASSAlmanacData-Prn'' (ReadRaw go_uint8 (Some fieldSpec_GLONASSAlmanacData_Prn)) (\<lambda>v1.
     field ''GLONASSAlmanacData-Na'' (ReadRaw go_uint16 (Some fieldSpec_GLONASSAlmanacData_Na)) (\<lambda>v2.
     skip 2 (
     field ''GLONASSAlmanacData-Cna'' (ReadRaw go_uint8 (Some fieldSpec_GLONASSAlmanacData_Cna)) (\<lambda>v4.
     field ''GLONASSAlmanacData-Hna'' (ReadRaw go_uint8 (Some fieldSpec_GLONASSAlmanacData_Hna)) (\<lambda>v5.
     field ''GLONASSAlmanacData-EpsilonNa'' (ReadRaw go_uint16 (Some fieldSpec_GLONASSAlmanacData_EpsilonNa)) (\<lambda>v6.
     field ''GLONASSAlmanacData-DeltatnaDot'' (ReadRaw go_uint8 (Some fieldSpec_GLONASSAlmanacData_DeltatnaDot)) (\<lambda>v7.
     field ''GLONASSAlmanacData-OmegaNa'' (ReadRaw go_uint16 (Some fieldSpec_GLONASSAlmanacData_OmegaNa)) (\<lambda>v8.
     field ''GLONASSAlmanacData-DeltaTna'' (ReadRaw go_uint32 (Some fieldSpec_GLONASSAlmanacData_DeltaTna)) (\<lambda>v9.
     field ''GLONASSAlmanacData-Tna'' (ReadRaw go_uint32 (Some fieldSpec_GLONASSAlmanacData_Tna)) (\<lambda>v10.
     field ''GLONASSAlmanacData-LambdaNa'' (ReadRaw go_uint32 (Some fieldSpec_GLONASSAlmanacData_LambdaNa)) (\<lambda>v11.
     field ''GLONASSAlmanacData-DeltaIna'' (ReadRaw go_uint32 (Some fieldSpec_GLONASSAlmanacData_DeltaIna)) (\<lambda>v12.
     field ''GLONASSAlmanacData-TauCa'' (ReadRaw go_uint32 (Some fieldSpec_GLONASSAlmanacData_TauCa)) (\<lambda>v13.
     field ''GLONASSAlmanacData-TauNa'' (ReadRaw go_uint16 (Some fieldSpec_GLONASSAlmanacData_TauNa)) (\<lambda>v14.
     returnE \<lparr>GLONASSAlmanacData_Info = info,
       GLONASSAlmanacData_Prn = map_option of_int v1,
       GLONASSAlmanacData_Na = map_option of_int v2,
       GLONASSAlmanacData_Cna = map_option of_int v4,
       GLONASSAlmanacData_Hna = map_option of_int v5,
       GLONASSAlmanacData_EpsilonNa = map_option of_int v6,
       GLONASSAlmanacData_DeltatnaDot = map_option of_int v7,
       GLONASSAlmanacData_OmegaNa = map_option of_int v8,
       GLONASSAlmanacData_DeltaTna = map_option of_int v9,
       GLONASSAlmanacData_Tna = map_option of_int v10,
       GLONASSAlmanacData_LambdaNa = map_option of_int v11,
       GLONASSAlmanacData_DeltaIna = map_option of_int v12,
       GLONASSAlmanacData_TauCa = map_option of_int v13,
       GLONASSAlmanacData_TauNa = map_option of_int v14\<rparr>))))))))))))))"

definition EncodeGLONASSAlmanacData :: "gotime \<Rightarrow> GLONASSAlmanacData \<Rightarrow> (DataStream, MessageInfo) step" where
  "EncodeGLONASSAlmanacData now p =
     seqE (WriteRaw (map_option uint (GLONASSAlmanacData_Prn p)) (Some fieldSpec_GLONASSAlmanacData_Prn)) (\<lambda>_.
     seqE (WriteRaw (map_option uint (GLONASSAlmanacData_Na p)) (Some fieldSpec_GLONASSAlmanacData_Na)) (\<lambda>_.
     seqE (writeReserved 2 24) (\<lambda>_.
     seqE (WriteRaw (map_option uint (GLONASSAlmanacData_Cna p)) (Some fieldSpec_GLONASSAlmanacData_Cna)) (\<lambda>_.
     seqE (WriteRaw (map_option uint (GLONASSAlmanacData_Hna p)) (Some fieldSpec_GLONASSAlmanacData_Hna)) (\<lambda>_.
     seqE (WriteRaw (map_option uint (GLONASSAlmanacData_EpsilonNa p)) (Some fieldSpec_GLONASSAlmanacData_EpsilonNa)) (\<lambda>_.
     seqE (WriteRaw (map_option uint (GLONASSAlmanacData_DeltatnaDot p)) (Some fieldSpec_GLONASSAlmanacData_DeltatnaDot)) (\<lambda>_.
     seqE (WriteRaw (map_option uint (GLONASSAlmanacData_OmegaNa p)) (Some fieldSpec_GLONASSAlmanacData_OmegaNa)) (\<lambda>_.
     seqE (WriteRaw (map_option uint (GLONASSAlmanacData_DeltaTna p)) (Some fieldSpec_GLONASSAlmanacData_DeltaTna)) (\<lambda>_.
     seqE (WriteRaw (map_option uint (GLONASSAlmanacData_Tna p)) (Some fieldSpec_GLONASSAlmanacData_Tna)) (\<lambda>_.
     seqE (WriteRaw (map_option uint (GLONASSAlmanacData_LambdaNa p)) (Some fieldSpec_GLONASSAlmanacData_LambdaNa)) (\<lambda>_.
     seqE (WriteRaw (map_option uint (GLONASSAlmanacData_DeltaIna p)) (Some fieldSpec_GLONASSAlmanacData_DeltaIna)) (\<lambda>_.
     seqE (WriteRaw (map_option uint (GLONASSAlmanacData_TauCa p)) (Some fieldSpec_GLONASSAlmanacData_TauCa)) (\<lambda>_.
     seqE (WriteRaw (map_option uint (GLONASSAlmanacData_TauNa p)) (Some fieldSpec_GLONASSAlmanacData_TauNa)) (\<lambda>_.
     returnE (finish_info now 129556 (GLONASSAlmanacData_Info p))))))))))))))))"

definition GLONASSAlmanacData_received :: "MessageInfo \<Rightarrow> GLONASSAlmanacData \<Rightarrow> GLONASSAlmanacData" where
  "GLONASSAlmanacData_received info p = \<lparr>GLONASSAlmanacData_Info = info,
     GLONASSAlmanacData_Prn = pin fieldSpec_GLONASSAlmanacData_Prn (GLONASSAlmanacData_Prn p),
     GLONASSAlmanacData_Na = pin fieldSpec_GLONASSAlmanacData_Na (GLONASSAlmanacData_Na p),
     GLONASSAlmanacData_Cna = pin fieldSpec_GLONASSAlmanacData_Cna (GLONASSAlmanacData_Cna p),
     GLONASSAlmanacData_Hna = pin fieldSpec_GLONASSAlmanacData_Hna (GLONASSAlmanacData_Hna p),
     GLONASSAlmanacData_EpsilonNa = pin fieldSpec_GLONASSAlmanacData_EpsilonNa (GLONASSAlmanacData_EpsilonNa p),
     GLONASSAlmanacData_DeltatnaDot = pin fieldSpec_GLONASSAlmanacData_DeltatnaDot (GLONASSAlmanacData_DeltatnaDot p),
     GLONASSAlmanacData_OmegaNa = pin fieldSpec_GLONASSAlmanacData_OmegaNa (GLONASSAlmanacData_OmegaNa p),
     GLONASSAlmanacData_DeltaTna = pin fieldSpec_GLONASSAlmanacData_DeltaTna (GLONASSAlmanacData_DeltaTna p),
     GLONASSAlmanacData_Tna = pin fieldSpec_GLONASSAlmanacData_Tna (GLONASSAlmanacData_Tna p),
     GLONASSAlmanacData_LambdaNa = pin fieldSpec_GLONASSAlmanacData_LambdaNa (GLONASSAlmanacData_LambdaNa p),
     GLONASSAlmanacData_DeltaIna = pin fieldSpec_GLONASSAlmanacData_DeltaIna (GLONASSAlmanacData_DeltaIna p),
     GLONASSAlmanacData_TauCa = pin fieldSpec_GLONASSAlmanacData_TauCa (GLONASSAlmanacData_TauCa p),
     GLONASSAlmanacData_TauNa = pin fieldSpec_GLONASSAlmanacData_TauNa (GLONASSAlmanacData_TauNa p)\<rparr>"

lemma GLONASSAlmanacData_codec: "codec EncodeGLONASSAlmanacData DecodeGLONASSAlmanacData GLONASSAlmanacData_Info 129556 26
    (\<lambda>_. True) GLONASSAlmanacData_received"
  unfolding EncodeGLONASSAlmanacData_def DecodeGLONASSAlmanacData_def GLONASSAlmanacData_received_def
  by (rule codec.intro, rule carries_cong, (rule codec_steps carries_end
      | simp add: codec_facts pin_read lookup_read lookup_read_1 unit_read fieldSpec_GLONASSAlmanacData_Prn_def fieldSpec_GLONASSAlmanacData_Na_def fieldSpec_GLONASSAlmanacData_Cna_def fieldSpec_GLONASSAlmanacData_Hna_def fieldSpec_GLONASSAlmanacData_EpsilonNa_def fieldSpec_GLONASSAlmanacData_DeltatnaDot_def fieldSpec_GLONASSAlmanacData_OmegaNa_def fieldSpec_GLONASSAlmanacData_DeltaTna_def fieldSpec_GLONASSAlmanacData_Tna_def fieldSpec_GLONASSAlmanacData_LambdaNa_def fieldSpec_GLONASSAlmanacData_DeltaIna_def fieldSpec_GLONASSAlmanacData_TauCa_def fieldSpec_GLONASSAlmanacData_TauNa_def)+)

subsection \<open>AISClassAStaticAndVoyageRelatedData\<close>

definition fieldSpec_AISClassAStaticAndVoyageRelatedData_UserID :: FieldSpec where
  "fieldSpec_AISClassAStaticAndVoyageRelatedData_UserID = unsigned_spec 32 8 0x0 0x0 0"

definition fieldSpec_AISClassAStaticAndVoyageRelatedData_ImoNumber :: FieldSpec where
  "fieldSpec_AISClassAStaticAndVoyageRelatedData_ImoNumber = unsigned_spec 32 40 0xFFFFFFFD 0xFFFFFFFF 2"

definition fieldSpec_AISClassAStaticAndVoyageRelatedData_Length :: ScaledSpec where
  "fieldSpec_AISClassAStaticAndVoyageRelatedData_Length =
     scaled_spec 16 296 0xFFFD 0xFFFF 0 False 2 (fl64 0.10000000149011612) None None"

definition fieldSpec_AISClassAStaticAndVoyageRelatedData_Beam :: ScaledSpec where
  "fieldSpec_AISClassAStaticAndVoyageRelatedData_Beam =
     scaled_spec 16 312 0xFFFD 0xFFFF 0 False 2 (fl64 0.10000000149011612) None None"

definition fieldSpec_AISClassAStaticAndVoyageRelatedData_PositionReferenceFromStarboard :: ScaledSpec where
  "fieldSpec_AISClassAStaticAndVoyageRelatedData_PositionReferenceFromStarboard =
     scaled_spec 16 328 0xFFFD 0xFFFF 0 False 2 (fl64 0.10000000149011612) None None"

definition fieldSpec_AISClassAStaticAndVoyageRelatedData_PositionReferenceFromBow :: ScaledSpec where
  "fieldSpec_AISClassAStaticAndVoyageRelatedData_PositionReferenceFromBow =
     scaled_spec 16 344 0xFFFD 0xFFFF 0 False 2 (fl64 0.10000000149011612) None None"

definition fieldSpec_AISClassAStaticAndVoyageRelatedData_EtaDate :: FieldSpec where
  "fieldSpec_AISClassAStaticAndVoyageRelatedData_EtaDate = unsigned_spec 16 360 0xFFFD 0xFFFF 2"

definition fieldSpec_AISClassAStaticAndVoyageRelatedData_EtaTime :: ScaledSpec where
  "fieldSpec_AISClassAStaticAndVoyageRelatedData_EtaTime =
     scaled_spec 32 376 0xFFFFFFFD 0xFFFFFFFF 0 False 2 (fl64 0.00009999999747378752) (Some 0) (Some 86401)"

definition fieldSpec_AISClassAStaticAndVoyageRelatedData_Draft :: ScaledSpec where
  "fieldSpec_AISClassAStaticAndVoyageRelatedData_Draft =
     scaled_spec 16 408 0xFFFD 0xFFFF 0 False 2 (fl64 0.009999999776482582) None None"

record 'q AISClassAStaticAndVoyageRelatedData =
  AISClassAStaticAndVoyageRelatedData_Info :: MessageInfo
  AISClassAStaticAndVoyageRelatedData_MessageID :: u8
  AISClassAStaticAndVoyageRelatedData_RepeatIndicator :: u8
  AISClassAStaticAndVoyageRelatedData_UserID :: "u32 option"
  AISClassAStaticAndVoyageRelatedData_ImoNumber :: "u32 option"
  AISClassAStaticAndVoyageRelatedData_Callsign :: gostring
  AISClassAStaticAndVoyageRelatedData_Name :: gostring
  AISClassAStaticAndVoyageRelatedData_TypeOfShip :: u8
  AISClassAStaticAndVoyageRelatedData_Length :: "'q option"
  AISClassAStaticAndVoyageRelatedData_Beam :: "'q option"
  AISClassAStaticAndVoyageRelatedData_PositionReferenceFromStarboard :: "'q option"
  AISClassAStaticAndVoyageRelatedData_PositionReferenceFromBow :: "'q option"
  AISClassAStaticAndVoyageRelatedData_EtaDate :: "u16 option"
  AISClassAStaticAndVoyageRelatedData_EtaTime :: "rat option"
  AISClassAStaticAndVoyageRelatedData_Draft :: "'q option"
  AISClassAStaticAndVoyageRelatedData_Destination :: gostring
  AISClassAStaticAndVoyageRelatedData_AISVersionIndicator :: u8
  AISClassAStaticAndVoyageRelatedData_GNSSType :: u8
  AISClassAStaticAndVoyageRelatedData_Dte :: u8
  AISClassAStaticAndVoyageRelatedData_AISTransceiverInformation :: u8

definition DecodeAISClassAStaticAndVoyageRelatedData :: "'q units_lib \<Rightarrow> MessageInfo \<Rightarrow> (DataStream, 'q AISClassAStaticAndVoyageRelatedData) step" where
  "DecodeAISClassAStaticAndVoyageRelatedData lib info =
     field ''AISClassAStaticAndVoyageRelatedData-MessageID'' (readLookupField 6) (\<lambda>v1.
     field ''AISClassAStaticAndVoyageRelatedData-RepeatIndicator'' (readLookupField 2) (\<lambda>v2.
     field ''AISClassAStaticAndVoyageRelatedData-UserID'' (ReadRaw go_uint32 (Some fieldSpec_AISClassAStaticAndVoyageRelatedData_UserID)) (\<lambda>v3.
     field ''AISClassAStaticAndVoyageRelatedData-ImoNumber'' (ReadRaw go_uint32 (Some fieldSpec_AISClassAStaticAndVoyageRelatedData_ImoNumber)) (\<lambda>v4.
     field ''AISClassAStaticAndVoyageRelatedData-Callsign'' (readFixedString 56) (\<lambda>v5.
     field ''AISClassAStaticAndVoyageRelatedData-Name'' (readFixedString 160) (\<lambda>v6.
     field ''AISClassAStaticAndVoyageRelatedData-TypeOfShip'' (readLookupField 8) (\<lambda>v7.
     field ''AISClassAStaticAndVoyageRelatedData-Length'' (ReadScaled 24 (Some fieldSpec_AISClassAStaticAndVoyageRelatedData_Length)) (\<lambda>v8.
     field ''AISClassAStaticAndVoyageRelatedData-Beam'' (ReadScaled 24 (Some fieldSpec_AISClassAStaticAndVoyageRelatedData_Beam)) (\<lambda>v9.
     field ''AISClassAStaticAndVoyageRelatedData-PositionReferenceFromStarboard'' (ReadScaled 24 (Some fieldSpec_AISClassAStaticAndVoyageRelatedData_PositionReferenceFromStarboard)) (\<lambda>v10.
     field ''AISClassAStaticAndVoyageRelatedData-PositionReferenceFromBow'' (ReadScaled 24 (Some fieldSpec_AISClassAStaticAndVoyageRelatedData_PositionReferenceFromBow)) (\<lambda>v11.
     field ''AISClassAStaticAndVoyageRelatedData-EtaDate'' (ReadRaw go_uint16 (Some fieldSpec_AISClassAStaticAndVoyageRelatedData_EtaDate)) (\<lambda>v12.
     field ''AISClassAStaticAndVoyageRelatedData-EtaTime'' (ReadScaled 24 (Some fieldSpec_AISClassAStaticAndVoyageRelatedData_EtaTime)) (\<lambda>v13.
     field ''AISClassAStaticAndVoyageRelatedData-Draft'' (ReadScaled 24 (Some fieldSpec_AISClassAStaticAndVoyageRelatedData_Draft)) (\<lambda>v14.
     field ''AISClassAStaticAndVoyageRelatedData-Destination'' (readFixedString 160) (\<lambda>v15.
     field ''AISClassAStaticAndVoyageRelatedData-AISVersionIndicator'' (readLookupField 2) (\<lambda>v16.
     field ''AISClassAStaticAndVoyageRelatedData-GNSSType'' (readLookupField 4) (\<lambda>v17.
     field ''AISClassAStaticAndVoyageRelatedData-Dte'' (readLookupField 1) (\<lambda>v18.
     skip 1 (
     field ''AISClassAStaticAndVoyageRelatedData-AISTransceiverInformation'' (readLookupField 5) (\<lambda>v20.
     skip 3 (
     returnE \<lparr>AISClassAStaticAndVoyageRelatedData_Info = info,
       AISClassAStaticAndVoyageRelatedData_MessageID = ucast v1,
       AISClassAStaticAndVoyageRelatedData_RepeatIndicator = ucast v2,
       AISClassAStaticAndVoyageRelatedData_UserID = map_option of_int v3,
       AISClassAStaticAndVoyageRelatedData_ImoNumber = map_option of_int v4,
       AISClassAStaticAndVoyageRelatedData_Callsign = v5,
       AISClassAStaticAndVoyageRelatedData_Name = v6,
       AISClassAStaticAndVoyageRelatedData_TypeOfShip = ucast v7,
       AISClassAStaticAndVoyageRelatedData_Length = nullableUnit lib Meter v8,
       AISClassAStaticAndVoyageRelatedData_Beam = nullableUnit lib Meter v9,
       AISClassAStaticAndVoyageRelatedData_PositionReferenceFromStarboard = nullableUnit lib Meter v10,
       AISClassAStaticAndVoyageRelatedData_PositionReferenceFromBow = nullableUnit lib Meter v11,
       AISClassAStaticAndVoyageRelatedData_EtaDate = map_option of_int v12,
       AISClassAStaticAndVoyageRelatedData_EtaTime = v13,
       AISClassAStaticAndVoyageRelatedData_Draft = nullableUnit lib Meter v14,
       AISClassAStaticAndVoyageRelatedData_Destination = v15,
       AISClassAStaticAndVoyageRelatedData_AISVersionIndicator = ucast v16,
       AISClassAStaticAndVoyageRelatedData_GNSSType = ucast v17,
       AISClassAStaticAndVoyageRelatedData_Dte = ucast v18,
       AISClassAStaticAndVoyageRelatedData_AISTransceiverInformation = ucast v20\<rparr>)))))))))))))))))))))"

definition EncodeAISClassAStaticAndVoyageRelatedData :: "'q units_lib \<Rightarrow> (rat \<Rightarrow> u64) \<Rightarrow> gotime \<Rightarrow> 'q AISClassAStaticAndVoyageRelatedData \<Rightarrow> (DataStream, MessageInfo) step" where
  "EncodeAISClassAStaticAndVoyageRelatedData lib hw now p =
     seqE (putNumberRaw (ucast (AISClassAStaticAndVoyageRelatedData_MessageID p)) 6 0) (\<lambda>_.
     seqE (putNumberRaw (ucast (AISClassAStaticAndVoyageRelatedData_RepeatIndicator p)) 2 6) (\<lambda>_.
     seqE (WriteRaw (map_option uint (AISClassAStaticAndVoyageRelatedData_UserID p)) (Some fieldSpec_AISClassAStaticAndVoyageRelatedData_UserID)) (\<lambda>_.
     seqE (WriteRaw (map_option uint (AISClassAStaticAndVoyageRelatedData_ImoNumber p)) (Some fieldSpec_AISClassAStaticAndVoyageRelatedData_ImoNumber)) (\<lambda>_.
     seqE (writeStringFix (AISClassAStaticAndVoyageRelatedData_Callsign p) 56 72) (\<lambda>_.
     seqE (writeStringFix (AISClassAStaticAndVoyageRelatedData_Name p) 160 128) (\<lambda>_.
     seqE (putNumberRaw (ucast (AISClassAStaticAndVoyageRelatedData_TypeOfShip p)) 8 288) (\<lambda>_.
     seqE (writeUnit lib hw Meter (AISClassAStaticAndVoyageRelatedData_Length p) (Some fieldSpec_AISClassAStaticAndVoyageRelatedData_Length)) (\<lambda>_.
     seqE (writeUnit lib hw Meter (AISClassAStaticAndVoyageRelatedData_Beam p) (Some fieldSpec_AISClassAStaticAndVoyageRelatedData_Beam)) (\<lambda>_.
     seqE (writeUnit lib hw Meter (AISClassAStaticAndVoyageRelatedData_PositionReferenceFromStarboard p) (Some fieldSpec_AISClassAStaticAndVoyageRelatedData_PositionReferenceFromStarboard)) (\<lambda>_.
     seqE (writeUnit lib hw Meter (AISClassAStaticAndVoyageRelatedData_PositionReferenceFromBow p) (Some fieldSpec_AISClassAStaticAndVoyageRelatedData_PositionReferenceFromBow)) (\<lambda>_.
     seqE (WriteRaw (map_option uint (AISClassAStaticAndVoyageRelatedData_EtaDate p)) (Some fieldSpec_AISClassAStaticAndVoyageRelatedData_EtaDate)) (\<lambda>_.
     seqE (WriteScaled hw (AISClassAStaticAndVoyageRelatedData_EtaTime p) (Some fieldSpec_AISClassAStaticAndVoyageRelatedData_EtaTime)) (\<lambda>_.
     seqE (writeUnit lib hw Meter (AISClassAStaticAndVoyageRelatedData_Draft p) (Some fieldSpec_AISClassAStaticAndVoyageRelatedData_Draft)) (\<lambda>_.
     seqE (writeStringFix (AISClassAStaticAndVoyageRelatedData_Destination p) 160 424) (\<lambda>_.
     seqE (putNumberRaw (ucast (AISClassAStaticAndVoyageRelatedData_AISVersionIndicator p)) 2 584) (\<lambda>_.
     seqE (putNumberRaw (ucast (AISClassAStaticAndVoyageRelatedData_GNSSType p)) 4 586) (\<lambda>_.
     seqE (putNumberRaw (ucast (AISClassAStaticAndVoyageRelatedData_Dte p)) 1 590) (\<lambda>_.
     seqE (writeReserved 1 591) (\<lambda>_.
     seqE (putNumberRaw (ucast (AISClassAStaticAndVoyageRelatedData_AISTransceiverInformation p)) 5 592) (\<lambda>_.
     seqE (writeReserved 3 597) (\<lambda>_.
     returnE (finish_info now 129794 (AISClassAStaticAndVoyageRelatedData_Info p)))))))))))))))))))))))"

definition AISClassAStaticAndVoyageRelatedData_received :: "'q units_lib \<Rightarrow> (rat \<Rightarrow> u64) \<Rightarrow> MessageInfo \<Rightarrow> 'q AISClassAStaticAndVoyageRelatedData \<Rightarrow> 'q AISClassAStaticAndVoyageRelatedData" where
  "AISClassAStaticAndVoyageRelatedData_received lib hw info p = \<lparr>AISClassAStaticAndVoyageRelatedData_Info = info,
     AISClassAStaticAndVoyageRelatedData_MessageID = take_bit 6 (AISClassAStaticAndVoyageRelatedData_MessageID p),
     AISClassAStaticAndVoyageRelatedData_RepeatIndicator = take_bit 2 (AISClassAStaticAndVoyageRelatedData_RepeatIndicator p),
     AISClassAStaticAndVoyageRelatedData_UserID = pin fieldSpec_AISClassAStaticAndVoyageRelatedData_UserID (AISClassAStaticAndVoyageRelatedData_UserID p),
     AISClassAStaticAndVoyageRelatedData_ImoNumber = pin fieldSpec_AISClassAStaticAndVoyageRelatedData_ImoNumber (AISClassAStaticAndVoyageRelatedData_ImoNumber p),
     AISClassAStaticAndVoyageRelatedData_Callsign = fixed_text 7 (AISClassAStaticAndVoyageRelatedData_Callsign p),
     AISClassAStaticAndVoyageRelatedData_Name = fixed_text 20 (AISClassAStaticAndVoyageRelatedData_Name p),
     AISClassAStaticAndVoyageRelatedData_TypeOfShip = take_bit 8 (AISClassAStaticAndVoyageRelatedData_TypeOfShip p),
     AISClassAStaticAndVoyageRelatedData_Length = map_option (unit_back lib hw Meter fieldSpec_AISClassAStaticAndVoyageRelatedData_Length) (AISClassAStaticAndVoyageRelatedData_Length p),
     AISClassAStaticAndVoyageRelatedData_Beam = map_option (unit_back lib hw Meter fieldSpec_AISClassAStaticAndVoyageRelatedData_Beam) (AISClassAStaticAndVoyageRelatedData_Beam p),
     AISClassAStaticAndVoyageRelatedData_PositionReferenceFromStarboard = map_option (unit_back lib hw Meter fieldSpec_AISClassAStaticAndVoyageRelatedData_PositionReferenceFromStarboard) (AISClassAStaticAndVoyageRelatedData_PositionReferenceFromStarboard p),
     AISClassAStaticAndVoyageRelatedData_PositionReferenceFromBow = map_option (unit_back lib hw Meter fieldSpec_AISClassAStaticAndVoyageRelatedData_PositionReferenceFromBow) (AISClassAStaticAndVoyageRelatedData_PositionReferenceFromBow p),
     AISClassAStaticAndVoyageRelatedData_EtaDate = pin fieldSpec_AISClassAStaticAndVoyageRelatedData_EtaDate (AISClassAStaticAndVoyageRelatedData_EtaDate p),
     AISClassAStaticAndVoyageRelatedData_EtaTime = map_option (scaled_back hw 24 fieldSpec_AISClassAStaticAndVoyageRelatedData_EtaTime) (AISClassAStaticAndVoyageRelatedData_EtaTime p),
     AISClassAStaticAndVoyageRelatedData_Draft = map_option (unit_back lib hw Meter fieldSpec_AISClassAStaticAndVoyageRelatedData_Draft) (AISClassAStaticAndVoyageRelatedData_Draft p),
     AISClassAStaticAndVoyageRelatedData_Destination = fixed_text 20 (AISClassAStaticAndVoyageRelatedData_Destination p),
     AISClassAStaticAndVoyageRelatedData_AISVersionIndicator = take_bit 2 (AISClassAStaticAndVoyageRelatedData_AISVersionIndicator p),
     AISClassAStaticAndVoyageRelatedData_GNSSType = take_bit 4 (AISClassAStaticAndVoyageRelatedData_GNSSType p),
     AISClassAStaticAndVoyageRelatedData_Dte = take_bit 1 (AISClassAStaticAndVoyageRelatedData_Dte p),
     AISClassAStaticAndVoyageRelatedData_AISTransceiverInformation = take_bit 5 (AISClassAStaticAndVoyageRelatedData_AISTransceiverInformation p)\<rparr>"

lemma AISClassAStaticAndVoyageRelatedData_codec: "codec (EncodeAISClassAStaticAndVoyageRelatedData lib hw) (DecodeAISClassAStaticAndVoyageRelatedData lib) AISClassAStaticAndVoyageRelatedData_Info 129794 75
    (\<lambda>p. AISClassAStaticAndVoyageRelatedData_UserID p \<noteq> None \<and> length (AISClassAStaticAndVoyageRelatedData_Callsign p) < 65000 \<and> length (AISClassAStaticAndVoyageRelatedData_Name p) < 65000 \<and> length (AISClassAStaticAndVoyageRelatedData_Destination p) < 65000) (AISClassAStaticAndVoyageRelatedData_received lib hw)"
  unfolding EncodeAISClassAStaticAndVoyageRelatedData_def DecodeAISClassAStaticAndVoyageRelatedData_def AISClassAStaticAndVoyageRelatedData_received_def
  by (rule codec.intro, rule carries_cong, (rule codec_steps carries_end
      | simp add: codec_facts pin_read lookup_read lookup_read_1 unit_read fieldSpec_AISClassAStaticAndVoyageRelatedData_UserID_def fieldSpec_AISClassAStaticAndVoyageRelatedData_ImoNumber_def fieldSpec_AISClassAStaticAndVoyageRelatedData_Length_def fieldSpec_AISClassAStaticAndVoyageRelatedData_Beam_def fieldSpec_AISClassAStaticAndVoyageRelatedData_PositionReferenceFromStarboard_def fieldSpec_AISClassAStaticAndVoyageRelatedData_PositionReferenceFromBow_def fieldSpec_AISClassAStaticAndVoyageRelatedData_EtaDate_def fieldSpec_AISClassAStaticAndVoyageRelatedData_EtaTime_def fieldSpec_AISClassAStaticAndVoyageRelatedData_Draft_def)+)

subsection \<open>RadioFrequencyModePower\<close>

definition fieldSpec_RadioFrequencyModePower_RxFrequency :: ScaledSpec where
  "fieldSpec_RadioFrequencyModePower_RxFrequency =
     scaled_spec 32 0 0xFFFFFFFD 0xFFFFFFFF 0 False 2 10 None None"

definition fieldSpec_RadioFrequencyModePower_TxFrequency :: ScaledSpec where
  "fieldSpec_RadioFrequencyModePower_TxFrequency =
     scaled_spec 32 32 0xFFFFFFFD 0xFFFFFFFF 0 False 2 10 None None"

definition fieldSpec_RadioFrequencyModePower_TxPower :: FieldSpec where
  "fieldSpec_RadioFrequencyModePower_TxPower = unsigned_spec 16 112 0xFFFD 0xFFFF 2"

definition fieldSpec_RadioFrequencyModePower_ChannelBandwidth :: FieldSpec where
  "fieldSpec_RadioFrequencyModePower_ChannelBandwidth = unsigned_spec 16 136 0xFFFD 0xFFFF 2"

record RadioFrequencyModePower =
  RadioFrequencyModePower_Info :: MessageInfo
  RadioFrequencyModePower_RxFrequency :: "rat option"
  RadioFrequencyModePower_TxFrequency :: "rat option"
  RadioFrequencyModePower_RadioChannel :: gostring
  RadioFrequencyModePower_TxPower :: "u16 option"
  RadioFrequencyModePower_Mode :: u8
  RadioFrequencyModePower_ChannelBandwidth :: "u16 option"

definition DecodeRadioFrequencyModePower :: "MessageInfo \<Rightarrow> (DataStream, RadioFrequencyModePower) step" where
  "DecodeRadioFrequencyModePower info =
     field ''RadioFrequencyModePower-RxFrequency'' (ReadScaled 24 (Some fieldSpec_RadioFrequencyModePower_RxFrequency)) (\<lambda>v1.
     field ''RadioFrequencyModePower-TxFrequency'' (ReadScaled 24 (Some fieldSpec_RadioFrequencyModePower_TxFrequency)) (\<lambda>v2.
     field ''RadioFrequencyModePower-RadioChannel'' (readFixedString 48) (\<lambda>v3.
     field ''RadioFrequencyModePower-TxPower'' (ReadRaw go_uint16 (Some fieldSpec_RadioFrequencyModePower_TxPower)) (\<lambda>v4.
     field ''RadioFrequencyModePower-Mode'' (readLookupField 8) (\<lambda>v5.
     field ''RadioFrequencyModePower-ChannelBandwidth'' (ReadRaw go_uint16 (Some fieldSpec_RadioFrequencyModePower_ChannelBandwidth)) (\<lambda>v6.
     returnE \<lparr>RadioFrequencyModePower_Info = info,
       RadioFrequencyModePower_RxFrequency = v1,
       RadioFrequencyModePower_TxFrequency = v2,
       RadioFrequencyModePower_RadioChannel = v3,
       RadioFrequencyModePower_TxPower = map_option of_int v4,
       RadioFrequencyModePower_Mode = ucast v5,
       RadioFrequencyModePower_ChannelBandwidth = map_option of_int v6\<rparr>))))))"

definition EncodeRadioFrequencyModePower :: "(rat \<Rightarrow> u64) \<Rightarrow> gotime \<Rightarrow> RadioFrequencyModePower \<Rightarrow> (DataStream, MessageInfo) step" where
  "EncodeRadioFrequencyModePower hw now p =
     seqE (WriteScaled hw (RadioFrequencyModePower_RxFrequency p) (Some fieldSpec_RadioFrequencyModePower_RxFrequency)) (\<lambda>_.
     seqE (WriteScaled hw (RadioFrequencyModePower_TxFrequency p) (Some fieldSpec_RadioFrequencyModePower_TxFrequency)) (\<lambda>_.
     seqE (writeStringFix (RadioFrequencyModePower_RadioChannel p) 48 64) (\<lambda>_.
     seqE (WriteRaw (map_option uint (RadioFrequencyModePower_TxPower p)) (Some fieldSpec_RadioFrequencyModePower_TxPower)) (\<lambda>_.
     seqE (putNumberRaw (ucast (RadioFrequencyModePower_Mode p)) 8 128) (\<lambda>_.
     seqE (WriteRaw (map_option uint (RadioFrequencyModePower_ChannelBandwidth p)) (Some fieldSpec_RadioFrequencyModePower_ChannelBandwidth)) (\<lambda>_.
     returnE (finish_info now 129799 (RadioFrequencyModePower_Info p))))))))"

definition RadioFrequencyModePower_received :: "(rat \<Rightarrow> u64) \<Rightarrow> MessageInfo \<Rightarrow> RadioFrequencyModePower \<Rightarrow> RadioFrequencyModePower" where
  "RadioFrequencyModePower_received hw info p = \<lparr>RadioFrequencyModePower_Info = info,
     RadioFrequencyModePower_RxFrequency = map_option (scaled_back hw 24 fieldSpec_RadioFrequencyModePower_RxFrequency) (RadioFrequencyModePower_RxFrequency p),
     RadioFrequencyModePower_TxFrequency = map_option (scaled_back hw 24 fieldSpec_RadioFrequencyModePower_TxFrequency) (RadioFrequencyModePower_TxFrequency p),
     RadioFrequencyModePower_RadioChannel = fixed_text 6 (RadioFrequencyModePower_RadioChannel p),
     RadioFrequencyModePower_TxPower = pin fieldSpec_RadioFrequencyModePower_TxPower (RadioFrequencyModePower_TxPower p),
     RadioFrequencyModePower_Mode = take_bit 8 (RadioFrequencyModePower_Mode p),
     RadioFrequencyModePower_ChannelBandwidth = pin fieldSpec_RadioFrequencyModePower_ChannelBandwidth (RadioFrequencyModePower_ChannelBandwidth p)\<rparr>"

lemma RadioFrequencyModePower_codec: "codec (EncodeRadioFrequencyModePower hw) DecodeRadioFrequencyModePower RadioFrequencyModePower_Info 129799 19
    (\<lambda>p. length (RadioFrequencyModePower_RadioChannel p) < 65000) (RadioFrequencyModePower_received hw)"
  unfolding EncodeRadioFrequencyModePower_def DecodeRadioFrequencyModePower_def RadioFrequencyModePower_received_def
  by (rule codec.intro, rule carries_cong, (rule codec_steps carries_end
      | simp add: codec_facts pin_read lookup_read lookup_read_1 unit_read fieldSpec_RadioFrequencyModePower_RxFrequency_def fieldSpec_RadioFrequencyModePower_TxFrequency_def fieldSpec_RadioFrequencyModePower_TxPower_def fieldSpec_RadioFrequencyModePower_ChannelBandwidth_def)+)

subsection \<open>AISUTCDateInquiry\<close>

definition fieldSpec_AISUTCDateInquiry_SourceID :: FieldSpec where
  "fieldSpec_AISUTCDateInquiry_SourceID = unsigned_spec 32 8 0x0 0x0 0"

definition fieldSpec_AISUTCDateInquiry_DestinationID :: FieldSpec where
  "fieldSpec_AISUTCDateInquiry_DestinationID = unsigned_spec 32 48 0x0 0x0 0"

record AISUTCDateInquiry =
  AISUTCDateInquiry_Info :: MessageInfo
  AISUTCDateInquiry_MessageID :: u8
  AISUTCDateInquiry_RepeatIndicator :: u8
  AISUTCDateInquiry_SourceID :: "u32 option"
  AISUTCDateInquiry_AISTransceiverInformation :: u8
  AISUTCDateInquiry_DestinationID :: "u32 option"

definition DecodeAISUTCDateInquiry :: "MessageInfo \<Rightarrow> (DataStream, AISUTCDateInquiry) step" where
  "DecodeAISUTCDateInquiry info =
     field ''AISUTCDateInquiry-MessageID'' (readLookupField 6) (\<lambda>v1.
     field ''AISUTCDateInquiry-RepeatIndicator'' (readLookupField 2) (\<lambda>v2.
     field ''AISUTCDateInquiry-SourceID'' (ReadRaw go_uint32 (Some fieldSpec_AISUTCDateInquiry_SourceID)) (\<lambda>v3.
     skip 1 (
     field ''AISUTCDateInquiry-AISTransceiverInformation'' (readLookupField 5) (\<lambda>v5.
     skip 2 (
     field ''AISUTCDateInquiry-DestinationID'' (ReadRaw go_uint32 (Some fieldSpec_AISUTCDateInquiry_DestinationID)) (\<lambda>v7.
     returnE \<lparr>AISUTCDateInquiry_Info = info,
       AISUTCDateInquiry_MessageID = ucast v1,
       AISUTCDateInquiry_RepeatIndicator = ucast v2,
       AISUTCDateInquiry_SourceID = map_option of_int v3,
       AISUTCDateInquiry_AISTransceiverInformation = ucast v5,
       AISUTCDateInquiry_DestinationID = map_option of_int v7\<rparr>)))))))"

definition EncodeAISUTCDateInquiry :: "gotime \<Rightarrow> AISUTCDateInquiry \<Rightarrow> (DataStream, MessageInfo) step" where
  "EncodeAISUTCDateInquiry now p =
     seqE (putNumberRaw (ucast (AISUTCDateInquiry_MessageID p)) 6 0) (\<lambda>_.
     seqE (putNumberRaw (ucast (AISUTCDateInquiry_RepeatIndicator p)) 2 6) (\<lambda>_.
     seqE (WriteRaw (map_option uint (AISUTCDateInquiry_SourceID p)) (Some fieldSpec_AISUTCDateInquiry_SourceID)) (\<lambda>_.
     seqE (writeReserved 1 40) (\<lambda>_.
     seqE (putNumberRaw (ucast (AISUTCDateInquiry_AISTransceiverInformation p)) 5 41) (\<lambda>_.
     seqE (writeSpare 2 46) (\<lambda>_.
     seqE (WriteRaw (map_option uint (AISUTCDateInquiry_DestinationID p)) (Some fieldSpec_AISUTCDateInquiry_DestinationID)) (\<lambda>_.
     returnE (finish_info now 129800 (AISUTCDateInquiry_Info p)))))))))"

definition AISUTCDateInquiry_received :: "MessageInfo \<Rightarrow> AISUTCDateInquiry \<Rightarrow> AISUTCDateInquiry" where
  "AISUTCDateInquiry_received info p = \<lparr>AISUTCDateInquiry_Info = info,
     AISUTCDateInquiry_MessageID = take_bit 6 (AISUTCDateInquiry_MessageID p),
     AISUTCDateInquiry_RepeatIndicator = take_bit 2 (AISUTCDateInquiry_RepeatIndicator p),
     AISUTCDateInquiry_SourceID = pin fieldSpec_AISUTCDateInquiry_SourceID (AISUTCDateInquiry_SourceID p),
     AISUTCDateInquiry_AISTransceiverInformation = take_bit 5 (AISUTCDateInquiry_AISTransceiverInformation p),
     AISUTCDateInquiry_DestinationID = pin fieldSpec_AISUTCDateInquiry_DestinationID (AISUTCDateInquiry_DestinationID p)\<rparr>"

lemma AISUTCDateInquiry_codec: "codec EncodeAISUTCDateInquiry DecodeAISUTCDateInquiry AISUTCDateInquiry_Info 129800 10
    (\<lambda>p. AISUTCDateInquiry_SourceID p \<noteq> None \<and> AISUTCDateInquiry_DestinationID p \<noteq> None) AISUTCDateInquiry_received"
  unfolding EncodeAISUTCDateInquiry_def DecodeAISUTCDateInquiry_def AISUTCDateInquiry_received_def
  by (rule codec.intro, rule carries_cong, (rule codec_steps carries_end
      | simp add: codec_facts pin_read lookup_read lookup_read_1 unit_read fieldSpec_AISUTCDateInquiry_SourceID_def fieldSpec_AISUTCDateInquiry_DestinationID_def)+)

subsection \<open>AISInterrogation\<close>

definition fieldSpec_AISInterrogation_SourceID :: FieldSpec where
  "fieldSpec_AISInterrogation_SourceID = unsigned_spec 32 8 0x0 0x0 0"

definition fieldSpec_AISInterrogation_DestinationID1 :: FieldSpec where
  "fieldSpec_AISInterrogation_DestinationID1 = unsigned_spec 32 48 0x0 0x0 0"

definition fieldSpec_AISInterrogation_SlotOffset11 :: FieldSpec where
  "fieldSpec_AISInterrogation_SlotOffset11 = unsigned_spec 16 88 0xFFFD 0xFFFF 2"

definition fieldSpec_AISInterrogation_SlotOffset12 :: FieldSpec where
  "fieldSpec_AISInterrogation_SlotOffset12 = unsigned_spec 16 112 0xFFFD 0xFFFF 2"

definition fieldSpec_AISInterrogation_DestinationID2 :: FieldSpec where
  "fieldSpec_AISInterrogation_DestinationID2 = unsigned_spec 32 136 0x0 0x0 0"

definition fieldSpec_AISInterrogation_SlotOffset21 :: FieldSpec where
  "fieldSpec_AISInterrogation_SlotOffset21 = unsigned_spec 16 176 0xFFFD 0xFFFF 2"

definition fieldSpec_AISInterrogation_SID :: FieldSpec where
  "fieldSpec_AISInterrogation_SID = unsigned_spec 8 200 0xFD 0xFF 2"

record AISInterrogation =
  AISInterrogation_Info :: MessageInfo
  AISInterrogation_MessageID :: u8
  AISInterrogation_RepeatIndicator :: u8
  AISInterrogation_SourceID :: "u32 option"
  AISInterrogation_AISTransceiverInformation :: u8
  AISInterrogation_DestinationID1 :: "u32 option"
  AISInterrogation_MessageID11 :: u8
  AISInterrogation_SlotOffset11 :: "u16 option"
  AISInterrogation_MessageID12 :: u8
  AISInterrogation_SlotOffset12 :: "u16 option"
  AISInterrogation_DestinationID2 :: "u32 option"
  AISInterrogation_MessageID21 :: u8
  AISInterrogation_SlotOffset21 :: "u16 option"
  AISInterrogation_SID :: "u8 option"

definition DecodeAISInterrogation :: "MessageInfo \<Rightarrow> (DataStream, AISInterrogation) step" where
  "DecodeAISInterrogation info =
     field ''AISInterrogation-MessageID'' (readLookupField 6) (\<lambda>v1.
     field ''AISInterrogation-RepeatIndicator'' (readLookupField 2) (\<lambda>v2.
     field ''AISInterrogation-SourceID'' (ReadRaw go_uint32 (Some fieldSpec_AISInterrogation_SourceID)) (\<lambda>v3.
     skip 1 (
     field ''AISInterrogation-AISTransceiverInformation'' (readLookupField 5) (\<lambda>v5.
     skip 2 (
     field ''AISInterrogation-DestinationID1'' (ReadRaw go_uint32 (Some fieldSpec_AISInterrogation_DestinationID1)) (\<lambda>v7.
     skip 2 (
     field ''AISInterrogation-MessageID11'' (readLookupField 6) (\<lambda>v9.
     field ''AISInterrogation-SlotOffset11'' (ReadRaw go_uint16 (Some fieldSpec_AISInterrogation_SlotOffset11)) (\<lambda>v10.
     skip 2 (
     field ''AISInterrogation-MessageID12'' (readLookupField 6) (\<lambda>v12.
     field ''AISInterrogation-SlotOffset12'' (ReadRaw go_uint16 (Some fieldSpec_AISInterrogation_SlotOffset12)) (\<lambda>v13.
     skip 6 (
     skip 2 (
     field ''AISInterrogation-DestinationID2'' (ReadRaw go_uint32 (Some fieldSpec_AISInterrogation_DestinationID2)) (\<lambda>v16.
     skip 2 (
     field ''AISInterrogation-MessageID21'' (readLookupField 6) (\<lambda>v18.
     field ''AISInterrogation-SlotOffset21'' (ReadRaw go_uint16 (Some fieldSpec_AISInterrogation_SlotOffset21)) (\<lambda>v19.
     skip 2 (
     skip 6 (
     field ''AISInterrogation-SID'' (ReadRaw go_uint8 (Some fieldSpec_AISInterrogation_SID)) (\<lambda>v22.
     returnE \<lparr>AISInterrogation_Info = info,
       AISInterrogation_MessageID = ucast v1,
       AISInterrogation_RepeatIndicator = ucast v2,
       AISInterrogation_SourceID = map_option of_int v3,
       AISInterrogation_AISTransceiverInformation = ucast v5,
       AISInterrogation_DestinationID1 = map_option of_int v7,
       AISInterrogation_MessageID11 = ucast v9,
       AISInterrogation_SlotOffset11 = map_option of_int v10,
       AISInterrogation_MessageID12 = ucast v12,
       AISInterrogation_SlotOffset12 = map_option of_int v13,
       AISInterrogation_DestinationID2 = map_option of_int v16,
       AISInterrogation_MessageID21 = ucast v18,
       AISInterrogation_SlotOffset21 = map_option of_int v19,
       AISInterrogation_SID = map_option of_int v22\<rparr>))))))))))))))))))))))"

definition EncodeAISInterrogation :: "gotime \<Rightarrow> AISInterrogation \<Rightarrow> (DataStream, MessageInfo) step" where
  "EncodeAISInterrogation now p =
     seqE (putNumberRaw (ucast (AISInterrogation_MessageID p)) 6 0) (\<lambda>_.
     seqE (putNumberRaw (ucast (AISInterrogation_RepeatIndicator p)) 2 6) (\<lambda>_.
     seqE (WriteRaw (map_option uint (AISInterrogation_SourceID p)) (Some fieldSpec_AISInterrogation_SourceID)) (\<lambda>_.
     seqE (writeReserved 1 40) (\<lambda>_.
     seqE (putNumberRaw (ucast (AISInterrogation_AISTransceiverInformation p)) 5 41) (\<lambda>_.
     seqE (writeSpare 2 46) (\<lambda>_.
     seqE (WriteRaw (map_option uint (AISInterrogation_DestinationID1 p)) (Some fieldSpec_AISInterrogation_DestinationID1)) (\<lambda>_.
     seqE (writeReserved 2 80) (\<lambda>_.
     seqE (putNumberRaw (ucast (AISInterrogation_MessageID11 p)) 6 82) (\<lambda>_.
     seqE (WriteRaw (map_option uint (AISInterrogation_SlotOffset11 p)) (Some fieldSpec_AISInterrogation_SlotOffset11)) (\<lambda>_.
     seqE (writeSpare 2 104) (\<lambda>_.
     seqE (putNumberRaw (ucast (AISInterrogation_MessageID12 p)) 6 106) (\<lambda>_.
     seqE (WriteRaw (map_option uint (AISInterrogation_SlotOffset12 p)) (Some fieldSpec_AISInterrogation_SlotOffset12)) (\<lambda>_.
     seqE (writeReserved 6 128) (\<lambda>_.
     seqE (writeReserved 2 134) (\<lambda>_.
     seqE (WriteRaw (map_option uint (AISInterrogation_DestinationID2 p)) (Some fieldSpec_AISInterrogation_DestinationID2)) (\<lambda>_.
     seqE (writeReserved 2 168) (\<lambda>_.
     seqE (putNumberRaw (ucast (AISInterrogation_MessageID21 p)) 6 170) (\<lambda>_.
     seqE (WriteRaw (map_option uint (AISInterrogation_SlotOffset21 p)) (Some fieldSpec_AISInterrogation_SlotOffset21)) (\<lambda>_.
     seqE (writeSpare 2 192) (\<lambda>_.
     seqE (writeReserved 6 194) (\<lambda>_.
     seqE (WriteRaw (map_option uint (AISInterrogation_SID p)) (Some fieldSpec_AISInterrogation_SID)) (\<lambda>_.
     returnE (finish_info now 129803 (AISInterrogation_Info p))))))))))))))))))))))))"

definition AISInterrogation_received :: "MessageInfo \<Rightarrow> AISInterrogation \<Rightarrow> AISInterrogation" where
  "AISInterrogation_received info p = \<lparr>AISInterrogation_Info = info,
     AISInterrogation_MessageID = take_bit 6 (AISInterrogation_MessageID p),
     AISInterrogation_RepeatIndicator = take_bit 2 (AISInterrogation_RepeatIndicator p),
     AISInterrogation_SourceID = pin fieldSpec_AISInterrogation_SourceID (AISInterrogation_SourceID p),
     AISInterrogation_AISTransceiverInformation = take_bit 5 (AISInterrogation_AISTransceiverInformation p),
     AISInterrogation_DestinationID1 = pin fieldSpec_AISInterrogation_DestinationID1 (AISInterrogation_DestinationID1 p),
     AISInterrogation_MessageID11 = take_bit 6 (AISInterrogation_MessageID11 p),
     AISInterrogation_SlotOffset11 = pin fieldSpec_AISInterrogation_SlotOffset11 (AISInterrogation_SlotOffset11 p),
     AISInterrogation_MessageID12 = take_bit 6 (AISInterrogation_MessageID12 p),
     AISInterrogation_SlotOffset12 = pin fieldSpec_AISInterrogation_SlotOffset12 (AISInterrogation_SlotOffset12 p),
     AISInterrogation_DestinationID2 = pin fieldSpec_AISInterrogation_DestinationID2 (AISInterrogation_DestinationID2 p),
     AISInterrogation_MessageID21 = take_bit 6 (AISInterrogation_MessageID21 p),
     AISInterrogation_SlotOffset21 = pin fieldSpec_AISInterrogation_SlotOffset21 (AISInterrogation_SlotOffset21 p),
     AISInterrogation_SID = pin fieldSpec_AISInterrogation_SID (AISInterrogation_SID p)\<rparr>"

lemma AISInterrogation_codec: "codec EncodeAISInterrogation DecodeAISInterrogation AISInterrogation_Info 129803 26
    (\<lambda>p. AISInterrogation_SourceID p \<noteq> None \<and> AISInterrogation_DestinationID1 p \<noteq> None \<and> AISInterrogation_DestinationID2 p \<noteq> None) AISInterrogation_received"
  unfolding EncodeAISInterrogation_def DecodeAISInterrogation_def AISInterrogation_received_def
  by (rule codec.intro, rule carries_cong, (rule codec_steps carries_end
      | simp add: codec_facts pin_read lookup_read lookup_read_1 unit_read fieldSpec_AISInterrogation_SourceID_def fieldSpec_AISInterrogation_DestinationID1_def fieldSpec_AISInterrogation_SlotOffset11_def fieldSpec_AISInterrogation_SlotOffset12_def fieldSpec_AISInterrogation_DestinationID2_def fieldSpec_AISInterrogation_SlotOffset21_def fieldSpec_AISInterrogation_SID_def)+)

subsection \<open>AISAssignmentModeCommand\<close>

definition fieldSpec_AISAssignmentModeCommand_SourceID :: FieldSpec where
  "fieldSpec_AISAssignmentModeCommand_SourceID = unsigned_spec 32 8 0x0 0x0 0"

definition fieldSpec_AISAssignmentModeCommand_DestinationIDA :: FieldSpec where
  "fieldSpec_AISAssignmentModeCommand_DestinationIDA = unsigned_spec 32 48 0x0 0x0 0"

definition fieldSpec_AISAssignmentModeCommand_OffsetA :: FieldSpec where
  "fieldSpec_AISAssignmentModeCommand_OffsetA = unsigned_spec 16 80 0xFFFD 0xFFFF 2"

definition fieldSpec_AISAssignmentModeCommand_IncrementA :: FieldSpec where
  "fieldSpec_AISAssignmentModeCommand_IncrementA = unsigned_spec 16 96 0xFFFD 0xFFFF 2"

definition fieldSpec_AISAssignmentModeCommand_DestinationIDB :: FieldSpec where
  "fieldSpec_AISAssignmentModeCommand_DestinationIDB = unsigned_spec 32 112 0x0 0x0 0"

definition fieldSpec_AISAssignmentModeCommand_OffsetB :: FieldSpec where
  "fieldSpec_AISAssignmentModeCommand_OffsetB = unsigned_spec 16 144 0xFFFD 0xFFFF 2"

definition fieldSpec_AISAssignmentModeCommand_IncrementB :: FieldSpec where
  "fieldSpec_AISAssignmentModeCommand_IncrementB = unsigned_spec 16 160 0xFFFD 0xFFFF 2"

record AISAssignmentModeCommand =
  AISAssignmentModeCommand_Info :: MessageInfo
  AISAssignmentModeCommand_MessageID :: u8
  AISAssignmentModeCommand_RepeatIndicator :: u8
  AISAssignmentModeCommand_SourceID :: "u32 option"
  AISAssignmentModeCommand_AISTransceiverInformation :: u8
  AISAssignmentModeCommand_DestinationIDA :: "u32 option"
  AISAssignmentModeCommand_OffsetA :: "u16 option"
  AISAssignmentModeCommand_IncrementA :: "u16 option"
  AISAssignmentModeCommand_DestinationIDB :: "u32 option"
  AISAssignmentModeCommand_OffsetB :: "u16 option"
  AISAssignmentModeCommand_IncrementB :: "u16 option"

definition DecodeAISAssignmentModeCommand :: "MessageInfo \<Rightarrow> (DataStream, AISAssignmentModeCommand) step" where
  "DecodeAISAssignmentModeCommand info =
     field ''AISAssignmentModeCommand-MessageID'' (readLookupField 6) (\<lambda>v1.
     field ''AISAssignmentModeCommand-RepeatIndicator'' (readLookupField 2) (\<lambda>v2.
     field ''AISAssignmentModeCommand-SourceID'' (ReadRaw go_uint32 (Some fieldSpec_AISAssignmentModeCommand_SourceID)) (\<lambda>v3.
     skip 1 (
     field ''AISAssignmentModeCommand-AISTransceiverInformation'' (readLookupField 5) (\<lambda>v5.
     skip 2 (
     field ''AISAssignmentModeCommand-DestinationIDA'' (ReadRaw go_uint32 (Some fieldSpec_AISAssignmentModeCommand_DestinationIDA)) (\<lambda>v7.
     field ''AISAssignmentModeCommand-OffsetA'' (ReadRaw go_uint16 (Some fieldSpec_AISAssignmentModeCommand_OffsetA)) (\<lambda>v8.
     field ''AISAssignmentModeCommand-IncrementA'' (ReadRaw go_uint16 (Some fieldSpec_AISAssignmentModeCommand_IncrementA)) (\<lambda>v9.
     field ''AISAssignmentModeCommand-DestinationIDB'' (ReadRaw go_uint32 (Some fieldSpec_AISAssignmentModeCommand_DestinationIDB)) (\<lambda>v10.
     field ''AISAssignmentModeCommand-OffsetB'' (ReadRaw go_uint16 (Some fieldSpec_AISAssignmentModeCommand_OffsetB)) (\<lambda>v11.
     field ''AISAssignmentModeCommand-IncrementB'' (ReadRaw go_uint16 (Some fieldSpec_AISAssignmentModeCommand_IncrementB)) (\<lambda>v12.
     skip 4 (
     skip 4 (
     returnE \<lparr>AISAssignmentModeCommand_Info = info,
       AISAssignmentModeCommand_MessageID = ucast v1,
       AISAssignmentModeCommand_RepeatIndicator = ucast v2,
       AISAssignmentModeCommand_SourceID = map_option of_int v3,
       AISAssignmentModeCommand_AISTransceiverInformation = ucast v5,
       AISAssignmentModeCommand_DestinationIDA = map_option of_int v7,
       AISAssignmentModeCommand_OffsetA = map_option of_int v8,
       AISAssignmentModeCommand_IncrementA = map_option of_int v9,
       AISAssignmentModeCommand_DestinationIDB = map_option of_int v10,
       AISAssignmentModeCommand_OffsetB = map_option of_int v11,
       AISAssignmentModeCommand_IncrementB = map_option of_int v12\<rparr>))))))))))))))"

definition EncodeAISAssignmentModeCommand :: "gotime \<Rightarrow> AISAssignmentModeCommand \<Rightarrow> (DataStream, MessageInfo) step" where
  "EncodeAISAssignmentModeCommand now p =
     seqE (putNumberRaw (ucast (AISAssignmentModeCommand_MessageID p)) 6 0) (\<lambda>_.
     seqE (putNumberRaw (ucast (AISAssignmentModeCommand_RepeatIndicator p)) 2 6) (\<lambda>_.
     seqE (WriteRaw (map_option uint (AISAssignmentModeCommand_SourceID p)) (Some fieldSpec_AISAssignmentModeCommand_SourceID)) (\<lambda>_.
     seqE (writeReserved 1 40) (\<lambda>_.
     seqE (putNumberRaw (ucast (AISAssignmentModeCommand_AISTransceiverInformation p)) 5 41) (\<lambda>_.
     seqE (writeSpare 2 46) (\<lambda>_.
     seqE (WriteRaw (map_option uint (AISAssignmentModeCommand_DestinationIDA p)) (Some fieldSpec_AISAssignmentModeCommand_DestinationIDA)) (\<lambda>_.
     seqE (WriteRaw (map_option uint (AISAssignmentModeCommand_OffsetA p)) (Some fieldSpec_AISAssignmentModeCommand_OffsetA)) (\<lambda>_.
     seqE (WriteRaw (map_option uint (AISAssignmentModeCommand_IncrementA p)) (Some fieldSpec_AISAssignmentModeCommand_IncrementA)) (\<lambda>_.
     seqE (WriteRaw (map_option uint (AISAssignmentModeCommand_DestinationIDB p)) (Some fieldSpec_AISAssignmentModeCommand_DestinationIDB)) (\<lambda>_.
     seqE (WriteRaw (map_option uint (AISAssignmentModeCommand_OffsetB p)) (Some fieldSpec_AISAssignmentModeCommand_OffsetB)) (\<lambda>_.
     seqE (WriteRaw (map_option uint (AISAssignmentModeCommand_IncrementB p)) (Some fieldSpec_AISAssignmentModeCommand_IncrementB)) (\<lambda>_.
     seqE (writeSpare 4 176) (\<lambda>_.
     seqE (writeReserved 4 180) (\<lambda>_.
     returnE (finish_info now 129804 (AISAssignmentModeCommand_Info p))))))))))))))))"

definition AISAssignmentModeCommand_received :: "MessageInfo \<Rightarrow> AISAssignmentModeCommand \<Rightarrow> AISAssignmentModeCommand" where
  "AISAssignmentModeCommand_received info p = \<lparr>AISAssignmentModeCommand_Info = info,
     AISAssignmentModeCommand_MessageID = take_bit 6 (AISAssignmentModeCommand_MessageID p),
     AISAssignmentModeCommand_RepeatIndicator = take_bit 2 (AISAssignmentModeCommand_RepeatIndicator p),
     AISAssignmentModeCommand_SourceID = pin fieldSpec_AISAssignmentModeCommand_SourceID (AISAssignmentModeCommand_SourceID p),
     AISAssignmentModeCommand_AISTransceiverInformation = take_bit 5 (AISAssignmentModeCommand_AISTransceiverInformation p),
     AISAssignmentModeCommand_DestinationIDA = pin fieldSpec_AISAssignmentModeCommand_DestinationIDA (AISAssignmentModeCommand_DestinationIDA p),
     AISAssignmentModeCommand_OffsetA = pin fieldSpec_AISAssignmentModeCommand_OffsetA (AISAssignmentModeCommand_OffsetA p),
     AISAssignmentModeCommand_IncrementA = pin fieldSpec_AISAssignmentModeCommand_IncrementA (AISAssignmentModeCommand_IncrementA p),
     AISAssignmentModeCommand_DestinationIDB = pin fieldSpec_AISAssignmentModeCommand_DestinationIDB (AISAssignmentModeCommand_DestinationIDB p),
     AISAssignmentModeCommand_OffsetB = pin fieldSpec_AISAssignmentModeCommand_OffsetB (AISAssignmentModeCommand_OffsetB p),
     AISAssignmentModeCommand_IncrementB = pin fieldSpec_AISAssignmentModeCommand_IncrementB (AISAssignmentModeCommand_IncrementB p)\<rparr>"

lemma AISAssignmentModeCommand_codec: "codec EncodeAISAssignmentModeCommand DecodeAISAssignmentModeCommand AISAssignmentModeCommand_Info 129804 23
    (\<lambda>p. AISAssignmentModeCommand_SourceID p \<noteq> None \<and> AISAssignmentModeCommand_DestinationIDA p \<noteq> None \<and> AISAssignmentModeCommand_DestinationIDB p \<noteq> None) AISAssignmentModeCommand_received"
  unfolding EncodeAISAssignmentModeCommand_def DecodeAISAssignmentModeCommand_def AISAssignmentModeCommand_received_def
  by (rule codec.intro, rule carries_cong, (rule codec_steps carries_end
      | simp add: codec_facts pin_read lookup_read lookup_read_1 unit_read fieldSpec_AISAssignmentModeCommand_SourceID_def fieldSpec_AISAssignmentModeCommand_DestinationIDA_def fieldSpec_AISAssignmentModeCommand_OffsetA_def fieldSpec_AISAssignmentModeCommand_IncrementA_def fieldSpec_AISAssignmentModeCommand_DestinationIDB_def fieldSpec_AISAssignmentModeCommand_OffsetB_def fieldSpec_AISAssignmentModeCommand_IncrementB_def)+)

subsection \<open>AISChannelManagement\<close>

definition fieldSpec_AISChannelManagement_SourceID :: FieldSpec where
  "fieldSpec_AISChannelManagement_SourceID = unsigned_spec 32 8 0x0 0x0 0"

definition fieldSpec_AISChannelManagement_ChannelA :: FieldSpec where
  "fieldSpec_AISChannelManagement_ChannelA = unsigned_spec 16 48 0xFFFD 0xFFFF 2"

definition fieldSpec_AISChannelManagement_ChannelB :: FieldSpec where
  "fieldSpec_AISChannelManagement_ChannelB = unsigned_spec 16 64 0xFFFD 0xFFFF 2"

definition fieldSpec_AISChannelManagement_NorthEastLongitudeCorner1 :: ScaledSpec where
  "fieldSpec_AISChannelManagement_NorthEastLongitudeCorner1 =
     scaled_spec 32 88 0x7FFFFFFD 0x7FFFFFFF 0 True 2 (fl64 0.00000010000000116860974) (Some (- 180)) (Some 180)"

definition fieldSpec_AISChannelManagement_NorthEastLatitudeCorner1 :: ScaledSpec where
  "fieldSpec_AISChannelManagement_NorthEastLatitudeCorner1 =
     scaled_spec 32 120 0x7FFFFFFD 0x7FFFFFFF 0 True 2 (fl64 0.00000010000000116860974) (Some (- 90)) (Some 90)"

definition fieldSpec_AISChannelManagement_SouthWestLongitudeCorner2 :: ScaledSpec where
  "fieldSpec_AISChannelManagement_SouthWestLongitudeCorner2 =
     scaled_spec 32 152 0x7FFFFFFD 0x7FFFFFFF 0 True 2 (fl64 0.00000010000000116860974) (Some (- 180)) (Some 180)"

definition fieldSpec_AISChannelManagement_SouthWestLatitudeCorner2 :: ScaledSpec where
  "fieldSpec_AISChannelManagement_SouthWestLatitudeCorner2 =
     scaled_spec 32 184 0x7FFFFFFD 0x7FFFFFFF 0 True 2 (fl64 0.00000010000000116860974) (Some (- 90)) (Some 90)"

record AISChannelManagement =
  AISChannelManagement_Info :: MessageInfo
  AISChannelManagement_MessageID :: u8
  AISChannelManagement_RepeatIndicator :: u8
  AISChannelManagement_SourceID :: "u32 option"
  AISChannelManagement_AISTransceiverInformation :: u8
  AISChannelManagement_ChannelA :: "u16 option"
  AISChannelManagement_ChannelB :: "u16 option"
  AISChannelManagement_Power :: u8
  AISChannelManagement_TxRxMode :: u8
  AISChannelManagement_NorthEastLongitudeCorner1 :: "rat option"
  AISChannelManagement_NorthEastLatitudeCorner1 :: "rat option"
  AISChannelManagement_SouthWestLongitudeCorner2 :: "rat option"
  AISChannelManagement_SouthWestLatitudeCorner2 :: "rat option"
  AISChannelManagement_AddressedOrBroadcastMessageIndicator :: u8
  AISChannelManagement_ChannelABandwidth :: u8
  AISChannelManagement_ChannelBBandwidth :: u8
  AISChannelManagement_TransitionalZoneSize :: u8

definition DecodeAISChannelManagement :: "MessageInfo \<Rightarrow> (DataStream, AISChannelManagement) step" where
  "DecodeAISChannelManagement info =
     field ''AISChannelManagement-MessageID'' (readLookupField 6) (\<lambda>v1.
     field ''AISChannelManagement-RepeatIndicator'' (readLookupField 2) (\<lambda>v2.
     field ''AISChannelManagement-SourceID'' (ReadRaw go_uint32 (Some fieldSpec_AISChannelManagement_SourceID)) (\<lambda>v3.
     skip 1 (
     field ''AISChannelManagement-AISTransceiverInformation'' (readLookupField 5) (\<lambda>v5.
     skip 2 (
     field ''AISChannelManagement-ChannelA'' (ReadRaw go_uint16 (Some fieldSpec_AISChannelManagement_ChannelA)) (\<lambda>v7.
     field ''AISChannelManagement-ChannelB'' (ReadRaw go_uint16 (Some fieldSpec_AISChannelManagement_ChannelB)) (\<lambda>v8.
     skip 3 (
     field ''AISChannelManagement-Power'' (readLookupField 1) (\<lambda>v10.
     field ''AISChannelManagement-TxRxMode'' (readLookupField 4) (\<lambda>v11.
     field ''AISChannelManagement-NorthEastLongitudeCorner1'' (ReadScaled 53 (Some fieldSpec_AISChannelManagement_NorthEastLongitudeCorner1)) (\<lambda>v12.
     field ''AISChannelManagement-NorthEastLatitudeCorner1'' (ReadScaled 53 (Some fieldSpec_AISChannelManagement_NorthEastLatitudeCorner1)) (\<lambda>v13.
     field ''AISChannelManagement-SouthWestLongitudeCorner2'' (ReadScaled 53 (Some fieldSpec_AISChannelManagement_SouthWestLongitudeCorner2)) (\<lambda>v14.
     field ''AISChannelManagement-SouthWestLatitudeCorner2'' (ReadScaled 53 (Some fieldSpec_AISChannelManagement_SouthWestLatitudeCorner2)) (\<lambda>v15.
     skip 1 (
     field ''AISChannelManagement-AddressedOrBroadcastMessageIndicator'' (readLookupField 1) (\<lambda>v17.
     field ''AISChannelManagement-ChannelABandwidth'' (readLookupField 1) (\<lambda>v18.
     field ''AISChannelManagement-ChannelBBandwidth'' (readLookupField 1) (\<lambda>v19.
     skip 1 (
     field ''AISChannelManagement-TransitionalZoneSize'' (readLookupField 3) (\<lambda>v21.
     skip 23 (
     skip 1 (
     returnE \<lparr>AISChannelManagement_Info = info,
       AISChannelManagement_MessageID = ucast v1,
       AISChannelManagement_RepeatIndicator = ucast v2,
       AISChannelManagement_SourceID = map_option of_int v3,
       AISChannelManagement_AISTransceiverInformation = ucast v5,
       AISChannelManagement_ChannelA = map_option of_int v7,
       AISChannelManagement_ChannelB = map_option of_int v8,
       AISChannelManagement_Power = ucast v10,
       AISChannelManagement_TxRxMode = ucast v11,
       AISChannelManagement_NorthEastLongitudeCorner1 = v12,
       AISChannelManagement_NorthEastLatitudeCorner1 = v13,
       AISChannelManagement_SouthWestLongitudeCorner2 = v14,
       AISChannelManagement_SouthWestLatitudeCorner2 = v15,
       AISChannelManagement_AddressedOrBroadcastMessageIndicator = ucast v17,
       AISChannelManagement_ChannelABandwidth = ucast v18,
       AISChannelManagement_ChannelBBandwidth = ucast v19,
       AISChannelManagement_TransitionalZoneSize = ucast v21\<rparr>)))))))))))))))))))))))"

definition EncodeAISChannelManagement :: "(rat \<Rightarrow> u64) \<Rightarrow> gotime \<Rightarrow> AISChannelManagement \<Rightarrow> (DataStream, MessageInfo) step" where
  "EncodeAISChannelManagement hw now p =
     seqE (putNumberRaw (ucast (AISChannelManagement_MessageID p)) 6 0) (\<lambda>_.
     seqE (putNumberRaw (ucast (AISChannelManagement_RepeatIndicator p)) 2 6) (\<lambda>_.
     seqE (WriteRaw (map_option uint (AISChannelManagement_SourceID p)) (Some fieldSpec_AISChannelManagement_SourceID)) (\<lambda>_.
     seqE (writeReserved 1 40) (\<lambda>_.
     seqE (putNumberRaw (ucast (AISChannelManagement_AISTransceiverInformation p)) 5 41) (\<lambda>_.
     seqE (writeSpare 2 46) (\<lambda>_.
     seqE (WriteRaw (map_option uint (AISChannelManagement_ChannelA p)) (Some fieldSpec_AISChannelManagement_ChannelA)) (\<lambda>_.
     seqE (WriteRaw (map_option uint (AISChannelManagement_ChannelB p)) (Some fieldSpec_AISChannelManagement_ChannelB)) (\<lambda>_.
     seqE (writeReserved 3 80) (\<lambda>_.
     seqE (putNumberRaw (ucast (AISChannelManagement_Power p)) 1 83) (\<lambda>_.
     seqE (putNumberRaw (ucast (AISChannelManagement_TxRxMode p)) 4 84) (\<lambda>_.
     seqE (WriteScaled hw (AISChannelManagement_NorthEastLongitudeCorner1 p) (Some fieldSpec_AISChannelManagement_NorthEastLongitudeCorner1)) (\<lambda>_.
     seqE (WriteScaled hw (AISChannelManagement_NorthEastLatitudeCorner1 p) (Some fieldSpec_AISChannelManagement_NorthEastLatitudeCorner1)) (\<lambda>_.
     seqE (WriteScaled hw (AISChannelManagement_SouthWestLongitudeCorner2 p) (Some fieldSpec_AISChannelManagement_SouthWestLongitudeCorner2)) (\<lambda>_.
     seqE (WriteScaled hw (AISChannelManagement_SouthWestLatitudeCorner2 p) (Some fieldSpec_AISChannelManagement_SouthWestLatitudeCorner2)) (\<lambda>_.
     seqE (writeReserved 1 216) (\<lambda>_.
     seqE (putNumberRaw (ucast (AISChannelManagement_AddressedOrBroadcastMessageIndicator p)) 1 217) (\<lambda>_.
     seqE (putNumberRaw (ucast (AISChannelManagement_ChannelABandwidth p)) 1 218) (\<lambda>_.
     seqE (putNumberRaw (ucast (AISChannelManagement_ChannelBBandwidth p)) 1 219) (\<lambda>_.
     seqE (writeReserved 1 220) (\<lambda>_.
     seqE (putNumberRaw (ucast (AISChannelManagement_TransitionalZoneSize p)) 3 221) (\<lambda>_.
     seqE (writeSpare 23 224) (\<lambda>_.
     seqE (writeReserved 1 247) (\<lambda>_.
     returnE (finish_info now 129806 (AISChannelManagement_Info p)))))))))))))))))))))))))"

definition AISChannelManagement_received :: "(rat \<Rightarrow> u64) \<Rightarrow> MessageInfo \<Rightarrow> AISChannelManagement \<Rightarrow> AISChannelManagement" where
  "AISChannelManagement_received hw info p = \<lparr>AISChannelManagement_Info = info,
     AISChannelManagement_MessageID = take_bit 6 (AISChannelManagement_MessageID p),
     AISChannelManagement_RepeatIndicator = take_bit 2 (AISChannelManagement_RepeatIndicator p),
     AISChannelManagement_SourceID = pin fieldSpec_AISChannelManagement_SourceID (AISChannelManagement_SourceID p),
     AISChannelManagement_AISTransceiverInformation = take_bit 5 (AISChannelManagement_AISTransceiverInformation p),
     AISChannelManagement_ChannelA = pin fieldSpec_AISChannelManagement_ChannelA (AISChannelManagement_ChannelA p),
     AISChannelManagement_ChannelB = pin fieldSpec_AISChannelManagement_ChannelB (AISChannelManagement_ChannelB p),
     AISChannelManagement_Power = take_bit 1 (AISChannelManagement_Power p),
     AISChannelManagement_TxRxMode = take_bit 4 (AISChannelManagement_TxRxMode p),
     AISChannelManagement_NorthEastLongitudeCorner1 = map_option (scaled_back hw 53 fieldSpec_AISChannelManagement_NorthEastLongitudeCorner1) (AISChannelManagement_NorthEastLongitudeCorner1 p),
     AISChannelManagement_NorthEastLatitudeCorner1 = map_option (scaled_back hw 53 fieldSpec_AISChannelManagement_NorthEastLatitudeCorner1) (AISChannelManagement_NorthEastLatitudeCorner1 p),
     AISChannelManagement_SouthWestLongitudeCorner2 = map_option (scaled_back hw 53 fieldSpec_AISChannelManagement_SouthWestLongitudeCorner2) (AISChannelManagement_SouthWestLongitudeCorner2 p),
     AISChannelManagement_SouthWestLatitudeCorner2 = map_option (scaled_back hw 53 fieldSpec_AISChannelManagement_SouthWestLatitudeCorner2) (AISChannelManagement_SouthWestLatitudeCorner2 p),
     AISChannelManagement_AddressedOrBroadcastMessageIndicator = take_bit 1 (AISChannelManagement_AddressedOrBroadcastMessageIndicator p),
     AISChannelManagement_ChannelABandwidth = take_bit 1 (AISChannelManagement_ChannelABandwidth p),
     AISChannelManagement_ChannelBBandwidth = take_bit 1 (AISChannelManagement_ChannelBBandwidth p),
     AISChannelManagement_TransitionalZoneSize = take_bit 3 (AISChannelManagement_TransitionalZoneSize p)\<rparr>"

lemma AISChannelManagement_codec: "codec (EncodeAISChannelManagement hw) DecodeAISChannelManagement AISChannelManagement_Info 129806 31
    (\<lambda>p. AISChannelManagement_SourceID p \<noteq> None) (AISChannelManagement_received hw)"
  unfolding EncodeAISChannelManagement_def DecodeAISChannelManagement_def AISChannelManagement_received_def
  by (rule codec.intro, rule carries_cong, (rule codec_steps carries_end
      | simp add: codec_facts pin_read lookup_read lookup_read_1 unit_read fieldSpec_AISChannelManagement_SourceID_def fieldSpec_AISChannelManagement_ChannelA_def fieldSpec_AISChannelManagement_ChannelB_def fieldSpec_AISChannelManagement_NorthEastLongitudeCorner1_def fieldSpec_AISChannelManagement_NorthEastLatitudeCorner1_def fieldSpec_AISChannelManagement_SouthWestLongitudeCorner2_def fieldSpec_AISChannelManagement_SouthWestLatitudeCorner2_def)+)

subsection \<open>AISClassBGroupAssignment\<close>

definition fieldSpec_AISClassBGroupAssignment_SourceID :: FieldSpec where
  "fieldSpec_AISClassBGroupAssignment_SourceID = unsigned_spec 32 8 0x0 0x0 0"

definition fieldSpec_AISClassBGroupAssignment_NorthEastLongitudeCorner1 :: ScaledSpec where
  "fieldSpec_AISClassBGroupAssignment_NorthEastLongitudeCorner1 =
     scaled_spec 32 48 0x7FFFFFFD 0x7FFFFFFF 0 True 2 (fl64 0.00000010000000116860974) (Some (- 180)) (Some 180)"

definition fieldSpec_AISClassBGroupAssignment_NorthEastLatitudeCorner1 :: ScaledSpec where
  "fieldSpec_AISClassBGroupAssignment_NorthEastLatitudeCorner1 =
     scaled_spec 32 80 0x7FFFFFFD 0x7FFFFFFF 0 True 2 (fl64 0.00000010000000116860974) (Some (- 90)) (Some 90)"

definition fieldSpec_AISClassBGroupAssignment_SouthWestLongitudeCorner2 :: ScaledSpec where
  "fieldSpec_AISClassBGroupAssignment_SouthWestLongitudeCorner2 =
     scaled_spec 32 112 0x7FFFFFFD 0x7FFFFFFF 0 True 2 (fl64 0.00000010000000116860974) (Some (- 180)) (Some 180)"

definition fieldSpec_AISClassBGroupAssignment_SouthWestLatitudeCorner2 :: ScaledSpec where
  "fieldSpec_AISClassBGroupAssignment_SouthWestLatitudeCorner2 =
     scaled_spec 32 144 0x7FFFFFFD 0x7FFFFFFF 0 True 2 (fl64 0.00000010000000116860974) (Some (- 90)) (Some 90)"

definition fieldSpec_AISClassBGroupAssignment_QuietTime :: ScaledSpec where
  "fieldSpec_AISClassBGroupAssignment_QuietTime =
     scaled_spec 4 220 0xD 0xF 0 False 2 60 None None"

record AISClassBGroupAssignment =
  AISClassBGroupAssignment_Info :: MessageInfo
  AISClassBGroupAssignment_MessageID :: u8
  AISClassBGroupAssignment_RepeatIndicator :: u8
  AISClassBGroupAssignment_SourceID :: "u32 option"
  AISClassBGroupAssignment_TxRxMode :: u8
  AISClassBGroupAssignment_NorthEastLongitudeCorner1 :: "rat option"
  AISClassBGroupAssignment_NorthEastLatitudeCorner1 :: "rat option"
  AISClassBGroupAssignment_SouthWestLongitudeCorner2 :: "rat option"
  AISClassBGroupAssignment_SouthWestLatitudeCorner2 :: "rat option"
  AISClassBGroupAssignment_StationType :: u8
  AISClassBGroupAssignment_ShipAndCargoFilter :: u8
  AISClassBGroupAssignment_ReportingInterval :: u8
  AISClassBGroupAssignment_QuietTime :: "rat option"

definition DecodeAISClassBGroupAssignment :: "MessageInfo \<Rightarrow> (DataStream, AISClassBGroupAssignment) step" where
  "DecodeAISClassBGroupAssignment info =
     field ''AISClassBGroupAssignment-MessageID'' (readLookupField 6) (\<lambda>v1.
     field ''AISClassBGroupAssignment-RepeatIndicator'' (readLookupField 2) (\<lambda>v2.
     field ''AISClassBGroupAssignment-SourceID'' (ReadRaw go_uint32 (Some fieldSpec_AISClassBGroupAssignment_SourceID)) (\<lambda>v3.
     skip 2 (
     field ''AISClassBGroupAssignment-TxRxMode'' (readLookupField 4) (\<lambda>v5.
     skip 2 (
     field ''AISClassBGroupAssignment-NorthEastLongitudeCorner1'' (ReadScaled 53 (Some fieldSpec_AISClassBGroupAssignment_NorthEastLongitudeCorner1)) (\<lambda>v7.
     field ''AISClassBGroupAssignment-NorthEastLatitudeCorner1'' (ReadScaled 53 (Some fieldSpec_AISClassBGroupAssignment_NorthEastLatitudeCorner1)) (\<lambda>v8.
     field ''AISClassBGroupAssignment-SouthWestLongitudeCorner2'' (ReadScaled 53 (Some fieldSpec_AISClassBGroupAssignment_SouthWestLongitudeCorner2)) (\<lambda>v9.
     field ''AISClassBGroupAssignment-SouthWestLatitudeCorner2'' (ReadScaled 53 (Some fieldSpec_AISClassBGroupAssignment_SouthWestLatitudeCorner2)) (\<lambda>v10.
     field ''AISClassBGroupAssignment-StationType'' (readLookupField 4) (\<lambda>v11.
     skip 4 (
     field ''AISClassBGroupAssignment-ShipAndCargoFilter'' (readLookupField 8) (\<lambda>v13.
     skip 22 (
     skip 2 (
     field ''AISClassBGroupAssignment-ReportingInterval'' (readLookupField 4) (\<lambda>v16.
     field ''AISClassBGroupAssignment-QuietTime'' (ReadScaled 24 (Some fieldSpec_AISClassBGroupAssignment_QuietTime)) (\<lambda>v17.
     skip 6 (
     skip 2 (
     returnE \<lparr>AISClassBGroupAssignment_Info = info,
       AISClassBGroupAssignment_MessageID = ucast v1,
       AISClassBGroupAssignment_RepeatIndicator = ucast v2,
       AISClassBGroupAssignment_SourceID = map_option of_int v3,
       AISClassBGroupAssignment_TxRxMode = ucast v5,
       AISClassBGroupAssignment_NorthEastLongitudeCorner1 = v7,
       AISClassBGroupAssignment_NorthEastLatitudeCorner1 = v8,
       AISClassBGroupAssignment_SouthWestLongitudeCorner2 = v9,
       AISClassBGroupAssignment_SouthWestLatitudeCorner2 = v10,
       AISClassBGroupAssignment_StationType = ucast v11,
       AISClassBGroupAssignment_ShipAndCargoFilter = ucast v13,
       AISClassBGroupAssignment_ReportingInterval = ucast v16,
       AISClassBGroupAssignment_QuietTime = v17\<rparr>)))))))))))))))))))"

definition EncodeAISClassBGroupAssignment :: "(rat \<Rightarrow> u64) \<Rightarrow> gotime \<Rightarrow> AISClassBGroupAssignment \<Rightarrow> (DataStream, MessageInfo) step" where
  "EncodeAISClassBGroupAssignment hw now p =
     seqE (putNumberRaw (ucast (AISClassBGroupAssignment_MessageID p)) 6 0) (\<lambda>_.
     seqE (putNumberRaw (ucast (AISClassBGroupAssignment_RepeatIndicator p)) 2 6) (\<lambda>_.
     seqE (WriteRaw (map_option uint (AISClassBGroupAssignment_SourceID p)) (Some fieldSpec_AISClassBGroupAssignment_SourceID)) (\<lambda>_.
     seqE (writeSpare 2 40) (\<lambda>_.
     seqE (putNumberRaw (ucast (AISClassBGroupAssignment_TxRxMode p)) 4 42) (\<lambda>_.
     seqE (writeReserved 2 46) (\<lambda>_.
     seqE (WriteScaled hw (AISClassBGroupAssignment_NorthEastLongitudeCorner1 p) (Some fieldSpec_AISClassBGroupAssignment_NorthEastLongitudeCorner1)) (\<lambda>_.
     seqE (WriteScaled hw (AISClassBGroupAssignment_NorthEastLatitudeCorner1 p) (Some fieldSpec_AISClassBGroupAssignment_NorthEastLatitudeCorner1)) (\<lambda>_.
     seqE (WriteScaled hw (AISClassBGroupAssignment_SouthWestLongitudeCorner2 p) (Some fieldSpec_AISClassBGroupAssignment_SouthWestLongitudeCorner2)) (\<lambda>_.
     seqE (WriteScaled hw (AISClassBGroupAssignment_SouthWestLatitudeCorner2 p) (Some fieldSpec_AISClassBGroupAssignment_SouthWestLatitudeCorner2)) (\<lambda>_.
     seqE (putNumberRaw (ucast (AISClassBGroupAssignment_StationType p)) 4 176) (\<lambda>_.
     seqE (writeReserved 4 180) (\<lambda>_.
     seqE (putNumberRaw (ucast (AISClassBGroupAssignment_ShipAndCargoFilter p)) 8 184) (\<lambda>_.
     seqE (writeSpare 22 192) (\<lambda>_.
     seqE (writeReserved 2 214) (\<lambda>_.
     seqE (putNumberRaw (ucast (AISClassBGroupAssignment_ReportingInterval p)) 4 216) (\<lambda>_.
     seqE (WriteScaled hw (AISClassBGroupAssignment_QuietTime p) (Some fieldSpec_AISClassBGroupAssignment_QuietTime)) (\<lambda>_.
     seqE (writeSpare 6 224) (\<lambda>_.
     seqE (writeReserved 2 230) (\<lambda>_.
     returnE (finish_info now 129807 (AISClassBGroupAssignment_Info p)))))))))))))))))))))"

definition AISClassBGroupAssignment_received :: "(rat \<Rightarrow> u64) \<Rightarrow> MessageInfo \<Rightarrow> AISClassBGroupAssignment \<Rightarrow> AISClassBGroupAssignment" where
  "AISClassBGroupAssignment_received hw info p = \<lparr>AISClassBGroupAssignment_Info = info,
     AISClassBGroupAssignment_MessageID = take_bit 6 (AISClassBGroupAssignment_MessageID p),
     AISClassBGroupAssignment_RepeatIndicator = take_bit 2 (AISClassBGroupAssignment_RepeatIndicator p),
     AISClassBGroupAssignment_SourceID = pin fieldSpec_AISClassBGroupAssignment_SourceID (AISClassBGroupAssignment_SourceID p),
     AISClassBGroupAssignment_TxRxMode = take_bit 4 (AISClassBGroupAssignment_TxRxMode p),
     AISClassBGroupAssignment_NorthEastLongitudeCorner1 = map_option (scaled_back hw 53 fieldSpec_AISClassBGroupAssignment_NorthEastLongitudeCorner1) (AISClassBGroupAssignment_NorthEastLongitudeCorner1 p),
     AISClassBGroupAssignment_NorthEastLatitudeCorner1 = map_option (scaled_back hw 53 fieldSpec_AISClassBGroupAssignment_NorthEastLatitudeCorner1) (AISClassBGroupAssignment_NorthEastLatitudeCorner1 p),
     AISClassBGroupAssignment_SouthWestLongitudeCorner2 = map_option (scaled_back hw 53 fieldSpec_AISClassBGroupAssignment_SouthWestLongitudeCorner2) (AISClassBGroupAssignment_SouthWestLongitudeCorner2 p),
     AISClassBGroupAssignment_SouthWestLatitudeCorner2 = map_option (scaled_back hw 53 fieldSpec_AISClassBGroupAssignment_SouthWestLatitudeCorner2) (AISClassBGroupAssignment_SouthWestLatitudeCorner2 p),
     AISClassBGroupAssignment_StationType = take_bit 4 (AISClassBGroupAssignment_StationType p),
     AISClassBGroupAssignment_ShipAndCargoFilter = take_bit 8 (AISClassBGroupAssignment_ShipAndCargoFilter p),
     AISClassBGroupAssignment_ReportingInterval = take_bit 4 (AISClassBGroupAssignment_ReportingInterval p),
     AISClassBGroupAssignment_QuietTime = map_option (scaled_back hw 24 fieldSpec_AISClassBGroupAssignment_QuietTime) (AISClassBGroupAssignment_QuietTime p)\<rparr>"

lemma AISClassBGroupAssignment_codec: "codec (EncodeAISClassBGroupAssignment hw) DecodeAISClassBGroupAssignment AISClassBGroupAssignment_Info 129807 29
    (\<lambda>p. AISClassBGroupAssignment_SourceID p \<noteq> None) (AISClassBGroupAssignment_received hw)"
  unfolding EncodeAISClassBGroupAssignment_def DecodeAISClassBGroupAssignment_def AISClassBGroupAssignment_received_def
  by (rule codec.intro, rule carries_cong, (rule codec_steps carries_end
      | simp add: codec_facts pin_read lookup_read lookup_read_1 unit_read fieldSpec_AISClassBGroupAssignment_SourceID_def fieldSpec_AISClassBGroupAssignment_NorthEastLongitudeCorner1_def fieldSpec_AISClassBGroupAssignment_NorthEastLatitudeCorner1_def fieldSpec_AISClassBGroupAssignment_SouthWestLongitudeCorner2_def fieldSpec_AISClassBGroupAssignment_SouthWestLatitudeCorner2_def fieldSpec_AISClassBGroupAssignment_QuietTime_def)+)

subsection \<open>AISLongRangeBroadcastMessage\<close>

definition fieldSpec_AISLongRangeBroadcastMessage_SequenceID :: FieldSpec where
  "fieldSpec_AISLongRangeBroadcastMessage_SequenceID = unsigned_spec 8 0 0xFD 0xFF 2"

definition fieldSpec_AISLongRangeBroadcastMessage_UserID :: FieldSpec where
  "fieldSpec_AISLongRangeBroadcastMessage_UserID = unsigned_spec 32 16 0x0 0x0 0"

definition fieldSpec_AISLongRangeBroadcastMessage_Longitude :: ScaledSpec where
  "fieldSpec_AISLongRangeBroadcastMessage_Longitude =
     scaled_spec 32 48 0x7FFFFFFD 0x7FFFFFFF 0 True 2 (fl64 0.00000010000000116860974) (Some (- 180)) (Some 180)"

definition fieldSpec_AISLongRangeBroadcastMessage_Latitude :: ScaledSpec where
  "fieldSpec_AISLongRangeBroadcastMessage_Latitude =
     scaled_spec 32 80 0x7FFFFFFD 0x7FFFFFFF 0 True 2 (fl64 0.00000010000000116860974) (Some (- 90)) (Some 90)"

definition fieldSpec_AISLongRangeBroadcastMessage_PositionLatency :: FieldSpec where
  "fieldSpec_AISLongRangeBroadcastMessage_PositionLatency = unsigned_spec 1 118 0x0 0x1 1"

definition fieldSpec_AISLongRangeBroadcastMessage_SOG :: ScaledSpec where
  "fieldSpec_AISLongRangeBroadcastMessage_SOG =
     scaled_spec 16 120 0xFFFD 0xFFFF 0 False 2 (fl64 0.009999999776482582) None None"

definition fieldSpec_AISLongRangeBroadcastMessage_COG :: ScaledSpec where
  "fieldSpec_AISLongRangeBroadcastMessage_COG =
     scaled_spec 16 136 0xFFFD 0xFFFF 0 False 2 (fl64 0.00009999999747378752) (Some 0) (Some (fl64 6.2831852))"

record 'q AISLongRangeBroadcastMessage =
  AISLongRangeBroadcastMessage_Info :: MessageInfo
  AISLongRangeBroadcastMessage_SequenceID :: "u8 option"
  AISLongRangeBroadcastMessage_MessageID :: u8
  AISLongRangeBroadcastMessage_RepeatIndicator :: u8
  AISLongRangeBroadcastMessage_UserID :: "u32 option"
  AISLongRangeBroadcastMessage_Longitude :: "rat option"
  AISLongRangeBroadcastMessage_Latitude :: "rat option"
  AISLongRangeBroadcastMessage_PositionAccuracy :: u8
  AISLongRangeBroadcastMessage_RAIM :: u8
  AISLongRangeBroadcastMessage_NavStatus :: u8
  AISLongRangeBroadcastMessage_PositionLatency :: "u8 option"
  AISLongRangeBroadcastMessage_SOG :: "'q option"
  AISLongRangeBroadcastMessage_COG :: "rat option"
  AISLongRangeBroadcastMessage_AISTransceiverInformation :: u8

definition DecodeAISLongRangeBroadcastMessage :: "'q units_lib \<Rightarrow> MessageInfo \<Rightarrow> (DataStream, 'q AISLongRangeBroadcastMessage) step" where
  "DecodeAISLongRangeBroadcastMessage lib info =
     field ''AISLongRangeBroadcastMessage-SequenceID'' (ReadRaw go_uint8 (Some fieldSpec_AISLongRangeBroadcastMessage_SequenceID)) (\<lambda>v1.
     field ''AISLongRangeBroadcastMessage-MessageID'' (readLookupField 6) (\<lambda>v2.
     field ''AISLongRangeBroadcastMessage-RepeatIndicator'' (readLookupField 2) (\<lambda>v3.
     field ''AISLongRangeBroadcastMessage-UserID'' (ReadRaw go_uint32 (Some fieldSpec_AISLongRangeBroadcastMessage_UserID)) (\<lambda>v4.
     field ''AISLongRangeBroadcastMessage-Longitude'' (ReadScaled 53 (Some fieldSpec_AISLongRangeBroadcastMessage_Longitude)) (\<lambda>v5.
     field ''AISLongRangeBroadcastMessage-Latitude'' (ReadScaled 53 (Some fieldSpec_AISLongRangeBroadcastMessage_Latitude)) (\<lambda>v6.
     field ''AISLongRangeBroadcastMessage-PositionAccuracy'' (readLookupField 1) (\<lambda>v7.
     field ''AISLongRangeBroadcastMessage-RAIM'' (readLookupField 1) (\<lambda>v8.
     field ''AISLongRangeBroadcastMessage-NavStatus'' (readLookupField 4) (\<lambda>v9.
     field ''AISLongRangeBroadcastMessage-PositionLatency'' (ReadRaw go_uint8 (Some fieldSpec_AISLongRangeBroadcastMessage_PositionLatency)) (\<lambda>v10.
     skip 1 (
     field ''AISLongRangeBroadcastMessage-SOG'' (ReadScaled 24 (Some fieldSpec_AISLongRangeBroadcastMessage_SOG)) (\<lambda>v12.
     field ''AISLongRangeBroadcastMessage-COG'' (ReadScaled 24 (Some fieldSpec_AISLongRangeBroadcastMessage_COG)) (\<lambda>v13.
     field ''AISLongRangeBroadcastMessage-AISTransceiverInformation'' (readLookupField 5) (\<lambda>v14.
     skip 3 (
     returnE \<lparr>AISLongRangeBroadcastMessage_Info = info,
       AISLongRangeBroadcastMessage_SequenceID = map_option of_int v1,
       AISLongRangeBroadcastMessage_MessageID = ucast v2,
       AISLongRangeBroadcastMessage_RepeatIndicator = ucast v3,
       AISLongRangeBroadcastMessage_UserID = map_option of_int v4,
       AISLongRangeBroadcastMessage_Longitude = v5,
       AISLongRangeBroadcastMessage_Latitude = v6,
       AISLongRangeBroadcastMessage_PositionAccuracy = ucast v7,
       AISLongRangeBroadcastMessage_RAIM = ucast v8,
       AISLongRangeBroadcastMessage_NavStatus = ucast v9,
       AISLongRangeBroadcastMessage_PositionLatency = map_option of_int v10,
       AISLongRangeBroadcastMessage_SOG = nullableUnit lib MetersPerSecond v12,
       AISLongRangeBroadcastMessage_COG = v13,
       AISLongRangeBroadcastMessage_AISTransceiverInformation = ucast v14\<rparr>)))))))))))))))"

definition EncodeAISLongRangeBroadcastMessage :: "'q units_lib \<Rightarrow> (rat \<Rightarrow> u64) \<Rightarrow> gotime \<Rightarrow> 'q AISLongRangeBroadcastMessage \<Rightarrow> (DataStream, MessageInfo) step" where
  "EncodeAISLongRangeBroadcastMessage lib hw now p =
     seqE (WriteRaw (map_option uint (AISLongRangeBroadcastMessage_SequenceID p)) (Some fieldSpec_AISLongRangeBroadcastMessage_SequenceID)) (\<lambda>_.
     seqE (putNumberRaw (ucast (AISLongRangeBroadcastMessage_MessageID p)) 6 8) (\<lambda>_.
     seqE (putNumberRaw (ucast (AISLongRangeBroadcastMessage_RepeatIndicator p)) 2 14) (\<lambda>_.
     seqE (WriteRaw (map_option uint (AISLongRangeBroadcastMessage_UserID p)) (Some fieldSpec_AISLongRangeBroadcastMessage_UserID)) (\<lambda>_.
     seqE (WriteScaled hw (AISLongRangeBroadcastMessage_Longitude p) (Some fieldSpec_AISLongRangeBroadcastMessage_Longitude)) (\<lambda>_.
     seqE (WriteScaled hw (AISLongRangeBroadcastMessage_Latitude p) (Some fieldSpec_AISLongRangeBroadcastMessage_Latitude)) (\<lambda>_.
     seqE (putNumberRaw (ucast (AISLongRangeBroadcastMessage_PositionAccuracy p)) 1 112) (\<lambda>_.
     seqE (putNumberRaw (ucast (AISLongRangeBroadcastMessage_RAIM p)) 1 113) (\<lambda>_.
     seqE (putNumberRaw (ucast (AISLongRangeBroadcastMessage_NavStatus p)) 4 114) (\<lambda>_.
     seqE (WriteRaw (map_option uint (AISLongRangeBroadcastMessage_PositionLatency p)) (Some fieldSpec_AISLongRangeBroadcastMessage_PositionLatency)) (\<lambda>_.
     seqE (writeSpare 1 119) (\<lambda>_.
     seqE (writeUnit lib hw MetersPerSecond (AISLongRangeBroadcastMessage_SOG p) (Some fieldSpec_AISLongRangeBroadcastMessage_SOG)) (\<lambda>_.
     seqE (WriteScaled hw (AISLongRangeBroadcastMessage_COG p) (Some fieldSpec_AISLongRangeBroadcastMessage_COG)) (\<lambda>_.
     seqE (putNumberRaw (ucast (AISLongRangeBroadcastMessage_AISTransceiverInformation p)) 5 152) (\<lambda>_.
     seqE (writeReserved 3 157) (\<lambda>_.
     returnE (finish_info now 129813 (AISLongRangeBroadcastMessage_Info p)))))))))))))))))"

definition AISLongRangeBroadcastMessage_received :: "'q units_lib \<Rightarrow> (rat \<Rightarrow> u64) \<Rightarrow> MessageInfo \<Rightarrow> 'q AISLongRangeBroadcastMessage \<Rightarrow> 'q AISLongRangeBroadcastMessage" where
  "AISLongRangeBroadcastMessage_received lib hw info p = \<lparr>AISLongRangeBroadcastMessage_Info = info,
     AISLongRangeBroadcastMessage_SequenceID = pin fieldSpec_AISLongRangeBroadcastMessage_SequenceID (AISLongRangeBroadcastMessage_SequenceID p),
     AISLongRangeBroadcastMessage_MessageID = take_bit 6 (AISLongRangeBroadcastMessage_MessageID p),
     AISLongRangeBroadcastMessage_RepeatIndicator = take_bit 2 (AISLongRangeBroadcastMessage_RepeatIndicator p),
     AISLongRangeBroadcastMessage_UserID = pin fieldSpec_AISLongRangeBroadcastMessage_UserID (AISLongRangeBroadcastMessage_UserID p),
     AISLongRangeBroadcastMessage_Longitude = map_option (scaled_back hw 53 fieldSpec_AISLongRangeBroadcastMessage_Longitude) (AISLongRangeBroadcastMessage_Longitude p),
     AISLongRangeBroadcastMessage_Latitude = map_option (scaled_back hw 53 fieldSpec_AISLongRangeBroadcastMessage_Latitude) (AISLongRangeBroadcastMessage_Latitude p),
     AISLongRangeBroadcastMessage_PositionAccuracy = take_bit 1 (AISLongRangeBroadcastMessage_PositionAccuracy p),
     AISLongRangeBroadcastMessage_RAIM = take_bit 1 (AISLongRangeBroadcastMessage_RAIM p),
     AISLongRangeBroadcastMessage_NavStatus = take_bit 4 (AISLongRangeBroadcastMessage_NavStatus p),
     AISLongRangeBroadcastMessage_PositionLatency = pin fieldSpec_AISLongRangeBroadcastMessage_PositionLatency (AISLongRangeBroadcastMessage_PositionLatency p),
     AISLongRangeBroadcastMessage_SOG = map_option (unit_back lib hw MetersPerSecond fieldSpec_AISLongRangeBroadcastMessage_SOG) (AISLongRangeBroadcastMessage_SOG p),
     AISLongRangeBroadcastMessage_COG = map_option (scaled_back hw 24 fieldSpec_AISLongRangeBroadcastMessage_COG) (AISLongRangeBroadcastMessage_COG p),
     AISLongRangeBroadcastMessage_AISTransceiverInformation = take_bit 5 (AISLongRangeBroadcastMessage_AISTransceiverInformation p)\<rparr>"

lemma AISLongRangeBroadcastMessage_codec: "codec (EncodeAISLongRangeBroadcastMessage lib hw) (DecodeAISLongRangeBroadcastMessage lib) AISLongRangeBroadcastMessage_Info 129813 20
    (\<lambda>p. AISLongRangeBroadcastMessage_UserID p \<noteq> None) (AISLongRangeBroadcastMessage_received lib hw)"
  unfolding EncodeAISLongRangeBroadcastMessage_def DecodeAISLongRangeBroadcastMessage_def AISLongRangeBroadcastMessage_received_def
  by (rule codec.intro, rule carries_cong, (rule codec_steps carries_end
      | simp add: codec_facts pin_read lookup_read lookup_read_1 unit_read fieldSpec_AISLongRangeBroadcastMessage_SequenceID_def fieldSpec_AISLongRangeBroadcastMessage_UserID_def fieldSpec_AISLongRangeBroadcastMessage_Longitude_def fieldSpec_AISLongRangeBroadcastMessage_Latitude_def fieldSpec_AISLongRangeBroadcastMessage_PositionLatency_def fieldSpec_AISLongRangeBroadcastMessage_SOG_def fieldSpec_AISLongRangeBroadcastMessage_COG_def)+)

subsection \<open>LoranCTdData\<close>

definition fieldSpec_LoranCTdData_GroupRepetitionIntervalGri :: ScaledSpec where
  "fieldSpec_LoranCTdData_GroupRepetitionIntervalGri =
     scaled_spec 32 0 0x7FFFFFFD 0x7FFFFFFF 0 True 2 (fl64 0.0000000009999999717180685) None None"

definition fieldSpec_LoranCTdData_MasterRange :: ScaledSpec where
  "fieldSpec_LoranCTdData_MasterRange =
     scaled_spec 32 32 0x7FFFFFFD 0x7FFFFFFF 0 True 2 (fl64 0.0000000009999999717180685) None None"

definition fieldSpec_LoranCTdData_VSecondaryTd :: ScaledSpec where
  "fieldSpec_LoranCTdData_VSecondaryTd =
     scaled_spec 32 64 0x7FFFFFFD 0x7FFFFFFF 0 True 2 (fl64 0.0000000009999999717180685) None None"

definition fieldSpec_LoranCTdData_WSecondaryTd :: ScaledSpec where
  "fieldSpec_LoranCTdData_WSecondaryTd =
     scaled_spec 32 96 0x7FFFFFFD 0x7FFFFFFF 0 True 2 (fl64 0.0000000009999999717180685) None None"

definition fieldSpec_LoranCTdData_XSecondaryTd :: ScaledSpec where
  "fieldSpec_LoranCTdData_XSecondaryTd =
     scaled_spec 32 128 0x7FFFFFFD 0x7FFFFFFF 0 True 2 (fl64 0.0000000009999999717180685) None None"

definition fieldSpec_LoranCTdData_YSecondaryTd :: ScaledSpec where
  "fieldSpec_LoranCTdData_YSecondaryTd =
     scaled_spec 32 160 0x7FFFFFFD 0x7FFFFFFF 0 True 2 (fl64 0.0000000009999999717180685) None None"

definition fieldSpec_LoranCTdData_ZSecondaryTd :: ScaledSpec where
  "fieldSpec_LoranCTdData_ZSecondaryTd =
     scaled_spec 32 192 0x7FFFFFFD 0x7FFFFFFF 0 True 2 (fl64 0.0000000009999999717180685) None None"

record LoranCTdData =
  LoranCTdData_Info :: MessageInfo
  LoranCTdData_GroupRepetitionIntervalGri :: "rat option"
  LoranCTdData_MasterRange :: "rat option"
  LoranCTdData_VSecondaryTd :: "rat option"
  LoranCTdData_WSecondaryTd :: "rat option"
  LoranCTdData_XSecondaryTd :: "rat option"
  LoranCTdData_YSecondaryTd :: "rat option"
  LoranCTdData_ZSecondaryTd :: "rat option"
  LoranCTdData_StationStatusMaster :: u16
  LoranCTdData_StationStatusV :: u16
  LoranCTdData_StationStatusW :: u16
  LoranCTdData_StationStatusX :: u16
  LoranCTdData_StationStatusY :: u16
  LoranCTdData_StationStatusZ :: u16
  LoranCTdData_Mode :: u8

definition DecodeLoranCTdData :: "MessageInfo \<Rightarrow> (DataStream, LoranCTdData) step" where
  "DecodeLoranCTdData info =
     field ''LoranCTdData-GroupRepetitionIntervalGri'' (ReadScaled 53 (Some fieldSpec_LoranCTdData_GroupRepetitionIntervalGri)) (\<lambda>v1.
     field ''LoranCTdData-MasterRange'' (ReadScaled 53 (Some fieldSpec_LoranCTdData_MasterRange)) (\<lambda>v2.
     field ''LoranCTdData-VSecondaryTd'' (ReadScaled 53 (Some fieldSpec_LoranCTdData_VSecondaryTd)) (\<lambda>v3.
     field ''LoranCTdData-WSecondaryTd'' (ReadScaled 53 (Some fieldSpec_LoranCTdData_WSecondaryTd)) (\<lambda>v4.
     field ''LoranCTdData-XSecondaryTd'' (ReadScaled 53 (Some fieldSpec_LoranCTdData_XSecondaryTd)) (\<lambda>v5.
     field ''LoranCTdData-YSecondaryTd'' (ReadScaled 53 (Some fieldSpec_LoranCTdData_YSecondaryTd)) (\<lambda>v6.
     field ''LoranCTdData-ZSecondaryTd'' (ReadScaled 53 (Some fieldSpec_LoranCTdData_ZSecondaryTd)) (\<lambda>v7.
     field ''LoranCTdData-StationStatusMaster'' (readLookupField 4) (\<lambda>v8.
     field ''LoranCTdData-StationStatusV'' (readLookupField 4) (\<lambda>v9.
     field ''LoranCTdData-StationStatusW'' (readLookupField 4) (\<lambda>v10.
     field ''LoranCTdData-StationStatusX'' (readLookupField 4) (\<lambda>v11.
     field ''LoranCTdData-StationStatusY'' (readLookupField 4) (\<lambda>v12.
     field ''LoranCTdData-StationStatusZ'' (readLookupField 4) (\<lambda>v13.
     field ''LoranCTdData-Mode'' (readLookupField 4) (\<lambda>v14.
     skip 4 (
     returnE \<lparr>LoranCTdData_Info = info,
       LoranCTdData_GroupRepetitionIntervalGri = v1,
       LoranCTdData_MasterRange = v2,
       LoranCTdData_VSecondaryTd = v3,
       LoranCTdData_WSecondaryTd = v4,
       LoranCTdData_XSecondaryTd = v5,
       LoranCTdData_YSecondaryTd = v6,
       LoranCTdData_ZSecondaryTd = v7,
       LoranCTdData_StationStatusMaster = ucast v8,
       LoranCTdData_StationStatusV = ucast v9,
       LoranCTdData_StationStatusW = ucast v10,
       LoranCTdData_StationStatusX = ucast v11,
       LoranCTdData_StationStatusY = ucast v12,
       LoranCTdData_StationStatusZ = ucast v13,
       LoranCTdData_Mode = ucast v14\<rparr>)))))))))))))))"

definition EncodeLoranCTdData :: "(rat \<Rightarrow> u64) \<Rightarrow> gotime \<Rightarrow> LoranCTdData \<Rightarrow> (DataStream, MessageInfo) step" where
  "EncodeLoranCTdData hw now p =
     seqE (WriteScaled hw (LoranCTdData_GroupRepetitionIntervalGri p) (Some fieldSpec_LoranCTdData_GroupRepetitionIntervalGri)) (\<lambda>_.
     seqE (WriteScaled hw (LoranCTdData_MasterRange p) (Some fieldSpec_LoranCTdData_MasterRange)) (\<lambda>_.
     seqE (WriteScaled hw (LoranCTdData_VSecondaryTd p) (Some fieldSpec_LoranCTdData_VSecondaryTd)) (\<lambda>_.
     seqE (WriteScaled hw (LoranCTdData_WSecondaryTd p) (Some fieldSpec_LoranCTdData_WSecondaryTd)) (\<lambda>_.
     seqE (WriteScaled hw (LoranCTdData_XSecondaryTd p) (Some fieldSpec_LoranCTdData_XSecondaryTd)) (\<lambda>_.
     seqE (WriteScaled hw (LoranCTdData_YSecondaryTd p) (Some fieldSpec_LoranCTdData_YSecondaryTd)) (\<lambda>_.
     seqE (WriteScaled hw (LoranCTdData_ZSecondaryTd p) (Some fieldSpec_LoranCTdData_ZSecondaryTd)) (\<lambda>_.
     seqE (putNumberRaw (ucast (LoranCTdData_StationStatusMaster p)) 4 224) (\<lambda>_.
     seqE (putNumberRaw (ucast (LoranCTdData_StationStatusV p)) 4 228) (\<lambda>_.
     seqE (putNumberRaw (ucast (LoranCTdData_StationStatusW p)) 4 232) (\<lambda>_.
     seqE (putNumberRaw (ucast (LoranCTdData_StationStatusX p)) 4 236) (\<lambda>_.
     seqE (putNumberRaw (ucast (LoranCTdData_StationStatusY p)) 4 240) (\<lambda>_.
     seqE (putNumberRaw (ucast (LoranCTdData_StationStatusZ p)) 4 244) (\<lambda>_.
     seqE (putNumberRaw (ucast (LoranCTdData_Mode p)) 4 248) (\<lambda>_.
     seqE (writeReserved 4 252) (\<lambda>_.
     returnE (finish_info now 130052 (LoranCTdData_Info p)))))))))))))))))"

definition LoranCTdData_received :: "(rat \<Rightarrow> u64) \<Rightarrow> MessageInfo \<Rightarrow> LoranCTdData \<Rightarrow> LoranCTdData" where
  "LoranCTdData_received hw info p = \<lparr>LoranCTdData_Info = info,
     LoranCTdData_GroupRepetitionIntervalGri = map_option (scaled_back hw 53 fieldSpec_LoranCTdData_GroupRepetitionIntervalGri) (LoranCTdData_GroupRepetitionIntervalGri p),
     LoranCTdData_MasterRange = map_option (scaled_back hw 53 fieldSpec_LoranCTdData_MasterRange) (LoranCTdData_MasterRange p),
     LoranCTdData_VSecondaryTd = map_option (scaled_back hw 53 fieldSpec_LoranCTdData_VSecondaryTd) (LoranCTdData_VSecondaryTd p),
     LoranCTdData_WSecondaryTd = map_option (scaled_back hw 53 fieldSpec_LoranCTdData_WSecondaryTd) (LoranCTdData_WSecondaryTd p),
     LoranCTdData_XSecondaryTd = map_option (scaled_back hw 53 fieldSpec_LoranCTdData_XSecondaryTd) (LoranCTdData_XSecondaryTd p),
     LoranCTdData_YSecondaryTd = map_option (scaled_back hw 53 fieldSpec_LoranCTdData_YSecondaryTd) (LoranCTdData_YSecondaryTd p),
     LoranCTdData_ZSecondaryTd = map_option (scaled_back hw 53 fieldSpec_LoranCTdData_ZSecondaryTd) (LoranCTdData_ZSecondaryTd p),
     LoranCTdData_StationStatusMaster = take_bit 4 (LoranCTdData_StationStatusMaster p),
     LoranCTdData_StationStatusV = take_bit 4 (LoranCTdData_StationStatusV p),
     LoranCTdData_StationStatusW = take_bit 4 (LoranCTdData_StationStatusW p),
     LoranCTdData_StationStatusX = take_bit 4 (LoranCTdData_StationStatusX p),
     LoranCTdData_StationStatusY = take_bit 4 (LoranCTdData_StationStatusY p),
     LoranCTdData_StationStatusZ = take_bit 4 (LoranCTdData_StationStatusZ p),
     LoranCTdData_Mode = take_bit 4 (LoranCTdData_Mode p)\<rparr>"

lemma LoranCTdData_codec: "codec (EncodeLoranCTdData hw) DecodeLoranCTdData LoranCTdData_Info 130052 32
    (\<lambda>_. True) (LoranCTdData_received hw)"
  unfolding EncodeLoranCTdData_def DecodeLoranCTdData_def LoranCTdData_received_def
  by (rule codec.intro, rule carries_cong, (rule codec_steps carries_end
      | simp add: codec_facts pin_read lookup_read lookup_read_1 unit_read fieldSpec_LoranCTdData_GroupRepetitionIntervalGri_def fieldSpec_LoranCTdData_MasterRange_def fieldSpec_LoranCTdData_VSecondaryTd_def fieldSpec_LoranCTdData_WSecondaryTd_def fieldSpec_LoranCTdData_XSecondaryTd_def fieldSpec_LoranCTdData_YSecondaryTd_def fieldSpec_LoranCTdData_ZSecondaryTd_def)+)

subsection \<open>LoranCRangeData\<close>

definition fieldSpec_LoranCRangeData_GroupRepetitionIntervalGri :: ScaledSpec where
  "fieldSpec_LoranCRangeData_GroupRepetitionIntervalGri =
     scaled_spec 32 0 0x7FFFFFFD 0x7FFFFFFF 0 True 2 (fl64 0.0000000009999999717180685) None None"

definition fieldSpec_LoranCRangeData_MasterRange :: ScaledSpec where
  "fieldSpec_LoranCRangeData_MasterRange =
     scaled_spec 32 32 0x7FFFFFFD 0x7FFFFFFF 0 True 2 (fl64 0.0000000009999999717180685) None None"

definition fieldSpec_LoranCRangeData_VSecondaryRange :: ScaledSpec where
  "fieldSpec_LoranCRangeData_VSecondaryRange =
     scaled_spec 32 64 0x7FFFFFFD 0x7FFFFFFF 0 True 2 (fl64 0.0000000009999999717180685) None None"

definition fieldSpec_LoranCRangeData_WSecondaryRange :: ScaledSpec where
  "fieldSpec_LoranCRangeData_WSecondaryRange =
     scaled_spec 32 96 0x7FFFFFFD 0x7FFFFFFF 0 True 2 (fl64 0.0000000009999999717180685) None None"

definition fieldSpec_LoranCRangeData_XSecondaryRange :: ScaledSpec where
  "fieldSpec_LoranCRangeData_XSecondaryRange =
     scaled_spec 32 128 0x7FFFFFFD 0x7FFFFFFF 0 True 2 (fl64 0.0000000009999999717180685) None None"

definition fieldSpec_LoranCRangeData_YSecondaryRange :: ScaledSpec where
  "fieldSpec_LoranCRangeData_YSecondaryRange =
     scaled_spec 32 160 0x7FFFFFFD 0x7FFFFFFF 0 True 2 (fl64 0.0000000009999999717180685) None None"

definition fieldSpec_LoranCRangeData_ZSecondaryRange :: ScaledSpec where
  "fieldSpec_LoranCRangeData_ZSecondaryRange =
     scaled_spec 32 192 0x7FFFFFFD 0x7FFFFFFF 0 True 2 (fl64 0.0000000009999999717180685) None None"

record LoranCRangeData =
  LoranCRangeData_Info :: MessageInfo
  LoranCRangeData_GroupRepetitionIntervalGri :: "rat option"
  LoranCRangeData_MasterRange :: "rat option"
  LoranCRangeData_VSecondaryRange :: "rat option"
  LoranCRangeData_WSecondaryRange :: "rat option"
  LoranCRangeData_XSecondaryRange :: "rat option"
  LoranCRangeData_YSecondaryRange :: "rat option"
  LoranCRangeData_ZSecondaryRange :: "rat option"
  LoranCRangeData_StationStatusMaster :: u16
  LoranCRangeData_StationStatusV :: u16
  LoranCRangeData_StationStatusW :: u16
  LoranCRangeData_StationStatusX :: u16
  LoranCRangeData_StationStatusY :: u16
  LoranCRangeData_StationStatusZ :: u16
  LoranCRangeData_Mode :: u8

definition DecodeLoranCRangeData :: "MessageInfo \<Rightarrow> (DataStream, LoranCRangeData) step" where
  "DecodeLoranCRangeData info =
     field ''LoranCRangeData-GroupRepetitionIntervalGri'' (ReadScaled 53 (Some fieldSpec_LoranCRangeData_GroupRepetitionIntervalGri)) (\<lambda>v1.
     field ''LoranCRangeData-MasterRange'' (ReadScaled 53 (Some fieldSpec_LoranCRangeData_MasterRange)) (\<lambda>v2.
     field ''LoranCRangeData-VSecondaryRange'' (ReadScaled 53 (Some fieldSpec_LoranCRangeData_VSecondaryRange)) (\<lambda>v3.
     field ''LoranCRangeData-WSecondaryRange'' (ReadScaled 53 (Some fieldSpec_LoranCRangeData_WSecondaryRange)) (\<lambda>v4.
     field ''LoranCRangeData-XSecondaryRange'' (ReadScaled 53 (Some fieldSpec_LoranCRangeData_XSecondaryRange)) (\<lambda>v5.
     field ''LoranCRangeData-YSecondaryRange'' (ReadScaled 53 (Some fieldSpec_LoranCRangeData_YSecondaryRange)) (\<lambda>v6.
     field ''LoranCRangeData-ZSecondaryRange'' (ReadScaled 53 (Some fieldSpec_LoranCRangeData_ZSecondaryRange)) (\<lambda>v7.
     field ''LoranCRangeData-StationStatusMaster'' (readLookupField 4) (\<lambda>v8.
     field ''LoranCRangeData-StationStatusV'' (readLookupField 4) (\<lambda>v9.
     field ''LoranCRangeData-StationStatusW'' (readLookupField 4) (\<lambda>v10.
     field ''LoranCRangeData-StationStatusX'' (readLookupField 4) (\<lambda>v11.
     field ''LoranCRangeData-StationStatusY'' (readLookupField 4) (\<lambda>v12.
     field ''LoranCRangeData-StationStatusZ'' (readLookupField 4) (\<lambda>v13.
     field ''LoranCRangeData-Mode'' (readLookupField 4) (\<lambda>v14.
     skip 4 (
     returnE \<lparr>LoranCRangeData_Info = info,
       LoranCRangeData_GroupRepetitionIntervalGri = v1,
       LoranCRangeData_MasterRange = v2,
       LoranCRangeData_VSecondaryRange = v3,
       LoranCRangeData_WSecondaryRange = v4,
       LoranCRangeData_XSecondaryRange = v5,
       LoranCRangeData_YSecondaryRange = v6,
       LoranCRangeData_ZSecondaryRange = v7,
       LoranCRangeData_StationStatusMaster = ucast v8,
       LoranCRangeData_StationStatusV = ucast v9,
       LoranCRangeData_StationStatusW = ucast v10,
       LoranCRangeData_StationStatusX = ucast v11,
       LoranCRangeData_StationStatusY = ucast v12,
       LoranCRangeData_StationStatusZ = ucast v13,
       LoranCRangeData_Mode = ucast v14\<rparr>)))))))))))))))"

definition EncodeLoranCRangeData :: "(rat \<Rightarrow> u64) \<Rightarrow> gotime \<Rightarrow> LoranCRangeData \<Rightarrow> (DataStream, MessageInfo) step" where
  "EncodeLoranCRangeData hw now p =
     seqE (WriteScaled hw (LoranCRangeData_GroupRepetitionIntervalGri p) (Some fieldSpec_LoranCRangeData_GroupRepetitionIntervalGri)) (\<lambda>_.
     seqE (WriteScaled hw (LoranCRangeData_MasterRange p) (Some fieldSpec_LoranCRangeData_MasterRange)) (\<lambda>_.
     seqE (WriteScaled hw (LoranCRangeData_VSecondaryRange p) (Some fieldSpec_LoranCRangeData_VSecondaryRange)) (\<lambda>_.
     seqE (WriteScaled hw (LoranCRangeData_WSecondaryRange p) (Some fieldSpec_LoranCRangeData_WSecondaryRange)) (\<lambda>_.
     seqE (WriteScaled hw (LoranCRangeData_XSecondaryRange p) (Some fieldSpec_LoranCRangeData_XSecondaryRange)) (\<lambda>_.
     seqE (WriteScaled hw (LoranCRangeData_YSecondaryRange p) (Some fieldSpec_LoranCRangeData_YSecondaryRange)) (\<lambda>_.
     seqE (WriteScaled hw (LoranCRangeData_ZSecondaryRange p) (Some fieldSpec_LoranCRangeData_ZSecondaryRange)) (\<lambda>_.
     seqE (putNumberRaw (ucast (LoranCRangeData_StationStatusMaster p)) 4 224) (\<lambda>_.
     seqE (putNumberRaw (ucast (LoranCRangeData_StationStatusV p)) 4 228) (\<lambda>_.
     seqE (putNumberRaw (ucast (LoranCRangeData_StationStatusW p)) 4 232) (\<lambda>_.
     seqE (putNumberRaw (ucast (LoranCRangeData_StationStatusX p)) 4 236) (\<lambda>_.
     seqE (putNumberRaw (ucast (LoranCRangeData_StationStatusY p)) 4 240) (\<lambda>_.
     seqE (putNumberRaw (ucast (LoranCRangeData_StationStatusZ p)) 4 244) (\<lambda>_.
     seqE (putNumberRaw (ucast (LoranCRangeData_Mode p)) 4 248) (\<lambda>_.
     seqE (writeReserved 4 252) (\<lambda>_.
     returnE (finish_info now 130053 (LoranCRangeData_Info p)))))))))))))))))"

definition LoranCRangeData_received :: "(rat \<Rightarrow> u64) \<Rightarrow> MessageInfo \<Rightarrow> LoranCRangeData \<Rightarrow> LoranCRangeData" where
  "LoranCRangeData_received hw info p = \<lparr>LoranCRangeData_Info = info,
     LoranCRangeData_GroupRepetitionIntervalGri = map_option (scaled_back hw 53 fieldSpec_LoranCRangeData_GroupRepetitionIntervalGri) (LoranCRangeData_GroupRepetitionIntervalGri p),
     LoranCRangeData_MasterRange = map_option (scaled_back hw 53 fieldSpec_LoranCRangeData_MasterRange) (LoranCRangeData_MasterRange p),
     LoranCRangeData_VSecondaryRange = map_option (scaled_back hw 53 fieldSpec_LoranCRangeData_VSecondaryRange) (LoranCRangeData_VSecondaryRange p),
     LoranCRangeData_WSecondaryRange = map_option (scaled_back hw 53 fieldSpec_LoranCRangeData_WSecondaryRange) (LoranCRangeData_WSecondaryRange p),
     LoranCRangeData_XSecondaryRange = map_option (scaled_back hw 53 fieldSpec_LoranCRangeData_XSecondaryRange) (LoranCRangeData_XSecondaryRange p),
     LoranCRangeData_YSecondaryRange = map_option (scaled_back hw 53 fieldSpec_LoranCRangeData_YSecondaryRange) (LoranCRangeData_YSecondaryRange p),
     LoranCRangeData_ZSecondaryRange = map_option (scaled_back hw 53 fieldSpec_LoranCRangeData_ZSecondaryRange) (LoranCRangeData_ZSecondaryRange p),
     LoranCRangeData_StationStatusMaster = take_bit 4 (LoranCRangeData_StationStatusMaster p),
     LoranCRangeData_StationStatusV = take_bit 4 (LoranCRangeData_StationStatusV p),
     LoranCRangeData_StationStatusW = take_bit 4 (LoranCRangeData_StationStatusW p),
     LoranCRangeData_StationStatusX = take_bit 4 (LoranCRangeData_StationStatusX p),
     LoranCRangeData_StationStatusY = take_bit 4 (LoranCRangeData_StationStatusY p),
     LoranCRangeData_StationStatusZ = take_bit 4 (LoranCRangeData_StationStatusZ p),
     LoranCRangeData_Mode = take_bit 4 (LoranCRangeData_Mode p)\<rparr>"

lemma LoranCRangeData_codec: "codec (EncodeLoranCRangeData hw) DecodeLoranCRangeData LoranCRangeData_Info 130053 32
    (\<lambda>_. True) (LoranCRangeData_received hw)"
  unfolding EncodeLoranCRangeData_def DecodeLoranCRangeData_def LoranCRangeData_received_def
  by (rule codec.intro, rule carries_cong, (rule codec_steps carries_end
      | simp add: codec_facts pin_read lookup_read lookup_read_1 unit_read fieldSpec_LoranCRangeData_GroupRepetitionIntervalGri_def fieldSpec_LoranCRangeData_MasterRange_def fieldSpec_LoranCRangeData_VSecondaryRange_def fieldSpec_LoranCRangeData_WSecondaryRange_def fieldSpec_LoranCRangeData_XSecondaryRange_def fieldSpec_LoranCRangeData_YSecondaryRange_def fieldSpec_LoranCRangeData_ZSecondaryRange_def)+)

subsection \<open>LoranCSignalData\<close>

definition fieldSpec_LoranCSignalData_GroupRepetitionIntervalGri :: ScaledSpec where
  "fieldSpec_LoranCSignalData_GroupRepetitionIntervalGri =
     scaled_spec 32 0 0x7FFFFFFD 0x7FFFFFFF 0 True 2 (fl64 0.0000000009999999717180685) None None"

definition fieldSpec_LoranCSignalData_StationSnr :: ScaledSpec where
  "fieldSpec_LoranCSignalData_StationSnr =
     scaled_spec 16 40 0x7FFD 0x7FFF 0 True 2 (fl64 0.009999999776482582) None None"

definition fieldSpec_LoranCSignalData_StationEcd :: ScaledSpec where
  "fieldSpec_LoranCSignalData_StationEcd =
     scaled_spec 32 56 0x7FFFFFFD 0x7FFFFFFF 0 True 2 (fl64 0.0000000009999999717180685) None None"

definition fieldSpec_LoranCSignalData_StationAsf :: ScaledSpec where
  "fieldSpec_LoranCSignalData_StationAsf =
     scaled_spec 32 88 0x7FFFFFFD 0x7FFFFFFF 0 True 2 (fl64 0.0000000009999999717180685) None None"

record LoranCSignalData =
  LoranCSignalData_Info :: MessageInfo
  LoranCSignalData_GroupRepetitionIntervalGri :: "rat option"
  LoranCSignalData_StationIdentifier :: gostring
  LoranCSignalData_StationSnr :: "rat option"
  LoranCSignalData_StationEcd :: "rat option"
  LoranCSignalData_StationAsf :: "rat option"

definition DecodeLoranCSignalData :: "MessageInfo \<Rightarrow> (DataStream, LoranCSignalData) step" where
  "DecodeLoranCSignalData info =
     field ''LoranCSignalData-GroupRepetitionIntervalGri'' (ReadScaled 53 (Some fieldSpec_LoranCSignalData_GroupRepetitionIntervalGri)) (\<lambda>v1.
     field ''LoranCSignalData-StationIdentifier'' (readFixedString 8) (\<lambda>v2.
     field ''LoranCSignalData-StationSnr'' (ReadScaled 24 (Some fieldSpec_LoranCSignalData_StationSnr)) (\<lambda>v3.
     field ''LoranCSignalData-StationEcd'' (ReadScaled 53 (Some fieldSpec_LoranCSignalData_StationEcd)) (\<lambda>v4.
     field ''LoranCSignalData-StationAsf'' (ReadScaled 53 (Some fieldSpec_LoranCSignalData_StationAsf)) (\<lambda>v5.
     returnE \<lparr>LoranCSignalData_Info = info,
       LoranCSignalData_GroupRepetitionIntervalGri = v1,
       LoranCSignalData_StationIdentifier = v2,
       LoranCSignalData_StationSnr = v3,
       LoranCSignalData_StationEcd = v4,
       LoranCSignalData_StationAsf = v5\<rparr>)))))"

definition EncodeLoranCSignalData :: "(rat \<Rightarrow> u64) \<Rightarrow> gotime \<Rightarrow> LoranCSignalData \<Rightarrow> (DataStream, MessageInfo) step" where
  "EncodeLoranCSignalData hw now p =
     seqE (WriteScaled hw (LoranCSignalData_GroupRepetitionIntervalGri p) (Some fieldSpec_LoranCSignalData_GroupRepetitionIntervalGri)) (\<lambda>_.
     seqE (writeStringFix (LoranCSignalData_StationIdentifier p) 8 32) (\<lambda>_.
     seqE (WriteScaled hw (LoranCSignalData_StationSnr p) (Some fieldSpec_LoranCSignalData_StationSnr)) (\<lambda>_.
     seqE (WriteScaled hw (LoranCSignalData_StationEcd p) (Some fieldSpec_LoranCSignalData_StationEcd)) (\<lambda>_.
     seqE (WriteScaled hw (LoranCSignalData_StationAsf p) (Some fieldSpec_LoranCSignalData_StationAsf)) (\<lambda>_.
     returnE (finish_info now 130054 (LoranCSignalData_Info p)))))))"

definition LoranCSignalData_received :: "(rat \<Rightarrow> u64) \<Rightarrow> MessageInfo \<Rightarrow> LoranCSignalData \<Rightarrow> LoranCSignalData" where
  "LoranCSignalData_received hw info p = \<lparr>LoranCSignalData_Info = info,
     LoranCSignalData_GroupRepetitionIntervalGri = map_option (scaled_back hw 53 fieldSpec_LoranCSignalData_GroupRepetitionIntervalGri) (LoranCSignalData_GroupRepetitionIntervalGri p),
     LoranCSignalData_StationIdentifier = fixed_text 1 (LoranCSignalData_StationIdentifier p),
     LoranCSignalData_StationSnr = map_option (scaled_back hw 24 fieldSpec_LoranCSignalData_StationSnr) (LoranCSignalData_StationSnr p),
     LoranCSignalData_StationEcd = map_option (scaled_back hw 53 fieldSpec_LoranCSignalData_StationEcd) (LoranCSignalData_StationEcd p),
     LoranCSignalData_StationAsf = map_option (scaled_back hw 53 fieldSpec_LoranCSignalData_StationAsf) (LoranCSignalData_StationAsf p)\<rparr>"

lemma LoranCSignalData_codec: "codec (EncodeLoranCSignalData hw) DecodeLoranCSignalData LoranCSignalData_Info 130054 15
    (\<lambda>p. length (LoranCSignalData_StationIdentifier p) < 65000) (LoranCSignalData_received hw)"
  unfolding EncodeLoranCSignalData_def DecodeLoranCSignalData_def LoranCSignalData_received_def
  by (rule codec.intro, rule carries_cong, (rule codec_steps carries_end
      | simp add: codec_facts pin_read lookup_read lookup_read_1 unit_read fieldSpec_LoranCSignalData_GroupRepetitionIntervalGri_def fieldSpec_LoranCSignalData_StationSnr_def fieldSpec_LoranCSignalData_StationEcd_def fieldSpec_LoranCSignalData_StationAsf_def)+)

section \<open>Properties\<close>

interpretation gnss_dops: codec "EncodeGNSSDOPs hw" DecodeGNSSDOPs "GNSSDOPs_Info" 129539 8 "\<lambda>_. True" "GNSSDOPs_received hw"
  by (rule GNSSDOPs_codec)


end
