(* ===== verification/Pgnenvironment.thy ===== *)
theory Pgnenvironment
  imports Scaled
begin

text \<open>
  Messages of wind, weather, climate control, payload and entertainment. Each subsection has the field specifications
  of a message (\<open>fieldspec_vars_generated.go\<close>), its struct (\<open>pkg/pgn/types_generated.go\<close>),
  its decoder and its encoder (\<open>decoders_generated.go\<close>, \<open>encoders_generated.go\<close>); the
  function \<open>_received\<close> says what a struct is after the wire: an integer clamped to its field
  (\<open>pin\<close>), an enumeration cut to its width, bytes cut and filled up, text cut at its padding, a scaled
  number or a quantity rounded to the resolution of its field (\<open>scaled_back\<close>, \<open>unit_back\<close>).
  The lemma \<open>_codec\<close> says that the pair satisfies the contract \<open>codec\<close>. \<open>hw\<close> is
  what the processor makes of a float that no \<open>uint64\<close> holds, \<open>lib\<close> the package
  \<open>units\<close>, which is not part of this repository.
\<close>

section \<open>Messages\<close>

subsection \<open>WindData\<close>

definition fieldSpec_WindData_SID :: FieldSpec where
  "fieldSpec_WindData_SID = unsigned_spec 8 0 0xFD 0xFF 2"

definition fieldSpec_WindData_WindSpeed :: ScaledSpec where
  "fieldSpec_WindData_WindSpeed =
     scaled_spec 16 8 0xFFFD 0xFFFF 0 False 2 (fl64 0.009999999776482582) None None"

definition fieldSpec_WindData_WindAngle :: ScaledSpec where
  "fieldSpec_WindData_WindAngle =
     scaled_spec 16 24 0xFFFD 0xFFFF 0 False 2 (fl64 0.00009999999747378752) (Some 0) (Some (fl64 6.2831852))"

record 'q WindData =
  WindData_Info :: MessageInfo
  WindData_SID :: "u8 option"
  WindData_WindSpeed :: "'q option"
  WindData_WindAngle :: "rat option"
  WindData_Reference :: u8

definition DecodeWindData :: "'q units_lib \<Rightarrow> MessageInfo \<Rightarrow> (DataStream, 'q WindData) step" where
  "DecodeWindData lib info =
     field ''WindData-SID'' (ReadRaw go_uint8 (Some fieldSpec_WindData_SID)) (\<lambda>v1.
     field ''WindData-WindSpeed'' (ReadScaled 24 (Some fieldSpec_WindData_WindSpeed)) (\<lambda>v2.
     field ''WindData-WindAngle'' (ReadScaled 24 (Some fieldSpec_WindData_WindAngle)) (\<lambda>v3.
     field ''WindData-Reference'' (readLookupField 3) (\<lambda>v4.
     skip 21 (
     returnE \<lparr>WindData_Info = info,
       WindData_SID = map_option of_int v1,
       WindData_WindSpeed = nullableUnit lib MetersPerSecond v2,
       WindData_WindAngle = v3,
       WindData_Reference = ucast v4\<rparr>)))))"

definition EncodeWindData :: "'q units_lib \<Rightarrow> (rat \<Rightarrow> u64) \<Rightarrow> gotime \<Rightarrow> 'q WindData \<Rightarrow> (DataStream, MessageInfo) step" where
  "EncodeWindData lib hw now p =
     seqE (WriteRaw (map_option uint (WindData_SID p)) (Some fieldSpec_WindData_SID)) (\<lambda>_.
     seqE (writeUnit lib hw MetersPerSecond (WindData_WindSpeed p) (Some fieldSpec_WindData_WindSpeed)) (\<lambda>_.
     seqE (WriteScaled hw (WindData_WindAngle p) (Some fieldSpec_WindData_WindAngle)) (\<lambda>_.
     seqE (putNumberRaw (ucast (WindData_Reference p)) 3 40) (\<lambda>_.
     seqE (writeReserved 21 43) (\<lambda>_.
     returnE (finish_info now 130306 (WindData_Info p)))))))"

definition WindData_received :: "'q units_lib \<Rightarrow> (rat \<Rightarrow> u64) \<Rightarrow> MessageInfo \<Rightarrow> 'q WindData \<Rightarrow> 'q WindData" where
  "WindData_received lib hw info p = \<lparr>WindData_Info = info,
     WindData_SID = pin fieldSpec_WindData_SID (WindData_SID p),
     WindData_WindSpeed = map_option (unit_back lib hw MetersPerSecond fieldSpec_WindData_WindSpeed) (WindData_WindSpeed p),
     WindData_WindAngle = map_option (scaled_back hw 24 fieldSpec_WindData_WindAngle) (WindData_WindAngle p),
     WindData_Reference = take_bit 3 (WindData_Reference p)\<rparr>"

lemma WindData_codec: "codec (EncodeWindData lib hw) (DecodeWindData lib) WindData_Info 130306 8
    (\<lambda>_. True) (WindData_received lib hw)"
  unfolding EncodeWindData_def DecodeWindData_def WindData_received_def
  by (rule codec.intro, rule carries_cong, (rule codec_steps carries_end
      | simp add: codec_facts pin_read lookup_read lookup_read_1 unit_read fieldSpec_WindData_SID_def fieldSpec_WindData_WindSpeed_def fieldSpec_WindData_WindAngle_def)+)

subsection \<open>EnvironmentalParametersObsolete\<close>

definition fieldSpec_EnvironmentalParametersObsolete_SID :: FieldSpec where
  "fieldSpec_EnvironmentalParametersObsolete_SID = unsigned_spec 8 0 0xFD 0xFF 2"

definition fieldSpec_EnvironmentalParametersObsolete_WaterTemperature :: ScaledSpec where
  "fieldSpec_EnvironmentalParametersObsolete_WaterTemperature =
     scaled_spec 16 8 0xFFFD 0xFFFF 0 False 2 (fl64 0.009999999776482582) None None"

definition fieldSpec_EnvironmentalParametersObsolete_OutsideAmbientAirTemperature :: ScaledSpec where
  "fieldSpec_EnvironmentalParametersObsolete_OutsideAmbientAirTemperature =
     scaled_spec 16 24 0xFFFD 0xFFFF 0 False 2 (fl64 0.009999999776482582) None None"

definition fieldSpec_EnvironmentalParametersObsolete_AtmosphericPressure :: ScaledSpec where
  "fieldSpec_EnvironmentalParametersObsolete_AtmosphericPressure =
     scaled_spec 16 40 0xFFFD 0xFFFF 0 False 2 100 None None"

record 'q EnvironmentalParametersObsolete =
  EnvironmentalParametersObsolete_Info :: MessageInfo
  EnvironmentalParametersObsolete_SID :: "u8 option"
  EnvironmentalParametersObsolete_WaterTemperature :: "'q option"
  EnvironmentalParametersObsolete_OutsideAmbientAirTemperature :: "'q option"
  EnvironmentalParametersObsolete_AtmosphericPressure :: "'q option"

definition DecodeEnvironmentalParametersObsolete :: "'q units_lib \<Rightarrow> MessageInfo \<Rightarrow> (DataStream, 'q EnvironmentalParametersObsolete) step" where
  "DecodeEnvironmentalParametersObsolete lib info =
     field ''EnvironmentalParametersObsolete-SID'' (ReadRaw go_uint8 (Some fieldSpec_EnvironmentalParametersObsolete_SID)) (\<lambda>v1.
     field ''EnvironmentalParametersObsolete-WaterTemperature'' (ReadScaled 24 (Some fieldSpec_EnvironmentalParametersObsolete_WaterTemperature)) (\<lambda>v2.
     field ''EnvironmentalParametersObsolete-OutsideAmbientAirTemperature'' (ReadScaled 24 (Some fieldSpec_EnvironmentalParametersObsolete_OutsideAmbientAirTemperature)) (\<lambda>v3.
     field ''EnvironmentalParametersObsolete-AtmosphericPressure'' (ReadScaled 24 (Some fieldSpec_EnvironmentalParametersObsolete_AtmosphericPressure)) (\<lambda>v4.
     skip 8 (
     returnE \<lparr>EnvironmentalParametersObsolete_Info = info,
       EnvironmentalParametersObsolete_SID = map_option of_int v1,
       EnvironmentalParametersObsolete_WaterTemperature = nullableUnit lib Kelvin v2,
       EnvironmentalParametersObsolete_OutsideAmbientAirTemperature = nullableUnit lib Kelvin v3,
       EnvironmentalParametersObsolete_AtmosphericPressure = nullableUnit lib Pa v4\<rparr>)))))"

definition EncodeEnvironmentalParametersObsolete :: "'q units_lib \<Rightarrow> (rat \<Rightarrow> u64) \<Rightarrow> gotime \<Rightarrow> 'q EnvironmentalParametersObsolete \<Rightarrow> (DataStream, MessageInfo) step" where
  "EncodeEnvironmentalParametersObsolete lib hw now p =
     seqE (WriteRaw (map_option uint (EnvironmentalParametersObsolete_SID p)) (Some fieldSpec_EnvironmentalParametersObsolete_SID)) (\<lambda>_.
     seqE (writeUnit lib hw Kelvin (EnvironmentalParametersObsolete_WaterTemperature p) (Some fieldSpec_EnvironmentalParametersObsolete_WaterTemperature)) (\<lambda>_.
     seqE (writeUnit lib hw Kelvin (EnvironmentalParametersObsolete_OutsideAmbientAirTemperature p) (Some fieldSpec_EnvironmentalParametersObsolete_OutsideAmbientAirTemperature)) (\<lambda>_.
     seqE (writeUnit lib hw Pa (EnvironmentalParametersObsolete_AtmosphericPressure p) (Some fieldSpec_EnvironmentalParametersObsolete_AtmosphericPressure)) (\<lambda>_.
     seqE (writeReserved 8 56) (\<lambda>_.
     returnE (finish_info now 130310 (EnvironmentalParametersObsolete_Info p)))))))"

definition EnvironmentalParametersObsolete_received :: "'q units_lib \<Rightarrow> (rat \<Rightarrow> u64) \<Rightarrow> MessageInfo \<Rightarrow> 'q EnvironmentalParametersObsolete \<Rightarrow> 'q EnvironmentalParametersObsolete" where
  "EnvironmentalParametersObsolete_received lib hw info p = \<lparr>EnvironmentalParametersObsolete_Info = info,
     EnvironmentalParametersObsolete_SID = pin fieldSpec_EnvironmentalParametersObsolete_SID (EnvironmentalParametersObsolete_SID p),
     EnvironmentalParametersObsolete_WaterTemperature = map_option (unit_back lib hw Kelvin fieldSpec_EnvironmentalParametersObsolete_WaterTemperature) (EnvironmentalParametersObsolete_WaterTemperature p),
     EnvironmentalParametersObsolete_OutsideAmbientAirTemperature = map_option (unit_back lib hw Kelvin fieldSpec_EnvironmentalParametersObsolete_OutsideAmbientAirTemperature) (EnvironmentalParametersObsolete_OutsideAmbientAirTemperature p),
     EnvironmentalParametersObsolete_AtmosphericPressure = map_option (unit_back lib hw Pa fieldSpec_EnvironmentalParametersObsolete_AtmosphericPressure) (EnvironmentalParametersObsolete_AtmosphericPressure p)\<rparr>"

lemma EnvironmentalParametersObsolete_codec: "codec (EncodeEnvironmentalParametersObsolete lib hw) (DecodeEnvironmentalParametersObsolete lib) EnvironmentalParametersObsolete_Info 130310 8
    (\<lambda>_. True) (EnvironmentalParametersObsolete_received lib hw)"
  unfolding EncodeEnvironmentalParametersObsolete_def DecodeEnvironmentalParametersObsolete_def EnvironmentalParametersObsolete_received_def
  by (rule codec.intro, rule carries_cong, (rule codec_steps carries_end
      | simp add: codec_facts pin_read lookup_read lookup_read_1 unit_read fieldSpec_EnvironmentalParametersObsolete_SID_def fieldSpec_EnvironmentalParametersObsolete_WaterTemperature_def fieldSpec_EnvironmentalParametersObsolete_OutsideAmbientAirTemperature_def fieldSpec_EnvironmentalParametersObsolete_AtmosphericPressure_def)+)

subsection \<open>EnvironmentalParameters\<close>

definition fieldSpec_EnvironmentalParameters_SID :: FieldSpec where
  "fieldSpec_EnvironmentalParameters_SID = unsigned_spec 8 0 0xFD 0xFF 2"

definition fieldSpec_EnvironmentalParameters_Temperature :: ScaledSpec where
  "fieldSpec_EnvironmentalParameters_Temperature =
     scaled_spec 16 16 0xFFFD 0xFFFF 0 False 2 (fl64 0.009999999776482582) None None"

definition fieldSpec_EnvironmentalParameters_Humidity :: ScaledSpec where
  "fieldSpec_EnvironmentalParameters_Humidity =
     scaled_spec 16 32 0x7FFD 0x7FFF 0 True 2 (fl64 0.004000000189989805) None None"

definition fieldSpec_EnvironmentalParameters_AtmosphericPressure :: ScaledSpec where
  "fieldSpec_EnvironmentalParameters_AtmosphericPressure =
     scaled_spec 16 48 0xFFFD 0xFFFF 0 False 2 100 None None"

record 'q EnvironmentalParameters =
  EnvironmentalParameters_Info :: MessageInfo
  EnvironmentalParameters_SID :: "u8 option"
  EnvironmentalParameters_TemperatureSource :: u8
  EnvironmentalParameters_HumiditySource :: u8
  EnvironmentalParameters_Temperature :: "'q option"
  EnvironmentalParameters_Humidity :: "rat option"
  EnvironmentalParameters_AtmosphericPressure :: "'q option"

definition DecodeEnvironmentalParameters :: "'q units_lib \<Rightarrow> MessageInfo \<Rightarrow> (DataStream, 'q EnvironmentalParameters) step" where
  "DecodeEnvironmentalParameters lib info =
     field ''EnvironmentalParameters-SID'' (ReadRaw go_uint8 (Some fieldSpec_EnvironmentalParameters_SID)) (\<lambda>v1.
     field ''EnvironmentalParameters-TemperatureSource'' (readLookupField 6) (\<lambda>v2.
     field ''EnvironmentalParameters-HumiditySource'' (readLookupField 2) (\<lambda>v3.
     field ''EnvironmentalParameters-Temperature'' (ReadScaled 24 (Some fieldSpec_EnvironmentalParameters_Temperature)) (\<lambda>v4.
     field ''EnvironmentalParameters-Humidity'' (ReadScaled 24 (Some fieldSpec_EnvironmentalParameters_Humidity)) (\<lambda>v5.
     field ''EnvironmentalParameters-AtmosphericPressure'' (ReadScaled 24 (Some fieldSpec_EnvironmentalParameters_AtmosphericPressure)) (\<lambda>v6.
     returnE \<lparr>EnvironmentalParameters_Info = info,
       EnvironmentalParameters_SID = map_option of_int v1,
       EnvironmentalParameters_TemperatureSource = ucast v2,
       EnvironmentalParameters_HumiditySource = ucast v3,
       EnvironmentalParameters_Temperature = nullableUnit lib Kelvin v4,
       EnvironmentalParameters_Humidity = v5,
       EnvironmentalParameters_AtmosphericPressure = nullableUnit lib Pa v6\<rparr>))))))"

definition EncodeEnvironmentalParameters :: "'q units_lib \<Rightarrow> (rat \<Rightarrow> u64) \<Rightarrow> gotime \<Rightarrow> 'q EnvironmentalParameters \<Rightarrow> (DataStream, MessageInfo) step" where
  "EncodeEnvironmentalParameters lib hw now p =
     seqE (WriteRaw (map_option uint (EnvironmentalParameters_SID p)) (Some fieldSpec_EnvironmentalParameters_SID)) (\<lambda>_.
     seqE (putNumberRaw (ucast (EnvironmentalParameters_TemperatureSource p)) 6 8) (\<lambda>_.
     seqE (putNumberRaw (ucast (EnvironmentalParameters_HumiditySource p)) 2 14) (\<lambda>_.
     seqE (writeUnit lib hw Kelvin (EnvironmentalParameters_Temperature p) (Some fieldSpec_EnvironmentalParameters_Temperature)) (\<lambda>_.
     seqE (WriteScaled hw (EnvironmentalParameters_Humidity p) (Some fieldSpec_EnvironmentalParameters_Humidity)) (\<lambda>_.
     seqE (writeUnit lib hw Pa (EnvironmentalParameters_AtmosphericPressure p) (Some fieldSpec_EnvironmentalParameters_AtmosphericPressure)) (\<lambda>_.
     returnE (finish_info now 130311 (EnvironmentalParameters_Info p))))))))"

definition EnvironmentalParameters_received :: "'q units_lib \<Rightarrow> (rat \<Rightarrow> u64) \<Rightarrow> MessageInfo \<Rightarrow> 'q EnvironmentalParameters \<Rightarrow> 'q EnvironmentalParameters" where
  "EnvironmentalParameters_received lib hw info p = \<lparr>EnvironmentalParameters_Info = info,
     EnvironmentalParameters_SID = pin fieldSpec_EnvironmentalParameters_SID (EnvironmentalParameters_SID p),
     EnvironmentalParameters_TemperatureSource = take_bit 6 (EnvironmentalParameters_TemperatureSource p),
     EnvironmentalParameters_HumiditySource = take_bit 2 (EnvironmentalParameters_HumiditySource p),
     EnvironmentalParameters_Temperature = map_option (unit_back lib hw Kelvin fieldSpec_EnvironmentalParameters_Temperature) (EnvironmentalParameters_Temperature p),
     EnvironmentalParameters_Humidity = map_option (scaled_back hw 24 fieldSpec_EnvironmentalParameters_Humidity) (EnvironmentalParameters_Humidity p),
     EnvironmentalParameters_AtmosphericPressure = map_option (unit_back lib hw Pa fieldSpec_EnvironmentalParameters_AtmosphericPressure) (EnvironmentalParameters_AtmosphericPressure p)\<rparr>"

lemma EnvironmentalParameters_codec: "codec (EncodeEnvironmentalParameters lib hw) (DecodeEnvironmentalParameters lib) EnvironmentalParameters_Info 130311 8
    (\<lambda>_. True) (EnvironmentalParameters_received lib hw)"
  unfolding EncodeEnvironmentalParameters_def DecodeEnvironmentalParameters_def EnvironmentalParameters_received_def
  by (rule codec.intro, rule carries_cong, (rule codec_steps carries_end
      | simp add: codec_facts pin_read lookup_read lookup_read_1 unit_read fieldSpec_EnvironmentalParameters_SID_def fieldSpec_EnvironmentalParameters_Temperature_def fieldSpec_EnvironmentalParameters_Humidity_def fieldSpec_EnvironmentalParameters_AtmosphericPressure_def)+)

subsection \<open>Temperature\<close>

definition fieldSpec_Temperature_SID :: FieldSpec where
  "fieldSpec_Temperature_SID = unsigned_spec 8 0 0xFD 0xFF 2"

definition fieldSpec_Temperature_Instance :: FieldSpec where
  "fieldSpec_Temperature_Instance = unsigned_spec 8 8 0xFD 0xFF 2"

definition fieldSpec_Temperature_ActualTemperature :: ScaledSpec where
  "fieldSpec_Temperature_ActualTemperature =
     scaled_spec 16 24 0xFFFD 0xFFFF 0 False 2 (fl64 0.009999999776482582) None None"

definition fieldSpec_Temperature_SetTemperature :: ScaledSpec where
  "fieldSpec_Temperature_SetTemperature =
     scaled_spec 16 40 0xFFFD 0xFFFF 0 False 2 (fl64 0.009999999776482582) None None"

record 'q Temperature =
  Temperature_Info :: MessageInfo
  Temperature_SID :: "u8 option"
  Temperature_Instance :: "u8 option"
  Temperature_Source :: u8
  Temperature_ActualTemperature :: "'q option"
  Temperature_SetTemperature :: "'q option"

definition DecodeTemperature :: "'q units_lib \<Rightarrow> MessageInfo \<Rightarrow> (DataStream, 'q Temperature) step" where
  "DecodeTemperature lib info =
     field ''Temperature-SID'' (ReadRaw go_uint8 (Some fieldSpec_Temperature_SID)) (\<lambda>v1.
     field ''Temperature-Instance'' (ReadRaw go_uint8 (Some fieldSpec_Temperature_Instance)) (\<lambda>v2.
     field ''Temperature-Source'' (readLookupField 8) (\<lambda>v3.
     field ''Temperature-ActualTemperature'' (ReadScaled 24 (Some fieldSpec_Temperature_ActualTemperature)) (\<lambda>v4.
     field ''Temperature-SetTemperature'' (ReadScaled 24 (Some fieldSpec_Temperature_SetTemperature)) (\<lambda>v5.
     skip 8 (
     returnE \<lparr>Temperature_Info = info,
       Temperature_SID = map_option of_int v1,
       Temperature_Instance = map_option of_int v2,
       Temperature_Source = ucast v3,
       Temperature_ActualTemperature = nullableUnit lib Kelvin v4,
       Temperature_SetTemperature = nullableUnit lib Kelvin v5\<rparr>))))))"

definition EncodeTemperature :: "'q units_lib \<Rightarrow> (rat \<Rightarrow> u64) \<Rightarrow> gotime \<Rightarrow> 'q Temperature \<Rightarrow> (DataStream, MessageInfo) step" where
  "EncodeTemperature lib hw now p =
     seqE (WriteRaw (map_option uint (Temperature_SID p)) (Some fieldSpec_Temperature_SID)) (\<lambda>_.
     seqE (WriteRaw (map_option uint (Temperature_Instance p)) (Some fieldSpec_Temperature_Instance)) (\<lambda>_.
     seqE (putNumberRaw (ucast (Temperature_Source p)) 8 16) (\<lambda>_.
     seqE (writeUnit lib hw Kelvin (Temperature_ActualTemperature p) (Some fieldSpec_Temperature_ActualTemperature)) (\<lambda>_.
     seqE (writeUnit lib hw Kelvin (Temperature_SetTemperature p) (Some fieldSpec_Temperature_SetTemperature)) (\<lambda>_.
     seqE (writeReserved 8 56) (\<lambda>_.
     returnE (finish_info now 130312 (Temperature_Info p))))))))"

definition Temperature_received :: "'q units_lib \<Rightarrow> (rat \<Rightarrow> u64) \<Rightarrow> MessageInfo \<Rightarrow> 'q Temperature \<Rightarrow> 'q Temperature" where
  "Temperature_received lib hw info p = \<lparr>Temperature_Info = info,
     Temperature_SID = pin fieldSpec_Temperature_SID (Temperature_SID p),
     Temperature_Instance = pin fieldSpec_Temperature_Instance (Temperature_Instance p),
     Temperature_Source = take_bit 8 (Temperature_Source p),
     Temperature_ActualTemperature = map_option (unit_back lib hw Kelvin fieldSpec_Temperature_ActualTemperature) (Temperature_ActualTemperature p),
     Temperature_SetTemperature = map_option (unit_back lib hw Kelvin fieldSpec_Temperature_SetTemperature) (Temperature_SetTemperature p)\<rparr>"

lemma Temperature_codec: "codec (EncodeTemperature lib hw) (DecodeTemperature lib) Temperature_Info 130312 8
    (\<lambda>_. True) (Temperature_received lib hw)"
  unfolding EncodeTemperature_def DecodeTemperature_def Temperature_received_def
  by (rule codec.intro, rule carries_cong, (rule codec_steps carries_end
      | simp add: codec_facts pin_read lookup_read lookup_read_1 unit_read fieldSpec_Temperature_SID_def fieldSpec_Temperature_Instance_def fieldSpec_Temperature_ActualTemperature_def fieldSpec_Temperature_SetTemperature_def)+)

subsection \<open>Humidity\<close>

definition fieldSpec_Humidity_SID :: FieldSpec where
  "fieldSpec_Humidity_SID = unsigned_spec 8 0 0xFD 0xFF 2"

definition fieldSpec_Humidity_Instance :: FieldSpec where
  "fieldSpec_Humidity_Instance = unsigned_spec 8 8 0xFD 0xFF 2"

definition fieldSpec_Humidity_ActualHumidity :: ScaledSpec where
  "fieldSpec_Humidity_ActualHumidity =
     scaled_spec 16 24 0x7FFD 0x7FFF 0 True 2 (fl64 0.004000000189989805) None None"

definition fieldSpec_Humidity_SetHumidity :: ScaledSpec where
  "fieldSpec_Humidity_SetHumidity =
     scaled_spec 16 40 0x7FFD 0x7FFF 0 True 2 (fl64 0.004000000189989805) None None"

record Humidity =
  Humidity_Info :: MessageInfo
  Humidity_SID :: "u8 option"
  Humidity_Instance :: "u8 option"
  Humidity_Source :: u8
  Humidity_ActualHumidity :: "rat option"
  Humidity_SetHumidity :: "rat option"

definition DecodeHumidity :: "MessageInfo \<Rightarrow> (DataStream, Humidity) step" where
  "DecodeHumidity info =
     field ''Humidity-SID'' (ReadRaw go_uint8 (Some fieldSpec_Humidity_SID)) (\<lambda>v1.
     field ''Humidity-Instance'' (ReadRaw go_uint8 (Some fieldSpec_Humidity_Instance)) (\<lambda>v2.
     field ''Humidity-Source'' (readLookupField 8) (\<lambda>v3.
     field ''Humidity-ActualHumidity'' (ReadScaled 24 (Some fieldSpec_Humidity_ActualHumidity)) (\<lambda>v4.
     field ''Humidity-SetHumidity'' (ReadScaled 24 (Some fieldSpec_Humidity_SetHumidity)) (\<lambda>v5.
     skip 8 (
     returnE \<lparr>Humidity_Info = info,
       Humidity_SID = map_option of_int v1,
       Humidity_Instance = map_option of_int v2,
       Humidity_Source = ucast v3,
       Humidity_ActualHumidity = v4,
       Humidity_SetHumidity = v5\<rparr>))))))"

definition EncodeHumidity :: "(rat \<Rightarrow> u64) \<Rightarrow> gotime \<Rightarrow> Humidity \<Rightarrow> (DataStream, MessageInfo) step" where
  "EncodeHumidity hw now p =
     seqE (WriteRaw (map_option uint (Humidity_SID p)) (Some fieldSpec_Humidity_SID)) (\<lambda>_.
     seqE (WriteRaw (map_option uint (Humidity_Instance p)) (Some fieldSpec_Humidity_Instance)) (\<lambda>_.
     seqE (putNumberRaw (ucast (Humidity_Source p)) 8 16) (\<lambda>_.
     seqE (WriteScaled hw (Humidity_ActualHumidity p) (Some fieldSpec_Humidity_ActualHumidity)) (\<lambda>_.
     seqE (WriteScaled hw (Humidity_SetHumidity p) (Some fieldSpec_Humidity_SetHumidity)) (\<lambda>_.
     seqE (writeReserved 8 56) (\<lambda>_.
     returnE (finish_info now 130313 (Humidity_Info p))))))))"

definition Humidity_received :: "(rat \<Rightarrow> u64) \<Rightarrow> MessageInfo \<Rightarrow> Humidity \<Rightarrow> Humidity" where
  "Humidity_received hw info p = \<lparr>Humidity_Info = info,
     Humidity_SID = pin fieldSpec_Humidity_SID (Humidity_SID p),
     Humidity_Instance = pin fieldSpec_Humidity_Instance (Humidity_Instance p),
     Humidity_Source = take_bit 8 (Humidity_Source p),
     Humidity_ActualHumidity = map_option (scaled_back hw 24 fieldSpec_Humidity_ActualHumidity) (Humidity_ActualHumidity p),
     Humidity_SetHumidity = map_option (scaled_back hw 24 fieldSpec_Humidity_SetHumidity) (Humidity_SetHumidity p)\<rparr>"

lemma Humidity_codec: "codec (EncodeHumidity hw) DecodeHumidity Humidity_Info 130313 8
    (\<lambda>_. True) (Humidity_received hw)"
  unfolding EncodeHumidity_def DecodeHumidity_def Humidity_received_def
  by (rule codec.intro, rule carries_cong, (rule codec_steps carries_end
      | simp add: codec_facts pin_read lookup_read lookup_read_1 unit_read fieldSpec_Humidity_SID_def fieldSpec_Humidity_Instance_def fieldSpec_Humidity_ActualHumidity_def fieldSpec_Humidity_SetHumidity_def)+)

subsection \<open>ActualPressure\<close>

definition fieldSpec_ActualPressure_SID :: FieldSpec where
  "fieldSpec_ActualPressure_SID = unsigned_spec 8 0 0xFD 0xFF 2"

definition fieldSpec_ActualPressure_Instance :: FieldSpec where
  "fieldSpec_ActualPressure_Instance = unsigned_spec 8 8 0xFD 0xFF 2"

definition fieldSpec_ActualPressure_Pressure :: ScaledSpec where
  "fieldSpec_ActualPressure_Pressure =
     scaled_spec 32 24 0x7FFFFFFD 0x7FFFFFFF 0 True 2 (fl64 0.10000000149011612) None None"

record 'q ActualPressure =
  ActualPressure_Info :: MessageInfo
  ActualPressure_SID :: "u8 option"
  ActualPressure_Instance :: "u8 option"
  ActualPressure_Source :: u8
  ActualPressure_Pressure :: "'q option"

definition DecodeActualPressure :: "'q units_lib \<Rightarrow> MessageInfo \<Rightarrow> (DataStream, 'q ActualPressure) step" where
  "DecodeActualPressure lib info =
     field ''ActualPressure-SID'' (ReadRaw go_uint8 (Some fieldSpec_ActualPressure_SID)) (\<lambda>v1.
     field ''ActualPressure-Instance'' (ReadRaw go_uint8 (Some fieldSpec_ActualPressure_Instance)) (\<lambda>v2.
     field ''ActualPressure-Source'' (readLookupField 8) (\<lambda>v3.
     field ''ActualPressure-Pressure'' (ReadScaled 24 (Some fieldSpec_ActualPressure_Pressure)) (\<lambda>v4.
     skip 8 (
     returnE \<lparr>ActualPressure_Info = info,
       ActualPressure_SID = map_option of_int v1,
       ActualPressure_Instance = map_option of_int v2,
       ActualPressure_Source = ucast v3,
       ActualPressure_Pressure = nullableUnit lib Pa v4\<rparr>)))))"

definition EncodeActualPressure :: "'q units_lib \<Rightarrow> (rat \<Rightarrow> u64) \<Rightarrow> gotime \<Rightarrow> 'q ActualPressure \<Rightarrow> (DataStream, MessageInfo) step" where
  "EncodeActualPressure lib hw now p =
     seqE (WriteRaw (map_option uint (ActualPressure_SID p)) (Some fieldSpec_ActualPressure_SID)) (\<lambda>_.
     seqE (WriteRaw (map_option uint (ActualPressure_Instance p)) (Some fieldSpec_ActualPressure_Instance)) (\<lambda>_.
     seqE (putNumberRaw (ucast (ActualPressure_Source p)) 8 16) (\<lambda>_.
     seqE (writeUnit lib hw Pa (ActualPressure_Pressure p) (Some fieldSpec_ActualPressure_Pressure)) (\<lambda>_.
     seqE (writeReserved 8 56) (\<lambda>_.
     returnE (finish_info now 130314 (ActualPressure_Info p)))))))"

definition ActualPressure_received :: "'q units_lib \<Rightarrow> (rat \<Rightarrow> u64) \<Rightarrow> MessageInfo \<Rightarrow> 'q ActualPressure \<Rightarrow> 'q ActualPressure" where
  "ActualPressure_received lib hw info p = \<lparr>ActualPressure_Info = info,
     ActualPressure_SID = pin fieldSpec_ActualPressure_SID (ActualPressure_SID p),
     ActualPressure_Instance = pin fieldSpec_ActualPressure_Instance (ActualPressure_Instance p),
     ActualPressure_Source = take_bit 8 (ActualPressure_Source p),
     ActualPressure_Pressure = map_option (unit_back lib hw Pa fieldSpec_ActualPressure_Pressure) (ActualPressure_Pressure p)\<rparr>"

lemma ActualPressure_codec: "codec (EncodeActualPressure lib hw) (DecodeActualPressure lib) ActualPressure_Info 130314 8
    (\<lambda>_. True) (ActualPressure_received lib hw)"
  unfolding EncodeActualPressure_def DecodeActualPressure_def ActualPressure_received_def
  by (rule codec.intro, rule carries_cong, (rule codec_steps carries_end
      | simp add: codec_facts pin_read lookup_read lookup_read_1 unit_read fieldSpec_ActualPressure_SID_def fieldSpec_ActualPressure_Instance_def fieldSpec_ActualPressure_Pressure_def)+)

subsection \<open>SetPressure\<close>

definition fieldSpec_SetPressure_SID :: FieldSpec where
  "fieldSpec_SetPressure_SID = unsigned_spec 8 0 0xFD 0xFF 2"

definition fieldSpec_SetPressure_Instance :: FieldSpec where
  "fieldSpec_SetPressure_Instance = unsigned_spec 8 8 0xFD 0xFF 2"

definition fieldSpec_SetPressure_Pressure :: ScaledSpec where
  "fieldSpec_SetPressure_Pressure =
     scaled_spec 32 24 0x7FFFFFFD 0x7FFFFFFF 0 True 2 (fl64 0.10000000149011612) None None"

record 'q SetPressure =
  SetPressure_Info :: MessageInfo
  SetPressure_SID :: "u8 option"
  SetPressure_Instance :: "u8 option"
  SetPressure_Source :: u8
  SetPressure_Pressure :: "'q option"

definition DecodeSetPressure :: "'q units_lib \<Rightarrow> MessageInfo \<Rightarrow> (DataStream, 'q SetPressure) step" where
  "DecodeSetPressure lib info =
     field ''SetPressure-SID'' (ReadRaw go_uint8 (Some fieldSpec_SetPressure_SID)) (\<lambda>v1.
     field ''SetPressure-Instance'' (ReadRaw go_uint8 (Some fieldSpec_SetPressure_Instance)) (\<lambda>v2.
     field ''SetPressure-Source'' (readLookupField 8) (\<lambda>v3.
     field ''SetPressure-Pressure'' (ReadScaled 24 (Some fieldSpec_SetPressure_Pressure)) (\<lambda>v4.
     skip 8 (
     returnE \<lparr>SetPressure_Info = info,
       SetPressure_SID = map_option of_int v1,
       SetPressure_Instance = map_option of_int v2,
       SetPressure_Source = ucast v3,
       SetPressure_Pressure = nullableUnit lib Pa v4\<rparr>)))))"

definition EncodeSetPressure :: "'q units_lib \<Rightarrow> (rat \<Rightarrow> u64) \<Rightarrow> gotime \<Rightarrow> 'q SetPressure \<Rightarrow> (DataStream, MessageInfo) step" where
  "EncodeSetPressure lib hw now p =
     seqE (WriteRaw (map_option uint (SetPressure_SID p)) (Some fieldSpec_SetPressure_SID)) (\<lambda>_.
     seqE (WriteRaw (map_option uint (SetPressure_Instance p)) (Some fieldSpec_SetPressure_Instance)) (\<lambda>_.
     seqE (putNumberRaw (ucast (SetPressure_Source p)) 8 16) (\<lambda>_.
     seqE (writeUnit lib hw Pa (SetPressure_Pressure p) (Some fieldSpec_SetPressure_Pressure)) (\<lambda>_.
     seqE (writeReserved 8 56) (\<lambda>_.
     returnE (finish_info now 130315 (SetPressure_Info p)))))))"

definition SetPressure_received :: "'q units_lib \<Rightarrow> (rat \<Rightarrow> u64) \<Rightarrow> MessageInfo \<Rightarrow> 'q SetPressure \<Rightarrow> 'q SetPressure" where
  "SetPressure_received lib hw info p = \<lparr>SetPressure_Info = info,
     SetPressure_SID = pin fieldSpec_SetPressure_SID (SetPressure_SID p),
     SetPressure_Instance = pin fieldSpec_SetPressure_Instance (SetPressure_Instance p),
     SetPressure_Source = take_bit 8 (SetPressure_Source p),
     SetPressure_Pressure = map_option (unit_back lib hw Pa fieldSpec_SetPressure_Pressure) (SetPressure_Pressure p)\<rparr>"

lemma SetPressure_codec: "codec (EncodeSetPressure lib hw) (DecodeSetPressure lib) SetPressure_Info 130315 8
    (\<lambda>_. True) (SetPressure_received lib hw)"
  unfolding EncodeSetPressure_def DecodeSetPressure_def SetPressure_received_def
  by (rule codec.intro, rule carries_cong, (rule codec_steps carries_end
      | simp add: codec_facts pin_read lookup_read lookup_read_1 unit_read fieldSpec_SetPressure_SID_def fieldSpec_SetPressure_Instance_def fieldSpec_SetPressure_Pressure_def)+)

subsection \<open>TemperatureExtendedRange\<close>

definition fieldSpec_TemperatureExtendedRange_SID :: FieldSpec where
  "fieldSpec_TemperatureExtendedRange_SID = unsigned_spec 8 0 0xFD 0xFF 2"

definition fieldSpec_TemperatureExtendedRange_Instance :: FieldSpec where
  "fieldSpec_TemperatureExtendedRange_Instance = unsigned_spec 8 8 0xFD 0xFF 2"

definition fieldSpec_TemperatureExtendedRange_Temperature :: ScaledSpec where
  "fieldSpec_TemperatureExtendedRange_Temperature =
     scaled_spec 24 24 0xFFFFFD 0xFFFFFF 0 False 2 (fl64 0.0010000000474974513) None None"

definition fieldSpec_TemperatureExtendedRange_SetTemperature :: ScaledSpec where
  "fieldSpec_TemperatureExtendedRange_SetTemperature =
     scaled_spec 16 48 0xFFFD 0xFFFF 0 False 2 (fl64 0.10000000149011612) None None"

record 'q TemperatureExtendedRange =
  TemperatureExtendedRange_Info :: MessageInfo
  TemperatureExtendedRange_SID :: "u8 option"
  TemperatureExtendedRange_Instance :: "u8 option"
  TemperatureExtendedRange_Source :: u8
  TemperatureExtendedRange_Temperature :: "'q option"
  TemperatureExtendedRange_SetTemperature :: "'q option"

definition DecodeTemperatureExtendedRange :: "'q units_lib \<Rightarrow> MessageInfo \<Rightarrow> (DataStream, 'q TemperatureExtendedRange) step" where
  "DecodeTemperatureExtendedRange lib info =
     field ''TemperatureExtendedRange-SID'' (ReadRaw go_uint8 (Some fieldSpec_TemperatureExtendedRange_SID)) (\<lambda>v1.
     field ''TemperatureExtendedRange-Instance'' (ReadRaw go_uint8 (Some fieldSpec_TemperatureExtendedRange_Instance)) (\<lambda>v2.
     field ''TemperatureExtendedRange-Source'' (readLookupField 8) (\<lambda>v3.
     field ''TemperatureExtendedRange-Temperature'' (ReadScaled 24 (Some fieldSpec_TemperatureExtendedRange_Temperature)) (\<lambda>v4.
     field ''TemperatureExtendedRange-SetTemperature'' (ReadScaled 24 (Some fieldSpec_TemperatureExtendedRange_SetTemperature)) (\<lambda>v5.
     returnE \<lparr>TemperatureExtendedRange_Info = info,
       TemperatureExtendedRange_SID = map_option of_int v1,
       TemperatureExtendedRange_Instance = map_option of_int v2,
       TemperatureExtendedRange_Source = ucast v3,
       TemperatureExtendedRange_Temperature = nullableUnit lib Kelvin v4,
       TemperatureExtendedRange_SetTemperature = nullableUnit lib Kelvin v5\<rparr>)))))"

definition EncodeTemperatureExtendedRange :: "'q units_lib \<Rightarrow> (rat \<Rightarrow> u64) \<Rightarrow> gotime \<Rightarrow> 'q TemperatureExtendedRange \<Rightarrow> (DataStream, MessageInfo) step" where
  "EncodeTemperatureExtendedRange lib hw now p =
     seqE (WriteRaw (map_option uint (TemperatureExtendedRange_SID p)) (Some fieldSpec_TemperatureExtendedRange_SID)) (\<lambda>_.
     seqE (WriteRaw (map_option uint (TemperatureExtendedRange_Instance p)) (Some fieldSpec_TemperatureExtendedRange_Instance)) (\<lambda>_.
     seqE (putNumberRaw (ucast (TemperatureExtendedRange_Source p)) 8 16) (\<lambda>_.
     seqE (writeUnit lib hw Kelvin (TemperatureExtendedRange_Temperature p) (Some fieldSpec_TemperatureExtendedRange_Temperature)) (\<lambda>_.
     seqE (writeUnit lib hw Kelvin (TemperatureExtendedRange_SetTemperature p) (Some fieldSpec_TemperatureExtendedRange_SetTemperature)) (\<lambda>_.
     returnE (finish_info now 130316 (TemperatureExtendedRange_Info p)))))))"

definition TemperatureExtendedRange_received :: "'q units_lib \<Rightarrow> (rat \<Rightarrow> u64) \<Rightarrow> MessageInfo \<Rightarrow> 'q TemperatureExtendedRange \<Rightarrow> 'q TemperatureExtendedRange" where
  "TemperatureExtendedRange_received lib hw info p = \<lparr>TemperatureExtendedRange_Info = info,
     TemperatureExtendedRange_SID = pin fieldSpec_TemperatureExtendedRange_SID (TemperatureExtendedRange_SID p),
     TemperatureExtendedRange_Instance = pin fieldSpec_TemperatureExtendedRange_Instance (TemperatureExtendedRange_Instance p),
     TemperatureExtendedRange_Source = take_bit 8 (TemperatureExtendedRange_Source p),
     TemperatureExtendedRange_Temperature = map_option (unit_back lib hw Kelvin fieldSpec_TemperatureExtendedRange_Temperature) (TemperatureExtendedRange_Temperature p),
     TemperatureExtendedRange_SetTemperature = map_option (unit_back lib hw Kelvin fieldSpec_TemperatureExtendedRange_SetTemperature) (TemperatureExtendedRange_SetTemperature p)\<rparr>"

lemma TemperatureExtendedRange_codec: "codec (EncodeTemperatureExtendedRange lib hw) (DecodeTemperatureExtendedRange lib) TemperatureExtendedRange_Info 130316 8
    (\<lambda>_. True) (TemperatureExtendedRange_received lib hw)"
  unfolding EncodeTemperatureExtendedRange_def DecodeTemperatureExtendedRange_def TemperatureExtendedRange_received_def
  by (rule codec.intro, rule carries_cong, (rule codec_steps carries_end
      | simp add: codec_facts pin_read lookup_read lookup_read_1 unit_read fieldSpec_TemperatureExtendedRange_SID_def fieldSpec_TemperatureExtendedRange_Instance_def fieldSpec_TemperatureExtendedRange_Temperature_def fieldSpec_TemperatureExtendedRange_SetTemperature_def)+)

subsection \<open>PayloadMass\<close>

definition fieldSpec_PayloadMass_SID :: FieldSpec where
  "fieldSpec_PayloadMass_SID = unsigned_spec 8 0 0xFD 0xFF 2"

definition fieldSpec_PayloadMass_MeasurementStatus :: FieldSpec where
  "fieldSpec_PayloadMass_MeasurementStatus = unsigned_spec 3 8 0x6 0x7 1"

definition fieldSpec_PayloadMass_MeasurementID :: FieldSpec where
  "fieldSpec_PayloadMass_MeasurementID = unsigned_spec 8 16 0xFD 0xFF 2"

definition fieldSpec_PayloadMass_PayloadMass :: FieldSpec where
  "fieldSpec_PayloadMass_PayloadMass = unsigned_spec 32 24 0xFFFFFFFD 0xFFFFFFFF 2"

record PayloadMass =
  PayloadMass_Info :: MessageInfo
  PayloadMass_SID :: "u8 option"
  PayloadMass_MeasurementStatus :: "u8 option"
  PayloadMass_MeasurementID :: "u8 option"
  PayloadMass_PayloadMass :: "u32 option"

definition DecodePayloadMass :: "MessageInfo \<Rightarrow> (DataStream, PayloadMass) step" where
  "DecodePayloadMass info =
     field ''PayloadMass-SID'' (ReadRaw go_uint8 (Some fieldSpec_PayloadMass_SID)) (\<lambda>v1.
     field ''PayloadMass-MeasurementStatus'' (ReadRaw go_uint8 (Some fieldSpec_PayloadMass_MeasurementStatus)) (\<lambda>v2.
     skip 5 (
     field ''PayloadMass-MeasurementID'' (ReadRaw go_uint8 (Some fieldSpec_PayloadMass_MeasurementID)) (\<lambda>v4.
     field ''PayloadMass-PayloadMass'' (ReadRaw go_uint32 (Some fieldSpec_PayloadMass_PayloadMass)) (\<lambda>v5.
     skip 8 (
     returnE \<lparr>PayloadMass_Info = info,
       PayloadMass_SID = map_option of_int v1,
       PayloadMass_MeasurementStatus = map_option of_int v2,
       PayloadMass_MeasurementID = map_option of_int v4,
       PayloadMass_PayloadMass = map_option of_int v5\<rparr>))))))"

definition EncodePayloadMass :: "gotime \<Rightarrow> PayloadMass \<Rightarrow> (DataStream, MessageInfo) step" where
  "EncodePayloadMass now p =
     seqE (WriteRaw (map_option uint (PayloadMass_SID p)) (Some fieldSpec_PayloadMass_SID)) (\<lambda>_.
     seqE (WriteRaw (map_option uint (PayloadMass_MeasurementStatus p)) (Some fieldSpec_PayloadMass_MeasurementStatus)) (\<lambda>_.
     seqE (writeReserved 5 11) (\<lambda>_.
     seqE (WriteRaw (map_option uint (PayloadMass_MeasurementID p)) (Some fieldSpec_PayloadMass_MeasurementID)) (\<lambda>_.
     seqE (WriteRaw (map_option uint (PayloadMass_PayloadMass p)) (Some fieldSpec_PayloadMass_PayloadMass)) (\<lambda>_.
     seqE (writeReserved 8 56) (\<lambda>_.
     returnE (finish_info now 130560 (PayloadMass_Info p))))))))"

definition PayloadMass_received :: "MessageInfo \<Rightarrow> PayloadMass \<Rightarrow> PayloadMass" where
  "PayloadMass_received info p = \<lparr>PayloadMass_Info = info,
     PayloadMass_SID = pin fieldSpec_PayloadMass_SID (PayloadMass_SID p),
     PayloadMass_MeasurementStatus = pin fieldSpec_PayloadMass_MeasurementStatus (PayloadMass_MeasurementStatus p),
     PayloadMass_MeasurementID = pin fieldSpec_PayloadMass_MeasurementID (PayloadMass_MeasurementID p),
     PayloadMass_PayloadMass = pin fieldSpec_PayloadMass_PayloadMass (PayloadMass_PayloadMass p)\<rparr>"

lemma PayloadMass_codec: "codec EncodePayloadMass DecodePayloadMass PayloadMass_Info 130560 8
    (\<lambda>_. True) PayloadMass_received"
  unfolding EncodePayloadMass_def DecodePayloadMass_def PayloadMass_received_def
  by (rule codec.intro, rule carries_cong, (rule codec_steps carries_end
      | simp add: codec_facts pin_read lookup_read lookup_read_1 unit_read fieldSpec_PayloadMass_SID_def fieldSpec_PayloadMass_MeasurementStatus_def fieldSpec_PayloadMass_MeasurementID_def fieldSpec_PayloadMass_PayloadMass_def)+)

subsection \<open>WatermakerInputSettingAndStatus\<close>

definition fieldSpec_WatermakerInputSettingAndStatus_Salinity :: FieldSpec where
  "fieldSpec_WatermakerInputSettingAndStatus_Salinity = unsigned_spec 16 32 0xFFFD 0xFFFF 2"

definition fieldSpec_WatermakerInputSettingAndStatus_ProductWaterTemperature :: ScaledSpec where
  "fieldSpec_WatermakerInputSettingAndStatus_ProductWaterTemperature =
     scaled_spec 16 48 0xFFFD 0xFFFF 0 False 2 (fl64 0.009999999776482582) None None"

definition fieldSpec_WatermakerInputSettingAndStatus_PreFilterPressure :: ScaledSpec where
  "fieldSpec_WatermakerInputSettingAndStatus_PreFilterPressure =
     scaled_spec 16 64 0xFFFD 0xFFFF 0 False 2 100 None None"

definition fieldSpec_WatermakerInputSettingAndStatus_PostFilterPressure :: ScaledSpec where
  "fieldSpec_WatermakerInputSettingAndStatus_PostFilterPressure =
     scaled_spec 16 80 0xFFFD 0xFFFF 0 False 2 100 None None"

definition fieldSpec_WatermakerInputSettingAndStatus_FeedPressure :: ScaledSpec where
  "fieldSpec_WatermakerInputSettingAndStatus_FeedPressure =
     scaled_spec 16 96 0x7FFD 0x7FFF 0 True 2 1000 None None"

definition fieldSpec_WatermakerInputSettingAndStatus_SystemHighPressure :: ScaledSpec where
  "fieldSpec_WatermakerInputSettingAndStatus_SystemHighPressure =
     scaled_spec 16 112 0xFFFD 0xFFFF 0 False 2 1000 None None"

definition fieldSpec_WatermakerInputSettingAndStatus_ProductWaterFlow :: ScaledSpec where
  "fieldSpec_WatermakerInputSettingAndStatus_ProductWaterFlow =
     scaled_spec 16 128 0x7FFD 0x7FFF 0 True 2 (fl64 0.10000000149011612) None None"

definition fieldSpec_WatermakerInputSettingAndStatus_BrineWaterFlow :: ScaledSpec where
  "fieldSpec_WatermakerInputSettingAndStatus_BrineWaterFlow =
     scaled_spec 16 144 0x7FFD 0x7FFF 0 True 2 (fl64 0.10000000149011612) None None"

definition fieldSpec_WatermakerInputSettingAndStatus_RunTime :: FieldSpec where
  "fieldSpec_WatermakerInputSettingAndStatus_RunTime = unsigned_spec 32 160 0xFFFFFFFD 0xFFFFFFFF 2"

record 'q WatermakerInputSettingAndStatus =
  WatermakerInputSettingAndStatus_Info :: MessageInfo
  WatermakerInputSettingAndStatus_WatermakerOperatingState :: u8
  WatermakerInputSettingAndStatus_ProductionStartStop :: u8
  WatermakerInputSettingAndStatus_RinseStartStop :: u8
  WatermakerInputSettingAndStatus_LowPressurePumpStatus :: u8
  WatermakerInputSettingAndStatus_HighPressurePumpStatus :: u8
  WatermakerInputSettingAndStatus_EmergencyStop :: u8
  WatermakerInputSettingAndStatus_ProductSolenoidValveStatus :: u8
  WatermakerInputSettingAndStatus_FlushModeStatus :: u8
  WatermakerInputSettingAndStatus_SalinityStatus :: u8
  WatermakerInputSettingAndStatus_SensorStatus :: u8
  WatermakerInputSettingAndStatus_OilChangeIndicatorStatus :: u8
  WatermakerInputSettingAndStatus_FilterStatus :: u8
  WatermakerInputSettingAndStatus_SystemStatus :: u8
  WatermakerInputSettingAndStatus_Salinity :: "u16 option"
  WatermakerInputSettingAndStatus_ProductWaterTemperature :: "'q option"
  WatermakerInputSettingAndStatus_PreFilterPressure :: "'q option"
  WatermakerInputSettingAndStatus_PostFilterPressure :: "'q option"
  WatermakerInputSettingAndStatus_FeedPressure :: "'q option"
  WatermakerInputSettingAndStatus_SystemHighPressure :: "'q option"
  WatermakerInputSettingAndStatus_ProductWaterFlow :: "'q option"
  WatermakerInputSettingAndStatus_BrineWaterFlow :: "'q option"
  WatermakerInputSettingAndStatus_RunTime :: "u32 option"

definition DecodeWatermakerInputSettingAndStatus :: "'q units_lib \<Rightarrow> MessageInfo \<Rightarrow> (DataStream, 'q WatermakerInputSettingAndStatus) step" where
  "DecodeWatermakerInputSettingAndStatus lib info =
     field ''WatermakerInputSettingAndStatus-WatermakerOperatingState'' (readLookupField 6) (\<lambda>v1.
     field ''WatermakerInputSettingAndStatus-ProductionStartStop'' (readLookupField 2) (\<lambda>v2.
     field ''WatermakerInputSettingAndStatus-RinseStartStop'' (readLookupField 2) (\<lambda>v3.
     field ''WatermakerInputSettingAndStatus-LowPressurePumpStatus'' (readLookupField 2) (\<lambda>v4.
     field ''WatermakerInputSettingAndStatus-HighPressurePumpStatus'' (readLookupField 2) (\<lambda>v5.
     field ''WatermakerInputSettingAndStatus-EmergencyStop'' (readLookupField 2) (\<lambda>v6.
     field ''WatermakerInputSettingAndStatus-ProductSolenoidValveStatus'' (readLookupField 2) (\<lambda>v7.
     field ''WatermakerInputSettingAndStatus-FlushModeStatus'' (readLookupField 2) (\<lambda>v8.
     field ''WatermakerInputSettingAndStatus-SalinityStatus'' (readLookupField 2) (\<lambda>v9.
     field ''WatermakerInputSettingAndStatus-SensorStatus'' (readLookupField 2) (\<lambda>v10.
     field ''WatermakerInputSettingAndStatus-OilChangeIndicatorStatus'' (readLookupField 2) (\<lambda>v11.
     field ''WatermakerInputSettingAndStatus-FilterStatus'' (readLookupField 2) (\<lambda>v12.
     field ''WatermakerInputSettingAndStatus-SystemStatus'' (readLookupField 2) (\<lambda>v13.
     skip 2 (
     field ''WatermakerInputSettingAndStatus-Salinity'' (ReadRaw go_uint16 (Some fieldSpec_WatermakerInputSettingAndStatus_Salinity)) (\<lambda>v15.
     field ''WatermakerInputSettingAndStatus-ProductWaterTemperature'' (ReadScaled 24 (Some fieldSpec_WatermakerInputSettingAndStatus_ProductWaterTemperature)) (\<lambda>v16.
     field ''WatermakerInputSettingAndStatus-PreFilterPressure'' (ReadScaled 24 (Some fieldSpec_WatermakerInputSettingAndStatus_PreFilterPressure)) (\<lambda>v17.
     field ''WatermakerInputSettingAndStatus-PostFilterPressure'' (ReadScaled 24 (Some fieldSpec_WatermakerInputSettingAndStatus_PostFilterPressure)) (\<lambda>v18.
     field ''WatermakerInputSettingAndStatus-FeedPressure'' (ReadScaled 24 (Some fieldSpec_WatermakerInputSettingAndStatus_FeedPressure)) (\<lambda>v19.
     field ''WatermakerInputSettingAndStatus-SystemHighPressure'' (ReadScaled 24 (Some fieldSpec_WatermakerInputSettingAndStatus_SystemHighPressure)) (\<lambda>v20.
     field ''WatermakerInputSettingAndStatus-ProductWaterFlow'' (ReadScaled 24 (Some fieldSpec_WatermakerInputSettingAndStatus_ProductWaterFlow)) (\<lambda>v21.
     field ''WatermakerInputSettingAndStatus-BrineWaterFlow'' (ReadScaled 24 (Some fieldSpec_WatermakerInputSettingAndStatus_BrineWaterFlow)) (\<lambda>v22.
     field ''WatermakerInputSettingAndStatus-RunTime'' (ReadRaw go_uint32 (Some fieldSpec_WatermakerInputSettingAndStatus_RunTime)) (\<lambda>v23.
     returnE \<lparr>WatermakerInputSettingAndStatus_Info = info,
       WatermakerInputSettingAndStatus_WatermakerOperatingState = ucast v1,
       WatermakerInputSettingAndStatus_ProductionStartStop = ucast v2,
       WatermakerInputSettingAndStatus_RinseStartStop = ucast v3,
       WatermakerInputSettingAndStatus_LowPressurePumpStatus = ucast v4,
       WatermakerInputSettingAndStatus_HighPressurePumpStatus = ucast v5,
       WatermakerInputSettingAndStatus_EmergencyStop = ucast v6,
       WatermakerInputSettingAndStatus_ProductSolenoidValveStatus = ucast v7,
       WatermakerInputSettingAndStatus_FlushModeStatus = ucast v8,
       WatermakerInputSettingAndStatus_SalinityStatus = ucast v9,
       WatermakerInputSettingAndStatus_SensorStatus = ucast v10,
       WatermakerInputSettingAndStatus_OilChangeIndicatorStatus = ucast v11,
       WatermakerInputSettingAndStatus_FilterStatus = ucast v12,
       WatermakerInputSettingAndStatus_SystemStatus = ucast v13,
       WatermakerInputSettingAndStatus_Salinity = map_option of_int v15,
       WatermakerInputSettingAndStatus_ProductWaterTemperature = nullableUnit lib Kelvin v16,
       WatermakerInputSettingAndStatus_PreFilterPressure = nullableUnit lib Pa v17,
       WatermakerInputSettingAndStatus_PostFilterPressure = nullableUnit lib Pa v18,
       WatermakerInputSettingAndStatus_FeedPressure = nullableUnit lib Pa v19,
       WatermakerInputSettingAndStatus_SystemHighPressure = nullableUnit lib Pa v20,
       WatermakerInputSettingAndStatus_ProductWaterFlow = nullableUnit lib LitersPerHour v21,
       WatermakerInputSettingAndStatus_BrineWaterFlow = nullableUnit lib LitersPerHour v22,
       WatermakerInputSettingAndStatus_RunTime = map_option of_int v23\<rparr>)))))))))))))))))))))))"

definition EncodeWatermakerInputSettingAndStatus :: "'q units_lib \<Rightarrow> (rat \<Rightarrow> u64) \<Rightarrow> gotime \<Rightarrow> 'q WatermakerInputSettingAndStatus \<Rightarrow> (DataStream, MessageInfo) step" where
  "EncodeWatermakerInputSettingAndStatus lib hw now p =
     seqE (putNumberRaw (ucast (WatermakerInputSettingAndStatus_WatermakerOperatingState p)) 6 0) (\<lambda>_.
     seqE (putNumberRaw (ucast (WatermakerInputSettingAndStatus_ProductionStartStop p)) 2 6) (\<lambda>_.
     seqE (putNumberRaw (ucast (WatermakerInputSettingAndStatus_RinseStartStop p)) 2 8) (\<lambda>_.
     seqE (putNumberRaw (ucast (WatermakerInputSettingAndStatus_LowPressurePumpStatus p)) 2 10) (\<lambda>_.
     seqE (putNumberRaw (ucast (WatermakerInputSettingAndStatus_HighPressurePumpStatus p)) 2 12) (\<lambda>_.
     seqE (putNumberRaw (ucast (WatermakerInputSettingAndStatus_EmergencyStop p)) 2 14) (\<lambda>_.
     seqE (putNumberRaw (ucast (WatermakerInputSettingAndStatus_ProductSolenoidValveStatus p)) 2 16) (\<lambda>_.
     seqE (putNumberRaw (ucast (WatermakerInputSettingAndStatus_FlushModeStatus p)) 2 18) (\<lambda>_.
     seqE (putNumberRaw (ucast (WatermakerInputSettingAndStatus_SalinityStatus p)) 2 20) (\<lambda>_.
     seqE (putNumberRaw (ucast (WatermakerInputSettingAndStatus_SensorStatus p)) 2 22) (\<lambda>_.
     seqE (putNumberRaw (ucast (WatermakerInputSettingAndStatus_OilChangeIndicatorStatus p)) 2 24) (\<lambda>_.
     seqE (putNumberRaw (ucast (WatermakerInputSettingAndStatus_FilterStatus p)) 2 26) (\<lambda>_.
     seqE (putNumberRaw (ucast (WatermakerInputSettingAndStatus_SystemStatus p)) 2 28) (\<lambda>_.
     seqE (writeReserved 2 30) (\<lambda>_.
     seqE (WriteRaw (map_option uint (WatermakerInputSettingAndStatus_Salinity p)) (Some fieldSpec_WatermakerInputSettingAndStatus_Salinity)) (\<lambda>_.
     seqE (writeUnit lib hw Kelvin (WatermakerInputSettingAndStatus_ProductWaterTemperature p) (Some fieldSpec_WatermakerInputSettingAndStatus_ProductWaterTemperature)) (\<lambda>_.
     seqE (writeUnit lib hw Pa (WatermakerInputSettingAndStatus_PreFilterPressure p) (Some fieldSpec_WatermakerInputSettingAndStatus_PreFilterPressure)) (\<lambda>_.
     seqE (writeUnit lib hw Pa (WatermakerInputSettingAndStatus_PostFilterPressure p) (Some fieldSpec_WatermakerInputSettingAndStatus_PostFilterPressure)) (\<lambda>_.
     seqE (writeUnit lib hw Pa (WatermakerInputSettingAndStatus_FeedPressure p) (Some fieldSpec_WatermakerInputSettingAndStatus_FeedPressure)) (\<lambda>_.
     seqE (writeUnit lib hw Pa (WatermakerInputSettingAndStatus_SystemHighPressure p) (Some fieldSpec_WatermakerInputSettingAndStatus_SystemHighPressure)) (\<lambda>_.
     seqE (writeUnit lib hw LitersPerHour (WatermakerInputSettingAndStatus_ProductWaterFlow p) (Some fieldSpec_WatermakerInputSettingAndStatus_ProductWaterFlow)) (\<lambda>_.
     seqE (writeUnit lib hw LitersPerHour (WatermakerInputSettingAndStatus_BrineWaterFlow p) (Some fieldSpec_WatermakerInputSettingAndStatus_BrineWaterFlow)) (\<lambda>_.
     seqE (WriteRaw (map_option uint (WatermakerInputSettingAndStatus_RunTime p)) (Some fieldSpec_WatermakerInputSettingAndStatus_RunTime)) (\<lambda>_.
     returnE (finish_info now 130567 (WatermakerInputSettingAndStatus_Info p)))))))))))))))))))))))))"

definition WatermakerInputSettingAndStatus_received :: "'q units_lib \<Rightarrow> (rat \<Rightarrow> u64) \<Rightarrow> MessageInfo \<Rightarrow> 'q WatermakerInputSettingAndStatus \<Rightarrow> 'q WatermakerInputSettingAndStatus" where
  "WatermakerInputSettingAndStatus_received lib hw info p = \<lparr>WatermakerInputSettingAndStatus_Info = info,
     WatermakerInputSettingAndStatus_WatermakerOperatingState = take_bit 6 (WatermakerInputSettingAndStatus_WatermakerOperatingState p),
     WatermakerInputSettingAndStatus_ProductionStartStop = take_bit 2 (WatermakerInputSettingAndStatus_ProductionStartStop p),
     WatermakerInputSettingAndStatus_RinseStartStop = take_bit 2 (WatermakerInputSettingAndStatus_RinseStartStop p),
     WatermakerInputSettingAndStatus_LowPressurePumpStatus = take_bit 2 (WatermakerInputSettingAndStatus_LowPressurePumpStatus p),
     WatermakerInputSettingAndStatus_HighPressurePumpStatus = take_bit 2 (WatermakerInputSettingAndStatus_HighPressurePumpStatus p),
     WatermakerInputSettingAndStatus_EmergencyStop = take_bit 2 (WatermakerInputSettingAndStatus_EmergencyStop p),
     WatermakerInputSettingAndStatus_ProductSolenoidValveStatus = take_bit 2 (WatermakerInputSettingAndStatus_ProductSolenoidValveStatus p),
     WatermakerInputSettingAndStatus_FlushModeStatus = take_bit 2 (WatermakerInputSettingAndStatus_FlushModeStatus p),
     WatermakerInputSettingAndStatus_SalinityStatus = take_bit 2 (WatermakerInputSettingAndStatus_SalinityStatus p),
     WatermakerInputSettingAndStatus_SensorStatus = take_bit 2 (WatermakerInputSettingAndStatus_SensorStatus p),
     WatermakerInputSettingAndStatus_OilChangeIndicatorStatus = take_bit 2 (WatermakerInputSettingAndStatus_OilChangeIndicatorStatus p),
     WatermakerInputSettingAndStatus_FilterStatus = take_bit 2 (WatermakerInputSettingAndStatus_FilterStatus p),
     WatermakerInputSettingAndStatus_SystemStatus = take_bit 2 (WatermakerInputSettingAndStatus_SystemStatus p),
     WatermakerInputSettingAndStatus_Salinity = pin fieldSpec_WatermakerInputSettingAndStatus_Salinity (WatermakerInputSettingAndStatus_Salinity p),
     WatermakerInputSettingAndStatus_ProductWaterTemperature = map_option (unit_back lib hw Kelvin fieldSpec_WatermakerInputSettingAndStatus_ProductWaterTemperature) (WatermakerInputSettingAndStatus_ProductWaterTemperature p),
     WatermakerInputSettingAndStatus_PreFilterPressure = map_option (unit_back lib hw Pa fieldSpec_WatermakerInputSettingAndStatus_PreFilterPressure) (WatermakerInputSettingAndStatus_PreFilterPressure p),
     WatermakerInputSettingAndStatus_PostFilterPressure = map_option (unit_back lib hw Pa fieldSpec_WatermakerInputSettingAndStatus_PostFilterPressure) (WatermakerInputSettingAndStatus_PostFilterPressure p),
     WatermakerInputSettingAndStatus_FeedPressure = map_option (unit_back lib hw Pa fieldSpec_WatermakerInputSettingAndStatus_FeedPressure) (WatermakerInputSettingAndStatus_FeedPressure p),
     WatermakerInputSettingAndStatus_SystemHighPressure = map_option (unit_back lib hw Pa fieldSpec_WatermakerInputSettingAndStatus_SystemHighPressure) (WatermakerInputSettingAndStatus_SystemHighPressure p),
     WatermakerInputSettingAndStatus_ProductWaterFlow = map_option (unit_back lib hw LitersPerHour fieldSpec_WatermakerInputSettingAndStatus_ProductWaterFlow) (WatermakerInputSettingAndStatus_ProductWaterFlow p),
     WatermakerInputSettingAndStatus_BrineWaterFlow = map_option (unit_back lib hw LitersPerHour fieldSpec_WatermakerInputSettingAndStatus_BrineWaterFlow) (WatermakerInputSettingAndStatus_BrineWaterFlow p),
     WatermakerInputSettingAndStatus_RunTime = pin fieldSpec_WatermakerInputSettingAndStatus_RunTime (WatermakerInputSettingAndStatus_RunTime p)\<rparr>"

lemma WatermakerInputSettingAndStatus_codec: "codec (EncodeWatermakerInputSettingAndStatus lib hw) (DecodeWatermakerInputSettingAndStatus lib) WatermakerInputSettingAndStatus_Info 130567 24
    (\<lambda>_. True) (WatermakerInputSettingAndStatus_received lib hw)"
  unfolding EncodeWatermakerInputSettingAndStatus_def DecodeWatermakerInputSettingAndStatus_def WatermakerInputSettingAndStatus_received_def
  by (rule codec.intro, rule carries_cong, (rule codec_steps carries_end
      | simp add: codec_facts pin_read lookup_read lookup_read_1 unit_read fieldSpec_WatermakerInputSettingAndStatus_Salinity_def fieldSpec_WatermakerInputSettingAndStatus_ProductWaterTemperature_def fieldSpec_WatermakerInputSettingAndStatus_PreFilterPressure_def fieldSpec_WatermakerInputSettingAndStatus_PostFilterPressure_def fieldSpec_WatermakerInputSettingAndStatus_FeedPressure_def fieldSpec_WatermakerInputSettingAndStatus_SystemHighPressure_def fieldSpec_WatermakerInputSettingAndStatus_ProductWaterFlow_def fieldSpec_WatermakerInputSettingAndStatus_BrineWaterFlow_def fieldSpec_WatermakerInputSettingAndStatus_RunTime_def)+)

subsection \<open>CurrentStatusAndFile\<close>

definition fieldSpec_CurrentStatusAndFile_Number :: FieldSpec where
  "fieldSpec_CurrentStatusAndFile_Number = unsigned_spec 8 16 0xFD 0xFF 2"

definition fieldSpec_CurrentStatusAndFile_ID :: FieldSpec where
  "fieldSpec_CurrentStatusAndFile_ID = unsigned_spec 32 24 0xFFFFFFFD 0xFFFFFFFF 2"

definition fieldSpec_CurrentStatusAndFile_ElapsedTrackTime :: FieldSpec where
  "fieldSpec_CurrentStatusAndFile_ElapsedTrackTime = unsigned_spec 16 64 0xFFFD 0xFFFF 2"

definition fieldSpec_CurrentStatusAndFile_TrackTime :: FieldSpec where
  "fieldSpec_CurrentStatusAndFile_TrackTime = unsigned_spec 16 80 0xFFFD 0xFFFF 2"

definition fieldSpec_CurrentStatusAndFile_SaveFavoriteNumber :: FieldSpec where
  "fieldSpec_CurrentStatusAndFile_SaveFavoriteNumber = unsigned_spec 8 104 0xFD 0xFF 2"

definition fieldSpec_CurrentStatusAndFile_PlayFavoriteNumber :: FieldSpec where
  "fieldSpec_CurrentStatusAndFile_PlayFavoriteNumber = unsigned_spec 16 112 0xFFFD 0xFFFF 2"

definition fieldSpec_CurrentStatusAndFile_SignalStrength :: FieldSpec where
  "fieldSpec_CurrentStatusAndFile_SignalStrength = unsigned_spec 8 136 0xFD 0xFF 2"

definition fieldSpec_CurrentStatusAndFile_RadioFrequency :: ScaledSpec where
  "fieldSpec_CurrentStatusAndFile_RadioFrequency =
     scaled_spec 32 144 0xFFFFFFFD 0xFFFFFFFF 0 False 2 10 None None"

definition fieldSpec_CurrentStatusAndFile_HdFrequencyMulticast :: FieldSpec where
  "fieldSpec_CurrentStatusAndFile_HdFrequencyMulticast = unsigned_spec 8 176 0xFD 0xFF 2"

definition fieldSpec_CurrentStatusAndFile_DeleteFavoriteNumber :: FieldSpec where
  "fieldSpec_CurrentStatusAndFile_DeleteFavoriteNumber = unsigned_spec 8 184 0xFD 0xFF 2"

definition fieldSpec_CurrentStatusAndFile_TotalNumberOfTracks :: FieldSpec where
  "fieldSpec_CurrentStatusAndFile_TotalNumberOfTracks = unsigned_spec 16 192 0xFFFD 0xFFFF 2"

record CurrentStatusAndFile =
  CurrentStatusAndFile_Info :: MessageInfo
  CurrentStatusAndFile_Zone :: u8
  CurrentStatusAndFile_Source :: u8
  CurrentStatusAndFile_Number :: "u8 option"
  CurrentStatusAndFile_ID :: "u32 option"
  CurrentStatusAndFile_PlayStatus :: u8
  CurrentStatusAndFile_ElapsedTrackTime :: "u16 option"
  CurrentStatusAndFile_TrackTime :: "u16 option"
  CurrentStatusAndFile_RepeatStatus :: u8
  CurrentStatusAndFile_ShuffleStatus :: u8
  CurrentStatusAndFile_SaveFavoriteNumber :: "u8 option"
  CurrentStatusAndFile_PlayFavoriteNumber :: "u16 option"
  CurrentStatusAndFile_ThumbsUpDown :: u8
  CurrentStatusAndFile_SignalStrength :: "u8 option"
  CurrentStatusAndFile_RadioFrequency :: "rat option"
  CurrentStatusAndFile_HdFrequencyMulticast :: "u8 option"
  CurrentStatusAndFile_DeleteFavoriteNumber :: "u8 option"
  CurrentStatusAndFile_TotalNumberOfTracks :: "u16 option"

definition DecodeCurrentStatusAndFile :: "MessageInfo \<Rightarrow> (DataStream, CurrentStatusAndFile) step" where
  "DecodeCurrentStatusAndFile info =
     field ''CurrentStatusAndFile-Zone'' (readLookupField 8) (\<lambda>v1.
     field ''CurrentStatusAndFile-Source'' (readLookupField 8) (\<lambda>v2.
     field ''CurrentStatusAndFile-Number'' (ReadRaw go_uint8 (Some fieldSpec_CurrentStatusAndFile_Number)) (\<lambda>v3.
     field ''CurrentStatusAndFile-ID'' (ReadRaw go_uint32 (Some fieldSpec_CurrentStatusAndFile_ID)) (\<lambda>v4.
     field ''CurrentStatusAndFile-PlayStatus'' (readLookupField 8) (\<lambda>v5.
     field ''CurrentStatusAndFile-ElapsedTrackTime'' (ReadRaw go_uint16 (Some fieldSpec_CurrentStatusAndFile_ElapsedTrackTime)) (\<lambda>v6.
     field ''CurrentStatusAndFile-TrackTime'' (ReadRaw go_uint16 (Some fieldSpec_CurrentStatusAndFile_TrackTime)) (\<lambda>v7.
     field ''CurrentStatusAndFile-RepeatStatus'' (readLookupField 4) (\<lambda>v8.
     field ''CurrentStatusAndFile-ShuffleStatus'' (readLookupField 4) (\<lambda>v9.
     field ''CurrentStatusAndFile-SaveFavoriteNumber'' (ReadRaw go_uint8 (Some fieldSpec_CurrentStatusAndFile_SaveFavoriteNumber)) (\<lambda>v10.
     field ''CurrentStatusAndFile-PlayFavoriteNumber'' (ReadRaw go_uint16 (Some fieldSpec_CurrentStatusAndFile_PlayFavoriteNumber)) (\<lambda>v11.
     field ''CurrentStatusAndFile-ThumbsUpDown'' (readLookupField 8) (\<lambda>v12.
     field ''CurrentStatusAndFile-SignalStrength'' (ReadRaw go_uint8 (Some fieldSpec_CurrentStatusAndFile_SignalStrength)) (\<lambda>v13.
     field ''CurrentStatusAndFile-RadioFrequency'' (ReadScaled 24 (Some fieldSpec_CurrentStatusAndFile_RadioFrequency)) (\<lambda>v14.
     field ''CurrentStatusAndFile-HdFrequencyMulticast'' (ReadRaw go_uint8 (Some fieldSpec_CurrentStatusAndFile_HdFrequencyMulticast)) (\<lambda>v15.
     field ''CurrentStatusAndFile-DeleteFavoriteNumber'' (ReadRaw go_uint8 (Some fieldSpec_CurrentStatusAndFile_DeleteFavoriteNumber)) (\<lambda>v16.
     field ''CurrentStatusAndFile-TotalNumberOfTracks'' (ReadRaw go_uint16 (Some fieldSpec_CurrentStatusAndFile_TotalNumberOfTracks)) (\<lambda>v17.
     returnE \<lparr>CurrentStatusAndFile_Info = info,
       CurrentStatusAndFile_Zone = ucast v1,
       CurrentStatusAndFile_Source = ucast v2,
       CurrentStatusAndFile_Number = map_option of_int v3,
       CurrentStatusAndFile_ID = map_option of_int v4,
       CurrentStatusAndFile_PlayStatus = ucast v5,
       CurrentStatusAndFile_ElapsedTrackTime = map_option of_int v6,
       CurrentStatusAndFile_TrackTime = map_option of_int v7,
       CurrentStatusAndFile_RepeatStatus = ucast v8,
       CurrentStatusAndFile_ShuffleStatus = ucast v9,
       CurrentStatusAndFile_SaveFavoriteNumber = map_option of_int v10,
       CurrentStatusAndFile_PlayFavoriteNumber = map_option of_int v11,
       CurrentStatusAndFile_ThumbsUpDown = ucast v12,
       CurrentStatusAndFile_SignalStrength = map_option of_int v13,
       CurrentStatusAndFile_RadioFrequency = v14,
       CurrentStatusAndFile_HdFrequencyMulticast = map_option of_int v15,
       CurrentStatusAndFile_DeleteFavoriteNumber = map_option of_int v16,
       CurrentStatusAndFile_TotalNumberOfTracks = map_option of_int v17\<rparr>)))))))))))))))))"

definition EncodeCurrentStatusAndFile :: "(rat \<Rightarrow> u64) \<Rightarrow> gotime \<Rightarrow> CurrentStatusAndFile \<Rightarrow> (DataStream, MessageInfo) step" where
  "EncodeCurrentStatusAndFile hw now p =
     seqE (putNumberRaw (ucast (CurrentStatusAndFile_Zone p)) 8 0) (\<lambda>_.
     seqE (putNumberRaw (ucast (CurrentStatusAndFile_Source p)) 8 8) (\<lambda>_.
     seqE (WriteRaw (map_option uint (CurrentStatusAndFile_Number p)) (Some fieldSpec_CurrentStatusAndFile_Number)) (\<lambda>_.
     seqE (WriteRaw (map_option uint (CurrentStatusAndFile_ID p)) (Some fieldSpec_CurrentStatusAndFile_ID)) (\<lambda>_.
     seqE (putNumberRaw (ucast (CurrentStatusAndFile_PlayStatus p)) 8 56) (\<lambda>_.
     seqE (WriteRaw (map_option uint (CurrentStatusAndFile_ElapsedTrackTime p)) (Some fieldSpec_CurrentStatusAndFile_ElapsedTrackTime)) (\<lambda>_.
     seqE (WriteRaw (map_option uint (CurrentStatusAndFile_TrackTime p)) (Some fieldSpec_CurrentStatusAndFile_TrackTime)) (\<lambda>_.
     seqE (putNumberRaw (ucast (CurrentStatusAndFile_RepeatStatus p)) 4 96) (\<lambda>_.
     seqE (putNumberRaw (ucast (CurrentStatusAndFile_ShuffleStatus p)) 4 100) (\<lambda>_.
     seqE (WriteRaw (map_option uint (CurrentStatusAndFile_SaveFavoriteNumber p)) (Some fieldSpec_CurrentStatusAndFile_SaveFavoriteNumber)) (\<lambda>_.
     seqE (WriteRaw (map_option uint (CurrentStatusAndFile_PlayFavoriteNumber p)) (Some fieldSpec_CurrentStatusAndFile_PlayFavoriteNumber)) (\<lambda>_.
     seqE (putNumberRaw (ucast (CurrentStatusAndFile_ThumbsUpDown p)) 8 128) (\<lambda>_.
     seqE (WriteRaw (map_option uint (CurrentStatusAndFile_SignalStrength p)) (Some fieldSpec_CurrentStatusAndFile_SignalStrength)) (\<lambda>_.
     seqE (WriteScaled hw (CurrentStatusAndFile_RadioFrequency p) (Some fieldSpec_CurrentStatusAndFile_RadioFrequency)) (\<lambda>_.
     seqE (WriteRaw (map_option uint (CurrentStatusAndFile_HdFrequencyMulticast p)) (Some fieldSpec_CurrentStatusAndFile_HdFrequencyMulticast)) (\<lambda>_.
     seqE (WriteRaw (map_option uint (CurrentStatusAndFile_DeleteFavoriteNumber p)) (Some fieldSpec_CurrentStatusAndFile_DeleteFavoriteNumber)) (\<lambda>_.
     seqE (WriteRaw (map_option uint (CurrentStatusAndFile_TotalNumberOfTracks p)) (Some fieldSpec_CurrentStatusAndFile_TotalNumberOfTracks)) (\<lambda>_.
     returnE (finish_info now 130569 (CurrentStatusAndFile_Info p)))))))))))))))))))"

definition CurrentStatusAndFile_received :: "(rat \<Rightarrow> u64) \<Rightarrow> MessageInfo \<Rightarrow> CurrentStatusAndFile \<Rightarrow> CurrentStatusAndFile" where
  "CurrentStatusAndFile_received hw info p = \<lparr>CurrentStatusAndFile_Info = info,
     CurrentStatusAndFile_Zone = take_bit 8 (CurrentStatusAndFile_Zone p),
     CurrentStatusAndFile_Source = take_bit 8 (CurrentStatusAndFile_Source p),
     CurrentStatusAndFile_Number = pin fieldSpec_CurrentStatusAndFile_Number (CurrentStatusAndFile_Number p),
     CurrentStatusAndFile_ID = pin fieldSpec_CurrentStatusAndFile_ID (CurrentStatusAndFile_ID p),
     CurrentStatusAndFile_PlayStatus = take_bit 8 (CurrentStatusAndFile_PlayStatus p),
     CurrentStatusAndFile_ElapsedTrackTime = pin fieldSpec_CurrentStatusAndFile_ElapsedTrackTime (CurrentStatusAndFile_ElapsedTrackTime p),
     CurrentStatusAndFile_TrackTime = pin fieldSpec_CurrentStatusAndFile_TrackTime (CurrentStatusAndFile_TrackTime p),
     CurrentStatusAndFile_RepeatStatus = take_bit 4 (CurrentStatusAndFile_RepeatStatus p),
     CurrentStatusAndFile_ShuffleStatus = take_bit 4 (CurrentStatusAndFile_ShuffleStatus p),
     CurrentStatusAndFile_SaveFavoriteNumber = pin fieldSpec_CurrentStatusAndFile_SaveFavoriteNumber (CurrentStatusAndFile_SaveFavoriteNumber p),
     CurrentStatusAndFile_PlayFavoriteNumber = pin fieldSpec_CurrentStatusAndFile_PlayFavoriteNumber (CurrentStatusAndFile_PlayFavoriteNumber p),
     CurrentStatusAndFile_ThumbsUpDown = take_bit 8 (CurrentStatusAndFile_ThumbsUpDown p),
     CurrentStatusAndFile_SignalStrength = pin fieldSpec_CurrentStatusAndFile_SignalStrength (CurrentStatusAndFile_SignalStrength p),
     CurrentStatusAndFile_RadioFrequency = map_option (scaled_back hw 24 fieldSpec_CurrentStatusAndFile_RadioFrequency) (CurrentStatusAndFile_RadioFrequency p),
     CurrentStatusAndFile_HdFrequencyMulticast = pin fieldSpec_CurrentStatusAndFile_HdFrequencyMulticast (CurrentStatusAndFile_HdFrequencyMulticast p),
     CurrentStatusAndFile_DeleteFavoriteNumber = pin fieldSpec_CurrentStatusAndFile_DeleteFavoriteNumber (CurrentStatusAndFile_DeleteFavoriteNumber p),
     CurrentStatusAndFile_TotalNumberOfTracks = pin fieldSpec_CurrentStatusAndFile_TotalNumberOfTracks (CurrentStatusAndFile_TotalNumberOfTracks p)\<rparr>"

lemma CurrentStatusAndFile_codec: "codec (EncodeCurrentStatusAndFile hw) DecodeCurrentStatusAndFile CurrentStatusAndFile_Info 130569 26
    (\<lambda>_. True) (CurrentStatusAndFile_received hw)"
  unfolding EncodeCurrentStatusAndFile_def DecodeCurrentStatusAndFile_def CurrentStatusAndFile_received_def
  by (rule codec.intro, rule carries_cong, (rule codec_steps carries_end
      | simp add: codec_facts pin_read lookup_read lookup_read_1 unit_read fieldSpec_CurrentStatusAndFile_Number_def fieldSpec_CurrentStatusAndFile_ID_def fieldSpec_CurrentStatusAndFile_ElapsedTrackTime_def fieldSpec_CurrentStatusAndFile_TrackTime_def fieldSpec_CurrentStatusAndFile_SaveFavoriteNumber_def fieldSpec_CurrentStatusAndFile_PlayFavoriteNumber_def fieldSpec_CurrentStatusAndFile_SignalStrength_def fieldSpec_CurrentStatusAndFile_RadioFrequency_def fieldSpec_CurrentStatusAndFile_HdFrequencyMulticast_def fieldSpec_CurrentStatusAndFile_DeleteFavoriteNumber_def fieldSpec_CurrentStatusAndFile_TotalNumberOfTracks_def)+)

subsection \<open>SystemConfiguration\<close>

definition fieldSpec_SystemConfiguration_MaxFavorites :: FieldSpec where
  "fieldSpec_SystemConfiguration_MaxFavorites = unsigned_spec 8 8 0xFD 0xFF 2"

record SystemConfiguration =
  SystemConfiguration_Info :: MessageInfo
  SystemConfiguration_Power :: u8
  SystemConfiguration_DefaultSettings :: u8
  SystemConfiguration_TunerRegions :: u8
  SystemConfiguration_MaxFavorites :: "u8 option"
  SystemConfiguration_VideoProtocols :: u8

definition DecodeSystemConfiguration :: "MessageInfo \<Rightarrow> (DataStream, SystemConfiguration) step" where
  "DecodeSystemConfiguration info =
     field ''SystemConfiguration-Power'' (readLookupField 2) (\<lambda>v1.
     field ''SystemConfiguration-DefaultSettings'' (readLookupField 2) (\<lambda>v2.
     field ''SystemConfiguration-TunerRegions'' (readLookupField 4) (\<lambda>v3.
     field ''SystemConfiguration-MaxFavorites'' (ReadRaw go_uint8 (Some fieldSpec_SystemConfiguration_MaxFavorites)) (\<lambda>v4.
     field ''SystemConfiguration-VideoProtocols'' (readLookupField 4) (\<lambda>v5.
     skip 44 (
     returnE \<lparr>SystemConfiguration_Info = info,
       SystemConfiguration_Power = ucast v1,
       SystemConfiguration_DefaultSettings = ucast v2,
       SystemConfiguration_TunerRegions = ucast v3,
       SystemConfiguration_MaxFavorites = map_option of_int v4,
       SystemConfiguration_VideoProtocols = ucast v5\<rparr>))))))"

definition EncodeSystemConfiguration :: "gotime \<Rightarrow> SystemConfiguration \<Rightarrow> (DataStream, MessageInfo) step" where
  "EncodeSystemConfiguration now p =
     seqE (putNumberRaw (ucast (SystemConfiguration_Power p)) 2 0) (\<lambda>_.
     seqE (putNumberRaw (ucast (SystemConfiguration_DefaultSettings p)) 2 2) (\<lambda>_.
     seqE (putNumberRaw (ucast (SystemConfiguration_TunerRegions p)) 4 4) (\<lambda>_.
     seqE (WriteRaw (map_option uint (SystemConfiguration_MaxFavorites p)) (Some fieldSpec_SystemConfiguration_MaxFavorites)) (\<lambda>_.
     seqE (putNumberRaw (ucast (SystemConfiguration_VideoProtocols p)) 4 16) (\<lambda>_.
     seqE (writeReserved 44 20) (\<lambda>_.
     returnE (finish_info now 130579 (SystemConfiguration_Info p))))))))"

definition SystemConfiguration_received :: "MessageInfo \<Rightarrow> SystemConfiguration \<Rightarrow> SystemConfiguration" where
  "SystemConfiguration_received info p = \<lparr>SystemConfiguration_Info = info,
     SystemConfiguration_Power = take_bit 2 (SystemConfiguration_Power p),
     SystemConfiguration_DefaultSettings = take_bit 2 (SystemConfiguration_DefaultSettings p),
     SystemConfiguration_TunerRegions = take_bit 4 (SystemConfiguration_TunerRegions p),
     SystemConfiguration_MaxFavorites = pin fieldSpec_SystemConfiguration_MaxFavorites (SystemConfiguration_MaxFavorites p),
     SystemConfiguration_VideoProtocols = take_bit 4 (SystemConfiguration_VideoProtocols p)\<rparr>"

lemma SystemConfiguration_codec: "codec EncodeSystemConfiguration DecodeSystemConfiguration SystemConfiguration_Info 130579 8
    (\<lambda>_. True) SystemConfiguration_received"
  unfolding EncodeSystemConfiguration_def DecodeSystemConfiguration_def SystemConfiguration_received_def
  by (rule codec.intro, rule carries_cong, (rule codec_steps carries_end
      | simp add: codec_facts pin_read lookup_read lookup_read_1 unit_read fieldSpec_SystemConfiguration_MaxFavorites_def)+)

subsection \<open>SystemConfigurationDeprecated\<close>

definition fieldSpec_SystemConfigurationDeprecated_MaxFavorites :: FieldSpec where
  "fieldSpec_SystemConfigurationDeprecated_MaxFavorites = unsigned_spec 8 8 0xFD 0xFF 2"

record SystemConfigurationDeprecated =
  SystemConfigurationDeprecated_Info :: MessageInfo
  SystemConfigurationDeprecated_Power :: u8
  SystemConfigurationDeprecated_DefaultSettings :: u8
  SystemConfigurationDeprecated_TunerRegions :: u8
  SystemConfigurationDeprecated_MaxFavorites :: "u8 option"

definition DecodeSystemConfigurationDeprecated :: "MessageInfo \<Rightarrow> (DataStream, SystemConfigurationDeprecated) step" where
  "DecodeSystemConfigurationDeprecated info =
     field ''SystemConfigurationDeprecated-Power'' (readLookupField 2) (\<lambda>v1.
     field ''SystemConfigurationDeprecated-DefaultSettings'' (readLookupField 2) (\<lambda>v2.
     field ''SystemConfigurationDeprecated-TunerRegions'' (readLookupField 4) (\<lambda>v3.
     field ''SystemConfigurationDeprecated-MaxFavorites'' (ReadRaw go_uint8 (Some fieldSpec_SystemConfigurationDeprecated_MaxFavorites)) (\<lambda>v4.
     returnE \<lparr>SystemConfigurationDeprecated_Info = info,
       SystemConfigurationDeprecated_Power = ucast v1,
       SystemConfigurationDeprecated_DefaultSettings = ucast v2,
       SystemConfigurationDeprecated_TunerRegions = ucast v3,
       SystemConfigurationDeprecated_MaxFavorites = map_option of_int v4\<rparr>))))"

definition EncodeSystemConfigurationDeprecated :: "gotime \<Rightarrow> SystemConfigurationDeprecated \<Rightarrow> (DataStream, MessageInfo) step" where
  "EncodeSystemConfigurationDeprecated now p =
     seqE (putNumberRaw (ucast (SystemConfigurationDeprecated_Power p)) 2 0) (\<lambda>_.
     seqE (putNumberRaw (ucast (SystemConfigurationDeprecated_DefaultSettings p)) 2 2) (\<lambda>_.
     seqE (putNumberRaw (ucast (SystemConfigurationDeprecated_TunerRegions p)) 4 4) (\<lambda>_.
     seqE (WriteRaw (map_option uint (SystemConfigurationDeprecated_MaxFavorites p)) (Some fieldSpec_SystemConfigurationDeprecated_MaxFavorites)) (\<lambda>_.
     returnE (finish_info now 130580 (SystemConfigurationDeprecated_Info p))))))"

definition SystemConfigurationDeprecated_received :: "MessageInfo \<Rightarrow> SystemConfigurationDeprecated \<Rightarrow> SystemConfigurationDeprecated" where
  "SystemConfigurationDeprecated_received info p = \<lparr>SystemConfigurationDeprecated_Info = info,
     SystemConfigurationDeprecated_Power = take_bit 2 (SystemConfigurationDeprecated_Power p),
     SystemConfigurationDeprecated_DefaultSettings = take_bit 2 (SystemConfigurationDeprecated_DefaultSettings p),
     SystemConfigurationDeprecated_TunerRegions = take_bit 4 (SystemConfigurationDeprecated_TunerRegions p),
     SystemConfigurationDeprecated_MaxFavorites = pin fieldSpec_SystemConfigurationDeprecated_MaxFavorites (SystemConfigurationDeprecated_MaxFavorites p)\<rparr>"

lemma SystemConfigurationDeprecated_codec: "codec EncodeSystemConfigurationDeprecated DecodeSystemConfigurationDeprecated SystemConfigurationDeprecated_Info 130580 2
    (\<lambda>_. True) SystemConfigurationDeprecated_received"
  unfolding EncodeSystemConfigurationDeprecated_def DecodeSystemConfigurationDeprecated_def SystemConfigurationDeprecated_received_def
  by (rule codec.intro, rule carries_cong, (rule codec_steps carries_end
      | simp add: codec_facts pin_read lookup_read lookup_read_1 unit_read fieldSpec_SystemConfigurationDeprecated_MaxFavorites_def)+)

subsection \<open>ZoneVolume\<close>

definition fieldSpec_ZoneVolume_Volume :: FieldSpec where
  "fieldSpec_ZoneVolume_Volume = unsigned_spec 8 8 0xFD 0xFF 2"

record ZoneVolume =
  ZoneVolume_Info :: MessageInfo
  ZoneVolume_ZoneID :: u8
  ZoneVolume_Volume :: "u8 option"
  ZoneVolume_VolumeChange :: u8
  ZoneVolume_Mute :: u8
  ZoneVolume_Channel :: u8

definition DecodeZoneVolume :: "MessageInfo \<Rightarrow> (DataStream, ZoneVolume) step" where
  "DecodeZoneVolume info =
     field ''ZoneVolume-ZoneID'' (readLookupField 8) (\<lambda>v1.
     field ''ZoneVolume-Volume'' (ReadRaw go_uint8 (Some fieldSpec_ZoneVolume_Volume)) (\<lambda>v2.
     field ''ZoneVolume-VolumeChange'' (readLookupField 2) (\<lambda>v3.
     field ''ZoneVolume-Mute'' (readLookupField 2) (\<lambda>v4.
     skip 4 (
     field ''ZoneVolume-Channel'' (readLookupField 8) (\<lambda>v6.
     skip 32 (
     returnE \<lparr>ZoneVolume_Info = info,
       ZoneVolume_ZoneID = ucast v1,
       ZoneVolume_Volume = map_option of_int v2,
       ZoneVolume_VolumeChange = ucast v3,
       ZoneVolume_Mute = ucast v4,
       ZoneVolume_Channel = ucast v6\<rparr>)))))))"

definition EncodeZoneVolume :: "gotime \<Rightarrow> ZoneVolume \<Rightarrow> (DataStream, MessageInfo) step" where
  "EncodeZoneVolume now p =
     seqE (putNumberRaw (ucast (ZoneVolume_ZoneID p)) 8 0) (\<lambda>_.
     seqE (WriteRaw (map_option uint (ZoneVolume_Volume p)) (Some fieldSpec_ZoneVolume_Volume)) (\<lambda>_.
     seqE (putNumberRaw (ucast (ZoneVolume_VolumeChange p)) 2 16) (\<lambda>_.
     seqE (putNumberRaw (ucast (ZoneVolume_Mute p)) 2 18) (\<lambda>_.
     seqE (writeReserved 4 20) (\<lambda>_.
     seqE (putNumberRaw (ucast (ZoneVolume_Channel p)) 8 24) (\<lambda>_.
     seqE (writeReserved 32 32) (\<lambda>_.
     returnE (finish_info now 130582 (ZoneVolume_Info p)))))))))"

definition ZoneVolume_received :: "MessageInfo \<Rightarrow> ZoneVolume \<Rightarrow> ZoneVolume" where
  "ZoneVolume_received info p = \<lparr>ZoneVolume_Info = info,
     ZoneVolume_ZoneID = take_bit 8 (ZoneVolume_ZoneID p),
     ZoneVolume_Volume = pin fieldSpec_ZoneVolume_Volume (ZoneVolume_Volume p),
     ZoneVolume_VolumeChange = take_bit 2 (ZoneVolume_VolumeChange p),
     ZoneVolume_Mute = take_bit 2 (ZoneVolume_Mute p),
     ZoneVolume_Channel = take_bit 8 (ZoneVolume_Channel p)\<rparr>"

lemma ZoneVolume_codec: "codec EncodeZoneVolume DecodeZoneVolume ZoneVolume_Info 130582 8
    (\<lambda>_. True) ZoneVolume_received"
  unfolding EncodeZoneVolume_def DecodeZoneVolume_def ZoneVolume_received_def
  by (rule codec.intro, rule carries_cong, (rule codec_steps carries_end
      | simp add: codec_facts pin_read lookup_read lookup_read_1 unit_read fieldSpec_ZoneVolume_Volume_def)+)

subsection \<open>BluetoothSourceStatus\<close>

definition fieldSpec_BluetoothSourceStatus_SourceNumber :: FieldSpec where
  "fieldSpec_BluetoothSourceStatus_SourceNumber = unsigned_spec 8 0 0xFD 0xFF 2"

record BluetoothSourceStatus =
  BluetoothSourceStatus_Info :: MessageInfo
  BluetoothSourceStatus_SourceNumber :: "u8 option"
  BluetoothSourceStatus_Status :: u8
  BluetoothSourceStatus_ForgetDevice :: u8
  BluetoothSourceStatus_Discovering :: u8
  BluetoothSourceStatus_BluetoothAddress :: bytes

definition DecodeBluetoothSourceStatus :: "MessageInfo \<Rightarrow> (DataStream, BluetoothSourceStatus) step" where
  "DecodeBluetoothSourceStatus info =
     field ''BluetoothSourceStatus-SourceNumber'' (ReadRaw go_uint8 (Some fieldSpec_BluetoothSourceStatus_SourceNumber)) (\<lambda>v1.
     field ''BluetoothSourceStatus-Status'' (readLookupField 4) (\<lambda>v2.
     field ''BluetoothSourceStatus-ForgetDevice'' (readLookupField 2) (\<lambda>v3.
     field ''BluetoothSourceStatus-Discovering'' (readLookupField 2) (\<lambda>v4.
     field ''BluetoothSourceStatus-BluetoothAddress'' (readBinaryData 48) (\<lambda>v5.
     returnE \<lparr>BluetoothSourceStatus_Info = info,
       BluetoothSourceStatus_SourceNumber = map_option of_int v1,
       BluetoothSourceStatus_Status = ucast v2,
       BluetoothSourceStatus_ForgetDevice = ucast v3,
       BluetoothSourceStatus_Discovering = ucast v4,
       BluetoothSourceStatus_BluetoothAddress = v5\<rparr>)))))"

definition EncodeBluetoothSourceStatus :: "gotime \<Rightarrow> BluetoothSourceStatus \<Rightarrow> (DataStream, MessageInfo) step" where
  "EncodeBluetoothSourceStatus now p =
     seqE (WriteRaw (map_option uint (BluetoothSourceStatus_SourceNumber p)) (Some fieldSpec_BluetoothSourceStatus_SourceNumber)) (\<lambda>_.
     seqE (putNumberRaw (ucast (BluetoothSourceStatus_Status p)) 4 8) (\<lambda>_.
     seqE (putNumberRaw (ucast (BluetoothSourceStatus_ForgetDevice p)) 2 12) (\<lambda>_.
     seqE (putNumberRaw (ucast (BluetoothSourceStatus_Discovering p)) 2 14) (\<lambda>_.
     seqE (writeBinary (BluetoothSourceStatus_BluetoothAddress p) 48 16) (\<lambda>_.
     returnE (finish_info now 130585 (BluetoothSourceStatus_Info p)))))))"

definition BluetoothSourceStatus_received :: "MessageInfo \<Rightarrow> BluetoothSourceStatus \<Rightarrow> BluetoothSourceStatus" where
  "BluetoothSourceStatus_received info p = \<lparr>BluetoothSourceStatus_Info = info,
     BluetoothSourceStatus_SourceNumber = pin fieldSpec_BluetoothSourceStatus_SourceNumber (BluetoothSourceStatus_SourceNumber p),
     BluetoothSourceStatus_Status = take_bit 4 (BluetoothSourceStatus_Status p),
     BluetoothSourceStatus_ForgetDevice = take_bit 2 (BluetoothSourceStatus_ForgetDevice p),
     BluetoothSourceStatus_Discovering = take_bit 2 (BluetoothSourceStatus_Discovering p),
     BluetoothSourceStatus_BluetoothAddress = take 6 (BluetoothSourceStatus_BluetoothAddress p @ replicate 6 0)\<rparr>"

lemma BluetoothSourceStatus_codec: "codec EncodeBluetoothSourceStatus DecodeBluetoothSourceStatus BluetoothSourceStatus_Info 130585 8
    (\<lambda>p. length (BluetoothSourceStatus_BluetoothAddress p) < 65000) BluetoothSourceStatus_received"
  unfolding EncodeBluetoothSourceStatus_def DecodeBluetoothSourceStatus_def BluetoothSourceStatus_received_def
  by (rule codec.intro, rule carries_cong, (rule codec_steps carries_end
      | simp add: codec_facts pin_read lookup_read lookup_read_1 unit_read fieldSpec_BluetoothSourceStatus_SourceNumber_def)+)

subsection \<open>ZoneConfiguration\<close>

definition fieldSpec_ZoneConfiguration_VolumeLimit :: FieldSpec where
  "fieldSpec_ZoneConfiguration_VolumeLimit = unsigned_spec 8 8 0xFD 0xFF 2"

definition fieldSpec_ZoneConfiguration_Fade :: FieldSpec where
  "fieldSpec_ZoneConfiguration_Fade = signed_spec 8 16 0x7D 0x7F 2"

definition fieldSpec_ZoneConfiguration_Balance :: FieldSpec where
  "fieldSpec_ZoneConfiguration_Balance = signed_spec 8 24 0x7D 0x7F 2"

definition fieldSpec_ZoneConfiguration_SubVolume :: FieldSpec where
  "fieldSpec_ZoneConfiguration_SubVolume = unsigned_spec 8 32 0xFD 0xFF 2"

definition fieldSpec_ZoneConfiguration_EQTreble :: FieldSpec where
  "fieldSpec_ZoneConfiguration_EQTreble = signed_spec 8 40 0x7D 0x7F 2"

definition fieldSpec_ZoneConfiguration_EQMidRange :: FieldSpec where
  "fieldSpec_ZoneConfiguration_EQMidRange = signed_spec 8 48 0x7D 0x7F 2"

definition fieldSpec_ZoneConfiguration_EQBass :: FieldSpec where
  "fieldSpec_ZoneConfiguration_EQBass = signed_spec 8 56 0x7D 0x7F 2"

definition fieldSpec_ZoneConfiguration_HighPassFilterFrequency :: FieldSpec where
  "fieldSpec_ZoneConfiguration_HighPassFilterFrequency = unsigned_spec 16 80 0xFFFD 0xFFFF 2"

definition fieldSpec_ZoneConfiguration_LowPassFilterFrequency :: FieldSpec where
  "fieldSpec_ZoneConfiguration_LowPassFilterFrequency = unsigned_spec 16 96 0xFFFD 0xFFFF 2"

record ZoneConfiguration =
  ZoneConfiguration_Info :: MessageInfo
  ZoneConfiguration_ZoneID :: u8
  ZoneConfiguration_VolumeLimit :: "u8 option"
  ZoneConfiguration_Fade :: "8 word option"
  ZoneConfiguration_Balance :: "8 word option"
  ZoneConfiguration_SubVolume :: "u8 option"
  ZoneConfiguration_EQTreble :: "8 word option"
  ZoneConfiguration_EQMidRange :: "8 word option"
  ZoneConfiguration_EQBass :: "8 word option"
  ZoneConfiguration_PresetType :: u8
  ZoneConfiguration_AudioFilter :: u8
  ZoneConfiguration_HighPassFilterFrequency :: "u16 option"
  ZoneConfiguration_LowPassFilterFrequency :: "u16 option"
  ZoneConfiguration_Channel :: u8

definition DecodeZoneConfiguration :: "MessageInfo \<Rightarrow> (DataStream, ZoneConfiguration) step" where
  "DecodeZoneConfiguration info =
     field ''ZoneConfiguration-ZoneID'' (readLookupField 8) (\<lambda>v1.
     field ''ZoneConfiguration-VolumeLimit'' (ReadRaw go_uint8 (Some fieldSpec_ZoneConfiguration_VolumeLimit)) (\<lambda>v2.
     field ''ZoneConfiguration-Fade'' (ReadRaw go_int8 (Some fieldSpec_ZoneConfiguration_Fade)) (\<lambda>v3.
     field ''ZoneConfiguration-Balance'' (ReadRaw go_int8 (Some fieldSpec_ZoneConfiguration_Balance)) (\<lambda>v4.
     field ''ZoneConfiguration-SubVolume'' (ReadRaw go_uint8 (Some fieldSpec_ZoneConfiguration_SubVolume)) (\<lambda>v5.
     field ''ZoneConfiguration-EQTreble'' (ReadRaw go_int8 (Some fieldSpec_ZoneConfiguration_EQTreble)) (\<lambda>v6.
     field ''ZoneConfiguration-EQMidRange'' (ReadRaw go_int8 (Some fieldSpec_ZoneConfiguration_EQMidRange)) (\<lambda>v7.
     field ''ZoneConfiguration-EQBass'' (ReadRaw go_int8 (Some fieldSpec_ZoneConfiguration_EQBass)) (\<lambda>v8.
     field ''ZoneConfiguration-PresetType'' (readLookupField 8) (\<lambda>v9.
     field ''ZoneConfiguration-AudioFilter'' (readLookupField 8) (\<lambda>v10.
     field ''ZoneConfiguration-HighPassFilterFrequency'' (ReadRaw go_uint16 (Some fieldSpec_ZoneConfiguration_HighPassFilterFrequency)) (\<lambda>v11.
     field ''ZoneConfiguration-LowPassFilterFrequency'' (ReadRaw go_uint16 (Some fieldSpec_ZoneConfiguration_LowPassFilterFrequency)) (\<lambda>v12.
     field ''ZoneConfiguration-Channel'' (readLookupField 8) (\<lambda>v13.
     returnE \<lparr>ZoneConfiguration_Info = info,
       ZoneConfiguration_ZoneID = ucast v1,
       ZoneConfiguration_VolumeLimit = map_option of_int v2,
       ZoneConfiguration_Fade = map_option of_int v3,
       ZoneConfiguration_Balance = map_option of_int v4,
       ZoneConfiguration_SubVolume = map_option of_int v5,
       ZoneConfiguration_EQTreble = map_option of_int v6,
       ZoneConfiguration_EQMidRange = map_option of_int v7,
       ZoneConfiguration_EQBass = map_option of_int v8,
       ZoneConfiguration_PresetType = ucast v9,
       ZoneConfiguration_AudioFilter = ucast v10,
       ZoneConfiguration_HighPassFilterFrequency = map_option of_int v11,
       ZoneConfiguration_LowPassFilterFrequency = map_option of_int v12,
       ZoneConfiguration_Channel = ucast v13\<rparr>)))))))))))))"

definition EncodeZoneConfiguration :: "gotime \<Rightarrow> ZoneConfiguration \<Rightarrow> (DataStream, MessageInfo) step" where
  "EncodeZoneConfiguration now p =
     seqE (putNumberRaw (ucast (ZoneConfiguration_ZoneID p)) 8 0) (\<lambda>_.
     seqE (WriteRaw (map_option uint (ZoneConfiguration_VolumeLimit p)) (Some fieldSpec_ZoneConfiguration_VolumeLimit)) (\<lambda>_.
     seqE (WriteRaw (map_option sint (ZoneConfiguration_Fade p)) (Some fieldSpec_ZoneConfiguration_Fade)) (\<lambda>_.
     seqE (WriteRaw (map_option sint (ZoneConfiguration_Balance p)) (Some fieldSpec_ZoneConfiguration_Balance)) (\<lambda>_.
     seqE (WriteRaw (map_option uint (ZoneConfiguration_SubVolume p)) (Some fieldSpec_ZoneConfiguration_SubVolume)) (\<lambda>_.
     seqE (WriteRaw (map_option sint (ZoneConfiguration_EQTreble p)) (Some fieldSpec_ZoneConfiguration_EQTreble)) (\<lambda>_.
     seqE (WriteRaw (map_option sint (ZoneConfiguration_EQMidRange p)) (Some fieldSpec_ZoneConfiguration_EQMidRange)) (\<lambda>_.
     seqE (WriteRaw (map_option sint (ZoneConfiguration_EQBass p)) (Some fieldSpec_ZoneConfiguration_EQBass)) (\<lambda>_.
     seqE (putNumberRaw (ucast (ZoneConfiguration_PresetType p)) 8 64) (\<lambda>_.
     seqE (putNumberRaw (ucast (ZoneConfiguration_AudioFilter p)) 8 72) (\<lambda>_.
     seqE (WriteRaw (map_option uint (ZoneConfiguration_HighPassFilterFrequency p)) (Some fieldSpec_ZoneConfiguration_HighPassFilterFrequency)) (\<lambda>_.
     seqE (WriteRaw (map_option uint (ZoneConfiguration_LowPassFilterFrequency p)) (Some fieldSpec_ZoneConfiguration_LowPassFilterFrequency)) (\<lambda>_.
     seqE (putNumberRaw (ucast (ZoneConfiguration_Channel p)) 8 112) (\<lambda>_.
     returnE (finish_info now 130586 (ZoneConfiguration_Info p)))))))))))))))"

definition ZoneConfiguration_received :: "MessageInfo \<Rightarrow> ZoneConfiguration \<Rightarrow> ZoneConfiguration" where
  "ZoneConfiguration_received info p = \<lparr>ZoneConfiguration_Info = info,
     ZoneConfiguration_ZoneID = take_bit 8 (ZoneConfiguration_ZoneID p),
     ZoneConfiguration_VolumeLimit = pin fieldSpec_ZoneConfiguration_VolumeLimit (ZoneConfiguration_VolumeLimit p),
     ZoneConfiguration_Fade = pin_signed fieldSpec_ZoneConfiguration_Fade (ZoneConfiguration_Fade p),
     ZoneConfiguration_Balance = pin_signed fieldSpec_ZoneConfiguration_Balance (ZoneConfiguration_Balance p),
     ZoneConfiguration_SubVolume = pin fieldSpec_ZoneConfiguration_SubVolume (ZoneConfiguration_SubVolume p),
     ZoneConfiguration_EQTreble = pin_signed fieldSpec_ZoneConfiguration_EQTreble (ZoneConfiguration_EQTreble p),
     ZoneConfiguration_EQMidRange = pin_signed fieldSpec_ZoneConfiguration_EQMidRange (ZoneConfiguration_EQMidRange p),
     ZoneConfiguration_EQBass = pin_signed fieldSpec_ZoneConfiguration_EQBass (ZoneConfiguration_EQBass p),
     ZoneConfiguration_PresetType = take_bit 8 (ZoneConfiguration_PresetType p),
     ZoneConfiguration_AudioFilter = take_bit 8 (ZoneConfiguration_AudioFilter p),
     ZoneConfiguration_HighPassFilterFrequency = pin fieldSpec_ZoneConfiguration_HighPassFilterFrequency (ZoneConfiguration_HighPassFilterFrequency p),
     ZoneConfiguration_LowPassFilterFrequency = pin fieldSpec_ZoneConfiguration_LowPassFilterFrequency (ZoneConfiguration_LowPassFilterFrequency p),
     ZoneConfiguration_Channel = take_bit 8 (ZoneConfiguration_Channel p)\<rparr>"

lemma ZoneConfiguration_codec: "codec EncodeZoneConfiguration DecodeZoneConfiguration ZoneConfiguration_Info 130586 15
    (\<lambda>_. True) ZoneConfiguration_received"
  unfolding EncodeZoneConfiguration_def DecodeZoneConfiguration_def ZoneConfiguration_received_def
  by (rule codec.intro, rule carries_cong, (rule codec_steps carries_end
      | simp add: codec_facts pin_read lookup_read lookup_read_1 unit_read fieldSpec_ZoneConfiguration_VolumeLimit_def fieldSpec_ZoneConfiguration_Fade_def fieldSpec_ZoneConfiguration_Balance_def fieldSpec_ZoneConfiguration_SubVolume_def fieldSpec_ZoneConfiguration_EQTreble_def fieldSpec_ZoneConfiguration_EQMidRange_def fieldSpec_ZoneConfiguration_EQBass_def fieldSpec_ZoneConfiguration_HighPassFilterFrequency_def fieldSpec_ZoneConfiguration_LowPassFilterFrequency_def)+)

section \<open>Properties\<close>

interpretation wind: codec "EncodeWindData lib hw" "DecodeWindData lib" "WindData_Info" 130306 8 "\<lambda>_. True" "WindData_received lib hw"
  by (rule WindData_codec)


end
