(* ===== verification/Spec2Isabelle.thy ===== *)
theory Spec2Isabelle
  imports Fastmessage Canadapter Fieldgen Stringfields Nodeloop Service Lifeprogress Rawformat Fileendpoint
    Managementwire Pgnpower Pgnpropulsion Pgnnavigation Pgnradio Pgnenvironment
begin

text \<open>
  A verification library for \<open>boatkit-io/n2k\<close>, a Go library that reads and writes NMEA 2000
  traffic: CAN frames are assembled into packets, packets are decoded into messages (one struct
  per PGN), messages go to subscribers, and a node answers the standard requests, claims an
  address and keeps track of the other devices on the bus.

  Theories, from the wire up:
  \<^item> \<open>N2kPrelude\<close>: names of the Go types, the state-and-error combinator, facts on words.
  \<^item> \<open>Slots\<close>: the interface of stores under a composite key and of machines over them.
  \<^item> \<open>Canid\<close>, \<open>Rawformat\<close> (\<open>internal/converter/converter.go\<close>): the 29-bit CAN identifier; the text
    format of frames and the files that \<open>pkg/endpoint/rawendpoint\<close> writes and replays.
  \<^item> \<open>Fileendpoint\<close> (\<open>rawendpoint.go\<close>): the life of an endpoint that replays a file.
  \<^item> \<open>Pgntable\<close> (\<open>internal/pgn/pgn.go\<close>, \<open>fastbits_generated.go\<close>): which PGNs are fast.
  \<^item> \<open>Packets\<close> (\<open>internal/pkt/pkt.go\<close>): message headers and packets.
  \<^item> \<open>Fastpacket\<close>, \<open>Fastmessage\<close> (\<open>internal/adapter/canadapter/sequence.go\<close>,
    \<open>multibuilder.go\<close>): reassembly of fast packets, as it is written and its correctness.
  \<^item> \<open>Canadapter\<close> (\<open>canadapter.go\<close>): frames in, packets out, and the reverse.
  \<^item> \<open>Bitstream\<close> (\<open>internal/pgn/datastream.go\<close>, \<open>readdatastream.go\<close>, \<open>writedatastream.go\<close>): the
    cursor over the bits of a message and the two loops that move numbers over it.
  \<^item> \<open>Rawfields\<close>, \<open>Stringfields\<close>, \<open>Scaled\<close> (same files): integer fields, binary and text fields, and
    fields that are a float times a resolution; \<open>Gofloat\<close> is the rounding of floats.
  \<^item> \<open>Fieldgen\<close> (\<open>cmd/pgngen/main.go\<close>): the generator's computation of field specifications.
  \<^item> \<open>Codec\<close>: the form of the generated codecs (\<open>decoders_generated.go\<close>, \<open>encoders_generated.go\<close>), the
    contract of an encoder and its decoder, and \<open>Publisher.Write\<close> (\<open>write.go\<close>).
  \<^item> \<open>Pgnmanagement\<close>, \<open>Pgnpower\<close>, \<open>Pgnpropulsion\<close>, \<open>Pgnnavigation\<close>, \<open>Pgnradio\<close>, \<open>Pgnenvironment\<close>: the
    codecs themselves, with their structs and field specifications, by subject.
  \<^item> \<open>Dispatch\<close> (\<open>discriminators_generated.go\<close>, \<open>internal/pkt/packetstruct.go\<close>, \<open>unknownpgn.go\<close>): from a
    packet to its decoder and to the struct or the unknown PGN that is handed on.
  \<^item> \<open>Messages\<close> (\<open>pkg/pgn\<close>): the messages of a node.
  \<^item> \<open>Nodename\<close>, \<open>Devices\<close>, \<open>Node\<close>, \<open>Nodeloop\<close> (\<open>pkg/node/node.go\<close>): the 64-bit NAME; the tables of
    known devices; the node with its configuration, its answers and its address claims; the
    goroutine \<open>process\<close> as a step relation.
  \<^item> \<open>Managementwire\<close>: the messages of a node on the wire between two nodes, through encoder, adapter,
    frames, reassembly, the table of decoders and decoder.
  \<^item> \<open>Msgqueue\<close>, \<open>Metrics\<close>, \<open>Service\<close> (\<open>internal/n2kinternal\<close>): the queue of incoming frames, the
    counters, and the service that takes frames from the queue through adapter and dispatch.
  \<^item> \<open>Subscriptions\<close> (\<open>internal/subscribe/subscribe.go\<close>): who is called with which struct.
  \<^item> \<open>Lifecycle\<close>, \<open>Lifeprogress\<close> (\<open>internal/n2kinternal/n2kinternal.go\<close>): starting, stopping and
    replacing endpoints with the goroutines this involves, as a step relation; that they end.

  How the parts interact. An endpoint hands frames to \<open>N2kService.HandleMessage\<close>, which queues them;
  the processor goroutine takes them out, drops those that are too old, and calls
  \<open>CANAdapter.HandleMessage\<close>; a complete packet goes to \<open>PacketStruct.HandlePacket\<close>, which finds a
  decoder, and the struct goes to the subscribers, of which a node is one. A node writes structs with
  \<open>Publisher.Write\<close>, through the adapter to the endpoint. \<open>service_delivers\<close> composes the first
  path, \<open>adapters_deliver\<close> joins the two ends of a bus, and the theorems of \<open>Managementwire\<close> run the
  whole way from a node's configuration to what another node computes from its claim.

  What the lemmas show. A state has an invariant that every operation keeps (\<open>mb_inv\<close>, \<open>tables_ok\<close>,
  \<open>fe_ok\<close>, the invariants of the loop and of the lifecycle), and the properties of runs follow by
  induction over the reachable states. Optimised code (the two bit loops, reassembly, the compacting
  queue, the tables of subscriptions) refines a plain description: bits of a list, the message as it
  was sent, a list of elements, a list of subscriptions. Pairs that write and read are inverse on what the format
  can carry, and the theorems say what becomes of the rest: values are clamped, texts cut, floats
  rounded. Interfaces are locales: \<open>slot_store\<close> and its extensions for the maps of maps, \<open>whole_codec\<close>
  and \<open>codec\<close> for encoders and decoders, each interpreted on the definitions of the model.

  Conventions. Machine integers are words of their width and wrap. A step \<open>(s, a) step\<close> returns
  \<open>Some (Inl error, s)\<close>, \<open>Some (Inr value, s)\<close> or \<open>None\<close>, which is a panic of the Go code or a loop
  that does not end; that it does not happen is part of what is proved. Bytes are lists of words, text is a list of
  bytes, a dictionary is a map; times are integers, and what the clock, the order of a Go map or the
  random generator gives is an argument. Loops that read input are recursive functions over it; no
  function has fuel: the two loops without a bound in the code (\<open>calcPrecision\<close>, the repeated field of
  a list of PGNs) are partial functions that are proved to return. A float is the rational number it
  stands for, rounded after each operation.

  Not modelled, and why:
  \<^item> The codecs with match checks on constants, repeated groups of several fields, strings of variable
    length or integer fields with an offset: the operations they use are modelled and proved, the
    functions are generated in the same form. \<open>EncodeStruct\<close> is a type switch over all structs.
  \<^item> The other entries of the table of variants, which are data; \<open>Dispatch\<close> is proved for any table.
  \<^item> Infinite floats, NaN and denormals, and \<open>readFloat32\<close>, \<open>writeFloat32\<close>, which move the bits of a float.
  \<^item> The package \<open>units\<close>, which is not part of the repository, is the parameter \<open>lib\<close>; what a processor
    makes of a float out of range of an integer type is the parameter \<open>hw\<close>.
  \<^item> Sockets, serial devices and log files with their own formats (\<open>socketcanendpoint\<close>,
    \<open>usbcanendpoint\<close>, \<open>n2kfileendpoint\<close>): input and output with timing.
  \<^item> \<open>cmd/\<close>: command line tools, and of the generator all but the numbers of a field specification.
  \<^item> \<open>pkg/n2k\<close>, \<open>pkg/node/clock.go\<close>, \<open>pkg/node/service.go\<close>: wrappers without logic. Log output.
\<close>

end
